(* ===== verification/Prelude.thy ===== *)
theory Prelude
  imports Main "HOL-Library.Word"
begin

text \<open>
  What every component of the model shares: the machine types of the Rust source, its
  \<open>Result\<close> type with the \<open>?\<close> operator and \<open>collect::<Result<Vec<_>, _>>()\<close>, the checked
  integer operations of the standard library, the view of a Rust \<open>String\<close> as UTF-8 bytes,
  and decimal printing.  Generic lemmas are collected under \<open>result_simps\<close> (results),
  \<open>rust_int\<close> (integers) and \<open>decimal_simps\<close> (printing and reading numbers).
\<close>

unbundle bit_operations_syntax

named_theorems result_simps \<open>results, the ? operator and collecting iterators\<close>
named_theorems rust_int \<open>reading and checking fixed-width integers\<close>
named_theorems decimal_simps \<open>decimal digits\<close>

section \<open>Machine types\<close>

text \<open>
  Integers are words of the width the source declares.  A signed value is read with
  \<open>sint\<close>, an unsigned one with \<open>unat\<close>; \<open>usize\<close> is 64 bits wide.
\<close>

type_synonym u8 = "8 word"
type_synonym u16 = "16 word"
type_synonym u32 = "32 word"
type_synonym i32 = "32 word"
type_synonym u64 = "64 word"
type_synonym i64 = "64 word"
type_synonym bytes = "u8 list"

text \<open>A Rust \<open>String\<close> is its UTF-8 encoding; \<open>CHR\<close> literals are its ASCII bytes.\<close>

definition str_bytes :: "string \<Rightarrow> bytes" where
  "str_bytes s = map (\<lambda>c. of_nat (of_char c)) s"

definition bytes_str :: "bytes \<Rightarrow> string" where
  "bytes_str bs = map (\<lambda>b. char_of (unat b)) bs"

lemma byte_char_byte: "(of_nat (of_char (char_of (unat b) :: char)) :: u8) = b"
proof -
  have "unat b < 256" using unsigned_less [of b] by simp
  then have "of_char (char_of (unat b) :: char) = unat b" by simp
  then show ?thesis by simp
qed

lemma char_byte_char: "char_of (unat (of_nat (of_char c) :: u8)) = (c :: char)"
proof -
  have "(of_char c :: nat) < 256" by (cases c) simp
  then have "unat (of_nat (of_char c) :: u8) = of_char c"
    by (simp add: unat_of_nat)
  then show ?thesis by simp
qed

lemma bytes_str_inverse [simp]: "str_bytes (bytes_str bs) = bs"
  by (simp add: str_bytes_def bytes_str_def byte_char_byte comp_def del: of_char_of)

lemma str_bytes_inverse [simp]: "bytes_str (str_bytes s) = s"
  by (simp add: str_bytes_def bytes_str_def char_byte_char comp_def)

lemma str_bytes_length [simp]: "length (str_bytes s) = length s"
  by (simp add: str_bytes_def)

lemma str_bytes_inj: "str_bytes s = str_bytes t \<longleftrightarrow> s = t"
  by (metis str_bytes_inverse)

section \<open>Result\<close>

abbreviation Ok :: "'a \<Rightarrow> 'e + 'a" where
  "Ok \<equiv> Inr"

abbreviation Err :: "'e \<Rightarrow> 'e + 'a" where
  "Err \<equiv> Inl"

text \<open>The \<open>?\<close> operator: continue with the value, return early with the error.\<close>

definition and_then :: "'e + 'a \<Rightarrow> ('a \<Rightarrow> 'e + 'b) \<Rightarrow> 'e + 'b" where
  "and_then r f = (case r of Inl e \<Rightarrow> Inl e | Inr a \<Rightarrow> f a)"

definition map_err :: "('e \<Rightarrow> 'f) \<Rightarrow> 'e + 'a \<Rightarrow> 'f + 'a" where
  "map_err g r = (case r of Inl e \<Rightarrow> Inl (g e) | Inr a \<Rightarrow> Inr a)"

definition ok_or :: "'e \<Rightarrow> 'a option \<Rightarrow> 'e + 'a" where
  "ok_or e r = (case r of None \<Rightarrow> Inl e | Some a \<Rightarrow> Inr a)"

definition result_ok :: "'e + 'a \<Rightarrow> 'a option" where
  "result_ok r = (case r of Inl e \<Rightarrow> None | Inr a \<Rightarrow> Some a)"

definition is_ok :: "'e + 'a \<Rightarrow> bool" where
  "is_ok r = (case r of Inl e \<Rightarrow> False | Inr a \<Rightarrow> True)"

definition is_err :: "'e + 'a \<Rightarrow> bool" where
  "is_err r = (case r of Inl e \<Rightarrow> True | Inr a \<Rightarrow> False)"

text \<open>\<open>.map(f).collect::<Result<Vec<_>, _>>()\<close>: the first error wins.\<close>

fun collect_results :: "('a \<Rightarrow> 'e + 'b) \<Rightarrow> 'a list \<Rightarrow> 'e + 'b list" where
  "collect_results f [] = Inr []"
| "collect_results f (x # xs) =
     (case f x of Inl e \<Rightarrow> Inl e
      | Inr y \<Rightarrow> (case collect_results f xs of Inl e \<Rightarrow> Inl e | Inr ys \<Rightarrow> Inr (y # ys)))"

text \<open>\<open>.filter_map(|x| f(x).ok()).collect()\<close>: errors are dropped.\<close>

definition filter_ok :: "('a \<Rightarrow> 'e + 'b) \<Rightarrow> 'a list \<Rightarrow> 'b list" where
  "filter_ok f xs = List.map_filter (\<lambda>x. result_ok (f x)) xs"

lemma and_then_simps [simp, result_simps]:
  "and_then (Inl e) f = Inl e"
  "and_then (Inr a) f = f a"
  by (simp_all add: and_then_def)

lemma map_err_simps [simp, result_simps]:
  "map_err g (Inl e) = Inl (g e)"
  "map_err g (Inr a) = Inr a"
  by (simp_all add: map_err_def)

lemma ok_or_simps [simp, result_simps]:
  "ok_or e None = Inl e"
  "ok_or e (Some a) = Inr a"
  by (simp_all add: ok_or_def)

lemma result_ok_simps [simp, result_simps]:
  "result_ok (Inl e) = None"
  "result_ok (Inr a) = Some a"
  by (simp_all add: result_ok_def)

lemma is_ok_simps [simp, result_simps]:
  "\<not> is_ok (Inl e)" "is_ok (Inr a)" "is_err (Inl e)" "\<not> is_err (Inr a)"
  by (simp_all add: is_ok_def is_err_def)

lemma and_then_Inr_iff [result_simps]:
  "and_then r f = Inr b \<longleftrightarrow> (\<exists>a. r = Inr a \<and> f a = Inr b)"
  by (cases r) simp_all

lemma and_then_Inl_iff [result_simps]:
  "and_then r f = Inl e \<longleftrightarrow> r = Inl e \<or> (\<exists>a. r = Inr a \<and> f a = Inl e)"
  by (cases r) simp_all

lemma map_err_Inr_iff [result_simps]: "map_err g r = Inr a \<longleftrightarrow> r = Inr a"
  by (cases r) simp_all

lemma map_err_Inl_iff [result_simps]: "map_err g r = Inl f \<longleftrightarrow> (\<exists>e. r = Inl e \<and> f = g e)"
  by (cases r) auto

lemma ok_or_Inr_iff [result_simps]: "ok_or e r = Inr a \<longleftrightarrow> r = Some a"
  by (cases r) simp_all

lemma ok_or_Inl_iff [result_simps]: "ok_or e r = Inl f \<longleftrightarrow> r = None \<and> f = e"
  by (cases r) auto

lemma result_ok_Some_iff [result_simps]: "result_ok r = Some a \<longleftrightarrow> r = Inr a"
  by (cases r) simp_all

lemma filter_ok_simps [simp, result_simps]:
  "filter_ok f [] = []"
  "filter_ok f (x # xs) = (case f x of Inl e \<Rightarrow> filter_ok f xs | Inr y \<Rightarrow> y # filter_ok f xs)"
  by (simp_all add: filter_ok_def List.map_filter_def split: sum.splits)

lemma collect_results_list_all2:
  "collect_results f xs = Inr ys \<Longrightarrow> list_all2 (\<lambda>x y. f x = Inr y) xs ys"
  by (induction xs arbitrary: ys) (fastforce split: sum.splits)+

lemma list_all2_collect_results:
  "list_all2 (\<lambda>x y. f x = Inr y) xs ys \<Longrightarrow> collect_results f xs = Inr ys"
  by (induction rule: list_all2_induct) simp_all

lemma collect_results_Ok_iff:
  "collect_results f xs = Inr ys \<longleftrightarrow> list_all2 (\<lambda>x y. f x = Inr y) xs ys"
  by (blast intro: collect_results_list_all2 list_all2_collect_results)

lemma collect_results_Err: "collect_results f xs = Inl e \<Longrightarrow> \<exists>x\<in>set xs. f x = Inl e"
  by (induction xs) (auto split: sum.splits)

lemma collect_results_is_ok: "is_ok (collect_results f xs) \<longleftrightarrow> (\<forall>x\<in>set xs. is_ok (f x))"
  by (induction xs) (auto simp: is_ok_def split: sum.splits)

lemma collect_results_map_Ok: "(\<And>x. x \<in> set xs \<Longrightarrow> f x = Inr (g x)) \<Longrightarrow> collect_results f xs = Inr (map g xs)"
  by (induction xs) auto

lemma collect_results_length: "collect_results f xs = Inr ys \<Longrightarrow> length ys = length xs"
  by (auto simp: collect_results_Ok_iff dest: list_all2_lengthD)

lemma filter_ok_map_Ok: "(\<And>x. x \<in> set xs \<Longrightarrow> f x = Inr (g x)) \<Longrightarrow> filter_ok f xs = map g xs"
  by (induction xs) auto

lemma set_filter_ok: "set (filter_ok f xs) = {y. \<exists>x\<in>set xs. f x = Inr y}"
  by (induction xs) (auto split: sum.splits)

section \<open>Checked integers\<close>

definition i64_min :: int where "i64_min = - (2 ^ 63)"
definition i64_max :: int where "i64_max = 2 ^ 63 - 1"

text \<open>\<open>i64::checked_add\<close> and its kin: \<open>None\<close> when the exact result does not fit.\<close>

definition checked_add_i64 :: "i64 \<Rightarrow> i64 \<Rightarrow> i64 option" where
  "checked_add_i64 a b =
     (if i64_min \<le> sint a + sint b \<and> sint a + sint b \<le> i64_max then Some (a + b) else None)"

definition checked_sub_i64 :: "i64 \<Rightarrow> i64 \<Rightarrow> i64 option" where
  "checked_sub_i64 a b =
     (if i64_min \<le> sint a - sint b \<and> sint a - sint b \<le> i64_max then Some (a - b) else None)"

definition checked_add_u64 :: "u64 \<Rightarrow> u64 \<Rightarrow> u64 option" where
  "checked_add_u64 a b = (if unat a + unat b < 2 ^ 64 then Some (a + b) else None)"

definition checked_mul_u64 :: "u64 \<Rightarrow> u64 \<Rightarrow> u64 option" where
  "checked_mul_u64 a b = (if unat a * unat b < 2 ^ 64 then Some (a * b) else None)"

lemma sint_i64_bounds: "i64_min \<le> sint (a::i64)" "sint (a::i64) \<le> i64_max"
  using sint_greater_eq [of a] sint_less [of a] by (simp_all add: i64_min_def i64_max_def)

lemma sint_word_of_int_i64:
  assumes "i64_min \<le> k" and "k \<le> i64_max"
  shows "sint (word_of_int k :: i64) = k"
proof -
  have "signed_take_bit 63 k = k"
    using assms by (intro signed_take_bit_int_eq_self) (simp_all add: i64_min_def i64_max_def)
  then show ?thesis by (simp add: signed_of_int)
qed

lemma sint_eq_iff: "sint a = sint b \<longleftrightarrow> a = (b :: i64)"
  by (auto intro: signed_word_eqI)

lemma sint_add_i64:
  assumes "i64_min \<le> sint a + sint b" and "sint a + sint (b::i64) \<le> i64_max"
  shows "sint (a + b) = sint a + sint b"
proof -
  have "a + b = word_of_int (sint a + sint b)" by simp
  then show ?thesis using sint_word_of_int_i64 [OF assms] by simp
qed

lemma sint_sub_i64:
  assumes "i64_min \<le> sint a - sint b" and "sint a - sint (b::i64) \<le> i64_max"
  shows "sint (a - b) = sint a - sint b"
proof -
  have "a - b = word_of_int (sint a - sint b)" by simp
  then show ?thesis using sint_word_of_int_i64 [OF assms] by simp
qed

lemma checked_add_i64_Some [rust_int]:
  "checked_add_i64 a b = Some c \<longleftrightarrow> sint a + sint b = sint c"
proof
  assume "checked_add_i64 a b = Some c"
  then show "sint a + sint b = sint c"
    by (auto simp: checked_add_i64_def sint_add_i64 split: if_splits)
next
  assume *: "sint a + sint b = sint c"
  then have "i64_min \<le> sint a + sint b" "sint a + sint b \<le> i64_max"
    using sint_i64_bounds [of c] by simp_all
  moreover from this have "a + b = c"
    using * by (metis sint_add_i64 signed_word_eqI)
  ultimately show "checked_add_i64 a b = Some c" by (simp add: checked_add_i64_def)
qed

lemma checked_sub_i64_Some [rust_int]:
  "checked_sub_i64 a b = Some c \<longleftrightarrow> sint a - sint b = sint c"
proof
  assume "checked_sub_i64 a b = Some c"
  then show "sint a - sint b = sint c"
    by (auto simp: checked_sub_i64_def sint_sub_i64 split: if_splits)
next
  assume *: "sint a - sint b = sint c"
  then have "i64_min \<le> sint a - sint b" "sint a - sint b \<le> i64_max"
    using sint_i64_bounds [of c] by simp_all
  moreover from this have "a - b = c"
    using * by (metis sint_sub_i64 signed_word_eqI)
  ultimately show "checked_sub_i64 a b = Some c" by (simp add: checked_sub_i64_def)
qed

lemma unat_u8_less [simp]: "unat (a :: u8) < 256"
  using unsigned_less [of a] by simp

lemma unat_u64_less [simp]: "unat (a :: u64) < 18446744073709551616"
  using unsigned_less [of a] by simp

lemma unat_add_u64: "unat a + unat b < 2 ^ 64 \<Longrightarrow> unat (a + b :: u64) = unat a + unat b"
  by (simp add: unat_word_ariths)

lemma unat_mul_u64: "unat a * unat b < 2 ^ 64 \<Longrightarrow> unat (a * b :: u64) = unat a * unat b"
  by (simp add: unat_word_ariths)

lemma checked_add_u64_Some [rust_int]:
  "checked_add_u64 a b = Some c \<longleftrightarrow> unat a + unat b = unat c"
proof
  assume "checked_add_u64 a b = Some c"
  then show "unat a + unat b = unat c"
    by (auto simp: checked_add_u64_def unat_add_u64 split: if_splits)
next
  assume *: "unat a + unat b = unat c"
  then have "unat a + unat b < 2 ^ 64" using unsigned_less [of c] by simp
  with * show "checked_add_u64 a b = Some c"
    by (simp add: checked_add_u64_def) (metis * unat_add_u64 word_unat_eq_iff \<open>unat a + unat b < 2 ^ 64\<close>)
qed

lemma checked_mul_u64_Some [rust_int]:
  "checked_mul_u64 a b = Some c \<longleftrightarrow> unat a * unat b = unat c"
proof
  assume "checked_mul_u64 a b = Some c"
  then show "unat a * unat b = unat c"
    by (auto simp: checked_mul_u64_def unat_mul_u64 split: if_splits)
next
  assume *: "unat a * unat b = unat c"
  then have "unat a * unat b < 2 ^ 64" using unsigned_less [of c] by simp
  with * show "checked_mul_u64 a b = Some c"
    by (simp add: checked_mul_u64_def) (metis * unat_mul_u64 word_unat_eq_iff \<open>unat a * unat b < 2 ^ 64\<close>)
qed

lemma checked_add_u64_None [rust_int]:
  "checked_add_u64 a b = None \<longleftrightarrow> 2 ^ 64 \<le> unat a + unat b"
  by (auto simp: checked_add_u64_def)

lemma checked_mul_u64_None [rust_int]:
  "checked_mul_u64 a b = None \<longleftrightarrow> 2 ^ 64 \<le> unat a * unat b"
  by (auto simp: checked_mul_u64_def)

section \<open>Decimal printing\<close>

text \<open>\<open>u64::to_string\<close>: decimal digits, most significant first, no leading zero.\<close>

definition digit_char :: "nat \<Rightarrow> char" where
  "digit_char d = char_of (48 + d)"

fun show_nat :: "nat \<Rightarrow> string" where
  "show_nat n = (if n < 10 then [digit_char n] else show_nat (n div 10) @ [digit_char (n mod 10)])"

declare show_nat.simps [simp del]

text \<open>\<open>{:0w}\<close>: pad on the left with zeros up to a width.\<close>

definition pad_zeros :: "nat \<Rightarrow> string \<Rightarrow> string" where
  "pad_zeros w s = replicate (w - length s) (CHR ''0'') @ s"

text \<open>\<open>i64\<close> and \<open>i32\<close> print a sign before the magnitude.\<close>

definition show_int :: "int \<Rightarrow> string" where
  "show_int k = (if k < 0 then CHR ''-'' # show_nat (nat (- k)) else show_nat (nat k))"

definition is_digit :: "char \<Rightarrow> bool" where
  "is_digit c \<longleftrightarrow> 48 \<le> (of_char c :: nat) \<and> (of_char c :: nat) \<le> 57"

definition digit_val :: "char \<Rightarrow> nat" where
  "digit_val c = of_char c - 48"

definition digits_val :: "string \<Rightarrow> nat" where
  "digits_val s = foldl (\<lambda>v c. 10 * v + digit_val c) 0 s"

lemma of_char_digit_char [decimal_simps]: "d < 10 \<Longrightarrow> (of_char (digit_char d) :: nat) = 48 + d"
  by (simp add: digit_char_def)

lemma is_digit_digit_char [decimal_simps]: "d < 10 \<Longrightarrow> is_digit (digit_char d)"
  by (simp add: is_digit_def of_char_digit_char)

lemma digit_val_digit_char [decimal_simps]: "d < 10 \<Longrightarrow> digit_val (digit_char d) = d"
  by (simp add: digit_val_def of_char_digit_char)

lemma digits_val_Nil [decimal_simps]: "digits_val [] = 0"
  by (simp add: digits_val_def)

lemma digits_val_snoc [decimal_simps]: "digits_val (s @ [c]) = 10 * digits_val s + digit_val c"
  by (simp add: digits_val_def)

lemma digits_val_append [decimal_simps]:
  "digits_val (s @ t) = digits_val s * 10 ^ length t + digits_val t"
  by (induction t rule: rev_induct)
    (simp_all add: digits_val_Nil digits_val_snoc algebra_simps flip: append_assoc)

lemma show_nat_digits: "\<forall>c\<in>set (show_nat n). is_digit c"
  by (induction n rule: show_nat.induct) (subst show_nat.simps, auto simp: decimal_simps)

lemma show_nat_nonempty: "show_nat n \<noteq> []"
  by (subst show_nat.simps) simp

lemma digits_val_show_nat [decimal_simps]: "digits_val (show_nat n) = n"
proof (induction n rule: show_nat.induct)
  case (1 n)
  then show ?case
    using digits_val_snoc [of "[]"]
    by (subst show_nat.simps) (simp add: decimal_simps)
qed

lemma digits_val_zeros [decimal_simps]: "digits_val (replicate k (CHR ''0'')) = 0"
  by (induction k) (simp_all add: digits_val_Nil digits_val_snoc digit_val_def
      flip: replicate_append_same)

lemma digits_val_pad_zeros [decimal_simps]: "digits_val (pad_zeros w s) = digits_val s"
  by (simp add: pad_zeros_def digits_val_append digits_val_zeros)

lemma is_digit_zero [decimal_simps]: "is_digit (CHR ''0'')"
  by (simp add: is_digit_def)

lemma pad_zeros_digits: "\<forall>c\<in>set s. is_digit c \<Longrightarrow> \<forall>c\<in>set (pad_zeros w s). is_digit c"
  by (auto simp: pad_zeros_def is_digit_zero)

lemma pad_zeros_length: "length (pad_zeros w s) = max w (length s)"
  by (simp add: pad_zeros_def)

lemma show_nat_length: "0 < w \<Longrightarrow> n < 10 ^ w \<Longrightarrow> length (show_nat n) \<le> w"
proof (induction n arbitrary: w rule: show_nat.induct)
  case (1 n)
  show ?case
  proof (cases "n < 10")
    case True
    with "1.prems" show ?thesis by (subst show_nat.simps) simp
  next
    case False
    then have "w \<noteq> 1" using "1.prems" by auto
    then obtain v where v: "w = Suc v" "0 < v" using "1.prems" by (cases w) auto
    with "1.prems" have "n div 10 < 10 ^ v" by (simp add: less_mult_imp_div_less mult.commute)
    with "1.IH" False v have "length (show_nat (n div 10)) \<le> v" by simp
    with False v show ?thesis by (subst show_nat.simps) simp
  qed
qed

lemma digits_val_bound: "\<forall>c\<in>set s. is_digit c \<Longrightarrow> digits_val s < 10 ^ length s"
proof (induction s rule: rev_induct)
  case Nil
  then show ?case by (simp add: decimal_simps)
next
  case (snoc c s)
  then have "digits_val s < 10 ^ length s" and "digit_val c < 10"
    by (auto simp: is_digit_def digit_val_def)
  then show ?case by (simp add: digits_val_snoc)
qed

section \<open>Unchecked optional bytes\<close>

text \<open>
  A protobuf \<open>bytes\<close> field that was never set arrives empty; \<open>try_into::<[u8; N]>()\<close>
  accepts exactly \<open>N\<close> bytes.
\<close>

definition fixed_bytes :: "nat \<Rightarrow> bytes \<Rightarrow> bytes option" where
  "fixed_bytes n bs = (if length bs = n then Some bs else None)"

lemma fixed_bytes_Some_iff [simp]: "fixed_bytes n bs = Some r \<longleftrightarrow> r = bs \<and> length bs = n"
  by (auto simp: fixed_bytes_def)

lemma fixed_bytes_None_iff [simp]: "fixed_bytes n bs = None \<longleftrightarrow> length bs \<noteq> n"
  by (auto simp: fixed_bytes_def)

section \<open>Numbered enumerations\<close>

text \<open>
  The contract of every enumeration that travels as a protobuf number: reading the number of
  a variant gives the variant back, and only the number of a variant is read as that variant.
\<close>

locale discriminant_codec =
  fixes to_disc :: "'a \<Rightarrow> 'n"
    and of_disc :: "'n \<Rightarrow> 'a option"
  assumes of_to_disc: "of_disc (to_disc x) = Some x"
    and to_of_disc: "of_disc n = Some x \<Longrightarrow> to_disc x = n"
begin

lemma of_disc_Some_iff: "of_disc n = Some x \<longleftrightarrow> n = to_disc x"
  using of_to_disc to_of_disc by blast

lemma of_disc_None_iff: "of_disc n = None \<longleftrightarrow> (\<forall>x. to_disc x \<noteq> n)"
  by (metis not_Some_eq of_disc_Some_iff)

lemma to_disc_eq_iff: "to_disc x = to_disc y \<longleftrightarrow> x = y"
  by (metis of_to_disc option.inject)

end

text \<open>
  The contract of an enumeration that keeps numbers it does not know: every number survives
  reading and writing back, so no information from a newer node is lost.
\<close>

locale open_enum =
  fixes num :: "'a \<Rightarrow> 'n"
    and of_num :: "'n \<Rightarrow> 'a"
  assumes num_of_num: "num (of_num n) = n"
begin

lemma of_num_inj: "of_num m = of_num n \<longleftrightarrow> m = n"
  by (metis num_of_num)

lemma of_num_canonical: "of_num (num (of_num n)) = of_num n"
  by (simp add: num_of_num)

lemma map_num_of_num: "map num (map of_num ns) = ns"
  by (simp add: num_of_num comp_def)

lemma canonical_num_inj: "of_num (num x) = x \<Longrightarrow> of_num (num y) = y \<Longrightarrow> num x = num y \<longleftrightarrow> x = y"
  by metis

end

end
