(* ===== verification/Text_Codecs.thy ===== *)
theory Text_Codecs
  imports Prelude
begin

text \<open>
  The text encodings the primitives rely on.  The hexadecimal decoder that
  \<open>crates/provider/src/transport/grpc/fullnode.rs\<close> carries itself (\<open>decode_hex\<close>,
  \<open>hex_digit\<close>) is modelled.  The \<open>hex\<close> and \<open>bs58\<close> crates are not under the repository:
  the locale \<open>text_codecs\<close> states what the code relies on, and reference encoders written
  from the published formats (lower-case base 16, and base58 with a four byte checksum)
  interpret it for every checksum function.
\<close>

section \<open>The hexadecimal decoder of the gRPC transport\<close>

datatype hex_error = OddLength | InvalidHexChar u8

definition hex_digit :: "u8 \<Rightarrow> hex_error + u8" where
  "hex_digit b =
     (if 48 \<le> b \<and> b \<le> 57 then Ok (b - 48)
      else if 97 \<le> b \<and> b \<le> 102 then Ok (b - 97 + 10)
      else if 65 \<le> b \<and> b \<le> 70 then Ok (b - 65 + 10)
      else Err (InvalidHexChar b))"

fun decode_hex_chunks :: "bytes \<Rightarrow> hex_error + bytes" where
  "decode_hex_chunks (a # b # rest) =
     and_then (hex_digit a) (\<lambda>hi. and_then (hex_digit b) (\<lambda>lo.
       and_then (decode_hex_chunks rest) (\<lambda>bs. Ok ((push_bit 4 hi OR lo) # bs))))"
| "decode_hex_chunks _ = Ok []"

definition decode_hex :: "string \<Rightarrow> hex_error + bytes" where
  "decode_hex s = (if odd (length s) then Err OddLength else decode_hex_chunks (str_bytes s))"

text \<open>Lower-case hexadecimal, two digits to the byte.\<close>

definition nibble_char :: "u8 \<Rightarrow> char" where
  "nibble_char d = (if d < 10 then char_of (48 + unat d) else char_of (87 + unat d))"

definition hex_encode :: "bytes \<Rightarrow> string" where
  "hex_encode bs = concat (map (\<lambda>b. [nibble_char (drop_bit 4 b), nibble_char (b AND 15)]) bs)"

definition is_hexdigit :: "char \<Rightarrow> bool" where
  "is_hexdigit c \<longleftrightarrow> (let n = (of_char c :: nat) in
     48 \<le> n \<and> n \<le> 57 \<or> 97 \<le> n \<and> n \<le> 102 \<or> 65 \<le> n \<and> n \<le> 70)"

lemma nibble_cases:
  assumes "(d :: u8) < 16"
  shows "d \<in> {0, 1, 2, 3, 4, 5, 6, 7, 8, 9, 10, 11, 12, 13, 14, 15}"
proof -
  have "unat d < 16" using assms by (simp add: word_less_nat_alt)
  then have "unat d \<in> {0, 1, 2, 3, 4, 5, 6, 7, 8, 9, 10, 11, 12, 13, 14, 15}"
    by (simp add: numeral_eq_Suc less_Suc_eq)
  then show ?thesis by (simp add: word_unat_eq_iff)
qed

lemma hex_digit_nibble:
  assumes "d < 16"
  shows "hex_digit (of_nat (of_char (nibble_char d))) = Ok d"
  using nibble_cases [OF assms]
  by (elim insertE emptyE) (simp_all add: nibble_char_def hex_digit_def)

lemma is_hexdigit_nibble:
  assumes "d < 16"
  shows "is_hexdigit (nibble_char d)"
  using nibble_cases [OF assms]
  by (elim insertE emptyE) (simp_all add: nibble_char_def is_hexdigit_def)

lemma nibbles_small: "drop_bit 4 (b :: u8) < 16" "b AND 15 < 16"
proof -
  have "unat (drop_bit 4 b) = unat b div 16"
    by (simp add: drop_bit_eq_div unat_div_distrib)
  then have "unat (drop_bit 4 b) < 16" using unat_u8_less [of b] by linarith
  then show "drop_bit 4 b < 16" by (simp add: word_less_nat_alt)
  have "b AND 15 \<le> 15" by (rule word_and_le1)
  then show "b AND 15 < 16" by (simp add: word_le_nat_alt word_less_nat_alt)
qed

lemma nibbles_join: "push_bit 4 (drop_bit 4 b) OR (b AND 15) = (b :: u8)"
proof -
  have "b AND 15 = take_bit 4 b" by (simp add: take_bit_eq_mask mask_eq_exp_minus_1)
  then show ?thesis
    by (intro bit_word_eqI) (auto simp: bit_simps)
qed

lemma hex_encode_simps [simp]:
  "hex_encode [] = []"
  "hex_encode (b # bs) = nibble_char (drop_bit 4 b) # nibble_char (b AND 15) # hex_encode bs"
  by (simp_all add: hex_encode_def)

lemma hex_encode_length: "length (hex_encode bs) = 2 * length bs"
  by (induction bs) simp_all

lemma hex_encode_hexdigits: "\<forall>c\<in>set (hex_encode bs). is_hexdigit c"
  by (induction bs) (auto simp: is_hexdigit_nibble nibbles_small)

lemma decode_hex_chunks_encode: "decode_hex_chunks (str_bytes (hex_encode bs)) = Ok bs"
  by (induction bs)
    (simp_all add: str_bytes_def hex_digit_nibble nibbles_small nibbles_join)

text \<open>
  The transport's own hexadecimal decoder inverts lower-case encoding, refuses every
  text of odd length, and on success yields exactly half as many bytes as digits.
\<close>

theorem decode_hex_roundtrip:
  "decode_hex (hex_encode bs) = Ok bs \<and> (odd (length s) \<longleftrightarrow> decode_hex s = Err OddLength)"
proof
  show "decode_hex (hex_encode bs) = Ok bs"
    by (simp add: decode_hex_def hex_encode_length decode_hex_chunks_encode)
  have "decode_hex_chunks cs \<noteq> Err OddLength" for cs
    by (induction cs rule: decode_hex_chunks.induct)
      (auto simp: result_simps hex_digit_def split: if_splits)
  then show "odd (length s) \<longleftrightarrow> decode_hex s = Err OddLength" by (simp add: decode_hex_def)
qed

section \<open>What the code relies on\<close>

locale text_codecs =
  fixes b58_enc :: "bytes \<Rightarrow> string"
    and b58_dec :: "string \<Rightarrow> bytes option"
    and hex_enc :: "bytes \<Rightarrow> string"
    and hex_dec :: "string \<Rightarrow> bytes option"
  assumes b58_dec_enc: "b58_dec (b58_enc bs) = Some bs"
    and b58_enc_no_zero_char: "CHR ''0'' \<notin> set (b58_enc bs)"
    and b58_enc_short: "length bs = 21 \<Longrightarrow> length (b58_enc bs) < 42"
    and hex_dec_enc: "hex_dec (hex_enc bs) = Some bs"
    and hex_enc_len: "length (hex_enc bs) = 2 * length bs"
    and hex_enc_digits: "c \<in> set (hex_enc bs) \<Longrightarrow> is_hexdigit c"

section \<open>Positional notation\<close>

fun to_radix :: "nat \<Rightarrow> nat \<Rightarrow> nat list" where
  "to_radix b n = (if n = 0 \<or> b \<le> 1 then [] else to_radix b (n div b) @ [n mod b])"

declare to_radix.simps [simp del]

definition of_radix :: "nat \<Rightarrow> nat list \<Rightarrow> nat" where
  "of_radix b ds = foldl (\<lambda>v d. b * v + d) 0 ds"

lemma of_radix_simps [simp]:
  "of_radix b [] = 0"
  "of_radix b (ds @ [d]) = b * of_radix b ds + d"
  by (simp_all add: of_radix_def)

lemma of_radix_to_radix: "1 < b \<Longrightarrow> of_radix b (to_radix b n) = n"
proof (induction b n rule: to_radix.induct)
  case (1 b n)
  then show ?case by (subst to_radix.simps) auto
qed

lemma to_radix_digits: "1 < b \<Longrightarrow> d \<in> set (to_radix b n) \<Longrightarrow> d < b"
proof (induction b n rule: to_radix.induct)
  case (1 b n)
  then show ?case by (subst (asm) (2) to_radix.simps) (auto split: if_splits)
qed

lemma of_radix_pos:
  "1 < b \<Longrightarrow> of_radix b ds = 0 \<longleftrightarrow> (\<forall>d\<in>set ds. d = 0)"
  by (induction ds rule: rev_induct) auto

lemma to_radix_of_radix:
  assumes "1 < b" "\<forall>d\<in>set ds. d < b"
  shows "to_radix b (of_radix b ds) = dropWhile (\<lambda>d. d = 0) ds"
  using assms(2)
proof (induction ds rule: rev_induct)
  case Nil
  then show ?case by (simp add: to_radix.simps)
next
  case (snoc d ds)
  let ?v = "of_radix b ds"
  show ?case
  proof (cases "b * ?v + d = 0")
    case True
    then have "\<forall>x\<in>set ds. x = 0" "d = 0" using assms(1) of_radix_pos [of b ds] by auto
    then show ?thesis using True by (simp add: to_radix.simps)
  next
    case False
    have "to_radix b (b * ?v + d) = to_radix b ?v @ [d]"
      using False snoc.prems assms(1) by (subst to_radix.simps) simp
    also have "\<dots> = dropWhile (\<lambda>d. d = 0) ds @ [d]" using snoc by simp
    also have "\<dots> = dropWhile (\<lambda>d. d = 0) (ds @ [d])"
    proof (cases "\<exists>x\<in>set ds. x \<noteq> 0")
      case True
      then show ?thesis by (auto simp: dropWhile_append1)
    next
      case none: False
      then have "?v = 0" using of_radix_pos [OF assms(1), of ds] by simp
      with False have "d \<noteq> 0" by simp
      with none show ?thesis by (simp add: dropWhile_append dropWhile_eq_Nil_conv)
    qed
    finally show ?thesis by simp
  qed
qed

lemma to_radix_length: "1 < b \<Longrightarrow> n < b ^ k \<Longrightarrow> length (to_radix b n) \<le> k"
proof (induction b n arbitrary: k rule: to_radix.induct)
  case (1 b n)
  show ?case
  proof (cases "n = 0")
    case True
    then show ?thesis by (simp add: to_radix.simps)
  next
    case False
    then obtain j where k: "k = Suc j" using 1(3) by (cases k) auto
    then have "n div b < b ^ j" using 1(2,3) by (simp add: less_mult_imp_div_less mult.commute)
    with 1 False have "length (to_radix b (n div b)) \<le> j" by simp
    with False k 1(2) show ?thesis by (subst to_radix.simps) simp
  qed
qed

lemma of_radix_bound: "\<forall>d\<in>set ds. d < b \<Longrightarrow> of_radix b ds < b ^ length ds"
proof (induction ds rule: rev_induct)
  case Nil
  then show ?case by simp
next
  case (snoc d ds)
  then have "Suc (of_radix b ds) \<le> b ^ length ds" "d < b" by auto
  then have "b * of_radix b ds + d < b * Suc (of_radix b ds)" by simp
  also have "\<dots> \<le> b * b ^ length ds" using \<open>Suc _ \<le> _\<close> by (rule mult_le_mono2)
  finally show ?case by simp
qed

section \<open>Base58 with a checksum\<close>

definition b58_alphabet :: string where
  "b58_alphabet = ''123456789ABCDEFGHJKLMNPQRSTUVWXYZabcdefghijkmnopqrstuvwxyz''"

definition b58_char :: "nat \<Rightarrow> char" where
  "b58_char d = b58_alphabet ! d"

fun index_of :: "'a \<Rightarrow> 'a list \<Rightarrow> nat option" where
  "index_of x [] = None"
| "index_of x (y # ys) = (if x = y then Some 0 else map_option Suc (index_of x ys))"

definition b58_encode :: "bytes \<Rightarrow> string" where
  "b58_encode bs =
     map b58_char (replicate (length (takeWhile (\<lambda>b. b = 0) bs)) 0
                   @ to_radix 58 (of_radix 256 (map unat bs)))"

definition b58_decode :: "string \<Rightarrow> bytes option" where
  "b58_decode s =
     (let ds = map (\<lambda>c. index_of c b58_alphabet) s
      in if None \<in> set ds then None
         else let ns = map the ds
              in Some (replicate (length (takeWhile (\<lambda>d. d = 0) ns)) 0
                       @ map of_nat (to_radix 256 (of_radix 58 ns))))"

definition checksum4 :: "(bytes \<Rightarrow> bytes) \<Rightarrow> bytes \<Rightarrow> bytes" where
  "checksum4 h bs = take 4 (h bs @ [0, 0, 0, 0])"

definition b58check_encode :: "(bytes \<Rightarrow> bytes) \<Rightarrow> bytes \<Rightarrow> string" where
  "b58check_encode h bs = b58_encode (bs @ checksum4 h bs)"

definition b58check_decode :: "(bytes \<Rightarrow> bytes) \<Rightarrow> string \<Rightarrow> bytes option" where
  "b58check_decode h s =
     (case b58_decode s of
        None \<Rightarrow> None
      | Some raw \<Rightarrow>
          (if length raw < 4 then None
           else let body = take (length raw - 4) raw
                in if drop (length raw - 4) raw = checksum4 h body then Some body else None))"

lemma b58_alphabet_facts:
  "length b58_alphabet = 58" "distinct b58_alphabet" "CHR ''0'' \<notin> set b58_alphabet"
  by (simp_all add: b58_alphabet_def)

lemma index_of_nth: "distinct xs \<Longrightarrow> i < length xs \<Longrightarrow> index_of (xs ! i) xs = Some i"
  by (induction xs arbitrary: i) (auto simp: nth_Cons split: nat.splits)

lemma index_of_b58_char: "d < 58 \<Longrightarrow> index_of (b58_char d) b58_alphabet = Some d"
  by (simp add: b58_char_def index_of_nth b58_alphabet_facts)

lemma strip_zeros_split:
  "replicate (length (takeWhile (\<lambda>d. d = z) ds)) z @ dropWhile (\<lambda>d. d = z) ds = ds"
proof -
  have "takeWhile (\<lambda>d. d = z) ds = replicate (length (takeWhile (\<lambda>d. d = z) ds)) z"
    by (rule replicate_length_same [symmetric]) (auto dest: set_takeWhileD)
  then show ?thesis by (metis takeWhile_dropWhile_id)
qed

lemma to_radix_hd: "1 < b \<Longrightarrow> to_radix b n \<noteq> [] \<Longrightarrow> hd (to_radix b n) \<noteq> 0"
proof (induction b n rule: to_radix.induct)
  case (1 b n)
  have z: "to_radix b 0 = []" by (simp add: to_radix.simps)
  with 1(3) have n: "n \<noteq> 0" by metis
  then have eq: "to_radix b n = to_radix b (n div b) @ [n mod b]"
    using 1(2) by (subst to_radix.simps) simp
  show ?case
  proof (cases "to_radix b (n div b) = []")
    case True
    then have "n div b = 0" using 1(2) by (subst (asm) to_radix.simps) (auto split: if_splits)
    then have "n mod b = n" using 1(2) by (simp add: div_eq_0_iff)
    with True eq n show ?thesis by simp
  next
    case False
    with 1 n eq show ?thesis by simp
  qed
qed

lemma takeWhile_zeros_radix:
  assumes "1 < b"
  shows "takeWhile (\<lambda>d. d = 0) (replicate k 0 @ to_radix b n) = replicate k 0"
  using to_radix_hd [OF assms, of n]
  by (cases "to_radix b n") (simp_all add: takeWhile_append)

lemma of_radix_zeros: "of_radix b (replicate k 0 @ ds) = of_radix b ds"
proof (induction ds rule: rev_induct)
  case Nil
  then show ?case by (induction k) (auto simp: of_radix_def)
next
  case (snoc d ds)
  then show ?case by (simp flip: append_assoc)
qed

lemma b58_decode_encode: "b58_decode (b58_encode bs) = Some bs"
proof -
  let ?z = "length (takeWhile (\<lambda>b. b = 0) bs)" and ?n = "of_radix 256 (map unat bs)"
  let ?ds = "replicate ?z 0 @ to_radix 58 ?n"
  have dig: "\<forall>d\<in>set ?ds. d < 58" using to_radix_digits [of 58 _ ?n] by auto
  then have idx: "map (\<lambda>c. index_of c b58_alphabet) (map b58_char ?ds) = map Some ?ds"
    by (auto simp: index_of_b58_char)
  have ub: "\<forall>d\<in>set (map unat bs). d < 256" by simp
  have "length (takeWhile (\<lambda>d. d = 0) ?ds) = ?z" by (simp add: takeWhile_zeros_radix)
  moreover have "map of_nat (to_radix 256 (of_radix 58 ?ds)) = dropWhile (\<lambda>b. b = 0) bs"
    using ub by (simp add: of_radix_zeros of_radix_to_radix to_radix_of_radix dropWhile_map comp_def
        unat_eq_0)
  ultimately have "b58_decode (b58_encode bs)
      = Some (replicate ?z 0 @ dropWhile (\<lambda>b. b = 0) bs)"
    unfolding b58_decode_def b58_encode_def idx by (simp add: Let_def comp_def image_iff)
  then show ?thesis by (simp add: strip_zeros_split)
qed

lemma b58_char_alphabet: "d < 58 \<Longrightarrow> b58_char d \<in> set b58_alphabet"
  by (simp add: b58_char_def b58_alphabet_facts)

lemma b58_encode_no_zero: "CHR ''0'' \<notin> set (b58_encode bs)"
proof -
  have "\<forall>d\<in>set (replicate k 0 @ to_radix 58 n). d < 58" for k n
    using to_radix_digits [of 58 _ n] by auto
  then have "set (b58_encode bs) \<subseteq> set b58_alphabet"
    unfolding b58_encode_def using b58_char_alphabet by auto
  with b58_alphabet_facts show ?thesis by auto
qed

lemma b58_encode_length:
  "length (b58_encode bs) = length (takeWhile (\<lambda>b. b = 0) bs)
      + length (to_radix 58 (of_radix 256 (map unat (dropWhile (\<lambda>b. b = 0) bs))))"
proof -
  have "replicate (length (takeWhile (\<lambda>b. b = 0) bs)) 0 @ map unat (dropWhile (\<lambda>b. b = 0) bs)
      = map unat bs"
    using arg_cong [OF strip_zeros_split [of 0 bs], of "map unat"] by simp
  then have "of_radix 256 (map unat bs) = of_radix 256 (map unat (dropWhile (\<lambda>b. b = 0) bs))"
    using of_radix_zeros [of 256 _ "map unat (dropWhile (\<lambda>b. b = 0) bs)"] by metis
  then show ?thesis by (simp add: b58_encode_def)
qed

lemma b58_encode_short:
  assumes "length bs = 25"
  shows "length (b58_encode bs) < 42"
proof -
  let ?z = "length (takeWhile (\<lambda>b. b = 0) bs)" and ?r = "dropWhile (\<lambda>b. b = 0) bs"
  have zr: "?z + length ?r = 25"
    using assms by (metis length_append takeWhile_dropWhile_id)
  have "of_radix 256 (map unat ?r) < 256 ^ length ?r"
    using of_radix_bound [of "map unat ?r" 256] by simp
  also have "(256::nat) ^ length ?r \<le> 58 ^ (41 - ?z)"
  proof -
    have "(256::nat) ^ length ?r * 58 ^ ?z \<le> 256 ^ length ?r * 256 ^ ?z"
      by (intro mult_le_mono2 power_mono) simp_all
    also have "\<dots> = 256 ^ 25" using zr by (simp flip: power_add add: add.commute)
    also have "\<dots> \<le> (58::nat) ^ 41" by simp
    also have "\<dots> = 58 ^ (41 - ?z) * 58 ^ ?z" using zr by (simp flip: power_add)
    finally show ?thesis by simp
  qed
  finally have "length (to_radix 58 (of_radix 256 (map unat ?r))) \<le> 41 - ?z"
    by (intro to_radix_length) simp_all
  with b58_encode_length [of bs] zr show ?thesis by simp
qed

lemma checksum4_length: "length (checksum4 h bs) = 4"
  by (simp add: checksum4_def)

lemma b58check_decode_encode: "b58check_decode h (b58check_encode h bs) = Some bs"
  by (simp add: b58check_decode_def b58check_encode_def b58_decode_encode checksum4_length)

interpretation reference_codecs: text_codecs
  "b58check_encode h" "b58check_decode h" hex_encode "\<lambda>s. result_ok (decode_hex s)"
  for h :: "bytes \<Rightarrow> bytes"
proof unfold_locales
  show "b58check_decode h (b58check_encode h bs) = Some bs" for bs
    by (rule b58check_decode_encode)
  show "CHR ''0'' \<notin> set (b58check_encode h bs)" for bs
    by (simp add: b58check_encode_def b58_encode_no_zero)
  show "length bs = 21 \<Longrightarrow> length (b58check_encode h bs) < 42" for bs
    by (simp add: b58check_encode_def b58_encode_short checksum4_length)
  show "result_ok (decode_hex (hex_encode bs)) = Some bs" for bs
    by (simp add: decode_hex_def hex_encode_length decode_hex_chunks_encode)
qed (simp_all add: hex_encode_length hex_encode_hexdigits)

end
