(* ===== verification/Address.thy ===== *)
theory Address
  imports Text_Codecs "HOL-Library.List_Lexorder"
begin

text \<open>
  TRON addresses, from \<open>crates/primitives/src/address.rs\<close>: 21 bytes, the first of them 0x41.
  The operations that reach a third-party crate take it as an argument: \<open>bs58\<close> (\<open>b58_enc\<close>,
  \<open>b58_dec\<close>, with the checksum), \<open>hex\<close> (\<open>hex_enc\<close>, \<open>hex_dec\<close>), \<open>keccak256\<close> and the
  uncompressed SEC1 encoding of a \<open>k256\<close> key (\<open>sec1\<close>).  The Rust array type fixes the
  length; that the prefix is 0x41 is the invariant \<open>wf_address\<close>, which every constructor
  establishes.
\<close>

definition address_prefix :: u8 where "address_prefix = 65"
definition address_len :: nat where "address_len = 21"
definition evm_address_len :: nat where "evm_address_len = 20"

datatype address = Address (address_bytes: bytes)

datatype address_error =
    BadPrefix u8
  | AddressBadLength nat nat
  | Base58Failed
  | HexFailed

definition wf_address :: "address \<Rightarrow> bool" where
  "wf_address a \<longleftrightarrow> length (address_bytes a) = address_len \<and> hd (address_bytes a) = address_prefix"

section \<open>Construction\<close>

definition address_zero :: address where
  "address_zero = Address (address_prefix # replicate evm_address_len 0)"

definition address_from_bytes :: "bytes \<Rightarrow> address_error + address" where
  "address_from_bytes bs =
     (if bs ! 0 \<noteq> address_prefix then Err (BadPrefix (bs ! 0)) else Ok (Address bs))"

definition address_from_slice :: "bytes \<Rightarrow> address_error + address" where
  "address_from_slice bs =
     and_then (ok_or (AddressBadLength address_len (length bs)) (fixed_bytes address_len bs))
       address_from_bytes"

definition address_from_evm_bytes :: "bytes \<Rightarrow> address" where
  "address_from_evm_bytes evm = Address (address_prefix # evm)"

definition address_from_public_key ::
  "(bytes \<Rightarrow> bytes) \<Rightarrow> ('key \<Rightarrow> bytes) \<Rightarrow> 'key \<Rightarrow> address" where
  "address_from_public_key keccak sec1 key =
     address_from_evm_bytes (drop 12 (keccak (drop 1 (sec1 key))))"

definition address_from_base58 :: "(string \<Rightarrow> bytes option) \<Rightarrow> string \<Rightarrow> address_error + address" where
  "address_from_base58 b58_dec s = and_then (ok_or Base58Failed (b58_dec s)) address_from_slice"

text \<open>\<open>s.strip_prefix("0x").unwrap_or(s)\<close>\<close>

fun strip_0x :: "string \<Rightarrow> string" where
  "strip_0x (a # b # s) = (if a = CHR ''0'' \<and> b = CHR ''x'' then s else a # b # s)"
| "strip_0x s = s"

definition address_from_hex :: "(string \<Rightarrow> bytes option) \<Rightarrow> string \<Rightarrow> address_error + address" where
  "address_from_hex hex_dec s = and_then (ok_or HexFailed (hex_dec (strip_0x s))) address_from_slice"

section \<open>Reading\<close>

definition as_evm_bytes :: "address \<Rightarrow> bytes" where
  "as_evm_bytes a = drop 1 (address_bytes a)"

definition address_to_base58 :: "(bytes \<Rightarrow> string) \<Rightarrow> address \<Rightarrow> string" where
  "address_to_base58 b58_enc a = b58_enc (address_bytes a)"

definition address_to_hex :: "(bytes \<Rightarrow> string) \<Rightarrow> address \<Rightarrow> string" where
  "address_to_hex hex_enc a = hex_enc (address_bytes a)"

definition looks_hex :: "string \<Rightarrow> bool" where
  "looks_hex s \<longleftrightarrow> length (strip_0x s) = address_len * 2 \<and> list_all is_hexdigit (strip_0x s)"

definition address_from_str ::
  "(string \<Rightarrow> bytes option) \<Rightarrow> (string \<Rightarrow> bytes option) \<Rightarrow> string \<Rightarrow> address_error + address" where
  "address_from_str b58_dec hex_dec s =
     (if looks_hex s then address_from_hex hex_dec s else address_from_base58 b58_dec s)"

text \<open>The bridges to the 20-byte \<open>alloy\<close> address.\<close>

definition address_to_alloy :: "address \<Rightarrow> bytes" where
  "address_to_alloy a = as_evm_bytes a"

definition address_from_alloy :: "bytes \<Rightarrow> address" where
  "address_from_alloy evm = address_from_evm_bytes evm"

text \<open>The derived order compares the bytes from the left.\<close>

instantiation address :: linorder
begin

definition less_eq_address :: "address \<Rightarrow> address \<Rightarrow> bool" where
  "less_eq_address a b \<longleftrightarrow> address_bytes a \<le> address_bytes b"

definition less_address :: "address \<Rightarrow> address \<Rightarrow> bool" where
  "less_address a b \<longleftrightarrow> address_bytes a < address_bytes b"

instance
  by standard (auto simp: less_eq_address_def less_address_def address.expand)

end

section \<open>The invariant\<close>

lemma wf_address_zero [simp]: "wf_address address_zero"
  by (simp add: wf_address_def address_zero_def address_len_def evm_address_len_def)

lemma wf_address_from_evm [intro]:
  "length evm = evm_address_len \<Longrightarrow> wf_address (address_from_evm_bytes evm)"
  by (simp add: wf_address_def address_from_evm_bytes_def address_len_def evm_address_len_def)

lemma address_from_slice_Ok_iff [result_simps]:
  "address_from_slice bs = Ok a \<longleftrightarrow> a = Address bs \<and> wf_address a"
  by (cases bs)
    (auto simp: address_from_slice_def address_from_bytes_def wf_address_def fixed_bytes_def
       address_len_def)

lemma address_from_slice_Err_iff:
  "address_from_slice bs = Err e \<longleftrightarrow>
     (if length bs \<noteq> address_len then e = AddressBadLength address_len (length bs)
      else hd bs \<noteq> address_prefix \<and> e = BadPrefix (hd bs))"
  by (cases bs)
    (auto simp: address_from_slice_def address_from_bytes_def fixed_bytes_def address_len_def)

lemma address_from_slice_bytes: "wf_address a \<Longrightarrow> address_from_slice (address_bytes a) = Ok a"
  by (simp add: address_from_slice_Ok_iff)

lemma address_eq_iff_bytes: "a = b \<longleftrightarrow> address_bytes a = address_bytes b"
  by (cases a, cases b) simp

lemma wf_address_evm: "wf_address a \<Longrightarrow> address_from_evm_bytes (as_evm_bytes a) = a"
  by (cases a; cases "address_bytes a")
    (auto simp: wf_address_def address_from_evm_bytes_def as_evm_bytes_def address_len_def)

lemma as_evm_bytes_length: "wf_address a \<Longrightarrow> length (as_evm_bytes a) = evm_address_len"
  by (simp add: wf_address_def as_evm_bytes_def address_len_def evm_address_len_def)

lemma as_evm_bytes_from_evm [simp]: "as_evm_bytes (address_from_evm_bytes evm) = evm"
  by (simp add: as_evm_bytes_def address_from_evm_bytes_def)

lemma strip_0x_prefixed [simp]: "strip_0x (''0x'' @ s) = s" "strip_0x (CHR ''0'' # CHR ''x'' # s) = s"
  by simp_all

lemma strip_0x_no_zero: "CHR ''0'' \<notin> set s \<Longrightarrow> strip_0x s = s"
  by (cases s rule: strip_0x.cases) auto

lemma strip_0x_hexdigits: "\<forall>c\<in>set s. is_hexdigit c \<Longrightarrow> strip_0x s = s"
  by (cases s rule: strip_0x.cases) (auto simp: is_hexdigit_def)

section \<open>Text forms\<close>

context text_codecs
begin

lemma from_base58_to_base58:
  "wf_address a \<Longrightarrow> address_from_base58 b58_dec (address_to_base58 b58_enc a) = Ok a"
  by (simp add: address_from_base58_def address_to_base58_def b58_dec_enc address_from_slice_bytes)

lemma from_hex_to_hex:
  "wf_address a \<Longrightarrow> address_from_hex hex_dec (address_to_hex hex_enc a) = Ok a"
  by (simp add: address_from_hex_def address_to_hex_def strip_0x_hexdigits hex_enc_digits hex_dec_enc
      address_from_slice_bytes)

lemma looks_hex_hex: "wf_address a \<Longrightarrow> looks_hex (address_to_hex hex_enc a)"
  by (simp add: looks_hex_def address_to_hex_def strip_0x_hexdigits hex_enc_digits hex_enc_len
      wf_address_def list_all_iff)

lemma not_looks_hex_base58: "wf_address a \<Longrightarrow> \<not> looks_hex (address_to_base58 b58_enc a)"
  using b58_enc_short [of "address_bytes a"] strip_0x_no_zero [OF b58_enc_no_zero_char]
  by (simp add: looks_hex_def address_to_base58_def wf_address_def address_len_def)

lemma from_str_routes:
  assumes "wf_address a"
  shows "address_from_str b58_dec hex_dec (address_to_base58 b58_enc a) = Ok a"
    and "address_from_str b58_dec hex_dec (address_to_hex hex_enc a) = Ok a"
    and "address_from_str b58_dec hex_dec (''0x'' @ address_to_hex hex_enc a) = Ok a"
proof -
  show "address_from_str b58_dec hex_dec (address_to_base58 b58_enc a) = Ok a"
    using assms by (simp add: address_from_str_def not_looks_hex_base58 from_base58_to_base58)
  have hx: "strip_0x (address_to_hex hex_enc a) = address_to_hex hex_enc a"
    by (simp add: address_to_hex_def strip_0x_hexdigits hex_enc_digits)
  have lh: "looks_hex (address_to_hex hex_enc a)" using assms by (rule looks_hex_hex)
  show "address_from_str b58_dec hex_dec (address_to_hex hex_enc a) = Ok a"
    using assms lh by (simp add: address_from_str_def from_hex_to_hex)
  moreover have "looks_hex (''0x'' @ address_to_hex hex_enc a)"
    using lh hx by (simp add: looks_hex_def)
  ultimately show "address_from_str b58_dec hex_dec (''0x'' @ address_to_hex hex_enc a) = Ok a"
    using lh hx by (simp add: address_from_str_def address_from_hex_def)
qed

end

text \<open>
  C24: one parser reads every text form of an address back: the base58 form, the hex form and
  the hex form with its 0x prefix, and it never mistakes the one for the other.
\<close>

theorem address_text_roundtrip:
  assumes "text_codecs b58e b58d hexe hexd" and "wf_address a"
  shows "address_from_str b58d hexd (address_to_base58 b58e a) = Ok a
         \<and> address_from_str b58d hexd (address_to_hex hexe a) = Ok a
         \<and> address_from_str b58d hexd (''0x'' @ address_to_hex hexe a) = Ok a"
  using text_codecs.from_str_routes [OF assms] by simp

theorem address_text_roundtrip_witness:
  "wf_address address_zero \<and>
   address_from_str (b58check_decode (\<lambda>_. [1, 2, 3, 4])) (\<lambda>s. result_ok (decode_hex s))
     (address_to_base58 (b58check_encode (\<lambda>_. [1, 2, 3, 4])) address_zero) = Ok address_zero"
  using address_text_roundtrip [OF reference_codecs.text_codecs_axioms wf_address_zero] by simp

text \<open>
  Every way of making an address yields 21 bytes that start with 0x41: whatever text or
  slice is offered, a successful parse is a well-formed address, and so is the address of a
  public key under any 32-byte hash.
\<close>

theorem address_constructors_wf:
  "(address_from_slice bs = Ok a \<longrightarrow> wf_address a \<and> address_bytes a = bs)
   \<and> (address_from_str b58d hexd s = Ok a \<longrightarrow> wf_address a)
   \<and> (length (keccak (drop 1 (sec1 key))) = 32 \<longrightarrow> wf_address (address_from_public_key keccak sec1 key))"
proof (intro conjI impI)
  show "address_from_slice bs = Ok a \<Longrightarrow> wf_address a"
    and "address_from_slice bs = Ok a \<Longrightarrow> address_bytes a = bs"
    by (auto simp: result_simps)
  show "address_from_str b58d hexd s = Ok a \<Longrightarrow> wf_address a"
    by (auto simp: address_from_str_def address_from_hex_def address_from_base58_def result_simps
        split: if_splits)
  show "length (keccak (drop 1 (sec1 key))) = 32 \<Longrightarrow> wf_address (address_from_public_key keccak sec1 key)"
    unfolding address_from_public_key_def
    by (rule wf_address_from_evm) (simp add: evm_address_len_def)
qed

theorem address_constructors_wf_witness:
  "wf_address (Address (65 # replicate 20 7))
   \<and> wf_address (address_from_public_key (\<lambda>_. replicate 32 9) (\<lambda>(). []) ())"
proof -
  have "address_from_slice (65 # replicate 20 7) = Ok (Address (65 # replicate 20 7))"
    by (simp add: address_from_slice_def fixed_bytes_def address_len_def address_from_bytes_def
        address_prefix_def)
  with address_constructors_wf [of "65 # replicate 20 7" "Address (65 # replicate 20 7)"
      "\<lambda>_. None" "\<lambda>_. None" "[]" "\<lambda>_. replicate 32 9" "\<lambda>(). []" "()"]
  show ?thesis by simp
qed

end
