(* ===== verification/Signature.thy ===== *)
theory Signature
  imports Address
begin

text \<open>
  Recoverable signatures (\<open>crates/primitives/src/signature.rs\<close>) and signed messages
  (\<open>crates/primitives/src/message.rs\<close>).  A 65-byte text \<open>r || s || v\<close> is read with the two
  conventions for \<open>v\<close> (0 and 1, or 27 and 28) and kept with 0 or 1.  The ECDSA operations of
  the \<open>k256\<close> crate are arguments: a signature of the crate is a value of type \<open>'sig\<close>, a
  recovery id one of \<open>'rid\<close>, a verifying key one of \<open>'key\<close>.
\<close>

definition signature_len :: nat where "signature_len = 65"

record recoverable_signature =
  sig_r :: bytes
  sig_s :: bytes
  sig_v :: u8

datatype signature_error =
    SigBadLength nat
  | BadRecoveryId u8
  | EcdsaFailed
  | SigHexFailed

definition wf_signature :: "recoverable_signature \<Rightarrow> bool" where
  "wf_signature g \<longleftrightarrow> length (sig_r g) = 32 \<and> length (sig_s g) = 32 \<and> (sig_v g = 0 \<or> sig_v g = 1)"

section \<open>Conversions\<close>

definition signature_from_signature ::
  "('sig \<Rightarrow> bytes) \<Rightarrow> ('rid \<Rightarrow> u8) \<Rightarrow> 'sig \<Rightarrow> 'rid \<Rightarrow> recoverable_signature" where
  "signature_from_signature sig_bytes rid_byte sig rid =
     (let bs = sig_bytes sig
      in \<lparr> sig_r = take 32 bs, sig_s = drop 32 bs, sig_v = rid_byte rid \<rparr>)"

definition signature_from_bytes :: "bytes \<Rightarrow> signature_error + recoverable_signature" where
  "signature_from_bytes bs =
     (if length bs \<noteq> signature_len then Err (SigBadLength (length bs))
      else and_then
        (if bs ! 64 = 0 \<or> bs ! 64 = 1 then Ok (bs ! 64)
         else if bs ! 64 = 27 then Ok 0
         else if bs ! 64 = 28 then Ok 1
         else Err (BadRecoveryId (bs ! 64)))
        (\<lambda>v. Ok \<lparr> sig_r = take 32 bs, sig_s = take 32 (drop 32 bs), sig_v = v \<rparr>))"

definition signature_to_bytes :: "recoverable_signature \<Rightarrow> bytes" where
  "signature_to_bytes g = sig_r g @ sig_s g @ [sig_v g]"

definition signature_to_legacy_bytes :: "recoverable_signature \<Rightarrow> bytes" where
  "signature_to_legacy_bytes g =
     (let out = signature_to_bytes g in out[64 := out ! 64 + 27])"

definition signature_from_str ::
  "(string \<Rightarrow> bytes option) \<Rightarrow> string \<Rightarrow> signature_error + recoverable_signature" where
  "signature_from_str hex_dec s =
     and_then (ok_or SigHexFailed (hex_dec (strip_0x s))) signature_from_bytes"

definition signature_split ::
  "(bytes \<Rightarrow> 'sig option) \<Rightarrow> (u8 \<Rightarrow> 'rid option) \<Rightarrow> recoverable_signature
     \<Rightarrow> signature_error + ('sig \<times> 'rid)" where
  "signature_split sig_slice rid_of g =
     and_then (ok_or EcdsaFailed (sig_slice (sig_r g @ sig_s g))) (\<lambda>sig.
       and_then (ok_or (BadRecoveryId (sig_v g)) (rid_of (sig_v g))) (\<lambda>rid. Ok (sig, rid)))"

definition recover_address_from_prehash ::
  "(bytes \<Rightarrow> 'sig option) \<Rightarrow> (u8 \<Rightarrow> 'rid option) \<Rightarrow> (bytes \<Rightarrow> 'sig \<Rightarrow> 'rid \<Rightarrow> 'key option)
     \<Rightarrow> ('key \<Rightarrow> address) \<Rightarrow> recoverable_signature \<Rightarrow> bytes \<Rightarrow> signature_error + address" where
  "recover_address_from_prehash sig_slice rid_of recover address_of g prehash =
     and_then (signature_split sig_slice rid_of g) (\<lambda>(sig, rid).
       and_then (ok_or EcdsaFailed (recover prehash sig rid)) (\<lambda>key. Ok (address_of key)))"

section \<open>Messages\<close>

definition tron_message_prefix :: bytes where
  "tron_message_prefix = 25 # str_bytes ''TRON Signed Message:'' @ [10]"

definition message_preimage :: "bytes \<Rightarrow> bytes" where
  "message_preimage message =
     tron_message_prefix @ str_bytes (show_nat (length message)) @ message"

definition hash_message :: "(bytes \<Rightarrow> bytes) \<Rightarrow> bytes \<Rightarrow> bytes" where
  "hash_message keccak message = keccak (message_preimage message)"

definition recover_message_address ::
  "(bytes \<Rightarrow> bytes) \<Rightarrow> (recoverable_signature \<Rightarrow> bytes \<Rightarrow> signature_error + address)
     \<Rightarrow> bytes \<Rightarrow> recoverable_signature \<Rightarrow> signature_error + address" where
  "recover_message_address keccak recover message g = recover g (hash_message keccak message)"

definition verify_message ::
  "(bytes \<Rightarrow> bytes) \<Rightarrow> (recoverable_signature \<Rightarrow> bytes \<Rightarrow> signature_error + address)
     \<Rightarrow> bytes \<Rightarrow> recoverable_signature \<Rightarrow> address \<Rightarrow> bool" where
  "verify_message keccak recover message g a =
     (case recover_message_address keccak recover message g of Inl _ \<Rightarrow> False | Inr r \<Rightarrow> r = a)"

section \<open>Round trips\<close>

lemma signature_to_bytes_length: "wf_signature g \<Longrightarrow> length (signature_to_bytes g) = signature_len"
  by (simp add: wf_signature_def signature_to_bytes_def signature_len_def)

lemma signature_to_bytes_v: "wf_signature g \<Longrightarrow> signature_to_bytes g ! 64 = sig_v g"
  by (simp add: wf_signature_def signature_to_bytes_def nth_append)

lemma signature_to_legacy_bytes_eq:
  "wf_signature g \<Longrightarrow> signature_to_legacy_bytes g = sig_r g @ sig_s g @ [sig_v g + 27]"
  by (simp add: wf_signature_def signature_to_legacy_bytes_def signature_to_bytes_def Let_def
      nth_append list_update_append)

lemma signature_from_bytes_wf: "signature_from_bytes bs = Ok g \<Longrightarrow> wf_signature g"
  by (auto simp: signature_from_bytes_def wf_signature_def signature_len_def result_simps
      split: if_splits)

lemma split_65: "length bs = 65 \<Longrightarrow> take 32 bs @ take 32 (drop 32 bs) @ [bs ! 64] = bs"
proof (rule nth_equalityI)
  fix i assume len: "length bs = 65" and "i < length (take 32 bs @ take 32 (drop 32 bs) @ [bs ! 64])"
  then have "i < 32 \<or> (32 \<le> i \<and> i < 64) \<or> i = 64" by auto
  then show "(take 32 bs @ take 32 (drop 32 bs) @ [bs ! 64]) ! i = bs ! i"
    using len by (auto simp: nth_append)
qed simp

lemma signature_from_bytes_canonical:
  "signature_from_bytes bs = Ok g \<Longrightarrow>
     bs = signature_to_bytes g \<or> bs = signature_to_legacy_bytes g"
proof -
  assume ok: "signature_from_bytes bs = Ok g"
  then have wf: "wf_signature g" by (rule signature_from_bytes_wf)
  have len: "length bs = 65" using ok by (auto simp: signature_from_bytes_def signature_len_def split: if_splits)
  have parts: "sig_r g = take 32 bs" "sig_s g = take 32 (drop 32 bs)"
    "bs ! 64 = sig_v g \<or> bs ! 64 = sig_v g + 27"
    using ok by (auto simp: signature_from_bytes_def result_simps split: if_splits)
  then show ?thesis
    using split_65 [OF len] wf
    by (auto simp: signature_to_bytes_def signature_to_legacy_bytes_eq)
qed

lemma signature_from_to_bytes:
  "wf_signature g \<Longrightarrow> signature_from_bytes (signature_to_bytes g) = Ok g"
  by (auto simp: signature_from_bytes_def signature_to_bytes_def wf_signature_def
      signature_len_def nth_append)

text \<open>
  The two wire forms of a signature are read back as the same signature, everything that
  is read has \<open>v\<close> zero or one, and nothing but the two wire forms of a signature is accepted.
\<close>

theorem signature_roundtrip:
  assumes "wf_signature g"
  shows "signature_from_bytes bs = Ok g \<longleftrightarrow>
           bs = signature_to_bytes g \<or> bs = signature_to_legacy_bytes g"
    (is "_ \<longleftrightarrow> ?forms")
proof
  show "signature_from_bytes bs = Ok g \<Longrightarrow> ?forms" by (rule signature_from_bytes_canonical)
  assume ?forms
  then show "signature_from_bytes bs = Ok g"
    using assms
    by (auto simp: signature_from_bytes_def signature_to_legacy_bytes_eq signature_to_bytes_def
        wf_signature_def signature_len_def nth_append)
qed

theorem signature_roundtrip_witness:
  "signature_from_bytes (replicate 32 3 @ replicate 32 5 @ [28])
     = Ok \<lparr> sig_r = replicate 32 3, sig_s = replicate 32 5, sig_v = 1 \<rparr>"
proof -
  let ?g = "\<lparr> sig_r = replicate 32 3, sig_s = replicate 32 5, sig_v = 1 \<rparr>"
  have wf: "wf_signature ?g" by (simp add: wf_signature_def)
  show ?thesis
    using signature_roundtrip [OF wf] by (simp add: signature_to_legacy_bytes_eq [OF wf])
qed

text \<open>
  A signature made with a key over the hash of a message verifies for the address of that
  key, and for no other address.  The signing key pair is any whose signatures recover to its
  own public key and whose encoding survives the 64-byte form.
\<close>

theorem verify_message_correct:
  assumes recovers: "recover (hash_message keccak m) sig rid = Some key"
    and slice: "sig_slice (sig_bytes sig) = Some sig"
    and rid: "rid_of (rid_byte rid) = Some rid"
  shows "verify_message keccak (recover_address_from_prehash sig_slice rid_of recover address_of) m
           (signature_from_signature sig_bytes rid_byte sig rid) a
         \<longleftrightarrow> a = address_of key"
  using assms
  by (auto simp: verify_message_def recover_message_address_def recover_address_from_prehash_def
      signature_split_def signature_from_signature_def Let_def)

theorem verify_message_correct_witness:
  "verify_message (\<lambda>_. replicate 32 1)
     (recover_address_from_prehash Some Some (\<lambda>_ s r. Some (s, r)) (\<lambda>_. address_zero)) [1, 2]
     (signature_from_signature (\<lambda>s. s) (\<lambda>r. r) (replicate 64 8) 1) address_zero"
  using verify_message_correct [of "\<lambda>_ s r. Some (s, r)" "\<lambda>_. replicate 32 1" "[1, 2]" "replicate 64 8" 1
      "(replicate 64 8, 1)" Some "\<lambda>s. s" Some "\<lambda>r. r" "\<lambda>_. address_zero" address_zero]
  by simp

end
