(* ===== verification/Operation_Set.thy ===== *)
theory Operation_Set
  imports Prelude
begin

text \<open>
  Contract kinds and the operation bitmap of a permission
  (\<open>crates/rpc-types/src/types/contract.rs\<close>).  A kind is a native contract without its
  parameters; the bitmap is 32 bytes, bit \<open>i\<close> of which grants the kind numbered \<open>i\<close>.  The
  operations on the bitmap refine those on a finite set of numbers below 256 (\<open>op_ids\<close>).
\<close>

section \<open>Contract kinds\<close>

datatype contract_kind =
    KCreateAccount
  | KTransfer
  | KTransferAsset
  | KVoteAsset
  | KVoteWitness
  | KCreateWitness
  | KAssetIssue
  | KUpdateWitness
  | KParticipateAssetIssue
  | KUpdateAccount
  | KFreezeBalanceV1
  | KUnfreezeBalanceV1
  | KWithdrawBalance
  | KUnfreezeAsset
  | KUpdateAsset
  | KProposalCreate
  | KProposalApprove
  | KProposalDelete
  | KSetAccountId
  | KCustom
  | KCreateSmartContract
  | KTriggerSmartContract
  | KGetContract
  | KUpdateSetting
  | KExchangeCreate
  | KExchangeInject
  | KExchangeWithdraw
  | KExchangeTransaction
  | KUpdateEnergyLimit
  | KAccountPermissionUpdate
  | KClearContractAbi
  | KUpdateBrokerage
  | KShieldedTransfer
  | KMarketSellAsset
  | KMarketCancelOrder
  | KFreezeBalanceV2
  | KUnfreezeBalanceV2
  | KWithdrawExpireUnfreeze
  | KDelegateResource
  | KUnDelegateResource
  | KCancelAllUnfreezeV2
  | KUnknown i32

text \<open>\<open>From<i32>\<close>\<close>

definition kind_from_i32 :: "i32 \<Rightarrow> contract_kind" where
  "kind_from_i32 v =
     (if v = 0 then KCreateAccount
      else if v = 1 then KTransfer
      else if v = 2 then KTransferAsset
      else if v = 3 then KVoteAsset
      else if v = 4 then KVoteWitness
      else if v = 5 then KCreateWitness
      else if v = 6 then KAssetIssue
      else if v = 8 then KUpdateWitness
      else if v = 9 then KParticipateAssetIssue
      else if v = 10 then KUpdateAccount
      else if v = 11 then KFreezeBalanceV1
      else if v = 12 then KUnfreezeBalanceV1
      else if v = 13 then KWithdrawBalance
      else if v = 14 then KUnfreezeAsset
      else if v = 15 then KUpdateAsset
      else if v = 16 then KProposalCreate
      else if v = 17 then KProposalApprove
      else if v = 18 then KProposalDelete
      else if v = 19 then KSetAccountId
      else if v = 20 then KCustom
      else if v = 30 then KCreateSmartContract
      else if v = 31 then KTriggerSmartContract
      else if v = 32 then KGetContract
      else if v = 33 then KUpdateSetting
      else if v = 41 then KExchangeCreate
      else if v = 42 then KExchangeInject
      else if v = 43 then KExchangeWithdraw
      else if v = 44 then KExchangeTransaction
      else if v = 45 then KUpdateEnergyLimit
      else if v = 46 then KAccountPermissionUpdate
      else if v = 48 then KClearContractAbi
      else if v = 49 then KUpdateBrokerage
      else if v = 51 then KShieldedTransfer
      else if v = 52 then KMarketSellAsset
      else if v = 53 then KMarketCancelOrder
      else if v = 54 then KFreezeBalanceV2
      else if v = 55 then KUnfreezeBalanceV2
      else if v = 56 then KWithdrawExpireUnfreeze
      else if v = 57 then KDelegateResource
      else if v = 58 then KUnDelegateResource
      else if v = 59 then KCancelAllUnfreezeV2
      else KUnknown v)"

fun kind_id :: "contract_kind \<Rightarrow> i32" where
  "kind_id KCreateAccount = 0"
| "kind_id KTransfer = 1"
| "kind_id KTransferAsset = 2"
| "kind_id KVoteAsset = 3"
| "kind_id KVoteWitness = 4"
| "kind_id KCreateWitness = 5"
| "kind_id KAssetIssue = 6"
| "kind_id KUpdateWitness = 8"
| "kind_id KParticipateAssetIssue = 9"
| "kind_id KUpdateAccount = 10"
| "kind_id KFreezeBalanceV1 = 11"
| "kind_id KUnfreezeBalanceV1 = 12"
| "kind_id KWithdrawBalance = 13"
| "kind_id KUnfreezeAsset = 14"
| "kind_id KUpdateAsset = 15"
| "kind_id KProposalCreate = 16"
| "kind_id KProposalApprove = 17"
| "kind_id KProposalDelete = 18"
| "kind_id KSetAccountId = 19"
| "kind_id KCustom = 20"
| "kind_id KCreateSmartContract = 30"
| "kind_id KTriggerSmartContract = 31"
| "kind_id KGetContract = 32"
| "kind_id KUpdateSetting = 33"
| "kind_id KExchangeCreate = 41"
| "kind_id KExchangeInject = 42"
| "kind_id KExchangeWithdraw = 43"
| "kind_id KExchangeTransaction = 44"
| "kind_id KUpdateEnergyLimit = 45"
| "kind_id KAccountPermissionUpdate = 46"
| "kind_id KClearContractAbi = 48"
| "kind_id KUpdateBrokerage = 49"
| "kind_id KShieldedTransfer = 51"
| "kind_id KMarketSellAsset = 52"
| "kind_id KMarketCancelOrder = 53"
| "kind_id KFreezeBalanceV2 = 54"
| "kind_id KUnfreezeBalanceV2 = 55"
| "kind_id KWithdrawExpireUnfreeze = 56"
| "kind_id KDelegateResource = 57"
| "kind_id KUnDelegateResource = 58"
| "kind_id KCancelAllUnfreezeV2 = 59"
| "kind_id (KUnknown v) = v"

text \<open>\<open>Display\<close>: the name of the variant, or the unknown number.\<close>

fun kind_display :: "contract_kind \<Rightarrow> string" where
  "kind_display (KUnknown v) = ''Unknown('' @ show_int (sint v) @ '')''"
| "kind_display KCreateAccount = ''CreateAccount''"
| "kind_display KTransfer = ''Transfer''"
| "kind_display KTransferAsset = ''TransferAsset''"
| "kind_display KVoteAsset = ''VoteAsset''"
| "kind_display KVoteWitness = ''VoteWitness''"
| "kind_display KCreateWitness = ''CreateWitness''"
| "kind_display KAssetIssue = ''AssetIssue''"
| "kind_display KUpdateWitness = ''UpdateWitness''"
| "kind_display KParticipateAssetIssue = ''ParticipateAssetIssue''"
| "kind_display KUpdateAccount = ''UpdateAccount''"
| "kind_display KFreezeBalanceV1 = ''FreezeBalanceV1''"
| "kind_display KUnfreezeBalanceV1 = ''UnfreezeBalanceV1''"
| "kind_display KWithdrawBalance = ''WithdrawBalance''"
| "kind_display KUnfreezeAsset = ''UnfreezeAsset''"
| "kind_display KUpdateAsset = ''UpdateAsset''"
| "kind_display KProposalCreate = ''ProposalCreate''"
| "kind_display KProposalApprove = ''ProposalApprove''"
| "kind_display KProposalDelete = ''ProposalDelete''"
| "kind_display KSetAccountId = ''SetAccountId''"
| "kind_display KCustom = ''Custom''"
| "kind_display KCreateSmartContract = ''CreateSmartContract''"
| "kind_display KTriggerSmartContract = ''TriggerSmartContract''"
| "kind_display KGetContract = ''GetContract''"
| "kind_display KUpdateSetting = ''UpdateSetting''"
| "kind_display KExchangeCreate = ''ExchangeCreate''"
| "kind_display KExchangeInject = ''ExchangeInject''"
| "kind_display KExchangeWithdraw = ''ExchangeWithdraw''"
| "kind_display KExchangeTransaction = ''ExchangeTransaction''"
| "kind_display KUpdateEnergyLimit = ''UpdateEnergyLimit''"
| "kind_display KAccountPermissionUpdate = ''AccountPermissionUpdate''"
| "kind_display KClearContractAbi = ''ClearContractAbi''"
| "kind_display KUpdateBrokerage = ''UpdateBrokerage''"
| "kind_display KShieldedTransfer = ''ShieldedTransfer''"
| "kind_display KMarketSellAsset = ''MarketSellAsset''"
| "kind_display KMarketCancelOrder = ''MarketCancelOrder''"
| "kind_display KFreezeBalanceV2 = ''FreezeBalanceV2''"
| "kind_display KUnfreezeBalanceV2 = ''UnfreezeBalanceV2''"
| "kind_display KWithdrawExpireUnfreeze = ''WithdrawExpireUnfreeze''"
| "kind_display KDelegateResource = ''DelegateResource''"
| "kind_display KUnDelegateResource = ''UnDelegateResource''"
| "kind_display KCancelAllUnfreezeV2 = ''CancelAllUnfreezeV2''"

datatype owner_field = OwnerFirst | OwnerSecond

definition kind_owner_field :: "contract_kind \<Rightarrow> owner_field option" where
  "kind_owner_field k =
     (case k of
        KTransferAsset \<Rightarrow> Some OwnerSecond
      | KUpdateAccount \<Rightarrow> Some OwnerSecond
      | KSetAccountId \<Rightarrow> Some OwnerSecond
      | KShieldedTransfer \<Rightarrow> None
      | KCustom \<Rightarrow> None
      | KGetContract \<Rightarrow> None
      | KUnknown v \<Rightarrow> None
      | _ \<Rightarrow> Some OwnerFirst)"

lemma kind_from_id: "(\<And>v. k \<noteq> KUnknown v) \<Longrightarrow> kind_from_i32 (kind_id k) = k"
  by (cases k) (simp_all add: kind_from_i32_def)

lemma kind_id_from: "kind_id (kind_from_i32 v) = v"
  by (simp add: kind_from_i32_def)

interpretation kind_enum: open_enum kind_id kind_from_i32
  by unfold_locales (rule kind_id_from)

section \<open>The bitmap\<close>

datatype operation_set = OperationSet (op_bytes: bytes)

datatype operation_set_error = OutOfRange i32 | NonZeroExcessBits

definition wf_opset :: "operation_set \<Rightarrow> bool" where
  "wf_opset s \<longleftrightarrow> length (op_bytes s) = 32"

definition opset_empty :: operation_set where
  "opset_empty = OperationSet (replicate 32 0)"

definition opset_from_bytes :: "bytes \<Rightarrow> operation_set_error + operation_set" where
  "opset_from_bytes bs =
     (if length bs > 32 \<and> list_ex (\<lambda>b. b \<noteq> 0) (drop 32 bs) then Err NonZeroExcessBits
      else (let copied = min (length bs) 32
            in Ok (OperationSet (take copied bs @ replicate (32 - copied) 0))))"

definition opset_is_empty :: "operation_set \<Rightarrow> bool" where
  "opset_is_empty s \<longleftrightarrow> list_all (\<lambda>b. b = 0) (op_bytes s)"

text \<open>\<open>usize::try_from(i32)\<close>\<close>

definition usize_of_i32 :: "i32 \<Rightarrow> nat option" where
  "usize_of_i32 v = (if sint v < 0 then None else Some (nat (sint v)))"

definition opset_contains :: "operation_set \<Rightarrow> contract_kind \<Rightarrow> bool" where
  "opset_contains s k =
     (case usize_of_i32 (kind_id k) of
        None \<Rightarrow> False
      | Some b \<Rightarrow>
          b div 8 < length (op_bytes s) \<and> op_bytes s ! (b div 8) AND push_bit (b mod 8) 1 \<noteq> 0)"

text \<open>Insertion answers whether the kind was new, next to the updated set.\<close>

definition opset_insert ::
  "operation_set \<Rightarrow> contract_kind \<Rightarrow> operation_set_error + (bool \<times> operation_set)" where
  "opset_insert s k =
     (let id = kind_id k;
          b = Option.bind (usize_of_i32 id) (\<lambda>b. if b < 256 then Some b else None)
      in and_then (ok_or (OutOfRange id) b) (\<lambda>b.
           let mask = push_bit (b mod 8) 1;
               byte = op_bytes s ! (b div 8)
           in Ok (byte AND mask = 0, OperationSet ((op_bytes s)[b div 8 := byte OR mask]))))"

definition opset_remove :: "operation_set \<Rightarrow> contract_kind \<Rightarrow> bool \<times> operation_set" where
  "opset_remove s k =
     (case usize_of_i32 (kind_id k) of
        None \<Rightarrow> (False, s)
      | Some b \<Rightarrow>
          if b div 8 < length (op_bytes s) then
            (let mask = push_bit (b mod 8) 1;
                 byte = op_bytes s ! (b div 8)
             in (byte AND mask \<noteq> 0, OperationSet ((op_bytes s)[b div 8 := byte AND NOT mask])))
          else (False, s))"

text \<open>The iterator: its \<open>next\<close>, and the list of what it yields.\<close>

function opset_next :: "operation_set \<Rightarrow> nat \<Rightarrow> contract_kind option \<times> nat" where
  "opset_next s n =
     (if n < 256 then
        (if op_bytes s ! (n div 8) AND push_bit (n mod 8) 1 \<noteq> 0
         then (Some (kind_from_i32 (of_nat n)), Suc n)
         else opset_next s (Suc n))
      else (None, n))"
  by auto
termination by (relation "measure (\<lambda>(s, n). 256 - n)") auto

declare opset_next.simps [simp del]

lemma opset_next_advances: "opset_next s n = (Some k, m) \<Longrightarrow> n < m \<and> m \<le> 256"
proof (induction s n rule: opset_next.induct)
  case (1 s n)
  show ?case
  proof (cases "n < 256 \<and> op_bytes s ! (n div 8) AND push_bit (n mod 8) 1 = 0")
    case True
    then have "opset_next s (Suc n) = (Some k, m)" using 1(2) by (subst (asm) opset_next.simps) simp
    with 1(1) True show ?thesis by fastforce
  next
    case False
    with 1(2) show ?thesis by (subst (asm) opset_next.simps) (auto split: if_splits)
  qed
qed

function opset_iter_from :: "operation_set \<Rightarrow> nat \<Rightarrow> contract_kind list" where
  "opset_iter_from s n =
     (case opset_next s n of (None, m) \<Rightarrow> [] | (Some k, m) \<Rightarrow> k # opset_iter_from s m)"
  by auto
termination
  by (relation "measure (\<lambda>(s, n). 256 - n)") (auto dest!: opset_next_advances [OF sym])

declare opset_iter_from.simps [simp del]

definition opset_iter :: "operation_set \<Rightarrow> contract_kind list" where
  "opset_iter s = opset_iter_from s 0"

fun opset_insert_all ::
  "operation_set \<Rightarrow> contract_kind list \<Rightarrow> operation_set_error + operation_set" where
  "opset_insert_all s [] = Ok s"
| "opset_insert_all s (k # ks) = and_then (opset_insert s k) (\<lambda>(_, s'). opset_insert_all s' ks)"

definition opset_try_from_iter :: "contract_kind list \<Rightarrow> operation_set_error + operation_set" where
  "opset_try_from_iter ks = opset_insert_all opset_empty ks"

section \<open>Refinement of a finite set of numbers\<close>

definition op_ids :: "operation_set \<Rightarrow> nat set" where
  "op_ids s = {i. i < 256 \<and> bit (op_bytes s ! (i div 8)) (i mod 8)}"

text \<open>The number of a kind the bitmap can hold.\<close>

definition op_index :: "contract_kind \<Rightarrow> nat option" where
  "op_index k = (if 0 \<le> sint (kind_id k) \<and> sint (kind_id k) < 256
                 then Some (nat (sint (kind_id k))) else None)"

lemma mask_bit: "(b :: u8) AND 2 ^ n = 0 \<longleftrightarrow> \<not> bit b n"
  by (simp add: and_exp_eq_0_iff_not_bit)

lemma bit_set_mask: "n < 8 \<Longrightarrow> bit ((b :: u8) OR 2 ^ n) m \<longleftrightarrow> bit b m \<or> m = n"
  by (auto simp: bit_simps)

lemma bit_clear_mask: "bit ((b :: u8) AND NOT (2 ^ n)) m \<longleftrightarrow> bit b m \<and> m \<noteq> n"
  by (auto simp: bit_simps dest: bit_imp_le_length)

lemma index_split: "(i :: nat) div 8 = j div 8 \<and> i mod 8 = j mod 8 \<longleftrightarrow> i = j"
  by (metis mult_div_mod_eq)

lemma byte_index: "(i :: nat) < 256 \<Longrightarrow> i div 8 < 32"
  by simp

lemma op_ids_set_bit:
  assumes "wf_opset s" and "i < 256"
  shows "op_ids (OperationSet ((op_bytes s)[i div 8 := op_bytes s ! (i div 8) OR push_bit (i mod 8) 1]))
         = insert i (op_ids s)"
proof (intro set_eqI)
  fix j
  have len: "i div 8 < length (op_bytes s)" using assms by (simp add: wf_opset_def)
  show "j \<in> op_ids (OperationSet ((op_bytes s)[i div 8 := op_bytes s ! (i div 8) OR push_bit (i mod 8) 1])) \<longleftrightarrow> j \<in> insert i (op_ids s)"
  proof (cases "j div 8 = i div 8")
    case True
    then have "j = i \<longleftrightarrow> j mod 8 = i mod 8" using index_split [of j i] by simp
    with True len assms(2) show ?thesis by (auto simp: op_ids_def bit_set_mask)
  next
    case False
    then have "j \<noteq> i" by auto
    with False show ?thesis by (auto simp: op_ids_def)
  qed
qed

lemma op_ids_clear_bit:
  assumes "wf_opset s" and "i < 256"
  shows "op_ids (OperationSet ((op_bytes s)[i div 8 := op_bytes s ! (i div 8) AND NOT (push_bit (i mod 8) 1)]))
         = op_ids s - {i}"
proof (intro set_eqI)
  fix j
  have len: "i div 8 < length (op_bytes s)" using assms by (simp add: wf_opset_def)
  show "j \<in> op_ids (OperationSet ((op_bytes s)[i div 8 := op_bytes s ! (i div 8) AND NOT (push_bit (i mod 8) 1)])) \<longleftrightarrow> j \<in> op_ids s - {i}"
  proof (cases "j div 8 = i div 8")
    case True
    then have "j = i \<longleftrightarrow> j mod 8 = i mod 8" using index_split [of j i] by simp
    with True len assms(2) show ?thesis by (auto simp: op_ids_def bit_clear_mask)
  next
    case False
    then have "j \<noteq> i" by auto
    with False show ?thesis by (auto simp: op_ids_def)
  qed
qed

lemma op_index_usize:
  "op_index k = Option.bind (usize_of_i32 (kind_id k)) (\<lambda>b. if b < 256 then Some b else None)"
  by (auto simp: op_index_def usize_of_i32_def)

lemma op_index_less: "op_index k = Some i \<Longrightarrow> i < 256"
  by (auto simp: op_index_def split: if_splits)

lemma contains_op_ids: "wf_opset s \<Longrightarrow> opset_contains s k \<longleftrightarrow> (\<exists>i. op_index k = Some i \<and> i \<in> op_ids s)"
  by (cases "usize_of_i32 (kind_id k)")
    (auto simp: opset_contains_def op_index_usize mask_bit op_ids_def wf_opset_def
       split: if_splits)

lemma insert_op_ids:
  assumes "wf_opset s"
  shows "opset_insert s k =
    (case op_index k of
       None \<Rightarrow> Err (OutOfRange (kind_id k))
     | Some i \<Rightarrow> Ok (i \<notin> op_ids s,
         OperationSet ((op_bytes s)[i div 8 := op_bytes s ! (i div 8) OR push_bit (i mod 8) 1])))"
  by (cases "op_index k")
    (auto simp: opset_insert_def Let_def mask_bit op_ids_def simp flip: op_index_usize
       dest: op_index_less)

lemma wf_opset_update: "wf_opset s \<Longrightarrow> wf_opset (OperationSet ((op_bytes s)[i := b]))"
  by (simp add: wf_opset_def)

lemma opset_refines_set_step:
  assumes wf: "wf_opset s"
  shows "case opset_insert s k of
          Inl e \<Rightarrow> op_index k = None \<and> e = OutOfRange (kind_id k)
        | Inr (new, s') \<Rightarrow>
            (\<exists>i. op_index k = Some i \<and> op_ids s' = insert i (op_ids s) \<and> (new \<longleftrightarrow> i \<notin> op_ids s))
            \<and> wf_opset s'"
  using wf op_ids_set_bit [OF wf op_index_less [of k]]
  by (cases "op_index k") (simp_all add: insert_op_ids wf_opset_update)

text \<open>
  C23: the bitmap is the finite set of the granted numbers: membership, insertion (with its
  answer and its range check) and removal do to the set what their names say, and keep the
  32 bytes.
\<close>

theorem opset_refines_set:
  assumes wf: "wf_opset s"
  shows "(opset_contains s k \<longleftrightarrow> (\<exists>i. op_index k = Some i \<and> i \<in> op_ids s))
    \<and> (case opset_insert s k of
          Inl e \<Rightarrow> op_index k = None \<and> e = OutOfRange (kind_id k)
        | Inr (new, s') \<Rightarrow>
            (\<exists>i. op_index k = Some i \<and> op_ids s' = insert i (op_ids s) \<and> (new \<longleftrightarrow> i \<notin> op_ids s))
            \<and> wf_opset s')
    \<and> op_ids (snd (opset_remove s k)) = op_ids s - set_option (op_index k)
    \<and> (fst (opset_remove s k) \<longleftrightarrow> opset_contains s k) \<and> wf_opset (snd (opset_remove s k))"
proof -
  have "op_ids (snd (opset_remove s k)) = op_ids s - set_option (op_index k)
      \<and> (fst (opset_remove s k) \<longleftrightarrow> opset_contains s k) \<and> wf_opset (snd (opset_remove s k))"
  proof (cases "op_index k")
    case None
    then show ?thesis
      using wf by (auto simp: opset_remove_def op_index_usize wf_opset_def opset_contains_def
          split: option.splits if_splits)
  next
    case (Some i)
    then have i: "usize_of_i32 (kind_id k) = Some i" "i < 256"
      by (auto simp: op_index_usize split: Option.bind_splits if_splits)
    then have "i div 8 < length (op_bytes s)" using wf by (simp add: wf_opset_def)
    then show ?thesis
      using op_ids_clear_bit [OF wf i(2)] wf i Some
      by (simp add: opset_remove_def Let_def wf_opset_update opset_contains_def)
  qed
  then show ?thesis using contains_op_ids [OF wf] opset_refines_set_step [OF wf] by blast
qed

theorem opset_refines_set_witness:
  "\<exists>s'. opset_insert opset_empty KVoteWitness = Ok (True, s') \<and> opset_contains s' KVoteWitness
     \<and> \<not> opset_contains s' KTransfer"
proof -
  have wf: "wf_opset opset_empty" by (simp add: wf_opset_def opset_empty_def)
  have i: "op_index KVoteWitness = Some 4" "op_index KTransfer = Some 1" by (simp_all add: op_index_def)
  have "op_ids opset_empty = {}" by (auto simp: op_ids_def opset_empty_def)
  then obtain s' where s': "opset_insert opset_empty KVoteWitness = Ok (True, s')" "op_ids s' = {4}" "wf_opset s'"
    using opset_refines_set [OF wf, of KVoteWitness] i by (auto split: sum.splits)
  with opset_refines_set [OF s'(3), of KVoteWitness] opset_refines_set [OF s'(3), of KTransfer] i
  show ?thesis by auto
qed

section \<open>Iteration and the wire form\<close>

lemma opset_iter_from_step:
  "opset_iter_from s n =
     (if n < 256 then
        (if bit (op_bytes s ! (n div 8)) (n mod 8)
         then kind_from_i32 (of_nat n) # opset_iter_from s (Suc n) else opset_iter_from s (Suc n))
      else [])"
proof -
  have "opset_next s n = opset_next s (Suc n)" if "n < 256" "\<not> bit (op_bytes s ! (n div 8)) (n mod 8)"
    using that by (subst opset_next.simps) (simp add: mask_bit)
  moreover have "opset_next s n = (Some (kind_from_i32 (of_nat n)), Suc n)"
    if "n < 256" "bit (op_bytes s ! (n div 8)) (n mod 8)"
    using that by (subst opset_next.simps) (simp add: mask_bit)
  moreover have "opset_next s n = (None, n)" if "\<not> n < 256"
    using that by (subst opset_next.simps) simp
  ultimately show ?thesis
    by (auto simp: opset_iter_from.simps [of s n] opset_iter_from.simps [of s "Suc n"]
        simp del: of_nat_Suc)
qed

lemma opset_iter_from_eq:
  "n \<le> 256 \<Longrightarrow> opset_iter_from s n = map (\<lambda>i. kind_from_i32 (of_nat i)) (filter (\<lambda>i. i \<in> op_ids s) [n..<256])"
proof (induction n rule: inc_induct)
  case base
  then show ?case by (subst opset_iter_from_step) simp
next
  case (step n)
  then show ?case
    by (subst opset_iter_from_step) (simp add: upt_conv_Cons op_ids_def)
qed

lemma opset_iter_eq:
  "opset_iter s = map (\<lambda>i. kind_from_i32 (of_nat i)) (filter (\<lambda>i. i \<in> op_ids s) [0..<256])"
  by (simp add: opset_iter_def opset_iter_from_eq)

lemma op_index_kind_from: "i < 256 \<Longrightarrow> op_index (kind_from_i32 (of_nat i)) = Some i"
proof -
  assume "i < 256"
  then have "sint (of_nat i :: i32) = int i"
    by (simp add: signed_of_nat signed_take_bit_int_eq_self)
  with \<open>i < 256\<close> show ?thesis by (simp add: op_index_def kind_id_from)
qed

lemma opset_insert_all_ids:
  assumes "\<forall>k\<in>set ks. op_index k \<noteq> None" and "wf_opset s"
  shows "\<exists>t. opset_insert_all s ks = Ok t \<and> wf_opset t
      \<and> op_ids t = op_ids s \<union> (\<lambda>k. the (op_index k)) ` set ks"
  using assms
proof (induction ks arbitrary: s)
  case Nil
  then show ?case by simp
next
  case (Cons k ks)
  then obtain i where i: "op_index k = Some i" by auto
  then obtain new s' where s': "opset_insert s k = Ok (new, s')" "wf_opset s'"
      "op_ids s' = insert i (op_ids s)"
    using opset_refines_set_step [of s k] Cons.prems by (auto split: sum.splits)
  with Cons.IH [of s'] Cons.prems i show ?case by auto
qed

lemma opset_ext:
  assumes "wf_opset s" "wf_opset t" "op_ids s = op_ids t"
  shows "s = t"
proof -
  have "bit (op_bytes s ! q) n = bit (op_bytes t ! q) n" if "q < 32" "n < 8" for q n
  proof -
    have "(8 * q + n) div 8 = q" "(8 * q + n) mod 8 = n" "8 * q + n < 256" using that by simp_all
    with assms(3) show ?thesis unfolding op_ids_def by (metis (no_types, lifting) mem_Collect_eq)
  qed
  then have "op_bytes s ! q = op_bytes t ! q" if "q < 32" for q
    using that by (intro bit_word_eqI) simp
  with assms show ?thesis
    by (cases s; cases t) (auto simp: wf_opset_def intro: nth_equalityI)
qed

lemma wf_opset_empty [simp]: "wf_opset opset_empty"
  by (simp add: wf_opset_def opset_empty_def)

lemma op_ids_empty [simp]: "op_ids opset_empty = {}"
  by (auto simp: op_ids_def opset_empty_def)

text \<open>
  An operation set survives being listed and rebuilt, and being sent and read back:
  iteration yields exactly the granted kinds in increasing number, collecting them gives the
  set back, and the 32 bytes decode to the set they came from.
\<close>

theorem opset_roundtrips:
  assumes "wf_opset s"
  shows "map (\<lambda>k. unat (kind_id k)) (opset_iter s) = sorted_list_of_set (op_ids s)
         \<and> opset_try_from_iter (opset_iter s) = Ok s
         \<and> opset_from_bytes (op_bytes s) = Ok s"
proof (intro conjI)
  have "map (\<lambda>k. unat (kind_id k)) (opset_iter s) = filter (\<lambda>i. i \<in> op_ids s) [0..<256]"
    by (auto simp: opset_iter_eq kind_id_from unat_of_nat intro!: map_idI)
  also have "\<dots> = sorted_list_of_set (op_ids s)"
    by (rule sorted_distinct_set_unique) (auto simp: op_ids_def sorted_wrt_filter)
  finally show "map (\<lambda>k. unat (kind_id k)) (opset_iter s) = sorted_list_of_set (op_ids s)" .
  have idx: "\<forall>k\<in>set (opset_iter s). op_index k \<noteq> None"
    "(\<lambda>k. the (op_index k)) ` set (opset_iter s) = op_ids s"
    by (auto simp: opset_iter_eq op_index_kind_from image_image op_ids_def cong: image_cong_simp)
  from opset_insert_all_ids [OF idx(1) wf_opset_empty] idx(2) obtain t
    where "opset_insert_all opset_empty (opset_iter s) = Ok t" "wf_opset t" "op_ids t = op_ids s"
    by auto
  with opset_ext [of t s] assms show "opset_try_from_iter (opset_iter s) = Ok s"
    by (simp add: opset_try_from_iter_def)
  show "opset_from_bytes (op_bytes s) = Ok s"
    using assms by (cases s) (simp add: opset_from_bytes_def wf_opset_def)
qed

theorem opset_roundtrips_witness:
  "\<exists>s. wf_opset s \<and> op_ids s = {4, 30} \<and> opset_try_from_iter (opset_iter s) = Ok s"
proof -
  have "\<forall>k\<in>set [KVoteWitness, KCreateSmartContract]. op_index k \<noteq> None"
    by (simp add: op_index_def)
  from opset_insert_all_ids [OF this wf_opset_empty]
  obtain s where "wf_opset s" "op_ids s = {4, 30}" by (auto simp: op_index_def)
  with opset_roundtrips show ?thesis by blast
qed

lemma opset_from_bytes_Ok_iff:
  "opset_from_bytes bs = Ok s \<longleftrightarrow>
     (\<forall>b\<in>set (drop 32 bs). b = 0) \<and> s = OperationSet (take 32 bs @ replicate (32 - length bs) 0)"
  by (cases "length bs > 32") (auto simp: opset_from_bytes_def list_ex_iff Let_def min_def)

lemma opset_from_bytes_wf: "opset_from_bytes bs = Ok s \<Longrightarrow> wf_opset s"
  by (auto simp: opset_from_bytes_Ok_iff wf_opset_def)

end
