(* ===== verification/Utf8.thy ===== *)
theory Utf8
  imports Prelude
begin

text \<open>
  \<open>String::from_utf8_lossy\<close> of the Rust standard library, which the codec applies to every
  text field a node sends as bytes: well-formed sequences are kept, and each maximal
  ill-formed part becomes U+FFFD (EF BF BD).
\<close>

definition nth_or_zero :: "bytes \<Rightarrow> nat \<Rightarrow> u8" where
  "nth_or_zero bs i = (if i < length bs then bs ! i else 0)"

definition is_cont :: "u8 \<Rightarrow> bool" where
  "is_cont b \<longleftrightarrow> 0x80 \<le> b \<and> b \<le> 0xBF"

definition second_of_three :: "u8 \<Rightarrow> u8 \<Rightarrow> bool" where
  "second_of_three b0 b1 \<longleftrightarrow>
     (if b0 = 0xE0 then 0xA0 \<le> b1 \<and> b1 \<le> 0xBF
      else if b0 = 0xED then 0x80 \<le> b1 \<and> b1 \<le> 0x9F
      else is_cont b1)"

definition second_of_four :: "u8 \<Rightarrow> u8 \<Rightarrow> bool" where
  "second_of_four b0 b1 \<longleftrightarrow>
     (if b0 = 0xF0 then 0x90 \<le> b1 \<and> b1 \<le> 0xBF
      else if b0 = 0xF4 then 0x80 \<le> b1 \<and> b1 \<le> 0x8F
      else is_cont b1)"

definition utf8_width :: "u8 \<Rightarrow> nat" where
  "utf8_width b =
     (if b < 0x80 then 1
      else if 0xC2 \<le> b \<and> b \<le> 0xDF then 2
      else if 0xE0 \<le> b \<and> b \<le> 0xEF then 3
      else if 0xF0 \<le> b \<and> b \<le> 0xF4 then 4
      else 0)"

text \<open>
  One step at the head of a non-empty input: whether a scalar value starts here, and how many
  bytes it, or the ill-formed part, takes.
\<close>

definition utf8_step :: "bytes \<Rightarrow> bool \<times> nat" where
  "utf8_step bs =
     (let b0 = nth_or_zero bs 0; b1 = nth_or_zero bs 1; b2 = nth_or_zero bs 2; b3 = nth_or_zero bs 3
      in if utf8_width b0 = 1 then (True, 1)
         else if utf8_width b0 = 2 then (if is_cont b1 then (True, 2) else (False, 1))
         else if utf8_width b0 = 3 then
           (if \<not> second_of_three b0 b1 then (False, 1)
            else if is_cont b2 then (True, 3) else (False, 2))
         else if utf8_width b0 = 4 then
           (if \<not> second_of_four b0 b1 then (False, 1)
            else if \<not> is_cont b2 then (False, 2)
            else if is_cont b3 then (True, 4) else (False, 3))
         else (False, 1))"

lemma utf8_step_pos: "snd (utf8_step bs) \<noteq> 0"
  by (simp add: utf8_step_def Let_def)

function utf8_lossy :: "bytes \<Rightarrow> bytes" where
  "utf8_lossy bs =
     (if bs = [] then []
      else (let s = utf8_step bs
            in (if fst s then take (snd s) bs else [0xEF, 0xBF, 0xBD])
               @ utf8_lossy (drop (snd s) bs)))"
  by auto
termination
  by (relation "measure length") (auto simp: utf8_step_pos neq0_conv [symmetric])

function valid_utf8 :: "bytes \<Rightarrow> bool" where
  "valid_utf8 bs \<longleftrightarrow>
     (if bs = [] then True
      else let s = utf8_step bs in fst s \<and> valid_utf8 (drop (snd s) bs))"
  by auto
termination
  by (relation "measure length") (auto simp: utf8_step_pos neq0_conv [symmetric])

declare utf8_lossy.simps [simp del] valid_utf8.simps [simp del]

definition from_utf8_lossy :: "bytes \<Rightarrow> string" where
  "from_utf8_lossy bs = bytes_str (utf8_lossy bs)"

lemma utf8_empty [simp]: "utf8_lossy [] = []" "valid_utf8 []"
  by (simp_all add: utf8_lossy.simps valid_utf8.simps)

text \<open>A well-formed head depends only on the bytes it takes.\<close>

lemma nth_or_zero_append: "i < length xs \<Longrightarrow> nth_or_zero (xs @ ys) i = nth_or_zero xs i"
  by (simp add: nth_or_zero_def nth_append)

lemma not_cont_zero [simp]: "\<not> is_cont 0"
  by (simp add: is_cont_def)

lemma utf8_step_cases:
  assumes "fst (utf8_step bs)"
  shows "utf8_step bs = (True, 1)
    \<or> utf8_step bs = (True, 2) \<and> is_cont (nth_or_zero bs 1)
    \<or> utf8_step bs = (True, 3) \<and> is_cont (nth_or_zero bs 2)
    \<or> utf8_step bs = (True, 4) \<and> is_cont (nth_or_zero bs 3)"
  using assms unfolding utf8_step_def Let_def by (simp split: if_splits)

lemma cont_index: "is_cont (nth_or_zero bs i) \<Longrightarrow> i < length bs"
  by (auto simp: nth_or_zero_def split: if_splits)

lemma utf8_step_complete: "bs \<noteq> [] \<Longrightarrow> fst (utf8_step bs) \<Longrightarrow> snd (utf8_step bs) \<le> length bs"
  by (drule utf8_step_cases) (auto dest!: cont_index simp: Suc_le_eq)

lemma utf8_step_local:
  assumes "utf8_step bs = (True, n)" "\<And>i. i < n \<Longrightarrow> nth_or_zero cs i = nth_or_zero bs i"
  shows "utf8_step cs = (True, n)"
  using assms(1) assms(2) [of 0] assms(2) [of 1] assms(2) [of 2] assms(2) [of 3]
  unfolding utf8_step_def Let_def by (simp split: if_splits)

lemma utf8_step_append:
  assumes "bs \<noteq> []" "fst (utf8_step bs)"
  shows "utf8_step (take (snd (utf8_step bs)) bs @ ys) = utf8_step bs"
proof -
  have n: "snd (utf8_step bs) \<le> length bs" using utf8_step_complete [OF assms] .
  have "utf8_step bs = (True, snd (utf8_step bs))" using assms(2) by (metis prod.collapse)
  moreover have "nth_or_zero (take (snd (utf8_step bs)) bs @ ys) i = nth_or_zero bs i"
    if "i < snd (utf8_step bs)" for i
    using that n by (simp add: nth_or_zero_def nth_append)
  ultimately show ?thesis using utf8_step_local by metis
qed

lemma utf8_lossy_valid: "valid_utf8 bs \<Longrightarrow> utf8_lossy bs = bs"
proof (induction bs rule: utf8_lossy.induct)
  case (1 bs)
  show ?case
  proof (cases "bs = []")
    case False
    then have "fst (utf8_step bs)" "valid_utf8 (drop (snd (utf8_step bs)) bs)"
      using 1(2) by (subst (asm) valid_utf8.simps, simp add: Let_def)+
    with 1(1) False show ?thesis by (subst utf8_lossy.simps) (simp add: Let_def)
  qed simp
qed

lemma valid_utf8_head:
  assumes "bs \<noteq> []" "fst (utf8_step bs)" "valid_utf8 ys"
  shows "valid_utf8 (take (snd (utf8_step bs)) bs @ ys)"
proof -
  have "length (take (snd (utf8_step bs)) bs) = snd (utf8_step bs)"
    using utf8_step_complete [OF assms(1,2)] by simp
  with assms show ?thesis
    by (subst valid_utf8.simps) (simp add: utf8_step_append Let_def)
qed

lemma valid_utf8_lossy: "valid_utf8 (utf8_lossy bs)"
proof (induction bs rule: utf8_lossy.induct)
  case (1 bs)
  show ?case
  proof (cases "bs = []")
    case False
    with 1 have tail: "valid_utf8 (utf8_lossy (drop (snd (utf8_step bs)) bs))" by simp
    have "utf8_step [0xEF, 0xBF, 0xBD] = (True, 3)"
      by (simp add: utf8_step_def nth_or_zero_def is_cont_def utf8_width_def second_of_three_def)
    then have "valid_utf8 ([0xEF, 0xBF, 0xBD] @ utf8_lossy (drop (snd (utf8_step bs)) bs))"
      using valid_utf8_head [of "[0xEF, 0xBF, 0xBD]", OF _ _ tail] by simp
    moreover have "fst (utf8_step bs) \<Longrightarrow>
        valid_utf8 (take (snd (utf8_step bs)) bs @ utf8_lossy (drop (snd (utf8_step bs)) bs))"
      using valid_utf8_head [OF False _ tail] .
    ultimately show ?thesis by (subst utf8_lossy.simps) (simp add: Let_def False)
  qed simp
qed

text \<open>
  The lossy conversion always yields well-formed UTF-8, leaves well-formed text as it
  is, and so changes nothing the second time.
\<close>

lemma from_utf8_lossy_sound:
  "valid_utf8 (str_bytes (from_utf8_lossy bs))
   \<and> (from_utf8_lossy bs = bytes_str bs \<longleftrightarrow> valid_utf8 bs)
   \<and> from_utf8_lossy (str_bytes (from_utf8_lossy bs)) = from_utf8_lossy bs"
proof -
  have "utf8_lossy bs = bs \<longleftrightarrow> valid_utf8 bs"
    using utf8_lossy_valid valid_utf8_lossy [of bs] by auto
  moreover have "bytes_str x = bytes_str y \<longleftrightarrow> x = y" for x y
    by (metis bytes_str_inverse)
  ultimately show ?thesis
    by (simp add: from_utf8_lossy_def valid_utf8_lossy utf8_lossy_valid)
qed

end
