(* ===== verification/Response_Error.thy ===== *)
theory Response_Error
  imports Address Signature Operation_Set Utf8
begin

text \<open>
  The errors of reading a node's answer (\<open>crates/rpc-types/src/error.rs\<close>).  A malformed
  answer carries the text of its message; where the source formats another error or a number
  into the text, the model keeps the prefix and the value.
\<close>

datatype message_text =
    Msg string
  | MsgAddress string address_error
  | MsgSignature string signature_error
  | MsgOperations string operation_set_error
  | MsgNumber string u64

datatype response_error =
    DecodeFailed
  | Malformed message_text
  | NodeError string

abbreviation malformed :: "string \<Rightarrow> response_error" where
  "malformed s \<equiv> Malformed (Msg s)"

end
