(* ===== verification/Proto_Scan.thy ===== *)
theory Proto_Scan
  imports Response_Error
begin

text \<open>
  The protobuf scanner of \<open>crates/rpc-types/src/types/transaction.rs\<close>: \<open>read_varint\<close>,
  \<open>skip\<close> and \<open>extract_raw_data\<close>, which finds the bytes of the transaction's first field so
  that the id can be computed from what the node sent.  The cursor a function advances is
  returned next to its value.
\<close>

section \<open>The scanner\<close>

fun read_varint_loop :: "bytes \<Rightarrow> nat \<Rightarrow> u64 \<Rightarrow> nat list \<Rightarrow> response_error + (u64 \<times> nat)" where
  "read_varint_loop enc cursor value [] = Err (malformed ''protobuf varint is too long'')"
| "read_varint_loop enc cursor value (shift # shifts) =
     (if \<not> cursor < length enc then Err (malformed ''truncated protobuf varint'')
      else let byte = enc ! cursor in
        if shift = 63 \<and> byte > 1 then Err (malformed ''protobuf varint overflows u64'')
        else let value' = value OR push_bit shift (ucast (byte AND 0x7F)) in
          if byte AND 0x80 = 0 then Ok (value', Suc cursor)
          else read_varint_loop enc (Suc cursor) value' shifts)"

definition varint_shifts :: "nat list" where
  "varint_shifts = map (\<lambda>i. 7 * i) [0..<10]"

definition read_varint :: "bytes \<Rightarrow> nat \<Rightarrow> response_error + (u64 \<times> nat)" where
  "read_varint enc cursor = read_varint_loop enc cursor 0 varint_shifts"

definition scan_skip :: "bytes \<Rightarrow> nat \<Rightarrow> nat \<Rightarrow> response_error + nat" where
  "scan_skip enc cursor len =
     (if cursor + len < 2 ^ 64 \<and> cursor + len \<le> length enc then Ok (cursor + len)
      else Err (malformed ''truncated protobuf field''))"

lemma read_varint_loop_advances:
  "read_varint_loop enc c v ss = Ok (w, c') \<Longrightarrow> c < c' \<and> c' \<le> length enc"
  by (induction enc c v ss rule: read_varint_loop.induct) (fastforce simp: Let_def split: if_splits)+

lemma read_varint_advances: "read_varint enc c = Ok (w, c') \<Longrightarrow> c < c' \<and> c' \<le> length enc"
  by (simp add: read_varint_def read_varint_loop_advances)

lemma scan_skip_Ok_iff [result_simps]:
  "scan_skip enc c n = Ok c' \<longleftrightarrow> c' = c + n \<and> c + n < 2 ^ 64 \<and> c + n \<le> length enc"
  by (auto simp: scan_skip_def)

text \<open>
  One turn of the loop of \<open>extract_raw_data\<close>.  A length fits \<open>usize\<close>, which is 64 bits wide.
\<close>

definition scan_field ::
  "bytes \<Rightarrow> nat \<Rightarrow> bytes option \<Rightarrow> response_error + (nat \<times> bytes option)" where
  "scan_field enc cursor raw =
     and_then (read_varint enc cursor) (\<lambda>(key, cursor).
       let field = drop_bit 3 key; wire = key AND 7 in
       if wire = 0 then and_then (read_varint enc cursor) (\<lambda>(_, cursor). Ok (cursor, raw))
       else if wire = 1 then and_then (scan_skip enc cursor 8) (\<lambda>cursor. Ok (cursor, raw))
       else if wire = 2 then
         and_then (read_varint enc cursor) (\<lambda>(len, start).
           and_then (scan_skip enc start (unat len)) (\<lambda>cursor.
             if field = 1 then
               (if raw \<noteq> None then Err (malformed ''transaction has repeated raw_data fields'')
                else Ok (cursor, Some (take (cursor - start) (drop start enc))))
             else Ok (cursor, raw)))
       else if wire = 5 then and_then (scan_skip enc cursor 4) (\<lambda>cursor. Ok (cursor, raw))
       else Err (Malformed (MsgNumber ''unsupported protobuf wire type '' wire)))"

lemma scan_field_advances:
  assumes "scan_field enc c raw = Ok (c', raw')"
  shows "c < c' \<and> c' \<le> length enc"
proof -
  obtain key d where d: "read_varint enc c = Ok (key, d)" "c < d" "d \<le> length enc"
    using assms read_varint_advances [of enc c] by (auto simp: scan_field_def result_simps)
  show ?thesis
    using assms d read_varint_advances [of enc d]
    by (auto simp: scan_field_def result_simps Let_def split: if_splits)
qed

function extract_loop :: "bytes \<Rightarrow> nat \<Rightarrow> bytes option \<Rightarrow> response_error + bytes option" where
  "extract_loop enc cursor raw =
     (if cursor < length enc then
        (case scan_field enc cursor raw of
           Inl e \<Rightarrow> Err e
         | Inr (cursor', raw') \<Rightarrow> extract_loop enc cursor' raw')
      else Ok raw)"
  by auto
termination
  by (relation "measure (\<lambda>(enc, c, _). length enc - c)")
    (auto dest!: scan_field_advances)

declare extract_loop.simps [simp del]

definition extract_raw_data :: "bytes \<Rightarrow> response_error + bytes" where
  "extract_raw_data enc =
     and_then (extract_loop enc 0 None)
       (ok_or (malformed ''transaction has no raw_data''))"

section \<open>The wire format\<close>

text \<open>The base-128 encoding of a number, and a field with a length in front of it.\<close>

fun varint :: "nat \<Rightarrow> bytes" where
  "varint n = (if n < 128 then [of_nat n] else of_nat (128 + n mod 128) # varint (n div 128))"

declare varint.simps [simp del]

definition len_field :: "nat \<Rightarrow> bytes \<Rightarrow> bytes" where
  "len_field field bs = varint (8 * field + 2) @ varint (length bs) @ bs"

lemma varint_not_empty [simp]: "varint n \<noteq> []"
  by (subst varint.simps) simp

lemma varint_length: "n < 128 ^ k \<Longrightarrow> 0 < k \<Longrightarrow> length (varint n) \<le> k"
proof (induction n arbitrary: k rule: varint.induct)
  case (1 n)
  show ?case
  proof (cases "n < 128")
    case True
    with 1 show ?thesis by (subst varint.simps) simp
  next
    case False
    then obtain j where j: "k = Suc j" "0 < j" using 1(2,3) by (cases k; cases "k - 1") auto
    then have "n div 128 < 128 ^ j" using 1(2) by (simp add: less_mult_imp_div_less mult.commute)
    with 1(1) False j show ?thesis by (subst varint.simps) simp
  qed
qed

lemma varint_small [simp]: "n < 128 \<Longrightarrow> varint n = [of_nat n]"
  by (subst varint.simps) simp

lemma varint_unroll: "128 \<le> n \<Longrightarrow> varint n = of_nat (128 + n mod 128) # varint (n div 128)"
  by (subst varint.simps) simp

lemma low_high_join: "of_nat (n mod 128) OR push_bit 7 (of_nat (n div 128)) = (of_nat n :: u64)"
proof (rule bit_word_eqI)
  fix i assume "i < LENGTH(64)"
  moreover have "n mod 128 = take_bit 7 n" "n div 128 = drop_bit 7 n"
    by (simp_all add: take_bit_eq_mod drop_bit_eq_div)
  ultimately show "bit (of_nat (n mod 128) OR push_bit 7 (of_nat (n div 128)) :: u64) i
      \<longleftrightarrow> bit (of_nat n :: u64) i"
    by (simp add: bit_simps) (auto simp: not_le)
qed

lemma byte_low7: "((of_nat m :: u8) AND 0x7F) = of_nat (m mod 128)"
proof (rule bit_word_eqI)
  fix i assume "i < LENGTH(8)"
  have e: "(0x7F::u8) = mask 7" by (simp add: mask_eq_exp_minus_1)
  have d: "m mod 128 = take_bit 7 m" by (simp add: take_bit_eq_mod)
  show "bit ((of_nat m :: u8) AND 0x7F) i \<longleftrightarrow> bit (of_nat (m mod 128) :: u8) i"
    unfolding e d by (simp only: bit_and_iff bit_mask_iff bit_of_nat_iff bit_take_bit_iff) blast
qed
lemma byte_top: "((of_nat m :: u8) AND 0x80) = 0 \<longleftrightarrow> even (m div 128)"
proof -
  have "((of_nat m :: u8) AND 2 ^ 7) = 0 \<longleftrightarrow> \<not> bit (of_nat m :: u8) 7"
    by (rule and_exp_eq_0_iff_not_bit)
  also have "\<dots> \<longleftrightarrow> \<not> bit m 7" by (simp only: bit_of_nat_iff) simp
  finally show ?thesis by (simp add: bit_iff_odd)
qed
lemma ucast_byte: "m < 256 \<Longrightarrow> (ucast (of_nat m :: u8) :: u64) = of_nat m"
  by (simp add: unsigned_of_nat take_bit_nat_eq_self)

lemma join_step: "(v OR push_bit s (of_nat (n mod 128))) OR push_bit (s + 7) (of_nat (n div 128)) = v OR push_bit s (of_nat n :: u64)"
proof -
  have "push_bit (s + 7) (of_nat (n div 128) :: u64) = push_bit s (push_bit 7 (of_nat (n div 128)))"
    by (simp add: push_bit_push_bit)
  then have "(v OR push_bit s (of_nat (n mod 128))) OR push_bit (s + 7) (of_nat (n div 128))
     = v OR push_bit s (of_nat (n mod 128) OR push_bit 7 (of_nat (n div 128) :: u64))"
    by (simp only: push_bit_or or.assoc)
  then show ?thesis by (simp only: low_high_join)
qed

lemma read_varint_last:
  "cursor < length enc \<Longrightarrow> enc ! cursor = b \<Longrightarrow> \<not> (shift = 63 \<and> b > 1) \<Longrightarrow> b AND 0x80 = 0 \<Longrightarrow>
   read_varint_loop enc cursor v (shift # ss) = Ok (v OR push_bit shift (ucast (b AND 0x7F)), Suc cursor)"
  by (simp only: read_varint_loop.simps Let_def if_True if_False simp_thms)

lemma read_varint_more:
  "cursor < length enc \<Longrightarrow> enc ! cursor = b \<Longrightarrow> \<not> (shift = 63 \<and> b > 1) \<Longrightarrow> b AND 0x80 \<noteq> 0 \<Longrightarrow>
   read_varint_loop enc cursor v (shift # ss)
     = read_varint_loop enc (Suc cursor) (v OR push_bit shift (ucast (b AND 0x7F))) ss"
  by (simp only: read_varint_loop.simps Let_def if_True if_False simp_thms)

text \<open>
  A number in any of its encodings: groups of seven bits, the low ones first, every byte but the last
  marked.  An encoder may pad a number with marked zeros, and the scanner does not mind.
\<close>

fun varint_num :: "bytes \<Rightarrow> nat" where
  "varint_num [] = 0"
| "varint_num (b # bs) = unat b mod 128 + 128 * varint_num bs"

definition marked :: "bytes \<Rightarrow> bool" where
  "marked bs \<longleftrightarrow> bs \<noteq> [] \<and> (\<forall>b\<in>set (butlast bs). 128 \<le> unat b) \<and> unat (List.last bs) < 128"

definition varint_ok :: "bytes \<Rightarrow> bool" where
  "varint_ok bs \<longleftrightarrow> marked bs \<and> length bs \<le> 10 \<and> varint_num bs < 2 ^ 64"

lemma marked_Nil [simp]: "\<not> marked []"
  by (simp add: marked_def)

lemma marked_Cons: "marked (b # bs) \<longleftrightarrow> (if bs = [] then unat b < 128 else 128 \<le> unat b \<and> marked bs)"
  by (auto simp: marked_def)

lemma byte_marked: "((b :: u8) AND 0x80) = 0 \<longleftrightarrow> unat b < 128"
proof -
  have "unat b < 2 ^ LENGTH(8)" by (rule unsigned_less)
  then have "unat b < 256" by simp
  then have "unat b div 128 = (if unat b < 128 then 0 else 1)" by (simp add: div_nat_eqI)
  then have "even (unat b div 128) \<longleftrightarrow> unat b < 128" by simp
  then show ?thesis using byte_top [of "unat b"] by simp
qed

lemma byte_low: "(ucast ((b :: u8) AND 0x7F) :: u64) = of_nat (unat b mod 128)"
proof -
  have "unat b mod 128 < 256" by (rule less_le_trans [of _ 128]) simp_all
  then show ?thesis using byte_low7 [of "unat b"] ucast_byte [of "unat b mod 128"]
    by (simp del: of_nat_mod)
qed

lemma seven_more:
  assumes "k < 9" and "unat (b :: u8) mod 128 + 128 * n < 2 ^ (64 - 7 * k) \<or> n < 2 ^ (64 - 7 * Suc k)"
  shows "n < 2 ^ (64 - 7 * Suc k) \<and> unat b mod 128 + 128 * n < 2 ^ (64 - 7 * k)"
proof -
  define m :: nat where "m = 2 ^ (64 - 7 * Suc k)"
  have e: "64 - 7 * k = 7 + (64 - 7 * Suc k)" using assms(1) by simp
  have p: "2 ^ (64 - 7 * k) = 128 * m" unfolding e power_add m_def by simp
  have "unat b mod 128 < 128" by simp
  with assms(2) show ?thesis unfolding p m_def [symmetric] by linarith
qed

lemma read_varint_loop_ok:
  assumes "marked ws" and "varint_num ws < 2 ^ (64 - 7 * k)" and "k + length ws \<le> 10"
  shows "read_varint_loop (xs @ ws @ ys) (length xs) v (map (\<lambda>i. 7 * i) [k..<10])
    = Ok (v OR push_bit (7 * k) (of_nat (varint_num ws)), length xs + length ws)"
  using assms
proof (induction ws arbitrary: k xs v)
  case Nil
  then show ?case by (simp add: marked_def)
next
  case (Cons b ws)
  have shifts: "map (\<lambda>i. 7 * i) [k..<10] = 7 * k # map (\<lambda>i. 7 * i) [Suc k..<10]"
    using Cons.prems(3) by (simp add: upt_conv_Cons)
  let ?e = "xs @ (b # ws) @ ys"
  have at: "length xs < length ?e" "?e ! length xs = b" by (simp_all add: nth_append)
  show ?case
  proof (cases "ws = []")
    case True
    with Cons.prems have small: "unat b < 128" "unat b < 2 ^ (64 - 7 * k)" by (simp_all add: marked_Cons)
    then have "\<not> (7 * k = 63 \<and> b > 1)" by (auto simp: word_less_nat_alt)
    moreover have "b AND 0x80 = 0" using small by (simp add: byte_marked)
    ultimately show ?thesis
      unfolding shifts using read_varint_last [OF at, of "7 * k"] True small by (simp add: byte_low)
  next
    case False
    with Cons.prems have m: "128 \<le> unat b" "marked ws" and k: "k < 9"
      by (auto simp: marked_Cons) (cases ws; simp)
    have "varint_num ws < 2 ^ (64 - 7 * Suc k)" using seven_more [OF k, of b "varint_num ws"] Cons.prems(2) by simp
    with Cons.prems(3) m have IH:
      "read_varint_loop ((xs @ [b]) @ ws @ ys) (length (xs @ [b])) u (map (\<lambda>i. 7 * i) [Suc k..<10])
        = Ok (u OR push_bit (7 * Suc k) (of_nat (varint_num ws)), length (xs @ [b]) + length ws)" for u
      by (intro Cons.IH) simp_all
    have "b AND 0x80 \<noteq> 0" using m(1) by (simp add: byte_marked)
    moreover have "\<not> (7 * k = 63 \<and> b > 1)" using k by simp
    moreover have "of_nat ((unat b mod 128 + 128 * varint_num ws) mod 128) = (of_nat (unat b mod 128) :: u64)"
      "(unat b mod 128 + 128 * varint_num ws) div 128 = varint_num ws" by simp_all
    ultimately show ?thesis
      unfolding shifts using read_varint_more [OF at, of "7 * k" v] IH [of "v OR push_bit (7 * k) (of_nat (unat b mod 128))"]
        join_step [of v "7 * k" "varint_num (b # ws)"]
      by (simp add: byte_low add.commute del: of_nat_mod)
  qed
qed

lemma read_varint_loop_sound:
  assumes "read_varint_loop enc c v (map (\<lambda>i. 7 * i) [k..<10]) = Ok (w, c')" and "k \<le> 10"
  shows "\<exists>ws. marked ws \<and> varint_num ws < 2 ^ (64 - 7 * k) \<and> k + length ws \<le> 10
    \<and> c' = c + length ws \<and> take (length ws) (drop c enc) = ws"
  using assms
proof (induction "10 - k" arbitrary: k c v)
  case 0
  then show ?case by simp
next
  case (Suc n)
  then have k: "k < 10" by simp
  have shifts: "map (\<lambda>i. 7 * i) [k..<10] = 7 * k # map (\<lambda>i. 7 * i) [Suc k..<10]"
    using k by (simp add: upt_conv_Cons)
  let ?b = "enc ! c"
  from Suc.prems(1) have c: "c < length enc" and one: "\<not> (7 * k = 63 \<and> ?b > 1)"
    unfolding shifts by (auto simp: Let_def split: if_splits)
  have d: "drop c enc = ?b # drop (Suc c) enc" using c by (simp add: Cons_nth_drop_Suc)
  show ?case
  proof (cases "?b AND 0x80 = 0")
    case True
    with Suc.prems(1) c one have c': "c' = Suc c" unfolding shifts by (auto simp: Let_def)
    have small: "unat ?b < 128" using True by (simp add: byte_marked)
    have "unat ?b < 2 ^ (64 - 7 * k)"
    proof (cases "k = 9")
      case True
      with one show ?thesis by (simp add: word_less_nat_alt)
    next
      case False
      then have "(2 :: nat) ^ 7 \<le> 2 ^ (64 - 7 * k)" using k by (intro power_increasing) simp_all
      with small show ?thesis by simp
    qed
    with small k c' d show ?thesis by (intro exI [of _ "[?b]"]) (simp add: marked_Cons)
  next
    case False
    have k9: "k < 9"
    proof (rule ccontr)
      assume "\<not> k < 9"
      with k one have "unat ?b \<le> 1" by (simp add: word_less_nat_alt not_less)
      with False show False by (simp add: byte_marked)
    qed
    have n: "n = 10 - Suc k" using Suc.hyps(2) by simp
    from Suc.prems(1) False c one obtain u where
      "read_varint_loop enc (Suc c) u (map (\<lambda>i. 7 * i) [Suc k..<10]) = Ok (w, c')"
      unfolding shifts by (auto simp: Let_def)
    from Suc.hyps(1) [OF n this] k obtain ws where ws: "marked ws"
      "varint_num ws < 2 ^ (64 - 7 * Suc k)" "Suc k + length ws \<le> 10" "c' = Suc c + length ws"
      "take (length ws) (drop (Suc c) enc) = ws" by auto
    have "marked (?b # ws)" using ws(1) False by (auto simp: marked_Cons byte_marked)
    moreover have "varint_num (?b # ws) < 2 ^ (64 - 7 * k)" using seven_more [OF k9, of ?b "varint_num ws"] ws(2) by simp
    moreover have "take (length (?b # ws)) (drop c enc) = ?b # ws" unfolding d using ws(5) by simp
    ultimately show ?thesis using ws by (intro exI [of _ "?b # ws"]) simp
  qed
qed

text \<open>What is read is a number in some encoding, and every encoding is read.\<close>

lemma read_varint_ok:
  "varint_ok ws \<Longrightarrow> read_varint (xs @ ws @ ys) (length xs) = Ok (of_nat (varint_num ws), length xs + length ws)"
  using read_varint_loop_ok [of ws 0 xs ys 0]
  by (simp add: varint_ok_def read_varint_def varint_shifts_def)

lemma read_varint_sound:
  assumes "read_varint enc c = Ok (w, c')"
  obtains ws where "varint_ok ws" and "c' = c + length ws" and "take (length ws) (drop c enc) = ws"
    and "w = of_nat (varint_num ws)"
proof -
  from assms read_varint_loop_sound [of enc c 0 0 w c'] obtain ws where
    ws: "varint_ok ws" "c' = c + length ws" "take (length ws) (drop c enc) = ws"
    by (auto simp: read_varint_def varint_shifts_def varint_ok_def)
  have c: "length (take c enc) = c" using read_varint_advances [OF assms] by simp
  have "enc = take c enc @ ws @ drop (length ws) (drop c enc)"
    using ws(3) by (metis append_take_drop_id)
  then have "read_varint enc c = Ok (of_nat (varint_num ws), c + length ws)"
    using read_varint_ok [OF ws(1), of "take c enc" "drop (length ws) (drop c enc)"] c by simp
  with assms ws that show thesis by simp
qed

text \<open>The shortest encoding is one of them.\<close>

lemma varint_marked: "marked (varint n) \<and> varint_num (varint n) = n"
proof (induction n rule: varint.induct)
  case (1 n)
  show ?case
  proof (cases "n < 128")
    case True
    then show ?thesis by (simp add: marked_def unat_of_nat)
  next
    case False
    have "128 + n mod 128 < 256" by simp
    then have "unat (of_nat (128 + n mod 128) :: u8) = 128 + n mod 128"
      by (simp add: unat_of_nat del: of_nat_add of_nat_mod)
    with 1 [OF False] False show ?thesis
      by (simp add: varint_unroll marked_Cons del: of_nat_add of_nat_mod)
  qed
qed

lemma varint_varint_ok: "n < 2 ^ 64 \<Longrightarrow> varint_ok (varint n)"
  using varint_marked [of n] varint_length [of n 10] by (simp add: varint_ok_def)

text \<open>Any 64-bit number is read back from its encoding, wherever it stands.\<close>

lemma read_varint_varint:
  assumes "n < 2 ^ 64"
  shows "read_varint (xs @ varint n @ ys) (length xs) = Ok (of_nat n, length xs + length (varint n))"
  using read_varint_ok [OF varint_varint_ok [OF assms]] varint_marked by simp

section \<open>Messages\<close>

text \<open>
  A field as it stands in a message: its key, and a number, eight bytes, bytes with a length in front
  of them, or four bytes.  The last three bits of the key say which, the others are its number.
\<close>

datatype scan_item =
    NumberItem bytes bytes
  | Fixed64Item bytes bytes
  | LengthItem bytes bytes bytes
  | Fixed32Item bytes bytes

fun item_bytes :: "scan_item \<Rightarrow> bytes" where
  "item_bytes (NumberItem key v) = key @ v"
| "item_bytes (Fixed64Item key bs) = key @ bs"
| "item_bytes (LengthItem key len bs) = key @ len @ bs"
| "item_bytes (Fixed32Item key bs) = key @ bs"

fun item_ok :: "scan_item \<Rightarrow> bool" where
  "item_ok (NumberItem key v) \<longleftrightarrow> varint_ok key \<and> varint_num key mod 8 = 0 \<and> varint_ok v"
| "item_ok (Fixed64Item key bs) \<longleftrightarrow> varint_ok key \<and> varint_num key mod 8 = 1 \<and> length bs = 8"
| "item_ok (LengthItem key len bs) \<longleftrightarrow>
     varint_ok key \<and> varint_num key mod 8 = 2 \<and> varint_ok len \<and> varint_num len = length bs"
| "item_ok (Fixed32Item key bs) \<longleftrightarrow> varint_ok key \<and> varint_num key mod 8 = 5 \<and> length bs = 4"

text \<open>Raw data is bytes with a length in front of them in a field numbered 1.\<close>

fun item_raw :: "scan_item \<Rightarrow> bytes option" where
  "item_raw (LengthItem key len bs) = (if varint_num key div 8 = 1 then Some bs else None)"
| "item_raw _ = None"

definition message_bytes :: "scan_item list \<Rightarrow> bytes" where
  "message_bytes fs = concat (map item_bytes fs)"

definition message_raws :: "scan_item list \<Rightarrow> bytes list" where
  "message_raws fs = List.map_filter item_raw fs"

lemma message_simps [simp]:
  "message_bytes [] = []" "message_bytes (f # fs) = item_bytes f @ message_bytes fs"
  "message_raws [] = []"
  "message_raws (f # fs) = (case item_raw f of None \<Rightarrow> message_raws fs | Some b \<Rightarrow> b # message_raws fs)"
  by (simp_all add: message_bytes_def message_raws_def map_filter_simps split: option.split)

text \<open>The two parts of a key.\<close>

lemma key_parts:
  assumes "n < 2 ^ 64"
  shows "drop_bit 3 (of_nat n :: u64) = of_nat (n div 8)" and "(of_nat n :: u64) AND 7 = of_nat (n mod 8)"
proof -
  have n: "unat (of_nat n :: u64) = n" using assms by (simp add: unat_of_nat take_bit_nat_eq_self)
  have "unat (drop_bit 3 (of_nat n :: u64)) = n div 8"
    unfolding unsigned_drop_bit_eq n using assms by (simp add: drop_bit_eq_div take_bit_nat_eq_self)
  then have "of_nat (unat (drop_bit 3 (of_nat n :: u64))) = (of_nat (n div 8) :: u64)" by simp
  then show "drop_bit 3 (of_nat n :: u64) = of_nat (n div 8)" by simp
  have "(7 :: u64) = mask 3" by (simp add: mask_eq_exp_minus_1)
  then have "(of_nat n :: u64) AND 7 = take_bit 3 (of_nat n)" by (simp only: take_bit_eq_mask)
  also have "\<dots> = of_nat (take_bit 3 n)" by (simp only: of_nat_take_bit)
  finally show "(of_nat n :: u64) AND 7 = of_nat (n mod 8)" by (simp add: take_bit_eq_mod)
qed

lemma of_nat_eq_u64: "m < 2 ^ 64 \<Longrightarrow> n < 2 ^ 64 \<Longrightarrow> (of_nat m :: u64) = of_nat n \<longleftrightarrow> m = n"
  by (simp add: word_of_nat_eq_iff take_bit_nat_eq_self)

lemma key_is_one: "n < 2 ^ 64 \<Longrightarrow> (of_nat (n div 8) :: u64) = 1 \<longleftrightarrow> n div 8 = 1"
  using of_nat_eq_u64 [of "n div 8" 1] by simp

text \<open>One turn of the scanner takes one item.\<close>

lemma scan_field_item:
  assumes "item_ok f" and "length (xs @ item_bytes f @ ys) < 2 ^ 63"
  shows "scan_field (xs @ item_bytes f @ ys) (length xs) raw =
    (case item_raw f of
       None \<Rightarrow> Ok (length xs + length (item_bytes f), raw)
     | Some b \<Rightarrow>
         if raw \<noteq> None then Err (malformed ''transaction has repeated raw_data fields'')
         else Ok (length xs + length (item_bytes f), Some b))"
proof (cases f)
  case (NumberItem key v)
  let ?e = "xs @ key @ v @ ys"
  from assms NumberItem have ok: "varint_ok key" "varint_num key < 2 ^ 64" "varint_num key mod 8 = 0" "varint_ok v"
    by (simp_all add: varint_ok_def)
  have "read_varint ?e (length xs + length key) = Ok (of_nat (varint_num v), length xs + length key + length v)"
    using read_varint_ok [OF ok(4), of "xs @ key" ys] by simp
  then show ?thesis
    using NumberItem read_varint_ok [OF ok(1), of xs "v @ ys"] ok(3)
    by (simp add: scan_field_def Let_def key_parts [OF ok(2)])
next
  case (Fixed64Item key bs)
  let ?e = "xs @ key @ bs @ ys"
  from assms Fixed64Item have ok: "varint_ok key" "varint_num key < 2 ^ 64" "varint_num key mod 8 = 1" "length bs = 8"
    by (simp_all add: varint_ok_def)
  have "scan_skip ?e (length xs + length key) 8 = Ok (length xs + length key + 8)"
    using assms(2) Fixed64Item ok(4) by (simp add: scan_skip_def)
  then show ?thesis
    using Fixed64Item read_varint_ok [OF ok(1), of xs "bs @ ys"] ok(3,4)
    by (simp add: scan_field_def Let_def key_parts [OF ok(2)])
next
  case (Fixed32Item key bs)
  let ?e = "xs @ key @ bs @ ys"
  from assms Fixed32Item have ok: "varint_ok key" "varint_num key < 2 ^ 64" "varint_num key mod 8 = 5" "length bs = 4"
    by (simp_all add: varint_ok_def)
  have "scan_skip ?e (length xs + length key) 4 = Ok (length xs + length key + 4)"
    using assms(2) Fixed32Item ok(4) by (simp add: scan_skip_def)
  then show ?thesis
    using Fixed32Item read_varint_ok [OF ok(1), of xs "bs @ ys"] ok(3,4)
    by (simp add: scan_field_def Let_def key_parts [OF ok(2)])
next
  case (LengthItem key len bs)
  let ?e = "xs @ key @ len @ bs @ ys"
  from assms LengthItem have ok: "varint_ok key" "varint_num key < 2 ^ 64" "varint_num key mod 8 = 2" "varint_ok len"
      "varint_num len = length bs"
    by (simp_all add: varint_ok_def)
  have b: "unat (of_nat (length bs) :: u64) = length bs"
    using assms(2) LengthItem by (simp add: unat_of_nat take_bit_nat_eq_self)
  have "read_varint ?e (length xs + length key) = Ok (of_nat (length bs), length xs + length key + length len)"
    using read_varint_ok [OF ok(4), of "xs @ key" "bs @ ys"] ok(5) by simp
  moreover have "scan_skip ?e (length xs + length key + length len) (length bs)
      = Ok (length xs + length key + length len + length bs)"
    using assms(2) LengthItem by (simp add: scan_skip_def)
  moreover have "take (length bs) (drop (length xs + length key + length len) ?e) = bs" by simp
  ultimately show ?thesis
    using LengthItem read_varint_ok [OF ok(1), of xs "len @ bs @ ys"] ok(3)
    by (simp add: scan_field_def Let_def key_parts [OF ok(2)] key_is_one [OF ok(2)] b add.assoc)
qed

text \<open>What the scanner takes in one turn is an item.\<close>

lemma take_add_drop:
  "take m (drop c xs) = as \<Longrightarrow> take n (drop (c + m) xs) = bs \<Longrightarrow> take (m + n) (drop c xs) = as @ bs"
  by (simp add: take_add add.commute [of c])

lemma scan_field_sound:
  assumes "scan_field enc c raw = Ok (c', raw')" and "length enc < 2 ^ 63"
  obtains f where "item_ok f" and "c' = c + length (item_bytes f)"
    and "take (length (item_bytes f)) (drop c enc) = item_bytes f"
proof -
  from assms(1) obtain key d where key: "read_varint enc c = Ok (key, d)"
    by (auto simp: scan_field_def result_simps)
  from read_varint_sound [OF key] obtain ks where ks: "varint_ok ks" "d = c + length ks"
      "take (length ks) (drop c enc) = ks" "key = of_nat (varint_num ks)" .
  have n: "varint_num ks < 2 ^ 64" using ks(1) by (simp add: varint_ok_def)
  have wire: "key AND 7 = of_nat (varint_num ks mod 8)" using key_parts(2) [OF n] ks(4) by simp
  have wire_is: "key AND 7 = of_nat k \<longleftrightarrow> varint_num ks mod 8 = k" if "k < 8" for k
    unfolding wire using that of_nat_eq_u64 [of "varint_num ks mod 8" k] by simp
  note found = that
  have plain: thesis if "item_ok f" "item_bytes f = ks @ bs" "c' = d + length bs" "take (length bs) (drop d enc) = bs"
    for f bs
    using that ks(2) take_add_drop [OF ks(3), of "length bs" bs] by (intro found [of f]) simp_all
  have block: thesis if "scan_skip enc d k = Ok c'" "\<And>bs. length bs = k \<Longrightarrow> item_ok (F bs)" "\<And>bs. item_bytes (F bs) = ks @ bs"
    for F k
  proof -
    from that(1) have "length (take k (drop d enc)) = k" "c' = d + k" by (auto simp: result_simps)
    with that(2,3) show thesis by (intro plain [of "F (take k (drop d enc))" "take k (drop d enc)"]) simp_all
  qed
  consider "varint_num ks mod 8 = 0" | "varint_num ks mod 8 = 1" | "varint_num ks mod 8 = 2" | "varint_num ks mod 8 = 5"
    using assms(1) wire_is [of 0] wire_is [of 1] wire_is [of 2] wire_is [of 5]
    by (auto simp: scan_field_def Let_def key split: if_splits)
  then show thesis
  proof cases
    case 1
    with assms(1) wire obtain v where "read_varint enc d = Ok (v, c')"
      by (auto simp: scan_field_def Let_def key result_simps)
    from read_varint_sound [OF this] obtain vs where "varint_ok vs" "c' = d + length vs" "take (length vs) (drop d enc) = vs" .
    with ks(1) 1 show thesis by (intro plain [of "NumberItem ks vs" vs]) simp_all
  next
    case 2
    with assms(1) wire have "scan_skip enc d 8 = Ok c'" by (auto simp: scan_field_def Let_def key result_simps)
    with ks(1) 2 show thesis by (intro block [of 8 "Fixed64Item ks"]) simp_all
  next
    case 3
    with assms(1) wire obtain len start where len: "read_varint enc d = Ok (len, start)"
      and skip: "scan_skip enc start (unat len) = Ok c'"
      by (auto simp: scan_field_def Let_def key result_simps split: if_splits)
    from read_varint_sound [OF len] obtain ls where ls: "varint_ok ls" "start = d + length ls"
      "take (length ls) (drop d enc) = ls" "len = of_nat (varint_num ls)" .
    let ?bs = "take (unat len) (drop start enc)"
    have bs: "length ?bs = unat len" "c' = start + unat len" using skip by (auto simp: result_simps)
    have "unat len = varint_num ls"
      unfolding ls(4) using ls(1) by (simp add: varint_ok_def unat_of_nat take_bit_nat_eq_self)
    with bs(1) have "varint_num ls = length ?bs" by simp
    moreover have "take (length ls + length ?bs) (drop d enc) = ls @ ?bs"
      using take_add_drop [OF ls(3), of "length ?bs" ?bs] ls(2) bs(1) by simp
    ultimately show thesis using ks(1) ls(1,2) 3 bs
      by (intro plain [of "LengthItem ks ls ?bs" "ls @ ?bs"]) simp_all
  next
    case 4
    with assms(1) wire have "scan_skip enc d 4 = Ok c'" by (auto simp: scan_field_def Let_def key result_simps)
    with ks(1) 4 show thesis by (intro block [of 4 "Fixed32Item ks"]) simp_all
  qed
qed

section \<open>Finding the raw data\<close>

text \<open>What the scanner says of a message, given the raw data in it.\<close>

fun scan_verdict :: "bytes option \<Rightarrow> bytes list \<Rightarrow> response_error + bytes option" where
  "scan_verdict raw [] = Ok raw"
| "scan_verdict None [b] = Ok (Some b)"
| "scan_verdict raw bs = Err (malformed ''transaction has repeated raw_data fields'')"

lemma scan_verdict_Cons:
  "scan_verdict None (b # bs) = scan_verdict (Some b) bs"
  "scan_verdict (Some r) (b # bs) = Err (malformed ''transaction has repeated raw_data fields'')"
  by (cases bs; simp)+

lemma varint_ok_not_empty [simp]: "\<not> varint_ok []"
  by (simp add: varint_ok_def)

lemma item_not_empty: "item_ok f \<Longrightarrow> item_bytes f \<noteq> []"
  by (cases f) auto

lemma extract_loop_message:
  assumes "\<forall>f\<in>set fs. item_ok f" and "length (xs @ message_bytes fs) < 2 ^ 63"
  shows "extract_loop (xs @ message_bytes fs) (length xs) raw = scan_verdict raw (message_raws fs)"
  using assms
proof (induction fs arbitrary: xs raw)
  case Nil
  then show ?case by (simp add: extract_loop.simps)
next
  case (Cons f fs)
  let ?enc = "xs @ item_bytes f @ message_bytes fs"
  have f: "item_ok f" and fit: "length ?enc < 2 ^ 63" using Cons.prems by simp_all
  have IH: "extract_loop ?enc (length xs + length (item_bytes f)) r = scan_verdict r (message_raws fs)" for r
    using Cons.IH [of "xs @ item_bytes f" r] Cons.prems fit by simp
  have step: "extract_loop ?enc (length xs) raw =
    (case scan_field ?enc (length xs) raw of Inl e \<Rightarrow> Err e | Inr (c, r) \<Rightarrow> extract_loop ?enc c r)"
    using item_not_empty [OF f] by (subst extract_loop.simps) simp
  show ?case
    unfolding message_simps step scan_field_item [OF f fit]
    using IH by (cases raw) (auto simp: scan_verdict_Cons split: option.split)
qed

lemma extract_loop_sound:
  assumes "extract_loop enc c raw = Ok r" and "c \<le> length enc" and "length enc < 2 ^ 63"
  shows "\<exists>fs. (\<forall>f\<in>set fs. item_ok f) \<and> drop c enc = message_bytes fs"
  using assms
proof (induction enc c raw rule: extract_loop.induct)
  case (1 enc c raw)
  show ?case
  proof (cases "c < length enc")
    case True
    with 1(2) obtain c' raw' where step: "scan_field enc c raw = Inr (c', raw')"
      and rest: "extract_loop enc c' raw' = Ok r"
      by (auto simp: extract_loop.simps [of enc c raw] split: sum.splits)
    from scan_field_sound [OF step 1(4)] obtain f where f: "item_ok f" "c' = c + length (item_bytes f)"
      "take (length (item_bytes f)) (drop c enc) = item_bytes f" .
    have "c' \<le> length enc" using scan_field_advances [OF step] by simp
    with 1(1) [OF True step refl rest] 1(4) obtain fs where
      fs: "\<forall>f\<in>set fs. item_ok f" "drop c' enc = message_bytes fs" by blast
    have "drop c enc = item_bytes f @ drop c' enc"
      using f(2,3) append_take_drop_id [of "length (item_bytes f)" "drop c enc"] by (simp add: add.commute)
    with f(1) fs show ?thesis by (intro exI [of _ "f # fs"]) simp
  next
    case False
    with 1(3) show ?thesis by (intro exI [of _ "[]"]) simp
  qed
qed

lemma extract_raw_data_message:
  assumes "\<forall>f\<in>set fs. item_ok f" and "length (message_bytes fs) < 2 ^ 63"
  shows "extract_raw_data (message_bytes fs) =
    (case message_raws fs of
       [] \<Rightarrow> Err (malformed ''transaction has no raw_data'')
     | [b] \<Rightarrow> Ok b
     | _ \<Rightarrow> Err (malformed ''transaction has repeated raw_data fields''))"
  using extract_loop_message [of fs "[]" None] assms
  by (cases "message_raws fs" rule: remdups_adj.cases) (simp_all add: extract_raw_data_def)

lemma extract_raw_data_sound:
  assumes "extract_raw_data enc = Ok b" and "length enc < 2 ^ 63"
  shows "\<exists>fs. (\<forall>f\<in>set fs. item_ok f) \<and> enc = message_bytes fs"
  using extract_loop_sound [of enc 0 None] assms by (auto simp: extract_raw_data_def result_simps)

text \<open>Messages whose every field is bytes with a length, written with the shortest keys.\<close>

definition fields_bytes :: "(nat \<times> bytes) list \<Rightarrow> bytes" where
  "fields_bytes fs = concat (map (\<lambda>(f, b). len_field f b) fs)"

lemma fields_bytes_simps [simp]:
  "fields_bytes [] = []"
  "fields_bytes ((f, b) # fs) = len_field f b @ fields_bytes fs"
  "fields_bytes (fs @ gs) = fields_bytes fs @ fields_bytes gs"
  by (simp_all add: fields_bytes_def)

lemma len_field_not_empty [simp]: "len_field f b \<noteq> []"
  by (simp add: len_field_def)

definition raw_fields :: "(nat \<times> bytes) list \<Rightarrow> bytes list" where
  "raw_fields fs = map snd (filter (\<lambda>fb. fst fb = 1) fs)"

definition field_item :: "nat \<times> bytes \<Rightarrow> scan_item" where
  "field_item fb = LengthItem (varint (8 * fst fb + 2)) (varint (length (snd fb))) (snd fb)"

lemma field_items: "message_bytes (map field_item fs) = fields_bytes fs"
  by (induction fs) (auto simp: field_item_def len_field_def)

lemma field_item_ok: "fst fb < 2 ^ 29 \<Longrightarrow> length (snd fb) < 2 ^ 63 \<Longrightarrow> item_ok (field_item fb)"
proof -
  have "(8 * n + 2) mod 8 = (2 :: nat)" for n by presburger
  then show "fst fb < 2 ^ 29 \<Longrightarrow> length (snd fb) < 2 ^ 63 \<Longrightarrow> item_ok (field_item fb)"
    using varint_marked [of "8 * fst fb + 2"] varint_marked [of "length (snd fb)"]
    by (simp add: field_item_def varint_varint_ok del: add_2_eq_Suc')
qed

lemma field_raws: "message_raws (map field_item fs) = raw_fields fs"
proof -
  have "(8 * n + 2) div 8 = (n :: nat)" for n by presburger
  then show ?thesis
    by (induction fs) (auto simp: field_item_def raw_fields_def varint_marked)
qed

lemma field_short: "(f, b) \<in> set fs \<Longrightarrow> length b \<le> length (fields_bytes fs)"
  by (induction fs) (auto simp: len_field_def)

lemma extract_raw_data_fields_lemma:
  assumes "\<forall>(f, b)\<in>set fs. f < 2 ^ 29" and "length (fields_bytes fs) < 2 ^ 63"
  shows "extract_raw_data (fields_bytes fs) =
    (case raw_fields fs of
       [] \<Rightarrow> Err (malformed ''transaction has no raw_data'')
     | [b] \<Rightarrow> Ok b
     | _ \<Rightarrow> Err (malformed ''transaction has repeated raw_data fields''))"
proof -
  have "\<forall>i\<in>set (map field_item fs). item_ok i"
    using assms field_short by (fastforce intro!: field_item_ok)
  from extract_raw_data_message [OF this] assms(2) show ?thesis by (simp add: field_items field_raws)
qed

text \<open>
  C11: the scanner finds the raw data of exactly the well-formed messages that have it once.  A message
  is any sequence of fields of the four wire types the scanner knows, with numbers in any encoding; its
  raw data are the fields numbered 1 that are bytes with a length (a field numbered 1 of another wire
  type is passed over like any other).  The answer is the contents of the one such field; a message
  without one or with several is refused, each with its own message; and bytes that are no such message
  are refused.
\<close>

theorem extract_raw_data_fields:
  assumes "length enc < 2 ^ 63"
  shows "(extract_raw_data enc = Ok b \<longleftrightarrow>
      (\<exists>fs. (\<forall>f\<in>set fs. item_ok f) \<and> enc = message_bytes fs \<and> message_raws fs = [b]))
    \<and> ((\<forall>f\<in>set fs. item_ok f) \<and> enc = message_bytes fs \<longrightarrow>
        extract_raw_data enc =
          (case message_raws fs of
             [] \<Rightarrow> Err (malformed ''transaction has no raw_data'')
           | [b] \<Rightarrow> Ok b
           | _ \<Rightarrow> Err (malformed ''transaction has repeated raw_data fields'')))"
proof -
  have message: "extract_raw_data enc =
      (case message_raws fs of
         [] \<Rightarrow> Err (malformed ''transaction has no raw_data'')
       | [b] \<Rightarrow> Ok b
       | _ \<Rightarrow> Err (malformed ''transaction has repeated raw_data fields''))"
    if "\<forall>f\<in>set fs. item_ok f" "enc = message_bytes fs" for fs
    using extract_raw_data_message that assms by blast
  moreover have "\<exists>fs. (\<forall>f\<in>set fs. item_ok f) \<and> enc = message_bytes fs \<and> message_raws fs = [b]"
    if b: "extract_raw_data enc = Ok b"
  proof -
    obtain fs where fs: "\<forall>f\<in>set fs. item_ok f" "enc = message_bytes fs"
      using extract_raw_data_sound [OF b assms] by blast
    with message [OF fs] b show ?thesis by (auto split: list.splits)
  qed
  ultimately show ?thesis by auto
qed

theorem extract_raw_data_fields_witness:
  "extract_raw_data [8, 129, 0, 17, 1, 2, 3, 4, 5, 6, 7, 8, 138, 0, 2, 7, 9, 45, 1, 2, 3, 4] = Ok [7, 9]"
proof -
  let ?fs = "[NumberItem [8] [129, 0], Fixed64Item [17] [1, 2, 3, 4, 5, 6, 7, 8],
    LengthItem [138, 0] [2] [7, 9], Fixed32Item [45] [1, 2, 3, 4]]"
  have "\<forall>f\<in>set ?fs. item_ok f" by (simp add: varint_ok_def marked_def)
  then show ?thesis
    using extract_raw_data_fields [of "message_bytes ?fs" "[7, 9]" ?fs] by simp
qed

end
