(* ===== verification/Proto_Tx.thy ===== *)
theory Proto_Tx
  imports Utf8 Address "HOL-Library.Finite_Map" "HOL-Library.Char_ord"
begin

text \<open>
  The protobuf messages of a transaction, as \<open>crates/rpc-types/src/generated/protocol.rs\<close>
  declares them; a hash map is a finite map, the order in which its entries are gone through being left
  to the encoder.  \<open>google.protobuf.Any\<close> comes from
  \<open>prost_types\<close> and has its two documented fields.
\<close>

record pb_any =
  any_type_url :: string
  any_value :: bytes

record pb_contract =
  pbc_type :: i32
  pbc_parameter :: "pb_any option"
  pbc_provider :: bytes
  pbc_contract_name :: bytes
  pbc_permission_id :: i32

record pb_account_id =
  pba_name :: bytes
  pba_address :: bytes

record pb_authority =
  pbau_account :: "pb_account_id option"
  pbau_permission_name :: bytes

record pb_raw =
  raw_ref_block_bytes :: bytes
  raw_ref_block_num :: i64
  raw_ref_block_hash :: bytes
  raw_expiration :: i64
  raw_auths :: "pb_authority list"
  raw_memo :: bytes
  raw_contract :: "pb_contract list"
  raw_scripts :: bytes
  raw_timestamp :: i64
  raw_fee_limit :: i64

record pb_market_order_detail =
  mod_maker_order_id :: bytes
  mod_taker_order_id :: bytes
  mod_fill_sell_quantity :: i64
  mod_fill_buy_quantity :: i64

record pb_result =
  res_fee :: i64
  res_ret :: i32
  res_contract_ret :: i32
  res_asset_issue_id :: string
  res_withdraw_amount :: i64
  res_unfreeze_amount :: i64
  res_exchange_received_amount :: i64
  res_exchange_inject_another_amount :: i64
  res_exchange_withdraw_another_amount :: i64
  res_exchange_id :: i64
  res_shielded_transaction_fee :: i64
  res_order_id :: bytes
  res_order_details :: "pb_market_order_detail list"
  res_withdraw_expire_amount :: i64
  res_cancel_unfreeze_v2_amount :: "(string, i64) fmap"

record pb_transaction =
  tx_raw_data :: "pb_raw option"
  tx_signature :: "bytes list"
  tx_ret :: "pb_result list"

definition pb_transaction_default :: pb_transaction where
  "pb_transaction_default = \<lparr> tx_raw_data = None, tx_signature = [], tx_ret = [] \<rparr>"

text \<open>
  A Rust \<open>String\<close> is well-formed UTF-8, which the message types rely on; in the model it is
  a predicate on the messages.
\<close>

definition string_ok :: "string \<Rightarrow> bool" where
  "string_ok s \<longleftrightarrow> valid_utf8 (str_bytes s)"

definition any_ok :: "pb_any option \<Rightarrow> bool" where
  "any_ok a = (case a of None \<Rightarrow> True | Some x \<Rightarrow> string_ok (any_type_url x))"

definition pb_raw_ok :: "pb_raw \<Rightarrow> bool" where
  "pb_raw_ok r \<longleftrightarrow> (\<forall>c\<in>set (raw_contract r). any_ok (pbc_parameter c))"

definition pb_result_ok :: "pb_result \<Rightarrow> bool" where
  "pb_result_ok r \<longleftrightarrow>
     string_ok (res_asset_issue_id r)
     \<and> (\<forall>k\<in>fmdom' (res_cancel_unfreeze_v2_amount r). string_ok k)"

definition pb_transaction_ok :: "pb_transaction \<Rightarrow> bool" where
  "pb_transaction_ok t \<longleftrightarrow>
     (case tx_raw_data t of None \<Rightarrow> True | Some r \<Rightarrow> pb_raw_ok r)
     \<and> (\<forall>r\<in>set (tx_ret t). pb_result_ok r)"

end
