(* ===== verification/Amount.thy ===== *)
theory Amount
  imports Prelude
begin

text \<open>
  The TRX amount of \<open>crates/primitives/src/amount.rs\<close>: a newtype over \<open>i64\<close> sun, its
  constructors, its checked arithmetic, the decimal parser and the decimal printer.  The
  parser is proved equal to a specification that reads the text as a decimal number, and
  parsing inverts printing.
\<close>

section \<open>The model\<close>

definition sun_per_trx :: nat where
  "sun_per_trx = 1000000"

definition max_sun :: nat where
  "max_sun = 9223372036854775807"

datatype trx = Trx (as_sun: i64)

datatype amount_error = NegativeAmount i64 | AmountParseError string

definition trx_zero :: trx where
  "trx_zero = Trx 0"

definition from_sun_unchecked :: "i64 \<Rightarrow> trx" where
  "from_sun_unchecked sun = Trx sun"

definition from_sun :: "i64 \<Rightarrow> amount_error + trx" where
  "from_sun sun = (if sint sun < 0 then Err (NegativeAmount sun) else Ok (Trx sun))"

definition trx_checked_add :: "trx \<Rightarrow> trx \<Rightarrow> trx option" where
  "trx_checked_add a b =
     (if sint (as_sun a) < 0 \<or> sint (as_sun b) < 0 then None
      else case checked_add_i64 (as_sun a) (as_sun b) of
             None \<Rightarrow> None
           | Some v \<Rightarrow> if 0 \<le> sint v then Some (Trx v) else None)"

definition trx_checked_sub :: "trx \<Rightarrow> trx \<Rightarrow> trx option" where
  "trx_checked_sub a b =
     (if sint (as_sun a) < 0 \<or> sint (as_sun b) < 0 then None
      else case checked_sub_i64 (as_sun a) (as_sun b) of
             None \<Rightarrow> None
           | Some v \<Rightarrow> if 0 \<le> sint v then Some (Trx v) else None)"

text \<open>The scanning loop of \<open>from_str\<close>; \<open>None\<close> is its early return on a bad byte.\<close>

fun trx_scan :: "string \<Rightarrow> string \<Rightarrow> string \<Rightarrow> bool \<Rightarrow> (string \<times> string) option" where
  "trx_scan [] whole fraction in_fraction = Some (whole, fraction)"
| "trx_scan (b # s) whole fraction in_fraction =
     (if b = CHR ''_'' then trx_scan s whole fraction in_fraction
      else if b = CHR ''.'' \<and> \<not> in_fraction then trx_scan s whole fraction True
      else if is_digit b \<and> in_fraction then trx_scan s whole (fraction @ [b]) in_fraction
      else if is_digit b then trx_scan s (whole @ [b]) fraction in_fraction
      else None)"

text \<open>The accumulation loop: \<open>checked_mul(10)\<close>, then \<open>checked_add(digit)\<close>.\<close>

fun trx_accumulate :: "u64 \<Rightarrow> string \<Rightarrow> u64 option" where
  "trx_accumulate value [] = Some value"
| "trx_accumulate value (b # s) =
     (if is_digit b then
        (case checked_mul_u64 value 10 of
           None \<Rightarrow> None
         | Some v \<Rightarrow>
             (case checked_add_u64 v (of_nat (digit_val b)) of
                None \<Rightarrow> None
              | Some v' \<Rightarrow> trx_accumulate v' s))
      else None)"

definition is_ascii :: "string \<Rightarrow> bool" where
  "is_ascii s \<longleftrightarrow> (\<forall>c\<in>set s. (of_char c :: nat) < 128)"

definition starts_with_minus :: "string \<Rightarrow> bool" where
  "starts_with_minus s \<longleftrightarrow> (case s of [] \<Rightarrow> False | c # _ \<Rightarrow> c = CHR ''-'')"

definition trx_from_str :: "string \<Rightarrow> amount_error + trx" where
  "trx_from_str s =
     (if starts_with_minus s \<or> \<not> is_ascii s then Err (AmountParseError s)
      else case trx_scan s [] [] False of
        None \<Rightarrow> Err (AmountParseError s)
      | Some (whole, fraction) \<Rightarrow>
          (let decimal_len = length fraction;
               digits = whole @ take 6 fraction
           in case trx_accumulate 0 digits of
                None \<Rightarrow> Err (AmountParseError s)
              | Some value \<Rightarrow>
                  (let scale = 6 - decimal_len
                   in case checked_mul_u64 value (10 ^ scale) of
                        None \<Rightarrow> Err (AmountParseError s)
                      | Some v \<Rightarrow>
                          if unat v \<le> max_sun then Ok (Trx v) else Err (AmountParseError s))))"

definition parse_trx :: "string \<Rightarrow> amount_error + trx" where
  "parse_trx s = trx_from_str s"

text \<open>\<open>Display\<close>: \<open>unsigned_abs\<close>, then whole and six fractional digits.\<close>

definition trx_display :: "trx \<Rightarrow> string" where
  "trx_display t =
     (let abs_sun = nat \<bar>sint (as_sun t)\<bar>;
          whole = abs_sun div sun_per_trx;
          frac = abs_sun mod sun_per_trx;
          sign = (if sint (as_sun t) < 0 then ''-'' else '''')
      in sign @ show_nat whole @ ''.'' @ pad_zeros 6 (show_nat frac))"

definition format_trx :: "trx \<Rightarrow> string" where
  "format_trx t = trx_display t"

text \<open>\<open>Add\<close> and \<open>Sub\<close>: \<open>None\<close> is the panic of \<open>expect\<close>.\<close>

definition trx_add :: "trx \<Rightarrow> trx \<Rightarrow> trx option" where
  "trx_add a b = trx_checked_add a b"

definition trx_sub :: "trx \<Rightarrow> trx \<Rightarrow> trx option" where
  "trx_sub a b = trx_checked_sub a b"

section \<open>Arithmetic\<close>

lemma trx_checked_add_iff:
  "trx_checked_add a b = Some c \<longleftrightarrow>
     0 \<le> sint (as_sun a) \<and> 0 \<le> sint (as_sun b) \<and>
     sint (as_sun c) = sint (as_sun a) + sint (as_sun b)"
proof (cases "checked_add_i64 (as_sun a) (as_sun b)")
  case None
  then have "sint (as_sun a) + sint (as_sun b) \<noteq> sint (as_sun c)"
    using checked_add_i64_Some [of "as_sun a" "as_sun b" "as_sun c"] by auto
  with None show ?thesis by (auto simp: trx_checked_add_def)
next
  case (Some v)
  then have "sint (as_sun a) + sint (as_sun b) = sint v" by (simp add: rust_int)
  with Some show ?thesis by (cases c) (auto simp: trx_checked_add_def sint_eq_iff)
qed

lemma trx_checked_sub_iff:
  "trx_checked_sub a b = Some c \<longleftrightarrow>
     0 \<le> sint (as_sun a) \<and> 0 \<le> sint (as_sun b) \<and> 0 \<le> sint (as_sun c) \<and>
     sint (as_sun c) = sint (as_sun a) - sint (as_sun b)"
proof (cases "checked_sub_i64 (as_sun a) (as_sun b)")
  case None
  then have "sint (as_sun a) - sint (as_sun b) \<noteq> sint (as_sun c)"
    using checked_sub_i64_Some [of "as_sun a" "as_sun b" "as_sun c"] by auto
  with None show ?thesis by (auto simp: trx_checked_sub_def)
next
  case (Some v)
  then have "sint (as_sun a) - sint (as_sun b) = sint v" by (simp add: rust_int)
  with Some show ?thesis by (cases c) (auto simp: trx_checked_sub_def sint_eq_iff)
qed

text \<open>
  The TRX arithmetic stays inside the non-negative 63-bit amounts: adding and then
  subtracting the same amount gives the first one back, and the sum exists exactly when it
  is representable.
\<close>

theorem trx_add_sub_inverse:
  assumes "trx_checked_add a b = Some c"
  shows "trx_checked_sub c b = Some a \<and> trx_checked_sub c a = Some b
         \<and> 0 \<le> sint (as_sun c) \<and> trx_checked_add b a = Some c"
  using assms by (auto simp: trx_checked_add_iff trx_checked_sub_iff)

theorem trx_add_sub_inverse_witness:
  "trx_checked_add (Trx 1500000) (Trx 500000) = Some (Trx 2000000)
   \<and> trx_checked_sub (Trx 2000000) (Trx 500000) = Some (Trx 1500000)"
proof -
  have h: "trx_checked_add (Trx 1500000) (Trx 500000) = Some (Trx 2000000)"
    by (simp add: trx_checked_add_iff)
  from h trx_add_sub_inverse [OF h] show ?thesis by simp
qed

section \<open>The parser\<close>

text \<open>
  What the accepted text means: underscores are dropped, the first point separates whole
  and fractional digits, and the value in sun is the whole part times a million plus the
  first six fractional digits, missing ones read as zero.
\<close>

definition decimal_sun :: "string \<Rightarrow> nat option" where
  "decimal_sun s =
     (let t = filter (\<lambda>c. c \<noteq> CHR ''_'') s;
          whole = takeWhile (\<lambda>c. c \<noteq> CHR ''.'') t;
          fraction = drop (Suc (length whole)) t
      in if list_all is_digit whole \<and> list_all is_digit fraction
         then Some (digits_val whole * sun_per_trx
                    + digits_val (take 6 (fraction @ replicate 6 (CHR ''0''))))
         else None)"

lemma trx_scan_fraction:
  "trx_scan s w f True =
     (let t = filter (\<lambda>c. c \<noteq> CHR ''_'') s
      in if list_all is_digit t then Some (w, f @ t) else None)"
  by (induction s arbitrary: f) (auto simp: Let_def)

lemma not_digit_chars [simp]: "\<not> is_digit (CHR ''.'')" "\<not> is_digit (CHR ''_'')" "\<not> is_digit (CHR ''-'')"
  by (simp_all add: is_digit_def)

lemma trx_scan_whole:
  "trx_scan s w f False =
     (let t = filter (\<lambda>c. c \<noteq> CHR ''_'') s;
          whole = takeWhile (\<lambda>c. c \<noteq> CHR ''.'') t;
          fraction = drop (Suc (length whole)) t
      in if list_all is_digit whole \<and> list_all is_digit fraction
         then Some (w @ whole, f @ fraction) else None)"
proof (induction s arbitrary: w)
  case Nil
  then show ?case by simp
next
  case (Cons b s)
  then show ?case by (auto simp: Let_def trx_scan_fraction)
qed

lemma digits_val_Cons: "digits_val (c # s) = digit_val c * 10 ^ length s + digits_val s"
  using digits_val_append [of "[c]" s] digits_val_snoc [of "[]" c] by (simp add: digits_val_Nil)

lemma digit_val_bound: "is_digit c \<Longrightarrow> digit_val c < 10"
  by (auto simp: is_digit_def digit_val_def)

lemma trx_accumulate_eq:
  "list_all is_digit s \<Longrightarrow>
   trx_accumulate v s =
     (if unat v * 10 ^ length s + digits_val s < 2 ^ 64
      then Some (of_nat (unat v * 10 ^ length s + digits_val s)) else None)"
proof (induction s arbitrary: v)
  case Nil
  then show ?case using unsigned_less [of v] by (simp add: digits_val_Nil)
next
  case (Cons b s)
  let ?p = "(10::nat) ^ length s"
  have step: "unat v * 10 ^ length (b # s) + digits_val (b # s)
      = (unat v * 10 + digit_val b) * ?p + digits_val s"
    by (simp add: digits_val_Cons algebra_simps)
  have d: "digit_val b < 10" using Cons.prems by (simp add: digit_val_bound)
  have big: "2 ^ 64 \<le> n \<Longrightarrow> \<not> (n * ?p + digits_val s < 2 ^ 64)" for n :: nat
    using mult_le_mono [of "2 ^ 64" n 1 ?p] by simp
  show ?case
  proof (cases "unat v * 10 + digit_val b < 2 ^ 64")
    case True
    then obtain v1 where v1: "checked_mul_u64 v 10 = Some v1" "unat v1 = unat v * 10"
      by (cases "checked_mul_u64 v 10") (auto simp: rust_int)
    have ud: "unat (of_nat (digit_val b) :: u64) = digit_val b"
      using d by (simp add: unat_of_nat)
    from True v1 ud obtain v2 where v2: "checked_add_u64 v1 (of_nat (digit_val b)) = Some v2"
        "unat v2 = unat v * 10 + digit_val b"
      by (cases "checked_add_u64 v1 (of_nat (digit_val b))") (auto simp: rust_int)
    show ?thesis
      unfolding step using Cons.IH [of v2] Cons.prems v1 v2 by simp
  next
    case False
    then have no: "\<not> (unat v * 10 ^ length (b # s) + digits_val (b # s) < 2 ^ 64)"
      unfolding step by (intro big) simp
    have ud: "unat (of_nat (digit_val b) :: u64) = digit_val b"
      using d by (simp add: unat_of_nat)
    have "trx_accumulate v (b # s) = None"
      using False ud
      by (auto split: option.splits simp: rust_int)
    with no show ?thesis by simp
  qed
qed

lemma take6_padded:
  "take 6 (f @ replicate 6 c) = take 6 f @ replicate (6 - length f) c"
  by simp

lemma digits_val_take6:
  "digits_val (take 6 (f @ replicate 6 (CHR ''0''))) = digits_val (take 6 f) * 10 ^ (6 - length f)"
  by (simp add: take6_padded digits_val_append digits_val_zeros del: take_append)

lemma decimal_sun_scan:
  "decimal_sun s =
     (case trx_scan s [] [] False of
        None \<Rightarrow> None
      | Some (w, f) \<Rightarrow> Some (digits_val (w @ take 6 f) * 10 ^ (6 - length f)))"
proof -
  have "digits_val (w @ take 6 f) * 10 ^ (6 - length f) =
        digits_val w * sun_per_trx + digits_val (take 6 (f @ replicate 6 (CHR ''0'')))" for w f
  proof -
    have "(10::nat) ^ min (length f) 6 * 10 ^ (6 - length f) = sun_per_trx"
      by (simp add: sun_per_trx_def min_def flip: power_add)
    then show ?thesis
      by (simp add: digits_val_append digits_val_take6 algebra_simps del: take_append)
  qed
  then show ?thesis by (simp add: decimal_sun_def trx_scan_whole Let_def)
qed

lemma trx_scan_digits:
  "trx_scan s [] [] False = Some (w, f) \<Longrightarrow> list_all is_digit (w @ take 6 f)"
  by (auto simp: trx_scan_whole Let_def list_all_iff dest: in_set_takeD split: if_splits)

lemma digit_is_ascii: "is_digit c \<Longrightarrow> (of_char c :: nat) < 128"
  by (simp add: is_digit_def)

lemma trx_scan_ascii: "trx_scan s w f i \<noteq> None \<Longrightarrow> is_ascii s \<and> \<not> starts_with_minus s"
proof (induction s w f i rule: trx_scan.induct)
  case (1 w f i)
  then show ?case by (simp add: is_ascii_def starts_with_minus_def)
next
  case (2 b s w f i)
  have "(of_char b :: nat) < 128 \<and> b \<noteq> CHR ''-'' \<and> is_ascii s"
    using 2 digit_is_ascii [of b] by (auto split: if_splits)
  then show ?case by (simp add: is_ascii_def starts_with_minus_def)
qed

text \<open>
  C22: the parser computes the decimal value.  The two loops with their checked
  multiplications and additions accept exactly the texts whose exact value in sun fits a
  signed 64-bit integer, return that value, and reject everything else with the text in
  the error; no intermediate overflow can be observed.
\<close>

theorem trx_from_str_decimal:
  "trx_from_str s =
     (case decimal_sun s of
        None \<Rightarrow> Err (AmountParseError s)
      | Some n \<Rightarrow> if n \<le> max_sun then Ok (Trx (of_nat n)) else Err (AmountParseError s))"
proof (cases "trx_scan s [] [] False")
  case None
  then show ?thesis by (simp add: trx_from_str_def decimal_sun_scan)
next
  case (Some p)
  obtain w f where p: "p = (w, f)" by (cases p)
  let ?d = "w @ take 6 f" and ?q = "(10::nat) ^ (6 - length f)"
  have ascii: "is_ascii s" "\<not> starts_with_minus s" using trx_scan_ascii [of s "[]" "[]" False] Some by simp_all
  have acc: "trx_accumulate 0 ?d =
      (if digits_val ?d < 2 ^ 64 then Some (of_nat (digits_val ?d)) else None)"
    using trx_accumulate_eq [of ?d 0] trx_scan_digits [of s w f] Some p by simp
  have uq: "unat (10 ^ (6 - length f) :: u64) = ?q"
  proof -
    have "6 - length f \<in> {0,1,2,3,4,5,6}" by auto
    then show ?thesis by (elim insertE) simp_all
  qed
  have big: "2 ^ 64 \<le> digits_val ?d \<Longrightarrow> max_sun < digits_val ?d * ?q"
    using mult_le_mono [of "2 ^ 64" "digits_val ?d" 1 ?q] by (simp add: max_sun_def)
  show ?thesis
  proof (cases "digits_val ?d < 2 ^ 64")
    case False
    with acc big Some p show ?thesis
      by (simp add: trx_from_str_def decimal_sun_scan Let_def)
  next
    case True
    then have ud: "unat (of_nat (digits_val ?d) :: u64) = digits_val ?d"
      by (simp add: unat_of_nat)
    show ?thesis
    proof (cases "checked_mul_u64 (of_nat (digits_val ?d)) (10 ^ (6 - length f))")
      case None
      then have "max_sun < digits_val ?d * ?q" by (simp add: rust_int ud uq max_sun_def)
      with None True acc Some p show ?thesis
        by (simp add: trx_from_str_def decimal_sun_scan Let_def)
    next
      case (Some v)
      then have v: "unat v = digits_val ?d * ?q" by (simp add: rust_int ud uq)
      have "of_nat (digits_val ?d * ?q) = v" unfolding v [symmetric] by simp
      with Some v True acc ascii \<open>trx_scan s [] [] False = Some p\<close> p show ?thesis
        by (simp add: trx_from_str_def decimal_sun_scan Let_def)
    qed
  qed
qed

lemma decimal_sun_display:
  assumes "0 \<le> sint (as_sun t)"
  shows "decimal_sun (trx_display t) = Some (nat (sint (as_sun t)))"
proof -
  let ?n = "nat (sint (as_sun t))"
  let ?w = "show_nat (?n div sun_per_trx)" and ?f = "pad_zeros 6 (show_nat (?n mod sun_per_trx))"
  have disp: "trx_display t = ?w @ CHR ''.'' # ?f"
    using assms by (simp add: trx_display_def Let_def)
  have dw: "\<forall>c\<in>set ?w. is_digit c" by (rule show_nat_digits)
  have df: "\<forall>c\<in>set ?f. is_digit c" by (intro pad_zeros_digits show_nat_digits)
  have lf: "length ?f = 6"
    using show_nat_length [of 6 "?n mod sun_per_trx"] by (simp add: pad_zeros_length sun_per_trx_def)
  have under: "filter (\<lambda>c. c \<noteq> CHR ''_'') (?w @ CHR ''.'' # ?f) = ?w @ CHR ''.'' # ?f"
    using dw df by (intro filter_True) auto
  have tw: "takeWhile (\<lambda>c. c \<noteq> CHR ''.'') (?w @ CHR ''.'' # ?f) = ?w"
    using dw by (subst takeWhile_append2) auto
  show ?thesis
    unfolding disp decimal_sun_def Let_def under tw
    using dw df lf
    by (simp add: list_all_iff decimal_simps sun_per_trx_def)
qed

text \<open>Parsing inverts printing, for every amount the constructors accept.\<close>

theorem trx_display_roundtrip:
  assumes "from_sun n = Ok t"
  shows "parse_trx (format_trx t) = Ok t"
proof -
  have t: "t = Trx n" "0 \<le> sint n" using assms by (auto simp: from_sun_def split: if_splits)
  have "nat (sint n) \<le> max_sun"
    using sint_i64_bounds(2) [of n] by (simp add: i64_max_def max_sun_def)
  then show ?thesis
    using t decimal_sun_display [of t]
    by (simp add: parse_trx_def format_trx_def trx_from_str_decimal)
qed

theorem trx_display_roundtrip_witness:
  "from_sun 1500000 = Ok (Trx 1500000) \<and> parse_trx (format_trx (Trx 1500000)) = Ok (Trx 1500000)"
proof -
  have h: "from_sun 1500000 = Ok (Trx 1500000)" by (simp add: from_sun_def)
  with trx_display_roundtrip [OF h] show ?thesis by simp
qed

end
