(* ===== verification/Resource.thy ===== *)
theory Resource
  imports Address
begin

text \<open>
  Two small primitives: the stakeable resources (\<open>crates/primitives/src/resource.rs\<close>) with
  their protobuf numbers, and the event log (\<open>crates/primitives/src/log.rs\<close>) whose validity
  is a bound on the number of topics.
\<close>

section \<open>Resource codes\<close>

datatype resource_code = Bandwidth | Energy | TronPower

fun resource_as_i32 :: "resource_code \<Rightarrow> i32" where
  "resource_as_i32 Bandwidth = 0"
| "resource_as_i32 Energy = 1"
| "resource_as_i32 TronPower = 2"

definition resource_from_i32 :: "i32 \<Rightarrow> resource_code option" where
  "resource_from_i32 v =
     (if v = 0 then Some Bandwidth
      else if v = 1 then Some Energy
      else if v = 2 then Some TronPower
      else None)"

datatype unknown_resource_code = UnknownResourceCode i32

definition resource_try_from :: "i32 \<Rightarrow> unknown_resource_code + resource_code" where
  "resource_try_from v = ok_or (UnknownResourceCode v) (resource_from_i32 v)"

definition resource_default :: resource_code where
  "resource_default = Energy"

interpretation resource_disc: discriminant_codec resource_as_i32 resource_from_i32
proof unfold_locales
  show "resource_from_i32 (resource_as_i32 r) = Some r" for r
    by (cases r) (simp_all add: resource_from_i32_def)
  show "resource_from_i32 v = Some r \<Longrightarrow> resource_as_i32 r = v" for v r
    by (auto simp: resource_from_i32_def split: if_splits)
qed

lemma resource_try_from_Ok_iff [result_simps]:
  "resource_try_from v = Ok r \<longleftrightarrow> v = resource_as_i32 r"
  by (simp add: resource_try_from_def result_simps resource_disc.of_disc_Some_iff)

section \<open>Logs\<close>

record event_log =
  log_address :: address
  log_topics :: "bytes list"
  log_data :: bytes

definition log_new_unchecked :: "address \<Rightarrow> bytes list \<Rightarrow> bytes \<Rightarrow> event_log" where
  "log_new_unchecked a ts d = \<lparr> log_address = a, log_topics = ts, log_data = d \<rparr>"

definition log_is_valid :: "event_log \<Rightarrow> bool" where
  "log_is_valid l \<longleftrightarrow> length (log_topics l) \<le> 4"

definition log_new :: "address \<Rightarrow> bytes list \<Rightarrow> bytes \<Rightarrow> event_log option" where
  "log_new a ts d = (let l = log_new_unchecked a ts d in if log_is_valid l then Some l else None)"

lemma log_new_Some_iff:
  "log_new a ts d = Some l \<longleftrightarrow> l = log_new_unchecked a ts d \<and> log_is_valid l"
  by (auto simp: log_new_def Let_def)

end
