(* ===== verification/Abi.thy ===== *)
theory Abi
  imports Prelude
begin

text \<open>
  The contract ABI metadata a node stores (\<open>crates/abi/src/param.rs\<close>, \<open>item.rs\<close>,
  \<open>abi.rs\<close>): parameters, entries with their category and mutability, canonical signatures
  and the lookups over an ABI.  Categories and mutabilities are open enumerations: a number
  this build does not know is kept.
\<close>

section \<open>Parameters\<close>

record tron_abi_param =
  param_indexed :: bool
  param_name :: string
  param_ty :: string

definition param_new :: "string \<Rightarrow> string \<Rightarrow> tron_abi_param" where
  "param_new name ty = \<lparr> param_indexed = False, param_name = name, param_ty = ty \<rparr>"

definition param_with_indexed :: "tron_abi_param \<Rightarrow> bool \<Rightarrow> tron_abi_param" where
  "param_with_indexed p i = p \<lparr> param_indexed := i \<rparr>"

section \<open>Categories and mutability\<close>

datatype tron_abi_entry_type =
    EntryUnknown i32
  | EntryConstructor
  | EntryFunction
  | EntryEvent
  | EntryFallback
  | EntryReceive
  | EntryError

definition entry_type_from_i32 :: "i32 \<Rightarrow> tron_abi_entry_type" where
  "entry_type_from_i32 v =
     (if v = 1 then EntryConstructor
      else if v = 2 then EntryFunction
      else if v = 3 then EntryEvent
      else if v = 4 then EntryFallback
      else if v = 5 then EntryReceive
      else if v = 6 then EntryError
      else EntryUnknown v)"

fun entry_type_as_i32 :: "tron_abi_entry_type \<Rightarrow> i32" where
  "entry_type_as_i32 (EntryUnknown v) = v"
| "entry_type_as_i32 EntryConstructor = 1"
| "entry_type_as_i32 EntryFunction = 2"
| "entry_type_as_i32 EntryEvent = 3"
| "entry_type_as_i32 EntryFallback = 4"
| "entry_type_as_i32 EntryReceive = 5"
| "entry_type_as_i32 EntryError = 6"

fun entry_type_as_str :: "tron_abi_entry_type \<Rightarrow> string option" where
  "entry_type_as_str (EntryUnknown v) = None"
| "entry_type_as_str EntryConstructor = Some ''constructor''"
| "entry_type_as_str EntryFunction = Some ''function''"
| "entry_type_as_str EntryEvent = Some ''event''"
| "entry_type_as_str EntryFallback = Some ''fallback''"
| "entry_type_as_str EntryReceive = Some ''receive''"
| "entry_type_as_str EntryError = Some ''error''"

definition entry_type_default :: tron_abi_entry_type where
  "entry_type_default = EntryUnknown 0"

datatype tron_abi_state_mutability =
    MutUnknown i32
  | MutPure
  | MutView
  | MutNonPayable
  | MutPayable

definition mutability_from_i32 :: "i32 \<Rightarrow> tron_abi_state_mutability" where
  "mutability_from_i32 v =
     (if v = 1 then MutPure
      else if v = 2 then MutView
      else if v = 3 then MutNonPayable
      else if v = 4 then MutPayable
      else MutUnknown v)"

fun mutability_as_i32 :: "tron_abi_state_mutability \<Rightarrow> i32" where
  "mutability_as_i32 (MutUnknown v) = v"
| "mutability_as_i32 MutPure = 1"
| "mutability_as_i32 MutView = 2"
| "mutability_as_i32 MutNonPayable = 3"
| "mutability_as_i32 MutPayable = 4"

fun mutability_as_str :: "tron_abi_state_mutability \<Rightarrow> string option" where
  "mutability_as_str (MutUnknown v) = None"
| "mutability_as_str MutPure = Some ''pure''"
| "mutability_as_str MutView = Some ''view''"
| "mutability_as_str MutNonPayable = Some ''nonpayable''"
| "mutability_as_str MutPayable = Some ''payable''"

definition mutability_default :: tron_abi_state_mutability where
  "mutability_default = MutUnknown 0"

interpretation entry_type_enum: open_enum entry_type_as_i32 entry_type_from_i32
  by unfold_locales (simp add: entry_type_from_i32_def)

interpretation mutability_enum: open_enum mutability_as_i32 mutability_from_i32
  by unfold_locales (simp add: mutability_from_i32_def)

section \<open>Entries\<close>

record tron_abi_entry =
  entry_type :: tron_abi_entry_type
  entry_name :: string
  entry_inputs :: "tron_abi_param list"
  entry_outputs :: "tron_abi_param list"
  entry_anonymous :: bool
  entry_constant :: bool
  entry_payable :: bool
  entry_state_mutability :: tron_abi_state_mutability

definition entry_default :: tron_abi_entry where
  "entry_default =
     \<lparr> entry_type = entry_type_default, entry_name = '''', entry_inputs = [], entry_outputs = [],
       entry_anonymous = False, entry_constant = False, entry_payable = False,
       entry_state_mutability = mutability_default \<rparr>"

definition entry_get_name :: "tron_abi_entry \<Rightarrow> string option" where
  "entry_get_name e = (if entry_name e = [] then None else Some (entry_name e))"

text \<open>The loop over the inputs: a comma before each but the first.\<close>

fun push_inputs :: "nat \<Rightarrow> tron_abi_param list \<Rightarrow> string \<Rightarrow> string" where
  "push_inputs index [] s = s"
| "push_inputs index (p # ps) s =
     push_inputs (Suc index) ps ((if index > 0 then s @ '','' else s) @ param_ty p)"

definition entry_signature :: "tron_abi_entry \<Rightarrow> string option" where
  "entry_signature e =
     (if entry_type e \<notin> {EntryFunction, EntryEvent, EntryError} then None
      else case entry_get_name e of
        None \<Rightarrow> None
      | Some name \<Rightarrow> Some (push_inputs 0 (entry_inputs e) (name @ ''('') @ '')''))"

section \<open>The ABI\<close>

record tron_abi = abi_entries :: "tron_abi_entry list"

definition abi_new :: tron_abi where
  "abi_new = \<lparr> abi_entries = [] \<rparr>"

definition abi_len :: "tron_abi \<Rightarrow> nat" where
  "abi_len a = length (abi_entries a)"

definition abi_is_empty :: "tron_abi \<Rightarrow> bool" where
  "abi_is_empty a \<longleftrightarrow> abi_entries a = []"

definition abi_items_of :: "tron_abi \<Rightarrow> tron_abi_entry_type \<Rightarrow> tron_abi_entry list" where
  "abi_items_of a t = filter (\<lambda>e. entry_type e = t) (abi_entries a)"

definition abi_functions :: "tron_abi \<Rightarrow> tron_abi_entry list" where
  "abi_functions a = abi_items_of a EntryFunction"

definition abi_events :: "tron_abi \<Rightarrow> tron_abi_entry list" where
  "abi_events a = abi_items_of a EntryEvent"

definition abi_errors :: "tron_abi \<Rightarrow> tron_abi_entry list" where
  "abi_errors a = abi_items_of a EntryError"

definition abi_constructor :: "tron_abi \<Rightarrow> tron_abi_entry option" where
  "abi_constructor a = (case abi_items_of a EntryConstructor of [] \<Rightarrow> None | e # _ \<Rightarrow> Some e)"

definition abi_named :: "tron_abi \<Rightarrow> tron_abi_entry_type \<Rightarrow> string \<Rightarrow> tron_abi_entry list" where
  "abi_named a t name = filter (\<lambda>e. entry_name e = name) (abi_items_of a t)"

definition abi_functions_by_name :: "tron_abi \<Rightarrow> string \<Rightarrow> tron_abi_entry list" where
  "abi_functions_by_name a name = abi_named a EntryFunction name"

definition abi_events_by_name :: "tron_abi \<Rightarrow> string \<Rightarrow> tron_abi_entry list" where
  "abi_events_by_name a name = abi_named a EntryEvent name"

definition abi_errors_by_name :: "tron_abi \<Rightarrow> string \<Rightarrow> tron_abi_entry list" where
  "abi_errors_by_name a name = abi_named a EntryError name"

section \<open>Signatures\<close>

text \<open>\<open>[a,b,c]\<close> joined with commas, the canonical list of argument types.\<close>

fun join_commas :: "string list \<Rightarrow> string" where
  "join_commas [] = ''''"
| "join_commas [t] = t"
| "join_commas (t # ts) = t @ '','' @ join_commas ts"

lemma push_inputs_Suc:
  "push_inputs (Suc n) ps s =
     s @ (if ps = [] then '''' else '','' @ join_commas (map param_ty ps))"
proof (induction ps arbitrary: n s)
  case Nil
  then show ?case by simp
next
  case (Cons p ps)
  have "push_inputs (Suc n) (p # ps) s = push_inputs (Suc (Suc n)) ps (s @ '','' @ param_ty p)"
    by simp
  also have "\<dots> = (s @ '','' @ param_ty p)
      @ (if ps = [] then '''' else '','' @ join_commas (map param_ty ps))"
    by (rule Cons)
  finally show ?case by (cases ps) simp_all
qed

lemma push_inputs_0: "push_inputs 0 ps s = s @ join_commas (map param_ty ps)"
  by (cases ps) (auto simp: push_inputs_Suc neq_Nil_conv)

text \<open>The signature is the name and the argument types in parentheses, for callable entries only.\<close>

lemma entry_signature_canonical:
  "entry_signature e =
     (if entry_type e \<in> {EntryFunction, EntryEvent, EntryError} \<and> entry_name e \<noteq> []
      then Some (entry_name e @ ''('' @ join_commas (map param_ty (entry_inputs e)) @ '')'')
      else None)"
  by (simp add: entry_signature_def entry_get_name_def push_inputs_0)

lemma join_commas_inj:
  assumes "\<forall>t\<in>set ts \<union> set us. t \<noteq> [] \<and> CHR '','' \<notin> set t"
    and "join_commas ts = join_commas us"
  shows "ts = us"
  using assms
proof (induction ts arbitrary: us rule: join_commas.induct)
  case 1
  then show ?case by (cases us rule: join_commas.cases) auto
next
  case (2 t)
  then show ?case by (cases us rule: join_commas.cases) auto
next
  case (3 t v vs)
  show ?case
  proof (cases us rule: join_commas.cases)
    case 1
    with 3 show ?thesis by simp
  next
    case (2 u)
    with 3 show ?thesis by auto
  next
    case us: (3 u w ws)
    have eq: "t @ CHR '','' # join_commas (v # vs) = u @ CHR '','' # join_commas (w # ws)"
      using 3(3) us by simp
    have tu: "CHR '','' \<notin> set t" "CHR '','' \<notin> set u" using 3(2) us by auto
    have "t = takeWhile (\<lambda>c. c \<noteq> CHR '','') (t @ CHR '','' # join_commas (v # vs))"
      using tu by (subst takeWhile_append2) auto
    also have "\<dots> = u" unfolding eq using tu by (subst takeWhile_append2) auto
    finally have "t = u" .
    with eq have "join_commas (v # vs) = join_commas (w # ws)" by simp
    then have "v # vs = w # ws" using 3(2) us by (intro 3(1)) auto
    with \<open>t = u\<close> us show ?thesis by simp
  qed
qed

lemma split_at_paren:
  assumes "CHR ''('' \<notin> set a" "CHR ''('' \<notin> set b" "a @ CHR ''('' # x = b @ CHR ''('' # y"
  shows "a = b \<and> x = y"
proof -
  have "a = takeWhile (\<lambda>c. c \<noteq> CHR ''('') (a @ CHR ''('' # x)"
    using assms by (subst takeWhile_append2) auto
  also have "\<dots> = b" unfolding assms(3) using assms(2) by (subst takeWhile_append2) auto
  finally show ?thesis using assms(3) by simp
qed

text \<open>
  The canonical signature identifies an entry: two callable entries whose names are
  identifiers and whose argument types are elementary (no comma inside) have the same
  signature only when name and argument types agree, so a selector made from it cannot
  confuse overloads.
\<close>

theorem entry_signature_identifies:
  assumes "entry_signature d = Some s" and "entry_signature e = Some s"
    and "CHR ''('' \<notin> set (entry_name d)" and "CHR ''('' \<notin> set (entry_name e)"
    and "\<forall>p\<in>set (entry_inputs d) \<union> set (entry_inputs e). param_ty p \<noteq> [] \<and> CHR '','' \<notin> set (param_ty p)"
  shows "entry_name d = entry_name e \<and> map param_ty (entry_inputs d) = map param_ty (entry_inputs e)"
proof -
  have "entry_name d @ CHR ''('' # join_commas (map param_ty (entry_inputs d)) @ '')''
      = entry_name e @ CHR ''('' # join_commas (map param_ty (entry_inputs e)) @ '')''"
    using assms(1,2) by (auto simp: entry_signature_canonical split: if_splits)
  from split_at_paren [OF assms(3,4) this] have "entry_name d = entry_name e"
    "join_commas (map param_ty (entry_inputs d)) = join_commas (map param_ty (entry_inputs e))"
    by simp_all
  moreover from this(2) have "map param_ty (entry_inputs d) = map param_ty (entry_inputs e)"
    using assms(5) by (intro join_commas_inj) auto
  ultimately show ?thesis by simp
qed

theorem entry_signature_identifies_witness:
  "\<exists>d e. d \<noteq> e \<and> entry_signature d = Some ''f(bool,int8)'' \<and> entry_signature e = Some ''f(bool,int8)''
     \<and> map param_ty (entry_inputs d) = map param_ty (entry_inputs e)"
proof -
  let ?d = "entry_default \<lparr> entry_type := EntryFunction, entry_name := ''f'',
      entry_inputs := [param_new ''x'' ''bool'', param_new ''y'' ''int8''] \<rparr>"
  let ?e = "entry_default \<lparr> entry_type := EntryFunction, entry_name := ''f'',
      entry_inputs := [param_new ''a'' ''bool'', param_new ''b'' ''int8''] \<rparr>"
  have d: "entry_signature ?d = Some ''f(bool,int8)''" and e: "entry_signature ?e = Some ''f(bool,int8)''"
    by (simp_all add: entry_signature_canonical param_new_def)
  from entry_signature_identifies [OF d e]
  have "map param_ty (entry_inputs ?d) = map param_ty (entry_inputs ?e)"
    by (simp add: param_new_def)
  moreover have "?d \<noteq> ?e" by (simp add: param_new_def entry_default_def)
  ultimately show ?thesis using d e by blast
qed

end
