(* ===== verification/Contract.thy ===== *)
theory Contract
  imports Operation_Set Amount Resource Abi
begin

text \<open>
  The parameters of TRON's native contracts (\<open>crates/rpc-types/src/types/contract.rs\<close>): one
  record per parameter struct, in the order of the file, the sum \<open>contract_type\<close> of all of
  them, and the multisignature arithmetic of a permission.
\<close>

section \<open>Parameter structs\<close>

record permission_key =
  permission_key_address :: address
  permission_key_weight :: i64

record permission =
  permission_id :: i32
  permission_permission_name :: string
  permission_threshold :: i64
  permission_keys :: "permission_key list"
  permission_operations :: operation_set

record frozen_supply =
  frozen_supply_frozen_amount :: i64
  frozen_supply_frozen_days :: i64

record sr_vote =
  sr_vote_vote_address :: address
  sr_vote_vote_count :: i64

record transfer_contract =
  transfer_owner_address :: address
  transfer_to_address :: address
  transfer_amount :: trx

record trigger_smart_contract =
  trigger_smart_owner_address :: address
  trigger_smart_contract_address :: address
  trigger_smart_call_value :: trx
  trigger_smart_data :: bytes
  trigger_smart_call_token_value :: trx
  trigger_smart_token_id :: i64

record freeze_balance_v1_contract =
  freeze_balance_v1_owner_address :: address
  freeze_balance_v1_frozen_balance :: trx
  freeze_balance_v1_frozen_duration :: i64
  freeze_balance_v1_resource :: resource_code
  freeze_balance_v1_receiver_address :: "address option"

record unfreeze_balance_v1_contract =
  unfreeze_balance_v1_owner_address :: address
  unfreeze_balance_v1_resource :: resource_code
  unfreeze_balance_v1_receiver_address :: "address option"

record freeze_balance_v2_contract =
  freeze_balance_v2_owner_address :: address
  freeze_balance_v2_frozen_balance :: trx
  freeze_balance_v2_resource :: resource_code

record unfreeze_balance_v2_contract =
  unfreeze_balance_v2_owner_address :: address
  unfreeze_balance_v2_unfreeze_balance :: trx
  unfreeze_balance_v2_resource :: resource_code

record delegate_resource_contract =
  delegate_resource_owner_address :: address
  delegate_resource_resource :: resource_code
  delegate_resource_balance :: trx
  delegate_resource_receiver_address :: address
  delegate_resource_lock_period :: "i64 option"

record un_delegate_resource_contract =
  un_delegate_resource_owner_address :: address
  un_delegate_resource_resource :: resource_code
  un_delegate_resource_balance :: trx
  un_delegate_resource_receiver_address :: address

record withdraw_expire_unfreeze_contract =
  withdraw_expire_unfreeze_owner_address :: address

record cancel_all_unfreeze_v2_contract =
  cancel_all_unfreeze_v2_owner_address :: address

record withdraw_balance_contract =
  withdraw_balance_owner_address :: address

record account_permission_update_contract =
  account_permission_update_owner_address :: address
  account_permission_update_owner :: "permission option"
  account_permission_update_witness :: "permission option"
  account_permission_update_actives :: "permission list"

record create_smart_contract =
  create_smart_owner_address :: address
  create_smart_bytecode :: bytes
  create_smart_abi :: tron_abi
  create_smart_call_value :: trx
  create_smart_consume_user_resource_percent :: i64
  create_smart_origin_energy_limit :: i64
  create_smart_name :: string

record asset_issue_contract =
  asset_issue_owner_address :: address
  asset_issue_name :: string
  asset_issue_abbr :: string
  asset_issue_description :: string
  asset_issue_url :: string
  asset_issue_total_supply :: i64
  asset_issue_precision :: i32
  asset_issue_trx_num :: i32
  asset_issue_num :: i32
  asset_issue_start_time :: i64
  asset_issue_end_time :: i64
  asset_issue_free_asset_net_limit :: i64
  asset_issue_public_free_asset_net_limit :: i64
  asset_issue_frozen_supply :: "frozen_supply list"

record participate_asset_issue_contract =
  participate_asset_issue_owner_address :: address
  participate_asset_issue_to_address :: address
  participate_asset_issue_token_id :: string
  participate_asset_issue_amount :: i64

record unfreeze_asset_contract =
  unfreeze_asset_owner_address :: address

record update_asset_contract =
  update_asset_owner_address :: address
  update_asset_description :: string
  update_asset_url :: string
  update_asset_new_limit :: i64
  update_asset_new_public_limit :: i64

record transfer_asset_contract =
  transfer_asset_owner_address :: address
  transfer_asset_to_address :: address
  transfer_asset_token_id :: string
  transfer_asset_amount :: i64

record create_account_contract =
  create_account_owner_address :: address
  create_account_account_address :: address

record vote_witness_contract =
  vote_witness_owner_address :: address
  vote_witness_votes :: "sr_vote list"

record update_account_contract =
  update_account_owner_address :: address
  update_account_name :: string

record proposal_create_contract =
  proposal_create_owner_address :: address
  proposal_create_parameters :: "i64 \<rightharpoonup> i64"

record proposal_approve_contract =
  proposal_approve_owner_address :: address
  proposal_approve_proposal_id :: i64
  proposal_approve_is_add_approval :: bool

record proposal_delete_contract =
  proposal_delete_owner_address :: address
  proposal_delete_proposal_id :: i64

record create_witness_contract =
  create_witness_owner_address :: address
  create_witness_url :: string

record update_witness_contract =
  update_witness_owner_address :: address
  update_witness_update_url :: string

record update_brokerage_contract =
  update_brokerage_owner_address :: address
  update_brokerage_brokerage :: i32

record set_account_id_contract =
  set_account_id_owner_address :: address
  set_account_id_account_id :: string

record clear_contract_abi_contract =
  clear_abi_owner_address :: address
  clear_abi_contract_address :: address

record update_setting_contract =
  update_setting_owner_address :: address
  update_setting_contract_address :: address
  update_setting_consume_user_resource_percent :: i64

record update_energy_limit_contract =
  update_energy_limit_owner_address :: address
  update_energy_limit_contract_address :: address
  update_energy_limit_origin_energy_limit :: i64

record exchange_create_contract =
  exchange_create_owner_address :: address
  exchange_create_first_token_id :: string
  exchange_create_first_token_balance :: i64
  exchange_create_second_token_id :: string
  exchange_create_second_token_balance :: i64

record exchange_inject_contract =
  exchange_inject_owner_address :: address
  exchange_inject_exchange_id :: i64
  exchange_inject_token_id :: string
  exchange_inject_quant :: i64

record exchange_withdraw_contract =
  exchange_withdraw_owner_address :: address
  exchange_withdraw_exchange_id :: i64
  exchange_withdraw_token_id :: string
  exchange_withdraw_quant :: i64

record exchange_transaction_contract =
  exchange_transaction_owner_address :: address
  exchange_transaction_exchange_id :: i64
  exchange_transaction_token_id :: string
  exchange_transaction_quant :: i64
  exchange_transaction_expected :: i64

record market_sell_asset_contract =
  market_sell_asset_owner_address :: address
  market_sell_asset_sell_token_id :: string
  market_sell_asset_sell_token_quantity :: i64
  market_sell_asset_buy_token_id :: string
  market_sell_asset_buy_token_quantity :: i64

record market_cancel_order_contract =
  market_cancel_order_owner_address :: address
  market_cancel_order_order_id :: bytes

record constant_call_result =
  constant_call_result_output :: bytes
  constant_call_result_energy_used :: i64
  constant_call_result_revert_reason :: "string option"

section \<open>The contract type\<close>

datatype contract_type =
    CtTransfer transfer_contract
  | CtTriggerSmartContract trigger_smart_contract
  | CtFreezeBalanceV1 freeze_balance_v1_contract
  | CtUnfreezeBalanceV1 unfreeze_balance_v1_contract
  | CtFreezeBalanceV2 freeze_balance_v2_contract
  | CtUnfreezeBalanceV2 unfreeze_balance_v2_contract
  | CtDelegateResource delegate_resource_contract
  | CtUnDelegateResource un_delegate_resource_contract
  | CtWithdrawExpireUnfreeze withdraw_expire_unfreeze_contract
  | CtCancelAllUnfreezeV2 cancel_all_unfreeze_v2_contract
  | CtWithdrawBalance withdraw_balance_contract
  | CtAccountPermissionUpdate account_permission_update_contract
  | CtCreateSmartContract create_smart_contract
  | CtAssetIssue asset_issue_contract
  | CtTransferAsset transfer_asset_contract
  | CtParticipateAssetIssue participate_asset_issue_contract
  | CtUnfreezeAsset unfreeze_asset_contract
  | CtUpdateAsset update_asset_contract
  | CtCreateAccount create_account_contract
  | CtVoteWitness vote_witness_contract
  | CtUpdateAccount update_account_contract
  | CtProposalCreate proposal_create_contract
  | CtProposalApprove proposal_approve_contract
  | CtProposalDelete proposal_delete_contract
  | CtCreateWitness create_witness_contract
  | CtUpdateWitness update_witness_contract
  | CtUpdateBrokerage update_brokerage_contract
  | CtSetAccountId set_account_id_contract
  | CtClearContractAbi clear_contract_abi_contract
  | CtUpdateSetting update_setting_contract
  | CtUpdateEnergyLimit update_energy_limit_contract
  | CtExchangeCreate exchange_create_contract
  | CtExchangeInject exchange_inject_contract
  | CtExchangeWithdraw exchange_withdraw_contract
  | CtExchangeTransaction exchange_transaction_contract
  | CtMarketSellAsset market_sell_asset_contract
  | CtMarketCancelOrder market_cancel_order_contract

definition needs_fee_limit :: "contract_type \<Rightarrow> bool" where
  "needs_fee_limit c =
     (case c of
        CtTriggerSmartContract t \<Rightarrow> True
      | CtCreateSmartContract t \<Rightarrow> True
      | _ \<Rightarrow> False)"

fun contract_owner_address :: "contract_type \<Rightarrow> address" where
  "contract_owner_address (CtTransfer c) = transfer_owner_address c"
| "contract_owner_address (CtTriggerSmartContract c) = trigger_smart_owner_address c"
| "contract_owner_address (CtFreezeBalanceV1 c) = freeze_balance_v1_owner_address c"
| "contract_owner_address (CtUnfreezeBalanceV1 c) = unfreeze_balance_v1_owner_address c"
| "contract_owner_address (CtFreezeBalanceV2 c) = freeze_balance_v2_owner_address c"
| "contract_owner_address (CtUnfreezeBalanceV2 c) = unfreeze_balance_v2_owner_address c"
| "contract_owner_address (CtDelegateResource c) = delegate_resource_owner_address c"
| "contract_owner_address (CtUnDelegateResource c) = un_delegate_resource_owner_address c"
| "contract_owner_address (CtWithdrawExpireUnfreeze c) = withdraw_expire_unfreeze_owner_address c"
| "contract_owner_address (CtCancelAllUnfreezeV2 c) = cancel_all_unfreeze_v2_owner_address c"
| "contract_owner_address (CtWithdrawBalance c) = withdraw_balance_owner_address c"
| "contract_owner_address (CtAccountPermissionUpdate c) = account_permission_update_owner_address c"
| "contract_owner_address (CtCreateSmartContract c) = create_smart_owner_address c"
| "contract_owner_address (CtAssetIssue c) = asset_issue_owner_address c"
| "contract_owner_address (CtTransferAsset c) = transfer_asset_owner_address c"
| "contract_owner_address (CtParticipateAssetIssue c) = participate_asset_issue_owner_address c"
| "contract_owner_address (CtUnfreezeAsset c) = unfreeze_asset_owner_address c"
| "contract_owner_address (CtUpdateAsset c) = update_asset_owner_address c"
| "contract_owner_address (CtCreateAccount c) = create_account_owner_address c"
| "contract_owner_address (CtVoteWitness c) = vote_witness_owner_address c"
| "contract_owner_address (CtUpdateAccount c) = update_account_owner_address c"
| "contract_owner_address (CtProposalCreate c) = proposal_create_owner_address c"
| "contract_owner_address (CtProposalApprove c) = proposal_approve_owner_address c"
| "contract_owner_address (CtProposalDelete c) = proposal_delete_owner_address c"
| "contract_owner_address (CtCreateWitness c) = create_witness_owner_address c"
| "contract_owner_address (CtUpdateWitness c) = update_witness_owner_address c"
| "contract_owner_address (CtUpdateBrokerage c) = update_brokerage_owner_address c"
| "contract_owner_address (CtSetAccountId c) = set_account_id_owner_address c"
| "contract_owner_address (CtClearContractAbi c) = clear_abi_owner_address c"
| "contract_owner_address (CtUpdateSetting c) = update_setting_owner_address c"
| "contract_owner_address (CtUpdateEnergyLimit c) = update_energy_limit_owner_address c"
| "contract_owner_address (CtExchangeCreate c) = exchange_create_owner_address c"
| "contract_owner_address (CtExchangeInject c) = exchange_inject_owner_address c"
| "contract_owner_address (CtExchangeWithdraw c) = exchange_withdraw_owner_address c"
| "contract_owner_address (CtExchangeTransaction c) = exchange_transaction_owner_address c"
| "contract_owner_address (CtMarketSellAsset c) = market_sell_asset_owner_address c"
| "contract_owner_address (CtMarketCancelOrder c) = market_cancel_order_owner_address c"

end
