(* ===== verification/Permission_Weight.thy ===== *)
theory Permission_Weight
  imports Contract
begin

text \<open>
  Multisignature authority: how much weight a set of signers carries in a permission
  (\<open>Permission\<close> in \<open>crates/rpc-types/src/types/contract.rs\<close>), and which permission of an
  account a transaction uses and what it allows (\<open>AccountPermissions\<close> in
  \<open>crates/rpc-types/src/types/account.rs\<close>).  Weights are added in 64 bits, as in a release
  build; the theorem about them is stated in the same arithmetic.
\<close>

section \<open>Weights\<close>

definition permission_weight_of :: "permission \<Rightarrow> address \<Rightarrow> i64 option" where
  "permission_weight_of p a =
     map_option permission_key_weight
       (List.find (\<lambda>k. permission_key_address k = a) (permission_keys p))"

fun weight_of_all_loop :: "permission \<Rightarrow> address list \<Rightarrow> address list \<Rightarrow> i64 \<Rightarrow> i64" where
  "weight_of_all_loop p [] counted acc = acc"
| "weight_of_all_loop p (a # as) counted acc =
     (if a \<in> set counted then weight_of_all_loop p as counted acc
      else case permission_weight_of p a of
        Some w \<Rightarrow> weight_of_all_loop p as (counted @ [a]) (acc + w)
      | None \<Rightarrow> weight_of_all_loop p as counted acc)"

definition permission_weight_of_all :: "permission \<Rightarrow> address list \<Rightarrow> i64" where
  "permission_weight_of_all p as = weight_of_all_loop p as [] 0"

definition permission_is_satisfied_by :: "permission \<Rightarrow> address list \<Rightarrow> bool" where
  "permission_is_satisfied_by p as \<longleftrightarrow>
     sint (permission_threshold p) \<le> sint (permission_weight_of_all p as)"

text \<open>The weight of an address, zero when it is not a key.\<close>

definition key_weight :: "permission \<Rightarrow> address \<Rightarrow> i64" where
  "key_weight p a = (case permission_weight_of p a of Some w \<Rightarrow> w | None \<Rightarrow> 0)"

lemma weight_of_all_loop_sum:
  "weight_of_all_loop p as counted acc = acc + (\<Sum>a\<in>set as - set counted. key_weight p a)"
proof (induction p as counted acc rule: weight_of_all_loop.induct)
  case (1 p counted acc)
  then show ?case by simp
next
  case (2 p a as counted acc)
  show ?case
  proof (cases "a \<in> set counted")
    case True
    then show ?thesis using 2 by (simp add: insert_Diff_if)
  next
    case False
    have split: "(\<Sum>x\<in>set (a # as) - set counted. key_weight p x)
        = key_weight p a + (\<Sum>x\<in>set as - set counted - {a}. key_weight p x)"
      using False by (simp add: insert_Diff_if sum.insert_remove Diff_insert2 [symmetric]
          flip: Diff_insert)
    show ?thesis
    proof (cases "permission_weight_of p a")
      case None
      then have "(\<Sum>x\<in>set as - set counted. key_weight p x)
          = (\<Sum>x\<in>set as - set counted - {a}. key_weight p x)"
        by (intro sum.mono_neutral_right) (auto simp: key_weight_def)
      with 2 False None split show ?thesis by (simp add: key_weight_def)
    next
      case (Some w)
      have "set as - set (counted @ [a]) = set as - set counted - {a}" by auto
      with 2 False Some split show ?thesis by (simp add: key_weight_def)
    qed
  qed
qed

lemma weight_of_all_set: "permission_weight_of_all p as = (\<Sum>a\<in>set as. key_weight p a)"
  by (simp add: permission_weight_of_all_def weight_of_all_loop_sum)

lemma key_weight_unauthorized:
  "a \<notin> permission_key_address ` set (permission_keys p) \<Longrightarrow> key_weight p a = 0"
  by (auto simp: key_weight_def permission_weight_of_def find_None_iff find_Some_iff
      split: option.splits)

text \<open>
  Signing twice, signing in another order, or adding the signature of an address the
  permission does not name changes nothing: the weight is the sum over the distinct
  authorised signers.
\<close>

theorem weight_counts_distinct_keys:
  "permission_weight_of_all p as =
     (\<Sum>a\<in>set as \<inter> permission_key_address ` set (permission_keys p). key_weight p a)"
proof -
  have "(\<Sum>a\<in>set as. key_weight p a)
      = (\<Sum>a\<in>set as \<inter> permission_key_address ` set (permission_keys p). key_weight p a)"
    by (rule sum.mono_neutral_right) (use key_weight_unauthorized in auto)
  then show ?thesis by (simp add: weight_of_all_set)
qed

section \<open>Permissions of an account\<close>

record account_permissions =
  account_permissions_owner :: "permission option"
  account_permissions_witness :: "permission option"
  account_permissions_actives :: "permission list"

definition account_permissions_default :: account_permissions where
  "account_permissions_default =
     \<lparr> account_permissions_owner = None, account_permissions_witness = None,
       account_permissions_actives = [] \<rparr>"

datatype permission_ref = OwnerRef permission | WitnessRef permission | ActiveRef permission

definition permissions_locate :: "account_permissions \<Rightarrow> i32 \<Rightarrow> permission_ref option" where
  "permissions_locate ps pid =
     (if pid = 0 then map_option OwnerRef (account_permissions_owner ps)
      else if pid = 1 then map_option WitnessRef (account_permissions_witness ps)
      else map_option ActiveRef
             (List.find (\<lambda>p. permission_id p = pid) (account_permissions_actives ps)))"

definition permissions_by_id :: "account_permissions \<Rightarrow> i32 \<Rightarrow> permission option" where
  "permissions_by_id ps pid =
     (case permissions_locate ps pid of
        None \<Rightarrow> None
      | Some r \<Rightarrow> (case r of OwnerRef p \<Rightarrow> Some p | WitnessRef p \<Rightarrow> Some p | ActiveRef p \<Rightarrow> Some p))"

definition permissions_allows :: "account_permissions \<Rightarrow> i32 \<Rightarrow> contract_kind \<Rightarrow> bool" where
  "permissions_allows ps pid k =
     (case permissions_locate ps pid of
        Some (OwnerRef p) \<Rightarrow> True
      | Some (WitnessRef p) \<Rightarrow> False
      | None \<Rightarrow> False
      | Some (ActiveRef p) \<Rightarrow> opset_contains (permission_operations p) k)"

lemma find_Some_split:
  "List.find P xs = Some x \<longleftrightarrow> (\<exists>pre post. xs = pre @ x # post \<and> P x \<and> (\<forall>y\<in>set pre. \<not> P y))"
proof
  assume "List.find P xs = Some x"
  then obtain i where i: "i < length xs" "P (xs ! i)" "x = xs ! i" "\<forall>j<i. \<not> P (xs ! j)"
    by (auto simp: find_Some_iff)
  then have "xs = take i xs @ x # drop (Suc i) xs" "\<forall>y\<in>set (take i xs). \<not> P y"
    by (auto simp: id_take_nth_drop in_set_conv_nth)
  with i show "\<exists>pre post. xs = pre @ x # post \<and> P x \<and> (\<forall>y\<in>set pre. \<not> P y)" by blast
next
  assume "\<exists>pre post. xs = pre @ x # post \<and> P x \<and> (\<forall>y\<in>set pre. \<not> P y)"
  then obtain pre post where "xs = pre @ x # post" "P x" "\<forall>y\<in>set pre. \<not> P y" by blast
  moreover from this(3) have "List.find P (pre @ x # post) = List.find P (x # post)"
    by (induction pre) auto
  ultimately show "List.find P xs = Some x" by simp
qed

text \<open>
  Permission zero allows everything once it is set and permission one allows nothing;
  any other id allows exactly the kinds in the operation set of the first active permission
  with that id, and an id no permission has allows nothing.
\<close>

theorem permissions_allows_cases:
  "permissions_allows ps pid k \<longleftrightarrow>
     (if pid = 0 then account_permissions_owner ps \<noteq> None
      else pid \<noteq> 1 \<and>
        (\<exists>pre p post. account_permissions_actives ps = pre @ p # post \<and> permission_id p = pid
           \<and> pid \<notin> permission_id ` set pre
           \<and> opset_contains (permission_operations p) k))"
proof -
  have mem: "pid \<notin> permission_id ` set pre \<longleftrightarrow> (\<forall>y\<in>set pre. permission_id y \<noteq> pid)"
    for pre :: "permission list"
    by auto
  have found: "(\<exists>p. List.find (\<lambda>p. permission_id p = pid) (account_permissions_actives ps) = Some p
          \<and> opset_contains (permission_operations p) k)
     \<longleftrightarrow> (\<exists>pre p post. account_permissions_actives ps = pre @ p # post \<and> permission_id p = pid
           \<and> pid \<notin> permission_id ` set pre \<and> opset_contains (permission_operations p) k)"
    unfolding find_Some_split mem by metis
  have "permissions_allows ps pid k \<longleftrightarrow>
     (if pid = 0 then account_permissions_owner ps \<noteq> None
      else pid \<noteq> 1 \<and> (\<exists>p. List.find (\<lambda>p. permission_id p = pid) (account_permissions_actives ps) = Some p
          \<and> opset_contains (permission_operations p) k))"
    by (simp add: permissions_allows_def permissions_locate_def split: option.split)
  then show ?thesis by (simp only: found)
qed

end
