(* ===== verification/Rpc_Types.thy ===== *)
theory Rpc_Types
  imports Permission_Weight
begin

text \<open>
  The public domain types of \<open>crates/rpc-types/src/types/\<close> a node's answers are turned
  into: accounts and their resources, receipts, blocks with their transaction anchors
  (TAPOS), network and governance data, the exchanges and TRC10 tokens.  Hashes are byte
  lists, hash maps are partial functions.
\<close>

section \<open>Accounts\<close>

record freeze_v2 =
  freeze_v2_resource :: resource_code
  freeze_v2_amount :: trx

record unfreeze_v2 =
  unfreeze_v2_resource :: resource_code
  unfreeze_v2_amount :: trx
  unfreeze_v2_expire_time_ms :: i64

record vote =
  vote_vote_address :: address
  vote_vote_count :: i64

record account_info =
  account_info_address :: address
  account_info_balance :: trx
  account_info_name :: string
  account_info_is_activated :: bool
  account_info_frozen_v2 :: "freeze_v2 list"
  account_info_unfrozen_v2 :: "unfreeze_v2 list"
  account_info_votes :: "vote list"
  account_info_permissions :: account_permissions
  account_info_trc10_balances :: "string \<rightharpoonup> i64"

record account_resource =
  account_resource_free_bandwidth_used :: i64
  account_resource_free_bandwidth_limit :: i64
  account_resource_bandwidth_used :: i64
  account_resource_bandwidth_limit :: i64
  account_resource_energy_used :: i64
  account_resource_energy_limit :: i64
  account_resource_delegated_bandwidth_for_others :: trx
  account_resource_delegated_energy_for_others :: trx
  account_resource_received_bandwidth :: trx
  account_resource_received_energy :: trx
  account_resource_tron_power_used :: trx
  account_resource_tron_power_limit :: trx

record delegated_resource =
  delegated_resource_from :: address
  delegated_resource_to :: address
  delegated_resource_bandwidth_amount :: trx
  delegated_resource_energy_amount :: trx
  delegated_resource_bandwidth_expire_time_ms :: i64
  delegated_resource_energy_expire_time_ms :: i64

record witness_info =
  witness_info_address :: address
  witness_info_vote_count :: i64
  witness_info_url :: string
  witness_info_total_produced :: i64
  witness_info_total_missed :: i64
  witness_info_is_active :: bool

record delegated_resource_index =
  delegated_resource_index_account :: address
  delegated_resource_index_from_accounts :: "address list"
  delegated_resource_index_to_accounts :: "address list"

section \<open>Receipts\<close>

datatype tx_status = TxSuccess | TxFailed

datatype contract_result =
    ResultDefault
  | ResultSuccess
  | ResultRevert
  | ResultBadJumpDestination
  | ResultOutOfMemory
  | ResultPrecompiledContract
  | ResultStackTooSmall
  | ResultStackTooLarge
  | ResultIllegalOperation
  | ResultStackOverflow
  | ResultOutOfEnergy
  | ResultOutOfTime
  | ResultJvmStackOverflow
  | ResultUnknownFailure
  | ResultTransferFailed
  | ResultInvalidCode
  | ResultOther i32

definition contract_result_is_success :: "contract_result \<Rightarrow> bool" where
  "contract_result_is_success r \<longleftrightarrow> r = ResultSuccess"

definition contract_result_is_failure :: "contract_result \<Rightarrow> bool" where
  "contract_result_is_failure r \<longleftrightarrow> r \<noteq> ResultDefault \<and> r \<noteq> ResultSuccess"

definition contract_result_is_revert :: "contract_result \<Rightarrow> bool" where
  "contract_result_is_revert r \<longleftrightarrow> r = ResultRevert"

record resource_receipt =
  resource_receipt_energy_usage :: i64
  resource_receipt_energy_fee :: trx
  resource_receipt_origin_energy_usage :: i64
  resource_receipt_energy_usage_total :: i64
  resource_receipt_net_usage :: i64
  resource_receipt_net_fee :: trx
  resource_receipt_energy_penalty_total :: i64

record call_value =
  call_value_amount :: i64
  call_value_token_id :: string

record internal_transaction =
  internal_transaction_hash :: bytes
  internal_transaction_caller_address :: "address option"
  internal_transaction_transfer_to_address :: "address option"
  internal_transaction_call_values :: "call_value list"
  internal_transaction_note :: string
  internal_transaction_rejected :: bool
  internal_transaction_extra :: string

record transaction_info =
  transaction_info_tx_id :: bytes
  transaction_info_block_number :: i64
  transaction_info_block_timestamp :: i64
  transaction_info_status :: tx_status
  transaction_info_fee :: trx
  transaction_info_energy_usage_total :: i64
  transaction_info_energy_fee :: trx
  transaction_info_net_usage :: i64
  transaction_info_net_fee :: trx
  transaction_info_receipt :: resource_receipt
  transaction_info_contract_result :: contract_result
  transaction_info_contract_address :: "address option"
  transaction_info_logs :: "event_log list"
  transaction_info_internal_transactions :: "internal_transaction list"
  transaction_info_revert_reason :: "string option"

section \<open>Blocks\<close>

record block_info =
  block_info_number :: i64
  block_info_hash :: bytes
  block_info_timestamp :: i64
  block_info_parent_hash :: "bytes option"
  block_info_tx_trie_root :: "bytes option"
  block_info_witness :: "address option"
  block_info_version :: "i32 option"

section \<open>Network\<close>

datatype proposal_state =
    ProposalPending
  | ProposalDisapproved
  | ProposalApproved
  | ProposalCanceled
  | ProposalUnknown i32

definition proposal_state_from_i32 :: "i32 \<Rightarrow> proposal_state" where
  "proposal_state_from_i32 v =
     (if v = 0 then ProposalPending
      else if v = 1 then ProposalDisapproved
      else if v = 2 then ProposalApproved
      else if v = 3 then ProposalCanceled
      else ProposalUnknown v)"

record node_info =
  node_info_block :: string
  node_info_solidity_block :: string
  node_info_peer_num :: i32

record node_address =
  node_address_host :: string
  node_address_port :: i32

record chain_properties =
  chain_properties_head_block_id :: string
  chain_properties_head_block_num :: i64
  chain_properties_head_block_time_stamp :: i64

record account_net =
  account_net_free_net_used :: i64
  account_net_free_net_limit :: i64
  account_net_net_used :: i64
  account_net_net_limit :: i64
  account_net_total_net_weight :: i64
  account_net_energy_used :: i64
  account_net_energy_limit :: i64
  account_net_total_energy_weight :: i64

record proposal_info =
  proposal_info_proposal_id :: i64
  proposal_info_proposer_address :: "address option"
  proposal_info_parameters :: "i64 \<rightharpoonup> i64"
  proposal_info_expiration_time :: i64
  proposal_info_create_time :: i64
  proposal_info_approvals :: "address list"
  proposal_info_state :: proposal_state

record sign_weight =
  sign_weight_approved_list :: "address list"
  sign_weight_current_weight :: i64
  sign_weight_required_weight :: i64
  sign_weight_result :: string

section \<open>Exchanges\<close>

record exchange_info =
  exchange_info_exchange_id :: i64
  exchange_info_creator_address :: address
  exchange_info_create_time :: i64
  exchange_info_first_token_id :: string
  exchange_info_first_token_balance :: i64
  exchange_info_second_token_id :: string
  exchange_info_second_token_balance :: i64

section \<open>Market orders\<close>

datatype market_order_state = OrderActive | OrderInactive | OrderCanceled

record market_order_info =
  market_order_info_order_id :: bytes
  market_order_info_owner_address :: address
  market_order_info_create_time :: i64
  market_order_info_sell_token_id :: string
  market_order_info_sell_token_quantity :: i64
  market_order_info_buy_token_id :: string
  market_order_info_buy_token_quantity :: i64
  market_order_info_sell_token_quantity_remain :: i64
  market_order_info_sell_token_quantity_return :: i64
  market_order_info_state :: market_order_state

record market_order_pair =
  market_order_pair_sell_token_id :: string
  market_order_pair_buy_token_id :: string

record market_price =
  market_price_sell_token_quantity :: i64
  market_price_buy_token_quantity :: i64

section \<open>Tokens\<close>

record asset_info =
  asset_info_id :: string
  asset_info_name :: string
  asset_info_abbr :: string
  asset_info_decimals :: i32
  asset_info_owner :: address
  asset_info_total_supply :: i64
  asset_info_url :: string

text \<open>The metadata of a deployed contract, at the end of \<open>contract.rs\<close>.\<close>

record smart_contract_info =
  smart_contract_info_address :: "address option"
  smart_contract_info_origin_address :: "address option"
  smart_contract_info_abi :: tron_abi
  smart_contract_info_bytecode :: bytes
  smart_contract_info_runtime_bytecode :: "bytes option"
  smart_contract_info_name :: string
  smart_contract_info_consume_user_resource_percent :: i64
  smart_contract_info_origin_energy_limit :: i64

section \<open>Transaction anchors\<close>

definition transaction_info_is_success :: "transaction_info \<Rightarrow> bool" where
  "transaction_info_is_success i \<longleftrightarrow> transaction_info_status i = TxSuccess"

definition block_info_new :: "i64 \<Rightarrow> bytes \<Rightarrow> i64 \<Rightarrow> block_info" where
  "block_info_new number hash timestamp =
     \<lparr> block_info_number = number, block_info_hash = hash, block_info_timestamp = timestamp,
       block_info_parent_hash = None, block_info_tx_trie_root = None, block_info_witness = None,
       block_info_version = None \<rparr>"

text \<open>\<open>i64::to_be_bytes\<close>\<close>

definition i64_to_be_bytes :: "i64 \<Rightarrow> bytes" where
  "i64_to_be_bytes v = map (\<lambda>i. ucast (drop_bit (8 * (7 - i)) v)) [0..<8]"

definition ref_block_bytes :: "block_info \<Rightarrow> bytes" where
  "ref_block_bytes b =
     (let bs = i64_to_be_bytes (block_info_number b) in [bs ! 6, bs ! 7])"

definition ref_block_hash :: "block_info \<Rightarrow> bytes" where
  "ref_block_hash b = take 8 (drop 8 (block_info_hash b))"

lemma i64_to_be_bytes_length [simp]: "length (i64_to_be_bytes v) = 8"
  by (simp add: i64_to_be_bytes_def)

lemma ref_block_bytes_low16:
  "ref_block_bytes b = [ucast (drop_bit 8 (block_info_number b)), ucast (block_info_number b)]"
  by (simp add: ref_block_bytes_def i64_to_be_bytes_def Let_def)

lemma ref_block_bytes_length [simp]: "length (ref_block_bytes b) = 2"
  by (simp add: ref_block_bytes_def Let_def)

lemma ref_block_hash_length: "length (block_info_hash b) = 32 \<Longrightarrow> length (ref_block_hash b) = 8"
  by (simp add: ref_block_hash_def)

end
