(* ===== verification/Transaction.thy ===== *)
theory Transaction
  imports Proto_Scan Proto_Tx Rpc_Types
begin

text \<open>
  Transactions (\<open>crates/rpc-types/src/types/transaction.rs\<close>): the request a caller fills in,
  the raw transaction a node builds, and the signed one that is broadcast.  The id of a raw
  transaction is always the hash of the raw bytes it carries.  The protobuf codec (\<open>prost\<close>)
  and SHA-256 are parameters, gathered in a record; what the theorems need of them is the
  locale \<open>prost_tx\<close>, and the theory \<open>Wire\<close> interprets it.
\<close>

record tx_codec =
  encode_tx :: "pb_transaction \<Rightarrow> bytes"
  decode_tx :: "bytes \<Rightarrow> pb_transaction option"
  encode_raw :: "pb_raw \<Rightarrow> bytes"
  encode_result :: "pb_result \<Rightarrow> bytes"
  decode_owner1 :: "bytes \<Rightarrow> bytes option"
  decode_owner2 :: "bytes \<Rightarrow> bytes option"
  sha256 :: "bytes \<Rightarrow> bytes"

section \<open>Requests\<close>

text \<open>A \<open>Duration\<close> is a number of nanoseconds.\<close>

type_synonym duration = nat

definition duration_as_millis :: "duration \<Rightarrow> nat" where
  "duration_as_millis d = d div 10 ^ 6"

definition duration_as_secs :: "duration \<Rightarrow> nat" where
  "duration_as_secs d = d div 10 ^ 9"

record tx_request =
  req_contract :: "contract_type option"
  req_fee_limit :: "trx option"
  req_memo :: "bytes option"
  req_permission_id :: "i32 option"
  req_ref_block_bytes :: "bytes option"
  req_ref_block_hash :: "bytes option"
  req_expiration :: "i64 option"
  req_timestamp :: "i64 option"

definition tx_request_default :: tx_request where
  "tx_request_default =
     \<lparr> req_contract = None, req_fee_limit = None, req_memo = None, req_permission_id = None,
       req_ref_block_bytes = None, req_ref_block_hash = None, req_expiration = None,
       req_timestamp = None \<rparr>"

definition contract_needs_fee_limit :: "tx_request \<Rightarrow> bool" where
  "contract_needs_fee_limit req =
     (case req_contract req of None \<Rightarrow> False | Some c \<Rightarrow> needs_fee_limit c)"

definition with_contract :: "tx_request \<Rightarrow> contract_type \<Rightarrow> tx_request" where
  "with_contract req c = req\<lparr> req_contract := Some c \<rparr>"

definition with_fee_limit :: "tx_request \<Rightarrow> trx \<Rightarrow> tx_request" where
  "with_fee_limit req f = req\<lparr> req_fee_limit := Some f \<rparr>"

definition with_memo :: "tx_request \<Rightarrow> bytes \<Rightarrow> tx_request" where
  "with_memo req memo = req\<lparr> req_memo := Some memo \<rparr>"

definition with_permission_id :: "tx_request \<Rightarrow> i32 \<Rightarrow> tx_request" where
  "with_permission_id req pid = req\<lparr> req_permission_id := Some pid \<rparr>"

definition with_tapos :: "tx_request \<Rightarrow> block_info \<Rightarrow> duration \<Rightarrow> tx_request" where
  "with_tapos req block expiry =
     req\<lparr> req_ref_block_bytes := Some (ref_block_bytes block),
         req_ref_block_hash := Some (ref_block_hash block),
         req_timestamp := Some (block_info_timestamp block),
         req_expiration := Some (block_info_timestamp block + of_nat (duration_as_millis expiry)) \<rparr>"

section \<open>Raw transactions\<close>

record raw_transaction =
  raw_tx_expiration :: i64
  raw_tx_timestamp :: i64
  raw_tx_id :: bytes
  raw_tx_proto :: bytes

record decoded_transaction =
  dec_raw :: raw_transaction
  dec_signatures :: "recoverable_signature list"
  dec_has_results :: bool
  dec_has_contract :: bool

definition from_encoded ::
  "tx_codec \<Rightarrow> bytes \<Rightarrow> bytes \<Rightarrow> response_error + decoded_transaction" where
  "from_encoded C raw_proto claimed_tx_id =
     and_then (extract_raw_data raw_proto) (\<lambda>encoded_raw_data.
     and_then (ok_or DecodeFailed (decode_tx C raw_proto)) (\<lambda>proto_tx.
     and_then (collect_results
                 (\<lambda>g. map_err (\<lambda>e. Malformed (MsgSignature ''bad transaction signature: '' e))
                        (signature_from_bytes g))
                 (tx_signature proto_tx)) (\<lambda>signatures.
       let proto_tx = proto_tx\<lparr> tx_signature := [] \<rparr>;
           has_results = (tx_ret proto_tx \<noteq> [])
       in and_then (ok_or (malformed ''transaction has no raw_data'') (tx_raw_data proto_tx)) (\<lambda>raw_data.
         if encode_raw C raw_data \<noteq> encoded_raw_data then
           Err (malformed ''raw_data contains fields or encoding this build cannot preserve'')
         else let tx_id = sha256 C encoded_raw_data in
           if claimed_tx_id \<noteq> [] \<and> claimed_tx_id \<noteq> tx_id then
             Err (malformed ''node txid does not match the transaction it returned'')
           else Ok \<lparr> dec_raw = \<lparr> raw_tx_expiration = raw_expiration raw_data,
                                raw_tx_timestamp = raw_timestamp raw_data,
                                raw_tx_id = tx_id,
                                raw_tx_proto = encode_tx C proto_tx \<rparr>,
                    dec_signatures = signatures,
                    dec_has_results = has_results,
                    dec_has_contract = (raw_contract raw_data \<noteq> []) \<rparr>))))"

definition from_node_encoded ::
  "tx_codec \<Rightarrow> bytes \<Rightarrow> bytes \<Rightarrow> response_error + raw_transaction" where
  "from_node_encoded C encoded claimed_tx_id =
     and_then (from_encoded C encoded claimed_tx_id) (\<lambda>d. Ok (dec_raw d))"

definition raw_transaction_decode :: "tx_codec \<Rightarrow> bytes \<Rightarrow> response_error + raw_transaction" where
  "raw_transaction_decode C encoded =
     and_then (from_encoded C encoded []) (\<lambda>d.
       if dec_signatures d \<noteq> [] then
         Err (malformed ''raw transaction carries signatures; use SignedTransaction::decode'')
       else if dec_has_results d then
         Err (malformed ''raw transaction carries execution results; use SignedTransaction::decode'')
       else if \<not> dec_has_contract d then
         Err (malformed (''transaction has no contract; these may be the bytes of an inner raw_data ''
                         @ ''rather than of a whole Transaction''))
       else Ok (dec_raw d))"

text \<open>The writes of \<open>apply_request_fields\<close>, in its order.\<close>

definition set_permission_id :: "i32 option \<Rightarrow> pb_raw \<Rightarrow> response_error + pb_raw" where
  "set_permission_id pid raw =
     (case pid of
        None \<Rightarrow> Ok raw
      | Some p \<Rightarrow>
          (case raw_contract raw of
             [] \<Rightarrow> Err (malformed ''node returned a transaction with no contract to set permission_id on'')
           | c # cs \<Rightarrow> Ok (raw\<lparr> raw_contract := c\<lparr> pbc_permission_id := p \<rparr> # cs \<rparr>)))"

definition apply_fields :: "tx_request \<Rightarrow> pb_raw \<Rightarrow> response_error + pb_raw" where
  "apply_fields req raw =
     (let raw = (case req_fee_limit req of None \<Rightarrow> raw | Some v \<Rightarrow> raw\<lparr> raw_fee_limit := as_sun v \<rparr>);
          raw = (case req_memo req of None \<Rightarrow> raw | Some m \<Rightarrow> raw\<lparr> raw_memo := m \<rparr>)
      in and_then (set_permission_id (req_permission_id req) raw) (\<lambda>raw.
        let raw = (case req_ref_block_bytes req of None \<Rightarrow> raw | Some b \<Rightarrow> raw\<lparr> raw_ref_block_bytes := b \<rparr>);
            raw = (case req_ref_block_hash req of None \<Rightarrow> raw | Some h \<Rightarrow> raw\<lparr> raw_ref_block_hash := h \<rparr>);
            raw = (case req_timestamp req of None \<Rightarrow> raw | Some v \<Rightarrow> raw\<lparr> raw_timestamp := v \<rparr>);
            raw = (case req_expiration req of None \<Rightarrow> raw | Some v \<Rightarrow> raw\<lparr> raw_expiration := v \<rparr>)
        in Ok raw))"

definition request_sets_nothing :: "tx_request \<Rightarrow> bool" where
  "request_sets_nothing req \<longleftrightarrow>
     req_fee_limit req = None \<and> req_memo req = None \<and> req_permission_id req = None
     \<and> req_ref_block_bytes req = None \<and> req_ref_block_hash req = None
     \<and> req_timestamp req = None \<and> req_expiration req = None"

definition apply_request_fields ::
  "tx_codec \<Rightarrow> raw_transaction \<Rightarrow> tx_request \<Rightarrow> response_error + raw_transaction" where
  "apply_request_fields C self req =
     (if request_sets_nothing req then Ok self
      else and_then (ok_or DecodeFailed (decode_tx C (raw_tx_proto self))) (\<lambda>tx.
        case tx_raw_data tx of
          None \<Rightarrow> Err (malformed ''missing raw_data in Transaction'')
        | Some raw_data \<Rightarrow>
            and_then (apply_fields req raw_data) (\<lambda>raw_data.
              Ok (self\<lparr> raw_tx_timestamp := raw_timestamp raw_data,
                        raw_tx_expiration := raw_expiration raw_data,
                        raw_tx_id := sha256 C (encode_raw C raw_data),
                        raw_tx_proto := encode_tx C (tx\<lparr> tx_raw_data := Some raw_data \<rparr>) \<rparr>))))"

section \<open>Details\<close>

record transaction_contract_details =
  detail_kind :: contract_kind
  detail_owner :: "address option"

record transaction_details =
  details_fee_limit :: trx
  details_memo :: bytes
  details_contracts :: "transaction_contract_details list"

definition contract_details ::
  "tx_codec \<Rightarrow> pb_contract \<Rightarrow> response_error + transaction_contract_details" where
  "contract_details C contract =
     (let kind = kind_from_i32 (pbc_type contract) in
      and_then
        (case (kind_owner_field kind, pbc_parameter contract) of
           (Some OwnerFirst, Some a) \<Rightarrow> ok_or DecodeFailed (decode_owner1 C (any_value a))
         | (Some OwnerSecond, Some a) \<Rightarrow> ok_or DecodeFailed (decode_owner2 C (any_value a))
         | _ \<Rightarrow> Ok [])
        (\<lambda>owner_bytes.
      and_then
        (if owner_bytes = [] then Ok None
         else map_err (\<lambda>e. Malformed (MsgAddress ''bad contract owner address: '' e))
                (and_then (address_from_slice owner_bytes) (\<lambda>a. Ok (Some a))))
        (\<lambda>owner. Ok \<lparr> detail_kind = kind, detail_owner = owner \<rparr>)))"

definition raw_transaction_details ::
  "tx_codec \<Rightarrow> raw_transaction \<Rightarrow> response_error + transaction_details" where
  "raw_transaction_details C self =
     and_then (ok_or DecodeFailed (decode_tx C (raw_tx_proto self))) (\<lambda>tx.
     and_then (ok_or (malformed ''transaction has no raw_data'') (tx_raw_data tx)) (\<lambda>raw_data.
     and_then (collect_results (contract_details C) (raw_contract raw_data)) (\<lambda>contracts.
       Ok \<lparr> details_fee_limit = from_sun_unchecked (raw_fee_limit raw_data),
            details_memo = raw_memo raw_data,
            details_contracts = contracts \<rparr>)))"

section \<open>Signed transactions\<close>

record signed_transaction =
  signed_raw :: raw_transaction
  signed_signatures :: "recoverable_signature list"

definition signed_from_node_encoded ::
  "tx_codec \<Rightarrow> bytes \<Rightarrow> bytes \<Rightarrow> response_error + signed_transaction" where
  "signed_from_node_encoded C encoded claimed_tx_id =
     and_then (from_encoded C encoded claimed_tx_id) (\<lambda>d.
       Ok \<lparr> signed_raw = dec_raw d, signed_signatures = dec_signatures d \<rparr>)"

definition signed_transaction_decode :: "tx_codec \<Rightarrow> bytes \<Rightarrow> response_error + signed_transaction" where
  "signed_transaction_decode C encoded =
     and_then (from_encoded C encoded []) (\<lambda>d.
       if \<not> dec_has_contract d then Err (malformed ''transaction has no contract'')
       else Ok \<lparr> signed_raw = dec_raw d, signed_signatures = dec_signatures d \<rparr>)"

definition signed_to_proto :: "tx_codec \<Rightarrow> signed_transaction \<Rightarrow> response_error + pb_transaction" where
  "signed_to_proto C s =
     and_then (ok_or DecodeFailed (decode_tx C (raw_tx_proto (signed_raw s)))) (\<lambda>tx.
       Ok (tx\<lparr> tx_signature := tx_signature tx @ map signature_to_bytes (signed_signatures s) \<rparr>))"

definition signed_encode :: "tx_codec \<Rightarrow> signed_transaction \<Rightarrow> response_error + bytes" where
  "signed_encode C s = and_then (signed_to_proto C s) (\<lambda>tx. Ok (encode_tx C tx))"

definition encoded_len :: "signed_transaction \<Rightarrow> u64" where
  "encoded_len s =
     of_nat (length (raw_tx_proto (signed_raw s))) + of_nat (length (signed_signatures s)) * 67"

definition max_result_size_in_tx :: u64 where
  "max_result_size_in_tx = 64"

section \<open>What the theorems rely on\<close>

text \<open>
  The fields of an encoded transaction, in the order of their tags, and the two laws of the
  derived codec: what is encoded is decoded again (as long as it fits a Rust vector), and a
  decoded message has well-formed strings.

  \<open>prost\<close> writes a hash map in the order in which the map is gone through, which the standard library
  leaves open: it is another one for every map built.  A codec is therefore one run of the encoder, and
  says nothing of what another run writes; \<open>same_but_order\<close> relates two runs.  They write the same raw
  data, which has no map, and the same result where it has one order only, because its map has at most
  one entry; otherwise their results have the same length, and either run reads both.
\<close>

definition tx_fields :: "tx_codec \<Rightarrow> pb_transaction \<Rightarrow> (nat \<times> bytes) list" where
  "tx_fields C t =
     (case tx_raw_data t of None \<Rightarrow> [] | Some r \<Rightarrow> [(1, encode_raw C r)])
     @ map (\<lambda>g. (2, g)) (tx_signature t) @ map (\<lambda>r. (5, encode_result C r)) (tx_ret t)"

locale prost_tx =
  fixes C :: tx_codec
  assumes encode_tx_layout: "encode_tx C t = fields_bytes (tx_fields C t)"
    and decode_encode_tx:
      "pb_transaction_ok t \<Longrightarrow> length (encode_tx C t) < 2 ^ 63 \<Longrightarrow> decode_tx C (encode_tx C t) = Some t"
    and decode_tx_ok: "decode_tx C bs = Some t \<Longrightarrow> pb_transaction_ok t"

definition one_order :: "pb_result \<Rightarrow> bool" where
  "one_order r \<longleftrightarrow> fcard (fmdom (res_cancel_unfreeze_v2_amount r)) \<le> 1"

definition same_but_order :: "tx_codec \<Rightarrow> tx_codec \<Rightarrow> bool" where
  "same_but_order C C' \<longleftrightarrow>
     decode_tx C' = decode_tx C \<and> encode_raw C' = encode_raw C \<and> sha256 C' = sha256 C
     \<and> (\<forall>r. length (encode_result C' r) = length (encode_result C r))
     \<and> (\<forall>r. one_order r \<longrightarrow> encode_result C' r = encode_result C r)"

section \<open>The id is the hash of the bytes\<close>

text \<open>
  A raw transaction is consistent when its bytes are the encoding of an unsigned
  transaction by the run at hand, its id is the hash of that transaction's raw data, and its two times are the
  ones in the bytes.
\<close>

definition raw_tx_consistent :: "tx_codec \<Rightarrow> raw_transaction \<Rightarrow> bool" where
  "raw_tx_consistent C r \<longleftrightarrow>
     (case decode_tx C (raw_tx_proto r) of
        None \<Rightarrow> False
      | Some t \<Rightarrow>
          (case tx_raw_data t of
             None \<Rightarrow> False
           | Some raw \<Rightarrow>
               tx_signature t = [] \<and> raw_tx_proto r = encode_tx C t
               \<and> raw_tx_id r = sha256 C (encode_raw C raw)
               \<and> raw_tx_expiration r = raw_expiration raw
               \<and> raw_tx_timestamp r = raw_timestamp raw))"

lemma raw_tx_consistent_iff:
  "raw_tx_consistent C r \<longleftrightarrow>
     (\<exists>raw ret. let t = \<lparr> tx_raw_data = Some raw, tx_signature = [], tx_ret = ret \<rparr> in
        decode_tx C (raw_tx_proto r) = Some t \<and> raw_tx_proto r = encode_tx C t
        \<and> raw_tx_id r = sha256 C (encode_raw C raw)
        \<and> raw_tx_expiration r = raw_expiration raw \<and> raw_tx_timestamp r = raw_timestamp raw)"
proof (cases "decode_tx C (raw_tx_proto r)")
  case None
  then show ?thesis by (simp add: raw_tx_consistent_def)
next
  case (Some t)
  then show ?thesis by (cases t) (auto simp: raw_tx_consistent_def Let_def split: option.splits)
qed

lemma from_encoded_Ok_iff:
  "from_encoded C bs claimed = Ok d \<longleftrightarrow>
     (\<exists>t raw gs. decode_tx C bs = Some t \<and> tx_raw_data t = Some raw
        \<and> extract_raw_data bs = Ok (encode_raw C raw)
        \<and> list_all2 (\<lambda>b g. signature_from_bytes b = Ok g) (tx_signature t) gs
        \<and> (claimed = [] \<or> claimed = sha256 C (encode_raw C raw))
        \<and> d = \<lparr> dec_raw = \<lparr> raw_tx_expiration = raw_expiration raw, raw_tx_timestamp = raw_timestamp raw,
                           raw_tx_id = sha256 C (encode_raw C raw),
                           raw_tx_proto = encode_tx C (t\<lparr> tx_signature := [] \<rparr>) \<rparr>,
               dec_signatures = gs, dec_has_results = (tx_ret t \<noteq> []),
               dec_has_contract = (raw_contract raw \<noteq> []) \<rparr>)"
  by (auto simp: from_encoded_def Let_def result_simps collect_results_Ok_iff split: if_splits)

lemma raw_fields_tx_fields:
  "raw_fields (tx_fields C t) = (case tx_raw_data t of None \<Rightarrow> [] | Some r \<Rightarrow> [encode_raw C r])"
  by (auto simp: tx_fields_def raw_fields_def filter_empty_conv split: option.split)

context prost_tx
begin

lemma extract_encode_tx:
  assumes "length (encode_tx C t) < 2 ^ 63"
  shows "extract_raw_data (encode_tx C t) =
    (case tx_raw_data t of
       None \<Rightarrow> Err (malformed ''transaction has no raw_data'')
     | Some r \<Rightarrow> Ok (encode_raw C r))"
proof -
  have "\<forall>(f, b)\<in>set (tx_fields C t). f < 2 ^ 29"
    by (auto simp: tx_fields_def split: option.splits)
  then show ?thesis
    using extract_raw_data_fields_lemma [of "tx_fields C t"] assms
    by (simp add: encode_tx_layout raw_fields_tx_fields split: option.split)
qed

lemma unsigned_ok: "pb_transaction_ok t \<Longrightarrow> pb_transaction_ok (t\<lparr> tx_signature := gs \<rparr>)"
  by (simp add: pb_transaction_ok_def)

lemma from_encoded_consistent:
  assumes "from_encoded C bs claimed = Ok d" and "length (raw_tx_proto (dec_raw d)) < 2 ^ 63"
  shows "raw_tx_consistent C (dec_raw d)"
  using assms decode_encode_tx unsigned_ok decode_tx_ok
  by (auto simp: from_encoded_Ok_iff raw_tx_consistent_def)

lemma consistent_extract:
  assumes "raw_tx_consistent C r" and "length (raw_tx_proto r) < 2 ^ 63"
  shows "\<exists>bs. extract_raw_data (raw_tx_proto r) = Ok bs \<and> raw_tx_id r = sha256 C bs"
  using assms extract_encode_tx by (auto simp: raw_tx_consistent_iff Let_def)

end

section \<open>Filling in a request\<close>

definition override :: "'a option \<Rightarrow> 'a \<Rightarrow> 'a" where
  "override v old = (case v of None \<Rightarrow> old | Some x \<Rightarrow> x)"

text \<open>The raw data with every field the request sets, and the others as they were.\<close>

definition overridden :: "tx_request \<Rightarrow> pb_raw \<Rightarrow> pb_raw" where
  "overridden req raw =
     raw\<lparr> raw_fee_limit := override (map_option as_sun (req_fee_limit req)) (raw_fee_limit raw),
         raw_memo := override (req_memo req) (raw_memo raw),
         raw_contract :=
           (case raw_contract raw of
              [] \<Rightarrow> []
            | c # cs \<Rightarrow> c\<lparr> pbc_permission_id := override (req_permission_id req) (pbc_permission_id c) \<rparr> # cs),
         raw_ref_block_bytes := override (req_ref_block_bytes req) (raw_ref_block_bytes raw),
         raw_ref_block_hash := override (req_ref_block_hash req) (raw_ref_block_hash raw),
         raw_timestamp := override (req_timestamp req) (raw_timestamp raw),
         raw_expiration := override (req_expiration req) (raw_expiration raw) \<rparr>"

lemma apply_fields_eq:
  "apply_fields req raw =
     (if req_permission_id req \<noteq> None \<and> raw_contract raw = []
      then Err (malformed ''node returned a transaction with no contract to set permission_id on'')
      else Ok (overridden req raw))"
  by (cases raw)
    (auto simp: apply_fields_def overridden_def override_def set_permission_id_def Let_def
      split: option.split list.split)

lemma overridden_nothing: "request_sets_nothing req \<Longrightarrow> overridden req raw = raw"
  by (cases raw) (auto simp: request_sets_nothing_def overridden_def override_def split: list.split)

lemma overridden_ok: "pb_raw_ok raw \<Longrightarrow> pb_raw_ok (overridden req raw)"
  by (cases "raw_contract raw") (auto simp: pb_raw_ok_def overridden_def)

context prost_tx
begin

lemma apply_request_consistent:
  assumes "raw_tx_consistent C r" and "apply_request_fields C r req = Ok r'"
    and "length (raw_tx_proto r') < 2 ^ 63"
  shows "raw_tx_consistent C r' \<and>
    (\<exists>raw ret. decode_tx C (raw_tx_proto r) = Some \<lparr> tx_raw_data = Some raw, tx_signature = [], tx_ret = ret \<rparr>
      \<and> decode_tx C (raw_tx_proto r')
          = Some \<lparr> tx_raw_data = Some (overridden req raw), tx_signature = [], tx_ret = ret \<rparr>)"
proof -
  from assms(1) obtain raw ret where t:
    "decode_tx C (raw_tx_proto r) = Some \<lparr> tx_raw_data = Some raw, tx_signature = [], tx_ret = ret \<rparr>"
    by (auto simp: raw_tx_consistent_iff Let_def)
  show ?thesis
  proof (cases "request_sets_nothing req")
    case True
    with assms t show ?thesis by (auto simp: apply_request_fields_def overridden_nothing)
  next
    case False
    let ?t = "\<lparr> tx_raw_data = Some (overridden req raw), tx_signature = [], tx_ret = ret \<rparr>"
    have r': "raw_tx_proto r' = encode_tx C ?t"
      "raw_tx_id r' = sha256 C (encode_raw C (overridden req raw))"
      "raw_tx_expiration r' = raw_expiration (overridden req raw)"
      "raw_tx_timestamp r' = raw_timestamp (overridden req raw)"
      using assms(2) False t
      by (auto simp: apply_request_fields_def apply_fields_eq split: if_splits)
    have "pb_transaction_ok ?t"
      using decode_tx_ok [OF t] overridden_ok [of raw req] by (simp add: pb_transaction_ok_def)
    then have "decode_tx C (raw_tx_proto r') = Some ?t"
      using decode_encode_tx [of ?t] r' assms(3) by simp
    with r' t show ?thesis by (auto simp: raw_tx_consistent_def)
  qed
qed

end

section \<open>Signing and sending\<close>

lemma list_all2_signature_bytes:
  "\<forall>g\<in>set gs. wf_signature g \<Longrightarrow>
   list_all2 (\<lambda>b g. signature_from_bytes b = Ok g) (map signature_to_bytes gs) gs"
  by (induction gs) (auto simp: signature_from_to_bytes)

lemma fields_bytes_signatures_length:
  "\<forall>g\<in>set gs. wf_signature g \<Longrightarrow>
   length (fields_bytes (map (\<lambda>g. (2, signature_to_bytes g)) gs)) = 67 * length gs"
  by (induction gs) (auto simp: len_field_def signature_to_bytes_length signature_len_def)

lemma fields_bytes_add_signatures:
  "length (fields_bytes (tx_fields C (t\<lparr> tx_signature := gs \<rparr>))) =
   length (fields_bytes (tx_fields C (t\<lparr> tx_signature := [] \<rparr>)))
     + length (fields_bytes (map (\<lambda>g. (2, g)) gs))"
  by (simp add: tx_fields_def)

definition signed_tx_of :: "pb_raw \<Rightarrow> pb_result list \<Rightarrow> recoverable_signature list \<Rightarrow> pb_transaction" where
  "signed_tx_of raw ret gs =
     \<lparr> tx_raw_data = Some raw, tx_signature = map signature_to_bytes gs, tx_ret = ret \<rparr>"

context prost_tx
begin

lemma from_encoded_encode_tx:
  assumes "tx_raw_data t = Some raw" and "pb_transaction_ok t"
    and "tx_signature t = map signature_to_bytes gs" and "\<forall>g\<in>set gs. wf_signature g"
    and "length (encode_tx C t) < 2 ^ 63" and "claimed = [] \<or> claimed = sha256 C (encode_raw C raw)"
  shows "from_encoded C (encode_tx C t) claimed
    = Ok \<lparr> dec_raw = \<lparr> raw_tx_expiration = raw_expiration raw, raw_tx_timestamp = raw_timestamp raw,
                      raw_tx_id = sha256 C (encode_raw C raw),
                      raw_tx_proto = encode_tx C (t\<lparr> tx_signature := [] \<rparr>) \<rparr>,
          dec_signatures = gs, dec_has_results = (tx_ret t \<noteq> []),
          dec_has_contract = (raw_contract raw \<noteq> []) \<rparr>"
  using assms decode_encode_tx [OF assms(2,5)] extract_encode_tx [OF assms(5)]
    list_all2_signature_bytes [OF assms(4)]
  by (subst from_encoded_Ok_iff) auto

lemma signed_encode_eq:
  assumes "raw_tx_consistent C (signed_raw s)"
  obtains raw ret where
    "decode_tx C (raw_tx_proto (signed_raw s))
       = Some \<lparr> tx_raw_data = Some raw, tx_signature = [], tx_ret = ret \<rparr>"
    "raw_tx_proto (signed_raw s) = encode_tx C \<lparr> tx_raw_data = Some raw, tx_signature = [], tx_ret = ret \<rparr>"
    "signed_encode C s = Ok (encode_tx C (signed_tx_of raw ret (signed_signatures s)))"
  using assms
  by (auto simp: raw_tx_consistent_iff Let_def signed_encode_def signed_to_proto_def signed_tx_of_def)

lemma signed_encode_length:
  assumes "raw_tx_consistent C (signed_raw s)" and "\<forall>g\<in>set (signed_signatures s). wf_signature g"
    and "signed_encode C s = Ok bs"
  shows "length bs = length (raw_tx_proto (signed_raw s)) + 67 * length (signed_signatures s)"
proof -
  obtain raw ret where r:
    "raw_tx_proto (signed_raw s) = encode_tx C \<lparr> tx_raw_data = Some raw, tx_signature = [], tx_ret = ret \<rparr>"
    "bs = encode_tx C (signed_tx_of raw ret (signed_signatures s))"
    using signed_encode_eq [OF assms(1)] assms(3) by (metis sum.inject(2))
  let ?t = "\<lparr> tx_raw_data = Some raw, tx_signature = [], tx_ret = ret \<rparr>"
  have "signed_tx_of raw ret (signed_signatures s)
      = ?t\<lparr> tx_signature := map signature_to_bytes (signed_signatures s) \<rparr>"
    by (simp add: signed_tx_of_def)
  with r fields_bytes_add_signatures [where C = C and t = ?t
      and gs = "map signature_to_bytes (signed_signatures s)"]
    fields_bytes_signatures_length [OF assms(2)]
  show ?thesis by (simp add: encode_tx_layout comp_def)
qed

end

text \<open>What one run wrote, read by another: the fields are the same, and written again they differ in order only.\<close>

lemma runs_lengths:
  assumes "prost_tx C" and "prost_tx C'" and "same_but_order C C'"
  shows "length (encode_tx C' t) = length (encode_tx C t)"
proof -
  have fields: "length (fields_bytes (map (\<lambda>r. (n, encode_result C' r)) rs))
      = length (fields_bytes (map (\<lambda>r. (n, encode_result C r)) rs))" for n rs
    using assms(3) by (induction rs) (simp_all add: same_but_order_def len_field_def)
  show ?thesis
    using assms fields [of 5 "tx_ret t"]
    by (auto simp: prost_tx.encode_tx_layout [OF assms(1)] prost_tx.encode_tx_layout [OF assms(2)] tx_fields_def
        same_but_order_def split: option.split)
qed

lemma runs_agree:
  assumes "prost_tx C" and "prost_tx C'" and "same_but_order C C'" and "\<forall>r\<in>set (tx_ret t). one_order r"
  shows "encode_tx C' t = encode_tx C t"
proof -
  have "tx_fields C' t = tx_fields C t" using assms(3,4) by (simp add: same_but_order_def tx_fields_def split: option.split)
  then show ?thesis by (simp add: prost_tx.encode_tx_layout [OF assms(1)] prost_tx.encode_tx_layout [OF assms(2)])
qed

lemma signed_decode_encode:
  assumes "prost_tx C" and "prost_tx C'" and "same_but_order C C'"
    and "raw_tx_consistent C (signed_raw s)" and "\<forall>g\<in>set (signed_signatures s). wf_signature g"
    and "signed_encode C s = Ok bs" and "length bs < 2 ^ 63"
  obtains t where "decode_tx C (raw_tx_proto (signed_raw s)) = Some t"
    and "signed_from_node_encoded C' bs (raw_tx_id (signed_raw s))
        = Ok (s\<lparr> signed_raw := (signed_raw s)\<lparr> raw_tx_proto := encode_tx C' t \<rparr> \<rparr>)"
    and "raw_tx_proto (signed_raw s) = encode_tx C t" and "decode_tx C (encode_tx C' t) = Some t"
proof -
  obtain raw ret where r:
    "decode_tx C (raw_tx_proto (signed_raw s))
       = Some \<lparr> tx_raw_data = Some raw, tx_signature = [], tx_ret = ret \<rparr>"
    "raw_tx_proto (signed_raw s) = encode_tx C \<lparr> tx_raw_data = Some raw, tx_signature = [], tx_ret = ret \<rparr>"
    "bs = encode_tx C (signed_tx_of raw ret (signed_signatures s))"
    using prost_tx.signed_encode_eq [OF assms(1,4)] assms(6) by (metis sum.inject(2))
  let ?t = "signed_tx_of raw ret (signed_signatures s)"
  let ?u = "\<lparr> tx_raw_data = Some raw, tx_signature = [], tx_ret = ret \<rparr>"
  have same: "decode_tx C' = decode_tx C" "encode_raw C' = encode_raw C" "sha256 C' = sha256 C"
    using assms(3) by (simp_all add: same_but_order_def)
  have ok: "pb_transaction_ok ?t" "pb_transaction_ok ?u"
    using prost_tx.decode_tx_ok [OF assms(1) r(1)] by (simp_all add: pb_transaction_ok_def signed_tx_of_def)
  have cons: "raw_tx_id (signed_raw s) = sha256 C (encode_raw C raw)"
    "raw_tx_expiration (signed_raw s) = raw_expiration raw" "raw_tx_timestamp (signed_raw s) = raw_timestamp raw"
    using assms(4) r(1) by (auto simp: raw_tx_consistent_def)
  have fits: "length (encode_tx C ?t) < 2 ^ 63" using assms(7) r(3) by simp
  have "decode_tx C bs = Some ?t" "extract_raw_data bs = Ok (encode_raw C raw)"
    using prost_tx.decode_encode_tx [OF assms(1) ok(1) fits] prost_tx.extract_encode_tx [OF assms(1) fits] r(3)
    by (simp_all add: signed_tx_of_def)
  then have "from_encoded C' bs (raw_tx_id (signed_raw s))
      = Ok \<lparr> dec_raw = (signed_raw s)\<lparr> raw_tx_proto := encode_tx C' ?u \<rparr>, dec_signatures = signed_signatures s,
            dec_has_results = (ret \<noteq> []), dec_has_contract = (raw_contract raw \<noteq> []) \<rparr>"
    using list_all2_signature_bytes [OF assms(5)] cons same
    by (subst from_encoded_Ok_iff) (cases "signed_raw s"; auto simp: signed_tx_of_def)
  moreover have "decode_tx C (encode_tx C' ?u) = Some ?u"
  proof -
    have "length (encode_tx C ?u) \<le> length (encode_tx C ?t)"
      using fields_bytes_add_signatures [where C = C and t = ?u and gs = "map signature_to_bytes (signed_signatures s)"]
      by (simp add: prost_tx.encode_tx_layout [OF assms(1)] signed_tx_of_def)
    then have "length (encode_tx C' ?u) < 2 ^ 63" using fits runs_lengths [OF assms(1-3), of ?u] by simp
    from prost_tx.decode_encode_tx [OF assms(2) ok(2) this] show ?thesis by (simp add: same)
  qed
  ultimately show thesis using r(1,2) by (intro that [of ?u]) (simp_all add: signed_from_node_encoded_def)
qed

end
