(* ===== verification/Errors.thy ===== *)
theory Errors
  imports Response_Error
begin

text \<open>
  The error types of the provider (\<open>crates/provider/src/error.rs\<close>): the canonical status
  codes, the transport failures, the provider errors they become, which of them may be
  retried, and how a failed broadcast is classified.  A boxed error is the text it displays;
  a channel error is the list of the texts of its chain of sources.
\<close>

datatype rpc_status_code =
    RpcCancelled
  | RpcUnknown
  | RpcInvalidArgument
  | RpcDeadlineExceeded
  | RpcNotFound
  | RpcAlreadyExists
  | RpcPermissionDenied
  | RpcResourceExhausted
  | RpcFailedPrecondition
  | RpcAborted
  | RpcOutOfRange
  | RpcUnimplemented
  | RpcInternal
  | RpcUnavailable
  | RpcDataLoss
  | RpcUnauthenticated

fun rpc_status_display :: "rpc_status_code \<Rightarrow> string" where
  "rpc_status_display RpcCancelled = ''cancelled''"
| "rpc_status_display RpcUnknown = ''unknown''"
| "rpc_status_display RpcInvalidArgument = ''invalid argument''"
| "rpc_status_display RpcDeadlineExceeded = ''deadline exceeded''"
| "rpc_status_display RpcNotFound = ''not found''"
| "rpc_status_display RpcAlreadyExists = ''already exists''"
| "rpc_status_display RpcPermissionDenied = ''permission denied''"
| "rpc_status_display RpcResourceExhausted = ''resource exhausted''"
| "rpc_status_display RpcFailedPrecondition = ''failed precondition''"
| "rpc_status_display RpcAborted = ''aborted''"
| "rpc_status_display RpcOutOfRange = ''out of range''"
| "rpc_status_display RpcUnimplemented = ''unimplemented''"
| "rpc_status_display RpcInternal = ''internal''"
| "rpc_status_display RpcUnavailable = ''unavailable''"
| "rpc_status_display RpcDataLoss = ''data loss''"
| "rpc_status_display RpcUnauthenticated = ''unauthenticated''"

datatype transport_error =
    TkRpc rpc_status_code string
  | TkConnect "string list"
  | TkProto
  | TkMalformed message_text
  | TkNodeError string
  | TkUnsupported string
  | TkCustom string
  | TkNonRetryable string

text \<open>
  \<open>cause_chain\<close>: the texts of an error and its sources, without the generic one and without
  repeating a neighbour.
\<close>

fun push_causes :: "string list \<Rightarrow> string list \<Rightarrow> string list" where
  "push_causes [] causes = causes"
| "push_causes (c # cs) causes =
     push_causes cs
       (if c \<noteq> ''transport error'' \<and> \<not> (causes \<noteq> [] \<and> last causes = c) then causes @ [c] else causes)"

fun join_colons :: "string list \<Rightarrow> string" where
  "join_colons [] = ''''"
| "join_colons [c] = c"
| "join_colons (c # cs) = c @ '': '' @ join_colons cs"

definition cause_chain :: "string list \<Rightarrow> string" where
  "cause_chain chain =
     (let causes = push_causes chain []
      in if causes = [] then (case chain of [] \<Rightarrow> '''' | e # _ \<Rightarrow> e) else join_colons causes)"

definition transport_of_response :: "response_error \<Rightarrow> transport_error" where
  "transport_of_response e =
     (case e of
        DecodeFailed \<Rightarrow> TkProto
      | Malformed msg \<Rightarrow> TkMalformed msg
      | NodeError msg \<Rightarrow> TkNodeError msg)"

definition transport_is_retryable :: "transport_error \<Rightarrow> bool" where
  "transport_is_retryable e =
     (case e of
        TkRpc code _ \<Rightarrow> code = RpcUnavailable \<or> code = RpcResourceExhausted \<or> code = RpcAborted
      | _ \<Rightarrow> False)"

definition transport_status_code :: "transport_error \<Rightarrow> rpc_status_code option" where
  "transport_status_code e = (case e of TkRpc code _ \<Rightarrow> Some code | _ \<Rightarrow> None)"

text \<open>The provider error, generic in the transport's.\<close>

datatype 'e rpc_error =
    RpcTransport 'e
  | RpcNodeError string
  | RpcLocalUsage string
  | RpcBroadcast bytes 'e

type_synonym provider_error = "transport_error rpc_error"

definition rpc_of_transport :: "transport_error \<Rightarrow> provider_error" where
  "rpc_of_transport e = (case e of TkNodeError msg \<Rightarrow> RpcNodeError msg | _ \<Rightarrow> RpcTransport e)"

definition rpc_missing_field :: "string \<Rightarrow> 'e rpc_error" where
  "rpc_missing_field name = RpcLocalUsage (''missing required field: `'' @ name @ ''`'')"

definition rpc_no_signer :: "'e rpc_error" where
  "rpc_no_signer = RpcLocalUsage ''no signer attached to this provider''"

definition rpc_as_transport :: "'e rpc_error \<Rightarrow> 'e option" where
  "rpc_as_transport e = (case e of RpcTransport t \<Rightarrow> Some t | _ \<Rightarrow> None)"

definition rpc_tx_id :: "'e rpc_error \<Rightarrow> bytes option" where
  "rpc_tx_id e = (case e of RpcBroadcast tx _ \<Rightarrow> Some tx | _ \<Rightarrow> None)"

definition definitely_refused :: "transport_error \<Rightarrow> bool" where
  "definitely_refused e =
     (case e of
        TkNodeError _ \<Rightarrow> True
      | TkRpc code _ \<Rightarrow>
          code = RpcInvalidArgument \<or> code = RpcPermissionDenied
          \<or> code = RpcUnauthenticated \<or> code = RpcUnimplemented
      | TkUnsupported _ \<Rightarrow> True
      | _ \<Rightarrow> False)"

definition rpc_broadcast :: "bytes \<Rightarrow> transport_error \<Rightarrow> provider_error" where
  "rpc_broadcast tx_id source =
     (if definitely_refused source then rpc_of_transport source else RpcBroadcast tx_id source)"

definition rpc_is_retryable :: "provider_error \<Rightarrow> bool" where
  "rpc_is_retryable e = (case rpc_as_transport e of None \<Rightarrow> False | Some t \<Rightarrow> transport_is_retryable t)"

section \<open>Properties\<close>

lemma broadcast_tx_id: "rpc_tx_id (rpc_broadcast tx e) = (if definitely_refused e then None else Some tx)"
  by (auto simp: rpc_tx_id_def rpc_broadcast_def rpc_of_transport_def split: transport_error.split)

lemma retryable_not_refused: "transport_is_retryable e \<Longrightarrow> \<not> definitely_refused e"
  by (auto simp: transport_is_retryable_def definitely_refused_def split: transport_error.splits)

lemma rpc_broadcast_not_retryable: "\<not> rpc_is_retryable (rpc_broadcast tx e)"
  using retryable_not_refused [of e]
  by (auto simp: rpc_is_retryable_def rpc_as_transport_def rpc_broadcast_def rpc_of_transport_def
      split: transport_error.splits)

text \<open>
  A failed broadcast is never reported as something to retry, and every failure that
  could have been a lost answer, the retryable ones among them, keeps the id to look up.
\<close>

theorem broadcast_never_retryable:
  "\<not> rpc_is_retryable (rpc_broadcast tx e)
   \<and> (transport_is_retryable e \<longrightarrow> rpc_broadcast tx e = RpcBroadcast tx e)
   \<and> rpc_tx_id (rpc_broadcast tx e) = (if definitely_refused e then None else Some tx)"
  using rpc_broadcast_not_retryable retryable_not_refused [of e] broadcast_tx_id [of tx e]
  by (simp add: rpc_broadcast_def)

theorem broadcast_never_retryable_witness:
  "rpc_broadcast [7] (TkRpc RpcUnavailable ''down'') = RpcBroadcast [7] (TkRpc RpcUnavailable ''down'')"
  using broadcast_never_retryable [of "[7]" "TkRpc RpcUnavailable ''down''"]
  by (simp add: transport_is_retryable_def)

end
