(* ===== verification/Wallet.thy ===== *)
theory Wallet
  imports Signature
begin

text \<open>
  Signers and wallets (\<open>crates/signer/src/local.rs\<close>, \<open>signer.rs\<close>, \<open>wallet.rs\<close>).  A signer may
  be a remote service, so signing is a function on the world \<open>'w\<close>.  A wallet is its default
  address and a map from addresses to signers.  The \<open>k256\<close> operations are arguments.
\<close>

datatype keystore_error =
    KsInvalidPassword
  | KsUnsupportedCipher string
  | KsUnsupportedKdf string
  | KsUnsupportedPrf string
  | KsInvalidField string
  | KsInvalidScryptN u64
  | KsScrypt string

definition keystore_error_display :: "keystore_error \<Rightarrow> string" where
  "keystore_error_display e =
     (case e of
        KsInvalidPassword \<Rightarrow> ''invalid password or corrupted keystore''
      | KsUnsupportedCipher s \<Rightarrow> ''unsupported cipher: '' @ s
      | KsUnsupportedKdf s \<Rightarrow> ''unsupported KDF: '' @ s
      | KsUnsupportedPrf s \<Rightarrow> ''unsupported PBKDF2 prf: '' @ s
      | KsInvalidField s \<Rightarrow> ''invalid keystore field: '' @ s
      | KsInvalidScryptN n \<Rightarrow> ''scrypt N must be a power of two, got '' @ show_nat (unat n)
      | KsScrypt s \<Rightarrow> ''scrypt error: '' @ s)"

datatype mnemonic_builder_error = MissingPhrase | PhraseAlreadySet

datatype signer_error =
    SgEcdsa string
  | SgInvalidKey string
  | SgHex string
  | SgIo string
  | SgDynAbi string
  | SgKeystore keystore_error
  | SgJson string
  | SgBip32 string
  | SgBip39 string
  | SgMnemonicBuilder mnemonic_builder_error
  | SgOther string

text \<open>
  The text an error displays; the payload of a variant that wraps an error of another crate is the
  text of that error.  The dashes in the texts of a misused mnemonic builder are written in ASCII.
\<close>

definition mnemonic_builder_error_display :: "mnemonic_builder_error \<Rightarrow> string" where
  "mnemonic_builder_error_display e =
     (case e of
        MissingPhrase \<Rightarrow> ''phrase is required but was not set - call .phrase() first''
      | PhraseAlreadySet \<Rightarrow> ''a phrase was already set - use .build() instead of .build_random()'')"

definition signer_error_display :: "signer_error \<Rightarrow> string" where
  "signer_error_display e =
     (case e of
        SgEcdsa s \<Rightarrow> ''signing failed: '' @ s
      | SgInvalidKey s \<Rightarrow> ''invalid private key: '' @ s
      | SgHex s \<Rightarrow> ''hex decode failed: '' @ s
      | SgIo s \<Rightarrow> ''I/O error: '' @ s
      | SgDynAbi s \<Rightarrow> s
      | SgKeystore k \<Rightarrow> keystore_error_display k
      | SgJson s \<Rightarrow> ''JSON error: '' @ s
      | SgBip32 s \<Rightarrow> ''BIP-32 error: '' @ s
      | SgBip39 s \<Rightarrow> ''BIP-39 error: '' @ s
      | SgMnemonicBuilder b \<Rightarrow> mnemonic_builder_error_display b
      | SgOther s \<Rightarrow> s)"

definition signer_error_message :: "string \<Rightarrow> signer_error" where
  "signer_error_message msg = SgOther msg"

type_synonym 'w signing = "bytes \<Rightarrow> 'w \<Rightarrow> (signer_error + recoverable_signature) \<times> 'w"

record 'w signer =
  signer_address :: address
  signer_sign_hash :: "'w signing"
  signer_sign_message :: "'w signing"

text \<open>\<open>TronSigner::sign_message\<close> as the trait provides it.\<close>

definition default_sign_message :: "(bytes \<Rightarrow> bytes) \<Rightarrow> 'w signing \<Rightarrow> 'w signing" where
  "default_sign_message keccak sign_hash message = sign_hash (hash_message keccak message)"

section \<open>The local signer\<close>

record 'sk local_signer =
  local_key :: 'sk
  local_address :: address

text \<open>The parts of \<open>k256\<close> that a local signer reaches.\<close>

record ('sk, 'sig, 'rid) key_ops =
  sk_of_bytes :: "bytes \<Rightarrow> string + 'sk"
  sk_bytes :: "'sk \<Rightarrow> bytes"
  sk_address :: "'sk \<Rightarrow> address"
  sk_sign :: "'sk \<Rightarrow> bytes \<Rightarrow> string + ('sig \<times> 'rid)"
  sk_sig_bytes :: "'sig \<Rightarrow> bytes"
  sk_rid_byte :: "'rid \<Rightarrow> u8"

definition local_from_signing_key :: "('sk, 'sig, 'rid) key_ops \<Rightarrow> 'sk \<Rightarrow> 'sk local_signer" where
  "local_from_signing_key K key = \<lparr> local_key = key, local_address = sk_address K key \<rparr>"

definition local_from_bytes ::
  "('sk, 'sig, 'rid) key_ops \<Rightarrow> bytes \<Rightarrow> signer_error + 'sk local_signer" where
  "local_from_bytes K bs =
     and_then (map_err SgInvalidKey (sk_of_bytes K bs))
       (\<lambda>key. Ok \<lparr> local_key = key, local_address = sk_address K key \<rparr>)"

definition local_from_slice ::
  "('sk, 'sig, 'rid) key_ops \<Rightarrow> bytes \<Rightarrow> signer_error + 'sk local_signer" where
  "local_from_slice K bs =
     and_then
       (ok_or (SgInvalidKey (''expected 32 bytes, got '' @ show_nat (length bs))) (fixed_bytes 32 bs))
       (local_from_bytes K)"

definition local_from_hex ::
  "(string \<Rightarrow> string + bytes) \<Rightarrow> ('sk, 'sig, 'rid) key_ops \<Rightarrow> string \<Rightarrow> signer_error + 'sk local_signer" where
  "local_from_hex hex_dec K s = and_then (map_err SgHex (hex_dec (strip_0x s))) (local_from_slice K)"

definition local_to_bytes :: "('sk, 'sig, 'rid) key_ops \<Rightarrow> 'sk local_signer \<Rightarrow> bytes" where
  "local_to_bytes K s = sk_bytes K (local_key s)"

text \<open>Drawing keys until one is on the curve: \<open>None\<close> when no draw ever is.\<close>

partial_function (option) local_random_with ::
  "('sk, 'sig, 'rid) key_ops \<Rightarrow> ('g \<Rightarrow> bytes \<times> 'g) \<Rightarrow> 'g \<Rightarrow> ('sk local_signer \<times> 'g) option" where
  "local_random_with K draw g =
     (let (bs, g1) = draw g
      in case local_from_bytes K bs of
           Inr s \<Rightarrow> Some (s, g1)
         | Inl _ \<Rightarrow> local_random_with K draw g1)"

definition sign_hash_sync ::
  "('sk, 'sig, 'rid) key_ops \<Rightarrow> 'sk local_signer \<Rightarrow> bytes \<Rightarrow> signer_error + recoverable_signature" where
  "sign_hash_sync K s hash =
     and_then (map_err SgEcdsa (sk_sign K (local_key s) hash))
       (\<lambda>(sig, recid). Ok (signature_from_signature (sk_sig_bytes K) (sk_rid_byte K) sig recid))"

text \<open>A local signer as a \<open>TronSigner\<close>.\<close>

definition local_as_signer ::
  "(bytes \<Rightarrow> bytes) \<Rightarrow> ('sk, 'sig, 'rid) key_ops \<Rightarrow> 'sk local_signer \<Rightarrow> 'w signer" where
  "local_as_signer keccak K s =
     (let sign = (\<lambda>hash w. (sign_hash_sync K s hash, w))
      in \<lparr> signer_address = local_address s, signer_sign_hash = sign,
           signer_sign_message = default_sign_message keccak sign \<rparr>)"

section \<open>The wallet\<close>

record 'w wallet =
  wallet_default :: address
  wallet_signers :: "address \<rightharpoonup> 'w signer"

definition empty_wallet :: "'w wallet" where
  "empty_wallet = \<lparr> wallet_default = address_zero, wallet_signers = (\<lambda>_. None) \<rparr>"

definition register_signer :: "'w wallet \<Rightarrow> 'w signer \<Rightarrow> 'w wallet" where
  "register_signer W s = W\<lparr> wallet_signers := (wallet_signers W)(signer_address s \<mapsto> s) \<rparr>"

definition register_default_signer :: "'w wallet \<Rightarrow> 'w signer \<Rightarrow> 'w wallet" where
  "register_default_signer W s = register_signer (W\<lparr> wallet_default := signer_address s \<rparr>) s"

definition wallet_new :: "'w signer \<Rightarrow> 'w wallet" where
  "wallet_new s = register_default_signer empty_wallet s"

definition set_default_signer ::
  "(bytes \<Rightarrow> string) \<Rightarrow> 'w wallet \<Rightarrow> address \<Rightarrow> (signer_error + unit) \<times> 'w wallet" where
  "set_default_signer b58_enc W a =
     (if a \<in> dom (wallet_signers W) then (Ok (), W\<lparr> wallet_default := a \<rparr>)
      else (Err (signer_error_message
               (address_to_base58 b58_enc a
                @ '' is not a registered signer; use `register_default_signer`'')), W))"

text \<open>\<open>None\<close> stands for the panic.\<close>

definition default_signer :: "'w wallet \<Rightarrow> 'w signer option" where
  "default_signer W = wallet_signers W (wallet_default W)"

definition signer_by_address :: "'w wallet \<Rightarrow> address \<Rightarrow> 'w signer option" where
  "signer_by_address W a = wallet_signers W a"

definition require_signer ::
  "(bytes \<Rightarrow> string) \<Rightarrow> 'w wallet \<Rightarrow> address \<Rightarrow> signer_error + 'w signer" where
  "require_signer b58_enc W key =
     ok_or (signer_error_message (''missing signing credential for '' @ address_to_base58 b58_enc key))
       (signer_by_address W key)"

definition default_signer_address :: "'w wallet \<Rightarrow> address" where
  "default_signer_address W = wallet_default W"

definition has_signer_for :: "'w wallet \<Rightarrow> address \<Rightarrow> bool" where
  "has_signer_for W a \<longleftrightarrow> wallet_signers W a \<noteq> None"

definition signer_addresses :: "'w wallet \<Rightarrow> address set" where
  "signer_addresses W = dom (wallet_signers W)"

definition sign_hash_with :: "(bytes \<Rightarrow> string) \<Rightarrow> 'w wallet \<Rightarrow> address \<Rightarrow> 'w signing" where
  "sign_hash_with b58_enc W key hash w =
     (case require_signer b58_enc W key of
        Inl e \<Rightarrow> (Err e, w)
      | Inr s \<Rightarrow> signer_sign_hash s hash w)"

definition sign_message_with :: "(bytes \<Rightarrow> string) \<Rightarrow> 'w wallet \<Rightarrow> address \<Rightarrow> 'w signing" where
  "sign_message_with b58_enc W key message w =
     (case require_signer b58_enc W key of
        Inl e \<Rightarrow> (Err e, w)
      | Inr s \<Rightarrow> signer_sign_message s message w)"

definition wallet_sign_hash :: "(bytes \<Rightarrow> string) \<Rightarrow> 'w wallet \<Rightarrow> 'w signing" where
  "wallet_sign_hash b58_enc W = sign_hash_with b58_enc W (default_signer_address W)"

definition wallet_sign_message :: "(bytes \<Rightarrow> string) \<Rightarrow> 'w wallet \<Rightarrow> 'w signing" where
  "wallet_sign_message b58_enc W = sign_message_with b58_enc W (default_signer_address W)"

text \<open>
  \<open>TronNetworkWallet::sign_hash_with_many\<close>, written once for every wallet that can sign with
  a key.
\<close>

fun sign_many_loop ::
  "(address \<Rightarrow> 'w signing) \<Rightarrow> bytes \<Rightarrow> address list \<Rightarrow> recoverable_signature list \<Rightarrow> address list
     \<Rightarrow> 'w \<Rightarrow> (signer_error + recoverable_signature list) \<times> 'w" where
  "sign_many_loop sign hash [] signatures seen w = (Ok signatures, w)"
| "sign_many_loop sign hash (key # keys) signatures seen w =
     (if key \<in> set seen then sign_many_loop sign hash keys signatures seen w
      else
        (case sign key hash w of
           (Inl e, w1) \<Rightarrow> (Err e, w1)
         | (Inr g, w1) \<Rightarrow> sign_many_loop sign hash keys (signatures @ [g]) (seen @ [key]) w1))"

definition sign_hash_with_many ::
  "(address \<Rightarrow> 'w signing) \<Rightarrow> address list \<Rightarrow> bytes
     \<Rightarrow> 'w \<Rightarrow> (signer_error + recoverable_signature list) \<times> 'w" where
  "sign_hash_with_many sign keys hash = sign_many_loop sign hash keys [] []"

lemma firsts_Cons:
  "rev (remdups (rev ks @ [k])) = k # filter (\<lambda>x. x \<noteq> k) (rev (remdups (rev ks)))"
proof -
  have "remdups (xs @ [k]) = remdups (filter (\<lambda>x. x \<noteq> k) xs) @ [k]" for xs
    by (induction xs) auto
  then show ?thesis by (simp add: remdups_filter rev_filter)
qed

lemma filter_neq_notin:
  "k \<in> S \<Longrightarrow> filter (\<lambda>x. x \<noteq> k \<and> x \<notin> S) xs = filter (\<lambda>x. x \<notin> S) xs"
  by (induction xs) auto

section \<open>The contract of a wallet\<close>

text \<open>
  What a provider relies on: a key the wallet does not hold is refused before anything is
  asked of the world, and a signature made for a key is that key's.
\<close>

locale network_wallet =
  fixes sign :: "address \<Rightarrow> 'w signing"
    and holds :: "address \<Rightarrow> bool"
    and by_key :: "address \<Rightarrow> bytes \<Rightarrow> recoverable_signature \<Rightarrow> bool"
  assumes unheld: "\<not> holds key \<Longrightarrow> \<exists>e. sign key hash w = (Inl e, w)"
    and signs: "sign key hash w = (Inr g, w') \<Longrightarrow> by_key key hash g"
begin

lemma signed_held: "sign key hash w = (Inr g, w') \<Longrightarrow> holds key"
  using unheld [of key hash w] by (cases "holds key") auto

lemma sign_many_loop_Ok:
  assumes "sign_many_loop sign hash keys gs seen w = (Inr gs', w')"
  shows "\<exists>new. gs' = gs @ new
    \<and> list_all2 (\<lambda>k. by_key k hash) (filter (\<lambda>k. k \<notin> set seen) (rev (remdups (rev keys)))) new
    \<and> (\<forall>k\<in>set keys. k \<in> set seen \<or> holds k)"
  using assms
proof (induction keys arbitrary: gs seen w)
  case (Cons key keys)
  show ?case
  proof (cases "key \<in> set seen")
    case True
    with Cons show ?thesis by (simp add: firsts_Cons filter_neq_notin)
  next
    case False
    with Cons.prems obtain g w1 where s: "sign key hash w = (Inr g, w1)"
      and rest: "sign_many_loop sign hash keys (gs @ [g]) (seen @ [key]) w1 = (Inr gs', w')"
      by (auto split: prod.splits sum.splits)
    from Cons.IH [OF rest] obtain new where "gs' = (gs @ [g]) @ new"
      "list_all2 (\<lambda>k. by_key k hash)
        (filter (\<lambda>k. k \<notin> set (seen @ [key])) (rev (remdups (rev keys)))) new"
      "\<forall>k\<in>set keys. k \<in> set (seen @ [key]) \<or> holds k"
      by blast
    with False signs [OF s] signed_held [OF s] show ?thesis
      by (intro exI [of _ "g # new"]) (auto simp: firsts_Cons conj_commute)
  qed
qed simp

lemma sign_many_Ok:
  assumes "sign_hash_with_many sign keys hash w = (Inr gs, w')"
  shows "list_all2 (\<lambda>k. by_key k hash) (rev (remdups (rev keys))) gs" "\<forall>k\<in>set keys. holds k"
  using sign_many_loop_Ok [of hash keys "[]" "[]" w gs w'] assms
  by (auto simp: sign_hash_with_many_def)

end

text \<open>A wallet files every signer under its own address.\<close>

definition wf_wallet :: "'w wallet \<Rightarrow> bool" where
  "wf_wallet W \<longleftrightarrow> (\<forall>a s. wallet_signers W a = Some s \<longrightarrow> signer_address s = a)"

definition honest_wallet ::
  "(recoverable_signature \<Rightarrow> bytes \<Rightarrow> signature_error + address) \<Rightarrow> 'w wallet \<Rightarrow> bool" where
  "honest_wallet recover W \<longleftrightarrow>
     (\<forall>a s hash w g w'. wallet_signers W a = Some s \<longrightarrow> signer_sign_hash s hash w = (Inr g, w')
        \<longrightarrow> recover g hash = Inr (signer_address s))"

interpretation tron_wallet: network_wallet
  "sign_hash_with b58_enc W" "has_signer_for W"
  "\<lambda>key hash g. \<exists>s. wallet_signers W key = Some s \<and> (\<exists>w w'. signer_sign_hash s hash w = (Inr g, w'))"
  for b58_enc W
  by unfold_locales
    (auto simp: sign_hash_with_def require_signer_def signer_by_address_def has_signer_for_def result_simps
      split: sum.splits option.splits)

section \<open>Every way of building a wallet\<close>

text \<open>
  A wallet starts from a signer (\<open>TronWallet::new\<close>) or empty (the derived \<open>Default\<close>), and is changed by
  registering signers and by choosing the default; \<open>chosen\<close> says whether a default was ever given.
\<close>

inductive wallet_built :: "(bytes \<Rightarrow> string) \<Rightarrow> bool \<Rightarrow> 'w wallet \<Rightarrow> bool" for b58_enc where
  built_new: "wallet_built b58_enc True (wallet_new s)"
| built_empty: "wallet_built b58_enc False empty_wallet"
| built_register: "wallet_built b58_enc chosen W \<Longrightarrow> wallet_built b58_enc chosen (register_signer W s)"
| built_default: "wallet_built b58_enc chosen W \<Longrightarrow> wallet_built b58_enc True (register_default_signer W s)"
| built_set: "wallet_built b58_enc chosen W \<Longrightarrow> set_default_signer b58_enc W a = (r, W')
    \<Longrightarrow> wallet_built b58_enc (chosen \<or> r = Ok ()) W'"

lemmas wallet_ops =
  wallet_new_def register_default_signer_def register_signer_def empty_wallet_def
  set_default_signer_def default_signer_def default_signer_address_def

lemma wallet_built_wf: "wallet_built b58_enc chosen W \<Longrightarrow> wf_wallet W"
  by (induction rule: wallet_built.induct) (auto simp: wallet_ops wf_wallet_def split: if_splits)

lemma wallet_built_default:
  "wallet_built b58_enc chosen W \<Longrightarrow> if chosen then default_signer W \<noteq> None else wallet_default W = address_zero"
  by (induction rule: wallet_built.induct) (auto simp: wallet_ops split: if_splits)

text \<open>
  C27: however a wallet was built, it files every signer under the signer's own address, and it has a
  default signer, whose address is the wallet's default, as soon as one was given: by starting from a
  signer, by registering one as the default or by choosing one it holds.  A wallet that started empty
  and was never given one keeps the zero address as its default, so it has a default signer only if
  one of that address was registered.  Pointing the default at an address it does not hold is refused
  and changes nothing.
\<close>

theorem wallet_default_held:
  assumes "wallet_built b58_enc chosen W"
  shows "wf_wallet W
    \<and> (if chosen
       then \<exists>s. default_signer W = Some s \<and> signer_address s = default_signer_address W
       else default_signer_address W = address_zero
         \<and> (default_signer W = None \<longleftrightarrow> \<not> has_signer_for W address_zero))
    \<and> (\<not> has_signer_for W a \<longrightarrow>
         (\<exists>msg. set_default_signer b58_enc W a = (Err (SgOther msg), W)))"
  using wallet_built_wf [OF assms] wallet_built_default [OF assms]
  by (auto simp: wf_wallet_def has_signer_for_def wallet_ops signer_error_message_def split: if_splits)

definition sample_signer :: "u8 \<Rightarrow> 'w signer" where
  "sample_signer n =
     \<lparr> signer_address = Address [n],
       signer_sign_hash = (\<lambda>hash w. (Ok \<lparr> sig_r = [n], sig_s = hash, sig_v = 0 \<rparr>, w)),
       signer_sign_message = (\<lambda>hash w. (Ok \<lparr> sig_r = [n], sig_s = hash, sig_v = 0 \<rparr>, w)) \<rparr>"

theorem wallet_default_held_witness:
  "(\<exists>s. default_signer (register_signer (wallet_new (sample_signer 1)) (sample_signer 2) :: nat wallet) = Some s
      \<and> signer_address s = Address [1])
   \<and> wf_wallet (register_signer (wallet_new (sample_signer 1)) (sample_signer 2) :: nat wallet)
   \<and> default_signer (register_signer empty_wallet (sample_signer 2) :: nat wallet) = None"
proof -
  have new: "wallet_built (\<lambda>_. []) True (register_signer (wallet_new (sample_signer 1)) (sample_signer 2) :: nat wallet)"
    and empty: "wallet_built (\<lambda>_. []) False (register_signer empty_wallet (sample_signer 2) :: nat wallet)"
    by (intro wallet_built.intros)+
  have "\<not> has_signer_for (register_signer empty_wallet (sample_signer 2) :: nat wallet) address_zero"
    by (simp add: wallet_ops has_signer_for_def sample_signer_def address_zero_def evm_address_len_def)
  with wallet_default_held [OF new] wallet_default_held [OF empty] show ?thesis
    by (simp add: wallet_ops sample_signer_def)
qed

text \<open>
  The empty wallet is the exception: its default is the zero address, and registering a signer
  does not move it.
\<close>

lemma empty_wallet_default_panics:
  "signer_address s \<noteq> address_zero \<Longrightarrow> default_signer (register_signer empty_wallet s) = None
   \<and> has_signer_for (register_signer empty_wallet s) (signer_address s)"
  by (simp add: wallet_ops has_signer_for_def)

section \<open>Signing with several keys\<close>

text \<open>
  Signing a hash with several keys gives one signature per distinct key, in the order in
  which the keys first occur, each recovering to its key; it succeeds only when the wallet holds
  all of them, so a partial set is never returned.
\<close>

theorem sign_many_in_order:
  assumes "wf_wallet W" and "honest_wallet recover W"
    and "sign_hash_with_many (sign_hash_with b58_enc W) keys hash w = (Inr gs, w')"
  shows "map (\<lambda>g. recover g hash) gs = map Ok (rev (remdups (rev keys)))
    \<and> (\<forall>k\<in>set keys. has_signer_for W k)"
proof -
  note many = tron_wallet.sign_many_Ok [OF assms(3)]
  from many(1) have "list_all2 (\<lambda>k g. recover g hash = Ok k) (rev (remdups (rev keys))) gs"
    by (rule list_all2_mono) (use assms(1,2) in \<open>fastforce simp: wf_wallet_def honest_wallet_def\<close>)
  then have "map (\<lambda>g. recover g hash) gs = map Ok (rev (remdups (rev keys)))"
    by (simp add: list_all2_conv_all_nth list_eq_iff_nth_eq)
  with many(2) show ?thesis by blast
qed

definition sample_wallet :: "nat wallet" where
  "sample_wallet = register_signer (wallet_new (sample_signer 1)) (sample_signer 2)"

theorem sign_many_in_order_witness:
  "\<exists>gs. sign_hash_with_many (sign_hash_with (\<lambda>_. []) sample_wallet)
       [Address [2], Address [1], Address [2]] [9] 0 = (Inr gs, 0)
     \<and> map (\<lambda>g. Ok (Address (sig_r g)) :: signature_error + address) gs = [Ok (Address [2]), Ok (Address [1])]"
proof -
  let ?gs = "[\<lparr> sig_r = [2], sig_s = [9], sig_v = 0 \<rparr>, \<lparr> sig_r = [1], sig_s = [9], sig_v = 0 \<rparr>]"
  have run: "sign_hash_with_many (sign_hash_with (\<lambda>_. []) sample_wallet)
       [Address [2], Address [1], Address [2]] [9] 0 = (Inr ?gs, 0)"
    by (simp add: sign_hash_with_many_def sign_hash_with_def require_signer_def signer_by_address_def
        sample_wallet_def wallet_ops sample_signer_def)
  have wf: "wf_wallet sample_wallet"
    by (simp add: wf_wallet_def sample_wallet_def wallet_ops sample_signer_def)
  have honest: "honest_wallet (\<lambda>g _. Ok (Address (sig_r g))) sample_wallet"
    by (auto simp: honest_wallet_def sample_wallet_def wallet_ops sample_signer_def split: if_splits)
  from sign_many_in_order [OF wf honest run] run show ?thesis by (intro exI [of _ ?gs]) simp
qed

end
