(* ===== verification/Fillers.thy ===== *)
theory Fillers
  imports Transaction Errors Wallet
begin

text \<open>
  Fillers (\<open>crates/provider/src/fillers/mod.rs\<close>): what completes a request before the node is
  asked to build it.  A filler is a value of its own record; filling may ask the node, so it is
  a function on the world \<open>'w\<close>, and since the caches are shared between the clones of a filler,
  it also returns the filler with its caches updated.  Times and durations are nanoseconds.
\<close>

text \<open>What the fillers ask of the provider they are handed, and the clock.\<close>

record 'w fill_node =
  fn_now_block :: "'w \<Rightarrow> (provider_error + block_info) \<times> 'w"
  fn_energy_price :: "'w \<Rightarrow> (provider_error + i64) \<times> 'w"
  fn_estimate_energy :: "trigger_smart_contract \<Rightarrow> 'w \<Rightarrow> (provider_error + i64) \<times> 'w"
  fn_call_contract :: "trigger_smart_contract \<Rightarrow> 'w \<Rightarrow> (provider_error + constant_call_result) \<times> 'w"
  fn_clock :: "'w \<Rightarrow> nat"

type_synonym ('f, 'w) filling = "tx_request \<Rightarrow> 'w \<Rightarrow> (provider_error + tx_request) \<times> 'f \<times> 'w"

section \<open>Identity and join\<close>

text \<open>What the trait provides: a filler that says nothing else does nothing.\<close>

definition default_fill_sync :: "'f \<Rightarrow> tx_request \<Rightarrow> tx_request" where
  "default_fill_sync f tx = tx"

definition default_fill :: "'f \<Rightarrow> ('f, 'w) filling" where
  "default_fill f tx w = (Ok tx, f, w)"

datatype identity = Identity

record ('l, 'r) join_fill =
  join_left :: 'l
  join_right :: 'r

definition join_fill_sync ::
  "('l \<Rightarrow> tx_request \<Rightarrow> tx_request) \<Rightarrow> ('r \<Rightarrow> tx_request \<Rightarrow> tx_request)
     \<Rightarrow> ('l, 'r) join_fill \<Rightarrow> tx_request \<Rightarrow> tx_request" where
  "join_fill_sync l_sync r_sync j tx = r_sync (join_right j) (l_sync (join_left j) tx)"

definition join_fill_async ::
  "('l \<Rightarrow> ('l, 'w) filling) \<Rightarrow> ('r \<Rightarrow> ('r, 'w) filling)
     \<Rightarrow> ('l, 'r) join_fill \<Rightarrow> (('l, 'r) join_fill, 'w) filling" where
  "join_fill_async l_fill r_fill j tx w =
     (case l_fill (join_left j) tx w of
        (Inl e, l, w1) \<Rightarrow> (Err e, j\<lparr> join_left := l \<rparr>, w1)
      | (Inr tx1, l, w1) \<Rightarrow>
          (case r_fill (join_right j) tx1 w1 of
             (r, f, w2) \<Rightarrow> (r, \<lparr> join_left = l, join_right = f \<rparr>, w2)))"

section \<open>TAPOS\<close>

record tapos_filler =
  tapos_expiry :: duration
  tapos_block_ttl :: duration
  tapos_cached :: "(block_info \<times> nat) option"

definition tapos_new :: tapos_filler where
  "tapos_new =
     \<lparr> tapos_expiry = 300 * 10 ^ 9, tapos_block_ttl = 3 * 10 ^ 9, tapos_cached = None \<rparr>"

definition tapos_with_expiry :: "duration \<Rightarrow> tapos_filler" where
  "tapos_with_expiry d = tapos_new\<lparr> tapos_expiry := d \<rparr>"

definition tapos_with_block_ttl :: "tapos_filler \<Rightarrow> duration \<Rightarrow> tapos_filler" where
  "tapos_with_block_ttl f d = f\<lparr> tapos_block_ttl := d \<rparr>"

text \<open>The block to use: the cached one while it is younger than the TTL, else the node's.\<close>

definition tapos_block ::
  "'w fill_node \<Rightarrow> tapos_filler \<Rightarrow> 'w \<Rightarrow> (provider_error + block_info) \<times> tapos_filler \<times> 'w" where
  "tapos_block N f w =
     (case tapos_cached f of
        Some (block, fetched_at) \<Rightarrow>
          if fn_clock N w - fetched_at < tapos_block_ttl f then (Ok block, f, w)
          else (case fn_now_block N w of
                  (Inl e, w1) \<Rightarrow> (Err e, f, w1)
                | (Inr b, w1) \<Rightarrow> (Ok b, f\<lparr> tapos_cached := Some (b, fn_clock N w1) \<rparr>, w1))
      | None \<Rightarrow>
          (case fn_now_block N w of
             (Inl e, w1) \<Rightarrow> (Err e, f, w1)
           | (Inr b, w1) \<Rightarrow> (Ok b, f\<lparr> tapos_cached := Some (b, fn_clock N w1) \<rparr>, w1)))"

definition tapos_fill :: "'w fill_node \<Rightarrow> tapos_filler \<Rightarrow> (tapos_filler, 'w) filling" where
  "tapos_fill N f tx w =
     (if req_ref_block_bytes tx \<noteq> None then (Ok tx, f, w)
      else
        (case tapos_block N f w of
           (Inl e, f1, w1) \<Rightarrow> (Err e, f1, w1)
         | (Inr block, f1, w1) \<Rightarrow>
             (let base_ms = block_info_timestamp block
              in (Ok (tx\<lparr> req_ref_block_bytes := Some (ref_block_bytes block),
                          req_ref_block_hash := Some (ref_block_hash block),
                          req_timestamp := Some base_ms,
                          req_expiration :=
                            Some (base_ms + of_nat (duration_as_secs (tapos_expiry f)) * 1000) \<rparr>),
                  f1, w1))))"

section \<open>A flat fee limit\<close>

record fee_limit_filler =
  fee_default :: trx

definition fee_limit_fill_sync :: "fee_limit_filler \<Rightarrow> tx_request \<Rightarrow> tx_request" where
  "fee_limit_fill_sync f tx =
     (if req_fee_limit tx = None \<and> contract_needs_fee_limit tx
      then tx\<lparr> req_fee_limit := Some (fee_default f) \<rparr> else tx)"

section \<open>A fee limit from an energy estimate\<close>

datatype on_estimate_failure = EstFail | EstUseFallback

record energy_filler =
  en_margin_percent :: u32
  en_min :: trx
  en_max :: trx
  en_fallback :: trx
  en_on_failure :: on_estimate_failure
  en_price_ttl :: duration
  en_price :: "(i64 \<times> nat) option"
  en_node_will_not_estimate :: bool

definition energy_new :: energy_filler where
  "energy_new =
     \<lparr> en_margin_percent = 20, en_min = trx_zero,
       en_max = from_sun_unchecked 1000000000, en_fallback = from_sun_unchecked 20000000,
       en_on_failure = EstFail, en_price_ttl = 300 * 10 ^ 9, en_price = None,
       en_node_will_not_estimate = False \<rparr>"

definition with_margin :: "energy_filler \<Rightarrow> u32 \<Rightarrow> energy_filler" where
  "with_margin f p = f\<lparr> en_margin_percent := p \<rparr>"

definition try_with_bounds :: "energy_filler \<Rightarrow> trx \<Rightarrow> trx \<Rightarrow> provider_error + energy_filler" where
  "try_with_bounds f lo hi =
     (if sint (as_sun hi) < sint (as_sun lo)
      then Err (RpcLocalUsage
             (''fee limit bounds are inverted: '' @ trx_display lo @ '' is above '' @ trx_display hi))
      else Ok (f\<lparr> en_min := lo, en_max := hi \<rparr>))"

text \<open>\<open>None\<close> stands for the panic.\<close>

definition with_bounds :: "energy_filler \<Rightarrow> trx \<Rightarrow> trx \<Rightarrow> energy_filler option" where
  "with_bounds f lo hi = result_ok (try_with_bounds f lo hi)"

definition with_fallback :: "energy_filler \<Rightarrow> trx \<Rightarrow> energy_filler" where
  "with_fallback f t = f\<lparr> en_fallback := t \<rparr>"

definition with_on_estimate_failure :: "energy_filler \<Rightarrow> on_estimate_failure \<Rightarrow> energy_filler" where
  "with_on_estimate_failure f o' = f\<lparr> en_on_failure := o' \<rparr>"

definition with_price_ttl :: "energy_filler \<Rightarrow> duration \<Rightarrow> energy_filler" where
  "with_price_ttl f d = f\<lparr> en_price_ttl := d \<rparr>"

definition energy_price ::
  "'w fill_node \<Rightarrow> energy_filler \<Rightarrow> 'w \<Rightarrow> (provider_error + i64) \<times> energy_filler \<times> 'w" where
  "energy_price N f w =
     (let ask = (case fn_energy_price N w of
                   (Inl e, w1) \<Rightarrow> (Err e, f, w1)
                 | (Inr p, w1) \<Rightarrow> (Ok p, f\<lparr> en_price := Some (p, fn_clock N w1) \<rparr>, w1))
      in case en_price f of
           Some (price, fetched) \<Rightarrow>
             if fn_clock N w - fetched < en_price_ttl f then (Ok price, f, w) else ask
         | None \<Rightarrow> ask)"

definition is_unsupported :: "provider_error \<Rightarrow> bool" where
  "is_unsupported e =
     (case rpc_as_transport e of Some (TkUnsupported _) \<Rightarrow> True | _ \<Rightarrow> False)"

text \<open>The read-only call, asked when the node's own estimate is not to be had.\<close>

definition energy_of_call ::
  "'w fill_node \<Rightarrow> trigger_smart_contract \<Rightarrow> 'w \<Rightarrow> (provider_error + i64) \<times> 'w" where
  "energy_of_call N call w =
     (case fn_call_contract N call w of
        (Inl e, w1) \<Rightarrow> (Err e, w1)
      | (Inr result, w1) \<Rightarrow>
          (case constant_call_result_revert_reason result of
             Some reason \<Rightarrow>
               (Err (RpcNodeError
                  (''the call reverts read-only, so its energy cannot be estimated: '' @ reason)), w1)
           | None \<Rightarrow> (Ok (constant_call_result_energy_used result), w1)))"

definition energy_needed ::
  "'w fill_node \<Rightarrow> energy_filler \<Rightarrow> trigger_smart_contract \<Rightarrow> 'w
     \<Rightarrow> (provider_error + i64) \<times> energy_filler \<times> 'w" where
  "energy_needed N f call w =
     (if \<not> en_node_will_not_estimate f
      then (case fn_estimate_energy N call w of
              (Inr energy, w1) \<Rightarrow> (Ok energy, f, w1)
            | (Inl err, w1) \<Rightarrow>
                (let f1 = (if is_unsupported err then f\<lparr> en_node_will_not_estimate := True \<rparr> else f);
                     (r, w2) = energy_of_call N call w1
                 in (r, f1, w2)))
      else (let (r, w2) = energy_of_call N call w in (r, f, w2)))"

text \<open>\<open>i128\<close> arithmetic, and its \<open>clamp\<close>.\<close>

definition checked_mul_i128 :: "int \<Rightarrow> int \<Rightarrow> int option" where
  "checked_mul_i128 a b =
     (if - (2 ^ 127) \<le> a * b \<and> a * b < 2 ^ 127 then Some (a * b) else None)"

definition clamp_i128 :: "int \<Rightarrow> int \<Rightarrow> int \<Rightarrow> int" where
  "clamp_i128 x lo hi = (if x < lo then lo else if hi < x then hi else x)"

text \<open>
  The text of an amount error; \<open>from_sun\<close> never fails to parse, and the model leaves out the
  quotes Rust puts around the string it could not read.
\<close>

definition amount_error_display :: "amount_error \<Rightarrow> string" where
  "amount_error_display e =
     (case e of
        NegativeAmount v \<Rightarrow> ''negative amount is invalid: '' @ show_int (sint v) @ '' sun''
      | AmountParseError s \<Rightarrow> ''invalid TRX amount: '' @ s)"

definition energy_limit :: "energy_filler \<Rightarrow> i64 \<Rightarrow> i64 \<Rightarrow> provider_error + trx" where
  "energy_limit f energy price =
     (let scale = 100 + uint (en_margin_percent f);
          product = (if 0 \<le> sint energy \<and> 0 \<le> sint price
                     then Option.bind (checked_mul_i128 (sint energy) (sint price))
                            (\<lambda>p. checked_mul_i128 p scale)
                     else None)
      in and_then
           (ok_or (rpc_of_transport (TkMalformed (Msg
              (''node priced the call at '' @ show_int (sint energy) @ '' energy times ''
               @ show_int (sint price) @ '' sun'')))) product)
           (\<lambda>sun.
              (let clamped = clamp_i128 (sun div 100) (sint (as_sun (en_min f))) (sint (as_sun (en_max f)))
               in map_err (\<lambda>e. RpcLocalUsage (amount_error_display e)) (from_sun (word_of_int clamped)))))"

definition energy_estimate ::
  "'w fill_node \<Rightarrow> energy_filler \<Rightarrow> trigger_smart_contract \<Rightarrow> 'w
     \<Rightarrow> (provider_error + trx) \<times> energy_filler \<times> 'w" where
  "energy_estimate N f call w =
     (case energy_needed N f call w of
        (Inl e, f1, w1) \<Rightarrow> (Err e, f1, w1)
      | (Inr energy, f1, w1) \<Rightarrow>
          (case energy_price N f1 w1 of
             (Inl e, f2, w2) \<Rightarrow> (Err e, f2, w2)
           | (Inr price, f2, w2) \<Rightarrow> (energy_limit f2 energy price, f2, w2)))"

definition energy_fill :: "'w fill_node \<Rightarrow> energy_filler \<Rightarrow> (energy_filler, 'w) filling" where
  "energy_fill N f tx w =
     (if req_fee_limit tx \<noteq> None \<or> \<not> contract_needs_fee_limit tx then (Ok tx, f, w)
      else
        (case req_contract tx of
           Some (CtTriggerSmartContract call) \<Rightarrow>
             (case energy_estimate N f call w of
                (Inr limit, f1, w1) \<Rightarrow> (Ok (tx\<lparr> req_fee_limit := Some limit \<rparr>), f1, w1)
              | (Inl err, f1, w1) \<Rightarrow>
                  (case en_on_failure f of
                     EstFail \<Rightarrow> (Err err, f1, w1)
                   | EstUseFallback \<Rightarrow>
                       (Ok (tx\<lparr> req_fee_limit := Some (en_fallback f) \<rparr>), f1, w1)))
         | _ \<Rightarrow> (Ok (tx\<lparr> req_fee_limit := Some (en_fallback f) \<rparr>), f, w)))"

section \<open>The wallet in the chain\<close>

record 'w wallet_filler =
  wf_wallet_of :: "'w wallet"
  wf_strict :: bool

definition wallet_filler_new :: "'w wallet \<Rightarrow> 'w wallet_filler" where
  "wallet_filler_new W = \<lparr> wf_wallet_of = W, wf_strict = False \<rparr>"

definition wallet_filler_strict :: "'w wallet_filler \<Rightarrow> 'w wallet_filler" where
  "wallet_filler_strict f = f\<lparr> wf_strict := True \<rparr>"

definition no_sign ::
  "'f \<Rightarrow> address option \<Rightarrow> bytes \<Rightarrow> 'w \<Rightarrow> (signer_error + recoverable_signature) option \<times> 'w" where
  "no_sign f key hash w = (None, w)"

definition wallet_signing_key :: "'w wallet_filler \<Rightarrow> address option \<Rightarrow> address" where
  "wallet_signing_key f key =
     (case key of
        Some owner \<Rightarrow>
          if wf_strict f \<or> has_signer_for (wf_wallet_of f) owner then owner
          else default_signer_address (wf_wallet_of f)
      | None \<Rightarrow> default_signer_address (wf_wallet_of f))"

definition wallet_sign_with ::
  "(bytes \<Rightarrow> string) \<Rightarrow> 'w wallet_filler \<Rightarrow> address option \<Rightarrow> bytes \<Rightarrow> 'w
     \<Rightarrow> (signer_error + recoverable_signature) option \<times> 'w" where
  "wallet_sign_with b58_enc f key hash w =
     (let (r, w1) = sign_hash_with b58_enc (wf_wallet_of f) (wallet_signing_key f key) hash w
      in (Some r, w1))"

definition wallet_signer_address :: "'w wallet_filler \<Rightarrow> address option" where
  "wallet_signer_address f = Some (default_signer_address (wf_wallet_of f))"

definition join_signer_address ::
  "('l \<Rightarrow> address option) \<Rightarrow> ('r \<Rightarrow> address option) \<Rightarrow> ('l, 'r) join_fill \<Rightarrow> address option" where
  "join_signer_address l_addr r_addr j =
     (case r_addr (join_right j) of Some a \<Rightarrow> Some a | None \<Rightarrow> l_addr (join_left j))"

definition join_sign_with ::
  "('l \<Rightarrow> address option \<Rightarrow> bytes \<Rightarrow> 'w \<Rightarrow> 'r1 option \<times> 'w)
     \<Rightarrow> ('r \<Rightarrow> address option \<Rightarrow> bytes \<Rightarrow> 'w \<Rightarrow> 'r1 option \<times> 'w)
     \<Rightarrow> ('l, 'r) join_fill \<Rightarrow> address option \<Rightarrow> bytes \<Rightarrow> 'w \<Rightarrow> 'r1 option \<times> 'w" where
  "join_sign_with l_sign r_sign j key hash w =
     (case r_sign (join_right j) key hash w of
        (Some result, w1) \<Rightarrow> (Some result, w1)
      | (None, w1) \<Rightarrow> l_sign (join_left j) key hash w1)"

section \<open>The contract of a filler\<close>

text \<open>
  A filler completes a request: it never touches the operation, the memo or the permission,
  and what the caller has set stays.
\<close>

definition keeps :: "tx_request \<Rightarrow> tx_request \<Rightarrow> bool" where
  "keeps tx tx' \<longleftrightarrow>
     req_contract tx' = req_contract tx \<and> req_memo tx' = req_memo tx
     \<and> req_permission_id tx' = req_permission_id tx
     \<and> (req_fee_limit tx \<noteq> None \<longrightarrow> req_fee_limit tx' = req_fee_limit tx)
     \<and> (req_ref_block_bytes tx \<noteq> None \<longrightarrow>
          req_ref_block_bytes tx' = req_ref_block_bytes tx
          \<and> req_ref_block_hash tx' = req_ref_block_hash tx
          \<and> req_expiration tx' = req_expiration tx \<and> req_timestamp tx' = req_timestamp tx)"

lemma keeps_refl [simp, intro]: "keeps tx tx"
  by (simp add: keeps_def)

lemma keeps_trans: "keeps a b \<Longrightarrow> keeps b c \<Longrightarrow> keeps a c"
  by (auto simp: keeps_def)

text \<open>How a provider drives a chain: synchronous, asynchronous, synchronous again.\<close>

definition prepare_request ::
  "('f \<Rightarrow> tx_request \<Rightarrow> tx_request) \<Rightarrow> ('f \<Rightarrow> ('f, 'w) filling) \<Rightarrow> 'f \<Rightarrow> ('f, 'w) filling" where
  "prepare_request fill_sync fill f req w =
     (case fill f (fill_sync f req) w of
        (Inl e, f1, w1) \<Rightarrow> (Err e, f1, w1)
      | (Inr req1, f1, w1) \<Rightarrow> (Ok (fill_sync f1 req1), f1, w1))"

locale tx_filler =
  fixes fill_sync :: "'f \<Rightarrow> tx_request \<Rightarrow> tx_request"
    and fill :: "'f \<Rightarrow> ('f, 'w) filling"
  assumes sync_keeps: "keeps tx (fill_sync f tx)"
    and fill_keeps: "fill f tx w = (Inr tx', f', w') \<Longrightarrow> keeps tx tx'"
begin

lemma prepare_keeps:
  assumes "prepare_request fill_sync fill f req w = (Inr req', f', w')"
  shows "keeps req req'"
proof -
  from assms obtain req1 where go: "fill f (fill_sync f req) w = (Inr req1, f', w')"
    and end1: "req' = fill_sync f' req1"
    by (auto simp: prepare_request_def split: prod.splits sum.splits)
  from end1 have "keeps req1 req'" using sync_keeps by simp
  then show ?thesis using keeps_trans [OF keeps_trans [OF sync_keeps fill_keeps [OF go]]] by blast
qed

end

locale two_fillers = l: tx_filler l_sync l_fill + r: tx_filler r_sync r_fill
  for l_sync :: "'l \<Rightarrow> tx_request \<Rightarrow> tx_request" and l_fill :: "'l \<Rightarrow> ('l, 'w) filling"
    and r_sync :: "'r \<Rightarrow> tx_request \<Rightarrow> tx_request" and r_fill :: "'r \<Rightarrow> ('r, 'w) filling"

text \<open>Joining two fillers gives a filler.\<close>

sublocale two_fillers \<subseteq> join: tx_filler "join_fill_sync l_sync r_sync" "join_fill_async l_fill r_fill"
proof unfold_locales
  show "keeps tx (join_fill_sync l_sync r_sync f tx)" for f tx
    using keeps_trans [OF l.sync_keeps r.sync_keeps] by (simp add: join_fill_sync_def)
  show "keeps tx tx'" if "join_fill_async l_fill r_fill f tx w = (Inr tx', f', w')" for f tx w tx' f' w'
  proof -
    from that obtain tx1 l w1 where "l_fill (join_left f) tx w = (Inr tx1, l, w1)"
      and "r_fill (join_right f) tx1 w1 = (Inr tx', join_right f', w')"
      by (auto simp: join_fill_async_def split: prod.splits sum.splits)
    then show ?thesis by (blast intro: keeps_trans l.fill_keeps r.fill_keeps)
  qed
qed

lemma tapos_fill_Ok:
  assumes "tapos_fill N f tx w = (Inr tx', f', w')" and "req_ref_block_bytes tx = None"
  shows "\<exists>b. tapos_block N f w = (Inr b, f', w')
    \<and> tx' = tx\<lparr> req_ref_block_bytes := Some (ref_block_bytes b),
               req_ref_block_hash := Some (ref_block_hash b),
               req_timestamp := Some (block_info_timestamp b),
               req_expiration := Some (block_info_timestamp b
                 + of_nat (duration_as_secs (tapos_expiry f)) * 1000) \<rparr>"
proof (cases "tapos_block N f w")
  case (fields r f1 w1)
  with assms show ?thesis by (cases r) (auto simp: tapos_fill_def Let_def)
qed

lemma tapos_fill_keeps: "tapos_fill N f tx w = (Inr tx', f', w') \<Longrightarrow> keeps tx tx'"
proof (cases "req_ref_block_bytes tx")
  case None
  then show "tapos_fill N f tx w = (Inr tx', f', w') \<Longrightarrow> keeps tx tx'"
    by (auto simp: keeps_def dest!: tapos_fill_Ok)
qed (simp add: tapos_fill_def)

lemma fee_limit_fill_sync_keeps: "keeps tx (fee_limit_fill_sync f tx)"
  by (auto simp: fee_limit_fill_sync_def keeps_def)

lemma no_trigger_case:
  assumes "\<nexists>call. c = Some (CtTriggerSmartContract call)"
  shows "(case c of Some (CtTriggerSmartContract call) \<Rightarrow> A call | _ \<Rightarrow> B) = B"
proof (cases c)
  case (Some ct)
  with assms show ?thesis by (cases ct) simp_all
qed simp

text \<open>The three ways an energy filler answers.\<close>

lemma energy_fill_skip:
  "req_fee_limit tx \<noteq> None \<or> \<not> contract_needs_fee_limit tx \<Longrightarrow> energy_fill N f tx w = (Ok tx, f, w)"
  by (simp add: energy_fill_def)

lemma energy_fill_call:
  "req_fee_limit tx = None \<Longrightarrow> req_contract tx = Some (CtTriggerSmartContract call) \<Longrightarrow>
   energy_fill N f tx w =
     (case energy_estimate N f call w of
        (Inr limit, f1, w1) \<Rightarrow> (Ok (tx\<lparr> req_fee_limit := Some limit \<rparr>), f1, w1)
      | (Inl err, f1, w1) \<Rightarrow>
          (case en_on_failure f of
             EstFail \<Rightarrow> (Err err, f1, w1)
           | EstUseFallback \<Rightarrow> (Ok (tx\<lparr> req_fee_limit := Some (en_fallback f) \<rparr>), f1, w1)))"
  by (simp add: energy_fill_def contract_needs_fee_limit_def needs_fee_limit_def)

lemma energy_fill_other:
  "req_fee_limit tx = None \<Longrightarrow> contract_needs_fee_limit tx \<Longrightarrow>
   \<nexists>call. req_contract tx = Some (CtTriggerSmartContract call) \<Longrightarrow>
   energy_fill N f tx w = (Ok (tx\<lparr> req_fee_limit := Some (en_fallback f) \<rparr>), f, w)"
  by (simp add: energy_fill_def no_trigger_case)

lemma energy_fill_Ok:
  assumes "energy_fill N f tx w = (Inr tx', f', w')"
  shows "\<exists>l. tx' = tx\<lparr> req_fee_limit := l \<rparr> \<and> (req_fee_limit tx \<noteq> None \<longrightarrow> l = req_fee_limit tx)"
proof (cases "req_fee_limit tx \<noteq> None \<or> \<not> contract_needs_fee_limit tx")
  case True
  with assms have "tx' = tx\<lparr> req_fee_limit := req_fee_limit tx \<rparr>" by (simp add: energy_fill_skip)
  then show ?thesis by blast
next
  case False
  have "\<exists>l. tx' = tx\<lparr> req_fee_limit := l \<rparr>"
  proof (cases "\<exists>call. req_contract tx = Some (CtTriggerSmartContract call)")
    case True
    with assms False show ?thesis
      by (auto simp: energy_fill_call split: prod.splits sum.splits on_estimate_failure.splits)
  next
    case other: False
    with assms False show ?thesis by (simp add: energy_fill_other) blast
  qed
  with False show ?thesis by blast
qed

lemma energy_fill_keeps: "energy_fill N f tx w = (Inr tx', f', w') \<Longrightarrow> keeps tx tx'"
  using energy_fill_Ok by (fastforce simp: keeps_def)

interpretation identity: tx_filler default_fill_sync default_fill
  by unfold_locales (auto simp: default_fill_sync_def default_fill_def)

interpretation tapos: tx_filler default_fill_sync "tapos_fill N" for N
  by unfold_locales (auto simp: default_fill_sync_def intro: tapos_fill_keeps)

interpretation fee_limit: tx_filler fee_limit_fill_sync default_fill
  by unfold_locales (auto simp: default_fill_def intro: fee_limit_fill_sync_keeps)

interpretation energy: tx_filler default_fill_sync "energy_fill N" for N
  by unfold_locales (auto simp: default_fill_sync_def intro: energy_fill_keeps)

text \<open>
  The chain \<open>ProviderBuilder::new\<close> installs, with the wallet of
  \<open>ProviderBuilder::wallet\<close> joined to it (\<open>crates/provider/src/type_aliases.rs\<close>).
\<close>

type_synonym recommended_fillers = "(identity, energy_filler) join_fill"

definition recommended_fill_sync :: "recommended_fillers \<Rightarrow> tx_request \<Rightarrow> tx_request" where
  "recommended_fill_sync = join_fill_sync default_fill_sync default_fill_sync"

definition recommended_fill ::
  "'w fill_node \<Rightarrow> recommended_fillers \<Rightarrow> (recommended_fillers, 'w) filling" where
  "recommended_fill N = join_fill_async default_fill (energy_fill N)"

type_synonym 'w wallet_fillers = "(recommended_fillers, 'w wallet_filler) join_fill"

definition wallet_chain_fill_sync :: "'w wallet_fillers \<Rightarrow> tx_request \<Rightarrow> tx_request" where
  "wallet_chain_fill_sync = join_fill_sync recommended_fill_sync default_fill_sync"

definition wallet_chain_fill :: "'w fill_node \<Rightarrow> 'w wallet_fillers \<Rightarrow> ('w wallet_fillers, 'w) filling" where
  "wallet_chain_fill N = join_fill_async (recommended_fill N) default_fill"

definition wallet_chain_sign_with ::
  "(bytes \<Rightarrow> string) \<Rightarrow> 'w wallet_fillers \<Rightarrow> address option \<Rightarrow> bytes \<Rightarrow> 'w
     \<Rightarrow> (signer_error + recoverable_signature) option \<times> 'w" where
  "wallet_chain_sign_with b58_enc = join_sign_with (join_sign_with no_sign no_sign) (wallet_sign_with b58_enc)"

interpretation recommended: two_fillers default_fill_sync default_fill default_fill_sync "energy_fill N" for N
  by unfold_locales

interpretation wallet_chain: two_fillers
  "join_fill_sync default_fill_sync default_fill_sync" "join_fill_async default_fill (energy_fill N)"
  default_fill_sync default_fill for N
  by unfold_locales

lemma wallet_chain_prepare_keeps:
  "prepare_request wallet_chain_fill_sync (wallet_chain_fill N) f req w = (Inr req', f', w')
   \<Longrightarrow> keeps req req'"
  unfolding wallet_chain_fill_sync_def wallet_chain_fill_def recommended_fill_sync_def recommended_fill_def
  by (rule wallet_chain.join.prepare_keeps)

section \<open>Energy limits\<close>

text \<open>Every way of building the filler keeps its bounds in order, so \<open>clamp\<close> cannot panic.\<close>

definition wf_energy :: "energy_filler \<Rightarrow> bool" where
  "wf_energy f \<longleftrightarrow> sint (as_sun (en_min f)) \<le> sint (as_sun (en_max f)) \<and> 0 \<le> sint (as_sun (en_min f))"

lemma wf_energy_new: "wf_energy energy_new"
  by (simp add: wf_energy_def energy_new_def trx_zero_def from_sun_unchecked_def)

lemma wf_energy_bounds:
  "try_with_bounds f lo hi = Inr f' \<Longrightarrow> 0 \<le> sint (as_sun lo) \<Longrightarrow> wf_energy f'"
  by (auto simp: try_with_bounds_def wf_energy_def split: if_splits)

lemma wf_energy_setters:
  "wf_energy f \<Longrightarrow> wf_energy (with_margin f p)" "wf_energy f \<Longrightarrow> wf_energy (with_fallback f t)"
  "wf_energy f \<Longrightarrow> wf_energy (with_on_estimate_failure f o')" "wf_energy f \<Longrightarrow> wf_energy (with_price_ttl f d)"
  by (simp_all add: wf_energy_def with_margin_def with_fallback_def with_on_estimate_failure_def
      with_price_ttl_def)

definition same_bounds :: "energy_filler \<Rightarrow> energy_filler \<Rightarrow> bool" where
  "same_bounds f f' \<longleftrightarrow> en_min f' = en_min f \<and> en_max f' = en_max f \<and> en_margin_percent f' = en_margin_percent f"

lemma energy_needed_bounds: "energy_needed N f call w = (r, f', w') \<Longrightarrow> same_bounds f f'"
  by (auto simp: energy_needed_def same_bounds_def Let_def split: if_splits prod.splits sum.splits)

lemma energy_price_bounds: "energy_price N f w = (r, f', w') \<Longrightarrow> same_bounds f f'"
  by (auto simp: energy_price_def same_bounds_def Let_def split: if_splits prod.splits sum.splits option.splits)

lemma clamp_bounds: "lo \<le> hi \<Longrightarrow> lo \<le> clamp_i128 x lo hi \<and> clamp_i128 x lo hi \<le> hi"
  by (simp add: clamp_i128_def)

definition priced :: "energy_filler \<Rightarrow> i64 \<Rightarrow> i64 \<Rightarrow> int" where
  "priced f energy price = sint energy * sint price * (100 + uint (en_margin_percent f))"

lemma energy_product_Some:
  assumes "0 \<le> sint (energy :: i64)" and "0 \<le> sint (price :: i64)"
  shows "Option.bind (checked_mul_i128 (sint energy) (sint price))
      (\<lambda>p. checked_mul_i128 p (100 + uint (en_margin_percent f)))
    = (if priced f energy price < 2 ^ 127 then Some (priced f energy price) else None)"
proof -
  have "sint energy \<le> 2 ^ 63" "sint price \<le> 2 ^ 63"
    using sint_i64_bounds(2) [of energy] sint_i64_bounds(2) [of price] by (simp_all add: i64_max_def)
  then have "sint energy * sint price \<le> 2 ^ 63 * 2 ^ 63" using assms by (intro mult_mono) simp_all
  moreover have "0 \<le> sint energy * sint price" using assms by simp
  moreover have "- (2 ^ 127) \<le> sint energy * sint price * (100 + uint (en_margin_percent f))"
    by (rule order_trans [of _ 0]) (use \<open>0 \<le> sint energy * sint price\<close> in \<open>simp_all add: mult_nonneg_nonneg\<close>)
  ultimately show ?thesis by (simp add: checked_mul_i128_def priced_def)
qed

lemma energy_limit_eq:
  assumes "wf_energy f"
  shows "energy_limit f energy price =
    (if 0 \<le> sint energy \<and> 0 \<le> sint price \<and> priced f energy price < 2 ^ 127
     then Ok (Trx (word_of_int
       (clamp_i128 (priced f energy price div 100) (sint (as_sun (en_min f))) (sint (as_sun (en_max f))))))
     else Err (RpcTransport (TkMalformed (Msg
       (''node priced the call at '' @ show_int (sint energy) @ '' energy times ''
        @ show_int (sint price) @ '' sun'')))))"
proof (cases "0 \<le> sint energy \<and> 0 \<le> sint price")
  case True
  let ?c = "clamp_i128 (priced f energy price div 100) (sint (as_sun (en_min f))) (sint (as_sun (en_max f)))"
  have "sint (as_sun (en_min f)) \<le> ?c \<and> ?c \<le> sint (as_sun (en_max f))"
    using assms by (intro clamp_bounds) (simp add: wf_energy_def)
  then have "0 \<le> ?c" "?c \<le> i64_max"
    using assms sint_i64_bounds(2) [of "as_sun (en_max f)"] by (auto simp: wf_energy_def)
  then have "sint (word_of_int ?c :: i64) = ?c" by (intro sint_word_of_int_i64) (simp_all add: i64_min_def)
  with \<open>0 \<le> ?c\<close> True show ?thesis
    by (simp add: energy_limit_def Let_def energy_product_Some from_sun_def rpc_of_transport_def)
next
  case False
  then show ?thesis
    by (cases "0 \<le> sint energy") (simp_all add: energy_limit_def Let_def rpc_of_transport_def)
qed

text \<open>
  The limit an energy estimate gives is within the configured bounds, and between them it
  is the price of the energy with the margin, rounded down: no product of what the node answers
  wraps around.  It is refused exactly when the node answers a negative number or the product
  leaves 128 bits.
\<close>

theorem energy_limit_clamped:
  assumes "wf_energy f"
  shows "(case energy_limit f energy price of
     Inr t \<Rightarrow>
       0 \<le> sint (as_sun t) \<and> as_sun (en_min f) \<le>s as_sun t \<and> as_sun t \<le>s as_sun (en_max f)
       \<and> (t = en_min f \<or> 100 * sint (as_sun t) \<le> priced f energy price)
       \<and> (t = en_max f \<or> priced f energy price < 100 * (sint (as_sun t) + 1))
   | Inl e \<Rightarrow> sint energy < 0 \<or> sint price < 0 \<or> 2 ^ 127 \<le> priced f energy price)"
proof (cases "0 \<le> sint energy \<and> 0 \<le> sint price \<and> priced f energy price < 2 ^ 127")
  case True
  let ?x = "priced f energy price div 100"
  let ?lo = "sint (as_sun (en_min f))" and ?hi = "sint (as_sun (en_max f))"
  let ?c = "clamp_i128 ?x ?lo ?hi"
  have b: "?lo \<le> ?c" "?c \<le> ?hi" "0 \<le> ?lo"
    using assms clamp_bounds [of ?lo ?hi ?x] by (auto simp: wf_energy_def)
  then have s: "sint (word_of_int ?c :: i64) = ?c"
    using sint_i64_bounds(2) [of "as_sun (en_max f)"]
    by (intro sint_word_of_int_i64) (simp_all add: i64_min_def)
  have trx_eq: "Trx (word_of_int ?c) = t \<longleftrightarrow> ?c = sint (as_sun t)" for t
    using s by (cases t) (auto simp: sint_eq_iff)
  have "?c = ?lo \<or> ?c \<le> ?x" "?c = ?hi \<or> ?x \<le> ?c" by (auto simp: clamp_i128_def)
  then have "Trx (word_of_int ?c) = en_min f \<or> 100 * ?c \<le> priced f energy price"
    and "Trx (word_of_int ?c) = en_max f \<or> priced f energy price < 100 * (?c + 1)"
    by (auto simp: trx_eq)
  with True s b show ?thesis
    by (simp add: energy_limit_eq [OF assms] word_sle_eq)
next
  case False
  then show ?thesis by (auto simp: energy_limit_eq [OF assms])
qed

theorem energy_limit_clamped_witness:
  "energy_limit energy_new 1000 420 = Ok (Trx 504000) \<and> 100 * (504000 :: int) \<le> priced energy_new 1000 420"
proof -
  have "energy_limit energy_new 1000 420 = Ok (Trx 504000)"
    by (simp add: energy_limit_def energy_new_def checked_mul_i128_def clamp_i128_def from_sun_def
        trx_zero_def from_sun_unchecked_def)
  with energy_limit_clamped [OF wf_energy_new, of 1000 420] show ?thesis
    by (simp add: energy_new_def trx_zero_def)
qed

text \<open>
  What the node says of a call.  It is asked for its estimate, unless it was found not to give any; when
  there is none the call is made read-only, and a call that reverts has no energy.  The price is the one
  remembered while it is fresh, and asked otherwise.
\<close>

definition asks_call :: "'w fill_node \<Rightarrow> energy_filler \<Rightarrow> trigger_smart_contract \<Rightarrow> 'w \<Rightarrow> 'w \<Rightarrow> bool" where
  "asks_call N f call w w1 \<longleftrightarrow>
     (if en_node_will_not_estimate f then w1 = w else \<exists>e. fn_estimate_energy N call w = (Err e, w1))"

inductive call_needs ::
  "'w fill_node \<Rightarrow> energy_filler \<Rightarrow> trigger_smart_contract \<Rightarrow> 'w \<Rightarrow> provider_error + i64 \<Rightarrow> 'w \<Rightarrow> bool" for N f call w where
  estimated: "\<not> en_node_will_not_estimate f \<Longrightarrow> fn_estimate_energy N call w = (Ok energy, w1)
    \<Longrightarrow> call_needs N f call w (Ok energy) w1"
| tried: "asks_call N f call w w1 \<Longrightarrow> fn_call_contract N call w1 = (Ok result, w2)
    \<Longrightarrow> constant_call_result_revert_reason result = None
    \<Longrightarrow> call_needs N f call w (Ok (constant_call_result_energy_used result)) w2"
| reverts: "asks_call N f call w w1 \<Longrightarrow> fn_call_contract N call w1 = (Ok result, w2)
    \<Longrightarrow> constant_call_result_revert_reason result = Some reason
    \<Longrightarrow> call_needs N f call w (Err (RpcNodeError
          (''the call reverts read-only, so its energy cannot be estimated: '' @ reason))) w2"
| unanswered: "asks_call N f call w w1 \<Longrightarrow> fn_call_contract N call w1 = (Err e, w2)
    \<Longrightarrow> call_needs N f call w (Err e) w2"

definition fresh_price :: "'w fill_node \<Rightarrow> energy_filler \<Rightarrow> 'w \<Rightarrow> i64 option" where
  "fresh_price N f w = (case en_price f of
     Some (price, fetched) \<Rightarrow> if fn_clock N w - fetched < en_price_ttl f then Some price else None
   | None \<Rightarrow> None)"

definition priced_at :: "'w fill_node \<Rightarrow> energy_filler \<Rightarrow> 'w \<Rightarrow> provider_error + i64 \<Rightarrow> 'w \<Rightarrow> bool" where
  "priced_at N f w r w' \<longleftrightarrow>
     (case fresh_price N f w of Some price \<Rightarrow> r = Ok price \<and> w' = w | None \<Rightarrow> (r, w') = fn_energy_price N w)"

lemma energy_needed_needs:
  assumes "energy_needed N f call w = (r, f', w')"
  shows "call_needs N f call w r w' \<and> same_bounds f f' \<and> en_price f' = en_price f \<and> en_price_ttl f' = en_price_ttl f"
proof -
  have call: "call_needs N f call w r2 w2" if "asks_call N f call w w1" "energy_of_call N call w1 = (r2, w2)" for w1 w2 r2
    using that by (auto simp: energy_of_call_def split: prod.splits sum.splits option.splits intro: call_needs.intros
        simp del: append.simps)
  show ?thesis
    using assms call
    by (auto simp: energy_needed_def asks_call_def same_bounds_def Let_def split: if_splits prod.splits sum.splits
        intro: call_needs.estimated)
qed

lemma energy_price_priced:
  "energy_price N f w = (r, f', w') \<Longrightarrow> priced_at N f w r w' \<and> same_bounds f f'"
  by (auto simp: energy_price_def priced_at_def fresh_price_def same_bounds_def Let_def
      split: if_splits prod.splits sum.splits option.splits)

lemma fresh_price_same:
  "en_price f' = en_price f \<Longrightarrow> en_price_ttl f' = en_price_ttl f \<Longrightarrow> priced_at N f' = priced_at N f"
  by (intro ext) (simp add: priced_at_def fresh_price_def split: option.split)

text \<open>The limit a call is given, and what a call that cannot be priced comes to.\<close>

definition funded :: "energy_filler \<Rightarrow> int \<Rightarrow> trx \<Rightarrow> bool" where
  "funded f sun l \<longleftrightarrow> sint (as_sun l) = max (sint (as_sun (en_min f))) (min (sint (as_sun (en_max f))) sun)"

definition unpriced :: "energy_filler \<Rightarrow> tx_request \<Rightarrow> provider_error \<Rightarrow> provider_error + tx_request" where
  "unpriced f tx e =
     (case en_on_failure f of
        EstFail \<Rightarrow> Err e
      | EstUseFallback \<Rightarrow> Ok (tx\<lparr> req_fee_limit := Some (en_fallback f) \<rparr>))"

lemma energy_limit_funded:
  assumes "wf_energy f" and "0 \<le> sint energy" and "0 \<le> sint price" and "priced f energy price < 2 ^ 127"
  shows "\<exists>l. energy_limit f energy price = Ok l \<and> funded f (priced f energy price div 100) l"
proof -
  let ?lo = "sint (as_sun (en_min f))" and ?hi = "sint (as_sun (en_max f))" and ?x = "priced f energy price div 100"
  have c: "clamp_i128 ?x ?lo ?hi = max ?lo (min ?hi ?x)"
    using assms(1) by (auto simp: clamp_i128_def wf_energy_def max_def min_def)
  have "0 \<le> max ?lo (min ?hi ?x)" "max ?lo (min ?hi ?x) \<le> i64_max"
    using assms(1) sint_i64_bounds(2) [of "as_sun (en_max f)"] by (auto simp: wf_energy_def)
  then have "sint (word_of_int (max ?lo (min ?hi ?x)) :: i64) = max ?lo (min ?hi ?x)"
    by (intro sint_word_of_int_i64) (simp_all add: i64_min_def)
  with assms(2-4) show ?thesis by (simp add: energy_limit_eq [OF assms(1)] c funded_def)
qed

lemma same_bounds_wf: "same_bounds f f' \<Longrightarrow> wf_energy f \<Longrightarrow> wf_energy f'"
  by (simp add: same_bounds_def wf_energy_def)

lemma same_bounds_priced: "same_bounds f f' \<Longrightarrow> priced f' = priced f \<and> funded f' = funded f"
  by (simp add: same_bounds_def priced_def funded_def fun_eq_iff)

lemma energy_estimate_comes_to:
  assumes "wf_energy f" and "energy_estimate N f call w = (r, f', w')"
  obtains e where "call_needs N f call w (Inl e) w'" and "r = Err e"
  | energy w1 e where "call_needs N f call w (Inr energy) w1" and "priced_at N f w1 (Inl e) w'" and "r = Err e"
  | energy w1 price l where "call_needs N f call w (Inr energy) w1" and "priced_at N f w1 (Inr price) w'"
    and "0 \<le> sint energy" and "0 \<le> sint price" and "priced f energy price < 2 ^ 127"
    and "r = Ok l" and "funded f (priced f energy price div 100) l"
  | energy w1 price where "call_needs N f call w (Inr energy) w1" and "priced_at N f w1 (Inr price) w'"
    and "\<not> (0 \<le> sint energy \<and> 0 \<le> sint price \<and> priced f energy price < 2 ^ 127)"
    and "r = Err (RpcTransport (TkMalformed (Msg
       (''node priced the call at '' @ show_int (sint energy) @ '' energy times ''
        @ show_int (sint price) @ '' sun''))))"
proof (cases "energy_needed N f call w")
  case (fields a f1 w1)
  note need = energy_needed_needs [OF fields]
  show thesis
  proof (cases a)
    case (Inl e)
    with assms(2) fields need show thesis by (intro that(1) [of e]) (auto simp: energy_estimate_def)
  next
    case (Inr energy)
    obtain p f2 w2 where price: "energy_price N f1 w1 = (p, f2, w2)" by (cases "energy_price N f1 w1")
    have at: "priced_at N f w1 p w2" using energy_price_priced [OF price] fresh_price_same [of f1 f N] need by simp
    show thesis
    proof (cases p)
      case (Inl e)
      with assms(2) fields \<open>a = Inr energy\<close> price need at show thesis
        by (intro that(2) [of energy w1 e]) (auto simp: energy_estimate_def)
    next
      case (Inr price')
      have bounds: "same_bounds f f2" using need energy_price_priced [OF price] by (simp add: same_bounds_def)
      note wf = same_bounds_wf [OF bounds assms(1)] and same = same_bounds_priced [OF bounds]
      have r: "r = energy_limit f2 energy price'" "w' = w2"
        using assms(2) fields \<open>a = Inr energy\<close> price Inr by (auto simp: energy_estimate_def)
      show thesis
      proof (cases "0 \<le> sint energy \<and> 0 \<le> sint price' \<and> priced f energy price' < 2 ^ 127")
        case True
        then obtain l where "r = Ok l" "funded f (priced f energy price' div 100) l"
          using energy_limit_funded [OF wf, of energy price'] same r(1) by auto
        with True need \<open>a = Inr energy\<close> at Inr r(2) show thesis by (intro that(3)) auto
      next
        case False
        with r(1) same have "r = Err (RpcTransport (TkMalformed (Msg
            (''node priced the call at '' @ show_int (sint energy) @ '' energy times ''
             @ show_int (sint price') @ '' sun''))))"
          by (auto simp: energy_limit_eq [OF wf])
        with False need \<open>a = Inr energy\<close> at Inr r(2) show thesis by (intro that(4)) auto
      qed
    qed
  qed
qed

text \<open>
  C32: the energy filler changes nothing and asks nothing when a limit is already set or the operation
  needs none, and gives an operation that is no call to an existing contract the fallback.  For a call
  it sets the limit to the energy the node says it needs, times the price, with the margin, rounded
  down and kept within the bounds.  When the node cannot say one or the other, or says a negative number,
  or the product leaves 128 bits, the filler fails with that error if it was told to, and gives the
  fallback if it was told to; and in no other case.  Nothing but the limit is changed.
\<close>

theorem energy_fill_correct:
  assumes "wf_energy f" and "energy_fill N f tx w = (r, f', w')"
  shows "if req_fee_limit tx \<noteq> None \<or> \<not> contract_needs_fee_limit tx then r = Ok tx \<and> f' = f \<and> w' = w
    else (case req_contract tx of
        Some (CtTriggerSmartContract call) \<Rightarrow>
          (\<exists>need w1. call_needs N f call w need w1
             \<and> (case need of
                   Inl e \<Rightarrow> w' = w1 \<and> r = unpriced f tx e
                 | Inr energy \<Rightarrow>
                     (\<exists>price. priced_at N f w1 price w'
                        \<and> (case price of
                              Inl e \<Rightarrow> r = unpriced f tx e
                            | Inr price \<Rightarrow>
                                if 0 \<le> sint energy \<and> 0 \<le> sint price \<and> priced f energy price < 2 ^ 127
                                then \<exists>l. funded f (priced f energy price div 100) l
                                       \<and> r = Ok (tx\<lparr> req_fee_limit := Some l \<rparr>)
                                else r = unpriced f tx (RpcTransport (TkMalformed (Msg
                                  (''node priced the call at '' @ show_int (sint energy) @ '' energy times ''
                                   @ show_int (sint price) @ '' sun''))))))))
      | _ \<Rightarrow> r = Ok (tx\<lparr> req_fee_limit := Some (en_fallback f) \<rparr>) \<and> f' = f \<and> w' = w)"
proof (cases "req_fee_limit tx \<noteq> None \<or> \<not> contract_needs_fee_limit tx")
  case True
  with assms(2) show ?thesis by (auto simp: energy_fill_skip)
next
  case False
  show ?thesis
  proof (cases "\<exists>call. req_contract tx = Some (CtTriggerSmartContract call)")
    case True
    then obtain call where call: "req_contract tx = Some (CtTriggerSmartContract call)" by blast
    let ?priced = "\<lambda>energy price.
        if 0 \<le> sint energy \<and> 0 \<le> sint price \<and> priced f energy price < 2 ^ 127
        then \<exists>l. funded f (priced f energy price div 100) l \<and> r = Ok (tx\<lparr> req_fee_limit := Some l \<rparr>)
        else r = unpriced f tx (RpcTransport (TkMalformed (Msg
          (''node priced the call at '' @ show_int (sint energy) @ '' energy times ''
           @ show_int (sint price) @ '' sun''))))"
    obtain est f1 w1 where est: "energy_estimate N f call w = (est, f1, w1)" by (cases "energy_estimate N f call w")
    have fill: "w' = w1" "est = Inr l \<Longrightarrow> r = Ok (tx\<lparr> req_fee_limit := Some l \<rparr>)" "est = Inl e \<Longrightarrow> r = unpriced f tx e"
      for l e
      using assms(2) False call est
      by (auto simp: energy_fill_call unpriced_def split: sum.splits on_estimate_failure.splits)
    from energy_estimate_comes_to [OF assms(1) est] have "\<exists>need u. call_needs N f call w need u
        \<and> (case need of
              Inl e \<Rightarrow> w' = u \<and> r = unpriced f tx e
            | Inr energy \<Rightarrow> (\<exists>p. priced_at N f u p w' \<and> (case p of
                  Inl e \<Rightarrow> r = unpriced f tx e
                | Inr price \<Rightarrow> ?priced energy price)))"
    proof cases
      case (1 e)
      then show ?thesis using fill by (intro exI [of _ "Inl e"] exI [of _ w1]) simp
    next
      case (2 energy u e)
      then have "priced_at N f u (Inl e) w' \<and> r = unpriced f tx e" using fill by simp
      with 2(1) show ?thesis by (intro exI [of _ "Inr energy"] exI [of _ u]) (simp, intro exI [of _ "Inl e"], simp)
    next
      case (3 energy u price l)
      then have "priced_at N f u (Inr price) w' \<and> ?priced energy price" using fill by auto
      with 3(1) show ?thesis
        by (intro exI [of _ "Inr energy"] exI [of _ u]) (simp only: sum.case, intro conjI exI [of _ "Inr price"], auto)
    next
      case (4 energy u price)
      then have "priced_at N f u (Inr price) w' \<and> ?priced energy price" using fill by auto
      with 4(1) show ?thesis
        by (intro exI [of _ "Inr energy"] exI [of _ u]) (simp only: sum.case, intro conjI exI [of _ "Inr price"], auto)
    qed
    with False call show ?thesis by simp
  next
    case other: False
    with assms(2) False show ?thesis
      by (auto simp: energy_fill_other split: option.split contract_type.split)
  qed
qed

text \<open>A node to run the fillers against: it refuses to estimate, and a call costs 1000 energy.\<close>

definition sample_node :: "nat fill_node" where
  "sample_node =
     \<lparr> fn_now_block = (\<lambda>w. (Ok (block_info_new 7 (replicate 32 1) 1000), w + 1)),
       fn_energy_price = (\<lambda>w. (Ok 420, w + 1)),
       fn_estimate_energy = (\<lambda>_ w. (Err (RpcTransport (TkUnsupported ''off'')), w + 1)),
       fn_call_contract = (\<lambda>_ w.
          (Ok \<lparr> constant_call_result_output = [], constant_call_result_energy_used = 1000, constant_call_result_revert_reason = None \<rparr>, w + 1)),
       fn_clock = (\<lambda>w. w) \<rparr>"

definition sample_call :: trigger_smart_contract where
  "sample_call =
     \<lparr> trigger_smart_owner_address = address_zero, trigger_smart_contract_address = address_zero,
       trigger_smart_call_value = trx_zero, trigger_smart_data = [],
       trigger_smart_call_token_value = trx_zero, trigger_smart_token_id = 0 \<rparr>"

definition sample_fill_request :: tx_request where
  "sample_fill_request = tx_request_default\<lparr> req_contract := Some (CtTriggerSmartContract sample_call) \<rparr>"

lemma sample_energy_fill:
  "energy_fill sample_node energy_new sample_fill_request 0
   = (Ok (sample_fill_request\<lparr> req_fee_limit := Some (Trx 504000) \<rparr>),
      energy_new\<lparr> en_node_will_not_estimate := True, en_price := Some (420, 3) \<rparr>, 3)"
proof -
  have need: "energy_needed sample_node energy_new sample_call 0
      = (Ok 1000, energy_new\<lparr> en_node_will_not_estimate := True \<rparr>, 2)"
    by (simp add: energy_needed_def energy_of_call_def sample_node_def energy_new_def is_unsupported_def
        rpc_as_transport_def)
  have price: "energy_price sample_node (energy_new\<lparr> en_node_will_not_estimate := True \<rparr>) 2
      = (Ok 420, energy_new\<lparr> en_node_will_not_estimate := True, en_price := Some (420, 3) \<rparr>, 3)"
    by (simp add: energy_price_def sample_node_def energy_new_def)
  have limit: "energy_limit (energy_new\<lparr> en_node_will_not_estimate := True, en_price := Some (420, 3) \<rparr>) 1000 420
      = Ok (Trx 504000)"
    by (simp add: energy_limit_def energy_new_def checked_mul_i128_def clamp_i128_def from_sun_def
        trx_zero_def from_sun_unchecked_def)
  show ?thesis
    by (subst energy_fill_call [of _ sample_call])
      (simp_all add: energy_estimate_def need price limit sample_fill_request_def tx_request_default_def)
qed

theorem energy_fill_correct_witness:
  "\<exists>l f' w'. energy_fill sample_node energy_new sample_fill_request 0
      = (Ok (sample_fill_request\<lparr> req_fee_limit := Some l \<rparr>), f', w')
     \<and> funded energy_new (1000 * 420 * 120 div 100) l"
proof -
  have ask: "req_fee_limit sample_fill_request = None" "contract_needs_fee_limit sample_fill_request"
      "req_contract sample_fill_request = Some (CtTriggerSmartContract sample_call)"
    by (simp_all add: sample_fill_request_def tx_request_default_def contract_needs_fee_limit_def
        needs_fee_limit_def)
  have need: "call_needs sample_node energy_new sample_call 0 n w1 \<Longrightarrow> n = Ok 1000 \<and> w1 = 2" for n w1
    by (auto elim!: call_needs.cases simp: asks_call_def sample_node_def energy_new_def)
  have price: "priced_at sample_node energy_new 2 p w2 \<Longrightarrow> p = Ok 420" for p w2
    by (simp add: priced_at_def fresh_price_def sample_node_def energy_new_def)
  have product: "priced energy_new 1000 420 = 1000 * 420 * 120" by (simp add: priced_def energy_new_def)
  from energy_fill_correct [OF wf_energy_new sample_energy_fill] ask product obtain l where
    "funded energy_new (1000 * 420 * 120 div 100) l"
    "sample_fill_request\<lparr> req_fee_limit := Some (Trx 504000) \<rparr> = sample_fill_request\<lparr> req_fee_limit := Some l \<rparr>"
    by (auto dest!: need price)
  then show ?thesis using sample_energy_fill by (intro exI [of _ l]) simp
qed

section \<open>What the caches save\<close>

text \<open>
  A node is written off exactly when it answers that it does not serve
  \<open>EstimateEnergy\<close>, and from then on what it would have answered does not matter: it is not
  asked again.  The price fetched for one call serves the next ones until its TTL has passed.
\<close>

theorem estimate_asked_once:
  assumes "energy_needed N f call w = (r, f1, w1)"
  shows "(en_node_will_not_estimate f1 \<longleftrightarrow>
       en_node_will_not_estimate f
       \<or> (\<exists>e. fst (fn_estimate_energy N call w) = Inl e \<and> is_unsupported e))
     \<and> (en_node_will_not_estimate f1 \<longrightarrow>
          energy_needed (N\<lparr> fn_estimate_energy := g \<rparr>) f1 call' w2 = energy_needed N f1 call' w2)
     \<and> (energy_price N f w = (Inr p, f2, w2) \<longrightarrow> fn_clock N w3 < fn_clock N w2 + en_price_ttl f
          \<longrightarrow> en_price f = None \<longrightarrow> 0 < en_price_ttl f \<longrightarrow> energy_price N f2 w3 = (Inr p, f2, w3))"
proof (intro conjI impI)
  show "en_node_will_not_estimate f1 \<longleftrightarrow> en_node_will_not_estimate f
       \<or> (\<exists>e. fst (fn_estimate_energy N call w) = Inl e \<and> is_unsupported e)"
    using assms
    by (cases "fn_estimate_energy N call w"; cases "fst (fn_estimate_energy N call w)")
      (auto simp: energy_needed_def Let_def split: if_splits prod.splits)
  show "energy_needed (N\<lparr> fn_estimate_energy := g \<rparr>) f1 call' w2 = energy_needed N f1 call' w2"
    if "en_node_will_not_estimate f1"
    using that by (simp add: energy_needed_def energy_of_call_def)
  show "energy_price N f2 w3 = (Inr p, f2, w3)"
    if "energy_price N f w = (Inr p, f2, w2)" "fn_clock N w3 < fn_clock N w2 + en_price_ttl f"
      "en_price f = None" "0 < en_price_ttl f"
    using that by (auto simp: energy_price_def Let_def split: prod.splits sum.splits)
qed

theorem estimate_asked_once_witness:
  "en_node_will_not_estimate
     (fst (snd (energy_needed sample_node energy_new sample_call 0)))"
proof -
  have run: "energy_needed sample_node energy_new sample_call 0
      = (Ok 1000, energy_new\<lparr> en_node_will_not_estimate := True \<rparr>, 2)"
    by (simp add: energy_needed_def energy_of_call_def sample_node_def energy_new_def is_unsupported_def
        rpc_as_transport_def)
  have "\<exists>e. fst (fn_estimate_energy sample_node sample_call 0) = Inl e \<and> is_unsupported e"
    by (simp add: sample_node_def is_unsupported_def rpc_as_transport_def)
  with estimate_asked_once [OF run] run show ?thesis by simp
qed

text \<open>
  The block fetched for one transaction serves the ones that follow until its TTL has
  passed: filling them asks the node nothing and gives them the same reference block and times.
\<close>

theorem tapos_block_shared:
  assumes "tapos_fill N f tx w = (Inr tx1, f1, w1)" and "tapos_cached f = None"
    and "req_ref_block_bytes tx = None" and "req_ref_block_bytes tx' = None"
    and "fn_clock N w2 - fn_clock N w1 < tapos_block_ttl f"
  shows "tapos_fill N f1 tx' w2 =
    (Ok (tx'\<lparr> req_ref_block_bytes := req_ref_block_bytes tx1,
              req_ref_block_hash := req_ref_block_hash tx1,
              req_timestamp := req_timestamp tx1, req_expiration := req_expiration tx1 \<rparr>), f1, w2)"
proof -
  from tapos_fill_Ok [OF assms(1,3)] obtain b where b: "tapos_block N f w = (Inr b, f1, w1)"
    and tx1: "tx1 = tx\<lparr> req_ref_block_bytes := Some (ref_block_bytes b),
               req_ref_block_hash := Some (ref_block_hash b),
               req_timestamp := Some (block_info_timestamp b),
               req_expiration := Some (block_info_timestamp b
                 + of_nat (duration_as_secs (tapos_expiry f)) * 1000) \<rparr>"
    by blast
  from b assms(2) have "f1 = f\<lparr> tapos_cached := Some (b, fn_clock N w1) \<rparr>"
    by (auto simp: tapos_block_def split: prod.splits sum.splits)
  then show ?thesis using assms(4,5) tx1 by (simp add: tapos_fill_def tapos_block_def Let_def)
qed

theorem tapos_block_shared_witness:
  "\<exists>tx1 f1. tapos_fill sample_node tapos_new sample_fill_request 0 = (Inr tx1, f1, 1)
     \<and> tapos_fill sample_node f1 tx_request_default 2000000000
       = (Ok (tx_request_default\<lparr> req_ref_block_bytes := req_ref_block_bytes tx1,
              req_ref_block_hash := req_ref_block_hash tx1,
              req_timestamp := req_timestamp tx1, req_expiration := req_expiration tx1 \<rparr>), f1, 2000000000)"
proof -
  obtain tx1 f1 where run: "tapos_fill sample_node tapos_new sample_fill_request 0 = (Inr tx1, f1, 1)"
    by (auto simp: tapos_fill_def tapos_block_def tapos_new_def sample_node_def sample_fill_request_def
        tx_request_default_def Let_def)
  have "tapos_fill sample_node f1 tx_request_default 2000000000
       = (Ok (tx_request_default\<lparr> req_ref_block_bytes := req_ref_block_bytes tx1,
              req_ref_block_hash := req_ref_block_hash tx1,
              req_timestamp := req_timestamp tx1, req_expiration := req_expiration tx1 \<rparr>), f1, 2000000000)"
    by (rule tapos_block_shared [OF run])
      (simp_all add: tapos_new_def sample_node_def sample_fill_request_def tx_request_default_def)
  with run show ?thesis by blast
qed

text \<open>
  The filler drops what of the expiry is below a second, where
  \<open>TransactionRequest::with_tapos\<close> keeps the milliseconds.
\<close>

lemma tapos_expiry_drops_subsecond:
  assumes "tapos_fill N (f\<lparr> tapos_expiry := 500 * 10 ^ 6 \<rparr>) tx w = (Inr tx', f', w')"
    and "req_ref_block_bytes tx = None"
  shows "req_expiration tx' = req_timestamp tx'"
  using tapos_fill_Ok [OF assms] by (auto simp: duration_as_secs_def)

lemma with_tapos_keeps_millis:
  "req_expiration (with_tapos tx b (500 * 10 ^ 6)) = Some (block_info_timestamp b + 500)"
  by (simp add: with_tapos_def duration_as_millis_def)

end
