(* ===== verification/Route.thy ===== *)
theory Route
  imports Transaction Errors
begin

text \<open>
  Which call builds which contract (\<open>build_via_transport\<close> in
  \<open>crates/provider/src/provider/mod.rs\<close>).  The transport (the methods of \<open>TronTransport\<close> that
  build a transaction) is a record of functions on the world \<open>'w\<close>, one per method.
\<close>

type_synonym ('c, 'w) build_rpc = "'c \<Rightarrow> 'w \<Rightarrow> (transport_error + raw_transaction) \<times> 'w"

record 'w build_rpcs =
  rpc_transfer_trx :: "(transfer_contract, 'w) build_rpc"
  rpc_trigger_smart_contract :: "(trigger_smart_contract, 'w) build_rpc"
  rpc_freeze_balance_v1 :: "(freeze_balance_v1_contract, 'w) build_rpc"
  rpc_unfreeze_balance_v1 :: "(unfreeze_balance_v1_contract, 'w) build_rpc"
  rpc_freeze_balance_v2 :: "(freeze_balance_v2_contract, 'w) build_rpc"
  rpc_unfreeze_balance_v2 :: "(unfreeze_balance_v2_contract, 'w) build_rpc"
  rpc_delegate_resource :: "(delegate_resource_contract, 'w) build_rpc"
  rpc_undelegate_resource :: "(un_delegate_resource_contract, 'w) build_rpc"
  rpc_withdraw_expire_unfreeze :: "(withdraw_expire_unfreeze_contract, 'w) build_rpc"
  rpc_cancel_all_unfreeze_v2 :: "(cancel_all_unfreeze_v2_contract, 'w) build_rpc"
  rpc_withdraw_balance :: "(withdraw_balance_contract, 'w) build_rpc"
  rpc_account_permission_update :: "(account_permission_update_contract, 'w) build_rpc"
  rpc_create_smart_contract :: "(create_smart_contract, 'w) build_rpc"
  rpc_create_asset_issue :: "(asset_issue_contract, 'w) build_rpc"
  rpc_transfer_asset :: "(transfer_asset_contract, 'w) build_rpc"
  rpc_participate_asset_issue :: "(participate_asset_issue_contract, 'w) build_rpc"
  rpc_unfreeze_asset :: "(unfreeze_asset_contract, 'w) build_rpc"
  rpc_update_asset :: "(update_asset_contract, 'w) build_rpc"
  rpc_create_account :: "(create_account_contract, 'w) build_rpc"
  rpc_vote_witness_account :: "(vote_witness_contract, 'w) build_rpc"
  rpc_update_account :: "(update_account_contract, 'w) build_rpc"
  rpc_proposal_create :: "(proposal_create_contract, 'w) build_rpc"
  rpc_proposal_approve :: "(proposal_approve_contract, 'w) build_rpc"
  rpc_proposal_delete :: "(proposal_delete_contract, 'w) build_rpc"
  rpc_create_witness :: "(create_witness_contract, 'w) build_rpc"
  rpc_update_witness :: "(update_witness_contract, 'w) build_rpc"
  rpc_update_brokerage :: "(update_brokerage_contract, 'w) build_rpc"
  rpc_set_account_id :: "(set_account_id_contract, 'w) build_rpc"
  rpc_clear_contract_abi :: "(clear_contract_abi_contract, 'w) build_rpc"
  rpc_update_setting :: "(update_setting_contract, 'w) build_rpc"
  rpc_update_energy_limit :: "(update_energy_limit_contract, 'w) build_rpc"
  rpc_exchange_create :: "(exchange_create_contract, 'w) build_rpc"
  rpc_exchange_inject :: "(exchange_inject_contract, 'w) build_rpc"
  rpc_exchange_withdraw :: "(exchange_withdraw_contract, 'w) build_rpc"
  rpc_exchange_transaction :: "(exchange_transaction_contract, 'w) build_rpc"
  rpc_market_sell_asset :: "(market_sell_asset_contract, 'w) build_rpc"
  rpc_market_cancel_order :: "(market_cancel_order_contract, 'w) build_rpc"

fun build_contract :: "'w build_rpcs \<Rightarrow> contract_type \<Rightarrow> 'w \<Rightarrow> (transport_error + raw_transaction) \<times> 'w" where
  "build_contract T (CtTransfer c) w = rpc_transfer_trx T c w"
| "build_contract T (CtTriggerSmartContract c) w = rpc_trigger_smart_contract T c w"
| "build_contract T (CtFreezeBalanceV1 c) w = rpc_freeze_balance_v1 T c w"
| "build_contract T (CtUnfreezeBalanceV1 c) w = rpc_unfreeze_balance_v1 T c w"
| "build_contract T (CtFreezeBalanceV2 c) w = rpc_freeze_balance_v2 T c w"
| "build_contract T (CtUnfreezeBalanceV2 c) w = rpc_unfreeze_balance_v2 T c w"
| "build_contract T (CtDelegateResource c) w = rpc_delegate_resource T c w"
| "build_contract T (CtUnDelegateResource c) w = rpc_undelegate_resource T c w"
| "build_contract T (CtWithdrawExpireUnfreeze c) w = rpc_withdraw_expire_unfreeze T c w"
| "build_contract T (CtCancelAllUnfreezeV2 c) w = rpc_cancel_all_unfreeze_v2 T c w"
| "build_contract T (CtWithdrawBalance c) w = rpc_withdraw_balance T c w"
| "build_contract T (CtAccountPermissionUpdate c) w = rpc_account_permission_update T c w"
| "build_contract T (CtCreateSmartContract c) w = rpc_create_smart_contract T c w"
| "build_contract T (CtAssetIssue c) w = rpc_create_asset_issue T c w"
| "build_contract T (CtTransferAsset c) w = rpc_transfer_asset T c w"
| "build_contract T (CtParticipateAssetIssue c) w = rpc_participate_asset_issue T c w"
| "build_contract T (CtUnfreezeAsset c) w = rpc_unfreeze_asset T c w"
| "build_contract T (CtUpdateAsset c) w = rpc_update_asset T c w"
| "build_contract T (CtCreateAccount c) w = rpc_create_account T c w"
| "build_contract T (CtVoteWitness c) w = rpc_vote_witness_account T c w"
| "build_contract T (CtUpdateAccount c) w = rpc_update_account T c w"
| "build_contract T (CtProposalCreate c) w = rpc_proposal_create T c w"
| "build_contract T (CtProposalApprove c) w = rpc_proposal_approve T c w"
| "build_contract T (CtProposalDelete c) w = rpc_proposal_delete T c w"
| "build_contract T (CtCreateWitness c) w = rpc_create_witness T c w"
| "build_contract T (CtUpdateWitness c) w = rpc_update_witness T c w"
| "build_contract T (CtUpdateBrokerage c) w = rpc_update_brokerage T c w"
| "build_contract T (CtSetAccountId c) w = rpc_set_account_id T c w"
| "build_contract T (CtClearContractAbi c) w = rpc_clear_contract_abi T c w"
| "build_contract T (CtUpdateSetting c) w = rpc_update_setting T c w"
| "build_contract T (CtUpdateEnergyLimit c) w = rpc_update_energy_limit T c w"
| "build_contract T (CtExchangeCreate c) w = rpc_exchange_create T c w"
| "build_contract T (CtExchangeInject c) w = rpc_exchange_inject T c w"
| "build_contract T (CtExchangeWithdraw c) w = rpc_exchange_withdraw T c w"
| "build_contract T (CtExchangeTransaction c) w = rpc_exchange_transaction T c w"
| "build_contract T (CtMarketSellAsset c) w = rpc_market_sell_asset T c w"
| "build_contract T (CtMarketCancelOrder c) w = rpc_market_cancel_order T c w"

text \<open>A transport that answers every request to build with the same value.\<close>

definition constant_rpcs :: "transport_error + raw_transaction \<Rightarrow> 'w build_rpcs" where
  "constant_rpcs r =
     \<lparr> rpc_transfer_trx = (\<lambda>_ w. (r, w)), rpc_trigger_smart_contract = (\<lambda>_ w. (r, w)), 
       rpc_freeze_balance_v1 = (\<lambda>_ w. (r, w)), rpc_unfreeze_balance_v1 = (\<lambda>_ w. (r, w)), 
       rpc_freeze_balance_v2 = (\<lambda>_ w. (r, w)), rpc_unfreeze_balance_v2 = (\<lambda>_ w. (r, w)), 
       rpc_delegate_resource = (\<lambda>_ w. (r, w)), rpc_undelegate_resource = (\<lambda>_ w. (r, w)), 
       rpc_withdraw_expire_unfreeze = (\<lambda>_ w. (r, w)), rpc_cancel_all_unfreeze_v2 = (\<lambda>_ w. (r, w)), 
       rpc_withdraw_balance = (\<lambda>_ w. (r, w)), rpc_account_permission_update = (\<lambda>_ w. (r, w)), 
       rpc_create_smart_contract = (\<lambda>_ w. (r, w)), rpc_create_asset_issue = (\<lambda>_ w. (r, w)), 
       rpc_transfer_asset = (\<lambda>_ w. (r, w)), rpc_participate_asset_issue = (\<lambda>_ w. (r, w)), 
       rpc_unfreeze_asset = (\<lambda>_ w. (r, w)), rpc_update_asset = (\<lambda>_ w. (r, w)), 
       rpc_create_account = (\<lambda>_ w. (r, w)), rpc_vote_witness_account = (\<lambda>_ w. (r, w)), 
       rpc_update_account = (\<lambda>_ w. (r, w)), rpc_proposal_create = (\<lambda>_ w. (r, w)), 
       rpc_proposal_approve = (\<lambda>_ w. (r, w)), rpc_proposal_delete = (\<lambda>_ w. (r, w)), 
       rpc_create_witness = (\<lambda>_ w. (r, w)), rpc_update_witness = (\<lambda>_ w. (r, w)), 
       rpc_update_brokerage = (\<lambda>_ w. (r, w)), rpc_set_account_id = (\<lambda>_ w. (r, w)), 
       rpc_clear_contract_abi = (\<lambda>_ w. (r, w)), rpc_update_setting = (\<lambda>_ w. (r, w)), 
       rpc_update_energy_limit = (\<lambda>_ w. (r, w)), rpc_exchange_create = (\<lambda>_ w. (r, w)), 
       rpc_exchange_inject = (\<lambda>_ w. (r, w)), rpc_exchange_withdraw = (\<lambda>_ w. (r, w)), 
       rpc_exchange_transaction = (\<lambda>_ w. (r, w)), rpc_market_sell_asset = (\<lambda>_ w. (r, w)), 
       rpc_market_cancel_order = (\<lambda>_ w. (r, w)) \<rparr>"

lemma build_constant: "build_contract (constant_rpcs r) c w = (r, w)"
  by (cases c) (simp_all add: constant_rpcs_def)

end
