(* ===== verification/Grpc_Core.thy ===== *)
theory Grpc_Core
  imports Errors Complex_Main
begin

text \<open>
  The gRPC call machinery: status mapping (\<open>crates/provider/src/transport/grpc/mod.rs\<close>),
  retries with back-off and the middleware around a call
  (\<open>crates/provider/src/transport/grpc/core.rs\<close>, \<open>middleware.rs\<close>).  What a call, a sleep, a
  random number, a clock reading or a middleware does to the world is a function on a state of
  any type \<open>'w\<close>, threaded in the order in which the code awaits; a duration is a number of
  nanoseconds, and \<open>Duration::mul_f64\<close> is a parameter.
\<close>

section \<open>Status mapping\<close>

text \<open>The canonical codes of \<open>tonic\<close>.\<close>

datatype tonic_code =
    TonicOk
  | TonicCancelled
  | TonicUnknown
  | TonicInvalidArgument
  | TonicDeadlineExceeded
  | TonicNotFound
  | TonicAlreadyExists
  | TonicPermissionDenied
  | TonicResourceExhausted
  | TonicFailedPrecondition
  | TonicAborted
  | TonicOutOfRange
  | TonicUnimplemented
  | TonicInternal
  | TonicUnavailable
  | TonicDataLoss
  | TonicUnauthenticated

fun map_code :: "tonic_code \<Rightarrow> rpc_status_code" where
  "map_code TonicCancelled = RpcCancelled"
| "map_code TonicInvalidArgument = RpcInvalidArgument"
| "map_code TonicDeadlineExceeded = RpcDeadlineExceeded"
| "map_code TonicNotFound = RpcNotFound"
| "map_code TonicAlreadyExists = RpcAlreadyExists"
| "map_code TonicPermissionDenied = RpcPermissionDenied"
| "map_code TonicResourceExhausted = RpcResourceExhausted"
| "map_code TonicFailedPrecondition = RpcFailedPrecondition"
| "map_code TonicAborted = RpcAborted"
| "map_code TonicOutOfRange = RpcOutOfRange"
| "map_code TonicUnimplemented = RpcUnimplemented"
| "map_code TonicInternal = RpcInternal"
| "map_code TonicUnavailable = RpcUnavailable"
| "map_code TonicDataLoss = RpcDataLoss"
| "map_code TonicUnauthenticated = RpcUnauthenticated"
| "map_code TonicOk = RpcUnknown"
| "map_code TonicUnknown = RpcUnknown"

definition map_http_status :: "nat \<Rightarrow> rpc_status_code option" where
  "map_http_status status =
     (if status = 401 then Some RpcUnauthenticated
      else if status = 403 then Some RpcPermissionDenied
      else if status = 429 then Some RpcResourceExhausted
      else if 502 \<le> status \<and> status \<le> 504 then Some RpcUnavailable
      else None)"

definition http_status_marker :: string where
  "http_status_marker = ''while receiving response with status: ''"

text \<open>\<open>split_once(marker)?.1\<close>: what follows the first occurrence.\<close>

fun after_marker :: "string \<Rightarrow> string \<Rightarrow> string option" where
  "after_marker m [] = (if m = [] then Some [] else None)"
| "after_marker m (c # s) =
     (if take (length m) (c # s) = m then Some (drop (length m) (c # s)) else after_marker m s)"

text \<open>\<open>parse::<u16>().ok()\<close> of a run of digits.\<close>

definition parse_u16 :: "string \<Rightarrow> nat option" where
  "parse_u16 s = (if s \<noteq> [] \<and> digits_val s < 65536 then Some (digits_val s) else None)"

definition http_status :: "string \<Rightarrow> nat option" where
  "http_status message =
     (case after_marker http_status_marker message of
        None \<Rightarrow> None
      | Some rest \<Rightarrow> parse_u16 (takeWhile is_digit rest))"

definition map_status :: "tonic_code \<Rightarrow> string \<Rightarrow> transport_error" where
  "map_status code message =
     (case Option.bind (http_status message) (\<lambda>h. map_option (Pair h) (map_http_status h)) of
        Some (http, c) \<Rightarrow>
          TkRpc c (''endpoint answered HTTP '' @ show_nat http @ '' instead of a gRPC response'')
      | None \<Rightarrow> TkRpc (map_code code) message)"

lemma http_status_found:
  assumes "after_marker http_status_marker message = Some (show_nat n @ rest)"
    and "n < 65536" and "rest = [] \<or> \<not> is_digit (hd rest)"
  shows "http_status message = Some n"
proof -
  have "takeWhile is_digit (show_nat n @ rest) = show_nat n"
    using assms(3) show_nat_digits by (cases rest) (auto simp: takeWhile_append2)
  moreover have "show_nat n \<noteq> []" by (subst show_nat.simps) simp
  ultimately show ?thesis
    using assms by (simp add: http_status_def parse_u16_def decimal_simps)
qed

text \<open>
  A gateway's HTTP answer is told apart from a gRPC failure: whatever code the client
  library gave it, a text that carries one of the statuses 429, 502, 503 and 504 is
  retryable, 401 and 403 are not, and a text without a marker keeps the library's own code.
\<close>

theorem map_status_http:
  assumes "after_marker http_status_marker message = Some (show_nat n @ rest)"
    and "rest = [] \<or> \<not> is_digit (hd rest)" and "n \<in> {401, 403, 429, 502, 503, 504}"
  shows "(transport_is_retryable (map_status code message) \<longleftrightarrow> n \<notin> {401, 403})
    \<and> (after_marker http_status_marker other = None \<longrightarrow> map_status code other = TkRpc (map_code code) other)"
proof -
  have "http_status message = Some n" using http_status_found [OF assms(1) _ assms(2)] assms(3) by auto
  then have "transport_is_retryable (map_status code message) \<longleftrightarrow> n \<notin> {401, 403}"
    using assms(3) by (auto simp: map_status_def map_http_status_def transport_is_retryable_def)
  moreover have "map_status code other = TkRpc (map_code code) other"
    if "after_marker http_status_marker other = None"
    using that by (simp add: map_status_def http_status_def)
  ultimately show ?thesis by blast
qed

theorem map_status_http_witness:
  "transport_is_retryable (map_status TonicInternal (''x '' @ http_status_marker @ ''429 Too Many''))"
proof -
  have "show_nat 429 = ''429''" by (simp add: show_nat.simps digit_char_def char_of_eq_iff)
  then have "after_marker http_status_marker (''x '' @ http_status_marker @ ''429 Too Many'')
      = Some (show_nat 429 @ '' Too Many'')"
    by (simp add: http_status_marker_def)
  from map_status_http [OF this] show ?thesis by (simp add: is_digit_def)
qed

end
