(* ===== verification/Wire.thy ===== *)
theory Wire
  imports Transaction
begin

text \<open>
  A reference codec for the transaction messages, written from the protobuf encoding and the
  \<open>#[prost(...)]\<close> attributes of \<open>generated/protocol.rs\<close>: fields in the order of their tags,
  default values left out, numbers as varints, the rest length-delimited.  It interprets
  \<open>prost_tx\<close> for every hash function and every order in which the entries of a map are written, so that
  what the transaction theorems rely on holds of an actual codec for the messages, and two orders are
  two runs of it (\<open>same_but_order\<close>).
\<close>

section \<open>Fields\<close>

datatype wire_value = VarintV u64 | LenV bytes

definition enc_field :: "nat \<times> wire_value \<Rightarrow> bytes" where
  "enc_field f =
     (case snd f of
        VarintV v \<Rightarrow> varint (8 * fst f) @ varint (unat v)
      | LenV b \<Rightarrow> len_field (fst f) b)"

definition enc_fields :: "(nat \<times> wire_value) list \<Rightarrow> bytes" where
  "enc_fields fs = concat (map enc_field fs)"

definition next_field :: "bytes \<Rightarrow> ((nat \<times> wire_value) \<times> nat) option" where
  "next_field bs =
     (case read_varint bs 0 of
        Inl _ \<Rightarrow> None
      | Inr (key, c) \<Rightarrow>
          (case read_varint bs c of
             Inl _ \<Rightarrow> None
           | Inr (v, d) \<Rightarrow>
               (if key AND 7 = 0 then Some ((unat (drop_bit 3 key), VarintV v), d)
                else if key AND 7 = 2 then
                  (case scan_skip bs d (unat v) of
                     Inl _ \<Rightarrow> None
                   | Inr e \<Rightarrow> Some ((unat (drop_bit 3 key), LenV (take (unat v) (drop d bs))), e))
                else None)))"

lemma next_field_advances: "next_field bs = Some (f, e) \<Longrightarrow> 0 < e"
  by (auto simp: next_field_def result_simps split: sum.splits if_splits prod.splits
      dest!: read_varint_advances)

function parse_fields :: "bytes \<Rightarrow> (nat \<times> wire_value) list option" where
  "parse_fields bs =
     (if bs = [] then Some []
      else case next_field bs of
        None \<Rightarrow> None
      | Some (f, e) \<Rightarrow> map_option (Cons f) (parse_fields (drop e bs)))"
  by auto
termination
  by (relation "measure length") (auto dest!: next_field_advances)

declare parse_fields.simps [simp del]

lemma varint_key:
  assumes "f < 2 ^ 29" and "w < 8"
  shows "unat (of_nat (8 * f + w) :: u64) = 8 * f + w"
    and "(of_nat (8 * f + w) :: u64) AND 7 = of_nat w"
    and "unat (drop_bit 3 (of_nat (8 * f + w) :: u64)) = f"
proof -
  show u: "unat (of_nat (8 * f + w) :: u64) = 8 * f + w"
    using assms by (subst unat_of_nat) simp
  have "(7 :: u64) = mask 3" by (simp add: mask_eq_exp_minus_1)
  then have "(of_nat (8 * f + w) :: u64) AND 7 = take_bit 3 (of_nat (8 * f + w))"
    by (simp only: take_bit_eq_mask)
  also have "\<dots> = of_nat (take_bit 3 (8 * f + w))" by (simp only: of_nat_take_bit)
  also have "take_bit 3 (8 * f + w) = w" unfolding take_bit_eq_mod using assms(2) by simp
  finally show "(of_nat (8 * f + w) :: u64) AND 7 = of_nat w" .
  have "take_bit LENGTH(64) (8 * f + w) = 8 * f + w"
    using assms by (intro take_bit_nat_eq_self) simp
  moreover have "(8 * f + w) div 8 = f" using assms(2) by simp
  ultimately show "unat (drop_bit 3 (of_nat (8 * f + w) :: u64)) = f"
    unfolding unsigned_drop_bit_eq u by (simp only: drop_bit_eq_div) simp
qed

lemma next_field_enc:
  assumes "fst f < 2 ^ 29" and "length (enc_field f @ ys) < 2 ^ 63"
  shows "next_field (enc_field f @ ys) = Some (f, length (enc_field f))"
proof (cases "snd f")
  case (VarintV v)
  let ?k = "varint (8 * fst f + 0)"
  have e: "enc_field f = ?k @ varint (unat v)" using VarintV by (simp add: enc_field_def)
  have "read_varint (enc_field f @ ys) 0 = Ok (of_nat (8 * fst f + 0), length ?k)"
    using read_varint_varint [of "8 * fst f + 0" "[]" "varint (unat v) @ ys"] assms(1) by (simp add: e)
  moreover have "read_varint (enc_field f @ ys) (length ?k) = Ok (v, length (enc_field f))"
    using read_varint_varint [of "unat v" ?k ys] by (simp add: e)
  ultimately show ?thesis
    using varint_key [OF assms(1), of 0] VarintV by (cases f) (simp add: next_field_def)
next
  case (LenV b)
  let ?k = "varint (8 * fst f + 2)" and ?l = "varint (length b)"
  have e: "enc_field f = ?k @ ?l @ b" using LenV by (simp add: enc_field_def len_field_def)
  have "read_varint (enc_field f @ ys) 0 = Ok (of_nat (8 * fst f + 2), length ?k)"
    using read_varint_varint [of "8 * fst f + 2" "[]" "?l @ b @ ys"] assms(1) by (simp add: e)
  moreover have "read_varint (enc_field f @ ys) (length ?k) = Ok (of_nat (length b), length ?k + length ?l)"
    using read_varint_varint [of "length b" ?k "b @ ys"] assms(2) by (simp add: e)
  moreover have ul: "unat (of_nat (length b) :: u64) = length b"
    using assms(2) by (simp add: unat_of_nat e)
  moreover have "scan_skip (enc_field f @ ys) (length ?k + length ?l) (length b) = Ok (length (enc_field f))"
    using assms(2) by (simp add: scan_skip_def e)
  moreover have "take (length b) (drop (length ?k + length ?l) (enc_field f @ ys)) = b"
    by (simp add: e)
  ultimately show ?thesis
    using varint_key [OF assms(1), of 2] LenV
    by (cases f) (simp add: next_field_def del: of_nat_add of_nat_mult)
qed

definition nums_ok :: "(nat \<times> wire_value) list \<Rightarrow> bool" where
  "nums_ok fs \<longleftrightarrow> (\<forall>f\<in>set fs. fst f < 2 ^ 29)"

lemma enc_fields_simps [simp]:
  "enc_fields [] = []"
  "enc_fields (f # fs) = enc_field f @ enc_fields fs"
  "enc_fields (fs @ gs) = enc_fields fs @ enc_fields gs"
  by (simp_all add: enc_fields_def)

lemma enc_field_not_empty [simp]: "enc_field f \<noteq> []"
  by (simp add: enc_field_def split: wire_value.split)

lemma parse_enc_fields:
  "nums_ok fs \<Longrightarrow> length (enc_fields fs) < 2 ^ 63 \<Longrightarrow> parse_fields (enc_fields fs) = Some fs"
proof (induction fs)
  case Nil
  then show ?case by (simp add: parse_fields.simps)
next
  case (Cons f fs)
  then have "next_field (enc_field f @ enc_fields fs) = Some (f, length (enc_field f))"
    by (intro next_field_enc) (simp_all add: nums_ok_def)
  with Cons show ?case by (subst parse_fields.simps) (simp add: nums_ok_def)
qed

lemma enc_fields_len: "(n, LenV b) \<in> set fs \<Longrightarrow> length b \<le> length (enc_fields fs)"
  by (induction fs) (auto simp: enc_field_def len_field_def)

section \<open>Writing and reading one field\<close>

named_theorems wire_simps \<open>reading back what was written\<close>

definition put_i64 :: "nat \<Rightarrow> i64 \<Rightarrow> (nat \<times> wire_value) list" where
  "put_i64 n v = (if v = 0 then [] else [(n, VarintV v)])"

definition put_i32 :: "nat \<Rightarrow> i32 \<Rightarrow> (nat \<times> wire_value) list" where
  "put_i32 n v = put_i64 n (scast v)"

definition put_bytes :: "nat \<Rightarrow> bytes \<Rightarrow> (nat \<times> wire_value) list" where
  "put_bytes n b = (if b = [] then [] else [(n, LenV b)])"

definition put_string :: "nat \<Rightarrow> string \<Rightarrow> (nat \<times> wire_value) list" where
  "put_string n s = put_bytes n (str_bytes s)"

definition put_msgs :: "nat \<Rightarrow> ('m \<Rightarrow> bytes) \<Rightarrow> 'm list \<Rightarrow> (nat \<times> wire_value) list" where
  "put_msgs n enc ms = map (\<lambda>m. (n, LenV (enc m))) ms"

definition put_opt :: "nat \<Rightarrow> ('m \<Rightarrow> bytes) \<Rightarrow> 'm option \<Rightarrow> (nat \<times> wire_value) list" where
  "put_opt n enc m = put_msgs n enc (case m of None \<Rightarrow> [] | Some x \<Rightarrow> [x])"

fun varints :: "nat \<Rightarrow> (nat \<times> wire_value) list \<Rightarrow> u64 list" where
  "varints n [] = []"
| "varints n ((m, VarintV v) # fs) = (if m = n then v # varints n fs else varints n fs)"
| "varints n ((m, LenV b) # fs) = varints n fs"

fun lens :: "nat \<Rightarrow> (nat \<times> wire_value) list \<Rightarrow> bytes list" where
  "lens n [] = []"
| "lens n ((m, VarintV v) # fs) = lens n fs"
| "lens n ((m, LenV b) # fs) = (if m = n then b # lens n fs else lens n fs)"

definition get_i64 :: "nat \<Rightarrow> (nat \<times> wire_value) list \<Rightarrow> i64" where
  "get_i64 n fs = (if varints n fs = [] then 0 else last (varints n fs))"

definition get_i32 :: "nat \<Rightarrow> (nat \<times> wire_value) list \<Rightarrow> i32" where
  "get_i32 n fs = ucast (get_i64 n fs)"

definition get_bytes :: "nat \<Rightarrow> (nat \<times> wire_value) list \<Rightarrow> bytes" where
  "get_bytes n fs = (if lens n fs = [] then [] else last (lens n fs))"

definition get_string :: "nat \<Rightarrow> (nat \<times> wire_value) list \<Rightarrow> string option" where
  "get_string n fs =
     (let b = get_bytes n fs in if valid_utf8 b then Some (bytes_str b) else None)"

fun map_all :: "('a \<Rightarrow> 'b option) \<Rightarrow> 'a list \<Rightarrow> 'b list option" where
  "map_all f [] = Some []"
| "map_all f (x # xs) =
     (case f x of None \<Rightarrow> None | Some y \<Rightarrow> map_option (Cons y) (map_all f xs))"

definition get_msgs :: "nat \<Rightarrow> (bytes \<Rightarrow> 'm option) \<Rightarrow> (nat \<times> wire_value) list \<Rightarrow> 'm list option" where
  "get_msgs n dec fs = map_all dec (lens n fs)"

definition get_opt :: "nat \<Rightarrow> (bytes \<Rightarrow> 'm option) \<Rightarrow> (nat \<times> wire_value) list \<Rightarrow> 'm option option" where
  "get_opt n dec fs =
     (if lens n fs = [] then Some None else map_option Some (dec (last (lens n fs))))"

lemma i32_widen: "ucast (scast w :: u64) = (w :: i32)"
proof (rule bit_word_eqI)
  fix i assume "i < LENGTH(32)"
  then have "i < 31 \<or> i = 31" by auto
  then show "bit (ucast (scast w :: u64) :: i32) i \<longleftrightarrow> bit w i" by (auto simp: bit_simps)
qed

lemma i32_widen_zero: "(scast w :: u64) = 0 \<longleftrightarrow> w = (0 :: i32)"
  by (metis i32_widen ucast_0 scast_0)

lemma varints_append [wire_simps]: "varints n (fs @ gs) = varints n fs @ varints n gs"
  by (induction n fs rule: varints.induct) simp_all

lemma lens_append [wire_simps]: "lens n (fs @ gs) = lens n fs @ lens n gs"
  by (induction n fs rule: lens.induct) simp_all

lemma varints_simps [wire_simps]:
  "varints n (put_i64 m v) = (if n = m \<and> v \<noteq> 0 then [v] else [])"
  "varints n (put_i32 m w) = (if n = m \<and> w \<noteq> 0 then [scast w] else [])"
  "varints n (put_bytes m b) = []"
  "varints n (put_string m s) = []"
  "varints n (put_msgs m enc ms) = []"
  "varints n (put_opt m enc x) = []"
proof -
  show msgs: "varints n (put_msgs m enc ms) = []" for enc :: "'b \<Rightarrow> bytes" and ms
    unfolding put_msgs_def by (induction ms) simp_all
  show "varints n (put_opt m enc x) = []" by (simp add: put_opt_def put_msgs_def split: option.split)
qed (auto simp: put_i64_def put_i32_def put_bytes_def put_string_def i32_widen_zero)

lemma lens_simps [wire_simps]:
  "lens n (put_i64 m v) = []"
  "lens n (put_i32 m w) = []"
  "lens n (put_bytes m b) = (if n = m \<and> b \<noteq> [] then [b] else [])"
  "lens n (put_string m s) = (if n = m \<and> s \<noteq> [] then [str_bytes s] else [])"
  "lens n (put_msgs m enc ms) = (if n = m then map enc ms else [])"
  "lens n (put_opt m enc x) = (if n = m then map enc (case x of None \<Rightarrow> [] | Some y \<Rightarrow> [y]) else [])"
proof -
  show msgs: "lens n (put_msgs m enc ms) = (if n = m then map enc ms else [])"
    for enc :: "'b \<Rightarrow> bytes" and ms
    unfolding put_msgs_def by (induction ms) auto
  show "lens n (put_opt m enc x) = (if n = m then map enc (case x of None \<Rightarrow> [] | Some y \<Rightarrow> [y]) else [])"
    by (simp add: put_opt_def put_msgs_def split: option.split)
qed (auto simp: put_i64_def put_i32_def put_bytes_def put_string_def str_bytes_def)

lemma nums_ok_simps [wire_simps]:
  "nums_ok []"
  "nums_ok (fs @ gs) \<longleftrightarrow> nums_ok fs \<and> nums_ok gs"
  "m < 2 ^ 29 \<Longrightarrow> nums_ok (put_i64 m v)"
  "m < 2 ^ 29 \<Longrightarrow> nums_ok (put_i32 m w)"
  "m < 2 ^ 29 \<Longrightarrow> nums_ok (put_bytes m b)"
  "m < 2 ^ 29 \<Longrightarrow> nums_ok (put_string m s)"
  "m < 2 ^ 29 \<Longrightarrow> nums_ok (put_msgs m enc ms)"
  "m < 2 ^ 29 \<Longrightarrow> nums_ok (put_opt m enc x)"
  by (auto simp: nums_ok_def put_i64_def put_i32_def put_bytes_def put_string_def put_msgs_def
      put_opt_def split: option.splits)

lemma map_all_map: "(\<And>x. x \<in> set xs \<Longrightarrow> f (g x) = Some x) \<Longrightarrow> map_all f (map g xs) = Some xs"
  by (induction xs) auto

lemma map_all_Some: "map_all f xs = Some ys \<Longrightarrow> y \<in> set ys \<Longrightarrow> \<exists>x\<in>set xs. f x = Some y"
  by (induction xs arbitrary: ys) (auto split: option.splits)

text \<open>Reading a number or bytes of a message back depends only on the fields of that number.\<close>

lemma get_scalars:
  "varints n fs = (if v \<noteq> 0 then [v] else []) \<Longrightarrow> get_i64 n fs = v"
  "varints n fs = (if w \<noteq> 0 then [scast w] else []) \<Longrightarrow> get_i32 n fs = w"
  "lens n fs = (if b \<noteq> [] then [b] else []) \<Longrightarrow> get_bytes n fs = b"
  by (auto simp: get_i64_def get_i32_def get_bytes_def i32_widen)

lemma get_string_back:
  "lens n fs = (if s \<noteq> [] then [str_bytes s] else []) \<Longrightarrow> string_ok s \<Longrightarrow> get_string n fs = Some s"
  by (cases "s = []") (auto simp: get_string_def get_bytes_def string_ok_def Let_def bytes_str_def [of "[]"])

lemma get_string_ok: "get_string n fs = Some s \<Longrightarrow> string_ok s"
  by (auto simp: get_string_def string_ok_def Let_def split: if_splits)

lemma get_msgs_back:
  "lens n fs = map enc ms \<Longrightarrow> (\<And>m. m \<in> set ms \<Longrightarrow> dec (enc m) = Some m) \<Longrightarrow> get_msgs n dec fs = Some ms"
  by (simp add: get_msgs_def map_all_map)

lemma get_opt_back:
  "lens n fs = map enc (case x of None \<Rightarrow> [] | Some y \<Rightarrow> [y]) \<Longrightarrow>
   (\<And>m. x = Some m \<Longrightarrow> dec (enc m) = Some m) \<Longrightarrow> get_opt n dec fs = Some x"
  by (auto simp: get_opt_def split: option.splits)

text \<open>A nested message is shorter than the one around it.\<close>

lemma lens_length: "b \<in> set (lens n fs) \<Longrightarrow> length b \<le> length (enc_fields fs)"
proof -
  assume "b \<in> set (lens n fs)"
  then have "(n, LenV b) \<in> set fs"
    by (induction n fs rule: lens.induct) (auto split: if_splits)
  then show ?thesis by (rule enc_fields_len)
qed

section \<open>The messages\<close>

definition enc_any :: "pb_any \<Rightarrow> bytes" where
  "enc_any a = enc_fields (put_string 1 (any_type_url a) @ put_bytes 2 (any_value a))"

definition dec_any :: "bytes \<Rightarrow> pb_any option" where
  "dec_any bs = Option.bind (parse_fields bs) (\<lambda>fs.
     Option.bind (get_string 1 fs) (\<lambda>u. Some \<lparr> any_type_url = u, any_value = get_bytes 2 fs \<rparr>))"

definition enc_contract :: "pb_contract \<Rightarrow> bytes" where
  "enc_contract c = enc_fields
     (put_i32 1 (pbc_type c) @ put_opt 2 enc_any (pbc_parameter c) @ put_bytes 3 (pbc_provider c)
      @ put_bytes 4 (pbc_contract_name c) @ put_i32 5 (pbc_permission_id c))"

definition dec_contract :: "bytes \<Rightarrow> pb_contract option" where
  "dec_contract bs = Option.bind (parse_fields bs) (\<lambda>fs.
     Option.bind (get_opt 2 dec_any fs) (\<lambda>p.
       Some \<lparr> pbc_type = get_i32 1 fs, pbc_parameter = p, pbc_provider = get_bytes 3 fs,
              pbc_contract_name = get_bytes 4 fs, pbc_permission_id = get_i32 5 fs \<rparr>))"

definition enc_account_id :: "pb_account_id \<Rightarrow> bytes" where
  "enc_account_id a = enc_fields (put_bytes 1 (pba_name a) @ put_bytes 2 (pba_address a))"

definition dec_account_id :: "bytes \<Rightarrow> pb_account_id option" where
  "dec_account_id bs = Option.bind (parse_fields bs) (\<lambda>fs.
     Some \<lparr> pba_name = get_bytes 1 fs, pba_address = get_bytes 2 fs \<rparr>)"

definition enc_authority :: "pb_authority \<Rightarrow> bytes" where
  "enc_authority a = enc_fields
     (put_opt 1 enc_account_id (pbau_account a) @ put_bytes 2 (pbau_permission_name a))"

definition dec_authority :: "bytes \<Rightarrow> pb_authority option" where
  "dec_authority bs = Option.bind (parse_fields bs) (\<lambda>fs.
     Option.bind (get_opt 1 dec_account_id fs) (\<lambda>a.
       Some \<lparr> pbau_account = a, pbau_permission_name = get_bytes 2 fs \<rparr>))"

definition raw_wire :: "pb_raw \<Rightarrow> (nat \<times> wire_value) list" where
  "raw_wire r =
     put_bytes 1 (raw_ref_block_bytes r) @ put_i64 3 (raw_ref_block_num r)
     @ put_bytes 4 (raw_ref_block_hash r) @ put_i64 8 (raw_expiration r)
     @ put_msgs 9 enc_authority (raw_auths r) @ put_bytes 10 (raw_memo r)
     @ put_msgs 11 enc_contract (raw_contract r) @ put_bytes 12 (raw_scripts r)
     @ put_i64 14 (raw_timestamp r) @ put_i64 18 (raw_fee_limit r)"

definition enc_raw :: "pb_raw \<Rightarrow> bytes" where
  "enc_raw r = enc_fields (raw_wire r)"

definition dec_raw_data :: "bytes \<Rightarrow> pb_raw option" where
  "dec_raw_data bs = Option.bind (parse_fields bs) (\<lambda>fs.
     Option.bind (get_msgs 9 dec_authority fs) (\<lambda>auths.
     Option.bind (get_msgs 11 dec_contract fs) (\<lambda>cs.
       Some \<lparr> raw_ref_block_bytes = get_bytes 1 fs, raw_ref_block_num = get_i64 3 fs,
              raw_ref_block_hash = get_bytes 4 fs, raw_expiration = get_i64 8 fs,
              raw_auths = auths, raw_memo = get_bytes 10 fs, raw_contract = cs,
              raw_scripts = get_bytes 12 fs, raw_timestamp = get_i64 14 fs,
              raw_fee_limit = get_i64 18 fs \<rparr>)))"

definition enc_order_detail :: "pb_market_order_detail \<Rightarrow> bytes" where
  "enc_order_detail d = enc_fields
     (put_bytes 1 (mod_maker_order_id d) @ put_bytes 2 (mod_taker_order_id d)
      @ put_i64 3 (mod_fill_sell_quantity d) @ put_i64 4 (mod_fill_buy_quantity d))"

definition dec_order_detail :: "bytes \<Rightarrow> pb_market_order_detail option" where
  "dec_order_detail bs = Option.bind (parse_fields bs) (\<lambda>fs.
     Some \<lparr> mod_maker_order_id = get_bytes 1 fs, mod_taker_order_id = get_bytes 2 fs,
            mod_fill_sell_quantity = get_i64 3 fs, mod_fill_buy_quantity = get_i64 4 fs \<rparr>)"

text \<open>
  A map is a list of entries, the key their field 1 and the value their field 2.  They are written in
  the order in which the map is gone through, which is a parameter: the reference codec takes the
  order of the keys.
\<close>

definition enc_entry :: "string \<times> i64 \<Rightarrow> bytes" where
  "enc_entry e = enc_fields (put_string 1 (fst e) @ put_i64 2 (snd e))"

definition dec_entry :: "bytes \<Rightarrow> (string \<times> i64) option" where
  "dec_entry bs = Option.bind (parse_fields bs) (\<lambda>fs.
     Option.bind (get_string 1 fs) (\<lambda>k. Some (k, get_i64 2 fs)))"

type_synonym entry_order = "(string \<times> i64) list \<Rightarrow> (string \<times> i64) list"

definition result_wire :: "entry_order \<Rightarrow> pb_result \<Rightarrow> (nat \<times> wire_value) list" where
  "result_wire ord r =
     put_i64 1 (res_fee r) @ put_i32 2 (res_ret r) @ put_i32 3 (res_contract_ret r)
     @ put_string 14 (res_asset_issue_id r) @ put_i64 15 (res_withdraw_amount r)
     @ put_i64 16 (res_unfreeze_amount r) @ put_i64 18 (res_exchange_received_amount r)
     @ put_i64 19 (res_exchange_inject_another_amount r)
     @ put_i64 20 (res_exchange_withdraw_another_amount r) @ put_i64 21 (res_exchange_id r)
     @ put_i64 22 (res_shielded_transaction_fee r) @ put_bytes 25 (res_order_id r)
     @ put_msgs 26 enc_order_detail (res_order_details r) @ put_i64 27 (res_withdraw_expire_amount r)
     @ put_msgs 28 enc_entry (ord (sorted_list_of_fmap (res_cancel_unfreeze_v2_amount r)))"

definition enc_result :: "entry_order \<Rightarrow> pb_result \<Rightarrow> bytes" where
  "enc_result ord r = enc_fields (result_wire ord r)"

definition dec_result :: "bytes \<Rightarrow> pb_result option" where
  "dec_result bs = Option.bind (parse_fields bs) (\<lambda>fs.
     Option.bind (get_string 14 fs) (\<lambda>asset.
     Option.bind (get_msgs 26 dec_order_detail fs) (\<lambda>details.
     Option.bind (get_msgs 28 dec_entry fs) (\<lambda>entries.
       Some \<lparr> res_fee = get_i64 1 fs, res_ret = get_i32 2 fs, res_contract_ret = get_i32 3 fs,
              res_asset_issue_id = asset, res_withdraw_amount = get_i64 15 fs,
              res_unfreeze_amount = get_i64 16 fs, res_exchange_received_amount = get_i64 18 fs,
              res_exchange_inject_another_amount = get_i64 19 fs,
              res_exchange_withdraw_another_amount = get_i64 20 fs,
              res_exchange_id = get_i64 21 fs, res_shielded_transaction_fee = get_i64 22 fs,
              res_order_id = get_bytes 25 fs, res_order_details = details,
              res_withdraw_expire_amount = get_i64 27 fs,
              res_cancel_unfreeze_v2_amount = fmap_of_list entries \<rparr>))))"

definition tx_wire :: "entry_order \<Rightarrow> pb_transaction \<Rightarrow> (nat \<times> wire_value) list" where
  "tx_wire ord t =
     put_opt 1 enc_raw (tx_raw_data t) @ put_msgs 2 (\<lambda>g. g) (tx_signature t)
     @ put_msgs 5 (enc_result ord) (tx_ret t)"

definition enc_transaction :: "pb_transaction \<Rightarrow> bytes" where
  "enc_transaction t = enc_fields (tx_wire (\<lambda>es. es) t)"

definition dec_transaction :: "bytes \<Rightarrow> pb_transaction option" where
  "dec_transaction bs = Option.bind (parse_fields bs) (\<lambda>fs.
     Option.bind (get_opt 1 dec_raw_data fs) (\<lambda>r.
     Option.bind (get_msgs 5 dec_result fs) (\<lambda>rets.
       Some \<lparr> tx_raw_data = r, tx_signature = lens 2 fs, tx_ret = rets \<rparr>)))"

section \<open>Reading back what was written\<close>

lemma dec_any_enc:
  "string_ok (any_type_url a) \<Longrightarrow> length (enc_any a) < 2 ^ 63 \<Longrightarrow> dec_any (enc_any a) = Some a"
  unfolding dec_any_def enc_any_def
  by (subst parse_enc_fields) (simp_all add: wire_simps get_string_back get_scalars)

lemma dec_contract_enc:
  assumes "any_ok (pbc_parameter c)" and "length (enc_contract c) < 2 ^ 63"
  shows "dec_contract (enc_contract c) = Some c"
proof -
  let ?fs = "put_i32 1 (pbc_type c) @ put_opt 2 enc_any (pbc_parameter c) @ put_bytes 3 (pbc_provider c)
      @ put_bytes 4 (pbc_contract_name c) @ put_i32 5 (pbc_permission_id c)"
  have p: "get_opt 2 dec_any ?fs = Some (pbc_parameter c)"
  proof (rule get_opt_back [where enc = enc_any])
    show "lens 2 ?fs = map enc_any (case pbc_parameter c of None \<Rightarrow> [] | Some y \<Rightarrow> [y])"
      by (simp add: wire_simps)
    fix a assume a: "pbc_parameter c = Some a"
    then have "length (enc_any a) < 2 ^ 63"
      using lens_length [of "enc_any a" 2 ?fs] assms(2) by (simp add: enc_contract_def wire_simps)
    with a assms(1) show "dec_any (enc_any a) = Some a" by (simp add: any_ok_def dec_any_enc)
  qed
  show ?thesis
    using assms(2) p unfolding dec_contract_def enc_contract_def
    by (subst parse_enc_fields) (simp_all add: wire_simps get_scalars)
qed

lemma dec_account_id_enc:
  "length (enc_account_id a) < 2 ^ 63 \<Longrightarrow> dec_account_id (enc_account_id a) = Some a"
  unfolding dec_account_id_def enc_account_id_def
  by (subst parse_enc_fields) (simp_all add: wire_simps get_scalars)

lemma dec_authority_enc:
  assumes "length (enc_authority a) < 2 ^ 63"
  shows "dec_authority (enc_authority a) = Some a"
proof -
  let ?fs = "put_opt 1 enc_account_id (pbau_account a) @ put_bytes 2 (pbau_permission_name a)"
  have p: "get_opt 1 dec_account_id ?fs = Some (pbau_account a)"
  proof (rule get_opt_back [where enc = enc_account_id])
    show "lens 1 ?fs = map enc_account_id (case pbau_account a of None \<Rightarrow> [] | Some y \<Rightarrow> [y])"
      by (simp add: wire_simps)
    fix i assume "pbau_account a = Some i"
    then show "dec_account_id (enc_account_id i) = Some i"
      using lens_length [of "enc_account_id i" 1 ?fs] assms
      by (intro dec_account_id_enc) (simp add: enc_authority_def wire_simps)
  qed
  show ?thesis
    using assms p unfolding dec_authority_def enc_authority_def
    by (subst parse_enc_fields) (simp_all add: wire_simps get_scalars)
qed

lemma dec_raw_enc:
  assumes "pb_raw_ok r" and "length (enc_raw r) < 2 ^ 63"
  shows "dec_raw_data (enc_raw r) = Some r"
proof -
  have len: "b \<in> set (lens n (raw_wire r)) \<Longrightarrow> length b < 2 ^ 63" for b n
    using lens_length [of b n "raw_wire r"] assms(2) by (simp add: enc_raw_def)
  have auths: "get_msgs 9 dec_authority (raw_wire r) = Some (raw_auths r)"
  proof (rule get_msgs_back [where enc = enc_authority])
    show l: "lens 9 (raw_wire r) = map enc_authority (raw_auths r)"
      by (simp add: raw_wire_def wire_simps)
    show "a \<in> set (raw_auths r) \<Longrightarrow> dec_authority (enc_authority a) = Some a" for a
      using len [of "enc_authority a" 9] l by (intro dec_authority_enc) simp
  qed
  have cs: "get_msgs 11 dec_contract (raw_wire r) = Some (raw_contract r)"
  proof (rule get_msgs_back [where enc = enc_contract])
    show l: "lens 11 (raw_wire r) = map enc_contract (raw_contract r)"
      by (simp add: raw_wire_def wire_simps)
    show "c \<in> set (raw_contract r) \<Longrightarrow> dec_contract (enc_contract c) = Some c" for c
      using len [of "enc_contract c" 11] l assms(1)
      by (intro dec_contract_enc) (simp_all add: pb_raw_ok_def)
  qed
  have fields: "get_bytes 1 (raw_wire r) = raw_ref_block_bytes r"
    "get_i64 3 (raw_wire r) = raw_ref_block_num r" "get_bytes 4 (raw_wire r) = raw_ref_block_hash r"
    "get_i64 8 (raw_wire r) = raw_expiration r" "get_bytes 10 (raw_wire r) = raw_memo r"
    "get_bytes 12 (raw_wire r) = raw_scripts r" "get_i64 14 (raw_wire r) = raw_timestamp r"
    "get_i64 18 (raw_wire r) = raw_fee_limit r"
    by (rule get_scalars; simp add: raw_wire_def wire_simps)+
  have "nums_ok (raw_wire r)" by (simp add: raw_wire_def wire_simps)
  then show ?thesis
    using assms(2) unfolding dec_raw_data_def enc_raw_def
    by (subst parse_enc_fields) (simp_all add: auths cs fields del: One_nat_def)
qed

lemma dec_order_detail_enc:
  "length (enc_order_detail d) < 2 ^ 63 \<Longrightarrow> dec_order_detail (enc_order_detail d) = Some d"
  unfolding dec_order_detail_def enc_order_detail_def
  by (subst parse_enc_fields) (simp_all add: wire_simps get_scalars)

lemma dec_entry_enc:
  "string_ok (fst e) \<Longrightarrow> length (enc_entry e) < 2 ^ 63 \<Longrightarrow> dec_entry (enc_entry e) = Some e"
  unfolding dec_entry_def enc_entry_def
  by (subst parse_enc_fields) (simp_all add: wire_simps get_string_back get_scalars)

lemma sorted_entries_keys: "e \<in> set (sorted_list_of_fmap m) \<Longrightarrow> fst e \<in> fmdom' m"
  by (auto simp: sorted_list_of_fmap_def fmdom'_alt_def)

text \<open>An order in which a map may be gone through.\<close>

definition reorders :: "entry_order \<Rightarrow> bool" where
  "reorders ord \<longleftrightarrow>
     (\<forall>es. set (ord es) = set es \<and> length (ord es) = length es
        \<and> (distinct (map fst es) \<longrightarrow> distinct (map fst (ord es))))"

lemma reorders_id: "reorders (\<lambda>es. es)" and reorders_rev: "reorders rev"
  by (simp_all add: reorders_def rev_map [symmetric])

lemma reorders_set: "reorders ord \<Longrightarrow> set (ord es) = set es"
  by (simp add: reorders_def)

lemma sorted_entries_distinct: "distinct (map fst (sorted_list_of_fmap m))"
  by (simp add: sorted_list_of_fmap_def comp_def sorted_list_of_fset.rep_eq)

lemma fmap_of_reordered: "reorders ord \<Longrightarrow> fmap_of_list (ord (sorted_list_of_fmap m)) = m"
proof (rule fmap_ext)
  fix k assume "reorders ord"
  then have "map_of (ord (sorted_list_of_fmap m)) = map_of (sorted_list_of_fmap m)"
    using sorted_entries_distinct [of m] by (subst map_of_inject_set) (simp_all add: reorders_def)
  then show "fmlookup (fmap_of_list (ord (sorted_list_of_fmap m))) k = fmlookup m k"
    by (simp add: fmlookup_of_list)
qed

lemma dec_result_enc:
  assumes "reorders ord" and "pb_result_ok r" and "length (enc_result ord r) < 2 ^ 63"
  shows "dec_result (enc_result ord r) = Some r"
proof -
  have len: "b \<in> set (lens n (result_wire ord r)) \<Longrightarrow> length b < 2 ^ 63" for b n
    using lens_length [of b n "result_wire ord r"] assms(3) by (simp add: enc_result_def)
  have details: "get_msgs 26 dec_order_detail (result_wire ord r) = Some (res_order_details r)"
  proof (rule get_msgs_back [where enc = enc_order_detail])
    show l: "lens 26 (result_wire ord r) = map enc_order_detail (res_order_details r)"
      by (simp add: result_wire_def wire_simps)
    show "d \<in> set (res_order_details r) \<Longrightarrow> dec_order_detail (enc_order_detail d) = Some d" for d
      using len [of "enc_order_detail d" 26] l by (intro dec_order_detail_enc) simp
  qed
  have entries: "get_msgs 28 dec_entry (result_wire ord r)
      = Some (ord (sorted_list_of_fmap (res_cancel_unfreeze_v2_amount r)))"
  proof (rule get_msgs_back [where enc = enc_entry])
    show l: "lens 28 (result_wire ord r) = map enc_entry (ord (sorted_list_of_fmap (res_cancel_unfreeze_v2_amount r)))"
      by (simp add: result_wire_def wire_simps)
    show "e \<in> set (ord (sorted_list_of_fmap (res_cancel_unfreeze_v2_amount r))) \<Longrightarrow> dec_entry (enc_entry e) = Some e" for e
      using len [of "enc_entry e" 28] l assms(2) sorted_entries_keys [of e] reorders_set [OF assms(1)]
      by (intro dec_entry_enc) (auto simp: pb_result_ok_def)
  qed
  have asset: "get_string 14 (result_wire ord r) = Some (res_asset_issue_id r)"
    using assms(2) by (intro get_string_back) (simp_all add: result_wire_def wire_simps pb_result_ok_def)
  have numbers: "get_i64 1 (result_wire ord r) = res_fee r" "get_i32 2 (result_wire ord r) = res_ret r"
    "get_i32 3 (result_wire ord r) = res_contract_ret r" "get_i64 15 (result_wire ord r) = res_withdraw_amount r"
    "get_i64 16 (result_wire ord r) = res_unfreeze_amount r"
    "get_i64 18 (result_wire ord r) = res_exchange_received_amount r"
    "get_i64 19 (result_wire ord r) = res_exchange_inject_another_amount r"
    "get_i64 20 (result_wire ord r) = res_exchange_withdraw_another_amount r"
    "get_i64 21 (result_wire ord r) = res_exchange_id r"
    "get_i64 22 (result_wire ord r) = res_shielded_transaction_fee r"
    "get_bytes 25 (result_wire ord r) = res_order_id r"
    "get_i64 27 (result_wire ord r) = res_withdraw_expire_amount r"
    by (rule get_scalars; simp add: result_wire_def wire_simps)+
  have "nums_ok (result_wire ord r)" by (simp add: result_wire_def wire_simps)
  then show ?thesis
    using assms(3) unfolding dec_result_def enc_result_def
    by (subst parse_enc_fields)
      (simp_all add: asset details entries numbers fmap_of_reordered [OF assms(1)] del: One_nat_def)
qed

lemma dec_transaction_enc:
  assumes "reorders ord" and "pb_transaction_ok t" and "length (enc_fields (tx_wire ord t)) < 2 ^ 63"
  shows "dec_transaction (enc_fields (tx_wire ord t)) = Some t"
proof -
  have len: "b \<in> set (lens n (tx_wire ord t)) \<Longrightarrow> length b < 2 ^ 63" for b n
    using lens_length [of b n "tx_wire ord t"] assms(3) by simp
  have raw: "get_opt 1 dec_raw_data (tx_wire ord t) = Some (tx_raw_data t)"
  proof (rule get_opt_back [where enc = enc_raw])
    show l: "lens 1 (tx_wire ord t) = map enc_raw (case tx_raw_data t of None \<Rightarrow> [] | Some y \<Rightarrow> [y])"
      by (simp add: tx_wire_def wire_simps)
    fix r assume r: "tx_raw_data t = Some r"
    then show "dec_raw_data (enc_raw r) = Some r"
      using len [of "enc_raw r" 1] l assms(2) by (intro dec_raw_enc) (simp_all add: pb_transaction_ok_def)
  qed
  have rets: "get_msgs 5 dec_result (tx_wire ord t) = Some (tx_ret t)"
  proof (rule get_msgs_back [where enc = "enc_result ord"])
    show l: "lens 5 (tx_wire ord t) = map (enc_result ord) (tx_ret t)"
      by (simp add: tx_wire_def wire_simps)
    show "r \<in> set (tx_ret t) \<Longrightarrow> dec_result (enc_result ord r) = Some r" for r
      using len [of "enc_result ord r" 5] l assms(2)
      by (intro dec_result_enc [OF assms(1)]) (simp_all add: pb_transaction_ok_def)
  qed
  have "lens 2 (tx_wire ord t) = tx_signature t" by (simp add: tx_wire_def wire_simps)
  moreover have "nums_ok (tx_wire ord t)" by (simp add: tx_wire_def wire_simps)
  ultimately show ?thesis
    using assms(3) raw rets unfolding dec_transaction_def
    by (subst parse_enc_fields) simp_all
qed

section \<open>What was read is well formed\<close>

lemma get_msgs_all: "get_msgs n dec fs = Some ms \<Longrightarrow> m \<in> set ms \<Longrightarrow> \<exists>b. dec b = Some m"
  by (auto simp: get_msgs_def dest!: map_all_Some)

lemma dec_contract_ok: "dec_contract bs = Some c \<Longrightarrow> any_ok (pbc_parameter c)"
  by (auto simp: dec_contract_def dec_any_def any_ok_def get_opt_def bind_eq_Some_conv
      split: option.split if_splits dest!: get_string_ok)

lemma dec_raw_ok: "dec_raw_data bs = Some r \<Longrightarrow> pb_raw_ok r"
  by (auto simp: dec_raw_data_def pb_raw_ok_def bind_eq_Some_conv dest!: get_msgs_all
      dest: dec_contract_ok)

lemma dec_entry_ok: "dec_entry bs = Some e \<Longrightarrow> string_ok (fst e)"
  by (auto simp: dec_entry_def bind_eq_Some_conv dest: get_string_ok)

lemma dec_result_ok: "dec_result bs = Some r \<Longrightarrow> pb_result_ok r"
proof -
  assume "dec_result bs = Some r"
  then obtain fs entries where r: "get_string 14 fs = Some (res_asset_issue_id r)"
      "get_msgs 28 dec_entry fs = Some entries"
      "res_cancel_unfreeze_v2_amount r = fmap_of_list entries"
    by (auto simp: dec_result_def bind_eq_Some_conv)
  have "string_ok k" if "k \<in> fmdom' (res_cancel_unfreeze_v2_amount r)" for k
  proof -
    from that r(3) obtain v where "(k, v) \<in> set entries"
      by (auto simp: fmdom'_def fmlookup_of_list dest: map_of_SomeD)
    then show ?thesis using get_msgs_all [OF r(2)] dec_entry_ok by fastforce
  qed
  with r(1) show ?thesis by (auto simp: pb_result_ok_def dest: get_string_ok)
qed

lemma dec_transaction_ok: "dec_transaction bs = Some t \<Longrightarrow> pb_transaction_ok t"
proof -
  assume "dec_transaction bs = Some t"
  then obtain fs where t: "get_opt 1 dec_raw_data fs = Some (tx_raw_data t)"
      "get_msgs 5 dec_result fs = Some (tx_ret t)"
    by (auto simp: dec_transaction_def bind_eq_Some_conv)
  have "pb_result_ok r" if "r \<in> set (tx_ret t)" for r
    using get_msgs_all [OF t(2) that] dec_result_ok by blast
  moreover have "pb_raw_ok r" if "tx_raw_data t = Some r" for r
    using t(1) that by (auto simp: get_opt_def dest: dec_raw_ok split: if_splits)
  ultimately show ?thesis by (auto simp: pb_transaction_ok_def split: option.split)
qed

section \<open>The reference codec\<close>

definition dec_owner :: "nat \<Rightarrow> bytes \<Rightarrow> bytes option" where
  "dec_owner n bs = map_option (get_bytes n) (parse_fields bs)"

definition reference_codec :: "entry_order \<Rightarrow> (bytes \<Rightarrow> bytes) \<Rightarrow> tx_codec" where
  "reference_codec ord sha =
     \<lparr> encode_tx = (\<lambda>t. enc_fields (tx_wire ord t)), decode_tx = dec_transaction, encode_raw = enc_raw,
       encode_result = enc_result ord, decode_owner1 = dec_owner 1, decode_owner2 = dec_owner 2,
       sha256 = sha \<rparr>"

lemma enc_fields_len_fields: "enc_fields (map (\<lambda>(f, b). (f, LenV b)) fs) = fields_bytes fs"
  by (induction fs) (auto simp: enc_field_def)

lemma tx_wire_fields: "enc_fields (tx_wire ord t) = fields_bytes (tx_fields (reference_codec ord sha) t)"
proof -
  have "tx_wire ord t = map (\<lambda>(f, b). (f, LenV b)) (tx_fields (reference_codec ord sha) t)"
    by (simp add: tx_wire_def tx_fields_def put_opt_def put_msgs_def reference_codec_def
        split: option.split)
  then show ?thesis by (simp only: enc_fields_len_fields)
qed

lemma reference_prost:
  assumes "reorders ord"
  shows "prost_tx (reference_codec ord sha)"
proof unfold_locales
  show "encode_tx (reference_codec ord sha) t = fields_bytes (tx_fields (reference_codec ord sha) t)" for t
  proof -
    have "encode_tx (reference_codec ord sha) t = enc_fields (tx_wire ord t)" by (simp add: reference_codec_def)
    then show ?thesis by (simp only: tx_wire_fields)
  qed
  show "pb_transaction_ok t \<Longrightarrow> length (encode_tx (reference_codec ord sha) t) < 2 ^ 63 \<Longrightarrow>
      decode_tx (reference_codec ord sha) (encode_tx (reference_codec ord sha) t) = Some t" for t
    by (simp add: reference_codec_def dec_transaction_enc [OF assms])
  show "decode_tx (reference_codec ord sha) bs = Some t \<Longrightarrow> pb_transaction_ok t" for bs t
    by (simp add: reference_codec_def dec_transaction_ok)
qed

interpretation reference_tx: prost_tx "reference_codec (\<lambda>es. es) sha" for sha
  by (rule reference_prost [OF reorders_id])

text \<open>Two orders give two runs of one codec.\<close>

lemma put_msgs_length: "length (enc_fields (put_msgs n enc ms)) = sum_list (map (\<lambda>m. length (len_field n (enc m))) ms)"
  by (induction ms) (simp_all add: put_msgs_def enc_field_def)

lemma reordered_length:
  assumes "reorders ord"
  shows "length (enc_result ord r) = length (enc_result (\<lambda>es. es) r)"
proof -
  let ?es = "sorted_list_of_fmap (res_cancel_unfreeze_v2_amount r)"
  let ?len = "\<lambda>m. length (len_field 28 (enc_entry m))"
  have d: "distinct ?es" "distinct (ord ?es)" "set (ord ?es) = set ?es"
    using assms sorted_entries_distinct [of "res_cancel_unfreeze_v2_amount r"] by (simp_all add: reorders_def distinct_map)
  have "sum_list (map ?len (ord ?es)) = sum ?len (set ?es)" "sum_list (map ?len ?es) = sum ?len (set ?es)"
    using sum.distinct_set_conv_list [OF d(1), of ?len] sum.distinct_set_conv_list [OF d(2), of ?len] d(3) by simp_all
  then show ?thesis by (simp add: enc_result_def result_wire_def put_msgs_length)
qed

lemma reordered_once:
  assumes "reorders ord" and "one_order r"
  shows "enc_result ord r = enc_result (\<lambda>es. es) r"
proof -
  let ?es = "sorted_list_of_fmap (res_cancel_unfreeze_v2_amount r)"
  have "length ?es \<le> 1"
    using assms(2) by (simp add: one_order_def sorted_list_of_fmap_def sorted_list_of_fset.rep_eq fcard.rep_eq)
  moreover have "set (ord ?es) = set ?es" "length (ord ?es) = length ?es" using assms(1) by (simp_all add: reorders_def)
  ultimately have "ord ?es = ?es" by (cases ?es; cases "ord ?es") auto
  then show ?thesis by (simp add: enc_result_def result_wire_def)
qed

lemma reference_runs: "reorders ord \<Longrightarrow> same_but_order (reference_codec (\<lambda>es. es) sha) (reference_codec ord sha)"
  using reordered_length reordered_once by (simp add: same_but_order_def reference_codec_def)

end
