(* ===== verification/Transaction_Theorems.thy ===== *)
theory Transaction_Theorems
  imports Wire
begin

text \<open>
  The properties of transactions, for every codec that meets \<open>prost_tx\<close>; the witnesses run
  them on the reference codec of \<open>Wire\<close>.
\<close>

text \<open>A small transaction: one contract, an expiration and a timestamp.\<close>

definition sample_contract :: pb_contract where
  "sample_contract =
     \<lparr> pbc_type = 1, pbc_parameter = Some \<lparr> any_type_url = ''t'', any_value = [10, 0] \<rparr>, pbc_provider = [],
       pbc_contract_name = [], pbc_permission_id = 0 \<rparr>"

definition sample_raw :: pb_raw where
  "sample_raw =
     \<lparr> raw_ref_block_bytes = [1, 2], raw_ref_block_num = 0, raw_ref_block_hash = [], raw_expiration = 7,
       raw_auths = [], raw_memo = [], raw_contract = [sample_contract], raw_scripts = [], raw_timestamp = 5,
       raw_fee_limit = 0 \<rparr>"

definition sample_tx :: pb_transaction where
  "sample_tx = \<lparr> tx_raw_data = Some sample_raw, tx_signature = [], tx_ret = [] \<rparr>"

definition sample_codec :: tx_codec where
  "sample_codec = reference_codec (\<lambda>es. es) (\<lambda>bs. replicate 32 (of_nat (length bs)))"

lemma sample_prost: "prost_tx sample_codec"
  unfolding sample_codec_def by (rule reference_tx.prost_tx_axioms)

lemmas sample_eval =
  put_i64_def put_i32_def put_bytes_def put_string_def put_msgs_def put_opt_def enc_field_def
  len_field_def str_bytes_def raw_wire_def tx_wire_def enc_any_def enc_contract_def enc_raw_def
  sample_contract_def sample_raw_def

lemma sample_ok: "pb_transaction_ok sample_tx"
  by (simp add: pb_transaction_ok_def sample_tx_def pb_raw_ok_def any_ok_def string_ok_def
      sample_raw_def sample_contract_def str_bytes_def valid_utf8.simps utf8_step_def
      utf8_width_def nth_or_zero_def)

lemma sample_encode: "encode_tx sample_codec sample_tx = enc_transaction sample_tx"
  by (simp add: sample_codec_def reference_codec_def enc_transaction_def)

lemma sample_bytes: "length (enc_transaction sample_tx) < 100"
  by (simp add: enc_transaction_def sample_tx_def sample_eval)

lemma sample_fields:
  "tx_raw_data sample_tx = Some sample_raw" "tx_signature sample_tx = []" "tx_ret sample_tx = []"
  "sample_tx\<lparr> tx_signature := [] \<rparr> = sample_tx"
  "raw_expiration sample_raw = 7" "raw_timestamp sample_raw = 5" "raw_contract sample_raw \<noteq> []"
  by (simp_all add: sample_tx_def sample_raw_def)

lemma sample_decoded:
  "from_encoded sample_codec (encode_tx sample_codec sample_tx) []
    = Ok \<lparr> dec_raw = \<lparr> raw_tx_expiration = 7, raw_tx_timestamp = 5,
                      raw_tx_id = sha256 sample_codec (encode_raw sample_codec sample_raw),
                      raw_tx_proto = encode_tx sample_codec sample_tx \<rparr>,
          dec_signatures = [], dec_has_results = False, dec_has_contract = True \<rparr>"
  using prost_tx.from_encoded_encode_tx [OF sample_prost, of sample_tx sample_raw "[]" "[]"]
    sample_ok sample_bytes
  by (simp add: sample_encode sample_fields)

definition sample_raw_tx :: raw_transaction where
  "sample_raw_tx =
     \<lparr> raw_tx_expiration = 7, raw_tx_timestamp = 5,
       raw_tx_id = sha256 sample_codec (encode_raw sample_codec sample_raw),
       raw_tx_proto = encode_tx sample_codec sample_tx \<rparr>"

lemma sample_consistent: "raw_tx_consistent sample_codec sample_raw_tx"
  using prost_tx.from_encoded_consistent [OF sample_prost sample_decoded] sample_bytes
  by (simp add: sample_raw_tx_def sample_encode)

section \<open>The id is the hash of the bytes\<close>

text \<open>
  C8: the id a caller signs is the hash of the bytes that will be broadcast.  Whatever a node
  sends, a transaction that is accepted is consistent, a node that states an id must have
  stated this one, and the id is the hash of the raw data inside the accepted bytes.
\<close>

theorem node_transaction_id:
  assumes "prost_tx C" and "from_encoded C bs claimed = Ok d"
    and "length (raw_tx_proto (dec_raw d)) < 2 ^ 63"
  shows "raw_tx_consistent C (dec_raw d)
    \<and> claimed \<in> {[], raw_tx_id (dec_raw d)}
    \<and> map_err (\<lambda>_. ()) (extract_raw_data bs) = map_err (\<lambda>_. ()) (extract_raw_data (raw_tx_proto (dec_raw d)))
    \<and> (\<exists>raw. extract_raw_data bs = Ok raw \<and> raw_tx_id (dec_raw d) = sha256 C raw)"
proof -
  have "raw_tx_consistent C (dec_raw d)"
    using prost_tx.from_encoded_consistent [OF assms] .
  moreover have "extract_raw_data (raw_tx_proto (dec_raw d)) = extract_raw_data bs"
    using assms prost_tx.extract_encode_tx [OF assms(1)] by (auto simp: from_encoded_Ok_iff)
  ultimately show ?thesis using assms(2) by (auto simp: from_encoded_Ok_iff)
qed
theorem node_transaction_id_witness:
  "raw_tx_consistent sample_codec sample_raw_tx
   \<and> (\<exists>raw. extract_raw_data (enc_transaction sample_tx) = Ok raw \<and> raw_tx_id sample_raw_tx = sha256 sample_codec raw)"
  using node_transaction_id [OF sample_prost sample_decoded] sample_bytes
  by (simp add: sample_raw_tx_def sample_encode)

section \<open>Filling in a request\<close>

text \<open>
  C9: filling a request into a consistent transaction rewrites exactly the fields the
  request sets, keeps everything else (the contracts, apart from the permission id of the
  first), and re-derives the id, so the transaction stays consistent.
\<close>

theorem apply_request_fields_correct:
  assumes "prost_tx C" and "raw_tx_consistent C r" and "apply_request_fields C r req = Ok r'"
    and "length (raw_tx_proto r') < 2 ^ 63"
  shows "raw_tx_consistent C r' \<and>
    (\<exists>raw ret. decode_tx C (raw_tx_proto r) = Some \<lparr> tx_raw_data = Some raw, tx_signature = [], tx_ret = ret \<rparr>
      \<and> decode_tx C (raw_tx_proto r')
          = Some \<lparr> tx_raw_data = Some (overridden req raw), tx_signature = [], tx_ret = ret \<rparr>)"
  using prost_tx.apply_request_consistent [OF assms] .
definition sample_request :: tx_request where
  "sample_request = with_memo (with_fee_limit tx_request_default (Trx 100)) [9]"

lemma sample_decode: "decode_tx sample_codec (enc_transaction sample_tx) = Some sample_tx"
  using prost_tx.decode_encode_tx [OF sample_prost sample_ok] sample_bytes by (simp add: sample_encode)

theorem apply_request_fields_correct_witness:
  "\<exists>r. apply_request_fields sample_codec sample_raw_tx sample_request = Ok r
     \<and> raw_tx_consistent sample_codec r
     \<and> decode_tx sample_codec (raw_tx_proto r)
       = Some \<lparr> tx_raw_data = Some (overridden sample_request sample_raw), tx_signature = [], tx_ret = [] \<rparr>"
proof -
  let ?raw = "overridden sample_request sample_raw"
  let ?t = "\<lparr> tx_raw_data = Some ?raw, tx_signature = [], tx_ret = [] \<rparr>"
  have req: "\<not> request_sets_nothing sample_request" "raw_contract sample_raw \<noteq> []"
    by (simp_all add: request_sets_nothing_def sample_request_def with_memo_def
        with_fee_limit_def sample_raw_def)
  have raw: "?raw = sample_raw\<lparr> raw_fee_limit := 100, raw_memo := [9] \<rparr>"
    by (simp add: overridden_def override_def sample_request_def with_memo_def
        with_fee_limit_def tx_request_default_def sample_raw_def)
  have enc: "encode_tx sample_codec ?t = enc_transaction ?t"
    by (simp add: sample_codec_def reference_codec_def enc_transaction_def)
  have short: "length (enc_transaction ?t) < 100"
    unfolding raw enc_transaction_def by (simp add: sample_eval varint_unroll [of 144])
  have dec: "decode_tx sample_codec (raw_tx_proto sample_raw_tx) = Some sample_tx"
    by (simp add: sample_raw_tx_def sample_encode sample_decode)
  have af: "apply_fields sample_request sample_raw = Ok ?raw"
    using req(2) by (simp only: apply_fields_eq simp_thms if_False)
  have upd: "sample_tx\<lparr> tx_raw_data := Some ?raw \<rparr> = ?t" by (simp add: sample_tx_def)
  obtain r where r: "apply_request_fields sample_codec sample_raw_tx sample_request = Ok r"
      "raw_tx_proto r = encode_tx sample_codec ?t"
  proof
    show "apply_request_fields sample_codec sample_raw_tx sample_request
      = Ok (sample_raw_tx\<lparr> raw_tx_timestamp := raw_timestamp ?raw, raw_tx_expiration := raw_expiration ?raw,
            raw_tx_id := sha256 sample_codec (encode_raw sample_codec ?raw),
            raw_tx_proto := encode_tx sample_codec ?t \<rparr>)"
      by (simp only: apply_request_fields_def req(1) if_False dec ok_or_simps and_then_simps
          sample_fields(1) option.case af upd)
  qed simp
  have "decode_tx sample_codec (raw_tx_proto sample_raw_tx)
      = Some \<lparr> tx_raw_data = Some sample_raw, tx_signature = [], tx_ret = [] \<rparr>"
    using sample_decode by (simp add: sample_raw_tx_def sample_encode) (simp add: sample_tx_def)
  moreover have "length (raw_tx_proto r) < 2 ^ 63" using r(2) enc short by simp
  ultimately show ?thesis
    using apply_request_fields_correct [OF sample_prost sample_consistent r(1)] r(1) by auto
qed

section \<open>Signing and sending\<close>

text \<open>
  C10: a signed transaction survives being encoded and read back, under the id its signatures
  cover: the signatures, the id, the two times and the message are the same ones.  The bytes kept for
  it are the same too, unless an execution result in it carries a map of several entries, which the
  second encoding may write in another order.  The length is known beforehand: 67 bytes for each
  signature.
\<close>

theorem signed_transaction_roundtrip:
  assumes "prost_tx C" and "prost_tx C'" and "same_but_order C C'"
    and "raw_tx_consistent C (signed_raw s)" and "\<forall>g\<in>set (signed_signatures s). wf_signature g"
    and "signed_encode C s = Ok bs" and "length bs < 2 ^ 63"
  shows "unat (encoded_len s) = length bs
    \<and> (\<exists>t bytes. decode_tx C (raw_tx_proto (signed_raw s)) = Some t
       \<and> signed_from_node_encoded C' bs (raw_tx_id (signed_raw s))
           = Ok (s\<lparr> signed_raw := (signed_raw s)\<lparr> raw_tx_proto := bytes \<rparr> \<rparr>)
       \<and> decode_tx C bytes = Some t
       \<and> ((\<forall>r\<in>set (tx_ret t). one_order r) \<longrightarrow> bytes = raw_tx_proto (signed_raw s)))"
proof -
  have len: "length bs = length (raw_tx_proto (signed_raw s)) + 67 * length (signed_signatures s)"
    using prost_tx.signed_encode_length [OF assms(1,4-6)] .
  have "encoded_len s = of_nat (length bs)" by (simp add: encoded_len_def len)
  then have "unat (encoded_len s) = length bs" using assms(7) by (simp add: unat_of_nat)
  moreover obtain t where "decode_tx C (raw_tx_proto (signed_raw s)) = Some t"
    and "signed_from_node_encoded C' bs (raw_tx_id (signed_raw s))
        = Ok (s\<lparr> signed_raw := (signed_raw s)\<lparr> raw_tx_proto := encode_tx C' t \<rparr> \<rparr>)"
    and "raw_tx_proto (signed_raw s) = encode_tx C t" and "decode_tx C (encode_tx C' t) = Some t"
    using signed_decode_encode [OF assms] by blast
  ultimately show ?thesis using runs_agree [OF assms(1-3), of t] by auto
qed
definition sample_signature :: recoverable_signature where
  "sample_signature = \<lparr> sig_r = replicate 32 1, sig_s = replicate 32 2, sig_v = 1 \<rparr>"

text \<open>
  A transaction whose result carries a map of two entries, written in one order and read by a run that
  writes the other.
\<close>

definition unfrozen_result :: pb_result where
  "unfrozen_result =
     \<lparr> res_fee = 0, res_ret = 0, res_contract_ret = 1, res_asset_issue_id = [], res_withdraw_amount = 0,
       res_unfreeze_amount = 0, res_exchange_received_amount = 0, res_exchange_inject_another_amount = 0,
       res_exchange_withdraw_another_amount = 0, res_exchange_id = 0, res_shielded_transaction_fee = 0,
       res_order_id = [], res_order_details = [], res_withdraw_expire_amount = 0,
       res_cancel_unfreeze_v2_amount = fmap_of_list [(''B'', 1), (''E'', 2)] \<rparr>"

definition unfrozen_tx :: pb_transaction where
  "unfrozen_tx = \<lparr> tx_raw_data = Some sample_raw, tx_signature = [], tx_ret = [unfrozen_result] \<rparr>"

definition unfrozen_raw_tx :: raw_transaction where
  "unfrozen_raw_tx = sample_raw_tx\<lparr> raw_tx_proto := encode_tx sample_codec unfrozen_tx \<rparr>"

definition other_run :: tx_codec where
  "other_run = reference_codec rev (\<lambda>bs. replicate 32 (of_nat (length bs)))"

lemma other_prost: "prost_tx other_run"
  unfolding other_run_def by (rule reference_prost [OF reorders_rev])

lemma other_same: "same_but_order sample_codec other_run"
  unfolding sample_codec_def other_run_def by (rule reference_runs [OF reorders_rev])

lemma unfrozen_entries: "sorted_list_of_fmap (fmupd ''B'' 1 (fmupd ''E'' (2 :: i64) fmempty)) = [(''B'', 1), (''E'', 2)]"
  by (simp add: sorted_list_of_fmap_def sorted_list_of_fset.rep_eq fmlookup_of_list fset_of_list.rep_eq)

lemma unfrozen_ok: "pb_transaction_ok unfrozen_tx"
  using sample_ok
  by (auto simp: pb_transaction_ok_def unfrozen_tx_def sample_tx_def unfrozen_result_def pb_result_ok_def string_ok_def
      str_bytes_def valid_utf8.simps utf8_step_def utf8_width_def nth_or_zero_def fmdom'_alt_def)

theorem signed_transaction_roundtrip_witness:
  "\<exists>bs bytes. signed_encode sample_codec \<lparr> signed_raw = unfrozen_raw_tx, signed_signatures = [sample_signature] \<rparr> = Ok bs
     \<and> signed_from_node_encoded other_run bs (raw_tx_id unfrozen_raw_tx)
         = Ok \<lparr> signed_raw = unfrozen_raw_tx\<lparr> raw_tx_proto := bytes \<rparr>, signed_signatures = [sample_signature] \<rparr>
     \<and> decode_tx sample_codec bytes = Some unfrozen_tx"
proof -
  let ?s = "\<lparr> signed_raw = unfrozen_raw_tx, signed_signatures = [sample_signature] \<rparr>"
  have short: "length (encode_tx sample_codec unfrozen_tx) < 200"
    by (simp add: sample_codec_def reference_codec_def unfrozen_tx_def sample_eval enc_result_def result_wire_def
        unfrozen_result_def unfrozen_entries enc_entry_def varint_unroll [of 226])
  then have dec: "decode_tx sample_codec (encode_tx sample_codec unfrozen_tx) = Some unfrozen_tx"
    using prost_tx.decode_encode_tx [OF sample_prost unfrozen_ok] by simp
  then have cons: "raw_tx_consistent sample_codec (signed_raw ?s)"
    by (simp add: raw_tx_consistent_def unfrozen_raw_tx_def sample_raw_tx_def unfrozen_tx_def sample_fields)
  have wf: "\<forall>g\<in>set (signed_signatures ?s). wf_signature g"
    by (simp add: sample_signature_def wf_signature_def)
  obtain bs where bs: "signed_encode sample_codec ?s = Ok bs"
    using prost_tx.signed_encode_eq [OF sample_prost cons] by metis
  have "length bs = length (raw_tx_proto (signed_raw ?s)) + 67 * length (signed_signatures ?s)"
    using prost_tx.signed_encode_length [OF sample_prost cons wf bs] .
  then have "length bs < 2 ^ 63" using short by (simp add: unfrozen_raw_tx_def)
  from signed_transaction_roundtrip [OF sample_prost other_prost other_same cons wf bs this] bs dec
  show ?thesis by (auto simp: unfrozen_raw_tx_def)
qed

end
