(* ===== verification/Provider.thy ===== *)
theory Provider
  imports Fillers Route Grpc_Core Transaction_Theorems
begin

text \<open>
  The provider (\<open>crates/provider/src/provider/mod.rs\<close>, \<open>root.rs\<close>, and \<open>FilledProvider\<close> of
  \<open>builder.rs\<close>): how a request becomes a transaction that is built, signed and broadcast.  The
  provider below a \<open>FilledProvider\<close> is the root provider or a stack of layers; the model takes
  it as a record of the operations that are passed down to it.
\<close>

section \<open>Prices\<close>

text \<open>
  \<open>str::trim\<close> over the characters below 256, and \<open>str::parse::<i64>\<close>: an optional sign,
  at least one digit, and a value in range.
\<close>

definition is_white :: "char \<Rightarrow> bool" where
  "is_white c \<longleftrightarrow> (let n = (of_char c :: nat) in 9 \<le> n \<and> n \<le> 13 \<or> n = 32 \<or> n = 133 \<or> n = 160)"

definition trim :: "string \<Rightarrow> string" where
  "trim s = rev (dropWhile is_white (rev (dropWhile is_white s)))"

definition parse_digits :: "string \<Rightarrow> nat option" where
  "parse_digits s = (if s \<noteq> [] \<and> list_all is_digit s then Some (digits_val s) else None)"

definition parse_i64 :: "string \<Rightarrow> i64 option" where
  "parse_i64 s =
     (let signed_value = (case s of
            c # ds \<Rightarrow>
              if c = CHR ''-'' then map_option (\<lambda>n. - int n) (parse_digits ds)
              else if c = CHR ''+'' then map_option int (parse_digits ds)
              else map_option int (parse_digits s)
          | [] \<Rightarrow> None)
      in case signed_value of
           Some v \<Rightarrow> if i64_min \<le> v \<and> v \<le> i64_max then Some (word_of_int v) else None
         | None \<Rightarrow> None)"

text \<open>\<open>split(',')\<close>, and the part after the last colon.\<close>

fun split_on :: "char \<Rightarrow> string \<Rightarrow> string list" where
  "split_on sep [] = [[]]"
| "split_on sep (c # s) =
     (if c = sep then [] # split_on sep s
      else (case split_on sep s of p # ps \<Rightarrow> (c # p) # ps | [] \<Rightarrow> [[c]]))"

definition after_last_colon :: "string \<Rightarrow> string option" where
  "after_last_colon s =
     (if CHR '':'' \<in> set s then Some (rev (takeWhile (\<lambda>c. c \<noteq> CHR '':'') (rev s))) else None)"

definition entry_price :: "string \<Rightarrow> i64 option" where
  "entry_price entry = Option.bind (after_last_colon entry) (\<lambda>sun. parse_i64 (trim sun))"

fun find_map :: "('a \<Rightarrow> 'b option) \<Rightarrow> 'a list \<Rightarrow> 'b option" where
  "find_map f [] = None"
| "find_map f (x # xs) = (case f x of None \<Rightarrow> find_map f xs | Some y \<Rightarrow> Some y)"

definition latest_price :: "string \<Rightarrow> i64 option" where
  "latest_price schedule = find_map entry_price (rev (split_on (CHR '','') schedule))"

section \<open>The transport of a root provider\<close>

record 'w transport =
  tr_build :: "'w build_rpcs"
  tr_broadcast :: "signed_transaction \<Rightarrow> 'w \<Rightarrow> (transport_error + unit) \<times> 'w"
  tr_now_block :: "'w \<Rightarrow> (transport_error + block_info) \<times> 'w"
  tr_energy_prices :: "'w \<Rightarrow> (transport_error + string) \<times> 'w"
  tr_estimate_energy :: "trigger_smart_contract \<Rightarrow> 'w \<Rightarrow> (transport_error + i64) \<times> 'w"
  tr_constant_call :: "trigger_smart_contract \<Rightarrow> 'w \<Rightarrow> (transport_error + constant_call_result) \<times> 'w"
  tr_transaction_info :: "bytes \<Rightarrow> 'w \<Rightarrow> (transport_error + transaction_info option) \<times> 'w"

text \<open>\<open>map_err(Error::transport)\<close> on the answer of a call.\<close>

definition as_provider :: "('w \<Rightarrow> (transport_error + 'a) \<times> 'w) \<Rightarrow> 'w \<Rightarrow> (provider_error + 'a) \<times> 'w" where
  "as_provider call w = (case call w of (r, w1) \<Rightarrow> (map_err rpc_of_transport r, w1))"

definition get_energy_price :: "'w transport \<Rightarrow> 'w \<Rightarrow> (provider_error + i64) \<times> 'w" where
  "get_energy_price T w =
     (case as_provider (tr_energy_prices T) w of
        (Inl e, w1) \<Rightarrow> (Err e, w1)
      | (Inr schedule, w1) \<Rightarrow>
          (ok_or (RpcTransport (TkMalformed (Msg (''cannot read an energy price out of '' @ schedule))))
             (latest_price schedule), w1))"

definition root_fill_node :: "'w transport \<Rightarrow> ('w \<Rightarrow> nat) \<Rightarrow> 'w fill_node" where
  "root_fill_node T clock =
     \<lparr> fn_now_block = as_provider (tr_now_block T),
       fn_energy_price = get_energy_price T,
       fn_estimate_energy = (\<lambda>call. as_provider (tr_estimate_energy T call)),
       fn_call_contract = (\<lambda>call. as_provider (tr_constant_call T call)),
       fn_clock = clock \<rparr>"

section \<open>Building and broadcasting\<close>

definition build_via_transport ::
  "tx_codec \<Rightarrow> 'w transport \<Rightarrow> tx_request \<Rightarrow> 'w \<Rightarrow> (provider_error + raw_transaction) \<times> 'w" where
  "build_via_transport C T req w =
     (case req_contract req of
        None \<Rightarrow> (Err (rpc_missing_field ''contract''), w)
      | Some contract \<Rightarrow>
          (case build_contract (tr_build T) contract w of
             (Inl e, w1) \<Rightarrow> (Err (rpc_of_transport e), w1)
           | (Inr raw, w1) \<Rightarrow>
               (map_err (\<lambda>e. RpcTransport (transport_of_response e))
                  (apply_request_fields C raw (req\<lparr> req_contract := None \<rparr>)), w1)))"

record pending_transaction =
  pd_tx_id :: bytes
  pd_interval :: duration
  pd_timeout :: duration
  pd_require_success :: bool

text \<open>Polling every 3 seconds for up to 60.\<close>

definition pending_new :: "bytes \<Rightarrow> pending_transaction" where
  "pending_new tx_id =
     \<lparr> pd_tx_id = tx_id, pd_interval = 3 * 10 ^ 9, pd_timeout = 60 * 10 ^ 9,
       pd_require_success = False \<rparr>"

definition broadcast ::
  "'w transport \<Rightarrow> signed_transaction \<Rightarrow> 'w \<Rightarrow> (provider_error + pending_transaction) \<times> 'w" where
  "broadcast T tx w =
     (let tx_id = raw_tx_id (signed_raw tx)
      in case tr_broadcast T tx w of
           (Inl source, w1) \<Rightarrow> (Err (rpc_broadcast tx_id source), w1)
         | (Inr _, w1) \<Rightarrow> (Ok (pending_new tx_id), w1))"

definition estimate_bandwidth :: "signed_transaction \<Rightarrow> u64" where
  "estimate_bandwidth tx = encoded_len tx + max_result_size_in_tx"

section \<open>A filled provider\<close>

record 'w inner_provider =
  ip_build :: "tx_request \<Rightarrow> 'w \<Rightarrow> (provider_error + raw_transaction) \<times> 'w"
  ip_broadcast :: "signed_transaction \<Rightarrow> 'w \<Rightarrow> (provider_error + pending_transaction) \<times> 'w"

definition root_provider :: "tx_codec \<Rightarrow> 'w transport \<Rightarrow> 'w inner_provider" where
  "root_provider C T = \<lparr> ip_build = build_via_transport C T, ip_broadcast = broadcast T \<rparr>"

text \<open>The two traits of a filler chain, as a record of its operations.\<close>

record ('f, 'w) filler_ops =
  fo_sync :: "'f \<Rightarrow> tx_request \<Rightarrow> tx_request"
  fo_fill :: "'f \<Rightarrow> ('f, 'w) filling"
  fo_sign_with :: "'f \<Rightarrow> address option \<Rightarrow> bytes \<Rightarrow> 'w
      \<Rightarrow> (signer_error + recoverable_signature) option \<times> 'w"

definition filled_build_transaction ::
  "'w inner_provider \<Rightarrow> ('f, 'w) filler_ops \<Rightarrow> 'f \<Rightarrow> tx_request \<Rightarrow> 'w
     \<Rightarrow> (provider_error + raw_transaction) \<times> 'f \<times> 'w" where
  "filled_build_transaction P F f req w =
     (case prepare_request (fo_sync F) (fo_fill F) f req w of
        (Inl e, f1, w1) \<Rightarrow> (Err e, f1, w1)
      | (Inr req1, f1, w1) \<Rightarrow> (case ip_build P req1 w1 of (r, w2) \<Rightarrow> (r, f1, w2)))"

definition sign_built ::
  "('f, 'w) filler_ops \<Rightarrow> 'f \<Rightarrow> address option \<Rightarrow> bytes \<Rightarrow> 'w
     \<Rightarrow> (provider_error + recoverable_signature) \<times> 'w" where
  "sign_built F f key hash w =
     (case fo_sign_with F f key hash w of
        (r, w1) \<Rightarrow>
          (and_then (ok_or rpc_no_signer r)
             (map_err (\<lambda>e. RpcLocalUsage (signer_error_display e))), w1))"

definition filled_send_transaction ::
  "'w inner_provider \<Rightarrow> ('f, 'w) filler_ops \<Rightarrow> 'f \<Rightarrow> tx_request \<Rightarrow> 'w
     \<Rightarrow> (provider_error + pending_transaction) \<times> 'f \<times> 'w" where
  "filled_send_transaction P F f req w =
     (let owner = map_option contract_owner_address (req_contract req)
      in if owner = Some address_zero then (Err (rpc_missing_field ''owner_address''), f, w)
         else
           (case filled_build_transaction P F f req w of
              (Inl e, f1, w1) \<Rightarrow> (Err e, f1, w1)
            | (Inr raw, f1, w1) \<Rightarrow>
                (case sign_built F f1 owner (raw_tx_id raw) w1 of
                   (Inl e, w2) \<Rightarrow> (Err e, f1, w2)
                 | (Inr sig, w2) \<Rightarrow>
                     (case ip_broadcast P \<lparr> signed_raw = raw, signed_signatures = [sig] \<rparr> w2 of
                        (r, w3) \<Rightarrow> (r, f1, w3)))))"

text \<open>The provider a \<open>ProviderBuilder\<close> with a wallet gives.\<close>

definition wallet_chain :: "(bytes \<Rightarrow> string) \<Rightarrow> 'w fill_node \<Rightarrow> ('w wallet_fillers, 'w) filler_ops" where
  "wallet_chain b58_enc N =
     \<lparr> fo_sync = wallet_chain_fill_sync, fo_fill = wallet_chain_fill N,
       fo_sign_with = wallet_chain_sign_with b58_enc \<rparr>"

section \<open>Reading a price schedule\<close>

definition show_entry :: "i64 \<times> i64 \<Rightarrow> string" where
  "show_entry e = show_int (sint (fst e)) @ CHR '':'' # show_int (sint (snd e))"

fun join_commas :: "string list \<Rightarrow> string" where
  "join_commas [] = []"
| "join_commas [s] = s"
| "join_commas (s # ss) = s @ CHR '','' # join_commas ss"

definition int_char :: "char \<Rightarrow> bool" where
  "int_char c \<longleftrightarrow> is_digit c \<or> c = CHR ''-''"

lemma show_int_chars: "c \<in> set (show_int k) \<Longrightarrow> int_char c"
  using show_nat_digits by (auto simp: show_int_def int_char_def split: if_splits)

lemma int_char_props:
  assumes "int_char c"
  shows "\<not> is_white c" "c \<noteq> CHR '':''" "c \<noteq> CHR '',''"
  using assms by (auto simp: int_char_def is_digit_def is_white_def Let_def)

lemma show_int_nonempty: "show_int k \<noteq> []"
  by (simp add: show_int_def show_nat_nonempty)

lemma dropWhile_none: "(\<And>c. c \<in> set s \<Longrightarrow> \<not> P c) \<Longrightarrow> dropWhile P s = s"
  by (cases s) auto

lemma trim_show_int: "trim (show_int k) = show_int k"
proof -
  have "\<not> is_white c" if "c \<in> set (show_int k)" for c
    using int_char_props(1) [OF show_int_chars [OF that]] .
  then have "dropWhile is_white (show_int k) = show_int k"
    and "dropWhile is_white (rev (show_int k)) = rev (show_int k)"
    by (auto intro: dropWhile_none)
  then show ?thesis by (simp add: trim_def)
qed

lemma parse_digits_show_nat: "parse_digits (show_nat n) = Some n"
  using show_nat_digits [of n] by (simp add: parse_digits_def show_nat_nonempty digits_val_show_nat list_all_iff)

lemma show_nat_no_sign: "show_nat n = c # ds \<Longrightarrow> c \<noteq> CHR ''-'' \<and> c \<noteq> CHR ''+''"
  using show_nat_digits [of n] by (auto simp: is_digit_def)

lemma parse_show_i64: "parse_i64 (show_int (sint v)) = Some v"
proof (cases "sint v < 0")
  case True
  then show ?thesis
    using sint_i64_bounds [of v] by (simp add: parse_i64_def show_int_def parse_digits_show_nat)
next
  case False
  obtain c ds where s: "show_nat (nat (sint v)) = c # ds"
    using show_nat_nonempty by (cases "show_nat (nat (sint v))") blast+
  with show_nat_no_sign [OF s] False show ?thesis
    using sint_i64_bounds [of v] parse_digits_show_nat [of "nat (sint v)"]
    by (simp add: parse_i64_def show_int_def)
qed

lemma takeWhile_show: "takeWhile (\<lambda>c. c \<noteq> CHR '':'') (rev (show_int k) @ CHR '':'' # t) = rev (show_int k)"
proof -
  have "\<forall>c\<in>set (rev (show_int k)). c \<noteq> CHR '':''"
    using show_int_chars int_char_props(2) by auto
  then show ?thesis by (simp add: takeWhile_tail)
qed

lemma entry_price_show: "entry_price (show_entry e) = Some (snd e)"
  by (simp add: entry_price_def show_entry_def after_last_colon_def takeWhile_show trim_show_int
      parse_show_i64)

lemma split_on_plain: "CHR '','' \<notin> set s \<Longrightarrow> split_on (CHR '','') s = [s]"
  by (induction s) auto

lemma split_on_sep: "sep \<notin> set s \<Longrightarrow> split_on sep (s @ sep # t) = s # split_on sep t"
  by (induction s) auto

lemma split_join:
  "ss \<noteq> [] \<Longrightarrow> \<forall>s\<in>set ss. CHR '','' \<notin> set s \<Longrightarrow> split_on (CHR '','') (join_commas ss) = ss"
  by (induction ss rule: join_commas.induct) (simp_all add: split_on_plain split_on_sep)

lemma show_entry_no_comma: "CHR '','' \<notin> set (show_entry e)"
  using show_int_chars int_char_props(3) by (auto simp: show_entry_def)

lemma latest_price_split:
  "es \<noteq> [] \<Longrightarrow> latest_price (join_commas (map show_entry es)) = Some (snd (last es))"
proof -
  assume "es \<noteq> []"
  then have "split_on (CHR '','') (join_commas (map show_entry es)) = map show_entry es"
    by (intro split_join) (simp_all add: show_entry_no_comma)
  moreover have "find_map entry_price (rev (map show_entry es)) = Some (snd (last es))"
    using \<open>es \<noteq> []\<close> by (cases es rule: rev_cases) (simp_all add: entry_price_show)
  ultimately show ?thesis by (simp add: latest_price_def)
qed

lemma find_map_skip: "f x = None \<Longrightarrow> find_map f (x # xs) = find_map f xs"
  by simp

text \<open>
  Out of a schedule of prices the one in force is read, whatever its sign and size: the
  last entry's, in the format the node prints (\<open>timestamp:sun\<close>, separated by commas).  An
  unreadable last entry is skipped.
\<close>

theorem latest_price_of_schedule:
  assumes "es \<noteq> []"
  shows "latest_price (join_commas (map show_entry es)) = Some (snd (last es))
    \<and> (CHR '','' \<notin> set junk \<longrightarrow> entry_price junk = None \<longrightarrow>
         latest_price (join_commas (map show_entry es @ [junk])) = Some (snd (last es)))"
proof (intro conjI impI)
  show "latest_price (join_commas (map show_entry es)) = Some (snd (last es))"
    using assms by (rule latest_price_split)
  assume junk: "CHR '','' \<notin> set junk" "entry_price junk = None"
  then have "split_on (CHR '','') (join_commas (map show_entry es @ [junk])) = map show_entry es @ [junk]"
    by (intro split_join) (auto simp: show_entry_no_comma)
  moreover have "find_map entry_price (rev (map show_entry es)) = Some (snd (last es))"
    using assms by (cases es rule: rev_cases) (simp_all add: entry_price_show)
  ultimately show "latest_price (join_commas (map show_entry es @ [junk])) = Some (snd (last es))"
    using junk(2) by (simp add: latest_price_def find_map_skip)
qed

theorem latest_price_of_schedule_witness:
  "latest_price (join_commas (map show_entry [(0, 100), (1542607200000, 420)])) = Some 420"
  using latest_price_of_schedule [of "[(0, 100), (1542607200000, 420)]"] by simp

section \<open>Sending\<close>

lemma build_via_transport_Ok:
  assumes "build_via_transport C T req w = (Inr raw, w1)"
  shows "\<exists>c raw0. req_contract req = Some c \<and> build_contract (tr_build T) c w = (Inr raw0, w1)
    \<and> apply_request_fields C raw0 (req\<lparr> req_contract := None \<rparr>) = Inr raw"
  using assms
  by (auto simp: build_via_transport_def result_simps split: option.splits prod.splits sum.splits)

lemma wallet_chain_keeps_wallet:
  "prepare_request wallet_chain_fill_sync (wallet_chain_fill N) f req w = (r, f', w')
   \<Longrightarrow> join_right f' = join_right f"
  by (cases f) (auto simp: prepare_request_def wallet_chain_fill_def join_fill_async_def default_fill_def
      split: prod.splits sum.splits)

lemma wallet_chain_sign:
  "wallet_chain_sign_with b58_enc f key hash w = wallet_sign_with b58_enc (join_right f) key hash w"
  by (auto simp: wallet_chain_sign_with_def join_sign_with_def wallet_sign_with_def split: prod.splits)

lemma wallet_sign_with_recover:
  assumes "wf_wallet (wf_wallet_of f)" and "honest_wallet recover (wf_wallet_of f)"
    and "wallet_sign_with b58_enc f key hash w = (Some (Inr g), w')"
  shows "recover g hash = Ok (wallet_signing_key f key)"
proof -
  have "sign_hash_with b58_enc (wf_wallet_of f) (wallet_signing_key f key) hash w = (Inr g, w')"
    using assms(3) by (auto simp: wallet_sign_with_def split: prod.splits)
  from tron_wallet.signs [OF this] assms(1,2) show ?thesis
    by (fastforce simp: wf_wallet_def honest_wallet_def)
qed

text \<open>The steps of a send that was accepted.\<close>

lemma filled_send_Ok:
  assumes "filled_send_transaction (root_provider C T) (wallet_chain b58_enc N) f req w = (Inr p, f', w')"
  shows "\<exists>req1 w1 contract raw0 w2 raw sig w3.
    prepare_request wallet_chain_fill_sync (wallet_chain_fill N) f req w = (Inr req1, f', w1)
    \<and> req_contract req1 = Some contract
    \<and> build_contract (tr_build T) contract w1 = (Inr raw0, w2)
    \<and> apply_request_fields C raw0 (req1\<lparr> req_contract := None \<rparr>) = Inr raw
    \<and> wallet_sign_with b58_enc (join_right f') (map_option contract_owner_address (req_contract req))
        (raw_tx_id raw) w2 = (Some (Inr sig), w3)
    \<and> tr_broadcast T \<lparr> signed_raw = raw, signed_signatures = [sig] \<rparr> w3 = (Inr (), w')
    \<and> p = pending_new (raw_tx_id raw)
    \<and> map_option contract_owner_address (req_contract req) \<noteq> Some address_zero
    \<and> filled_build_transaction (root_provider C T) (wallet_chain b58_enc N) f req w = (Inr raw, f', w2)"
proof -
  let ?owner = "map_option contract_owner_address (req_contract req)"
  from assms obtain raw w2 sig w3 where owner: "?owner \<noteq> Some address_zero"
    and build: "filled_build_transaction (root_provider C T) (wallet_chain b58_enc N) f req w = (Inr raw, f', w2)"
    and sign: "sign_built (wallet_chain b58_enc N) f' ?owner (raw_tx_id raw) w2 = (Inr sig, w3)"
    and send: "broadcast T \<lparr> signed_raw = raw, signed_signatures = [sig] \<rparr> w3 = (Inr p, w')"
    by (auto simp: filled_send_transaction_def Let_def root_provider_def
        split: if_splits prod.splits sum.splits)
  from build obtain req1 w1 where
    prep: "prepare_request wallet_chain_fill_sync (wallet_chain_fill N) f req w = (Inr req1, f', w1)"
    and via: "build_via_transport C T req1 w1 = (Inr raw, w2)"
    by (auto simp: filled_build_transaction_def wallet_chain_def root_provider_def
        split: prod.splits sum.splits)
  from sign have "wallet_sign_with b58_enc (join_right f') ?owner (raw_tx_id raw) w2 = (Some (Inr sig), w3)"
    by (auto simp: sign_built_def wallet_chain_def wallet_chain_sign result_simps split: prod.splits)
  moreover from send have "tr_broadcast T \<lparr> signed_raw = raw, signed_signatures = [sig] \<rparr> w3 = (Inr (), w')"
    "p = pending_new (raw_tx_id raw)"
    by (auto simp: broadcast_def Let_def split: prod.splits sum.splits)
  ultimately show ?thesis using owner prep build build_via_transport_Ok [OF via] by blast
qed

text \<open>What is built is a Rust vector, which holds at most \<open>isize::MAX\<close> bytes.\<close>

definition vec_built ::
  "'w inner_provider \<Rightarrow> ('f, 'w) filler_ops \<Rightarrow> 'f \<Rightarrow> tx_request \<Rightarrow> 'w \<Rightarrow> bool" where
  "vec_built P F f req w \<longleftrightarrow>
     (\<forall>raw f1 w1. filled_build_transaction P F f req w = (Inr raw, f1, w1) \<longrightarrow>
        length (raw_tx_proto raw) < 2 ^ 63)"

text \<open>Every transaction the transport builds is consistent (its id is the hash of its bytes).\<close>

definition consistent_transport :: "tx_codec \<Rightarrow> 'w transport \<Rightarrow> bool" where
  "consistent_transport C T \<longleftrightarrow>
     (\<forall>c w raw w'. build_contract (tr_build T) c w = (Inr raw, w') \<longrightarrow> raw_tx_consistent C raw)"

text \<open>
  What \<open>send_transaction\<close> broadcasts is the transaction the node built for the requested
  contract, completed with the fields of the filled request and nothing else, under an id that
  is the hash of its bytes; it carries one signature, over that id, of the owner when the wallet
  holds its key (and of the default signer only when it does not and the filler is not strict).
  The handle it returns waits for that id.
\<close>

theorem send_transaction_correct:
  assumes "prost_tx C" and "consistent_transport C T"
    and "wf_wallet (wf_wallet_of (join_right f))"
    and "honest_wallet recover (wf_wallet_of (join_right f))"
    and "vec_built (root_provider C T) (wallet_chain b58_enc N) f req w"
    and "filled_send_transaction (root_provider C T) (wallet_chain b58_enc N) f req w = (Inr p, f', w')"
  shows "\<exists>contract req1 raw0 raw sig w1 w2 w3.
    req_contract req = Some contract \<and> contract_owner_address contract \<noteq> address_zero
    \<and> keeps req req1
    \<and> build_contract (tr_build T) contract w1 = (Inr raw0, w2)
    \<and> apply_request_fields C raw0 (req1\<lparr> req_contract := None \<rparr>) = Ok raw
    \<and> raw_tx_consistent C raw
    \<and> recover sig (raw_tx_id raw) =
        Ok (if wf_strict (join_right f) \<or> has_signer_for (wf_wallet_of (join_right f)) (contract_owner_address contract)
            then contract_owner_address contract
            else default_signer_address (wf_wallet_of (join_right f)))
    \<and> tr_broadcast T \<lparr> signed_raw = raw, signed_signatures = [sig] \<rparr> w3 = (Ok (), w')
    \<and> pd_tx_id p = raw_tx_id raw"
proof -
  from filled_send_Ok [OF assms(6)] obtain req1 w1 contract raw0 w2 raw sig w3 where
    prep: "prepare_request wallet_chain_fill_sync (wallet_chain_fill N) f req w = (Inr req1, f', w1)"
    and contract: "req_contract req1 = Some contract"
    and build: "build_contract (tr_build T) contract w1 = (Inr raw0, w2)"
    and fields: "apply_request_fields C raw0 (req1\<lparr> req_contract := None \<rparr>) = Inr raw"
    and sign: "wallet_sign_with b58_enc (join_right f') (map_option contract_owner_address (req_contract req))
        (raw_tx_id raw) w2 = (Some (Inr sig), w3)"
    and send: "tr_broadcast T \<lparr> signed_raw = raw, signed_signatures = [sig] \<rparr> w3 = (Inr (), w')"
    and p: "p = pending_new (raw_tx_id raw)"
    and owner: "map_option contract_owner_address (req_contract req) \<noteq> Some address_zero"
    and built: "filled_build_transaction (root_provider C T) (wallet_chain b58_enc N) f req w = (Inr raw, f', w2)"
    by blast
  have fits: "length (raw_tx_proto raw) < 2 ^ 63" using assms(5) built by (auto simp: vec_built_def)
  have keeps: "keeps req req1" using wallet_chain_prepare_keeps [OF prep] .
  with contract have same: "req_contract req = Some contract" by (simp add: keeps_def)
  have wallet: "join_right f' = join_right f" using wallet_chain_keeps_wallet [OF prep] .
  have "raw_tx_consistent C raw"
    using prost_tx.apply_request_consistent [OF assms(1) _ fields fits] assms(2) build
    by (auto simp: consistent_transport_def)
  moreover have "recover sig (raw_tx_id raw)
      = Ok (wallet_signing_key (join_right f) (Some (contract_owner_address contract)))"
    using wallet_sign_with_recover [of "join_right f"] assms(3,4) sign same wallet by auto
  ultimately show ?thesis
    using same owner keeps build fields send p
    by (intro exI conjI) (auto simp: wallet_signing_key_def pending_new_def)
qed

text \<open>A transport that builds the sample transaction for everyone, and takes every broadcast.\<close>

definition sample_transport :: "nat transport" where
  "sample_transport =
     \<lparr> tr_build = constant_rpcs (Ok sample_raw_tx), tr_broadcast = (\<lambda>_ w. (Ok (), w + 1)),
       tr_now_block = (\<lambda>w. (Ok (block_info_new 7 (replicate 32 1) 1000), w)),
       tr_energy_prices = (\<lambda>w. (Ok ''0:420'', w)),
       tr_estimate_energy = (\<lambda>_ w. (Ok 1000, w)),
       tr_constant_call = (\<lambda>_ w. (Err (TkRpc RpcInternal ''no''), w)),
       tr_transaction_info = (\<lambda>_ w. (Ok None, w)) \<rparr>"

definition sample_chain :: "nat wallet_fillers" where
  "sample_chain =
     \<lparr> join_left = \<lparr> join_left = Identity, join_right = energy_new \<rparr>,
       join_right = wallet_filler_new sample_wallet \<rparr>"

definition sample_send :: tx_request where
  "sample_send = tx_request_default\<lparr> req_contract := Some (CtTransfer
     \<lparr> transfer_owner_address = Address [2], transfer_to_address = Address [3], transfer_amount = Trx 1 \<rparr>) \<rparr>"

lemma sample_prepare:
  "prepare_request wallet_chain_fill_sync (wallet_chain_fill N) sample_chain sample_send w
   = (Ok sample_send, sample_chain, w)"
  by (simp add: prepare_request_def wallet_chain_fill_def wallet_chain_fill_sync_def join_fill_sync_def
      recommended_fill_sync_def recommended_fill_def join_fill_async_def default_fill_def default_fill_sync_def
      energy_fill_skip sample_send_def tx_request_default_def contract_needs_fee_limit_def needs_fee_limit_def
      sample_chain_def)

lemma sample_vec_built:
  "vec_built (root_provider sample_codec sample_transport)
     (wallet_chain (\<lambda>_. []) (root_fill_node sample_transport (\<lambda>w. w))) sample_chain sample_send 0"
proof -
  have "build_via_transport sample_codec sample_transport sample_send 0 = (Ok sample_raw_tx, 0)"
    by (simp add: build_via_transport_def sample_send_def tx_request_default_def sample_transport_def
        build_constant apply_request_fields_def request_sets_nothing_def del: build_contract.simps)
  then show ?thesis using sample_bytes
    by (simp add: vec_built_def filled_build_transaction_def wallet_chain_def root_provider_def sample_prepare
        sample_raw_tx_def sample_encode)
qed

definition sample_sig :: recoverable_signature where
  "sample_sig = \<lparr> sig_r = [2], sig_s = raw_tx_id sample_raw_tx, sig_v = 0 \<rparr>"

lemma sample_send_steps:
  "filled_send_transaction (root_provider sample_codec (sample_transport\<lparr> tr_broadcast := b \<rparr>))
     (wallet_chain (\<lambda>_. []) (root_fill_node (sample_transport\<lparr> tr_broadcast := b \<rparr>) (\<lambda>w. w)))
     sample_chain sample_send 0
   = (case broadcast (sample_transport\<lparr> tr_broadcast := b \<rparr>)
             \<lparr> signed_raw = sample_raw_tx, signed_signatures = [sample_sig] \<rparr> 0 of
        (r, w3) \<Rightarrow> (r, sample_chain, w3))"
proof -
  have build: "build_via_transport sample_codec (sample_transport\<lparr> tr_broadcast := b \<rparr>) sample_send 0
      = (Ok sample_raw_tx, 0)"
    by (simp add: build_via_transport_def sample_send_def tx_request_default_def sample_transport_def
        build_constant apply_request_fields_def request_sets_nothing_def del: build_contract.simps)
  have sign: "wallet_sign_with (\<lambda>_. []) (wallet_filler_new sample_wallet) (Some (Address [2]))
      (raw_tx_id sample_raw_tx) 0 = (Some (Ok sample_sig), 0)"
    by (simp add: wallet_sign_with_def wallet_signing_key_def wallet_filler_new_def sample_wallet_def
        has_signer_for_def sign_hash_with_def require_signer_def signer_by_address_def wallet_ops
        sample_signer_def sample_sig_def)
  have owner: "req_contract sample_send = Some (CtTransfer
     \<lparr> transfer_owner_address = Address [2], transfer_to_address = Address [3], transfer_amount = Trx 1 \<rparr>)"
    by (simp add: sample_send_def)
  have right: "join_right sample_chain = wallet_filler_new sample_wallet" by (simp add: sample_chain_def)
  show ?thesis
    by (simp add: filled_send_transaction_def filled_build_transaction_def root_provider_def
        wallet_chain_def sample_prepare build sign_built_def wallet_chain_sign right owner sign
        address_zero_def address_prefix_def)
qed

lemma sample_send_run:
  "filled_send_transaction (root_provider sample_codec sample_transport)
     (wallet_chain (\<lambda>_. []) (root_fill_node sample_transport (\<lambda>w. w))) sample_chain sample_send 0
   = (Ok (pending_new (raw_tx_id sample_raw_tx)), sample_chain, 1)"
  using sample_send_steps [of "tr_broadcast sample_transport"]
  by (simp add: broadcast_def) (simp add: sample_transport_def)

lemma lost_answer:
  "filled_send_transaction
     (root_provider sample_codec (sample_transport\<lparr> tr_broadcast := \<lambda>_ w. (Err (TkConnect [''reset'']), w) \<rparr>))
     (wallet_chain (\<lambda>_. []) (root_fill_node
        (sample_transport\<lparr> tr_broadcast := \<lambda>_ w. (Err (TkConnect [''reset'']), w) \<rparr>) (\<lambda>w. w)))
     sample_chain sample_send 0
   = (Err (RpcBroadcast (raw_tx_id sample_raw_tx) (TkConnect [''reset''])), sample_chain, 0)"
  by (subst sample_send_steps) (simp add: broadcast_def rpc_broadcast_def definitely_refused_def)

theorem send_transaction_correct_witness:
  "\<exists>raw sig w3.
     tr_broadcast sample_transport \<lparr> signed_raw = raw, signed_signatures = [sig] \<rparr> w3 = (Ok (), 1)
     \<and> raw_tx_id sample_raw_tx = raw_tx_id raw
     \<and> Address (sig_r sig) = Address [2]"
proof -
  have T: "consistent_transport sample_codec sample_transport"
    by (simp add: consistent_transport_def sample_transport_def build_constant sample_consistent)
  have W: "wf_wallet (wf_wallet_of (join_right sample_chain))"
    by (simp add: wf_wallet_def sample_chain_def wallet_filler_new_def sample_wallet_def wallet_ops
        sample_signer_def)
  have H: "honest_wallet (\<lambda>g _. Ok (Address (sig_r g))) (wf_wallet_of (join_right sample_chain))"
    by (auto simp: honest_wallet_def sample_chain_def wallet_filler_new_def sample_wallet_def wallet_ops
        sample_signer_def split: if_splits)
  have held: "has_signer_for (wf_wallet_of (join_right sample_chain)) (Address [2])"
    by (simp add: has_signer_for_def sample_chain_def wallet_filler_new_def sample_wallet_def wallet_ops
        sample_signer_def)
  have "contract_owner_address c = Address [2]" if "req_contract sample_send = Some c" for c
    using that by (auto simp: sample_send_def)
  with held obtain raw sig w3 where
    "Ok (Address (sig_r sig)) = (Ok (Address [2]) :: signature_error + address)"
    "tr_broadcast sample_transport \<lparr> signed_raw = raw, signed_signatures = [sig] \<rparr> w3 = (Ok (), 1)"
    "pd_tx_id (pending_new (raw_tx_id sample_raw_tx)) = raw_tx_id raw"
    using send_transaction_correct [OF sample_prost T W H sample_vec_built sample_send_run] by auto
  then show ?thesis by (intro exI [of _ raw] exI [of _ sig] exI [of _ w3]) (simp add: pending_new_def)
qed

section \<open>What a failed send says\<close>

lemma rpc_of_transport_no_id [simp]: "rpc_tx_id (rpc_of_transport e) = None"
  by (simp add: rpc_tx_id_def rpc_of_transport_def split: transport_error.split)

lemma plain_no_id [simp]:
  "rpc_tx_id (RpcLocalUsage s) = None" "rpc_tx_id (RpcTransport t) = None" "rpc_tx_id (RpcNodeError s) = None"
  "rpc_tx_id rpc_no_signer = None" "rpc_tx_id (rpc_missing_field s) = None"
  by (simp_all add: rpc_tx_id_def rpc_no_signer_def rpc_missing_field_def)

lemma as_provider_no_id: "as_provider call w = (Inl e, w') \<Longrightarrow> rpc_tx_id e = None"
  by (auto simp: as_provider_def result_simps split: prod.splits)

lemma energy_price_no_id:
  "energy_price (root_fill_node T clock) f w = (Inl e, f', w') \<Longrightarrow> rpc_tx_id e = None"
  by (auto simp: energy_price_def root_fill_node_def get_energy_price_def Let_def result_simps
      dest: as_provider_no_id split: prod.splits sum.splits option.splits if_splits)

lemma energy_of_call_no_id:
  "energy_of_call (root_fill_node T clock) call w = (Inl e, w') \<Longrightarrow> rpc_tx_id e = None"
  by (auto simp: energy_of_call_def root_fill_node_def dest: as_provider_no_id
      split: prod.splits sum.splits option.splits)

lemma energy_needed_no_id:
  "energy_needed (root_fill_node T clock) f call w = (Inl e, f', w') \<Longrightarrow> rpc_tx_id e = None"
  by (auto simp: energy_needed_def Let_def dest: energy_of_call_no_id
      split: prod.splits sum.splits if_splits)

lemma energy_limit_no_id: "energy_limit f energy price = Inl e \<Longrightarrow> rpc_tx_id e = None"
  by (simp only: energy_limit_def Let_def and_then_Inl_iff ok_or_Inl_iff map_err_Inl_iff)
    (elim disjE exE conjE; simp)

lemma energy_estimate_no_id:
  "energy_estimate (root_fill_node T clock) f call w = (Inl e, f', w') \<Longrightarrow> rpc_tx_id e = None"
  by (auto simp: energy_estimate_def dest: energy_needed_no_id energy_price_no_id energy_limit_no_id
      split: prod.splits sum.splits)

lemma energy_fill_no_id:
  assumes "energy_fill (root_fill_node T clock) f tx w = (Inl e, f', w')"
  shows "rpc_tx_id e = None"
proof -
  consider "req_fee_limit tx \<noteq> None \<or> \<not> contract_needs_fee_limit tx"
    | call where "req_fee_limit tx = None" "req_contract tx = Some (CtTriggerSmartContract call)"
    | "req_fee_limit tx = None" "contract_needs_fee_limit tx"
      "\<nexists>call. req_contract tx = Some (CtTriggerSmartContract call)"
    by blast
  then show ?thesis
  proof cases
    case 2
    with assms show ?thesis
      by (auto simp: energy_fill_call dest: energy_estimate_no_id
          split: prod.splits sum.splits on_estimate_failure.splits)
  qed (use assms in \<open>auto simp: energy_fill_skip energy_fill_other\<close>)
qed

lemma prepare_no_id:
  "prepare_request wallet_chain_fill_sync (wallet_chain_fill (root_fill_node T clock)) f req w = (Inl e, f', w')
   \<Longrightarrow> rpc_tx_id e = None"
  by (auto simp: prepare_request_def wallet_chain_fill_def recommended_fill_def join_fill_async_def
      default_fill_def dest: energy_fill_no_id split: prod.splits sum.splits)

lemma build_via_transport_no_id: "build_via_transport C T req w = (Inl e, w') \<Longrightarrow> rpc_tx_id e = None"
  by (auto simp: build_via_transport_def result_simps split: option.splits prod.splits sum.splits)

lemma filled_send_steps:
  "map_option contract_owner_address (req_contract req) \<noteq> Some address_zero \<Longrightarrow>
   filled_send_transaction P F f req w =
     (case filled_build_transaction P F f req w of
        (Inl e, f1, w1) \<Rightarrow> (Err e, f1, w1)
      | (Inr raw, f1, w1) \<Rightarrow>
          (case sign_built F f1 (map_option contract_owner_address (req_contract req)) (raw_tx_id raw) w1 of
             (Inl e, w2) \<Rightarrow> (Err e, f1, w2)
           | (Inr sig, w2) \<Rightarrow>
               (case ip_broadcast P \<lparr> signed_raw = raw, signed_signatures = [sig] \<rparr> w2 of
                  (r, w3) \<Rightarrow> (r, f1, w3))))"
  by (simp only: filled_send_transaction_def Let_def if_False)

text \<open>A failed send stopped before the broadcast, or in it.\<close>

lemma filled_send_Err:
  assumes "filled_send_transaction (root_provider C T) (wallet_chain b58_enc (root_fill_node T clock)) f req w
      = (Inl e, f', w')"
  shows "rpc_tx_id e = None
      \<and> (\<forall>b. filled_send_transaction (root_provider C (T\<lparr> tr_broadcast := b \<rparr>))
               (wallet_chain b58_enc (root_fill_node (T\<lparr> tr_broadcast := b \<rparr>) clock)) f req w = (Inl e, f', w'))
    \<or> (\<exists>raw sig w3 src. tr_broadcast T \<lparr> signed_raw = raw, signed_signatures = [sig] \<rparr> w3 = (Inl src, w')
        \<and> e = rpc_broadcast (raw_tx_id raw) src)"
proof -
  let ?owner = "map_option contract_owner_address (req_contract req)"
  let ?F = "wallet_chain b58_enc (root_fill_node T clock)"
  have F: "root_fill_node (T\<lparr> tr_broadcast := b \<rparr>) clock = root_fill_node T clock" for b
    by (simp add: root_fill_node_def get_energy_price_def fun_eq_iff)
  have via: "build_via_transport C (T\<lparr> tr_broadcast := b \<rparr>) = build_via_transport C T" for b
    by (simp add: build_via_transport_def fun_eq_iff split: option.split)
  have build: "filled_build_transaction (root_provider C (T\<lparr> tr_broadcast := b \<rparr>)) ?F f req w
      = filled_build_transaction (root_provider C T) ?F f req w" for b
    by (simp add: filled_build_transaction_def root_provider_def via split: prod.split sum.split)
  obtain rb f1 w1 where b1: "filled_build_transaction (root_provider C T) ?F f req w = (rb, f1, w1)"
    by (cases "filled_build_transaction (root_provider C T) ?F f req w") auto
  show ?thesis
  proof (cases "?owner = Some address_zero")
    case True
    with assms show ?thesis by (auto simp: filled_send_transaction_def Let_def)
  next
    case False
    note steps = filled_send_steps [OF this]
    show ?thesis
    proof (cases rb)
      case (Inl eb)
      with b1 have "rpc_tx_id eb = None"
        by (auto simp: filled_build_transaction_def wallet_chain_def root_provider_def
            dest: prepare_no_id build_via_transport_no_id split: prod.splits sum.splits)
      with assms b1 Inl show ?thesis
        by (auto simp: steps F build)
    next
      case (Inr raw)
      obtain rs w2 where s: "sign_built ?F f1 ?owner (raw_tx_id raw) w1 = (rs, w2)"
        by (cases "sign_built ?F f1 ?owner (raw_tx_id raw) w1")
      show ?thesis
      proof (cases rs)
        case (Inl es)
        with s have "rpc_tx_id es = None"
          by (auto simp: sign_built_def result_simps split: prod.splits)
        with assms b1 s Inl \<open>rb = Inr raw\<close> show ?thesis
          by (auto simp: steps F build)
      next
        case (Inr sig)
        with assms b1 s \<open>rb = Inr raw\<close>
        have "broadcast T \<lparr> signed_raw = raw, signed_signatures = [sig] \<rparr> w2 = (Inl e, w')"
          by (auto simp: steps root_provider_def split: prod.splits)
        then have "\<exists>src. tr_broadcast T \<lparr> signed_raw = raw, signed_signatures = [sig] \<rparr> w2 = (Inl src, w')
            \<and> e = rpc_broadcast (raw_tx_id raw) src"
          by (auto simp: broadcast_def Let_def split: prod.splits sum.splits)
        then show ?thesis by blast
      qed
    qed
  qed
qed

text \<open>
  C33: a failed send that names a transaction id has broadcast the transaction of that id
  and does not know its fate; a failure that invites a retry came before anything was
  broadcast, so a retry cannot send a transaction twice.
\<close>

theorem send_error_tells:
  assumes "filled_send_transaction (root_provider C T) (wallet_chain b58_enc (root_fill_node T clock)) f req w
      = (Inl e, f', w')"
  shows "(\<forall>tx_id. rpc_tx_id e = Some tx_id \<longrightarrow>
       (\<exists>raw sig w3 src. tr_broadcast T \<lparr> signed_raw = raw, signed_signatures = [sig] \<rparr> w3 = (Inl src, w')
          \<and> e = RpcBroadcast tx_id src \<and> tx_id = raw_tx_id raw \<and> \<not> definitely_refused src))
     \<and> (rpc_is_retryable e \<longrightarrow>
       (\<forall>b. filled_send_transaction (root_provider C (T\<lparr> tr_broadcast := b \<rparr>))
              (wallet_chain b58_enc (root_fill_node (T\<lparr> tr_broadcast := b \<rparr>) clock)) f req w = (Inl e, f', w')))"
proof (intro conjI allI impI)
  fix tx_id
  assume id: "rpc_tx_id e = Some tx_id"
  with filled_send_Err [OF assms] obtain raw sig w3 src where
    b: "tr_broadcast T \<lparr> signed_raw = raw, signed_signatures = [sig] \<rparr> w3 = (Inl src, w')"
    and e: "e = rpc_broadcast (raw_tx_id raw) src"
    by auto
  with id have "\<not> definitely_refused src" "tx_id = raw_tx_id raw"
    by (auto simp: broadcast_tx_id split: if_splits)
  with b e show "\<exists>raw sig w3 src. tr_broadcast T \<lparr> signed_raw = raw, signed_signatures = [sig] \<rparr> w3 = (Inl src, w')
          \<and> e = RpcBroadcast tx_id src \<and> tx_id = raw_tx_id raw \<and> \<not> definitely_refused src"
    by (auto simp: rpc_broadcast_def)
next
  fix b
  assume retry: "rpc_is_retryable e"
  have "\<not> rpc_is_retryable (rpc_broadcast tx src)" for tx src
    using rpc_broadcast_not_retryable .
  with retry filled_send_Err [OF assms] show
    "filled_send_transaction (root_provider C (T\<lparr> tr_broadcast := b \<rparr>))
       (wallet_chain b58_enc (root_fill_node (T\<lparr> tr_broadcast := b \<rparr>) clock)) f req w = (Inl e, f', w')"
    by blast
qed

theorem send_error_tells_witness:
  "\<exists>raw sig w3. raw_tx_id raw = raw_tx_id sample_raw_tx
     \<and> tr_broadcast (sample_transport\<lparr> tr_broadcast := \<lambda>_ w. (Err (TkConnect [''reset'']), w) \<rparr>)
         \<lparr> signed_raw = raw, signed_signatures = [sig] \<rparr> w3 = (Inl (TkConnect [''reset'']), 0)"
proof -
  have "rpc_tx_id (RpcBroadcast (raw_tx_id sample_raw_tx) (TkConnect [''reset''])) = Some (raw_tx_id sample_raw_tx)"
    by (simp add: rpc_tx_id_def)
  with send_error_tells [OF lost_answer] obtain raw sig w3 src where
    "tr_broadcast (sample_transport\<lparr> tr_broadcast := \<lambda>_ w. (Err (TkConnect [''reset'']), w) \<rparr>)
         \<lparr> signed_raw = raw, signed_signatures = [sig] \<rparr> w3 = (Inl src, 0)"
    "RpcBroadcast (raw_tx_id sample_raw_tx) (TkConnect [''reset'']) = RpcBroadcast (raw_tx_id sample_raw_tx) src"
    "raw_tx_id sample_raw_tx = raw_tx_id raw"
    by blast
  then show ?thesis by auto
qed

end
