(* ===== verification/Operation_Builders.thy ===== *)
theory Operation_Builders
  imports Provider
begin

text \<open>
  The operation builders (\<open>crates/provider/src/builders\<close>) and those of the provider extensions
  (\<open>crates/provider/src/ext\<close>): one record per builder with its defaults, its setters and the
  request it describes.  The provider a builder borrows is the address of its signer, the one
  thing of it a request needs.
\<close>

section \<open>What the builders share\<close>

definition resolve_owner :: "address option \<Rightarrow> address option \<Rightarrow> provider_error + address" where
  "resolve_owner owner signer = ok_or rpc_no_signer (case owner of Some a \<Rightarrow> Some a | None \<Rightarrow> signer)"

text \<open>\<open>build\<close> and \<open>send\<close> of the macro \<open>builder_exits!\<close>, on a filled provider.\<close>

definition builder_build ::
  "'w inner_provider \<Rightarrow> ('f, 'w) filler_ops \<Rightarrow> 'f \<Rightarrow> provider_error + tx_request \<Rightarrow> 'w
     \<Rightarrow> (provider_error + raw_transaction) \<times> 'f \<times> 'w" where
  "builder_build Q F f request w =
     (case request of Inl e \<Rightarrow> (Err e, f, w) | Inr req \<Rightarrow> filled_build_transaction Q F f req w)"

definition builder_send ::
  "'w inner_provider \<Rightarrow> ('f, 'w) filler_ops \<Rightarrow> 'f \<Rightarrow> provider_error + tx_request \<Rightarrow> 'w
     \<Rightarrow> (provider_error + pending_transaction) \<times> 'f \<times> 'w" where
  "builder_send Q F f request w =
     (case request of Inl e \<Rightarrow> (Err e, f, w) | Inr req \<Rightarrow> filled_send_transaction Q F f req w)"

text \<open>What the permissions of an update may list.\<close>

definition check_operations ::
  "permission option \<Rightarrow> permission option \<Rightarrow> permission list \<Rightarrow> provider_error + unit" where
  "check_operations owner witness actives =
     (let lists = (\<lambda>p. case p of None \<Rightarrow> False | Some p \<Rightarrow> \<not> opset_is_empty (permission_operations p));
          refuse = (\<lambda>role. Err (RpcLocalUsage (''the '' @ role @ '' permission authorizes by role and cannot list operations'')))
      in if lists owner then refuse ''owner''
         else if lists witness then refuse ''witness''
         else (case List.find (\<lambda>p. opset_is_empty (permission_operations p)) actives of
                 Some p \<Rightarrow> Err (RpcLocalUsage (''active permission '' @ show_int (sint (permission_id p))
                   @ '' grants no operations: list the contract types its keys may authorize, since granting every type would include rewriting the permissions themselves''))
               | None \<Rightarrow> Ok ()))"

section \<open>\<open>TransferBuilder\<close>\<close>

record transfer_builder =
  transfer_builder_owner :: "address option"
  transfer_builder_to :: "address option"
  transfer_builder_amount :: "trx option"
  transfer_builder_memo :: "bytes option"
  transfer_builder_permission_id :: "i32 option"

definition transfer_builder_new :: transfer_builder where
  "transfer_builder_new =
     \<lparr> transfer_builder_owner = None, transfer_builder_to = None,
       transfer_builder_amount = None, transfer_builder_memo = None,
       transfer_builder_permission_id = None \<rparr>"

definition transfer_set_from :: "address \<Rightarrow> transfer_builder \<Rightarrow> transfer_builder" where
  "transfer_set_from src b = b\<lparr> transfer_builder_owner := Some src \<rparr>"

definition transfer_set_to :: "address \<Rightarrow> transfer_builder \<Rightarrow> transfer_builder" where
  "transfer_set_to dst b = b\<lparr> transfer_builder_to := Some dst \<rparr>"

definition transfer_set_amount :: "trx \<Rightarrow> transfer_builder \<Rightarrow> transfer_builder" where
  "transfer_set_amount amount b = b\<lparr> transfer_builder_amount := Some amount \<rparr>"

definition transfer_set_memo :: "bytes \<Rightarrow> transfer_builder \<Rightarrow> transfer_builder" where
  "transfer_set_memo memo b = b\<lparr> transfer_builder_memo := Some memo \<rparr>"

definition transfer_set_permission_id :: "i32 \<Rightarrow> transfer_builder \<Rightarrow> transfer_builder" where
  "transfer_set_permission_id i b = b\<lparr> transfer_builder_permission_id := Some i \<rparr>"

definition transfer_request :: "address option \<Rightarrow> transfer_builder \<Rightarrow> provider_error + tx_request" where
  "transfer_request signer b =
     and_then (resolve_owner (transfer_builder_owner b) signer) (\<lambda>owner.
     and_then (ok_or (rpc_missing_field ''to'') (transfer_builder_to b)) (\<lambda>dst.
     and_then (ok_or (rpc_missing_field ''amount'') (transfer_builder_amount b)) (\<lambda>amount.
     Ok (tx_request_default\<lparr> req_contract := Some (CtTransfer
         \<lparr> transfer_owner_address = owner, transfer_to_address = dst,
           transfer_amount = amount \<rparr>),
         req_memo := transfer_builder_memo b, req_permission_id := transfer_builder_permission_id b \<rparr>))))"

section \<open>\<open>FreezeV1Builder\<close>\<close>

record freeze_v1_builder =
  freeze_v1_builder_permission_id :: "i32 option"
  freeze_v1_builder_owner :: "address option"
  freeze_v1_builder_amount :: "trx option"
  freeze_v1_builder_resource :: resource_code
  freeze_v1_builder_frozen_duration :: i64
  freeze_v1_builder_receiver :: "address option"

definition freeze_v1_builder_new :: freeze_v1_builder where
  "freeze_v1_builder_new =
     \<lparr> freeze_v1_builder_permission_id = None, freeze_v1_builder_owner = None,
       freeze_v1_builder_amount = None, freeze_v1_builder_resource = Energy,
       freeze_v1_builder_frozen_duration = 3, freeze_v1_builder_receiver = None \<rparr>"

definition freeze_v1_set_from :: "address \<Rightarrow> freeze_v1_builder \<Rightarrow> freeze_v1_builder" where
  "freeze_v1_set_from src b = b\<lparr> freeze_v1_builder_owner := Some src \<rparr>"

definition freeze_v1_set_amount :: "trx \<Rightarrow> freeze_v1_builder \<Rightarrow> freeze_v1_builder" where
  "freeze_v1_set_amount amount b = b\<lparr> freeze_v1_builder_amount := Some amount \<rparr>"

definition freeze_v1_set_resource :: "resource_code \<Rightarrow> freeze_v1_builder \<Rightarrow> freeze_v1_builder" where
  "freeze_v1_set_resource resource b = b\<lparr> freeze_v1_builder_resource := resource \<rparr>"

definition freeze_v1_set_frozen_duration :: "i64 \<Rightarrow> freeze_v1_builder \<Rightarrow> freeze_v1_builder" where
  "freeze_v1_set_frozen_duration days b = b\<lparr> freeze_v1_builder_frozen_duration := days \<rparr>"

definition freeze_v1_set_receiver :: "address \<Rightarrow> freeze_v1_builder \<Rightarrow> freeze_v1_builder" where
  "freeze_v1_set_receiver receiver b = b\<lparr> freeze_v1_builder_receiver := Some receiver \<rparr>"

definition freeze_v1_set_permission_id :: "i32 \<Rightarrow> freeze_v1_builder \<Rightarrow> freeze_v1_builder" where
  "freeze_v1_set_permission_id i b = b\<lparr> freeze_v1_builder_permission_id := Some i \<rparr>"

definition freeze_v1_request :: "address option \<Rightarrow> freeze_v1_builder \<Rightarrow> provider_error + tx_request" where
  "freeze_v1_request signer b =
     and_then (resolve_owner (freeze_v1_builder_owner b) signer) (\<lambda>owner.
     and_then (ok_or (rpc_missing_field ''amount'') (freeze_v1_builder_amount b)) (\<lambda>amount.
     Ok (tx_request_default\<lparr> req_contract := Some (CtFreezeBalanceV1
         \<lparr> freeze_balance_v1_owner_address = owner,
           freeze_balance_v1_frozen_balance = amount,
           freeze_balance_v1_frozen_duration = freeze_v1_builder_frozen_duration b,
           freeze_balance_v1_resource = freeze_v1_builder_resource b,
           freeze_balance_v1_receiver_address = freeze_v1_builder_receiver b \<rparr>),
         req_permission_id := freeze_v1_builder_permission_id b \<rparr>)))"

section \<open>\<open>UnfreezeV1Builder\<close>\<close>

record unfreeze_v1_builder =
  unfreeze_v1_builder_permission_id :: "i32 option"
  unfreeze_v1_builder_owner :: "address option"
  unfreeze_v1_builder_resource :: resource_code
  unfreeze_v1_builder_receiver :: "address option"

definition unfreeze_v1_builder_new :: unfreeze_v1_builder where
  "unfreeze_v1_builder_new =
     \<lparr> unfreeze_v1_builder_permission_id = None, unfreeze_v1_builder_owner = None,
       unfreeze_v1_builder_resource = Energy, unfreeze_v1_builder_receiver = None \<rparr>"

definition unfreeze_v1_set_from :: "address \<Rightarrow> unfreeze_v1_builder \<Rightarrow> unfreeze_v1_builder" where
  "unfreeze_v1_set_from src b = b\<lparr> unfreeze_v1_builder_owner := Some src \<rparr>"

definition unfreeze_v1_set_resource :: "resource_code \<Rightarrow> unfreeze_v1_builder \<Rightarrow> unfreeze_v1_builder" where
  "unfreeze_v1_set_resource resource b = b\<lparr> unfreeze_v1_builder_resource := resource \<rparr>"

definition unfreeze_v1_set_receiver :: "address \<Rightarrow> unfreeze_v1_builder \<Rightarrow> unfreeze_v1_builder" where
  "unfreeze_v1_set_receiver receiver b = b\<lparr> unfreeze_v1_builder_receiver := Some receiver \<rparr>"

definition unfreeze_v1_set_permission_id :: "i32 \<Rightarrow> unfreeze_v1_builder \<Rightarrow> unfreeze_v1_builder" where
  "unfreeze_v1_set_permission_id i b = b\<lparr> unfreeze_v1_builder_permission_id := Some i \<rparr>"

definition unfreeze_v1_request :: "address option \<Rightarrow> unfreeze_v1_builder \<Rightarrow> provider_error + tx_request" where
  "unfreeze_v1_request signer b =
     and_then (resolve_owner (unfreeze_v1_builder_owner b) signer) (\<lambda>owner.
     Ok (tx_request_default\<lparr> req_contract := Some (CtUnfreezeBalanceV1
         \<lparr> unfreeze_balance_v1_owner_address = owner,
           unfreeze_balance_v1_resource = unfreeze_v1_builder_resource b,
           unfreeze_balance_v1_receiver_address = unfreeze_v1_builder_receiver b \<rparr>),
         req_permission_id := unfreeze_v1_builder_permission_id b \<rparr>))"

section \<open>\<open>FreezeBuilder\<close>\<close>

record freeze_builder =
  freeze_builder_permission_id :: "i32 option"
  freeze_builder_owner :: "address option"
  freeze_builder_amount :: "trx option"
  freeze_builder_resource :: resource_code

definition freeze_builder_new :: freeze_builder where
  "freeze_builder_new =
     \<lparr> freeze_builder_permission_id = None, freeze_builder_owner = None,
       freeze_builder_amount = None, freeze_builder_resource = Energy \<rparr>"

definition freeze_set_from :: "address \<Rightarrow> freeze_builder \<Rightarrow> freeze_builder" where
  "freeze_set_from src b = b\<lparr> freeze_builder_owner := Some src \<rparr>"

definition freeze_set_amount :: "trx \<Rightarrow> freeze_builder \<Rightarrow> freeze_builder" where
  "freeze_set_amount amount b = b\<lparr> freeze_builder_amount := Some amount \<rparr>"

definition freeze_set_resource :: "resource_code \<Rightarrow> freeze_builder \<Rightarrow> freeze_builder" where
  "freeze_set_resource resource b = b\<lparr> freeze_builder_resource := resource \<rparr>"

definition freeze_set_permission_id :: "i32 \<Rightarrow> freeze_builder \<Rightarrow> freeze_builder" where
  "freeze_set_permission_id i b = b\<lparr> freeze_builder_permission_id := Some i \<rparr>"

definition freeze_request :: "address option \<Rightarrow> freeze_builder \<Rightarrow> provider_error + tx_request" where
  "freeze_request signer b =
     and_then (resolve_owner (freeze_builder_owner b) signer) (\<lambda>owner.
     and_then (ok_or (rpc_missing_field ''amount'') (freeze_builder_amount b)) (\<lambda>amount.
     Ok (tx_request_default\<lparr> req_contract := Some (CtFreezeBalanceV2
         \<lparr> freeze_balance_v2_owner_address = owner,
           freeze_balance_v2_frozen_balance = amount,
           freeze_balance_v2_resource = freeze_builder_resource b \<rparr>),
         req_permission_id := freeze_builder_permission_id b \<rparr>)))"

section \<open>\<open>UnfreezeBuilder\<close>\<close>

record unfreeze_builder =
  unfreeze_builder_permission_id :: "i32 option"
  unfreeze_builder_owner :: "address option"
  unfreeze_builder_amount :: "trx option"
  unfreeze_builder_resource :: resource_code

definition unfreeze_builder_new :: unfreeze_builder where
  "unfreeze_builder_new =
     \<lparr> unfreeze_builder_permission_id = None, unfreeze_builder_owner = None,
       unfreeze_builder_amount = None, unfreeze_builder_resource = Energy \<rparr>"

definition unfreeze_set_from :: "address \<Rightarrow> unfreeze_builder \<Rightarrow> unfreeze_builder" where
  "unfreeze_set_from src b = b\<lparr> unfreeze_builder_owner := Some src \<rparr>"

definition unfreeze_set_amount :: "trx \<Rightarrow> unfreeze_builder \<Rightarrow> unfreeze_builder" where
  "unfreeze_set_amount amount b = b\<lparr> unfreeze_builder_amount := Some amount \<rparr>"

definition unfreeze_set_resource :: "resource_code \<Rightarrow> unfreeze_builder \<Rightarrow> unfreeze_builder" where
  "unfreeze_set_resource resource b = b\<lparr> unfreeze_builder_resource := resource \<rparr>"

definition unfreeze_set_permission_id :: "i32 \<Rightarrow> unfreeze_builder \<Rightarrow> unfreeze_builder" where
  "unfreeze_set_permission_id i b = b\<lparr> unfreeze_builder_permission_id := Some i \<rparr>"

definition unfreeze_request :: "address option \<Rightarrow> unfreeze_builder \<Rightarrow> provider_error + tx_request" where
  "unfreeze_request signer b =
     and_then (resolve_owner (unfreeze_builder_owner b) signer) (\<lambda>owner.
     and_then (ok_or (rpc_missing_field ''amount'') (unfreeze_builder_amount b)) (\<lambda>amount.
     Ok (tx_request_default\<lparr> req_contract := Some (CtUnfreezeBalanceV2
         \<lparr> unfreeze_balance_v2_owner_address = owner,
           unfreeze_balance_v2_unfreeze_balance = amount,
           unfreeze_balance_v2_resource = unfreeze_builder_resource b \<rparr>),
         req_permission_id := unfreeze_builder_permission_id b \<rparr>)))"

section \<open>\<open>DelegateBuilder\<close>\<close>

record delegate_builder =
  delegate_builder_permission_id :: "i32 option"
  delegate_builder_owner :: "address option"
  delegate_builder_to :: "address option"
  delegate_builder_amount :: "trx option"
  delegate_builder_resource :: resource_code
  delegate_builder_lock_period :: "i64 option"

definition delegate_builder_new :: delegate_builder where
  "delegate_builder_new =
     \<lparr> delegate_builder_permission_id = None, delegate_builder_owner = None,
       delegate_builder_to = None, delegate_builder_amount = None,
       delegate_builder_resource = Energy, delegate_builder_lock_period = None \<rparr>"

definition delegate_set_from :: "address \<Rightarrow> delegate_builder \<Rightarrow> delegate_builder" where
  "delegate_set_from src b = b\<lparr> delegate_builder_owner := Some src \<rparr>"

definition delegate_set_to :: "address \<Rightarrow> delegate_builder \<Rightarrow> delegate_builder" where
  "delegate_set_to dst b = b\<lparr> delegate_builder_to := Some dst \<rparr>"

definition delegate_set_amount :: "trx \<Rightarrow> delegate_builder \<Rightarrow> delegate_builder" where
  "delegate_set_amount amount b = b\<lparr> delegate_builder_amount := Some amount \<rparr>"

definition delegate_set_resource :: "resource_code \<Rightarrow> delegate_builder \<Rightarrow> delegate_builder" where
  "delegate_set_resource resource b = b\<lparr> delegate_builder_resource := resource \<rparr>"

definition delegate_set_lock_period :: "i64 \<Rightarrow> delegate_builder \<Rightarrow> delegate_builder" where
  "delegate_set_lock_period blocks b = b\<lparr> delegate_builder_lock_period := Some blocks \<rparr>"

definition delegate_set_permission_id :: "i32 \<Rightarrow> delegate_builder \<Rightarrow> delegate_builder" where
  "delegate_set_permission_id i b = b\<lparr> delegate_builder_permission_id := Some i \<rparr>"

definition delegate_request :: "address option \<Rightarrow> delegate_builder \<Rightarrow> provider_error + tx_request" where
  "delegate_request signer b =
     and_then (resolve_owner (delegate_builder_owner b) signer) (\<lambda>owner.
     and_then (ok_or (rpc_missing_field ''to'') (delegate_builder_to b)) (\<lambda>dst.
     and_then (ok_or (rpc_missing_field ''amount'') (delegate_builder_amount b)) (\<lambda>amount.
     Ok (tx_request_default\<lparr> req_contract := Some (CtDelegateResource
         \<lparr> delegate_resource_owner_address = owner,
           delegate_resource_resource = delegate_builder_resource b,
           delegate_resource_balance = amount, delegate_resource_receiver_address = dst,
           delegate_resource_lock_period = delegate_builder_lock_period b \<rparr>),
         req_permission_id := delegate_builder_permission_id b \<rparr>))))"

section \<open>\<open>UndelegateBuilder\<close>\<close>

record undelegate_builder =
  undelegate_builder_permission_id :: "i32 option"
  undelegate_builder_owner :: "address option"
  undelegate_builder_receiver :: "address option"
  undelegate_builder_amount :: "trx option"
  undelegate_builder_resource :: resource_code

definition undelegate_builder_new :: undelegate_builder where
  "undelegate_builder_new =
     \<lparr> undelegate_builder_permission_id = None, undelegate_builder_owner = None,
       undelegate_builder_receiver = None, undelegate_builder_amount = None,
       undelegate_builder_resource = Energy \<rparr>"

definition undelegate_set_from :: "address \<Rightarrow> undelegate_builder \<Rightarrow> undelegate_builder" where
  "undelegate_set_from src b = b\<lparr> undelegate_builder_owner := Some src \<rparr>"

definition undelegate_set_receiver :: "address \<Rightarrow> undelegate_builder \<Rightarrow> undelegate_builder" where
  "undelegate_set_receiver receiver b = b\<lparr> undelegate_builder_receiver := Some receiver \<rparr>"

definition undelegate_set_amount :: "trx \<Rightarrow> undelegate_builder \<Rightarrow> undelegate_builder" where
  "undelegate_set_amount amount b = b\<lparr> undelegate_builder_amount := Some amount \<rparr>"

definition undelegate_set_resource :: "resource_code \<Rightarrow> undelegate_builder \<Rightarrow> undelegate_builder" where
  "undelegate_set_resource resource b = b\<lparr> undelegate_builder_resource := resource \<rparr>"

definition undelegate_set_permission_id :: "i32 \<Rightarrow> undelegate_builder \<Rightarrow> undelegate_builder" where
  "undelegate_set_permission_id i b = b\<lparr> undelegate_builder_permission_id := Some i \<rparr>"

definition undelegate_request :: "address option \<Rightarrow> undelegate_builder \<Rightarrow> provider_error + tx_request" where
  "undelegate_request signer b =
     and_then (resolve_owner (undelegate_builder_owner b) signer) (\<lambda>owner.
     and_then (ok_or (rpc_missing_field ''receiver'') (undelegate_builder_receiver b)) (\<lambda>receiver.
     and_then (ok_or (rpc_missing_field ''amount'') (undelegate_builder_amount b)) (\<lambda>amount.
     Ok (tx_request_default\<lparr> req_contract := Some (CtUnDelegateResource
         \<lparr> un_delegate_resource_owner_address = owner,
           un_delegate_resource_resource = undelegate_builder_resource b,
           un_delegate_resource_balance = amount,
           un_delegate_resource_receiver_address = receiver \<rparr>),
         req_permission_id := undelegate_builder_permission_id b \<rparr>))))"

section \<open>\<open>WithdrawExpireBuilder\<close>\<close>

record withdraw_expire_builder =
  withdraw_expire_builder_permission_id :: "i32 option"
  withdraw_expire_builder_owner :: "address option"

definition withdraw_expire_builder_new :: withdraw_expire_builder where
  "withdraw_expire_builder_new =
     \<lparr> withdraw_expire_builder_permission_id = None, withdraw_expire_builder_owner = None \<rparr>"

definition withdraw_expire_set_from :: "address \<Rightarrow> withdraw_expire_builder \<Rightarrow> withdraw_expire_builder" where
  "withdraw_expire_set_from src b = b\<lparr> withdraw_expire_builder_owner := Some src \<rparr>"

definition withdraw_expire_set_permission_id :: "i32 \<Rightarrow> withdraw_expire_builder \<Rightarrow> withdraw_expire_builder" where
  "withdraw_expire_set_permission_id i b = b\<lparr> withdraw_expire_builder_permission_id := Some i \<rparr>"

definition withdraw_expire_request :: "address option \<Rightarrow> withdraw_expire_builder \<Rightarrow> provider_error + tx_request" where
  "withdraw_expire_request signer b =
     and_then (resolve_owner (withdraw_expire_builder_owner b) signer) (\<lambda>owner.
     Ok (tx_request_default\<lparr> req_contract := Some (CtWithdrawExpireUnfreeze
         \<lparr> withdraw_expire_unfreeze_owner_address = owner \<rparr>),
         req_permission_id := withdraw_expire_builder_permission_id b \<rparr>))"

section \<open>\<open>CancelAllUnfreezeBuilder\<close>\<close>

record cancel_all_unfreeze_builder =
  cancel_all_unfreeze_builder_permission_id :: "i32 option"
  cancel_all_unfreeze_builder_owner :: "address option"

definition cancel_all_unfreeze_builder_new :: cancel_all_unfreeze_builder where
  "cancel_all_unfreeze_builder_new =
     \<lparr> cancel_all_unfreeze_builder_permission_id = None,
       cancel_all_unfreeze_builder_owner = None \<rparr>"

definition cancel_all_unfreeze_set_from :: "address \<Rightarrow> cancel_all_unfreeze_builder \<Rightarrow> cancel_all_unfreeze_builder" where
  "cancel_all_unfreeze_set_from src b = b\<lparr> cancel_all_unfreeze_builder_owner := Some src \<rparr>"

definition cancel_all_unfreeze_set_permission_id :: "i32 \<Rightarrow> cancel_all_unfreeze_builder \<Rightarrow> cancel_all_unfreeze_builder" where
  "cancel_all_unfreeze_set_permission_id i b = b\<lparr> cancel_all_unfreeze_builder_permission_id := Some i \<rparr>"

definition cancel_all_unfreeze_request :: "address option \<Rightarrow> cancel_all_unfreeze_builder \<Rightarrow> provider_error + tx_request" where
  "cancel_all_unfreeze_request signer b =
     and_then (resolve_owner (cancel_all_unfreeze_builder_owner b) signer) (\<lambda>owner.
     Ok (tx_request_default\<lparr> req_contract := Some (CtCancelAllUnfreezeV2
         \<lparr> cancel_all_unfreeze_v2_owner_address = owner \<rparr>),
         req_permission_id := cancel_all_unfreeze_builder_permission_id b \<rparr>))"

section \<open>\<open>WithdrawBalanceBuilder\<close>\<close>

record withdraw_balance_builder =
  withdraw_balance_builder_permission_id :: "i32 option"
  withdraw_balance_builder_owner :: "address option"

definition withdraw_balance_builder_new :: withdraw_balance_builder where
  "withdraw_balance_builder_new =
     \<lparr> withdraw_balance_builder_permission_id = None, withdraw_balance_builder_owner = None \<rparr>"

definition withdraw_balance_set_from :: "address \<Rightarrow> withdraw_balance_builder \<Rightarrow> withdraw_balance_builder" where
  "withdraw_balance_set_from src b = b\<lparr> withdraw_balance_builder_owner := Some src \<rparr>"

definition withdraw_balance_set_permission_id :: "i32 \<Rightarrow> withdraw_balance_builder \<Rightarrow> withdraw_balance_builder" where
  "withdraw_balance_set_permission_id i b = b\<lparr> withdraw_balance_builder_permission_id := Some i \<rparr>"

definition withdraw_balance_request :: "address option \<Rightarrow> withdraw_balance_builder \<Rightarrow> provider_error + tx_request" where
  "withdraw_balance_request signer b =
     and_then (resolve_owner (withdraw_balance_builder_owner b) signer) (\<lambda>owner.
     Ok (tx_request_default\<lparr> req_contract := Some (CtWithdrawBalance
         \<lparr> withdraw_balance_owner_address = owner \<rparr>),
         req_permission_id := withdraw_balance_builder_permission_id b \<rparr>))"

section \<open>\<open>AccountPermissionUpdateBuilder\<close>\<close>

record account_permission_update_builder =
  account_permission_update_builder_permission_id :: "i32 option"
  account_permission_update_builder_owner :: "address option"
  account_permission_update_builder_owner_permission :: "permission option"
  account_permission_update_builder_witness :: "permission option"
  account_permission_update_builder_actives :: "permission list"

definition account_permission_update_builder_new :: account_permission_update_builder where
  "account_permission_update_builder_new =
     \<lparr> account_permission_update_builder_permission_id = None,
       account_permission_update_builder_owner = None,
       account_permission_update_builder_owner_permission = None,
       account_permission_update_builder_witness = None,
       account_permission_update_builder_actives = [] \<rparr>"

definition account_permission_update_set_from :: "address \<Rightarrow> account_permission_update_builder \<Rightarrow> account_permission_update_builder" where
  "account_permission_update_set_from src b = b\<lparr> account_permission_update_builder_owner := Some src \<rparr>"

definition account_permission_update_set_owner_permission :: "permission \<Rightarrow> account_permission_update_builder \<Rightarrow> account_permission_update_builder" where
  "account_permission_update_set_owner_permission permission b = b\<lparr> account_permission_update_builder_owner_permission := Some permission \<rparr>"

definition account_permission_update_set_witness :: "permission \<Rightarrow> account_permission_update_builder \<Rightarrow> account_permission_update_builder" where
  "account_permission_update_set_witness permission b = b\<lparr> account_permission_update_builder_witness := Some permission \<rparr>"

definition account_permission_update_set_actives :: "(permission list) \<Rightarrow> account_permission_update_builder \<Rightarrow> account_permission_update_builder" where
  "account_permission_update_set_actives actives b = b\<lparr> account_permission_update_builder_actives := actives \<rparr>"

definition account_permission_update_set_permission_id :: "i32 \<Rightarrow> account_permission_update_builder \<Rightarrow> account_permission_update_builder" where
  "account_permission_update_set_permission_id i b = b\<lparr> account_permission_update_builder_permission_id := Some i \<rparr>"

definition account_permission_update_request :: "address option \<Rightarrow> account_permission_update_builder \<Rightarrow> provider_error + tx_request" where
  "account_permission_update_request signer b =
     and_then (resolve_owner (account_permission_update_builder_owner b) signer) (\<lambda>owner.
     and_then (check_operations (account_permission_update_builder_owner_permission b)
                 (account_permission_update_builder_witness b) (account_permission_update_builder_actives b)) (\<lambda>_.
     Ok (tx_request_default\<lparr> req_contract := Some (CtAccountPermissionUpdate
         \<lparr> account_permission_update_owner_address = owner,
           account_permission_update_owner = account_permission_update_builder_owner_permission b,
           account_permission_update_witness = account_permission_update_builder_witness b,
           account_permission_update_actives = account_permission_update_builder_actives b \<rparr>),
         req_permission_id := account_permission_update_builder_permission_id b \<rparr>)))"

section \<open>\<open>CreateAccountBuilder\<close>\<close>

record create_account_builder =
  create_account_builder_permission_id :: "i32 option"
  create_account_builder_owner :: "address option"
  create_account_builder_account_address :: "address option"
  create_account_builder_memo :: "bytes option"

definition create_account_builder_new :: create_account_builder where
  "create_account_builder_new =
     \<lparr> create_account_builder_permission_id = None, create_account_builder_owner = None,
       create_account_builder_account_address = None, create_account_builder_memo = None \<rparr>"

definition create_account_set_from :: "address \<Rightarrow> create_account_builder \<Rightarrow> create_account_builder" where
  "create_account_set_from src b = b\<lparr> create_account_builder_owner := Some src \<rparr>"

definition create_account_set_account_address :: "address \<Rightarrow> create_account_builder \<Rightarrow> create_account_builder" where
  "create_account_set_account_address address b = b\<lparr> create_account_builder_account_address := Some address \<rparr>"

definition create_account_set_memo :: "bytes \<Rightarrow> create_account_builder \<Rightarrow> create_account_builder" where
  "create_account_set_memo memo b = b\<lparr> create_account_builder_memo := Some memo \<rparr>"

definition create_account_set_permission_id :: "i32 \<Rightarrow> create_account_builder \<Rightarrow> create_account_builder" where
  "create_account_set_permission_id i b = b\<lparr> create_account_builder_permission_id := Some i \<rparr>"

definition create_account_request :: "address option \<Rightarrow> create_account_builder \<Rightarrow> provider_error + tx_request" where
  "create_account_request signer b =
     and_then (resolve_owner (create_account_builder_owner b) signer) (\<lambda>owner.
     and_then (ok_or (rpc_missing_field ''account_address'') (create_account_builder_account_address b)) (\<lambda>account_address.
     Ok (tx_request_default\<lparr> req_contract := Some (CtCreateAccount
         \<lparr> create_account_owner_address = owner,
           create_account_account_address = account_address \<rparr>),
         req_memo := create_account_builder_memo b, req_permission_id := create_account_builder_permission_id b \<rparr>)))"

section \<open>\<open>UpdateAccountBuilder\<close>\<close>

record update_account_builder =
  update_account_builder_permission_id :: "i32 option"
  update_account_builder_owner :: "address option"
  update_account_builder_name :: "string option"
  update_account_builder_memo :: "bytes option"

definition update_account_builder_new :: update_account_builder where
  "update_account_builder_new =
     \<lparr> update_account_builder_permission_id = None, update_account_builder_owner = None,
       update_account_builder_name = None, update_account_builder_memo = None \<rparr>"

definition update_account_set_from :: "address \<Rightarrow> update_account_builder \<Rightarrow> update_account_builder" where
  "update_account_set_from src b = b\<lparr> update_account_builder_owner := Some src \<rparr>"

definition update_account_set_name :: "string \<Rightarrow> update_account_builder \<Rightarrow> update_account_builder" where
  "update_account_set_name nm b = b\<lparr> update_account_builder_name := Some nm \<rparr>"

definition update_account_set_memo :: "bytes \<Rightarrow> update_account_builder \<Rightarrow> update_account_builder" where
  "update_account_set_memo memo b = b\<lparr> update_account_builder_memo := Some memo \<rparr>"

definition update_account_set_permission_id :: "i32 \<Rightarrow> update_account_builder \<Rightarrow> update_account_builder" where
  "update_account_set_permission_id i b = b\<lparr> update_account_builder_permission_id := Some i \<rparr>"

definition update_account_request :: "address option \<Rightarrow> update_account_builder \<Rightarrow> provider_error + tx_request" where
  "update_account_request signer b =
     and_then (resolve_owner (update_account_builder_owner b) signer) (\<lambda>owner.
     and_then (ok_or (rpc_missing_field ''name'') (update_account_builder_name b)) (\<lambda>nm.
     Ok (tx_request_default\<lparr> req_contract := Some (CtUpdateAccount
         \<lparr> update_account_owner_address = owner, update_account_name = nm \<rparr>),
         req_memo := update_account_builder_memo b, req_permission_id := update_account_builder_permission_id b \<rparr>)))"

section \<open>\<open>SetAccountIdBuilder\<close>\<close>

record set_account_id_builder =
  set_account_id_builder_permission_id :: "i32 option"
  set_account_id_builder_owner :: "address option"
  set_account_id_builder_account_id :: "string option"
  set_account_id_builder_memo :: "bytes option"

definition set_account_id_builder_new :: set_account_id_builder where
  "set_account_id_builder_new =
     \<lparr> set_account_id_builder_permission_id = None, set_account_id_builder_owner = None,
       set_account_id_builder_account_id = None, set_account_id_builder_memo = None \<rparr>"

definition set_account_id_set_from :: "address \<Rightarrow> set_account_id_builder \<Rightarrow> set_account_id_builder" where
  "set_account_id_set_from src b = b\<lparr> set_account_id_builder_owner := Some src \<rparr>"

definition set_account_id_set_account_id :: "string \<Rightarrow> set_account_id_builder \<Rightarrow> set_account_id_builder" where
  "set_account_id_set_account_id i b = b\<lparr> set_account_id_builder_account_id := Some i \<rparr>"

definition set_account_id_set_memo :: "bytes \<Rightarrow> set_account_id_builder \<Rightarrow> set_account_id_builder" where
  "set_account_id_set_memo memo b = b\<lparr> set_account_id_builder_memo := Some memo \<rparr>"

definition set_account_id_set_permission_id :: "i32 \<Rightarrow> set_account_id_builder \<Rightarrow> set_account_id_builder" where
  "set_account_id_set_permission_id i b = b\<lparr> set_account_id_builder_permission_id := Some i \<rparr>"

definition set_account_id_request :: "address option \<Rightarrow> set_account_id_builder \<Rightarrow> provider_error + tx_request" where
  "set_account_id_request signer b =
     and_then (resolve_owner (set_account_id_builder_owner b) signer) (\<lambda>owner.
     and_then (ok_or (rpc_missing_field ''account_id'') (set_account_id_builder_account_id b)) (\<lambda>account_id.
     Ok (tx_request_default\<lparr> req_contract := Some (CtSetAccountId
         \<lparr> set_account_id_owner_address = owner, set_account_id_account_id = account_id \<rparr>),
         req_memo := set_account_id_builder_memo b, req_permission_id := set_account_id_builder_permission_id b \<rparr>)))"

section \<open>\<open>ClearContractAbiBuilder\<close>\<close>

record clear_contract_abi_builder =
  clear_contract_abi_builder_permission_id :: "i32 option"
  clear_contract_abi_builder_owner :: "address option"
  clear_contract_abi_builder_contract_address :: "address option"
  clear_contract_abi_builder_memo :: "bytes option"

definition clear_contract_abi_builder_new :: clear_contract_abi_builder where
  "clear_contract_abi_builder_new =
     \<lparr> clear_contract_abi_builder_permission_id = None,
       clear_contract_abi_builder_owner = None,
       clear_contract_abi_builder_contract_address = None,
       clear_contract_abi_builder_memo = None \<rparr>"

definition clear_contract_abi_set_from :: "address \<Rightarrow> clear_contract_abi_builder \<Rightarrow> clear_contract_abi_builder" where
  "clear_contract_abi_set_from src b = b\<lparr> clear_contract_abi_builder_owner := Some src \<rparr>"

definition clear_contract_abi_set_contract_address :: "address \<Rightarrow> clear_contract_abi_builder \<Rightarrow> clear_contract_abi_builder" where
  "clear_contract_abi_set_contract_address address b = b\<lparr> clear_contract_abi_builder_contract_address := Some address \<rparr>"

definition clear_contract_abi_set_memo :: "bytes \<Rightarrow> clear_contract_abi_builder \<Rightarrow> clear_contract_abi_builder" where
  "clear_contract_abi_set_memo memo b = b\<lparr> clear_contract_abi_builder_memo := Some memo \<rparr>"

definition clear_contract_abi_set_permission_id :: "i32 \<Rightarrow> clear_contract_abi_builder \<Rightarrow> clear_contract_abi_builder" where
  "clear_contract_abi_set_permission_id i b = b\<lparr> clear_contract_abi_builder_permission_id := Some i \<rparr>"

definition clear_contract_abi_request :: "address option \<Rightarrow> clear_contract_abi_builder \<Rightarrow> provider_error + tx_request" where
  "clear_contract_abi_request signer b =
     and_then (resolve_owner (clear_contract_abi_builder_owner b) signer) (\<lambda>owner.
     and_then (ok_or (rpc_missing_field ''contract_address'') (clear_contract_abi_builder_contract_address b)) (\<lambda>contract_address.
     Ok (tx_request_default\<lparr> req_contract := Some (CtClearContractAbi
         \<lparr> clear_abi_owner_address = owner, clear_abi_contract_address = contract_address \<rparr>),
         req_memo := clear_contract_abi_builder_memo b, req_permission_id := clear_contract_abi_builder_permission_id b \<rparr>)))"

section \<open>\<open>UpdateContractSettingBuilder\<close>\<close>

record update_contract_setting_builder =
  update_contract_setting_builder_permission_id :: "i32 option"
  update_contract_setting_builder_owner :: "address option"
  update_contract_setting_builder_contract_address :: "address option"
  update_contract_setting_builder_consume_user_resource_percent :: "i64 option"
  update_contract_setting_builder_memo :: "bytes option"

definition update_contract_setting_builder_new :: update_contract_setting_builder where
  "update_contract_setting_builder_new =
     \<lparr> update_contract_setting_builder_permission_id = None,
       update_contract_setting_builder_owner = None,
       update_contract_setting_builder_contract_address = None,
       update_contract_setting_builder_consume_user_resource_percent = None,
       update_contract_setting_builder_memo = None \<rparr>"

definition update_contract_setting_set_from :: "address \<Rightarrow> update_contract_setting_builder \<Rightarrow> update_contract_setting_builder" where
  "update_contract_setting_set_from src b = b\<lparr> update_contract_setting_builder_owner := Some src \<rparr>"

definition update_contract_setting_set_contract_address :: "address \<Rightarrow> update_contract_setting_builder \<Rightarrow> update_contract_setting_builder" where
  "update_contract_setting_set_contract_address address b = b\<lparr> update_contract_setting_builder_contract_address := Some address \<rparr>"

definition update_contract_setting_set_consume_user_resource_percent :: "i64 \<Rightarrow> update_contract_setting_builder \<Rightarrow> update_contract_setting_builder" where
  "update_contract_setting_set_consume_user_resource_percent percent b = b\<lparr> update_contract_setting_builder_consume_user_resource_percent := Some percent \<rparr>"

definition update_contract_setting_set_memo :: "bytes \<Rightarrow> update_contract_setting_builder \<Rightarrow> update_contract_setting_builder" where
  "update_contract_setting_set_memo memo b = b\<lparr> update_contract_setting_builder_memo := Some memo \<rparr>"

definition update_contract_setting_set_permission_id :: "i32 \<Rightarrow> update_contract_setting_builder \<Rightarrow> update_contract_setting_builder" where
  "update_contract_setting_set_permission_id i b = b\<lparr> update_contract_setting_builder_permission_id := Some i \<rparr>"

definition update_contract_setting_request :: "address option \<Rightarrow> update_contract_setting_builder \<Rightarrow> provider_error + tx_request" where
  "update_contract_setting_request signer b =
     and_then (resolve_owner (update_contract_setting_builder_owner b) signer) (\<lambda>owner.
     and_then (ok_or (rpc_missing_field ''contract_address'') (update_contract_setting_builder_contract_address b)) (\<lambda>contract_address.
     and_then (ok_or (rpc_missing_field ''consume_user_resource_percent'') (update_contract_setting_builder_consume_user_resource_percent b)) (\<lambda>consume_user_resource_percent.
     Ok (tx_request_default\<lparr> req_contract := Some (CtUpdateSetting
         \<lparr> update_setting_owner_address = owner,
           update_setting_contract_address = contract_address,
           update_setting_consume_user_resource_percent = consume_user_resource_percent \<rparr>),
         req_memo := update_contract_setting_builder_memo b, req_permission_id := update_contract_setting_builder_permission_id b \<rparr>))))"

section \<open>\<open>UpdateContractEnergyLimitBuilder\<close>\<close>

record update_contract_energy_limit_builder =
  update_contract_energy_limit_builder_permission_id :: "i32 option"
  update_contract_energy_limit_builder_owner :: "address option"
  update_contract_energy_limit_builder_contract_address :: "address option"
  update_contract_energy_limit_builder_origin_energy_limit :: "i64 option"
  update_contract_energy_limit_builder_memo :: "bytes option"

definition update_contract_energy_limit_builder_new :: update_contract_energy_limit_builder where
  "update_contract_energy_limit_builder_new =
     \<lparr> update_contract_energy_limit_builder_permission_id = None,
       update_contract_energy_limit_builder_owner = None,
       update_contract_energy_limit_builder_contract_address = None,
       update_contract_energy_limit_builder_origin_energy_limit = None,
       update_contract_energy_limit_builder_memo = None \<rparr>"

definition update_contract_energy_limit_set_from :: "address \<Rightarrow> update_contract_energy_limit_builder \<Rightarrow> update_contract_energy_limit_builder" where
  "update_contract_energy_limit_set_from src b = b\<lparr> update_contract_energy_limit_builder_owner := Some src \<rparr>"

definition update_contract_energy_limit_set_contract_address :: "address \<Rightarrow> update_contract_energy_limit_builder \<Rightarrow> update_contract_energy_limit_builder" where
  "update_contract_energy_limit_set_contract_address address b = b\<lparr> update_contract_energy_limit_builder_contract_address := Some address \<rparr>"

definition update_contract_energy_limit_set_origin_energy_limit :: "i64 \<Rightarrow> update_contract_energy_limit_builder \<Rightarrow> update_contract_energy_limit_builder" where
  "update_contract_energy_limit_set_origin_energy_limit bound b = b\<lparr> update_contract_energy_limit_builder_origin_energy_limit := Some bound \<rparr>"

definition update_contract_energy_limit_set_memo :: "bytes \<Rightarrow> update_contract_energy_limit_builder \<Rightarrow> update_contract_energy_limit_builder" where
  "update_contract_energy_limit_set_memo memo b = b\<lparr> update_contract_energy_limit_builder_memo := Some memo \<rparr>"

definition update_contract_energy_limit_set_permission_id :: "i32 \<Rightarrow> update_contract_energy_limit_builder \<Rightarrow> update_contract_energy_limit_builder" where
  "update_contract_energy_limit_set_permission_id i b = b\<lparr> update_contract_energy_limit_builder_permission_id := Some i \<rparr>"

definition update_contract_energy_limit_request :: "address option \<Rightarrow> update_contract_energy_limit_builder \<Rightarrow> provider_error + tx_request" where
  "update_contract_energy_limit_request signer b =
     and_then (resolve_owner (update_contract_energy_limit_builder_owner b) signer) (\<lambda>owner.
     and_then (ok_or (rpc_missing_field ''contract_address'') (update_contract_energy_limit_builder_contract_address b)) (\<lambda>contract_address.
     and_then (ok_or (rpc_missing_field ''origin_energy_limit'') (update_contract_energy_limit_builder_origin_energy_limit b)) (\<lambda>origin_energy_limit.
     Ok (tx_request_default\<lparr> req_contract := Some (CtUpdateEnergyLimit
         \<lparr> update_energy_limit_owner_address = owner,
           update_energy_limit_contract_address = contract_address,
           update_energy_limit_origin_energy_limit = origin_energy_limit \<rparr>),
         req_memo := update_contract_energy_limit_builder_memo b, req_permission_id := update_contract_energy_limit_builder_permission_id b \<rparr>))))"

section \<open>\<open>VoteBuilder\<close>\<close>

record vote_builder =
  vote_builder_permission_id :: "i32 option"
  vote_builder_owner :: "address option"
  vote_builder_votes :: "sr_vote list"
  vote_builder_memo :: "bytes option"

definition vote_builder_new :: vote_builder where
  "vote_builder_new =
     \<lparr> vote_builder_permission_id = None, vote_builder_owner = None,
       vote_builder_votes = [], vote_builder_memo = None \<rparr>"

definition vote_set_from :: "address \<Rightarrow> vote_builder \<Rightarrow> vote_builder" where
  "vote_set_from src b = b\<lparr> vote_builder_owner := Some src \<rparr>"

definition vote_set_vote :: "address \<Rightarrow> i64 \<Rightarrow> vote_builder \<Rightarrow> vote_builder" where
  "vote_set_vote sr_address count b = b\<lparr> vote_builder_votes := vote_builder_votes b @ [\<lparr> sr_vote_vote_address = sr_address, sr_vote_vote_count = count \<rparr>] \<rparr>"

definition vote_set_votes :: "(address \<times> i64) list \<Rightarrow> vote_builder \<Rightarrow> vote_builder" where
  "vote_set_votes votes b = b\<lparr> vote_builder_votes := vote_builder_votes b @ map (\<lambda>(a, n). \<lparr> sr_vote_vote_address = a, sr_vote_vote_count = n \<rparr>) votes \<rparr>"

definition vote_set_memo :: "bytes \<Rightarrow> vote_builder \<Rightarrow> vote_builder" where
  "vote_set_memo memo b = b\<lparr> vote_builder_memo := Some memo \<rparr>"

definition vote_set_permission_id :: "i32 \<Rightarrow> vote_builder \<Rightarrow> vote_builder" where
  "vote_set_permission_id i b = b\<lparr> vote_builder_permission_id := Some i \<rparr>"

definition vote_request :: "address option \<Rightarrow> vote_builder \<Rightarrow> provider_error + tx_request" where
  "vote_request signer b =
     and_then (resolve_owner (vote_builder_owner b) signer) (\<lambda>owner.
     Ok (tx_request_default\<lparr> req_contract := Some (CtVoteWitness
         \<lparr> vote_witness_owner_address = owner, vote_witness_votes = vote_builder_votes b \<rparr>),
         req_memo := vote_builder_memo b, req_permission_id := vote_builder_permission_id b \<rparr>))"

section \<open>\<open>TransferTrc10Builder\<close>\<close>

record transfer_trc10_builder =
  transfer_trc10_builder_permission_id :: "i32 option"
  transfer_trc10_builder_owner :: "address option"
  transfer_trc10_builder_to :: "address option"
  transfer_trc10_builder_token_id :: "string option"
  transfer_trc10_builder_amount :: "i64 option"
  transfer_trc10_builder_memo :: "bytes option"

definition transfer_trc10_builder_new :: transfer_trc10_builder where
  "transfer_trc10_builder_new =
     \<lparr> transfer_trc10_builder_permission_id = None, transfer_trc10_builder_owner = None,
       transfer_trc10_builder_to = None, transfer_trc10_builder_token_id = None,
       transfer_trc10_builder_amount = None, transfer_trc10_builder_memo = None \<rparr>"

definition transfer_trc10_set_from :: "address \<Rightarrow> transfer_trc10_builder \<Rightarrow> transfer_trc10_builder" where
  "transfer_trc10_set_from src b = b\<lparr> transfer_trc10_builder_owner := Some src \<rparr>"

definition transfer_trc10_set_to :: "address \<Rightarrow> transfer_trc10_builder \<Rightarrow> transfer_trc10_builder" where
  "transfer_trc10_set_to dst b = b\<lparr> transfer_trc10_builder_to := Some dst \<rparr>"

definition transfer_trc10_set_token_id :: "string \<Rightarrow> transfer_trc10_builder \<Rightarrow> transfer_trc10_builder" where
  "transfer_trc10_set_token_id i b = b\<lparr> transfer_trc10_builder_token_id := Some i \<rparr>"

definition transfer_trc10_set_amount :: "i64 \<Rightarrow> transfer_trc10_builder \<Rightarrow> transfer_trc10_builder" where
  "transfer_trc10_set_amount amount b = b\<lparr> transfer_trc10_builder_amount := Some amount \<rparr>"

definition transfer_trc10_set_memo :: "bytes \<Rightarrow> transfer_trc10_builder \<Rightarrow> transfer_trc10_builder" where
  "transfer_trc10_set_memo memo b = b\<lparr> transfer_trc10_builder_memo := Some memo \<rparr>"

definition transfer_trc10_set_permission_id :: "i32 \<Rightarrow> transfer_trc10_builder \<Rightarrow> transfer_trc10_builder" where
  "transfer_trc10_set_permission_id i b = b\<lparr> transfer_trc10_builder_permission_id := Some i \<rparr>"

definition transfer_trc10_request :: "address option \<Rightarrow> transfer_trc10_builder \<Rightarrow> provider_error + tx_request" where
  "transfer_trc10_request signer b =
     and_then (resolve_owner (transfer_trc10_builder_owner b) signer) (\<lambda>owner.
     and_then (ok_or (rpc_missing_field ''to'') (transfer_trc10_builder_to b)) (\<lambda>dst.
     and_then (ok_or (rpc_missing_field ''token_id'') (transfer_trc10_builder_token_id b)) (\<lambda>token_id.
     and_then (ok_or (rpc_missing_field ''amount'') (transfer_trc10_builder_amount b)) (\<lambda>amount.
     Ok (tx_request_default\<lparr> req_contract := Some (CtTransferAsset
         \<lparr> transfer_asset_owner_address = owner, transfer_asset_to_address = dst,
           transfer_asset_token_id = token_id, transfer_asset_amount = amount \<rparr>),
         req_memo := transfer_trc10_builder_memo b, req_permission_id := transfer_trc10_builder_permission_id b \<rparr>)))))"

section \<open>\<open>IssueTrc10Builder\<close>\<close>

record issue_trc10_builder =
  issue_trc10_builder_permission_id :: "i32 option"
  issue_trc10_builder_owner :: "address option"
  issue_trc10_builder_name :: "string option"
  issue_trc10_builder_abbr :: "string option"
  issue_trc10_builder_description :: string
  issue_trc10_builder_url :: "string option"
  issue_trc10_builder_total_supply :: "i64 option"
  issue_trc10_builder_precision :: i32
  issue_trc10_builder_trx_num :: i32
  issue_trc10_builder_num :: i32
  issue_trc10_builder_start_offset_ms :: i64
  issue_trc10_builder_duration_ms :: i64
  issue_trc10_builder_free_asset_net_limit :: i64
  issue_trc10_builder_public_free_asset_net_limit :: i64
  issue_trc10_builder_frozen_supply :: "frozen_supply list"

definition issue_trc10_builder_new :: issue_trc10_builder where
  "issue_trc10_builder_new =
     \<lparr> issue_trc10_builder_permission_id = None, issue_trc10_builder_owner = None,
       issue_trc10_builder_name = None, issue_trc10_builder_abbr = None,
       issue_trc10_builder_description = [], issue_trc10_builder_url = None,
       issue_trc10_builder_total_supply = None, issue_trc10_builder_precision = 0,
       issue_trc10_builder_trx_num = 1, issue_trc10_builder_num = 1,
       issue_trc10_builder_start_offset_ms = 5 * 60 * 1000,
       issue_trc10_builder_duration_ms = 30 * 24 * 60 * 60 * 1000,
       issue_trc10_builder_free_asset_net_limit = 0,
       issue_trc10_builder_public_free_asset_net_limit = 0,
       issue_trc10_builder_frozen_supply = [] \<rparr>"

definition issue_trc10_set_from :: "address \<Rightarrow> issue_trc10_builder \<Rightarrow> issue_trc10_builder" where
  "issue_trc10_set_from src b = b\<lparr> issue_trc10_builder_owner := Some src \<rparr>"

definition issue_trc10_set_name :: "string \<Rightarrow> issue_trc10_builder \<Rightarrow> issue_trc10_builder" where
  "issue_trc10_set_name nm b = b\<lparr> issue_trc10_builder_name := Some nm \<rparr>"

definition issue_trc10_set_abbr :: "string \<Rightarrow> issue_trc10_builder \<Rightarrow> issue_trc10_builder" where
  "issue_trc10_set_abbr abbr b = b\<lparr> issue_trc10_builder_abbr := Some abbr \<rparr>"

definition issue_trc10_set_description :: "string \<Rightarrow> issue_trc10_builder \<Rightarrow> issue_trc10_builder" where
  "issue_trc10_set_description desc b = b\<lparr> issue_trc10_builder_description := desc \<rparr>"

definition issue_trc10_set_url :: "string \<Rightarrow> issue_trc10_builder \<Rightarrow> issue_trc10_builder" where
  "issue_trc10_set_url u b = b\<lparr> issue_trc10_builder_url := Some u \<rparr>"

definition issue_trc10_set_total_supply :: "i64 \<Rightarrow> issue_trc10_builder \<Rightarrow> issue_trc10_builder" where
  "issue_trc10_set_total_supply supply b = b\<lparr> issue_trc10_builder_total_supply := Some supply \<rparr>"

definition issue_trc10_set_precision :: "i32 \<Rightarrow> issue_trc10_builder \<Rightarrow> issue_trc10_builder" where
  "issue_trc10_set_precision precision b = b\<lparr> issue_trc10_builder_precision := precision \<rparr>"

definition issue_trc10_set_exchange_rate :: "i32 \<Rightarrow> i32 \<Rightarrow> issue_trc10_builder \<Rightarrow> issue_trc10_builder" where
  "issue_trc10_set_exchange_rate trx_num num b = b\<lparr> issue_trc10_builder_trx_num := trx_num, issue_trc10_builder_num := num \<rparr>"

definition issue_trc10_set_start_offset_ms :: "i64 \<Rightarrow> issue_trc10_builder \<Rightarrow> issue_trc10_builder" where
  "issue_trc10_set_start_offset_ms ms b = b\<lparr> issue_trc10_builder_start_offset_ms := ms \<rparr>"

definition issue_trc10_set_duration_ms :: "i64 \<Rightarrow> issue_trc10_builder \<Rightarrow> issue_trc10_builder" where
  "issue_trc10_set_duration_ms ms b = b\<lparr> issue_trc10_builder_duration_ms := ms \<rparr>"

definition issue_trc10_set_free_asset_net_limit :: "i64 \<Rightarrow> issue_trc10_builder \<Rightarrow> issue_trc10_builder" where
  "issue_trc10_set_free_asset_net_limit bound b = b\<lparr> issue_trc10_builder_free_asset_net_limit := bound \<rparr>"

definition issue_trc10_set_public_free_asset_net_limit :: "i64 \<Rightarrow> issue_trc10_builder \<Rightarrow> issue_trc10_builder" where
  "issue_trc10_set_public_free_asset_net_limit bound b = b\<lparr> issue_trc10_builder_public_free_asset_net_limit := bound \<rparr>"

definition issue_trc10_set_freeze :: "i64 \<Rightarrow> i64 \<Rightarrow> issue_trc10_builder \<Rightarrow> issue_trc10_builder" where
  "issue_trc10_set_freeze amount days b = b\<lparr> issue_trc10_builder_frozen_supply := issue_trc10_builder_frozen_supply b @ [\<lparr> frozen_supply_frozen_amount = amount, frozen_supply_frozen_days = days \<rparr>] \<rparr>"

definition issue_trc10_set_permission_id :: "i32 \<Rightarrow> issue_trc10_builder \<Rightarrow> issue_trc10_builder" where
  "issue_trc10_set_permission_id i b = b\<lparr> issue_trc10_builder_permission_id := Some i \<rparr>"

definition issue_trc10_request :: "address option \<Rightarrow> i64 \<Rightarrow> issue_trc10_builder \<Rightarrow> provider_error + tx_request" where
  "issue_trc10_request signer now_ms b =
     and_then (resolve_owner (issue_trc10_builder_owner b) signer) (\<lambda>owner.
     and_then (ok_or (rpc_missing_field ''name'') (issue_trc10_builder_name b)) (\<lambda>nm.
     and_then (ok_or (rpc_missing_field ''abbr'') (issue_trc10_builder_abbr b)) (\<lambda>abbr.
     and_then (ok_or (rpc_missing_field ''url'') (issue_trc10_builder_url b)) (\<lambda>u.
     and_then (ok_or (rpc_missing_field ''total_supply'') (issue_trc10_builder_total_supply b)) (\<lambda>total_supply.
     (let start_time = now_ms + issue_trc10_builder_start_offset_ms b; end_time = start_time + issue_trc10_builder_duration_ms b
      in Ok (tx_request_default\<lparr> req_contract := Some (CtAssetIssue
         \<lparr> asset_issue_owner_address = owner, asset_issue_name = nm,
           asset_issue_abbr = abbr, asset_issue_description = issue_trc10_builder_description b,
           asset_issue_url = u, asset_issue_total_supply = total_supply,
           asset_issue_precision = issue_trc10_builder_precision b,
           asset_issue_trx_num = issue_trc10_builder_trx_num b,
           asset_issue_num = issue_trc10_builder_num b, asset_issue_start_time = start_time,
           asset_issue_end_time = end_time,
           asset_issue_free_asset_net_limit = issue_trc10_builder_free_asset_net_limit b,
           asset_issue_public_free_asset_net_limit = issue_trc10_builder_public_free_asset_net_limit b,
           asset_issue_frozen_supply = issue_trc10_builder_frozen_supply b \<rparr>),
         req_permission_id := issue_trc10_builder_permission_id b \<rparr>)))))))"

section \<open>\<open>ParticipateTrc10Builder\<close>\<close>

record participate_trc10_builder =
  participate_trc10_builder_permission_id :: "i32 option"
  participate_trc10_builder_owner :: "address option"
  participate_trc10_builder_to :: "address option"
  participate_trc10_builder_token_id :: "string option"
  participate_trc10_builder_amount :: "i64 option"
  participate_trc10_builder_memo :: "bytes option"

definition participate_trc10_builder_new :: participate_trc10_builder where
  "participate_trc10_builder_new =
     \<lparr> participate_trc10_builder_permission_id = None,
       participate_trc10_builder_owner = None, participate_trc10_builder_to = None,
       participate_trc10_builder_token_id = None, participate_trc10_builder_amount = None,
       participate_trc10_builder_memo = None \<rparr>"

definition participate_trc10_set_from :: "address \<Rightarrow> participate_trc10_builder \<Rightarrow> participate_trc10_builder" where
  "participate_trc10_set_from src b = b\<lparr> participate_trc10_builder_owner := Some src \<rparr>"

definition participate_trc10_set_to :: "address \<Rightarrow> participate_trc10_builder \<Rightarrow> participate_trc10_builder" where
  "participate_trc10_set_to dst b = b\<lparr> participate_trc10_builder_to := Some dst \<rparr>"

definition participate_trc10_set_token_id :: "string \<Rightarrow> participate_trc10_builder \<Rightarrow> participate_trc10_builder" where
  "participate_trc10_set_token_id i b = b\<lparr> participate_trc10_builder_token_id := Some i \<rparr>"

definition participate_trc10_set_amount_sun :: "i64 \<Rightarrow> participate_trc10_builder \<Rightarrow> participate_trc10_builder" where
  "participate_trc10_set_amount_sun sun b = b\<lparr> participate_trc10_builder_amount := Some sun \<rparr>"

definition participate_trc10_set_memo :: "bytes \<Rightarrow> participate_trc10_builder \<Rightarrow> participate_trc10_builder" where
  "participate_trc10_set_memo memo b = b\<lparr> participate_trc10_builder_memo := Some memo \<rparr>"

definition participate_trc10_set_permission_id :: "i32 \<Rightarrow> participate_trc10_builder \<Rightarrow> participate_trc10_builder" where
  "participate_trc10_set_permission_id i b = b\<lparr> participate_trc10_builder_permission_id := Some i \<rparr>"

definition participate_trc10_request :: "address option \<Rightarrow> participate_trc10_builder \<Rightarrow> provider_error + tx_request" where
  "participate_trc10_request signer b =
     and_then (resolve_owner (participate_trc10_builder_owner b) signer) (\<lambda>owner.
     and_then (ok_or (rpc_missing_field ''to'') (participate_trc10_builder_to b)) (\<lambda>dst.
     and_then (ok_or (rpc_missing_field ''token_id'') (participate_trc10_builder_token_id b)) (\<lambda>token_id.
     and_then (ok_or (rpc_missing_field ''amount'') (participate_trc10_builder_amount b)) (\<lambda>amount.
     Ok (tx_request_default\<lparr> req_contract := Some (CtParticipateAssetIssue
         \<lparr> participate_asset_issue_owner_address = owner,
           participate_asset_issue_to_address = dst,
           participate_asset_issue_token_id = token_id, participate_asset_issue_amount = amount \<rparr>),
         req_memo := participate_trc10_builder_memo b, req_permission_id := participate_trc10_builder_permission_id b \<rparr>)))))"

section \<open>\<open>UnfreezeTrc10Builder\<close>\<close>

record unfreeze_trc10_builder =
  unfreeze_trc10_builder_permission_id :: "i32 option"
  unfreeze_trc10_builder_owner :: "address option"
  unfreeze_trc10_builder_memo :: "bytes option"

definition unfreeze_trc10_builder_new :: unfreeze_trc10_builder where
  "unfreeze_trc10_builder_new =
     \<lparr> unfreeze_trc10_builder_permission_id = None, unfreeze_trc10_builder_owner = None,
       unfreeze_trc10_builder_memo = None \<rparr>"

definition unfreeze_trc10_set_from :: "address \<Rightarrow> unfreeze_trc10_builder \<Rightarrow> unfreeze_trc10_builder" where
  "unfreeze_trc10_set_from src b = b\<lparr> unfreeze_trc10_builder_owner := Some src \<rparr>"

definition unfreeze_trc10_set_memo :: "bytes \<Rightarrow> unfreeze_trc10_builder \<Rightarrow> unfreeze_trc10_builder" where
  "unfreeze_trc10_set_memo memo b = b\<lparr> unfreeze_trc10_builder_memo := Some memo \<rparr>"

definition unfreeze_trc10_set_permission_id :: "i32 \<Rightarrow> unfreeze_trc10_builder \<Rightarrow> unfreeze_trc10_builder" where
  "unfreeze_trc10_set_permission_id i b = b\<lparr> unfreeze_trc10_builder_permission_id := Some i \<rparr>"

definition unfreeze_trc10_request :: "address option \<Rightarrow> unfreeze_trc10_builder \<Rightarrow> provider_error + tx_request" where
  "unfreeze_trc10_request signer b =
     and_then (resolve_owner (unfreeze_trc10_builder_owner b) signer) (\<lambda>owner.
     Ok (tx_request_default\<lparr> req_contract := Some (CtUnfreezeAsset
         \<lparr> unfreeze_asset_owner_address = owner \<rparr>),
         req_memo := unfreeze_trc10_builder_memo b, req_permission_id := unfreeze_trc10_builder_permission_id b \<rparr>))"

section \<open>\<open>UpdateTrc10Builder\<close>\<close>

record update_trc10_builder =
  update_trc10_builder_permission_id :: "i32 option"
  update_trc10_builder_owner :: "address option"
  update_trc10_builder_description :: string
  update_trc10_builder_url :: "string option"
  update_trc10_builder_new_limit :: i64
  update_trc10_builder_new_public_limit :: i64
  update_trc10_builder_memo :: "bytes option"

definition update_trc10_builder_new :: update_trc10_builder where
  "update_trc10_builder_new =
     \<lparr> update_trc10_builder_permission_id = None, update_trc10_builder_owner = None,
       update_trc10_builder_description = [], update_trc10_builder_url = None,
       update_trc10_builder_new_limit = 0, update_trc10_builder_new_public_limit = 0,
       update_trc10_builder_memo = None \<rparr>"

definition update_trc10_set_from :: "address \<Rightarrow> update_trc10_builder \<Rightarrow> update_trc10_builder" where
  "update_trc10_set_from src b = b\<lparr> update_trc10_builder_owner := Some src \<rparr>"

definition update_trc10_set_description :: "string \<Rightarrow> update_trc10_builder \<Rightarrow> update_trc10_builder" where
  "update_trc10_set_description desc b = b\<lparr> update_trc10_builder_description := desc \<rparr>"

definition update_trc10_set_url :: "string \<Rightarrow> update_trc10_builder \<Rightarrow> update_trc10_builder" where
  "update_trc10_set_url u b = b\<lparr> update_trc10_builder_url := Some u \<rparr>"

definition update_trc10_set_new_limit :: "i64 \<Rightarrow> update_trc10_builder \<Rightarrow> update_trc10_builder" where
  "update_trc10_set_new_limit bound b = b\<lparr> update_trc10_builder_new_limit := bound \<rparr>"

definition update_trc10_set_new_public_limit :: "i64 \<Rightarrow> update_trc10_builder \<Rightarrow> update_trc10_builder" where
  "update_trc10_set_new_public_limit bound b = b\<lparr> update_trc10_builder_new_public_limit := bound \<rparr>"

definition update_trc10_set_memo :: "bytes \<Rightarrow> update_trc10_builder \<Rightarrow> update_trc10_builder" where
  "update_trc10_set_memo memo b = b\<lparr> update_trc10_builder_memo := Some memo \<rparr>"

definition update_trc10_set_permission_id :: "i32 \<Rightarrow> update_trc10_builder \<Rightarrow> update_trc10_builder" where
  "update_trc10_set_permission_id i b = b\<lparr> update_trc10_builder_permission_id := Some i \<rparr>"

definition update_trc10_request :: "address option \<Rightarrow> update_trc10_builder \<Rightarrow> provider_error + tx_request" where
  "update_trc10_request signer b =
     and_then (resolve_owner (update_trc10_builder_owner b) signer) (\<lambda>owner.
     and_then (ok_or (rpc_missing_field ''url'') (update_trc10_builder_url b)) (\<lambda>u.
     Ok (tx_request_default\<lparr> req_contract := Some (CtUpdateAsset
         \<lparr> update_asset_owner_address = owner,
           update_asset_description = update_trc10_builder_description b, update_asset_url = u,
           update_asset_new_limit = update_trc10_builder_new_limit b,
           update_asset_new_public_limit = update_trc10_builder_new_public_limit b \<rparr>),
         req_memo := update_trc10_builder_memo b, req_permission_id := update_trc10_builder_permission_id b \<rparr>)))"

section \<open>\<open>SubmitProposalBuilder\<close>\<close>

record submit_proposal_builder =
  submit_proposal_builder_permission_id :: "i32 option"
  submit_proposal_builder_owner :: "address option"
  submit_proposal_builder_parameters :: "i64 \<rightharpoonup> i64"
  submit_proposal_builder_memo :: "bytes option"

definition submit_proposal_builder_new :: submit_proposal_builder where
  "submit_proposal_builder_new =
     \<lparr> submit_proposal_builder_permission_id = None, submit_proposal_builder_owner = None,
       submit_proposal_builder_parameters = Map.empty, submit_proposal_builder_memo = None \<rparr>"

definition submit_proposal_set_from :: "address \<Rightarrow> submit_proposal_builder \<Rightarrow> submit_proposal_builder" where
  "submit_proposal_set_from src b = b\<lparr> submit_proposal_builder_owner := Some src \<rparr>"

definition submit_proposal_set_parameter :: "i64 \<Rightarrow> i64 \<Rightarrow> submit_proposal_builder \<Rightarrow> submit_proposal_builder" where
  "submit_proposal_set_parameter param_id value b = b\<lparr> submit_proposal_builder_parameters := (submit_proposal_builder_parameters b)(param_id \<mapsto> value) \<rparr>"

definition submit_proposal_set_parameters :: "(i64 \<times> i64) list \<Rightarrow> submit_proposal_builder \<Rightarrow> submit_proposal_builder" where
  "submit_proposal_set_parameters params b = b\<lparr> submit_proposal_builder_parameters := map_of (rev params) \<rparr>"

definition submit_proposal_set_memo :: "bytes \<Rightarrow> submit_proposal_builder \<Rightarrow> submit_proposal_builder" where
  "submit_proposal_set_memo memo b = b\<lparr> submit_proposal_builder_memo := Some memo \<rparr>"

definition submit_proposal_set_permission_id :: "i32 \<Rightarrow> submit_proposal_builder \<Rightarrow> submit_proposal_builder" where
  "submit_proposal_set_permission_id i b = b\<lparr> submit_proposal_builder_permission_id := Some i \<rparr>"

definition submit_proposal_request :: "address option \<Rightarrow> submit_proposal_builder \<Rightarrow> provider_error + tx_request" where
  "submit_proposal_request signer b =
     and_then (resolve_owner (submit_proposal_builder_owner b) signer) (\<lambda>owner.
     and_then (if submit_proposal_builder_parameters b = Map.empty then Err (rpc_missing_field ''parameters'') else Ok ()) (\<lambda>_.
     Ok (tx_request_default\<lparr> req_contract := Some (CtProposalCreate
         \<lparr> proposal_create_owner_address = owner,
           proposal_create_parameters = submit_proposal_builder_parameters b \<rparr>),
         req_memo := submit_proposal_builder_memo b, req_permission_id := submit_proposal_builder_permission_id b \<rparr>)))"

section \<open>\<open>ApproveProposalBuilder\<close>\<close>

record approve_proposal_builder =
  approve_proposal_builder_permission_id :: "i32 option"
  approve_proposal_builder_owner :: "address option"
  approve_proposal_builder_proposal_id :: "i64 option"
  approve_proposal_builder_is_add_approval :: bool
  approve_proposal_builder_memo :: "bytes option"

definition approve_proposal_builder_new :: approve_proposal_builder where
  "approve_proposal_builder_new =
     \<lparr> approve_proposal_builder_permission_id = None, approve_proposal_builder_owner = None,
       approve_proposal_builder_proposal_id = None,
       approve_proposal_builder_is_add_approval = True, approve_proposal_builder_memo = None \<rparr>"

definition approve_proposal_set_from :: "address \<Rightarrow> approve_proposal_builder \<Rightarrow> approve_proposal_builder" where
  "approve_proposal_set_from src b = b\<lparr> approve_proposal_builder_owner := Some src \<rparr>"

definition approve_proposal_set_proposal_id :: "i64 \<Rightarrow> approve_proposal_builder \<Rightarrow> approve_proposal_builder" where
  "approve_proposal_set_proposal_id i b = b\<lparr> approve_proposal_builder_proposal_id := Some i \<rparr>"

definition approve_proposal_set_approve :: "bool \<Rightarrow> approve_proposal_builder \<Rightarrow> approve_proposal_builder" where
  "approve_proposal_set_approve approve b = b\<lparr> approve_proposal_builder_is_add_approval := approve \<rparr>"

definition approve_proposal_set_memo :: "bytes \<Rightarrow> approve_proposal_builder \<Rightarrow> approve_proposal_builder" where
  "approve_proposal_set_memo memo b = b\<lparr> approve_proposal_builder_memo := Some memo \<rparr>"

definition approve_proposal_set_permission_id :: "i32 \<Rightarrow> approve_proposal_builder \<Rightarrow> approve_proposal_builder" where
  "approve_proposal_set_permission_id i b = b\<lparr> approve_proposal_builder_permission_id := Some i \<rparr>"

definition approve_proposal_request :: "address option \<Rightarrow> approve_proposal_builder \<Rightarrow> provider_error + tx_request" where
  "approve_proposal_request signer b =
     and_then (resolve_owner (approve_proposal_builder_owner b) signer) (\<lambda>owner.
     and_then (ok_or (rpc_missing_field ''proposal_id'') (approve_proposal_builder_proposal_id b)) (\<lambda>proposal_id.
     Ok (tx_request_default\<lparr> req_contract := Some (CtProposalApprove
         \<lparr> proposal_approve_owner_address = owner,
           proposal_approve_proposal_id = proposal_id,
           proposal_approve_is_add_approval = approve_proposal_builder_is_add_approval b \<rparr>),
         req_memo := approve_proposal_builder_memo b, req_permission_id := approve_proposal_builder_permission_id b \<rparr>)))"

section \<open>\<open>CancelProposalBuilder\<close>\<close>

record cancel_proposal_builder =
  cancel_proposal_builder_permission_id :: "i32 option"
  cancel_proposal_builder_owner :: "address option"
  cancel_proposal_builder_proposal_id :: "i64 option"
  cancel_proposal_builder_memo :: "bytes option"

definition cancel_proposal_builder_new :: cancel_proposal_builder where
  "cancel_proposal_builder_new =
     \<lparr> cancel_proposal_builder_permission_id = None, cancel_proposal_builder_owner = None,
       cancel_proposal_builder_proposal_id = None, cancel_proposal_builder_memo = None \<rparr>"

definition cancel_proposal_set_from :: "address \<Rightarrow> cancel_proposal_builder \<Rightarrow> cancel_proposal_builder" where
  "cancel_proposal_set_from src b = b\<lparr> cancel_proposal_builder_owner := Some src \<rparr>"

definition cancel_proposal_set_proposal_id :: "i64 \<Rightarrow> cancel_proposal_builder \<Rightarrow> cancel_proposal_builder" where
  "cancel_proposal_set_proposal_id i b = b\<lparr> cancel_proposal_builder_proposal_id := Some i \<rparr>"

definition cancel_proposal_set_memo :: "bytes \<Rightarrow> cancel_proposal_builder \<Rightarrow> cancel_proposal_builder" where
  "cancel_proposal_set_memo memo b = b\<lparr> cancel_proposal_builder_memo := Some memo \<rparr>"

definition cancel_proposal_set_permission_id :: "i32 \<Rightarrow> cancel_proposal_builder \<Rightarrow> cancel_proposal_builder" where
  "cancel_proposal_set_permission_id i b = b\<lparr> cancel_proposal_builder_permission_id := Some i \<rparr>"

definition cancel_proposal_request :: "address option \<Rightarrow> cancel_proposal_builder \<Rightarrow> provider_error + tx_request" where
  "cancel_proposal_request signer b =
     and_then (resolve_owner (cancel_proposal_builder_owner b) signer) (\<lambda>owner.
     and_then (ok_or (rpc_missing_field ''proposal_id'') (cancel_proposal_builder_proposal_id b)) (\<lambda>proposal_id.
     Ok (tx_request_default\<lparr> req_contract := Some (CtProposalDelete
         \<lparr> proposal_delete_owner_address = owner, proposal_delete_proposal_id = proposal_id \<rparr>),
         req_memo := cancel_proposal_builder_memo b, req_permission_id := cancel_proposal_builder_permission_id b \<rparr>)))"

section \<open>\<open>BecomeWitnessBuilder\<close>\<close>

record become_witness_builder =
  become_witness_builder_permission_id :: "i32 option"
  become_witness_builder_owner :: "address option"
  become_witness_builder_url :: "string option"
  become_witness_builder_memo :: "bytes option"

definition become_witness_builder_new :: become_witness_builder where
  "become_witness_builder_new =
     \<lparr> become_witness_builder_permission_id = None, become_witness_builder_owner = None,
       become_witness_builder_url = None, become_witness_builder_memo = None \<rparr>"

definition become_witness_set_from :: "address \<Rightarrow> become_witness_builder \<Rightarrow> become_witness_builder" where
  "become_witness_set_from src b = b\<lparr> become_witness_builder_owner := Some src \<rparr>"

definition become_witness_set_url :: "string \<Rightarrow> become_witness_builder \<Rightarrow> become_witness_builder" where
  "become_witness_set_url u b = b\<lparr> become_witness_builder_url := Some u \<rparr>"

definition become_witness_set_memo :: "bytes \<Rightarrow> become_witness_builder \<Rightarrow> become_witness_builder" where
  "become_witness_set_memo memo b = b\<lparr> become_witness_builder_memo := Some memo \<rparr>"

definition become_witness_set_permission_id :: "i32 \<Rightarrow> become_witness_builder \<Rightarrow> become_witness_builder" where
  "become_witness_set_permission_id i b = b\<lparr> become_witness_builder_permission_id := Some i \<rparr>"

definition become_witness_request :: "address option \<Rightarrow> become_witness_builder \<Rightarrow> provider_error + tx_request" where
  "become_witness_request signer b =
     and_then (resolve_owner (become_witness_builder_owner b) signer) (\<lambda>owner.
     and_then (ok_or (rpc_missing_field ''url'') (become_witness_builder_url b)) (\<lambda>u.
     Ok (tx_request_default\<lparr> req_contract := Some (CtCreateWitness
         \<lparr> create_witness_owner_address = owner, create_witness_url = u \<rparr>),
         req_memo := become_witness_builder_memo b, req_permission_id := become_witness_builder_permission_id b \<rparr>)))"

section \<open>\<open>UpdateWitnessBuilder\<close>\<close>

record update_witness_builder =
  update_witness_builder_permission_id :: "i32 option"
  update_witness_builder_owner :: "address option"
  update_witness_builder_update_url :: "string option"
  update_witness_builder_memo :: "bytes option"

definition update_witness_builder_new :: update_witness_builder where
  "update_witness_builder_new =
     \<lparr> update_witness_builder_permission_id = None, update_witness_builder_owner = None,
       update_witness_builder_update_url = None, update_witness_builder_memo = None \<rparr>"

definition update_witness_set_from :: "address \<Rightarrow> update_witness_builder \<Rightarrow> update_witness_builder" where
  "update_witness_set_from src b = b\<lparr> update_witness_builder_owner := Some src \<rparr>"

definition update_witness_set_url :: "string \<Rightarrow> update_witness_builder \<Rightarrow> update_witness_builder" where
  "update_witness_set_url u b = b\<lparr> update_witness_builder_update_url := Some u \<rparr>"

definition update_witness_set_memo :: "bytes \<Rightarrow> update_witness_builder \<Rightarrow> update_witness_builder" where
  "update_witness_set_memo memo b = b\<lparr> update_witness_builder_memo := Some memo \<rparr>"

definition update_witness_set_permission_id :: "i32 \<Rightarrow> update_witness_builder \<Rightarrow> update_witness_builder" where
  "update_witness_set_permission_id i b = b\<lparr> update_witness_builder_permission_id := Some i \<rparr>"

definition update_witness_request :: "address option \<Rightarrow> update_witness_builder \<Rightarrow> provider_error + tx_request" where
  "update_witness_request signer b =
     and_then (resolve_owner (update_witness_builder_owner b) signer) (\<lambda>owner.
     and_then (ok_or (rpc_missing_field ''url'') (update_witness_builder_update_url b)) (\<lambda>update_url.
     Ok (tx_request_default\<lparr> req_contract := Some (CtUpdateWitness
         \<lparr> update_witness_owner_address = owner, update_witness_update_url = update_url \<rparr>),
         req_memo := update_witness_builder_memo b, req_permission_id := update_witness_builder_permission_id b \<rparr>)))"

section \<open>\<open>UpdateBrokerageBuilder\<close>\<close>

record update_brokerage_builder =
  update_brokerage_builder_permission_id :: "i32 option"
  update_brokerage_builder_owner :: "address option"
  update_brokerage_builder_brokerage :: "i32 option"
  update_brokerage_builder_memo :: "bytes option"

definition update_brokerage_builder_new :: update_brokerage_builder where
  "update_brokerage_builder_new =
     \<lparr> update_brokerage_builder_permission_id = None, update_brokerage_builder_owner = None,
       update_brokerage_builder_brokerage = None, update_brokerage_builder_memo = None \<rparr>"

definition update_brokerage_set_from :: "address \<Rightarrow> update_brokerage_builder \<Rightarrow> update_brokerage_builder" where
  "update_brokerage_set_from src b = b\<lparr> update_brokerage_builder_owner := Some src \<rparr>"

definition update_brokerage_set_brokerage :: "i32 \<Rightarrow> update_brokerage_builder \<Rightarrow> update_brokerage_builder" where
  "update_brokerage_set_brokerage percent b = b\<lparr> update_brokerage_builder_brokerage := Some percent \<rparr>"

definition update_brokerage_set_memo :: "bytes \<Rightarrow> update_brokerage_builder \<Rightarrow> update_brokerage_builder" where
  "update_brokerage_set_memo memo b = b\<lparr> update_brokerage_builder_memo := Some memo \<rparr>"

definition update_brokerage_set_permission_id :: "i32 \<Rightarrow> update_brokerage_builder \<Rightarrow> update_brokerage_builder" where
  "update_brokerage_set_permission_id i b = b\<lparr> update_brokerage_builder_permission_id := Some i \<rparr>"

definition update_brokerage_request :: "address option \<Rightarrow> update_brokerage_builder \<Rightarrow> provider_error + tx_request" where
  "update_brokerage_request signer b =
     and_then (resolve_owner (update_brokerage_builder_owner b) signer) (\<lambda>owner.
     and_then (ok_or (rpc_missing_field ''brokerage'') (update_brokerage_builder_brokerage b)) (\<lambda>brokerage.
     Ok (tx_request_default\<lparr> req_contract := Some (CtUpdateBrokerage
         \<lparr> update_brokerage_owner_address = owner, update_brokerage_brokerage = brokerage \<rparr>),
         req_memo := update_brokerage_builder_memo b, req_permission_id := update_brokerage_builder_permission_id b \<rparr>)))"

section \<open>\<open>ExchangeCreateBuilder\<close>\<close>

record exchange_create_builder =
  exchange_create_builder_permission_id :: "i32 option"
  exchange_create_builder_owner :: "address option"
  exchange_create_builder_first_token_id :: "string option"
  exchange_create_builder_first_token_balance :: "i64 option"
  exchange_create_builder_second_token_id :: "string option"
  exchange_create_builder_second_token_balance :: "i64 option"
  exchange_create_builder_memo :: "bytes option"

definition exchange_create_builder_new :: exchange_create_builder where
  "exchange_create_builder_new =
     \<lparr> exchange_create_builder_permission_id = None, exchange_create_builder_owner = None,
       exchange_create_builder_first_token_id = None,
       exchange_create_builder_first_token_balance = None,
       exchange_create_builder_second_token_id = None,
       exchange_create_builder_second_token_balance = None, exchange_create_builder_memo = None \<rparr>"

definition exchange_create_set_from :: "address \<Rightarrow> exchange_create_builder \<Rightarrow> exchange_create_builder" where
  "exchange_create_set_from src b = b\<lparr> exchange_create_builder_owner := Some src \<rparr>"

definition exchange_create_set_first_token_id :: "string \<Rightarrow> exchange_create_builder \<Rightarrow> exchange_create_builder" where
  "exchange_create_set_first_token_id i b = b\<lparr> exchange_create_builder_first_token_id := Some i \<rparr>"

definition exchange_create_set_first_token_balance :: "i64 \<Rightarrow> exchange_create_builder \<Rightarrow> exchange_create_builder" where
  "exchange_create_set_first_token_balance balance b = b\<lparr> exchange_create_builder_first_token_balance := Some balance \<rparr>"

definition exchange_create_set_second_token_id :: "string \<Rightarrow> exchange_create_builder \<Rightarrow> exchange_create_builder" where
  "exchange_create_set_second_token_id i b = b\<lparr> exchange_create_builder_second_token_id := Some i \<rparr>"

definition exchange_create_set_second_token_balance :: "i64 \<Rightarrow> exchange_create_builder \<Rightarrow> exchange_create_builder" where
  "exchange_create_set_second_token_balance balance b = b\<lparr> exchange_create_builder_second_token_balance := Some balance \<rparr>"

definition exchange_create_set_memo :: "bytes \<Rightarrow> exchange_create_builder \<Rightarrow> exchange_create_builder" where
  "exchange_create_set_memo memo b = b\<lparr> exchange_create_builder_memo := Some memo \<rparr>"

definition exchange_create_set_permission_id :: "i32 \<Rightarrow> exchange_create_builder \<Rightarrow> exchange_create_builder" where
  "exchange_create_set_permission_id i b = b\<lparr> exchange_create_builder_permission_id := Some i \<rparr>"

definition exchange_create_request :: "address option \<Rightarrow> exchange_create_builder \<Rightarrow> provider_error + tx_request" where
  "exchange_create_request signer b =
     and_then (resolve_owner (exchange_create_builder_owner b) signer) (\<lambda>owner.
     and_then (ok_or (rpc_missing_field ''first_token_id'') (exchange_create_builder_first_token_id b)) (\<lambda>first_token_id.
     and_then (ok_or (rpc_missing_field ''first_token_balance'') (exchange_create_builder_first_token_balance b)) (\<lambda>first_token_balance.
     and_then (ok_or (rpc_missing_field ''second_token_id'') (exchange_create_builder_second_token_id b)) (\<lambda>second_token_id.
     and_then (ok_or (rpc_missing_field ''second_token_balance'') (exchange_create_builder_second_token_balance b)) (\<lambda>second_token_balance.
     Ok (tx_request_default\<lparr> req_contract := Some (CtExchangeCreate
         \<lparr> exchange_create_owner_address = owner,
           exchange_create_first_token_id = first_token_id,
           exchange_create_first_token_balance = first_token_balance,
           exchange_create_second_token_id = second_token_id,
           exchange_create_second_token_balance = second_token_balance \<rparr>),
         req_memo := exchange_create_builder_memo b, req_permission_id := exchange_create_builder_permission_id b \<rparr>))))))"

section \<open>\<open>ExchangeInjectBuilder\<close>\<close>

record exchange_inject_builder =
  exchange_inject_builder_permission_id :: "i32 option"
  exchange_inject_builder_owner :: "address option"
  exchange_inject_builder_exchange_id :: "i64 option"
  exchange_inject_builder_token_id :: "string option"
  exchange_inject_builder_quant :: "i64 option"
  exchange_inject_builder_memo :: "bytes option"

definition exchange_inject_builder_new :: exchange_inject_builder where
  "exchange_inject_builder_new =
     \<lparr> exchange_inject_builder_permission_id = None, exchange_inject_builder_owner = None,
       exchange_inject_builder_exchange_id = None, exchange_inject_builder_token_id = None,
       exchange_inject_builder_quant = None, exchange_inject_builder_memo = None \<rparr>"

definition exchange_inject_set_from :: "address \<Rightarrow> exchange_inject_builder \<Rightarrow> exchange_inject_builder" where
  "exchange_inject_set_from src b = b\<lparr> exchange_inject_builder_owner := Some src \<rparr>"

definition exchange_inject_set_exchange_id :: "i64 \<Rightarrow> exchange_inject_builder \<Rightarrow> exchange_inject_builder" where
  "exchange_inject_set_exchange_id i b = b\<lparr> exchange_inject_builder_exchange_id := Some i \<rparr>"

definition exchange_inject_set_token_id :: "string \<Rightarrow> exchange_inject_builder \<Rightarrow> exchange_inject_builder" where
  "exchange_inject_set_token_id i b = b\<lparr> exchange_inject_builder_token_id := Some i \<rparr>"

definition exchange_inject_set_quant :: "i64 \<Rightarrow> exchange_inject_builder \<Rightarrow> exchange_inject_builder" where
  "exchange_inject_set_quant quant b = b\<lparr> exchange_inject_builder_quant := Some quant \<rparr>"

definition exchange_inject_set_memo :: "bytes \<Rightarrow> exchange_inject_builder \<Rightarrow> exchange_inject_builder" where
  "exchange_inject_set_memo memo b = b\<lparr> exchange_inject_builder_memo := Some memo \<rparr>"

definition exchange_inject_set_permission_id :: "i32 \<Rightarrow> exchange_inject_builder \<Rightarrow> exchange_inject_builder" where
  "exchange_inject_set_permission_id i b = b\<lparr> exchange_inject_builder_permission_id := Some i \<rparr>"

definition exchange_inject_request :: "address option \<Rightarrow> exchange_inject_builder \<Rightarrow> provider_error + tx_request" where
  "exchange_inject_request signer b =
     and_then (resolve_owner (exchange_inject_builder_owner b) signer) (\<lambda>owner.
     and_then (ok_or (rpc_missing_field ''exchange_id'') (exchange_inject_builder_exchange_id b)) (\<lambda>exchange_id.
     and_then (ok_or (rpc_missing_field ''token_id'') (exchange_inject_builder_token_id b)) (\<lambda>token_id.
     and_then (ok_or (rpc_missing_field ''quant'') (exchange_inject_builder_quant b)) (\<lambda>quant.
     Ok (tx_request_default\<lparr> req_contract := Some (CtExchangeInject
         \<lparr> exchange_inject_owner_address = owner, exchange_inject_exchange_id = exchange_id,
           exchange_inject_token_id = token_id, exchange_inject_quant = quant \<rparr>),
         req_memo := exchange_inject_builder_memo b, req_permission_id := exchange_inject_builder_permission_id b \<rparr>)))))"

section \<open>\<open>ExchangeWithdrawBuilder\<close>\<close>

record exchange_withdraw_builder =
  exchange_withdraw_builder_permission_id :: "i32 option"
  exchange_withdraw_builder_owner :: "address option"
  exchange_withdraw_builder_exchange_id :: "i64 option"
  exchange_withdraw_builder_token_id :: "string option"
  exchange_withdraw_builder_quant :: "i64 option"
  exchange_withdraw_builder_memo :: "bytes option"

definition exchange_withdraw_builder_new :: exchange_withdraw_builder where
  "exchange_withdraw_builder_new =
     \<lparr> exchange_withdraw_builder_permission_id = None,
       exchange_withdraw_builder_owner = None, exchange_withdraw_builder_exchange_id = None,
       exchange_withdraw_builder_token_id = None, exchange_withdraw_builder_quant = None,
       exchange_withdraw_builder_memo = None \<rparr>"

definition exchange_withdraw_set_from :: "address \<Rightarrow> exchange_withdraw_builder \<Rightarrow> exchange_withdraw_builder" where
  "exchange_withdraw_set_from src b = b\<lparr> exchange_withdraw_builder_owner := Some src \<rparr>"

definition exchange_withdraw_set_exchange_id :: "i64 \<Rightarrow> exchange_withdraw_builder \<Rightarrow> exchange_withdraw_builder" where
  "exchange_withdraw_set_exchange_id i b = b\<lparr> exchange_withdraw_builder_exchange_id := Some i \<rparr>"

definition exchange_withdraw_set_token_id :: "string \<Rightarrow> exchange_withdraw_builder \<Rightarrow> exchange_withdraw_builder" where
  "exchange_withdraw_set_token_id i b = b\<lparr> exchange_withdraw_builder_token_id := Some i \<rparr>"

definition exchange_withdraw_set_quant :: "i64 \<Rightarrow> exchange_withdraw_builder \<Rightarrow> exchange_withdraw_builder" where
  "exchange_withdraw_set_quant quant b = b\<lparr> exchange_withdraw_builder_quant := Some quant \<rparr>"

definition exchange_withdraw_set_memo :: "bytes \<Rightarrow> exchange_withdraw_builder \<Rightarrow> exchange_withdraw_builder" where
  "exchange_withdraw_set_memo memo b = b\<lparr> exchange_withdraw_builder_memo := Some memo \<rparr>"

definition exchange_withdraw_set_permission_id :: "i32 \<Rightarrow> exchange_withdraw_builder \<Rightarrow> exchange_withdraw_builder" where
  "exchange_withdraw_set_permission_id i b = b\<lparr> exchange_withdraw_builder_permission_id := Some i \<rparr>"

definition exchange_withdraw_request :: "address option \<Rightarrow> exchange_withdraw_builder \<Rightarrow> provider_error + tx_request" where
  "exchange_withdraw_request signer b =
     and_then (resolve_owner (exchange_withdraw_builder_owner b) signer) (\<lambda>owner.
     and_then (ok_or (rpc_missing_field ''exchange_id'') (exchange_withdraw_builder_exchange_id b)) (\<lambda>exchange_id.
     and_then (ok_or (rpc_missing_field ''token_id'') (exchange_withdraw_builder_token_id b)) (\<lambda>token_id.
     and_then (ok_or (rpc_missing_field ''quant'') (exchange_withdraw_builder_quant b)) (\<lambda>quant.
     Ok (tx_request_default\<lparr> req_contract := Some (CtExchangeWithdraw
         \<lparr> exchange_withdraw_owner_address = owner,
           exchange_withdraw_exchange_id = exchange_id, exchange_withdraw_token_id = token_id,
           exchange_withdraw_quant = quant \<rparr>),
         req_memo := exchange_withdraw_builder_memo b, req_permission_id := exchange_withdraw_builder_permission_id b \<rparr>)))))"

section \<open>\<open>ExchangeTradeBuilder\<close>\<close>

record exchange_trade_builder =
  exchange_trade_builder_permission_id :: "i32 option"
  exchange_trade_builder_owner :: "address option"
  exchange_trade_builder_exchange_id :: "i64 option"
  exchange_trade_builder_token_id :: "string option"
  exchange_trade_builder_quant :: "i64 option"
  exchange_trade_builder_expected :: "i64 option"
  exchange_trade_builder_memo :: "bytes option"

definition exchange_trade_builder_new :: exchange_trade_builder where
  "exchange_trade_builder_new =
     \<lparr> exchange_trade_builder_permission_id = None, exchange_trade_builder_owner = None,
       exchange_trade_builder_exchange_id = None, exchange_trade_builder_token_id = None,
       exchange_trade_builder_quant = None, exchange_trade_builder_expected = None,
       exchange_trade_builder_memo = None \<rparr>"

definition exchange_trade_set_from :: "address \<Rightarrow> exchange_trade_builder \<Rightarrow> exchange_trade_builder" where
  "exchange_trade_set_from src b = b\<lparr> exchange_trade_builder_owner := Some src \<rparr>"

definition exchange_trade_set_exchange_id :: "i64 \<Rightarrow> exchange_trade_builder \<Rightarrow> exchange_trade_builder" where
  "exchange_trade_set_exchange_id i b = b\<lparr> exchange_trade_builder_exchange_id := Some i \<rparr>"

definition exchange_trade_set_token_id :: "string \<Rightarrow> exchange_trade_builder \<Rightarrow> exchange_trade_builder" where
  "exchange_trade_set_token_id i b = b\<lparr> exchange_trade_builder_token_id := Some i \<rparr>"

definition exchange_trade_set_quant :: "i64 \<Rightarrow> exchange_trade_builder \<Rightarrow> exchange_trade_builder" where
  "exchange_trade_set_quant quant b = b\<lparr> exchange_trade_builder_quant := Some quant \<rparr>"

definition exchange_trade_set_expected :: "i64 \<Rightarrow> exchange_trade_builder \<Rightarrow> exchange_trade_builder" where
  "exchange_trade_set_expected expected b = b\<lparr> exchange_trade_builder_expected := Some expected \<rparr>"

definition exchange_trade_set_memo :: "bytes \<Rightarrow> exchange_trade_builder \<Rightarrow> exchange_trade_builder" where
  "exchange_trade_set_memo memo b = b\<lparr> exchange_trade_builder_memo := Some memo \<rparr>"

definition exchange_trade_set_permission_id :: "i32 \<Rightarrow> exchange_trade_builder \<Rightarrow> exchange_trade_builder" where
  "exchange_trade_set_permission_id i b = b\<lparr> exchange_trade_builder_permission_id := Some i \<rparr>"

definition exchange_trade_request :: "address option \<Rightarrow> exchange_trade_builder \<Rightarrow> provider_error + tx_request" where
  "exchange_trade_request signer b =
     and_then (resolve_owner (exchange_trade_builder_owner b) signer) (\<lambda>owner.
     and_then (ok_or (rpc_missing_field ''exchange_id'') (exchange_trade_builder_exchange_id b)) (\<lambda>exchange_id.
     and_then (ok_or (rpc_missing_field ''token_id'') (exchange_trade_builder_token_id b)) (\<lambda>token_id.
     and_then (ok_or (rpc_missing_field ''quant'') (exchange_trade_builder_quant b)) (\<lambda>quant.
     and_then (ok_or (rpc_missing_field ''expected'') (exchange_trade_builder_expected b)) (\<lambda>expected.
     Ok (tx_request_default\<lparr> req_contract := Some (CtExchangeTransaction
         \<lparr> exchange_transaction_owner_address = owner,
           exchange_transaction_exchange_id = exchange_id,
           exchange_transaction_token_id = token_id, exchange_transaction_quant = quant,
           exchange_transaction_expected = expected \<rparr>),
         req_memo := exchange_trade_builder_memo b, req_permission_id := exchange_trade_builder_permission_id b \<rparr>))))))"

section \<open>\<open>MarketSellBuilder\<close>\<close>

record market_sell_builder =
  market_sell_builder_permission_id :: "i32 option"
  market_sell_builder_owner :: "address option"
  market_sell_builder_sell_token_id :: "string option"
  market_sell_builder_sell_token_quantity :: "i64 option"
  market_sell_builder_buy_token_id :: "string option"
  market_sell_builder_buy_token_quantity :: "i64 option"
  market_sell_builder_memo :: "bytes option"

definition market_sell_builder_new :: market_sell_builder where
  "market_sell_builder_new =
     \<lparr> market_sell_builder_permission_id = None, market_sell_builder_owner = None,
       market_sell_builder_sell_token_id = None, market_sell_builder_sell_token_quantity = None,
       market_sell_builder_buy_token_id = None, market_sell_builder_buy_token_quantity = None,
       market_sell_builder_memo = None \<rparr>"

definition market_sell_set_from :: "address \<Rightarrow> market_sell_builder \<Rightarrow> market_sell_builder" where
  "market_sell_set_from src b = b\<lparr> market_sell_builder_owner := Some src \<rparr>"

definition market_sell_set_sell_token_id :: "string \<Rightarrow> market_sell_builder \<Rightarrow> market_sell_builder" where
  "market_sell_set_sell_token_id i b = b\<lparr> market_sell_builder_sell_token_id := Some i \<rparr>"

definition market_sell_set_sell_token_quantity :: "i64 \<Rightarrow> market_sell_builder \<Rightarrow> market_sell_builder" where
  "market_sell_set_sell_token_quantity qty b = b\<lparr> market_sell_builder_sell_token_quantity := Some qty \<rparr>"

definition market_sell_set_buy_token_id :: "string \<Rightarrow> market_sell_builder \<Rightarrow> market_sell_builder" where
  "market_sell_set_buy_token_id i b = b\<lparr> market_sell_builder_buy_token_id := Some i \<rparr>"

definition market_sell_set_buy_token_quantity :: "i64 \<Rightarrow> market_sell_builder \<Rightarrow> market_sell_builder" where
  "market_sell_set_buy_token_quantity qty b = b\<lparr> market_sell_builder_buy_token_quantity := Some qty \<rparr>"

definition market_sell_set_memo :: "bytes \<Rightarrow> market_sell_builder \<Rightarrow> market_sell_builder" where
  "market_sell_set_memo memo b = b\<lparr> market_sell_builder_memo := Some memo \<rparr>"

definition market_sell_set_permission_id :: "i32 \<Rightarrow> market_sell_builder \<Rightarrow> market_sell_builder" where
  "market_sell_set_permission_id i b = b\<lparr> market_sell_builder_permission_id := Some i \<rparr>"

definition market_sell_request :: "address option \<Rightarrow> market_sell_builder \<Rightarrow> provider_error + tx_request" where
  "market_sell_request signer b =
     and_then (resolve_owner (market_sell_builder_owner b) signer) (\<lambda>owner.
     and_then (ok_or (rpc_missing_field ''sell_token_id'') (market_sell_builder_sell_token_id b)) (\<lambda>sell_token_id.
     and_then (ok_or (rpc_missing_field ''sell_token_quantity'') (market_sell_builder_sell_token_quantity b)) (\<lambda>sell_token_quantity.
     and_then (ok_or (rpc_missing_field ''buy_token_id'') (market_sell_builder_buy_token_id b)) (\<lambda>buy_token_id.
     and_then (ok_or (rpc_missing_field ''buy_token_quantity'') (market_sell_builder_buy_token_quantity b)) (\<lambda>buy_token_quantity.
     Ok (tx_request_default\<lparr> req_contract := Some (CtMarketSellAsset
         \<lparr> market_sell_asset_owner_address = owner,
           market_sell_asset_sell_token_id = sell_token_id,
           market_sell_asset_sell_token_quantity = sell_token_quantity,
           market_sell_asset_buy_token_id = buy_token_id,
           market_sell_asset_buy_token_quantity = buy_token_quantity \<rparr>),
         req_memo := market_sell_builder_memo b, req_permission_id := market_sell_builder_permission_id b \<rparr>))))))"

section \<open>\<open>MarketCancelBuilder\<close>\<close>

record market_cancel_builder =
  market_cancel_builder_permission_id :: "i32 option"
  market_cancel_builder_owner :: "address option"
  market_cancel_builder_order_id :: "bytes option"
  market_cancel_builder_memo :: "bytes option"

definition market_cancel_builder_new :: market_cancel_builder where
  "market_cancel_builder_new =
     \<lparr> market_cancel_builder_permission_id = None, market_cancel_builder_owner = None,
       market_cancel_builder_order_id = None, market_cancel_builder_memo = None \<rparr>"

definition market_cancel_set_from :: "address \<Rightarrow> market_cancel_builder \<Rightarrow> market_cancel_builder" where
  "market_cancel_set_from src b = b\<lparr> market_cancel_builder_owner := Some src \<rparr>"

definition market_cancel_set_order_id :: "bytes \<Rightarrow> market_cancel_builder \<Rightarrow> market_cancel_builder" where
  "market_cancel_set_order_id i b = b\<lparr> market_cancel_builder_order_id := Some i \<rparr>"

definition market_cancel_set_memo :: "bytes \<Rightarrow> market_cancel_builder \<Rightarrow> market_cancel_builder" where
  "market_cancel_set_memo memo b = b\<lparr> market_cancel_builder_memo := Some memo \<rparr>"

definition market_cancel_set_permission_id :: "i32 \<Rightarrow> market_cancel_builder \<Rightarrow> market_cancel_builder" where
  "market_cancel_set_permission_id i b = b\<lparr> market_cancel_builder_permission_id := Some i \<rparr>"

definition market_cancel_request :: "address option \<Rightarrow> market_cancel_builder \<Rightarrow> provider_error + tx_request" where
  "market_cancel_request signer b =
     and_then (resolve_owner (market_cancel_builder_owner b) signer) (\<lambda>owner.
     and_then (ok_or (rpc_missing_field ''order_id'') (market_cancel_builder_order_id b)) (\<lambda>order_id.
     Ok (tx_request_default\<lparr> req_contract := Some (CtMarketCancelOrder
         \<lparr> market_cancel_order_owner_address = owner,
           market_cancel_order_order_id = order_id \<rparr>),
         req_memo := market_cancel_builder_memo b, req_permission_id := market_cancel_builder_permission_id b \<rparr>)))"

section \<open>What every builder promises\<close>

text \<open>
  The contract of an operation builder.  \<open>owner_of\<close>, \<open>permission_of\<close> and \<open>memo_of\<close> are its
  settings.  A request names one contract, of the account the settings and the provider decide,
  with the memo and the permission id that were set and nothing else; without an account there is
  no request; and a refusal is the caller's mistake, never the node's.
\<close>

locale operation_builder =
  fixes request :: "address option \<Rightarrow> 'b \<Rightarrow> provider_error + tx_request"
    and owner_of :: "'b \<Rightarrow> address option"
    and permission_of :: "'b \<Rightarrow> i32 option"
    and memo_of :: "'b \<Rightarrow> bytes option"
  assumes described: "request signer b = Ok req \<Longrightarrow>
      \<exists>c. req = tx_request_default\<lparr> req_contract := Some c, req_memo := memo_of b,
                                      req_permission_id := permission_of b \<rparr>
        \<and> resolve_owner (owner_of b) signer = Ok (contract_owner_address c)"
    and no_owner: "resolve_owner (owner_of b) signer = Err e \<Longrightarrow> request signer b = Err e"
    and usage: "request signer b = Err e \<Longrightarrow> \<exists>msg. e = RpcLocalUsage msg"
begin

lemma owner_overrides:
  "request signer b = Ok req \<Longrightarrow> owner_of b = Some a \<Longrightarrow>
   map_option contract_owner_address (req_contract req) = Some a"
  using described [of signer b req] by (auto simp: resolve_owner_def)

lemma owner_defaults:
  "request signer b = Ok req \<Longrightarrow> owner_of b = None \<Longrightarrow>
   map_option contract_owner_address (req_contract req) = signer"
  using described [of signer b req] by (cases signer) (auto simp: resolve_owner_def)

lemma refused_without_signer: "owner_of b = None \<Longrightarrow> request None b = Err rpc_no_signer"
  by (rule no_owner) (simp add: resolve_owner_def)

lemma refused_untouched:
  "request signer b = Err e \<Longrightarrow>
   builder_send Q F f (request signer b) w = (Err e, f, w) \<and> \<not> rpc_is_retryable e"
  using usage [of signer b e] by (auto simp: builder_send_def rpc_is_retryable_def rpc_as_transport_def)

end

lemma find_Some_set: "List.find P xs = Some x \<Longrightarrow> x \<in> set xs \<and> P x"
  by (induction xs) (auto split: if_splits)

lemma check_operations_Ok:
  "check_operations owner witness actives = Ok u \<longleftrightarrow>
     pred_option (\<lambda>p. opset_is_empty (permission_operations p)) owner
     \<and> pred_option (\<lambda>p. opset_is_empty (permission_operations p)) witness
     \<and> (\<forall>p\<in>set actives. \<not> opset_is_empty (permission_operations p))"
  by (auto simp: check_operations_def Let_def find_None_iff split: option.splits if_splits
      dest!: find_Some_set)

lemma check_operations_Err: "check_operations owner witness actives = Err e \<Longrightarrow> \<exists>msg. e = RpcLocalUsage msg"
  by (auto simp: check_operations_def Let_def split: option.splits if_splits)

lemma resolve_owner_Err: "resolve_owner owner signer = Err e \<longleftrightarrow> owner = None \<and> signer = None \<and> e = rpc_no_signer"
  by (cases owner; cases signer) (auto simp: resolve_owner_def)

lemmas request_steps =
  result_simps resolve_owner_Err rpc_no_signer_def rpc_missing_field_def tx_request_default_def Let_def
  check_operations_Err

interpretation transfer_op: operation_builder transfer_request transfer_builder_owner
  transfer_builder_permission_id transfer_builder_memo
  by unfold_locales (auto simp: transfer_request_def request_steps split: if_splits)

interpretation freeze_v1_op: operation_builder freeze_v1_request freeze_v1_builder_owner
  freeze_v1_builder_permission_id "\<lambda>_. None"
  by unfold_locales (auto simp: freeze_v1_request_def request_steps split: if_splits)

interpretation unfreeze_v1_op: operation_builder unfreeze_v1_request unfreeze_v1_builder_owner
  unfreeze_v1_builder_permission_id "\<lambda>_. None"
  by unfold_locales (auto simp: unfreeze_v1_request_def request_steps split: if_splits)

interpretation freeze_op: operation_builder freeze_request freeze_builder_owner
  freeze_builder_permission_id "\<lambda>_. None"
  by unfold_locales (auto simp: freeze_request_def request_steps split: if_splits)

interpretation unfreeze_op: operation_builder unfreeze_request unfreeze_builder_owner
  unfreeze_builder_permission_id "\<lambda>_. None"
  by unfold_locales (auto simp: unfreeze_request_def request_steps split: if_splits)

interpretation delegate_op: operation_builder delegate_request delegate_builder_owner
  delegate_builder_permission_id "\<lambda>_. None"
  by unfold_locales (auto simp: delegate_request_def request_steps split: if_splits)

interpretation undelegate_op: operation_builder undelegate_request undelegate_builder_owner
  undelegate_builder_permission_id "\<lambda>_. None"
  by unfold_locales (auto simp: undelegate_request_def request_steps split: if_splits)

interpretation withdraw_expire_op: operation_builder withdraw_expire_request withdraw_expire_builder_owner
  withdraw_expire_builder_permission_id "\<lambda>_. None"
  by unfold_locales (auto simp: withdraw_expire_request_def request_steps split: if_splits)

interpretation cancel_all_unfreeze_op: operation_builder cancel_all_unfreeze_request cancel_all_unfreeze_builder_owner
  cancel_all_unfreeze_builder_permission_id "\<lambda>_. None"
  by unfold_locales (auto simp: cancel_all_unfreeze_request_def request_steps split: if_splits)

interpretation withdraw_balance_op: operation_builder withdraw_balance_request withdraw_balance_builder_owner
  withdraw_balance_builder_permission_id "\<lambda>_. None"
  by unfold_locales (auto simp: withdraw_balance_request_def request_steps split: if_splits)

interpretation account_permission_update_op: operation_builder account_permission_update_request account_permission_update_builder_owner
  account_permission_update_builder_permission_id "\<lambda>_. None"
  by unfold_locales (auto simp: account_permission_update_request_def request_steps split: if_splits)

interpretation create_account_op: operation_builder create_account_request create_account_builder_owner
  create_account_builder_permission_id create_account_builder_memo
  by unfold_locales (auto simp: create_account_request_def request_steps split: if_splits)

interpretation update_account_op: operation_builder update_account_request update_account_builder_owner
  update_account_builder_permission_id update_account_builder_memo
  by unfold_locales (auto simp: update_account_request_def request_steps split: if_splits)

interpretation set_account_id_op: operation_builder set_account_id_request set_account_id_builder_owner
  set_account_id_builder_permission_id set_account_id_builder_memo
  by unfold_locales (auto simp: set_account_id_request_def request_steps split: if_splits)

interpretation clear_contract_abi_op: operation_builder clear_contract_abi_request clear_contract_abi_builder_owner
  clear_contract_abi_builder_permission_id clear_contract_abi_builder_memo
  by unfold_locales (auto simp: clear_contract_abi_request_def request_steps split: if_splits)

interpretation update_contract_setting_op: operation_builder update_contract_setting_request update_contract_setting_builder_owner
  update_contract_setting_builder_permission_id update_contract_setting_builder_memo
  by unfold_locales (auto simp: update_contract_setting_request_def request_steps split: if_splits)

interpretation update_contract_energy_limit_op: operation_builder update_contract_energy_limit_request update_contract_energy_limit_builder_owner
  update_contract_energy_limit_builder_permission_id update_contract_energy_limit_builder_memo
  by unfold_locales (auto simp: update_contract_energy_limit_request_def request_steps split: if_splits)

interpretation vote_op: operation_builder vote_request vote_builder_owner
  vote_builder_permission_id vote_builder_memo
  by unfold_locales (auto simp: vote_request_def request_steps split: if_splits)

interpretation transfer_trc10_op: operation_builder transfer_trc10_request transfer_trc10_builder_owner
  transfer_trc10_builder_permission_id transfer_trc10_builder_memo
  by unfold_locales (auto simp: transfer_trc10_request_def request_steps split: if_splits)

interpretation issue_trc10_op: operation_builder "\<lambda>signer. issue_trc10_request signer now_ms" issue_trc10_builder_owner
  issue_trc10_builder_permission_id "\<lambda>_. None" for now_ms
  by unfold_locales (auto simp: issue_trc10_request_def request_steps split: if_splits)

interpretation participate_trc10_op: operation_builder participate_trc10_request participate_trc10_builder_owner
  participate_trc10_builder_permission_id participate_trc10_builder_memo
  by unfold_locales (auto simp: participate_trc10_request_def request_steps split: if_splits)

interpretation unfreeze_trc10_op: operation_builder unfreeze_trc10_request unfreeze_trc10_builder_owner
  unfreeze_trc10_builder_permission_id unfreeze_trc10_builder_memo
  by unfold_locales (auto simp: unfreeze_trc10_request_def request_steps split: if_splits)

interpretation update_trc10_op: operation_builder update_trc10_request update_trc10_builder_owner
  update_trc10_builder_permission_id update_trc10_builder_memo
  by unfold_locales (auto simp: update_trc10_request_def request_steps split: if_splits)

interpretation submit_proposal_op: operation_builder submit_proposal_request submit_proposal_builder_owner
  submit_proposal_builder_permission_id submit_proposal_builder_memo
  by unfold_locales (auto simp: submit_proposal_request_def request_steps split: if_splits)

interpretation approve_proposal_op: operation_builder approve_proposal_request approve_proposal_builder_owner
  approve_proposal_builder_permission_id approve_proposal_builder_memo
  by unfold_locales (auto simp: approve_proposal_request_def request_steps split: if_splits)

interpretation cancel_proposal_op: operation_builder cancel_proposal_request cancel_proposal_builder_owner
  cancel_proposal_builder_permission_id cancel_proposal_builder_memo
  by unfold_locales (auto simp: cancel_proposal_request_def request_steps split: if_splits)

interpretation become_witness_op: operation_builder become_witness_request become_witness_builder_owner
  become_witness_builder_permission_id become_witness_builder_memo
  by unfold_locales (auto simp: become_witness_request_def request_steps split: if_splits)

interpretation update_witness_op: operation_builder update_witness_request update_witness_builder_owner
  update_witness_builder_permission_id update_witness_builder_memo
  by unfold_locales (auto simp: update_witness_request_def request_steps split: if_splits)

interpretation update_brokerage_op: operation_builder update_brokerage_request update_brokerage_builder_owner
  update_brokerage_builder_permission_id update_brokerage_builder_memo
  by unfold_locales (auto simp: update_brokerage_request_def request_steps split: if_splits)

interpretation exchange_create_op: operation_builder exchange_create_request exchange_create_builder_owner
  exchange_create_builder_permission_id exchange_create_builder_memo
  by unfold_locales (auto simp: exchange_create_request_def request_steps split: if_splits)

interpretation exchange_inject_op: operation_builder exchange_inject_request exchange_inject_builder_owner
  exchange_inject_builder_permission_id exchange_inject_builder_memo
  by unfold_locales (auto simp: exchange_inject_request_def request_steps split: if_splits)

interpretation exchange_withdraw_op: operation_builder exchange_withdraw_request exchange_withdraw_builder_owner
  exchange_withdraw_builder_permission_id exchange_withdraw_builder_memo
  by unfold_locales (auto simp: exchange_withdraw_request_def request_steps split: if_splits)

interpretation exchange_trade_op: operation_builder exchange_trade_request exchange_trade_builder_owner
  exchange_trade_builder_permission_id exchange_trade_builder_memo
  by unfold_locales (auto simp: exchange_trade_request_def request_steps split: if_splits)

interpretation market_sell_op: operation_builder market_sell_request market_sell_builder_owner
  market_sell_builder_permission_id market_sell_builder_memo
  by unfold_locales (auto simp: market_sell_request_def request_steps split: if_splits)

interpretation market_cancel_op: operation_builder market_cancel_request market_cancel_builder_owner
  market_cancel_builder_permission_id market_cancel_builder_memo
  by unfold_locales (auto simp: market_cancel_request_def request_steps split: if_splits)


end
