(* ===== verification/Contract_Messages.thy ===== *)
theory Contract_Messages
  imports Proto_Tx
begin

text \<open>
  The protobuf messages of the native contracts, as \<open>crates/rpc-types/src/generated/protocol.rs\<close>
  declares them, with the numbers of the contract types.  Enumerations are the numbers of the
  wire, a hash map is a partial function, and a Rust keyword loses its raw prefix.
\<close>

section \<open>Messages\<close>

record pb_transfer_contract =
  pb_transfer_owner_address :: bytes
  pb_transfer_to_address :: bytes
  pb_transfer_amount :: i64

record pb_trigger_smart_contract =
  pb_trigger_smart_owner_address :: bytes
  pb_trigger_smart_contract_address :: bytes
  pb_trigger_smart_call_value :: i64
  pb_trigger_smart_data :: bytes
  pb_trigger_smart_call_token_value :: i64
  pb_trigger_smart_token_id :: i64

record pb_freeze_balance_contract =
  pb_freeze_balance_owner_address :: bytes
  pb_freeze_balance_frozen_balance :: i64
  pb_freeze_balance_frozen_duration :: i64
  pb_freeze_balance_resource :: i32
  pb_freeze_balance_receiver_address :: bytes

record pb_unfreeze_balance_contract =
  pb_unfreeze_balance_owner_address :: bytes
  pb_unfreeze_balance_resource :: i32
  pb_unfreeze_balance_receiver_address :: bytes

record pb_freeze_balance_v2_contract =
  pb_freeze_balance_v2_owner_address :: bytes
  pb_freeze_balance_v2_frozen_balance :: i64
  pb_freeze_balance_v2_resource :: i32

record pb_unfreeze_balance_v2_contract =
  pb_unfreeze_balance_v2_owner_address :: bytes
  pb_unfreeze_balance_v2_unfreeze_balance :: i64
  pb_unfreeze_balance_v2_resource :: i32

record pb_delegate_resource_contract =
  pb_delegate_resource_owner_address :: bytes
  pb_delegate_resource_resource :: i32
  pb_delegate_resource_balance :: i64
  pb_delegate_resource_receiver_address :: bytes
  pb_delegate_resource_lock :: bool
  pb_delegate_resource_lock_period :: i64

record pb_un_delegate_resource_contract =
  pb_un_delegate_resource_owner_address :: bytes
  pb_un_delegate_resource_resource :: i32
  pb_un_delegate_resource_balance :: i64
  pb_un_delegate_resource_receiver_address :: bytes

record pb_withdraw_expire_unfreeze_contract =
  pb_withdraw_expire_unfreeze_owner_address :: bytes

record pb_cancel_all_unfreeze_v2_contract =
  pb_cancel_all_unfreeze_v2_owner_address :: bytes

record pb_withdraw_balance_contract =
  pb_withdraw_balance_owner_address :: bytes

record pb_key =
  pb_key_address :: bytes
  pb_key_weight :: i64

record pb_permission =
  pb_permission_type :: i32
  pb_permission_id :: i32
  pb_permission_permission_name :: string
  pb_permission_threshold :: i64
  pb_permission_parent_id :: i32
  pb_permission_operations :: bytes
  pb_permission_keys :: "pb_key list"

record pb_account_permission_update_contract =
  pb_account_permission_update_owner_address :: bytes
  pb_account_permission_update_owner :: "pb_permission option"
  pb_account_permission_update_witness :: "pb_permission option"
  pb_account_permission_update_actives :: "pb_permission list"

record pb_abi_param =
  pb_abi_param_indexed :: bool
  pb_abi_param_name :: string
  pb_abi_param_type :: string

record pb_abi_entry =
  pb_abi_entry_anonymous :: bool
  pb_abi_entry_constant :: bool
  pb_abi_entry_name :: string
  pb_abi_entry_inputs :: "pb_abi_param list"
  pb_abi_entry_outputs :: "pb_abi_param list"
  pb_abi_entry_type :: i32
  pb_abi_entry_payable :: bool
  pb_abi_entry_state_mutability :: i32

record pb_abi =
  pb_abi_entrys :: "pb_abi_entry list"

record pb_smart_contract =
  pb_smart_origin_address :: bytes
  pb_smart_contract_address :: bytes
  pb_smart_abi :: "pb_abi option"
  pb_smart_bytecode :: bytes
  pb_smart_call_value :: i64
  pb_smart_consume_user_resource_percent :: i64
  pb_smart_name :: string
  pb_smart_origin_energy_limit :: i64
  pb_smart_code_hash :: bytes
  pb_smart_trx_hash :: bytes
  pb_smart_version :: i32

record pb_create_smart_contract =
  pb_create_smart_owner_address :: bytes
  pb_create_smart_new_contract :: "pb_smart_contract option"
  pb_create_smart_call_token_value :: i64
  pb_create_smart_token_id :: i64

record pb_frozen_supply =
  pb_frozen_supply_frozen_amount :: i64
  pb_frozen_supply_frozen_days :: i64

record pb_asset_issue_contract =
  pb_asset_issue_id :: string
  pb_asset_issue_owner_address :: bytes
  pb_asset_issue_name :: bytes
  pb_asset_issue_abbr :: bytes
  pb_asset_issue_total_supply :: i64
  pb_asset_issue_frozen_supply :: "pb_frozen_supply list"
  pb_asset_issue_trx_num :: i32
  pb_asset_issue_precision :: i32
  pb_asset_issue_num :: i32
  pb_asset_issue_start_time :: i64
  pb_asset_issue_end_time :: i64
  pb_asset_issue_order :: i64
  pb_asset_issue_vote_score :: i32
  pb_asset_issue_description :: bytes
  pb_asset_issue_url :: bytes
  pb_asset_issue_free_asset_net_limit :: i64
  pb_asset_issue_public_free_asset_net_limit :: i64
  pb_asset_issue_public_free_asset_net_usage :: i64
  pb_asset_issue_public_latest_free_net_time :: i64

definition pb_asset_issue_contract_default :: pb_asset_issue_contract where
  "pb_asset_issue_contract_default =
     \<lparr> pb_asset_issue_id = [], pb_asset_issue_owner_address = [], pb_asset_issue_name = [],
       pb_asset_issue_abbr = [], pb_asset_issue_total_supply = 0,
       pb_asset_issue_frozen_supply = [], pb_asset_issue_trx_num = 0,
       pb_asset_issue_precision = 0, pb_asset_issue_num = 0, pb_asset_issue_start_time = 0,
       pb_asset_issue_end_time = 0, pb_asset_issue_order = 0, pb_asset_issue_vote_score = 0,
       pb_asset_issue_description = [], pb_asset_issue_url = [],
       pb_asset_issue_free_asset_net_limit = 0, pb_asset_issue_public_free_asset_net_limit = 0,
       pb_asset_issue_public_free_asset_net_usage = 0,
       pb_asset_issue_public_latest_free_net_time = 0 \<rparr>"

record pb_transfer_asset_contract =
  pb_transfer_asset_asset_name :: bytes
  pb_transfer_asset_owner_address :: bytes
  pb_transfer_asset_to_address :: bytes
  pb_transfer_asset_amount :: i64

record pb_participate_asset_issue_contract =
  pb_participate_asset_issue_owner_address :: bytes
  pb_participate_asset_issue_to_address :: bytes
  pb_participate_asset_issue_asset_name :: bytes
  pb_participate_asset_issue_amount :: i64

record pb_unfreeze_asset_contract =
  pb_unfreeze_asset_owner_address :: bytes

record pb_update_asset_contract =
  pb_update_asset_owner_address :: bytes
  pb_update_asset_description :: bytes
  pb_update_asset_url :: bytes
  pb_update_asset_new_limit :: i64
  pb_update_asset_new_public_limit :: i64

record pb_account_create_contract =
  pb_account_create_owner_address :: bytes
  pb_account_create_account_address :: bytes
  pb_account_create_type :: i32

record pb_witness_vote =
  pb_witness_vote_vote_address :: bytes
  pb_witness_vote_vote_count :: i64

record pb_vote_witness_contract =
  pb_vote_witness_owner_address :: bytes
  pb_vote_witness_votes :: "pb_witness_vote list"
  pb_vote_witness_support :: bool

record pb_account_update_contract =
  pb_account_update_account_name :: bytes
  pb_account_update_owner_address :: bytes

record pb_proposal_create_contract =
  pb_proposal_create_owner_address :: bytes
  pb_proposal_create_parameters :: "i64 \<rightharpoonup> i64"

record pb_proposal_approve_contract =
  pb_proposal_approve_owner_address :: bytes
  pb_proposal_approve_proposal_id :: i64
  pb_proposal_approve_is_add_approval :: bool

record pb_proposal_delete_contract =
  pb_proposal_delete_owner_address :: bytes
  pb_proposal_delete_proposal_id :: i64

record pb_witness_create_contract =
  pb_witness_create_owner_address :: bytes
  pb_witness_create_url :: bytes

record pb_witness_update_contract =
  pb_witness_update_owner_address :: bytes
  pb_witness_update_update_url :: bytes

record pb_update_brokerage_contract =
  pb_update_brokerage_owner_address :: bytes
  pb_update_brokerage_brokerage :: i32

record pb_set_account_id_contract =
  pb_set_account_id_account_id :: bytes
  pb_set_account_id_owner_address :: bytes

record pb_clear_abi_contract =
  pb_clear_abi_owner_address :: bytes
  pb_clear_abi_contract_address :: bytes

record pb_update_setting_contract =
  pb_update_setting_owner_address :: bytes
  pb_update_setting_contract_address :: bytes
  pb_update_setting_consume_user_resource_percent :: i64

record pb_update_energy_limit_contract =
  pb_update_energy_limit_owner_address :: bytes
  pb_update_energy_limit_contract_address :: bytes
  pb_update_energy_limit_origin_energy_limit :: i64

record pb_exchange_create_contract =
  pb_exchange_create_owner_address :: bytes
  pb_exchange_create_first_token_id :: bytes
  pb_exchange_create_first_token_balance :: i64
  pb_exchange_create_second_token_id :: bytes
  pb_exchange_create_second_token_balance :: i64

record pb_exchange_inject_contract =
  pb_exchange_inject_owner_address :: bytes
  pb_exchange_inject_exchange_id :: i64
  pb_exchange_inject_token_id :: bytes
  pb_exchange_inject_quant :: i64

record pb_exchange_withdraw_contract =
  pb_exchange_withdraw_owner_address :: bytes
  pb_exchange_withdraw_exchange_id :: i64
  pb_exchange_withdraw_token_id :: bytes
  pb_exchange_withdraw_quant :: i64

record pb_exchange_transaction_contract =
  pb_exchange_transaction_owner_address :: bytes
  pb_exchange_transaction_exchange_id :: i64
  pb_exchange_transaction_token_id :: bytes
  pb_exchange_transaction_quant :: i64
  pb_exchange_transaction_expected :: i64

record pb_market_sell_asset_contract =
  pb_market_sell_asset_owner_address :: bytes
  pb_market_sell_asset_sell_token_id :: bytes
  pb_market_sell_asset_sell_token_quantity :: i64
  pb_market_sell_asset_buy_token_id :: bytes
  pb_market_sell_asset_buy_token_quantity :: i64

record pb_market_cancel_order_contract =
  pb_market_cancel_order_owner_address :: bytes
  pb_market_cancel_order_order_id :: bytes

section \<open>The numbers of the contracts\<close>

datatype pb_contract_type =
    PbAccountCreateContract
  | PbTransferContract
  | PbTransferAssetContract
  | PbVoteAssetContract
  | PbVoteWitnessContract
  | PbWitnessCreateContract
  | PbAssetIssueContract
  | PbWitnessUpdateContract
  | PbParticipateAssetIssueContract
  | PbAccountUpdateContract
  | PbFreezeBalanceContract
  | PbUnfreezeBalanceContract
  | PbWithdrawBalanceContract
  | PbUnfreezeAssetContract
  | PbUpdateAssetContract
  | PbProposalCreateContract
  | PbProposalApproveContract
  | PbProposalDeleteContract
  | PbSetAccountIdContract
  | PbCustomContract
  | PbCreateSmartContract
  | PbTriggerSmartContract
  | PbGetContract
  | PbUpdateSettingContract
  | PbExchangeCreateContract
  | PbExchangeInjectContract
  | PbExchangeWithdrawContract
  | PbExchangeTransactionContract
  | PbUpdateEnergyLimitContract
  | PbAccountPermissionUpdateContract
  | PbClearAbiContract
  | PbUpdateBrokerageContract
  | PbShieldedTransferContract
  | PbMarketSellAssetContract
  | PbMarketCancelOrderContract
  | PbFreezeBalanceV2Contract
  | PbUnfreezeBalanceV2Contract
  | PbWithdrawExpireUnfreezeContract
  | PbDelegateResourceContract
  | PbUnDelegateResourceContract
  | PbCancelAllUnfreezeV2Contract

fun pb_contract_type_number :: "pb_contract_type \<Rightarrow> i32" where
  "pb_contract_type_number PbAccountCreateContract = 0"
| "pb_contract_type_number PbTransferContract = 1"
| "pb_contract_type_number PbTransferAssetContract = 2"
| "pb_contract_type_number PbVoteAssetContract = 3"
| "pb_contract_type_number PbVoteWitnessContract = 4"
| "pb_contract_type_number PbWitnessCreateContract = 5"
| "pb_contract_type_number PbAssetIssueContract = 6"
| "pb_contract_type_number PbWitnessUpdateContract = 8"
| "pb_contract_type_number PbParticipateAssetIssueContract = 9"
| "pb_contract_type_number PbAccountUpdateContract = 10"
| "pb_contract_type_number PbFreezeBalanceContract = 11"
| "pb_contract_type_number PbUnfreezeBalanceContract = 12"
| "pb_contract_type_number PbWithdrawBalanceContract = 13"
| "pb_contract_type_number PbUnfreezeAssetContract = 14"
| "pb_contract_type_number PbUpdateAssetContract = 15"
| "pb_contract_type_number PbProposalCreateContract = 16"
| "pb_contract_type_number PbProposalApproveContract = 17"
| "pb_contract_type_number PbProposalDeleteContract = 18"
| "pb_contract_type_number PbSetAccountIdContract = 19"
| "pb_contract_type_number PbCustomContract = 20"
| "pb_contract_type_number PbCreateSmartContract = 30"
| "pb_contract_type_number PbTriggerSmartContract = 31"
| "pb_contract_type_number PbGetContract = 32"
| "pb_contract_type_number PbUpdateSettingContract = 33"
| "pb_contract_type_number PbExchangeCreateContract = 41"
| "pb_contract_type_number PbExchangeInjectContract = 42"
| "pb_contract_type_number PbExchangeWithdrawContract = 43"
| "pb_contract_type_number PbExchangeTransactionContract = 44"
| "pb_contract_type_number PbUpdateEnergyLimitContract = 45"
| "pb_contract_type_number PbAccountPermissionUpdateContract = 46"
| "pb_contract_type_number PbClearAbiContract = 48"
| "pb_contract_type_number PbUpdateBrokerageContract = 49"
| "pb_contract_type_number PbShieldedTransferContract = 51"
| "pb_contract_type_number PbMarketSellAssetContract = 52"
| "pb_contract_type_number PbMarketCancelOrderContract = 53"
| "pb_contract_type_number PbFreezeBalanceV2Contract = 54"
| "pb_contract_type_number PbUnfreezeBalanceV2Contract = 55"
| "pb_contract_type_number PbWithdrawExpireUnfreezeContract = 56"
| "pb_contract_type_number PbDelegateResourceContract = 57"
| "pb_contract_type_number PbUnDelegateResourceContract = 58"
| "pb_contract_type_number PbCancelAllUnfreezeV2Contract = 59"

text \<open>\<open>Debug\<close>, which prints the name of the variant.\<close>

fun pb_contract_type_debug :: "pb_contract_type \<Rightarrow> string" where
  "pb_contract_type_debug PbAccountCreateContract = ''AccountCreateContract''"
| "pb_contract_type_debug PbTransferContract = ''TransferContract''"
| "pb_contract_type_debug PbTransferAssetContract = ''TransferAssetContract''"
| "pb_contract_type_debug PbVoteAssetContract = ''VoteAssetContract''"
| "pb_contract_type_debug PbVoteWitnessContract = ''VoteWitnessContract''"
| "pb_contract_type_debug PbWitnessCreateContract = ''WitnessCreateContract''"
| "pb_contract_type_debug PbAssetIssueContract = ''AssetIssueContract''"
| "pb_contract_type_debug PbWitnessUpdateContract = ''WitnessUpdateContract''"
| "pb_contract_type_debug PbParticipateAssetIssueContract = ''ParticipateAssetIssueContract''"
| "pb_contract_type_debug PbAccountUpdateContract = ''AccountUpdateContract''"
| "pb_contract_type_debug PbFreezeBalanceContract = ''FreezeBalanceContract''"
| "pb_contract_type_debug PbUnfreezeBalanceContract = ''UnfreezeBalanceContract''"
| "pb_contract_type_debug PbWithdrawBalanceContract = ''WithdrawBalanceContract''"
| "pb_contract_type_debug PbUnfreezeAssetContract = ''UnfreezeAssetContract''"
| "pb_contract_type_debug PbUpdateAssetContract = ''UpdateAssetContract''"
| "pb_contract_type_debug PbProposalCreateContract = ''ProposalCreateContract''"
| "pb_contract_type_debug PbProposalApproveContract = ''ProposalApproveContract''"
| "pb_contract_type_debug PbProposalDeleteContract = ''ProposalDeleteContract''"
| "pb_contract_type_debug PbSetAccountIdContract = ''SetAccountIdContract''"
| "pb_contract_type_debug PbCustomContract = ''CustomContract''"
| "pb_contract_type_debug PbCreateSmartContract = ''CreateSmartContract''"
| "pb_contract_type_debug PbTriggerSmartContract = ''TriggerSmartContract''"
| "pb_contract_type_debug PbGetContract = ''GetContract''"
| "pb_contract_type_debug PbUpdateSettingContract = ''UpdateSettingContract''"
| "pb_contract_type_debug PbExchangeCreateContract = ''ExchangeCreateContract''"
| "pb_contract_type_debug PbExchangeInjectContract = ''ExchangeInjectContract''"
| "pb_contract_type_debug PbExchangeWithdrawContract = ''ExchangeWithdrawContract''"
| "pb_contract_type_debug PbExchangeTransactionContract = ''ExchangeTransactionContract''"
| "pb_contract_type_debug PbUpdateEnergyLimitContract = ''UpdateEnergyLimitContract''"
| "pb_contract_type_debug PbAccountPermissionUpdateContract = ''AccountPermissionUpdateContract''"
| "pb_contract_type_debug PbClearAbiContract = ''ClearAbiContract''"
| "pb_contract_type_debug PbUpdateBrokerageContract = ''UpdateBrokerageContract''"
| "pb_contract_type_debug PbShieldedTransferContract = ''ShieldedTransferContract''"
| "pb_contract_type_debug PbMarketSellAssetContract = ''MarketSellAssetContract''"
| "pb_contract_type_debug PbMarketCancelOrderContract = ''MarketCancelOrderContract''"
| "pb_contract_type_debug PbFreezeBalanceV2Contract = ''FreezeBalanceV2Contract''"
| "pb_contract_type_debug PbUnfreezeBalanceV2Contract = ''UnfreezeBalanceV2Contract''"
| "pb_contract_type_debug PbWithdrawExpireUnfreezeContract = ''WithdrawExpireUnfreezeContract''"
| "pb_contract_type_debug PbDelegateResourceContract = ''DelegateResourceContract''"
| "pb_contract_type_debug PbUnDelegateResourceContract = ''UnDelegateResourceContract''"
| "pb_contract_type_debug PbCancelAllUnfreezeV2Contract = ''CancelAllUnfreezeV2Contract''"

definition pb_contract_types :: "pb_contract_type list" where
  "pb_contract_types =
     [PbAccountCreateContract, PbTransferContract, PbTransferAssetContract,
      PbVoteAssetContract, PbVoteWitnessContract, PbWitnessCreateContract,
      PbAssetIssueContract, PbWitnessUpdateContract, PbParticipateAssetIssueContract,
      PbAccountUpdateContract, PbFreezeBalanceContract, PbUnfreezeBalanceContract,
      PbWithdrawBalanceContract, PbUnfreezeAssetContract, PbUpdateAssetContract,
      PbProposalCreateContract, PbProposalApproveContract, PbProposalDeleteContract,
      PbSetAccountIdContract, PbCustomContract, PbCreateSmartContract, PbTriggerSmartContract,
      PbGetContract, PbUpdateSettingContract, PbExchangeCreateContract,
      PbExchangeInjectContract, PbExchangeWithdrawContract, PbExchangeTransactionContract,
      PbUpdateEnergyLimitContract, PbAccountPermissionUpdateContract, PbClearAbiContract,
      PbUpdateBrokerageContract, PbShieldedTransferContract, PbMarketSellAssetContract,
      PbMarketCancelOrderContract, PbFreezeBalanceV2Contract, PbUnfreezeBalanceV2Contract,
      PbWithdrawExpireUnfreezeContract, PbDelegateResourceContract,
      PbUnDelegateResourceContract, PbCancelAllUnfreezeV2Contract]"

text \<open>\<open>ContractType::try_from\<close>, derived by \<open>prost\<close>.\<close>

definition pb_contract_type_try_from :: "i32 \<Rightarrow> pb_contract_type option" where
  "pb_contract_type_try_from n = List.find (\<lambda>k. pb_contract_type_number k = n) pb_contract_types"

end
