(* ===== verification/Answer_Messages.thy ===== *)
theory Answer_Messages
  imports Contract_Messages
begin

text \<open>
  The protobuf messages a node answers with, as \<open>crates/rpc-types/src/generated/protocol.rs\<close>
  declares them, and the requests for them.  Enumerations are the numbers of the wire, a hash map
  is a partial function, and a floating point number is its bit pattern.
\<close>

type_synonym f64 = "64 word"

record pb_return =
  pb_return_result :: bool
  pb_return_code :: i32
  pb_return_message :: bytes

record pb_log =
  pb_log_address :: bytes
  pb_log_topics :: "bytes list"
  pb_log_data :: bytes

record pb_call_value_info =
  pb_call_value_info_call_value :: i64
  pb_call_value_info_token_id :: string

record pb_internal_transaction =
  pb_internal_transaction_hash :: bytes
  pb_internal_transaction_caller_address :: bytes
  pb_internal_transaction_transfer_to_address :: bytes
  pb_internal_transaction_call_value_info :: "pb_call_value_info list"
  pb_internal_transaction_note :: bytes
  pb_internal_transaction_rejected :: bool
  pb_internal_transaction_extra :: string

record pb_transaction_extention =
  pb_transaction_extention_transaction :: "pb_transaction option"
  pb_transaction_extention_txid :: bytes
  pb_transaction_extention_constant_result :: "bytes list"
  pb_transaction_extention_result :: "pb_return option"
  pb_transaction_extention_energy_used :: i64
  pb_transaction_extention_logs :: "pb_log list"
  pb_transaction_extention_internal_transactions :: "pb_internal_transaction list"
  pb_transaction_extention_energy_penalty :: i64

record pb_estimate_energy_message =
  pb_estimate_energy_message_result :: "pb_return option"
  pb_estimate_energy_message_energy_required :: i64

record pb_vote =
  pb_vote_vote_address :: bytes
  pb_vote_vote_count :: i64

record pb_frozen =
  pb_frozen_frozen_balance :: i64
  pb_frozen_expire_time :: i64

record pb_account_energy =
  pb_account_energy_energy_usage :: i64
  pb_account_energy_frozen_balance_for_energy :: "pb_frozen option"
  pb_account_energy_latest_consume_time_for_energy :: i64
  pb_account_energy_acquired_delegated_frozen_balance_for_energy :: i64
  pb_account_energy_delegated_frozen_balance_for_energy :: i64
  pb_account_energy_storage_limit :: i64
  pb_account_energy_storage_usage :: i64
  pb_account_energy_latest_exchange_storage_time :: i64
  pb_account_energy_energy_window_size :: i64
  pb_account_energy_delegated_frozen_v2_balance_for_energy :: i64
  pb_account_energy_acquired_delegated_frozen_v2_balance_for_energy :: i64
  pb_account_energy_energy_window_optimized :: bool

record pb_freeze_v2 =
  pb_freeze_v2_type :: i32
  pb_freeze_v2_amount :: i64

record pb_unfreeze_v2 =
  pb_unfreeze_v2_type :: i32
  pb_unfreeze_v2_unfreeze_amount :: i64
  pb_unfreeze_v2_unfreeze_expire_time :: i64

record pb_account =
  pb_account_account_name :: bytes
  pb_account_type :: i32
  pb_account_address :: bytes
  pb_account_balance :: i64
  pb_account_votes :: "pb_vote list"
  pb_account_asset :: "string \<rightharpoonup> i64"
  pb_account_asset_v2 :: "string \<rightharpoonup> i64"
  pb_account_frozen :: "pb_frozen list"
  pb_account_net_usage :: i64
  pb_account_acquired_delegated_frozen_balance_for_bandwidth :: i64
  pb_account_delegated_frozen_balance_for_bandwidth :: i64
  pb_account_old_tron_power :: i64
  pb_account_tron_power :: "pb_frozen option"
  pb_account_asset_optimized :: bool
  pb_account_create_time :: i64
  pb_account_latest_opration_time :: i64
  pb_account_allowance :: i64
  pb_account_latest_withdraw_time :: i64
  pb_account_code :: bytes
  pb_account_is_witness :: bool
  pb_account_is_committee :: bool
  pb_account_frozen_supply :: "pb_frozen list"
  pb_account_asset_issued_name :: bytes
  pb_account_asset_issued_id :: bytes
  pb_account_latest_asset_operation_time :: "string \<rightharpoonup> i64"
  pb_account_latest_asset_operation_time_v2 :: "string \<rightharpoonup> i64"
  pb_account_free_net_usage :: i64
  pb_account_free_asset_net_usage :: "string \<rightharpoonup> i64"
  pb_account_free_asset_net_usage_v2 :: "string \<rightharpoonup> i64"
  pb_account_latest_consume_time :: i64
  pb_account_latest_consume_free_time :: i64
  pb_account_account_id :: bytes
  pb_account_net_window_size :: i64
  pb_account_net_window_optimized :: bool
  pb_account_account_resource :: "pb_account_energy option"
  pb_account_code_hash :: bytes
  pb_account_owner_permission :: "pb_permission option"
  pb_account_witness_permission :: "pb_permission option"
  pb_account_active_permission :: "pb_permission list"
  pb_account_frozen_v2 :: "pb_freeze_v2 list"
  pb_account_unfrozen_v2 :: "pb_unfreeze_v2 list"
  pb_account_delegated_frozen_v2_balance_for_bandwidth :: i64
  pb_account_acquired_delegated_frozen_v2_balance_for_bandwidth :: i64

record pb_account_resource_message =
  pb_account_resource_message_free_net_used :: i64
  pb_account_resource_message_free_net_limit :: i64
  pb_account_resource_message_net_used :: i64
  pb_account_resource_message_net_limit :: i64
  pb_account_resource_message_asset_net_used :: "string \<rightharpoonup> i64"
  pb_account_resource_message_asset_net_limit :: "string \<rightharpoonup> i64"
  pb_account_resource_message_total_net_limit :: i64
  pb_account_resource_message_total_net_weight :: i64
  pb_account_resource_message_total_tron_power_weight :: i64
  pb_account_resource_message_tron_power_used :: i64
  pb_account_resource_message_tron_power_limit :: i64
  pb_account_resource_message_energy_used :: i64
  pb_account_resource_message_energy_limit :: i64
  pb_account_resource_message_total_energy_limit :: i64
  pb_account_resource_message_total_energy_weight :: i64
  pb_account_resource_message_storage_used :: i64
  pb_account_resource_message_storage_limit :: i64

record pb_account_net_message =
  pb_account_net_message_free_net_used :: i64
  pb_account_net_message_free_net_limit :: i64
  pb_account_net_message_net_used :: i64
  pb_account_net_message_net_limit :: i64
  pb_account_net_message_asset_net_used :: "string \<rightharpoonup> i64"
  pb_account_net_message_asset_net_limit :: "string \<rightharpoonup> i64"
  pb_account_net_message_total_net_limit :: i64
  pb_account_net_message_total_net_weight :: i64

record pb_resource_receipt =
  pb_resource_receipt_energy_usage :: i64
  pb_resource_receipt_energy_fee :: i64
  pb_resource_receipt_origin_energy_usage :: i64
  pb_resource_receipt_energy_usage_total :: i64
  pb_resource_receipt_net_usage :: i64
  pb_resource_receipt_net_fee :: i64
  pb_resource_receipt_result :: i32
  pb_resource_receipt_energy_penalty_total :: i64

record pb_transaction_info =
  pb_transaction_info_id :: bytes
  pb_transaction_info_fee :: i64
  pb_transaction_info_block_number :: i64
  pb_transaction_info_block_time_stamp :: i64
  pb_transaction_info_contract_result :: "bytes list"
  pb_transaction_info_contract_address :: bytes
  pb_transaction_info_receipt :: "pb_resource_receipt option"
  pb_transaction_info_log :: "pb_log list"
  pb_transaction_info_result :: i32
  pb_transaction_info_res_message :: bytes
  pb_transaction_info_asset_issue_id :: string
  pb_transaction_info_withdraw_amount :: i64
  pb_transaction_info_unfreeze_amount :: i64
  pb_transaction_info_internal_transactions :: "pb_internal_transaction list"
  pb_transaction_info_exchange_received_amount :: i64
  pb_transaction_info_exchange_inject_another_amount :: i64
  pb_transaction_info_exchange_withdraw_another_amount :: i64
  pb_transaction_info_exchange_id :: i64
  pb_transaction_info_shielded_transaction_fee :: i64
  pb_transaction_info_order_id :: bytes
  pb_transaction_info_order_details :: "pb_market_order_detail list"
  pb_transaction_info_packing_fee :: i64
  pb_transaction_info_withdraw_expire_amount :: i64
  pb_transaction_info_cancel_unfreeze_v2_amount :: "string \<rightharpoonup> i64"

record pb_contract_state =
  pb_contract_state_energy_usage :: i64
  pb_contract_state_energy_factor :: i64
  pb_contract_state_update_cycle :: i64

record pb_smart_contract_data_wrapper =
  pb_smart_contract_data_wrapper_smart_contract :: "pb_smart_contract option"
  pb_smart_contract_data_wrapper_runtimecode :: bytes
  pb_smart_contract_data_wrapper_contract_state :: "pb_contract_state option"

record pb_witness =
  pb_witness_address :: bytes
  pb_witness_vote_count :: i64
  pb_witness_pub_key :: bytes
  pb_witness_url :: string
  pb_witness_total_produced :: i64
  pb_witness_total_missed :: i64
  pb_witness_latest_block_num :: i64
  pb_witness_latest_slot_num :: i64
  pb_witness_is_jobs :: bool

record pb_delegated_resource =
  pb_delegated_resource_from :: bytes
  pb_delegated_resource_to :: bytes
  pb_delegated_resource_frozen_balance_for_bandwidth :: i64
  pb_delegated_resource_frozen_balance_for_energy :: i64
  pb_delegated_resource_expire_time_for_bandwidth :: i64
  pb_delegated_resource_expire_time_for_energy :: i64

record pb_delegated_resource_account_index =
  pb_delegated_resource_account_index_account :: bytes
  pb_delegated_resource_account_index_from_accounts :: "bytes list"
  pb_delegated_resource_account_index_to_accounts :: "bytes list"
  pb_delegated_resource_account_index_timestamp :: i64

record pb_proposal =
  pb_proposal_proposal_id :: i64
  pb_proposal_proposer_address :: bytes
  pb_proposal_parameters :: "i64 \<rightharpoonup> i64"
  pb_proposal_expiration_time :: i64
  pb_proposal_create_time :: i64
  pb_proposal_approvals :: "bytes list"
  pb_proposal_state :: i32

record pb_exchange =
  pb_exchange_exchange_id :: i64
  pb_exchange_creator_address :: bytes
  pb_exchange_create_time :: i64
  pb_exchange_first_token_id :: bytes
  pb_exchange_first_token_balance :: i64
  pb_exchange_second_token_id :: bytes
  pb_exchange_second_token_balance :: i64

record pb_market_order =
  pb_market_order_order_id :: bytes
  pb_market_order_owner_address :: bytes
  pb_market_order_create_time :: i64
  pb_market_order_sell_token_id :: bytes
  pb_market_order_sell_token_quantity :: i64
  pb_market_order_buy_token_id :: bytes
  pb_market_order_buy_token_quantity :: i64
  pb_market_order_sell_token_quantity_remain :: i64
  pb_market_order_sell_token_quantity_return :: i64
  pb_market_order_state :: i32
  pb_market_order_prev :: bytes
  pb_market_order_next :: bytes

record pb_market_order_pair =
  pb_market_order_pair_sell_token_id :: bytes
  pb_market_order_pair_buy_token_id :: bytes

record pb_market_price =
  pb_market_price_sell_token_quantity :: i64
  pb_market_price_buy_token_quantity :: i64

record pb_sign_weight_result =
  pb_sign_weight_result_code :: i32
  pb_sign_weight_result_message :: string

record pb_transaction_sign_weight =
  pb_transaction_sign_weight_permission :: "pb_permission option"
  pb_transaction_sign_weight_approved_list :: "bytes list"
  pb_transaction_sign_weight_current_weight :: i64
  pb_transaction_sign_weight_result :: "pb_sign_weight_result option"
  pb_transaction_sign_weight_transaction :: "pb_transaction_extention option"

record pb_node_address_port =
  pb_node_address_port_host :: bytes
  pb_node_address_port_port :: i32

record pb_node =
  pb_node_address :: "pb_node_address_port option"

record pb_node_list =
  pb_node_list_nodes :: "pb_node list"

record pb_peer_info =
  pb_peer_info_last_sync_block :: string
  pb_peer_info_remain_num :: i64
  pb_peer_info_last_block_update_time :: i64
  pb_peer_info_sync_flag :: bool
  pb_peer_info_head_block_time_we_both_have :: i64
  pb_peer_info_need_sync_from_peer :: bool
  pb_peer_info_need_sync_from_us :: bool
  pb_peer_info_host :: string
  pb_peer_info_port :: i32
  pb_peer_info_node_id :: string
  pb_peer_info_connect_time :: i64
  pb_peer_info_avg_latency :: f64
  pb_peer_info_sync_to_fetch_size :: i32
  pb_peer_info_sync_to_fetch_size_peek_num :: i64
  pb_peer_info_sync_block_requested_size :: i32
  pb_peer_info_un_fetch_syn_num :: i64
  pb_peer_info_block_in_porc_size :: i32
  pb_peer_info_head_block_we_both_have :: string
  pb_peer_info_is_active :: bool
  pb_peer_info_score :: i32
  pb_peer_info_node_count :: i32
  pb_peer_info_in_flow :: i64
  pb_peer_info_disconnect_times :: i32
  pb_peer_info_local_disconnect_reason :: string
  pb_peer_info_remote_disconnect_reason :: string

record pb_config_node_info =
  pb_config_node_info_code_version :: string
  pb_config_node_info_p2p_version :: string
  pb_config_node_info_listen_port :: i32
  pb_config_node_info_discover_enable :: bool
  pb_config_node_info_active_node_size :: i32
  pb_config_node_info_passive_node_size :: i32
  pb_config_node_info_send_node_size :: i32
  pb_config_node_info_max_connect_count :: i32
  pb_config_node_info_same_ip_max_connect_count :: i32
  pb_config_node_info_backup_listen_port :: i32
  pb_config_node_info_backup_member_size :: i32
  pb_config_node_info_backup_priority :: i32
  pb_config_node_info_db_version :: i32
  pb_config_node_info_min_participation_rate :: i32
  pb_config_node_info_support_constant :: bool
  pb_config_node_info_min_time_ratio :: f64
  pb_config_node_info_max_time_ratio :: f64
  pb_config_node_info_allow_creation_of_contracts :: i64
  pb_config_node_info_allow_adaptive_energy :: i64

record pb_memory_desc_info =
  pb_memory_desc_info_name :: string
  pb_memory_desc_info_init_size :: i64
  pb_memory_desc_info_use_size :: i64
  pb_memory_desc_info_max_size :: i64
  pb_memory_desc_info_use_rate :: f64

record pb_dead_lock_thread_info =
  pb_dead_lock_thread_info_name :: string
  pb_dead_lock_thread_info_lock_name :: string
  pb_dead_lock_thread_info_lock_owner :: string
  pb_dead_lock_thread_info_state :: string
  pb_dead_lock_thread_info_block_time :: i64
  pb_dead_lock_thread_info_wait_time :: i64
  pb_dead_lock_thread_info_stack_trace :: string

record pb_machine_info =
  pb_machine_info_thread_count :: i32
  pb_machine_info_dead_lock_thread_count :: i32
  pb_machine_info_cpu_count :: i32
  pb_machine_info_total_memory :: i64
  pb_machine_info_free_memory :: i64
  pb_machine_info_cpu_rate :: f64
  pb_machine_info_java_version :: string
  pb_machine_info_os_name :: string
  pb_machine_info_jvm_total_memory :: i64
  pb_machine_info_jvm_free_memory :: i64
  pb_machine_info_process_cpu_rate :: f64
  pb_machine_info_memory_desc_info_list :: "pb_memory_desc_info list"
  pb_machine_info_dead_lock_thread_info_list :: "pb_dead_lock_thread_info list"

record pb_node_info =
  pb_node_info_begin_sync_num :: i64
  pb_node_info_block :: string
  pb_node_info_solidity_block :: string
  pb_node_info_current_connect_count :: i32
  pb_node_info_active_connect_count :: i32
  pb_node_info_passive_connect_count :: i32
  pb_node_info_total_flow :: i64
  pb_node_info_peer_info_list :: "pb_peer_info list"
  pb_node_info_config_node_info :: "pb_config_node_info option"
  pb_node_info_machine_info :: "pb_machine_info option"
  pb_node_info_cheat_witness_info_map :: "string \<rightharpoonup> string"

record pb_dynamic_properties =
  pb_dynamic_properties_last_solidity_block_num :: i64

record pb_delegated_resource_message =
  pb_delegated_resource_message_from_address :: bytes
  pb_delegated_resource_message_to_address :: bytes

record pb_delegated_resource_list =
  pb_delegated_resource_list_delegated_resource :: "pb_delegated_resource list"

record pb_can_delegated_max_size_request_message =
  pb_can_delegated_max_size_request_message_type :: i32
  pb_can_delegated_max_size_request_message_owner_address :: bytes

record pb_can_delegated_max_size_response_message =
  pb_can_delegated_max_size_response_message_max_size :: i64

record pb_can_withdraw_unfreeze_amount_request_message =
  pb_can_withdraw_unfreeze_amount_request_message_owner_address :: bytes
  pb_can_withdraw_unfreeze_amount_request_message_timestamp :: i64

record pb_can_withdraw_unfreeze_amount_response_message =
  pb_can_withdraw_unfreeze_amount_response_message_amount :: i64

record pb_get_available_unfreeze_count_request_message =
  pb_get_available_unfreeze_count_request_message_owner_address :: bytes

record pb_get_available_unfreeze_count_response_message =
  pb_get_available_unfreeze_count_response_message_count :: i64

record pb_number_message =
  pb_number_message_num :: i64

record pb_bytes_message =
  pb_bytes_message_value :: bytes

record pb_paginated_message =
  pb_paginated_message_offset :: i64
  pb_paginated_message_limit :: i64

record pb_account_paginated =
  pb_account_paginated_account :: "pb_account option"
  pb_account_paginated_offset :: i64
  pb_account_paginated_limit :: i64

record pb_block_limit =
  pb_block_limit_start_num :: i64
  pb_block_limit_end_num :: i64

record pb_prices_response_message =
  pb_prices_response_message_prices :: string

record pb_chain_parameter =
  pb_chain_parameter_key :: string
  pb_chain_parameter_value :: i64

record pb_chain_parameters =
  pb_chain_parameters_chain_parameter :: "pb_chain_parameter list"

record pb_witness_list =
  pb_witness_list_witnesses :: "pb_witness list"

record pb_proposal_list =
  pb_proposal_list_proposals :: "pb_proposal list"

record pb_asset_issue_list =
  pb_asset_issue_list_asset_issue :: "pb_asset_issue_contract list"

record pb_exchange_list =
  pb_exchange_list_exchanges :: "pb_exchange list"

record pb_market_order_list =
  pb_market_order_list_orders :: "pb_market_order list"

record pb_market_price_list =
  pb_market_price_list_sell_token_id :: bytes
  pb_market_price_list_buy_token_id :: bytes
  pb_market_price_list_prices :: "pb_market_price list"

record pb_market_order_pair_list =
  pb_market_order_pair_list_order_pair :: "pb_market_order_pair list"

record pb_transaction_info_list =
  pb_transaction_info_list_transaction_info :: "pb_transaction_info list"

record pb_transaction_id_list =
  pb_transaction_id_list_tx_id :: "string list"

record pb_approved_list_result =
  pb_approved_list_result_code :: i32
  pb_approved_list_result_message :: string

record pb_transaction_approved_list =
  pb_transaction_approved_list_approved_list :: "bytes list"
  pb_transaction_approved_list_result :: "pb_approved_list_result option"
  pb_transaction_approved_list_transaction :: "pb_transaction_extention option"

record pb_transaction_list_extention =
  pb_transaction_list_extention_transaction :: "pb_transaction_extention list"

definition pb_resource_receipt_default :: pb_resource_receipt where
  "pb_resource_receipt_default =
     \<lparr> pb_resource_receipt_energy_usage = 0, pb_resource_receipt_energy_fee = 0,
       pb_resource_receipt_origin_energy_usage = 0, pb_resource_receipt_energy_usage_total = 0,
       pb_resource_receipt_net_usage = 0, pb_resource_receipt_net_fee = 0,
       pb_resource_receipt_result = 0, pb_resource_receipt_energy_penalty_total = 0 \<rparr>"

definition pb_account_default :: pb_account where
  "pb_account_default =
     \<lparr> pb_account_account_name = [], pb_account_type = 0, pb_account_address = [],
       pb_account_balance = 0, pb_account_votes = [], pb_account_asset = Map.empty,
       pb_account_asset_v2 = Map.empty, pb_account_frozen = [], pb_account_net_usage = 0,
       pb_account_acquired_delegated_frozen_balance_for_bandwidth = 0,
       pb_account_delegated_frozen_balance_for_bandwidth = 0, pb_account_old_tron_power = 0,
       pb_account_tron_power = None, pb_account_asset_optimized = False,
       pb_account_create_time = 0, pb_account_latest_opration_time = 0,
       pb_account_allowance = 0, pb_account_latest_withdraw_time = 0, pb_account_code = [],
       pb_account_is_witness = False, pb_account_is_committee = False,
       pb_account_frozen_supply = [], pb_account_asset_issued_name = [],
       pb_account_asset_issued_id = [], pb_account_latest_asset_operation_time = Map.empty,
       pb_account_latest_asset_operation_time_v2 = Map.empty, pb_account_free_net_usage = 0,
       pb_account_free_asset_net_usage = Map.empty,
       pb_account_free_asset_net_usage_v2 = Map.empty, pb_account_latest_consume_time = 0,
       pb_account_latest_consume_free_time = 0, pb_account_account_id = [],
       pb_account_net_window_size = 0, pb_account_net_window_optimized = False,
       pb_account_account_resource = None, pb_account_code_hash = [],
       pb_account_owner_permission = None, pb_account_witness_permission = None,
       pb_account_active_permission = [], pb_account_frozen_v2 = [],
       pb_account_unfrozen_v2 = [], pb_account_delegated_frozen_v2_balance_for_bandwidth = 0,
       pb_account_acquired_delegated_frozen_v2_balance_for_bandwidth = 0 \<rparr>"

end
