(* ===== verification/Contract_Codec.thy ===== *)
theory Contract_Codec
  imports Contract_Messages Contract Response_Error
begin

text \<open>
  From the native contracts a caller asks for to the messages that go on the wire
  (\<open>crates/rpc-types/src/codec/mod.rs\<close>, \<open>codec/abi.rs\<close>, and the messages that
  \<open>crates/provider/src/transport/grpc/fullnode.rs\<close> builds in place), and back for
  permissions and ABIs, which a node also sends.
\<close>

section \<open>Fields\<close>

definition addr_bytes :: "address \<Rightarrow> bytes" where
  "addr_bytes a = address_bytes a"

definition addr :: "bytes \<Rightarrow> response_error + address" where
  "addr bs = map_err (\<lambda>e. Malformed (MsgAddress ''bad address: '' e)) (address_from_slice bs)"

section \<open>Permissions\<close>

datatype permission_type = PermOwner | PermWitness | PermActive

fun permission_type_number :: "permission_type \<Rightarrow> i32" where
  "permission_type_number PermOwner = 0"
| "permission_type_number PermWitness = 1"
| "permission_type_number PermActive = 2"

definition permission_to_proto :: "permission \<Rightarrow> permission_type \<Rightarrow> pb_permission" where
  "permission_to_proto p ty =
     (let operations = (case ty of PermActive \<Rightarrow> op_bytes (permission_operations p) | _ \<Rightarrow> [])
      in \<lparr> pb_permission_type = permission_type_number ty,
           pb_permission_id = permission_id p,
           pb_permission_permission_name = permission_permission_name p,
           pb_permission_threshold = permission_threshold p,
           pb_permission_parent_id = 0,
           pb_permission_operations = operations,
           pb_permission_keys =
             map (\<lambda>k. \<lparr> pb_key_address = addr_bytes (permission_key_address k),
                         pb_key_weight = permission_key_weight k \<rparr>)
               (permission_keys p) \<rparr>)"

definition permission_from_proto :: "pb_permission \<Rightarrow> response_error + permission" where
  "permission_from_proto p =
     (let keys = filter_ok
            (\<lambda>k. and_then (addr (pb_key_address k)) (\<lambda>a.
               Ok \<lparr> permission_key_address = a, permission_key_weight = pb_key_weight k \<rparr>))
            (pb_permission_keys p)
      in and_then
           (map_err (\<lambda>e. Malformed (MsgOperations ''bad permission operations: '' e))
              (opset_from_bytes (pb_permission_operations p)))
           (\<lambda>ops. Ok \<lparr> permission_id = pb_permission_id p,
                       permission_permission_name = pb_permission_permission_name p,
                       permission_threshold = pb_permission_threshold p,
                       permission_keys = keys,
                       permission_operations = ops \<rparr>))"

section \<open>Contract ABIs\<close>

definition param_from_proto :: "pb_abi_param \<Rightarrow> tron_abi_param" where
  "param_from_proto p =
     \<lparr> param_indexed = pb_abi_param_indexed p, param_name = pb_abi_param_name p,
       param_ty = pb_abi_param_type p \<rparr>"

definition param_to_proto :: "tron_abi_param \<Rightarrow> pb_abi_param" where
  "param_to_proto p =
     \<lparr> pb_abi_param_indexed = param_indexed p, pb_abi_param_name = param_name p,
       pb_abi_param_type = param_ty p \<rparr>"

definition entry_from_proto :: "pb_abi_entry \<Rightarrow> tron_abi_entry" where
  "entry_from_proto e =
     \<lparr> entry_type = entry_type_from_i32 (pb_abi_entry_type e),
       entry_name = pb_abi_entry_name e,
       entry_inputs = map param_from_proto (pb_abi_entry_inputs e),
       entry_outputs = map param_from_proto (pb_abi_entry_outputs e),
       entry_anonymous = pb_abi_entry_anonymous e,
       entry_constant = pb_abi_entry_constant e,
       entry_payable = pb_abi_entry_payable e,
       entry_state_mutability = mutability_from_i32 (pb_abi_entry_state_mutability e) \<rparr>"

definition entry_to_proto :: "tron_abi_entry \<Rightarrow> pb_abi_entry" where
  "entry_to_proto e =
     \<lparr> pb_abi_entry_anonymous = entry_anonymous e,
       pb_abi_entry_constant = entry_constant e,
       pb_abi_entry_name = entry_name e,
       pb_abi_entry_inputs = map param_to_proto (entry_inputs e),
       pb_abi_entry_outputs = map param_to_proto (entry_outputs e),
       pb_abi_entry_type = entry_type_as_i32 (entry_type e),
       pb_abi_entry_payable = entry_payable e,
       pb_abi_entry_state_mutability = mutability_as_i32 (entry_state_mutability e) \<rparr>"

definition abi_from_proto :: "pb_abi \<Rightarrow> tron_abi" where
  "abi_from_proto a = \<lparr> abi_entries = map entry_from_proto (pb_abi_entrys a) \<rparr>"

definition abi_to_proto :: "tron_abi \<Rightarrow> pb_abi" where
  "abi_to_proto a = \<lparr> pb_abi_entrys = map entry_to_proto (abi_entries a) \<rparr>"

section \<open>Contracts\<close>

definition transfer_to_proto :: "transfer_contract \<Rightarrow> pb_transfer_contract" where
  "transfer_to_proto p =
     \<lparr> pb_transfer_owner_address = addr_bytes (transfer_owner_address p),
       pb_transfer_to_address = addr_bytes (transfer_to_address p),
       pb_transfer_amount = as_sun (transfer_amount p) \<rparr>"

definition trigger_smart_contract_to_proto :: "trigger_smart_contract \<Rightarrow> pb_trigger_smart_contract" where
  "trigger_smart_contract_to_proto p =
     \<lparr> pb_trigger_smart_owner_address = addr_bytes (trigger_smart_owner_address p),
       pb_trigger_smart_contract_address = addr_bytes (trigger_smart_contract_address p),
       pb_trigger_smart_call_value = as_sun (trigger_smart_call_value p),
       pb_trigger_smart_data = trigger_smart_data p,
       pb_trigger_smart_call_token_value = as_sun (trigger_smart_call_token_value p),
       pb_trigger_smart_token_id = trigger_smart_token_id p \<rparr>"

definition freeze_balance_v1_to_proto :: "freeze_balance_v1_contract \<Rightarrow> pb_freeze_balance_contract" where
  "freeze_balance_v1_to_proto p =
     \<lparr> pb_freeze_balance_owner_address = addr_bytes (freeze_balance_v1_owner_address p),
       pb_freeze_balance_frozen_balance = as_sun (freeze_balance_v1_frozen_balance p),
       pb_freeze_balance_frozen_duration = freeze_balance_v1_frozen_duration p,
       pb_freeze_balance_resource = resource_as_i32 (freeze_balance_v1_resource p),
       pb_freeze_balance_receiver_address = (case freeze_balance_v1_receiver_address p of None \<Rightarrow> [] | Some a \<Rightarrow> addr_bytes a) \<rparr>"

definition unfreeze_balance_v1_to_proto :: "unfreeze_balance_v1_contract \<Rightarrow> pb_unfreeze_balance_contract" where
  "unfreeze_balance_v1_to_proto p =
     \<lparr> pb_unfreeze_balance_owner_address = addr_bytes (unfreeze_balance_v1_owner_address p),
       pb_unfreeze_balance_resource = resource_as_i32 (unfreeze_balance_v1_resource p),
       pb_unfreeze_balance_receiver_address = (case unfreeze_balance_v1_receiver_address p of None \<Rightarrow> [] | Some a \<Rightarrow> addr_bytes a) \<rparr>"

definition freeze_balance_v2_to_proto :: "freeze_balance_v2_contract \<Rightarrow> pb_freeze_balance_v2_contract" where
  "freeze_balance_v2_to_proto p =
     \<lparr> pb_freeze_balance_v2_owner_address = addr_bytes (freeze_balance_v2_owner_address p),
       pb_freeze_balance_v2_frozen_balance = as_sun (freeze_balance_v2_frozen_balance p),
       pb_freeze_balance_v2_resource = resource_as_i32 (freeze_balance_v2_resource p) \<rparr>"

definition unfreeze_balance_v2_to_proto :: "unfreeze_balance_v2_contract \<Rightarrow> pb_unfreeze_balance_v2_contract" where
  "unfreeze_balance_v2_to_proto p =
     \<lparr> pb_unfreeze_balance_v2_owner_address = addr_bytes (unfreeze_balance_v2_owner_address p),
       pb_unfreeze_balance_v2_unfreeze_balance = as_sun (unfreeze_balance_v2_unfreeze_balance p),
       pb_unfreeze_balance_v2_resource = resource_as_i32 (unfreeze_balance_v2_resource p) \<rparr>"

definition delegate_resource_to_proto :: "delegate_resource_contract \<Rightarrow> pb_delegate_resource_contract" where
  "delegate_resource_to_proto p =
     \<lparr> pb_delegate_resource_owner_address = addr_bytes (delegate_resource_owner_address p),
       pb_delegate_resource_resource = resource_as_i32 (delegate_resource_resource p),
       pb_delegate_resource_balance = as_sun (delegate_resource_balance p),
       pb_delegate_resource_receiver_address = addr_bytes (delegate_resource_receiver_address p),
       pb_delegate_resource_lock = delegate_resource_lock_period p \<noteq> None,
       pb_delegate_resource_lock_period = (case delegate_resource_lock_period p of None \<Rightarrow> 0 | Some v \<Rightarrow> v) \<rparr>"

definition undelegate_resource_to_proto :: "un_delegate_resource_contract \<Rightarrow> pb_un_delegate_resource_contract" where
  "undelegate_resource_to_proto p =
     \<lparr> pb_un_delegate_resource_owner_address = addr_bytes (un_delegate_resource_owner_address p),
       pb_un_delegate_resource_resource = resource_as_i32 (un_delegate_resource_resource p),
       pb_un_delegate_resource_balance = as_sun (un_delegate_resource_balance p),
       pb_un_delegate_resource_receiver_address = addr_bytes (un_delegate_resource_receiver_address p) \<rparr>"

definition withdraw_expire_unfreeze_to_proto :: "withdraw_expire_unfreeze_contract \<Rightarrow> pb_withdraw_expire_unfreeze_contract" where
  "withdraw_expire_unfreeze_to_proto p =
     \<lparr> pb_withdraw_expire_unfreeze_owner_address = addr_bytes (withdraw_expire_unfreeze_owner_address p) \<rparr>"

definition cancel_all_unfreeze_v2_to_proto :: "cancel_all_unfreeze_v2_contract \<Rightarrow> pb_cancel_all_unfreeze_v2_contract" where
  "cancel_all_unfreeze_v2_to_proto p =
     \<lparr> pb_cancel_all_unfreeze_v2_owner_address = addr_bytes (cancel_all_unfreeze_v2_owner_address p) \<rparr>"

definition withdraw_balance_to_proto :: "withdraw_balance_contract \<Rightarrow> pb_withdraw_balance_contract" where
  "withdraw_balance_to_proto p =
     \<lparr> pb_withdraw_balance_owner_address = addr_bytes (withdraw_balance_owner_address p) \<rparr>"

definition account_permission_update_to_proto ::
  "account_permission_update_contract \<Rightarrow> pb_account_permission_update_contract" where
  "account_permission_update_to_proto p =
     \<lparr> pb_account_permission_update_owner_address = addr_bytes (account_permission_update_owner_address p),
       pb_account_permission_update_owner =
         map_option (\<lambda>perm. permission_to_proto perm PermOwner) (account_permission_update_owner p),
       pb_account_permission_update_witness =
         map_option (\<lambda>perm. permission_to_proto perm PermWitness) (account_permission_update_witness p),
       pb_account_permission_update_actives =
         map (\<lambda>perm. permission_to_proto perm PermActive) (account_permission_update_actives p) \<rparr>"

definition create_smart_contract_to_proto :: "create_smart_contract \<Rightarrow> pb_create_smart_contract" where
  "create_smart_contract_to_proto p =
     \<lparr> pb_create_smart_owner_address = addr_bytes (create_smart_owner_address p),
       pb_create_smart_new_contract = Some
         \<lparr> pb_smart_origin_address = addr_bytes (create_smart_owner_address p),
           pb_smart_contract_address = [],
           pb_smart_abi = Some (abi_to_proto (create_smart_abi p)),
           pb_smart_bytecode = create_smart_bytecode p,
           pb_smart_call_value = as_sun (create_smart_call_value p),
           pb_smart_consume_user_resource_percent = create_smart_consume_user_resource_percent p,
           pb_smart_name = create_smart_name p,
           pb_smart_origin_energy_limit = create_smart_origin_energy_limit p,
           pb_smart_code_hash = [],
           pb_smart_trx_hash = [],
           pb_smart_version = 0 \<rparr>,
       pb_create_smart_call_token_value = 0,
       pb_create_smart_token_id = 0 \<rparr>"

definition asset_issue_to_proto :: "asset_issue_contract \<Rightarrow> pb_asset_issue_contract" where
  "asset_issue_to_proto p =
     pb_asset_issue_contract_default\<lparr>
       pb_asset_issue_owner_address := addr_bytes (asset_issue_owner_address p),
       pb_asset_issue_name := str_bytes (asset_issue_name p),
       pb_asset_issue_abbr := str_bytes (asset_issue_abbr p),
       pb_asset_issue_description := str_bytes (asset_issue_description p),
       pb_asset_issue_url := str_bytes (asset_issue_url p),
       pb_asset_issue_total_supply := asset_issue_total_supply p,
       pb_asset_issue_precision := asset_issue_precision p,
       pb_asset_issue_trx_num := asset_issue_trx_num p,
       pb_asset_issue_num := asset_issue_num p,
       pb_asset_issue_start_time := asset_issue_start_time p,
       pb_asset_issue_end_time := asset_issue_end_time p,
       pb_asset_issue_free_asset_net_limit := asset_issue_free_asset_net_limit p,
       pb_asset_issue_public_free_asset_net_limit := asset_issue_public_free_asset_net_limit p,
       pb_asset_issue_frozen_supply :=
         map (\<lambda>f. \<lparr> pb_frozen_supply_frozen_amount = frozen_supply_frozen_amount f,
                     pb_frozen_supply_frozen_days = frozen_supply_frozen_days f \<rparr>)
           (asset_issue_frozen_supply p) \<rparr>"

definition transfer_asset_to_proto :: "transfer_asset_contract \<Rightarrow> pb_transfer_asset_contract" where
  "transfer_asset_to_proto p =
     \<lparr> pb_transfer_asset_asset_name = str_bytes (transfer_asset_token_id p),
       pb_transfer_asset_owner_address = addr_bytes (transfer_asset_owner_address p),
       pb_transfer_asset_to_address = addr_bytes (transfer_asset_to_address p),
       pb_transfer_asset_amount = transfer_asset_amount p \<rparr>"

definition participate_asset_issue_to_proto :: "participate_asset_issue_contract \<Rightarrow> pb_participate_asset_issue_contract" where
  "participate_asset_issue_to_proto p =
     \<lparr> pb_participate_asset_issue_owner_address = addr_bytes (participate_asset_issue_owner_address p),
       pb_participate_asset_issue_to_address = addr_bytes (participate_asset_issue_to_address p),
       pb_participate_asset_issue_asset_name = str_bytes (participate_asset_issue_token_id p),
       pb_participate_asset_issue_amount = participate_asset_issue_amount p \<rparr>"

definition unfreeze_asset_to_proto :: "unfreeze_asset_contract \<Rightarrow> pb_unfreeze_asset_contract" where
  "unfreeze_asset_to_proto p =
     \<lparr> pb_unfreeze_asset_owner_address = addr_bytes (unfreeze_asset_owner_address p) \<rparr>"

definition update_asset_to_proto :: "update_asset_contract \<Rightarrow> pb_update_asset_contract" where
  "update_asset_to_proto p =
     \<lparr> pb_update_asset_owner_address = addr_bytes (update_asset_owner_address p),
       pb_update_asset_description = str_bytes (update_asset_description p),
       pb_update_asset_url = str_bytes (update_asset_url p),
       pb_update_asset_new_limit = update_asset_new_limit p,
       pb_update_asset_new_public_limit = update_asset_new_public_limit p \<rparr>"

definition create_account_to_proto :: "create_account_contract \<Rightarrow> pb_account_create_contract" where
  "create_account_to_proto p =
     \<lparr> pb_account_create_owner_address = addr_bytes (create_account_owner_address p),
       pb_account_create_account_address = addr_bytes (create_account_account_address p),
       pb_account_create_type = 0 \<rparr>"

definition vote_witness_to_proto :: "vote_witness_contract \<Rightarrow> pb_vote_witness_contract" where
  "vote_witness_to_proto p =
     \<lparr> pb_vote_witness_owner_address = addr_bytes (vote_witness_owner_address p),
       pb_vote_witness_votes =
         map (\<lambda>v. \<lparr> pb_witness_vote_vote_address = addr_bytes (sr_vote_vote_address v),
                     pb_witness_vote_vote_count = sr_vote_vote_count v \<rparr>)
           (vote_witness_votes p),
       pb_vote_witness_support = False \<rparr>"

definition update_account_to_proto :: "update_account_contract \<Rightarrow> pb_account_update_contract" where
  "update_account_to_proto p =
     \<lparr> pb_account_update_account_name = str_bytes (update_account_name p),
       pb_account_update_owner_address = addr_bytes (update_account_owner_address p) \<rparr>"

definition proposal_create_to_proto :: "proposal_create_contract \<Rightarrow> pb_proposal_create_contract" where
  "proposal_create_to_proto p =
     \<lparr> pb_proposal_create_owner_address = addr_bytes (proposal_create_owner_address p),
       pb_proposal_create_parameters = proposal_create_parameters p \<rparr>"

definition proposal_approve_to_proto :: "proposal_approve_contract \<Rightarrow> pb_proposal_approve_contract" where
  "proposal_approve_to_proto p =
     \<lparr> pb_proposal_approve_owner_address = addr_bytes (proposal_approve_owner_address p),
       pb_proposal_approve_proposal_id = proposal_approve_proposal_id p,
       pb_proposal_approve_is_add_approval = proposal_approve_is_add_approval p \<rparr>"

definition proposal_delete_to_proto :: "proposal_delete_contract \<Rightarrow> pb_proposal_delete_contract" where
  "proposal_delete_to_proto p =
     \<lparr> pb_proposal_delete_owner_address = addr_bytes (proposal_delete_owner_address p),
       pb_proposal_delete_proposal_id = proposal_delete_proposal_id p \<rparr>"

definition create_witness_to_proto :: "create_witness_contract \<Rightarrow> pb_witness_create_contract" where
  "create_witness_to_proto p =
     \<lparr> pb_witness_create_owner_address = addr_bytes (create_witness_owner_address p),
       pb_witness_create_url = str_bytes (create_witness_url p) \<rparr>"

definition update_witness_to_proto :: "update_witness_contract \<Rightarrow> pb_witness_update_contract" where
  "update_witness_to_proto p =
     \<lparr> pb_witness_update_owner_address = addr_bytes (update_witness_owner_address p),
       pb_witness_update_update_url = str_bytes (update_witness_update_url p) \<rparr>"

definition update_brokerage_to_proto :: "update_brokerage_contract \<Rightarrow> pb_update_brokerage_contract" where
  "update_brokerage_to_proto p =
     \<lparr> pb_update_brokerage_owner_address = addr_bytes (update_brokerage_owner_address p),
       pb_update_brokerage_brokerage = update_brokerage_brokerage p \<rparr>"

definition set_account_id_to_proto :: "set_account_id_contract \<Rightarrow> pb_set_account_id_contract" where
  "set_account_id_to_proto p =
     \<lparr> pb_set_account_id_account_id = str_bytes (set_account_id_account_id p),
       pb_set_account_id_owner_address = addr_bytes (set_account_id_owner_address p) \<rparr>"

definition clear_contract_abi_to_proto :: "clear_contract_abi_contract \<Rightarrow> pb_clear_abi_contract" where
  "clear_contract_abi_to_proto p =
     \<lparr> pb_clear_abi_owner_address = addr_bytes (clear_abi_owner_address p),
       pb_clear_abi_contract_address = addr_bytes (clear_abi_contract_address p) \<rparr>"

definition update_setting_to_proto :: "update_setting_contract \<Rightarrow> pb_update_setting_contract" where
  "update_setting_to_proto p =
     \<lparr> pb_update_setting_owner_address = addr_bytes (update_setting_owner_address p),
       pb_update_setting_contract_address = addr_bytes (update_setting_contract_address p),
       pb_update_setting_consume_user_resource_percent = update_setting_consume_user_resource_percent p \<rparr>"

definition update_energy_limit_to_proto :: "update_energy_limit_contract \<Rightarrow> pb_update_energy_limit_contract" where
  "update_energy_limit_to_proto p =
     \<lparr> pb_update_energy_limit_owner_address = addr_bytes (update_energy_limit_owner_address p),
       pb_update_energy_limit_contract_address = addr_bytes (update_energy_limit_contract_address p),
       pb_update_energy_limit_origin_energy_limit = update_energy_limit_origin_energy_limit p \<rparr>"

definition exchange_create_to_proto :: "exchange_create_contract \<Rightarrow> pb_exchange_create_contract" where
  "exchange_create_to_proto p =
     \<lparr> pb_exchange_create_owner_address = addr_bytes (exchange_create_owner_address p),
       pb_exchange_create_first_token_id = str_bytes (exchange_create_first_token_id p),
       pb_exchange_create_first_token_balance = exchange_create_first_token_balance p,
       pb_exchange_create_second_token_id = str_bytes (exchange_create_second_token_id p),
       pb_exchange_create_second_token_balance = exchange_create_second_token_balance p \<rparr>"

definition exchange_inject_to_proto :: "exchange_inject_contract \<Rightarrow> pb_exchange_inject_contract" where
  "exchange_inject_to_proto p =
     \<lparr> pb_exchange_inject_owner_address = addr_bytes (exchange_inject_owner_address p),
       pb_exchange_inject_exchange_id = exchange_inject_exchange_id p,
       pb_exchange_inject_token_id = str_bytes (exchange_inject_token_id p),
       pb_exchange_inject_quant = exchange_inject_quant p \<rparr>"

definition exchange_withdraw_to_proto :: "exchange_withdraw_contract \<Rightarrow> pb_exchange_withdraw_contract" where
  "exchange_withdraw_to_proto p =
     \<lparr> pb_exchange_withdraw_owner_address = addr_bytes (exchange_withdraw_owner_address p),
       pb_exchange_withdraw_exchange_id = exchange_withdraw_exchange_id p,
       pb_exchange_withdraw_token_id = str_bytes (exchange_withdraw_token_id p),
       pb_exchange_withdraw_quant = exchange_withdraw_quant p \<rparr>"

definition exchange_transaction_to_proto :: "exchange_transaction_contract \<Rightarrow> pb_exchange_transaction_contract" where
  "exchange_transaction_to_proto p =
     \<lparr> pb_exchange_transaction_owner_address = addr_bytes (exchange_transaction_owner_address p),
       pb_exchange_transaction_exchange_id = exchange_transaction_exchange_id p,
       pb_exchange_transaction_token_id = str_bytes (exchange_transaction_token_id p),
       pb_exchange_transaction_quant = exchange_transaction_quant p,
       pb_exchange_transaction_expected = exchange_transaction_expected p \<rparr>"

definition market_sell_asset_to_proto :: "market_sell_asset_contract \<Rightarrow> pb_market_sell_asset_contract" where
  "market_sell_asset_to_proto p =
     \<lparr> pb_market_sell_asset_owner_address = addr_bytes (market_sell_asset_owner_address p),
       pb_market_sell_asset_sell_token_id = str_bytes (market_sell_asset_sell_token_id p),
       pb_market_sell_asset_sell_token_quantity = market_sell_asset_sell_token_quantity p,
       pb_market_sell_asset_buy_token_id = str_bytes (market_sell_asset_buy_token_id p),
       pb_market_sell_asset_buy_token_quantity = market_sell_asset_buy_token_quantity p \<rparr>"

definition market_cancel_order_to_proto :: "market_cancel_order_contract \<Rightarrow> pb_market_cancel_order_contract" where
  "market_cancel_order_to_proto p =
     \<lparr> pb_market_cancel_order_owner_address = addr_bytes (market_cancel_order_owner_address p),
       pb_market_cancel_order_order_id = market_cancel_order_order_id p \<rparr>"

section \<open>Round trips\<close>

lemma addr_Ok_iff [result_simps]: "addr bs = Ok a \<longleftrightarrow> a = Address bs \<and> wf_address a"
  by (auto simp: addr_def result_simps)

lemma addr_of_bytes [simp]: "wf_address a \<Longrightarrow> addr (addr_bytes a) = Ok a"
  by (simp add: addr_bytes_def addr_Ok_iff)

lemma opset_from_own_bytes: "wf_opset s \<Longrightarrow> opset_from_bytes (op_bytes s) = Ok s"
  by (cases s) (simp add: opset_from_bytes_def wf_opset_def)

lemma opset_from_no_bytes: "opset_from_bytes [] = Ok opset_empty"
  by (simp add: opset_from_bytes_def opset_empty_def)

lemma permission_keys_back:
  assumes "\<forall>k\<in>set ks. wf_address (permission_key_address k)"
  shows "filter_ok
      (\<lambda>k. and_then (addr (pb_key_address k)) (\<lambda>a.
         Ok \<lparr> permission_key_address = a, permission_key_weight = pb_key_weight k \<rparr>))
      (map (\<lambda>k. \<lparr> pb_key_address = addr_bytes (permission_key_address k),
                  pb_key_weight = permission_key_weight k \<rparr>) ks) = ks"
  using assms by (induction ks) simp_all

text \<open>
  A permission that is sent and read back is the same: its id, name, threshold, its keys
  with their weights and, for an active permission, its operations; the operations of an owner
  or witness permission are not sent and come back empty.
\<close>

theorem permission_roundtrip:
  assumes "\<forall>k\<in>set (permission_keys p). wf_address (permission_key_address k)"
    and "wf_opset (permission_operations p)"
  shows "permission_from_proto (permission_to_proto p ty) =
    Ok (case ty of PermActive \<Rightarrow> p | _ \<Rightarrow> p\<lparr> permission_operations := opset_empty \<rparr>)"
  using permission_keys_back [OF assms(1)] opset_from_own_bytes [OF assms(2)] opset_from_no_bytes
  by (cases ty) (simp_all add: permission_from_proto_def permission_to_proto_def Let_def)

definition sample_permission :: permission where
  "sample_permission =
     \<lparr> permission_id = 2, permission_permission_name = ''active'', permission_threshold = 2,
       permission_keys =
         [\<lparr> permission_key_address = address_zero, permission_key_weight = 1 \<rparr>,
          \<lparr> permission_key_address = Address (65 # replicate 20 1), permission_key_weight = 1 \<rparr>],
       permission_operations = OperationSet (replicate 32 255) \<rparr>"

theorem permission_roundtrip_witness:
  "permission_from_proto (permission_to_proto sample_permission PermActive) = Ok sample_permission
   \<and> permission_from_proto (permission_to_proto sample_permission PermOwner)
     = Ok (sample_permission\<lparr> permission_operations := OperationSet (replicate 32 0) \<rparr>)"
proof -
  have keys: "\<forall>k\<in>set (permission_keys sample_permission). wf_address (permission_key_address k)"
    by (simp add: sample_permission_def wf_address_def address_zero_def address_len_def
        evm_address_len_def address_prefix_def)
  have ops: "wf_opset (permission_operations sample_permission)"
    by (simp add: sample_permission_def wf_opset_def)
  from permission_roundtrip [OF keys ops] show ?thesis by (simp add: opset_empty_def)
qed

lemma param_roundtrips [simp]: "param_to_proto (param_from_proto m) = m" "param_from_proto (param_to_proto p) = p"
  by (simp_all add: param_to_proto_def param_from_proto_def)

lemma entry_roundtrip [simp]: "entry_to_proto (entry_from_proto m) = m"
  by (simp add: entry_to_proto_def entry_from_proto_def comp_def entry_type_enum.num_of_num
      mutability_enum.num_of_num)

text \<open>An entry whose numbers are not those of named categories.\<close>

definition canonical_entry :: "tron_abi_entry \<Rightarrow> bool" where
  "canonical_entry e \<longleftrightarrow>
     (case entry_type e of EntryUnknown v \<Rightarrow> v \<notin> {1, 2, 3, 4, 5, 6} | _ \<Rightarrow> True)
     \<and> (case entry_state_mutability e of MutUnknown v \<Rightarrow> v \<notin> {1, 2, 3, 4} | _ \<Rightarrow> True)"

lemma entry_type_canonical:
  "entry_type_from_i32 (entry_type_as_i32 t) = t \<longleftrightarrow>
     (case t of EntryUnknown v \<Rightarrow> v \<notin> {1, 2, 3, 4, 5, 6} | _ \<Rightarrow> True)"
  by (cases t) (auto simp: entry_type_from_i32_def)

lemma mutability_canonical:
  "mutability_from_i32 (mutability_as_i32 t) = t \<longleftrightarrow>
     (case t of MutUnknown v \<Rightarrow> v \<notin> {1, 2, 3, 4} | _ \<Rightarrow> True)"
  by (cases t) (auto simp: mutability_from_i32_def)

lemma entry_canonical: "entry_from_proto (entry_to_proto e) = e \<longleftrightarrow> canonical_entry e"
  by (cases e) (simp add: entry_to_proto_def entry_from_proto_def canonical_entry_def comp_def
      entry_type_canonical mutability_canonical)

lemma map_eq_self: "map f xs = xs \<longleftrightarrow> (\<forall>x\<in>set xs. f x = x)"
  by (induction xs) auto

lemma abi_canonical: "abi_from_proto (abi_to_proto a) = a \<longleftrightarrow> list_all canonical_entry (abi_entries a)"
  by (cases a) (simp add: abi_to_proto_def abi_from_proto_def comp_def map_eq_self entry_canonical
      list_all_iff)

text \<open>
  The ABI of a contract survives the protobuf form: a message of a node, unknown categories
  included, is rebuilt exactly from what was read of it, and an ABI that is sent reads back as
  itself exactly when it names every category that has a name.
\<close>

theorem abi_roundtrip:
  "abi_to_proto (abi_from_proto m) = m
   \<and> (abi_from_proto (abi_to_proto a) = a \<longleftrightarrow> list_all canonical_entry (abi_entries a))"
  by (simp add: abi_canonical) (simp add: abi_to_proto_def abi_from_proto_def comp_def)

end
