(* ===== verification/Retry.thy ===== *)
theory Retry
  imports Grpc_Core
begin

text \<open>
  Retries and middleware (\<open>RetryConfig\<close> and \<open>GrpcCore::call_with_retry\<close> in
  \<open>crates/provider/src/transport/grpc/core.rs\<close>, the trait in \<open>middleware.rs\<close>).  The loop is
  a function whose recursion is bounded by the attempts that are left, so it always returns.
\<close>

section \<open>Configuration\<close>

record retry_config =
  max_attempts :: u32
  initial_backoff :: nat
  max_backoff :: nat
  backoff_multiplier :: real

definition retry_config_default :: retry_config where
  "retry_config_default =
     \<lparr> max_attempts = 3, initial_backoff = 500 * 10 ^ 6, max_backoff = 10 * 10 ^ 9,
       backoff_multiplier = 2 \<rparr>"

definition retry_config_disabled :: retry_config where
  "retry_config_disabled = retry_config_default\<lparr> max_attempts := 1 \<rparr>"

definition with_max_attempts :: "retry_config \<Rightarrow> u32 \<Rightarrow> retry_config" where
  "with_max_attempts c n = c\<lparr> max_attempts := n \<rparr>"

definition with_initial_backoff :: "retry_config \<Rightarrow> nat \<Rightarrow> retry_config" where
  "with_initial_backoff c d = c\<lparr> initial_backoff := d \<rparr>"

definition with_max_backoff :: "retry_config \<Rightarrow> nat \<Rightarrow> retry_config" where
  "with_max_backoff c d = c\<lparr> max_backoff := d \<rparr>"

definition with_backoff_multiplier :: "retry_config \<Rightarrow> real \<Rightarrow> retry_config" where
  "with_backoff_multiplier c m = c\<lparr> backoff_multiplier := m \<rparr>"

text \<open>
  What the loop needs of the runtime: randomness, sleeping, a clock, scaling a duration.  Scaling panics
  in the standard library when the factor is negative, not a number, or too large; the panic is left
  out, so the loop is that of a multiplier for which it does not happen.
\<close>

record 'w runtime =
  rt_rand :: "'w \<Rightarrow> real \<times> 'w"
  rt_sleep :: "nat \<Rightarrow> 'w \<Rightarrow> 'w"
  rt_now :: "'w \<Rightarrow> nat"
  rt_mul :: "nat \<Rightarrow> real \<Rightarrow> nat"

type_synonym ('a, 'w) call = "'w \<Rightarrow> (transport_error + 'a) \<times> 'w"

section \<open>The retry loop\<close>

function retry_loop ::
  "'w runtime \<Rightarrow> retry_config \<Rightarrow> ('a, 'w) call \<Rightarrow> nat \<Rightarrow> nat \<Rightarrow> nat \<Rightarrow> ('a, 'w) call" where
  "retry_loop E cfg f limit backoff attempt w =
     (case f w of
        (Inr v, w1) \<Rightarrow> (Ok v, w1)
      | (Inl e, w1) \<Rightarrow>
          if Suc attempt \<ge> limit \<or> \<not> transport_is_retryable e then (Err e, w1)
          else
            (let (r, w2) = rt_rand E w1;
                 jittered = rt_mul E backoff (3 / 4 + r * (1 / 2));
                 w3 = rt_sleep E jittered w2
             in retry_loop E cfg f limit
                  (min (rt_mul E backoff (backoff_multiplier cfg)) (max_backoff cfg))
                  (Suc attempt) w3))"
  by auto
termination by (relation "measure (\<lambda>(_, _, _, limit, _, attempt, _). limit - attempt)") auto

declare retry_loop.simps [simp del]

definition retry :: "'w runtime \<Rightarrow> retry_config \<Rightarrow> ('a, 'w) call \<Rightarrow> ('a, 'w) call" where
  "retry E cfg f w =
     retry_loop E cfg f (max (unat (max_attempts cfg)) 1) (initial_backoff cfg) 0 w"

section \<open>Middleware\<close>

record grpc_outcome =
  outcome_elapsed :: nat
  outcome_attempts :: nat
  outcome_error :: "transport_error option"

definition outcome_is_ok :: "grpc_outcome \<Rightarrow> bool" where
  "outcome_is_ok r \<longleftrightarrow> outcome_error r = None"

record 'w middleware =
  mw_before :: "string \<Rightarrow> (unit, 'w) call"
  mw_after :: "string \<Rightarrow> grpc_outcome \<Rightarrow> 'w \<Rightarrow> 'w"

text \<open>The loop over \<open>before\<close>: how many entered, and the error of the one that refused.\<close>

fun run_before ::
  "'w middleware list \<Rightarrow> string \<Rightarrow> nat \<Rightarrow> 'w \<Rightarrow> (nat \<times> transport_error option) \<times> 'w" where
  "run_before [] call entered w = ((entered, None), w)"
| "run_before (m # ms) call entered w =
     (case mw_before m call w of
        (Inr _, w1) \<Rightarrow> run_before ms call (Suc entered) w1
      | (Inl e, w1) \<Rightarrow> ((entered, Some e), w1))"

fun run_after :: "'w middleware list \<Rightarrow> string \<Rightarrow> grpc_outcome \<Rightarrow> 'w \<Rightarrow> 'w" where
  "run_after [] call outcome w = w"
| "run_after (m # ms) call outcome w = run_after ms call outcome (mw_after m call outcome w)"

text \<open>The counter of attempts is a number next to the world.\<close>

definition counted :: "('a, 'w) call \<Rightarrow> ('a, 'w \<times> nat) call" where
  "counted f = (\<lambda>(w, n). case f w of (r, w1) \<Rightarrow> (r, (w1, Suc n)))"

definition beside :: "'w runtime \<Rightarrow> ('w \<times> 's) runtime" where
  "beside E =
     \<lparr> rt_rand = (\<lambda>(w, s). case rt_rand E w of (r, w1) \<Rightarrow> (r, (w1, s))),
       rt_sleep = (\<lambda>d (w, s). (rt_sleep E d w, s)),
       rt_now = (\<lambda>(w, s). rt_now E w),
       rt_mul = rt_mul E \<rparr>"

definition result_err :: "'e + 'a \<Rightarrow> 'e option" where
  "result_err r = (case r of Inl e \<Rightarrow> Some e | Inr _ \<Rightarrow> None)"

definition call_with_retry ::
  "'w runtime \<Rightarrow> retry_config \<Rightarrow> 'w middleware list \<Rightarrow> string \<Rightarrow> ('a, 'w) call \<Rightarrow> ('a, 'w) call" where
  "call_with_retry E cfg ms call f w =
     (if ms = [] then retry E cfg f w
      else
        (let started = rt_now E w;
             ((entered, refused), w1) = run_before ms call 0 w
         in case refused of
              Some e \<Rightarrow>
                (let outcome = \<lparr> outcome_elapsed = rt_now E w1 - started, outcome_attempts = 0,
                                outcome_error = Some e \<rparr>
                 in (Err e, run_after (rev (take entered ms)) call outcome w1))
            | None \<Rightarrow>
                (let (result, (w2, attempts)) = retry (beside E) cfg (counted f) (w1, 0);
                     outcome = \<lparr> outcome_elapsed = rt_now E w2 - started,
                                outcome_attempts = attempts, outcome_error = result_err result \<rparr>
                 in (result, run_after (rev ms) call outcome w2))))"

section \<open>Attempts\<close>

text \<open>A call that writes down what each attempt answered.\<close>

definition recorded :: "('a, 'w) call \<Rightarrow> ('a, 'w \<times> (transport_error + 'a) list) call" where
  "recorded f = (\<lambda>(w, rs). case f w of (r, w1) \<Rightarrow> (r, (w1, rs @ [r])))"

definition may_retry :: "transport_error + 'a \<Rightarrow> bool" where
  "may_retry r = (case r of Inl e \<Rightarrow> transport_is_retryable e | Inr _ \<Rightarrow> False)"

lemma beside_simps [simp]:
  "rt_rand (beside E) (w, s) = (fst (rt_rand E w), (snd (rt_rand E w), s))"
  "rt_sleep (beside E) d (w, s) = (rt_sleep E d w, s)"
  "rt_now (beside E) (w, s) = rt_now E w"
  "rt_mul (beside E) = rt_mul E"
  by (simp_all add: beside_def split: prod.split)

lemma retry_loop_recorded:
  assumes "retry_loop (beside E) cfg (recorded f) limit backoff attempt (w, rs) = (r, (w', rs'))"
    and "attempt < limit"
  shows "\<exists>new. rs' = rs @ new \<and> new \<noteq> [] \<and> last new = r \<and> attempt + length new \<le> limit
    \<and> list_all may_retry (butlast new)
    \<and> (may_retry r \<longrightarrow> attempt + length new = limit)"
  using assms
proof (induction "limit - attempt" arbitrary: backoff attempt w rs)
  case 0
  then show ?case by simp
next
  case (Suc n)
  obtain r1 w1 where f: "f w = (r1, w1)" by (cases "f w")
  have rec: "recorded f (w, rs) = (r1, (w1, rs @ [r1]))" by (simp add: recorded_def f)
  show ?case
  proof (cases "may_retry r1 \<and> Suc attempt < limit")
    case False
    then have "r = r1 \<and> rs' = rs @ [r1]"
      using Suc.prems(1) rec
      by (subst (asm) retry_loop.simps) (auto simp: may_retry_def split: sum.splits if_splits)
    with False Suc.prems(2) show ?thesis by auto
  next
    case True
    then obtain e where e: "r1 = Inl e" "transport_is_retryable e" by (auto simp: may_retry_def split: sum.splits)
    obtain w3 backoff' where go: "retry_loop (beside E) cfg (recorded f) limit backoff' (Suc attempt) (w3, rs @ [r1])
        = (r, (w', rs'))"
      using Suc.prems(1) rec True e
      by (subst (asm) retry_loop.simps) (auto simp: Let_def)
    have "n = limit - Suc attempt" using Suc.hyps(2) by simp
    from Suc.hyps(1) [OF this go] True obtain new where
      "rs' = (rs @ [r1]) @ new" "new \<noteq> []" "last new = r" "Suc attempt + length new \<le> limit"
      "list_all may_retry (butlast new)" "may_retry r \<longrightarrow> Suc attempt + length new = limit"
      by auto
    with True show ?thesis by (intro exI [of _ "r1 # new"]) auto
  qed
qed

text \<open>
  C25: a call is attempted at least once and at most \<open>max_attempts\<close> times (once when that is
  zero); it is attempted again only after a retryable failure, the answer is that of the last
  attempt, and a retryable failure is given up on only when the attempts are used up.
\<close>

theorem retry_attempts:
  assumes "retry (beside E) cfg (recorded f) (w, []) = (r, (w', rs))"
  shows "rs \<noteq> [] \<and> last rs = r \<and> length rs \<le> max (unat (max_attempts cfg)) 1
    \<and> list_all may_retry (butlast rs)
    \<and> (may_retry r \<longrightarrow> length rs = max (unat (max_attempts cfg)) 1)"
  using retry_loop_recorded [of E cfg f "max (unat (max_attempts cfg)) 1" "initial_backoff cfg" 0 w "[]" r w' rs]
    assms by (auto simp: retry_def)

definition sample_runtime :: "nat runtime" where
  "sample_runtime =
     \<lparr> rt_rand = (\<lambda>w. (0, w)), rt_sleep = (\<lambda>d w. w + d), rt_now = (\<lambda>w. w), rt_mul = (\<lambda>d m. d) \<rparr>"

theorem retry_attempts_witness:
  "\<exists>w'. retry (beside sample_runtime) retry_config_default
     (recorded (\<lambda>w. (if w = 0 then Err (TkRpc RpcUnavailable ''down'') else Ok (5 :: nat), w))) (0, [])
     = (Ok 5, (w', [Err (TkRpc RpcUnavailable ''down''), Ok 5]))"
proof -
  let ?f = "\<lambda>w. (if w = 0 then Err (TkRpc RpcUnavailable ''down'') else Ok (5 :: nat), w)"
  have run: "retry (beside sample_runtime) retry_config_default (recorded ?f) (0, [])
      = (Ok 5, (500000000, [Err (TkRpc RpcUnavailable ''down''), Ok 5]))"
    by (simp add: retry_def retry_loop.simps recorded_def sample_runtime_def retry_config_default_def
        transport_is_retryable_def)
  from retry_attempts [OF run] run show ?thesis by blast
qed

section \<open>Middleware brackets the call\<close>

datatype call_event = EvBefore nat | EvCall | EvAfter nat

definition traced :: "nat \<Rightarrow> 'w middleware \<Rightarrow> ('w \<times> call_event list) middleware" where
  "traced i m =
     \<lparr> mw_before = (\<lambda>call (w, evs). case mw_before m call w of (r, w1) \<Rightarrow> (r, (w1, evs @ [EvBefore i]))),
       mw_after = (\<lambda>call outcome (w, evs). (mw_after m call outcome w, evs @ [EvAfter i])) \<rparr>"

definition traced_call :: "('a, 'w) call \<Rightarrow> ('a, 'w \<times> call_event list) call" where
  "traced_call f = (\<lambda>(w, evs). case f w of (r, w1) \<Rightarrow> (r, (w1, evs @ [EvCall])))"

lemma retry_loop_traced:
  assumes "retry_loop (beside (beside E)) cfg (counted (traced_call f)) limit backoff attempt ((w, evs), n)
      = (r, ((w', evs'), n'))" and "attempt < limit"
  shows "\<exists>k. evs' = evs @ replicate k EvCall \<and> n' = n + k \<and> 0 < k \<and> attempt + k \<le> limit"
  using assms
proof (induction "limit - attempt" arbitrary: backoff attempt w evs n)
  case 0
  then show ?case by simp
next
  case (Suc d)
  obtain r1 w1 where f: "f w = (r1, w1)" by (cases "f w")
  have rec: "counted (traced_call f) ((w, evs), n) = (r1, ((w1, evs @ [EvCall]), Suc n))"
    by (simp add: counted_def traced_call_def f)
  show ?case
  proof (cases "may_retry r1 \<and> Suc attempt < limit")
    case False
    then have "evs' = evs @ [EvCall] \<and> n' = Suc n"
      using Suc.prems(1) rec
      by (subst (asm) retry_loop.simps) (auto simp: may_retry_def split: sum.splits if_splits)
    with Suc.prems(2) show ?thesis by (intro exI [of _ 1]) simp
  next
    case True
    then obtain e where e: "r1 = Inl e" "transport_is_retryable e"
      by (auto simp: may_retry_def split: sum.splits)
    obtain w3 backoff' where go: "retry_loop (beside (beside E)) cfg (counted (traced_call f)) limit backoff'
        (Suc attempt) ((w3, evs @ [EvCall]), Suc n) = (r, ((w', evs'), n'))"
      using Suc.prems(1) rec True e by (subst (asm) retry_loop.simps) (auto simp: Let_def)
    have "d = limit - Suc attempt" using Suc.hyps(2) by simp
    from Suc.hyps(1) [OF this go] True obtain k where
      "evs' = (evs @ [EvCall]) @ replicate k EvCall" "n' = Suc n + k" "Suc attempt + k \<le> limit" by auto
    then show ?thesis by (intro exI [of _ "Suc k"]) simp
  qed
qed

lemma run_before_traced:
  assumes "run_before (map (\<lambda>i. traced i (M i)) [k..<n]) call k (w, evs) = ((m, refused), (w', evs'))"
    and "k \<le> n"
  shows "if refused = None then m = n \<and> evs' = evs @ map EvBefore [k..<n]
         else k \<le> m \<and> m < n \<and> evs' = evs @ map EvBefore [k..<Suc m]"
  using assms(2,1)
proof (induction k arbitrary: w evs rule: inc_induct)
  case base
  then show ?case by simp
next
  case (step k)
  have list: "[k..<n] = k # [Suc k..<n]" using step.hyps(2) by (rule upt_conv_Cons)
  obtain r1 w1 where b: "mw_before (M k) call w = (r1, w1)" by (cases "mw_before (M k) call w")
  show ?case
  proof (cases r1)
    case (Inl e)
    with step.prems b list step.hyps show ?thesis by (auto simp: traced_def)
  next
    case (Inr u)
    then have "run_before (map (\<lambda>i. traced i (M i)) [Suc k..<n]) call (Suc k) (w1, evs @ [EvBefore k])
        = ((m, refused), (w', evs'))"
      using step.prems b list by (simp add: traced_def)
    from step.IH [OF this] list show ?thesis
      by (auto simp: upt_conv_Cons [of k "Suc m"] simp del: upt_Suc split: if_splits)
  qed
qed

lemma run_after_traced:
  "run_after (map (\<lambda>i. traced i (M i)) js) call outcome (w, evs) = (w', evs')
   \<Longrightarrow> evs' = evs @ map EvAfter js"
proof (induction js arbitrary: w evs)
  case (Cons j js)
  have "run_after (map (\<lambda>i. traced i (M i)) js) call outcome (mw_after (M j) call outcome w, evs @ [EvAfter j])
      = (w', evs')"
    using Cons.prems by (simp add: traced_def)
  from Cons.IH [OF this] show ?case by simp
qed simp

text \<open>
  C26: every middleware whose \<open>before\<close> let the call pass sees \<open>after\<close> exactly once, in the
  opposite order.  If all of them let it pass the call is made between one and
  \<open>max_attempts\<close> times in between; if one refuses, the call is not made, that one sees no
  \<open>after\<close>, and the call fails.
\<close>

theorem middleware_brackets:
  assumes "0 < n"
    and "call_with_retry (beside E) cfg (map (\<lambda>i. traced i (M i)) [0..<n]) call (traced_call f) (w, [])
      = (r, (w', evs))"
  shows "(\<exists>k. 0 < k \<and> k \<le> max (unat (max_attempts cfg)) 1
        \<and> evs = map EvBefore [0..<n] @ replicate k EvCall @ map EvAfter (rev [0..<n]))
    \<or> (\<exists>m<n. evs = map EvBefore [0..<Suc m] @ map EvAfter (rev [0..<m]) \<and> is_err r)"
proof -
  let ?ms = "map (\<lambda>i. traced i (M i)) [0..<n]"
  have ne: "?ms \<noteq> []" using assms(1) by simp
  obtain m refused w1 evs1 where before: "run_before ?ms call 0 (w, []) = ((m, refused), (w1, evs1))"
    by (metis surj_pair)
  note shape = run_before_traced [OF before]
  show ?thesis
  proof (cases refused)
    case (Some e)
    with shape have m: "m < n" "evs1 = map EvBefore [0..<Suc m]" by simp_all
    have "rev (take m ?ms) = map (\<lambda>i. traced i (M i)) (rev [0..<m])"
      using m(1) by (simp add: take_map rev_map)
    then have "r = Err e \<and> evs = evs1 @ map EvAfter (rev [0..<m])"
      using assms(2) ne before Some run_after_traced
      by (auto simp: call_with_retry_def Let_def)
    with m show ?thesis by auto
  next
    case None
    with shape have evs1: "evs1 = map EvBefore [0..<n]" by simp
    obtain r2 w2 evs2 k where go: "retry (beside (beside E)) cfg (counted (traced_call f)) ((w1, evs1), 0)
        = (r2, ((w2, evs2), k))" by (metis surj_pair)
    obtain outcome where "run_after (map (\<lambda>i. traced i (M i)) (rev [0..<n])) call outcome (w2, evs2) = (w', evs)"
      using assms(2) ne before None go by (auto simp: call_with_retry_def Let_def rev_map)
    then have "evs = evs2 @ map EvAfter (rev [0..<n])" by (rule run_after_traced)
    moreover obtain k' where "evs2 = evs1 @ replicate k' EvCall" "0 < k'"
        "k' \<le> max (unat (max_attempts cfg)) 1"
      using retry_loop_traced go unfolding retry_def by fastforce
    ultimately show ?thesis using evs1 by auto
  qed
qed

theorem middleware_brackets_witness:
  "\<exists>r w'. call_with_retry (beside sample_runtime) retry_config_disabled
     (map (\<lambda>i. traced i \<lparr> mw_before = (\<lambda>c w. (if i = 1 then Err (TkCustom ''full'') else Ok (), w)),
                          mw_after = (\<lambda>c r w. w) \<rparr>) [0..<3])
     ''get_account'' (traced_call (\<lambda>w. (Ok (1 :: nat), w))) (0, [])
     = (r, (w', [EvBefore 0, EvBefore 1, EvAfter 0])) \<and> is_err r"
proof -
  let ?M = "\<lambda>i. \<lparr> mw_before = (\<lambda>c w. (if i = 1 then Err (TkCustom ''full'') else Ok (), w)),
                mw_after = (\<lambda>c r (w :: nat). w) \<rparr>"
  let ?run = "call_with_retry (beside sample_runtime) retry_config_disabled
     (map (\<lambda>i. traced i (?M i)) [0..<3]) ''get_account'' (traced_call (\<lambda>w. (Ok (1 :: nat), w))) (0, [])"
  have "[0..<3] = [0, 1, 2]" by (simp add: upt_rec)
  then have run: "?run = (Err (TkCustom ''full''), (0, [EvBefore 0, EvBefore 1, EvAfter 0]))"
    by (simp add: call_with_retry_def traced_def Let_def)
  from middleware_brackets [OF _ run] run show ?thesis by simp
qed

end
