(* ===== verification/Node_Guard.thy ===== *)
theory Node_Guard
  imports Answer_Messages Contract_Codec Retry Transaction
begin

text \<open>
  How the gRPC transport calls a node and what it accepts of the answer
  (\<open>crates/provider/src/transport/grpc/fullnode.rs\<close>, \<open>check_return\<close> and \<open>raw_from_plain\<close> of
  \<open>crates/rpc-types/src/codec/mod.rs\<close>).  A method of the generated \<open>tonic\<close> client is a
  function on the world; the decoder of the requested message is an argument of the guard.
\<close>

section \<open>Calls\<close>

type_synonym tonic_status = "tonic_code \<times> string"
type_synonym ('q, 'r, 'w) tonic_method = "'q \<Rightarrow> 'w \<Rightarrow> (tonic_status + 'r) \<times> 'w"

text \<open>What a call needs of \<open>GrpcCore\<close>: the runtime, the retry policy and the middleware.\<close>

record 'w grpc_core =
  core_runtime :: "'w runtime"
  core_retry :: retry_config
  core_middleware :: "'w middleware list"

definition unary :: "('q, 'r, 'w) tonic_method \<Rightarrow> 'q \<Rightarrow> ('r, 'w) call" where
  "unary client req w = (case client req w of (r, w1) \<Rightarrow> (map_err (\<lambda>(code, m). map_status code m) r, w1))"

definition retry_unary ::
  "'w grpc_core \<Rightarrow> ('q, 'r, 'w) tonic_method \<Rightarrow> string \<Rightarrow> 'q \<Rightarrow> ('r, 'w) call" where
  "retry_unary G client label req =
     call_with_retry (core_runtime G) (core_retry G) (core_middleware G) label (unary client req)"

text \<open>\<open>call.await?\<close> followed by code that only looks at the answer.\<close>

definition awaited :: "('r, 'w) call \<Rightarrow> ('r \<Rightarrow> transport_error + 'a) \<Rightarrow> ('a, 'w) call" where
  "awaited call k w = (case call w of (r, w1) \<Rightarrow> (and_then r k, w1))"

section \<open>Answers\<close>

definition check_return :: "pb_return option \<Rightarrow> response_error + unit" where
  "check_return ret =
     (case ret of
        Some r \<Rightarrow> if \<not> pb_return_result r then Err (NodeError (from_utf8_lossy (pb_return_message r))) else Ok ()
      | None \<Rightarrow> Ok ())"

definition raw_from_plain :: "tx_codec \<Rightarrow> pb_transaction \<Rightarrow> response_error + raw_transaction" where
  "raw_from_plain C tx = from_node_encoded C (encode_tx C tx) []"

definition signed_tx_lookup ::
  "tx_codec \<Rightarrow> pb_transaction \<Rightarrow> bytes \<Rightarrow> response_error + signed_transaction option" where
  "signed_tx_lookup C tx claimed_tx_id =
     (if tx = pb_transaction_default then Ok None
      else and_then (signed_from_node_encoded C (encode_tx C tx) claimed_tx_id) (\<lambda>s. Ok (Some s)))"

definition raw_from_queried_extention ::
  "tx_codec \<Rightarrow> pb_transaction_extention \<Rightarrow> transport_error + raw_transaction" where
  "raw_from_queried_extention C ext =
     and_then (map_err transport_of_response (check_return (pb_transaction_extention_result ext))) (\<lambda>_.
     and_then (ok_or (TkMalformed (Msg ''missing transaction in extention''))
        (pb_transaction_extention_transaction ext)) (\<lambda>tx.
       map_err transport_of_response
         (from_node_encoded C (encode_tx C tx) (pb_transaction_extention_txid ext))))"

text \<open>The checks on the one contract of the answer.\<close>

definition check_built ::
  "(bytes \<Rightarrow> 'm option) \<Rightarrow> 'm \<Rightarrow> pb_contract_type \<Rightarrow> ('m \<Rightarrow> 'm) \<Rightarrow> pb_contract \<Rightarrow> transport_error + unit" where
  "check_built decode sent kind allow_derived contract =
     (if pbc_type contract \<noteq> pb_contract_type_number kind then
        (let built = (case pb_contract_type_try_from (pbc_type contract) of
                        None \<Rightarrow> show_int (sint (pbc_type contract))
                      | Some k \<Rightarrow> pb_contract_type_debug k)
         in Err (TkMalformed (Msg (''node built a '' @ built @ '' contract, not the requested ''
                                   @ pb_contract_type_debug kind))))
      else
        and_then (ok_or (TkMalformed (Msg ''contract has no parameter'')) (pbc_parameter contract)) (\<lambda>parameter.
        and_then (ok_or TkProto (decode (any_value parameter))) (\<lambda>built.
          if allow_derived built \<noteq> sent then
            Err (TkMalformed (Msg ''node built a different contract than the one requested''))
          else Ok ())))"

definition raw_from_extention_with ::
  "tx_codec \<Rightarrow> (bytes \<Rightarrow> 'm option) \<Rightarrow> pb_transaction_extention \<Rightarrow> 'm \<Rightarrow> pb_contract_type \<Rightarrow> ('m \<Rightarrow> 'm)
     \<Rightarrow> transport_error + raw_transaction" where
  "raw_from_extention_with C decode ext sent kind allow_derived =
     and_then (map_err transport_of_response (check_return (pb_transaction_extention_result ext))) (\<lambda>_.
     and_then (ok_or (TkMalformed (Msg ''missing transaction in extention''))
        (pb_transaction_extention_transaction ext)) (\<lambda>tx.
     and_then (ok_or (TkMalformed (Msg ''transaction has no raw_data'')) (tx_raw_data tx)) (\<lambda>raw_data.
       case raw_contract raw_data of
         [contract] \<Rightarrow>
           and_then (check_built decode sent kind allow_derived contract) (\<lambda>_.
             map_err transport_of_response
               (from_node_encoded C (encode_tx C tx) (pb_transaction_extention_txid ext)))
       | contracts \<Rightarrow>
           Err (TkMalformed (Msg (''node returned '' @ show_nat (length contracts)
                                  @ '' contracts, expected exactly the one requested''))))))"

definition raw_from_extention ::
  "tx_codec \<Rightarrow> (bytes \<Rightarrow> 'm option) \<Rightarrow> pb_transaction_extention \<Rightarrow> 'm \<Rightarrow> pb_contract_type
     \<Rightarrow> transport_error + raw_transaction" where
  "raw_from_extention C decode ext sent kind = raw_from_extention_with C decode ext sent kind (\<lambda>built. built)"

section \<open>Failures a caller can act on\<close>

definition to_ascii_lower :: "char \<Rightarrow> char" where
  "to_ascii_lower c = (if of_char c \<in> {65..90 :: nat} then char_of (of_char c + 32 :: nat) else c)"

definition to_ascii_lowercase :: "string \<Rightarrow> string" where
  "to_ascii_lowercase s = map to_ascii_lower s"

fun str_contains :: "string \<Rightarrow> string \<Rightarrow> bool" where
  "str_contains [] pat \<longleftrightarrow> pat = []"
| "str_contains (c # s) pat \<longleftrightarrow> take (length pat) (c # s) = pat \<or> str_contains s pat"

definition estimate_energy_unsupported :: "transport_error \<Rightarrow> transport_error" where
  "estimate_energy_unsupported err =
     (case err of
        TkRpc code message \<Rightarrow>
          (if code = RpcUnimplemented
           then TkUnsupported (''rpc status '' @ rpc_status_display code @ '': '' @ message) else err)
      | TkNodeError msg \<Rightarrow>
          (let lower = to_ascii_lowercase msg
           in if str_contains lower ''not support'' \<or> str_contains lower ''not enabled''
              then TkUnsupported (''node error: '' @ msg) else err)
      | _ \<Rightarrow> err)"

definition market_order_not_found :: "transport_error \<Rightarrow> bool" where
  "market_order_not_found err =
     (case err of
        TkRpc code message \<Rightarrow>
          code = RpcInternal \<and> to_ascii_lowercase message = to_ascii_lowercase ''order not found in store''
      | _ \<Rightarrow> False)"

section \<open>An answer comes from the node\<close>

text \<open>However often a call is retried and whatever the middleware does, its result is an attempt's.\<close>

lemma retry_loop_Ok:
  "retry_loop E cfg f limit backoff attempt w = (Inr v, w') \<Longrightarrow> \<exists>w1 w2. f w1 = (Inr v, w2)"
proof (induction E cfg f limit backoff attempt w arbitrary: w' rule: retry_loop.induct)
  case (1 E cfg f limit backoff attempt w)
  show ?case
  proof (cases "f w")
    case (Pair r w1)
    show ?thesis
    proof (cases r)
      case (Inl e)
      with 1(2) Pair have go: "\<not> (Suc attempt \<ge> limit \<or> \<not> transport_is_retryable e)"
        by (subst (asm) retry_loop.simps) (auto split: if_splits)
      obtain x w2 where rand: "rt_rand E w1 = (x, w2)" by fastforce
      from 1(2) go Pair Inl rand have
        "retry_loop E cfg f limit (min (rt_mul E backoff (backoff_multiplier cfg)) (max_backoff cfg)) (Suc attempt)
          (rt_sleep E (rt_mul E backoff (3 / 4 + x * (1 / 2))) w2) = (Inr v, w')"
        by (subst (asm) retry_loop.simps) (simp add: Let_def)
      with 1(1) Pair Inl go rand show ?thesis by auto
    next
      case (Inr u)
      with 1(2) Pair show ?thesis by (subst (asm) retry_loop.simps) auto
    qed
  qed
qed

lemma counted_Ok: "counted f s = (Inr v, s') \<Longrightarrow> \<exists>w1 w2. f w1 = (Inr v, w2)"
  by (auto simp: counted_def split: prod.splits)

lemma call_with_retry_Ok:
  "call_with_retry E cfg ms label f w = (Inr v, w') \<Longrightarrow> \<exists>w1 w2. f w1 = (Inr v, w2)"
  by (auto simp: call_with_retry_def retry_def Let_def split: if_splits prod.splits option.splits
      dest!: retry_loop_Ok counted_Ok)

lemma retry_unary_Ok:
  "retry_unary G client label req w = (Inr v, w') \<Longrightarrow> \<exists>w1 w2. client req w1 = (Inr v, w2)"
  unfolding retry_unary_def
  by (drule call_with_retry_Ok, clarify)
    (auto simp: unary_def map_err_def split: prod.splits sum.splits)

lemma awaited_Ok:
  "awaited call k w = (Inr x, w') \<Longrightarrow> \<exists>v. call w = (Inr v, w') \<and> k v = Ok x"
  by (auto simp: awaited_def and_then_def split: prod.splits sum.splits)

section \<open>What the guard lets through\<close>

text \<open>
  What the Rust types say of an answer: its strings are UTF-8, and its encoding fits a vector.
\<close>

definition answer_ok :: "tx_codec \<Rightarrow> pb_transaction \<Rightarrow> bool" where
  "answer_ok C tx \<longleftrightarrow> pb_transaction_ok tx \<and> length (encode_tx C tx) < 2 ^ 63"

text \<open>
  A raw transaction whose bytes decode to exactly one contract, of the kind \<open>kind\<close>, whose
  parameter satisfies \<open>H\<close>.
\<close>

definition built_as :: "tx_codec \<Rightarrow> raw_transaction \<Rightarrow> pb_contract_type \<Rightarrow> (bytes \<Rightarrow> bool) \<Rightarrow> bool" where
  "built_as C raw kind H \<longleftrightarrow>
     (\<exists>raw_data contract v ret.
        decode_tx C (raw_tx_proto raw) = Some \<lparr> tx_raw_data = Some raw_data, tx_signature = [], tx_ret = ret \<rparr>
        \<and> raw_contract raw_data = [contract] \<and> pbc_type contract = pb_contract_type_number kind
        \<and> pbc_parameter contract = Some v \<and> H (any_value v))"

lemma check_built_Ok:
  "check_built decode sent kind derive contract = Ok u \<longleftrightarrow>
     pbc_type contract = pb_contract_type_number kind
     \<and> (\<exists>v. pbc_parameter contract = Some v \<and> map_option derive (decode (any_value v)) = Some sent)"
  by (auto simp: check_built_def Let_def result_simps split: if_splits)

lemma raw_from_extention_with_Ok:
  assumes "raw_from_extention_with C decode ext sent kind derive = Ok raw"
  obtains tx raw_data contract where
    "pb_transaction_extention_transaction ext = Some tx" "tx_raw_data tx = Some raw_data"
    "raw_contract raw_data = [contract]" "check_built decode sent kind derive contract = Ok ()"
    "from_node_encoded C (encode_tx C tx) (pb_transaction_extention_txid ext) = Ok raw"
proof -
  from assms obtain tx raw_data where tx:
    "pb_transaction_extention_transaction ext = Some tx" "tx_raw_data tx = Some raw_data"
    by (auto simp: raw_from_extention_with_def result_simps)
  with assms show thesis
    by (cases "raw_contract raw_data" rule: remdups_adj.cases)
      (auto simp: raw_from_extention_with_def result_simps intro: that)
qed

context prost_tx
begin

lemma unsigned_shorter: "length (encode_tx C (tx\<lparr> tx_signature := [] \<rparr>)) \<le> length (encode_tx C tx)"
  using fields_bytes_add_signatures [where C = C and t = tx and gs = "tx_signature tx"] by (simp add: encode_tx_layout)

lemma from_node_encoded_own:
  assumes "from_node_encoded C (encode_tx C tx) claimed = Ok raw" and "answer_ok C tx"
  shows "raw_tx_consistent C raw
    \<and> decode_tx C (raw_tx_proto raw) = Some (tx\<lparr> tx_signature := [] \<rparr>)"
proof -
  from assms(1) obtain d where d: "from_encoded C (encode_tx C tx) claimed = Ok d" "dec_raw d = raw"
    by (auto simp: from_node_encoded_def result_simps)
  from assms(2) have "decode_tx C (encode_tx C tx) = Some tx"
    by (simp add: answer_ok_def decode_encode_tx)
  with d have proto: "raw_tx_proto raw = encode_tx C (tx\<lparr> tx_signature := [] \<rparr>)"
    by (auto simp: from_encoded_Ok_iff)
  with assms(2) unsigned_shorter [of tx] have "length (raw_tx_proto raw) < 2 ^ 63"
    by (simp add: answer_ok_def)
  with assms(2) proto show ?thesis
    using from_encoded_consistent [OF d(1)] d(2) decode_encode_tx [OF unsigned_ok]
    by (auto simp: answer_ok_def)
qed

lemma raw_from_extention_with_built:
  assumes "raw_from_extention_with C decode ext sent kind derive = Ok raw"
    and "\<And>tx. pb_transaction_extention_transaction ext = Some tx \<Longrightarrow> answer_ok C tx"
  shows "raw_tx_consistent C raw \<and> built_as C raw kind (\<lambda>v. map_option derive (decode v) = Some sent)"
proof -
  from assms(1) obtain tx raw_data contract where
    tx: "pb_transaction_extention_transaction ext = Some tx" "tx_raw_data tx = Some raw_data"
      "raw_contract raw_data = [contract]" "check_built decode sent kind derive contract = Ok ()"
      "from_node_encoded C (encode_tx C tx) (pb_transaction_extention_txid ext) = Ok raw"
    by (rule raw_from_extention_with_Ok)
  from from_node_encoded_own [OF tx(5) assms(2) [OF tx(1)]] tx(1-4) show ?thesis
    by (cases tx) (auto simp: built_as_def check_built_Ok)
qed

end

end
