(* ===== verification/Contract_Meaning.thy ===== *)
theory Contract_Meaning
  imports Contract_Codec Wire
begin

text \<open>
  What the parameter of a built contract means.  The derived decoders of \<open>prost\<close> are a record
  of functions, one per message.  \<open>holds_request\<close> says that the bytes of a parameter decode to
  exactly the message of a request (for a deployment, up to the fields the node derives), and
  \<open>contract_meaning\<close> reads a request back out of the number and the bytes of a built contract,
  independently of the code that wrote them.
\<close>

section \<open>The decoders\<close>

record prost_contracts =
  prost_transfer :: "bytes \<Rightarrow> pb_transfer_contract option"
  prost_trigger_smart :: "bytes \<Rightarrow> pb_trigger_smart_contract option"
  prost_freeze_balance_v1 :: "bytes \<Rightarrow> pb_freeze_balance_contract option"
  prost_unfreeze_balance_v1 :: "bytes \<Rightarrow> pb_unfreeze_balance_contract option"
  prost_freeze_balance_v2 :: "bytes \<Rightarrow> pb_freeze_balance_v2_contract option"
  prost_unfreeze_balance_v2 :: "bytes \<Rightarrow> pb_unfreeze_balance_v2_contract option"
  prost_delegate_resource :: "bytes \<Rightarrow> pb_delegate_resource_contract option"
  prost_un_delegate_resource :: "bytes \<Rightarrow> pb_un_delegate_resource_contract option"
  prost_withdraw_expire_unfreeze :: "bytes \<Rightarrow> pb_withdraw_expire_unfreeze_contract option"
  prost_cancel_all_unfreeze_v2 :: "bytes \<Rightarrow> pb_cancel_all_unfreeze_v2_contract option"
  prost_withdraw_balance :: "bytes \<Rightarrow> pb_withdraw_balance_contract option"
  prost_account_permission_update :: "bytes \<Rightarrow> pb_account_permission_update_contract option"
  prost_create_smart :: "bytes \<Rightarrow> pb_create_smart_contract option"
  prost_asset_issue :: "bytes \<Rightarrow> pb_asset_issue_contract option"
  prost_transfer_asset :: "bytes \<Rightarrow> pb_transfer_asset_contract option"
  prost_participate_asset_issue :: "bytes \<Rightarrow> pb_participate_asset_issue_contract option"
  prost_unfreeze_asset :: "bytes \<Rightarrow> pb_unfreeze_asset_contract option"
  prost_update_asset :: "bytes \<Rightarrow> pb_update_asset_contract option"
  prost_create_account :: "bytes \<Rightarrow> pb_account_create_contract option"
  prost_vote_witness :: "bytes \<Rightarrow> pb_vote_witness_contract option"
  prost_update_account :: "bytes \<Rightarrow> pb_account_update_contract option"
  prost_proposal_create :: "bytes \<Rightarrow> pb_proposal_create_contract option"
  prost_proposal_approve :: "bytes \<Rightarrow> pb_proposal_approve_contract option"
  prost_proposal_delete :: "bytes \<Rightarrow> pb_proposal_delete_contract option"
  prost_create_witness :: "bytes \<Rightarrow> pb_witness_create_contract option"
  prost_update_witness :: "bytes \<Rightarrow> pb_witness_update_contract option"
  prost_update_brokerage :: "bytes \<Rightarrow> pb_update_brokerage_contract option"
  prost_set_account_id :: "bytes \<Rightarrow> pb_set_account_id_contract option"
  prost_clear_abi :: "bytes \<Rightarrow> pb_clear_abi_contract option"
  prost_update_setting :: "bytes \<Rightarrow> pb_update_setting_contract option"
  prost_update_energy_limit :: "bytes \<Rightarrow> pb_update_energy_limit_contract option"
  prost_exchange_create :: "bytes \<Rightarrow> pb_exchange_create_contract option"
  prost_exchange_inject :: "bytes \<Rightarrow> pb_exchange_inject_contract option"
  prost_exchange_withdraw :: "bytes \<Rightarrow> pb_exchange_withdraw_contract option"
  prost_exchange_transaction :: "bytes \<Rightarrow> pb_exchange_transaction_contract option"
  prost_market_sell_asset :: "bytes \<Rightarrow> pb_market_sell_asset_contract option"
  prost_market_cancel_order :: "bytes \<Rightarrow> pb_market_cancel_order_contract option"

section \<open>The contract that is requested\<close>

fun requested_type :: "contract_type \<Rightarrow> pb_contract_type" where
  "requested_type (CtTransfer c) = PbTransferContract"
| "requested_type (CtTriggerSmartContract c) = PbTriggerSmartContract"
| "requested_type (CtFreezeBalanceV1 c) = PbFreezeBalanceContract"
| "requested_type (CtUnfreezeBalanceV1 c) = PbUnfreezeBalanceContract"
| "requested_type (CtFreezeBalanceV2 c) = PbFreezeBalanceV2Contract"
| "requested_type (CtUnfreezeBalanceV2 c) = PbUnfreezeBalanceV2Contract"
| "requested_type (CtDelegateResource c) = PbDelegateResourceContract"
| "requested_type (CtUnDelegateResource c) = PbUnDelegateResourceContract"
| "requested_type (CtWithdrawExpireUnfreeze c) = PbWithdrawExpireUnfreezeContract"
| "requested_type (CtCancelAllUnfreezeV2 c) = PbCancelAllUnfreezeV2Contract"
| "requested_type (CtWithdrawBalance c) = PbWithdrawBalanceContract"
| "requested_type (CtAccountPermissionUpdate c) = PbAccountPermissionUpdateContract"
| "requested_type (CtCreateSmartContract c) = PbCreateSmartContract"
| "requested_type (CtAssetIssue c) = PbAssetIssueContract"
| "requested_type (CtTransferAsset c) = PbTransferAssetContract"
| "requested_type (CtParticipateAssetIssue c) = PbParticipateAssetIssueContract"
| "requested_type (CtUnfreezeAsset c) = PbUnfreezeAssetContract"
| "requested_type (CtUpdateAsset c) = PbUpdateAssetContract"
| "requested_type (CtCreateAccount c) = PbAccountCreateContract"
| "requested_type (CtVoteWitness c) = PbVoteWitnessContract"
| "requested_type (CtUpdateAccount c) = PbAccountUpdateContract"
| "requested_type (CtProposalCreate c) = PbProposalCreateContract"
| "requested_type (CtProposalApprove c) = PbProposalApproveContract"
| "requested_type (CtProposalDelete c) = PbProposalDeleteContract"
| "requested_type (CtCreateWitness c) = PbWitnessCreateContract"
| "requested_type (CtUpdateWitness c) = PbWitnessUpdateContract"
| "requested_type (CtUpdateBrokerage c) = PbUpdateBrokerageContract"
| "requested_type (CtSetAccountId c) = PbSetAccountIdContract"
| "requested_type (CtClearContractAbi c) = PbClearAbiContract"
| "requested_type (CtUpdateSetting c) = PbUpdateSettingContract"
| "requested_type (CtUpdateEnergyLimit c) = PbUpdateEnergyLimitContract"
| "requested_type (CtExchangeCreate c) = PbExchangeCreateContract"
| "requested_type (CtExchangeInject c) = PbExchangeInjectContract"
| "requested_type (CtExchangeWithdraw c) = PbExchangeWithdrawContract"
| "requested_type (CtExchangeTransaction c) = PbExchangeTransactionContract"
| "requested_type (CtMarketSellAsset c) = PbMarketSellAssetContract"
| "requested_type (CtMarketCancelOrder c) = PbMarketCancelOrderContract"

text \<open>
  The fields of a deployment that the node derives (\<open>create_smart_contract\<close> in
  \<open>fullnode.rs\<close> clears them before it compares).
\<close>

definition clear_derived :: "pb_create_smart_contract \<Rightarrow> pb_create_smart_contract" where
  "clear_derived built =
     (case pb_create_smart_new_contract built of
        None \<Rightarrow> built
      | Some c \<Rightarrow> built\<lparr> pb_create_smart_new_contract := Some (c\<lparr>
          pb_smart_contract_address := [],
          pb_smart_code_hash := [],
          pb_smart_trx_hash := [],
          pb_smart_version := 0 \<rparr>) \<rparr>)"

fun holds_request :: "prost_contracts \<Rightarrow> contract_type \<Rightarrow> bytes \<Rightarrow> bool" where
  "holds_request P (CtTransfer c) v \<longleftrightarrow>
     prost_transfer P v = Some (transfer_to_proto c)"
| "holds_request P (CtTriggerSmartContract c) v \<longleftrightarrow>
     prost_trigger_smart P v = Some (trigger_smart_contract_to_proto c)"
| "holds_request P (CtFreezeBalanceV1 c) v \<longleftrightarrow>
     prost_freeze_balance_v1 P v = Some (freeze_balance_v1_to_proto c)"
| "holds_request P (CtUnfreezeBalanceV1 c) v \<longleftrightarrow>
     prost_unfreeze_balance_v1 P v = Some (unfreeze_balance_v1_to_proto c)"
| "holds_request P (CtFreezeBalanceV2 c) v \<longleftrightarrow>
     prost_freeze_balance_v2 P v = Some (freeze_balance_v2_to_proto c)"
| "holds_request P (CtUnfreezeBalanceV2 c) v \<longleftrightarrow>
     prost_unfreeze_balance_v2 P v = Some (unfreeze_balance_v2_to_proto c)"
| "holds_request P (CtDelegateResource c) v \<longleftrightarrow>
     prost_delegate_resource P v = Some (delegate_resource_to_proto c)"
| "holds_request P (CtUnDelegateResource c) v \<longleftrightarrow>
     prost_un_delegate_resource P v = Some (undelegate_resource_to_proto c)"
| "holds_request P (CtWithdrawExpireUnfreeze c) v \<longleftrightarrow>
     prost_withdraw_expire_unfreeze P v = Some (withdraw_expire_unfreeze_to_proto c)"
| "holds_request P (CtCancelAllUnfreezeV2 c) v \<longleftrightarrow>
     prost_cancel_all_unfreeze_v2 P v = Some (cancel_all_unfreeze_v2_to_proto c)"
| "holds_request P (CtWithdrawBalance c) v \<longleftrightarrow>
     prost_withdraw_balance P v = Some (withdraw_balance_to_proto c)"
| "holds_request P (CtAccountPermissionUpdate c) v \<longleftrightarrow>
     prost_account_permission_update P v = Some (account_permission_update_to_proto c)"
| "holds_request P (CtCreateSmartContract c) v \<longleftrightarrow>
     map_option clear_derived (prost_create_smart P v) = Some (create_smart_contract_to_proto c)"
| "holds_request P (CtAssetIssue c) v \<longleftrightarrow>
     prost_asset_issue P v = Some (asset_issue_to_proto c)"
| "holds_request P (CtTransferAsset c) v \<longleftrightarrow>
     prost_transfer_asset P v = Some (transfer_asset_to_proto c)"
| "holds_request P (CtParticipateAssetIssue c) v \<longleftrightarrow>
     prost_participate_asset_issue P v = Some (participate_asset_issue_to_proto c)"
| "holds_request P (CtUnfreezeAsset c) v \<longleftrightarrow>
     prost_unfreeze_asset P v = Some (unfreeze_asset_to_proto c)"
| "holds_request P (CtUpdateAsset c) v \<longleftrightarrow>
     prost_update_asset P v = Some (update_asset_to_proto c)"
| "holds_request P (CtCreateAccount c) v \<longleftrightarrow>
     prost_create_account P v = Some (create_account_to_proto c)"
| "holds_request P (CtVoteWitness c) v \<longleftrightarrow>
     prost_vote_witness P v = Some (vote_witness_to_proto c)"
| "holds_request P (CtUpdateAccount c) v \<longleftrightarrow>
     prost_update_account P v = Some (update_account_to_proto c)"
| "holds_request P (CtProposalCreate c) v \<longleftrightarrow>
     prost_proposal_create P v = Some (proposal_create_to_proto c)"
| "holds_request P (CtProposalApprove c) v \<longleftrightarrow>
     prost_proposal_approve P v = Some (proposal_approve_to_proto c)"
| "holds_request P (CtProposalDelete c) v \<longleftrightarrow>
     prost_proposal_delete P v = Some (proposal_delete_to_proto c)"
| "holds_request P (CtCreateWitness c) v \<longleftrightarrow>
     prost_create_witness P v = Some (create_witness_to_proto c)"
| "holds_request P (CtUpdateWitness c) v \<longleftrightarrow>
     prost_update_witness P v = Some (update_witness_to_proto c)"
| "holds_request P (CtUpdateBrokerage c) v \<longleftrightarrow>
     prost_update_brokerage P v = Some (update_brokerage_to_proto c)"
| "holds_request P (CtSetAccountId c) v \<longleftrightarrow>
     prost_set_account_id P v = Some (set_account_id_to_proto c)"
| "holds_request P (CtClearContractAbi c) v \<longleftrightarrow>
     prost_clear_abi P v = Some (clear_contract_abi_to_proto c)"
| "holds_request P (CtUpdateSetting c) v \<longleftrightarrow>
     prost_update_setting P v = Some (update_setting_to_proto c)"
| "holds_request P (CtUpdateEnergyLimit c) v \<longleftrightarrow>
     prost_update_energy_limit P v = Some (update_energy_limit_to_proto c)"
| "holds_request P (CtExchangeCreate c) v \<longleftrightarrow>
     prost_exchange_create P v = Some (exchange_create_to_proto c)"
| "holds_request P (CtExchangeInject c) v \<longleftrightarrow>
     prost_exchange_inject P v = Some (exchange_inject_to_proto c)"
| "holds_request P (CtExchangeWithdraw c) v \<longleftrightarrow>
     prost_exchange_withdraw P v = Some (exchange_withdraw_to_proto c)"
| "holds_request P (CtExchangeTransaction c) v \<longleftrightarrow>
     prost_exchange_transaction P v = Some (exchange_transaction_to_proto c)"
| "holds_request P (CtMarketSellAsset c) v \<longleftrightarrow>
     prost_market_sell_asset P v = Some (market_sell_asset_to_proto c)"
| "holds_request P (CtMarketCancelOrder c) v \<longleftrightarrow>
     prost_market_cancel_order P v = Some (market_cancel_order_to_proto c)"

section \<open>Reading a contract back\<close>

definition read_transfer :: "pb_transfer_contract \<Rightarrow> transfer_contract option" where
  "read_transfer m = Some
       \<lparr> transfer_owner_address = Address (pb_transfer_owner_address m),
         transfer_to_address = Address (pb_transfer_to_address m),
         transfer_amount = Trx (pb_transfer_amount m) \<rparr>"

definition read_trigger_smart :: "pb_trigger_smart_contract \<Rightarrow> trigger_smart_contract option" where
  "read_trigger_smart m = Some
       \<lparr> trigger_smart_owner_address = Address (pb_trigger_smart_owner_address m),
         trigger_smart_contract_address = Address (pb_trigger_smart_contract_address m),
         trigger_smart_call_value = Trx (pb_trigger_smart_call_value m),
         trigger_smart_data = pb_trigger_smart_data m,
         trigger_smart_call_token_value = Trx (pb_trigger_smart_call_token_value m),
         trigger_smart_token_id = pb_trigger_smart_token_id m \<rparr>"

definition read_freeze_balance_v1 :: "pb_freeze_balance_contract \<Rightarrow> freeze_balance_v1_contract option" where
  "read_freeze_balance_v1 m = map_option (\<lambda>r.
       \<lparr> freeze_balance_v1_owner_address = Address (pb_freeze_balance_owner_address m),
         freeze_balance_v1_frozen_balance = Trx (pb_freeze_balance_frozen_balance m),
         freeze_balance_v1_frozen_duration = pb_freeze_balance_frozen_duration m,
         freeze_balance_v1_resource = r,
         freeze_balance_v1_receiver_address = (if pb_freeze_balance_receiver_address m = [] then None else Some (Address (pb_freeze_balance_receiver_address m))) \<rparr>) (resource_from_i32 (pb_freeze_balance_resource m))"

definition read_unfreeze_balance_v1 :: "pb_unfreeze_balance_contract \<Rightarrow> unfreeze_balance_v1_contract option" where
  "read_unfreeze_balance_v1 m = map_option (\<lambda>r.
       \<lparr> unfreeze_balance_v1_owner_address = Address (pb_unfreeze_balance_owner_address m),
         unfreeze_balance_v1_resource = r,
         unfreeze_balance_v1_receiver_address = (if pb_unfreeze_balance_receiver_address m = [] then None else Some (Address (pb_unfreeze_balance_receiver_address m))) \<rparr>) (resource_from_i32 (pb_unfreeze_balance_resource m))"

definition read_freeze_balance_v2 :: "pb_freeze_balance_v2_contract \<Rightarrow> freeze_balance_v2_contract option" where
  "read_freeze_balance_v2 m = map_option (\<lambda>r.
       \<lparr> freeze_balance_v2_owner_address = Address (pb_freeze_balance_v2_owner_address m),
         freeze_balance_v2_frozen_balance = Trx (pb_freeze_balance_v2_frozen_balance m),
         freeze_balance_v2_resource = r \<rparr>) (resource_from_i32 (pb_freeze_balance_v2_resource m))"

definition read_unfreeze_balance_v2 :: "pb_unfreeze_balance_v2_contract \<Rightarrow> unfreeze_balance_v2_contract option" where
  "read_unfreeze_balance_v2 m = map_option (\<lambda>r.
       \<lparr> unfreeze_balance_v2_owner_address = Address (pb_unfreeze_balance_v2_owner_address m),
         unfreeze_balance_v2_unfreeze_balance = Trx (pb_unfreeze_balance_v2_unfreeze_balance m),
         unfreeze_balance_v2_resource = r \<rparr>) (resource_from_i32 (pb_unfreeze_balance_v2_resource m))"

definition read_delegate_resource :: "pb_delegate_resource_contract \<Rightarrow> delegate_resource_contract option" where
  "read_delegate_resource m = map_option (\<lambda>r.
       \<lparr> delegate_resource_owner_address = Address (pb_delegate_resource_owner_address m),
         delegate_resource_resource = r,
         delegate_resource_balance = Trx (pb_delegate_resource_balance m),
         delegate_resource_receiver_address = Address (pb_delegate_resource_receiver_address m),
         delegate_resource_lock_period = (if pb_delegate_resource_lock m then Some (pb_delegate_resource_lock_period m) else None) \<rparr>) (resource_from_i32 (pb_delegate_resource_resource m))"

definition read_un_delegate_resource :: "pb_un_delegate_resource_contract \<Rightarrow> un_delegate_resource_contract option" where
  "read_un_delegate_resource m = map_option (\<lambda>r.
       \<lparr> un_delegate_resource_owner_address = Address (pb_un_delegate_resource_owner_address m),
         un_delegate_resource_resource = r,
         un_delegate_resource_balance = Trx (pb_un_delegate_resource_balance m),
         un_delegate_resource_receiver_address = Address (pb_un_delegate_resource_receiver_address m) \<rparr>) (resource_from_i32 (pb_un_delegate_resource_resource m))"

definition read_withdraw_expire_unfreeze :: "pb_withdraw_expire_unfreeze_contract \<Rightarrow> withdraw_expire_unfreeze_contract option" where
  "read_withdraw_expire_unfreeze m = Some
       \<lparr> withdraw_expire_unfreeze_owner_address = Address (pb_withdraw_expire_unfreeze_owner_address m) \<rparr>"

definition read_cancel_all_unfreeze_v2 :: "pb_cancel_all_unfreeze_v2_contract \<Rightarrow> cancel_all_unfreeze_v2_contract option" where
  "read_cancel_all_unfreeze_v2 m = Some
       \<lparr> cancel_all_unfreeze_v2_owner_address = Address (pb_cancel_all_unfreeze_v2_owner_address m) \<rparr>"

definition read_withdraw_balance :: "pb_withdraw_balance_contract \<Rightarrow> withdraw_balance_contract option" where
  "read_withdraw_balance m = Some
       \<lparr> withdraw_balance_owner_address = Address (pb_withdraw_balance_owner_address m) \<rparr>"

definition read_permission :: "pb_permission \<Rightarrow> permission" where
  "read_permission m =
     \<lparr> permission_id = pb_permission_id m,
       permission_permission_name = pb_permission_permission_name m,
       permission_threshold = pb_permission_threshold m,
       permission_keys =
         map (\<lambda>k. \<lparr> permission_key_address = Address (pb_key_address k),
                     permission_key_weight = pb_key_weight k \<rparr>) (pb_permission_keys m),
       permission_operations =
         (if pb_permission_operations m = [] then opset_empty else OperationSet (pb_permission_operations m)) \<rparr>"

definition read_account_permission_update ::
  "pb_account_permission_update_contract \<Rightarrow> account_permission_update_contract option" where
  "read_account_permission_update m = Some
       \<lparr> account_permission_update_owner_address = Address (pb_account_permission_update_owner_address m),
         account_permission_update_owner = map_option read_permission (pb_account_permission_update_owner m),
         account_permission_update_witness = map_option read_permission (pb_account_permission_update_witness m),
         account_permission_update_actives = map read_permission (pb_account_permission_update_actives m) \<rparr>"

definition read_create_smart :: "pb_create_smart_contract \<Rightarrow> create_smart_contract option" where
  "read_create_smart m =
     (case pb_create_smart_new_contract m of
        None \<Rightarrow> None
      | Some s \<Rightarrow> Some
       \<lparr> create_smart_owner_address = Address (pb_create_smart_owner_address m),
         create_smart_bytecode = pb_smart_bytecode s,
         create_smart_abi = (case pb_smart_abi s of None \<Rightarrow> abi_new | Some a \<Rightarrow> abi_from_proto a),
         create_smart_call_value = Trx (pb_smart_call_value s),
         create_smart_consume_user_resource_percent = pb_smart_consume_user_resource_percent s,
         create_smart_origin_energy_limit = pb_smart_origin_energy_limit s,
         create_smart_name = pb_smart_name s \<rparr>)"

definition read_asset_issue :: "pb_asset_issue_contract \<Rightarrow> asset_issue_contract option" where
  "read_asset_issue m = Some
       \<lparr> asset_issue_owner_address = Address (pb_asset_issue_owner_address m),
         asset_issue_name = bytes_str (pb_asset_issue_name m),
         asset_issue_abbr = bytes_str (pb_asset_issue_abbr m),
         asset_issue_description = bytes_str (pb_asset_issue_description m),
         asset_issue_url = bytes_str (pb_asset_issue_url m),
         asset_issue_total_supply = pb_asset_issue_total_supply m,
         asset_issue_precision = pb_asset_issue_precision m,
         asset_issue_trx_num = pb_asset_issue_trx_num m,
         asset_issue_num = pb_asset_issue_num m,
         asset_issue_start_time = pb_asset_issue_start_time m,
         asset_issue_end_time = pb_asset_issue_end_time m,
         asset_issue_free_asset_net_limit = pb_asset_issue_free_asset_net_limit m,
         asset_issue_public_free_asset_net_limit = pb_asset_issue_public_free_asset_net_limit m,
         asset_issue_frozen_supply = map (\<lambda>f. \<lparr> frozen_supply_frozen_amount = pb_frozen_supply_frozen_amount f,
                     frozen_supply_frozen_days = pb_frozen_supply_frozen_days f \<rparr>)
           (pb_asset_issue_frozen_supply m) \<rparr>"

definition read_transfer_asset :: "pb_transfer_asset_contract \<Rightarrow> transfer_asset_contract option" where
  "read_transfer_asset m = Some
       \<lparr> transfer_asset_owner_address = Address (pb_transfer_asset_owner_address m),
         transfer_asset_to_address = Address (pb_transfer_asset_to_address m),
         transfer_asset_token_id = bytes_str (pb_transfer_asset_asset_name m),
         transfer_asset_amount = pb_transfer_asset_amount m \<rparr>"

definition read_participate_asset_issue :: "pb_participate_asset_issue_contract \<Rightarrow> participate_asset_issue_contract option" where
  "read_participate_asset_issue m = Some
       \<lparr> participate_asset_issue_owner_address = Address (pb_participate_asset_issue_owner_address m),
         participate_asset_issue_to_address = Address (pb_participate_asset_issue_to_address m),
         participate_asset_issue_token_id = bytes_str (pb_participate_asset_issue_asset_name m),
         participate_asset_issue_amount = pb_participate_asset_issue_amount m \<rparr>"

definition read_unfreeze_asset :: "pb_unfreeze_asset_contract \<Rightarrow> unfreeze_asset_contract option" where
  "read_unfreeze_asset m = Some
       \<lparr> unfreeze_asset_owner_address = Address (pb_unfreeze_asset_owner_address m) \<rparr>"

definition read_update_asset :: "pb_update_asset_contract \<Rightarrow> update_asset_contract option" where
  "read_update_asset m = Some
       \<lparr> update_asset_owner_address = Address (pb_update_asset_owner_address m),
         update_asset_description = bytes_str (pb_update_asset_description m),
         update_asset_url = bytes_str (pb_update_asset_url m),
         update_asset_new_limit = pb_update_asset_new_limit m,
         update_asset_new_public_limit = pb_update_asset_new_public_limit m \<rparr>"

definition read_create_account :: "pb_account_create_contract \<Rightarrow> create_account_contract option" where
  "read_create_account m = Some
       \<lparr> create_account_owner_address = Address (pb_account_create_owner_address m),
         create_account_account_address = Address (pb_account_create_account_address m) \<rparr>"

definition read_vote_witness :: "pb_vote_witness_contract \<Rightarrow> vote_witness_contract option" where
  "read_vote_witness m = Some
       \<lparr> vote_witness_owner_address = Address (pb_vote_witness_owner_address m),
         vote_witness_votes =
           map (\<lambda>v. \<lparr> sr_vote_vote_address = Address (pb_witness_vote_vote_address v),
                       sr_vote_vote_count = pb_witness_vote_vote_count v \<rparr>) (pb_vote_witness_votes m) \<rparr>"

definition read_update_account :: "pb_account_update_contract \<Rightarrow> update_account_contract option" where
  "read_update_account m = Some
       \<lparr> update_account_owner_address = Address (pb_account_update_owner_address m),
         update_account_name = bytes_str (pb_account_update_account_name m) \<rparr>"

definition read_proposal_create :: "pb_proposal_create_contract \<Rightarrow> proposal_create_contract option" where
  "read_proposal_create m = Some
       \<lparr> proposal_create_owner_address = Address (pb_proposal_create_owner_address m),
         proposal_create_parameters = pb_proposal_create_parameters m \<rparr>"

definition read_proposal_approve :: "pb_proposal_approve_contract \<Rightarrow> proposal_approve_contract option" where
  "read_proposal_approve m = Some
       \<lparr> proposal_approve_owner_address = Address (pb_proposal_approve_owner_address m),
         proposal_approve_proposal_id = pb_proposal_approve_proposal_id m,
         proposal_approve_is_add_approval = pb_proposal_approve_is_add_approval m \<rparr>"

definition read_proposal_delete :: "pb_proposal_delete_contract \<Rightarrow> proposal_delete_contract option" where
  "read_proposal_delete m = Some
       \<lparr> proposal_delete_owner_address = Address (pb_proposal_delete_owner_address m),
         proposal_delete_proposal_id = pb_proposal_delete_proposal_id m \<rparr>"

definition read_create_witness :: "pb_witness_create_contract \<Rightarrow> create_witness_contract option" where
  "read_create_witness m = Some
       \<lparr> create_witness_owner_address = Address (pb_witness_create_owner_address m),
         create_witness_url = bytes_str (pb_witness_create_url m) \<rparr>"

definition read_update_witness :: "pb_witness_update_contract \<Rightarrow> update_witness_contract option" where
  "read_update_witness m = Some
       \<lparr> update_witness_owner_address = Address (pb_witness_update_owner_address m),
         update_witness_update_url = bytes_str (pb_witness_update_update_url m) \<rparr>"

definition read_update_brokerage :: "pb_update_brokerage_contract \<Rightarrow> update_brokerage_contract option" where
  "read_update_brokerage m = Some
       \<lparr> update_brokerage_owner_address = Address (pb_update_brokerage_owner_address m),
         update_brokerage_brokerage = pb_update_brokerage_brokerage m \<rparr>"

definition read_set_account_id :: "pb_set_account_id_contract \<Rightarrow> set_account_id_contract option" where
  "read_set_account_id m = Some
       \<lparr> set_account_id_owner_address = Address (pb_set_account_id_owner_address m),
         set_account_id_account_id = bytes_str (pb_set_account_id_account_id m) \<rparr>"

definition read_clear_abi :: "pb_clear_abi_contract \<Rightarrow> clear_contract_abi_contract option" where
  "read_clear_abi m = Some
       \<lparr> clear_abi_owner_address = Address (pb_clear_abi_owner_address m),
         clear_abi_contract_address = Address (pb_clear_abi_contract_address m) \<rparr>"

definition read_update_setting :: "pb_update_setting_contract \<Rightarrow> update_setting_contract option" where
  "read_update_setting m = Some
       \<lparr> update_setting_owner_address = Address (pb_update_setting_owner_address m),
         update_setting_contract_address = Address (pb_update_setting_contract_address m),
         update_setting_consume_user_resource_percent = pb_update_setting_consume_user_resource_percent m \<rparr>"

definition read_update_energy_limit :: "pb_update_energy_limit_contract \<Rightarrow> update_energy_limit_contract option" where
  "read_update_energy_limit m = Some
       \<lparr> update_energy_limit_owner_address = Address (pb_update_energy_limit_owner_address m),
         update_energy_limit_contract_address = Address (pb_update_energy_limit_contract_address m),
         update_energy_limit_origin_energy_limit = pb_update_energy_limit_origin_energy_limit m \<rparr>"

definition read_exchange_create :: "pb_exchange_create_contract \<Rightarrow> exchange_create_contract option" where
  "read_exchange_create m = Some
       \<lparr> exchange_create_owner_address = Address (pb_exchange_create_owner_address m),
         exchange_create_first_token_id = bytes_str (pb_exchange_create_first_token_id m),
         exchange_create_first_token_balance = pb_exchange_create_first_token_balance m,
         exchange_create_second_token_id = bytes_str (pb_exchange_create_second_token_id m),
         exchange_create_second_token_balance = pb_exchange_create_second_token_balance m \<rparr>"

definition read_exchange_inject :: "pb_exchange_inject_contract \<Rightarrow> exchange_inject_contract option" where
  "read_exchange_inject m = Some
       \<lparr> exchange_inject_owner_address = Address (pb_exchange_inject_owner_address m),
         exchange_inject_exchange_id = pb_exchange_inject_exchange_id m,
         exchange_inject_token_id = bytes_str (pb_exchange_inject_token_id m),
         exchange_inject_quant = pb_exchange_inject_quant m \<rparr>"

definition read_exchange_withdraw :: "pb_exchange_withdraw_contract \<Rightarrow> exchange_withdraw_contract option" where
  "read_exchange_withdraw m = Some
       \<lparr> exchange_withdraw_owner_address = Address (pb_exchange_withdraw_owner_address m),
         exchange_withdraw_exchange_id = pb_exchange_withdraw_exchange_id m,
         exchange_withdraw_token_id = bytes_str (pb_exchange_withdraw_token_id m),
         exchange_withdraw_quant = pb_exchange_withdraw_quant m \<rparr>"

definition read_exchange_transaction :: "pb_exchange_transaction_contract \<Rightarrow> exchange_transaction_contract option" where
  "read_exchange_transaction m = Some
       \<lparr> exchange_transaction_owner_address = Address (pb_exchange_transaction_owner_address m),
         exchange_transaction_exchange_id = pb_exchange_transaction_exchange_id m,
         exchange_transaction_token_id = bytes_str (pb_exchange_transaction_token_id m),
         exchange_transaction_quant = pb_exchange_transaction_quant m,
         exchange_transaction_expected = pb_exchange_transaction_expected m \<rparr>"

definition read_market_sell_asset :: "pb_market_sell_asset_contract \<Rightarrow> market_sell_asset_contract option" where
  "read_market_sell_asset m = Some
       \<lparr> market_sell_asset_owner_address = Address (pb_market_sell_asset_owner_address m),
         market_sell_asset_sell_token_id = bytes_str (pb_market_sell_asset_sell_token_id m),
         market_sell_asset_sell_token_quantity = pb_market_sell_asset_sell_token_quantity m,
         market_sell_asset_buy_token_id = bytes_str (pb_market_sell_asset_buy_token_id m),
         market_sell_asset_buy_token_quantity = pb_market_sell_asset_buy_token_quantity m \<rparr>"

definition read_market_cancel_order :: "pb_market_cancel_order_contract \<Rightarrow> market_cancel_order_contract option" where
  "read_market_cancel_order m = Some
       \<lparr> market_cancel_order_owner_address = Address (pb_market_cancel_order_owner_address m),
         market_cancel_order_order_id = pb_market_cancel_order_order_id m \<rparr>"

fun contract_meaning :: "prost_contracts \<Rightarrow> pb_contract_type \<Rightarrow> bytes \<Rightarrow> contract_type option" where
  "contract_meaning P PbTransferContract v =
     map_option CtTransfer (Option.bind (prost_transfer P v) read_transfer)"
| "contract_meaning P PbTriggerSmartContract v =
     map_option CtTriggerSmartContract (Option.bind (prost_trigger_smart P v) read_trigger_smart)"
| "contract_meaning P PbFreezeBalanceContract v =
     map_option CtFreezeBalanceV1 (Option.bind (prost_freeze_balance_v1 P v) read_freeze_balance_v1)"
| "contract_meaning P PbUnfreezeBalanceContract v =
     map_option CtUnfreezeBalanceV1 (Option.bind (prost_unfreeze_balance_v1 P v) read_unfreeze_balance_v1)"
| "contract_meaning P PbFreezeBalanceV2Contract v =
     map_option CtFreezeBalanceV2 (Option.bind (prost_freeze_balance_v2 P v) read_freeze_balance_v2)"
| "contract_meaning P PbUnfreezeBalanceV2Contract v =
     map_option CtUnfreezeBalanceV2 (Option.bind (prost_unfreeze_balance_v2 P v) read_unfreeze_balance_v2)"
| "contract_meaning P PbDelegateResourceContract v =
     map_option CtDelegateResource (Option.bind (prost_delegate_resource P v) read_delegate_resource)"
| "contract_meaning P PbUnDelegateResourceContract v =
     map_option CtUnDelegateResource (Option.bind (prost_un_delegate_resource P v) read_un_delegate_resource)"
| "contract_meaning P PbWithdrawExpireUnfreezeContract v =
     map_option CtWithdrawExpireUnfreeze (Option.bind (prost_withdraw_expire_unfreeze P v) read_withdraw_expire_unfreeze)"
| "contract_meaning P PbCancelAllUnfreezeV2Contract v =
     map_option CtCancelAllUnfreezeV2 (Option.bind (prost_cancel_all_unfreeze_v2 P v) read_cancel_all_unfreeze_v2)"
| "contract_meaning P PbWithdrawBalanceContract v =
     map_option CtWithdrawBalance (Option.bind (prost_withdraw_balance P v) read_withdraw_balance)"
| "contract_meaning P PbAccountPermissionUpdateContract v =
     map_option CtAccountPermissionUpdate (Option.bind (prost_account_permission_update P v) read_account_permission_update)"
| "contract_meaning P PbCreateSmartContract v =
     map_option CtCreateSmartContract (Option.bind (prost_create_smart P v) read_create_smart)"
| "contract_meaning P PbAssetIssueContract v =
     map_option CtAssetIssue (Option.bind (prost_asset_issue P v) read_asset_issue)"
| "contract_meaning P PbTransferAssetContract v =
     map_option CtTransferAsset (Option.bind (prost_transfer_asset P v) read_transfer_asset)"
| "contract_meaning P PbParticipateAssetIssueContract v =
     map_option CtParticipateAssetIssue (Option.bind (prost_participate_asset_issue P v) read_participate_asset_issue)"
| "contract_meaning P PbUnfreezeAssetContract v =
     map_option CtUnfreezeAsset (Option.bind (prost_unfreeze_asset P v) read_unfreeze_asset)"
| "contract_meaning P PbUpdateAssetContract v =
     map_option CtUpdateAsset (Option.bind (prost_update_asset P v) read_update_asset)"
| "contract_meaning P PbAccountCreateContract v =
     map_option CtCreateAccount (Option.bind (prost_create_account P v) read_create_account)"
| "contract_meaning P PbVoteWitnessContract v =
     map_option CtVoteWitness (Option.bind (prost_vote_witness P v) read_vote_witness)"
| "contract_meaning P PbAccountUpdateContract v =
     map_option CtUpdateAccount (Option.bind (prost_update_account P v) read_update_account)"
| "contract_meaning P PbProposalCreateContract v =
     map_option CtProposalCreate (Option.bind (prost_proposal_create P v) read_proposal_create)"
| "contract_meaning P PbProposalApproveContract v =
     map_option CtProposalApprove (Option.bind (prost_proposal_approve P v) read_proposal_approve)"
| "contract_meaning P PbProposalDeleteContract v =
     map_option CtProposalDelete (Option.bind (prost_proposal_delete P v) read_proposal_delete)"
| "contract_meaning P PbWitnessCreateContract v =
     map_option CtCreateWitness (Option.bind (prost_create_witness P v) read_create_witness)"
| "contract_meaning P PbWitnessUpdateContract v =
     map_option CtUpdateWitness (Option.bind (prost_update_witness P v) read_update_witness)"
| "contract_meaning P PbUpdateBrokerageContract v =
     map_option CtUpdateBrokerage (Option.bind (prost_update_brokerage P v) read_update_brokerage)"
| "contract_meaning P PbSetAccountIdContract v =
     map_option CtSetAccountId (Option.bind (prost_set_account_id P v) read_set_account_id)"
| "contract_meaning P PbClearAbiContract v =
     map_option CtClearContractAbi (Option.bind (prost_clear_abi P v) read_clear_abi)"
| "contract_meaning P PbUpdateSettingContract v =
     map_option CtUpdateSetting (Option.bind (prost_update_setting P v) read_update_setting)"
| "contract_meaning P PbUpdateEnergyLimitContract v =
     map_option CtUpdateEnergyLimit (Option.bind (prost_update_energy_limit P v) read_update_energy_limit)"
| "contract_meaning P PbExchangeCreateContract v =
     map_option CtExchangeCreate (Option.bind (prost_exchange_create P v) read_exchange_create)"
| "contract_meaning P PbExchangeInjectContract v =
     map_option CtExchangeInject (Option.bind (prost_exchange_inject P v) read_exchange_inject)"
| "contract_meaning P PbExchangeWithdrawContract v =
     map_option CtExchangeWithdraw (Option.bind (prost_exchange_withdraw P v) read_exchange_withdraw)"
| "contract_meaning P PbExchangeTransactionContract v =
     map_option CtExchangeTransaction (Option.bind (prost_exchange_transaction P v) read_exchange_transaction)"
| "contract_meaning P PbMarketSellAssetContract v =
     map_option CtMarketSellAsset (Option.bind (prost_market_sell_asset P v) read_market_sell_asset)"
| "contract_meaning P PbMarketCancelOrderContract v =
     map_option CtMarketCancelOrder (Option.bind (prost_market_cancel_order P v) read_market_cancel_order)"
| "contract_meaning P PbVoteAssetContract v = None"
| "contract_meaning P PbCustomContract v = None"
| "contract_meaning P PbGetContract v = None"
| "contract_meaning P PbShieldedTransferContract v = None"

section \<open>What is read is what was sent\<close>

named_theorems meaning_simps \<open>reading a message that was just written\<close>

lemma Trx_as_sun [simp]: "Trx (as_sun a) = a"
  by (cases a) simp

lemma resource_back [simp]: "resource_from_i32 (resource_as_i32 r) = Some r"
  by (rule resource_disc.of_to_disc)

text \<open>
  The requests that the wire can express exactly: a receiver is a whole address, the operations
  of owner and witness permissions, which are not sent, are empty, and an ABI names every
  category that has a name.
\<close>

fun wire_exact :: "contract_type \<Rightarrow> bool" where
  "wire_exact (CtAccountPermissionUpdate c) \<longleftrightarrow>
     (\<forall>p. account_permission_update_owner c = Some p \<longrightarrow> permission_operations p = opset_empty)
     \<and> (\<forall>p. account_permission_update_witness c = Some p \<longrightarrow> permission_operations p = opset_empty)
     \<and> (\<forall>p\<in>set (account_permission_update_actives c). wf_opset (permission_operations p))"
| "wire_exact (CtCreateSmartContract c) \<longleftrightarrow> list_all canonical_entry (abi_entries (create_smart_abi c))"
| "wire_exact (CtFreezeBalanceV1 c) \<longleftrightarrow> freeze_balance_v1_receiver_address c \<noteq> Some (Address [])"
| "wire_exact (CtUnfreezeBalanceV1 c) \<longleftrightarrow> unfreeze_balance_v1_receiver_address c \<noteq> Some (Address [])"
| "wire_exact c \<longleftrightarrow> True"

lemma read_transfer_back [meaning_simps]: "read_transfer (transfer_to_proto c) = Some c"
  by (cases c) (simp add: read_transfer_def transfer_to_proto_def addr_bytes_def)

lemma read_trigger_smart_back [meaning_simps]: "read_trigger_smart (trigger_smart_contract_to_proto c) = Some c"
  by (cases c) (simp add: read_trigger_smart_def trigger_smart_contract_to_proto_def addr_bytes_def)

lemma read_freeze_balance_v2_back [meaning_simps]: "read_freeze_balance_v2 (freeze_balance_v2_to_proto c) = Some c"
  by (cases c) (simp add: read_freeze_balance_v2_def freeze_balance_v2_to_proto_def addr_bytes_def)

lemma read_unfreeze_balance_v2_back [meaning_simps]: "read_unfreeze_balance_v2 (unfreeze_balance_v2_to_proto c) = Some c"
  by (cases c) (simp add: read_unfreeze_balance_v2_def unfreeze_balance_v2_to_proto_def addr_bytes_def)

lemma read_delegate_resource_back [meaning_simps]: "read_delegate_resource (delegate_resource_to_proto c) = Some c"
  by (cases c) (simp add: read_delegate_resource_def delegate_resource_to_proto_def addr_bytes_def split: option.split)

lemma read_un_delegate_resource_back [meaning_simps]: "read_un_delegate_resource (undelegate_resource_to_proto c) = Some c"
  by (cases c) (simp add: read_un_delegate_resource_def undelegate_resource_to_proto_def addr_bytes_def)

lemma read_withdraw_expire_unfreeze_back [meaning_simps]: "read_withdraw_expire_unfreeze (withdraw_expire_unfreeze_to_proto c) = Some c"
  by (cases c) (simp add: read_withdraw_expire_unfreeze_def withdraw_expire_unfreeze_to_proto_def addr_bytes_def)

lemma read_cancel_all_unfreeze_v2_back [meaning_simps]: "read_cancel_all_unfreeze_v2 (cancel_all_unfreeze_v2_to_proto c) = Some c"
  by (cases c) (simp add: read_cancel_all_unfreeze_v2_def cancel_all_unfreeze_v2_to_proto_def addr_bytes_def)

lemma read_withdraw_balance_back [meaning_simps]: "read_withdraw_balance (withdraw_balance_to_proto c) = Some c"
  by (cases c) (simp add: read_withdraw_balance_def withdraw_balance_to_proto_def addr_bytes_def)

lemma read_transfer_asset_back [meaning_simps]: "read_transfer_asset (transfer_asset_to_proto c) = Some c"
  by (cases c) (simp add: read_transfer_asset_def transfer_asset_to_proto_def addr_bytes_def)

lemma read_participate_asset_issue_back [meaning_simps]: "read_participate_asset_issue (participate_asset_issue_to_proto c) = Some c"
  by (cases c) (simp add: read_participate_asset_issue_def participate_asset_issue_to_proto_def addr_bytes_def)

lemma read_unfreeze_asset_back [meaning_simps]: "read_unfreeze_asset (unfreeze_asset_to_proto c) = Some c"
  by (cases c) (simp add: read_unfreeze_asset_def unfreeze_asset_to_proto_def addr_bytes_def)

lemma read_update_asset_back [meaning_simps]: "read_update_asset (update_asset_to_proto c) = Some c"
  by (cases c) (simp add: read_update_asset_def update_asset_to_proto_def addr_bytes_def)

lemma read_create_account_back [meaning_simps]: "read_create_account (create_account_to_proto c) = Some c"
  by (cases c) (simp add: read_create_account_def create_account_to_proto_def addr_bytes_def)

lemma read_update_account_back [meaning_simps]: "read_update_account (update_account_to_proto c) = Some c"
  by (cases c) (simp add: read_update_account_def update_account_to_proto_def addr_bytes_def)

lemma read_proposal_create_back [meaning_simps]: "read_proposal_create (proposal_create_to_proto c) = Some c"
  by (cases c) (simp add: read_proposal_create_def proposal_create_to_proto_def addr_bytes_def)

lemma read_proposal_approve_back [meaning_simps]: "read_proposal_approve (proposal_approve_to_proto c) = Some c"
  by (cases c) (simp add: read_proposal_approve_def proposal_approve_to_proto_def addr_bytes_def)

lemma read_proposal_delete_back [meaning_simps]: "read_proposal_delete (proposal_delete_to_proto c) = Some c"
  by (cases c) (simp add: read_proposal_delete_def proposal_delete_to_proto_def addr_bytes_def)

lemma read_create_witness_back [meaning_simps]: "read_create_witness (create_witness_to_proto c) = Some c"
  by (cases c) (simp add: read_create_witness_def create_witness_to_proto_def addr_bytes_def)

lemma read_update_witness_back [meaning_simps]: "read_update_witness (update_witness_to_proto c) = Some c"
  by (cases c) (simp add: read_update_witness_def update_witness_to_proto_def addr_bytes_def)

lemma read_update_brokerage_back [meaning_simps]: "read_update_brokerage (update_brokerage_to_proto c) = Some c"
  by (cases c) (simp add: read_update_brokerage_def update_brokerage_to_proto_def addr_bytes_def)

lemma read_set_account_id_back [meaning_simps]: "read_set_account_id (set_account_id_to_proto c) = Some c"
  by (cases c) (simp add: read_set_account_id_def set_account_id_to_proto_def addr_bytes_def)

lemma read_clear_abi_back [meaning_simps]: "read_clear_abi (clear_contract_abi_to_proto c) = Some c"
  by (cases c) (simp add: read_clear_abi_def clear_contract_abi_to_proto_def addr_bytes_def)

lemma read_update_setting_back [meaning_simps]: "read_update_setting (update_setting_to_proto c) = Some c"
  by (cases c) (simp add: read_update_setting_def update_setting_to_proto_def addr_bytes_def)

lemma read_update_energy_limit_back [meaning_simps]: "read_update_energy_limit (update_energy_limit_to_proto c) = Some c"
  by (cases c) (simp add: read_update_energy_limit_def update_energy_limit_to_proto_def addr_bytes_def)

lemma read_exchange_create_back [meaning_simps]: "read_exchange_create (exchange_create_to_proto c) = Some c"
  by (cases c) (simp add: read_exchange_create_def exchange_create_to_proto_def addr_bytes_def)

lemma read_exchange_inject_back [meaning_simps]: "read_exchange_inject (exchange_inject_to_proto c) = Some c"
  by (cases c) (simp add: read_exchange_inject_def exchange_inject_to_proto_def addr_bytes_def)

lemma read_exchange_withdraw_back [meaning_simps]: "read_exchange_withdraw (exchange_withdraw_to_proto c) = Some c"
  by (cases c) (simp add: read_exchange_withdraw_def exchange_withdraw_to_proto_def addr_bytes_def)

lemma read_exchange_transaction_back [meaning_simps]: "read_exchange_transaction (exchange_transaction_to_proto c) = Some c"
  by (cases c) (simp add: read_exchange_transaction_def exchange_transaction_to_proto_def addr_bytes_def)

lemma read_market_sell_asset_back [meaning_simps]: "read_market_sell_asset (market_sell_asset_to_proto c) = Some c"
  by (cases c) (simp add: read_market_sell_asset_def market_sell_asset_to_proto_def addr_bytes_def)

lemma read_market_cancel_order_back [meaning_simps]: "read_market_cancel_order (market_cancel_order_to_proto c) = Some c"
  by (cases c) (simp add: read_market_cancel_order_def market_cancel_order_to_proto_def addr_bytes_def)

lemma read_freeze_balance_v1_back [meaning_simps]:
  "freeze_balance_v1_receiver_address c \<noteq> Some (Address [])
   \<Longrightarrow> read_freeze_balance_v1 (freeze_balance_v1_to_proto c) = Some c"
  by (cases c) (auto simp: read_freeze_balance_v1_def freeze_balance_v1_to_proto_def addr_bytes_def
      address.expand split: option.split)

lemma read_unfreeze_balance_v1_back [meaning_simps]:
  "unfreeze_balance_v1_receiver_address c \<noteq> Some (Address [])
   \<Longrightarrow> read_unfreeze_balance_v1 (unfreeze_balance_v1_to_proto c) = Some c"
  by (cases c) (auto simp: read_unfreeze_balance_v1_def unfreeze_balance_v1_to_proto_def addr_bytes_def
      address.expand split: option.split)

lemma record_eta [simp]:
  "\<lparr> permission_key_address = permission_key_address k, permission_key_weight = permission_key_weight k \<rparr> = k"
  "\<lparr> frozen_supply_frozen_amount = frozen_supply_frozen_amount f,
     frozen_supply_frozen_days = frozen_supply_frozen_days f \<rparr> = f"
  "\<lparr> sr_vote_vote_address = sr_vote_vote_address v, sr_vote_vote_count = sr_vote_vote_count v \<rparr> = v"
  by simp_all

lemma read_asset_issue_back [meaning_simps]: "read_asset_issue (asset_issue_to_proto c) = Some c"
  by (cases c) (simp add: read_asset_issue_def asset_issue_to_proto_def addr_bytes_def comp_def)

lemma read_vote_witness_back [meaning_simps]: "read_vote_witness (vote_witness_to_proto c) = Some c"
  by (cases c) (simp add: read_vote_witness_def vote_witness_to_proto_def addr_bytes_def comp_def)

lemma read_permission_back:
  "ty = PermActive \<and> wf_opset (permission_operations p) \<or> ty \<noteq> PermActive \<and> permission_operations p = opset_empty
   \<Longrightarrow> read_permission (permission_to_proto p ty) = p"
  by (cases p; cases ty)
    (auto simp: read_permission_def permission_to_proto_def addr_bytes_def comp_def wf_opset_def)

lemma read_account_permission_update_back [meaning_simps]:
  "wire_exact (CtAccountPermissionUpdate c)
   \<Longrightarrow> read_account_permission_update (account_permission_update_to_proto c) = Some c"
  by (cases c) (auto simp: read_account_permission_update_def account_permission_update_to_proto_def
      addr_bytes_def read_permission_back option.map_comp comp_def intro!: option.map_ident_strong map_idI)

lemma read_create_smart_derived: "read_create_smart (clear_derived m) = read_create_smart m"
  by (simp add: read_create_smart_def clear_derived_def split: option.split)

lemma read_create_smart_back:
  "wire_exact (CtCreateSmartContract c) \<Longrightarrow> read_create_smart (create_smart_contract_to_proto c) = Some c"
  by (cases c) (simp add: read_create_smart_def create_smart_contract_to_proto_def addr_bytes_def
      abi_canonical)

lemma read_create_smart_built [meaning_simps]:
  assumes "wire_exact (CtCreateSmartContract c)"
    and "map_option clear_derived m = Some (create_smart_contract_to_proto c)"
  shows "Option.bind m read_create_smart = Some c"
  using read_create_smart_back [OF assms(1)] assms(2) read_create_smart_derived by (cases m) (auto, metis)

text \<open>
  The parameter that holds a request means that request and no other: read back by the number
  of the contract and the bytes of its parameter, it is the contract that was asked for.
\<close>

lemma contract_meaning_of_request:
  assumes "holds_request P c v" and "wire_exact c"
  shows "contract_meaning P (requested_type c) v = Some c"
  using assms by (cases c) (simp_all add: meaning_simps)

text \<open>A decoder of transfers by the tags of \<open>TransferContract\<close>.\<close>

definition enc_transfer_message :: "pb_transfer_contract \<Rightarrow> bytes" where
  "enc_transfer_message m = enc_fields
     (put_bytes 1 (pb_transfer_owner_address m) @ put_bytes 2 (pb_transfer_to_address m)
      @ put_i64 3 (pb_transfer_amount m))"

definition dec_transfer_message :: "bytes \<Rightarrow> pb_transfer_contract option" where
  "dec_transfer_message bs = Option.bind (parse_fields bs) (\<lambda>fs.
     Some \<lparr> pb_transfer_owner_address = get_bytes 1 fs, pb_transfer_to_address = get_bytes 2 fs,
            pb_transfer_amount = get_i64 3 fs \<rparr>)"

lemma dec_transfer_enc:
  "length (enc_transfer_message m) < 2 ^ 63 \<Longrightarrow> dec_transfer_message (enc_transfer_message m) = Some m"
  unfolding dec_transfer_message_def enc_transfer_message_def
  by (subst parse_enc_fields) (simp_all add: wire_simps get_scalars)

definition transfer_decoders :: prost_contracts where
  "transfer_decoders =
     \<lparr> prost_transfer = dec_transfer_message,
       prost_trigger_smart = (\<lambda>_. None),
       prost_freeze_balance_v1 = (\<lambda>_. None),
       prost_unfreeze_balance_v1 = (\<lambda>_. None),
       prost_freeze_balance_v2 = (\<lambda>_. None),
       prost_unfreeze_balance_v2 = (\<lambda>_. None),
       prost_delegate_resource = (\<lambda>_. None),
       prost_un_delegate_resource = (\<lambda>_. None),
       prost_withdraw_expire_unfreeze = (\<lambda>_. None),
       prost_cancel_all_unfreeze_v2 = (\<lambda>_. None),
       prost_withdraw_balance = (\<lambda>_. None),
       prost_account_permission_update = (\<lambda>_. None),
       prost_create_smart = (\<lambda>_. None),
       prost_asset_issue = (\<lambda>_. None),
       prost_transfer_asset = (\<lambda>_. None),
       prost_participate_asset_issue = (\<lambda>_. None),
       prost_unfreeze_asset = (\<lambda>_. None),
       prost_update_asset = (\<lambda>_. None),
       prost_create_account = (\<lambda>_. None),
       prost_vote_witness = (\<lambda>_. None),
       prost_update_account = (\<lambda>_. None),
       prost_proposal_create = (\<lambda>_. None),
       prost_proposal_approve = (\<lambda>_. None),
       prost_proposal_delete = (\<lambda>_. None),
       prost_create_witness = (\<lambda>_. None),
       prost_update_witness = (\<lambda>_. None),
       prost_update_brokerage = (\<lambda>_. None),
       prost_set_account_id = (\<lambda>_. None),
       prost_clear_abi = (\<lambda>_. None),
       prost_update_setting = (\<lambda>_. None),
       prost_update_energy_limit = (\<lambda>_. None),
       prost_exchange_create = (\<lambda>_. None),
       prost_exchange_inject = (\<lambda>_. None),
       prost_exchange_withdraw = (\<lambda>_. None),
       prost_exchange_transaction = (\<lambda>_. None),
       prost_market_sell_asset = (\<lambda>_. None),
       prost_market_cancel_order = (\<lambda>_. None) \<rparr>"

definition sample_transfer :: transfer_contract where
  "sample_transfer =
     \<lparr> transfer_owner_address = Address [2], transfer_to_address = Address [3], transfer_amount = Trx 1 \<rparr>"

lemma sample_transfer_held:
  "holds_request transfer_decoders (CtTransfer sample_transfer)
     (enc_transfer_message (transfer_to_proto sample_transfer))"
proof -
  have "length (enc_transfer_message (transfer_to_proto sample_transfer)) < 2 ^ 63"
    by (simp add: enc_transfer_message_def transfer_to_proto_def sample_transfer_def addr_bytes_def
        put_bytes_def put_i64_def enc_field_def len_field_def)
  then show ?thesis by (simp add: transfer_decoders_def dec_transfer_enc)
qed

end
