(* ===== verification/Grpc_Build.thy ===== *)
theory Grpc_Build
  imports Node_Guard Contract_Meaning Provider
begin

text \<open>
  The methods of the gRPC transport that ask a node to build a transaction
  (\<open>impl TronTransport for GrpcTransport\<close> in
  \<open>crates/provider/src/transport/grpc/fullnode.rs\<close>), gathered into the transport that
  \<open>build_via_transport\<close> routes to.  The methods of the \<open>tonic\<close> client are a record of functions.
\<close>

section \<open>The client\<close>

type_synonym ('q, 'w) building = "('q, pb_transaction_extention, 'w) tonic_method"

record 'w wallet_client =
  wk_create_transaction2 :: "(pb_transfer_contract, 'w) building"
  wk_account_permission_update :: "(pb_account_permission_update_contract, 'w) building"
  wk_deploy_contract :: "(pb_create_smart_contract, 'w) building"
  wk_trigger_contract :: "(pb_trigger_smart_contract, 'w) building"
  wk_freeze_balance2 :: "(pb_freeze_balance_contract, 'w) building"
  wk_unfreeze_balance2 :: "(pb_unfreeze_balance_contract, 'w) building"
  wk_freeze_balance_v2 :: "(pb_freeze_balance_v2_contract, 'w) building"
  wk_unfreeze_balance_v2 :: "(pb_unfreeze_balance_v2_contract, 'w) building"
  wk_delegate_resource :: "(pb_delegate_resource_contract, 'w) building"
  wk_un_delegate_resource :: "(pb_un_delegate_resource_contract, 'w) building"
  wk_withdraw_expire_unfreeze :: "(pb_withdraw_expire_unfreeze_contract, 'w) building"
  wk_cancel_all_unfreeze_v2 :: "(pb_cancel_all_unfreeze_v2_contract, 'w) building"
  wk_withdraw_balance2 :: "(pb_withdraw_balance_contract, 'w) building"
  wk_proposal_create :: "(pb_proposal_create_contract, 'w) building"
  wk_proposal_approve :: "(pb_proposal_approve_contract, 'w) building"
  wk_proposal_delete :: "(pb_proposal_delete_contract, 'w) building"
  wk_create_asset_issue2 :: "(pb_asset_issue_contract, 'w) building"
  wk_transfer_asset2 :: "(pb_transfer_asset_contract, 'w) building"
  wk_participate_asset_issue2 :: "(pb_participate_asset_issue_contract, 'w) building"
  wk_unfreeze_asset2 :: "(pb_unfreeze_asset_contract, 'w) building"
  wk_update_asset2 :: "(pb_update_asset_contract, 'w) building"
  wk_create_account2 :: "(pb_account_create_contract, 'w) building"
  wk_vote_witness_account2 :: "(pb_vote_witness_contract, 'w) building"
  wk_update_account2 :: "(pb_account_update_contract, 'w) building"
  wk_set_account_id :: "(pb_set_account_id_contract, pb_transaction, 'w) tonic_method"
  wk_clear_contract_abi :: "(pb_clear_abi_contract, 'w) building"
  wk_update_setting :: "(pb_update_setting_contract, 'w) building"
  wk_update_energy_limit :: "(pb_update_energy_limit_contract, 'w) building"
  wk_create_witness2 :: "(pb_witness_create_contract, 'w) building"
  wk_update_witness2 :: "(pb_witness_update_contract, 'w) building"
  wk_update_brokerage :: "(pb_update_brokerage_contract, 'w) building"
  wk_exchange_create :: "(pb_exchange_create_contract, 'w) building"
  wk_exchange_inject :: "(pb_exchange_inject_contract, 'w) building"
  wk_exchange_withdraw :: "(pb_exchange_withdraw_contract, 'w) building"
  wk_exchange_transaction :: "(pb_exchange_transaction_contract, 'w) building"
  wk_market_sell_asset :: "(pb_market_sell_asset_contract, 'w) building"
  wk_market_cancel_order :: "(pb_market_cancel_order_contract, 'w) building"

section \<open>The methods\<close>

definition grpc_transfer_trx ::
  "'w grpc_core \<Rightarrow> tx_codec \<Rightarrow> prost_contracts \<Rightarrow> 'w wallet_client \<Rightarrow> (transfer_contract, 'w) build_rpc" where
  "grpc_transfer_trx G C P N params =
     (let req = transfer_to_proto params
      in awaited (retry_unary G (wk_create_transaction2 N) ''create_transaction2'' req) (\<lambda>ext.
           raw_from_extention C (prost_transfer P) ext req PbTransferContract))"

definition grpc_account_permission_update ::
  "'w grpc_core \<Rightarrow> tx_codec \<Rightarrow> prost_contracts \<Rightarrow> 'w wallet_client \<Rightarrow> (account_permission_update_contract, 'w) build_rpc" where
  "grpc_account_permission_update G C P N params =
     (let req = account_permission_update_to_proto params
      in awaited (retry_unary G (wk_account_permission_update N) ''account_permission_update'' req) (\<lambda>ext.
           raw_from_extention C (prost_account_permission_update P) ext req PbAccountPermissionUpdateContract))"

definition grpc_create_smart_contract ::
  "'w grpc_core \<Rightarrow> tx_codec \<Rightarrow> prost_contracts \<Rightarrow> 'w wallet_client \<Rightarrow> (create_smart_contract, 'w) build_rpc" where
  "grpc_create_smart_contract G C P N params =
     (let req = create_smart_contract_to_proto params
      in awaited (retry_unary G (wk_deploy_contract N) ''deploy_contract'' req) (\<lambda>ext.
           raw_from_extention_with C (prost_create_smart P) ext req PbCreateSmartContract clear_derived))"

definition grpc_trigger_smart_contract ::
  "'w grpc_core \<Rightarrow> tx_codec \<Rightarrow> prost_contracts \<Rightarrow> 'w wallet_client \<Rightarrow> (trigger_smart_contract, 'w) build_rpc" where
  "grpc_trigger_smart_contract G C P N params =
     (let req = trigger_smart_contract_to_proto params
      in awaited (retry_unary G (wk_trigger_contract N) ''trigger_contract'' req) (\<lambda>ext.
           raw_from_extention C (prost_trigger_smart P) ext req PbTriggerSmartContract))"

definition grpc_freeze_balance_v1 ::
  "'w grpc_core \<Rightarrow> tx_codec \<Rightarrow> prost_contracts \<Rightarrow> 'w wallet_client \<Rightarrow> (freeze_balance_v1_contract, 'w) build_rpc" where
  "grpc_freeze_balance_v1 G C P N params =
     (let req = freeze_balance_v1_to_proto params
      in awaited (retry_unary G (wk_freeze_balance2 N) ''freeze_balance2'' req) (\<lambda>ext.
           raw_from_extention C (prost_freeze_balance_v1 P) ext req PbFreezeBalanceContract))"

definition grpc_unfreeze_balance_v1 ::
  "'w grpc_core \<Rightarrow> tx_codec \<Rightarrow> prost_contracts \<Rightarrow> 'w wallet_client \<Rightarrow> (unfreeze_balance_v1_contract, 'w) build_rpc" where
  "grpc_unfreeze_balance_v1 G C P N params =
     (let req = unfreeze_balance_v1_to_proto params
      in awaited (retry_unary G (wk_unfreeze_balance2 N) ''unfreeze_balance2'' req) (\<lambda>ext.
           raw_from_extention C (prost_unfreeze_balance_v1 P) ext req PbUnfreezeBalanceContract))"

definition grpc_freeze_balance_v2 ::
  "'w grpc_core \<Rightarrow> tx_codec \<Rightarrow> prost_contracts \<Rightarrow> 'w wallet_client \<Rightarrow> (freeze_balance_v2_contract, 'w) build_rpc" where
  "grpc_freeze_balance_v2 G C P N params =
     (let req = freeze_balance_v2_to_proto params
      in awaited (retry_unary G (wk_freeze_balance_v2 N) ''freeze_balance_v2'' req) (\<lambda>ext.
           raw_from_extention C (prost_freeze_balance_v2 P) ext req PbFreezeBalanceV2Contract))"

definition grpc_unfreeze_balance_v2 ::
  "'w grpc_core \<Rightarrow> tx_codec \<Rightarrow> prost_contracts \<Rightarrow> 'w wallet_client \<Rightarrow> (unfreeze_balance_v2_contract, 'w) build_rpc" where
  "grpc_unfreeze_balance_v2 G C P N params =
     (let req = unfreeze_balance_v2_to_proto params
      in awaited (retry_unary G (wk_unfreeze_balance_v2 N) ''unfreeze_balance_v2'' req) (\<lambda>ext.
           raw_from_extention C (prost_unfreeze_balance_v2 P) ext req PbUnfreezeBalanceV2Contract))"

definition grpc_delegate_resource ::
  "'w grpc_core \<Rightarrow> tx_codec \<Rightarrow> prost_contracts \<Rightarrow> 'w wallet_client \<Rightarrow> (delegate_resource_contract, 'w) build_rpc" where
  "grpc_delegate_resource G C P N params =
     (let req = delegate_resource_to_proto params
      in awaited (retry_unary G (wk_delegate_resource N) ''delegate_resource'' req) (\<lambda>ext.
           raw_from_extention C (prost_delegate_resource P) ext req PbDelegateResourceContract))"

definition grpc_undelegate_resource ::
  "'w grpc_core \<Rightarrow> tx_codec \<Rightarrow> prost_contracts \<Rightarrow> 'w wallet_client \<Rightarrow> (un_delegate_resource_contract, 'w) build_rpc" where
  "grpc_undelegate_resource G C P N params =
     (let req = undelegate_resource_to_proto params
      in awaited (retry_unary G (wk_un_delegate_resource N) ''un_delegate_resource'' req) (\<lambda>ext.
           raw_from_extention C (prost_un_delegate_resource P) ext req PbUnDelegateResourceContract))"

definition grpc_withdraw_expire_unfreeze ::
  "'w grpc_core \<Rightarrow> tx_codec \<Rightarrow> prost_contracts \<Rightarrow> 'w wallet_client \<Rightarrow> (withdraw_expire_unfreeze_contract, 'w) build_rpc" where
  "grpc_withdraw_expire_unfreeze G C P N params =
     (let req = withdraw_expire_unfreeze_to_proto params
      in awaited (retry_unary G (wk_withdraw_expire_unfreeze N) ''withdraw_expire_unfreeze'' req) (\<lambda>ext.
           raw_from_extention C (prost_withdraw_expire_unfreeze P) ext req PbWithdrawExpireUnfreezeContract))"

definition grpc_cancel_all_unfreeze_v2 ::
  "'w grpc_core \<Rightarrow> tx_codec \<Rightarrow> prost_contracts \<Rightarrow> 'w wallet_client \<Rightarrow> (cancel_all_unfreeze_v2_contract, 'w) build_rpc" where
  "grpc_cancel_all_unfreeze_v2 G C P N params =
     (let req = cancel_all_unfreeze_v2_to_proto params
      in awaited (retry_unary G (wk_cancel_all_unfreeze_v2 N) ''cancel_all_unfreeze_v2'' req) (\<lambda>ext.
           raw_from_extention C (prost_cancel_all_unfreeze_v2 P) ext req PbCancelAllUnfreezeV2Contract))"

definition grpc_withdraw_balance ::
  "'w grpc_core \<Rightarrow> tx_codec \<Rightarrow> prost_contracts \<Rightarrow> 'w wallet_client \<Rightarrow> (withdraw_balance_contract, 'w) build_rpc" where
  "grpc_withdraw_balance G C P N params =
     (let req = withdraw_balance_to_proto params
      in awaited (retry_unary G (wk_withdraw_balance2 N) ''withdraw_balance2'' req) (\<lambda>ext.
           raw_from_extention C (prost_withdraw_balance P) ext req PbWithdrawBalanceContract))"

definition grpc_proposal_create ::
  "'w grpc_core \<Rightarrow> tx_codec \<Rightarrow> prost_contracts \<Rightarrow> 'w wallet_client \<Rightarrow> (proposal_create_contract, 'w) build_rpc" where
  "grpc_proposal_create G C P N params =
     (let req = proposal_create_to_proto params
      in awaited (retry_unary G (wk_proposal_create N) ''proposal_create'' req) (\<lambda>ext.
           raw_from_extention C (prost_proposal_create P) ext req PbProposalCreateContract))"

definition grpc_proposal_approve ::
  "'w grpc_core \<Rightarrow> tx_codec \<Rightarrow> prost_contracts \<Rightarrow> 'w wallet_client \<Rightarrow> (proposal_approve_contract, 'w) build_rpc" where
  "grpc_proposal_approve G C P N params =
     (let req = proposal_approve_to_proto params
      in awaited (retry_unary G (wk_proposal_approve N) ''proposal_approve'' req) (\<lambda>ext.
           raw_from_extention C (prost_proposal_approve P) ext req PbProposalApproveContract))"

definition grpc_proposal_delete ::
  "'w grpc_core \<Rightarrow> tx_codec \<Rightarrow> prost_contracts \<Rightarrow> 'w wallet_client \<Rightarrow> (proposal_delete_contract, 'w) build_rpc" where
  "grpc_proposal_delete G C P N params =
     (let req = proposal_delete_to_proto params
      in awaited (retry_unary G (wk_proposal_delete N) ''proposal_delete'' req) (\<lambda>ext.
           raw_from_extention C (prost_proposal_delete P) ext req PbProposalDeleteContract))"

definition grpc_create_asset_issue ::
  "'w grpc_core \<Rightarrow> tx_codec \<Rightarrow> prost_contracts \<Rightarrow> 'w wallet_client \<Rightarrow> (asset_issue_contract, 'w) build_rpc" where
  "grpc_create_asset_issue G C P N params =
     (let req = asset_issue_to_proto params
      in awaited (retry_unary G (wk_create_asset_issue2 N) ''create_asset_issue2'' req) (\<lambda>ext.
           raw_from_extention C (prost_asset_issue P) ext req PbAssetIssueContract))"

definition grpc_transfer_asset ::
  "'w grpc_core \<Rightarrow> tx_codec \<Rightarrow> prost_contracts \<Rightarrow> 'w wallet_client \<Rightarrow> (transfer_asset_contract, 'w) build_rpc" where
  "grpc_transfer_asset G C P N params =
     (let req = transfer_asset_to_proto params
      in awaited (retry_unary G (wk_transfer_asset2 N) ''transfer_asset2'' req) (\<lambda>ext.
           raw_from_extention C (prost_transfer_asset P) ext req PbTransferAssetContract))"

definition grpc_participate_asset_issue ::
  "'w grpc_core \<Rightarrow> tx_codec \<Rightarrow> prost_contracts \<Rightarrow> 'w wallet_client \<Rightarrow> (participate_asset_issue_contract, 'w) build_rpc" where
  "grpc_participate_asset_issue G C P N params =
     (let req = participate_asset_issue_to_proto params
      in awaited (retry_unary G (wk_participate_asset_issue2 N) ''participate_asset_issue2'' req) (\<lambda>ext.
           raw_from_extention C (prost_participate_asset_issue P) ext req PbParticipateAssetIssueContract))"

definition grpc_unfreeze_asset ::
  "'w grpc_core \<Rightarrow> tx_codec \<Rightarrow> prost_contracts \<Rightarrow> 'w wallet_client \<Rightarrow> (unfreeze_asset_contract, 'w) build_rpc" where
  "grpc_unfreeze_asset G C P N params =
     (let req = unfreeze_asset_to_proto params
      in awaited (retry_unary G (wk_unfreeze_asset2 N) ''unfreeze_asset2'' req) (\<lambda>ext.
           raw_from_extention C (prost_unfreeze_asset P) ext req PbUnfreezeAssetContract))"

definition grpc_update_asset ::
  "'w grpc_core \<Rightarrow> tx_codec \<Rightarrow> prost_contracts \<Rightarrow> 'w wallet_client \<Rightarrow> (update_asset_contract, 'w) build_rpc" where
  "grpc_update_asset G C P N params =
     (let req = update_asset_to_proto params
      in awaited (retry_unary G (wk_update_asset2 N) ''update_asset2'' req) (\<lambda>ext.
           raw_from_extention C (prost_update_asset P) ext req PbUpdateAssetContract))"

definition grpc_create_account ::
  "'w grpc_core \<Rightarrow> tx_codec \<Rightarrow> prost_contracts \<Rightarrow> 'w wallet_client \<Rightarrow> (create_account_contract, 'w) build_rpc" where
  "grpc_create_account G C P N params =
     (let req = create_account_to_proto params
      in awaited (retry_unary G (wk_create_account2 N) ''create_account2'' req) (\<lambda>ext.
           raw_from_extention C (prost_create_account P) ext req PbAccountCreateContract))"

definition grpc_vote_witness_account ::
  "'w grpc_core \<Rightarrow> tx_codec \<Rightarrow> prost_contracts \<Rightarrow> 'w wallet_client \<Rightarrow> (vote_witness_contract, 'w) build_rpc" where
  "grpc_vote_witness_account G C P N params =
     (let req = vote_witness_to_proto params
      in awaited (retry_unary G (wk_vote_witness_account2 N) ''vote_witness_account2'' req) (\<lambda>ext.
           raw_from_extention C (prost_vote_witness P) ext req PbVoteWitnessContract))"

definition grpc_update_account ::
  "'w grpc_core \<Rightarrow> tx_codec \<Rightarrow> prost_contracts \<Rightarrow> 'w wallet_client \<Rightarrow> (update_account_contract, 'w) build_rpc" where
  "grpc_update_account G C P N params =
     (let req = update_account_to_proto params
      in awaited (retry_unary G (wk_update_account2 N) ''update_account2'' req) (\<lambda>ext.
           raw_from_extention C (prost_update_account P) ext req PbAccountUpdateContract))"

definition grpc_set_account_id ::
  "'w grpc_core \<Rightarrow> tx_codec \<Rightarrow> prost_contracts \<Rightarrow> 'w wallet_client \<Rightarrow> (set_account_id_contract, 'w) build_rpc" where
  "grpc_set_account_id G C P N params =
     (let req = set_account_id_to_proto params
      in awaited (retry_unary G (wk_set_account_id N) ''set_account_id'' req) (\<lambda>tx.
           map_err transport_of_response (raw_from_plain C tx)))"

definition grpc_clear_contract_abi ::
  "'w grpc_core \<Rightarrow> tx_codec \<Rightarrow> prost_contracts \<Rightarrow> 'w wallet_client \<Rightarrow> (clear_contract_abi_contract, 'w) build_rpc" where
  "grpc_clear_contract_abi G C P N params =
     (let req = clear_contract_abi_to_proto params
      in awaited (retry_unary G (wk_clear_contract_abi N) ''clear_contract_abi'' req) (\<lambda>ext.
           raw_from_extention C (prost_clear_abi P) ext req PbClearAbiContract))"

definition grpc_update_setting ::
  "'w grpc_core \<Rightarrow> tx_codec \<Rightarrow> prost_contracts \<Rightarrow> 'w wallet_client \<Rightarrow> (update_setting_contract, 'w) build_rpc" where
  "grpc_update_setting G C P N params =
     (let req = update_setting_to_proto params
      in awaited (retry_unary G (wk_update_setting N) ''update_setting'' req) (\<lambda>ext.
           raw_from_extention C (prost_update_setting P) ext req PbUpdateSettingContract))"

definition grpc_update_energy_limit ::
  "'w grpc_core \<Rightarrow> tx_codec \<Rightarrow> prost_contracts \<Rightarrow> 'w wallet_client \<Rightarrow> (update_energy_limit_contract, 'w) build_rpc" where
  "grpc_update_energy_limit G C P N params =
     (let req = update_energy_limit_to_proto params
      in awaited (retry_unary G (wk_update_energy_limit N) ''update_energy_limit'' req) (\<lambda>ext.
           raw_from_extention C (prost_update_energy_limit P) ext req PbUpdateEnergyLimitContract))"

definition grpc_create_witness ::
  "'w grpc_core \<Rightarrow> tx_codec \<Rightarrow> prost_contracts \<Rightarrow> 'w wallet_client \<Rightarrow> (create_witness_contract, 'w) build_rpc" where
  "grpc_create_witness G C P N params =
     (let req = create_witness_to_proto params
      in awaited (retry_unary G (wk_create_witness2 N) ''create_witness2'' req) (\<lambda>ext.
           raw_from_extention C (prost_create_witness P) ext req PbWitnessCreateContract))"

definition grpc_update_witness ::
  "'w grpc_core \<Rightarrow> tx_codec \<Rightarrow> prost_contracts \<Rightarrow> 'w wallet_client \<Rightarrow> (update_witness_contract, 'w) build_rpc" where
  "grpc_update_witness G C P N params =
     (let req = update_witness_to_proto params
      in awaited (retry_unary G (wk_update_witness2 N) ''update_witness2'' req) (\<lambda>ext.
           raw_from_extention C (prost_update_witness P) ext req PbWitnessUpdateContract))"

definition grpc_update_brokerage ::
  "'w grpc_core \<Rightarrow> tx_codec \<Rightarrow> prost_contracts \<Rightarrow> 'w wallet_client \<Rightarrow> (update_brokerage_contract, 'w) build_rpc" where
  "grpc_update_brokerage G C P N params =
     (let req = update_brokerage_to_proto params
      in awaited (retry_unary G (wk_update_brokerage N) ''update_brokerage'' req) (\<lambda>ext.
           raw_from_extention C (prost_update_brokerage P) ext req PbUpdateBrokerageContract))"

definition grpc_exchange_create ::
  "'w grpc_core \<Rightarrow> tx_codec \<Rightarrow> prost_contracts \<Rightarrow> 'w wallet_client \<Rightarrow> (exchange_create_contract, 'w) build_rpc" where
  "grpc_exchange_create G C P N params =
     (let req = exchange_create_to_proto params
      in awaited (retry_unary G (wk_exchange_create N) ''exchange_create'' req) (\<lambda>ext.
           raw_from_extention C (prost_exchange_create P) ext req PbExchangeCreateContract))"

definition grpc_exchange_inject ::
  "'w grpc_core \<Rightarrow> tx_codec \<Rightarrow> prost_contracts \<Rightarrow> 'w wallet_client \<Rightarrow> (exchange_inject_contract, 'w) build_rpc" where
  "grpc_exchange_inject G C P N params =
     (let req = exchange_inject_to_proto params
      in awaited (retry_unary G (wk_exchange_inject N) ''exchange_inject'' req) (\<lambda>ext.
           raw_from_extention C (prost_exchange_inject P) ext req PbExchangeInjectContract))"

definition grpc_exchange_withdraw ::
  "'w grpc_core \<Rightarrow> tx_codec \<Rightarrow> prost_contracts \<Rightarrow> 'w wallet_client \<Rightarrow> (exchange_withdraw_contract, 'w) build_rpc" where
  "grpc_exchange_withdraw G C P N params =
     (let req = exchange_withdraw_to_proto params
      in awaited (retry_unary G (wk_exchange_withdraw N) ''exchange_withdraw'' req) (\<lambda>ext.
           raw_from_extention C (prost_exchange_withdraw P) ext req PbExchangeWithdrawContract))"

definition grpc_exchange_transaction ::
  "'w grpc_core \<Rightarrow> tx_codec \<Rightarrow> prost_contracts \<Rightarrow> 'w wallet_client \<Rightarrow> (exchange_transaction_contract, 'w) build_rpc" where
  "grpc_exchange_transaction G C P N params =
     (let req = exchange_transaction_to_proto params
      in awaited (retry_unary G (wk_exchange_transaction N) ''exchange_transaction'' req) (\<lambda>ext.
           raw_from_extention C (prost_exchange_transaction P) ext req PbExchangeTransactionContract))"

definition grpc_market_sell_asset ::
  "'w grpc_core \<Rightarrow> tx_codec \<Rightarrow> prost_contracts \<Rightarrow> 'w wallet_client \<Rightarrow> (market_sell_asset_contract, 'w) build_rpc" where
  "grpc_market_sell_asset G C P N params =
     (let req = market_sell_asset_to_proto params
      in awaited (retry_unary G (wk_market_sell_asset N) ''market_sell_asset'' req) (\<lambda>ext.
           raw_from_extention C (prost_market_sell_asset P) ext req PbMarketSellAssetContract))"

definition grpc_market_cancel_order ::
  "'w grpc_core \<Rightarrow> tx_codec \<Rightarrow> prost_contracts \<Rightarrow> 'w wallet_client \<Rightarrow> (market_cancel_order_contract, 'w) build_rpc" where
  "grpc_market_cancel_order G C P N params =
     (let req = market_cancel_order_to_proto params
      in awaited (retry_unary G (wk_market_cancel_order N) ''market_cancel_order'' req) (\<lambda>ext.
           raw_from_extention C (prost_market_cancel_order P) ext req PbMarketCancelOrderContract))"

text \<open>The transport as \<open>build_via_transport\<close> sees it.\<close>

definition grpc_build_rpcs ::
  "'w grpc_core \<Rightarrow> tx_codec \<Rightarrow> prost_contracts \<Rightarrow> 'w wallet_client \<Rightarrow> 'w build_rpcs" where
  "grpc_build_rpcs G C P N =
     \<lparr> rpc_transfer_trx = grpc_transfer_trx G C P N,
       rpc_trigger_smart_contract = grpc_trigger_smart_contract G C P N,
       rpc_freeze_balance_v1 = grpc_freeze_balance_v1 G C P N,
       rpc_unfreeze_balance_v1 = grpc_unfreeze_balance_v1 G C P N,
       rpc_freeze_balance_v2 = grpc_freeze_balance_v2 G C P N,
       rpc_unfreeze_balance_v2 = grpc_unfreeze_balance_v2 G C P N,
       rpc_delegate_resource = grpc_delegate_resource G C P N,
       rpc_undelegate_resource = grpc_undelegate_resource G C P N,
       rpc_withdraw_expire_unfreeze = grpc_withdraw_expire_unfreeze G C P N,
       rpc_cancel_all_unfreeze_v2 = grpc_cancel_all_unfreeze_v2 G C P N,
       rpc_withdraw_balance = grpc_withdraw_balance G C P N,
       rpc_account_permission_update = grpc_account_permission_update G C P N,
       rpc_create_smart_contract = grpc_create_smart_contract G C P N,
       rpc_create_asset_issue = grpc_create_asset_issue G C P N,
       rpc_transfer_asset = grpc_transfer_asset G C P N,
       rpc_participate_asset_issue = grpc_participate_asset_issue G C P N,
       rpc_unfreeze_asset = grpc_unfreeze_asset G C P N,
       rpc_update_asset = grpc_update_asset G C P N,
       rpc_create_account = grpc_create_account G C P N,
       rpc_vote_witness_account = grpc_vote_witness_account G C P N,
       rpc_update_account = grpc_update_account G C P N,
       rpc_proposal_create = grpc_proposal_create G C P N,
       rpc_proposal_approve = grpc_proposal_approve G C P N,
       rpc_proposal_delete = grpc_proposal_delete G C P N,
       rpc_create_witness = grpc_create_witness G C P N,
       rpc_update_witness = grpc_update_witness G C P N,
       rpc_update_brokerage = grpc_update_brokerage G C P N,
       rpc_set_account_id = grpc_set_account_id G C P N,
       rpc_clear_contract_abi = grpc_clear_contract_abi G C P N,
       rpc_update_setting = grpc_update_setting G C P N,
       rpc_update_energy_limit = grpc_update_energy_limit G C P N,
       rpc_exchange_create = grpc_exchange_create G C P N,
       rpc_exchange_inject = grpc_exchange_inject G C P N,
       rpc_exchange_withdraw = grpc_exchange_withdraw G C P N,
       rpc_exchange_transaction = grpc_exchange_transaction G C P N,
       rpc_market_sell_asset = grpc_market_sell_asset G C P N,
       rpc_market_cancel_order = grpc_market_cancel_order G C P N \<rparr>"

section \<open>What is accepted\<close>

text \<open>What the Rust types say of the answers of a client.\<close>

definition typed_building :: "tx_codec \<Rightarrow> ('q, 'w) building \<Rightarrow> bool" where
  "typed_building C method \<longleftrightarrow>
     (\<forall>q w ext w'. method q w = (Inr ext, w') \<longrightarrow>
        (\<forall>tx. pb_transaction_extention_transaction ext = Some tx \<longrightarrow> answer_ok C tx))"

definition typed_client :: "tx_codec \<Rightarrow> 'w wallet_client \<Rightarrow> bool" where
  "typed_client C N \<longleftrightarrow>
     (\<forall>q w tx w'. wk_set_account_id N q w = (Inr tx, w') \<longrightarrow> answer_ok C tx)
     \<and> typed_building C (wk_create_transaction2 N)
     \<and> typed_building C (wk_account_permission_update N)
     \<and> typed_building C (wk_deploy_contract N)
     \<and> typed_building C (wk_trigger_contract N)
     \<and> typed_building C (wk_freeze_balance2 N)
     \<and> typed_building C (wk_unfreeze_balance2 N)
     \<and> typed_building C (wk_freeze_balance_v2 N)
     \<and> typed_building C (wk_unfreeze_balance_v2 N)
     \<and> typed_building C (wk_delegate_resource N)
     \<and> typed_building C (wk_un_delegate_resource N)
     \<and> typed_building C (wk_withdraw_expire_unfreeze N)
     \<and> typed_building C (wk_cancel_all_unfreeze_v2 N)
     \<and> typed_building C (wk_withdraw_balance2 N)
     \<and> typed_building C (wk_proposal_create N)
     \<and> typed_building C (wk_proposal_approve N)
     \<and> typed_building C (wk_proposal_delete N)
     \<and> typed_building C (wk_create_asset_issue2 N)
     \<and> typed_building C (wk_transfer_asset2 N)
     \<and> typed_building C (wk_participate_asset_issue2 N)
     \<and> typed_building C (wk_unfreeze_asset2 N)
     \<and> typed_building C (wk_update_asset2 N)
     \<and> typed_building C (wk_create_account2 N)
     \<and> typed_building C (wk_vote_witness_account2 N)
     \<and> typed_building C (wk_update_account2 N)
     \<and> typed_building C (wk_clear_contract_abi N)
     \<and> typed_building C (wk_update_setting N)
     \<and> typed_building C (wk_update_energy_limit N)
     \<and> typed_building C (wk_create_witness2 N)
     \<and> typed_building C (wk_update_witness2 N)
     \<and> typed_building C (wk_update_brokerage N)
     \<and> typed_building C (wk_exchange_create N)
     \<and> typed_building C (wk_exchange_inject N)
     \<and> typed_building C (wk_exchange_withdraw N)
     \<and> typed_building C (wk_exchange_transaction N)
     \<and> typed_building C (wk_market_sell_asset N)
     \<and> typed_building C (wk_market_cancel_order N)"

text \<open>
  An accepted transaction: its id is the hash of its bytes, and the bytes hold exactly one
  contract, of the requested kind, whose parameter is the request.
\<close>

definition accepted :: "tx_codec \<Rightarrow> prost_contracts \<Rightarrow> raw_transaction \<Rightarrow> contract_type \<Rightarrow> bool" where
  "accepted C P raw c \<longleftrightarrow>
     raw_tx_consistent C raw \<and> built_as C raw (requested_type c) (holds_request P c)"

lemma built_with:
  assumes "prost_tx C" and "typed_building C client"
    and "awaited (retry_unary G client label req)
           (\<lambda>ext. raw_from_extention_with C decode ext sent kind derive) w = (Inr raw, w')"
    and "requested_type c = kind"
    and "\<And>v. map_option derive (decode v) = Some sent \<Longrightarrow> holds_request P c v"
  shows "accepted C P raw c"
proof -
  from awaited_Ok [OF assms(3)] obtain ext where
    answer: "retry_unary G client label req w = (Inr ext, w')"
    and guard: "raw_from_extention_with C decode ext sent kind derive = Ok raw" by blast
  from retry_unary_Ok [OF answer] obtain w1 w2 where call: "client req w1 = (Inr ext, w2)" by blast
  from call assms(2) have "answer_ok C tx" if "pb_transaction_extention_transaction ext = Some tx" for tx
    using that by (auto simp: typed_building_def)
  from prost_tx.raw_from_extention_with_built [OF assms(1) guard this]
  have "raw_tx_consistent C raw"
    "built_as C raw kind (\<lambda>v. map_option derive (decode v) = Some sent)" by blast+
  then show ?thesis unfolding accepted_def built_as_def using assms(4,5) by blast
qed

lemma built_plain:
  assumes "prost_tx C" and "typed_building C client"
    and "awaited (retry_unary G client label req)
           (\<lambda>ext. raw_from_extention C decode ext sent kind) w = (Inr raw, w')"
    and "requested_type c = kind"
    and "\<And>v. decode v = Some sent \<Longrightarrow> holds_request P c v"
  shows "accepted C P raw c"
  using built_with [OF assms(1,2) assms(3) [unfolded raw_from_extention_def] assms(4)] assms(5)
  by (simp add: option.map_ident)

lemma grpc_transfer_trx_built:
  assumes "prost_tx C" and "typed_client C N" and "grpc_transfer_trx G C P N c w = (Inr raw, w')"
  shows "accepted C P raw (CtTransfer c)"
  by (rule built_plain [OF assms(1) _ assms(3) [unfolded grpc_transfer_trx_def Let_def]])
    (use assms(2) in \<open>simp_all add: typed_client_def\<close>)

lemma grpc_account_permission_update_built:
  assumes "prost_tx C" and "typed_client C N" and "grpc_account_permission_update G C P N c w = (Inr raw, w')"
  shows "accepted C P raw (CtAccountPermissionUpdate c)"
  by (rule built_plain [OF assms(1) _ assms(3) [unfolded grpc_account_permission_update_def Let_def]])
    (use assms(2) in \<open>simp_all add: typed_client_def\<close>)

lemma grpc_create_smart_contract_built:
  assumes "prost_tx C" and "typed_client C N" and "grpc_create_smart_contract G C P N c w = (Inr raw, w')"
  shows "accepted C P raw (CtCreateSmartContract c)"
  by (rule built_with [OF assms(1) _ assms(3) [unfolded grpc_create_smart_contract_def Let_def]])
    (use assms(2) in \<open>simp_all add: typed_client_def\<close>)

lemma grpc_trigger_smart_contract_built:
  assumes "prost_tx C" and "typed_client C N" and "grpc_trigger_smart_contract G C P N c w = (Inr raw, w')"
  shows "accepted C P raw (CtTriggerSmartContract c)"
  by (rule built_plain [OF assms(1) _ assms(3) [unfolded grpc_trigger_smart_contract_def Let_def]])
    (use assms(2) in \<open>simp_all add: typed_client_def\<close>)

lemma grpc_freeze_balance_v1_built:
  assumes "prost_tx C" and "typed_client C N" and "grpc_freeze_balance_v1 G C P N c w = (Inr raw, w')"
  shows "accepted C P raw (CtFreezeBalanceV1 c)"
  by (rule built_plain [OF assms(1) _ assms(3) [unfolded grpc_freeze_balance_v1_def Let_def]])
    (use assms(2) in \<open>simp_all add: typed_client_def\<close>)

lemma grpc_unfreeze_balance_v1_built:
  assumes "prost_tx C" and "typed_client C N" and "grpc_unfreeze_balance_v1 G C P N c w = (Inr raw, w')"
  shows "accepted C P raw (CtUnfreezeBalanceV1 c)"
  by (rule built_plain [OF assms(1) _ assms(3) [unfolded grpc_unfreeze_balance_v1_def Let_def]])
    (use assms(2) in \<open>simp_all add: typed_client_def\<close>)

lemma grpc_freeze_balance_v2_built:
  assumes "prost_tx C" and "typed_client C N" and "grpc_freeze_balance_v2 G C P N c w = (Inr raw, w')"
  shows "accepted C P raw (CtFreezeBalanceV2 c)"
  by (rule built_plain [OF assms(1) _ assms(3) [unfolded grpc_freeze_balance_v2_def Let_def]])
    (use assms(2) in \<open>simp_all add: typed_client_def\<close>)

lemma grpc_unfreeze_balance_v2_built:
  assumes "prost_tx C" and "typed_client C N" and "grpc_unfreeze_balance_v2 G C P N c w = (Inr raw, w')"
  shows "accepted C P raw (CtUnfreezeBalanceV2 c)"
  by (rule built_plain [OF assms(1) _ assms(3) [unfolded grpc_unfreeze_balance_v2_def Let_def]])
    (use assms(2) in \<open>simp_all add: typed_client_def\<close>)

lemma grpc_delegate_resource_built:
  assumes "prost_tx C" and "typed_client C N" and "grpc_delegate_resource G C P N c w = (Inr raw, w')"
  shows "accepted C P raw (CtDelegateResource c)"
  by (rule built_plain [OF assms(1) _ assms(3) [unfolded grpc_delegate_resource_def Let_def]])
    (use assms(2) in \<open>simp_all add: typed_client_def\<close>)

lemma grpc_undelegate_resource_built:
  assumes "prost_tx C" and "typed_client C N" and "grpc_undelegate_resource G C P N c w = (Inr raw, w')"
  shows "accepted C P raw (CtUnDelegateResource c)"
  by (rule built_plain [OF assms(1) _ assms(3) [unfolded grpc_undelegate_resource_def Let_def]])
    (use assms(2) in \<open>simp_all add: typed_client_def\<close>)

lemma grpc_withdraw_expire_unfreeze_built:
  assumes "prost_tx C" and "typed_client C N" and "grpc_withdraw_expire_unfreeze G C P N c w = (Inr raw, w')"
  shows "accepted C P raw (CtWithdrawExpireUnfreeze c)"
  by (rule built_plain [OF assms(1) _ assms(3) [unfolded grpc_withdraw_expire_unfreeze_def Let_def]])
    (use assms(2) in \<open>simp_all add: typed_client_def\<close>)

lemma grpc_cancel_all_unfreeze_v2_built:
  assumes "prost_tx C" and "typed_client C N" and "grpc_cancel_all_unfreeze_v2 G C P N c w = (Inr raw, w')"
  shows "accepted C P raw (CtCancelAllUnfreezeV2 c)"
  by (rule built_plain [OF assms(1) _ assms(3) [unfolded grpc_cancel_all_unfreeze_v2_def Let_def]])
    (use assms(2) in \<open>simp_all add: typed_client_def\<close>)

lemma grpc_withdraw_balance_built:
  assumes "prost_tx C" and "typed_client C N" and "grpc_withdraw_balance G C P N c w = (Inr raw, w')"
  shows "accepted C P raw (CtWithdrawBalance c)"
  by (rule built_plain [OF assms(1) _ assms(3) [unfolded grpc_withdraw_balance_def Let_def]])
    (use assms(2) in \<open>simp_all add: typed_client_def\<close>)

lemma grpc_proposal_create_built:
  assumes "prost_tx C" and "typed_client C N" and "grpc_proposal_create G C P N c w = (Inr raw, w')"
  shows "accepted C P raw (CtProposalCreate c)"
  by (rule built_plain [OF assms(1) _ assms(3) [unfolded grpc_proposal_create_def Let_def]])
    (use assms(2) in \<open>simp_all add: typed_client_def\<close>)

lemma grpc_proposal_approve_built:
  assumes "prost_tx C" and "typed_client C N" and "grpc_proposal_approve G C P N c w = (Inr raw, w')"
  shows "accepted C P raw (CtProposalApprove c)"
  by (rule built_plain [OF assms(1) _ assms(3) [unfolded grpc_proposal_approve_def Let_def]])
    (use assms(2) in \<open>simp_all add: typed_client_def\<close>)

lemma grpc_proposal_delete_built:
  assumes "prost_tx C" and "typed_client C N" and "grpc_proposal_delete G C P N c w = (Inr raw, w')"
  shows "accepted C P raw (CtProposalDelete c)"
  by (rule built_plain [OF assms(1) _ assms(3) [unfolded grpc_proposal_delete_def Let_def]])
    (use assms(2) in \<open>simp_all add: typed_client_def\<close>)

lemma grpc_create_asset_issue_built:
  assumes "prost_tx C" and "typed_client C N" and "grpc_create_asset_issue G C P N c w = (Inr raw, w')"
  shows "accepted C P raw (CtAssetIssue c)"
  by (rule built_plain [OF assms(1) _ assms(3) [unfolded grpc_create_asset_issue_def Let_def]])
    (use assms(2) in \<open>simp_all add: typed_client_def\<close>)

lemma grpc_transfer_asset_built:
  assumes "prost_tx C" and "typed_client C N" and "grpc_transfer_asset G C P N c w = (Inr raw, w')"
  shows "accepted C P raw (CtTransferAsset c)"
  by (rule built_plain [OF assms(1) _ assms(3) [unfolded grpc_transfer_asset_def Let_def]])
    (use assms(2) in \<open>simp_all add: typed_client_def\<close>)

lemma grpc_participate_asset_issue_built:
  assumes "prost_tx C" and "typed_client C N" and "grpc_participate_asset_issue G C P N c w = (Inr raw, w')"
  shows "accepted C P raw (CtParticipateAssetIssue c)"
  by (rule built_plain [OF assms(1) _ assms(3) [unfolded grpc_participate_asset_issue_def Let_def]])
    (use assms(2) in \<open>simp_all add: typed_client_def\<close>)

lemma grpc_unfreeze_asset_built:
  assumes "prost_tx C" and "typed_client C N" and "grpc_unfreeze_asset G C P N c w = (Inr raw, w')"
  shows "accepted C P raw (CtUnfreezeAsset c)"
  by (rule built_plain [OF assms(1) _ assms(3) [unfolded grpc_unfreeze_asset_def Let_def]])
    (use assms(2) in \<open>simp_all add: typed_client_def\<close>)

lemma grpc_update_asset_built:
  assumes "prost_tx C" and "typed_client C N" and "grpc_update_asset G C P N c w = (Inr raw, w')"
  shows "accepted C P raw (CtUpdateAsset c)"
  by (rule built_plain [OF assms(1) _ assms(3) [unfolded grpc_update_asset_def Let_def]])
    (use assms(2) in \<open>simp_all add: typed_client_def\<close>)

lemma grpc_create_account_built:
  assumes "prost_tx C" and "typed_client C N" and "grpc_create_account G C P N c w = (Inr raw, w')"
  shows "accepted C P raw (CtCreateAccount c)"
  by (rule built_plain [OF assms(1) _ assms(3) [unfolded grpc_create_account_def Let_def]])
    (use assms(2) in \<open>simp_all add: typed_client_def\<close>)

lemma grpc_vote_witness_account_built:
  assumes "prost_tx C" and "typed_client C N" and "grpc_vote_witness_account G C P N c w = (Inr raw, w')"
  shows "accepted C P raw (CtVoteWitness c)"
  by (rule built_plain [OF assms(1) _ assms(3) [unfolded grpc_vote_witness_account_def Let_def]])
    (use assms(2) in \<open>simp_all add: typed_client_def\<close>)

lemma grpc_update_account_built:
  assumes "prost_tx C" and "typed_client C N" and "grpc_update_account G C P N c w = (Inr raw, w')"
  shows "accepted C P raw (CtUpdateAccount c)"
  by (rule built_plain [OF assms(1) _ assms(3) [unfolded grpc_update_account_def Let_def]])
    (use assms(2) in \<open>simp_all add: typed_client_def\<close>)

lemma grpc_clear_contract_abi_built:
  assumes "prost_tx C" and "typed_client C N" and "grpc_clear_contract_abi G C P N c w = (Inr raw, w')"
  shows "accepted C P raw (CtClearContractAbi c)"
  by (rule built_plain [OF assms(1) _ assms(3) [unfolded grpc_clear_contract_abi_def Let_def]])
    (use assms(2) in \<open>simp_all add: typed_client_def\<close>)

lemma grpc_update_setting_built:
  assumes "prost_tx C" and "typed_client C N" and "grpc_update_setting G C P N c w = (Inr raw, w')"
  shows "accepted C P raw (CtUpdateSetting c)"
  by (rule built_plain [OF assms(1) _ assms(3) [unfolded grpc_update_setting_def Let_def]])
    (use assms(2) in \<open>simp_all add: typed_client_def\<close>)

lemma grpc_update_energy_limit_built:
  assumes "prost_tx C" and "typed_client C N" and "grpc_update_energy_limit G C P N c w = (Inr raw, w')"
  shows "accepted C P raw (CtUpdateEnergyLimit c)"
  by (rule built_plain [OF assms(1) _ assms(3) [unfolded grpc_update_energy_limit_def Let_def]])
    (use assms(2) in \<open>simp_all add: typed_client_def\<close>)

lemma grpc_create_witness_built:
  assumes "prost_tx C" and "typed_client C N" and "grpc_create_witness G C P N c w = (Inr raw, w')"
  shows "accepted C P raw (CtCreateWitness c)"
  by (rule built_plain [OF assms(1) _ assms(3) [unfolded grpc_create_witness_def Let_def]])
    (use assms(2) in \<open>simp_all add: typed_client_def\<close>)

lemma grpc_update_witness_built:
  assumes "prost_tx C" and "typed_client C N" and "grpc_update_witness G C P N c w = (Inr raw, w')"
  shows "accepted C P raw (CtUpdateWitness c)"
  by (rule built_plain [OF assms(1) _ assms(3) [unfolded grpc_update_witness_def Let_def]])
    (use assms(2) in \<open>simp_all add: typed_client_def\<close>)

lemma grpc_update_brokerage_built:
  assumes "prost_tx C" and "typed_client C N" and "grpc_update_brokerage G C P N c w = (Inr raw, w')"
  shows "accepted C P raw (CtUpdateBrokerage c)"
  by (rule built_plain [OF assms(1) _ assms(3) [unfolded grpc_update_brokerage_def Let_def]])
    (use assms(2) in \<open>simp_all add: typed_client_def\<close>)

lemma grpc_exchange_create_built:
  assumes "prost_tx C" and "typed_client C N" and "grpc_exchange_create G C P N c w = (Inr raw, w')"
  shows "accepted C P raw (CtExchangeCreate c)"
  by (rule built_plain [OF assms(1) _ assms(3) [unfolded grpc_exchange_create_def Let_def]])
    (use assms(2) in \<open>simp_all add: typed_client_def\<close>)

lemma grpc_exchange_inject_built:
  assumes "prost_tx C" and "typed_client C N" and "grpc_exchange_inject G C P N c w = (Inr raw, w')"
  shows "accepted C P raw (CtExchangeInject c)"
  by (rule built_plain [OF assms(1) _ assms(3) [unfolded grpc_exchange_inject_def Let_def]])
    (use assms(2) in \<open>simp_all add: typed_client_def\<close>)

lemma grpc_exchange_withdraw_built:
  assumes "prost_tx C" and "typed_client C N" and "grpc_exchange_withdraw G C P N c w = (Inr raw, w')"
  shows "accepted C P raw (CtExchangeWithdraw c)"
  by (rule built_plain [OF assms(1) _ assms(3) [unfolded grpc_exchange_withdraw_def Let_def]])
    (use assms(2) in \<open>simp_all add: typed_client_def\<close>)

lemma grpc_exchange_transaction_built:
  assumes "prost_tx C" and "typed_client C N" and "grpc_exchange_transaction G C P N c w = (Inr raw, w')"
  shows "accepted C P raw (CtExchangeTransaction c)"
  by (rule built_plain [OF assms(1) _ assms(3) [unfolded grpc_exchange_transaction_def Let_def]])
    (use assms(2) in \<open>simp_all add: typed_client_def\<close>)

lemma grpc_market_sell_asset_built:
  assumes "prost_tx C" and "typed_client C N" and "grpc_market_sell_asset G C P N c w = (Inr raw, w')"
  shows "accepted C P raw (CtMarketSellAsset c)"
  by (rule built_plain [OF assms(1) _ assms(3) [unfolded grpc_market_sell_asset_def Let_def]])
    (use assms(2) in \<open>simp_all add: typed_client_def\<close>)

lemma grpc_market_cancel_order_built:
  assumes "prost_tx C" and "typed_client C N" and "grpc_market_cancel_order G C P N c w = (Inr raw, w')"
  shows "accepted C P raw (CtMarketCancelOrder c)"
  by (rule built_plain [OF assms(1) _ assms(3) [unfolded grpc_market_cancel_order_def Let_def]])
    (use assms(2) in \<open>simp_all add: typed_client_def\<close>)

lemma grpc_set_account_id_built:
  assumes "prost_tx C" and "typed_client C N" and "grpc_set_account_id G C P N c w = (Inr raw, w')"
  shows "raw_tx_consistent C raw"
proof -
  from assms(3) obtain tx where
    answer: "retry_unary G (wk_set_account_id N) ''set_account_id'' (set_account_id_to_proto c) w = (Inr tx, w')"
    and raw: "raw_from_plain C tx = Ok raw"
    by (auto simp: grpc_set_account_id_def Let_def result_simps dest!: awaited_Ok)
  from retry_unary_Ok [OF answer] assms(2) have "answer_ok C tx" by (auto simp: typed_client_def)
  then show ?thesis
    using prost_tx.from_node_encoded_own [OF assms(1) raw [unfolded raw_from_plain_def]] by blast
qed

lemmas grpc_built = 
  grpc_transfer_trx_built grpc_account_permission_update_built grpc_create_smart_contract_built
  grpc_trigger_smart_contract_built grpc_freeze_balance_v1_built grpc_unfreeze_balance_v1_built
  grpc_freeze_balance_v2_built grpc_unfreeze_balance_v2_built grpc_delegate_resource_built
  grpc_undelegate_resource_built grpc_withdraw_expire_unfreeze_built
  grpc_cancel_all_unfreeze_v2_built grpc_withdraw_balance_built grpc_proposal_create_built
  grpc_proposal_approve_built grpc_proposal_delete_built grpc_create_asset_issue_built
  grpc_transfer_asset_built grpc_participate_asset_issue_built grpc_unfreeze_asset_built
  grpc_update_asset_built grpc_create_account_built grpc_vote_witness_account_built
  grpc_update_account_built grpc_clear_contract_abi_built grpc_update_setting_built
  grpc_update_energy_limit_built grpc_create_witness_built grpc_update_witness_built
  grpc_update_brokerage_built grpc_exchange_create_built grpc_exchange_inject_built
  grpc_exchange_withdraw_built grpc_exchange_transaction_built grpc_market_sell_asset_built
  grpc_market_cancel_order_built

lemma grpc_accepted:
  assumes "prost_tx C" and "typed_client C N" and "\<forall>s. c \<noteq> CtSetAccountId s"
    and "build_contract (grpc_build_rpcs G C P N) c w = (Inr raw, w')"
  shows "accepted C P raw c"
  using assms(3,4) grpc_built [OF assms(1,2)] by (cases c) (simp_all add: grpc_build_rpcs_def)

lemma grpc_consistent:
  assumes "prost_tx C" and "typed_client C N"
    and "build_contract (grpc_build_rpcs G C P N) c w = (Inr raw, w')"
  shows "raw_tx_consistent C raw"
proof (cases "\<forall>s. c \<noteq> CtSetAccountId s")
  case True
  from grpc_accepted [OF assms(1,2) True assms(3)] show ?thesis by (simp add: accepted_def)
next
  case False
  with assms grpc_set_account_id_built [OF assms(1,2)] show ?thesis by (auto simp: grpc_build_rpcs_def)
qed

text \<open>A client that gives every request the same answer.\<close>

definition constant_client :: "pb_transaction_extention \<Rightarrow> pb_transaction \<Rightarrow> 'w wallet_client" where
  "constant_client ext tx =
     \<lparr> wk_create_transaction2 = (\<lambda>_ w. (Ok ext, w)),
       wk_account_permission_update = (\<lambda>_ w. (Ok ext, w)),
       wk_deploy_contract = (\<lambda>_ w. (Ok ext, w)),
       wk_trigger_contract = (\<lambda>_ w. (Ok ext, w)),
       wk_freeze_balance2 = (\<lambda>_ w. (Ok ext, w)),
       wk_unfreeze_balance2 = (\<lambda>_ w. (Ok ext, w)),
       wk_freeze_balance_v2 = (\<lambda>_ w. (Ok ext, w)),
       wk_unfreeze_balance_v2 = (\<lambda>_ w. (Ok ext, w)),
       wk_delegate_resource = (\<lambda>_ w. (Ok ext, w)),
       wk_un_delegate_resource = (\<lambda>_ w. (Ok ext, w)),
       wk_withdraw_expire_unfreeze = (\<lambda>_ w. (Ok ext, w)),
       wk_cancel_all_unfreeze_v2 = (\<lambda>_ w. (Ok ext, w)),
       wk_withdraw_balance2 = (\<lambda>_ w. (Ok ext, w)),
       wk_proposal_create = (\<lambda>_ w. (Ok ext, w)),
       wk_proposal_approve = (\<lambda>_ w. (Ok ext, w)),
       wk_proposal_delete = (\<lambda>_ w. (Ok ext, w)),
       wk_create_asset_issue2 = (\<lambda>_ w. (Ok ext, w)),
       wk_transfer_asset2 = (\<lambda>_ w. (Ok ext, w)),
       wk_participate_asset_issue2 = (\<lambda>_ w. (Ok ext, w)),
       wk_unfreeze_asset2 = (\<lambda>_ w. (Ok ext, w)),
       wk_update_asset2 = (\<lambda>_ w. (Ok ext, w)),
       wk_create_account2 = (\<lambda>_ w. (Ok ext, w)),
       wk_vote_witness_account2 = (\<lambda>_ w. (Ok ext, w)),
       wk_update_account2 = (\<lambda>_ w. (Ok ext, w)),
       wk_set_account_id = (\<lambda>_ w. (Ok tx, w)),
       wk_clear_contract_abi = (\<lambda>_ w. (Ok ext, w)),
       wk_update_setting = (\<lambda>_ w. (Ok ext, w)),
       wk_update_energy_limit = (\<lambda>_ w. (Ok ext, w)),
       wk_create_witness2 = (\<lambda>_ w. (Ok ext, w)),
       wk_update_witness2 = (\<lambda>_ w. (Ok ext, w)),
       wk_update_brokerage = (\<lambda>_ w. (Ok ext, w)),
       wk_exchange_create = (\<lambda>_ w. (Ok ext, w)),
       wk_exchange_inject = (\<lambda>_ w. (Ok ext, w)),
       wk_exchange_withdraw = (\<lambda>_ w. (Ok ext, w)),
       wk_exchange_transaction = (\<lambda>_ w. (Ok ext, w)),
       wk_market_sell_asset = (\<lambda>_ w. (Ok ext, w)),
       wk_market_cancel_order = (\<lambda>_ w. (Ok ext, w)) \<rparr>"

lemma constant_client_typed:
  assumes "\<And>t. pb_transaction_extention_transaction ext = Some t \<Longrightarrow> answer_ok C t" and "answer_ok C tx"
  shows "typed_client C (constant_client ext tx)"
  using assms by (simp add: typed_client_def typed_building_def constant_client_def)

end
