(* ===== verification/Grpc_Send.thy ===== *)
theory Grpc_Send
  imports Grpc_Build
begin

text \<open>
  What the guard of \<open>Node_Guard\<close> and the methods of \<open>Grpc_Build\<close> promise of a transaction a
  node built.
\<close>

section \<open>The client accepts what it asked for\<close>

text \<open>
  C7: a node can only answer a request to build with the requested contract, for every operation
  but \<open>set_account_id\<close>.  Whatever it answers, and however often the call was retried, a transaction the gRPC transport returns has
  an id that is the hash of its bytes, and those bytes hold exactly one contract, of the
  requested kind, whose parameter decodes to exactly the requested message (a deployment: up to
  the fields the node derives) and, read independently, means the request.  \<open>Grpc_Transport\<close> shows
  what happens for \<open>set_account_id\<close>.
\<close>

theorem grpc_built_is_requested:
  assumes "prost_tx C" and "typed_client C N" and "\<forall>s. c \<noteq> CtSetAccountId s"
    and "build_contract (grpc_build_rpcs G C P N) c w = (Inr raw, w')"
  shows "raw_tx_consistent C raw \<and>
    (\<exists>raw_data contract v ret.
       decode_tx C (raw_tx_proto raw) = Some \<lparr> tx_raw_data = Some raw_data, tx_signature = [], tx_ret = ret \<rparr>
       \<and> raw_contract raw_data = [contract]
       \<and> pbc_type contract = pb_contract_type_number (requested_type c)
       \<and> pbc_parameter contract = Some v
       \<and> holds_request P c (any_value v)
       \<and> (wire_exact c \<longrightarrow> contract_meaning P (requested_type c) (any_value v) = Some c))"
  using grpc_accepted [OF assms] contract_meaning_of_request
  unfolding accepted_def built_as_def by blast

text \<open>A node that answers every request with a transfer of one sun.\<close>

definition transfer_contract_message :: pb_contract where
  "transfer_contract_message =
     sample_contract\<lparr> pbc_parameter := Some \<lparr> any_type_url = ''t'',
       any_value = enc_transfer_message (transfer_to_proto sample_transfer) \<rparr> \<rparr>"

definition transfer_raw :: pb_raw where
  "transfer_raw = sample_raw\<lparr> raw_contract := [transfer_contract_message] \<rparr>"

definition transfer_tx :: pb_transaction where
  "transfer_tx = sample_tx\<lparr> tx_raw_data := Some transfer_raw \<rparr>"

definition transfer_answer :: pb_transaction_extention where
  "transfer_answer =
     \<lparr> pb_transaction_extention_transaction = Some transfer_tx, pb_transaction_extention_txid = [],
       pb_transaction_extention_constant_result = [], pb_transaction_extention_result = None,
       pb_transaction_extention_energy_used = 0, pb_transaction_extention_logs = [],
       pb_transaction_extention_internal_transactions = [],
       pb_transaction_extention_energy_penalty = 0 \<rparr>"

definition transfer_node :: "nat wallet_client" where
  "transfer_node = constant_client transfer_answer transfer_tx"

definition quiet_core :: "nat grpc_core" where
  "quiet_core =
     \<lparr> core_runtime = \<lparr> rt_rand = (\<lambda>w. (0, w)), rt_sleep = (\<lambda>_ w. w), rt_now = (\<lambda>w. w), rt_mul = (\<lambda>d _. d) \<rparr>,
       core_retry = retry_config_default, core_middleware = [] \<rparr>"

definition transfer_raw_tx :: raw_transaction where
  "transfer_raw_tx =
     \<lparr> raw_tx_expiration = 7, raw_tx_timestamp = 5,
       raw_tx_id = sha256 sample_codec (encode_raw sample_codec transfer_raw),
       raw_tx_proto = encode_tx sample_codec transfer_tx \<rparr>"

lemma transfer_encode: "encode_tx sample_codec transfer_tx = enc_transaction transfer_tx"
  by (simp add: sample_codec_def reference_codec_def enc_transaction_def)

lemma transfer_value: "enc_transfer_message (transfer_to_proto sample_transfer) = [10, 1, 2, 18, 1, 3, 24, 1]"
  by (simp add: enc_transfer_message_def transfer_to_proto_def sample_transfer_def addr_bytes_def
      put_bytes_def put_i64_def enc_field_def len_field_def enc_fields_def)

lemma transfer_tx_ok: "answer_ok sample_codec transfer_tx"
proof -
  have "pb_transaction_ok transfer_tx"
    by (simp add: pb_transaction_ok_def transfer_tx_def transfer_raw_def transfer_contract_message_def
        pb_raw_ok_def any_ok_def string_ok_def sample_raw_def sample_contract_def sample_tx_def str_bytes_def
        valid_utf8.simps utf8_step_def utf8_width_def nth_or_zero_def)
  moreover have "length (enc_transaction transfer_tx) < 100"
    by (simp add: enc_transaction_def transfer_tx_def transfer_raw_def transfer_contract_message_def
        transfer_value sample_tx_def sample_eval)
  ultimately show ?thesis by (simp add: answer_ok_def transfer_encode)
qed

lemma transfer_node_typed: "typed_client sample_codec transfer_node"
  unfolding transfer_node_def
  by (rule constant_client_typed) (auto simp: transfer_answer_def transfer_tx_ok)

lemma transfer_from_node:
  "from_node_encoded sample_codec (encode_tx sample_codec transfer_tx) [] = Ok transfer_raw_tx"
proof -
  have "from_encoded sample_codec (encode_tx sample_codec transfer_tx) []
      = Ok \<lparr> dec_raw = \<lparr> raw_tx_expiration = raw_expiration transfer_raw,
                        raw_tx_timestamp = raw_timestamp transfer_raw,
                        raw_tx_id = sha256 sample_codec (encode_raw sample_codec transfer_raw),
                        raw_tx_proto = encode_tx sample_codec (transfer_tx\<lparr> tx_signature := [] \<rparr>) \<rparr>,
            dec_signatures = [], dec_has_results = (tx_ret transfer_tx \<noteq> []),
            dec_has_contract = (raw_contract transfer_raw \<noteq> []) \<rparr>"
    using transfer_tx_ok
    by (intro prost_tx.from_encoded_encode_tx [OF sample_prost])
      (simp_all add: answer_ok_def transfer_tx_def sample_tx_def)
  then show ?thesis
    by (simp add: from_node_encoded_def transfer_raw_tx_def transfer_raw_def transfer_tx_def sample_tx_def
        sample_raw_def)
qed

lemma quiet_call: "client req w = (Inr v, w') \<Longrightarrow> retry_unary quiet_core client label req w = (Inr v, w')"
  by (simp add: retry_unary_def unary_def call_with_retry_def quiet_core_def retry_def retry_loop.simps)

lemma transfer_built:
  "build_contract (grpc_build_rpcs quiet_core sample_codec transfer_decoders transfer_node)
     (CtTransfer sample_transfer) w = (Ok transfer_raw_tx, w)"
proof -
  have "retry_unary quiet_core (wk_create_transaction2 transfer_node) ''create_transaction2''
      (transfer_to_proto sample_transfer) w = (Ok transfer_answer, w)"
    by (rule quiet_call) (simp add: transfer_node_def constant_client_def)
  moreover have "raw_from_extention sample_codec (prost_transfer transfer_decoders) transfer_answer
      (transfer_to_proto sample_transfer) PbTransferContract = Ok transfer_raw_tx"
  proof -
    have "check_built (prost_transfer transfer_decoders) (transfer_to_proto sample_transfer)
        PbTransferContract (\<lambda>built. built) transfer_contract_message = Ok ()"
      using sample_transfer_held
      by (simp add: check_built_Ok transfer_contract_message_def sample_contract_def)
    moreover have "pb_transaction_extention_transaction transfer_answer = Some transfer_tx"
      "pb_transaction_extention_result transfer_answer = None" "pb_transaction_extention_txid transfer_answer = []"
      "tx_raw_data transfer_tx = Some transfer_raw" "raw_contract transfer_raw = [transfer_contract_message]"
      by (simp_all add: transfer_answer_def transfer_tx_def transfer_raw_def)
    ultimately show ?thesis
      by (simp add: raw_from_extention_def raw_from_extention_with_def check_return_def transfer_from_node)
  qed
  ultimately show ?thesis by (simp add: grpc_build_rpcs_def grpc_transfer_trx_def awaited_def Let_def)
qed

theorem grpc_built_is_requested_witness:
  "\<exists>raw_data contract v ret.
     decode_tx sample_codec (raw_tx_proto transfer_raw_tx)
       = Some \<lparr> tx_raw_data = Some raw_data, tx_signature = [], tx_ret = ret \<rparr>
     \<and> raw_contract raw_data = [contract] \<and> pbc_parameter contract = Some v
     \<and> contract_meaning transfer_decoders PbTransferContract (any_value v) = Some (CtTransfer sample_transfer)"
proof -
  have "\<forall>s. CtTransfer sample_transfer \<noteq> CtSetAccountId s" by simp
  from grpc_built_is_requested [OF sample_prost transfer_node_typed this transfer_built]
  show ?thesis by (simp del: contract_meaning.simps) auto
qed

end
