(* ===== verification/Answer_Codec.thy ===== *)
theory Answer_Codec
  imports Answer_Messages Contract_Codec Rpc_Types
begin

text \<open>
  From the messages a node answers with to the domain types
  (\<open>crates/rpc-types/src/codec/mod.rs\<close>), one function per message, in the order of the file.  A
  sum of sun that is not checked is a word operation, which wraps as a release build does.
\<close>

section \<open>Fields\<close>

definition opt_addr :: "bytes \<Rightarrow> address option" where
  "opt_addr bs = (if bs = [] then None else result_ok (address_from_slice bs))"

definition log_addr :: "bytes \<Rightarrow> response_error + address" where
  "log_addr bs =
     (case fixed_bytes evm_address_len bs of
        Some evm \<Rightarrow> Ok (address_from_evm_bytes evm)
      | None \<Rightarrow> addr bs)"

definition b256 :: "bytes \<Rightarrow> bytes" where
  "b256 bs = (if length bs = 32 then bs else replicate 32 0)"

section \<open>Accounts\<close>

definition frozen_from_proto :: "pb_freeze_v2 \<Rightarrow> freeze_v2 option" where
  "frozen_from_proto f =
     map_option (\<lambda>r. \<lparr> freeze_v2_resource = r, freeze_v2_amount = from_sun_unchecked (pb_freeze_v2_amount f) \<rparr>)
       (resource_from_i32 (pb_freeze_v2_type f))"

definition unfrozen_from_proto :: "pb_unfreeze_v2 \<Rightarrow> unfreeze_v2 option" where
  "unfrozen_from_proto u =
     map_option (\<lambda>r. \<lparr> unfreeze_v2_resource = r,
                        unfreeze_v2_amount = from_sun_unchecked (pb_unfreeze_v2_unfreeze_amount u),
                        unfreeze_v2_expire_time_ms = pb_unfreeze_v2_unfreeze_expire_time u \<rparr>)
       (resource_from_i32 (pb_unfreeze_v2_type u))"

definition vote_from_proto :: "pb_vote \<Rightarrow> response_error + vote" where
  "vote_from_proto v =
     and_then (addr (pb_vote_vote_address v)) (\<lambda>va.
       Ok \<lparr> vote_vote_address = va, vote_vote_count = pb_vote_vote_count v \<rparr>)"

definition account_permissions_from_proto :: "pb_account \<Rightarrow> account_permissions" where
  "account_permissions_from_proto a =
     \<lparr> account_permissions_owner =
         Option.bind (pb_account_owner_permission a) (\<lambda>p. result_ok (permission_from_proto p)),
       account_permissions_witness =
         Option.bind (pb_account_witness_permission a) (\<lambda>p. result_ok (permission_from_proto p)),
       account_permissions_actives = filter_ok permission_from_proto (pb_account_active_permission a) \<rparr>"

definition account_from_proto :: "pb_account \<Rightarrow> address \<Rightarrow> response_error + account_info" where
  "account_from_proto a queried =
     (let is_activated = (pb_account_address a \<noteq> [])
      in and_then (if pb_account_address a = [] then Ok queried else addr (pb_account_address a)) (\<lambda>address.
           Ok \<lparr> account_info_address = address,
                account_info_balance = from_sun_unchecked (pb_account_balance a),
                account_info_name = from_utf8_lossy (pb_account_account_name a),
                account_info_is_activated = is_activated,
                account_info_frozen_v2 = List.map_filter frozen_from_proto (pb_account_frozen_v2 a),
                account_info_unfrozen_v2 = List.map_filter unfrozen_from_proto (pb_account_unfrozen_v2 a),
                account_info_votes = filter_ok vote_from_proto (pb_account_votes a),
                account_info_permissions = account_permissions_from_proto a,
                account_info_trc10_balances = pb_account_asset_v2 a \<rparr>))"

definition account_resource_from_proto :: "pb_account_resource_message \<Rightarrow> account_resource" where
  "account_resource_from_proto r =
     \<lparr> account_resource_free_bandwidth_used = pb_account_resource_message_free_net_used r,
       account_resource_free_bandwidth_limit = pb_account_resource_message_free_net_limit r,
       account_resource_bandwidth_used = pb_account_resource_message_net_used r,
       account_resource_bandwidth_limit = pb_account_resource_message_net_limit r,
       account_resource_energy_used = pb_account_resource_message_energy_used r,
       account_resource_energy_limit = pb_account_resource_message_energy_limit r,
       account_resource_delegated_bandwidth_for_others = trx_zero,
       account_resource_delegated_energy_for_others = trx_zero,
       account_resource_received_bandwidth = trx_zero,
       account_resource_received_energy = trx_zero,
       account_resource_tron_power_used =
         from_sun_unchecked (pb_account_resource_message_tron_power_used r * 1000000),
       account_resource_tron_power_limit =
         from_sun_unchecked (pb_account_resource_message_tron_power_limit r * 1000000) \<rparr>"

section \<open>Receipts\<close>

definition contract_result_from_i32 :: "i32 \<Rightarrow> contract_result" where
  "contract_result_from_i32 n =
     (if n = 0 then ResultDefault
      else if n = 1 then ResultSuccess
      else if n = 2 then ResultRevert
      else if n = 3 then ResultBadJumpDestination
      else if n = 4 then ResultOutOfMemory
      else if n = 5 then ResultPrecompiledContract
      else if n = 6 then ResultStackTooSmall
      else if n = 7 then ResultStackTooLarge
      else if n = 8 then ResultIllegalOperation
      else if n = 9 then ResultStackOverflow
      else if n = 10 then ResultOutOfEnergy
      else if n = 11 then ResultOutOfTime
      else if n = 12 then ResultJvmStackOverflow
      else if n = 13 then ResultUnknownFailure
      else if n = 14 then ResultTransferFailed
      else if n = 15 then ResultInvalidCode
      else ResultOther n)"

definition log_from_proto :: "pb_log \<Rightarrow> response_error + event_log" where
  "log_from_proto l =
     and_then (log_addr (pb_log_address l)) (\<lambda>a.
       Ok (log_new_unchecked a (map b256 (pb_log_topics l)) (pb_log_data l)))"

definition internal_transaction_from_proto ::
  "pb_internal_transaction \<Rightarrow> response_error + internal_transaction" where
  "internal_transaction_from_proto tx =
     and_then (ok_or (malformed ''bad internal transaction hash length'')
        (fixed_bytes 32 (pb_internal_transaction_hash tx))) (\<lambda>hash.
       Ok \<lparr> internal_transaction_hash = hash,
            internal_transaction_caller_address = opt_addr (pb_internal_transaction_caller_address tx),
            internal_transaction_transfer_to_address =
              opt_addr (pb_internal_transaction_transfer_to_address tx),
            internal_transaction_call_values =
              map (\<lambda>v. \<lparr> call_value_amount = pb_call_value_info_call_value v,
                          call_value_token_id = pb_call_value_info_token_id v \<rparr>)
                (pb_internal_transaction_call_value_info tx),
            internal_transaction_note = from_utf8_lossy (pb_internal_transaction_note tx),
            internal_transaction_rejected = pb_internal_transaction_rejected tx,
            internal_transaction_extra = pb_internal_transaction_extra tx \<rparr>)"

definition receipt_from_proto :: "pb_resource_receipt \<Rightarrow> resource_receipt" where
  "receipt_from_proto r =
     \<lparr> resource_receipt_energy_usage = pb_resource_receipt_energy_usage r,
       resource_receipt_energy_fee = from_sun_unchecked (pb_resource_receipt_energy_fee r),
       resource_receipt_origin_energy_usage = pb_resource_receipt_origin_energy_usage r,
       resource_receipt_energy_usage_total = pb_resource_receipt_energy_usage_total r,
       resource_receipt_net_usage = pb_resource_receipt_net_usage r,
       resource_receipt_net_fee = from_sun_unchecked (pb_resource_receipt_net_fee r),
       resource_receipt_energy_penalty_total = pb_resource_receipt_energy_penalty_total r \<rparr>"

definition transaction_info_from_proto ::
  "pb_transaction_info \<Rightarrow> response_error + transaction_info option" where
  "transaction_info_from_proto info =
     (if pb_transaction_info_id info = [] then Ok None
      else
        and_then (ok_or (malformed ''bad txid length'') (fixed_bytes 32 (pb_transaction_info_id info))) (\<lambda>tx_id.
        let receipt = (case pb_transaction_info_receipt info of
                         None \<Rightarrow> pb_resource_receipt_default | Some r \<Rightarrow> r);
            contract_result = contract_result_from_i32 (pb_resource_receipt_result receipt);
            status = (if pb_transaction_info_result info \<noteq> 0 \<or> contract_result_is_failure contract_result
                      then TxFailed else TxSuccess)
        in and_then (collect_results log_from_proto (pb_transaction_info_log info)) (\<lambda>logs.
           let revert_reason = (if pb_transaction_info_res_message info = [] then None
                                else Some (from_utf8_lossy (pb_transaction_info_res_message info)))
           in and_then (collect_results internal_transaction_from_proto
                (pb_transaction_info_internal_transactions info)) (\<lambda>internal_transactions.
             Ok (Some
               \<lparr> transaction_info_tx_id = tx_id,
                 transaction_info_block_number = pb_transaction_info_block_number info,
                 transaction_info_block_timestamp = pb_transaction_info_block_time_stamp info,
                 transaction_info_status = status,
                 transaction_info_fee = from_sun_unchecked (pb_transaction_info_fee info),
                 transaction_info_energy_usage_total = pb_resource_receipt_energy_usage_total receipt,
                 transaction_info_energy_fee = from_sun_unchecked (pb_resource_receipt_energy_fee receipt),
                 transaction_info_net_usage = pb_resource_receipt_net_usage receipt,
                 transaction_info_net_fee = from_sun_unchecked (pb_resource_receipt_net_fee receipt),
                 transaction_info_receipt = receipt_from_proto receipt,
                 transaction_info_contract_result = contract_result,
                 transaction_info_contract_address = opt_addr (pb_transaction_info_contract_address info),
                 transaction_info_logs = logs,
                 transaction_info_internal_transactions = internal_transactions,
                 transaction_info_revert_reason = revert_reason \<rparr>)))))"

section \<open>Calls and contracts\<close>

definition constant_result_from_extention ::
  "pb_transaction_extention \<Rightarrow> response_error + constant_call_result" where
  "constant_result_from_extention ext =
     (let output = (case pb_transaction_extention_constant_result ext of [] \<Rightarrow> [] | b # _ \<Rightarrow> b)
      in and_then
           (case pb_transaction_extention_result ext of
              Some r \<Rightarrow>
                (if \<not> pb_return_result r then
                   (let msg = from_utf8_lossy (pb_return_message r)
                    in if output = [] then Err (NodeError msg) else Ok (Some msg))
                 else Ok None)
            | None \<Rightarrow> Ok None)
           (\<lambda>revert_reason.
              Ok \<lparr> constant_call_result_output = output,
                   constant_call_result_energy_used = pb_transaction_extention_energy_used ext,
                   constant_call_result_revert_reason = revert_reason \<rparr>))"

definition smart_contract_from_proto :: "pb_smart_contract \<Rightarrow> smart_contract_info" where
  "smart_contract_from_proto c =
     \<lparr> smart_contract_info_address = opt_addr (pb_smart_contract_address c),
       smart_contract_info_origin_address = opt_addr (pb_smart_origin_address c),
       smart_contract_info_abi = (case pb_smart_abi c of None \<Rightarrow> abi_new | Some a \<Rightarrow> abi_from_proto a),
       smart_contract_info_bytecode = pb_smart_bytecode c,
       smart_contract_info_runtime_bytecode = None,
       smart_contract_info_name = pb_smart_name c,
       smart_contract_info_consume_user_resource_percent = pb_smart_consume_user_resource_percent c,
       smart_contract_info_origin_energy_limit = pb_smart_origin_energy_limit c \<rparr>"

definition smart_contract_info_default :: smart_contract_info where
  "smart_contract_info_default =
     \<lparr> smart_contract_info_address = None, smart_contract_info_origin_address = None,
       smart_contract_info_abi = abi_new, smart_contract_info_bytecode = [],
       smart_contract_info_runtime_bytecode = None, smart_contract_info_name = [],
       smart_contract_info_consume_user_resource_percent = 0,
       smart_contract_info_origin_energy_limit = 0 \<rparr>"

definition smart_contract_info_from_wrapper :: "pb_smart_contract_data_wrapper \<Rightarrow> smart_contract_info" where
  "smart_contract_info_from_wrapper w =
     (let info = (case pb_smart_contract_data_wrapper_smart_contract w of
                    None \<Rightarrow> smart_contract_info_default | Some c \<Rightarrow> smart_contract_from_proto c)
      in if pb_smart_contract_data_wrapper_runtimecode w \<noteq> []
         then info\<lparr> smart_contract_info_runtime_bytecode := Some (pb_smart_contract_data_wrapper_runtimecode w) \<rparr>
         else info)"

section \<open>Witnesses, delegations, tokens\<close>

definition witness_from_proto :: "pb_witness \<Rightarrow> witness_info option" where
  "witness_from_proto w =
     map_option (\<lambda>a.
       \<lparr> witness_info_address = a, witness_info_vote_count = pb_witness_vote_count w,
         witness_info_url = pb_witness_url w, witness_info_total_produced = pb_witness_total_produced w,
         witness_info_total_missed = pb_witness_total_missed w,
         witness_info_is_active = pb_witness_is_jobs w \<rparr>)
       (opt_addr (pb_witness_address w))"

definition delegated_resource_from_proto ::
  "pb_delegated_resource \<Rightarrow> response_error + delegated_resource" where
  "delegated_resource_from_proto d =
     and_then (addr (pb_delegated_resource_from d)) (\<lambda>src.
     and_then (addr (pb_delegated_resource_to d)) (\<lambda>dst.
       Ok \<lparr> delegated_resource_from = src,
            delegated_resource_to = dst,
            delegated_resource_bandwidth_amount =
              from_sun_unchecked (pb_delegated_resource_frozen_balance_for_bandwidth d),
            delegated_resource_energy_amount =
              from_sun_unchecked (pb_delegated_resource_frozen_balance_for_energy d),
            delegated_resource_bandwidth_expire_time_ms = pb_delegated_resource_expire_time_for_bandwidth d,
            delegated_resource_energy_expire_time_ms = pb_delegated_resource_expire_time_for_energy d \<rparr>))"

definition asset_info_from_proto :: "pb_asset_issue_contract \<Rightarrow> response_error + asset_info option" where
  "asset_info_from_proto a =
     (if pb_asset_issue_id a = [] then Ok None
      else and_then (addr (pb_asset_issue_owner_address a)) (\<lambda>owner.
        Ok (Some
          \<lparr> asset_info_id = pb_asset_issue_id a,
            asset_info_name = from_utf8_lossy (pb_asset_issue_name a),
            asset_info_abbr = from_utf8_lossy (pb_asset_issue_abbr a),
            asset_info_decimals = pb_asset_issue_precision a,
            asset_info_owner = owner,
            asset_info_total_supply = pb_asset_issue_total_supply a,
            asset_info_url = from_utf8_lossy (pb_asset_issue_url a) \<rparr>)))"

definition delegated_resource_index_from_proto ::
  "pb_delegated_resource_account_index \<Rightarrow> response_error + delegated_resource_index" where
  "delegated_resource_index_from_proto idx =
     and_then (addr (pb_delegated_resource_account_index_account idx)) (\<lambda>account.
       Ok \<lparr> delegated_resource_index_account = account,
            delegated_resource_index_from_accounts =
              filter_ok addr (pb_delegated_resource_account_index_from_accounts idx),
            delegated_resource_index_to_accounts =
              filter_ok addr (pb_delegated_resource_account_index_to_accounts idx) \<rparr>)"

definition proposal_from_proto :: "pb_proposal \<Rightarrow> proposal_info" where
  "proposal_from_proto p =
     (let proposer_address = (if pb_proposal_proposer_address p = [] then None
                              else result_ok (address_from_slice (pb_proposal_proposer_address p)));
          approvals = filter_ok address_from_slice (pb_proposal_approvals p)
      in \<lparr> proposal_info_proposal_id = pb_proposal_proposal_id p,
           proposal_info_proposer_address = proposer_address,
           proposal_info_parameters = pb_proposal_parameters p,
           proposal_info_expiration_time = pb_proposal_expiration_time p,
           proposal_info_create_time = pb_proposal_create_time p,
           proposal_info_approvals = approvals,
           proposal_info_state = proposal_state_from_i32 (pb_proposal_state p) \<rparr>)"

section \<open>Exchanges and market orders\<close>

definition exchange_info_from_proto :: "pb_exchange \<Rightarrow> response_error + exchange_info" where
  "exchange_info_from_proto e =
     and_then (addr (pb_exchange_creator_address e)) (\<lambda>creator.
       Ok \<lparr> exchange_info_exchange_id = pb_exchange_exchange_id e,
            exchange_info_creator_address = creator,
            exchange_info_create_time = pb_exchange_create_time e,
            exchange_info_first_token_id = from_utf8_lossy (pb_exchange_first_token_id e),
            exchange_info_first_token_balance = pb_exchange_first_token_balance e,
            exchange_info_second_token_id = from_utf8_lossy (pb_exchange_second_token_id e),
            exchange_info_second_token_balance = pb_exchange_second_token_balance e \<rparr>)"

definition market_order_state_from_i32 :: "i32 \<Rightarrow> market_order_state" where
  "market_order_state_from_i32 n =
     (if n = 1 then OrderInactive else if n = 2 then OrderCanceled else OrderActive)"

definition market_order_from_proto :: "pb_market_order \<Rightarrow> response_error + market_order_info" where
  "market_order_from_proto ord =
     (let state = market_order_state_from_i32 (pb_market_order_state ord)
      in and_then (ok_or (malformed ''market order id must be 32 bytes'')
           (fixed_bytes 32 (pb_market_order_order_id ord))) (\<lambda>order_id.
         and_then (addr (pb_market_order_owner_address ord)) (\<lambda>owner.
           Ok \<lparr> market_order_info_order_id = order_id,
                market_order_info_owner_address = owner,
                market_order_info_create_time = pb_market_order_create_time ord,
                market_order_info_sell_token_id = from_utf8_lossy (pb_market_order_sell_token_id ord),
                market_order_info_sell_token_quantity = pb_market_order_sell_token_quantity ord,
                market_order_info_buy_token_id = from_utf8_lossy (pb_market_order_buy_token_id ord),
                market_order_info_buy_token_quantity = pb_market_order_buy_token_quantity ord,
                market_order_info_sell_token_quantity_remain = pb_market_order_sell_token_quantity_remain ord,
                market_order_info_sell_token_quantity_return = pb_market_order_sell_token_quantity_return ord,
                market_order_info_state = state \<rparr>)))"

definition market_order_pair_from_proto :: "pb_market_order_pair \<Rightarrow> market_order_pair" where
  "market_order_pair_from_proto p =
     \<lparr> market_order_pair_sell_token_id = from_utf8_lossy (pb_market_order_pair_sell_token_id p),
       market_order_pair_buy_token_id = from_utf8_lossy (pb_market_order_pair_buy_token_id p) \<rparr>"

definition market_price_from_proto :: "pb_market_price \<Rightarrow> market_price" where
  "market_price_from_proto p =
     \<lparr> market_price_sell_token_quantity = pb_market_price_sell_token_quantity p,
       market_price_buy_token_quantity = pb_market_price_buy_token_quantity p \<rparr>"

section \<open>Network\<close>

definition sign_weight_from_proto :: "pb_transaction_sign_weight \<Rightarrow> response_error + sign_weight" where
  "sign_weight_from_proto w =
     and_then (collect_results addr (pb_transaction_sign_weight_approved_list w)) (\<lambda>approved_list.
       let required_weight = (case pb_transaction_sign_weight_permission w of
                                None \<Rightarrow> 0 | Some p \<Rightarrow> pb_permission_threshold p);
           result = (case pb_transaction_sign_weight_result w of
                       None \<Rightarrow> '''' | Some r \<Rightarrow> pb_sign_weight_result_message r)
       in Ok \<lparr> sign_weight_approved_list = approved_list,
               sign_weight_current_weight = pb_transaction_sign_weight_current_weight w,
               sign_weight_required_weight = required_weight,
               sign_weight_result = result \<rparr>)"

definition node_info_from_proto :: "pb_node_info \<Rightarrow> node_info" where
  "node_info_from_proto info =
     \<lparr> node_info_block = pb_node_info_block info,
       node_info_solidity_block = pb_node_info_solidity_block info,
       node_info_peer_num = pb_node_info_current_connect_count info \<rparr>"

definition node_addresses_from_proto :: "pb_node_list \<Rightarrow> node_address list" where
  "node_addresses_from_proto nodes =
     List.map_filter (\<lambda>n.
       map_option (\<lambda>a. \<lparr> node_address_host = from_utf8_lossy (pb_node_address_port_host a),
                         node_address_port = pb_node_address_port_port a \<rparr>)
         (pb_node_address n))
       (pb_node_list_nodes nodes)"

definition chain_properties_from_proto :: "pb_dynamic_properties \<Rightarrow> chain_properties" where
  "chain_properties_from_proto props =
     \<lparr> chain_properties_head_block_id = '''',
       chain_properties_head_block_num = pb_dynamic_properties_last_solidity_block_num props,
       chain_properties_head_block_time_stamp = 0 \<rparr>"

definition account_net_from_proto :: "pb_account_net_message \<Rightarrow> account_net" where
  "account_net_from_proto msg =
     \<lparr> account_net_free_net_used = pb_account_net_message_free_net_used msg,
       account_net_free_net_limit = pb_account_net_message_free_net_limit msg,
       account_net_net_used = pb_account_net_message_net_used msg,
       account_net_net_limit = pb_account_net_message_net_limit msg,
       account_net_total_net_weight = pb_account_net_message_total_net_weight msg,
       account_net_energy_used = 0,
       account_net_energy_limit = 0,
       account_net_total_energy_weight = 0 \<rparr>"

definition addresses_from_proto :: "bytes list \<Rightarrow> response_error + address list" where
  "addresses_from_proto raw = collect_results addr raw"

section \<open>What is decoded\<close>

lemma opt_addr_wf: "opt_addr bs = Some a \<Longrightarrow> wf_address a \<and> address_bytes a = bs"
  by (auto simp: opt_addr_def result_simps split: if_splits)

lemma log_addr_Ok_iff:
  "log_addr bs = Ok a \<longleftrightarrow>
     length bs = 20 \<and> a = Address (address_prefix # bs) \<or> wf_address (Address bs) \<and> a = Address bs"
  by (auto simp: log_addr_def fixed_bytes_def evm_address_len_def address_from_evm_bytes_def addr_Ok_iff
      wf_address_def address_len_def)

lemma is_err_iff: "is_err r \<longleftrightarrow> (\<nexists>a. r = Inr a)"
  by (cases r) auto

lemma log_addr_is_err: "is_err (log_addr bs) \<longleftrightarrow> length bs \<noteq> 20 \<and> \<not> wf_address (Address bs)"
  by (auto simp: is_err_iff log_addr_Ok_iff)

lemma log_from_proto_is_err: "is_err (log_from_proto l) \<longleftrightarrow> is_err (log_addr (pb_log_address l))"
  by (cases "log_addr (pb_log_address l)") (simp_all add: log_from_proto_def)

lemma internal_is_err:
  "is_err (internal_transaction_from_proto t) \<longleftrightarrow> length (pb_internal_transaction_hash t) \<noteq> 32"
  by (cases "length (pb_internal_transaction_hash t) = 32")
    (simp_all add: internal_transaction_from_proto_def fixed_bytes_def)

lemma is_err_not_ok: "is_err r \<longleftrightarrow> \<not> is_ok r"
  by (cases r) simp_all

lemma collect_results_is_err: "is_err (collect_results f xs) \<longleftrightarrow> (\<exists>x\<in>set xs. is_err (f x))"
  by (simp add: is_err_not_ok collect_results_is_ok)

lemma contract_result_failure:
  "contract_result_is_failure (contract_result_from_i32 n) \<longleftrightarrow> n \<noteq> 0 \<and> n \<noteq> 1"
  by (auto simp: contract_result_is_failure_def contract_result_from_i32_def)

text \<open>The receipt of an answer, or the empty one.\<close>

definition receipt_of :: "pb_transaction_info \<Rightarrow> pb_resource_receipt" where
  "receipt_of m = (case pb_transaction_info_receipt m of None \<Rightarrow> pb_resource_receipt_default | Some r \<Rightarrow> r)"

definition log_emitter_ok :: "pb_log \<Rightarrow> bool" where
  "log_emitter_ok l \<longleftrightarrow> length (pb_log_address l) = 20 \<or> wf_address (Address (pb_log_address l))"

definition info_readable :: "pb_transaction_info \<Rightarrow> bool" where
  "info_readable m \<longleftrightarrow>
     length (pb_transaction_info_id m) = 32
     \<and> (\<forall>l\<in>set (pb_transaction_info_log m). log_emitter_ok l)
     \<and> (\<forall>t\<in>set (pb_transaction_info_internal_transactions m). length (pb_internal_transaction_hash t) = 32)"

lemma transaction_info_is_err:
  "is_err (transaction_info_from_proto m) \<longleftrightarrow> pb_transaction_info_id m \<noteq> [] \<and> \<not> info_readable m"
proof (cases "length (pb_transaction_info_id m) = 32")
  case True
  then have "(\<exists>r. transaction_info_from_proto m = Inr r) \<longleftrightarrow>
      (\<exists>ls. collect_results log_from_proto (pb_transaction_info_log m) = Inr ls)
      \<and> (\<exists>ts. collect_results internal_transaction_from_proto (pb_transaction_info_internal_transactions m) = Inr ts)"
    by (cases "pb_transaction_info_id m = []")
      (auto simp: transaction_info_from_proto_def fixed_bytes_def Let_def result_simps)
  moreover have "(\<exists>ls. collect_results log_from_proto (pb_transaction_info_log m) = Inr ls)
      \<longleftrightarrow> (\<forall>l\<in>set (pb_transaction_info_log m). log_emitter_ok l)"
    using collect_results_is_err [of log_from_proto "pb_transaction_info_log m"]
    by (auto simp: is_err_iff [symmetric] log_from_proto_is_err log_addr_is_err log_emitter_ok_def
        simp flip: is_err_not_ok) (auto simp: is_err_iff)
  moreover have "(\<exists>ts. collect_results internal_transaction_from_proto
        (pb_transaction_info_internal_transactions m) = Inr ts)
      \<longleftrightarrow> (\<forall>t\<in>set (pb_transaction_info_internal_transactions m). length (pb_internal_transaction_hash t) = 32)"
    using collect_results_is_err [of internal_transaction_from_proto "pb_transaction_info_internal_transactions m"]
    by (auto simp: internal_is_err) (auto simp: is_err_iff)
  ultimately show ?thesis using True by (auto simp: is_err_iff info_readable_def)
next
  case False
  then show ?thesis
    by (auto simp: transaction_info_from_proto_def fixed_bytes_def info_readable_def)
qed

text \<open>
  What is reported of a transaction is what the node said of it.  An answer without an id is
  "not known yet"; an id, the emitter of a log or an internal hash of the wrong size is an error,
  and nothing else is; otherwise the id is the node's, the status is a success only when the
  node's own verdict is (\<open>result\<close> zero) and the contract did not fail, every log and internal
  transaction is there, in order, under its emitter, and the two copies of a receipt's figures agree.
\<close>

theorem transaction_info_decoded:
  "case transaction_info_from_proto m of
     Inl e \<Rightarrow> pb_transaction_info_id m \<noteq> [] \<and> \<not> info_readable m
   | Inr None \<Rightarrow> pb_transaction_info_id m = []
   | Inr (Some i) \<Rightarrow>
       info_readable m
       \<and> transaction_info_tx_id i = pb_transaction_info_id m
       \<and> (transaction_info_is_success i \<longleftrightarrow>
            pb_transaction_info_result m = 0 \<and> pb_resource_receipt_result (receipt_of m) \<in> {0, 1})
       \<and> transaction_info_block_number i = pb_transaction_info_block_number m
       \<and> transaction_info_fee i = from_sun_unchecked (pb_transaction_info_fee m)
       \<and> list_all2 (\<lambda>l e. address_bytes (log_address e)
              = (if length (pb_log_address l) = 20 then [address_prefix] else []) @ pb_log_address l
            \<and> log_data e = pb_log_data l \<and> log_topics e = map b256 (pb_log_topics l))
           (pb_transaction_info_log m) (transaction_info_logs i)
       \<and> list_all2 (\<lambda>t j. internal_transaction_hash j = pb_internal_transaction_hash t
            \<and> internal_transaction_rejected j = pb_internal_transaction_rejected t)
           (pb_transaction_info_internal_transactions m) (transaction_info_internal_transactions i)
       \<and> transaction_info_energy_usage_total i = resource_receipt_energy_usage_total (transaction_info_receipt i)
       \<and> transaction_info_energy_fee i = resource_receipt_energy_fee (transaction_info_receipt i)
       \<and> transaction_info_net_usage i = resource_receipt_net_usage (transaction_info_receipt i)
       \<and> transaction_info_net_fee i = resource_receipt_net_fee (transaction_info_receipt i)"
proof (cases "transaction_info_from_proto m")
  case (Inl e)
  then have "is_err (transaction_info_from_proto m)" by simp
  with Inl show ?thesis unfolding transaction_info_is_err by simp
next
  case (Inr r)
  then have "\<not> is_err (transaction_info_from_proto m)" by simp
  then have readable: "pb_transaction_info_id m \<noteq> [] \<Longrightarrow> info_readable m"
    by (simp add: transaction_info_is_err)
  show ?thesis
  proof (cases "pb_transaction_info_id m = []")
    case True
    then show ?thesis by (simp add: transaction_info_from_proto_def)
  next
    case False
    with Inr obtain logs internals where
      logs: "collect_results log_from_proto (pb_transaction_info_log m) = Ok logs"
      and internals: "collect_results internal_transaction_from_proto
          (pb_transaction_info_internal_transactions m) = Ok internals"
      by (auto simp: transaction_info_from_proto_def Let_def result_simps)
    have L: "list_all2 (\<lambda>l e. address_bytes (log_address e)
              = (if length (pb_log_address l) = 20 then [address_prefix] else []) @ pb_log_address l
            \<and> log_data e = pb_log_data l \<and> log_topics e = map b256 (pb_log_topics l))
           (pb_transaction_info_log m) logs"
      using collect_results_list_all2 [OF logs]
      by (rule list_all2_mono) (auto simp: log_from_proto_def result_simps log_addr_Ok_iff
          log_new_unchecked_def wf_address_def address_len_def)
    have I: "list_all2 (\<lambda>t j. internal_transaction_hash j = pb_internal_transaction_hash t
            \<and> internal_transaction_rejected j = pb_internal_transaction_rejected t)
           (pb_transaction_info_internal_transactions m) internals"
      using collect_results_list_all2 [OF internals]
      by (rule list_all2_mono) (auto simp: internal_transaction_from_proto_def result_simps)
    have id: "length (pb_transaction_info_id m) = 32"
      using readable [OF False] by (simp add: info_readable_def)
    show ?thesis
      using False id readable [OF False] L I
      by (simp add: transaction_info_from_proto_def Let_def fixed_bytes_def logs internals receipt_from_proto_def
          transaction_info_is_success_def contract_result_failure receipt_of_def)
  qed
qed

section \<open>Accounts are well-formed\<close>

definition wf_permission :: "permission \<Rightarrow> bool" where
  "wf_permission p \<longleftrightarrow>
     (\<forall>k\<in>set (permission_keys p). wf_address (permission_key_address k)) \<and> wf_opset (permission_operations p)"

lemma permission_from_proto_Ok:
  assumes "permission_from_proto m = Ok p"
  shows "wf_permission p \<and> permission_id p = pb_permission_id m \<and> permission_threshold p = pb_permission_threshold m
    \<and> (\<lambda>k. (address_bytes (permission_key_address k), permission_key_weight k)) ` set (permission_keys p)
        \<subseteq> (\<lambda>k. (pb_key_address k, pb_key_weight k)) ` set (pb_permission_keys m)"
  using assms opset_from_bytes_wf
  by (auto simp: permission_from_proto_def Let_def result_simps wf_permission_def set_filter_ok image_iff)
    force+

definition all_permissions :: "account_permissions \<Rightarrow> permission list" where
  "all_permissions ps =
     (case account_permissions_owner ps of None \<Rightarrow> [] | Some p \<Rightarrow> [p])
     @ (case account_permissions_witness ps of None \<Rightarrow> [] | Some p \<Rightarrow> [p])
     @ account_permissions_actives ps"

lemma account_permissions_wf:
  "p \<in> set (all_permissions (account_permissions_from_proto a)) \<Longrightarrow> wf_permission p"
  using permission_from_proto_Ok
  by (auto simp: all_permissions_def account_permissions_from_proto_def set_filter_ok bind_eq_Some_conv
      result_simps eq_commute [of "Some p"] split: option.splits)

text \<open>
  C38: an account read from a node is well-formed whatever the node sent: its address is the one
  asked for when the node gives none and the node's otherwise, every address in it (its own, the
  witnesses voted for, the keys of its permissions) is 21 bytes with the TRON prefix, every
  operation set is 32 bytes, and the entries that are not are left out rather than failing the
  whole answer, which fails only on the account's own address.
\<close>

theorem account_well_formed:
  assumes "wf_address queried"
  shows "case account_from_proto a queried of
      Inl e \<Rightarrow> pb_account_address a \<noteq> [] \<and> \<not> wf_address (Address (pb_account_address a))
    | Inr i \<Rightarrow>
        wf_address (account_info_address i)
        \<and> account_info_address i = (if pb_account_address a = [] then queried else Address (pb_account_address a))
        \<and> (account_info_is_activated i \<longleftrightarrow> pb_account_address a \<noteq> [])
        \<and> account_info_votes i = map (\<lambda>v. \<lparr> vote_vote_address = Address (pb_vote_vote_address v),
                                            vote_vote_count = pb_vote_vote_count v \<rparr>)
            (filter (\<lambda>v. wf_address (Address (pb_vote_vote_address v))) (pb_account_votes a))
        \<and> list_all wf_permission (all_permissions (account_info_permissions i))"
proof -
  have votes: "filter_ok vote_from_proto vs =
      map (\<lambda>v. \<lparr> vote_vote_address = Address (pb_vote_vote_address v), vote_vote_count = pb_vote_vote_count v \<rparr>)
        (filter (\<lambda>v. wf_address (Address (pb_vote_vote_address v))) vs)" for vs
  proof (induction vs)
    case (Cons v vs)
    then show ?case
      using addr_Ok_iff [of "pb_vote_vote_address v"]
      by (cases "addr (pb_vote_vote_address v)") (auto simp: vote_from_proto_def)
  qed simp
  show ?thesis
  proof (cases "pb_account_address a = []")
    case True
    with assms account_permissions_wf show ?thesis
      by (simp add: account_from_proto_def votes list_all_iff)
  next
    case False
    then show ?thesis
      using addr_Ok_iff [of "pb_account_address a"] account_permissions_wf
      by (cases "addr (pb_account_address a)") (auto simp: account_from_proto_def votes list_all_iff)
  qed
qed

theorem account_well_formed_witness:
  "account_info_votes (case account_from_proto
       (pb_account_default\<lparr> pb_account_votes :=
          [\<lparr> pb_vote_vote_address = [1, 2, 3], pb_vote_vote_count = 9 \<rparr>,
           \<lparr> pb_vote_vote_address = 65 # replicate 20 5, pb_vote_vote_count = 7 \<rparr>] \<rparr>) address_zero of Inr i \<Rightarrow> i)
   = [\<lparr> vote_vote_address = Address (65 # replicate 20 5), vote_vote_count = 7 \<rparr>]"
proof -
  let ?a = "pb_account_default\<lparr> pb_account_votes :=
          [\<lparr> pb_vote_vote_address = [1, 2, 3], pb_vote_vote_count = 9 \<rparr>,
           \<lparr> pb_vote_vote_address = 65 # replicate 20 5, pb_vote_vote_count = 7 \<rparr>] \<rparr>"
  have zero: "wf_address address_zero"
    by (simp add: wf_address_def address_zero_def address_len_def evm_address_len_def address_prefix_def)
  have "pb_account_address ?a = []" by (simp add: pb_account_default_def)
  with account_well_formed [OF zero, of ?a] show ?thesis
    by (cases "account_from_proto ?a address_zero")
      (auto simp: wf_address_def address_len_def address_prefix_def)
qed

end
