(* ===== verification/Light_Block.thy ===== *)
theory Light_Block
  imports Rpc_Types Response_Error
begin

text \<open>
  Blocks without their transactions (\<open>crates/rpc-types/src/light_block.rs\<close>): the views of the
  block messages that leave field 1 out, and the block they become.
\<close>

record block_header_raw_summary =
  bhr_timestamp :: i64
  bhr_tx_trie_root :: bytes
  bhr_parent_hash :: bytes
  bhr_number :: i64
  bhr_witness_address :: bytes
  bhr_version :: i32

record block_header_summary =
  bh_raw_data :: "block_header_raw_summary option"

record block_summary =
  bs_block_header :: "block_header_summary option"
  bs_block_id :: bytes

record block_summary_list =
  bsl_blocks :: "block_summary list"

definition optional_hash :: "bytes \<Rightarrow> string \<Rightarrow> response_error + bytes option" where
  "optional_hash bs field =
     (if bs = [] then Ok None
      else and_then (ok_or (malformed (field @ '' must be 32 bytes'')) (fixed_bytes 32 bs)) (\<lambda>h. Ok (Some h)))"

definition optional_witness :: "bytes \<Rightarrow> response_error + address option" where
  "optional_witness bs =
     (if bs = [] then Ok None
      else map_err (\<lambda>e. Malformed (MsgAddress ''bad witness_address: '' e))
             (and_then (address_from_slice bs) (\<lambda>a. Ok (Some a))))"

definition into_block_info :: "block_summary \<Rightarrow> bytes option \<Rightarrow> response_error + block_info" where
  "into_block_info self fallback_hash =
     and_then (ok_or (malformed ''missing block_header'') (bs_block_header self)) (\<lambda>header.
     and_then (ok_or (malformed ''missing block_header.raw_data'') (bh_raw_data header)) (\<lambda>raw.
     and_then (if bs_block_id self = [] then ok_or (malformed ''missing blockid'') fallback_hash
               else ok_or (malformed ''blockid must be 32 bytes'') (fixed_bytes 32 (bs_block_id self))) (\<lambda>hash.
     and_then (optional_hash (bhr_parent_hash raw) ''parent_hash'') (\<lambda>parent_hash.
     and_then (optional_hash (bhr_tx_trie_root raw) ''tx_trie_root'') (\<lambda>tx_trie_root.
     and_then (optional_witness (bhr_witness_address raw)) (\<lambda>witness.
       Ok \<lparr> block_info_number = bhr_number raw,
            block_info_hash = hash,
            block_info_timestamp = bhr_timestamp raw,
            block_info_parent_hash = parent_hash,
            block_info_tx_trie_root = tx_trie_root,
            block_info_witness = witness,
            block_info_version = Some (bhr_version raw) \<rparr>))))))"

definition into_block_lookup :: "block_summary \<Rightarrow> bytes option \<Rightarrow> response_error + block_info option" where
  "into_block_lookup self fallback_hash =
     (if bs_block_header self = None then
        (if bs_block_id self = [] then Ok None else Err (malformed ''block has an id but no block_header''))
      else and_then (into_block_info self fallback_hash) (\<lambda>b. Ok (Some b)))"

section \<open>What is read of a block\<close>

lemma optional_hash_Ok_iff:
  "optional_hash bs field = Ok h \<longleftrightarrow>
     bs = [] \<and> h = None \<or> length bs = 32 \<and> h = Some bs"
  by (auto simp: optional_hash_def result_simps)

lemma optional_witness_Ok_iff:
  "optional_witness bs = Ok a \<longleftrightarrow>
     bs = [] \<and> a = None \<or> bs \<noteq> [] \<and> wf_address (Address bs) \<and> a = Some (Address bs)"
  by (auto simp: optional_witness_def result_simps)

lemma into_block_info_Ok:
  assumes "into_block_info s fallback = Ok b"
  obtains header raw where
    "bs_block_header s = Some header" "bh_raw_data header = Some raw"
    "block_info_number b = bhr_number raw" "block_info_timestamp b = bhr_timestamp raw"
    "if bs_block_id s = [] then fallback = Some (block_info_hash b)
     else block_info_hash b = bs_block_id s \<and> length (bs_block_id s) = 32"
    "pred_option (\<lambda>h. length h = 32) (block_info_parent_hash b)"
    "pred_option wf_address (block_info_witness b)"
  using assms
  by (auto simp: into_block_info_def result_simps optional_hash_Ok_iff optional_witness_Ok_iff
      split: if_splits)

text \<open>
  A block has the anchor a transaction needs: two bytes of its number and eight of its hash.
\<close>

lemma into_block_info_anchor:
  assumes "into_block_info s fallback = Ok b" and "\<And>h. fallback = Some h \<Longrightarrow> length h = 32"
  shows "length (block_info_hash b) = 32 \<and> length (ref_block_hash b) = 8 \<and> length (ref_block_bytes b) = 2"
  using assms by (elim into_block_info_Ok) (auto simp: ref_block_hash_length split: if_splits)

text \<open>
  Only the empty answer means that there is no such block, and an absent block is never made up
  from the hash that was asked for.
\<close>

lemma into_block_lookup_absent:
  "into_block_lookup s fallback = Ok None \<longleftrightarrow> bs_block_header s = None \<and> bs_block_id s = []"
  by (auto simp: into_block_lookup_def result_simps)

end
