(* ===== verification/Grpc_Read.thy ===== *)
theory Grpc_Read
  imports Node_Guard Answer_Codec Light_Block Text_Codecs Provider
begin

text \<open>
  The methods of the gRPC transport that read from a node
  (\<open>impl TronTransport for GrpcTransport\<close> in
  \<open>crates/provider/src/transport/grpc/fullnode.rs\<close>) and the broadcast, which is the one call that
  is never retried.  The methods of the generated clients are a record of functions.
\<close>

section \<open>The clients\<close>

record 'w read_client =
  rd_get_account :: "(pb_account, pb_account, 'w) tonic_method"
  rd_get_account_resource :: "(pb_account, pb_account_resource_message, 'w) tonic_method"
  rd_get_transaction_by_id :: "(pb_bytes_message, pb_transaction, 'w) tonic_method"
  rd_get_transaction_info_by_id :: "(pb_bytes_message, pb_transaction_info, 'w) tonic_method"
  rd_trigger_constant_contract :: "(pb_trigger_smart_contract, pb_transaction_extention, 'w) tonic_method"
  rd_estimate_energy :: "(pb_trigger_smart_contract, pb_estimate_energy_message, 'w) tonic_method"
  rd_get_delegated_resource :: "(pb_delegated_resource_message, pb_delegated_resource_list, 'w) tonic_method"
  rd_get_delegated_resource_account_index :: "(pb_bytes_message, pb_delegated_resource_account_index, 'w) tonic_method"
  rd_get_delegated_resource_v2 :: "(pb_delegated_resource_message, pb_delegated_resource_list, 'w) tonic_method"
  rd_get_delegated_resource_account_index_v2 :: "(pb_bytes_message, pb_delegated_resource_account_index, 'w) tonic_method"
  rd_get_can_delegated_max_size :: "(pb_can_delegated_max_size_request_message, pb_can_delegated_max_size_response_message, 'w) tonic_method"
  rd_get_reward_info :: "(pb_bytes_message, pb_number_message, 'w) tonic_method"
  rd_get_chain_parameters :: "(unit, pb_chain_parameters, 'w) tonic_method"
  rd_get_contract :: "(pb_bytes_message, pb_smart_contract, 'w) tonic_method"
  rd_get_contract_info :: "(pb_bytes_message, pb_smart_contract_data_wrapper, 'w) tonic_method"
  rd_list_witnesses :: "(unit, pb_witness_list, 'w) tonic_method"
  rd_get_paginated_now_witness_list :: "(pb_paginated_message, pb_witness_list, 'w) tonic_method"
  rd_list_proposals :: "(unit, pb_proposal_list, 'w) tonic_method"
  rd_get_paginated_proposal_list :: "(pb_paginated_message, pb_proposal_list, 'w) tonic_method"
  rd_get_proposal_by_id :: "(pb_bytes_message, pb_proposal, 'w) tonic_method"
  rd_get_asset_issue_by_id :: "(pb_bytes_message, pb_asset_issue_contract, 'w) tonic_method"
  rd_get_asset_issue_by_account :: "(pb_account, pb_asset_issue_list, 'w) tonic_method"
  rd_get_paginated_asset_issue_list :: "(pb_paginated_message, pb_asset_issue_list, 'w) tonic_method"
  rd_get_asset_issue_by_name :: "(pb_bytes_message, pb_asset_issue_contract, 'w) tonic_method"
  rd_get_asset_issue_list_by_name :: "(pb_bytes_message, pb_asset_issue_list, 'w) tonic_method"
  rd_get_can_withdraw_unfreeze_amount :: "(pb_can_withdraw_unfreeze_amount_request_message, pb_can_withdraw_unfreeze_amount_response_message, 'w) tonic_method"
  rd_get_available_unfreeze_count :: "(pb_get_available_unfreeze_count_request_message, pb_get_available_unfreeze_count_response_message, 'w) tonic_method"
  rd_get_bandwidth_prices :: "(unit, pb_prices_response_message, 'w) tonic_method"
  rd_get_energy_prices :: "(unit, pb_prices_response_message, 'w) tonic_method"
  rd_get_memo_fee :: "(unit, pb_prices_response_message, 'w) tonic_method"
  rd_get_next_maintenance_time :: "(unit, pb_number_message, 'w) tonic_method"
  rd_get_burn_trx :: "(unit, pb_number_message, 'w) tonic_method"
  rd_total_transaction :: "(unit, pb_number_message, 'w) tonic_method"
  rd_get_node_info :: "(unit, pb_node_info, 'w) tonic_method"
  rd_list_nodes :: "(unit, pb_node_list, 'w) tonic_method"
  rd_get_dynamic_properties :: "(unit, pb_dynamic_properties, 'w) tonic_method"
  rd_get_transaction_count_by_block_num :: "(pb_number_message, pb_number_message, 'w) tonic_method"
  rd_get_transactions_from_this2 :: "(pb_account_paginated, pb_transaction_list_extention, 'w) tonic_method"
  rd_get_transactions_to_this2 :: "(pb_account_paginated, pb_transaction_list_extention, 'w) tonic_method"
  rd_get_transaction_info_by_block_num :: "(pb_number_message, pb_transaction_info_list, 'w) tonic_method"
  rd_get_pending_size :: "(unit, pb_number_message, 'w) tonic_method"
  rd_get_transaction_from_pending :: "(pb_bytes_message, pb_transaction, 'w) tonic_method"
  rd_get_transaction_sign_weight :: "(pb_transaction, pb_transaction_sign_weight, 'w) tonic_method"
  rd_get_transaction_approved_list :: "(pb_transaction, pb_transaction_approved_list, 'w) tonic_method"
  rd_get_account_net :: "(pb_account, pb_account_net_message, 'w) tonic_method"
  rd_get_brokerage_info :: "(pb_bytes_message, pb_number_message, 'w) tonic_method"
  rd_list_exchanges :: "(unit, pb_exchange_list, 'w) tonic_method"
  rd_get_paginated_exchange_list :: "(pb_paginated_message, pb_exchange_list, 'w) tonic_method"
  rd_get_exchange_by_id :: "(pb_bytes_message, pb_exchange, 'w) tonic_method"
  rd_get_market_order_by_id :: "(pb_bytes_message, pb_market_order, 'w) tonic_method"
  rd_get_market_order_by_account :: "(pb_bytes_message, pb_market_order_list, 'w) tonic_method"
  rd_get_market_price_by_pair :: "(pb_market_order_pair, pb_market_price_list, 'w) tonic_method"
  rd_get_market_order_list_by_pair :: "(pb_market_order_pair, pb_market_order_list, 'w) tonic_method"
  rd_get_market_pair_list :: "(unit, pb_market_order_pair_list, 'w) tonic_method"
  rd_get_transaction_list_from_pending :: "(unit, pb_transaction_id_list, 'w) tonic_method"
  rd_broadcast_transaction :: "(pb_transaction, pb_return, 'w) tonic_method"
  rd_ready :: "'w \<Rightarrow> (string + unit) \<times> 'w"
  rd_get_now_block :: "(unit, block_summary, 'w) tonic_method"
  rd_get_block_by_number :: "(pb_number_message, block_summary, 'w) tonic_method"
  rd_get_block_by_id :: "(pb_bytes_message, block_summary, 'w) tonic_method"
  rd_get_blocks_by_latest_num :: "(pb_number_message, block_summary_list, 'w) tonic_method"
  rd_get_blocks_by_limit :: "(pb_block_limit, block_summary_list, 'w) tonic_method"

text \<open>A node that cannot be reached.\<close>

definition silent_node :: "'w read_client" where
  "silent_node =
     \<lparr> rd_get_account = (\<lambda>_ w. (Err (TonicUnavailable, []), w)),
       rd_get_account_resource = (\<lambda>_ w. (Err (TonicUnavailable, []), w)),
       rd_get_transaction_by_id = (\<lambda>_ w. (Err (TonicUnavailable, []), w)),
       rd_get_transaction_info_by_id = (\<lambda>_ w. (Err (TonicUnavailable, []), w)),
       rd_trigger_constant_contract = (\<lambda>_ w. (Err (TonicUnavailable, []), w)),
       rd_estimate_energy = (\<lambda>_ w. (Err (TonicUnavailable, []), w)),
       rd_get_delegated_resource = (\<lambda>_ w. (Err (TonicUnavailable, []), w)),
       rd_get_delegated_resource_account_index = (\<lambda>_ w. (Err (TonicUnavailable, []), w)),
       rd_get_delegated_resource_v2 = (\<lambda>_ w. (Err (TonicUnavailable, []), w)),
       rd_get_delegated_resource_account_index_v2 = (\<lambda>_ w. (Err (TonicUnavailable, []), w)),
       rd_get_can_delegated_max_size = (\<lambda>_ w. (Err (TonicUnavailable, []), w)),
       rd_get_reward_info = (\<lambda>_ w. (Err (TonicUnavailable, []), w)),
       rd_get_chain_parameters = (\<lambda>_ w. (Err (TonicUnavailable, []), w)),
       rd_get_contract = (\<lambda>_ w. (Err (TonicUnavailable, []), w)),
       rd_get_contract_info = (\<lambda>_ w. (Err (TonicUnavailable, []), w)),
       rd_list_witnesses = (\<lambda>_ w. (Err (TonicUnavailable, []), w)),
       rd_get_paginated_now_witness_list = (\<lambda>_ w. (Err (TonicUnavailable, []), w)),
       rd_list_proposals = (\<lambda>_ w. (Err (TonicUnavailable, []), w)),
       rd_get_paginated_proposal_list = (\<lambda>_ w. (Err (TonicUnavailable, []), w)),
       rd_get_proposal_by_id = (\<lambda>_ w. (Err (TonicUnavailable, []), w)),
       rd_get_asset_issue_by_id = (\<lambda>_ w. (Err (TonicUnavailable, []), w)),
       rd_get_asset_issue_by_account = (\<lambda>_ w. (Err (TonicUnavailable, []), w)),
       rd_get_paginated_asset_issue_list = (\<lambda>_ w. (Err (TonicUnavailable, []), w)),
       rd_get_asset_issue_by_name = (\<lambda>_ w. (Err (TonicUnavailable, []), w)),
       rd_get_asset_issue_list_by_name = (\<lambda>_ w. (Err (TonicUnavailable, []), w)),
       rd_get_can_withdraw_unfreeze_amount = (\<lambda>_ w. (Err (TonicUnavailable, []), w)),
       rd_get_available_unfreeze_count = (\<lambda>_ w. (Err (TonicUnavailable, []), w)),
       rd_get_bandwidth_prices = (\<lambda>_ w. (Err (TonicUnavailable, []), w)),
       rd_get_energy_prices = (\<lambda>_ w. (Err (TonicUnavailable, []), w)),
       rd_get_memo_fee = (\<lambda>_ w. (Err (TonicUnavailable, []), w)),
       rd_get_next_maintenance_time = (\<lambda>_ w. (Err (TonicUnavailable, []), w)),
       rd_get_burn_trx = (\<lambda>_ w. (Err (TonicUnavailable, []), w)),
       rd_total_transaction = (\<lambda>_ w. (Err (TonicUnavailable, []), w)),
       rd_get_node_info = (\<lambda>_ w. (Err (TonicUnavailable, []), w)),
       rd_list_nodes = (\<lambda>_ w. (Err (TonicUnavailable, []), w)),
       rd_get_dynamic_properties = (\<lambda>_ w. (Err (TonicUnavailable, []), w)),
       rd_get_transaction_count_by_block_num = (\<lambda>_ w. (Err (TonicUnavailable, []), w)),
       rd_get_transactions_from_this2 = (\<lambda>_ w. (Err (TonicUnavailable, []), w)),
       rd_get_transactions_to_this2 = (\<lambda>_ w. (Err (TonicUnavailable, []), w)),
       rd_get_transaction_info_by_block_num = (\<lambda>_ w. (Err (TonicUnavailable, []), w)),
       rd_get_pending_size = (\<lambda>_ w. (Err (TonicUnavailable, []), w)),
       rd_get_transaction_from_pending = (\<lambda>_ w. (Err (TonicUnavailable, []), w)),
       rd_get_transaction_sign_weight = (\<lambda>_ w. (Err (TonicUnavailable, []), w)),
       rd_get_transaction_approved_list = (\<lambda>_ w. (Err (TonicUnavailable, []), w)),
       rd_get_account_net = (\<lambda>_ w. (Err (TonicUnavailable, []), w)),
       rd_get_brokerage_info = (\<lambda>_ w. (Err (TonicUnavailable, []), w)),
       rd_list_exchanges = (\<lambda>_ w. (Err (TonicUnavailable, []), w)),
       rd_get_paginated_exchange_list = (\<lambda>_ w. (Err (TonicUnavailable, []), w)),
       rd_get_exchange_by_id = (\<lambda>_ w. (Err (TonicUnavailable, []), w)),
       rd_get_market_order_by_id = (\<lambda>_ w. (Err (TonicUnavailable, []), w)),
       rd_get_market_order_by_account = (\<lambda>_ w. (Err (TonicUnavailable, []), w)),
       rd_get_market_price_by_pair = (\<lambda>_ w. (Err (TonicUnavailable, []), w)),
       rd_get_market_order_list_by_pair = (\<lambda>_ w. (Err (TonicUnavailable, []), w)),
       rd_get_market_pair_list = (\<lambda>_ w. (Err (TonicUnavailable, []), w)),
       rd_get_transaction_list_from_pending = (\<lambda>_ w. (Err (TonicUnavailable, []), w)),
       rd_broadcast_transaction = (\<lambda>_ w. (Err (TonicUnavailable, []), w)),
       rd_ready = (\<lambda>w. (Err [], w)),
       rd_get_now_block = (\<lambda>_ w. (Err (TonicUnavailable, []), w)),
       rd_get_block_by_number = (\<lambda>_ w. (Err (TonicUnavailable, []), w)),
       rd_get_block_by_id = (\<lambda>_ w. (Err (TonicUnavailable, []), w)),
       rd_get_blocks_by_latest_num = (\<lambda>_ w. (Err (TonicUnavailable, []), w)),
       rd_get_blocks_by_limit = (\<lambda>_ w. (Err (TonicUnavailable, []), w)) \<rparr>"

section \<open>Helpers\<close>

text \<open>\<open>.filter_map(|x| f(x).transpose()).collect::<Result<_, _>>()\<close>: what is absent is left out.\<close>

fun collect_present :: "('a \<Rightarrow> 'e + 'b option) \<Rightarrow> 'a list \<Rightarrow> 'e + 'b list" where
  "collect_present f [] = Ok []"
| "collect_present f (x # xs) =
     (case f x of
        Inl e \<Rightarrow> Err e
      | Inr None \<Rightarrow> collect_present f xs
      | Inr (Some y) \<Rightarrow> and_then (collect_present f xs) (\<lambda>ys. Ok (y # ys)))"

text \<open>\<open>parse::<u64>().ok()\<close>\<close>

definition parse_u64 :: "string \<Rightarrow> u64 option" where
  "parse_u64 s =
     (let digits = (case s of c # ds \<Rightarrow> if c = CHR ''+'' then ds else s | [] \<Rightarrow> s)
      in case parse_digits digits of
           Some n \<Rightarrow> if n < 2 ^ 64 then Some (of_nat n) else None
         | None \<Rightarrow> None)"

text \<open>\<open>GrpcCore::unary\<close>: the service must be ready, in every attempt.\<close>

definition path_unary ::
  "'w grpc_core \<Rightarrow> ('w \<Rightarrow> (string + unit) \<times> 'w) \<Rightarrow> ('q, 'r, 'w) tonic_method \<Rightarrow> string \<Rightarrow> 'q \<Rightarrow> ('r, 'w) call" where
  "path_unary G ready client label req =
     call_with_retry (core_runtime G) (core_retry G) (core_middleware G) label (\<lambda>w.
       case ready w of
         (Inl e, w1) \<Rightarrow> (Err (TkRpc RpcUnavailable (''service was not ready: '' @ e)), w1)
       | (Inr _, w1) \<Rightarrow> unary client req w1)"

section \<open>Blocks\<close>

definition grpc_get_now_block :: "'w grpc_core \<Rightarrow> 'w read_client \<Rightarrow> (block_info, 'w) call" where
  "grpc_get_now_block G R =
     (let req = ()
      in awaited (path_unary G (rd_ready R) (rd_get_now_block R) ''get_now_block'' req) (\<lambda>res.
           map_err transport_of_response (into_block_info res None)))"

definition grpc_get_block_by_number :: "'w grpc_core \<Rightarrow> 'w read_client \<Rightarrow> i64 \<Rightarrow> (block_info option, 'w) call" where
  "grpc_get_block_by_number G R num =
     (let req = \<lparr> pb_number_message_num = num \<rparr>
      in awaited (path_unary G (rd_ready R) (rd_get_block_by_number R) ''get_block_by_number'' req) (\<lambda>res.
           map_err transport_of_response (into_block_lookup res None)))"

definition grpc_get_block_by_id :: "'w grpc_core \<Rightarrow> 'w read_client \<Rightarrow> bytes \<Rightarrow> (block_info option, 'w) call" where
  "grpc_get_block_by_id G R block_id =
     (let req = \<lparr> pb_bytes_message_value = block_id \<rparr>
      in awaited (path_unary G (rd_ready R) (rd_get_block_by_id R) ''get_block_by_id'' req) (\<lambda>res.
           map_err transport_of_response (into_block_lookup res (Some block_id))))"

definition grpc_get_blocks_by_latest_num :: "'w grpc_core \<Rightarrow> 'w read_client \<Rightarrow> i64 \<Rightarrow> (block_info list, 'w) call" where
  "grpc_get_blocks_by_latest_num G R count =
     (let req = \<lparr> pb_number_message_num = count \<rparr>
      in awaited (path_unary G (rd_ready R) (rd_get_blocks_by_latest_num R) ''get_blocks_by_latest_num'' req) (\<lambda>res.
           map_err transport_of_response (collect_results (\<lambda>b. into_block_info b None) (bsl_blocks res))))"

definition grpc_get_blocks_by_limit :: "'w grpc_core \<Rightarrow> 'w read_client \<Rightarrow> i64 \<Rightarrow> i64 \<Rightarrow> (block_info list, 'w) call" where
  "grpc_get_blocks_by_limit G R from_num to_num =
     (let req = \<lparr> pb_block_limit_start_num = from_num, pb_block_limit_end_num = to_num \<rparr>
      in awaited (path_unary G (rd_ready R) (rd_get_blocks_by_limit R) ''get_blocks_by_limit'' req) (\<lambda>res.
           map_err transport_of_response (collect_results (\<lambda>b. into_block_info b None) (bsl_blocks res))))"

section \<open>Reads\<close>

definition grpc_get_account :: "'w grpc_core \<Rightarrow> tx_codec \<Rightarrow> 'w read_client \<Rightarrow> address \<Rightarrow> (account_info, 'w) call" where
  "grpc_get_account G C R a =
     (let req = pb_account_default\<lparr> pb_account_address := address_bytes a \<rparr>
      in awaited (retry_unary G (rd_get_account R) ''get_account'' req) (\<lambda>res.
           map_err transport_of_response (account_from_proto res a)))"

definition grpc_get_account_resource :: "'w grpc_core \<Rightarrow> tx_codec \<Rightarrow> 'w read_client \<Rightarrow> address \<Rightarrow> (account_resource, 'w) call" where
  "grpc_get_account_resource G C R a =
     (let req = pb_account_default\<lparr> pb_account_address := address_bytes a \<rparr>
      in awaited (retry_unary G (rd_get_account_resource R) ''get_account_resource'' req) (\<lambda>res.
           Ok (account_resource_from_proto res)))"

definition grpc_get_transaction_by_id :: "'w grpc_core \<Rightarrow> tx_codec \<Rightarrow> 'w read_client \<Rightarrow> bytes \<Rightarrow> (signed_transaction option, 'w) call" where
  "grpc_get_transaction_by_id G C R tx_id =
     (let req = \<lparr> pb_bytes_message_value = tx_id \<rparr>
      in awaited (retry_unary G (rd_get_transaction_by_id R) ''get_transaction_by_id'' req) (\<lambda>res.
           map_err transport_of_response (signed_tx_lookup C res tx_id)))"

definition grpc_get_transaction_info :: "'w grpc_core \<Rightarrow> tx_codec \<Rightarrow> 'w read_client \<Rightarrow> bytes \<Rightarrow> (transaction_info option, 'w) call" where
  "grpc_get_transaction_info G C R tx_id =
     (let req = \<lparr> pb_bytes_message_value = tx_id \<rparr>
      in awaited (retry_unary G (rd_get_transaction_info_by_id R) ''get_transaction_info_by_id'' req) (\<lambda>res.
           map_err transport_of_response (transaction_info_from_proto res)))"

definition grpc_trigger_constant_contract :: "'w grpc_core \<Rightarrow> tx_codec \<Rightarrow> 'w read_client \<Rightarrow> trigger_smart_contract \<Rightarrow> (constant_call_result, 'w) call" where
  "grpc_trigger_constant_contract G C R params =
     (let req = trigger_smart_contract_to_proto params
      in awaited (retry_unary G (rd_trigger_constant_contract R) ''trigger_constant_contract'' req) (\<lambda>res.
           map_err transport_of_response (constant_result_from_extention res)))"

definition grpc_estimate_energy :: "'w grpc_core \<Rightarrow> tx_codec \<Rightarrow> 'w read_client \<Rightarrow> trigger_smart_contract \<Rightarrow> (i64, 'w) call" where
  "grpc_estimate_energy G C R params w =
     (let req = trigger_smart_contract_to_proto params
      in case retry_unary G (rd_estimate_energy R) ''estimate_energy'' req w of (r, w1) \<Rightarrow>
           (and_then (map_err estimate_energy_unsupported r) (\<lambda>msg.
            and_then (map_err (\<lambda>e. estimate_energy_unsupported (transport_of_response e))
              (check_return (pb_estimate_energy_message_result msg))) (\<lambda>_.
              Ok (pb_estimate_energy_message_energy_required msg))), w1))"

definition grpc_get_delegated_resource_v1 :: "'w grpc_core \<Rightarrow> tx_codec \<Rightarrow> 'w read_client \<Rightarrow> address \<Rightarrow> address \<Rightarrow> (delegated_resource list, 'w) call" where
  "grpc_get_delegated_resource_v1 G C R src dst =
     (let req = \<lparr> pb_delegated_resource_message_from_address = address_bytes src,
                   pb_delegated_resource_message_to_address = address_bytes dst \<rparr>
      in awaited (retry_unary G (rd_get_delegated_resource R) ''get_delegated_resource'' req) (\<lambda>res.
           map_err transport_of_response (collect_results delegated_resource_from_proto (pb_delegated_resource_list_delegated_resource res))))"

definition grpc_get_delegated_resource_index_v1 :: "'w grpc_core \<Rightarrow> tx_codec \<Rightarrow> 'w read_client \<Rightarrow> address \<Rightarrow> (delegated_resource_index, 'w) call" where
  "grpc_get_delegated_resource_index_v1 G C R a =
     (let req = \<lparr> pb_bytes_message_value = address_bytes a \<rparr>
      in awaited (retry_unary G (rd_get_delegated_resource_account_index R) ''get_delegated_resource_account_index'' req) (\<lambda>res.
           map_err transport_of_response (delegated_resource_index_from_proto res)))"

definition grpc_get_delegated_resource :: "'w grpc_core \<Rightarrow> tx_codec \<Rightarrow> 'w read_client \<Rightarrow> address \<Rightarrow> address \<Rightarrow> (delegated_resource list, 'w) call" where
  "grpc_get_delegated_resource G C R src dst =
     (let req = \<lparr> pb_delegated_resource_message_from_address = address_bytes src,
                   pb_delegated_resource_message_to_address = address_bytes dst \<rparr>
      in awaited (retry_unary G (rd_get_delegated_resource_v2 R) ''get_delegated_resource_v2'' req) (\<lambda>res.
           map_err transport_of_response (collect_results delegated_resource_from_proto (pb_delegated_resource_list_delegated_resource res))))"

definition grpc_get_delegated_resource_index :: "'w grpc_core \<Rightarrow> tx_codec \<Rightarrow> 'w read_client \<Rightarrow> address \<Rightarrow> (delegated_resource_index, 'w) call" where
  "grpc_get_delegated_resource_index G C R a =
     (let req = \<lparr> pb_bytes_message_value = address_bytes a \<rparr>
      in awaited (retry_unary G (rd_get_delegated_resource_account_index_v2 R) ''get_delegated_resource_account_index_v2'' req) (\<lambda>res.
           map_err transport_of_response (delegated_resource_index_from_proto res)))"

definition grpc_get_can_delegate_max :: "'w grpc_core \<Rightarrow> tx_codec \<Rightarrow> 'w read_client \<Rightarrow> address \<Rightarrow> resource_code \<Rightarrow> (trx, 'w) call" where
  "grpc_get_can_delegate_max G C R a resource =
     (let req = \<lparr> pb_can_delegated_max_size_request_message_type = resource_as_i32 resource,
                   pb_can_delegated_max_size_request_message_owner_address = address_bytes a \<rparr>
      in awaited (retry_unary G (rd_get_can_delegated_max_size R) ''get_can_delegated_max_size'' req) (\<lambda>res.
           Ok (from_sun_unchecked (pb_can_delegated_max_size_response_message_max_size res))))"

definition grpc_get_reward :: "'w grpc_core \<Rightarrow> tx_codec \<Rightarrow> 'w read_client \<Rightarrow> address \<Rightarrow> (trx, 'w) call" where
  "grpc_get_reward G C R a =
     (let req = \<lparr> pb_bytes_message_value = address_bytes a \<rparr>
      in awaited (retry_unary G (rd_get_reward_info R) ''get_reward_info'' req) (\<lambda>res.
           Ok (from_sun_unchecked (pb_number_message_num res))))"

definition grpc_get_chain_parameters :: "'w grpc_core \<Rightarrow> tx_codec \<Rightarrow> 'w read_client \<Rightarrow> ((string \<rightharpoonup> i64), 'w) call" where
  "grpc_get_chain_parameters G C R =
     (let req = ()
      in awaited (retry_unary G (rd_get_chain_parameters R) ''get_chain_parameters'' req) (\<lambda>res.
           Ok (map_of (rev (map (\<lambda>p. (pb_chain_parameter_key p, pb_chain_parameter_value p))
             (pb_chain_parameters_chain_parameter res))))))"

definition grpc_get_contract :: "'w grpc_core \<Rightarrow> tx_codec \<Rightarrow> 'w read_client \<Rightarrow> address \<Rightarrow> (smart_contract_info, 'w) call" where
  "grpc_get_contract G C R a =
     (let req = \<lparr> pb_bytes_message_value = address_bytes a \<rparr>
      in awaited (retry_unary G (rd_get_contract R) ''get_contract'' req) (\<lambda>res.
           Ok (smart_contract_from_proto res)))"

definition grpc_get_contract_info :: "'w grpc_core \<Rightarrow> tx_codec \<Rightarrow> 'w read_client \<Rightarrow> address \<Rightarrow> (smart_contract_info, 'w) call" where
  "grpc_get_contract_info G C R a =
     (let req = \<lparr> pb_bytes_message_value = address_bytes a \<rparr>
      in awaited (retry_unary G (rd_get_contract_info R) ''get_contract_info'' req) (\<lambda>res.
           Ok (smart_contract_info_from_wrapper res)))"

definition grpc_list_witnesses :: "'w grpc_core \<Rightarrow> tx_codec \<Rightarrow> 'w read_client \<Rightarrow> (witness_info list, 'w) call" where
  "grpc_list_witnesses G C R =
     (let req = ()
      in awaited (retry_unary G (rd_list_witnesses R) ''list_witnesses'' req) (\<lambda>res.
           Ok (List.map_filter witness_from_proto (pb_witness_list_witnesses res))))"

definition grpc_get_paginated_now_witness_list :: "'w grpc_core \<Rightarrow> tx_codec \<Rightarrow> 'w read_client \<Rightarrow> i64 \<Rightarrow> i64 \<Rightarrow> (witness_info list, 'w) call" where
  "grpc_get_paginated_now_witness_list G C R offset limit =
     (let req = \<lparr> pb_paginated_message_offset = offset, pb_paginated_message_limit = limit \<rparr>
      in awaited (retry_unary G (rd_get_paginated_now_witness_list R) ''get_paginated_now_witness_list'' req) (\<lambda>res.
           Ok (List.map_filter witness_from_proto (pb_witness_list_witnesses res))))"

definition grpc_list_proposals :: "'w grpc_core \<Rightarrow> tx_codec \<Rightarrow> 'w read_client \<Rightarrow> (proposal_info list, 'w) call" where
  "grpc_list_proposals G C R =
     (let req = ()
      in awaited (retry_unary G (rd_list_proposals R) ''list_proposals'' req) (\<lambda>res.
           Ok (map proposal_from_proto (pb_proposal_list_proposals res))))"

definition grpc_get_paginated_proposal_list :: "'w grpc_core \<Rightarrow> tx_codec \<Rightarrow> 'w read_client \<Rightarrow> i64 \<Rightarrow> i64 \<Rightarrow> (proposal_info list, 'w) call" where
  "grpc_get_paginated_proposal_list G C R offset limit =
     (let req = \<lparr> pb_paginated_message_offset = offset, pb_paginated_message_limit = limit \<rparr>
      in awaited (retry_unary G (rd_get_paginated_proposal_list R) ''get_paginated_proposal_list'' req) (\<lambda>res.
           Ok (map proposal_from_proto (pb_proposal_list_proposals res))))"

definition grpc_get_proposal_by_id :: "'w grpc_core \<Rightarrow> tx_codec \<Rightarrow> 'w read_client \<Rightarrow> i64 \<Rightarrow> (proposal_info, 'w) call" where
  "grpc_get_proposal_by_id G C R proposal_id =
     (let req = \<lparr> pb_bytes_message_value = i64_to_be_bytes proposal_id \<rparr>
      in awaited (retry_unary G (rd_get_proposal_by_id R) ''get_proposal_by_id'' req) (\<lambda>res.
           Ok (proposal_from_proto res)))"

definition grpc_get_asset_issue_by_id :: "'w grpc_core \<Rightarrow> tx_codec \<Rightarrow> 'w read_client \<Rightarrow> string \<Rightarrow> (asset_info option, 'w) call" where
  "grpc_get_asset_issue_by_id G C R token_id =
     (let req = \<lparr> pb_bytes_message_value = str_bytes token_id \<rparr>
      in awaited (retry_unary G (rd_get_asset_issue_by_id R) ''get_asset_issue_by_id'' req) (\<lambda>res.
           map_err transport_of_response (asset_info_from_proto res)))"

definition grpc_get_asset_issue_by_account :: "'w grpc_core \<Rightarrow> tx_codec \<Rightarrow> 'w read_client \<Rightarrow> address \<Rightarrow> (asset_info list, 'w) call" where
  "grpc_get_asset_issue_by_account G C R a =
     (let req = pb_account_default\<lparr> pb_account_address := address_bytes a \<rparr>
      in awaited (retry_unary G (rd_get_asset_issue_by_account R) ''get_asset_issue_by_account'' req) (\<lambda>res.
           map_err transport_of_response (collect_present asset_info_from_proto (pb_asset_issue_list_asset_issue res))))"

definition grpc_get_paginated_asset_issue_list :: "'w grpc_core \<Rightarrow> tx_codec \<Rightarrow> 'w read_client \<Rightarrow> i64 \<Rightarrow> i64 \<Rightarrow> (asset_info list, 'w) call" where
  "grpc_get_paginated_asset_issue_list G C R offset limit =
     (let req = \<lparr> pb_paginated_message_offset = offset, pb_paginated_message_limit = limit \<rparr>
      in awaited (retry_unary G (rd_get_paginated_asset_issue_list R) ''get_paginated_asset_issue_list'' req) (\<lambda>res.
           map_err transport_of_response (collect_present asset_info_from_proto (pb_asset_issue_list_asset_issue res))))"

definition grpc_get_asset_issue_by_name :: "'w grpc_core \<Rightarrow> tx_codec \<Rightarrow> 'w read_client \<Rightarrow> string \<Rightarrow> (asset_info option, 'w) call" where
  "grpc_get_asset_issue_by_name G C R name =
     (let req = \<lparr> pb_bytes_message_value = str_bytes name \<rparr>
      in awaited (retry_unary G (rd_get_asset_issue_by_name R) ''get_asset_issue_by_name'' req) (\<lambda>res.
           map_err transport_of_response (asset_info_from_proto res)))"

definition grpc_get_asset_issue_list_by_name :: "'w grpc_core \<Rightarrow> tx_codec \<Rightarrow> 'w read_client \<Rightarrow> string \<Rightarrow> (asset_info list, 'w) call" where
  "grpc_get_asset_issue_list_by_name G C R name =
     (let req = \<lparr> pb_bytes_message_value = str_bytes name \<rparr>
      in awaited (retry_unary G (rd_get_asset_issue_list_by_name R) ''get_asset_issue_list_by_name'' req) (\<lambda>res.
           map_err transport_of_response (collect_present asset_info_from_proto (pb_asset_issue_list_asset_issue res))))"

definition grpc_get_can_withdraw_unfreeze_amount :: "'w grpc_core \<Rightarrow> tx_codec \<Rightarrow> 'w read_client \<Rightarrow> address \<Rightarrow> i64 \<Rightarrow> (trx, 'w) call" where
  "grpc_get_can_withdraw_unfreeze_amount G C R a timestamp_ms =
     (let req = \<lparr> pb_can_withdraw_unfreeze_amount_request_message_owner_address = address_bytes a,
                   pb_can_withdraw_unfreeze_amount_request_message_timestamp = timestamp_ms \<rparr>
      in awaited (retry_unary G (rd_get_can_withdraw_unfreeze_amount R) ''get_can_withdraw_unfreeze_amount'' req) (\<lambda>res.
           Ok (from_sun_unchecked (pb_can_withdraw_unfreeze_amount_response_message_amount res))))"

definition grpc_get_available_unfreeze_count :: "'w grpc_core \<Rightarrow> tx_codec \<Rightarrow> 'w read_client \<Rightarrow> address \<Rightarrow> (i64, 'w) call" where
  "grpc_get_available_unfreeze_count G C R a =
     (let req = \<lparr> pb_get_available_unfreeze_count_request_message_owner_address = address_bytes a \<rparr>
      in awaited (retry_unary G (rd_get_available_unfreeze_count R) ''get_available_unfreeze_count'' req) (\<lambda>res.
           Ok (pb_get_available_unfreeze_count_response_message_count res)))"

definition grpc_get_bandwidth_prices :: "'w grpc_core \<Rightarrow> tx_codec \<Rightarrow> 'w read_client \<Rightarrow> (string, 'w) call" where
  "grpc_get_bandwidth_prices G C R =
     (let req = ()
      in awaited (retry_unary G (rd_get_bandwidth_prices R) ''get_bandwidth_prices'' req) (\<lambda>res.
           Ok (pb_prices_response_message_prices res)))"

definition grpc_get_energy_prices :: "'w grpc_core \<Rightarrow> tx_codec \<Rightarrow> 'w read_client \<Rightarrow> (string, 'w) call" where
  "grpc_get_energy_prices G C R =
     (let req = ()
      in awaited (retry_unary G (rd_get_energy_prices R) ''get_energy_prices'' req) (\<lambda>res.
           Ok (pb_prices_response_message_prices res)))"

definition grpc_get_memo_fee :: "'w grpc_core \<Rightarrow> tx_codec \<Rightarrow> 'w read_client \<Rightarrow> (u64, 'w) call" where
  "grpc_get_memo_fee G C R =
     (let req = ()
      in awaited (retry_unary G (rd_get_memo_fee R) ''get_memo_fee'' req) (\<lambda>res.
           Ok (case parse_u64 (pb_prices_response_message_prices res) of None \<Rightarrow> 0 | Some v \<Rightarrow> v)))"

definition grpc_get_next_maintenance_time :: "'w grpc_core \<Rightarrow> tx_codec \<Rightarrow> 'w read_client \<Rightarrow> (i64, 'w) call" where
  "grpc_get_next_maintenance_time G C R =
     (let req = ()
      in awaited (retry_unary G (rd_get_next_maintenance_time R) ''get_next_maintenance_time'' req) (\<lambda>res.
           Ok (pb_number_message_num res)))"

definition grpc_get_burn_trx :: "'w grpc_core \<Rightarrow> tx_codec \<Rightarrow> 'w read_client \<Rightarrow> (u64, 'w) call" where
  "grpc_get_burn_trx G C R =
     (let req = ()
      in awaited (retry_unary G (rd_get_burn_trx R) ''get_burn_trx'' req) (\<lambda>res.
           Ok (pb_number_message_num res)))"

definition grpc_get_total_transactions :: "'w grpc_core \<Rightarrow> tx_codec \<Rightarrow> 'w read_client \<Rightarrow> (u64, 'w) call" where
  "grpc_get_total_transactions G C R =
     (let req = ()
      in awaited (retry_unary G (rd_total_transaction R) ''total_transaction'' req) (\<lambda>res.
           Ok (pb_number_message_num res)))"

definition grpc_get_node_info :: "'w grpc_core \<Rightarrow> tx_codec \<Rightarrow> 'w read_client \<Rightarrow> (node_info, 'w) call" where
  "grpc_get_node_info G C R =
     (let req = ()
      in awaited (retry_unary G (rd_get_node_info R) ''get_node_info'' req) (\<lambda>res.
           Ok (node_info_from_proto res)))"

definition grpc_list_nodes :: "'w grpc_core \<Rightarrow> tx_codec \<Rightarrow> 'w read_client \<Rightarrow> (node_address list, 'w) call" where
  "grpc_list_nodes G C R =
     (let req = ()
      in awaited (retry_unary G (rd_list_nodes R) ''list_nodes'' req) (\<lambda>res.
           Ok (node_addresses_from_proto res)))"

definition grpc_get_dynamic_properties :: "'w grpc_core \<Rightarrow> tx_codec \<Rightarrow> 'w read_client \<Rightarrow> (chain_properties, 'w) call" where
  "grpc_get_dynamic_properties G C R =
     (let req = ()
      in awaited (retry_unary G (rd_get_dynamic_properties R) ''get_dynamic_properties'' req) (\<lambda>res.
           Ok (chain_properties_from_proto res)))"

definition grpc_get_transaction_count_by_block_num :: "'w grpc_core \<Rightarrow> tx_codec \<Rightarrow> 'w read_client \<Rightarrow> i64 \<Rightarrow> (u64, 'w) call" where
  "grpc_get_transaction_count_by_block_num G C R block_num =
     (let req = \<lparr> pb_number_message_num = block_num \<rparr>
      in awaited (retry_unary G (rd_get_transaction_count_by_block_num R) ''get_transaction_count_by_block_num'' req) (\<lambda>res.
           Ok (pb_number_message_num res)))"

definition grpc_get_transactions_from :: "'w grpc_core \<Rightarrow> tx_codec \<Rightarrow> 'w read_client \<Rightarrow> address \<Rightarrow> i64 \<Rightarrow> i64 \<Rightarrow> (raw_transaction list, 'w) call" where
  "grpc_get_transactions_from G C R a offset limit =
     (let req = \<lparr> pb_account_paginated_account = Some (pb_account_default\<lparr> pb_account_address := address_bytes a \<rparr>),
                   pb_account_paginated_offset = offset, pb_account_paginated_limit = limit \<rparr>
      in awaited (retry_unary G (rd_get_transactions_from_this2 R) ''get_transactions_from_this2'' req) (\<lambda>res.
           collect_results (raw_from_queried_extention C) (pb_transaction_list_extention_transaction res)))"

definition grpc_get_transactions_to :: "'w grpc_core \<Rightarrow> tx_codec \<Rightarrow> 'w read_client \<Rightarrow> address \<Rightarrow> i64 \<Rightarrow> i64 \<Rightarrow> (raw_transaction list, 'w) call" where
  "grpc_get_transactions_to G C R a offset limit =
     (let req = \<lparr> pb_account_paginated_account = Some (pb_account_default\<lparr> pb_account_address := address_bytes a \<rparr>),
                   pb_account_paginated_offset = offset, pb_account_paginated_limit = limit \<rparr>
      in awaited (retry_unary G (rd_get_transactions_to_this2 R) ''get_transactions_to_this2'' req) (\<lambda>res.
           collect_results (raw_from_queried_extention C) (pb_transaction_list_extention_transaction res)))"

definition grpc_get_transaction_info_by_block_num :: "'w grpc_core \<Rightarrow> tx_codec \<Rightarrow> 'w read_client \<Rightarrow> i64 \<Rightarrow> (transaction_info list, 'w) call" where
  "grpc_get_transaction_info_by_block_num G C R block_num =
     (let req = \<lparr> pb_number_message_num = block_num \<rparr>
      in awaited (retry_unary G (rd_get_transaction_info_by_block_num R) ''get_transaction_info_by_block_num'' req) (\<lambda>res.
           map_err transport_of_response (collect_present transaction_info_from_proto (pb_transaction_info_list_transaction_info res))))"

definition grpc_get_pending_size :: "'w grpc_core \<Rightarrow> tx_codec \<Rightarrow> 'w read_client \<Rightarrow> (u64, 'w) call" where
  "grpc_get_pending_size G C R =
     (let req = ()
      in awaited (retry_unary G (rd_get_pending_size R) ''get_pending_size'' req) (\<lambda>res.
           Ok (pb_number_message_num res)))"

definition grpc_get_transaction_from_pending :: "'w grpc_core \<Rightarrow> tx_codec \<Rightarrow> 'w read_client \<Rightarrow> bytes \<Rightarrow> (raw_transaction, 'w) call" where
  "grpc_get_transaction_from_pending G C R tx_id =
     (let req = \<lparr> pb_bytes_message_value = tx_id \<rparr>
      in awaited (retry_unary G (rd_get_transaction_from_pending R) ''get_transaction_from_pending'' req) (\<lambda>res.
           map_err transport_of_response (raw_from_plain C res)))"

definition grpc_get_transaction_sign_weight :: "'w grpc_core \<Rightarrow> tx_codec \<Rightarrow> 'w read_client \<Rightarrow> signed_transaction \<Rightarrow> (sign_weight, 'w) call" where
  "grpc_get_transaction_sign_weight G C R tx w =
     (case map_err transport_of_response (signed_to_proto C tx) of
        Inl e \<Rightarrow> (Err e, w)
      | Inr proto_tx \<Rightarrow>
          awaited (retry_unary G (rd_get_transaction_sign_weight R) ''get_transaction_sign_weight'' proto_tx) (\<lambda>res.
            map_err transport_of_response (sign_weight_from_proto res)) w)"

definition grpc_get_transaction_approved_list :: "'w grpc_core \<Rightarrow> tx_codec \<Rightarrow> 'w read_client \<Rightarrow> signed_transaction \<Rightarrow> (address list, 'w) call" where
  "grpc_get_transaction_approved_list G C R tx w =
     (case map_err transport_of_response (signed_to_proto C tx) of
        Inl e \<Rightarrow> (Err e, w)
      | Inr proto_tx \<Rightarrow>
          awaited (retry_unary G (rd_get_transaction_approved_list R) ''get_transaction_approved_list'' proto_tx) (\<lambda>res.
            map_err transport_of_response (collect_results addr (pb_transaction_approved_list_approved_list res))) w)"

definition grpc_get_account_net :: "'w grpc_core \<Rightarrow> tx_codec \<Rightarrow> 'w read_client \<Rightarrow> address \<Rightarrow> (account_net, 'w) call" where
  "grpc_get_account_net G C R a =
     (let req = pb_account_default\<lparr> pb_account_address := address_bytes a \<rparr>
      in awaited (retry_unary G (rd_get_account_net R) ''get_account_net'' req) (\<lambda>res.
           Ok (account_net_from_proto res)))"

definition grpc_get_brokerage :: "'w grpc_core \<Rightarrow> tx_codec \<Rightarrow> 'w read_client \<Rightarrow> address \<Rightarrow> (u64, 'w) call" where
  "grpc_get_brokerage G C R a =
     (let req = \<lparr> pb_bytes_message_value = address_bytes a \<rparr>
      in awaited (retry_unary G (rd_get_brokerage_info R) ''get_brokerage_info'' req) (\<lambda>res.
           Ok (pb_number_message_num res)))"

definition grpc_get_reward_info :: "'w grpc_core \<Rightarrow> tx_codec \<Rightarrow> 'w read_client \<Rightarrow> address \<Rightarrow> (u64, 'w) call" where
  "grpc_get_reward_info G C R a =
     (let req = \<lparr> pb_bytes_message_value = address_bytes a \<rparr>
      in awaited (retry_unary G (rd_get_reward_info R) ''get_reward_info'' req) (\<lambda>res.
           Ok (pb_number_message_num res)))"

definition grpc_list_exchanges :: "'w grpc_core \<Rightarrow> tx_codec \<Rightarrow> 'w read_client \<Rightarrow> (exchange_info list, 'w) call" where
  "grpc_list_exchanges G C R =
     (let req = ()
      in awaited (retry_unary G (rd_list_exchanges R) ''list_exchanges'' req) (\<lambda>res.
           map_err transport_of_response (collect_results exchange_info_from_proto (pb_exchange_list_exchanges res))))"

definition grpc_get_paginated_exchange_list :: "'w grpc_core \<Rightarrow> tx_codec \<Rightarrow> 'w read_client \<Rightarrow> i64 \<Rightarrow> i64 \<Rightarrow> (exchange_info list, 'w) call" where
  "grpc_get_paginated_exchange_list G C R offset limit =
     (let req = \<lparr> pb_paginated_message_offset = offset, pb_paginated_message_limit = limit \<rparr>
      in awaited (retry_unary G (rd_get_paginated_exchange_list R) ''get_paginated_exchange_list'' req) (\<lambda>res.
           map_err transport_of_response (collect_results exchange_info_from_proto (pb_exchange_list_exchanges res))))"

definition grpc_get_exchange_by_id :: "'w grpc_core \<Rightarrow> tx_codec \<Rightarrow> 'w read_client \<Rightarrow> i64 \<Rightarrow> (exchange_info option, 'w) call" where
  "grpc_get_exchange_by_id G C R exchange_id =
     (let req = \<lparr> pb_bytes_message_value = i64_to_be_bytes exchange_id \<rparr>
      in awaited (retry_unary G (rd_get_exchange_by_id R) ''get_exchange_by_id'' req) (\<lambda>res.
           (if pb_exchange_exchange_id res = 0 \<and> pb_exchange_creator_address res = [] then Ok None
              else map_err transport_of_response (and_then (exchange_info_from_proto res) (\<lambda>e. Ok (Some e))))))"

definition grpc_get_market_order_by_id :: "'w grpc_core \<Rightarrow> tx_codec \<Rightarrow> 'w read_client \<Rightarrow> bytes \<Rightarrow> (market_order_info option, 'w) call" where
  "grpc_get_market_order_by_id G C R order_id w =
     (let req = \<lparr> pb_bytes_message_value = order_id \<rparr>
      in case retry_unary G (rd_get_market_order_by_id R) ''get_market_order_by_id'' req w of
           (Inr ord, w1) \<Rightarrow>
             (if pb_market_order_order_id ord = [] then Ok None
              else map_err transport_of_response
                (and_then (market_order_from_proto ord) (\<lambda>m. Ok (Some m))), w1)
         | (Inl err, w1) \<Rightarrow> (if market_order_not_found err then Ok None else Err err, w1))"

definition grpc_get_market_order_by_account :: "'w grpc_core \<Rightarrow> tx_codec \<Rightarrow> 'w read_client \<Rightarrow> address \<Rightarrow> (market_order_info list, 'w) call" where
  "grpc_get_market_order_by_account G C R a =
     (let req = \<lparr> pb_bytes_message_value = address_bytes a \<rparr>
      in awaited (retry_unary G (rd_get_market_order_by_account R) ''get_market_order_by_account'' req) (\<lambda>res.
           map_err transport_of_response (collect_results market_order_from_proto (pb_market_order_list_orders res))))"

definition grpc_get_market_price_by_pair :: "'w grpc_core \<Rightarrow> tx_codec \<Rightarrow> 'w read_client \<Rightarrow> string \<Rightarrow> string \<Rightarrow> (market_price list, 'w) call" where
  "grpc_get_market_price_by_pair G C R sell buy =
     (let req = \<lparr> pb_market_order_pair_sell_token_id = str_bytes sell,
                   pb_market_order_pair_buy_token_id = str_bytes buy \<rparr>
      in awaited (retry_unary G (rd_get_market_price_by_pair R) ''get_market_price_by_pair'' req) (\<lambda>res.
           Ok (map market_price_from_proto (pb_market_price_list_prices res))))"

definition grpc_get_market_order_list_by_pair :: "'w grpc_core \<Rightarrow> tx_codec \<Rightarrow> 'w read_client \<Rightarrow> string \<Rightarrow> string \<Rightarrow> (market_order_info list, 'w) call" where
  "grpc_get_market_order_list_by_pair G C R sell buy =
     (let req = \<lparr> pb_market_order_pair_sell_token_id = str_bytes sell,
                   pb_market_order_pair_buy_token_id = str_bytes buy \<rparr>
      in awaited (retry_unary G (rd_get_market_order_list_by_pair R) ''get_market_order_list_by_pair'' req) (\<lambda>res.
           map_err transport_of_response (collect_results market_order_from_proto (pb_market_order_list_orders res))))"

definition grpc_get_market_pair_list :: "'w grpc_core \<Rightarrow> tx_codec \<Rightarrow> 'w read_client \<Rightarrow> (market_order_pair list, 'w) call" where
  "grpc_get_market_pair_list G C R =
     (let req = ()
      in awaited (retry_unary G (rd_get_market_pair_list R) ''get_market_pair_list'' req) (\<lambda>res.
           Ok (map market_order_pair_from_proto (pb_market_order_pair_list_order_pair res))))"

section \<open>Pending transactions\<close>

definition hex_error_display :: "hex_error \<Rightarrow> string" where
  "hex_error_display e =
     (case e of
        OddLength \<Rightarrow> ''odd number of hex digits''
      | InvalidHexChar b \<Rightarrow> ''invalid hex character: '' @ [char_of (unat b)])"

definition fetch_pending :: "'w grpc_core \<Rightarrow> tx_codec \<Rightarrow> 'w read_client \<Rightarrow> string \<Rightarrow> (raw_transaction, 'w) call" where
  "fetch_pending G C R tx_id_hex w =
     (case decode_hex tx_id_hex of
        Inl e \<Rightarrow> (Err (TkMalformed (Msg (''bad tx id hex: '' @ hex_error_display e))), w)
      | Inr id_bytes \<Rightarrow>
          awaited (retry_unary G (rd_get_transaction_from_pending R) ''get_transaction_from_pending''
                     \<lparr> pb_bytes_message_value = id_bytes \<rparr>)
            (\<lambda>tx. map_err transport_of_response (raw_from_plain C tx)) w)"

text \<open>
  \<open>try_join_all\<close> polls the fetches concurrently; it is the argument \<open>join\<close>, since it belongs to
  the \<open>futures\<close> crate and its scheduling to the runtime.
\<close>

type_synonym 'w try_join =
  "(raw_transaction, 'w) call list \<Rightarrow> (raw_transaction list, 'w) call"

definition grpc_get_pending_transactions ::
  "'w try_join \<Rightarrow> 'w grpc_core \<Rightarrow> tx_codec \<Rightarrow> 'w read_client \<Rightarrow> (raw_transaction list, 'w) call" where
  "grpc_get_pending_transactions join G C R w =
     (case retry_unary G (rd_get_transaction_list_from_pending R) ''get_transaction_list_from_pending'' () w of
        (Inl e, w1) \<Rightarrow> (Err e, w1)
      | (Inr id_list, w1) \<Rightarrow> join (map (fetch_pending G C R) (pb_transaction_id_list_tx_id id_list)) w1)"

section \<open>Broadcast\<close>

definition grpc_broadcast_transaction ::
  "tx_codec \<Rightarrow> 'w read_client \<Rightarrow> signed_transaction \<Rightarrow> (unit, 'w) call" where
  "grpc_broadcast_transaction C R tx w =
     (case map_err transport_of_response (signed_to_proto C tx) of
        Inl e \<Rightarrow> (Err e, w)
      | Inr proto_tx \<Rightarrow>
          awaited (unary (rd_broadcast_transaction R) proto_tx)
            (\<lambda>ret. map_err transport_of_response (check_return (Some ret))) w)"

text \<open>
  A broadcast is one call of the node's method, whatever comes back of it: nothing of it is
  retried, and it succeeds only when the node said so.
\<close>

lemma grpc_broadcast_Ok_iff:
  "grpc_broadcast_transaction C R tx w = (Ok (), w') \<longleftrightarrow>
     (\<exists>m ret. signed_to_proto C tx = Ok m \<and> rd_broadcast_transaction R m w = (Ok ret, w') \<and> pb_return_result ret)"
  by (auto simp: grpc_broadcast_transaction_def awaited_def unary_def check_return_def result_simps
      split: sum.splits prod.splits if_splits)

lemma grpc_broadcast_calls_once:
  "snd (grpc_broadcast_transaction C R tx w)
     = (case signed_to_proto C tx of Inl _ \<Rightarrow> w | Inr m \<Rightarrow> snd (rd_broadcast_transaction R m w))"
  by (auto simp: grpc_broadcast_transaction_def awaited_def unary_def map_err_def
      split: sum.splits prod.splits)

section \<open>What is read is the client's own\<close>

lemma path_unary_Ok:
  assumes "path_unary G ready client label req w = (Inr v, w')"
  shows "\<exists>w1 w2. client req w1 = (Inr v, w2)"
proof -
  from call_with_retry_Ok [OF assms [unfolded path_unary_def]] obtain w1 w2 where
    call: "(case ready w1 of
              (Inl e, w1) \<Rightarrow> (Err (TkRpc RpcUnavailable (''service was not ready: '' @ e)), w1)
            | (Inr _, w1) \<Rightarrow> unary client req w1) = (Inr v, w2)" by blast
  obtain r w3 where "ready w1 = (r, w3)" by fastforce
  with call have "unary client req w3 = (Inr v, w2)" by (cases r) simp_all
  then show ?thesis by (auto simp: unary_def map_err_def split: prod.splits sum.splits)
qed

lemma fetch_pending_consistent:
  assumes "prost_tx C" and "\<And>q w1 tx w2. rd_get_transaction_from_pending R q w1 = (Inr tx, w2) \<Longrightarrow> answer_ok C tx"
    and "fetch_pending G C R s w = (Inr raw, w')"
  shows "raw_tx_consistent C raw"
proof -
  from assms(3) obtain q tx where answer: "retry_unary G (rd_get_transaction_from_pending R)
      ''get_transaction_from_pending'' q w = (Inr tx, w')" and raw: "raw_from_plain C tx = Ok raw"
    by (auto simp: fetch_pending_def result_simps split: sum.splits dest!: awaited_Ok)
  from retry_unary_Ok [OF answer] assms(2) have "answer_ok C tx" by blast
  then show ?thesis
    using prost_tx.from_node_encoded_own [OF assms(1) raw [unfolded raw_from_plain_def]] by blast
qed

text \<open>
  What the pending pool is read as: every transaction handed out is a fetch's, with an id the
  client computed, as long as \<open>join\<close> only returns what the calls returned.
\<close>

lemma pending_transactions_consistent:
  assumes "prost_tx C" and "\<And>q w1 tx w2. rd_get_transaction_from_pending R q w1 = (Inr tx, w2) \<Longrightarrow> answer_ok C tx"
    and "\<And>fs w1 vs w2. join fs w1 = (Inr vs, w2) \<Longrightarrow> list_all2 (\<lambda>f v. \<exists>u1 u2. f u1 = (Inr v, u2)) fs vs"
    and "grpc_get_pending_transactions join G C R w = (Inr raws, w')"
  shows "\<forall>raw\<in>set raws. raw_tx_consistent C raw"
proof
  fix raw assume "raw \<in> set raws"
  moreover from assms(4) obtain ids w1 where
    "join (map (fetch_pending G C R) ids) w1 = (Inr raws, w')"
    by (auto simp: grpc_get_pending_transactions_def split: sum.splits prod.splits)
  from assms(3) [OF this] have "list_all2 (\<lambda>s v. \<exists>u1 u2. fetch_pending G C R s u1 = (Inr v, u2)) ids raws"
    by (simp add: list_all2_map1)
  ultimately obtain s u1 u2 where "fetch_pending G C R s u1 = (Inr raw, u2)"
    by (auto simp: list_all2_conv_all_nth in_set_conv_nth)
  with assms(1,2) show "raw_tx_consistent C raw" by (rule fetch_pending_consistent)
qed

end
