(* ===== verification/Grpc_Transport.thy ===== *)
theory Grpc_Transport
  imports Grpc_Send Grpc_Read
begin

text \<open>
  \<open>GrpcTransport\<close> as the transport of a provider
  (\<open>crates/provider/src/transport/grpc/fullnode.rs\<close>): the methods of \<open>Grpc_Build\<close> and
  \<open>Grpc_Read\<close> that the provider's own logic calls, and a send followed from the request down to
  the broadcast message.
\<close>

definition grpc_transport ::
  "'w grpc_core \<Rightarrow> tx_codec \<Rightarrow> prost_contracts \<Rightarrow> 'w wallet_client \<Rightarrow> 'w read_client \<Rightarrow> 'w transport" where
  "grpc_transport G C P W R =
     \<lparr> tr_build = grpc_build_rpcs G C P W,
       tr_broadcast = grpc_broadcast_transaction C R,
       tr_now_block = grpc_get_now_block G R,
       tr_energy_prices = grpc_get_energy_prices G C R,
       tr_estimate_energy = grpc_estimate_energy G C R,
       tr_constant_call = grpc_trigger_constant_contract G C R,
       tr_transaction_info = grpc_get_transaction_info G C R \<rparr>"

text \<open>The one contract of a signed message is of the kind \<open>kind\<close> and its parameter satisfies \<open>H\<close>.\<close>

definition message_holds :: "pb_transaction \<Rightarrow> pb_contract_type \<Rightarrow> (bytes \<Rightarrow> bool) \<Rightarrow> bool" where
  "message_holds m kind H \<longleftrightarrow>
     (case tx_raw_data m of
        None \<Rightarrow> False
      | Some raw_data \<Rightarrow>
          (case raw_contract raw_data of
             [k] \<Rightarrow> pbc_type k = pb_contract_type_number kind \<and> pred_option (\<lambda>v. H (any_value v)) (pbc_parameter k)
                    \<and> pbc_parameter k \<noteq> None
           | _ \<Rightarrow> False))"

lemma signed_message_holds:
  assumes "raw_tx_consistent C raw" and "built_as C raw kind H"
    and "signed_to_proto C \<lparr> signed_raw = raw, signed_signatures = gs \<rparr> = Ok m"
  shows "message_holds m kind H \<and> tx_signature m = map signature_to_bytes gs
    \<and> (\<exists>raw_data. tx_raw_data m = Some raw_data \<and> raw_tx_id raw = sha256 C (encode_raw C raw_data))"
  using assms
  by (auto simp: built_as_def raw_tx_consistent_def signed_to_proto_def message_holds_def)

section \<open>From the request to the broadcast\<close>

lemma overridden_contract:
  "raw_contract raw = [k] \<Longrightarrow>
   raw_contract (overridden req raw)
     = [k\<lparr> pbc_permission_id := override (req_permission_id req) (pbc_permission_id k) \<rparr>]"
  by (simp add: overridden_def)

lemma built_as_filled:
  assumes "prost_tx C" and "raw_tx_consistent C raw0" and "built_as C raw0 kind H"
    and "apply_request_fields C raw0 req = Ok raw" and "length (raw_tx_proto raw) < 2 ^ 63"
  shows "raw_tx_consistent C raw \<and> built_as C raw kind H"
proof -
  note filled = prost_tx.apply_request_consistent [OF assms(1,2,4,5)]
  then obtain raw_data ret where
    "decode_tx C (raw_tx_proto raw0) = Some \<lparr> tx_raw_data = Some raw_data, tx_signature = [], tx_ret = ret \<rparr>"
    "decode_tx C (raw_tx_proto raw)
      = Some \<lparr> tx_raw_data = Some (overridden req raw_data), tx_signature = [], tx_ret = ret \<rparr>" by blast
  with assms(3) filled show ?thesis unfolding built_as_def by (auto simp: overridden_contract)
qed

text \<open>
  A contract was broadcast for \<open>owner\<close>: the last thing the node was asked, and accepted, was one message
  whose only contract is of the kind \<open>kind\<close> and satisfies \<open>H\<close>, with one signature over the hash of its
  own raw data, by the key of the owner (by the default key only when the wallet does not hold the
  owner's and the filler is not strict); and the handle waits for that hash.
\<close>

definition broadcast_for ::
  "tx_codec \<Rightarrow> 'w read_client \<Rightarrow> (recoverable_signature \<Rightarrow> bytes \<Rightarrow> signature_error + address) \<Rightarrow> 'w wallet_filler
     \<Rightarrow> address \<Rightarrow> pb_contract_type \<Rightarrow> (bytes \<Rightarrow> bool) \<Rightarrow> pending_transaction \<Rightarrow> 'w \<Rightarrow> bool" where
  "broadcast_for C R recover wallet owner kind H p w' \<longleftrightarrow>
     (\<exists>m raw_data sig w1 ret.
        rd_broadcast_transaction R m w1 = (Ok ret, w') \<and> pb_return_result ret
        \<and> message_holds m kind H
        \<and> tx_raw_data m = Some raw_data \<and> pd_tx_id p = sha256 C (encode_raw C raw_data)
        \<and> tx_signature m = [signature_to_bytes sig]
        \<and> recover sig (pd_tx_id p) =
            Ok (if wf_strict wallet \<or> has_signer_for (wf_wallet_of wallet) owner then owner
                else default_signer_address (wf_wallet_of wallet)))"

text \<open>
  A send that succeeds, for any broadcast: the transaction is the requested one, filled, and its
  signature the owner's.
\<close>

lemma grpc_send_is_requested:
  assumes "prost_tx C" and "typed_client C W" and "wf_wallet (wf_wallet_of (join_right f))"
    and "honest_wallet recover (wf_wallet_of (join_right f))"
    and "\<forall>s. req_contract req \<noteq> Some (CtSetAccountId s)"
    and "vec_built (root_provider C (T\<lparr> tr_build := grpc_build_rpcs G C P W \<rparr>)) (wallet_chain b58_enc N) f req w"
    and "filled_send_transaction (root_provider C (T\<lparr> tr_build := grpc_build_rpcs G C P W \<rparr>))
           (wallet_chain b58_enc N) f req w = (Inr p, f', w')"
  obtains contract raw sig w3 where
    "req_contract req = Some contract"
    and "tr_broadcast T \<lparr> signed_raw = raw, signed_signatures = [sig] \<rparr> w3 = (Ok (), w')"
    and "pd_tx_id p = raw_tx_id raw"
    and "recover sig (raw_tx_id raw) =
        Ok (if wf_strict (join_right f) \<or> has_signer_for (wf_wallet_of (join_right f)) (contract_owner_address contract)
            then contract_owner_address contract
            else default_signer_address (wf_wallet_of (join_right f)))"
    and "raw_tx_consistent C raw" and "built_as C raw (requested_type contract) (holds_request P contract)"
proof -
  from filled_send_Ok [OF assms(7)] obtain req1 w1 contract raw0 w2 raw sig w3 where
    prep: "prepare_request wallet_chain_fill_sync (wallet_chain_fill N) f req w = (Inr req1, f', w1)"
    and contract: "req_contract req1 = Some contract"
    and build: "build_contract (grpc_build_rpcs G C P W) contract w1 = (Inr raw0, w2)"
    and fields: "apply_request_fields C raw0 (req1\<lparr> req_contract := None \<rparr>) = Inr raw"
    and sign: "wallet_sign_with b58_enc (join_right f') (map_option contract_owner_address (req_contract req))
        (raw_tx_id raw) w2 = (Some (Inr sig), w3)"
    and send: "tr_broadcast T \<lparr> signed_raw = raw, signed_signatures = [sig] \<rparr> w3 = (Inr (), w')"
    and p: "p = pending_new (raw_tx_id raw)"
    and built: "filled_build_transaction (root_provider C (T\<lparr> tr_build := grpc_build_rpcs G C P W \<rparr>))
        (wallet_chain b58_enc N) f req w = (Inr raw, f', w2)"
    by auto
  have same: "req_contract req = Some contract"
    using wallet_chain_prepare_keeps [OF prep] contract by (simp add: keeps_def)
  have wallet: "join_right f' = join_right f" using wallet_chain_keeps_wallet [OF prep] .
  have "accepted C P raw0 contract"
    using grpc_accepted [OF assms(1,2) _ build] assms(5) same by auto
  moreover have "length (raw_tx_proto raw) < 2 ^ 63" using assms(6) built by (auto simp: vec_built_def)
  ultimately have "raw_tx_consistent C raw" "built_as C raw (requested_type contract) (holds_request P contract)"
    using built_as_filled [OF assms(1) _ _ fields] by (auto simp: accepted_def)
  moreover have "recover sig (raw_tx_id raw)
      = Ok (wallet_signing_key (join_right f) (Some (contract_owner_address contract)))"
    using wallet_sign_with_recover [of "join_right f"] assms(3,4) sign same wallet by auto
  ultimately show thesis
    using same send p by (intro that) (auto simp: wallet_signing_key_def pending_new_def)
qed

lemma grpc_broadcast_requested:
  assumes "prost_tx C" and "typed_client C W" and "wf_wallet (wf_wallet_of (join_right f))"
    and "honest_wallet recover (wf_wallet_of (join_right f))"
    and "\<forall>s. req_contract req \<noteq> Some (CtSetAccountId s)"
    and "vec_built (root_provider C (grpc_transport G C P W R)) (wallet_chain b58_enc N) f req w"
    and "filled_send_transaction (root_provider C (grpc_transport G C P W R))
           (wallet_chain b58_enc N) f req w = (Inr p, f', w')"
  shows "\<exists>contract. req_contract req = Some contract
    \<and> broadcast_for C R recover (join_right f) (contract_owner_address contract)
        (requested_type contract) (holds_request P contract) p w'"
proof -
  have T: "(grpc_transport G C P W R)\<lparr> tr_build := grpc_build_rpcs G C P W \<rparr> = grpc_transport G C P W R"
    by (simp add: grpc_transport_def)
  obtain contract raw sig w3 where
    same: "req_contract req = Some contract" and id: "pd_tx_id p = raw_tx_id raw"
    and sent: "tr_broadcast (grpc_transport G C P W R) \<lparr> signed_raw = raw, signed_signatures = [sig] \<rparr> w3 = (Ok (), w')"
    and by_owner: "recover sig (raw_tx_id raw) =
        Ok (if wf_strict (join_right f) \<or> has_signer_for (wf_wallet_of (join_right f)) (contract_owner_address contract)
            then contract_owner_address contract
            else default_signer_address (wf_wallet_of (join_right f)))"
    and held: "raw_tx_consistent C raw" "built_as C raw (requested_type contract) (holds_request P contract)"
    by (rule grpc_send_is_requested [OF assms(1-5), where T = "grpc_transport G C P W R" and G = G and P = P, unfolded T, OF assms(6,7)])
  from sent obtain m ret where
    m: "signed_to_proto C \<lparr> signed_raw = raw, signed_signatures = [sig] \<rparr> = Ok m"
    and answer: "rd_broadcast_transaction R m w3 = (Ok ret, w')" "pb_return_result ret"
    by (auto simp: grpc_transport_def grpc_broadcast_Ok_iff)
  from signed_message_holds [OF held m] obtain raw_data where
    "message_holds m (requested_type contract) (holds_request P contract)"
    "tx_signature m = [signature_to_bytes sig]" "tx_raw_data m = Some raw_data"
    "raw_tx_id raw = sha256 C (encode_raw C raw_data)" by auto
  with same id by_owner answer show ?thesis unfolding broadcast_for_def by metis
qed

text \<open>
  C2: what the node is asked to broadcast is what was asked for.  When a send of any operation but
  \<open>set_account_id\<close> through the gRPC transport succeeds, the node was given, in one call, a message whose only contract is the
  requested one, with a single signature over the hash of the message's own raw data, by the key
  of the owner (by the default key only when the wallet does not hold the owner's and the filler
  is not strict); it answered that it accepted it; and the handle waits for that hash.  Nothing
  the node answered before can change this.
\<close>

theorem grpc_broadcast_is_requested:
  assumes "prost_tx C" and "typed_client C W" and "wf_wallet (wf_wallet_of (join_right f))"
    and "honest_wallet recover (wf_wallet_of (join_right f))"
    and "\<forall>s. req_contract req \<noteq> Some (CtSetAccountId s)"
    and "vec_built (root_provider C (grpc_transport G C P W R)) (wallet_chain b58_enc N) f req w"
    and "filled_send_transaction (root_provider C (grpc_transport G C P W R))
           (wallet_chain b58_enc N) f req w = (Inr p, f', w')"
  shows "\<exists>contract m raw_data sig w1 ret.
    req_contract req = Some contract
    \<and> rd_broadcast_transaction R m w1 = (Ok ret, w') \<and> pb_return_result ret
    \<and> message_holds m (requested_type contract) (holds_request P contract)
    \<and> tx_raw_data m = Some raw_data \<and> pd_tx_id p = sha256 C (encode_raw C raw_data)
    \<and> tx_signature m = [signature_to_bytes sig]
    \<and> recover sig (pd_tx_id p) =
        Ok (if wf_strict (join_right f) \<or> has_signer_for (wf_wallet_of (join_right f)) (contract_owner_address contract)
            then contract_owner_address contract
            else default_signer_address (wf_wallet_of (join_right f)))"
  using grpc_broadcast_requested [OF assms] unfolding broadcast_for_def by blast

text \<open>A node that accepts every broadcast.\<close>

definition accepting_node :: "nat read_client" where
  "accepting_node = silent_node\<lparr> rd_broadcast_transaction := \<lambda>_ w.
     (Ok \<lparr> pb_return_result = True, pb_return_code = 0, pb_return_message = [] \<rparr>, w + 1) \<rparr>"

definition transfer_transport :: "nat transport" where
  "transfer_transport =
     grpc_transport quiet_core sample_codec transfer_decoders transfer_node accepting_node"

lemma sample_send_contract: "req_contract sample_send = Some (CtTransfer sample_transfer)"
  by (simp add: sample_send_def sample_transfer_def)

lemma transfer_build:
  "build_via_transport sample_codec transfer_transport sample_send 0 = (Ok transfer_raw_tx, 0)"
proof -
  have "request_sets_nothing (sample_send\<lparr> req_contract := None \<rparr>)"
    by (simp add: request_sets_nothing_def sample_send_def tx_request_default_def)
  then show ?thesis
    by (simp add: build_via_transport_def sample_send_contract transfer_transport_def grpc_transport_def transfer_built
        apply_request_fields_def del: build_contract.simps)
qed

lemma transfer_vec_built:
  "vec_built (root_provider sample_codec transfer_transport)
     (wallet_chain (\<lambda>_. []) (root_fill_node transfer_transport (\<lambda>w. w))) sample_chain sample_send 0"
  using transfer_tx_ok
  by (simp add: vec_built_def filled_build_transaction_def wallet_chain_def root_provider_def sample_prepare
      transfer_build answer_ok_def transfer_raw_tx_def)

lemma transfer_send_run:
  "filled_send_transaction (root_provider sample_codec transfer_transport)
     (wallet_chain (\<lambda>_. []) (root_fill_node transfer_transport (\<lambda>w. w))) sample_chain sample_send 0
   = (Ok (pending_new (raw_tx_id transfer_raw_tx)), sample_chain, 1)"
proof -
  have sign: "wallet_sign_with (\<lambda>_. []) (wallet_filler_new sample_wallet) (Some (Address [2])) h 0
      = (Some (Ok \<lparr> sig_r = [2], sig_s = h, sig_v = 0 \<rparr>), 0)" for h
    by (simp add: wallet_sign_with_def wallet_signing_key_def wallet_filler_new_def sample_wallet_def
        has_signer_for_def sign_hash_with_def require_signer_def signer_by_address_def wallet_ops
        sample_signer_def)
  have right: "join_right sample_chain = wallet_filler_new sample_wallet" by (simp add: sample_chain_def)
  have owner: "transfer_owner_address sample_transfer = Address [2]" by (simp add: sample_transfer_def)
  have "decode_tx sample_codec (raw_tx_proto transfer_raw_tx) = Some transfer_tx"
    using transfer_tx_ok prost_tx.decode_encode_tx [OF sample_prost, of transfer_tx]
    by (simp add: answer_ok_def transfer_raw_tx_def)
  then have sent: "broadcast transfer_transport \<lparr> signed_raw = transfer_raw_tx, signed_signatures = gs \<rparr> 0
      = (Ok (pending_new (raw_tx_id transfer_raw_tx)), 1)" for gs
    by (simp add: broadcast_def transfer_transport_def grpc_transport_def grpc_broadcast_transaction_def
        signed_to_proto_def accepting_node_def awaited_def unary_def check_return_def)
  show ?thesis
    by (simp add: filled_send_transaction_def filled_build_transaction_def root_provider_def
        wallet_chain_def sample_prepare transfer_build sign_built_def wallet_chain_sign right sample_send_contract
        owner sign sent address_zero_def address_prefix_def)
qed

lemma sample_wallet_ok: "wf_wallet (wf_wallet_of (join_right sample_chain))"
  by (simp add: wf_wallet_def sample_chain_def wallet_filler_new_def sample_wallet_def wallet_ops
      sample_signer_def)

lemma sample_wallet_honest: "honest_wallet (\<lambda>g _. Ok (Address (sig_r g))) (wf_wallet_of (join_right sample_chain))"
  by (auto simp: honest_wallet_def sample_chain_def wallet_filler_new_def sample_wallet_def wallet_ops
      sample_signer_def split: if_splits)

lemma sample_wallet_holds: "has_signer_for (wf_wallet_of (join_right sample_chain)) (Address [2])"
  by (simp add: has_signer_for_def sample_chain_def wallet_filler_new_def sample_wallet_def wallet_ops
      sample_signer_def)

theorem grpc_broadcast_is_requested_witness:
  "\<exists>m (sig :: recoverable_signature) w3 ret.
     rd_broadcast_transaction accepting_node m w3 = (Ok ret, 1)
     \<and> message_holds m PbTransferContract (holds_request transfer_decoders (CtTransfer sample_transfer))
     \<and> tx_signature m = [signature_to_bytes sig] \<and> Address (sig_r sig) = Address [2]"
proof -
  have S: "\<forall>s. req_contract sample_send \<noteq> Some (CtSetAccountId s)" by (simp add: sample_send_contract)
  have owner: "contract_owner_address (CtTransfer sample_transfer) = Address [2]" by (simp add: sample_transfer_def)
  have kind: "requested_type (CtTransfer sample_transfer) = PbTransferContract" by simp
  from grpc_broadcast_is_requested [OF sample_prost transfer_node_typed sample_wallet_ok sample_wallet_honest S
      transfer_vec_built [unfolded transfer_transport_def] transfer_send_run [unfolded transfer_transport_def]]
  obtain contract m w3 ret and sig :: recoverable_signature where
    c: "req_contract sample_send = Some contract"
    and "rd_broadcast_transaction accepting_node m w3 = (Ok ret, 1)"
    and "message_holds m (requested_type contract) (holds_request transfer_decoders contract)"
    and "tx_signature m = [signature_to_bytes sig]"
    and "(Ok (Address (sig_r sig)) :: signature_error + address) =
        Ok (if wf_strict (join_right sample_chain)
               \<or> has_signer_for (wf_wallet_of (join_right sample_chain)) (contract_owner_address contract)
            then contract_owner_address contract
            else default_signer_address (wf_wallet_of (join_right sample_chain)))"
    by blast
  moreover from c have "contract = CtTransfer sample_transfer" by (simp add: sample_send_contract)
  ultimately show ?thesis using sample_wallet_holds owner kind by (intro exI conjI) (assumption, simp_all)
qed

section \<open>The one request that is not compared\<close>

lemma overridden_contract_free: "overridden (req\<lparr> req_contract := c \<rparr>) raw = overridden req raw"
  by (simp add: overridden_def split: list.split)

text \<open>Whatever transaction the node answers \<open>set_account_id\<close> with, it is filled, and not compared with the request.\<close>

lemma set_account_id_filled:
  assumes "prost_tx C" and "req_contract req = Some (CtSetAccountId c)"
    and "retry_unary G (wk_set_account_id W) ''set_account_id'' (set_account_id_to_proto c) w = (Inr tx, w')"
    and "answer_ok C tx" and "tx_raw_data tx = Some raw_data" and "tx_signature tx = []" and "raw_contract raw_data \<noteq> []"
  shows "\<exists>raw. build_via_transport C (grpc_transport G C P W R) req w = (Ok raw, w')
    \<and> raw_tx_id raw = sha256 C (encode_raw C (overridden req raw_data))
    \<and> raw_tx_proto raw = encode_tx C (tx\<lparr> tx_raw_data := Some (overridden req raw_data) \<rparr>)"
proof -
  let ?raw0 = "\<lparr> raw_tx_expiration = raw_expiration raw_data, raw_tx_timestamp = raw_timestamp raw_data,
      raw_tx_id = sha256 C (encode_raw C raw_data), raw_tx_proto = encode_tx C tx \<rparr>"
  have same: "tx\<lparr> tx_signature := [] \<rparr> = tx" "tx\<lparr> tx_raw_data := Some raw_data \<rparr> = tx"
    using assms(5,6) by (cases tx; simp)+
  have "raw_from_plain C tx = Ok ?raw0"
    using prost_tx.from_encoded_encode_tx [OF assms(1,5), of "[]" "[]"] assms(4,6) same(1)
    by (simp add: raw_from_plain_def from_node_encoded_def answer_ok_def)
  then have build: "build_contract (tr_build (grpc_transport G C P W R)) (CtSetAccountId c) w = (Ok ?raw0, w')"
    using assms(3) by (simp add: grpc_transport_def grpc_build_rpcs_def grpc_set_account_id_def awaited_def Let_def)
  have "decode_tx C (encode_tx C tx) = Some tx"
    using assms(4) prost_tx.decode_encode_tx [OF assms(1)] by (simp add: answer_ok_def)
  then have "\<exists>raw. apply_request_fields C ?raw0 (req\<lparr> req_contract := None \<rparr>) = Ok raw
    \<and> raw_tx_id raw = sha256 C (encode_raw C (overridden req raw_data))
    \<and> raw_tx_proto raw = encode_tx C (tx\<lparr> tx_raw_data := Some (overridden req raw_data) \<rparr>)"
    using assms(5,7) overridden_nothing [of "req\<lparr> req_contract := None \<rparr>" raw_data]
    by (cases "request_sets_nothing (req\<lparr> req_contract := None \<rparr>)")
      (simp_all add: apply_request_fields_def apply_fields_eq overridden_contract_free same(2))
  with build assms(2) show ?thesis by (auto simp: build_via_transport_def simp del: build_contract.simps)
qed

text \<open>
  C37: a node can have any transaction signed.  When a request to set an account id is sent and the
  node answers the build with whatever unsigned transaction it likes (any that has a contract), a send
  through the gRPC transport signs that transaction, with the fee limit, memo, permission and block
  reference of the request filled in and its contracts otherwise as the node gave them, and has it
  broadcast: no part of it is compared with the account id that was asked for.
\<close>

theorem set_account_id_unchecked:
  assumes "prost_tx C" and "req_contract req = Some (CtSetAccountId c)" and "set_account_id_owner_address c \<noteq> address_zero"
    and "prepare_request wallet_chain_fill_sync (wallet_chain_fill N) f req w = (Inr req1, f1, w1)"
    and "retry_unary G (wk_set_account_id W) ''set_account_id'' (set_account_id_to_proto c) w1 = (Inr tx, w2)"
    and "answer_ok C tx" and "tx_raw_data tx = Some raw_data" and "tx_signature tx = []" and "raw_contract raw_data \<noteq> []"
    and "answer_ok C (tx\<lparr> tx_raw_data := Some (overridden req1 raw_data) \<rparr>)"
    and "wallet_sign_with b58_enc (join_right f1) (Some (set_account_id_owner_address c))
        (sha256 C (encode_raw C (overridden req1 raw_data))) w2 = (Some (Inr sig), w3)"
    and "rd_broadcast_transaction R
        (tx\<lparr> tx_raw_data := Some (overridden req1 raw_data), tx_signature := [signature_to_bytes sig] \<rparr>) w3 = (Inr ret, w4)"
    and "pb_return_result ret"
  shows "filled_send_transaction (root_provider C (grpc_transport G C P W R)) (wallet_chain b58_enc N) f req w
      = (Ok (pending_new (sha256 C (encode_raw C (overridden req1 raw_data)))), f1, w4)
    \<and> map pbc_parameter (raw_contract (overridden req1 raw_data)) = map pbc_parameter (raw_contract raw_data)
    \<and> map pbc_type (raw_contract (overridden req1 raw_data)) = map pbc_type (raw_contract raw_data)"
proof -
  have contract: "req_contract req1 = Some (CtSetAccountId c)"
    using wallet_chain_prepare_keeps [OF assms(4)] assms(2) by (simp add: keeps_def)
  obtain raw where build: "build_via_transport C (grpc_transport G C P W R) req1 w1 = (Ok raw, w2)"
    and id: "raw_tx_id raw = sha256 C (encode_raw C (overridden req1 raw_data))"
    and bytes: "raw_tx_proto raw = encode_tx C (tx\<lparr> tx_raw_data := Some (overridden req1 raw_data) \<rparr>)"
    using set_account_id_filled [OF assms(1) contract assms(5-9)] by blast
  have "decode_tx C (raw_tx_proto raw) = Some (tx\<lparr> tx_raw_data := Some (overridden req1 raw_data) \<rparr>)"
    using assms(10) prost_tx.decode_encode_tx [OF assms(1)] bytes by (simp add: answer_ok_def)
  then have sent: "broadcast (grpc_transport G C P W R) \<lparr> signed_raw = raw, signed_signatures = [sig] \<rparr> w3
      = (Ok (pending_new (raw_tx_id raw)), w4)"
    using assms(8,12,13)
    by (simp add: broadcast_def grpc_transport_def grpc_broadcast_transaction_def signed_to_proto_def awaited_def
        unary_def check_return_def)
  have "filled_send_transaction (root_provider C (grpc_transport G C P W R)) (wallet_chain b58_enc N) f req w
      = (Ok (pending_new (raw_tx_id raw)), f1, w4)"
    using assms(2,3,4,11) build sent id
    by (simp add: filled_send_transaction_def filled_build_transaction_def root_provider_def wallet_chain_def
        sign_built_def wallet_chain_sign)
  moreover have "map pbc_parameter (raw_contract (overridden req1 raw_data)) = map pbc_parameter (raw_contract raw_data)"
    "map pbc_type (raw_contract (overridden req1 raw_data)) = map pbc_type (raw_contract raw_data)"
    by (cases "raw_contract raw_data"; simp add: overridden_def)+
  ultimately show ?thesis using id by simp
qed

text \<open>Asked to set an account id, the node of the examples has its transfer signed.\<close>

definition account_id_send :: tx_request where
  "account_id_send = tx_request_default\<lparr> req_contract := Some (CtSetAccountId
     \<lparr> set_account_id_owner_address = Address [2], set_account_id_account_id = ''account'' \<rparr>) \<rparr>"

theorem set_account_id_unchecked_witness:
  "filled_send_transaction (root_provider sample_codec transfer_transport)
     (wallet_chain (\<lambda>_. []) (root_fill_node transfer_transport (\<lambda>w. w))) sample_chain account_id_send 0
   = (Ok (pending_new (raw_tx_id transfer_raw_tx)), sample_chain, 1)"
proof -
  let ?c = "\<lparr> set_account_id_owner_address = Address [2], set_account_id_account_id = ''account'' \<rparr>"
  have req: "req_contract account_id_send = Some (CtSetAccountId ?c)" "set_account_id_owner_address ?c \<noteq> address_zero"
    by (simp_all add: account_id_send_def address_zero_def address_prefix_def)
  have prep: "prepare_request wallet_chain_fill_sync (wallet_chain_fill N) sample_chain account_id_send 0
      = (Inr account_id_send, sample_chain, 0)" for N :: "nat fill_node"
    by (simp add: prepare_request_def wallet_chain_fill_def wallet_chain_fill_sync_def join_fill_sync_def
        recommended_fill_sync_def recommended_fill_def join_fill_async_def default_fill_def default_fill_sync_def
        energy_fill_skip account_id_send_def tx_request_default_def contract_needs_fee_limit_def needs_fee_limit_def
        sample_chain_def)
  have answer: "retry_unary quiet_core (wk_set_account_id transfer_node) ''set_account_id''
      (set_account_id_to_proto ?c) 0 = (Inr transfer_tx, 0)"
    by (rule quiet_call) (simp add: transfer_node_def constant_client_def)
  have tx: "tx_raw_data transfer_tx = Some transfer_raw" "tx_signature transfer_tx = []" "raw_contract transfer_raw \<noteq> []"
    by (simp_all add: transfer_tx_def sample_tx_def transfer_raw_def)
  have kept: "overridden account_id_send transfer_raw = transfer_raw"
    by (rule overridden_nothing) (simp add: request_sets_nothing_def account_id_send_def tx_request_default_def)
  have ok: "answer_ok sample_codec (transfer_tx\<lparr> tx_raw_data := Some (overridden account_id_send transfer_raw) \<rparr>)"
  proof -
    have "transfer_tx\<lparr> tx_raw_data := Some transfer_raw \<rparr> = transfer_tx" by (simp add: transfer_tx_def)
    then show ?thesis by (simp only: kept transfer_tx_ok)
  qed
  let ?h = "sha256 sample_codec (encode_raw sample_codec (overridden account_id_send transfer_raw))"
  let ?sig = "\<lparr> sig_r = [2], sig_s = ?h, sig_v = 0 \<rparr>"
  have sign: "wallet_sign_with (\<lambda>_. []) (join_right sample_chain) (Some (set_account_id_owner_address ?c)) ?h 0
      = (Some (Inr ?sig), 0)"
    by (simp add: wallet_sign_with_def wallet_signing_key_def wallet_filler_new_def sample_wallet_def sample_chain_def
        has_signer_for_def sign_hash_with_def require_signer_def signer_by_address_def wallet_ops sample_signer_def)
  have accepted: "rd_broadcast_transaction accepting_node m 0
      = (Inr \<lparr> pb_return_result = True, pb_return_code = 0, pb_return_message = [] \<rparr>, 1)" for m
    by (simp add: accepting_node_def)
  have id: "raw_tx_id transfer_raw_tx = ?h" by (simp add: transfer_raw_tx_def kept)
  from set_account_id_unchecked [OF sample_prost req prep answer transfer_tx_ok tx ok sign accepted] show ?thesis
    unfolding transfer_transport_def id by simp
qed

end
