(* ===== verification/Operation_Send.thy ===== *)
theory Operation_Send
  imports Operation_Builders Grpc_Transport
begin

text \<open>
  The operation builders over the gRPC transport: what a caller asks a builder for is what is
  signed and broadcast.
\<close>

section \<open>From the builder to the broadcast\<close>

text \<open>The signer a provider built with a wallet reports (\<open>FilledProvider::signer_address\<close>).\<close>

definition chain_signer :: "'w wallet_fillers \<Rightarrow> address option" where
  "chain_signer = join_signer_address (\<lambda>_. None) wallet_signer_address"

lemma chain_signer_default: "chain_signer f = Some (default_signer_address (wf_wallet_of (join_right f)))"
  by (simp add: chain_signer_def join_signer_address_def wallet_signer_address_def)

context operation_builder
begin

lemma sent:
  assumes "prost_tx C" and "typed_client C W" and "wf_wallet (wf_wallet_of (join_right f))"
    and "honest_wallet recover (wf_wallet_of (join_right f))"
    and "\<And>req s. request (chain_signer f) b = Ok req \<Longrightarrow> req_contract req \<noteq> Some (CtSetAccountId s)"
    and "\<And>req. request (chain_signer f) b = Ok req \<Longrightarrow>
           vec_built (root_provider C (grpc_transport G C P W R)) (wallet_chain b58_enc N) f req w"
    and "builder_send (root_provider C (grpc_transport G C P W R)) (wallet_chain b58_enc N) f
           (request (chain_signer f) b) w = (Inr p, f', w')"
  obtains req contract where
    "request (chain_signer f) b = Ok req" and "req_contract req = Some contract"
    and "resolve_owner (owner_of b) (chain_signer f) = Ok (contract_owner_address contract)"
    and "broadcast_for C R recover (join_right f) (contract_owner_address contract)
           (requested_type contract) (holds_request P contract) p w'"
proof -
  from assms(7) obtain req where req: "request (chain_signer f) b = Ok req"
    and send: "filled_send_transaction (root_provider C (grpc_transport G C P W R)) (wallet_chain b58_enc N) f req w
      = (Inr p, f', w')"
    by (auto simp: builder_send_def split: sum.splits)
  have "\<forall>s. req_contract req \<noteq> Some (CtSetAccountId s)" using assms(5) [OF req] by blast
  from grpc_broadcast_requested [OF assms(1-4) this assms(6) [OF req] send] described [OF req] req show thesis
    by (elim exE conjE) (rule that [OF req], assumption, simp_all)
qed

end

text \<open>
  C4: \<open>provider.send_trx().to(dst).amount(x).send()\<close> does what it says.  When it succeeds, the
  node was given in one call a message with exactly one contract, a transfer from the account the
  builder names (by default the wallet's default signer) to \<open>dst\<close> of exactly \<open>x\<close>; it carries one
  signature, over the hash of the message's own raw data, by that account's key (by the default
  key only when the wallet does not hold it and the filler is not strict); the node accepted it,
  and the handle waits for that hash.
\<close>

theorem send_trx_broadcasts:
  assumes "prost_tx C" and "typed_client C W" and "wf_wallet (wf_wallet_of (join_right f))"
    and "honest_wallet recover (wf_wallet_of (join_right f))"
    and "\<And>req. transfer_request (chain_signer f) b = Ok req \<Longrightarrow>
           vec_built (root_provider C (grpc_transport G C P W R)) (wallet_chain b58_enc N) f req w"
    and "builder_send (root_provider C (grpc_transport G C P W R)) (wallet_chain b58_enc N) f
           (transfer_request (chain_signer f) b) w = (Inr p, f', w')"
    and "owner = (case transfer_builder_owner b of
           Some a \<Rightarrow> a | None \<Rightarrow> default_signer_address (wf_wallet_of (join_right f)))"
  shows "\<exists>dst amount. transfer_builder_to b = Some dst \<and> transfer_builder_amount b = Some amount
    \<and> broadcast_for C R recover (join_right f) owner PbTransferContract (\<lambda>v. prost_transfer P v = Some
         \<lparr> pb_transfer_owner_address = address_bytes owner, pb_transfer_to_address = address_bytes dst,
           pb_transfer_amount = as_sun amount \<rparr>) p w'"
proof -
  have "req_contract req \<noteq> Some (CtSetAccountId s)" if "transfer_request (chain_signer f) b = Ok req" for req s
    using that by (auto simp: transfer_request_def result_simps tx_request_default_def)
  from transfer_op.sent [OF assms(1-4) this assms(5,6)] obtain req contract where
    req: "transfer_request (chain_signer f) b = Ok req" "req_contract req = Some contract"
    and sent: "broadcast_for C R recover (join_right f) (contract_owner_address contract)
           (requested_type contract) (holds_request P contract) p w'"
    by metis
  from req assms(7) obtain dst amount where set: "transfer_builder_to b = Some dst" "transfer_builder_amount b = Some amount"
    and contract: "contract = CtTransfer \<lparr> transfer_owner_address = owner, transfer_to_address = dst, transfer_amount = amount \<rparr>"
    by (auto simp: transfer_request_def result_simps resolve_owner_def chain_signer_default tx_request_default_def
        split: option.splits)
  have "holds_request P contract = (\<lambda>v. prost_transfer P v = Some
           \<lparr> pb_transfer_owner_address = address_bytes owner, pb_transfer_to_address = address_bytes dst,
             pb_transfer_amount = as_sun amount \<rparr>)"
    by (simp add: fun_eq_iff contract transfer_to_proto_def addr_bytes_def)
  moreover have "contract_owner_address contract = owner" "requested_type contract = PbTransferContract"
    by (simp_all add: contract)
  ultimately show ?thesis using set sent by (intro exI conjI) simp_all
qed

definition sample_builder :: transfer_builder where
  "sample_builder = transfer_set_amount (Trx 1) (transfer_set_to (Address [3])
     (transfer_set_from (Address [2]) transfer_builder_new))"

theorem send_trx_broadcasts_witness:
  "broadcast_for sample_codec accepting_node (\<lambda>g _. Ok (Address (sig_r g))) (join_right sample_chain) (Address [2])
     PbTransferContract (\<lambda>v. prost_transfer transfer_decoders v = Some
        \<lparr> pb_transfer_owner_address = [2], pb_transfer_to_address = [3], pb_transfer_amount = 1 \<rparr>)
     (pending_new (raw_tx_id transfer_raw_tx)) 1"
proof -
  have req: "transfer_request (chain_signer sample_chain) sample_builder = Ok sample_send"
    by (simp add: transfer_request_def sample_builder_def transfer_set_amount_def transfer_set_to_def
        transfer_set_from_def transfer_builder_new_def resolve_owner_def sample_send_def tx_request_default_def)
  with transfer_send_run have run: "builder_send (root_provider sample_codec transfer_transport)
      (wallet_chain (\<lambda>_. []) (root_fill_node transfer_transport (\<lambda>w. w))) sample_chain
      (transfer_request (chain_signer sample_chain) sample_builder) 0
    = (Ok (pending_new (raw_tx_id transfer_raw_tx)), sample_chain, 1)"
    by (simp add: builder_send_def)
  have fits: "transfer_request (chain_signer sample_chain) sample_builder = Ok r \<Longrightarrow>
      vec_built (root_provider sample_codec transfer_transport)
        (wallet_chain (\<lambda>_. []) (root_fill_node transfer_transport (\<lambda>w. w))) sample_chain r 0" for r
    using transfer_vec_built req by simp
  have set: "transfer_builder_to sample_builder = Some (Address [3])"
    "transfer_builder_amount sample_builder = Some (Trx 1)" "transfer_builder_owner sample_builder = Some (Address [2])"
    by (simp_all add: sample_builder_def transfer_set_amount_def transfer_set_to_def transfer_set_from_def
        transfer_builder_new_def)
  from send_trx_broadcasts [OF sample_prost transfer_node_typed sample_wallet_ok sample_wallet_honest
      fits [unfolded transfer_transport_def] run [unfolded transfer_transport_def] refl]
  show ?thesis by (simp add: set as_sun_def)
qed

section \<open>Permissions\<close>

lemma opset_is_empty_iff: "wf_opset s \<Longrightarrow> opset_is_empty s \<longleftrightarrow> s = opset_empty"
  by (cases s) (auto simp: opset_is_empty_def wf_opset_def opset_empty_def list_all_iff
      intro!: nth_equalityI dest: nth_mem)

lemma permission_read_back:
  assumes "wf_permission p" and "ty \<noteq> PermActive \<Longrightarrow> opset_is_empty (permission_operations p)"
  shows "permission_from_proto (permission_to_proto p ty) = Ok p"
proof -
  from assms(1) have keys: "\<forall>k\<in>set (permission_keys p). wf_address (permission_key_address k)"
    and ops: "wf_opset (permission_operations p)" by (auto simp: wf_permission_def)
  from assms(2) opset_is_empty_iff [OF ops] have "ty \<noteq> PermActive \<Longrightarrow> permission_operations p = opset_empty"
    by simp
  then show ?thesis
    using permission_keys_back [OF keys] opset_from_own_bytes [OF ops] opset_from_no_bytes
    by (cases p; cases ty) (simp_all add: permission_from_proto_def permission_to_proto_def Let_def)
qed

lemma active_read_back: "wf_permission p \<Longrightarrow> permission_from_proto (permission_to_proto p PermActive) = Ok p"
  by (rule permission_read_back) simp_all

text \<open>
  C12: a permission update loses nothing on the way to the node.  The wire drops the operations
  of an owner or witness permission, and reads an active permission without operations as one that
  grants nothing; the builder refuses both, so that the permissions a node reads out of the
  message are exactly the ones the caller gave.
\<close>

theorem permission_update_lossless:
  assumes "account_permission_update_request signer b = Ok req"
    and "\<forall>p \<in> set_option (account_permission_update_builder_owner_permission b)
          \<union> set_option (account_permission_update_builder_witness b)
          \<union> set (account_permission_update_builder_actives b). wf_permission p"
  shows "\<exists>c. req_contract req = Some (CtAccountPermissionUpdate c)
    \<and> (let m = account_permission_update_to_proto c in
         map_option permission_from_proto (pb_account_permission_update_owner m)
           = map_option Ok (account_permission_update_builder_owner_permission b)
         \<and> map_option permission_from_proto (pb_account_permission_update_witness m)
           = map_option Ok (account_permission_update_builder_witness b)
         \<and> map permission_from_proto (pb_account_permission_update_actives m)
           = map Ok (account_permission_update_builder_actives b)
         \<and> (\<forall>p\<in>set (account_permission_update_builder_actives b). \<not> opset_is_empty (permission_operations p)))"
proof -
  from assms(1) obtain owner where
    c: "req_contract req = Some (CtAccountPermissionUpdate
          \<lparr> account_permission_update_owner_address = owner,
            account_permission_update_owner = account_permission_update_builder_owner_permission b,
            account_permission_update_witness = account_permission_update_builder_witness b,
            account_permission_update_actives = account_permission_update_builder_actives b \<rparr>)"
    and ops: "check_operations (account_permission_update_builder_owner_permission b)
       (account_permission_update_builder_witness b) (account_permission_update_builder_actives b) = Ok ()"
    by (auto simp: account_permission_update_request_def result_simps tx_request_default_def)
  from ops assms(2) c show ?thesis
    by (cases "account_permission_update_builder_owner_permission b";
        cases "account_permission_update_builder_witness b")
      (auto simp: check_operations_Ok account_permission_update_to_proto_def permission_read_back active_read_back)
qed

definition sample_update :: account_permission_update_builder where
  "sample_update = account_permission_update_set_actives [sample_permission] account_permission_update_builder_new"

theorem permission_update_lossless_witness:
  "\<exists>req. account_permission_update_request (Some address_zero) sample_update = Ok req
     \<and> (\<exists>c. req_contract req = Some (CtAccountPermissionUpdate c)
          \<and> map permission_from_proto (pb_account_permission_update_actives
              (account_permission_update_to_proto c)) = [Ok sample_permission])"
proof -
  have wf: "wf_permission sample_permission"
    by (simp add: wf_permission_def sample_permission_def wf_opset_def wf_address_def address_zero_def
        address_len_def evm_address_len_def address_prefix_def)
  have "\<not> opset_is_empty (permission_operations sample_permission)"
    by (simp add: opset_is_empty_def sample_permission_def list_all_iff)
  then obtain req where req: "account_permission_update_request (Some address_zero) sample_update = Ok req"
    by (simp add: account_permission_update_request_def sample_update_def account_permission_update_set_actives_def
        account_permission_update_builder_new_def resolve_owner_def check_operations_def Let_def)
  have "\<forall>p \<in> set_option (account_permission_update_builder_owner_permission sample_update)
      \<union> set_option (account_permission_update_builder_witness sample_update)
      \<union> set (account_permission_update_builder_actives sample_update). wf_permission p"
    using wf by (simp add: sample_update_def account_permission_update_set_actives_def
        account_permission_update_builder_new_def)
  from permission_update_lossless [OF req this] req show ?thesis
    by (auto simp: Let_def sample_update_def account_permission_update_set_actives_def
        account_permission_update_builder_new_def)
qed

end
