(* ===== verification/Tron_Transport.thy ===== *)
theory Tron_Transport
  imports Provider Retry
begin

text \<open>
  The interface every provider rests on: the methods of \<open>TronTransport\<close>
  (\<open>crates/provider/src/transport/mod.rs\<close>) and of \<open>SolidityTransport\<close>
  (\<open>transport/solidity.rs\<close>), as records of functions.  The first extends the record of the methods
  the logic of a root provider calls.
\<close>

record 'w tron_transport = "'w transport" +
  tr_get_block_by_number :: "i64 \<Rightarrow> (block_info option, 'w) call"
  tr_get_account :: "address \<Rightarrow> (account_info, 'w) call"
  tr_get_account_resource :: "address \<Rightarrow> (account_resource, 'w) call"
  tr_get_transaction_by_id :: "bytes \<Rightarrow> (signed_transaction option, 'w) call"
  tr_get_delegated_resource_v1 :: "address \<Rightarrow> address \<Rightarrow> (delegated_resource list, 'w) call"
  tr_get_delegated_resource_index_v1 :: "address \<Rightarrow> (delegated_resource_index, 'w) call"
  tr_get_delegated_resource :: "address \<Rightarrow> address \<Rightarrow> (delegated_resource list, 'w) call"
  tr_get_delegated_resource_index :: "address \<Rightarrow> (delegated_resource_index, 'w) call"
  tr_get_can_delegate_max :: "address \<Rightarrow> resource_code \<Rightarrow> (trx, 'w) call"
  tr_get_reward :: "address \<Rightarrow> (trx, 'w) call"
  tr_get_chain_parameters :: "((string \<rightharpoonup> i64), 'w) call"
  tr_get_contract :: "address \<Rightarrow> (smart_contract_info, 'w) call"
  tr_get_contract_info :: "address \<Rightarrow> (smart_contract_info, 'w) call"
  tr_list_witnesses :: "(witness_info list, 'w) call"
  tr_get_paginated_now_witness_list :: "i64 \<Rightarrow> i64 \<Rightarrow> (witness_info list, 'w) call"
  tr_list_proposals :: "(proposal_info list, 'w) call"
  tr_get_paginated_proposal_list :: "i64 \<Rightarrow> i64 \<Rightarrow> (proposal_info list, 'w) call"
  tr_get_proposal_by_id :: "i64 \<Rightarrow> (proposal_info, 'w) call"
  tr_get_asset_issue_by_id :: "string \<Rightarrow> (asset_info option, 'w) call"
  tr_get_asset_issue_by_account :: "address \<Rightarrow> (asset_info list, 'w) call"
  tr_get_paginated_asset_issue_list :: "i64 \<Rightarrow> i64 \<Rightarrow> (asset_info list, 'w) call"
  tr_get_asset_issue_by_name :: "string \<Rightarrow> (asset_info option, 'w) call"
  tr_get_asset_issue_list_by_name :: "string \<Rightarrow> (asset_info list, 'w) call"
  tr_get_can_withdraw_unfreeze_amount :: "address \<Rightarrow> i64 \<Rightarrow> (trx, 'w) call"
  tr_get_available_unfreeze_count :: "address \<Rightarrow> (i64, 'w) call"
  tr_get_bandwidth_prices :: "(string, 'w) call"
  tr_get_memo_fee :: "(u64, 'w) call"
  tr_get_next_maintenance_time :: "(i64, 'w) call"
  tr_get_burn_trx :: "(u64, 'w) call"
  tr_get_total_transactions :: "(u64, 'w) call"
  tr_get_node_info :: "(node_info, 'w) call"
  tr_list_nodes :: "(node_address list, 'w) call"
  tr_get_dynamic_properties :: "(chain_properties, 'w) call"
  tr_get_block_by_id :: "bytes \<Rightarrow> (block_info option, 'w) call"
  tr_get_blocks_by_latest_num :: "i64 \<Rightarrow> (block_info list, 'w) call"
  tr_get_blocks_by_limit :: "i64 \<Rightarrow> i64 \<Rightarrow> (block_info list, 'w) call"
  tr_get_transaction_count_by_block_num :: "i64 \<Rightarrow> (u64, 'w) call"
  tr_get_transactions_from :: "address \<Rightarrow> i64 \<Rightarrow> i64 \<Rightarrow> (raw_transaction list, 'w) call"
  tr_get_transactions_to :: "address \<Rightarrow> i64 \<Rightarrow> i64 \<Rightarrow> (raw_transaction list, 'w) call"
  tr_get_transaction_info_by_block_num :: "i64 \<Rightarrow> (transaction_info list, 'w) call"
  tr_get_pending_size :: "(u64, 'w) call"
  tr_get_transaction_from_pending :: "bytes \<Rightarrow> (raw_transaction, 'w) call"
  tr_get_pending_transactions :: "(raw_transaction list, 'w) call"
  tr_get_transaction_sign_weight :: "signed_transaction \<Rightarrow> (sign_weight, 'w) call"
  tr_get_transaction_approved_list :: "signed_transaction \<Rightarrow> (address list, 'w) call"
  tr_get_account_net :: "address \<Rightarrow> (account_net, 'w) call"
  tr_get_brokerage :: "address \<Rightarrow> (u64, 'w) call"
  tr_get_reward_info :: "address \<Rightarrow> (u64, 'w) call"
  tr_list_exchanges :: "(exchange_info list, 'w) call"
  tr_get_paginated_exchange_list :: "i64 \<Rightarrow> i64 \<Rightarrow> (exchange_info list, 'w) call"
  tr_get_exchange_by_id :: "i64 \<Rightarrow> (exchange_info option, 'w) call"
  tr_get_market_order_by_id :: "bytes \<Rightarrow> (market_order_info option, 'w) call"
  tr_get_market_order_by_account :: "address \<Rightarrow> (market_order_info list, 'w) call"
  tr_get_market_price_by_pair :: "string \<Rightarrow> string \<Rightarrow> (market_price list, 'w) call"
  tr_get_market_order_list_by_pair :: "string \<Rightarrow> string \<Rightarrow> (market_order_info list, 'w) call"
  tr_get_market_pair_list :: "(market_order_pair list, 'w) call"

definition base_transport :: "'w tron_transport \<Rightarrow> 'w transport" where
  "base_transport T =
     \<lparr> tr_build = tr_build T, tr_broadcast = tr_broadcast T, tr_now_block = tr_now_block T,
       tr_energy_prices = tr_energy_prices T, tr_estimate_energy = tr_estimate_energy T,
       tr_constant_call = tr_constant_call T, tr_transaction_info = tr_transaction_info T \<rparr>"

section \<open>Of a solidity node\<close>

record 'w solidity_transport =
  st_get_now_block :: "(block_info, 'w) call"
  st_get_block_by_number :: "i64 \<Rightarrow> (block_info option, 'w) call"
  st_get_account :: "address \<Rightarrow> (account_info, 'w) call"
  st_get_transaction_by_id :: "bytes \<Rightarrow> (signed_transaction option, 'w) call"
  st_get_transaction_info :: "bytes \<Rightarrow> (transaction_info option, 'w) call"
  st_get_transaction_info_by_block_num :: "i64 \<Rightarrow> (transaction_info list, 'w) call"
  st_get_transaction_count_by_block_num :: "i64 \<Rightarrow> (u64, 'w) call"
  st_trigger_constant_contract :: "trigger_smart_contract \<Rightarrow> (constant_call_result, 'w) call"
  st_estimate_energy :: "trigger_smart_contract \<Rightarrow> (i64, 'w) call"
  st_list_witnesses :: "(witness_info list, 'w) call"
  st_get_paginated_now_witness_list :: "i64 \<Rightarrow> i64 \<Rightarrow> (witness_info list, 'w) call"
  st_get_delegated_resource_v1 :: "address \<Rightarrow> address \<Rightarrow> (delegated_resource list, 'w) call"
  st_get_delegated_resource_index_v1 :: "address \<Rightarrow> (delegated_resource_index, 'w) call"
  st_get_delegated_resource :: "address \<Rightarrow> address \<Rightarrow> (delegated_resource list, 'w) call"
  st_get_delegated_resource_index :: "address \<Rightarrow> (delegated_resource_index, 'w) call"
  st_get_can_delegate_max :: "address \<Rightarrow> resource_code \<Rightarrow> (trx, 'w) call"
  st_get_available_unfreeze_count :: "address \<Rightarrow> (i64, 'w) call"
  st_get_can_withdraw_unfreeze_amount :: "address \<Rightarrow> i64 \<Rightarrow> (trx, 'w) call"

end
