(* ===== verification/Provider_Trait.thy ===== *)
theory Provider_Trait
  imports Tron_Transport
begin

text \<open>
  Providers that wrap providers: the traits \<open>ContractReadProvider\<close> and \<open>TronProvider\<close> with their
  default methods (\<open>crates/provider/src/provider/mod.rs\<close>).  A provider is a record of its methods; an
  implementation of the traits is a record of the methods it overrides, and \<open>provider_of\<close> gives it the
  defaults for the others.
\<close>

section \<open>The traits\<close>

type_synonym ('a, 'w) provider_call = "'w \<Rightarrow> (provider_error + 'a) \<times> 'w"

record 'w root_inner =
  ri_transport :: "'w tron_transport"
  ri_signer_address :: "address option"

record 'w read_provider =
  rp_default_caller :: "address option"
  rp_call_contract :: "trigger_smart_contract \<Rightarrow> (constant_call_result, 'w) provider_call"
  rp_estimate_contract_energy :: "trigger_smart_contract \<Rightarrow> (i64, 'w) provider_call"
  rp_transaction_info :: "bytes \<Rightarrow> (transaction_info option, 'w) provider_call"
  rp_transaction_infos_by_block :: "i64 \<Rightarrow> (transaction_info list, 'w) provider_call"

record 'w tron_provider = "'w read_provider" +
  tp_root :: "'w root_inner"
  tp_signer_address :: "address option"
  tp_get_now_block :: "(block_info, 'w) provider_call"
  tp_get_block_by_number :: "i64 \<Rightarrow> (block_info option, 'w) provider_call"
  tp_get_account :: "address \<Rightarrow> (account_info, 'w) provider_call"
  tp_get_account_resource :: "address \<Rightarrow> (account_resource, 'w) provider_call"
  tp_get_transaction :: "bytes \<Rightarrow> (signed_transaction option, 'w) provider_call"
  tp_get_delegated_resource_v1 :: "address \<Rightarrow> address \<Rightarrow> (delegated_resource list, 'w) provider_call"
  tp_get_delegated_resource_index_v1 :: "address \<Rightarrow> (delegated_resource_index, 'w) provider_call"
  tp_get_delegated_resource :: "address \<Rightarrow> address \<Rightarrow> (delegated_resource list, 'w) provider_call"
  tp_get_delegated_resource_index :: "address \<Rightarrow> (delegated_resource_index, 'w) provider_call"
  tp_get_can_delegate_max :: "address \<Rightarrow> resource_code \<Rightarrow> (trx, 'w) provider_call"
  tp_get_reward :: "address \<Rightarrow> (trx, 'w) provider_call"
  tp_chain_parameters :: "((string \<rightharpoonup> i64), 'w) provider_call"
  tp_get_contract_info :: "address \<Rightarrow> (smart_contract_info, 'w) provider_call"
  tp_list_witnesses :: "(witness_info list, 'w) provider_call"
  tp_get_paginated_now_witness_list :: "i64 \<Rightarrow> i64 \<Rightarrow> (witness_info list, 'w) provider_call"
  tp_get_bandwidth_prices :: "(string, 'w) provider_call"
  tp_get_energy_prices :: "(string, 'w) provider_call"
  tp_get_memo_fee :: "(u64, 'w) provider_call"
  tp_get_next_maintenance_time :: "(i64, 'w) provider_call"
  tp_get_burn_trx :: "(u64, 'w) provider_call"
  tp_get_total_transactions :: "(u64, 'w) provider_call"
  tp_get_node_info :: "(node_info, 'w) provider_call"
  tp_list_nodes :: "(node_address list, 'w) provider_call"
  tp_get_dynamic_properties :: "(chain_properties, 'w) provider_call"
  tp_get_block_by_id :: "bytes \<Rightarrow> (block_info option, 'w) provider_call"
  tp_get_blocks_by_latest_num :: "i64 \<Rightarrow> (block_info list, 'w) provider_call"
  tp_get_blocks_by_limit :: "i64 \<Rightarrow> i64 \<Rightarrow> (block_info list, 'w) provider_call"
  tp_get_transaction_count_by_block_num :: "i64 \<Rightarrow> (u64, 'w) provider_call"
  tp_get_transactions_from :: "address \<Rightarrow> i64 \<Rightarrow> i64 \<Rightarrow> (raw_transaction list, 'w) provider_call"
  tp_get_transactions_to :: "address \<Rightarrow> i64 \<Rightarrow> i64 \<Rightarrow> (raw_transaction list, 'w) provider_call"
  tp_get_pending_size :: "(u64, 'w) provider_call"
  tp_get_transaction_from_pending :: "bytes \<Rightarrow> (raw_transaction, 'w) provider_call"
  tp_get_pending_transactions :: "(raw_transaction list, 'w) provider_call"
  tp_get_transaction_sign_weight :: "signed_transaction \<Rightarrow> (sign_weight, 'w) provider_call"
  tp_get_transaction_approved_list :: "signed_transaction \<Rightarrow> (address list, 'w) provider_call"
  tp_get_account_net :: "address \<Rightarrow> (account_net, 'w) provider_call"
  tp_get_brokerage :: "address \<Rightarrow> (u64, 'w) provider_call"
  tp_get_reward_info :: "address \<Rightarrow> (u64, 'w) provider_call"
  tp_get_can_withdraw_unfreeze_amount :: "address \<Rightarrow> i64 \<Rightarrow> (trx, 'w) provider_call"
  tp_get_available_unfreeze_count :: "address \<Rightarrow> (i64, 'w) provider_call"
  tp_get_transaction_info :: "bytes \<Rightarrow> (transaction_info option, 'w) provider_call"
  tp_get_transaction_info_by_block_num :: "i64 \<Rightarrow> (transaction_info list, 'w) provider_call"
  tp_get_energy_price :: "(i64, 'w) provider_call"
  tp_estimate_energy :: "trigger_smart_contract \<Rightarrow> (i64, 'w) provider_call"
  tp_estimate_bandwidth :: "signed_transaction \<Rightarrow> u64"
  tp_send_transaction :: "tx_request \<Rightarrow> (pending_transaction, 'w) provider_call"
  tp_build_transaction :: "tx_request \<Rightarrow> (raw_transaction, 'w) provider_call"
  tp_broadcast :: "signed_transaction \<Rightarrow> (pending_transaction, 'w) provider_call"

text \<open>The methods an implementation writes itself.\<close>

record 'w overrides =
  ov_default_caller :: "address option option"
  ov_signer_address :: "address option option"
  ov_estimate_bandwidth :: "(signed_transaction \<Rightarrow> u64) option"
  ov_call_contract :: "(trigger_smart_contract \<Rightarrow> (constant_call_result, 'w) provider_call) option"
  ov_estimate_contract_energy :: "(trigger_smart_contract \<Rightarrow> (i64, 'w) provider_call) option"
  ov_transaction_info :: "(bytes \<Rightarrow> (transaction_info option, 'w) provider_call) option"
  ov_transaction_infos_by_block :: "(i64 \<Rightarrow> (transaction_info list, 'w) provider_call) option"
  ov_get_now_block :: "((block_info, 'w) provider_call) option"
  ov_get_block_by_number :: "(i64 \<Rightarrow> (block_info option, 'w) provider_call) option"
  ov_get_account :: "(address \<Rightarrow> (account_info, 'w) provider_call) option"
  ov_get_account_resource :: "(address \<Rightarrow> (account_resource, 'w) provider_call) option"
  ov_get_transaction :: "(bytes \<Rightarrow> (signed_transaction option, 'w) provider_call) option"
  ov_get_delegated_resource_v1 :: "(address \<Rightarrow> address \<Rightarrow> (delegated_resource list, 'w) provider_call) option"
  ov_get_delegated_resource_index_v1 :: "(address \<Rightarrow> (delegated_resource_index, 'w) provider_call) option"
  ov_get_delegated_resource :: "(address \<Rightarrow> address \<Rightarrow> (delegated_resource list, 'w) provider_call) option"
  ov_get_delegated_resource_index :: "(address \<Rightarrow> (delegated_resource_index, 'w) provider_call) option"
  ov_get_can_delegate_max :: "(address \<Rightarrow> resource_code \<Rightarrow> (trx, 'w) provider_call) option"
  ov_get_reward :: "(address \<Rightarrow> (trx, 'w) provider_call) option"
  ov_chain_parameters :: "(((string \<rightharpoonup> i64), 'w) provider_call) option"
  ov_get_contract_info :: "(address \<Rightarrow> (smart_contract_info, 'w) provider_call) option"
  ov_list_witnesses :: "((witness_info list, 'w) provider_call) option"
  ov_get_paginated_now_witness_list :: "(i64 \<Rightarrow> i64 \<Rightarrow> (witness_info list, 'w) provider_call) option"
  ov_get_bandwidth_prices :: "((string, 'w) provider_call) option"
  ov_get_energy_prices :: "((string, 'w) provider_call) option"
  ov_get_memo_fee :: "((u64, 'w) provider_call) option"
  ov_get_next_maintenance_time :: "((i64, 'w) provider_call) option"
  ov_get_burn_trx :: "((u64, 'w) provider_call) option"
  ov_get_total_transactions :: "((u64, 'w) provider_call) option"
  ov_get_node_info :: "((node_info, 'w) provider_call) option"
  ov_list_nodes :: "((node_address list, 'w) provider_call) option"
  ov_get_dynamic_properties :: "((chain_properties, 'w) provider_call) option"
  ov_get_block_by_id :: "(bytes \<Rightarrow> (block_info option, 'w) provider_call) option"
  ov_get_blocks_by_latest_num :: "(i64 \<Rightarrow> (block_info list, 'w) provider_call) option"
  ov_get_blocks_by_limit :: "(i64 \<Rightarrow> i64 \<Rightarrow> (block_info list, 'w) provider_call) option"
  ov_get_transaction_count_by_block_num :: "(i64 \<Rightarrow> (u64, 'w) provider_call) option"
  ov_get_transactions_from :: "(address \<Rightarrow> i64 \<Rightarrow> i64 \<Rightarrow> (raw_transaction list, 'w) provider_call) option"
  ov_get_transactions_to :: "(address \<Rightarrow> i64 \<Rightarrow> i64 \<Rightarrow> (raw_transaction list, 'w) provider_call) option"
  ov_get_pending_size :: "((u64, 'w) provider_call) option"
  ov_get_transaction_from_pending :: "(bytes \<Rightarrow> (raw_transaction, 'w) provider_call) option"
  ov_get_pending_transactions :: "((raw_transaction list, 'w) provider_call) option"
  ov_get_transaction_sign_weight :: "(signed_transaction \<Rightarrow> (sign_weight, 'w) provider_call) option"
  ov_get_transaction_approved_list :: "(signed_transaction \<Rightarrow> (address list, 'w) provider_call) option"
  ov_get_account_net :: "(address \<Rightarrow> (account_net, 'w) provider_call) option"
  ov_get_brokerage :: "(address \<Rightarrow> (u64, 'w) provider_call) option"
  ov_get_reward_info :: "(address \<Rightarrow> (u64, 'w) provider_call) option"
  ov_get_can_withdraw_unfreeze_amount :: "(address \<Rightarrow> i64 \<Rightarrow> (trx, 'w) provider_call) option"
  ov_get_available_unfreeze_count :: "(address \<Rightarrow> (i64, 'w) provider_call) option"
  ov_get_transaction_info :: "(bytes \<Rightarrow> (transaction_info option, 'w) provider_call) option"
  ov_get_transaction_info_by_block_num :: "(i64 \<Rightarrow> (transaction_info list, 'w) provider_call) option"
  ov_get_energy_price :: "((i64, 'w) provider_call) option"
  ov_estimate_energy :: "(trigger_smart_contract \<Rightarrow> (i64, 'w) provider_call) option"
  ov_send_transaction :: "(tx_request \<Rightarrow> (pending_transaction, 'w) provider_call) option"
  ov_build_transaction :: "(tx_request \<Rightarrow> (raw_transaction, 'w) provider_call) option"
  ov_broadcast :: "(signed_transaction \<Rightarrow> (pending_transaction, 'w) provider_call) option"

definition no_overrides :: "'w overrides" where
  "no_overrides =
     \<lparr> ov_default_caller = None, ov_signer_address = None, ov_estimate_bandwidth = None,
       ov_call_contract = None,
       ov_estimate_contract_energy = None,
       ov_transaction_info = None,
       ov_transaction_infos_by_block = None,
       ov_get_now_block = None,
       ov_get_block_by_number = None,
       ov_get_account = None,
       ov_get_account_resource = None,
       ov_get_transaction = None,
       ov_get_delegated_resource_v1 = None,
       ov_get_delegated_resource_index_v1 = None,
       ov_get_delegated_resource = None,
       ov_get_delegated_resource_index = None,
       ov_get_can_delegate_max = None,
       ov_get_reward = None,
       ov_chain_parameters = None,
       ov_get_contract_info = None,
       ov_list_witnesses = None,
       ov_get_paginated_now_witness_list = None,
       ov_get_bandwidth_prices = None,
       ov_get_energy_prices = None,
       ov_get_memo_fee = None,
       ov_get_next_maintenance_time = None,
       ov_get_burn_trx = None,
       ov_get_total_transactions = None,
       ov_get_node_info = None,
       ov_list_nodes = None,
       ov_get_dynamic_properties = None,
       ov_get_block_by_id = None,
       ov_get_blocks_by_latest_num = None,
       ov_get_blocks_by_limit = None,
       ov_get_transaction_count_by_block_num = None,
       ov_get_transactions_from = None,
       ov_get_transactions_to = None,
       ov_get_pending_size = None,
       ov_get_transaction_from_pending = None,
       ov_get_pending_transactions = None,
       ov_get_transaction_sign_weight = None,
       ov_get_transaction_approved_list = None,
       ov_get_account_net = None,
       ov_get_brokerage = None,
       ov_get_reward_info = None,
       ov_get_can_withdraw_unfreeze_amount = None,
       ov_get_available_unfreeze_count = None,
       ov_get_transaction_info = None,
       ov_get_transaction_info_by_block_num = None,
       ov_get_energy_price = None,
       ov_estimate_energy = None,
       ov_send_transaction = None,
       ov_build_transaction = None,
       ov_broadcast = None \<rparr>"

section \<open>Reads of contracts and events\<close>

definition bottom_of_the_stack :: "string \<Rightarrow> provider_error" where
  "bottom_of_the_stack method =
     RpcLocalUsage (''`'' @ method @ ''` reached a provider that implements neither it nor `inner_read`'')"

definition trait_default_caller :: "('w, 'z) read_provider_scheme option \<Rightarrow> address option" where
  "trait_default_caller inner = (case inner of Some p \<Rightarrow> rp_default_caller p | None \<Rightarrow> None)"

definition trait_call_contract ::
  "('w, 'z) read_provider_scheme option \<Rightarrow> trigger_smart_contract \<Rightarrow> (constant_call_result, 'w) provider_call" where
  "trait_call_contract inner x w =
     (case inner of Some p \<Rightarrow> rp_call_contract p x w | None \<Rightarrow> (Err (bottom_of_the_stack ''call_contract''), w))"

definition trait_estimate_contract_energy ::
  "('w, 'z) read_provider_scheme option \<Rightarrow> trigger_smart_contract \<Rightarrow> (i64, 'w) provider_call" where
  "trait_estimate_contract_energy inner x w =
     (case inner of Some p \<Rightarrow> rp_estimate_contract_energy p x w | None \<Rightarrow> (Err (bottom_of_the_stack ''estimate_contract_energy''), w))"

definition trait_transaction_info ::
  "('w, 'z) read_provider_scheme option \<Rightarrow> bytes \<Rightarrow> (transaction_info option, 'w) provider_call" where
  "trait_transaction_info inner x w =
     (case inner of Some p \<Rightarrow> rp_transaction_info p x w | None \<Rightarrow> (Err (bottom_of_the_stack ''transaction_info''), w))"

definition trait_transaction_infos_by_block ::
  "('w, 'z) read_provider_scheme option \<Rightarrow> i64 \<Rightarrow> (transaction_info list, 'w) provider_call" where
  "trait_transaction_infos_by_block inner x w =
     (case inner of Some p \<Rightarrow> rp_transaction_infos_by_block p x w | None \<Rightarrow> (Err (bottom_of_the_stack ''transaction_infos_by_block''), w))"

section \<open>Reads of a node\<close>

text \<open>Each asks the provider underneath, and the transport when there is none.\<close>

definition trait_signer_address ::
  "'w tron_provider option \<Rightarrow> 'w root_inner \<Rightarrow> address option" where
  "trait_signer_address inner rt =
     (case inner of Some p \<Rightarrow> tp_signer_address p | None \<Rightarrow> ri_signer_address rt)"

definition trait_get_now_block ::
  "'w tron_provider option \<Rightarrow> 'w tron_transport \<Rightarrow> (block_info, 'w) provider_call" where
  "trait_get_now_block inner T =
     (case inner of Some p \<Rightarrow> tp_get_now_block p | None \<Rightarrow> as_provider (tr_now_block T))"

definition trait_get_block_by_number ::
  "'w tron_provider option \<Rightarrow> 'w tron_transport \<Rightarrow> i64 \<Rightarrow> (block_info option, 'w) provider_call" where
  "trait_get_block_by_number inner T num =
     (case inner of Some p \<Rightarrow> tp_get_block_by_number p num | None \<Rightarrow> as_provider (tr_get_block_by_number T num))"

definition trait_get_account ::
  "'w tron_provider option \<Rightarrow> 'w tron_transport \<Rightarrow> address \<Rightarrow> (account_info, 'w) provider_call" where
  "trait_get_account inner T a =
     (case inner of Some p \<Rightarrow> tp_get_account p a | None \<Rightarrow> as_provider (tr_get_account T a))"

definition trait_get_account_resource ::
  "'w tron_provider option \<Rightarrow> 'w tron_transport \<Rightarrow> address \<Rightarrow> (account_resource, 'w) provider_call" where
  "trait_get_account_resource inner T a =
     (case inner of Some p \<Rightarrow> tp_get_account_resource p a | None \<Rightarrow> as_provider (tr_get_account_resource T a))"

definition trait_get_transaction ::
  "'w tron_provider option \<Rightarrow> 'w tron_transport \<Rightarrow> bytes \<Rightarrow> (signed_transaction option, 'w) provider_call" where
  "trait_get_transaction inner T tx_id =
     (case inner of Some p \<Rightarrow> tp_get_transaction p tx_id | None \<Rightarrow> as_provider (tr_get_transaction_by_id T tx_id))"

definition trait_get_delegated_resource_v1 ::
  "'w tron_provider option \<Rightarrow> 'w tron_transport \<Rightarrow> address \<Rightarrow> address \<Rightarrow> (delegated_resource list, 'w) provider_call" where
  "trait_get_delegated_resource_v1 inner T src dst =
     (case inner of Some p \<Rightarrow> tp_get_delegated_resource_v1 p src dst | None \<Rightarrow> as_provider (tr_get_delegated_resource_v1 T src dst))"

definition trait_get_delegated_resource_index_v1 ::
  "'w tron_provider option \<Rightarrow> 'w tron_transport \<Rightarrow> address \<Rightarrow> (delegated_resource_index, 'w) provider_call" where
  "trait_get_delegated_resource_index_v1 inner T a =
     (case inner of Some p \<Rightarrow> tp_get_delegated_resource_index_v1 p a | None \<Rightarrow> as_provider (tr_get_delegated_resource_index_v1 T a))"

definition trait_get_delegated_resource ::
  "'w tron_provider option \<Rightarrow> 'w tron_transport \<Rightarrow> address \<Rightarrow> address \<Rightarrow> (delegated_resource list, 'w) provider_call" where
  "trait_get_delegated_resource inner T src dst =
     (case inner of Some p \<Rightarrow> tp_get_delegated_resource p src dst | None \<Rightarrow> as_provider (tr_get_delegated_resource T src dst))"

definition trait_get_delegated_resource_index ::
  "'w tron_provider option \<Rightarrow> 'w tron_transport \<Rightarrow> address \<Rightarrow> (delegated_resource_index, 'w) provider_call" where
  "trait_get_delegated_resource_index inner T a =
     (case inner of Some p \<Rightarrow> tp_get_delegated_resource_index p a | None \<Rightarrow> as_provider (tr_get_delegated_resource_index T a))"

definition trait_get_can_delegate_max ::
  "'w tron_provider option \<Rightarrow> 'w tron_transport \<Rightarrow> address \<Rightarrow> resource_code \<Rightarrow> (trx, 'w) provider_call" where
  "trait_get_can_delegate_max inner T a resource =
     (case inner of Some p \<Rightarrow> tp_get_can_delegate_max p a resource | None \<Rightarrow> as_provider (tr_get_can_delegate_max T a resource))"

definition trait_get_reward ::
  "'w tron_provider option \<Rightarrow> 'w tron_transport \<Rightarrow> address \<Rightarrow> (trx, 'w) provider_call" where
  "trait_get_reward inner T a =
     (case inner of Some p \<Rightarrow> tp_get_reward p a | None \<Rightarrow> as_provider (tr_get_reward T a))"

definition trait_chain_parameters ::
  "'w tron_provider option \<Rightarrow> 'w tron_transport \<Rightarrow> ((string \<rightharpoonup> i64), 'w) provider_call" where
  "trait_chain_parameters inner T =
     (case inner of Some p \<Rightarrow> tp_chain_parameters p | None \<Rightarrow> as_provider (tr_get_chain_parameters T))"

definition trait_get_contract_info ::
  "'w tron_provider option \<Rightarrow> 'w tron_transport \<Rightarrow> address \<Rightarrow> (smart_contract_info, 'w) provider_call" where
  "trait_get_contract_info inner T a =
     (case inner of Some p \<Rightarrow> tp_get_contract_info p a | None \<Rightarrow> as_provider (tr_get_contract_info T a))"

definition trait_list_witnesses ::
  "'w tron_provider option \<Rightarrow> 'w tron_transport \<Rightarrow> (witness_info list, 'w) provider_call" where
  "trait_list_witnesses inner T =
     (case inner of Some p \<Rightarrow> tp_list_witnesses p | None \<Rightarrow> as_provider (tr_list_witnesses T))"

definition trait_get_paginated_now_witness_list ::
  "'w tron_provider option \<Rightarrow> 'w tron_transport \<Rightarrow> i64 \<Rightarrow> i64 \<Rightarrow> (witness_info list, 'w) provider_call" where
  "trait_get_paginated_now_witness_list inner T offset limit =
     (case inner of Some p \<Rightarrow> tp_get_paginated_now_witness_list p offset limit | None \<Rightarrow> as_provider (tr_get_paginated_now_witness_list T offset limit))"

definition trait_get_bandwidth_prices ::
  "'w tron_provider option \<Rightarrow> 'w tron_transport \<Rightarrow> (string, 'w) provider_call" where
  "trait_get_bandwidth_prices inner T =
     (case inner of Some p \<Rightarrow> tp_get_bandwidth_prices p | None \<Rightarrow> as_provider (tr_get_bandwidth_prices T))"

definition trait_get_energy_prices ::
  "'w tron_provider option \<Rightarrow> 'w tron_transport \<Rightarrow> (string, 'w) provider_call" where
  "trait_get_energy_prices inner T =
     (case inner of Some p \<Rightarrow> tp_get_energy_prices p | None \<Rightarrow> as_provider (tr_energy_prices T))"

definition trait_get_memo_fee ::
  "'w tron_provider option \<Rightarrow> 'w tron_transport \<Rightarrow> (u64, 'w) provider_call" where
  "trait_get_memo_fee inner T =
     (case inner of Some p \<Rightarrow> tp_get_memo_fee p | None \<Rightarrow> as_provider (tr_get_memo_fee T))"

definition trait_get_next_maintenance_time ::
  "'w tron_provider option \<Rightarrow> 'w tron_transport \<Rightarrow> (i64, 'w) provider_call" where
  "trait_get_next_maintenance_time inner T =
     (case inner of Some p \<Rightarrow> tp_get_next_maintenance_time p | None \<Rightarrow> as_provider (tr_get_next_maintenance_time T))"

definition trait_get_burn_trx ::
  "'w tron_provider option \<Rightarrow> 'w tron_transport \<Rightarrow> (u64, 'w) provider_call" where
  "trait_get_burn_trx inner T =
     (case inner of Some p \<Rightarrow> tp_get_burn_trx p | None \<Rightarrow> as_provider (tr_get_burn_trx T))"

definition trait_get_total_transactions ::
  "'w tron_provider option \<Rightarrow> 'w tron_transport \<Rightarrow> (u64, 'w) provider_call" where
  "trait_get_total_transactions inner T =
     (case inner of Some p \<Rightarrow> tp_get_total_transactions p | None \<Rightarrow> as_provider (tr_get_total_transactions T))"

definition trait_get_node_info ::
  "'w tron_provider option \<Rightarrow> 'w tron_transport \<Rightarrow> (node_info, 'w) provider_call" where
  "trait_get_node_info inner T =
     (case inner of Some p \<Rightarrow> tp_get_node_info p | None \<Rightarrow> as_provider (tr_get_node_info T))"

definition trait_list_nodes ::
  "'w tron_provider option \<Rightarrow> 'w tron_transport \<Rightarrow> (node_address list, 'w) provider_call" where
  "trait_list_nodes inner T =
     (case inner of Some p \<Rightarrow> tp_list_nodes p | None \<Rightarrow> as_provider (tr_list_nodes T))"

definition trait_get_dynamic_properties ::
  "'w tron_provider option \<Rightarrow> 'w tron_transport \<Rightarrow> (chain_properties, 'w) provider_call" where
  "trait_get_dynamic_properties inner T =
     (case inner of Some p \<Rightarrow> tp_get_dynamic_properties p | None \<Rightarrow> as_provider (tr_get_dynamic_properties T))"

definition trait_get_block_by_id ::
  "'w tron_provider option \<Rightarrow> 'w tron_transport \<Rightarrow> bytes \<Rightarrow> (block_info option, 'w) provider_call" where
  "trait_get_block_by_id inner T block_id =
     (case inner of Some p \<Rightarrow> tp_get_block_by_id p block_id | None \<Rightarrow> as_provider (tr_get_block_by_id T block_id))"

definition trait_get_blocks_by_latest_num ::
  "'w tron_provider option \<Rightarrow> 'w tron_transport \<Rightarrow> i64 \<Rightarrow> (block_info list, 'w) provider_call" where
  "trait_get_blocks_by_latest_num inner T count =
     (case inner of Some p \<Rightarrow> tp_get_blocks_by_latest_num p count | None \<Rightarrow> as_provider (tr_get_blocks_by_latest_num T count))"

definition trait_get_blocks_by_limit ::
  "'w tron_provider option \<Rightarrow> 'w tron_transport \<Rightarrow> i64 \<Rightarrow> i64 \<Rightarrow> (block_info list, 'w) provider_call" where
  "trait_get_blocks_by_limit inner T from_num to_num =
     (case inner of Some p \<Rightarrow> tp_get_blocks_by_limit p from_num to_num | None \<Rightarrow> as_provider (tr_get_blocks_by_limit T from_num to_num))"

definition trait_get_transaction_count_by_block_num ::
  "'w tron_provider option \<Rightarrow> 'w tron_transport \<Rightarrow> i64 \<Rightarrow> (u64, 'w) provider_call" where
  "trait_get_transaction_count_by_block_num inner T block_num =
     (case inner of Some p \<Rightarrow> tp_get_transaction_count_by_block_num p block_num | None \<Rightarrow> as_provider (tr_get_transaction_count_by_block_num T block_num))"

definition trait_get_transactions_from ::
  "'w tron_provider option \<Rightarrow> 'w tron_transport \<Rightarrow> address \<Rightarrow> i64 \<Rightarrow> i64 \<Rightarrow> (raw_transaction list, 'w) provider_call" where
  "trait_get_transactions_from inner T a offset limit =
     (case inner of Some p \<Rightarrow> tp_get_transactions_from p a offset limit | None \<Rightarrow> as_provider (tr_get_transactions_from T a offset limit))"

definition trait_get_transactions_to ::
  "'w tron_provider option \<Rightarrow> 'w tron_transport \<Rightarrow> address \<Rightarrow> i64 \<Rightarrow> i64 \<Rightarrow> (raw_transaction list, 'w) provider_call" where
  "trait_get_transactions_to inner T a offset limit =
     (case inner of Some p \<Rightarrow> tp_get_transactions_to p a offset limit | None \<Rightarrow> as_provider (tr_get_transactions_to T a offset limit))"

definition trait_get_pending_size ::
  "'w tron_provider option \<Rightarrow> 'w tron_transport \<Rightarrow> (u64, 'w) provider_call" where
  "trait_get_pending_size inner T =
     (case inner of Some p \<Rightarrow> tp_get_pending_size p | None \<Rightarrow> as_provider (tr_get_pending_size T))"

definition trait_get_transaction_from_pending ::
  "'w tron_provider option \<Rightarrow> 'w tron_transport \<Rightarrow> bytes \<Rightarrow> (raw_transaction, 'w) provider_call" where
  "trait_get_transaction_from_pending inner T tx_id =
     (case inner of Some p \<Rightarrow> tp_get_transaction_from_pending p tx_id | None \<Rightarrow> as_provider (tr_get_transaction_from_pending T tx_id))"

definition trait_get_pending_transactions ::
  "'w tron_provider option \<Rightarrow> 'w tron_transport \<Rightarrow> (raw_transaction list, 'w) provider_call" where
  "trait_get_pending_transactions inner T =
     (case inner of Some p \<Rightarrow> tp_get_pending_transactions p | None \<Rightarrow> as_provider (tr_get_pending_transactions T))"

definition trait_get_transaction_sign_weight ::
  "'w tron_provider option \<Rightarrow> 'w tron_transport \<Rightarrow> signed_transaction \<Rightarrow> (sign_weight, 'w) provider_call" where
  "trait_get_transaction_sign_weight inner T tx =
     (case inner of Some p \<Rightarrow> tp_get_transaction_sign_weight p tx | None \<Rightarrow> as_provider (tr_get_transaction_sign_weight T tx))"

definition trait_get_transaction_approved_list ::
  "'w tron_provider option \<Rightarrow> 'w tron_transport \<Rightarrow> signed_transaction \<Rightarrow> (address list, 'w) provider_call" where
  "trait_get_transaction_approved_list inner T tx =
     (case inner of Some p \<Rightarrow> tp_get_transaction_approved_list p tx | None \<Rightarrow> as_provider (tr_get_transaction_approved_list T tx))"

definition trait_get_account_net ::
  "'w tron_provider option \<Rightarrow> 'w tron_transport \<Rightarrow> address \<Rightarrow> (account_net, 'w) provider_call" where
  "trait_get_account_net inner T a =
     (case inner of Some p \<Rightarrow> tp_get_account_net p a | None \<Rightarrow> as_provider (tr_get_account_net T a))"

definition trait_get_brokerage ::
  "'w tron_provider option \<Rightarrow> 'w tron_transport \<Rightarrow> address \<Rightarrow> (u64, 'w) provider_call" where
  "trait_get_brokerage inner T a =
     (case inner of Some p \<Rightarrow> tp_get_brokerage p a | None \<Rightarrow> as_provider (tr_get_brokerage T a))"

definition trait_get_reward_info ::
  "'w tron_provider option \<Rightarrow> 'w tron_transport \<Rightarrow> address \<Rightarrow> (u64, 'w) provider_call" where
  "trait_get_reward_info inner T a =
     (case inner of Some p \<Rightarrow> tp_get_reward_info p a | None \<Rightarrow> as_provider (tr_get_reward_info T a))"

definition trait_get_can_withdraw_unfreeze_amount ::
  "'w tron_provider option \<Rightarrow> 'w tron_transport \<Rightarrow> address \<Rightarrow> i64 \<Rightarrow> (trx, 'w) provider_call" where
  "trait_get_can_withdraw_unfreeze_amount inner T a timestamp_ms =
     (case inner of Some p \<Rightarrow> tp_get_can_withdraw_unfreeze_amount p a timestamp_ms | None \<Rightarrow> as_provider (tr_get_can_withdraw_unfreeze_amount T a timestamp_ms))"

definition trait_get_available_unfreeze_count ::
  "'w tron_provider option \<Rightarrow> 'w tron_transport \<Rightarrow> address \<Rightarrow> (i64, 'w) provider_call" where
  "trait_get_available_unfreeze_count inner T a =
     (case inner of Some p \<Rightarrow> tp_get_available_unfreeze_count p a | None \<Rightarrow> as_provider (tr_get_available_unfreeze_count T a))"

text \<open>The current price of energy, out of the schedule this provider reads.\<close>

definition energy_price_read :: "(string, 'w) provider_call \<Rightarrow> (i64, 'w) provider_call" where
  "energy_price_read prices w =
     (case prices w of
        (Inl e, w1) \<Rightarrow> (Err e, w1)
      | (Inr schedule, w1) \<Rightarrow>
          (ok_or (RpcTransport (TkMalformed (Msg (''cannot read an energy price out of '' @ schedule))))
             (latest_price schedule), w1))"

section \<open>Sending\<close>

definition trait_send_transaction ::
  "'w tron_provider option \<Rightarrow> tx_request \<Rightarrow> (pending_transaction, 'w) provider_call" where
  "trait_send_transaction inner req w =
     (case inner of Some p \<Rightarrow> tp_send_transaction p req w | None \<Rightarrow> (Err rpc_no_signer, w))"

definition trait_build_transaction ::
  "tx_codec \<Rightarrow> 'w tron_provider option \<Rightarrow> 'w tron_transport \<Rightarrow> tx_request \<Rightarrow> (raw_transaction, 'w) provider_call" where
  "trait_build_transaction C inner T req =
     (case inner of Some p \<Rightarrow> tp_build_transaction p req
      | None \<Rightarrow> build_via_transport C (base_transport T) req)"

definition trait_broadcast ::
  "'w tron_provider option \<Rightarrow> 'w tron_transport \<Rightarrow> signed_transaction \<Rightarrow> (pending_transaction, 'w) provider_call" where
  "trait_broadcast inner T tx =
     (case inner of Some p \<Rightarrow> tp_broadcast p tx | None \<Rightarrow> broadcast (base_transport T) tx)"

section \<open>An implementation\<close>

text \<open>
  The methods of a provider that overrides \<open>ov\<close> and wraps \<open>inner\<close>.  The last five defaults call another
  method of the same provider.
\<close>

definition own :: "'a option \<Rightarrow> 'a \<Rightarrow> 'a" where
  "own x d = (case x of Some m \<Rightarrow> m | None \<Rightarrow> d)"

lemma own_simps [simp]: "own None d = d" "own (Some m) d = m"
  by (simp_all add: own_def)

definition provider_of ::
  "tx_codec \<Rightarrow> 'w root_inner \<Rightarrow> 'w overrides \<Rightarrow> 'w tron_provider option \<Rightarrow> 'w tron_provider" where
  "provider_of C rt ov inner =
     (let T = ri_transport rt
      in \<lparr> rp_default_caller = own (ov_default_caller ov) (trait_default_caller inner),
           rp_call_contract = own (ov_call_contract ov) (trait_call_contract inner),
           rp_estimate_contract_energy = own (ov_estimate_contract_energy ov) (trait_estimate_contract_energy inner),
           rp_transaction_info = own (ov_transaction_info ov) (trait_transaction_info inner),
           rp_transaction_infos_by_block = own (ov_transaction_infos_by_block ov) (trait_transaction_infos_by_block inner),
           tp_root = rt,
           tp_signer_address = own (ov_signer_address ov) (trait_signer_address inner rt),
           tp_get_now_block = own (ov_get_now_block ov) (trait_get_now_block inner T),
           tp_get_block_by_number = own (ov_get_block_by_number ov) (trait_get_block_by_number inner T),
           tp_get_account = own (ov_get_account ov) (trait_get_account inner T),
           tp_get_account_resource = own (ov_get_account_resource ov) (trait_get_account_resource inner T),
           tp_get_transaction = own (ov_get_transaction ov) (trait_get_transaction inner T),
           tp_get_delegated_resource_v1 = own (ov_get_delegated_resource_v1 ov) (trait_get_delegated_resource_v1 inner T),
           tp_get_delegated_resource_index_v1 = own (ov_get_delegated_resource_index_v1 ov) (trait_get_delegated_resource_index_v1 inner T),
           tp_get_delegated_resource = own (ov_get_delegated_resource ov) (trait_get_delegated_resource inner T),
           tp_get_delegated_resource_index = own (ov_get_delegated_resource_index ov) (trait_get_delegated_resource_index inner T),
           tp_get_can_delegate_max = own (ov_get_can_delegate_max ov) (trait_get_can_delegate_max inner T),
           tp_get_reward = own (ov_get_reward ov) (trait_get_reward inner T),
           tp_chain_parameters = own (ov_chain_parameters ov) (trait_chain_parameters inner T),
           tp_get_contract_info = own (ov_get_contract_info ov) (trait_get_contract_info inner T),
           tp_list_witnesses = own (ov_list_witnesses ov) (trait_list_witnesses inner T),
           tp_get_paginated_now_witness_list = own (ov_get_paginated_now_witness_list ov) (trait_get_paginated_now_witness_list inner T),
           tp_get_bandwidth_prices = own (ov_get_bandwidth_prices ov) (trait_get_bandwidth_prices inner T),
           tp_get_energy_prices = own (ov_get_energy_prices ov) (trait_get_energy_prices inner T),
           tp_get_memo_fee = own (ov_get_memo_fee ov) (trait_get_memo_fee inner T),
           tp_get_next_maintenance_time = own (ov_get_next_maintenance_time ov) (trait_get_next_maintenance_time inner T),
           tp_get_burn_trx = own (ov_get_burn_trx ov) (trait_get_burn_trx inner T),
           tp_get_total_transactions = own (ov_get_total_transactions ov) (trait_get_total_transactions inner T),
           tp_get_node_info = own (ov_get_node_info ov) (trait_get_node_info inner T),
           tp_list_nodes = own (ov_list_nodes ov) (trait_list_nodes inner T),
           tp_get_dynamic_properties = own (ov_get_dynamic_properties ov) (trait_get_dynamic_properties inner T),
           tp_get_block_by_id = own (ov_get_block_by_id ov) (trait_get_block_by_id inner T),
           tp_get_blocks_by_latest_num = own (ov_get_blocks_by_latest_num ov) (trait_get_blocks_by_latest_num inner T),
           tp_get_blocks_by_limit = own (ov_get_blocks_by_limit ov) (trait_get_blocks_by_limit inner T),
           tp_get_transaction_count_by_block_num = own (ov_get_transaction_count_by_block_num ov) (trait_get_transaction_count_by_block_num inner T),
           tp_get_transactions_from = own (ov_get_transactions_from ov) (trait_get_transactions_from inner T),
           tp_get_transactions_to = own (ov_get_transactions_to ov) (trait_get_transactions_to inner T),
           tp_get_pending_size = own (ov_get_pending_size ov) (trait_get_pending_size inner T),
           tp_get_transaction_from_pending = own (ov_get_transaction_from_pending ov) (trait_get_transaction_from_pending inner T),
           tp_get_pending_transactions = own (ov_get_pending_transactions ov) (trait_get_pending_transactions inner T),
           tp_get_transaction_sign_weight = own (ov_get_transaction_sign_weight ov) (trait_get_transaction_sign_weight inner T),
           tp_get_transaction_approved_list = own (ov_get_transaction_approved_list ov) (trait_get_transaction_approved_list inner T),
           tp_get_account_net = own (ov_get_account_net ov) (trait_get_account_net inner T),
           tp_get_brokerage = own (ov_get_brokerage ov) (trait_get_brokerage inner T),
           tp_get_reward_info = own (ov_get_reward_info ov) (trait_get_reward_info inner T),
           tp_get_can_withdraw_unfreeze_amount = own (ov_get_can_withdraw_unfreeze_amount ov) (trait_get_can_withdraw_unfreeze_amount inner T),
           tp_get_available_unfreeze_count = own (ov_get_available_unfreeze_count ov) (trait_get_available_unfreeze_count inner T),
           tp_get_transaction_info =
             own (ov_get_transaction_info ov) (own (ov_transaction_info ov) (trait_transaction_info inner)),
           tp_get_transaction_info_by_block_num =
             own (ov_get_transaction_info_by_block_num ov)
               (own (ov_transaction_infos_by_block ov) (trait_transaction_infos_by_block inner)),
           tp_get_energy_price =
             own (ov_get_energy_price ov)
               (energy_price_read (own (ov_get_energy_prices ov) (trait_get_energy_prices inner T))),
           tp_estimate_energy =
             own (ov_estimate_energy ov)
               (own (ov_estimate_contract_energy ov) (trait_estimate_contract_energy inner)),
           tp_estimate_bandwidth = own (ov_estimate_bandwidth ov) estimate_bandwidth,
           tp_send_transaction = own (ov_send_transaction ov) (trait_send_transaction inner),
           tp_build_transaction = own (ov_build_transaction ov) (trait_build_transaction C inner T),
           tp_broadcast = own (ov_broadcast ov) (trait_broadcast inner T) \<rparr>)"

lemmas trait_defs =
  trait_default_caller_def trait_signer_address_def trait_send_transaction_def
  trait_build_transaction_def trait_broadcast_def trait_call_contract_def
  trait_estimate_contract_energy_def trait_transaction_info_def
  trait_transaction_infos_by_block_def trait_get_now_block_def trait_get_block_by_number_def
  trait_get_account_def trait_get_account_resource_def trait_get_transaction_def
  trait_get_delegated_resource_v1_def trait_get_delegated_resource_index_v1_def
  trait_get_delegated_resource_def trait_get_delegated_resource_index_def
  trait_get_can_delegate_max_def trait_get_reward_def trait_chain_parameters_def
  trait_get_contract_info_def trait_list_witnesses_def trait_get_paginated_now_witness_list_def
  trait_get_bandwidth_prices_def trait_get_energy_prices_def trait_get_memo_fee_def
  trait_get_next_maintenance_time_def trait_get_burn_trx_def trait_get_total_transactions_def
  trait_get_node_info_def trait_list_nodes_def trait_get_dynamic_properties_def
  trait_get_block_by_id_def trait_get_blocks_by_latest_num_def trait_get_blocks_by_limit_def
  trait_get_transaction_count_by_block_num_def trait_get_transactions_from_def
  trait_get_transactions_to_def trait_get_pending_size_def trait_get_transaction_from_pending_def
  trait_get_pending_transactions_def trait_get_transaction_sign_weight_def
  trait_get_transaction_approved_list_def trait_get_account_net_def trait_get_brokerage_def
  trait_get_reward_info_def trait_get_can_withdraw_unfreeze_amount_def
  trait_get_available_unfreeze_count_def

end
