(* ===== verification/Provider_Stack.thy ===== *)
theory Provider_Stack
  imports Provider_Trait
begin

text \<open>
  The providers of the crate: the root provider (\<open>provider/root.rs\<close>), the erased provider
  (\<open>provider/erased.rs\<close>), layers (\<open>layers.rs\<close>) and the filled provider (\<open>provider/builder.rs\<close>).  A filler
  chain that remembers things keeps them in the world.
\<close>

text \<open>A node nothing can be asked of.\<close>

definition offline :: "('a, 'w) call" where
  "offline w = (Err (TkConnect []), w)"

definition offline_transport :: "'w tron_transport" where
  "offline_transport =
     \<lparr> tr_build = constant_rpcs (Err (TkConnect [])), tr_broadcast = (\<lambda>_. offline),
       tr_now_block = offline, tr_energy_prices = offline, tr_estimate_energy = (\<lambda>_. offline),
       tr_constant_call = (\<lambda>_. offline), tr_transaction_info = (\<lambda>_. offline),
       tr_get_block_by_number = (\<lambda>_. offline),
       tr_get_account = (\<lambda>_. offline),
       tr_get_account_resource = (\<lambda>_. offline),
       tr_get_transaction_by_id = (\<lambda>_. offline),
       tr_get_delegated_resource_v1 = (\<lambda>_ _. offline),
       tr_get_delegated_resource_index_v1 = (\<lambda>_. offline),
       tr_get_delegated_resource = (\<lambda>_ _. offline),
       tr_get_delegated_resource_index = (\<lambda>_. offline),
       tr_get_can_delegate_max = (\<lambda>_ _. offline),
       tr_get_reward = (\<lambda>_. offline),
       tr_get_chain_parameters = offline,
       tr_get_contract = (\<lambda>_. offline),
       tr_get_contract_info = (\<lambda>_. offline),
       tr_list_witnesses = offline,
       tr_get_paginated_now_witness_list = (\<lambda>_ _. offline),
       tr_list_proposals = offline,
       tr_get_paginated_proposal_list = (\<lambda>_ _. offline),
       tr_get_proposal_by_id = (\<lambda>_. offline),
       tr_get_asset_issue_by_id = (\<lambda>_. offline),
       tr_get_asset_issue_by_account = (\<lambda>_. offline),
       tr_get_paginated_asset_issue_list = (\<lambda>_ _. offline),
       tr_get_asset_issue_by_name = (\<lambda>_. offline),
       tr_get_asset_issue_list_by_name = (\<lambda>_. offline),
       tr_get_can_withdraw_unfreeze_amount = (\<lambda>_ _. offline),
       tr_get_available_unfreeze_count = (\<lambda>_. offline),
       tr_get_bandwidth_prices = offline,
       tr_get_memo_fee = offline,
       tr_get_next_maintenance_time = offline,
       tr_get_burn_trx = offline,
       tr_get_total_transactions = offline,
       tr_get_node_info = offline,
       tr_list_nodes = offline,
       tr_get_dynamic_properties = offline,
       tr_get_block_by_id = (\<lambda>_. offline),
       tr_get_blocks_by_latest_num = (\<lambda>_. offline),
       tr_get_blocks_by_limit = (\<lambda>_ _. offline),
       tr_get_transaction_count_by_block_num = (\<lambda>_. offline),
       tr_get_transactions_from = (\<lambda>_ _ _. offline),
       tr_get_transactions_to = (\<lambda>_ _ _. offline),
       tr_get_transaction_info_by_block_num = (\<lambda>_. offline),
       tr_get_pending_size = offline,
       tr_get_transaction_from_pending = (\<lambda>_. offline),
       tr_get_pending_transactions = offline,
       tr_get_transaction_sign_weight = (\<lambda>_. offline),
       tr_get_transaction_approved_list = (\<lambda>_. offline),
       tr_get_account_net = (\<lambda>_. offline),
       tr_get_brokerage = (\<lambda>_. offline),
       tr_get_reward_info = (\<lambda>_. offline),
       tr_list_exchanges = offline,
       tr_get_paginated_exchange_list = (\<lambda>_ _. offline),
       tr_get_exchange_by_id = (\<lambda>_. offline),
       tr_get_market_order_by_id = (\<lambda>_. offline),
       tr_get_market_order_by_account = (\<lambda>_. offline),
       tr_get_market_price_by_pair = (\<lambda>_ _. offline),
       tr_get_market_order_list_by_pair = (\<lambda>_ _. offline),
       tr_get_market_pair_list = offline \<rparr>"

section \<open>The root provider\<close>

definition root_new :: "'w tron_transport \<Rightarrow> 'w root_inner" where
  "root_new T = \<lparr> ri_transport = T, ri_signer_address = None \<rparr>"

definition root_new_with_signer :: "'w tron_transport \<Rightarrow> address \<Rightarrow> 'w root_inner" where
  "root_new_with_signer T a = \<lparr> ri_transport = T, ri_signer_address = Some a \<rparr>"

definition root_overrides :: "'w root_inner \<Rightarrow> 'w overrides" where
  "root_overrides rt =
     (let T = ri_transport rt
      in no_overrides\<lparr>
           ov_default_caller := Some (ri_signer_address rt),
           ov_call_contract := Some (\<lambda>params. as_provider (tr_constant_call T params)),
           ov_estimate_contract_energy := Some (\<lambda>params. as_provider (tr_estimate_energy T params)),
           ov_transaction_info := Some (\<lambda>tx_id. as_provider (tr_transaction_info T tx_id)),
           ov_transaction_infos_by_block :=
             Some (\<lambda>block_num. as_provider (tr_get_transaction_info_by_block_num T block_num)) \<rparr>)"

definition root_of :: "tx_codec \<Rightarrow> 'w root_inner \<Rightarrow> 'w tron_provider" where
  "root_of C rt = provider_of C rt (root_overrides rt) None"

section \<open>Wrappers\<close>

text \<open>An implementation that reports \<open>p\<close> as its \<open>inner\<close> and \<open>inner_read\<close>, and the root of \<open>p\<close> as its own.\<close>

definition wrap :: "tx_codec \<Rightarrow> 'w overrides \<Rightarrow> 'w tron_provider \<Rightarrow> 'w tron_provider" where
  "wrap C ov p = provider_of C (tp_root p) ov (Some p)"

text \<open>\<open>DynProvider\<close>: it overrides nothing.\<close>

definition erased :: "tx_codec \<Rightarrow> 'w tron_provider \<Rightarrow> 'w tron_provider" where
  "erased C p = wrap C no_overrides p"

type_synonym 'w layer = "'w tron_provider \<Rightarrow> 'w tron_provider"

definition identity_layer :: "'w layer" where
  "identity_layer p = p"

definition stack_layer :: "'w layer \<Rightarrow> 'w layer \<Rightarrow> 'w layer" where
  "stack_layer inner outer p = outer (inner p)"

datatype trace_event = TraceBlock i64 | TraceSend | TraceBroadcast bytes

definition logging_overrides ::
  "(trace_event \<Rightarrow> 'w \<Rightarrow> 'w) \<Rightarrow> 'w tron_provider \<Rightarrow> 'w overrides" where
  "logging_overrides debug inner =
     no_overrides\<lparr>
       ov_get_now_block := Some (\<lambda>w.
         (case tp_get_now_block inner w of
            (Inl e, w1) \<Rightarrow> (Err e, w1)
          | (Inr block, w1) \<Rightarrow> (Ok block, debug (TraceBlock (block_info_number block)) w1))),
       ov_send_transaction := Some (\<lambda>req w. tp_send_transaction inner req (debug TraceSend w)),
       ov_broadcast := Some (\<lambda>tx w.
         tp_broadcast inner tx (debug (TraceBroadcast (raw_tx_id (signed_raw tx))) w)) \<rparr>"

definition logging_layer :: "tx_codec \<Rightarrow> (trace_event \<Rightarrow> 'w \<Rightarrow> 'w) \<Rightarrow> 'w layer" where
  "logging_layer C debug p = wrap C (logging_overrides debug p) p"

section \<open>The filled provider\<close>

text \<open>Where the chain's shared memory is in the world, and a step that uses it.\<close>

record ('f, 'w) memory =
  mem_get :: "'w \<Rightarrow> 'f"
  mem_put :: "'f \<Rightarrow> 'w \<Rightarrow> 'w"

definition with_memory ::
  "('f, 'w) memory \<Rightarrow> ('f \<Rightarrow> 'w \<Rightarrow> 'r \<times> 'f \<times> 'w) \<Rightarrow> 'w \<Rightarrow> 'r \<times> 'w" where
  "with_memory M step w = (case step (mem_get M w) w of (r, f, w1) \<Rightarrow> (r, mem_put M f w1))"

definition as_inner :: "'w tron_provider \<Rightarrow> 'w inner_provider" where
  "as_inner p = \<lparr> ip_build = tp_build_transaction p, ip_broadcast = tp_broadcast p \<rparr>"

text \<open>
  The reads the fillers make of the filled provider itself.  It overrides none of them, so they are
  the inner provider's, the energy price the one in the inner provider's schedule.
\<close>

definition filled_node :: "('w \<Rightarrow> nat) \<Rightarrow> 'w tron_provider \<Rightarrow> 'w fill_node" where
  "filled_node clock p =
     \<lparr> fn_now_block = tp_get_now_block p,
       fn_energy_price = energy_price_read (tp_get_energy_prices p),
       fn_estimate_energy = rp_estimate_contract_energy p,
       fn_call_contract = rp_call_contract p,
       fn_clock = clock \<rparr>"

definition filled_overrides ::
  "('f, 'w) memory \<Rightarrow> ('f, 'w) filler_ops \<Rightarrow> address option \<Rightarrow> 'w tron_provider \<Rightarrow> 'w overrides" where
  "filled_overrides M F signer inner =
     no_overrides\<lparr>
       ov_default_caller := Some signer,
       ov_signer_address := Some signer,
       ov_send_transaction := Some (\<lambda>req. with_memory M (\<lambda>f. filled_send_transaction (as_inner inner) F f req)),
       ov_build_transaction :=
         Some (\<lambda>req. with_memory M (\<lambda>f. filled_build_transaction (as_inner inner) F f req)) \<rparr>"

definition filled_provider ::
  "tx_codec \<Rightarrow> ('f, 'w) memory \<Rightarrow> ('f, 'w) filler_ops \<Rightarrow> address option \<Rightarrow> 'w tron_provider \<Rightarrow> 'w tron_provider" where
  "filled_provider C M F signer inner = wrap C (filled_overrides M F signer inner) inner"

section \<open>What a wrapper leaves alone\<close>

lemmas stack_defs = wrap_def provider_of_def Let_def

text \<open>Four methods are defined by another method of the same provider, and one by nothing else.\<close>

definition coherent :: "'w tron_provider \<Rightarrow> bool" where
  "coherent p \<longleftrightarrow>
     tp_get_transaction_info p = rp_transaction_info p
     \<and> tp_get_transaction_info_by_block_num p = rp_transaction_infos_by_block p
     \<and> tp_get_energy_price p = energy_price_read (tp_get_energy_prices p)
     \<and> tp_estimate_energy p = rp_estimate_contract_energy p
     \<and> tp_estimate_bandwidth p = estimate_bandwidth"

definition plain_overrides :: "'w overrides \<Rightarrow> bool" where
  "plain_overrides ov \<longleftrightarrow>
     ov_get_transaction_info ov = None \<and> ov_get_transaction_info_by_block_num ov = None
     \<and> ov_get_energy_price ov = None \<and> ov_estimate_energy ov = None \<and> ov_estimate_bandwidth ov = None"

text \<open>The providers this crate can build: a root, and wrappers that override none of the five.\<close>

inductive stacked :: "tx_codec \<Rightarrow> 'w tron_provider \<Rightarrow> bool" for C where
  bottom: "stacked C (root_of C rt)"
| over: "stacked C p \<Longrightarrow> plain_overrides ov \<Longrightarrow> stacked C (wrap C ov p)"

lemma coherent_provider_of: "plain_overrides ov \<Longrightarrow> coherent (provider_of C rt ov inner)"
  by (simp add: coherent_def plain_overrides_def provider_of_def Let_def)

lemma plain_no_overrides: "plain_overrides no_overrides"
  by (simp add: plain_overrides_def no_overrides_def)

lemma plain_root: "plain_overrides (root_overrides rt)"
  by (simp add: plain_overrides_def root_overrides_def no_overrides_def Let_def)

lemma plain_logging: "plain_overrides (logging_overrides debug p)"
  by (simp add: plain_overrides_def logging_overrides_def no_overrides_def)

lemma plain_filled: "plain_overrides (filled_overrides M F signer p)"
  by (simp add: plain_overrides_def filled_overrides_def no_overrides_def)

lemma stacked_coherent: "stacked C p \<Longrightarrow> coherent p"
  by (induction rule: stacked.induct) (simp_all add: root_of_def wrap_def coherent_provider_of plain_root)

lemma stacked_logging: "stacked C p \<Longrightarrow> stacked C (logging_layer C debug p)"
  by (simp add: logging_layer_def stacked.over plain_logging)

lemma stacked_filled: "stacked C p \<Longrightarrow> stacked C (filled_provider C M F signer p)"
  by (simp add: filled_provider_def stacked.over plain_filled)

lemma stacked_erased: "stacked C p \<Longrightarrow> stacked C (erased C p)"
  by (simp add: erased_def stacked.over plain_no_overrides)

lemma erased_coherent:
  assumes "coherent p"
  shows "erased C p = p"
  using assms
  by (intro tron_provider.equality)
    (simp_all add: erased_def stack_defs coherent_def no_overrides_def trait_defs fun_eq_iff)

lemma erased_coherent_iff: "erased C p = p \<longleftrightarrow> coherent p"
proof
  assume "erased C p = p"
  moreover have "coherent (erased C p)"
    unfolding erased_def wrap_def by (intro coherent_provider_of plain_no_overrides)
  ultimately show "coherent p" by simp
qed (rule erased_coherent)

text \<open>
  C13: erasing a provider's type changes no method of it exactly when its five derived methods are
  what the traits derive them to be (\<open>coherent\<close>).  Every stack of a root and of wrappers that leave
  those five alone is such a provider, the crate's own wrappers among them; a layer that overrides one of
  the five in a way of its own is not, and erasure loses that override.
\<close>

theorem erased_is_same:
  shows "(erased C p = p \<longleftrightarrow> coherent p) \<and> (stacked C p \<longrightarrow> erased C p = p)"
  using erased_coherent_iff stacked_coherent by blast

theorem erased_is_same_witness:
  "erased sample_codec (logging_layer sample_codec (\<lambda>_. Suc) (root_of sample_codec (root_new offline_transport)))
     = logging_layer sample_codec (\<lambda>_. Suc) (root_of sample_codec (root_new offline_transport))"
  using erased_is_same [of sample_codec] stacked_logging [OF stacked.bottom] by blast

text \<open>
  A layer that does answer one of the derived methods is not seen through another wrapper: the
  wrapper's own default answers, by way of the method it is derived from.
\<close>

lemma derived_answered_above:
  "tp_get_transaction_info (erased C p) = rp_transaction_info p"
  "tp_get_transaction_info_by_block_num (erased C p) = rp_transaction_infos_by_block p"
  "tp_get_energy_price (erased C p) = energy_price_read (tp_get_energy_prices p)"
  "tp_estimate_energy (erased C p) = rp_estimate_contract_energy p"
  by (simp_all add: erased_def stack_defs no_overrides_def trait_defs fun_eq_iff)

section \<open>Layers\<close>

text \<open>With a provider underneath, a method that is not overridden is that provider's.\<close>

lemma trait_inner:
  "trait_default_caller (Some p) = rp_default_caller p"
  "trait_call_contract (Some p) = rp_call_contract p"
  "trait_estimate_contract_energy (Some p) = rp_estimate_contract_energy p"
  "trait_transaction_info (Some p) = rp_transaction_info p"
  "trait_transaction_infos_by_block (Some p) = rp_transaction_infos_by_block p"
  "trait_signer_address (Some p) rt = tp_signer_address p"
  "trait_get_now_block (Some p) T = tp_get_now_block p"
  "trait_get_block_by_number (Some p) T = tp_get_block_by_number p"
  "trait_get_account (Some p) T = tp_get_account p"
  "trait_get_account_resource (Some p) T = tp_get_account_resource p"
  "trait_get_transaction (Some p) T = tp_get_transaction p"
  "trait_get_delegated_resource_v1 (Some p) T = tp_get_delegated_resource_v1 p"
  "trait_get_delegated_resource_index_v1 (Some p) T = tp_get_delegated_resource_index_v1 p"
  "trait_get_delegated_resource (Some p) T = tp_get_delegated_resource p"
  "trait_get_delegated_resource_index (Some p) T = tp_get_delegated_resource_index p"
  "trait_get_can_delegate_max (Some p) T = tp_get_can_delegate_max p"
  "trait_get_reward (Some p) T = tp_get_reward p"
  "trait_chain_parameters (Some p) T = tp_chain_parameters p"
  "trait_get_contract_info (Some p) T = tp_get_contract_info p"
  "trait_list_witnesses (Some p) T = tp_list_witnesses p"
  "trait_get_paginated_now_witness_list (Some p) T = tp_get_paginated_now_witness_list p"
  "trait_get_bandwidth_prices (Some p) T = tp_get_bandwidth_prices p"
  "trait_get_energy_prices (Some p) T = tp_get_energy_prices p"
  "trait_get_memo_fee (Some p) T = tp_get_memo_fee p"
  "trait_get_next_maintenance_time (Some p) T = tp_get_next_maintenance_time p"
  "trait_get_burn_trx (Some p) T = tp_get_burn_trx p"
  "trait_get_total_transactions (Some p) T = tp_get_total_transactions p"
  "trait_get_node_info (Some p) T = tp_get_node_info p"
  "trait_list_nodes (Some p) T = tp_list_nodes p"
  "trait_get_dynamic_properties (Some p) T = tp_get_dynamic_properties p"
  "trait_get_block_by_id (Some p) T = tp_get_block_by_id p"
  "trait_get_blocks_by_latest_num (Some p) T = tp_get_blocks_by_latest_num p"
  "trait_get_blocks_by_limit (Some p) T = tp_get_blocks_by_limit p"
  "trait_get_transaction_count_by_block_num (Some p) T = tp_get_transaction_count_by_block_num p"
  "trait_get_transactions_from (Some p) T = tp_get_transactions_from p"
  "trait_get_transactions_to (Some p) T = tp_get_transactions_to p"
  "trait_get_pending_size (Some p) T = tp_get_pending_size p"
  "trait_get_transaction_from_pending (Some p) T = tp_get_transaction_from_pending p"
  "trait_get_pending_transactions (Some p) T = tp_get_pending_transactions p"
  "trait_get_transaction_sign_weight (Some p) T = tp_get_transaction_sign_weight p"
  "trait_get_transaction_approved_list (Some p) T = tp_get_transaction_approved_list p"
  "trait_get_account_net (Some p) T = tp_get_account_net p"
  "trait_get_brokerage (Some p) T = tp_get_brokerage p"
  "trait_get_reward_info (Some p) T = tp_get_reward_info p"
  "trait_get_can_withdraw_unfreeze_amount (Some p) T = tp_get_can_withdraw_unfreeze_amount p"
  "trait_get_available_unfreeze_count (Some p) T = tp_get_available_unfreeze_count p"
  "trait_send_transaction (Some p) = tp_send_transaction p"
  "trait_build_transaction C (Some p) T = tp_build_transaction p"
  "trait_broadcast (Some p) T = tp_broadcast p"
  by (simp_all add: trait_defs fun_eq_iff)

text \<open>A layer given by what it overrides, and layers in the order a call meets them.\<close>

definition layer_of :: "tx_codec \<Rightarrow> ('w tron_provider \<Rightarrow> 'w overrides) \<Rightarrow> 'w layer" where
  "layer_of C ov p = wrap C (ov p) p"

definition layers :: "'w layer list \<Rightarrow> 'w layer" where
  "layers ls p = foldr (\<lambda>l. l) ls p"

lemma layers_simps [simp]: "layers [] p = p" "layers (l # ls) p = l (layers ls p)"
  by (simp_all add: layers_def)

text \<open>
  Two layers as one: what the outer one overrides, and else what the inner one does.  The methods the
  traits derive from others are the exception: a layer that leaves one of them alone has the default,
  which goes to another method and not to the layer below, so only the outer layer's own count.
\<close>

definition first_of :: "'a option \<Rightarrow> 'a option \<Rightarrow> 'a option" where
  "first_of x y = (case x of Some m \<Rightarrow> Some m | None \<Rightarrow> y)"

lemma first_of_None [simp]: "first_of x None = x"
  by (simp add: first_of_def split: option.split)

lemma own_first_of [simp]: "own (first_of x y) d = own x (own y d)"
  by (simp add: first_of_def split: option.split)

definition over :: "'w overrides \<Rightarrow> 'w overrides \<Rightarrow> 'w overrides" where
  "over a b =
     \<lparr> ov_default_caller = first_of (ov_default_caller a) (ov_default_caller b),
       ov_signer_address = first_of (ov_signer_address a) (ov_signer_address b),
       ov_estimate_bandwidth = ov_estimate_bandwidth a,
       ov_call_contract = first_of (ov_call_contract a) (ov_call_contract b),
       ov_estimate_contract_energy = first_of (ov_estimate_contract_energy a) (ov_estimate_contract_energy b),
       ov_transaction_info = first_of (ov_transaction_info a) (ov_transaction_info b),
       ov_transaction_infos_by_block = first_of (ov_transaction_infos_by_block a) (ov_transaction_infos_by_block b),
       ov_get_now_block = first_of (ov_get_now_block a) (ov_get_now_block b),
       ov_get_block_by_number = first_of (ov_get_block_by_number a) (ov_get_block_by_number b),
       ov_get_account = first_of (ov_get_account a) (ov_get_account b),
       ov_get_account_resource = first_of (ov_get_account_resource a) (ov_get_account_resource b),
       ov_get_transaction = first_of (ov_get_transaction a) (ov_get_transaction b),
       ov_get_delegated_resource_v1 = first_of (ov_get_delegated_resource_v1 a) (ov_get_delegated_resource_v1 b),
       ov_get_delegated_resource_index_v1 = first_of (ov_get_delegated_resource_index_v1 a) (ov_get_delegated_resource_index_v1 b),
       ov_get_delegated_resource = first_of (ov_get_delegated_resource a) (ov_get_delegated_resource b),
       ov_get_delegated_resource_index = first_of (ov_get_delegated_resource_index a) (ov_get_delegated_resource_index b),
       ov_get_can_delegate_max = first_of (ov_get_can_delegate_max a) (ov_get_can_delegate_max b),
       ov_get_reward = first_of (ov_get_reward a) (ov_get_reward b),
       ov_chain_parameters = first_of (ov_chain_parameters a) (ov_chain_parameters b),
       ov_get_contract_info = first_of (ov_get_contract_info a) (ov_get_contract_info b),
       ov_list_witnesses = first_of (ov_list_witnesses a) (ov_list_witnesses b),
       ov_get_paginated_now_witness_list = first_of (ov_get_paginated_now_witness_list a) (ov_get_paginated_now_witness_list b),
       ov_get_bandwidth_prices = first_of (ov_get_bandwidth_prices a) (ov_get_bandwidth_prices b),
       ov_get_energy_prices = first_of (ov_get_energy_prices a) (ov_get_energy_prices b),
       ov_get_memo_fee = first_of (ov_get_memo_fee a) (ov_get_memo_fee b),
       ov_get_next_maintenance_time = first_of (ov_get_next_maintenance_time a) (ov_get_next_maintenance_time b),
       ov_get_burn_trx = first_of (ov_get_burn_trx a) (ov_get_burn_trx b),
       ov_get_total_transactions = first_of (ov_get_total_transactions a) (ov_get_total_transactions b),
       ov_get_node_info = first_of (ov_get_node_info a) (ov_get_node_info b),
       ov_list_nodes = first_of (ov_list_nodes a) (ov_list_nodes b),
       ov_get_dynamic_properties = first_of (ov_get_dynamic_properties a) (ov_get_dynamic_properties b),
       ov_get_block_by_id = first_of (ov_get_block_by_id a) (ov_get_block_by_id b),
       ov_get_blocks_by_latest_num = first_of (ov_get_blocks_by_latest_num a) (ov_get_blocks_by_latest_num b),
       ov_get_blocks_by_limit = first_of (ov_get_blocks_by_limit a) (ov_get_blocks_by_limit b),
       ov_get_transaction_count_by_block_num = first_of (ov_get_transaction_count_by_block_num a) (ov_get_transaction_count_by_block_num b),
       ov_get_transactions_from = first_of (ov_get_transactions_from a) (ov_get_transactions_from b),
       ov_get_transactions_to = first_of (ov_get_transactions_to a) (ov_get_transactions_to b),
       ov_get_pending_size = first_of (ov_get_pending_size a) (ov_get_pending_size b),
       ov_get_transaction_from_pending = first_of (ov_get_transaction_from_pending a) (ov_get_transaction_from_pending b),
       ov_get_pending_transactions = first_of (ov_get_pending_transactions a) (ov_get_pending_transactions b),
       ov_get_transaction_sign_weight = first_of (ov_get_transaction_sign_weight a) (ov_get_transaction_sign_weight b),
       ov_get_transaction_approved_list = first_of (ov_get_transaction_approved_list a) (ov_get_transaction_approved_list b),
       ov_get_account_net = first_of (ov_get_account_net a) (ov_get_account_net b),
       ov_get_brokerage = first_of (ov_get_brokerage a) (ov_get_brokerage b),
       ov_get_reward_info = first_of (ov_get_reward_info a) (ov_get_reward_info b),
       ov_get_can_withdraw_unfreeze_amount = first_of (ov_get_can_withdraw_unfreeze_amount a) (ov_get_can_withdraw_unfreeze_amount b),
       ov_get_available_unfreeze_count = first_of (ov_get_available_unfreeze_count a) (ov_get_available_unfreeze_count b),
       ov_get_transaction_info = ov_get_transaction_info a,
       ov_get_transaction_info_by_block_num = ov_get_transaction_info_by_block_num a,
       ov_get_energy_price = ov_get_energy_price a,
       ov_estimate_energy = ov_estimate_energy a,
       ov_send_transaction = first_of (ov_send_transaction a) (ov_send_transaction b),
       ov_build_transaction = first_of (ov_build_transaction a) (ov_build_transaction b),
       ov_broadcast = first_of (ov_broadcast a) (ov_broadcast b) \<rparr>"

lemma wrap_wrap: "wrap C a (wrap C b p) = wrap C (over a b) p"
  by (intro tron_provider.equality) (simp_all add: stack_defs over_def trait_inner)

lemma wrap_nothing: "wrap C (over a no_overrides) p = wrap C a p"
  by (intro tron_provider.equality)
    (simp_all add: stack_defs over_def no_overrides_def)

text \<open>The overrides of a stack, each layer's in terms of the provider it stands on.\<close>

fun stack_overrides :: "tx_codec \<Rightarrow> ('w tron_provider \<Rightarrow> 'w overrides) list \<Rightarrow> 'w tron_provider \<Rightarrow> 'w overrides" where
  "stack_overrides C [] p = no_overrides"
| "stack_overrides C (a # as) p = over (a (layers (map (layer_of C) as) p)) (stack_overrides C as p)"

text \<open>
  C14: a stack of layers is one layer over the provider at its bottom, and each of that layer's methods
  is the override of the outermost layer that has one, in terms of the provider that layer stands on;
  without one the method is the bottom provider's.  Of the five derived methods only the outermost
  layer's own overrides count: one further down is not seen (\<open>derived_answered_above\<close>).
\<close>

theorem outermost_override_answers:
  assumes "as \<noteq> []"
  shows "layers (map (layer_of C) as) p = wrap C (stack_overrides C as p) p"
  using assms
proof (induction as)
  case (Cons a as)
  show ?case
  proof (cases "as = []")
    case True
    then show ?thesis by (simp add: layer_of_def [of C a] wrap_nothing)
  next
    case False
    from Cons.IH [OF False] have "layers (map (layer_of C) (a # as)) p
        = wrap C (a (layers (map (layer_of C) as) p)) (wrap C (stack_overrides C as p) p)"
      unfolding layer_of_def [of C a] list.map layers_simps by simp
    then show ?thesis by (simp add: wrap_wrap)
  qed
qed simp

lemma ov_none: "ov_broadcast no_overrides = None"
  by (simp add: no_overrides_def)

lemma over_broadcast: "ov_broadcast (over a b) = first_of (ov_broadcast a) (ov_broadcast b)"
  by (simp add: over_def)

lemma wrap_broadcast: "tp_broadcast (wrap C ov p) = own (ov_broadcast ov) (tp_broadcast p)"
  by (simp add: stack_defs trait_inner)

theorem outermost_override_answers_witness:
  "tp_broadcast
     (layers (map (layer_of sample_codec) [\<lambda>_. no_overrides, logging_overrides (\<lambda>_. Suc), \<lambda>_. no_overrides])
        (root_of sample_codec (root_new offline_transport)))
   = (\<lambda>tx w. tp_broadcast
        (layers (map (layer_of sample_codec) [\<lambda>_. no_overrides])
           (root_of sample_codec (root_new offline_transport))) tx (Suc w))"
  using outermost_override_answers [of "[\<lambda>_. no_overrides, logging_overrides (\<lambda>_. Suc), \<lambda>_. no_overrides]"
      sample_codec "root_of sample_codec (root_new (offline_transport :: nat tron_transport))"]
  by (simp add: over_broadcast wrap_broadcast first_of_def logging_overrides_def ov_none)

section \<open>Down to the transport\<close>

lemma as_inner_root: "as_inner (root_of C rt) = root_provider C (base_transport (ri_transport rt))"
  by (simp add: as_inner_def root_of_def provider_of_def root_provider_def Let_def root_overrides_def
      no_overrides_def trait_build_transaction_def trait_broadcast_def fun_eq_iff)

lemma filled_node_root: "filled_node clock (root_of C rt) = root_fill_node (base_transport (ri_transport rt)) clock"
  by (simp add: filled_node_def root_fill_node_def root_of_def provider_of_def Let_def root_overrides_def
      no_overrides_def trait_get_now_block_def trait_get_energy_prices_def energy_price_read_def
      get_energy_price_def base_transport_def fun_eq_iff)

lemma filled_methods:
  "tp_send_transaction (filled_provider C M F signer p) req
     = with_memory M (\<lambda>f. filled_send_transaction (as_inner p) F f req)"
  "tp_build_transaction (filled_provider C M F signer p) req
     = with_memory M (\<lambda>f. filled_build_transaction (as_inner p) F f req)"
  "tp_broadcast (filled_provider C M F signer p) = tp_broadcast p"
  "tp_signer_address (filled_provider C M F signer p) = signer"
  "rp_default_caller (filled_provider C M F signer p) = signer"
  "rp_call_contract (filled_provider C M F signer p) = rp_call_contract p"
  "rp_estimate_contract_energy (filled_provider C M F signer p) = rp_estimate_contract_energy p"
  "rp_transaction_info (filled_provider C M F signer p) = rp_transaction_info p"
  "tp_root (filled_provider C M F signer p) = tp_root p"
  by (simp_all add: filled_provider_def stack_defs filled_overrides_def no_overrides_def
      trait_broadcast_def trait_call_contract_def trait_estimate_contract_energy_def
      trait_transaction_info_def fun_eq_iff)

text \<open>
  A send is traced once: by its broadcast when the logging layer is under the fillers, by the send
  when it is over them.
\<close>

lemma logging_methods:
  "tp_send_transaction (logging_layer C debug p) req w = tp_send_transaction p req (debug TraceSend w)"
  "tp_build_transaction (logging_layer C debug p) = tp_build_transaction p"
  "tp_broadcast (logging_layer C debug p) tx w
     = tp_broadcast p tx (debug (TraceBroadcast (raw_tx_id (signed_raw tx))) w)"
  by (simp_all add: logging_layer_def stack_defs logging_overrides_def no_overrides_def
      trait_build_transaction_def fun_eq_iff)

lemma logged_under_fillers:
  "as_inner (logging_layer C debug p)
     = \<lparr> ip_build = tp_build_transaction p,
         ip_broadcast = (\<lambda>tx w. tp_broadcast p tx (debug (TraceBroadcast (raw_tx_id (signed_raw tx))) w)) \<rparr>"
  by (simp add: as_inner_def logging_methods fun_eq_iff)

end
