(* ===== verification/Grpc_Provider.thy ===== *)
theory Grpc_Provider
  imports Operation_Send Provider_Stack
begin

text \<open>
  A provider over the gRPC transport: every method of \<open>GrpcTransport\<close>
  (\<open>crates/provider/src/transport/grpc/fullnode.rs\<close>) as the transport of the provider stack, and the
  provider a builder with a wallet makes of it, down to what the node is asked to broadcast.
\<close>

section \<open>The transport\<close>

definition grpc_tron_transport ::
  "'w try_join \<Rightarrow> 'w grpc_core \<Rightarrow> tx_codec \<Rightarrow> prost_contracts \<Rightarrow> 'w wallet_client \<Rightarrow> 'w read_client
     \<Rightarrow> 'w tron_transport" where
  "grpc_tron_transport join G C P W R =
     \<lparr> tr_build = grpc_build_rpcs G C P W,
       tr_broadcast = grpc_broadcast_transaction C R,
       tr_now_block = grpc_get_now_block G R,
       tr_energy_prices = grpc_get_energy_prices G C R,
       tr_estimate_energy = grpc_estimate_energy G C R,
       tr_constant_call = grpc_trigger_constant_contract G C R,
       tr_transaction_info = grpc_get_transaction_info G C R,
       tr_get_block_by_number = grpc_get_block_by_number G R,
       tr_get_account = grpc_get_account G C R,
       tr_get_account_resource = grpc_get_account_resource G C R,
       tr_get_transaction_by_id = grpc_get_transaction_by_id G C R,
       tr_get_delegated_resource_v1 = grpc_get_delegated_resource_v1 G C R,
       tr_get_delegated_resource_index_v1 = grpc_get_delegated_resource_index_v1 G C R,
       tr_get_delegated_resource = grpc_get_delegated_resource G C R,
       tr_get_delegated_resource_index = grpc_get_delegated_resource_index G C R,
       tr_get_can_delegate_max = grpc_get_can_delegate_max G C R,
       tr_get_reward = grpc_get_reward G C R,
       tr_get_chain_parameters = grpc_get_chain_parameters G C R,
       tr_get_contract = grpc_get_contract G C R,
       tr_get_contract_info = grpc_get_contract_info G C R,
       tr_list_witnesses = grpc_list_witnesses G C R,
       tr_get_paginated_now_witness_list = grpc_get_paginated_now_witness_list G C R,
       tr_list_proposals = grpc_list_proposals G C R,
       tr_get_paginated_proposal_list = grpc_get_paginated_proposal_list G C R,
       tr_get_proposal_by_id = grpc_get_proposal_by_id G C R,
       tr_get_asset_issue_by_id = grpc_get_asset_issue_by_id G C R,
       tr_get_asset_issue_by_account = grpc_get_asset_issue_by_account G C R,
       tr_get_paginated_asset_issue_list = grpc_get_paginated_asset_issue_list G C R,
       tr_get_asset_issue_by_name = grpc_get_asset_issue_by_name G C R,
       tr_get_asset_issue_list_by_name = grpc_get_asset_issue_list_by_name G C R,
       tr_get_can_withdraw_unfreeze_amount = grpc_get_can_withdraw_unfreeze_amount G C R,
       tr_get_available_unfreeze_count = grpc_get_available_unfreeze_count G C R,
       tr_get_bandwidth_prices = grpc_get_bandwidth_prices G C R,
       tr_get_memo_fee = grpc_get_memo_fee G C R,
       tr_get_next_maintenance_time = grpc_get_next_maintenance_time G C R,
       tr_get_burn_trx = grpc_get_burn_trx G C R,
       tr_get_total_transactions = grpc_get_total_transactions G C R,
       tr_get_node_info = grpc_get_node_info G C R,
       tr_list_nodes = grpc_list_nodes G C R,
       tr_get_dynamic_properties = grpc_get_dynamic_properties G C R,
       tr_get_block_by_id = grpc_get_block_by_id G R,
       tr_get_blocks_by_latest_num = grpc_get_blocks_by_latest_num G R,
       tr_get_blocks_by_limit = grpc_get_blocks_by_limit G R,
       tr_get_transaction_count_by_block_num = grpc_get_transaction_count_by_block_num G C R,
       tr_get_transactions_from = grpc_get_transactions_from G C R,
       tr_get_transactions_to = grpc_get_transactions_to G C R,
       tr_get_transaction_info_by_block_num = grpc_get_transaction_info_by_block_num G C R,
       tr_get_pending_size = grpc_get_pending_size G C R,
       tr_get_transaction_from_pending = grpc_get_transaction_from_pending G C R,
       tr_get_pending_transactions = grpc_get_pending_transactions join G C R,
       tr_get_transaction_sign_weight = grpc_get_transaction_sign_weight G C R,
       tr_get_transaction_approved_list = grpc_get_transaction_approved_list G C R,
       tr_get_account_net = grpc_get_account_net G C R,
       tr_get_brokerage = grpc_get_brokerage G C R,
       tr_get_reward_info = grpc_get_reward_info G C R,
       tr_list_exchanges = grpc_list_exchanges G C R,
       tr_get_paginated_exchange_list = grpc_get_paginated_exchange_list G C R,
       tr_get_exchange_by_id = grpc_get_exchange_by_id G C R,
       tr_get_market_order_by_id = grpc_get_market_order_by_id G C R,
       tr_get_market_order_by_account = grpc_get_market_order_by_account G C R,
       tr_get_market_price_by_pair = grpc_get_market_price_by_pair G C R,
       tr_get_market_order_list_by_pair = grpc_get_market_order_list_by_pair G C R,
       tr_get_market_pair_list = grpc_get_market_pair_list G C R \<rparr>"

lemma base_grpc: "base_transport (grpc_tron_transport join G C P W R) = grpc_transport G C P W R"
  by (simp add: base_transport_def grpc_tron_transport_def grpc_transport_def)

section \<open>The provider\<close>

text \<open>
  What \<open>ProviderBuilder::new().wallet(w)\<close> connects to: the recommended fillers and the wallet over the
  root provider, its fillers in the memory \<open>M\<close>, its signer the wallet's at the time it was built.
\<close>

definition grpc_root ::
  "'w try_join \<Rightarrow> 'w grpc_core \<Rightarrow> tx_codec \<Rightarrow> prost_contracts \<Rightarrow> 'w wallet_client \<Rightarrow> 'w read_client
     \<Rightarrow> 'w tron_provider" where
  "grpc_root join G C P W R = root_of C (root_new (grpc_tron_transport join G C P W R))"

definition wallet_provider ::
  "tx_codec \<Rightarrow> ('w wallet_fillers, 'w) memory \<Rightarrow> (bytes \<Rightarrow> string) \<Rightarrow> ('w \<Rightarrow> nat) \<Rightarrow> address option
     \<Rightarrow> 'w tron_provider \<Rightarrow> 'w tron_provider" where
  "wallet_provider C M b58_enc clock signer p =
     filled_provider C M (wallet_chain b58_enc (filled_node clock p)) signer p"

lemma as_inner_grpc: "as_inner (grpc_root join G C P W R) = root_provider C (grpc_transport G C P W R)"
  by (simp add: grpc_root_def as_inner_root root_new_def base_grpc)

lemma stacked_wallet_provider: "stacked C (wallet_provider C M b58_enc clock signer (grpc_root join G C P W R))"
  unfolding wallet_provider_def grpc_root_def by (intro stacked_filled stacked.bottom)

text \<open>A send through the provider is the send over the transport, with the provider's memory.\<close>

definition wallet_of :: "('w wallet_fillers, 'w) memory \<Rightarrow> 'w \<Rightarrow> 'w wallet_filler" where
  "wallet_of M w = join_right (mem_get M w)"

lemma wallet_provider_sent:
  assumes "prost_tx C" and "typed_client C W" and "wf_wallet (wf_wallet_of (wallet_of M w))"
    and "honest_wallet recover (wf_wallet_of (wallet_of M w))"
    and "\<forall>s. req_contract req \<noteq> Some (CtSetAccountId s)"
    and "vec_built (root_provider C (grpc_transport G C P W R))
           (wallet_chain b58_enc (filled_node clock (grpc_root join G C P W R))) (mem_get M w) req w"
    and "tp_send_transaction (wallet_provider C M b58_enc clock signer (grpc_root join G C P W R)) req w
      = (Inr h, w')"
  shows "\<exists>contract f' w1. req_contract req = Some contract \<and> w' = mem_put M f' w1
    \<and> broadcast_for C R recover (wallet_of M w) (contract_owner_address contract)
        (requested_type contract) (holds_request P contract) h w1"
proof -
  let ?p = "grpc_root join G C P W R"
  obtain f' w1 where run: "filled_send_transaction (root_provider C (grpc_transport G C P W R))
      (wallet_chain b58_enc (filled_node clock ?p)) (mem_get M w) req w = (Inr h, f', w1)"
    and w': "w' = mem_put M f' w1"
    using assms(7)
    by (auto simp: wallet_provider_def filled_methods with_memory_def as_inner_grpc split: prod.splits)
  from grpc_broadcast_requested [OF assms(1,2) assms(3,4) [unfolded wallet_of_def] assms(5,6) run] w'
  show ?thesis unfolding wallet_of_def by blast
qed

end
