(* ===== verification/Provider_Builder.thy ===== *)
theory Provider_Builder
  imports Grpc_Provider
begin

text \<open>
  Connecting and building a provider (\<open>crates/provider/src/provider/builder.rs\<close>, the configuration
  and the dialing of \<open>transport/grpc/core.rs\<close>): endpoints, timeouts, the fillers and the layers a
  \<open>ProviderBuilder\<close> puts together.  What \<open>tonic\<close> does with an endpoint is a parameter.
\<close>

section \<open>The connection\<close>

record 'w grpc_config =
  gc_connect_timeout :: duration
  gc_request_timeout :: duration
  gc_retry :: retry_config
  gc_api_key :: "string option"
  gc_endpoints :: "string list"
  gc_middleware :: "'w middleware list"

definition grpc_config_default :: "'w grpc_config" where
  "grpc_config_default =
     \<lparr> gc_connect_timeout = 10 * 10 ^ 9, gc_request_timeout = 30 * 10 ^ 9, gc_retry = retry_config_default,
       gc_api_key = None, gc_endpoints = [], gc_middleware = [] \<rparr>"

text \<open>The setters of \<open>GrpcTransportBuilder\<close>, which holds nothing but a configuration.\<close>

definition config_connect_timeout :: "'w grpc_config \<Rightarrow> duration \<Rightarrow> 'w grpc_config" where
  "config_connect_timeout cfg t = cfg\<lparr> gc_connect_timeout := t \<rparr>"

definition config_request_timeout :: "'w grpc_config \<Rightarrow> duration \<Rightarrow> 'w grpc_config" where
  "config_request_timeout cfg t = cfg\<lparr> gc_request_timeout := t \<rparr>"

definition config_retry :: "'w grpc_config \<Rightarrow> retry_config \<Rightarrow> 'w grpc_config" where
  "config_retry cfg r = cfg\<lparr> gc_retry := r \<rparr>"

definition config_endpoints :: "'w grpc_config \<Rightarrow> string list \<Rightarrow> 'w grpc_config" where
  "config_endpoints cfg es = cfg\<lparr> gc_endpoints := es \<rparr>"

definition config_middleware :: "'w grpc_config \<Rightarrow> 'w middleware \<Rightarrow> 'w grpc_config" where
  "config_middleware cfg mw = cfg\<lparr> gc_middleware := gc_middleware cfg @ [mw] \<rparr>"

definition config_api_key :: "'w grpc_config \<Rightarrow> string option \<Rightarrow> 'w grpc_config" where
  "config_api_key cfg key = cfg\<lparr> gc_api_key := key \<rparr>"

text \<open>
  What is used of \<open>tonic\<close>.  The step that sets up TLS is there under the feature \<open>grpc-tls\<close>; a build
  without it is the instance whose \<open>tn_tls\<close> returns the endpoint as it is.
\<close>

record ('ep, 'ch, 'w) tonic =
  tn_from_shared :: "string \<Rightarrow> string + 'ep"
  tn_connect_timeout :: "'ep \<Rightarrow> duration \<Rightarrow> 'ep"
  tn_timeout :: "'ep \<Rightarrow> duration \<Rightarrow> 'ep"
  tn_tls :: "'ep \<Rightarrow> string list + 'ep"
  tn_connect :: "'ep \<Rightarrow> 'w \<Rightarrow> (string list + 'ch) \<times> 'w"
  tn_balance_list :: "'ep list \<Rightarrow> 'ch"

definition map_connect :: "string list \<Rightarrow> transport_error" where
  "map_connect err = TkConnect err"

definition build_endpoint ::
  "('ep, 'ch, 'w) tonic \<Rightarrow> 'w grpc_config \<Rightarrow> string \<Rightarrow> transport_error + 'ep" where
  "build_endpoint TN cfg uri =
     and_then (map_err (\<lambda>e. TkMalformed (Msg e)) (tn_from_shared TN uri)) (\<lambda>shared.
       let endpoint = tn_timeout TN (tn_connect_timeout TN shared (gc_connect_timeout cfg)) (gc_request_timeout cfg)
       in map_err map_connect (tn_tls TN endpoint))"

record ('ch, 'w) connection =
  cn_channel :: 'ch
  cn_api_key :: "string option"
  cn_retry :: retry_config
  cn_middleware :: "'w middleware list"

definition connection_of :: "'w grpc_config \<Rightarrow> 'ch \<Rightarrow> ('ch, 'w) connection" where
  "connection_of cfg ch =
     \<lparr> cn_channel = ch, cn_api_key = gc_api_key cfg, cn_retry = gc_retry cfg, cn_middleware = gc_middleware cfg \<rparr>"

text \<open>One endpoint is dialed at once; of several a pool is made that dials when it is first used.\<close>

definition connect_with_config ::
  "('ep, 'ch, 'w) tonic \<Rightarrow> string \<Rightarrow> 'w grpc_config \<Rightarrow> 'w \<Rightarrow> (transport_error + ('ch, 'w) connection) \<times> 'w" where
  "connect_with_config TN uri cfg w =
     (case uri # gc_endpoints cfg of
        [u] \<Rightarrow>
          (case build_endpoint TN cfg u of
             Inl e \<Rightarrow> (Err e, w)
           | Inr endpoint \<Rightarrow>
               (case tn_connect TN endpoint w of
                  (Inl err, w1) \<Rightarrow> (Err (map_connect err), w1)
                | (Inr ch, w1) \<Rightarrow> (Ok (connection_of cfg ch), w1)))
      | uris \<Rightarrow>
          (and_then (collect_results (build_endpoint TN cfg) uris) (\<lambda>endpoints.
             Ok (connection_of cfg (tn_balance_list TN endpoints))), w))"

definition set_api_key :: "('ch, 'w) connection \<Rightarrow> string \<Rightarrow> ('ch, 'w) connection" where
  "set_api_key c key = c\<lparr> cn_api_key := Some key \<rparr>"

text \<open>The header every request carries: a key that is not a header value is left out.\<close>

definition api_key_interceptor ::
  "(string \<Rightarrow> 'v option) \<Rightarrow> string option \<Rightarrow> (string \<rightharpoonup> 'v) \<Rightarrow> (string \<rightharpoonup> 'v)" where
  "api_key_interceptor metadata_value key metadata =
     (case key of
        None \<Rightarrow> metadata
      | Some k \<Rightarrow>
          (case metadata_value k of
             Some v \<Rightarrow> metadata(''tron-pro-api-key'' \<mapsto> v)
           | None \<Rightarrow> metadata))"

text \<open>
  A pool is refused for its first endpoint that is not well formed, before anything is dialed, and
  keeps the order of its endpoints, the primary first; a single endpoint is dialed exactly once.
\<close>

lemma collect_results_ok_all:
  "(\<exists>ys. collect_results f xs = Ok ys) \<longleftrightarrow> (\<forall>x\<in>set xs. \<exists>y. f x = Ok y)"
proof (induction xs)
  case (Cons x xs)
  then show ?case by (cases "f x"; cases "collect_results f xs") auto
qed simp

lemma pool_is_lazy:
  assumes "gc_endpoints cfg \<noteq> []" and "connect_with_config TN uri cfg w = (r, w')"
  shows "w' = w"
    and "(\<exists>c. r = Ok c) \<longleftrightarrow> (\<forall>u\<in>set (uri # gc_endpoints cfg). \<exists>ep. build_endpoint TN cfg u = Ok ep)"
    and "r = Ok c \<Longrightarrow> \<exists>eps. collect_results (build_endpoint TN cfg) (uri # gc_endpoints cfg) = Ok eps
           \<and> c = connection_of cfg (tn_balance_list TN eps)"
proof -
  obtain e es where es: "gc_endpoints cfg = e # es" using assms(1) by (cases "gc_endpoints cfg") simp_all
  have run: "w' = w" "r = and_then (collect_results (build_endpoint TN cfg) (uri # gc_endpoints cfg)) (\<lambda>eps.
      Ok (connection_of cfg (tn_balance_list TN eps)))"
    using assms(2) by (simp_all add: connect_with_config_def es del: collect_results.simps)
  show "w' = w" by (rule run(1))
  show "r = Ok c \<Longrightarrow> \<exists>eps. collect_results (build_endpoint TN cfg) (uri # gc_endpoints cfg) = Ok eps
      \<and> c = connection_of cfg (tn_balance_list TN eps)"
    unfolding run(2) by (auto simp: result_simps)
  show "(\<exists>c. r = Ok c) \<longleftrightarrow> (\<forall>u\<in>set (uri # gc_endpoints cfg). \<exists>ep. build_endpoint TN cfg u = Ok ep)"
    unfolding run(2) collect_results_ok_all [symmetric] by (auto simp: result_simps)
qed

lemma single_endpoint_is_dialed:
  assumes "gc_endpoints cfg = []" and "build_endpoint TN cfg uri = Ok ep"
  shows "connect_with_config TN uri cfg w
    = (case tn_connect TN ep w of
         (Inl err, w1) \<Rightarrow> (Err (TkConnect err), w1)
       | (Inr ch, w1) \<Rightarrow> (Ok (connection_of cfg ch), w1))"
  by (simp add: connect_with_config_def assms map_connect_def split: prod.split sum.split)

section \<open>A transport of a connection\<close>

text \<open>The generated clients of a channel, given the key its interceptor adds.\<close>

record ('ch, 'w) stubs =
  sb_wallet :: "'ch \<Rightarrow> string option \<Rightarrow> 'w wallet_client"
  sb_read :: "'ch \<Rightarrow> string option \<Rightarrow> 'w read_client"

definition grpc_transport_of ::
  "'w try_join \<Rightarrow> 'w runtime \<Rightarrow> tx_codec \<Rightarrow> prost_contracts \<Rightarrow> ('ch, 'w) stubs \<Rightarrow> ('ch, 'w) connection
     \<Rightarrow> 'w tron_transport" where
  "grpc_transport_of join E C P S c =
     grpc_tron_transport join
       \<lparr> core_runtime = E, core_retry = cn_retry c, core_middleware = cn_middleware c \<rparr> C P
       (sb_wallet S (cn_channel c) (cn_api_key c)) (sb_read S (cn_channel c) (cn_api_key c))"

section \<open>Fillers\<close>

text \<open>A filler: what \<open>TxFiller\<close> and \<open>HasSigner\<close> ask of it; \<open>fill\<close> gets the provider to read with.\<close>

record ('f, 'w) tx_filler =
  tf_sync :: "'f \<Rightarrow> tx_request \<Rightarrow> tx_request"
  tf_fill :: "'w fill_node \<Rightarrow> 'f \<Rightarrow> ('f, 'w) filling"
  tf_signer_address :: "'f \<Rightarrow> address option"
  tf_sign_with :: "'f \<Rightarrow> address option \<Rightarrow> bytes \<Rightarrow> 'w \<Rightarrow> (signer_error + recoverable_signature) option \<times> 'w"

definition filler_default :: "('f, 'w) tx_filler" where
  "filler_default =
     \<lparr> tf_sync = default_fill_sync, tf_fill = (\<lambda>_. default_fill), tf_signer_address = (\<lambda>_. None),
       tf_sign_with = no_sign \<rparr>"

definition identity_filler :: "(identity, 'w) tx_filler" where
  "identity_filler = filler_default"

definition tapos_filler_ops :: "(tapos_filler, 'w) tx_filler" where
  "tapos_filler_ops = filler_default\<lparr> tf_fill := tapos_fill \<rparr>"

definition fee_limit_filler_ops :: "(fee_limit_filler, 'w) tx_filler" where
  "fee_limit_filler_ops = filler_default\<lparr> tf_sync := fee_limit_fill_sync \<rparr>"

definition energy_filler_ops :: "(energy_filler, 'w) tx_filler" where
  "energy_filler_ops = filler_default\<lparr> tf_fill := energy_fill \<rparr>"

definition wallet_filler_ops :: "(bytes \<Rightarrow> string) \<Rightarrow> ('w wallet_filler, 'w) tx_filler" where
  "wallet_filler_ops b58_enc =
     filler_default\<lparr> tf_signer_address := wallet_signer_address, tf_sign_with := wallet_sign_with b58_enc \<rparr>"

definition join_filler ::
  "('l, 'w) tx_filler \<Rightarrow> ('r, 'w) tx_filler \<Rightarrow> (('l, 'r) join_fill, 'w) tx_filler" where
  "join_filler l r =
     \<lparr> tf_sync = join_fill_sync (tf_sync l) (tf_sync r),
       tf_fill = (\<lambda>N. join_fill_async (tf_fill l N) (tf_fill r N)),
       tf_signer_address = join_signer_address (tf_signer_address l) (tf_signer_address r),
       tf_sign_with = join_sign_with (tf_sign_with l) (tf_sign_with r) \<rparr>"

definition filler_at :: "('f, 'w) tx_filler \<Rightarrow> 'w fill_node \<Rightarrow> ('f, 'w) filler_ops" where
  "filler_at F N = \<lparr> fo_sync = tf_sync F, fo_fill = tf_fill F N, fo_sign_with = tf_sign_with F \<rparr>"

section \<open>The builder\<close>

record ('f, 'w) provider_builder =
  bl_filler :: 'f
  bl_ops :: "('f, 'w) tx_filler"
  bl_layer :: "'w layer"
  bl_api_key :: "string option"
  bl_connect_timeout :: "duration option"
  bl_request_timeout :: "duration option"
  bl_retry :: "retry_config option"
  bl_endpoints :: "string list"
  bl_middleware :: "'w middleware list"

definition builder_default :: "(identity, 'w) provider_builder" where
  "builder_default =
     \<lparr> bl_filler = Identity, bl_ops = identity_filler, bl_layer = identity_layer, bl_api_key = None,
       bl_connect_timeout = None, bl_request_timeout = None, bl_retry = None, bl_endpoints = [],
       bl_middleware = [] \<rparr>"

definition builder_filler ::
  "('f, 'w) provider_builder \<Rightarrow> 'g \<Rightarrow> ('g, 'w) tx_filler \<Rightarrow> (('f, 'g) join_fill, 'w) provider_builder" where
  "builder_filler b filler ops =
     \<lparr> bl_filler = \<lparr> join_left = bl_filler b, join_right = filler \<rparr>, bl_ops = join_filler (bl_ops b) ops,
       bl_layer = bl_layer b, bl_api_key = bl_api_key b, bl_connect_timeout = bl_connect_timeout b,
       bl_request_timeout = bl_request_timeout b, bl_retry = bl_retry b, bl_endpoints = bl_endpoints b,
       bl_middleware = bl_middleware b \<rparr>"

definition builder_layer :: "('f, 'w) provider_builder \<Rightarrow> 'w layer \<Rightarrow> ('f, 'w) provider_builder" where
  "builder_layer b l = b\<lparr> bl_layer := stack_layer l (bl_layer b) \<rparr>"

definition builder_with_energy ::
  "('f, 'w) provider_builder \<Rightarrow> energy_filler \<Rightarrow> (('f, energy_filler) join_fill, 'w) provider_builder" where
  "builder_with_energy b f = builder_filler b f energy_filler_ops"

definition builder_with_tapos ::
  "('f, 'w) provider_builder \<Rightarrow> (('f, tapos_filler) join_fill, 'w) provider_builder" where
  "builder_with_tapos b = builder_filler b tapos_new tapos_filler_ops"

definition builder_with_fee_limit ::
  "('f, 'w) provider_builder \<Rightarrow> trx \<Rightarrow> (('f, fee_limit_filler) join_fill, 'w) provider_builder" where
  "builder_with_fee_limit b limit = builder_filler b \<lparr> fee_default = limit \<rparr> fee_limit_filler_ops"

definition builder_recommended ::
  "('f, 'w) provider_builder \<Rightarrow> (('f, energy_filler) join_fill, 'w) provider_builder" where
  "builder_recommended b = builder_with_energy b energy_new"

definition builder_new :: "(recommended_fillers, 'w) provider_builder" where
  "builder_new = builder_recommended builder_default"

definition builder_disable_recommended ::
  "(recommended_fillers, 'w) provider_builder \<Rightarrow> (identity, 'w) provider_builder" where
  "builder_disable_recommended b =
     \<lparr> bl_filler = Identity, bl_ops = identity_filler, bl_layer = bl_layer b, bl_api_key = bl_api_key b,
       bl_connect_timeout = bl_connect_timeout b, bl_request_timeout = bl_request_timeout b,
       bl_retry = bl_retry b, bl_endpoints = bl_endpoints b, bl_middleware = bl_middleware b \<rparr>"

definition builder_wallet_filler ::
  "(bytes \<Rightarrow> string) \<Rightarrow> ('f, 'w) provider_builder \<Rightarrow> 'w wallet_filler
     \<Rightarrow> (('f, 'w wallet_filler) join_fill, 'w) provider_builder" where
  "builder_wallet_filler b58_enc b f = builder_filler b f (wallet_filler_ops b58_enc)"

definition builder_wallet ::
  "(bytes \<Rightarrow> string) \<Rightarrow> ('f, 'w) provider_builder \<Rightarrow> 'w wallet
     \<Rightarrow> (('f, 'w wallet_filler) join_fill, 'w) provider_builder" where
  "builder_wallet b58_enc b W = builder_wallet_filler b58_enc b (wallet_filler_new W)"

definition builder_strict_wallet ::
  "(bytes \<Rightarrow> string) \<Rightarrow> ('f, 'w) provider_builder \<Rightarrow> 'w wallet
     \<Rightarrow> (('f, 'w wallet_filler) join_fill, 'w) provider_builder" where
  "builder_strict_wallet b58_enc b W = builder_wallet_filler b58_enc b (wallet_filler_strict (wallet_filler_new W))"

definition builder_maybe_api_key ::
  "('f, 'w) provider_builder \<Rightarrow> string option \<Rightarrow> ('f, 'w) provider_builder" where
  "builder_maybe_api_key b key = b\<lparr> bl_api_key := key \<rparr>"

definition builder_connect_timeout ::
  "('f, 'w) provider_builder \<Rightarrow> duration \<Rightarrow> ('f, 'w) provider_builder" where
  "builder_connect_timeout b t = b\<lparr> bl_connect_timeout := Some t \<rparr>"

definition builder_request_timeout ::
  "('f, 'w) provider_builder \<Rightarrow> duration \<Rightarrow> ('f, 'w) provider_builder" where
  "builder_request_timeout b t = b\<lparr> bl_request_timeout := Some t \<rparr>"

definition builder_retry :: "('f, 'w) provider_builder \<Rightarrow> retry_config \<Rightarrow> ('f, 'w) provider_builder" where
  "builder_retry b r = b\<lparr> bl_retry := Some r \<rparr>"

definition builder_endpoints :: "('f, 'w) provider_builder \<Rightarrow> string list \<Rightarrow> ('f, 'w) provider_builder" where
  "builder_endpoints b es = b\<lparr> bl_endpoints := es \<rparr>"

definition builder_middleware ::
  "('f, 'w) provider_builder \<Rightarrow> 'w middleware \<Rightarrow> ('f, 'w) provider_builder" where
  "builder_middleware b mw = b\<lparr> bl_middleware := bl_middleware b @ [mw] \<rparr>"

section \<open>What it builds\<close>

text \<open>
  The provider over a root: the layers, and outside them the fillers, whose state lives in the
  memory \<open>M\<close>.
\<close>

definition builder_filled ::
  "tx_codec \<Rightarrow> ('w \<Rightarrow> nat) \<Rightarrow> ('f, 'w) memory \<Rightarrow> ('f, 'w) provider_builder \<Rightarrow> 'w root_inner \<Rightarrow> 'w tron_provider" where
  "builder_filled C clock M b r =
     (let inner = bl_layer b (root_of C r)
      in filled_provider C M (filler_at (bl_ops b) (filled_node clock inner))
           (tf_signer_address (bl_ops b) (bl_filler b)) inner)"

definition builder_connect_transport ::
  "tx_codec \<Rightarrow> ('w \<Rightarrow> nat) \<Rightarrow> ('f, 'w) memory \<Rightarrow> ('f, 'w) provider_builder \<Rightarrow> 'w tron_transport
     \<Rightarrow> 'w tron_provider" where
  "builder_connect_transport C clock M b T = builder_filled C clock M b (root_new T)"

definition builder_config :: "('f, 'w) provider_builder \<Rightarrow> 'w grpc_config" where
  "builder_config b =
     (let cfg = grpc_config_default\<lparr> gc_api_key := bl_api_key b, gc_endpoints := bl_endpoints b,
                                    gc_middleware := bl_middleware b \<rparr>;
          cfg = (case bl_connect_timeout b of Some t \<Rightarrow> cfg\<lparr> gc_connect_timeout := t \<rparr> | None \<Rightarrow> cfg);
          cfg = (case bl_request_timeout b of Some t \<Rightarrow> cfg\<lparr> gc_request_timeout := t \<rparr> | None \<Rightarrow> cfg)
      in case bl_retry b of Some r \<Rightarrow> cfg\<lparr> gc_retry := r \<rparr> | None \<Rightarrow> cfg)"

definition builder_connect_grpc ::
  "'w try_join \<Rightarrow> 'w runtime \<Rightarrow> tx_codec \<Rightarrow> prost_contracts \<Rightarrow> ('ch, 'w) stubs \<Rightarrow> ('ep, 'ch, 'w) tonic
     \<Rightarrow> ('w \<Rightarrow> nat) \<Rightarrow> ('f, 'w) memory \<Rightarrow> ('f, 'w) provider_builder \<Rightarrow> string \<Rightarrow> 'w
     \<Rightarrow> (provider_error + 'w tron_provider) \<times> 'w" where
  "builder_connect_grpc join E C P S TN clock M b uri w =
     (case connect_with_config TN uri (builder_config b) w of
        (Inl e, w1) \<Rightarrow> (Err (RpcTransport e), w1)
      | (Inr c, w1) \<Rightarrow>
          (Ok (builder_connect_transport C clock M b (grpc_transport_of join E C P S c)), w1))"

definition builder_connect_grpc_with_key ::
  "'w try_join \<Rightarrow> 'w runtime \<Rightarrow> tx_codec \<Rightarrow> prost_contracts \<Rightarrow> ('ch, 'w) stubs \<Rightarrow> ('ep, 'ch, 'w) tonic
     \<Rightarrow> ('w \<Rightarrow> nat) \<Rightarrow> ('f, 'w) memory \<Rightarrow> ('f, 'w) provider_builder \<Rightarrow> string \<Rightarrow> string \<Rightarrow> 'w
     \<Rightarrow> (provider_error + 'w tron_provider) \<times> 'w" where
  "builder_connect_grpc_with_key join E C P S TN clock M b uri key =
     builder_connect_grpc join E C P S TN clock M (builder_maybe_api_key b (Some key)) uri"

lemma builder_config_fields:
  "gc_api_key (builder_config b) = bl_api_key b" "gc_endpoints (builder_config b) = bl_endpoints b"
  "gc_middleware (builder_config b) = bl_middleware b"
  "gc_connect_timeout (builder_config b) = (case bl_connect_timeout b of Some t \<Rightarrow> t | None \<Rightarrow> 10 * 10 ^ 9)"
  "gc_request_timeout (builder_config b) = (case bl_request_timeout b of Some t \<Rightarrow> t | None \<Rightarrow> 30 * 10 ^ 9)"
  "gc_retry (builder_config b) = (case bl_retry b of Some r \<Rightarrow> r | None \<Rightarrow> retry_config_default)"
  by (simp_all add: builder_config_def grpc_config_default_def Let_def split: option.split)

lemma builder_layers:
  "foldl builder_layer b ls = b\<lparr> bl_layer := (\<lambda>p. bl_layer b (layers ls p)) \<rparr>"
proof (induction ls arbitrary: b)
  case (Cons l ls)
  then show ?case by (simp add: builder_layer_def stack_layer_def)
qed simp

lemma wallet_chain_of_builder:
  "filler_at (bl_ops (builder_wallet b58_enc builder_new W)) N = wallet_chain b58_enc N"
  by (simp add: filler_at_def builder_wallet_def builder_wallet_filler_def builder_filler_def builder_new_def
      builder_recommended_def builder_with_energy_def builder_default_def join_filler_def identity_filler_def
      energy_filler_ops_def wallet_filler_ops_def filler_default_def wallet_chain_def wallet_chain_fill_def
      wallet_chain_fill_sync_def recommended_fill_def recommended_fill_sync_def wallet_chain_sign_with_def)

text \<open>
  C16: the builder gives the provider the other theorems speak about, and its layers nest the way its
  documentation says.  \<open>ProviderBuilder::new().wallet(W)\<close> with layers added one after the other
  connects to the recommended fillers with the wallet, outside the layers, the first of which is
  outermost, over the root provider of the connected transport; it dials with the caller's settings
  and the defaults for the rest; and its signer is the wallet's default.
\<close>

theorem builder_gives_wallet_provider:
  "let b = foldl builder_layer (builder_wallet b58_enc builder_new W) ls in
     bl_filler b = \<lparr> join_left = \<lparr> join_left = Identity, join_right = energy_new \<rparr>,
                     join_right = wallet_filler_new W \<rparr>
   \<and> builder_connect_transport C clock M b T
       = wallet_provider C M b58_enc clock (Some (default_signer_address W)) (layers ls (root_of C (root_new T)))
   \<and> builder_connect_grpc join E C P S TN clock M b uri w
       = (case connect_with_config TN uri grpc_config_default w of
            (Inl e, w1) \<Rightarrow> (Err (RpcTransport e), w1)
          | (Inr c, w1) \<Rightarrow>
              (Ok (wallet_provider C M b58_enc clock (Some (default_signer_address W))
                     (layers ls (root_of C (root_new (grpc_transport_of join E C P S c))))), w1))"
proof -
  let ?b = "builder_wallet b58_enc builder_new W"
  let ?ls = "foldl builder_layer ?b ls"
  have new: "bl_filler ?b = \<lparr> join_left = \<lparr> join_left = Identity, join_right = energy_new \<rparr>,
                           join_right = wallet_filler_new W \<rparr>"
    "bl_layer ?b = identity_layer" "builder_config ?b = grpc_config_default"
    "tf_signer_address (bl_ops ?b) (bl_filler ?b) = Some (default_signer_address W)"
    by (simp_all add: builder_wallet_def builder_wallet_filler_def builder_filler_def builder_new_def
        builder_recommended_def builder_with_energy_def builder_default_def builder_config_def grpc_config_default_def
        join_filler_def wallet_filler_ops_def filler_default_def join_signer_address_def wallet_signer_address_def
        wallet_filler_new_def)
  have filler: "bl_filler ?ls = bl_filler ?b" and ops: "bl_ops ?ls = bl_ops ?b"
    and layer: "bl_layer ?ls p = layers ls p" and config: "builder_config ?ls = grpc_config_default" for p
    using new(2,3) by (simp_all add: builder_layers identity_layer_def builder_config_def)
  have transport: "builder_connect_transport C clock M ?ls T
      = wallet_provider C M b58_enc clock (Some (default_signer_address W)) (layers ls (root_of C (root_new T)))" for T
    by (simp only: builder_connect_transport_def builder_filled_def Let_def filler ops layer new(4)
        wallet_chain_of_builder wallet_provider_def)
  show ?thesis
    unfolding Let_def builder_connect_grpc_def config transport using filler new(1) by simp
qed

end
