(* ===== verification/Sample_Node.thy ===== *)
theory Sample_Node
  imports Grpc_Provider
begin

text \<open>
  A small node and wallet over the gRPC transport, on which the theorems about contract calls and
  deployments are evaluated: it answers every request to build with a transaction that holds one
  contract, whose parameter is the byte 1, and it accepts every broadcast.
\<close>

section \<open>The transaction it builds\<close>

definition one_byte_message :: "pb_contract_type \<Rightarrow> pb_contract" where
  "one_byte_message k =
     sample_contract\<lparr> pbc_type := pb_contract_type_number k,
                      pbc_parameter := Some \<lparr> any_type_url = ''t'', any_value = [1] \<rparr> \<rparr>"

definition one_byte_raw :: "pb_contract_type \<Rightarrow> pb_raw" where
  "one_byte_raw k = sample_raw\<lparr> raw_contract := [one_byte_message k] \<rparr>"

definition one_byte_tx :: "pb_contract_type \<Rightarrow> pb_transaction" where
  "one_byte_tx k = sample_tx\<lparr> tx_raw_data := Some (one_byte_raw k) \<rparr>"

definition one_byte_raw_tx :: "pb_contract_type \<Rightarrow> raw_transaction" where
  "one_byte_raw_tx k =
     \<lparr> raw_tx_expiration = 7, raw_tx_timestamp = 5,
       raw_tx_id = sha256 sample_codec (encode_raw sample_codec (one_byte_raw k)),
       raw_tx_proto = encode_tx sample_codec (one_byte_tx k) \<rparr>"

text \<open>The same with the fee limit of the request.\<close>

definition paid_raw :: "pb_contract_type \<Rightarrow> pb_raw" where
  "paid_raw k = (one_byte_raw k)\<lparr> raw_fee_limit := 100 \<rparr>"

definition paid_tx :: "pb_contract_type \<Rightarrow> pb_transaction" where
  "paid_tx k = sample_tx\<lparr> tx_raw_data := Some (paid_raw k) \<rparr>"

definition paid_raw_tx :: "pb_contract_type \<Rightarrow> raw_transaction" where
  "paid_raw_tx k =
     (one_byte_raw_tx k)\<lparr> raw_tx_id := sha256 sample_codec (encode_raw sample_codec (paid_raw k)),
                          raw_tx_proto := encode_tx sample_codec (paid_tx k) \<rparr>"

lemma one_byte_tx_ok:
  assumes "k = PbTriggerSmartContract \<or> k = PbCreateSmartContract"
  shows "answer_ok sample_codec (one_byte_tx k)" and "answer_ok sample_codec (paid_tx k)"
proof -
  have enc: "encode_tx sample_codec t = enc_transaction t" for t
    by (simp add: sample_codec_def reference_codec_def enc_transaction_def)
  have "pb_transaction_ok (one_byte_tx k)" "pb_transaction_ok (paid_tx k)"
    by (simp_all add: pb_transaction_ok_def one_byte_tx_def paid_tx_def paid_raw_def one_byte_raw_def
        one_byte_message_def pb_raw_ok_def any_ok_def string_ok_def sample_raw_def sample_contract_def
        sample_tx_def str_bytes_def valid_utf8.simps utf8_step_def utf8_width_def nth_or_zero_def)
  moreover have "length (enc_transaction (one_byte_tx k)) < 100" "length (enc_transaction (paid_tx k)) < 100"
    using assms
    by (auto simp: enc_transaction_def one_byte_tx_def paid_tx_def paid_raw_def one_byte_raw_def
        one_byte_message_def sample_tx_def sample_eval varint_unroll [of 144])
  ultimately show "answer_ok sample_codec (one_byte_tx k)" "answer_ok sample_codec (paid_tx k)"
    by (simp_all add: answer_ok_def enc)
qed

lemma one_byte_from_node:
  assumes "answer_ok sample_codec (one_byte_tx k)"
  shows "from_node_encoded sample_codec (encode_tx sample_codec (one_byte_tx k)) [] = Ok (one_byte_raw_tx k)"
proof -
  have "from_encoded sample_codec (encode_tx sample_codec (one_byte_tx k)) []
      = Ok \<lparr> dec_raw = \<lparr> raw_tx_expiration = raw_expiration (one_byte_raw k),
                        raw_tx_timestamp = raw_timestamp (one_byte_raw k),
                        raw_tx_id = sha256 sample_codec (encode_raw sample_codec (one_byte_raw k)),
                        raw_tx_proto = encode_tx sample_codec ((one_byte_tx k)\<lparr> tx_signature := [] \<rparr>) \<rparr>,
            dec_signatures = [], dec_has_results = (tx_ret (one_byte_tx k) \<noteq> []),
            dec_has_contract = (raw_contract (one_byte_raw k) \<noteq> []) \<rparr>"
    using assms
    by (intro prost_tx.from_encoded_encode_tx [OF sample_prost])
      (simp_all add: answer_ok_def one_byte_tx_def sample_tx_def)
  then show ?thesis
    by (simp add: from_node_encoded_def one_byte_raw_tx_def one_byte_raw_def one_byte_tx_def sample_tx_def
        sample_raw_def)
qed

section \<open>The node\<close>

definition one_byte_answer :: "pb_contract_type \<Rightarrow> pb_transaction_extention" where
  "one_byte_answer k = transfer_answer\<lparr> pb_transaction_extention_transaction := Some (one_byte_tx k) \<rparr>"

definition one_byte_node :: "pb_contract_type \<Rightarrow> nat wallet_client" where
  "one_byte_node k = constant_client (one_byte_answer k) (one_byte_tx k)"

text \<open>The byte 1 read as the message \<open>m\<close>.\<close>

definition one_is :: "'m \<Rightarrow> bytes \<Rightarrow> 'm option" where
  "one_is m v = (if v = [1] then Some m else None)"

lemma one_byte_node_typed:
  "answer_ok sample_codec (one_byte_tx k) \<Longrightarrow> typed_client sample_codec (one_byte_node k)"
  unfolding one_byte_node_def by (rule constant_client_typed) (auto simp: one_byte_answer_def)

lemma one_byte_accepted:
  assumes "answer_ok sample_codec (one_byte_tx k)" and "project m = m"
  shows "raw_from_extention_with sample_codec (one_is m) (one_byte_answer k) m k project = Ok (one_byte_raw_tx k)"
proof -
  have "check_built (one_is m) m k project (one_byte_message k) = Ok ()"
    by (simp add: check_built_Ok one_byte_message_def sample_contract_def one_is_def assms(2))
  moreover have "pb_transaction_extention_transaction (one_byte_answer k) = Some (one_byte_tx k)"
    "pb_transaction_extention_result (one_byte_answer k) = None" "pb_transaction_extention_txid (one_byte_answer k) = []"
    "tx_raw_data (one_byte_tx k) = Some (one_byte_raw k)" "raw_contract (one_byte_raw k) = [one_byte_message k]"
    by (simp_all add: one_byte_answer_def transfer_answer_def one_byte_tx_def one_byte_raw_def)
  ultimately show ?thesis
    using one_byte_from_node [OF assms(1)]
    by (simp add: raw_from_extention_with_def check_return_def)
qed

definition one_byte_decoders :: "pb_trigger_smart_contract \<Rightarrow> pb_create_smart_contract \<Rightarrow> prost_contracts" where
  "one_byte_decoders called created =
     transfer_decoders\<lparr> prost_trigger_smart := one_is called, prost_create_smart := one_is created \<rparr>"

lemma one_byte_call_built:
  assumes "trigger_smart_contract_to_proto c = called"
  shows "build_contract (grpc_build_rpcs quiet_core sample_codec (one_byte_decoders called created)
      (one_byte_node PbTriggerSmartContract)) (CtTriggerSmartContract c) w
    = (Ok (one_byte_raw_tx PbTriggerSmartContract), w)"
proof -
  have "retry_unary quiet_core (wk_trigger_contract (one_byte_node PbTriggerSmartContract)) ''trigger_contract''
      called w = (Ok (one_byte_answer PbTriggerSmartContract), w)"
    by (rule quiet_call) (simp add: one_byte_node_def constant_client_def)
  moreover have "raw_from_extention_with sample_codec (one_is called) (one_byte_answer PbTriggerSmartContract) called
      PbTriggerSmartContract (\<lambda>built. built) = Ok (one_byte_raw_tx PbTriggerSmartContract)"
    by (rule one_byte_accepted [OF one_byte_tx_ok(1)]) simp_all
  ultimately show ?thesis
    by (simp add: grpc_build_rpcs_def grpc_trigger_smart_contract_def awaited_def Let_def assms
        one_byte_decoders_def raw_from_extention_def)
qed

lemma one_byte_deployment_built:
  assumes "create_smart_contract_to_proto c = created"
  shows "build_contract (grpc_build_rpcs quiet_core sample_codec (one_byte_decoders called created)
      (one_byte_node PbCreateSmartContract)) (CtCreateSmartContract c) w
    = (Ok (one_byte_raw_tx PbCreateSmartContract), w)"
proof -
  have "retry_unary quiet_core (wk_deploy_contract (one_byte_node PbCreateSmartContract)) ''deploy_contract''
      created w = (Ok (one_byte_answer PbCreateSmartContract), w)"
    by (rule quiet_call) (simp add: one_byte_node_def constant_client_def)
  moreover have "clear_derived created = created"
    using assms by (auto simp: clear_derived_def create_smart_contract_to_proto_def split: option.split)
  then have "raw_from_extention_with sample_codec (one_is created) (one_byte_answer PbCreateSmartContract) created
      PbCreateSmartContract clear_derived = Ok (one_byte_raw_tx PbCreateSmartContract)"
    by (intro one_byte_accepted [OF one_byte_tx_ok(1)]) simp_all
  ultimately show ?thesis
    by (simp add: grpc_build_rpcs_def grpc_create_smart_contract_def awaited_def Let_def assms
        one_byte_decoders_def)
qed

section \<open>The provider\<close>

definition sample_memory :: "(nat wallet_fillers, nat) memory" where
  "sample_memory = \<lparr> mem_get = (\<lambda>_. sample_chain), mem_put = (\<lambda>_ w. w) \<rparr>"

definition one_byte_root ::
  "prost_contracts \<Rightarrow> pb_contract_type \<Rightarrow> nat read_client \<Rightarrow> nat tron_provider" where
  "one_byte_root P k R = grpc_root (\<lambda>_ w. (Ok [], w)) quiet_core sample_codec P (one_byte_node k) R"

definition one_byte_provider ::
  "prost_contracts \<Rightarrow> pb_contract_type \<Rightarrow> nat read_client \<Rightarrow> nat tron_provider" where
  "one_byte_provider P k R =
     wallet_provider sample_codec sample_memory (\<lambda>_. []) (\<lambda>w. w) (Some (Address [2])) (one_byte_root P k R)"

definition paid_request :: "contract_type \<Rightarrow> tx_request" where
  "paid_request c = tx_request_default\<lparr> req_contract := Some c, req_fee_limit := Some (Trx 100) \<rparr>"

lemma one_byte_decode:
  "k = PbTriggerSmartContract \<or> k = PbCreateSmartContract \<Longrightarrow>
   decode_tx sample_codec (raw_tx_proto (one_byte_raw_tx k)) = Some (one_byte_tx k)"
  "k = PbTriggerSmartContract \<or> k = PbCreateSmartContract \<Longrightarrow>
   decode_tx sample_codec (raw_tx_proto (paid_raw_tx k)) = Some (paid_tx k)"
  using prost_tx.decode_encode_tx [OF sample_prost, of "one_byte_tx k"]
    prost_tx.decode_encode_tx [OF sample_prost, of "paid_tx k"] one_byte_tx_ok [of k]
  by (simp_all add: answer_ok_def one_byte_raw_tx_def paid_raw_tx_def)

lemma one_byte_paid:
  assumes "k = PbTriggerSmartContract \<or> k = PbCreateSmartContract"
  shows "apply_request_fields sample_codec (one_byte_raw_tx k) ((paid_request c)\<lparr> req_contract := None \<rparr>)
    = Ok (paid_raw_tx k)"
proof -
  let ?req = "(paid_request c)\<lparr> req_contract := None \<rparr>"
  have "\<not> request_sets_nothing ?req"
    by (simp add: request_sets_nothing_def paid_request_def tx_request_default_def)
  moreover have "apply_fields ?req (one_byte_raw k) = Ok (paid_raw k)"
    by (simp add: apply_fields_eq overridden_def override_def paid_request_def tx_request_default_def
        one_byte_raw_def paid_raw_def sample_raw_def as_sun_def)
  moreover have "tx_raw_data (one_byte_tx k) = Some (one_byte_raw k)"
    "(one_byte_tx k)\<lparr> tx_raw_data := Some (paid_raw k) \<rparr> = paid_tx k"
    by (simp_all add: one_byte_tx_def paid_tx_def)
  ultimately show ?thesis
    using one_byte_decode(1) [OF assms]
    by (simp add: apply_request_fields_def result_simps)
      (simp add: one_byte_raw_tx_def paid_raw_tx_def paid_raw_def one_byte_raw_def sample_raw_def)
qed

lemma paid_prepare:
  "prepare_request wallet_chain_fill_sync (wallet_chain_fill N) sample_chain (paid_request c) w
   = (Ok (paid_request c), sample_chain, w)"
  by (simp add: prepare_request_def wallet_chain_fill_def wallet_chain_fill_sync_def join_fill_sync_def
      recommended_fill_sync_def recommended_fill_def join_fill_async_def default_fill_def default_fill_sync_def
      energy_fill_skip paid_request_def tx_request_default_def sample_chain_def)

lemma one_byte_built_from:
  assumes "k = PbTriggerSmartContract \<or> k = PbCreateSmartContract"
    and "\<And>w. build_contract (grpc_build_rpcs quiet_core sample_codec P (one_byte_node k)) c w
           = (Ok (one_byte_raw_tx k), w)"
    and "prepare_request wallet_chain_fill_sync (wallet_chain_fill N) f req w = (Ok (paid_request c), f, w)"
  shows "filled_build_transaction
      (root_provider sample_codec (grpc_transport quiet_core sample_codec P (one_byte_node k) R))
      (wallet_chain b58_enc N) f req w = (Ok (paid_raw_tx k), f, w)"
proof -
  have "req_contract (paid_request c) = Some c" by (simp add: paid_request_def)
  then have "build_via_transport sample_codec (grpc_transport quiet_core sample_codec P (one_byte_node k) R)
      (paid_request c) w = (Ok (paid_raw_tx k), w)"
    by (simp add: build_via_transport_def grpc_transport_def assms(2) one_byte_paid [OF assms(1)]
        del: build_contract.simps)
  then show ?thesis
    by (simp add: filled_build_transaction_def wallet_chain_def root_provider_def assms(3))
qed

lemma one_byte_vec_built_from:
  assumes "k = PbTriggerSmartContract \<or> k = PbCreateSmartContract"
    and "\<And>w. build_contract (grpc_build_rpcs quiet_core sample_codec P (one_byte_node k)) c w
           = (Ok (one_byte_raw_tx k), w)"
    and "prepare_request wallet_chain_fill_sync (wallet_chain_fill N) f req w = (Ok (paid_request c), f, w)"
  shows "vec_built (root_provider sample_codec (grpc_transport quiet_core sample_codec P (one_byte_node k) R))
      (wallet_chain b58_enc N) f req w"
  using one_byte_tx_ok(2) [OF assms(1)]
  by (simp add: vec_built_def one_byte_built_from [OF assms] answer_ok_def paid_raw_tx_def)

lemmas one_byte_vec_built = one_byte_vec_built_from [OF _ _ paid_prepare]

lemma one_byte_sent_from:
  assumes "k = PbTriggerSmartContract \<or> k = PbCreateSmartContract"
    and "\<And>w. build_contract (grpc_build_rpcs quiet_core sample_codec P (one_byte_node k)) c w
           = (Ok (one_byte_raw_tx k), w)"
    and "prepare_request wallet_chain_fill_sync (wallet_chain_fill N) f req 0 = (Ok (paid_request c), f, 0)"
    and "contract_owner_address c = Address [2]"
    and "rd_broadcast_transaction R = rd_broadcast_transaction accepting_node"
    and "req_contract req = Some c" and "join_right f = wallet_filler_new sample_wallet"
  shows "filled_send_transaction
      (root_provider sample_codec (grpc_transport quiet_core sample_codec P (one_byte_node k) R))
      (wallet_chain (\<lambda>_. []) N) f req 0 = (Ok (pending_new (raw_tx_id (paid_raw_tx k))), f, 1)"
proof -
  let ?T = "grpc_transport quiet_core sample_codec P (one_byte_node k) R"
  have sign: "wallet_sign_with (\<lambda>_. []) (wallet_filler_new sample_wallet) (Some (Address [2])) h 0
      = (Some (Ok \<lparr> sig_r = [2], sig_s = h, sig_v = 0 \<rparr>), 0)" for h
    by (simp add: wallet_sign_with_def wallet_signing_key_def wallet_filler_new_def sample_wallet_def
        has_signer_for_def sign_hash_with_def require_signer_def signer_by_address_def wallet_ops
        sample_signer_def)
  have sent: "broadcast ?T \<lparr> signed_raw = paid_raw_tx k, signed_signatures = gs \<rparr> 0
      = (Ok (pending_new (raw_tx_id (paid_raw_tx k))), 1)" for gs
    using one_byte_decode(2) [OF assms(1)]
    by (simp add: broadcast_def grpc_transport_def grpc_broadcast_transaction_def assms(5)
        signed_to_proto_def accepting_node_def awaited_def unary_def check_return_def)
  have "sign_built (wallet_chain (\<lambda>_. []) N) f (Some (Address [2])) h 0
      = (Ok \<lparr> sig_r = [2], sig_s = h, sig_v = 0 \<rparr>, 0)" for h
    by (simp add: sign_built_def wallet_chain_def wallet_chain_sign assms(7) sign)
  moreover have "ip_broadcast (root_provider sample_codec ?T) = broadcast ?T" by (simp add: root_provider_def)
  ultimately show ?thesis
    by (simp add: filled_send_transaction_def one_byte_built_from [OF assms(1-3)] assms(4,6) sent
        address_zero_def address_prefix_def)
qed

lemma one_byte_sent:
  assumes "k = PbTriggerSmartContract \<or> k = PbCreateSmartContract"
    and "\<And>w. build_contract (grpc_build_rpcs quiet_core sample_codec P (one_byte_node k)) c w
           = (Ok (one_byte_raw_tx k), w)"
    and "contract_owner_address c = Address [2]"
    and "rd_broadcast_transaction R = rd_broadcast_transaction accepting_node"
  shows "tp_send_transaction (one_byte_provider P k R) (paid_request c) 0
    = (Ok (pending_new (raw_tx_id (paid_raw_tx k))), 1)"
  using one_byte_sent_from [OF assms(1,2) paid_prepare assms(3,4)]
  by (simp add: one_byte_provider_def one_byte_root_def wallet_provider_def filled_methods with_memory_def
      as_inner_grpc sample_memory_def)
    (simp add: paid_request_def sample_chain_def)

end
