(* ===== verification/Solidity.thy ===== *)
theory Solidity
  imports Grpc_Transport
begin

text \<open>
  The transport over a solidity node's \<open>protocol.WalletSolidity\<close> service
  (\<open>impl SolidityTransport for SolidityGrpcTransport\<close> in
  \<open>crates/provider/src/transport/grpc/solidity.rs\<close>): the reads of confirmed state, with the
  decoders of the full node's transport over another client.
\<close>

section \<open>The client\<close>

record 'w solidity_client =
  sd_get_account :: "(pb_account, pb_account, 'w) tonic_method"
  sd_get_transaction_by_id :: "(pb_bytes_message, pb_transaction, 'w) tonic_method"
  sd_get_transaction_info_by_id :: "(pb_bytes_message, pb_transaction_info, 'w) tonic_method"
  sd_get_transaction_info_by_block_num :: "(pb_number_message, pb_transaction_info_list, 'w) tonic_method"
  sd_get_transaction_count_by_block_num :: "(pb_number_message, pb_number_message, 'w) tonic_method"
  sd_trigger_constant_contract :: "(pb_trigger_smart_contract, pb_transaction_extention, 'w) tonic_method"
  sd_estimate_energy :: "(pb_trigger_smart_contract, pb_estimate_energy_message, 'w) tonic_method"
  sd_list_witnesses :: "(unit, pb_witness_list, 'w) tonic_method"
  sd_get_paginated_now_witness_list :: "(pb_paginated_message, pb_witness_list, 'w) tonic_method"
  sd_get_delegated_resource :: "(pb_delegated_resource_message, pb_delegated_resource_list, 'w) tonic_method"
  sd_get_delegated_resource_account_index :: "(pb_bytes_message, pb_delegated_resource_account_index, 'w) tonic_method"
  sd_get_delegated_resource_v2 :: "(pb_delegated_resource_message, pb_delegated_resource_list, 'w) tonic_method"
  sd_get_delegated_resource_account_index_v2 :: "(pb_bytes_message, pb_delegated_resource_account_index, 'w) tonic_method"
  sd_get_can_delegated_max_size :: "(pb_can_delegated_max_size_request_message, pb_can_delegated_max_size_response_message, 'w) tonic_method"
  sd_get_available_unfreeze_count :: "(pb_get_available_unfreeze_count_request_message, pb_get_available_unfreeze_count_response_message, 'w) tonic_method"
  sd_get_can_withdraw_unfreeze_amount :: "(pb_can_withdraw_unfreeze_amount_request_message, pb_can_withdraw_unfreeze_amount_response_message, 'w) tonic_method"
  sd_ready :: "'w \<Rightarrow> (string + unit) \<times> 'w"
  sd_get_now_block :: "(unit, block_summary, 'w) tonic_method"
  sd_get_block_by_number :: "(pb_number_message, block_summary, 'w) tonic_method"

text \<open>A node that cannot be reached.\<close>

definition silent_solidity_node :: "'w solidity_client" where
  "silent_solidity_node =
     \<lparr> sd_get_account = (\<lambda>_ w. (Err (TonicUnavailable, []), w)),
       sd_get_transaction_by_id = (\<lambda>_ w. (Err (TonicUnavailable, []), w)),
       sd_get_transaction_info_by_id = (\<lambda>_ w. (Err (TonicUnavailable, []), w)),
       sd_get_transaction_info_by_block_num = (\<lambda>_ w. (Err (TonicUnavailable, []), w)),
       sd_get_transaction_count_by_block_num = (\<lambda>_ w. (Err (TonicUnavailable, []), w)),
       sd_trigger_constant_contract = (\<lambda>_ w. (Err (TonicUnavailable, []), w)),
       sd_estimate_energy = (\<lambda>_ w. (Err (TonicUnavailable, []), w)),
       sd_list_witnesses = (\<lambda>_ w. (Err (TonicUnavailable, []), w)),
       sd_get_paginated_now_witness_list = (\<lambda>_ w. (Err (TonicUnavailable, []), w)),
       sd_get_delegated_resource = (\<lambda>_ w. (Err (TonicUnavailable, []), w)),
       sd_get_delegated_resource_account_index = (\<lambda>_ w. (Err (TonicUnavailable, []), w)),
       sd_get_delegated_resource_v2 = (\<lambda>_ w. (Err (TonicUnavailable, []), w)),
       sd_get_delegated_resource_account_index_v2 = (\<lambda>_ w. (Err (TonicUnavailable, []), w)),
       sd_get_can_delegated_max_size = (\<lambda>_ w. (Err (TonicUnavailable, []), w)),
       sd_get_available_unfreeze_count = (\<lambda>_ w. (Err (TonicUnavailable, []), w)),
       sd_get_can_withdraw_unfreeze_amount = (\<lambda>_ w. (Err (TonicUnavailable, []), w)),
       sd_ready = (\<lambda>w. (Err [], w)),
       sd_get_now_block = (\<lambda>_ w. (Err (TonicUnavailable, []), w)),
       sd_get_block_by_number = (\<lambda>_ w. (Err (TonicUnavailable, []), w)) \<rparr>"

section \<open>Reads\<close>

definition solid_get_now_block :: "'w grpc_core \<Rightarrow> 'w solidity_client \<Rightarrow> (block_info, 'w) call" where
  "solid_get_now_block G S =
     (let req = ()
      in awaited (path_unary G (sd_ready S) (sd_get_now_block S) ''get_now_block'' req) (\<lambda>res.
           map_err transport_of_response (into_block_info res None)))"

definition solid_get_block_by_number :: "'w grpc_core \<Rightarrow> 'w solidity_client \<Rightarrow> i64 \<Rightarrow> (block_info option, 'w) call" where
  "solid_get_block_by_number G S num =
     (let req = \<lparr> pb_number_message_num = num \<rparr>
      in awaited (path_unary G (sd_ready S) (sd_get_block_by_number S) ''get_block_by_number'' req) (\<lambda>res.
           map_err transport_of_response (into_block_lookup res None)))"

definition solid_get_account :: "'w grpc_core \<Rightarrow> 'w solidity_client \<Rightarrow> address \<Rightarrow> (account_info, 'w) call" where
  "solid_get_account G S a =
     (let req = pb_account_default\<lparr> pb_account_address := address_bytes a \<rparr>
      in awaited (retry_unary G (sd_get_account S) ''get_account'' req) (\<lambda>res.
           map_err transport_of_response (account_from_proto res a)))"

definition solid_get_transaction_by_id :: "'w grpc_core \<Rightarrow> tx_codec \<Rightarrow> 'w solidity_client \<Rightarrow> bytes \<Rightarrow> (signed_transaction option, 'w) call" where
  "solid_get_transaction_by_id G C S tx_id =
     (let req = \<lparr> pb_bytes_message_value = tx_id \<rparr>
      in awaited (retry_unary G (sd_get_transaction_by_id S) ''get_transaction_by_id'' req) (\<lambda>res.
           map_err transport_of_response (signed_tx_lookup C res tx_id)))"

definition solid_get_transaction_info :: "'w grpc_core \<Rightarrow> 'w solidity_client \<Rightarrow> bytes \<Rightarrow> (transaction_info option, 'w) call" where
  "solid_get_transaction_info G S tx_id =
     (let req = \<lparr> pb_bytes_message_value = tx_id \<rparr>
      in awaited (retry_unary G (sd_get_transaction_info_by_id S) ''get_transaction_info_by_id'' req) (\<lambda>res.
           map_err transport_of_response (transaction_info_from_proto res)))"

definition solid_get_transaction_info_by_block_num :: "'w grpc_core \<Rightarrow> 'w solidity_client \<Rightarrow> i64 \<Rightarrow> (transaction_info list, 'w) call" where
  "solid_get_transaction_info_by_block_num G S block_num =
     (let req = \<lparr> pb_number_message_num = block_num \<rparr>
      in awaited (retry_unary G (sd_get_transaction_info_by_block_num S) ''get_transaction_info_by_block_num'' req) (\<lambda>res.
           map_err transport_of_response (collect_present transaction_info_from_proto (pb_transaction_info_list_transaction_info res))))"

definition solid_get_transaction_count_by_block_num :: "'w grpc_core \<Rightarrow> 'w solidity_client \<Rightarrow> i64 \<Rightarrow> (u64, 'w) call" where
  "solid_get_transaction_count_by_block_num G S block_num =
     (let req = \<lparr> pb_number_message_num = block_num \<rparr>
      in awaited (retry_unary G (sd_get_transaction_count_by_block_num S) ''get_transaction_count_by_block_num'' req) (\<lambda>res.
           Ok (pb_number_message_num res)))"

definition solid_trigger_constant_contract :: "'w grpc_core \<Rightarrow> 'w solidity_client \<Rightarrow> trigger_smart_contract \<Rightarrow> (constant_call_result, 'w) call" where
  "solid_trigger_constant_contract G S params =
     (let req = trigger_smart_contract_to_proto params
      in awaited (retry_unary G (sd_trigger_constant_contract S) ''trigger_constant_contract'' req) (\<lambda>res.
           map_err transport_of_response (constant_result_from_extention res)))"

definition solid_estimate_energy :: "'w grpc_core \<Rightarrow> 'w solidity_client \<Rightarrow> trigger_smart_contract \<Rightarrow> (i64, 'w) call" where
  "solid_estimate_energy G S params =
     (let req = trigger_smart_contract_to_proto params
      in awaited (retry_unary G (sd_estimate_energy S) ''estimate_energy'' req) (\<lambda>res.
           and_then (map_err transport_of_response (check_return (pb_estimate_energy_message_result res))) (\<lambda>_.
           Ok (pb_estimate_energy_message_energy_required res))))"

definition solid_list_witnesses :: "'w grpc_core \<Rightarrow> 'w solidity_client \<Rightarrow> (witness_info list, 'w) call" where
  "solid_list_witnesses G S =
     (let req = ()
      in awaited (retry_unary G (sd_list_witnesses S) ''list_witnesses'' req) (\<lambda>res.
           Ok (List.map_filter witness_from_proto (pb_witness_list_witnesses res))))"

definition solid_get_paginated_now_witness_list :: "'w grpc_core \<Rightarrow> 'w solidity_client \<Rightarrow> i64 \<Rightarrow> i64 \<Rightarrow> (witness_info list, 'w) call" where
  "solid_get_paginated_now_witness_list G S offset limit =
     (let req = \<lparr> pb_paginated_message_offset = offset, pb_paginated_message_limit = limit \<rparr>
      in awaited (retry_unary G (sd_get_paginated_now_witness_list S) ''get_paginated_now_witness_list'' req) (\<lambda>res.
           Ok (List.map_filter witness_from_proto (pb_witness_list_witnesses res))))"

definition solid_get_delegated_resource_v1 :: "'w grpc_core \<Rightarrow> 'w solidity_client \<Rightarrow> address \<Rightarrow> address \<Rightarrow> (delegated_resource list, 'w) call" where
  "solid_get_delegated_resource_v1 G S src dst =
     (let req = \<lparr> pb_delegated_resource_message_from_address = address_bytes src,
                   pb_delegated_resource_message_to_address = address_bytes dst \<rparr>
      in awaited (retry_unary G (sd_get_delegated_resource S) ''get_delegated_resource'' req) (\<lambda>res.
           map_err transport_of_response (collect_results delegated_resource_from_proto (pb_delegated_resource_list_delegated_resource res))))"

definition solid_get_delegated_resource_index_v1 :: "'w grpc_core \<Rightarrow> 'w solidity_client \<Rightarrow> address \<Rightarrow> (delegated_resource_index, 'w) call" where
  "solid_get_delegated_resource_index_v1 G S a =
     (let req = \<lparr> pb_bytes_message_value = address_bytes a \<rparr>
      in awaited (retry_unary G (sd_get_delegated_resource_account_index S) ''get_delegated_resource_account_index'' req) (\<lambda>res.
           map_err transport_of_response (delegated_resource_index_from_proto res)))"

definition solid_get_delegated_resource :: "'w grpc_core \<Rightarrow> 'w solidity_client \<Rightarrow> address \<Rightarrow> address \<Rightarrow> (delegated_resource list, 'w) call" where
  "solid_get_delegated_resource G S src dst =
     (let req = \<lparr> pb_delegated_resource_message_from_address = address_bytes src,
                   pb_delegated_resource_message_to_address = address_bytes dst \<rparr>
      in awaited (retry_unary G (sd_get_delegated_resource_v2 S) ''get_delegated_resource_v2'' req) (\<lambda>res.
           map_err transport_of_response (collect_results delegated_resource_from_proto (pb_delegated_resource_list_delegated_resource res))))"

definition solid_get_delegated_resource_index :: "'w grpc_core \<Rightarrow> 'w solidity_client \<Rightarrow> address \<Rightarrow> (delegated_resource_index, 'w) call" where
  "solid_get_delegated_resource_index G S a =
     (let req = \<lparr> pb_bytes_message_value = address_bytes a \<rparr>
      in awaited (retry_unary G (sd_get_delegated_resource_account_index_v2 S) ''get_delegated_resource_account_index_v2'' req) (\<lambda>res.
           map_err transport_of_response (delegated_resource_index_from_proto res)))"

definition solid_get_can_delegate_max :: "'w grpc_core \<Rightarrow> 'w solidity_client \<Rightarrow> address \<Rightarrow> resource_code \<Rightarrow> (trx, 'w) call" where
  "solid_get_can_delegate_max G S a resource =
     (let req = \<lparr> pb_can_delegated_max_size_request_message_type = resource_as_i32 resource,
                   pb_can_delegated_max_size_request_message_owner_address = address_bytes a \<rparr>
      in awaited (retry_unary G (sd_get_can_delegated_max_size S) ''get_can_delegated_max_size'' req) (\<lambda>res.
           Ok (from_sun_unchecked (pb_can_delegated_max_size_response_message_max_size res))))"

definition solid_get_available_unfreeze_count :: "'w grpc_core \<Rightarrow> 'w solidity_client \<Rightarrow> address \<Rightarrow> (i64, 'w) call" where
  "solid_get_available_unfreeze_count G S a =
     (let req = \<lparr> pb_get_available_unfreeze_count_request_message_owner_address = address_bytes a \<rparr>
      in awaited (retry_unary G (sd_get_available_unfreeze_count S) ''get_available_unfreeze_count'' req) (\<lambda>res.
           Ok (pb_get_available_unfreeze_count_response_message_count res)))"

definition solid_get_can_withdraw_unfreeze_amount :: "'w grpc_core \<Rightarrow> 'w solidity_client \<Rightarrow> address \<Rightarrow> i64 \<Rightarrow> (trx, 'w) call" where
  "solid_get_can_withdraw_unfreeze_amount G S a timestamp_ms =
     (let req = \<lparr> pb_can_withdraw_unfreeze_amount_request_message_owner_address = address_bytes a,
                   pb_can_withdraw_unfreeze_amount_request_message_timestamp = timestamp_ms \<rparr>
      in awaited (retry_unary G (sd_get_can_withdraw_unfreeze_amount S) ''get_can_withdraw_unfreeze_amount'' req) (\<lambda>res.
           Ok (from_sun_unchecked (pb_can_withdraw_unfreeze_amount_response_message_amount res))))"

section \<open>A queried transaction\<close>

text \<open>What the types of a client say of a transaction it returns.\<close>

definition typed_lookup :: "tx_codec \<Rightarrow> (pb_bytes_message, pb_transaction, 'w) tonic_method \<Rightarrow> bool" where
  "typed_lookup C client \<longleftrightarrow> (\<forall>q w tx w'. client q w = (Inr tx, w') \<longrightarrow> answer_ok C tx)"

lemma signed_tx_lookup_own:
  assumes "prost_tx C" and "signed_tx_lookup C tx claimed = Ok (Some s)" and "answer_ok C tx"
  shows "raw_tx_consistent C (signed_raw s) \<and> (claimed = [] \<or> raw_tx_id (signed_raw s) = claimed)"
proof -
  from assms(2) obtain d where d: "from_encoded C (encode_tx C tx) claimed = Ok d" "signed_raw s = dec_raw d"
    by (auto simp: signed_tx_lookup_def signed_from_node_encoded_def result_simps split: if_splits)
  then have "from_node_encoded C (encode_tx C tx) claimed = Ok (signed_raw s)"
    by (simp add: from_node_encoded_def)
  with prost_tx.from_node_encoded_own [OF assms(1)] assms(3)
  have "raw_tx_consistent C (signed_raw s)" by blast
  moreover from d have "claimed = [] \<or> raw_tx_id (signed_raw s) = claimed"
    by (auto simp: from_encoded_Ok_iff)
  ultimately show ?thesis by blast
qed

lemma lookup_own:
  assumes "prost_tx C" and "typed_lookup C client" and "tx_id \<noteq> []"
    and "awaited (retry_unary G client label q) (\<lambda>res.
           map_err transport_of_response (signed_tx_lookup C res tx_id)) w = (Ok (Some s), w')"
  shows "raw_tx_consistent C (signed_raw s) \<and> raw_tx_id (signed_raw s) = tx_id"
proof -
  from awaited_Ok [OF assms(4)] obtain tx where
    answer: "retry_unary G client label q w = (Inr tx, w')" and s: "signed_tx_lookup C tx tx_id = Ok (Some s)"
    by (auto simp: result_simps)
  from retry_unary_Ok [OF answer] assms(2) have "answer_ok C tx" by (auto simp: typed_lookup_def)
  with signed_tx_lookup_own [OF assms(1) s] assms(3) show ?thesis by blast
qed

text \<open>
  C40: a transaction asked for by its id is that transaction.  Whatever a full node or a solidity
  node answers, and however often it was asked, what the client is given under an id hashes to
  that id, and its bytes are the hashed ones.
\<close>

theorem queried_transaction_is_own:
  assumes "prost_tx C" and "typed_lookup C (rd_get_transaction_by_id R)"
    and "typed_lookup C (sd_get_transaction_by_id S)" and "tx_id \<noteq> []"
    and "grpc_get_transaction_by_id G C R tx_id w = (Ok (Some s), w')
       \<or> solid_get_transaction_by_id G C S tx_id w = (Ok (Some s), w')"
  shows "raw_tx_consistent C (signed_raw s) \<and> raw_tx_id (signed_raw s) = tx_id"
  using assms(5) lookup_own [OF assms(1,2,4)] lookup_own [OF assms(1,3,4)]
  by (auto simp: grpc_get_transaction_by_id_def solid_get_transaction_by_id_def Let_def)

definition answering_node :: "nat read_client" where
  "answering_node = silent_node\<lparr> rd_get_transaction_by_id := \<lambda>_ w. (Ok transfer_tx, w) \<rparr>"

lemma transfer_looked_up:
  "grpc_get_transaction_by_id quiet_core sample_codec answering_node (raw_tx_id transfer_raw_tx) 0
   = (Ok (Some \<lparr> signed_raw = transfer_raw_tx, signed_signatures = [] \<rparr>), 0)"
proof -
  have "from_encoded sample_codec (encode_tx sample_codec transfer_tx) (raw_tx_id transfer_raw_tx)
      = Ok \<lparr> dec_raw = transfer_raw_tx, dec_signatures = [], dec_has_results = False, dec_has_contract = True \<rparr>"
    using prost_tx.from_encoded_encode_tx [OF sample_prost, of transfer_tx transfer_raw "[]" "raw_tx_id transfer_raw_tx"]
      transfer_tx_ok
    by (simp add: answer_ok_def transfer_tx_def sample_tx_def transfer_raw_tx_def transfer_raw_def sample_raw_def)
  moreover have "transfer_tx \<noteq> pb_transaction_default"
    by (simp add: transfer_tx_def pb_transaction_default_def sample_tx_def)
  moreover have "retry_unary quiet_core (rd_get_transaction_by_id answering_node) ''get_transaction_by_id'' q 0
      = (Ok transfer_tx, 0)" for q
    by (rule quiet_call) (simp add: answering_node_def)
  ultimately show ?thesis
    by (simp add: grpc_get_transaction_by_id_def awaited_def signed_tx_lookup_def signed_from_node_encoded_def)
qed

theorem queried_transaction_is_own_witness: "raw_tx_consistent sample_codec transfer_raw_tx"
proof -
  have R: "typed_lookup sample_codec (rd_get_transaction_by_id answering_node)"
    by (simp add: typed_lookup_def answering_node_def transfer_tx_ok)
  have S: "typed_lookup sample_codec (sd_get_transaction_by_id (silent_solidity_node :: nat solidity_client))"
    by (simp add: typed_lookup_def silent_solidity_node_def)
  have "raw_tx_id transfer_raw_tx \<noteq> []"
    by (simp add: transfer_raw_tx_def sample_codec_def reference_codec_def)
  from queried_transaction_is_own [OF sample_prost R S this disjI1 [OF transfer_looked_up]]
  show ?thesis by simp
qed

end
