(* ===== verification/Service_Messages.thy ===== *)
theory Service_Messages
  imports Answer_Messages
begin

text \<open>
  The messages of the remote procedures that the crates do not call themselves, as
  \<open>crates/rpc-types/src/generated/protocol.rs\<close> declares them: whole blocks, balance traces,
  storage and metrics.  Conventions are those of \<open>Answer_Messages\<close>.
\<close>

record pb_account_identifier =
  pb_account_identifier_address :: bytes

record pb_block_identifier =
  pb_block_identifier_hash :: bytes
  pb_block_identifier_number :: i64

record pb_account_balance_request =
  pb_account_balance_request_account_identifier :: "pb_account_identifier option"
  pb_account_balance_request_block_identifier :: "pb_block_identifier option"

record pb_account_balance_response =
  pb_account_balance_response_balance :: i64
  pb_account_balance_response_block_identifier :: "pb_block_identifier option"

record pb_operation =
  pb_operation_operation_identifier :: i64
  pb_operation_address :: bytes
  pb_operation_amount :: i64

record pb_transaction_balance_trace =
  pb_transaction_balance_trace_transaction_identifier :: bytes
  pb_transaction_balance_trace_operation :: "pb_operation list"
  pb_transaction_balance_trace_type :: string
  pb_transaction_balance_trace_status :: string

record pb_block_balance_trace =
  pb_block_balance_trace_block_identifier :: "pb_block_identifier option"
  pb_block_balance_trace_timestamp :: i64
  pb_block_balance_trace_transaction_balance_trace :: "pb_transaction_balance_trace list"

record pb_buy_storage_contract =
  pb_buy_storage_owner_address :: bytes
  pb_buy_storage_quant :: i64

record pb_buy_storage_bytes_contract =
  pb_buy_storage_bytes_owner_address :: bytes
  pb_buy_storage_bytes_bytes :: i64

record pb_sell_storage_contract =
  pb_sell_storage_owner_address :: bytes
  pb_sell_storage_storage_bytes :: i64

record pb_block_header_raw =
  pb_block_header_raw_timestamp :: i64
  pb_block_header_raw_tx_trie_root :: bytes
  pb_block_header_raw_parent_hash :: bytes
  pb_block_header_raw_number :: i64
  pb_block_header_raw_witness_id :: i64
  pb_block_header_raw_witness_address :: bytes
  pb_block_header_raw_version :: i32
  pb_block_header_raw_account_state_root :: bytes

record pb_block_header =
  pb_block_header_raw_data :: "pb_block_header_raw option"
  pb_block_header_witness_signature :: bytes

record pb_block =
  pb_block_transactions :: "pb_transaction list"
  pb_block_block_header :: "pb_block_header option"

record pb_block_extention =
  pb_block_extention_transactions :: "pb_transaction_extention list"
  pb_block_extention_block_header :: "pb_block_header option"
  pb_block_extention_blockid :: bytes

record pb_block_list =
  pb_block_list_block :: "pb_block list"

record pb_block_list_extention =
  pb_block_list_extention_block :: "pb_block_extention list"

record pb_block_req =
  pb_block_req_id_or_num :: string
  pb_block_req_detail :: bool

record pb_transaction_list =
  pb_transaction_list_transaction :: "pb_transaction list"

record pb_block_reference =
  pb_block_reference_block_num :: i64
  pb_block_reference_block_hash :: bytes

record pb_metrics_node_info =
  pb_metrics_node_info_ip :: string
  pb_metrics_node_info_node_type :: i32
  pb_metrics_node_info_version :: string
  pb_metrics_node_info_backup_status :: i32

record pb_rate_info =
  pb_rate_info_count :: i64
  pb_rate_info_mean_rate :: f64
  pb_rate_info_one_minute_rate :: f64
  pb_rate_info_five_minute_rate :: f64
  pb_rate_info_fifteen_minute_rate :: f64

record pb_metrics_witness =
  pb_metrics_witness_address :: string
  pb_metrics_witness_version :: i32

record pb_dup_witness =
  pb_dup_witness_address :: string
  pb_dup_witness_block_num :: i64
  pb_dup_witness_count :: i32

record pb_block_chain_info =
  pb_block_chain_info_head_block_num :: i64
  pb_block_chain_info_head_block_timestamp :: i64
  pb_block_chain_info_head_block_hash :: string
  pb_block_chain_info_fork_count :: i32
  pb_block_chain_info_fail_fork_count :: i32
  pb_block_chain_info_block_process_time :: "pb_rate_info option"
  pb_block_chain_info_tps :: "pb_rate_info option"
  pb_block_chain_info_transaction_cache_size :: i32
  pb_block_chain_info_missed_transaction :: "pb_rate_info option"
  pb_block_chain_info_witnesses :: "pb_metrics_witness list"
  pb_block_chain_info_fail_process_block_num :: i64
  pb_block_chain_info_fail_process_block_reason :: string
  pb_block_chain_info_dup_witness :: "pb_dup_witness list"

record pb_api_detail_info =
  pb_api_detail_info_name :: string
  pb_api_detail_info_qps :: "pb_rate_info option"
  pb_api_detail_info_fail_qps :: "pb_rate_info option"
  pb_api_detail_info_out_traffic :: "pb_rate_info option"

record pb_api_info =
  pb_api_info_qps :: "pb_rate_info option"
  pb_api_info_fail_qps :: "pb_rate_info option"
  pb_api_info_out_traffic :: "pb_rate_info option"
  pb_api_info_detail :: "pb_api_detail_info list"

record pb_disconnection_detail_info =
  pb_disconnection_detail_info_reason :: string
  pb_disconnection_detail_info_count :: i32

record pb_latency_detail_info =
  pb_latency_detail_info_witness :: string
  pb_latency_detail_info_top99 :: i32
  pb_latency_detail_info_top95 :: i32
  pb_latency_detail_info_top75 :: i32
  pb_latency_detail_info_count :: i32
  pb_latency_detail_info_delay1_s :: i32
  pb_latency_detail_info_delay2_s :: i32
  pb_latency_detail_info_delay3_s :: i32

record pb_latency_info =
  pb_latency_info_top99 :: i32
  pb_latency_info_top95 :: i32
  pb_latency_info_top75 :: i32
  pb_latency_info_total_count :: i32
  pb_latency_info_delay1_s :: i32
  pb_latency_info_delay2_s :: i32
  pb_latency_info_delay3_s :: i32
  pb_latency_info_detail :: "pb_latency_detail_info list"

record pb_net_info =
  pb_net_info_error_proto_count :: i32
  pb_net_info_api :: "pb_api_info option"
  pb_net_info_connection_count :: i32
  pb_net_info_valid_connection_count :: i32
  pb_net_info_tcp_in_traffic :: "pb_rate_info option"
  pb_net_info_tcp_out_traffic :: "pb_rate_info option"
  pb_net_info_disconnection_count :: i32
  pb_net_info_disconnection_detail :: "pb_disconnection_detail_info list"
  pb_net_info_udp_in_traffic :: "pb_rate_info option"
  pb_net_info_udp_out_traffic :: "pb_rate_info option"
  pb_net_info_latency :: "pb_latency_info option"

record pb_metrics_info =
  pb_metrics_info_interval :: i64
  pb_metrics_info_node :: "pb_metrics_node_info option"
  pb_metrics_info_blockchain :: "pb_block_chain_info option"
  pb_metrics_info_net :: "pb_net_info option"

end
