(* ===== verification/Shielded_Messages.thy ===== *)
theory Shielded_Messages
  imports Answer_Messages
begin

text \<open>
  The messages of the shielded transactions
  (\<open>crates/rpc-types/src/generated/protocol.rs\<close>), which only the generated services name.
\<close>

record pb_note =
  pb_note_value :: i64
  pb_note_payment_address :: string
  pb_note_rcm :: bytes
  pb_note_memo :: bytes

record pb_pedersen_hash =
  pb_pedersen_hash_content :: bytes

record pb_incremental_merkle_tree =
  pb_incremental_merkle_tree_left :: "pb_pedersen_hash option"
  pb_incremental_merkle_tree_right :: "pb_pedersen_hash option"
  pb_incremental_merkle_tree_parents :: "pb_pedersen_hash list"

record pb_output_point =
  pb_output_point_hash :: bytes
  pb_output_point_index :: i32

record pb_incremental_merkle_voucher =
  pb_incremental_merkle_voucher_tree :: "pb_incremental_merkle_tree option"
  pb_incremental_merkle_voucher_filled :: "pb_pedersen_hash list"
  pb_incremental_merkle_voucher_cursor :: "pb_incremental_merkle_tree option"
  pb_incremental_merkle_voucher_cursor_depth :: i64
  pb_incremental_merkle_voucher_rt :: bytes
  pb_incremental_merkle_voucher_output_point :: "pb_output_point option"

record pb_spend_note =
  pb_spend_note_note :: "pb_note option"
  pb_spend_note_alpha :: bytes
  pb_spend_note_voucher :: "pb_incremental_merkle_voucher option"
  pb_spend_note_path :: bytes

record pb_receive_note =
  pb_receive_note_note :: "pb_note option"

record pb_private_parameters =
  pb_private_parameters_transparent_from_address :: bytes
  pb_private_parameters_ask :: bytes
  pb_private_parameters_nsk :: bytes
  pb_private_parameters_ovk :: bytes
  pb_private_parameters_from_amount :: i64
  pb_private_parameters_shielded_spends :: "pb_spend_note list"
  pb_private_parameters_shielded_receives :: "pb_receive_note list"
  pb_private_parameters_transparent_to_address :: bytes
  pb_private_parameters_to_amount :: i64
  pb_private_parameters_timeout :: i64

record pb_output_point_info =
  pb_output_point_info_out_points :: "pb_output_point list"
  pb_output_point_info_block_num :: i32

record pb_incremental_merkle_voucher_info =
  pb_incremental_merkle_voucher_info_vouchers :: "pb_incremental_merkle_voucher list"
  pb_incremental_merkle_voucher_info_paths :: "bytes list"

record pb_ivk_decrypt_parameters =
  pb_ivk_decrypt_parameters_start_block_index :: i64
  pb_ivk_decrypt_parameters_end_block_index :: i64
  pb_ivk_decrypt_parameters_ivk :: bytes

record pb_decrypt_note =
  pb_decrypt_note_note :: "pb_note option"
  pb_decrypt_note_txid :: bytes
  pb_decrypt_note_index :: i32

record pb_decrypt_notes =
  pb_decrypt_notes_note_txs :: "pb_decrypt_note list"

record pb_ivk_decrypt_and_mark_parameters =
  pb_ivk_decrypt_and_mark_parameters_start_block_index :: i64
  pb_ivk_decrypt_and_mark_parameters_end_block_index :: i64
  pb_ivk_decrypt_and_mark_parameters_ivk :: bytes
  pb_ivk_decrypt_and_mark_parameters_ak :: bytes
  pb_ivk_decrypt_and_mark_parameters_nk :: bytes

record pb_decrypt_note_marked =
  pb_decrypt_note_marked_note :: "pb_note option"
  pb_decrypt_note_marked_txid :: bytes
  pb_decrypt_note_marked_index :: i32
  pb_decrypt_note_marked_is_spend :: bool

record pb_decrypt_notes_marked =
  pb_decrypt_notes_marked_note_txs :: "pb_decrypt_note_marked list"

record pb_ovk_decrypt_parameters =
  pb_ovk_decrypt_parameters_start_block_index :: i64
  pb_ovk_decrypt_parameters_end_block_index :: i64
  pb_ovk_decrypt_parameters_ovk :: bytes

record pb_expanded_spending_key_message =
  pb_expanded_spending_key_message_ask :: bytes
  pb_expanded_spending_key_message_nsk :: bytes
  pb_expanded_spending_key_message_ovk :: bytes

record pb_viewing_key_message =
  pb_viewing_key_message_ak :: bytes
  pb_viewing_key_message_nk :: bytes

record pb_incoming_viewing_key_message =
  pb_incoming_viewing_key_message_ivk :: bytes

record pb_diversifier_message =
  pb_diversifier_message_d :: bytes

record pb_shielded_address_info =
  pb_shielded_address_info_sk :: bytes
  pb_shielded_address_info_ask :: bytes
  pb_shielded_address_info_nsk :: bytes
  pb_shielded_address_info_ovk :: bytes
  pb_shielded_address_info_ak :: bytes
  pb_shielded_address_info_nk :: bytes
  pb_shielded_address_info_ivk :: bytes
  pb_shielded_address_info_d :: bytes
  pb_shielded_address_info_pk_d :: bytes
  pb_shielded_address_info_payment_address :: string

record pb_incoming_viewing_key_diversifier_message =
  pb_incoming_viewing_key_diversifier_message_ivk :: "pb_incoming_viewing_key_message option"
  pb_incoming_viewing_key_diversifier_message_d :: "pb_diversifier_message option"

record pb_payment_address_message =
  pb_payment_address_message_d :: "pb_diversifier_message option"
  pb_payment_address_message_pk_d :: bytes
  pb_payment_address_message_payment_address :: string

record pb_note_parameters =
  pb_note_parameters_ak :: bytes
  pb_note_parameters_nk :: bytes
  pb_note_parameters_note :: "pb_note option"
  pb_note_parameters_txid :: bytes
  pb_note_parameters_index :: i32

record pb_spend_result =
  pb_spend_result_result :: bool
  pb_spend_result_message :: string

record pb_private_parameters_without_ask =
  pb_private_parameters_without_ask_transparent_from_address :: bytes
  pb_private_parameters_without_ask_ak :: bytes
  pb_private_parameters_without_ask_nsk :: bytes
  pb_private_parameters_without_ask_ovk :: bytes
  pb_private_parameters_without_ask_from_amount :: i64
  pb_private_parameters_without_ask_shielded_spends :: "pb_spend_note list"
  pb_private_parameters_without_ask_shielded_receives :: "pb_receive_note list"
  pb_private_parameters_without_ask_transparent_to_address :: bytes
  pb_private_parameters_without_ask_to_amount :: i64
  pb_private_parameters_without_ask_timeout :: i64

record pb_spend_auth_sig_parameters =
  pb_spend_auth_sig_parameters_ask :: bytes
  pb_spend_auth_sig_parameters_tx_hash :: bytes
  pb_spend_auth_sig_parameters_alpha :: bytes

record pb_nf_parameters =
  pb_nf_parameters_note :: "pb_note option"
  pb_nf_parameters_voucher :: "pb_incremental_merkle_voucher option"
  pb_nf_parameters_ak :: bytes
  pb_nf_parameters_nk :: bytes

record pb_spend_note_trc20 =
  pb_spend_note_trc20_note :: "pb_note option"
  pb_spend_note_trc20_alpha :: bytes
  pb_spend_note_trc20_root :: bytes
  pb_spend_note_trc20_path :: bytes
  pb_spend_note_trc20_pos :: i64

record pb_private_shielded_trc20_parameters =
  pb_private_shielded_trc20_parameters_ask :: bytes
  pb_private_shielded_trc20_parameters_nsk :: bytes
  pb_private_shielded_trc20_parameters_ovk :: bytes
  pb_private_shielded_trc20_parameters_from_amount :: string
  pb_private_shielded_trc20_parameters_shielded_spends :: "pb_spend_note_trc20 list"
  pb_private_shielded_trc20_parameters_shielded_receives :: "pb_receive_note list"
  pb_private_shielded_trc20_parameters_transparent_to_address :: bytes
  pb_private_shielded_trc20_parameters_to_amount :: string
  pb_private_shielded_trc20_parameters_shielded_trc20_contract_address :: bytes

record pb_spend_description =
  pb_spend_description_value_commitment :: bytes
  pb_spend_description_anchor :: bytes
  pb_spend_description_nullifier :: bytes
  pb_spend_description_rk :: bytes
  pb_spend_description_zkproof :: bytes
  pb_spend_description_spend_authority_signature :: bytes

record pb_receive_description =
  pb_receive_description_value_commitment :: bytes
  pb_receive_description_note_commitment :: bytes
  pb_receive_description_epk :: bytes
  pb_receive_description_c_enc :: bytes
  pb_receive_description_c_out :: bytes
  pb_receive_description_zkproof :: bytes

record pb_shielded_trc20_parameters =
  pb_shielded_trc20_parameters_spend_description :: "pb_spend_description list"
  pb_shielded_trc20_parameters_receive_description :: "pb_receive_description list"
  pb_shielded_trc20_parameters_binding_signature :: bytes
  pb_shielded_trc20_parameters_message_hash :: bytes
  pb_shielded_trc20_parameters_trigger_contract_input :: string
  pb_shielded_trc20_parameters_parameter_type :: string

record pb_private_shielded_trc20_parameters_without_ask =
  pb_private_shielded_trc20_parameters_without_ask_ak :: bytes
  pb_private_shielded_trc20_parameters_without_ask_nsk :: bytes
  pb_private_shielded_trc20_parameters_without_ask_ovk :: bytes
  pb_private_shielded_trc20_parameters_without_ask_from_amount :: string
  pb_private_shielded_trc20_parameters_without_ask_shielded_spends :: "pb_spend_note_trc20 list"
  pb_private_shielded_trc20_parameters_without_ask_shielded_receives :: "pb_receive_note list"
  pb_private_shielded_trc20_parameters_without_ask_transparent_to_address :: bytes
  pb_private_shielded_trc20_parameters_without_ask_to_amount :: string
  pb_private_shielded_trc20_parameters_without_ask_shielded_trc20_contract_address :: bytes

record pb_ivk_decrypt_trc20_parameters =
  pb_ivk_decrypt_trc20_parameters_start_block_index :: i64
  pb_ivk_decrypt_trc20_parameters_end_block_index :: i64
  pb_ivk_decrypt_trc20_parameters_shielded_trc20_contract_address :: bytes
  pb_ivk_decrypt_trc20_parameters_ivk :: bytes
  pb_ivk_decrypt_trc20_parameters_ak :: bytes
  pb_ivk_decrypt_trc20_parameters_nk :: bytes
  pb_ivk_decrypt_trc20_parameters_events :: "string list"

record pb_decrypt_note_trc20 =
  pb_decrypt_note_trc20_note :: "pb_note option"
  pb_decrypt_note_trc20_position :: i64
  pb_decrypt_note_trc20_is_spent :: bool
  pb_decrypt_note_trc20_txid :: bytes
  pb_decrypt_note_trc20_index :: i32
  pb_decrypt_note_trc20_to_amount :: string
  pb_decrypt_note_trc20_transparent_to_address :: bytes

record pb_decrypt_notes_trc20 =
  pb_decrypt_notes_trc20_note_txs :: "pb_decrypt_note_trc20 list"

record pb_ovk_decrypt_trc20_parameters =
  pb_ovk_decrypt_trc20_parameters_start_block_index :: i64
  pb_ovk_decrypt_trc20_parameters_end_block_index :: i64
  pb_ovk_decrypt_trc20_parameters_ovk :: bytes
  pb_ovk_decrypt_trc20_parameters_shielded_trc20_contract_address :: bytes
  pb_ovk_decrypt_trc20_parameters_events :: "string list"

record pb_nf_trc20_parameters =
  pb_nf_trc20_parameters_note :: "pb_note option"
  pb_nf_trc20_parameters_ak :: bytes
  pb_nf_trc20_parameters_nk :: bytes
  pb_nf_trc20_parameters_position :: i64
  pb_nf_trc20_parameters_shielded_trc20_contract_address :: bytes

record pb_nullifier_result =
  pb_nullifier_result_is_spent :: bool

record pb_shielded_trc20_trigger_contract_parameters =
  pb_shielded_trc20_trigger_contract_parameters_shielded_trc20_parameters :: "pb_shielded_trc20_parameters option"
  pb_shielded_trc20_trigger_contract_parameters_spend_authority_signature :: "pb_bytes_message list"
  pb_shielded_trc20_trigger_contract_parameters_amount :: string
  pb_shielded_trc20_trigger_contract_parameters_transparent_to_address :: bytes

end
