(* ===== verification/Grpc_Channel.thy ===== *)
theory Grpc_Channel
  imports Node_Guard
begin

text \<open>
  What the generated gRPC clients (\<open>crates/provider/src/generated/services.rs\<close>) are built on: a
  channel that can be asked whether it is ready and that carries one encoded request to one
  encoded answer, an interceptor around it, and the body every generated method has.  The
  channel, the codec \<open>prost\<close> derives for a message and the values of a header are parameters.
\<close>

section \<open>Channels\<close>

text \<open>
  A request as the channel gets it: where it goes, the method it is an instance of, its headers
  and its encoded message.
\<close>

record 'v grpc_request =
  rq_path :: string
  rq_method :: "string \<times> string"
  rq_metadata :: "string \<rightharpoonup> 'v"
  rq_body :: bytes

record ('v, 'w) grpc_channel =
  ch_ready :: "'w \<Rightarrow> (string + unit) \<times> 'w"
  ch_call :: "'v grpc_request \<Rightarrow> 'w \<Rightarrow> (tonic_status + bytes) \<times> 'w"

text \<open>\<open>InterceptedService\<close>: the same channel, each request with the headers the interceptor made.\<close>

definition intercepted ::
  "((string \<rightharpoonup> 'v) \<Rightarrow> (string \<rightharpoonup> 'v)) \<Rightarrow> ('v, 'w) grpc_channel \<Rightarrow> ('v, 'w) grpc_channel" where
  "intercepted f ch =
     ch\<lparr> ch_call := \<lambda>req. ch_call ch (req\<lparr> rq_metadata := f (rq_metadata req) \<rparr>) \<rparr>"

text \<open>\<open>ProstCodec\<close> for one message; what cannot be decoded is a status.\<close>

record 'a message_codec =
  mc_encode :: "'a \<Rightarrow> bytes"
  mc_decode :: "bytes \<Rightarrow> tonic_status + 'a"

text \<open>\<open>Grpc::unary\<close>: one encoded message for one decoded answer.\<close>

definition channel_unary ::
  "('v, 'w) grpc_channel \<Rightarrow> 'q message_codec \<Rightarrow> 'r message_codec \<Rightarrow> string \<Rightarrow> string \<Rightarrow> string
     \<Rightarrow> ('q, 'r, 'w) tonic_method" where
  "channel_unary self Q R path service name request w =
     (case ch_call self \<lparr> rq_path = path, rq_method = (service, name), rq_metadata = Map.empty,
                          rq_body = mc_encode Q request \<rparr> w of
        (Inl status, w1) \<Rightarrow> (Err status, w1)
      | (Inr body, w1) \<Rightarrow> (mc_decode R body, w1))"

section \<open>The body of a generated method\<close>

definition service_unary ::
  "('v, 'w) grpc_channel \<Rightarrow> 'q message_codec \<Rightarrow> 'r message_codec \<Rightarrow> string \<Rightarrow> string \<Rightarrow> string
     \<Rightarrow> ('q, 'r, 'w) tonic_method" where
  "service_unary self Q R path service name request w =
     (case ch_ready self w of
        (Inl e, w1) \<Rightarrow> (Err (TonicUnknown, ''Service was not ready: '' @ e), w1)
      | (Inr _, w1) \<Rightarrow> channel_unary self Q R path service name request w1)"

lemma channel_unary_Ok_iff:
  "channel_unary ch Q R path service name q w = (Inr r, w') \<longleftrightarrow>
     (\<exists>body. ch_call ch \<lparr> rq_path = path, rq_method = (service, name), rq_metadata = Map.empty,
                          rq_body = mc_encode Q q \<rparr> w = (Inr body, w')
        \<and> mc_decode R body = Ok r)"
  by (auto simp: channel_unary_def split: prod.splits sum.splits)

lemma service_unary_Ok_iff:
  "service_unary ch Q R path service name q w = (Inr r, w') \<longleftrightarrow>
     (\<exists>u w1. ch_ready ch w = (Inr u, w1) \<and> channel_unary ch Q R path service name q w1 = (Inr r, w'))"
  by (auto simp: service_unary_def split: prod.splits sum.splits)

lemma intercepted_ready [simp]: "ch_ready (intercepted f ch) = ch_ready ch"
  by (simp add: intercepted_def)

lemma intercepted_call [simp]:
  "ch_call (intercepted f ch) req = ch_call ch (req\<lparr> rq_metadata := f (rq_metadata req) \<rparr>)"
  by (simp add: intercepted_def)

text \<open>What a codec never decodes, no method answers.\<close>

lemma service_unary_answer:
  assumes "service_unary ch Q R path service name q w = (Inr r, w')"
  obtains body where "mc_decode R body = Ok r"
  using assms by (auto simp: service_unary_Ok_iff channel_unary_Ok_iff)

text \<open>A service that is not ready is sent nothing, and its readiness is the whole effect.\<close>

lemma service_unary_not_ready:
  assumes "ch_ready ch w = (Inl e, w1)"
  shows "service_unary ch Q R path service name q w = (Err (TonicUnknown, ''Service was not ready: '' @ e), w1)"
  by (simp add: service_unary_def assms)

end
