(* ===== verification/Wallet_Service.thy ===== *)
theory Wallet_Service
  imports Service_Messages Shielded_Messages Grpc_Channel
begin

text \<open>
  The generated client of \<open>protocol.Wallet\<close>
  (\<open>mod wallet_client\<close> of \<open>crates/provider/src/generated/services.rs\<close>): one definition per
  method, in the order of the file.
\<close>

section \<open>The wallet service\<close>

definition wallet_rpc_get_account ::
  "('v, 'w) grpc_channel \<Rightarrow> pb_account message_codec \<Rightarrow> pb_account message_codec
     \<Rightarrow> (pb_account, pb_account, 'w) tonic_method" where
  "wallet_rpc_get_account self Q R =
     service_unary self Q R ''/protocol.Wallet/GetAccount'' ''protocol.Wallet'' ''GetAccount''"

definition wallet_rpc_get_account_by_id ::
  "('v, 'w) grpc_channel \<Rightarrow> pb_account message_codec \<Rightarrow> pb_account message_codec
     \<Rightarrow> (pb_account, pb_account, 'w) tonic_method" where
  "wallet_rpc_get_account_by_id self Q R =
     service_unary self Q R ''/protocol.Wallet/GetAccountById'' ''protocol.Wallet'' ''GetAccountById''"

definition wallet_rpc_get_account_balance ::
  "('v, 'w) grpc_channel \<Rightarrow> pb_account_balance_request message_codec \<Rightarrow> pb_account_balance_response message_codec
     \<Rightarrow> (pb_account_balance_request, pb_account_balance_response, 'w) tonic_method" where
  "wallet_rpc_get_account_balance self Q R =
     service_unary self Q R ''/protocol.Wallet/GetAccountBalance'' ''protocol.Wallet'' ''GetAccountBalance''"

definition wallet_rpc_get_block_balance_trace ::
  "('v, 'w) grpc_channel \<Rightarrow> pb_block_identifier message_codec \<Rightarrow> pb_block_balance_trace message_codec
     \<Rightarrow> (pb_block_identifier, pb_block_balance_trace, 'w) tonic_method" where
  "wallet_rpc_get_block_balance_trace self Q R =
     service_unary self Q R ''/protocol.Wallet/GetBlockBalanceTrace'' ''protocol.Wallet'' ''GetBlockBalanceTrace''"

definition wallet_rpc_create_transaction ::
  "('v, 'w) grpc_channel \<Rightarrow> pb_transfer_contract message_codec \<Rightarrow> pb_transaction message_codec
     \<Rightarrow> (pb_transfer_contract, pb_transaction, 'w) tonic_method" where
  "wallet_rpc_create_transaction self Q R =
     service_unary self Q R ''/protocol.Wallet/CreateTransaction'' ''protocol.Wallet'' ''CreateTransaction''"

definition wallet_rpc_create_transaction2 ::
  "('v, 'w) grpc_channel \<Rightarrow> pb_transfer_contract message_codec \<Rightarrow> pb_transaction_extention message_codec
     \<Rightarrow> (pb_transfer_contract, pb_transaction_extention, 'w) tonic_method" where
  "wallet_rpc_create_transaction2 self Q R =
     service_unary self Q R ''/protocol.Wallet/CreateTransaction2'' ''protocol.Wallet'' ''CreateTransaction2''"

definition wallet_rpc_broadcast_transaction ::
  "('v, 'w) grpc_channel \<Rightarrow> pb_transaction message_codec \<Rightarrow> pb_return message_codec
     \<Rightarrow> (pb_transaction, pb_return, 'w) tonic_method" where
  "wallet_rpc_broadcast_transaction self Q R =
     service_unary self Q R ''/protocol.Wallet/BroadcastTransaction'' ''protocol.Wallet'' ''BroadcastTransaction''"

definition wallet_rpc_update_account ::
  "('v, 'w) grpc_channel \<Rightarrow> pb_account_update_contract message_codec \<Rightarrow> pb_transaction message_codec
     \<Rightarrow> (pb_account_update_contract, pb_transaction, 'w) tonic_method" where
  "wallet_rpc_update_account self Q R =
     service_unary self Q R ''/protocol.Wallet/UpdateAccount'' ''protocol.Wallet'' ''UpdateAccount''"

definition wallet_rpc_set_account_id ::
  "('v, 'w) grpc_channel \<Rightarrow> pb_set_account_id_contract message_codec \<Rightarrow> pb_transaction message_codec
     \<Rightarrow> (pb_set_account_id_contract, pb_transaction, 'w) tonic_method" where
  "wallet_rpc_set_account_id self Q R =
     service_unary self Q R ''/protocol.Wallet/SetAccountId'' ''protocol.Wallet'' ''SetAccountId''"

definition wallet_rpc_update_account2 ::
  "('v, 'w) grpc_channel \<Rightarrow> pb_account_update_contract message_codec \<Rightarrow> pb_transaction_extention message_codec
     \<Rightarrow> (pb_account_update_contract, pb_transaction_extention, 'w) tonic_method" where
  "wallet_rpc_update_account2 self Q R =
     service_unary self Q R ''/protocol.Wallet/UpdateAccount2'' ''protocol.Wallet'' ''UpdateAccount2''"

definition wallet_rpc_vote_witness_account ::
  "('v, 'w) grpc_channel \<Rightarrow> pb_vote_witness_contract message_codec \<Rightarrow> pb_transaction message_codec
     \<Rightarrow> (pb_vote_witness_contract, pb_transaction, 'w) tonic_method" where
  "wallet_rpc_vote_witness_account self Q R =
     service_unary self Q R ''/protocol.Wallet/VoteWitnessAccount'' ''protocol.Wallet'' ''VoteWitnessAccount''"

definition wallet_rpc_update_setting ::
  "('v, 'w) grpc_channel \<Rightarrow> pb_update_setting_contract message_codec \<Rightarrow> pb_transaction_extention message_codec
     \<Rightarrow> (pb_update_setting_contract, pb_transaction_extention, 'w) tonic_method" where
  "wallet_rpc_update_setting self Q R =
     service_unary self Q R ''/protocol.Wallet/UpdateSetting'' ''protocol.Wallet'' ''UpdateSetting''"

definition wallet_rpc_update_energy_limit ::
  "('v, 'w) grpc_channel \<Rightarrow> pb_update_energy_limit_contract message_codec \<Rightarrow> pb_transaction_extention message_codec
     \<Rightarrow> (pb_update_energy_limit_contract, pb_transaction_extention, 'w) tonic_method" where
  "wallet_rpc_update_energy_limit self Q R =
     service_unary self Q R ''/protocol.Wallet/UpdateEnergyLimit'' ''protocol.Wallet'' ''UpdateEnergyLimit''"

definition wallet_rpc_vote_witness_account2 ::
  "('v, 'w) grpc_channel \<Rightarrow> pb_vote_witness_contract message_codec \<Rightarrow> pb_transaction_extention message_codec
     \<Rightarrow> (pb_vote_witness_contract, pb_transaction_extention, 'w) tonic_method" where
  "wallet_rpc_vote_witness_account2 self Q R =
     service_unary self Q R ''/protocol.Wallet/VoteWitnessAccount2'' ''protocol.Wallet'' ''VoteWitnessAccount2''"

definition wallet_rpc_create_asset_issue ::
  "('v, 'w) grpc_channel \<Rightarrow> pb_asset_issue_contract message_codec \<Rightarrow> pb_transaction message_codec
     \<Rightarrow> (pb_asset_issue_contract, pb_transaction, 'w) tonic_method" where
  "wallet_rpc_create_asset_issue self Q R =
     service_unary self Q R ''/protocol.Wallet/CreateAssetIssue'' ''protocol.Wallet'' ''CreateAssetIssue''"

definition wallet_rpc_create_asset_issue2 ::
  "('v, 'w) grpc_channel \<Rightarrow> pb_asset_issue_contract message_codec \<Rightarrow> pb_transaction_extention message_codec
     \<Rightarrow> (pb_asset_issue_contract, pb_transaction_extention, 'w) tonic_method" where
  "wallet_rpc_create_asset_issue2 self Q R =
     service_unary self Q R ''/protocol.Wallet/CreateAssetIssue2'' ''protocol.Wallet'' ''CreateAssetIssue2''"

definition wallet_rpc_update_witness ::
  "('v, 'w) grpc_channel \<Rightarrow> pb_witness_update_contract message_codec \<Rightarrow> pb_transaction message_codec
     \<Rightarrow> (pb_witness_update_contract, pb_transaction, 'w) tonic_method" where
  "wallet_rpc_update_witness self Q R =
     service_unary self Q R ''/protocol.Wallet/UpdateWitness'' ''protocol.Wallet'' ''UpdateWitness''"

definition wallet_rpc_update_witness2 ::
  "('v, 'w) grpc_channel \<Rightarrow> pb_witness_update_contract message_codec \<Rightarrow> pb_transaction_extention message_codec
     \<Rightarrow> (pb_witness_update_contract, pb_transaction_extention, 'w) tonic_method" where
  "wallet_rpc_update_witness2 self Q R =
     service_unary self Q R ''/protocol.Wallet/UpdateWitness2'' ''protocol.Wallet'' ''UpdateWitness2''"

definition wallet_rpc_create_account ::
  "('v, 'w) grpc_channel \<Rightarrow> pb_account_create_contract message_codec \<Rightarrow> pb_transaction message_codec
     \<Rightarrow> (pb_account_create_contract, pb_transaction, 'w) tonic_method" where
  "wallet_rpc_create_account self Q R =
     service_unary self Q R ''/protocol.Wallet/CreateAccount'' ''protocol.Wallet'' ''CreateAccount''"

definition wallet_rpc_create_account2 ::
  "('v, 'w) grpc_channel \<Rightarrow> pb_account_create_contract message_codec \<Rightarrow> pb_transaction_extention message_codec
     \<Rightarrow> (pb_account_create_contract, pb_transaction_extention, 'w) tonic_method" where
  "wallet_rpc_create_account2 self Q R =
     service_unary self Q R ''/protocol.Wallet/CreateAccount2'' ''protocol.Wallet'' ''CreateAccount2''"

definition wallet_rpc_create_witness ::
  "('v, 'w) grpc_channel \<Rightarrow> pb_witness_create_contract message_codec \<Rightarrow> pb_transaction message_codec
     \<Rightarrow> (pb_witness_create_contract, pb_transaction, 'w) tonic_method" where
  "wallet_rpc_create_witness self Q R =
     service_unary self Q R ''/protocol.Wallet/CreateWitness'' ''protocol.Wallet'' ''CreateWitness''"

definition wallet_rpc_create_witness2 ::
  "('v, 'w) grpc_channel \<Rightarrow> pb_witness_create_contract message_codec \<Rightarrow> pb_transaction_extention message_codec
     \<Rightarrow> (pb_witness_create_contract, pb_transaction_extention, 'w) tonic_method" where
  "wallet_rpc_create_witness2 self Q R =
     service_unary self Q R ''/protocol.Wallet/CreateWitness2'' ''protocol.Wallet'' ''CreateWitness2''"

definition wallet_rpc_transfer_asset ::
  "('v, 'w) grpc_channel \<Rightarrow> pb_transfer_asset_contract message_codec \<Rightarrow> pb_transaction message_codec
     \<Rightarrow> (pb_transfer_asset_contract, pb_transaction, 'w) tonic_method" where
  "wallet_rpc_transfer_asset self Q R =
     service_unary self Q R ''/protocol.Wallet/TransferAsset'' ''protocol.Wallet'' ''TransferAsset''"

definition wallet_rpc_transfer_asset2 ::
  "('v, 'w) grpc_channel \<Rightarrow> pb_transfer_asset_contract message_codec \<Rightarrow> pb_transaction_extention message_codec
     \<Rightarrow> (pb_transfer_asset_contract, pb_transaction_extention, 'w) tonic_method" where
  "wallet_rpc_transfer_asset2 self Q R =
     service_unary self Q R ''/protocol.Wallet/TransferAsset2'' ''protocol.Wallet'' ''TransferAsset2''"

definition wallet_rpc_participate_asset_issue ::
  "('v, 'w) grpc_channel \<Rightarrow> pb_participate_asset_issue_contract message_codec \<Rightarrow> pb_transaction message_codec
     \<Rightarrow> (pb_participate_asset_issue_contract, pb_transaction, 'w) tonic_method" where
  "wallet_rpc_participate_asset_issue self Q R =
     service_unary self Q R ''/protocol.Wallet/ParticipateAssetIssue'' ''protocol.Wallet'' ''ParticipateAssetIssue''"

definition wallet_rpc_participate_asset_issue2 ::
  "('v, 'w) grpc_channel \<Rightarrow> pb_participate_asset_issue_contract message_codec \<Rightarrow> pb_transaction_extention message_codec
     \<Rightarrow> (pb_participate_asset_issue_contract, pb_transaction_extention, 'w) tonic_method" where
  "wallet_rpc_participate_asset_issue2 self Q R =
     service_unary self Q R ''/protocol.Wallet/ParticipateAssetIssue2'' ''protocol.Wallet'' ''ParticipateAssetIssue2''"

definition wallet_rpc_freeze_balance ::
  "('v, 'w) grpc_channel \<Rightarrow> pb_freeze_balance_contract message_codec \<Rightarrow> pb_transaction message_codec
     \<Rightarrow> (pb_freeze_balance_contract, pb_transaction, 'w) tonic_method" where
  "wallet_rpc_freeze_balance self Q R =
     service_unary self Q R ''/protocol.Wallet/FreezeBalance'' ''protocol.Wallet'' ''FreezeBalance''"

definition wallet_rpc_freeze_balance2 ::
  "('v, 'w) grpc_channel \<Rightarrow> pb_freeze_balance_contract message_codec \<Rightarrow> pb_transaction_extention message_codec
     \<Rightarrow> (pb_freeze_balance_contract, pb_transaction_extention, 'w) tonic_method" where
  "wallet_rpc_freeze_balance2 self Q R =
     service_unary self Q R ''/protocol.Wallet/FreezeBalance2'' ''protocol.Wallet'' ''FreezeBalance2''"

definition wallet_rpc_freeze_balance_v2 ::
  "('v, 'w) grpc_channel \<Rightarrow> pb_freeze_balance_v2_contract message_codec \<Rightarrow> pb_transaction_extention message_codec
     \<Rightarrow> (pb_freeze_balance_v2_contract, pb_transaction_extention, 'w) tonic_method" where
  "wallet_rpc_freeze_balance_v2 self Q R =
     service_unary self Q R ''/protocol.Wallet/FreezeBalanceV2'' ''protocol.Wallet'' ''FreezeBalanceV2''"

definition wallet_rpc_unfreeze_balance ::
  "('v, 'w) grpc_channel \<Rightarrow> pb_unfreeze_balance_contract message_codec \<Rightarrow> pb_transaction message_codec
     \<Rightarrow> (pb_unfreeze_balance_contract, pb_transaction, 'w) tonic_method" where
  "wallet_rpc_unfreeze_balance self Q R =
     service_unary self Q R ''/protocol.Wallet/UnfreezeBalance'' ''protocol.Wallet'' ''UnfreezeBalance''"

definition wallet_rpc_unfreeze_balance2 ::
  "('v, 'w) grpc_channel \<Rightarrow> pb_unfreeze_balance_contract message_codec \<Rightarrow> pb_transaction_extention message_codec
     \<Rightarrow> (pb_unfreeze_balance_contract, pb_transaction_extention, 'w) tonic_method" where
  "wallet_rpc_unfreeze_balance2 self Q R =
     service_unary self Q R ''/protocol.Wallet/UnfreezeBalance2'' ''protocol.Wallet'' ''UnfreezeBalance2''"

definition wallet_rpc_unfreeze_balance_v2 ::
  "('v, 'w) grpc_channel \<Rightarrow> pb_unfreeze_balance_v2_contract message_codec \<Rightarrow> pb_transaction_extention message_codec
     \<Rightarrow> (pb_unfreeze_balance_v2_contract, pb_transaction_extention, 'w) tonic_method" where
  "wallet_rpc_unfreeze_balance_v2 self Q R =
     service_unary self Q R ''/protocol.Wallet/UnfreezeBalanceV2'' ''protocol.Wallet'' ''UnfreezeBalanceV2''"

definition wallet_rpc_unfreeze_asset ::
  "('v, 'w) grpc_channel \<Rightarrow> pb_unfreeze_asset_contract message_codec \<Rightarrow> pb_transaction message_codec
     \<Rightarrow> (pb_unfreeze_asset_contract, pb_transaction, 'w) tonic_method" where
  "wallet_rpc_unfreeze_asset self Q R =
     service_unary self Q R ''/protocol.Wallet/UnfreezeAsset'' ''protocol.Wallet'' ''UnfreezeAsset''"

definition wallet_rpc_unfreeze_asset2 ::
  "('v, 'w) grpc_channel \<Rightarrow> pb_unfreeze_asset_contract message_codec \<Rightarrow> pb_transaction_extention message_codec
     \<Rightarrow> (pb_unfreeze_asset_contract, pb_transaction_extention, 'w) tonic_method" where
  "wallet_rpc_unfreeze_asset2 self Q R =
     service_unary self Q R ''/protocol.Wallet/UnfreezeAsset2'' ''protocol.Wallet'' ''UnfreezeAsset2''"

definition wallet_rpc_withdraw_balance ::
  "('v, 'w) grpc_channel \<Rightarrow> pb_withdraw_balance_contract message_codec \<Rightarrow> pb_transaction message_codec
     \<Rightarrow> (pb_withdraw_balance_contract, pb_transaction, 'w) tonic_method" where
  "wallet_rpc_withdraw_balance self Q R =
     service_unary self Q R ''/protocol.Wallet/WithdrawBalance'' ''protocol.Wallet'' ''WithdrawBalance''"

definition wallet_rpc_withdraw_balance2 ::
  "('v, 'w) grpc_channel \<Rightarrow> pb_withdraw_balance_contract message_codec \<Rightarrow> pb_transaction_extention message_codec
     \<Rightarrow> (pb_withdraw_balance_contract, pb_transaction_extention, 'w) tonic_method" where
  "wallet_rpc_withdraw_balance2 self Q R =
     service_unary self Q R ''/protocol.Wallet/WithdrawBalance2'' ''protocol.Wallet'' ''WithdrawBalance2''"

definition wallet_rpc_withdraw_expire_unfreeze ::
  "('v, 'w) grpc_channel \<Rightarrow> pb_withdraw_expire_unfreeze_contract message_codec \<Rightarrow> pb_transaction_extention message_codec
     \<Rightarrow> (pb_withdraw_expire_unfreeze_contract, pb_transaction_extention, 'w) tonic_method" where
  "wallet_rpc_withdraw_expire_unfreeze self Q R =
     service_unary self Q R ''/protocol.Wallet/WithdrawExpireUnfreeze'' ''protocol.Wallet'' ''WithdrawExpireUnfreeze''"

definition wallet_rpc_delegate_resource ::
  "('v, 'w) grpc_channel \<Rightarrow> pb_delegate_resource_contract message_codec \<Rightarrow> pb_transaction_extention message_codec
     \<Rightarrow> (pb_delegate_resource_contract, pb_transaction_extention, 'w) tonic_method" where
  "wallet_rpc_delegate_resource self Q R =
     service_unary self Q R ''/protocol.Wallet/DelegateResource'' ''protocol.Wallet'' ''DelegateResource''"

definition wallet_rpc_un_delegate_resource ::
  "('v, 'w) grpc_channel \<Rightarrow> pb_un_delegate_resource_contract message_codec \<Rightarrow> pb_transaction_extention message_codec
     \<Rightarrow> (pb_un_delegate_resource_contract, pb_transaction_extention, 'w) tonic_method" where
  "wallet_rpc_un_delegate_resource self Q R =
     service_unary self Q R ''/protocol.Wallet/UnDelegateResource'' ''protocol.Wallet'' ''UnDelegateResource''"

definition wallet_rpc_cancel_all_unfreeze_v2 ::
  "('v, 'w) grpc_channel \<Rightarrow> pb_cancel_all_unfreeze_v2_contract message_codec \<Rightarrow> pb_transaction_extention message_codec
     \<Rightarrow> (pb_cancel_all_unfreeze_v2_contract, pb_transaction_extention, 'w) tonic_method" where
  "wallet_rpc_cancel_all_unfreeze_v2 self Q R =
     service_unary self Q R ''/protocol.Wallet/CancelAllUnfreezeV2'' ''protocol.Wallet'' ''CancelAllUnfreezeV2''"

definition wallet_rpc_update_asset ::
  "('v, 'w) grpc_channel \<Rightarrow> pb_update_asset_contract message_codec \<Rightarrow> pb_transaction message_codec
     \<Rightarrow> (pb_update_asset_contract, pb_transaction, 'w) tonic_method" where
  "wallet_rpc_update_asset self Q R =
     service_unary self Q R ''/protocol.Wallet/UpdateAsset'' ''protocol.Wallet'' ''UpdateAsset''"

definition wallet_rpc_update_asset2 ::
  "('v, 'w) grpc_channel \<Rightarrow> pb_update_asset_contract message_codec \<Rightarrow> pb_transaction_extention message_codec
     \<Rightarrow> (pb_update_asset_contract, pb_transaction_extention, 'w) tonic_method" where
  "wallet_rpc_update_asset2 self Q R =
     service_unary self Q R ''/protocol.Wallet/UpdateAsset2'' ''protocol.Wallet'' ''UpdateAsset2''"

definition wallet_rpc_proposal_create ::
  "('v, 'w) grpc_channel \<Rightarrow> pb_proposal_create_contract message_codec \<Rightarrow> pb_transaction_extention message_codec
     \<Rightarrow> (pb_proposal_create_contract, pb_transaction_extention, 'w) tonic_method" where
  "wallet_rpc_proposal_create self Q R =
     service_unary self Q R ''/protocol.Wallet/ProposalCreate'' ''protocol.Wallet'' ''ProposalCreate''"

definition wallet_rpc_proposal_approve ::
  "('v, 'w) grpc_channel \<Rightarrow> pb_proposal_approve_contract message_codec \<Rightarrow> pb_transaction_extention message_codec
     \<Rightarrow> (pb_proposal_approve_contract, pb_transaction_extention, 'w) tonic_method" where
  "wallet_rpc_proposal_approve self Q R =
     service_unary self Q R ''/protocol.Wallet/ProposalApprove'' ''protocol.Wallet'' ''ProposalApprove''"

definition wallet_rpc_proposal_delete ::
  "('v, 'w) grpc_channel \<Rightarrow> pb_proposal_delete_contract message_codec \<Rightarrow> pb_transaction_extention message_codec
     \<Rightarrow> (pb_proposal_delete_contract, pb_transaction_extention, 'w) tonic_method" where
  "wallet_rpc_proposal_delete self Q R =
     service_unary self Q R ''/protocol.Wallet/ProposalDelete'' ''protocol.Wallet'' ''ProposalDelete''"

definition wallet_rpc_buy_storage ::
  "('v, 'w) grpc_channel \<Rightarrow> pb_buy_storage_contract message_codec \<Rightarrow> pb_transaction_extention message_codec
     \<Rightarrow> (pb_buy_storage_contract, pb_transaction_extention, 'w) tonic_method" where
  "wallet_rpc_buy_storage self Q R =
     service_unary self Q R ''/protocol.Wallet/BuyStorage'' ''protocol.Wallet'' ''BuyStorage''"

definition wallet_rpc_buy_storage_bytes ::
  "('v, 'w) grpc_channel \<Rightarrow> pb_buy_storage_bytes_contract message_codec \<Rightarrow> pb_transaction_extention message_codec
     \<Rightarrow> (pb_buy_storage_bytes_contract, pb_transaction_extention, 'w) tonic_method" where
  "wallet_rpc_buy_storage_bytes self Q R =
     service_unary self Q R ''/protocol.Wallet/BuyStorageBytes'' ''protocol.Wallet'' ''BuyStorageBytes''"

definition wallet_rpc_sell_storage ::
  "('v, 'w) grpc_channel \<Rightarrow> pb_sell_storage_contract message_codec \<Rightarrow> pb_transaction_extention message_codec
     \<Rightarrow> (pb_sell_storage_contract, pb_transaction_extention, 'w) tonic_method" where
  "wallet_rpc_sell_storage self Q R =
     service_unary self Q R ''/protocol.Wallet/SellStorage'' ''protocol.Wallet'' ''SellStorage''"

definition wallet_rpc_exchange_create ::
  "('v, 'w) grpc_channel \<Rightarrow> pb_exchange_create_contract message_codec \<Rightarrow> pb_transaction_extention message_codec
     \<Rightarrow> (pb_exchange_create_contract, pb_transaction_extention, 'w) tonic_method" where
  "wallet_rpc_exchange_create self Q R =
     service_unary self Q R ''/protocol.Wallet/ExchangeCreate'' ''protocol.Wallet'' ''ExchangeCreate''"

definition wallet_rpc_exchange_inject ::
  "('v, 'w) grpc_channel \<Rightarrow> pb_exchange_inject_contract message_codec \<Rightarrow> pb_transaction_extention message_codec
     \<Rightarrow> (pb_exchange_inject_contract, pb_transaction_extention, 'w) tonic_method" where
  "wallet_rpc_exchange_inject self Q R =
     service_unary self Q R ''/protocol.Wallet/ExchangeInject'' ''protocol.Wallet'' ''ExchangeInject''"

definition wallet_rpc_exchange_withdraw ::
  "('v, 'w) grpc_channel \<Rightarrow> pb_exchange_withdraw_contract message_codec \<Rightarrow> pb_transaction_extention message_codec
     \<Rightarrow> (pb_exchange_withdraw_contract, pb_transaction_extention, 'w) tonic_method" where
  "wallet_rpc_exchange_withdraw self Q R =
     service_unary self Q R ''/protocol.Wallet/ExchangeWithdraw'' ''protocol.Wallet'' ''ExchangeWithdraw''"

definition wallet_rpc_exchange_transaction ::
  "('v, 'w) grpc_channel \<Rightarrow> pb_exchange_transaction_contract message_codec \<Rightarrow> pb_transaction_extention message_codec
     \<Rightarrow> (pb_exchange_transaction_contract, pb_transaction_extention, 'w) tonic_method" where
  "wallet_rpc_exchange_transaction self Q R =
     service_unary self Q R ''/protocol.Wallet/ExchangeTransaction'' ''protocol.Wallet'' ''ExchangeTransaction''"

definition wallet_rpc_market_sell_asset ::
  "('v, 'w) grpc_channel \<Rightarrow> pb_market_sell_asset_contract message_codec \<Rightarrow> pb_transaction_extention message_codec
     \<Rightarrow> (pb_market_sell_asset_contract, pb_transaction_extention, 'w) tonic_method" where
  "wallet_rpc_market_sell_asset self Q R =
     service_unary self Q R ''/protocol.Wallet/MarketSellAsset'' ''protocol.Wallet'' ''MarketSellAsset''"

definition wallet_rpc_market_cancel_order ::
  "('v, 'w) grpc_channel \<Rightarrow> pb_market_cancel_order_contract message_codec \<Rightarrow> pb_transaction_extention message_codec
     \<Rightarrow> (pb_market_cancel_order_contract, pb_transaction_extention, 'w) tonic_method" where
  "wallet_rpc_market_cancel_order self Q R =
     service_unary self Q R ''/protocol.Wallet/MarketCancelOrder'' ''protocol.Wallet'' ''MarketCancelOrder''"

definition wallet_rpc_get_market_order_by_id ::
  "('v, 'w) grpc_channel \<Rightarrow> pb_bytes_message message_codec \<Rightarrow> pb_market_order message_codec
     \<Rightarrow> (pb_bytes_message, pb_market_order, 'w) tonic_method" where
  "wallet_rpc_get_market_order_by_id self Q R =
     service_unary self Q R ''/protocol.Wallet/GetMarketOrderById'' ''protocol.Wallet'' ''GetMarketOrderById''"

definition wallet_rpc_get_market_order_by_account ::
  "('v, 'w) grpc_channel \<Rightarrow> pb_bytes_message message_codec \<Rightarrow> pb_market_order_list message_codec
     \<Rightarrow> (pb_bytes_message, pb_market_order_list, 'w) tonic_method" where
  "wallet_rpc_get_market_order_by_account self Q R =
     service_unary self Q R ''/protocol.Wallet/GetMarketOrderByAccount'' ''protocol.Wallet'' ''GetMarketOrderByAccount''"

definition wallet_rpc_get_market_price_by_pair ::
  "('v, 'w) grpc_channel \<Rightarrow> pb_market_order_pair message_codec \<Rightarrow> pb_market_price_list message_codec
     \<Rightarrow> (pb_market_order_pair, pb_market_price_list, 'w) tonic_method" where
  "wallet_rpc_get_market_price_by_pair self Q R =
     service_unary self Q R ''/protocol.Wallet/GetMarketPriceByPair'' ''protocol.Wallet'' ''GetMarketPriceByPair''"

definition wallet_rpc_get_market_order_list_by_pair ::
  "('v, 'w) grpc_channel \<Rightarrow> pb_market_order_pair message_codec \<Rightarrow> pb_market_order_list message_codec
     \<Rightarrow> (pb_market_order_pair, pb_market_order_list, 'w) tonic_method" where
  "wallet_rpc_get_market_order_list_by_pair self Q R =
     service_unary self Q R ''/protocol.Wallet/GetMarketOrderListByPair'' ''protocol.Wallet'' ''GetMarketOrderListByPair''"

definition wallet_rpc_get_market_pair_list ::
  "('v, 'w) grpc_channel \<Rightarrow> unit message_codec \<Rightarrow> pb_market_order_pair_list message_codec
     \<Rightarrow> (unit, pb_market_order_pair_list, 'w) tonic_method" where
  "wallet_rpc_get_market_pair_list self Q R =
     service_unary self Q R ''/protocol.Wallet/GetMarketPairList'' ''protocol.Wallet'' ''GetMarketPairList''"

definition wallet_rpc_list_nodes ::
  "('v, 'w) grpc_channel \<Rightarrow> unit message_codec \<Rightarrow> pb_node_list message_codec
     \<Rightarrow> (unit, pb_node_list, 'w) tonic_method" where
  "wallet_rpc_list_nodes self Q R =
     service_unary self Q R ''/protocol.Wallet/ListNodes'' ''protocol.Wallet'' ''ListNodes''"

definition wallet_rpc_get_asset_issue_by_account ::
  "('v, 'w) grpc_channel \<Rightarrow> pb_account message_codec \<Rightarrow> pb_asset_issue_list message_codec
     \<Rightarrow> (pb_account, pb_asset_issue_list, 'w) tonic_method" where
  "wallet_rpc_get_asset_issue_by_account self Q R =
     service_unary self Q R ''/protocol.Wallet/GetAssetIssueByAccount'' ''protocol.Wallet'' ''GetAssetIssueByAccount''"

definition wallet_rpc_get_account_net ::
  "('v, 'w) grpc_channel \<Rightarrow> pb_account message_codec \<Rightarrow> pb_account_net_message message_codec
     \<Rightarrow> (pb_account, pb_account_net_message, 'w) tonic_method" where
  "wallet_rpc_get_account_net self Q R =
     service_unary self Q R ''/protocol.Wallet/GetAccountNet'' ''protocol.Wallet'' ''GetAccountNet''"

definition wallet_rpc_get_account_resource ::
  "('v, 'w) grpc_channel \<Rightarrow> pb_account message_codec \<Rightarrow> pb_account_resource_message message_codec
     \<Rightarrow> (pb_account, pb_account_resource_message, 'w) tonic_method" where
  "wallet_rpc_get_account_resource self Q R =
     service_unary self Q R ''/protocol.Wallet/GetAccountResource'' ''protocol.Wallet'' ''GetAccountResource''"

definition wallet_rpc_get_asset_issue_by_name ::
  "('v, 'w) grpc_channel \<Rightarrow> pb_bytes_message message_codec \<Rightarrow> pb_asset_issue_contract message_codec
     \<Rightarrow> (pb_bytes_message, pb_asset_issue_contract, 'w) tonic_method" where
  "wallet_rpc_get_asset_issue_by_name self Q R =
     service_unary self Q R ''/protocol.Wallet/GetAssetIssueByName'' ''protocol.Wallet'' ''GetAssetIssueByName''"

definition wallet_rpc_get_asset_issue_list_by_name ::
  "('v, 'w) grpc_channel \<Rightarrow> pb_bytes_message message_codec \<Rightarrow> pb_asset_issue_list message_codec
     \<Rightarrow> (pb_bytes_message, pb_asset_issue_list, 'w) tonic_method" where
  "wallet_rpc_get_asset_issue_list_by_name self Q R =
     service_unary self Q R ''/protocol.Wallet/GetAssetIssueListByName'' ''protocol.Wallet'' ''GetAssetIssueListByName''"

definition wallet_rpc_get_asset_issue_by_id ::
  "('v, 'w) grpc_channel \<Rightarrow> pb_bytes_message message_codec \<Rightarrow> pb_asset_issue_contract message_codec
     \<Rightarrow> (pb_bytes_message, pb_asset_issue_contract, 'w) tonic_method" where
  "wallet_rpc_get_asset_issue_by_id self Q R =
     service_unary self Q R ''/protocol.Wallet/GetAssetIssueById'' ''protocol.Wallet'' ''GetAssetIssueById''"

definition wallet_rpc_get_now_block ::
  "('v, 'w) grpc_channel \<Rightarrow> unit message_codec \<Rightarrow> pb_block message_codec
     \<Rightarrow> (unit, pb_block, 'w) tonic_method" where
  "wallet_rpc_get_now_block self Q R =
     service_unary self Q R ''/protocol.Wallet/GetNowBlock'' ''protocol.Wallet'' ''GetNowBlock''"

definition wallet_rpc_get_now_block2 ::
  "('v, 'w) grpc_channel \<Rightarrow> unit message_codec \<Rightarrow> pb_block_extention message_codec
     \<Rightarrow> (unit, pb_block_extention, 'w) tonic_method" where
  "wallet_rpc_get_now_block2 self Q R =
     service_unary self Q R ''/protocol.Wallet/GetNowBlock2'' ''protocol.Wallet'' ''GetNowBlock2''"

definition wallet_rpc_get_block_by_num ::
  "('v, 'w) grpc_channel \<Rightarrow> pb_number_message message_codec \<Rightarrow> pb_block message_codec
     \<Rightarrow> (pb_number_message, pb_block, 'w) tonic_method" where
  "wallet_rpc_get_block_by_num self Q R =
     service_unary self Q R ''/protocol.Wallet/GetBlockByNum'' ''protocol.Wallet'' ''GetBlockByNum''"

definition wallet_rpc_get_block_by_num2 ::
  "('v, 'w) grpc_channel \<Rightarrow> pb_number_message message_codec \<Rightarrow> pb_block_extention message_codec
     \<Rightarrow> (pb_number_message, pb_block_extention, 'w) tonic_method" where
  "wallet_rpc_get_block_by_num2 self Q R =
     service_unary self Q R ''/protocol.Wallet/GetBlockByNum2'' ''protocol.Wallet'' ''GetBlockByNum2''"

definition wallet_rpc_get_transaction_count_by_block_num ::
  "('v, 'w) grpc_channel \<Rightarrow> pb_number_message message_codec \<Rightarrow> pb_number_message message_codec
     \<Rightarrow> (pb_number_message, pb_number_message, 'w) tonic_method" where
  "wallet_rpc_get_transaction_count_by_block_num self Q R =
     service_unary self Q R ''/protocol.Wallet/GetTransactionCountByBlockNum'' ''protocol.Wallet'' ''GetTransactionCountByBlockNum''"

definition wallet_rpc_get_block_by_id ::
  "('v, 'w) grpc_channel \<Rightarrow> pb_bytes_message message_codec \<Rightarrow> pb_block message_codec
     \<Rightarrow> (pb_bytes_message, pb_block, 'w) tonic_method" where
  "wallet_rpc_get_block_by_id self Q R =
     service_unary self Q R ''/protocol.Wallet/GetBlockById'' ''protocol.Wallet'' ''GetBlockById''"

definition wallet_rpc_get_block_by_limit_next ::
  "('v, 'w) grpc_channel \<Rightarrow> pb_block_limit message_codec \<Rightarrow> pb_block_list message_codec
     \<Rightarrow> (pb_block_limit, pb_block_list, 'w) tonic_method" where
  "wallet_rpc_get_block_by_limit_next self Q R =
     service_unary self Q R ''/protocol.Wallet/GetBlockByLimitNext'' ''protocol.Wallet'' ''GetBlockByLimitNext''"

definition wallet_rpc_get_block_by_limit_next2 ::
  "('v, 'w) grpc_channel \<Rightarrow> pb_block_limit message_codec \<Rightarrow> pb_block_list_extention message_codec
     \<Rightarrow> (pb_block_limit, pb_block_list_extention, 'w) tonic_method" where
  "wallet_rpc_get_block_by_limit_next2 self Q R =
     service_unary self Q R ''/protocol.Wallet/GetBlockByLimitNext2'' ''protocol.Wallet'' ''GetBlockByLimitNext2''"

definition wallet_rpc_get_block_by_latest_num ::
  "('v, 'w) grpc_channel \<Rightarrow> pb_number_message message_codec \<Rightarrow> pb_block_list message_codec
     \<Rightarrow> (pb_number_message, pb_block_list, 'w) tonic_method" where
  "wallet_rpc_get_block_by_latest_num self Q R =
     service_unary self Q R ''/protocol.Wallet/GetBlockByLatestNum'' ''protocol.Wallet'' ''GetBlockByLatestNum''"

definition wallet_rpc_get_block_by_latest_num2 ::
  "('v, 'w) grpc_channel \<Rightarrow> pb_number_message message_codec \<Rightarrow> pb_block_list_extention message_codec
     \<Rightarrow> (pb_number_message, pb_block_list_extention, 'w) tonic_method" where
  "wallet_rpc_get_block_by_latest_num2 self Q R =
     service_unary self Q R ''/protocol.Wallet/GetBlockByLatestNum2'' ''protocol.Wallet'' ''GetBlockByLatestNum2''"

definition wallet_rpc_get_transaction_by_id ::
  "('v, 'w) grpc_channel \<Rightarrow> pb_bytes_message message_codec \<Rightarrow> pb_transaction message_codec
     \<Rightarrow> (pb_bytes_message, pb_transaction, 'w) tonic_method" where
  "wallet_rpc_get_transaction_by_id self Q R =
     service_unary self Q R ''/protocol.Wallet/GetTransactionById'' ''protocol.Wallet'' ''GetTransactionById''"

definition wallet_rpc_deploy_contract ::
  "('v, 'w) grpc_channel \<Rightarrow> pb_create_smart_contract message_codec \<Rightarrow> pb_transaction_extention message_codec
     \<Rightarrow> (pb_create_smart_contract, pb_transaction_extention, 'w) tonic_method" where
  "wallet_rpc_deploy_contract self Q R =
     service_unary self Q R ''/protocol.Wallet/DeployContract'' ''protocol.Wallet'' ''DeployContract''"

definition wallet_rpc_get_contract ::
  "('v, 'w) grpc_channel \<Rightarrow> pb_bytes_message message_codec \<Rightarrow> pb_smart_contract message_codec
     \<Rightarrow> (pb_bytes_message, pb_smart_contract, 'w) tonic_method" where
  "wallet_rpc_get_contract self Q R =
     service_unary self Q R ''/protocol.Wallet/GetContract'' ''protocol.Wallet'' ''GetContract''"

definition wallet_rpc_get_contract_info ::
  "('v, 'w) grpc_channel \<Rightarrow> pb_bytes_message message_codec \<Rightarrow> pb_smart_contract_data_wrapper message_codec
     \<Rightarrow> (pb_bytes_message, pb_smart_contract_data_wrapper, 'w) tonic_method" where
  "wallet_rpc_get_contract_info self Q R =
     service_unary self Q R ''/protocol.Wallet/GetContractInfo'' ''protocol.Wallet'' ''GetContractInfo''"

definition wallet_rpc_trigger_contract ::
  "('v, 'w) grpc_channel \<Rightarrow> pb_trigger_smart_contract message_codec \<Rightarrow> pb_transaction_extention message_codec
     \<Rightarrow> (pb_trigger_smart_contract, pb_transaction_extention, 'w) tonic_method" where
  "wallet_rpc_trigger_contract self Q R =
     service_unary self Q R ''/protocol.Wallet/TriggerContract'' ''protocol.Wallet'' ''TriggerContract''"

definition wallet_rpc_trigger_constant_contract ::
  "('v, 'w) grpc_channel \<Rightarrow> pb_trigger_smart_contract message_codec \<Rightarrow> pb_transaction_extention message_codec
     \<Rightarrow> (pb_trigger_smart_contract, pb_transaction_extention, 'w) tonic_method" where
  "wallet_rpc_trigger_constant_contract self Q R =
     service_unary self Q R ''/protocol.Wallet/TriggerConstantContract'' ''protocol.Wallet'' ''TriggerConstantContract''"

definition wallet_rpc_estimate_energy ::
  "('v, 'w) grpc_channel \<Rightarrow> pb_trigger_smart_contract message_codec \<Rightarrow> pb_estimate_energy_message message_codec
     \<Rightarrow> (pb_trigger_smart_contract, pb_estimate_energy_message, 'w) tonic_method" where
  "wallet_rpc_estimate_energy self Q R =
     service_unary self Q R ''/protocol.Wallet/EstimateEnergy'' ''protocol.Wallet'' ''EstimateEnergy''"

definition wallet_rpc_clear_contract_abi ::
  "('v, 'w) grpc_channel \<Rightarrow> pb_clear_abi_contract message_codec \<Rightarrow> pb_transaction_extention message_codec
     \<Rightarrow> (pb_clear_abi_contract, pb_transaction_extention, 'w) tonic_method" where
  "wallet_rpc_clear_contract_abi self Q R =
     service_unary self Q R ''/protocol.Wallet/ClearContractABI'' ''protocol.Wallet'' ''ClearContractABI''"

definition wallet_rpc_list_witnesses ::
  "('v, 'w) grpc_channel \<Rightarrow> unit message_codec \<Rightarrow> pb_witness_list message_codec
     \<Rightarrow> (unit, pb_witness_list, 'w) tonic_method" where
  "wallet_rpc_list_witnesses self Q R =
     service_unary self Q R ''/protocol.Wallet/ListWitnesses'' ''protocol.Wallet'' ''ListWitnesses''"

definition wallet_rpc_get_paginated_now_witness_list ::
  "('v, 'w) grpc_channel \<Rightarrow> pb_paginated_message message_codec \<Rightarrow> pb_witness_list message_codec
     \<Rightarrow> (pb_paginated_message, pb_witness_list, 'w) tonic_method" where
  "wallet_rpc_get_paginated_now_witness_list self Q R =
     service_unary self Q R ''/protocol.Wallet/GetPaginatedNowWitnessList'' ''protocol.Wallet'' ''GetPaginatedNowWitnessList''"

definition wallet_rpc_get_delegated_resource ::
  "('v, 'w) grpc_channel \<Rightarrow> pb_delegated_resource_message message_codec \<Rightarrow> pb_delegated_resource_list message_codec
     \<Rightarrow> (pb_delegated_resource_message, pb_delegated_resource_list, 'w) tonic_method" where
  "wallet_rpc_get_delegated_resource self Q R =
     service_unary self Q R ''/protocol.Wallet/GetDelegatedResource'' ''protocol.Wallet'' ''GetDelegatedResource''"

definition wallet_rpc_get_delegated_resource_v2 ::
  "('v, 'w) grpc_channel \<Rightarrow> pb_delegated_resource_message message_codec \<Rightarrow> pb_delegated_resource_list message_codec
     \<Rightarrow> (pb_delegated_resource_message, pb_delegated_resource_list, 'w) tonic_method" where
  "wallet_rpc_get_delegated_resource_v2 self Q R =
     service_unary self Q R ''/protocol.Wallet/GetDelegatedResourceV2'' ''protocol.Wallet'' ''GetDelegatedResourceV2''"

definition wallet_rpc_get_delegated_resource_account_index ::
  "('v, 'w) grpc_channel \<Rightarrow> pb_bytes_message message_codec \<Rightarrow> pb_delegated_resource_account_index message_codec
     \<Rightarrow> (pb_bytes_message, pb_delegated_resource_account_index, 'w) tonic_method" where
  "wallet_rpc_get_delegated_resource_account_index self Q R =
     service_unary self Q R ''/protocol.Wallet/GetDelegatedResourceAccountIndex'' ''protocol.Wallet'' ''GetDelegatedResourceAccountIndex''"

definition wallet_rpc_get_delegated_resource_account_index_v2 ::
  "('v, 'w) grpc_channel \<Rightarrow> pb_bytes_message message_codec \<Rightarrow> pb_delegated_resource_account_index message_codec
     \<Rightarrow> (pb_bytes_message, pb_delegated_resource_account_index, 'w) tonic_method" where
  "wallet_rpc_get_delegated_resource_account_index_v2 self Q R =
     service_unary self Q R ''/protocol.Wallet/GetDelegatedResourceAccountIndexV2'' ''protocol.Wallet'' ''GetDelegatedResourceAccountIndexV2''"

definition wallet_rpc_get_can_delegated_max_size ::
  "('v, 'w) grpc_channel \<Rightarrow> pb_can_delegated_max_size_request_message message_codec \<Rightarrow> pb_can_delegated_max_size_response_message message_codec
     \<Rightarrow> (pb_can_delegated_max_size_request_message, pb_can_delegated_max_size_response_message, 'w) tonic_method" where
  "wallet_rpc_get_can_delegated_max_size self Q R =
     service_unary self Q R ''/protocol.Wallet/GetCanDelegatedMaxSize'' ''protocol.Wallet'' ''GetCanDelegatedMaxSize''"

definition wallet_rpc_get_available_unfreeze_count ::
  "('v, 'w) grpc_channel \<Rightarrow> pb_get_available_unfreeze_count_request_message message_codec \<Rightarrow> pb_get_available_unfreeze_count_response_message message_codec
     \<Rightarrow> (pb_get_available_unfreeze_count_request_message, pb_get_available_unfreeze_count_response_message, 'w) tonic_method" where
  "wallet_rpc_get_available_unfreeze_count self Q R =
     service_unary self Q R ''/protocol.Wallet/GetAvailableUnfreezeCount'' ''protocol.Wallet'' ''GetAvailableUnfreezeCount''"

definition wallet_rpc_get_can_withdraw_unfreeze_amount ::
  "('v, 'w) grpc_channel \<Rightarrow> pb_can_withdraw_unfreeze_amount_request_message message_codec \<Rightarrow> pb_can_withdraw_unfreeze_amount_response_message message_codec
     \<Rightarrow> (pb_can_withdraw_unfreeze_amount_request_message, pb_can_withdraw_unfreeze_amount_response_message, 'w) tonic_method" where
  "wallet_rpc_get_can_withdraw_unfreeze_amount self Q R =
     service_unary self Q R ''/protocol.Wallet/GetCanWithdrawUnfreezeAmount'' ''protocol.Wallet'' ''GetCanWithdrawUnfreezeAmount''"

definition wallet_rpc_list_proposals ::
  "('v, 'w) grpc_channel \<Rightarrow> unit message_codec \<Rightarrow> pb_proposal_list message_codec
     \<Rightarrow> (unit, pb_proposal_list, 'w) tonic_method" where
  "wallet_rpc_list_proposals self Q R =
     service_unary self Q R ''/protocol.Wallet/ListProposals'' ''protocol.Wallet'' ''ListProposals''"

definition wallet_rpc_get_paginated_proposal_list ::
  "('v, 'w) grpc_channel \<Rightarrow> pb_paginated_message message_codec \<Rightarrow> pb_proposal_list message_codec
     \<Rightarrow> (pb_paginated_message, pb_proposal_list, 'w) tonic_method" where
  "wallet_rpc_get_paginated_proposal_list self Q R =
     service_unary self Q R ''/protocol.Wallet/GetPaginatedProposalList'' ''protocol.Wallet'' ''GetPaginatedProposalList''"

definition wallet_rpc_get_proposal_by_id ::
  "('v, 'w) grpc_channel \<Rightarrow> pb_bytes_message message_codec \<Rightarrow> pb_proposal message_codec
     \<Rightarrow> (pb_bytes_message, pb_proposal, 'w) tonic_method" where
  "wallet_rpc_get_proposal_by_id self Q R =
     service_unary self Q R ''/protocol.Wallet/GetProposalById'' ''protocol.Wallet'' ''GetProposalById''"

definition wallet_rpc_list_exchanges ::
  "('v, 'w) grpc_channel \<Rightarrow> unit message_codec \<Rightarrow> pb_exchange_list message_codec
     \<Rightarrow> (unit, pb_exchange_list, 'w) tonic_method" where
  "wallet_rpc_list_exchanges self Q R =
     service_unary self Q R ''/protocol.Wallet/ListExchanges'' ''protocol.Wallet'' ''ListExchanges''"

definition wallet_rpc_get_paginated_exchange_list ::
  "('v, 'w) grpc_channel \<Rightarrow> pb_paginated_message message_codec \<Rightarrow> pb_exchange_list message_codec
     \<Rightarrow> (pb_paginated_message, pb_exchange_list, 'w) tonic_method" where
  "wallet_rpc_get_paginated_exchange_list self Q R =
     service_unary self Q R ''/protocol.Wallet/GetPaginatedExchangeList'' ''protocol.Wallet'' ''GetPaginatedExchangeList''"

definition wallet_rpc_get_exchange_by_id ::
  "('v, 'w) grpc_channel \<Rightarrow> pb_bytes_message message_codec \<Rightarrow> pb_exchange message_codec
     \<Rightarrow> (pb_bytes_message, pb_exchange, 'w) tonic_method" where
  "wallet_rpc_get_exchange_by_id self Q R =
     service_unary self Q R ''/protocol.Wallet/GetExchangeById'' ''protocol.Wallet'' ''GetExchangeById''"

definition wallet_rpc_get_chain_parameters ::
  "('v, 'w) grpc_channel \<Rightarrow> unit message_codec \<Rightarrow> pb_chain_parameters message_codec
     \<Rightarrow> (unit, pb_chain_parameters, 'w) tonic_method" where
  "wallet_rpc_get_chain_parameters self Q R =
     service_unary self Q R ''/protocol.Wallet/GetChainParameters'' ''protocol.Wallet'' ''GetChainParameters''"

definition wallet_rpc_get_asset_issue_list ::
  "('v, 'w) grpc_channel \<Rightarrow> unit message_codec \<Rightarrow> pb_asset_issue_list message_codec
     \<Rightarrow> (unit, pb_asset_issue_list, 'w) tonic_method" where
  "wallet_rpc_get_asset_issue_list self Q R =
     service_unary self Q R ''/protocol.Wallet/GetAssetIssueList'' ''protocol.Wallet'' ''GetAssetIssueList''"

definition wallet_rpc_get_paginated_asset_issue_list ::
  "('v, 'w) grpc_channel \<Rightarrow> pb_paginated_message message_codec \<Rightarrow> pb_asset_issue_list message_codec
     \<Rightarrow> (pb_paginated_message, pb_asset_issue_list, 'w) tonic_method" where
  "wallet_rpc_get_paginated_asset_issue_list self Q R =
     service_unary self Q R ''/protocol.Wallet/GetPaginatedAssetIssueList'' ''protocol.Wallet'' ''GetPaginatedAssetIssueList''"

definition wallet_rpc_total_transaction ::
  "('v, 'w) grpc_channel \<Rightarrow> unit message_codec \<Rightarrow> pb_number_message message_codec
     \<Rightarrow> (unit, pb_number_message, 'w) tonic_method" where
  "wallet_rpc_total_transaction self Q R =
     service_unary self Q R ''/protocol.Wallet/TotalTransaction'' ''protocol.Wallet'' ''TotalTransaction''"

definition wallet_rpc_get_next_maintenance_time ::
  "('v, 'w) grpc_channel \<Rightarrow> unit message_codec \<Rightarrow> pb_number_message message_codec
     \<Rightarrow> (unit, pb_number_message, 'w) tonic_method" where
  "wallet_rpc_get_next_maintenance_time self Q R =
     service_unary self Q R ''/protocol.Wallet/GetNextMaintenanceTime'' ''protocol.Wallet'' ''GetNextMaintenanceTime''"

definition wallet_rpc_get_transaction_info_by_id ::
  "('v, 'w) grpc_channel \<Rightarrow> pb_bytes_message message_codec \<Rightarrow> pb_transaction_info message_codec
     \<Rightarrow> (pb_bytes_message, pb_transaction_info, 'w) tonic_method" where
  "wallet_rpc_get_transaction_info_by_id self Q R =
     service_unary self Q R ''/protocol.Wallet/GetTransactionInfoById'' ''protocol.Wallet'' ''GetTransactionInfoById''"

definition wallet_rpc_account_permission_update ::
  "('v, 'w) grpc_channel \<Rightarrow> pb_account_permission_update_contract message_codec \<Rightarrow> pb_transaction_extention message_codec
     \<Rightarrow> (pb_account_permission_update_contract, pb_transaction_extention, 'w) tonic_method" where
  "wallet_rpc_account_permission_update self Q R =
     service_unary self Q R ''/protocol.Wallet/AccountPermissionUpdate'' ''protocol.Wallet'' ''AccountPermissionUpdate''"

definition wallet_rpc_get_transaction_sign_weight ::
  "('v, 'w) grpc_channel \<Rightarrow> pb_transaction message_codec \<Rightarrow> pb_transaction_sign_weight message_codec
     \<Rightarrow> (pb_transaction, pb_transaction_sign_weight, 'w) tonic_method" where
  "wallet_rpc_get_transaction_sign_weight self Q R =
     service_unary self Q R ''/protocol.Wallet/GetTransactionSignWeight'' ''protocol.Wallet'' ''GetTransactionSignWeight''"

definition wallet_rpc_get_transaction_approved_list ::
  "('v, 'w) grpc_channel \<Rightarrow> pb_transaction message_codec \<Rightarrow> pb_transaction_approved_list message_codec
     \<Rightarrow> (pb_transaction, pb_transaction_approved_list, 'w) tonic_method" where
  "wallet_rpc_get_transaction_approved_list self Q R =
     service_unary self Q R ''/protocol.Wallet/GetTransactionApprovedList'' ''protocol.Wallet'' ''GetTransactionApprovedList''"

definition wallet_rpc_get_node_info ::
  "('v, 'w) grpc_channel \<Rightarrow> unit message_codec \<Rightarrow> pb_node_info message_codec
     \<Rightarrow> (unit, pb_node_info, 'w) tonic_method" where
  "wallet_rpc_get_node_info self Q R =
     service_unary self Q R ''/protocol.Wallet/GetNodeInfo'' ''protocol.Wallet'' ''GetNodeInfo''"

definition wallet_rpc_get_reward_info ::
  "('v, 'w) grpc_channel \<Rightarrow> pb_bytes_message message_codec \<Rightarrow> pb_number_message message_codec
     \<Rightarrow> (pb_bytes_message, pb_number_message, 'w) tonic_method" where
  "wallet_rpc_get_reward_info self Q R =
     service_unary self Q R ''/protocol.Wallet/GetRewardInfo'' ''protocol.Wallet'' ''GetRewardInfo''"

definition wallet_rpc_get_brokerage_info ::
  "('v, 'w) grpc_channel \<Rightarrow> pb_bytes_message message_codec \<Rightarrow> pb_number_message message_codec
     \<Rightarrow> (pb_bytes_message, pb_number_message, 'w) tonic_method" where
  "wallet_rpc_get_brokerage_info self Q R =
     service_unary self Q R ''/protocol.Wallet/GetBrokerageInfo'' ''protocol.Wallet'' ''GetBrokerageInfo''"

definition wallet_rpc_update_brokerage ::
  "('v, 'w) grpc_channel \<Rightarrow> pb_update_brokerage_contract message_codec \<Rightarrow> pb_transaction_extention message_codec
     \<Rightarrow> (pb_update_brokerage_contract, pb_transaction_extention, 'w) tonic_method" where
  "wallet_rpc_update_brokerage self Q R =
     service_unary self Q R ''/protocol.Wallet/UpdateBrokerage'' ''protocol.Wallet'' ''UpdateBrokerage''"

definition wallet_rpc_create_shielded_transaction ::
  "('v, 'w) grpc_channel \<Rightarrow> pb_private_parameters message_codec \<Rightarrow> pb_transaction_extention message_codec
     \<Rightarrow> (pb_private_parameters, pb_transaction_extention, 'w) tonic_method" where
  "wallet_rpc_create_shielded_transaction self Q R =
     service_unary self Q R ''/protocol.Wallet/CreateShieldedTransaction'' ''protocol.Wallet'' ''CreateShieldedTransaction''"

definition wallet_rpc_get_merkle_tree_voucher_info ::
  "('v, 'w) grpc_channel \<Rightarrow> pb_output_point_info message_codec \<Rightarrow> pb_incremental_merkle_voucher_info message_codec
     \<Rightarrow> (pb_output_point_info, pb_incremental_merkle_voucher_info, 'w) tonic_method" where
  "wallet_rpc_get_merkle_tree_voucher_info self Q R =
     service_unary self Q R ''/protocol.Wallet/GetMerkleTreeVoucherInfo'' ''protocol.Wallet'' ''GetMerkleTreeVoucherInfo''"

definition wallet_rpc_scan_note_by_ivk ::
  "('v, 'w) grpc_channel \<Rightarrow> pb_ivk_decrypt_parameters message_codec \<Rightarrow> pb_decrypt_notes message_codec
     \<Rightarrow> (pb_ivk_decrypt_parameters, pb_decrypt_notes, 'w) tonic_method" where
  "wallet_rpc_scan_note_by_ivk self Q R =
     service_unary self Q R ''/protocol.Wallet/ScanNoteByIvk'' ''protocol.Wallet'' ''ScanNoteByIvk''"

definition wallet_rpc_scan_and_mark_note_by_ivk ::
  "('v, 'w) grpc_channel \<Rightarrow> pb_ivk_decrypt_and_mark_parameters message_codec \<Rightarrow> pb_decrypt_notes_marked message_codec
     \<Rightarrow> (pb_ivk_decrypt_and_mark_parameters, pb_decrypt_notes_marked, 'w) tonic_method" where
  "wallet_rpc_scan_and_mark_note_by_ivk self Q R =
     service_unary self Q R ''/protocol.Wallet/ScanAndMarkNoteByIvk'' ''protocol.Wallet'' ''ScanAndMarkNoteByIvk''"

definition wallet_rpc_scan_note_by_ovk ::
  "('v, 'w) grpc_channel \<Rightarrow> pb_ovk_decrypt_parameters message_codec \<Rightarrow> pb_decrypt_notes message_codec
     \<Rightarrow> (pb_ovk_decrypt_parameters, pb_decrypt_notes, 'w) tonic_method" where
  "wallet_rpc_scan_note_by_ovk self Q R =
     service_unary self Q R ''/protocol.Wallet/ScanNoteByOvk'' ''protocol.Wallet'' ''ScanNoteByOvk''"

definition wallet_rpc_get_spending_key ::
  "('v, 'w) grpc_channel \<Rightarrow> unit message_codec \<Rightarrow> pb_bytes_message message_codec
     \<Rightarrow> (unit, pb_bytes_message, 'w) tonic_method" where
  "wallet_rpc_get_spending_key self Q R =
     service_unary self Q R ''/protocol.Wallet/GetSpendingKey'' ''protocol.Wallet'' ''GetSpendingKey''"

definition wallet_rpc_get_expanded_spending_key ::
  "('v, 'w) grpc_channel \<Rightarrow> pb_bytes_message message_codec \<Rightarrow> pb_expanded_spending_key_message message_codec
     \<Rightarrow> (pb_bytes_message, pb_expanded_spending_key_message, 'w) tonic_method" where
  "wallet_rpc_get_expanded_spending_key self Q R =
     service_unary self Q R ''/protocol.Wallet/GetExpandedSpendingKey'' ''protocol.Wallet'' ''GetExpandedSpendingKey''"

definition wallet_rpc_get_ak_from_ask ::
  "('v, 'w) grpc_channel \<Rightarrow> pb_bytes_message message_codec \<Rightarrow> pb_bytes_message message_codec
     \<Rightarrow> (pb_bytes_message, pb_bytes_message, 'w) tonic_method" where
  "wallet_rpc_get_ak_from_ask self Q R =
     service_unary self Q R ''/protocol.Wallet/GetAkFromAsk'' ''protocol.Wallet'' ''GetAkFromAsk''"

definition wallet_rpc_get_nk_from_nsk ::
  "('v, 'w) grpc_channel \<Rightarrow> pb_bytes_message message_codec \<Rightarrow> pb_bytes_message message_codec
     \<Rightarrow> (pb_bytes_message, pb_bytes_message, 'w) tonic_method" where
  "wallet_rpc_get_nk_from_nsk self Q R =
     service_unary self Q R ''/protocol.Wallet/GetNkFromNsk'' ''protocol.Wallet'' ''GetNkFromNsk''"

definition wallet_rpc_get_incoming_viewing_key ::
  "('v, 'w) grpc_channel \<Rightarrow> pb_viewing_key_message message_codec \<Rightarrow> pb_incoming_viewing_key_message message_codec
     \<Rightarrow> (pb_viewing_key_message, pb_incoming_viewing_key_message, 'w) tonic_method" where
  "wallet_rpc_get_incoming_viewing_key self Q R =
     service_unary self Q R ''/protocol.Wallet/GetIncomingViewingKey'' ''protocol.Wallet'' ''GetIncomingViewingKey''"

definition wallet_rpc_get_diversifier ::
  "('v, 'w) grpc_channel \<Rightarrow> unit message_codec \<Rightarrow> pb_diversifier_message message_codec
     \<Rightarrow> (unit, pb_diversifier_message, 'w) tonic_method" where
  "wallet_rpc_get_diversifier self Q R =
     service_unary self Q R ''/protocol.Wallet/GetDiversifier'' ''protocol.Wallet'' ''GetDiversifier''"

definition wallet_rpc_get_new_shielded_address ::
  "('v, 'w) grpc_channel \<Rightarrow> unit message_codec \<Rightarrow> pb_shielded_address_info message_codec
     \<Rightarrow> (unit, pb_shielded_address_info, 'w) tonic_method" where
  "wallet_rpc_get_new_shielded_address self Q R =
     service_unary self Q R ''/protocol.Wallet/GetNewShieldedAddress'' ''protocol.Wallet'' ''GetNewShieldedAddress''"

definition wallet_rpc_get_zen_payment_address ::
  "('v, 'w) grpc_channel \<Rightarrow> pb_incoming_viewing_key_diversifier_message message_codec \<Rightarrow> pb_payment_address_message message_codec
     \<Rightarrow> (pb_incoming_viewing_key_diversifier_message, pb_payment_address_message, 'w) tonic_method" where
  "wallet_rpc_get_zen_payment_address self Q R =
     service_unary self Q R ''/protocol.Wallet/GetZenPaymentAddress'' ''protocol.Wallet'' ''GetZenPaymentAddress''"

definition wallet_rpc_get_rcm ::
  "('v, 'w) grpc_channel \<Rightarrow> unit message_codec \<Rightarrow> pb_bytes_message message_codec
     \<Rightarrow> (unit, pb_bytes_message, 'w) tonic_method" where
  "wallet_rpc_get_rcm self Q R =
     service_unary self Q R ''/protocol.Wallet/GetRcm'' ''protocol.Wallet'' ''GetRcm''"

definition wallet_rpc_is_spend ::
  "('v, 'w) grpc_channel \<Rightarrow> pb_note_parameters message_codec \<Rightarrow> pb_spend_result message_codec
     \<Rightarrow> (pb_note_parameters, pb_spend_result, 'w) tonic_method" where
  "wallet_rpc_is_spend self Q R =
     service_unary self Q R ''/protocol.Wallet/IsSpend'' ''protocol.Wallet'' ''IsSpend''"

definition wallet_rpc_create_shielded_transaction_without_spend_auth_sig ::
  "('v, 'w) grpc_channel \<Rightarrow> pb_private_parameters_without_ask message_codec \<Rightarrow> pb_transaction_extention message_codec
     \<Rightarrow> (pb_private_parameters_without_ask, pb_transaction_extention, 'w) tonic_method" where
  "wallet_rpc_create_shielded_transaction_without_spend_auth_sig self Q R =
     service_unary self Q R ''/protocol.Wallet/CreateShieldedTransactionWithoutSpendAuthSig'' ''protocol.Wallet'' ''CreateShieldedTransactionWithoutSpendAuthSig''"

definition wallet_rpc_get_shield_transaction_hash ::
  "('v, 'w) grpc_channel \<Rightarrow> pb_transaction message_codec \<Rightarrow> pb_bytes_message message_codec
     \<Rightarrow> (pb_transaction, pb_bytes_message, 'w) tonic_method" where
  "wallet_rpc_get_shield_transaction_hash self Q R =
     service_unary self Q R ''/protocol.Wallet/GetShieldTransactionHash'' ''protocol.Wallet'' ''GetShieldTransactionHash''"

definition wallet_rpc_create_spend_auth_sig ::
  "('v, 'w) grpc_channel \<Rightarrow> pb_spend_auth_sig_parameters message_codec \<Rightarrow> pb_bytes_message message_codec
     \<Rightarrow> (pb_spend_auth_sig_parameters, pb_bytes_message, 'w) tonic_method" where
  "wallet_rpc_create_spend_auth_sig self Q R =
     service_unary self Q R ''/protocol.Wallet/CreateSpendAuthSig'' ''protocol.Wallet'' ''CreateSpendAuthSig''"

definition wallet_rpc_create_shield_nullifier ::
  "('v, 'w) grpc_channel \<Rightarrow> pb_nf_parameters message_codec \<Rightarrow> pb_bytes_message message_codec
     \<Rightarrow> (pb_nf_parameters, pb_bytes_message, 'w) tonic_method" where
  "wallet_rpc_create_shield_nullifier self Q R =
     service_unary self Q R ''/protocol.Wallet/CreateShieldNullifier'' ''protocol.Wallet'' ''CreateShieldNullifier''"

definition wallet_rpc_create_shielded_contract_parameters ::
  "('v, 'w) grpc_channel \<Rightarrow> pb_private_shielded_trc20_parameters message_codec \<Rightarrow> pb_shielded_trc20_parameters message_codec
     \<Rightarrow> (pb_private_shielded_trc20_parameters, pb_shielded_trc20_parameters, 'w) tonic_method" where
  "wallet_rpc_create_shielded_contract_parameters self Q R =
     service_unary self Q R ''/protocol.Wallet/CreateShieldedContractParameters'' ''protocol.Wallet'' ''CreateShieldedContractParameters''"

definition wallet_rpc_create_shielded_contract_parameters_without_ask ::
  "('v, 'w) grpc_channel \<Rightarrow> pb_private_shielded_trc20_parameters_without_ask message_codec \<Rightarrow> pb_shielded_trc20_parameters message_codec
     \<Rightarrow> (pb_private_shielded_trc20_parameters_without_ask, pb_shielded_trc20_parameters, 'w) tonic_method" where
  "wallet_rpc_create_shielded_contract_parameters_without_ask self Q R =
     service_unary self Q R ''/protocol.Wallet/CreateShieldedContractParametersWithoutAsk'' ''protocol.Wallet'' ''CreateShieldedContractParametersWithoutAsk''"

definition wallet_rpc_scan_shielded_trc20_notes_by_ivk ::
  "('v, 'w) grpc_channel \<Rightarrow> pb_ivk_decrypt_trc20_parameters message_codec \<Rightarrow> pb_decrypt_notes_trc20 message_codec
     \<Rightarrow> (pb_ivk_decrypt_trc20_parameters, pb_decrypt_notes_trc20, 'w) tonic_method" where
  "wallet_rpc_scan_shielded_trc20_notes_by_ivk self Q R =
     service_unary self Q R ''/protocol.Wallet/ScanShieldedTRC20NotesByIvk'' ''protocol.Wallet'' ''ScanShieldedTRC20NotesByIvk''"

definition wallet_rpc_scan_shielded_trc20_notes_by_ovk ::
  "('v, 'w) grpc_channel \<Rightarrow> pb_ovk_decrypt_trc20_parameters message_codec \<Rightarrow> pb_decrypt_notes_trc20 message_codec
     \<Rightarrow> (pb_ovk_decrypt_trc20_parameters, pb_decrypt_notes_trc20, 'w) tonic_method" where
  "wallet_rpc_scan_shielded_trc20_notes_by_ovk self Q R =
     service_unary self Q R ''/protocol.Wallet/ScanShieldedTRC20NotesByOvk'' ''protocol.Wallet'' ''ScanShieldedTRC20NotesByOvk''"

definition wallet_rpc_is_shielded_trc20_contract_note_spent ::
  "('v, 'w) grpc_channel \<Rightarrow> pb_nf_trc20_parameters message_codec \<Rightarrow> pb_nullifier_result message_codec
     \<Rightarrow> (pb_nf_trc20_parameters, pb_nullifier_result, 'w) tonic_method" where
  "wallet_rpc_is_shielded_trc20_contract_note_spent self Q R =
     service_unary self Q R ''/protocol.Wallet/IsShieldedTRC20ContractNoteSpent'' ''protocol.Wallet'' ''IsShieldedTRC20ContractNoteSpent''"

definition wallet_rpc_get_trigger_input_for_shielded_trc20_contract ::
  "('v, 'w) grpc_channel \<Rightarrow> pb_shielded_trc20_trigger_contract_parameters message_codec \<Rightarrow> pb_bytes_message message_codec
     \<Rightarrow> (pb_shielded_trc20_trigger_contract_parameters, pb_bytes_message, 'w) tonic_method" where
  "wallet_rpc_get_trigger_input_for_shielded_trc20_contract self Q R =
     service_unary self Q R ''/protocol.Wallet/GetTriggerInputForShieldedTRC20Contract'' ''protocol.Wallet'' ''GetTriggerInputForShieldedTRC20Contract''"

definition wallet_rpc_create_common_transaction ::
  "('v, 'w) grpc_channel \<Rightarrow> pb_transaction message_codec \<Rightarrow> pb_transaction_extention message_codec
     \<Rightarrow> (pb_transaction, pb_transaction_extention, 'w) tonic_method" where
  "wallet_rpc_create_common_transaction self Q R =
     service_unary self Q R ''/protocol.Wallet/CreateCommonTransaction'' ''protocol.Wallet'' ''CreateCommonTransaction''"

definition wallet_rpc_get_transaction_info_by_block_num ::
  "('v, 'w) grpc_channel \<Rightarrow> pb_number_message message_codec \<Rightarrow> pb_transaction_info_list message_codec
     \<Rightarrow> (pb_number_message, pb_transaction_info_list, 'w) tonic_method" where
  "wallet_rpc_get_transaction_info_by_block_num self Q R =
     service_unary self Q R ''/protocol.Wallet/GetTransactionInfoByBlockNum'' ''protocol.Wallet'' ''GetTransactionInfoByBlockNum''"

definition wallet_rpc_get_burn_trx ::
  "('v, 'w) grpc_channel \<Rightarrow> unit message_codec \<Rightarrow> pb_number_message message_codec
     \<Rightarrow> (unit, pb_number_message, 'w) tonic_method" where
  "wallet_rpc_get_burn_trx self Q R =
     service_unary self Q R ''/protocol.Wallet/GetBurnTrx'' ''protocol.Wallet'' ''GetBurnTrx''"

definition wallet_rpc_get_transaction_from_pending ::
  "('v, 'w) grpc_channel \<Rightarrow> pb_bytes_message message_codec \<Rightarrow> pb_transaction message_codec
     \<Rightarrow> (pb_bytes_message, pb_transaction, 'w) tonic_method" where
  "wallet_rpc_get_transaction_from_pending self Q R =
     service_unary self Q R ''/protocol.Wallet/GetTransactionFromPending'' ''protocol.Wallet'' ''GetTransactionFromPending''"

definition wallet_rpc_get_transaction_list_from_pending ::
  "('v, 'w) grpc_channel \<Rightarrow> unit message_codec \<Rightarrow> pb_transaction_id_list message_codec
     \<Rightarrow> (unit, pb_transaction_id_list, 'w) tonic_method" where
  "wallet_rpc_get_transaction_list_from_pending self Q R =
     service_unary self Q R ''/protocol.Wallet/GetTransactionListFromPending'' ''protocol.Wallet'' ''GetTransactionListFromPending''"

definition wallet_rpc_get_pending_size ::
  "('v, 'w) grpc_channel \<Rightarrow> unit message_codec \<Rightarrow> pb_number_message message_codec
     \<Rightarrow> (unit, pb_number_message, 'w) tonic_method" where
  "wallet_rpc_get_pending_size self Q R =
     service_unary self Q R ''/protocol.Wallet/GetPendingSize'' ''protocol.Wallet'' ''GetPendingSize''"

definition wallet_rpc_get_block ::
  "('v, 'w) grpc_channel \<Rightarrow> pb_block_req message_codec \<Rightarrow> pb_block_extention message_codec
     \<Rightarrow> (pb_block_req, pb_block_extention, 'w) tonic_method" where
  "wallet_rpc_get_block self Q R =
     service_unary self Q R ''/protocol.Wallet/GetBlock'' ''protocol.Wallet'' ''GetBlock''"

definition wallet_rpc_get_bandwidth_prices ::
  "('v, 'w) grpc_channel \<Rightarrow> unit message_codec \<Rightarrow> pb_prices_response_message message_codec
     \<Rightarrow> (unit, pb_prices_response_message, 'w) tonic_method" where
  "wallet_rpc_get_bandwidth_prices self Q R =
     service_unary self Q R ''/protocol.Wallet/GetBandwidthPrices'' ''protocol.Wallet'' ''GetBandwidthPrices''"

definition wallet_rpc_get_energy_prices ::
  "('v, 'w) grpc_channel \<Rightarrow> unit message_codec \<Rightarrow> pb_prices_response_message message_codec
     \<Rightarrow> (unit, pb_prices_response_message, 'w) tonic_method" where
  "wallet_rpc_get_energy_prices self Q R =
     service_unary self Q R ''/protocol.Wallet/GetEnergyPrices'' ''protocol.Wallet'' ''GetEnergyPrices''"

definition wallet_rpc_get_memo_fee ::
  "('v, 'w) grpc_channel \<Rightarrow> unit message_codec \<Rightarrow> pb_prices_response_message message_codec
     \<Rightarrow> (unit, pb_prices_response_message, 'w) tonic_method" where
  "wallet_rpc_get_memo_fee self Q R =
     service_unary self Q R ''/protocol.Wallet/GetMemoFee'' ''protocol.Wallet'' ''GetMemoFee''"

end
