(* ===== verification/Other_Services.thy ===== *)
theory Other_Services
  imports Wallet_Service
begin

text \<open>
  The generated clients of \<open>protocol.WalletSolidity\<close>, \<open>protocol.WalletExtension\<close>,
  \<open>protocol.Database\<close> and \<open>protocol.Monitor\<close>
  (\<open>crates/provider/src/generated/services.rs\<close>): one definition per method, in the order of the
  file.  \<open>mod network_client\<close> has no method.
\<close>

section \<open>The solidity service\<close>

definition solidity_rpc_get_account ::
  "('v, 'w) grpc_channel \<Rightarrow> pb_account message_codec \<Rightarrow> pb_account message_codec
     \<Rightarrow> (pb_account, pb_account, 'w) tonic_method" where
  "solidity_rpc_get_account self Q R =
     service_unary self Q R ''/protocol.WalletSolidity/GetAccount'' ''protocol.WalletSolidity'' ''GetAccount''"

definition solidity_rpc_get_account_by_id ::
  "('v, 'w) grpc_channel \<Rightarrow> pb_account message_codec \<Rightarrow> pb_account message_codec
     \<Rightarrow> (pb_account, pb_account, 'w) tonic_method" where
  "solidity_rpc_get_account_by_id self Q R =
     service_unary self Q R ''/protocol.WalletSolidity/GetAccountById'' ''protocol.WalletSolidity'' ''GetAccountById''"

definition solidity_rpc_list_witnesses ::
  "('v, 'w) grpc_channel \<Rightarrow> unit message_codec \<Rightarrow> pb_witness_list message_codec
     \<Rightarrow> (unit, pb_witness_list, 'w) tonic_method" where
  "solidity_rpc_list_witnesses self Q R =
     service_unary self Q R ''/protocol.WalletSolidity/ListWitnesses'' ''protocol.WalletSolidity'' ''ListWitnesses''"

definition solidity_rpc_get_paginated_now_witness_list ::
  "('v, 'w) grpc_channel \<Rightarrow> pb_paginated_message message_codec \<Rightarrow> pb_witness_list message_codec
     \<Rightarrow> (pb_paginated_message, pb_witness_list, 'w) tonic_method" where
  "solidity_rpc_get_paginated_now_witness_list self Q R =
     service_unary self Q R ''/protocol.WalletSolidity/GetPaginatedNowWitnessList'' ''protocol.WalletSolidity'' ''GetPaginatedNowWitnessList''"

definition solidity_rpc_get_asset_issue_list ::
  "('v, 'w) grpc_channel \<Rightarrow> unit message_codec \<Rightarrow> pb_asset_issue_list message_codec
     \<Rightarrow> (unit, pb_asset_issue_list, 'w) tonic_method" where
  "solidity_rpc_get_asset_issue_list self Q R =
     service_unary self Q R ''/protocol.WalletSolidity/GetAssetIssueList'' ''protocol.WalletSolidity'' ''GetAssetIssueList''"

definition solidity_rpc_get_paginated_asset_issue_list ::
  "('v, 'w) grpc_channel \<Rightarrow> pb_paginated_message message_codec \<Rightarrow> pb_asset_issue_list message_codec
     \<Rightarrow> (pb_paginated_message, pb_asset_issue_list, 'w) tonic_method" where
  "solidity_rpc_get_paginated_asset_issue_list self Q R =
     service_unary self Q R ''/protocol.WalletSolidity/GetPaginatedAssetIssueList'' ''protocol.WalletSolidity'' ''GetPaginatedAssetIssueList''"

definition solidity_rpc_get_asset_issue_by_name ::
  "('v, 'w) grpc_channel \<Rightarrow> pb_bytes_message message_codec \<Rightarrow> pb_asset_issue_contract message_codec
     \<Rightarrow> (pb_bytes_message, pb_asset_issue_contract, 'w) tonic_method" where
  "solidity_rpc_get_asset_issue_by_name self Q R =
     service_unary self Q R ''/protocol.WalletSolidity/GetAssetIssueByName'' ''protocol.WalletSolidity'' ''GetAssetIssueByName''"

definition solidity_rpc_get_asset_issue_list_by_name ::
  "('v, 'w) grpc_channel \<Rightarrow> pb_bytes_message message_codec \<Rightarrow> pb_asset_issue_list message_codec
     \<Rightarrow> (pb_bytes_message, pb_asset_issue_list, 'w) tonic_method" where
  "solidity_rpc_get_asset_issue_list_by_name self Q R =
     service_unary self Q R ''/protocol.WalletSolidity/GetAssetIssueListByName'' ''protocol.WalletSolidity'' ''GetAssetIssueListByName''"

definition solidity_rpc_get_asset_issue_by_id ::
  "('v, 'w) grpc_channel \<Rightarrow> pb_bytes_message message_codec \<Rightarrow> pb_asset_issue_contract message_codec
     \<Rightarrow> (pb_bytes_message, pb_asset_issue_contract, 'w) tonic_method" where
  "solidity_rpc_get_asset_issue_by_id self Q R =
     service_unary self Q R ''/protocol.WalletSolidity/GetAssetIssueById'' ''protocol.WalletSolidity'' ''GetAssetIssueById''"

definition solidity_rpc_get_now_block ::
  "('v, 'w) grpc_channel \<Rightarrow> unit message_codec \<Rightarrow> pb_block message_codec
     \<Rightarrow> (unit, pb_block, 'w) tonic_method" where
  "solidity_rpc_get_now_block self Q R =
     service_unary self Q R ''/protocol.WalletSolidity/GetNowBlock'' ''protocol.WalletSolidity'' ''GetNowBlock''"

definition solidity_rpc_get_now_block2 ::
  "('v, 'w) grpc_channel \<Rightarrow> unit message_codec \<Rightarrow> pb_block_extention message_codec
     \<Rightarrow> (unit, pb_block_extention, 'w) tonic_method" where
  "solidity_rpc_get_now_block2 self Q R =
     service_unary self Q R ''/protocol.WalletSolidity/GetNowBlock2'' ''protocol.WalletSolidity'' ''GetNowBlock2''"

definition solidity_rpc_get_block_by_num ::
  "('v, 'w) grpc_channel \<Rightarrow> pb_number_message message_codec \<Rightarrow> pb_block message_codec
     \<Rightarrow> (pb_number_message, pb_block, 'w) tonic_method" where
  "solidity_rpc_get_block_by_num self Q R =
     service_unary self Q R ''/protocol.WalletSolidity/GetBlockByNum'' ''protocol.WalletSolidity'' ''GetBlockByNum''"

definition solidity_rpc_get_block_by_num2 ::
  "('v, 'w) grpc_channel \<Rightarrow> pb_number_message message_codec \<Rightarrow> pb_block_extention message_codec
     \<Rightarrow> (pb_number_message, pb_block_extention, 'w) tonic_method" where
  "solidity_rpc_get_block_by_num2 self Q R =
     service_unary self Q R ''/protocol.WalletSolidity/GetBlockByNum2'' ''protocol.WalletSolidity'' ''GetBlockByNum2''"

definition solidity_rpc_get_transaction_count_by_block_num ::
  "('v, 'w) grpc_channel \<Rightarrow> pb_number_message message_codec \<Rightarrow> pb_number_message message_codec
     \<Rightarrow> (pb_number_message, pb_number_message, 'w) tonic_method" where
  "solidity_rpc_get_transaction_count_by_block_num self Q R =
     service_unary self Q R ''/protocol.WalletSolidity/GetTransactionCountByBlockNum'' ''protocol.WalletSolidity'' ''GetTransactionCountByBlockNum''"

definition solidity_rpc_get_delegated_resource ::
  "('v, 'w) grpc_channel \<Rightarrow> pb_delegated_resource_message message_codec \<Rightarrow> pb_delegated_resource_list message_codec
     \<Rightarrow> (pb_delegated_resource_message, pb_delegated_resource_list, 'w) tonic_method" where
  "solidity_rpc_get_delegated_resource self Q R =
     service_unary self Q R ''/protocol.WalletSolidity/GetDelegatedResource'' ''protocol.WalletSolidity'' ''GetDelegatedResource''"

definition solidity_rpc_get_delegated_resource_v2 ::
  "('v, 'w) grpc_channel \<Rightarrow> pb_delegated_resource_message message_codec \<Rightarrow> pb_delegated_resource_list message_codec
     \<Rightarrow> (pb_delegated_resource_message, pb_delegated_resource_list, 'w) tonic_method" where
  "solidity_rpc_get_delegated_resource_v2 self Q R =
     service_unary self Q R ''/protocol.WalletSolidity/GetDelegatedResourceV2'' ''protocol.WalletSolidity'' ''GetDelegatedResourceV2''"

definition solidity_rpc_get_delegated_resource_account_index ::
  "('v, 'w) grpc_channel \<Rightarrow> pb_bytes_message message_codec \<Rightarrow> pb_delegated_resource_account_index message_codec
     \<Rightarrow> (pb_bytes_message, pb_delegated_resource_account_index, 'w) tonic_method" where
  "solidity_rpc_get_delegated_resource_account_index self Q R =
     service_unary self Q R ''/protocol.WalletSolidity/GetDelegatedResourceAccountIndex'' ''protocol.WalletSolidity'' ''GetDelegatedResourceAccountIndex''"

definition solidity_rpc_get_delegated_resource_account_index_v2 ::
  "('v, 'w) grpc_channel \<Rightarrow> pb_bytes_message message_codec \<Rightarrow> pb_delegated_resource_account_index message_codec
     \<Rightarrow> (pb_bytes_message, pb_delegated_resource_account_index, 'w) tonic_method" where
  "solidity_rpc_get_delegated_resource_account_index_v2 self Q R =
     service_unary self Q R ''/protocol.WalletSolidity/GetDelegatedResourceAccountIndexV2'' ''protocol.WalletSolidity'' ''GetDelegatedResourceAccountIndexV2''"

definition solidity_rpc_get_can_delegated_max_size ::
  "('v, 'w) grpc_channel \<Rightarrow> pb_can_delegated_max_size_request_message message_codec \<Rightarrow> pb_can_delegated_max_size_response_message message_codec
     \<Rightarrow> (pb_can_delegated_max_size_request_message, pb_can_delegated_max_size_response_message, 'w) tonic_method" where
  "solidity_rpc_get_can_delegated_max_size self Q R =
     service_unary self Q R ''/protocol.WalletSolidity/GetCanDelegatedMaxSize'' ''protocol.WalletSolidity'' ''GetCanDelegatedMaxSize''"

definition solidity_rpc_get_available_unfreeze_count ::
  "('v, 'w) grpc_channel \<Rightarrow> pb_get_available_unfreeze_count_request_message message_codec \<Rightarrow> pb_get_available_unfreeze_count_response_message message_codec
     \<Rightarrow> (pb_get_available_unfreeze_count_request_message, pb_get_available_unfreeze_count_response_message, 'w) tonic_method" where
  "solidity_rpc_get_available_unfreeze_count self Q R =
     service_unary self Q R ''/protocol.WalletSolidity/GetAvailableUnfreezeCount'' ''protocol.WalletSolidity'' ''GetAvailableUnfreezeCount''"

definition solidity_rpc_get_can_withdraw_unfreeze_amount ::
  "('v, 'w) grpc_channel \<Rightarrow> pb_can_withdraw_unfreeze_amount_request_message message_codec \<Rightarrow> pb_can_withdraw_unfreeze_amount_response_message message_codec
     \<Rightarrow> (pb_can_withdraw_unfreeze_amount_request_message, pb_can_withdraw_unfreeze_amount_response_message, 'w) tonic_method" where
  "solidity_rpc_get_can_withdraw_unfreeze_amount self Q R =
     service_unary self Q R ''/protocol.WalletSolidity/GetCanWithdrawUnfreezeAmount'' ''protocol.WalletSolidity'' ''GetCanWithdrawUnfreezeAmount''"

definition solidity_rpc_get_exchange_by_id ::
  "('v, 'w) grpc_channel \<Rightarrow> pb_bytes_message message_codec \<Rightarrow> pb_exchange message_codec
     \<Rightarrow> (pb_bytes_message, pb_exchange, 'w) tonic_method" where
  "solidity_rpc_get_exchange_by_id self Q R =
     service_unary self Q R ''/protocol.WalletSolidity/GetExchangeById'' ''protocol.WalletSolidity'' ''GetExchangeById''"

definition solidity_rpc_list_exchanges ::
  "('v, 'w) grpc_channel \<Rightarrow> unit message_codec \<Rightarrow> pb_exchange_list message_codec
     \<Rightarrow> (unit, pb_exchange_list, 'w) tonic_method" where
  "solidity_rpc_list_exchanges self Q R =
     service_unary self Q R ''/protocol.WalletSolidity/ListExchanges'' ''protocol.WalletSolidity'' ''ListExchanges''"

definition solidity_rpc_get_transaction_by_id ::
  "('v, 'w) grpc_channel \<Rightarrow> pb_bytes_message message_codec \<Rightarrow> pb_transaction message_codec
     \<Rightarrow> (pb_bytes_message, pb_transaction, 'w) tonic_method" where
  "solidity_rpc_get_transaction_by_id self Q R =
     service_unary self Q R ''/protocol.WalletSolidity/GetTransactionById'' ''protocol.WalletSolidity'' ''GetTransactionById''"

definition solidity_rpc_get_transaction_info_by_id ::
  "('v, 'w) grpc_channel \<Rightarrow> pb_bytes_message message_codec \<Rightarrow> pb_transaction_info message_codec
     \<Rightarrow> (pb_bytes_message, pb_transaction_info, 'w) tonic_method" where
  "solidity_rpc_get_transaction_info_by_id self Q R =
     service_unary self Q R ''/protocol.WalletSolidity/GetTransactionInfoById'' ''protocol.WalletSolidity'' ''GetTransactionInfoById''"

definition solidity_rpc_get_merkle_tree_voucher_info ::
  "('v, 'w) grpc_channel \<Rightarrow> pb_output_point_info message_codec \<Rightarrow> pb_incremental_merkle_voucher_info message_codec
     \<Rightarrow> (pb_output_point_info, pb_incremental_merkle_voucher_info, 'w) tonic_method" where
  "solidity_rpc_get_merkle_tree_voucher_info self Q R =
     service_unary self Q R ''/protocol.WalletSolidity/GetMerkleTreeVoucherInfo'' ''protocol.WalletSolidity'' ''GetMerkleTreeVoucherInfo''"

definition solidity_rpc_scan_note_by_ivk ::
  "('v, 'w) grpc_channel \<Rightarrow> pb_ivk_decrypt_parameters message_codec \<Rightarrow> pb_decrypt_notes message_codec
     \<Rightarrow> (pb_ivk_decrypt_parameters, pb_decrypt_notes, 'w) tonic_method" where
  "solidity_rpc_scan_note_by_ivk self Q R =
     service_unary self Q R ''/protocol.WalletSolidity/ScanNoteByIvk'' ''protocol.WalletSolidity'' ''ScanNoteByIvk''"

definition solidity_rpc_scan_and_mark_note_by_ivk ::
  "('v, 'w) grpc_channel \<Rightarrow> pb_ivk_decrypt_and_mark_parameters message_codec \<Rightarrow> pb_decrypt_notes_marked message_codec
     \<Rightarrow> (pb_ivk_decrypt_and_mark_parameters, pb_decrypt_notes_marked, 'w) tonic_method" where
  "solidity_rpc_scan_and_mark_note_by_ivk self Q R =
     service_unary self Q R ''/protocol.WalletSolidity/ScanAndMarkNoteByIvk'' ''protocol.WalletSolidity'' ''ScanAndMarkNoteByIvk''"

definition solidity_rpc_scan_note_by_ovk ::
  "('v, 'w) grpc_channel \<Rightarrow> pb_ovk_decrypt_parameters message_codec \<Rightarrow> pb_decrypt_notes message_codec
     \<Rightarrow> (pb_ovk_decrypt_parameters, pb_decrypt_notes, 'w) tonic_method" where
  "solidity_rpc_scan_note_by_ovk self Q R =
     service_unary self Q R ''/protocol.WalletSolidity/ScanNoteByOvk'' ''protocol.WalletSolidity'' ''ScanNoteByOvk''"

definition solidity_rpc_is_spend ::
  "('v, 'w) grpc_channel \<Rightarrow> pb_note_parameters message_codec \<Rightarrow> pb_spend_result message_codec
     \<Rightarrow> (pb_note_parameters, pb_spend_result, 'w) tonic_method" where
  "solidity_rpc_is_spend self Q R =
     service_unary self Q R ''/protocol.WalletSolidity/IsSpend'' ''protocol.WalletSolidity'' ''IsSpend''"

definition solidity_rpc_scan_shielded_trc20_notes_by_ivk ::
  "('v, 'w) grpc_channel \<Rightarrow> pb_ivk_decrypt_trc20_parameters message_codec \<Rightarrow> pb_decrypt_notes_trc20 message_codec
     \<Rightarrow> (pb_ivk_decrypt_trc20_parameters, pb_decrypt_notes_trc20, 'w) tonic_method" where
  "solidity_rpc_scan_shielded_trc20_notes_by_ivk self Q R =
     service_unary self Q R ''/protocol.WalletSolidity/ScanShieldedTRC20NotesByIvk'' ''protocol.WalletSolidity'' ''ScanShieldedTRC20NotesByIvk''"

definition solidity_rpc_scan_shielded_trc20_notes_by_ovk ::
  "('v, 'w) grpc_channel \<Rightarrow> pb_ovk_decrypt_trc20_parameters message_codec \<Rightarrow> pb_decrypt_notes_trc20 message_codec
     \<Rightarrow> (pb_ovk_decrypt_trc20_parameters, pb_decrypt_notes_trc20, 'w) tonic_method" where
  "solidity_rpc_scan_shielded_trc20_notes_by_ovk self Q R =
     service_unary self Q R ''/protocol.WalletSolidity/ScanShieldedTRC20NotesByOvk'' ''protocol.WalletSolidity'' ''ScanShieldedTRC20NotesByOvk''"

definition solidity_rpc_is_shielded_trc20_contract_note_spent ::
  "('v, 'w) grpc_channel \<Rightarrow> pb_nf_trc20_parameters message_codec \<Rightarrow> pb_nullifier_result message_codec
     \<Rightarrow> (pb_nf_trc20_parameters, pb_nullifier_result, 'w) tonic_method" where
  "solidity_rpc_is_shielded_trc20_contract_note_spent self Q R =
     service_unary self Q R ''/protocol.WalletSolidity/IsShieldedTRC20ContractNoteSpent'' ''protocol.WalletSolidity'' ''IsShieldedTRC20ContractNoteSpent''"

definition solidity_rpc_get_reward_info ::
  "('v, 'w) grpc_channel \<Rightarrow> pb_bytes_message message_codec \<Rightarrow> pb_number_message message_codec
     \<Rightarrow> (pb_bytes_message, pb_number_message, 'w) tonic_method" where
  "solidity_rpc_get_reward_info self Q R =
     service_unary self Q R ''/protocol.WalletSolidity/GetRewardInfo'' ''protocol.WalletSolidity'' ''GetRewardInfo''"

definition solidity_rpc_get_brokerage_info ::
  "('v, 'w) grpc_channel \<Rightarrow> pb_bytes_message message_codec \<Rightarrow> pb_number_message message_codec
     \<Rightarrow> (pb_bytes_message, pb_number_message, 'w) tonic_method" where
  "solidity_rpc_get_brokerage_info self Q R =
     service_unary self Q R ''/protocol.WalletSolidity/GetBrokerageInfo'' ''protocol.WalletSolidity'' ''GetBrokerageInfo''"

definition solidity_rpc_trigger_constant_contract ::
  "('v, 'w) grpc_channel \<Rightarrow> pb_trigger_smart_contract message_codec \<Rightarrow> pb_transaction_extention message_codec
     \<Rightarrow> (pb_trigger_smart_contract, pb_transaction_extention, 'w) tonic_method" where
  "solidity_rpc_trigger_constant_contract self Q R =
     service_unary self Q R ''/protocol.WalletSolidity/TriggerConstantContract'' ''protocol.WalletSolidity'' ''TriggerConstantContract''"

definition solidity_rpc_estimate_energy ::
  "('v, 'w) grpc_channel \<Rightarrow> pb_trigger_smart_contract message_codec \<Rightarrow> pb_estimate_energy_message message_codec
     \<Rightarrow> (pb_trigger_smart_contract, pb_estimate_energy_message, 'w) tonic_method" where
  "solidity_rpc_estimate_energy self Q R =
     service_unary self Q R ''/protocol.WalletSolidity/EstimateEnergy'' ''protocol.WalletSolidity'' ''EstimateEnergy''"

definition solidity_rpc_get_transaction_info_by_block_num ::
  "('v, 'w) grpc_channel \<Rightarrow> pb_number_message message_codec \<Rightarrow> pb_transaction_info_list message_codec
     \<Rightarrow> (pb_number_message, pb_transaction_info_list, 'w) tonic_method" where
  "solidity_rpc_get_transaction_info_by_block_num self Q R =
     service_unary self Q R ''/protocol.WalletSolidity/GetTransactionInfoByBlockNum'' ''protocol.WalletSolidity'' ''GetTransactionInfoByBlockNum''"

definition solidity_rpc_get_market_order_by_id ::
  "('v, 'w) grpc_channel \<Rightarrow> pb_bytes_message message_codec \<Rightarrow> pb_market_order message_codec
     \<Rightarrow> (pb_bytes_message, pb_market_order, 'w) tonic_method" where
  "solidity_rpc_get_market_order_by_id self Q R =
     service_unary self Q R ''/protocol.WalletSolidity/GetMarketOrderById'' ''protocol.WalletSolidity'' ''GetMarketOrderById''"

definition solidity_rpc_get_market_order_by_account ::
  "('v, 'w) grpc_channel \<Rightarrow> pb_bytes_message message_codec \<Rightarrow> pb_market_order_list message_codec
     \<Rightarrow> (pb_bytes_message, pb_market_order_list, 'w) tonic_method" where
  "solidity_rpc_get_market_order_by_account self Q R =
     service_unary self Q R ''/protocol.WalletSolidity/GetMarketOrderByAccount'' ''protocol.WalletSolidity'' ''GetMarketOrderByAccount''"

definition solidity_rpc_get_market_price_by_pair ::
  "('v, 'w) grpc_channel \<Rightarrow> pb_market_order_pair message_codec \<Rightarrow> pb_market_price_list message_codec
     \<Rightarrow> (pb_market_order_pair, pb_market_price_list, 'w) tonic_method" where
  "solidity_rpc_get_market_price_by_pair self Q R =
     service_unary self Q R ''/protocol.WalletSolidity/GetMarketPriceByPair'' ''protocol.WalletSolidity'' ''GetMarketPriceByPair''"

definition solidity_rpc_get_market_order_list_by_pair ::
  "('v, 'w) grpc_channel \<Rightarrow> pb_market_order_pair message_codec \<Rightarrow> pb_market_order_list message_codec
     \<Rightarrow> (pb_market_order_pair, pb_market_order_list, 'w) tonic_method" where
  "solidity_rpc_get_market_order_list_by_pair self Q R =
     service_unary self Q R ''/protocol.WalletSolidity/GetMarketOrderListByPair'' ''protocol.WalletSolidity'' ''GetMarketOrderListByPair''"

definition solidity_rpc_get_market_pair_list ::
  "('v, 'w) grpc_channel \<Rightarrow> unit message_codec \<Rightarrow> pb_market_order_pair_list message_codec
     \<Rightarrow> (unit, pb_market_order_pair_list, 'w) tonic_method" where
  "solidity_rpc_get_market_pair_list self Q R =
     service_unary self Q R ''/protocol.WalletSolidity/GetMarketPairList'' ''protocol.WalletSolidity'' ''GetMarketPairList''"

definition solidity_rpc_get_burn_trx ::
  "('v, 'w) grpc_channel \<Rightarrow> unit message_codec \<Rightarrow> pb_number_message message_codec
     \<Rightarrow> (unit, pb_number_message, 'w) tonic_method" where
  "solidity_rpc_get_burn_trx self Q R =
     service_unary self Q R ''/protocol.WalletSolidity/GetBurnTrx'' ''protocol.WalletSolidity'' ''GetBurnTrx''"

definition solidity_rpc_get_block ::
  "('v, 'w) grpc_channel \<Rightarrow> pb_block_req message_codec \<Rightarrow> pb_block_extention message_codec
     \<Rightarrow> (pb_block_req, pb_block_extention, 'w) tonic_method" where
  "solidity_rpc_get_block self Q R =
     service_unary self Q R ''/protocol.WalletSolidity/GetBlock'' ''protocol.WalletSolidity'' ''GetBlock''"

definition solidity_rpc_get_bandwidth_prices ::
  "('v, 'w) grpc_channel \<Rightarrow> unit message_codec \<Rightarrow> pb_prices_response_message message_codec
     \<Rightarrow> (unit, pb_prices_response_message, 'w) tonic_method" where
  "solidity_rpc_get_bandwidth_prices self Q R =
     service_unary self Q R ''/protocol.WalletSolidity/GetBandwidthPrices'' ''protocol.WalletSolidity'' ''GetBandwidthPrices''"

definition solidity_rpc_get_energy_prices ::
  "('v, 'w) grpc_channel \<Rightarrow> unit message_codec \<Rightarrow> pb_prices_response_message message_codec
     \<Rightarrow> (unit, pb_prices_response_message, 'w) tonic_method" where
  "solidity_rpc_get_energy_prices self Q R =
     service_unary self Q R ''/protocol.WalletSolidity/GetEnergyPrices'' ''protocol.WalletSolidity'' ''GetEnergyPrices''"

section \<open>The extension service\<close>

definition extension_rpc_get_transactions_from_this ::
  "('v, 'w) grpc_channel \<Rightarrow> pb_account_paginated message_codec \<Rightarrow> pb_transaction_list message_codec
     \<Rightarrow> (pb_account_paginated, pb_transaction_list, 'w) tonic_method" where
  "extension_rpc_get_transactions_from_this self Q R =
     service_unary self Q R ''/protocol.WalletExtension/GetTransactionsFromThis'' ''protocol.WalletExtension'' ''GetTransactionsFromThis''"

definition extension_rpc_get_transactions_from_this2 ::
  "('v, 'w) grpc_channel \<Rightarrow> pb_account_paginated message_codec \<Rightarrow> pb_transaction_list_extention message_codec
     \<Rightarrow> (pb_account_paginated, pb_transaction_list_extention, 'w) tonic_method" where
  "extension_rpc_get_transactions_from_this2 self Q R =
     service_unary self Q R ''/protocol.WalletExtension/GetTransactionsFromThis2'' ''protocol.WalletExtension'' ''GetTransactionsFromThis2''"

definition extension_rpc_get_transactions_to_this ::
  "('v, 'w) grpc_channel \<Rightarrow> pb_account_paginated message_codec \<Rightarrow> pb_transaction_list message_codec
     \<Rightarrow> (pb_account_paginated, pb_transaction_list, 'w) tonic_method" where
  "extension_rpc_get_transactions_to_this self Q R =
     service_unary self Q R ''/protocol.WalletExtension/GetTransactionsToThis'' ''protocol.WalletExtension'' ''GetTransactionsToThis''"

definition extension_rpc_get_transactions_to_this2 ::
  "('v, 'w) grpc_channel \<Rightarrow> pb_account_paginated message_codec \<Rightarrow> pb_transaction_list_extention message_codec
     \<Rightarrow> (pb_account_paginated, pb_transaction_list_extention, 'w) tonic_method" where
  "extension_rpc_get_transactions_to_this2 self Q R =
     service_unary self Q R ''/protocol.WalletExtension/GetTransactionsToThis2'' ''protocol.WalletExtension'' ''GetTransactionsToThis2''"

section \<open>The database service\<close>

definition database_rpc_get_block_reference ::
  "('v, 'w) grpc_channel \<Rightarrow> unit message_codec \<Rightarrow> pb_block_reference message_codec
     \<Rightarrow> (unit, pb_block_reference, 'w) tonic_method" where
  "database_rpc_get_block_reference self Q R =
     service_unary self Q R ''/protocol.Database/getBlockReference'' ''protocol.Database'' ''getBlockReference''"

definition database_rpc_get_dynamic_properties ::
  "('v, 'w) grpc_channel \<Rightarrow> unit message_codec \<Rightarrow> pb_dynamic_properties message_codec
     \<Rightarrow> (unit, pb_dynamic_properties, 'w) tonic_method" where
  "database_rpc_get_dynamic_properties self Q R =
     service_unary self Q R ''/protocol.Database/GetDynamicProperties'' ''protocol.Database'' ''GetDynamicProperties''"

definition database_rpc_get_now_block ::
  "('v, 'w) grpc_channel \<Rightarrow> unit message_codec \<Rightarrow> pb_block message_codec
     \<Rightarrow> (unit, pb_block, 'w) tonic_method" where
  "database_rpc_get_now_block self Q R =
     service_unary self Q R ''/protocol.Database/GetNowBlock'' ''protocol.Database'' ''GetNowBlock''"

definition database_rpc_get_block_by_num ::
  "('v, 'w) grpc_channel \<Rightarrow> pb_number_message message_codec \<Rightarrow> pb_block message_codec
     \<Rightarrow> (pb_number_message, pb_block, 'w) tonic_method" where
  "database_rpc_get_block_by_num self Q R =
     service_unary self Q R ''/protocol.Database/GetBlockByNum'' ''protocol.Database'' ''GetBlockByNum''"

section \<open>The monitor service\<close>

definition monitor_rpc_get_stats_info ::
  "('v, 'w) grpc_channel \<Rightarrow> unit message_codec \<Rightarrow> pb_metrics_info message_codec
     \<Rightarrow> (unit, pb_metrics_info, 'w) tonic_method" where
  "monitor_rpc_get_stats_info self Q R =
     service_unary self Q R ''/protocol.Monitor/GetStatsInfo'' ''protocol.Monitor'' ''GetStatsInfo''"

end
