(* ===== verification/Grpc_Services.thy ===== *)
theory Grpc_Services
  imports Provider_Builder Sample_Node Solidity Other_Services
begin

text \<open>
  The clients the gRPC transports call, made of the generated services over one channel
  (\<open>wallet_client\<close> and its neighbours in \<open>crates/provider/src/transport/grpc/core.rs\<close>): which
  generated method each call of the transports is, what goes over the wire, and what a send
  through the whole stack puts there.
\<close>

section \<open>Codecs\<close>

text \<open>What \<open>prost\<close> derives for the messages in use.\<close>

record prost_messages =
  pm_transfer_contract :: "pb_transfer_contract message_codec"
  pm_transaction_extention :: "pb_transaction_extention message_codec"
  pm_account_permission_update_contract :: "pb_account_permission_update_contract message_codec"
  pm_create_smart_contract :: "pb_create_smart_contract message_codec"
  pm_trigger_smart_contract :: "pb_trigger_smart_contract message_codec"
  pm_freeze_balance_contract :: "pb_freeze_balance_contract message_codec"
  pm_unfreeze_balance_contract :: "pb_unfreeze_balance_contract message_codec"
  pm_freeze_balance_v2_contract :: "pb_freeze_balance_v2_contract message_codec"
  pm_unfreeze_balance_v2_contract :: "pb_unfreeze_balance_v2_contract message_codec"
  pm_delegate_resource_contract :: "pb_delegate_resource_contract message_codec"
  pm_un_delegate_resource_contract :: "pb_un_delegate_resource_contract message_codec"
  pm_withdraw_expire_unfreeze_contract :: "pb_withdraw_expire_unfreeze_contract message_codec"
  pm_cancel_all_unfreeze_v2_contract :: "pb_cancel_all_unfreeze_v2_contract message_codec"
  pm_withdraw_balance_contract :: "pb_withdraw_balance_contract message_codec"
  pm_proposal_create_contract :: "pb_proposal_create_contract message_codec"
  pm_proposal_approve_contract :: "pb_proposal_approve_contract message_codec"
  pm_proposal_delete_contract :: "pb_proposal_delete_contract message_codec"
  pm_asset_issue_contract :: "pb_asset_issue_contract message_codec"
  pm_transfer_asset_contract :: "pb_transfer_asset_contract message_codec"
  pm_participate_asset_issue_contract :: "pb_participate_asset_issue_contract message_codec"
  pm_unfreeze_asset_contract :: "pb_unfreeze_asset_contract message_codec"
  pm_update_asset_contract :: "pb_update_asset_contract message_codec"
  pm_account_create_contract :: "pb_account_create_contract message_codec"
  pm_vote_witness_contract :: "pb_vote_witness_contract message_codec"
  pm_account_update_contract :: "pb_account_update_contract message_codec"
  pm_set_account_id_contract :: "pb_set_account_id_contract message_codec"
  pm_transaction :: "pb_transaction message_codec"
  pm_clear_abi_contract :: "pb_clear_abi_contract message_codec"
  pm_update_setting_contract :: "pb_update_setting_contract message_codec"
  pm_update_energy_limit_contract :: "pb_update_energy_limit_contract message_codec"
  pm_witness_create_contract :: "pb_witness_create_contract message_codec"
  pm_witness_update_contract :: "pb_witness_update_contract message_codec"
  pm_update_brokerage_contract :: "pb_update_brokerage_contract message_codec"
  pm_exchange_create_contract :: "pb_exchange_create_contract message_codec"
  pm_exchange_inject_contract :: "pb_exchange_inject_contract message_codec"
  pm_exchange_withdraw_contract :: "pb_exchange_withdraw_contract message_codec"
  pm_exchange_transaction_contract :: "pb_exchange_transaction_contract message_codec"
  pm_market_sell_asset_contract :: "pb_market_sell_asset_contract message_codec"
  pm_market_cancel_order_contract :: "pb_market_cancel_order_contract message_codec"
  pm_account :: "pb_account message_codec"
  pm_account_resource_message :: "pb_account_resource_message message_codec"
  pm_bytes_message :: "pb_bytes_message message_codec"
  pm_transaction_info :: "pb_transaction_info message_codec"
  pm_estimate_energy_message :: "pb_estimate_energy_message message_codec"
  pm_delegated_resource_message :: "pb_delegated_resource_message message_codec"
  pm_delegated_resource_list :: "pb_delegated_resource_list message_codec"
  pm_delegated_resource_account_index :: "pb_delegated_resource_account_index message_codec"
  pm_can_delegated_max_size_request_message :: "pb_can_delegated_max_size_request_message message_codec"
  pm_can_delegated_max_size_response_message :: "pb_can_delegated_max_size_response_message message_codec"
  pm_number_message :: "pb_number_message message_codec"
  pm_empty :: "unit message_codec"
  pm_chain_parameters :: "pb_chain_parameters message_codec"
  pm_smart_contract :: "pb_smart_contract message_codec"
  pm_smart_contract_data_wrapper :: "pb_smart_contract_data_wrapper message_codec"
  pm_witness_list :: "pb_witness_list message_codec"
  pm_paginated_message :: "pb_paginated_message message_codec"
  pm_proposal_list :: "pb_proposal_list message_codec"
  pm_proposal :: "pb_proposal message_codec"
  pm_asset_issue_list :: "pb_asset_issue_list message_codec"
  pm_can_withdraw_unfreeze_amount_request_message :: "pb_can_withdraw_unfreeze_amount_request_message message_codec"
  pm_can_withdraw_unfreeze_amount_response_message :: "pb_can_withdraw_unfreeze_amount_response_message message_codec"
  pm_get_available_unfreeze_count_request_message :: "pb_get_available_unfreeze_count_request_message message_codec"
  pm_get_available_unfreeze_count_response_message :: "pb_get_available_unfreeze_count_response_message message_codec"
  pm_prices_response_message :: "pb_prices_response_message message_codec"
  pm_node_info :: "pb_node_info message_codec"
  pm_node_list :: "pb_node_list message_codec"
  pm_dynamic_properties :: "pb_dynamic_properties message_codec"
  pm_account_paginated :: "pb_account_paginated message_codec"
  pm_transaction_list_extention :: "pb_transaction_list_extention message_codec"
  pm_transaction_info_list :: "pb_transaction_info_list message_codec"
  pm_transaction_sign_weight :: "pb_transaction_sign_weight message_codec"
  pm_transaction_approved_list :: "pb_transaction_approved_list message_codec"
  pm_account_net_message :: "pb_account_net_message message_codec"
  pm_exchange_list :: "pb_exchange_list message_codec"
  pm_exchange :: "pb_exchange message_codec"
  pm_market_order :: "pb_market_order message_codec"
  pm_market_order_list :: "pb_market_order_list message_codec"
  pm_market_order_pair :: "pb_market_order_pair message_codec"
  pm_market_price_list :: "pb_market_price_list message_codec"
  pm_market_order_pair_list :: "pb_market_order_pair_list message_codec"
  pm_transaction_id_list :: "pb_transaction_id_list message_codec"
  pm_return :: "pb_return message_codec"
  pm_block_summary :: "block_summary message_codec"
  pm_block_summary_list :: "block_summary_list message_codec"
  pm_block_limit :: "pb_block_limit message_codec"

section \<open>Clients\<close>

definition wallet_client_over :: "('v, 'w) grpc_channel \<Rightarrow> prost_messages \<Rightarrow> 'w wallet_client" where
  "wallet_client_over ch K =
     \<lparr> wk_create_transaction2 = wallet_rpc_create_transaction2 ch (pm_transfer_contract K) (pm_transaction_extention K),
       wk_account_permission_update = wallet_rpc_account_permission_update ch (pm_account_permission_update_contract K) (pm_transaction_extention K),
       wk_deploy_contract = wallet_rpc_deploy_contract ch (pm_create_smart_contract K) (pm_transaction_extention K),
       wk_trigger_contract = wallet_rpc_trigger_contract ch (pm_trigger_smart_contract K) (pm_transaction_extention K),
       wk_freeze_balance2 = wallet_rpc_freeze_balance2 ch (pm_freeze_balance_contract K) (pm_transaction_extention K),
       wk_unfreeze_balance2 = wallet_rpc_unfreeze_balance2 ch (pm_unfreeze_balance_contract K) (pm_transaction_extention K),
       wk_freeze_balance_v2 = wallet_rpc_freeze_balance_v2 ch (pm_freeze_balance_v2_contract K) (pm_transaction_extention K),
       wk_unfreeze_balance_v2 = wallet_rpc_unfreeze_balance_v2 ch (pm_unfreeze_balance_v2_contract K) (pm_transaction_extention K),
       wk_delegate_resource = wallet_rpc_delegate_resource ch (pm_delegate_resource_contract K) (pm_transaction_extention K),
       wk_un_delegate_resource = wallet_rpc_un_delegate_resource ch (pm_un_delegate_resource_contract K) (pm_transaction_extention K),
       wk_withdraw_expire_unfreeze = wallet_rpc_withdraw_expire_unfreeze ch (pm_withdraw_expire_unfreeze_contract K) (pm_transaction_extention K),
       wk_cancel_all_unfreeze_v2 = wallet_rpc_cancel_all_unfreeze_v2 ch (pm_cancel_all_unfreeze_v2_contract K) (pm_transaction_extention K),
       wk_withdraw_balance2 = wallet_rpc_withdraw_balance2 ch (pm_withdraw_balance_contract K) (pm_transaction_extention K),
       wk_proposal_create = wallet_rpc_proposal_create ch (pm_proposal_create_contract K) (pm_transaction_extention K),
       wk_proposal_approve = wallet_rpc_proposal_approve ch (pm_proposal_approve_contract K) (pm_transaction_extention K),
       wk_proposal_delete = wallet_rpc_proposal_delete ch (pm_proposal_delete_contract K) (pm_transaction_extention K),
       wk_create_asset_issue2 = wallet_rpc_create_asset_issue2 ch (pm_asset_issue_contract K) (pm_transaction_extention K),
       wk_transfer_asset2 = wallet_rpc_transfer_asset2 ch (pm_transfer_asset_contract K) (pm_transaction_extention K),
       wk_participate_asset_issue2 = wallet_rpc_participate_asset_issue2 ch (pm_participate_asset_issue_contract K) (pm_transaction_extention K),
       wk_unfreeze_asset2 = wallet_rpc_unfreeze_asset2 ch (pm_unfreeze_asset_contract K) (pm_transaction_extention K),
       wk_update_asset2 = wallet_rpc_update_asset2 ch (pm_update_asset_contract K) (pm_transaction_extention K),
       wk_create_account2 = wallet_rpc_create_account2 ch (pm_account_create_contract K) (pm_transaction_extention K),
       wk_vote_witness_account2 = wallet_rpc_vote_witness_account2 ch (pm_vote_witness_contract K) (pm_transaction_extention K),
       wk_update_account2 = wallet_rpc_update_account2 ch (pm_account_update_contract K) (pm_transaction_extention K),
       wk_set_account_id = wallet_rpc_set_account_id ch (pm_set_account_id_contract K) (pm_transaction K),
       wk_clear_contract_abi = wallet_rpc_clear_contract_abi ch (pm_clear_abi_contract K) (pm_transaction_extention K),
       wk_update_setting = wallet_rpc_update_setting ch (pm_update_setting_contract K) (pm_transaction_extention K),
       wk_update_energy_limit = wallet_rpc_update_energy_limit ch (pm_update_energy_limit_contract K) (pm_transaction_extention K),
       wk_create_witness2 = wallet_rpc_create_witness2 ch (pm_witness_create_contract K) (pm_transaction_extention K),
       wk_update_witness2 = wallet_rpc_update_witness2 ch (pm_witness_update_contract K) (pm_transaction_extention K),
       wk_update_brokerage = wallet_rpc_update_brokerage ch (pm_update_brokerage_contract K) (pm_transaction_extention K),
       wk_exchange_create = wallet_rpc_exchange_create ch (pm_exchange_create_contract K) (pm_transaction_extention K),
       wk_exchange_inject = wallet_rpc_exchange_inject ch (pm_exchange_inject_contract K) (pm_transaction_extention K),
       wk_exchange_withdraw = wallet_rpc_exchange_withdraw ch (pm_exchange_withdraw_contract K) (pm_transaction_extention K),
       wk_exchange_transaction = wallet_rpc_exchange_transaction ch (pm_exchange_transaction_contract K) (pm_transaction_extention K),
       wk_market_sell_asset = wallet_rpc_market_sell_asset ch (pm_market_sell_asset_contract K) (pm_transaction_extention K),
       wk_market_cancel_order = wallet_rpc_market_cancel_order ch (pm_market_cancel_order_contract K) (pm_transaction_extention K) \<rparr>"

definition read_client_over :: "('v, 'w) grpc_channel \<Rightarrow> prost_messages \<Rightarrow> 'w read_client" where
  "read_client_over ch K =
     \<lparr> rd_get_account = wallet_rpc_get_account ch (pm_account K) (pm_account K),
       rd_get_account_resource = wallet_rpc_get_account_resource ch (pm_account K) (pm_account_resource_message K),
       rd_get_transaction_by_id = wallet_rpc_get_transaction_by_id ch (pm_bytes_message K) (pm_transaction K),
       rd_get_transaction_info_by_id = wallet_rpc_get_transaction_info_by_id ch (pm_bytes_message K) (pm_transaction_info K),
       rd_trigger_constant_contract = wallet_rpc_trigger_constant_contract ch (pm_trigger_smart_contract K) (pm_transaction_extention K),
       rd_estimate_energy = wallet_rpc_estimate_energy ch (pm_trigger_smart_contract K) (pm_estimate_energy_message K),
       rd_get_delegated_resource = wallet_rpc_get_delegated_resource ch (pm_delegated_resource_message K) (pm_delegated_resource_list K),
       rd_get_delegated_resource_account_index = wallet_rpc_get_delegated_resource_account_index ch (pm_bytes_message K) (pm_delegated_resource_account_index K),
       rd_get_delegated_resource_v2 = wallet_rpc_get_delegated_resource_v2 ch (pm_delegated_resource_message K) (pm_delegated_resource_list K),
       rd_get_delegated_resource_account_index_v2 = wallet_rpc_get_delegated_resource_account_index_v2 ch (pm_bytes_message K) (pm_delegated_resource_account_index K),
       rd_get_can_delegated_max_size = wallet_rpc_get_can_delegated_max_size ch (pm_can_delegated_max_size_request_message K) (pm_can_delegated_max_size_response_message K),
       rd_get_reward_info = wallet_rpc_get_reward_info ch (pm_bytes_message K) (pm_number_message K),
       rd_get_chain_parameters = wallet_rpc_get_chain_parameters ch (pm_empty K) (pm_chain_parameters K),
       rd_get_contract = wallet_rpc_get_contract ch (pm_bytes_message K) (pm_smart_contract K),
       rd_get_contract_info = wallet_rpc_get_contract_info ch (pm_bytes_message K) (pm_smart_contract_data_wrapper K),
       rd_list_witnesses = wallet_rpc_list_witnesses ch (pm_empty K) (pm_witness_list K),
       rd_get_paginated_now_witness_list = wallet_rpc_get_paginated_now_witness_list ch (pm_paginated_message K) (pm_witness_list K),
       rd_list_proposals = wallet_rpc_list_proposals ch (pm_empty K) (pm_proposal_list K),
       rd_get_paginated_proposal_list = wallet_rpc_get_paginated_proposal_list ch (pm_paginated_message K) (pm_proposal_list K),
       rd_get_proposal_by_id = wallet_rpc_get_proposal_by_id ch (pm_bytes_message K) (pm_proposal K),
       rd_get_asset_issue_by_id = wallet_rpc_get_asset_issue_by_id ch (pm_bytes_message K) (pm_asset_issue_contract K),
       rd_get_asset_issue_by_account = wallet_rpc_get_asset_issue_by_account ch (pm_account K) (pm_asset_issue_list K),
       rd_get_paginated_asset_issue_list = wallet_rpc_get_paginated_asset_issue_list ch (pm_paginated_message K) (pm_asset_issue_list K),
       rd_get_asset_issue_by_name = wallet_rpc_get_asset_issue_by_name ch (pm_bytes_message K) (pm_asset_issue_contract K),
       rd_get_asset_issue_list_by_name = wallet_rpc_get_asset_issue_list_by_name ch (pm_bytes_message K) (pm_asset_issue_list K),
       rd_get_can_withdraw_unfreeze_amount = wallet_rpc_get_can_withdraw_unfreeze_amount ch (pm_can_withdraw_unfreeze_amount_request_message K) (pm_can_withdraw_unfreeze_amount_response_message K),
       rd_get_available_unfreeze_count = wallet_rpc_get_available_unfreeze_count ch (pm_get_available_unfreeze_count_request_message K) (pm_get_available_unfreeze_count_response_message K),
       rd_get_bandwidth_prices = wallet_rpc_get_bandwidth_prices ch (pm_empty K) (pm_prices_response_message K),
       rd_get_energy_prices = wallet_rpc_get_energy_prices ch (pm_empty K) (pm_prices_response_message K),
       rd_get_memo_fee = wallet_rpc_get_memo_fee ch (pm_empty K) (pm_prices_response_message K),
       rd_get_next_maintenance_time = wallet_rpc_get_next_maintenance_time ch (pm_empty K) (pm_number_message K),
       rd_get_burn_trx = wallet_rpc_get_burn_trx ch (pm_empty K) (pm_number_message K),
       rd_total_transaction = wallet_rpc_total_transaction ch (pm_empty K) (pm_number_message K),
       rd_get_node_info = wallet_rpc_get_node_info ch (pm_empty K) (pm_node_info K),
       rd_list_nodes = wallet_rpc_list_nodes ch (pm_empty K) (pm_node_list K),
       rd_get_dynamic_properties = database_rpc_get_dynamic_properties ch (pm_empty K) (pm_dynamic_properties K),
       rd_get_transaction_count_by_block_num = wallet_rpc_get_transaction_count_by_block_num ch (pm_number_message K) (pm_number_message K),
       rd_get_transactions_from_this2 = extension_rpc_get_transactions_from_this2 ch (pm_account_paginated K) (pm_transaction_list_extention K),
       rd_get_transactions_to_this2 = extension_rpc_get_transactions_to_this2 ch (pm_account_paginated K) (pm_transaction_list_extention K),
       rd_get_transaction_info_by_block_num = wallet_rpc_get_transaction_info_by_block_num ch (pm_number_message K) (pm_transaction_info_list K),
       rd_get_pending_size = wallet_rpc_get_pending_size ch (pm_empty K) (pm_number_message K),
       rd_get_transaction_from_pending = wallet_rpc_get_transaction_from_pending ch (pm_bytes_message K) (pm_transaction K),
       rd_get_transaction_sign_weight = wallet_rpc_get_transaction_sign_weight ch (pm_transaction K) (pm_transaction_sign_weight K),
       rd_get_transaction_approved_list = wallet_rpc_get_transaction_approved_list ch (pm_transaction K) (pm_transaction_approved_list K),
       rd_get_account_net = wallet_rpc_get_account_net ch (pm_account K) (pm_account_net_message K),
       rd_get_brokerage_info = wallet_rpc_get_brokerage_info ch (pm_bytes_message K) (pm_number_message K),
       rd_list_exchanges = wallet_rpc_list_exchanges ch (pm_empty K) (pm_exchange_list K),
       rd_get_paginated_exchange_list = wallet_rpc_get_paginated_exchange_list ch (pm_paginated_message K) (pm_exchange_list K),
       rd_get_exchange_by_id = wallet_rpc_get_exchange_by_id ch (pm_bytes_message K) (pm_exchange K),
       rd_get_market_order_by_id = wallet_rpc_get_market_order_by_id ch (pm_bytes_message K) (pm_market_order K),
       rd_get_market_order_by_account = wallet_rpc_get_market_order_by_account ch (pm_bytes_message K) (pm_market_order_list K),
       rd_get_market_price_by_pair = wallet_rpc_get_market_price_by_pair ch (pm_market_order_pair K) (pm_market_price_list K),
       rd_get_market_order_list_by_pair = wallet_rpc_get_market_order_list_by_pair ch (pm_market_order_pair K) (pm_market_order_list K),
       rd_get_market_pair_list = wallet_rpc_get_market_pair_list ch (pm_empty K) (pm_market_order_pair_list K),
       rd_get_transaction_list_from_pending = wallet_rpc_get_transaction_list_from_pending ch (pm_empty K) (pm_transaction_id_list K),
       rd_broadcast_transaction = wallet_rpc_broadcast_transaction ch (pm_transaction K) (pm_return K),
       rd_ready = ch_ready ch,
       rd_get_now_block = channel_unary ch (pm_empty K) (pm_block_summary K) ''/protocol.Wallet/GetNowBlock2'' ''protocol.Wallet'' ''GetNowBlock2'',
       rd_get_block_by_number = channel_unary ch (pm_number_message K) (pm_block_summary K) ''/protocol.Wallet/GetBlockByNum2'' ''protocol.Wallet'' ''GetBlockByNum2'',
       rd_get_block_by_id = channel_unary ch (pm_bytes_message K) (pm_block_summary K) ''/protocol.Wallet/GetBlockById'' ''protocol.Wallet'' ''GetBlockById'',
       rd_get_blocks_by_latest_num = channel_unary ch (pm_number_message K) (pm_block_summary_list K) ''/protocol.Wallet/GetBlockByLatestNum2'' ''protocol.Wallet'' ''GetBlockByLatestNum2'',
       rd_get_blocks_by_limit = channel_unary ch (pm_block_limit K) (pm_block_summary_list K) ''/protocol.Wallet/GetBlockByLimitNext2'' ''protocol.Wallet'' ''GetBlockByLimitNext2'' \<rparr>"

definition solidity_client_over :: "('v, 'w) grpc_channel \<Rightarrow> prost_messages \<Rightarrow> 'w solidity_client" where
  "solidity_client_over ch K =
     \<lparr> sd_get_account = solidity_rpc_get_account ch (pm_account K) (pm_account K),
       sd_get_transaction_by_id = solidity_rpc_get_transaction_by_id ch (pm_bytes_message K) (pm_transaction K),
       sd_get_transaction_info_by_id = solidity_rpc_get_transaction_info_by_id ch (pm_bytes_message K) (pm_transaction_info K),
       sd_get_transaction_info_by_block_num = solidity_rpc_get_transaction_info_by_block_num ch (pm_number_message K) (pm_transaction_info_list K),
       sd_get_transaction_count_by_block_num = solidity_rpc_get_transaction_count_by_block_num ch (pm_number_message K) (pm_number_message K),
       sd_trigger_constant_contract = solidity_rpc_trigger_constant_contract ch (pm_trigger_smart_contract K) (pm_transaction_extention K),
       sd_estimate_energy = solidity_rpc_estimate_energy ch (pm_trigger_smart_contract K) (pm_estimate_energy_message K),
       sd_list_witnesses = solidity_rpc_list_witnesses ch (pm_empty K) (pm_witness_list K),
       sd_get_paginated_now_witness_list = solidity_rpc_get_paginated_now_witness_list ch (pm_paginated_message K) (pm_witness_list K),
       sd_get_delegated_resource = solidity_rpc_get_delegated_resource ch (pm_delegated_resource_message K) (pm_delegated_resource_list K),
       sd_get_delegated_resource_account_index = solidity_rpc_get_delegated_resource_account_index ch (pm_bytes_message K) (pm_delegated_resource_account_index K),
       sd_get_delegated_resource_v2 = solidity_rpc_get_delegated_resource_v2 ch (pm_delegated_resource_message K) (pm_delegated_resource_list K),
       sd_get_delegated_resource_account_index_v2 = solidity_rpc_get_delegated_resource_account_index_v2 ch (pm_bytes_message K) (pm_delegated_resource_account_index K),
       sd_get_can_delegated_max_size = solidity_rpc_get_can_delegated_max_size ch (pm_can_delegated_max_size_request_message K) (pm_can_delegated_max_size_response_message K),
       sd_get_available_unfreeze_count = solidity_rpc_get_available_unfreeze_count ch (pm_get_available_unfreeze_count_request_message K) (pm_get_available_unfreeze_count_response_message K),
       sd_get_can_withdraw_unfreeze_amount = solidity_rpc_get_can_withdraw_unfreeze_amount ch (pm_can_withdraw_unfreeze_amount_request_message K) (pm_can_withdraw_unfreeze_amount_response_message K),
       sd_ready = ch_ready ch,
       sd_get_now_block = channel_unary ch (pm_empty K) (pm_block_summary K) ''/protocol.WalletSolidity/GetNowBlock2'' ''protocol.WalletSolidity'' ''GetNowBlock2'',
       sd_get_block_by_number = channel_unary ch (pm_number_message K) (pm_block_summary K) ''/protocol.WalletSolidity/GetBlockByNum2'' ''protocol.WalletSolidity'' ''GetBlockByNum2'' \<rparr>"

section \<open>The clients of a connection\<close>

text \<open>
  Every client is made over the channel of the connection with the interceptor that adds the key
  (\<open>wallet_client\<close>, \<open>wallet_extension_client\<close>, \<open>database_client\<close>, \<open>wallet_solidity_client\<close>).
\<close>

definition client_channel ::
  "(string \<Rightarrow> 'v option) \<Rightarrow> string option \<Rightarrow> ('v, 'w) grpc_channel \<Rightarrow> ('v, 'w) grpc_channel" where
  "client_channel metadata_value key ch = intercepted (api_key_interceptor metadata_value key) ch"

definition service_stubs ::
  "(string \<Rightarrow> 'v option) \<Rightarrow> prost_messages \<Rightarrow> (('v, 'w) grpc_channel, 'w) stubs" where
  "service_stubs metadata_value K =
     \<lparr> sb_wallet = (\<lambda>ch key. wallet_client_over (client_channel metadata_value key ch) K),
       sb_read = (\<lambda>ch key. read_client_over (client_channel metadata_value key ch) K) \<rparr>"

lemma client_channel_ready [simp]: "ch_ready (client_channel mv key ch) = ch_ready ch"
  by (simp add: client_channel_def)

lemma client_channel_call [simp]:
  "ch_call (client_channel mv key ch) req
   = ch_call ch (req\<lparr> rq_metadata := api_key_interceptor mv key (rq_metadata req) \<rparr>)"
  by (simp add: client_channel_def)

section \<open>What the clients answer\<close>

text \<open>
  What decoding into the Rust types guarantees of a transaction: the lengths are those of
  vectors and the strings are UTF-8.
\<close>

definition messages_typed :: "tx_codec \<Rightarrow> prost_messages \<Rightarrow> bool" where
  "messages_typed C K \<longleftrightarrow>
     (\<forall>body tx. mc_decode (pm_transaction K) body = Inr tx \<longrightarrow> answer_ok C tx)
     \<and> (\<forall>body ext tx. mc_decode (pm_transaction_extention K) body = Inr ext
          \<longrightarrow> pb_transaction_extention_transaction ext = Some tx \<longrightarrow> answer_ok C tx)"

lemma service_typed_building:
  assumes "messages_typed C K"
  shows "typed_building C (service_unary ch Q (pm_transaction_extention K) path service name)"
  using assms by (auto simp: typed_building_def messages_typed_def elim!: service_unary_answer)

lemmas building_rpcs =
  wallet_rpc_create_transaction2_def wallet_rpc_account_permission_update_def
  wallet_rpc_deploy_contract_def wallet_rpc_trigger_contract_def wallet_rpc_freeze_balance2_def
  wallet_rpc_unfreeze_balance2_def wallet_rpc_freeze_balance_v2_def
  wallet_rpc_unfreeze_balance_v2_def wallet_rpc_delegate_resource_def
  wallet_rpc_un_delegate_resource_def wallet_rpc_withdraw_expire_unfreeze_def
  wallet_rpc_cancel_all_unfreeze_v2_def wallet_rpc_withdraw_balance2_def
  wallet_rpc_proposal_create_def wallet_rpc_proposal_approve_def wallet_rpc_proposal_delete_def
  wallet_rpc_create_asset_issue2_def wallet_rpc_transfer_asset2_def
  wallet_rpc_participate_asset_issue2_def wallet_rpc_unfreeze_asset2_def
  wallet_rpc_update_asset2_def wallet_rpc_create_account2_def wallet_rpc_vote_witness_account2_def
  wallet_rpc_update_account2_def wallet_rpc_set_account_id_def wallet_rpc_clear_contract_abi_def
  wallet_rpc_update_setting_def wallet_rpc_update_energy_limit_def wallet_rpc_create_witness2_def
  wallet_rpc_update_witness2_def wallet_rpc_update_brokerage_def wallet_rpc_exchange_create_def
  wallet_rpc_exchange_inject_def wallet_rpc_exchange_withdraw_def
  wallet_rpc_exchange_transaction_def wallet_rpc_market_sell_asset_def
  wallet_rpc_market_cancel_order_def

text \<open>
  Over any channel, the generated client gives the transport only transactions of the Rust type:
  this needs nothing of the node.
\<close>

lemma wallet_client_over_typed:
  assumes "messages_typed C K"
  shows "typed_client C (wallet_client_over ch K)"
proof -
  have "answer_ok C tx" if "service_unary ch Q (pm_transaction K) path service name q w = (Inr tx, w')"
    for Q :: "pb_set_account_id_contract message_codec" and path service name q w tx w'
    using that assms by (auto simp: messages_typed_def elim!: service_unary_answer)
  then show ?thesis
    by (simp add: typed_client_def wallet_client_over_def building_rpcs service_typed_building [OF assms])
qed

section \<open>What a send puts on the wire\<close>

lemma broadcast_on_wire:
  assumes "rd_broadcast_transaction (read_client_over (client_channel mv key ch) K) m w1 = (Inr ret, w')"
  obtains w2 body where
    "ch_call ch \<lparr> rq_path = ''/protocol.Wallet/BroadcastTransaction'',
                  rq_method = (''protocol.Wallet'', ''BroadcastTransaction''),
                  rq_metadata = api_key_interceptor mv key Map.empty,
                  rq_body = mc_encode (pm_transaction K) m \<rparr> w2 = (Inr body, w')"
    "mc_decode (pm_return K) body = Inr ret"
  using assms
  by (auto simp: read_client_over_def wallet_rpc_broadcast_transaction_def service_unary_Ok_iff
      channel_unary_Ok_iff)

text \<open>
  C1: what leaves the machine is what was asked for.  A send of any operation but \<open>set_account_id\<close>
  (whose answer is not checked) through the gRPC transport over the generated clients that succeeds ends with one request on the channel, to the path of
  \<open>BroadcastTransaction\<close> and with the header of the API key, whose body encodes a transaction
  that holds the requested contract and nothing else, with a single signature over the hash of its
  own raw data, by the key of the owner (by the default key only when the wallet does not hold the
  owner's and the filler is not strict); the answer decodes to an acceptance, and the handle waits
  for that hash.  Nothing is assumed of the channel, of the node or of what either answered before.
\<close>

theorem wire_broadcast_is_requested:
  assumes "prost_tx C" and "messages_typed C K" and "wf_wallet (wf_wallet_of (join_right f))"
    and "honest_wallet recover (wf_wallet_of (join_right f))"
    and "\<forall>s. req_contract req \<noteq> Some (CtSetAccountId s)"
    and "vec_built (root_provider C (grpc_transport G C P (sb_wallet (service_stubs mv K) ch key)
           (sb_read (service_stubs mv K) ch key))) (wallet_chain b58_enc N) f req w"
    and "filled_send_transaction (root_provider C (grpc_transport G C P (sb_wallet (service_stubs mv K) ch key)
           (sb_read (service_stubs mv K) ch key))) (wallet_chain b58_enc N) f req w = (Inr p, f', w')"
  shows "\<exists>contract m raw_data sig w1 body ret.
    req_contract req = Some contract
    \<and> ch_call ch \<lparr> rq_path = ''/protocol.Wallet/BroadcastTransaction'',
                    rq_method = (''protocol.Wallet'', ''BroadcastTransaction''),
                    rq_metadata = api_key_interceptor mv key Map.empty,
                    rq_body = mc_encode (pm_transaction K) m \<rparr> w1 = (Ok body, w')
    \<and> mc_decode (pm_return K) body = Ok ret \<and> pb_return_result ret
    \<and> message_holds m (requested_type contract) (holds_request P contract)
    \<and> tx_raw_data m = Some raw_data \<and> pd_tx_id p = sha256 C (encode_raw C raw_data)
    \<and> tx_signature m = [signature_to_bytes sig]
    \<and> recover sig (pd_tx_id p) =
        Ok (if wf_strict (join_right f) \<or> has_signer_for (wf_wallet_of (join_right f)) (contract_owner_address contract)
            then contract_owner_address contract
            else default_signer_address (wf_wallet_of (join_right f)))"
proof -
  let ?W = "wallet_client_over (client_channel mv key ch) K"
  and ?R = "read_client_over (client_channel mv key ch) K"
  have "sb_wallet (service_stubs mv K) ch key = ?W" "sb_read (service_stubs mv K) ch key = ?R"
    by (simp_all add: service_stubs_def)
  note run = assms(6,7) [unfolded this]
  from grpc_broadcast_requested [OF assms(1) wallet_client_over_typed [OF assms(2)] assms(3-5) run]
  obtain contract where c: "req_contract req = Some contract"
    and sent: "broadcast_for C ?R recover (join_right f) (contract_owner_address contract)
        (requested_type contract) (holds_request P contract) p w'" by blast
  from sent obtain m raw_data sig w1 ret where
    call: "rd_broadcast_transaction ?R m w1 = (Inr ret, w')" and held: "pb_return_result ret"
      "message_holds m (requested_type contract) (holds_request P contract)"
      "tx_raw_data m = Some raw_data" "pd_tx_id p = sha256 C (encode_raw C raw_data)"
      "tx_signature m = [signature_to_bytes sig]"
      "recover sig (pd_tx_id p) =
        Ok (if wf_strict (join_right f) \<or> has_signer_for (wf_wallet_of (join_right f)) (contract_owner_address contract)
            then contract_owner_address contract
            else default_signer_address (wf_wallet_of (join_right f)))"
    unfolding broadcast_for_def by blast
  from call obtain w2 body where
    "ch_call ch \<lparr> rq_path = ''/protocol.Wallet/BroadcastTransaction'',
                  rq_method = (''protocol.Wallet'', ''BroadcastTransaction''),
                  rq_metadata = api_key_interceptor mv key Map.empty,
                  rq_body = mc_encode (pm_transaction K) m \<rparr> w2 = (Inr body, w')"
    "mc_decode (pm_return K) body = Inr ret" by (rule broadcast_on_wire)
  with c held show ?thesis by blast
qed

section \<open>A channel\<close>

text \<open>
  A channel that answers every request, counts the broadcasts, and codecs that read every answer
  as the transfer that was asked for, or as an acceptance.
\<close>

definition wire_channel :: "(string, nat) grpc_channel" where
  "wire_channel =
     \<lparr> ch_ready = \<lambda>w. (Ok (), w),
       ch_call = \<lambda>req w. (Ok [], if rq_path req = ''/protocol.Wallet/BroadcastTransaction'' then w + 1 else w) \<rparr>"

definition deaf_codec :: "'a message_codec" where
  "deaf_codec = \<lparr> mc_encode = \<lambda>_. [], mc_decode = \<lambda>_. Err (TonicInternal, []) \<rparr>"

definition deaf_messages :: prost_messages where
  "deaf_messages =
     \<lparr> pm_transfer_contract = deaf_codec,
       pm_transaction_extention = deaf_codec,
       pm_account_permission_update_contract = deaf_codec,
       pm_create_smart_contract = deaf_codec,
       pm_trigger_smart_contract = deaf_codec,
       pm_freeze_balance_contract = deaf_codec,
       pm_unfreeze_balance_contract = deaf_codec,
       pm_freeze_balance_v2_contract = deaf_codec,
       pm_unfreeze_balance_v2_contract = deaf_codec,
       pm_delegate_resource_contract = deaf_codec,
       pm_un_delegate_resource_contract = deaf_codec,
       pm_withdraw_expire_unfreeze_contract = deaf_codec,
       pm_cancel_all_unfreeze_v2_contract = deaf_codec,
       pm_withdraw_balance_contract = deaf_codec,
       pm_proposal_create_contract = deaf_codec,
       pm_proposal_approve_contract = deaf_codec,
       pm_proposal_delete_contract = deaf_codec,
       pm_asset_issue_contract = deaf_codec,
       pm_transfer_asset_contract = deaf_codec,
       pm_participate_asset_issue_contract = deaf_codec,
       pm_unfreeze_asset_contract = deaf_codec,
       pm_update_asset_contract = deaf_codec,
       pm_account_create_contract = deaf_codec,
       pm_vote_witness_contract = deaf_codec,
       pm_account_update_contract = deaf_codec,
       pm_set_account_id_contract = deaf_codec,
       pm_transaction = deaf_codec,
       pm_clear_abi_contract = deaf_codec,
       pm_update_setting_contract = deaf_codec,
       pm_update_energy_limit_contract = deaf_codec,
       pm_witness_create_contract = deaf_codec,
       pm_witness_update_contract = deaf_codec,
       pm_update_brokerage_contract = deaf_codec,
       pm_exchange_create_contract = deaf_codec,
       pm_exchange_inject_contract = deaf_codec,
       pm_exchange_withdraw_contract = deaf_codec,
       pm_exchange_transaction_contract = deaf_codec,
       pm_market_sell_asset_contract = deaf_codec,
       pm_market_cancel_order_contract = deaf_codec,
       pm_account = deaf_codec,
       pm_account_resource_message = deaf_codec,
       pm_bytes_message = deaf_codec,
       pm_transaction_info = deaf_codec,
       pm_estimate_energy_message = deaf_codec,
       pm_delegated_resource_message = deaf_codec,
       pm_delegated_resource_list = deaf_codec,
       pm_delegated_resource_account_index = deaf_codec,
       pm_can_delegated_max_size_request_message = deaf_codec,
       pm_can_delegated_max_size_response_message = deaf_codec,
       pm_number_message = deaf_codec,
       pm_empty = deaf_codec,
       pm_chain_parameters = deaf_codec,
       pm_smart_contract = deaf_codec,
       pm_smart_contract_data_wrapper = deaf_codec,
       pm_witness_list = deaf_codec,
       pm_paginated_message = deaf_codec,
       pm_proposal_list = deaf_codec,
       pm_proposal = deaf_codec,
       pm_asset_issue_list = deaf_codec,
       pm_can_withdraw_unfreeze_amount_request_message = deaf_codec,
       pm_can_withdraw_unfreeze_amount_response_message = deaf_codec,
       pm_get_available_unfreeze_count_request_message = deaf_codec,
       pm_get_available_unfreeze_count_response_message = deaf_codec,
       pm_prices_response_message = deaf_codec,
       pm_node_info = deaf_codec,
       pm_node_list = deaf_codec,
       pm_dynamic_properties = deaf_codec,
       pm_account_paginated = deaf_codec,
       pm_transaction_list_extention = deaf_codec,
       pm_transaction_info_list = deaf_codec,
       pm_transaction_sign_weight = deaf_codec,
       pm_transaction_approved_list = deaf_codec,
       pm_account_net_message = deaf_codec,
       pm_exchange_list = deaf_codec,
       pm_exchange = deaf_codec,
       pm_market_order = deaf_codec,
       pm_market_order_list = deaf_codec,
       pm_market_order_pair = deaf_codec,
       pm_market_price_list = deaf_codec,
       pm_market_order_pair_list = deaf_codec,
       pm_transaction_id_list = deaf_codec,
       pm_return = deaf_codec,
       pm_block_summary = deaf_codec,
       pm_block_summary_list = deaf_codec,
       pm_block_limit = deaf_codec \<rparr>"

definition wire_messages :: prost_messages where
  "wire_messages = deaf_messages
     \<lparr> pm_transaction := \<lparr> mc_encode = encode_tx sample_codec, mc_decode = \<lambda>_. Err (TonicInternal, []) \<rparr>,
       pm_transaction_extention := \<lparr> mc_encode = \<lambda>_. [], mc_decode = \<lambda>_. Ok transfer_answer \<rparr>,
       pm_return := \<lparr> mc_encode = \<lambda>_. [],
         mc_decode = \<lambda>_. Ok \<lparr> pb_return_result = True, pb_return_code = 0, pb_return_message = [] \<rparr> \<rparr> \<rparr>"

lemma wire_messages_typed: "messages_typed sample_codec wire_messages"
  by (auto simp: messages_typed_def wire_messages_def transfer_answer_def transfer_tx_ok)

definition wire_wallet :: "nat wallet_client" where
  "wire_wallet = sb_wallet (service_stubs Some wire_messages) wire_channel (Some ''key'')"

definition wire_read :: "nat read_client" where
  "wire_read = sb_read (service_stubs Some wire_messages) wire_channel (Some ''key'')"

definition wire_transport :: "nat transport" where
  "wire_transport = grpc_transport quiet_core sample_codec transfer_decoders wire_wallet wire_read"

lemma wire_create: "wk_create_transaction2 wire_wallet = wk_create_transaction2 transfer_node"
  by (simp add: fun_eq_iff wire_wallet_def service_stubs_def wallet_client_over_def
      wallet_rpc_create_transaction2_def service_unary_def channel_unary_def wire_channel_def
      wire_messages_def transfer_node_def constant_client_def)

lemma wire_accepts: "rd_broadcast_transaction wire_read = rd_broadcast_transaction accepting_node"
  by (simp add: fun_eq_iff wire_read_def service_stubs_def read_client_over_def
      wallet_rpc_broadcast_transaction_def service_unary_def channel_unary_def wire_channel_def
      wire_messages_def accepting_node_def)

lemma wire_build:
  "build_via_transport sample_codec wire_transport sample_send 0 = (Ok transfer_raw_tx, 0)"
proof -
  have "build_contract (grpc_build_rpcs quiet_core sample_codec transfer_decoders wire_wallet)
      (CtTransfer sample_transfer) w
    = build_contract (grpc_build_rpcs quiet_core sample_codec transfer_decoders transfer_node)
      (CtTransfer sample_transfer) w" for w
    by (simp add: grpc_build_rpcs_def grpc_transfer_trx_def wire_create)
  then show ?thesis
    using transfer_build
    by (simp add: build_via_transport_def sample_send_contract wire_transport_def transfer_transport_def
        grpc_transport_def del: build_contract.simps)
qed

lemma wire_vec_built:
  "vec_built (root_provider sample_codec wire_transport)
     (wallet_chain (\<lambda>_. []) (root_fill_node wire_transport (\<lambda>w. w))) sample_chain sample_send 0"
  using transfer_tx_ok
  by (simp add: vec_built_def filled_build_transaction_def wallet_chain_def root_provider_def sample_prepare
      wire_build answer_ok_def transfer_raw_tx_def)

lemma wire_send_run:
  "filled_send_transaction (root_provider sample_codec wire_transport)
     (wallet_chain (\<lambda>_. []) (root_fill_node wire_transport (\<lambda>w. w))) sample_chain sample_send 0
   = (Ok (pending_new (raw_tx_id transfer_raw_tx)), sample_chain, 1)"
proof -
  have "grpc_broadcast_transaction sample_codec wire_read t v
      = grpc_broadcast_transaction sample_codec accepting_node t v" for t v
    unfolding grpc_broadcast_transaction_def wire_accepts ..
  then have "broadcast wire_transport = broadcast transfer_transport"
    by (simp add: fun_eq_iff broadcast_def wire_transport_def transfer_transport_def grpc_transport_def)
  then have "filled_send_transaction (root_provider sample_codec wire_transport)
      (wallet_chain (\<lambda>_. []) (root_fill_node wire_transport (\<lambda>w. w))) sample_chain sample_send 0
    = filled_send_transaction (root_provider sample_codec transfer_transport)
      (wallet_chain (\<lambda>_. []) (root_fill_node transfer_transport (\<lambda>w. w))) sample_chain sample_send 0"
    by (simp add: filled_send_transaction_def filled_build_transaction_def root_provider_def
        wallet_chain_def sample_prepare transfer_build wire_build sign_built_def sample_send_contract
        cong del: sum.case_cong_weak prod.case_cong_weak option.case_cong_weak)
  then show ?thesis by (simp add: transfer_send_run)
qed

theorem wire_broadcast_is_requested_witness:
  "\<exists>m (sig :: recoverable_signature) w1.
     ch_call wire_channel \<lparr> rq_path = ''/protocol.Wallet/BroadcastTransaction'',
         rq_method = (''protocol.Wallet'', ''BroadcastTransaction''),
         rq_metadata = [''tron-pro-api-key'' \<mapsto> ''key''], rq_body = encode_tx sample_codec m \<rparr> w1 = (Ok [], 1)
     \<and> message_holds m PbTransferContract (holds_request transfer_decoders (CtTransfer sample_transfer))
     \<and> tx_signature m = [signature_to_bytes sig] \<and> Address (sig_r sig) = Address [2]"
proof -
  have S: "\<forall>s. req_contract sample_send \<noteq> Some (CtSetAccountId s)" by (simp add: sample_send_contract)
  have owner: "contract_owner_address (CtTransfer sample_transfer) = Address [2]" by (simp add: sample_transfer_def)
  have key: "api_key_interceptor Some (Some ''key'') Map.empty = [''tron-pro-api-key'' \<mapsto> ''key'']"
    by (simp add: api_key_interceptor_def)
  have codec: "mc_encode (pm_transaction wire_messages) = encode_tx sample_codec" by (simp add: wire_messages_def)
  from wire_broadcast_is_requested [OF sample_prost wire_messages_typed sample_wallet_ok sample_wallet_honest S
      wire_vec_built [unfolded wire_transport_def wire_wallet_def wire_read_def]
      wire_send_run [unfolded wire_transport_def wire_wallet_def wire_read_def]]
  obtain contract m w1 body and sig :: recoverable_signature where
    c: "req_contract sample_send = Some contract"
    and call: "ch_call wire_channel \<lparr> rq_path = ''/protocol.Wallet/BroadcastTransaction'',
         rq_method = (''protocol.Wallet'', ''BroadcastTransaction''),
         rq_metadata = [''tron-pro-api-key'' \<mapsto> ''key''], rq_body = encode_tx sample_codec m \<rparr> w1 = (Ok body, 1)"
    and rest: "message_holds m (requested_type contract) (holds_request transfer_decoders contract)"
      "tx_signature m = [signature_to_bytes sig]"
      "(Ok (Address (sig_r sig)) :: signature_error + address) =
        Ok (if wf_strict (join_right sample_chain)
               \<or> has_signer_for (wf_wallet_of (join_right sample_chain)) (contract_owner_address contract)
            then contract_owner_address contract
            else default_signer_address (wf_wallet_of (join_right sample_chain)))"
    unfolding key codec by blast
  have "contract = CtTransfer sample_transfer" using c by (simp add: sample_send_contract)
  moreover have "body = []" using call by (simp add: wire_channel_def)
  ultimately have "ch_call wire_channel \<lparr> rq_path = ''/protocol.Wallet/BroadcastTransaction'',
       rq_method = (''protocol.Wallet'', ''BroadcastTransaction''),
       rq_metadata = [''tron-pro-api-key'' \<mapsto> ''key''], rq_body = encode_tx sample_codec m \<rparr> w1 = (Ok [], 1)"
    and "message_holds m PbTransferContract (holds_request transfer_decoders (CtTransfer sample_transfer))"
    and "Address (sig_r sig) = Address [2]"
    using call rest(1,3) sample_wallet_holds owner by simp_all
  with rest(2) show ?thesis by blast
qed

section \<open>A service that is not ready\<close>

text \<open>
  The two ways of calling a node differ when the channel is not ready: a generated method reports
  \<open>Unknown\<close>, which is tried once, and \<open>GrpcCore::unary\<close>, which the block methods use, reports
  \<open>Unavailable\<close>, which is tried until the attempts are used up.
\<close>

lemma unready_generated_once:
  assumes "\<And>v. \<exists>v1. ch_ready ch v = (Inl e, v1)"
    and "after_marker http_status_marker (''Service was not ready: '' @ e) = None"
    and "retry (beside E) cfg (recorded (unary (service_unary ch Q R path service name) q)) (w, []) = (r, (w', rs))"
  shows "rs = [Err (TkRpc RpcUnknown (''Service was not ready: '' @ e))]"
proof -
  let ?err = "TkRpc RpcUnknown (''Service was not ready: '' @ e)"
  have "fst (unary (service_unary ch Q R path service name) q v) = Err ?err" for v
  proof -
    obtain v1 where "ch_ready ch v = (Inl e, v1)" using assms(1) by blast
    then show ?thesis
      using assms(2) by (simp add: unary_def service_unary_not_ready map_status_def http_status_def)
  qed
  then obtain v1 where "unary (service_unary ch Q R path service name) q w = (Err ?err, v1)"
    by (metis prod.collapse)
  then have "recorded (unary (service_unary ch Q R path service name) q) (w, []) = (Err ?err, (v1, [Err ?err]))"
    by (simp add: recorded_def)
  moreover have "\<not> transport_is_retryable ?err" by (simp add: transport_is_retryable_def)
  ultimately show ?thesis
    using assms(3) unfolding retry_def by (subst (asm) retry_loop.simps) (auto simp del: append.simps)
qed

lemma recorded_fst: "fst (recorded f vs) = fst (f (fst vs))"
  by (simp add: recorded_def split: prod.split)

lemma retry_loop_fails:
  assumes "\<And>v. fst (f v) = Inl err"
  shows "fst (retry_loop E cfg f limit backoff attempt w) = Inl err"
proof (induction "limit - attempt" arbitrary: backoff attempt w rule: less_induct)
  case less
  obtain w1 where f: "f w = (Inl err, w1)" using assms [of w] by (metis prod.collapse)
  show ?case
  proof (cases "Suc attempt \<ge> limit \<or> \<not> transport_is_retryable err")
    case True
    then show ?thesis by (subst retry_loop.simps) (auto simp: f)
  next
    case False
    then have "limit - Suc attempt < limit - attempt" by auto
    from less.hyps [OF this] False show ?thesis
      by (subst retry_loop.simps) (simp add: f Let_def split: prod.split)
  qed
qed

lemma unready_path_until_exhausted:
  assumes "\<And>v. \<exists>v1. ch_ready ch v = (Inl e, v1)"
    and "retry (beside E) cfg (recorded (\<lambda>v.
           case ch_ready ch v of
             (Inl e, v1) \<Rightarrow> (Err (TkRpc RpcUnavailable (''service was not ready: '' @ e)), v1)
           | (Inr _, v1) \<Rightarrow> unary client q v1)) (w, []) = (r, (w', rs))"
  shows "length rs = max (unat (max_attempts cfg)) 1"
proof -
  let ?f = "\<lambda>v. case ch_ready ch v of
             (Inl e, v1) \<Rightarrow> (Err (TkRpc RpcUnavailable (''service was not ready: '' @ e)), v1)
           | (Inr _, v1) \<Rightarrow> unary client q v1"
  let ?err = "TkRpc RpcUnavailable (''service was not ready: '' @ e)"
  have f: "fst (?f v) = Err ?err" for v
    using assms(1) [of v] by (auto simp: del: append.simps)
  from assms(2) have run: "retry_loop (beside E) cfg (recorded ?f) (max (unat (max_attempts cfg)) 1)
      (initial_backoff cfg) 0 (w, []) = (r, (w', rs))" by (simp only: retry_def)
  have "fst (recorded ?f vs) = Err ?err" for vs
    unfolding recorded_fst by (rule f)
  then have "fst (retry_loop (beside E) cfg (recorded ?f) (max (unat (max_attempts cfg)) 1)
      (initial_backoff cfg) 0 (w, [])) = Inl ?err" by (rule retry_loop_fails)
  then have "r = Err ?err" by (simp only: run fst_conv)
  then have "may_retry r" by (simp add: may_retry_def transport_is_retryable_def)
  with retry_loop_recorded [OF run] show ?thesis by auto
qed

end
