(* ===== verification/Abi_Json.thy ===== *)
theory Abi_Json
  imports Abi "HOL-Library.List_Lexorder" "HOL-Library.Char_ord"
begin

text \<open>
  The conversions between the ABI metadata of a node and a Solidity JSON ABI
  (\<open>crates/abi/src/alloy.rs\<close>).  The items of a JSON ABI are those of \<open>alloy_json_abi\<close>: one
  constructor, fallback and receive at most, and functions, events and errors grouped by name in
  a \<open>BTreeMap\<close>, here a list of groups in the order of their names.  A parameter of \<open>alloy\<close> is a
  value of any type \<open>'p\<close>, and what the code asks of it is the record \<open>alloy_params\<close>.
\<close>

section \<open>JSON ABI\<close>

record 'p alloy_params =
  ap_name :: "'p \<Rightarrow> string"
  ap_ty :: "'p \<Rightarrow> string"
  ap_has_components :: "'p \<Rightarrow> bool"
  ap_selector_type :: "'p \<Rightarrow> string"
  ap_parse :: "string \<Rightarrow> 'p option"
  ap_valid_identifier :: "string \<Rightarrow> bool"

datatype json_mutability = JsPure | JsView | JsNonPayable | JsPayable

record 'p json_constructor =
  jc_inputs :: "'p list"
  jc_state_mutability :: json_mutability

record 'p json_function =
  jf_name :: string
  jf_inputs :: "'p list"
  jf_outputs :: "'p list"
  jf_state_mutability :: json_mutability

text \<open>An event parameter has the fields of a parameter and \<open>indexed\<close>.\<close>

record 'p json_event_param =
  jep_param :: 'p
  jep_indexed :: bool

record 'p json_event =
  je_name :: string
  je_inputs :: "'p json_event_param list"
  je_anonymous :: bool

record 'p json_error =
  jr_name :: string
  jr_inputs :: "'p list"

record 'p json_abi =
  ja_constructor :: "'p json_constructor option"
  ja_fallback :: "json_mutability option"
  ja_receive :: "json_mutability option"
  ja_functions :: "(string \<times> 'p json_function list) list"
  ja_events :: "(string \<times> 'p json_event list) list"
  ja_errors :: "(string \<times> 'p json_error list) list"

definition json_abi_new :: "'p json_abi" where
  "json_abi_new =
     \<lparr> ja_constructor = None, ja_fallback = None, ja_receive = None, ja_functions = [], ja_events = [],
       ja_errors = [] \<rparr>"

text \<open>The items of a map of groups, and \<open>entry(name).or_default().push(item)\<close>.\<close>

definition grouped :: "(string \<times> 'v list) list \<Rightarrow> 'v list" where
  "grouped m = concat (map snd m)"

fun group_push :: "string \<Rightarrow> 'v \<Rightarrow> (string \<times> 'v list) list \<Rightarrow> (string \<times> 'v list) list" where
  "group_push k v [] = [(k, [v])]"
| "group_push k v ((k', vs) # m) =
     (if k = k' then (k', vs @ [v]) # m
      else if k < k' then (k, [v]) # (k', vs) # m
      else (k', vs) # group_push k v m)"

datatype abi_conversion_error =
    AcInvalidType string
  | AcInvalidName string
  | AcUnknownEntryType i32
  | AcInvalidMutability i32
  | AcConflictingMutability
  | AcIncompleteTuple string
  | AcDuplicateEntry string

section \<open>From JSON\<close>

definition starts_with :: "string \<Rightarrow> string \<Rightarrow> bool" where
  "starts_with s pat \<longleftrightarrow> take (length pat) s = pat"

definition validate_name :: "'p alloy_params \<Rightarrow> string \<Rightarrow> bool \<Rightarrow> abi_conversion_error + unit" where
  "validate_name A name allow_empty =
     (if allow_empty \<and> name = [] \<or> ap_valid_identifier A name then Ok () else Err (AcInvalidName name))"

definition param_from_json :: "'p alloy_params \<Rightarrow> 'p \<Rightarrow> abi_conversion_error + tron_abi_param" where
  "param_from_json A p =
     and_then (validate_name A (ap_name A p) True) (\<lambda>_.
       if starts_with (ap_ty A p) ''tuple'' \<and> \<not> ap_has_components A p then Err (AcIncompleteTuple (ap_name A p))
       else
         (let ty = ap_selector_type A p
          in if ty = [] then Err (AcInvalidType (ap_ty A p))
             else Ok \<lparr> param_indexed = False, param_name = ap_name A p, param_ty = ty \<rparr>))"

definition event_param_from_json ::
  "'p alloy_params \<Rightarrow> 'p json_event_param \<Rightarrow> abi_conversion_error + tron_abi_param" where
  "event_param_from_json A p =
     (let q = jep_param p
      in and_then (validate_name A (ap_name A q) True) (\<lambda>_.
           if starts_with (ap_ty A q) ''tuple'' \<and> \<not> ap_has_components A q then Err (AcIncompleteTuple (ap_name A q))
           else
             (let ty = ap_selector_type A q
              in if ty = [] then Err (AcInvalidType (ap_ty A q))
                 else Ok \<lparr> param_indexed = jep_indexed p, param_name = ap_name A q, param_ty = ty \<rparr>)))"

fun state_from_json :: "json_mutability \<Rightarrow> tron_abi_state_mutability" where
  "state_from_json JsPure = MutPure"
| "state_from_json JsView = MutView"
| "state_from_json JsNonPayable = MutNonPayable"
| "state_from_json JsPayable = MutPayable"

definition entry_from_json ::
  "tron_abi_entry_type \<Rightarrow> string \<Rightarrow> tron_abi_param list \<Rightarrow> tron_abi_param list
     \<Rightarrow> tron_abi_state_mutability \<Rightarrow> bool \<Rightarrow> tron_abi_entry" where
  "entry_from_json ty name inputs outputs state anonymous =
     \<lparr> entry_type = ty, entry_name = name, entry_inputs = inputs, entry_outputs = outputs,
       entry_anonymous = anonymous, entry_constant = (state = MutPure \<or> state = MutView),
       entry_payable = (state = MutPayable), entry_state_mutability = state \<rparr>"

definition constructor_from_json ::
  "'p alloy_params \<Rightarrow> 'p json_constructor \<Rightarrow> abi_conversion_error + tron_abi_entry" where
  "constructor_from_json A item =
     and_then (collect_results (param_from_json A) (jc_inputs item)) (\<lambda>inputs.
       Ok (entry_from_json EntryConstructor [] inputs [] (state_from_json (jc_state_mutability item)) False))"

definition function_from_json ::
  "'p alloy_params \<Rightarrow> 'p json_function \<Rightarrow> abi_conversion_error + tron_abi_entry" where
  "function_from_json A item =
     and_then (validate_name A (jf_name item) False) (\<lambda>_.
     and_then (collect_results (param_from_json A) (jf_inputs item)) (\<lambda>inputs.
     and_then (collect_results (param_from_json A) (jf_outputs item)) (\<lambda>outputs.
       Ok (entry_from_json EntryFunction (jf_name item) inputs outputs
             (state_from_json (jf_state_mutability item)) False))))"

definition event_from_json ::
  "'p alloy_params \<Rightarrow> 'p json_event \<Rightarrow> abi_conversion_error + tron_abi_entry" where
  "event_from_json A item =
     and_then (validate_name A (je_name item) False) (\<lambda>_.
     and_then (collect_results (event_param_from_json A) (je_inputs item)) (\<lambda>inputs.
       Ok (entry_from_json EntryEvent (je_name item) inputs [] (MutUnknown 0) (je_anonymous item))))"

definition error_from_json ::
  "'p alloy_params \<Rightarrow> 'p json_error \<Rightarrow> abi_conversion_error + tron_abi_entry" where
  "error_from_json A item =
     and_then (validate_name A (jr_name item) False) (\<lambda>_.
     and_then (collect_results (param_from_json A) (jr_inputs item)) (\<lambda>inputs.
       Ok (entry_from_json EntryError (jr_name item) inputs [] (MutUnknown 0) False)))"

definition opt_list :: "'a option \<Rightarrow> 'a list" where
  "opt_list x = (case x of None \<Rightarrow> [] | Some a \<Rightarrow> [a])"

definition try_from_json_abi :: "'p alloy_params \<Rightarrow> 'p json_abi \<Rightarrow> abi_conversion_error + tron_abi" where
  "try_from_json_abi A abi =
     and_then (collect_results (constructor_from_json A) (opt_list (ja_constructor abi))) (\<lambda>constructors.
     and_then (collect_results (function_from_json A) (grouped (ja_functions abi))) (\<lambda>functions.
     and_then (collect_results (event_from_json A) (grouped (ja_events abi))) (\<lambda>events.
     and_then (collect_results (error_from_json A) (grouped (ja_errors abi))) (\<lambda>errors.
       Ok \<lparr> abi_entries =
              constructors
              @ map (\<lambda>m. entry_from_json EntryFallback [] [] [] (state_from_json m) False) (opt_list (ja_fallback abi))
              @ map (\<lambda>m. entry_from_json EntryReceive [] [] [] (state_from_json m) False) (opt_list (ja_receive abi))
              @ functions @ events @ errors \<rparr>))))"

section \<open>To JSON\<close>

text \<open>\<open>strip_prefix("tuple").is_some_and(|s| s.is_empty() || s.starts_with('['))\<close>\<close>

definition bare_tuple :: "string \<Rightarrow> bool" where
  "bare_tuple ty \<longleftrightarrow>
     starts_with ty ''tuple'' \<and> (case drop 5 ty of [] \<Rightarrow> True | c # _ \<Rightarrow> c = CHR ''['')"

definition param_declaration :: "string \<Rightarrow> string \<Rightarrow> string" where
  "param_declaration ty name = (if name = [] then ty else ty @ '' '' @ name)"

definition param_to_json :: "'p alloy_params \<Rightarrow> tron_abi_param \<Rightarrow> abi_conversion_error + 'p" where
  "param_to_json A p =
     and_then (validate_name A (param_name p) True) (\<lambda>_.
       if bare_tuple (param_ty p) then Err (AcIncompleteTuple (param_name p))
       else ok_or (AcInvalidType (param_ty p)) (ap_parse A (param_declaration (param_ty p) (param_name p))))"

definition event_param_to_json ::
  "'p alloy_params \<Rightarrow> tron_abi_param \<Rightarrow> abi_conversion_error + 'p json_event_param" where
  "event_param_to_json A p =
     and_then (param_to_json A p) (\<lambda>q. Ok \<lparr> jep_param = q, jep_indexed = param_indexed p \<rparr>)"

fun state_to_json ::
  "tron_abi_state_mutability \<Rightarrow> bool \<Rightarrow> bool \<Rightarrow> bool \<Rightarrow> abi_conversion_error + json_mutability" where
  "state_to_json (MutUnknown v) constant payable receive =
     (if v = 0 \<and> constant \<and> (receive \<or> payable) then Err AcConflictingMutability
      else if v = 0 \<and> (receive \<or> payable) then Ok JsPayable
      else if v = 0 \<and> constant then Ok JsView
      else if v = 0 then Ok JsNonPayable
      else Err (AcInvalidMutability v))"
| "state_to_json MutPure _ _ _ = Ok JsPure"
| "state_to_json MutView _ _ _ = Ok JsView"
| "state_to_json MutNonPayable _ _ _ = Ok JsNonPayable"
| "state_to_json MutPayable _ _ _ = Ok JsPayable"

text \<open>One round of the loop.\<close>

definition push_entry ::
  "'p alloy_params \<Rightarrow> tron_abi_entry \<Rightarrow> 'p json_abi \<Rightarrow> abi_conversion_error + 'p json_abi" where
  "push_entry A entry abi =
     (let state = (\<lambda>receive. state_to_json (entry_state_mutability entry) (entry_constant entry)
                     (entry_payable entry) receive)
      in case entry_type entry of
           EntryConstructor \<Rightarrow>
             (if ja_constructor abi \<noteq> None then Err (AcDuplicateEntry ''constructor'')
              else
                and_then (collect_results (param_to_json A) (entry_inputs entry)) (\<lambda>inputs.
                and_then (state False) (\<lambda>m.
                  Ok (abi\<lparr> ja_constructor := Some \<lparr> jc_inputs = inputs, jc_state_mutability = m \<rparr> \<rparr>))))
         | EntryFunction \<Rightarrow>
             and_then (validate_name A (entry_name entry) False) (\<lambda>_.
             and_then (collect_results (param_to_json A) (entry_inputs entry)) (\<lambda>inputs.
             and_then (collect_results (param_to_json A) (entry_outputs entry)) (\<lambda>outputs.
             and_then (state False) (\<lambda>m.
               Ok (abi\<lparr> ja_functions := group_push (entry_name entry)
                          \<lparr> jf_name = entry_name entry, jf_inputs = inputs, jf_outputs = outputs,
                            jf_state_mutability = m \<rparr> (ja_functions abi) \<rparr>)))))
         | EntryEvent \<Rightarrow>
             and_then (validate_name A (entry_name entry) False) (\<lambda>_.
             and_then (collect_results (event_param_to_json A) (entry_inputs entry)) (\<lambda>inputs.
               Ok (abi\<lparr> ja_events := group_push (entry_name entry)
                          \<lparr> je_name = entry_name entry, je_inputs = inputs,
                            je_anonymous = entry_anonymous entry \<rparr> (ja_events abi) \<rparr>)))
         | EntryFallback \<Rightarrow>
             (if ja_fallback abi \<noteq> None then Err (AcDuplicateEntry ''fallback'')
              else and_then (state False) (\<lambda>m. Ok (abi\<lparr> ja_fallback := Some m \<rparr>)))
         | EntryReceive \<Rightarrow>
             (if ja_receive abi \<noteq> None then Err (AcDuplicateEntry ''receive'')
              else and_then (state True) (\<lambda>m. Ok (abi\<lparr> ja_receive := Some m \<rparr>)))
         | EntryError \<Rightarrow>
             and_then (validate_name A (entry_name entry) False) (\<lambda>_.
             and_then (collect_results (param_to_json A) (entry_inputs entry)) (\<lambda>inputs.
               Ok (abi\<lparr> ja_errors := group_push (entry_name entry)
                          \<lparr> jr_name = entry_name entry, jr_inputs = inputs \<rparr> (ja_errors abi) \<rparr>)))
         | EntryUnknown v \<Rightarrow> Err (AcUnknownEntryType v))"

fun push_entries ::
  "'p alloy_params \<Rightarrow> tron_abi_entry list \<Rightarrow> 'p json_abi \<Rightarrow> abi_conversion_error + 'p json_abi" where
  "push_entries A [] abi = Ok abi"
| "push_entries A (e # es) abi = and_then (push_entry A e abi) (push_entries A es)"

definition try_to_json_abi :: "'p alloy_params \<Rightarrow> tron_abi \<Rightarrow> abi_conversion_error + 'p json_abi" where
  "try_to_json_abi A abi = push_entries A (abi_entries abi) json_abi_new"

section \<open>The round trip\<close>

text \<open>
  What survives TRON's metadata: a parameter that its declaration determines (no component names
  and no internal type), with a valid or an empty name; the groups of a \<open>BTreeMap\<close>, each with the
  items of its name.
\<close>

definition plain_param :: "'p alloy_params \<Rightarrow> 'p \<Rightarrow> bool" where
  "plain_param A p \<longleftrightarrow>
     (ap_name A p = [] \<or> ap_valid_identifier A (ap_name A p)) \<and> \<not> starts_with (ap_ty A p) ''tuple''
     \<and> ap_ty A p \<noteq> [] \<and> ap_selector_type A p = ap_ty A p
     \<and> ap_parse A (param_declaration (ap_ty A p) (ap_name A p)) = Some p"

definition plain_group :: "'p alloy_params \<Rightarrow> ('v \<Rightarrow> string) \<Rightarrow> ('v \<Rightarrow> 'p list) \<Rightarrow> string \<times> 'v list \<Rightarrow> bool" where
  "plain_group A name params g \<longleftrightarrow>
     snd g \<noteq> [] \<and> ap_valid_identifier A (fst g)
     \<and> (\<forall>v\<in>set (snd g). name v = fst g \<and> (\<forall>p\<in>set (params v). plain_param A p))"

definition plain_groups ::
  "'p alloy_params \<Rightarrow> ('v \<Rightarrow> string) \<Rightarrow> ('v \<Rightarrow> 'p list) \<Rightarrow> (string \<times> 'v list) list \<Rightarrow> bool" where
  "plain_groups A name params m \<longleftrightarrow>
     sorted_wrt (<) (map fst m) \<and> (\<forall>g\<in>set m. plain_group A name params g)"

definition plain_json_abi :: "'p alloy_params \<Rightarrow> 'p json_abi \<Rightarrow> bool" where
  "plain_json_abi A J \<longleftrightarrow>
     (\<forall>c\<in>set (opt_list (ja_constructor J)). \<forall>p\<in>set (jc_inputs c). plain_param A p)
     \<and> plain_groups A jf_name (\<lambda>f. jf_inputs f @ jf_outputs f) (ja_functions J)
     \<and> plain_groups A je_name (\<lambda>e. map jep_param (je_inputs e)) (ja_events J)
     \<and> plain_groups A jr_name jr_inputs (ja_errors J)"

text \<open>Pushing the items of the groups one by one rebuilds the groups.\<close>

lemma group_push_after:
  assumes "\<forall>k'\<in>set (map fst m). k' < k"
  shows "group_push k v m = m @ [(k, [v])]"
  using assms by (induction m) (auto simp: not_less_iff_gr_or_eq)

lemma group_push_last:
  assumes "\<forall>k'\<in>set (map fst m). k' < k"
  shows "group_push k v (m @ [(k, vs)]) = m @ [(k, vs @ [v])]"
  using assms by (induction m) (auto simp: not_less_iff_gr_or_eq)

lemma fold_group_push_last:
  assumes "\<forall>k'\<in>set (map fst m). k' < k"
  shows "fold (group_push k) vs (m @ [(k, us)]) = m @ [(k, us @ vs)]"
  using assms by (induction vs arbitrary: us) (simp_all add: group_push_last)

lemma fold_group_push_group:
  assumes "\<forall>k'\<in>set (map fst m). k' < k" and "vs \<noteq> []"
  shows "fold (group_push k) vs m = m @ [(k, vs)]"
  using assms by (cases vs) (simp_all add: group_push_after fold_group_push_last)

lemma fold_group_push_grouped:
  assumes "plain_groups A name params m"
  shows "fold (\<lambda>v. group_push (name v) v) (grouped m) [] = m"
  using assms
proof (induction m rule: rev_induct)
  case Nil
  then show ?case by (simp add: grouped_def)
next
  case (snoc g m)
  obtain k vs where g: "g = (k, vs)" by (cases g)
  have vs: "vs \<noteq> []" "\<forall>v\<in>set vs. name v = k" and m: "\<forall>k'\<in>set (map fst m). k' < k"
    and "plain_groups A name params m"
    using snoc(2) by (simp_all add: plain_groups_def plain_group_def g sorted_wrt_append)
  have "fold (\<lambda>v. group_push (name v) v) vs m = fold (group_push k) vs m"
    by (rule fold_cong) (use vs(2) in simp_all)
  also have "\<dots> = m @ [(k, vs)]" using m vs(1) by (rule fold_group_push_group)
  finally show ?case using snoc(1) [OF \<open>plain_groups A name params m\<close>] by (simp add: grouped_def g)
qed

text \<open>Parameters, one by one and in lists.\<close>

lemma plain_param_from_json:
  assumes "plain_param A p"
  shows "param_from_json A p = Ok \<lparr> param_indexed = False, param_name = ap_name A p, param_ty = ap_ty A p \<rparr>"
  using assms by (auto simp: param_from_json_def plain_param_def validate_name_def Let_def)

lemma plain_param_to_json:
  assumes "plain_param A p"
  shows "param_to_json A \<lparr> param_indexed = i, param_name = ap_name A p, param_ty = ap_ty A p \<rparr> = Ok p"
  using assms by (auto simp: param_to_json_def plain_param_def validate_name_def bare_tuple_def)

lemma plain_event_param_from_json:
  assumes "plain_param A (jep_param p)"
  shows "event_param_from_json A p
    = Ok \<lparr> param_indexed = jep_indexed p, param_name = ap_name A (jep_param p), param_ty = ap_ty A (jep_param p) \<rparr>"
  using assms by (auto simp: event_param_from_json_def plain_param_def validate_name_def Let_def)

text \<open>A list that is mapped forth and back, item by item.\<close>

definition mapped_back :: "('a \<Rightarrow> 'e + 'b) \<Rightarrow> ('b \<Rightarrow> 'e + 'a) \<Rightarrow> 'a list \<Rightarrow> bool" where
  "mapped_back f g xs \<longleftrightarrow> (\<exists>ys. collect_results f xs = Ok ys \<and> collect_results g ys = Ok xs)"

lemma mapped_backI:
  assumes "\<And>x. x \<in> set xs \<Longrightarrow> \<exists>y. f x = Ok y \<and> g y = Ok x"
  shows "mapped_back f g xs"
  using assms
proof (induction xs)
  case Nil
  then show ?case by (simp add: mapped_back_def)
next
  case (Cons x xs)
  obtain y where "f x = Ok y" "g y = Ok x" using Cons(2) [of x] by auto
  moreover have "mapped_back f g xs" using Cons(2) by (intro Cons(1)) simp
  ultimately show ?case by (auto simp: mapped_back_def)
qed

lemma params_mapped_back:
  assumes "\<forall>p\<in>set ps. plain_param A p"
  shows "mapped_back (param_from_json A) (param_to_json A) ps"
  using assms by (intro mapped_backI) (simp add: plain_param_from_json plain_param_to_json)

lemma event_params_mapped_back:
  assumes "\<forall>p\<in>set ps. plain_param A (jep_param p)"
  shows "mapped_back (event_param_from_json A) (event_param_to_json A) ps"
  using assms
  by (intro mapped_backI) (simp add: plain_event_param_from_json event_param_to_json_def plain_param_to_json)

lemma state_to_from_json [simp]: "state_to_json (state_from_json m) constant payable receive = Ok m"
  by (cases m) simp_all

text \<open>Items: each becomes an entry, and pushing the entry adds the item to its group.\<close>

definition pushed_back ::
  "'p alloy_params \<Rightarrow> ('v \<Rightarrow> abi_conversion_error + tron_abi_entry) \<Rightarrow> ('v \<Rightarrow> 'p json_abi \<Rightarrow> 'p json_abi)
     \<Rightarrow> 'v list \<Rightarrow> bool" where
  "pushed_back A f add vs \<longleftrightarrow>
     (\<exists>es. collect_results f vs = Ok es \<and> (\<forall>abi. push_entries A es abi = Ok (fold add vs abi)))"

lemma pushed_backI:
  assumes "\<And>v. v \<in> set vs \<Longrightarrow> \<exists>e. f v = Ok e \<and> (\<forall>abi. push_entry A e abi = Ok (add v abi))"
  shows "pushed_back A f add vs"
  using assms
proof (induction vs)
  case Nil
  then show ?case by (simp add: pushed_back_def)
next
  case (Cons v vs)
  obtain e where "f v = Ok e" "\<forall>abi. push_entry A e abi = Ok (add v abi)" using Cons(2) [of v] by auto
  moreover have "pushed_back A f add vs" using Cons(2) by (intro Cons(1)) simp
  ultimately show ?case by (auto simp: pushed_back_def)
qed

definition add_function :: "'p json_function \<Rightarrow> 'p json_abi \<Rightarrow> 'p json_abi" where
  "add_function v abi = abi\<lparr> ja_functions := group_push (jf_name v) v (ja_functions abi) \<rparr>"

definition add_event :: "'p json_event \<Rightarrow> 'p json_abi \<Rightarrow> 'p json_abi" where
  "add_event v abi = abi\<lparr> ja_events := group_push (je_name v) v (ja_events abi) \<rparr>"

definition add_error :: "'p json_error \<Rightarrow> 'p json_abi \<Rightarrow> 'p json_abi" where
  "add_error v abi = abi\<lparr> ja_errors := group_push (jr_name v) v (ja_errors abi) \<rparr>"

lemma fold_add_function:
  "fold add_function fs abi
     = abi\<lparr> ja_functions := fold (\<lambda>v. group_push (jf_name v) v) fs (ja_functions abi) \<rparr>"
  by (induction fs arbitrary: abi) (simp_all add: add_function_def)

lemma fold_add_event:
  "fold add_event es abi = abi\<lparr> ja_events := fold (\<lambda>v. group_push (je_name v) v) es (ja_events abi) \<rparr>"
  by (induction es arbitrary: abi) (simp_all add: add_event_def)

lemma fold_add_error:
  "fold add_error rs abi = abi\<lparr> ja_errors := fold (\<lambda>v. group_push (jr_name v) v) rs (ja_errors abi) \<rparr>"
  by (induction rs arbitrary: abi) (simp_all add: add_error_def)

lemmas fold_add = fold_add_function fold_add_event fold_add_error

lemma plain_groups_member:
  assumes "plain_groups A name params m" and "v \<in> set (grouped m)"
  shows "ap_valid_identifier A (name v)" and "\<forall>p\<in>set (params v). plain_param A p"
  using assms by (auto simp: plain_groups_def plain_group_def grouped_def)

lemma functions_pushed_back:
  assumes "plain_groups A jf_name (\<lambda>f. jf_inputs f @ jf_outputs f) m"
  shows "pushed_back A (function_from_json A) add_function (grouped m)"
proof (rule pushed_backI)
  fix v assume v: "v \<in> set (grouped m)"
  note member = plain_groups_member [OF assms v]
  have "mapped_back (param_from_json A) (param_to_json A) (jf_inputs v)"
    "mapped_back (param_from_json A) (param_to_json A) (jf_outputs v)"
    using member(2) by (simp_all add: params_mapped_back)
  then show "\<exists>e. function_from_json A v = Ok e \<and> (\<forall>abi. push_entry A e abi = Ok (add_function v abi))"
    using member(1)
    by (cases v) (auto simp: mapped_back_def function_from_json_def validate_name_def entry_from_json_def push_entry_def
        add_function_def)
qed

lemma events_pushed_back:
  assumes "plain_groups A je_name (\<lambda>e. map jep_param (je_inputs e)) m"
  shows "pushed_back A (event_from_json A) add_event (grouped m)"
proof (rule pushed_backI)
  fix v assume v: "v \<in> set (grouped m)"
  note member = plain_groups_member [OF assms v]
  have "mapped_back (event_param_from_json A) (event_param_to_json A) (je_inputs v)"
    using member(2) by (simp add: event_params_mapped_back)
  then show "\<exists>e. event_from_json A v = Ok e \<and> (\<forall>abi. push_entry A e abi = Ok (add_event v abi))"
    using member(1)
    by (cases v) (auto simp: mapped_back_def event_from_json_def validate_name_def entry_from_json_def push_entry_def
        add_event_def)
qed

lemma errors_pushed_back:
  assumes "plain_groups A jr_name jr_inputs m"
  shows "pushed_back A (error_from_json A) add_error (grouped m)"
proof (rule pushed_backI)
  fix v assume v: "v \<in> set (grouped m)"
  note member = plain_groups_member [OF assms v]
  have "mapped_back (param_from_json A) (param_to_json A) (jr_inputs v)"
    using member(2) by (simp add: params_mapped_back)
  then show "\<exists>e. error_from_json A v = Ok e \<and> (\<forall>abi. push_entry A e abi = Ok (add_error v abi))"
    using member(1)
    by (cases v) (auto simp: mapped_back_def error_from_json_def validate_name_def entry_from_json_def push_entry_def
        add_error_def)
qed

lemma json_abi_new_fields:
  "ja_constructor json_abi_new = None" "ja_fallback json_abi_new = None" "ja_receive json_abi_new = None"
  "ja_functions json_abi_new = []" "ja_events json_abi_new = []" "ja_errors json_abi_new = []"
  by (simp_all add: json_abi_new_def)

text \<open>The items there is at most one of.\<close>

lemma push_entries_append:
  "push_entries A (es @ fs) abi = and_then (push_entries A es abi) (push_entries A fs)"
  by (induction es arbitrary: abi) (auto simp: and_then_def split: sum.splits)

lemma constructor_back:
  assumes "\<forall>c\<in>set (opt_list c). \<forall>p\<in>set (jc_inputs c). plain_param A p" and "ja_constructor abi = None"
  shows "\<exists>es. collect_results (constructor_from_json A) (opt_list c) = Ok es
    \<and> push_entries A es abi = Ok (abi\<lparr> ja_constructor := c \<rparr>)"
proof (cases c)
  case None
  then show ?thesis using assms(2) by (simp add: opt_list_def)
next
  case (Some item)
  then have "mapped_back (param_from_json A) (param_to_json A) (jc_inputs item)"
    using assms(1) by (simp add: opt_list_def params_mapped_back)
  then show ?thesis using Some assms(2)
    by (auto simp: mapped_back_def opt_list_def constructor_from_json_def entry_from_json_def push_entry_def)
qed

lemma fallback_back:
  assumes "ja_fallback abi = None"
  shows "push_entries A (map (\<lambda>m. entry_from_json EntryFallback [] [] [] (state_from_json m) False) (opt_list c)) abi
    = Ok (abi\<lparr> ja_fallback := c \<rparr>)"
  using assms by (cases c) (simp_all add: opt_list_def entry_from_json_def push_entry_def)

lemma receive_back:
  assumes "ja_receive abi = None"
  shows "push_entries A (map (\<lambda>m. entry_from_json EntryReceive [] [] [] (state_from_json m) False) (opt_list c)) abi
    = Ok (abi\<lparr> ja_receive := c \<rparr>)"
  using assms by (cases c) (simp_all add: opt_list_def entry_from_json_def push_entry_def)

text \<open>
  C19: a JSON ABI that says nothing of its parameters beyond what TRON's metadata can hold (no tuples,
  no internal types, no component names) survives the metadata: converting it
  succeeds, and converting the entries back gives the same constructor, fallback, receive,
  functions, events and errors, with every overload in its place.
\<close>

theorem json_abi_roundtrip:
  assumes "plain_json_abi A J"
  shows "\<exists>t. try_from_json_abi A J = Ok t \<and> try_to_json_abi A t = Ok J"
proof -
  have plain: "plain_groups A jf_name (\<lambda>f. jf_inputs f @ jf_outputs f) (ja_functions J)"
    "plain_groups A je_name (\<lambda>e. map jep_param (je_inputs e)) (ja_events J)"
    "plain_groups A jr_name jr_inputs (ja_errors J)"
    "\<forall>c\<in>set (opt_list (ja_constructor J)). \<forall>p\<in>set (jc_inputs c). plain_param A p"
    using assms by (simp_all add: plain_json_abi_def)
  obtain cs where cs: "collect_results (constructor_from_json A) (opt_list (ja_constructor J)) = Ok cs"
    "push_entries A cs json_abi_new = Ok (json_abi_new\<lparr> ja_constructor := ja_constructor J \<rparr>)"
    using constructor_back [OF plain(4), of json_abi_new] by (auto simp: json_abi_new_def)
  obtain fs where fs: "collect_results (function_from_json A) (grouped (ja_functions J)) = Ok fs"
    "\<And>abi. push_entries A fs abi = Ok (fold add_function (grouped (ja_functions J)) abi)"
    using functions_pushed_back [OF plain(1)] by (auto simp: pushed_back_def)
  obtain es where es: "collect_results (event_from_json A) (grouped (ja_events J)) = Ok es"
    "\<And>abi. push_entries A es abi = Ok (fold add_event (grouped (ja_events J)) abi)"
    using events_pushed_back [OF plain(2)] by (auto simp: pushed_back_def)
  obtain rs where rs: "collect_results (error_from_json A) (grouped (ja_errors J)) = Ok rs"
    "\<And>abi. push_entries A rs abi = Ok (fold add_error (grouped (ja_errors J)) abi)"
    using errors_pushed_back [OF plain(3)] by (auto simp: pushed_back_def)
  note regroup = fold_group_push_grouped [OF plain(1)] fold_group_push_grouped [OF plain(2)]
    fold_group_push_grouped [OF plain(3)]
  show ?thesis
    by (simp add: try_from_json_abi_def try_to_json_abi_def cs fs es rs push_entries_append fallback_back
        receive_back fold_add json_abi_new_fields regroup)
qed

text \<open>Parameters written as pairs of a type and a name, parsed at the first space.\<close>

definition pair_params :: "(string \<times> string) alloy_params" where
  "pair_params =
     \<lparr> ap_name = snd, ap_ty = fst, ap_has_components = (\<lambda>_. False), ap_selector_type = fst,
       ap_parse = (\<lambda>s. Some (takeWhile (\<lambda>c. c \<noteq> CHR '' '') s, drop 1 (dropWhile (\<lambda>c. c \<noteq> CHR '' '') s))),
       ap_valid_identifier = (\<lambda>s. s \<noteq> [] \<and> CHR '' '' \<notin> set s) \<rparr>"

definition token_json_abi :: "(string \<times> string) json_abi" where
  "token_json_abi =
     json_abi_new\<lparr>
       ja_constructor := Some \<lparr> jc_inputs = [(''uint256'', ''supply'')], jc_state_mutability = JsNonPayable \<rparr>,
       ja_receive := Some JsPayable,
       ja_functions :=
         [(''balanceOf'',
            [\<lparr> jf_name = ''balanceOf'', jf_inputs = [(''address'', ''owner'')],
               jf_outputs = [(''uint256'', [])], jf_state_mutability = JsView \<rparr>]),
          (''mint'',
            [\<lparr> jf_name = ''mint'', jf_inputs = [(''address'', ''to'')], jf_outputs = [],
               jf_state_mutability = JsPayable \<rparr>,
             \<lparr> jf_name = ''mint'', jf_inputs = [], jf_outputs = [], jf_state_mutability = JsPayable \<rparr>])],
       ja_events :=
         [(''Transfer'',
            [\<lparr> je_name = ''Transfer'',
               je_inputs = [\<lparr> jep_param = (''address'', ''from''), jep_indexed = True \<rparr>],
               je_anonymous = False \<rparr>])] \<rparr>"

lemma token_json_abi_plain: "plain_json_abi pair_params token_json_abi"
  by (simp add: plain_json_abi_def token_json_abi_def json_abi_new_def plain_groups_def plain_group_def
      plain_param_def opt_list_def pair_params_def starts_with_def param_declaration_def)

theorem json_abi_roundtrip_witness:
  "ja_functions token_json_abi \<noteq> []
   \<and> (\<exists>t. try_from_json_abi pair_params token_json_abi = Ok t
        \<and> try_to_json_abi pair_params t = Ok token_json_abi)"
proof
  show "ja_functions token_json_abi \<noteq> []" by (simp add: token_json_abi_def)
  show "\<exists>t. try_from_json_abi pair_params token_json_abi = Ok t
      \<and> try_to_json_abi pair_params t = Ok token_json_abi"
    by (rule json_abi_roundtrip [OF token_json_abi_plain])
qed

end
