(* ===== verification/Pending.thy ===== *)
theory Pending
  imports Provider
begin

text \<open>
  Waiting for a transaction (\<open>crates/provider/src/provider/pending.rs\<close>, and the polling of
  \<open>solidity.rs\<close>).  The first loop ends by itself only when the node answers; a deadline ends it
  otherwise, so it is a partial function.  The second is bounded by a number of attempts.
\<close>

datatype pending_error =
    PeTransport provider_error
  | PeConfirmationTimeout "provider_error option"
  | PeReverted transaction_info

definition is_worth_reasking :: "provider_error \<Rightarrow> bool" where
  "is_worth_reasking err =
     (case rpc_as_transport err of
        Some (TkRpc _ _) \<Rightarrow> True
      | Some (TkConnect _) \<Rightarrow> True
      | _ \<Rightarrow> False)"

type_synonym 'w asking = "'w \<Rightarrow> (provider_error + transaction_info option) \<times> 'w"

section \<open>The handle\<close>

definition with_poll_interval :: "pending_transaction \<Rightarrow> duration \<Rightarrow> pending_transaction" where
  "with_poll_interval p d = p\<lparr> pd_interval := d \<rparr>"

definition with_timeout :: "pending_transaction \<Rightarrow> duration \<Rightarrow> pending_transaction" where
  "with_timeout p d = p\<lparr> pd_timeout := d \<rparr>"

definition require_success :: "pending_transaction \<Rightarrow> pending_transaction" where
  "require_success p = p\<lparr> pd_require_success := True \<rparr>"

text \<open>\<open>as_millis() as u64 * attempts as u64\<close> wraps around in a release build.\<close>

definition with_attempts :: "pending_transaction \<Rightarrow> u32 \<Rightarrow> pending_transaction" where
  "with_attempts p attempts =
     (let millis = of_nat (duration_as_millis (pd_interval p)) * (ucast attempts :: u64)
      in with_timeout p (unat millis * 10 ^ 6))"

definition check_receipt ::
  "pending_transaction \<Rightarrow> transaction_info \<Rightarrow> pending_error + transaction_info" where
  "check_receipt p info =
     (if pd_require_success p \<and> \<not> transaction_info_is_success info then Err (PeReverted info)
      else Ok info)"

section \<open>Polling under a deadline\<close>

text \<open>
  The future that polls, raced against the deadline: an answer or a wait that ends after the
  deadline is not seen.  What the caller gets then is the timeout with the last failure.
\<close>

partial_function (option) poll_receipt ::
  "('w \<Rightarrow> nat) \<Rightarrow> (nat \<Rightarrow> 'w \<Rightarrow> 'w) \<Rightarrow> 'w asking \<Rightarrow> duration \<Rightarrow> nat \<Rightarrow> provider_error option \<Rightarrow> 'w
     \<Rightarrow> ((pending_error + transaction_info) \<times> 'w) option" where
  "poll_receipt clock sleep ask interval deadline last_error w =
     (let (r, w1) = ask w
      in if deadline < clock w1 then Some (Err (PeConfirmationTimeout last_error), w1)
         else
           (case r of
              Inr (Some info) \<Rightarrow> Some (Ok info, w1)
            | Inr None \<Rightarrow>
                (let w2 = sleep interval w1
                 in if deadline < clock w2 then Some (Err (PeConfirmationTimeout last_error), w2)
                    else poll_receipt clock sleep ask interval deadline last_error w2)
            | Inl err \<Rightarrow>
                (if is_worth_reasking err
                 then (let w2 = sleep interval w1
                       in if deadline < clock w2 then Some (Err (PeConfirmationTimeout (Some err)), w2)
                          else poll_receipt clock sleep ask interval deadline (Some err) w2)
                 else Some (Err (PeTransport err), w1))))"

definition get_receipt ::
  "('w \<Rightarrow> nat) \<Rightarrow> (nat \<Rightarrow> 'w \<Rightarrow> 'w) \<Rightarrow> (bytes \<Rightarrow> 'w asking) \<Rightarrow> pending_transaction \<Rightarrow> 'w
     \<Rightarrow> ((pending_error + transaction_info) \<times> 'w) option" where
  "get_receipt clock sleep transaction_info p w =
     (case poll_receipt clock sleep (transaction_info (pd_tx_id p)) (pd_interval p)
             (clock w + pd_timeout p) None w of
        None \<Rightarrow> None
      | Some (r, w1) \<Rightarrow> Some (and_then r (check_receipt p), w1))"

section \<open>Polling a number of times\<close>

text \<open>The loop of \<open>wait_for_transaction_with\<close>: the attempts that are left, and whether one was made.\<close>

fun wait_loop ::
  "(nat \<Rightarrow> 'w \<Rightarrow> 'w) \<Rightarrow> 'w asking \<Rightarrow> duration \<Rightarrow> nat \<Rightarrow> bool \<Rightarrow> provider_error option \<Rightarrow> 'w
     \<Rightarrow> (pending_error + transaction_info) \<times> 'w" where
  "wait_loop sleep ask interval 0 again last_error w = (Err (PeConfirmationTimeout last_error), w)"
| "wait_loop sleep ask interval (Suc n) again last_error w =
     (let w0 = (if again then sleep interval w else w);
          (r, w1) = ask w0
      in case r of
           Inr (Some info) \<Rightarrow> (Ok info, w1)
         | Inr None \<Rightarrow> wait_loop sleep ask interval n True last_error w1
         | Inl err \<Rightarrow>
             if is_worth_reasking err then wait_loop sleep ask interval n True (Some err) w1
             else (Err (PeTransport err), w1))"

definition wait_for_transaction_with ::
  "(nat \<Rightarrow> 'w \<Rightarrow> 'w) \<Rightarrow> 'w asking \<Rightarrow> duration \<Rightarrow> u32 \<Rightarrow> 'w \<Rightarrow> (pending_error + transaction_info) \<times> 'w" where
  "wait_for_transaction_with sleep ask interval max_attempts' w =
     wait_loop sleep ask interval (unat max_attempts') False None w"

definition wait_for_transaction ::
  "(nat \<Rightarrow> 'w \<Rightarrow> 'w) \<Rightarrow> 'w asking \<Rightarrow> 'w \<Rightarrow> (pending_error + transaction_info) \<times> 'w" where
  "wait_for_transaction sleep ask w = wait_for_transaction_with sleep ask (3 * 10 ^ 9) 20 w"

definition wait_for_success_with ::
  "(nat \<Rightarrow> 'w \<Rightarrow> 'w) \<Rightarrow> 'w asking \<Rightarrow> duration \<Rightarrow> u32 \<Rightarrow> 'w \<Rightarrow> (pending_error + transaction_info) \<times> 'w" where
  "wait_for_success_with sleep ask interval max_attempts' w =
     (case wait_for_transaction_with sleep ask interval max_attempts' w of
        (r, w1) \<Rightarrow>
          (and_then r (\<lambda>info. if transaction_info_is_success info then Ok info else Err (PeReverted info)), w1))"

definition wait_for_success ::
  "(nat \<Rightarrow> 'w \<Rightarrow> 'w) \<Rightarrow> 'w asking \<Rightarrow> 'w \<Rightarrow> (pending_error + transaction_info) \<times> 'w" where
  "wait_for_success sleep ask w = wait_for_success_with sleep ask (3 * 10 ^ 9) 20 w"

section \<open>What a wait says\<close>

text \<open>An asking that writes down the answers.\<close>

definition noted :: "'w asking \<Rightarrow> ('w \<times> (provider_error + transaction_info option) list) asking" where
  "noted ask = (\<lambda>(w, rs). case ask w of (r, w1) \<Rightarrow> (r, (w1, rs @ [r])))"

definition keeps_asking :: "provider_error + transaction_info option \<Rightarrow> bool" where
  "keeps_asking r = (case r of Inl e \<Rightarrow> is_worth_reasking e | Inr None \<Rightarrow> True | Inr (Some _) \<Rightarrow> False)"

fun last_failure :: "provider_error option \<Rightarrow> (provider_error + 'a) list \<Rightarrow> provider_error option" where
  "last_failure acc [] = acc"
| "last_failure acc (Inl e # rs) = last_failure (Some e) rs"
| "last_failure acc (Inr _ # rs) = last_failure acc rs"

text \<open>
  The answers explain the outcome: every answer but the last left the question open, and the
  last one decided it, unless the wait ended first.
\<close>

definition explains ::
  "provider_error option \<Rightarrow> (provider_error + transaction_info option) list \<Rightarrow> pending_error + transaction_info \<Rightarrow> bool" where
  "explains acc rs r =
     (case r of
        Inr info \<Rightarrow> rs \<noteq> [] \<and> list_all keeps_asking (butlast rs) \<and> last rs = Inr (Some info)
      | Inl (PeTransport e) \<Rightarrow>
          rs \<noteq> [] \<and> list_all keeps_asking (butlast rs) \<and> last rs = Inl e \<and> \<not> is_worth_reasking e
      | Inl (PeConfirmationTimeout le) \<Rightarrow> list_all keeps_asking rs \<and> le = last_failure acc rs
      | Inl (PeReverted _) \<Rightarrow> False)"

lemma explains_Cons:
  "keeps_asking r1 \<Longrightarrow> explains (last_failure acc [r1]) rs r \<Longrightarrow> explains acc (r1 # rs) r"
  by (cases r1) (auto simp: explains_def split: sum.splits pending_error.splits)

lemma wait_loop_explains:
  "wait_loop (\<lambda>d (w, rs). (sleep d w, rs)) (noted ask) interval n again acc (w, rs) = (r, (w', rs'))
   \<Longrightarrow> \<exists>new. rs' = rs @ new \<and> explains acc new r \<and> length new \<le> n
        \<and> (\<forall>le. r = Inl (PeConfirmationTimeout le) \<longrightarrow> length new = n)"
proof (induction n arbitrary: again acc w rs)
  case 0
  then show ?case by (auto simp: explains_def)
next
  case (Suc n)
  let ?w0 = "if again then sleep interval w else w"
  obtain r1 w1 where ask: "ask ?w0 = (r1, w1)" by (cases "ask ?w0")
  have noted1: "noted ask (?w0, rs) = (r1, (w1, rs @ [r1]))" by (simp add: noted_def ask)
  have w0: "(if again then (\<lambda>(w, rs). (sleep interval w, rs)) (w, rs) else (w, rs)) = (?w0, rs)" by simp
  show ?case
  proof (cases "keeps_asking r1")
    case True
    have "wait_loop (\<lambda>d (w, rs). (sleep d w, rs)) (noted ask) interval n True (last_failure acc [r1])
        (w1, rs @ [r1]) = (r, (w', rs'))"
      using Suc.prems True noted1 w0
      by (cases r1) (auto simp: Let_def keeps_asking_def split: option.splits)
    from Suc.IH [OF this] obtain new where "rs' = (rs @ [r1]) @ new"
      "explains (last_failure acc [r1]) new r" "length new \<le> n"
      "\<forall>le. r = Inl (PeConfirmationTimeout le) \<longrightarrow> length new = n" by blast
    with True show ?thesis by (intro exI [of _ "r1 # new"]) (auto intro: explains_Cons)
  next
    case False
    then have "(r, (w', rs')) = (case r1 of Inr (Some info) \<Rightarrow> Ok info | Inl e \<Rightarrow> Err (PeTransport e)
        | _ \<Rightarrow> r, (w1, rs @ [r1]))"
      using Suc.prems noted1 w0
      by (cases r1) (auto simp: Let_def keeps_asking_def split: option.splits)
    with False show ?thesis
      by (intro exI [of _ "[r1]"])
        (auto simp: explains_def keeps_asking_def split: sum.splits option.splits)
  qed
qed

text \<open>
  Under a deadline one more answer may have come too late; it is not seen.
\<close>

definition deadline_explains ::
  "nat \<Rightarrow> nat \<Rightarrow> provider_error option \<Rightarrow> (provider_error + transaction_info option) list
     \<Rightarrow> pending_error + transaction_info \<Rightarrow> bool" where
  "deadline_explains deadline ended acc rs r \<longleftrightarrow>
     (\<exists>seen late. rs = seen @ late \<and> explains acc seen r \<and> length late \<le> 1
        \<and> ((\<exists>le. r = Inl (PeConfirmationTimeout le)) \<longleftrightarrow> deadline < ended)
        \<and> (late \<noteq> [] \<longrightarrow> deadline < ended))"

lemma deadline_explains_Cons:
  assumes "keeps_asking r1" and "deadline_explains deadline ended (last_failure acc [r1]) rs r"
  shows "deadline_explains deadline ended acc (r1 # rs) r"
proof -
  from assms(2) obtain seen late where "rs = seen @ late" "explains (last_failure acc [r1]) seen r"
    "length late \<le> 1" "(\<exists>le. r = Inl (PeConfirmationTimeout le)) \<longleftrightarrow> deadline < ended"
    "late \<noteq> [] \<longrightarrow> deadline < ended"
    by (auto simp: deadline_explains_def)
  with explains_Cons [OF assms(1)] show ?thesis
    unfolding deadline_explains_def by (intro exI [of _ "r1 # seen"] exI [of _ late]) auto
qed

lemma poll_receipt_step:
  "poll_receipt clock sleep ask interval deadline acc w =
     (let (r, w1) = ask w
      in if deadline < clock w1 then Some (Err (PeConfirmationTimeout acc), w1)
         else if keeps_asking r then
           (let w2 = sleep interval w1
            in if deadline < clock w2 then Some (Err (PeConfirmationTimeout (last_failure acc [r])), w2)
               else poll_receipt clock sleep ask interval deadline (last_failure acc [r]) w2)
         else Some (case r of Inl e \<Rightarrow> Err (PeTransport e) | Inr None \<Rightarrow> Err (PeConfirmationTimeout acc)
                    | Inr (Some info) \<Rightarrow> Ok info, w1))"
  by (subst poll_receipt.simps)
    (auto simp: keeps_asking_def Let_def split: prod.splits sum.splits option.splits)

lemma poll_receipt_explains:
  assumes progress: "\<And>w. clock w < clock (sleep interval (snd (ask w)))"
  shows "\<exists>r w' new. poll_receipt (\<lambda>(w, _). clock w) (\<lambda>d (w, rs). (sleep d w, rs)) (noted ask)
      interval deadline acc (w, rs) = Some (r, (w', rs @ new))
    \<and> deadline_explains deadline (clock w') acc new r"
proof (induction "Suc deadline - clock w" arbitrary: w rs acc rule: less_induct)
  case less
  obtain r1 w1 where ask: "ask w = (r1, w1)" by (cases "ask w")
  have noted1: "noted ask (w, rs) = (r1, (w1, rs @ [r1]))" by (simp add: noted_def ask)
  have clk: "clock w < clock (sleep interval w1)" using progress [of w] ask by simp
  let ?poll = "poll_receipt (\<lambda>(w, _). clock w) (\<lambda>d (w, rs). (sleep d w, rs)) (noted ask) interval deadline"
  show ?case
  proof (cases "deadline < clock w1")
    case True
    have "?poll acc (w, rs) = Some (Err (PeConfirmationTimeout acc), (w1, rs @ [r1]))"
      using True by (subst poll_receipt_step) (simp add: noted1)
    moreover have "deadline_explains deadline (clock w1) acc [r1] (Err (PeConfirmationTimeout acc))"
      unfolding deadline_explains_def using True
      by (intro exI [of _ "[]"] exI [of _ "[r1]"]) (simp add: explains_def)
    ultimately show ?thesis by blast
  next
    case in_time: False
    show ?thesis
    proof (cases "keeps_asking r1")
      case False
      have step: "?poll acc (w, rs) = Some (case r1 of Inl e \<Rightarrow> Err (PeTransport e)
          | Inr None \<Rightarrow> Err (PeConfirmationTimeout acc) | Inr (Some info) \<Rightarrow> Ok info, (w1, rs @ [r1]))"
        using in_time False by (subst poll_receipt_step) (simp add: noted1)
      have "deadline_explains deadline (clock w1) acc [r1] (case r1 of Inl e \<Rightarrow> Err (PeTransport e)
          | Inr None \<Rightarrow> Err (PeConfirmationTimeout acc) | Inr (Some info) \<Rightarrow> Ok info)"
        unfolding deadline_explains_def using in_time False
        by (intro exI [of _ "[r1]"] exI [of _ "[]"])
          (auto simp: explains_def keeps_asking_def split: sum.splits option.splits)
      with step show ?thesis by blast
    next
      case True
      let ?w2 = "sleep interval w1" and ?acc = "last_failure acc [r1]"
      show ?thesis
      proof (cases "deadline < clock ?w2")
        case late: True
        have "?poll acc (w, rs) = Some (Err (PeConfirmationTimeout ?acc), (?w2, rs @ [r1]))"
          using in_time True late by (subst poll_receipt_step) (simp add: noted1)
        moreover have "deadline_explains deadline (clock ?w2) acc [r1] (Err (PeConfirmationTimeout ?acc))"
          unfolding deadline_explains_def using late True
          by (intro exI [of _ "[r1]"] exI [of _ "[]"]) (simp add: explains_def)
        ultimately show ?thesis by blast
      next
        case False
        then have "Suc deadline - clock ?w2 < Suc deadline - clock w" using clk by linarith
        from less [OF this, where acc = ?acc and rs = "rs @ [r1]"] obtain r w' new where
          go: "?poll ?acc (?w2, rs @ [r1]) = Some (r, (w', (rs @ [r1]) @ new))"
          and ex: "deadline_explains deadline (clock w') ?acc new r" by blast
        have "?poll acc (w, rs) = Some (r, (w', rs @ (r1 # new)))"
          using in_time True False go by (subst poll_receipt_step) (simp add: noted1)
        with deadline_explains_Cons [OF True ex] show ?thesis by blast
      qed
    qed
  qed
qed

text \<open>
  C34: waiting for a receipt ends, whatever the node answers, as soon as every round takes
  some time.  It ends with a receipt exactly as the node gave it (or as \<open>Reverted\<close>, when success
  is required and it failed), with the error of a node that cannot be reasked, or with the
  timeout, which comes only after the configured time, and then carries the last failure seen.
\<close>

theorem get_receipt_explained:
  assumes "\<And>w. clock w < clock (sleep (pd_interval p) (snd (info (pd_tx_id p) w)))"
  shows "\<exists>r w' rs. get_receipt (\<lambda>(w, _). clock w) (\<lambda>d (w, rs). (sleep d w, rs)) (\<lambda>tx_id. noted (info tx_id))
      p (w, []) = Some (and_then r (check_receipt p), (w', rs))
    \<and> deadline_explains (clock w + pd_timeout p) (clock w') None rs r"
proof -
  from poll_receipt_explains [of clock sleep "pd_interval p" "info (pd_tx_id p)"
      "clock w + pd_timeout p" None w "[]", OF assms]
  obtain r w' rs where "poll_receipt (\<lambda>(w, _). clock w) (\<lambda>d (w, rs). (sleep d w, rs)) (noted (info (pd_tx_id p)))
      (pd_interval p) (clock w + pd_timeout p) None (w, []) = Some (r, (w', [] @ rs))"
    "deadline_explains (clock w + pd_timeout p) (clock w') None rs r" by blast
  then show ?thesis by (auto simp: get_receipt_def)
qed

text \<open>A node that never knows the transaction; a round takes two seconds.\<close>

theorem get_receipt_explained_witness:
  "\<exists>r w' rs. get_receipt (\<lambda>(w, _). w) (\<lambda>d (w, rs). (w + d, rs)) (\<lambda>tx_id. noted (\<lambda>w. (Ok None, w + 2)))
      (pending_new [7]) (0 :: nat, []) = Some (and_then r (check_receipt (pending_new [7])), (w', rs))
    \<and> deadline_explains (60 * 10 ^ 9) w' None rs r"
  using get_receipt_explained [of "\<lambda>w. w" "\<lambda>d w. w + d" "pending_new [7]" "\<lambda>_ w. (Ok None, w + 2)" 0]
  by (simp add: pending_new_def)

text \<open>
  A wait for solidification asks at most the given number of times, and all of them
  before it gives up; the answers explain what it returns, and a success is one that succeeded.
\<close>

theorem wait_for_success_explained:
  assumes "wait_for_success_with (\<lambda>d (w, rs). (sleep d w, rs)) (noted ask) interval n (w, []) = (r, (w', rs))"
  shows "length rs \<le> unat n
    \<and> (\<exists>r0. explains None rs r0
         \<and> (r0 = Inl (PeConfirmationTimeout (last_failure None rs)) \<longrightarrow> length rs = unat n)
         \<and> r = (case r0 of
                  Inl e \<Rightarrow> Err e
                | Inr info \<Rightarrow> if transaction_info_is_success info then Ok info else Err (PeReverted info)))"
proof -
  from assms obtain r0 where
    go: "wait_loop (\<lambda>d (w, rs). (sleep d w, rs)) (noted ask) interval (unat n) False None (w, []) = (r0, (w', rs))"
    and r: "r = and_then r0 (\<lambda>info. if transaction_info_is_success info then Ok info else Err (PeReverted info))"
    by (auto simp: wait_for_success_with_def wait_for_transaction_with_def split: prod.splits)
  from wait_loop_explains [OF go] r show ?thesis
    by (intro conjI exI [of _ r0]) (auto split: sum.split)
qed

theorem wait_for_success_explained_witness:
  "explains None [Ok None, Ok None] (Inl (PeConfirmationTimeout None))
   \<and> wait_for_success_with (\<lambda>d (w, rs). (w + d, rs)) (noted (\<lambda>w. (Ok None, w))) 3 2 (0 :: nat, [])
     = (Inl (PeConfirmationTimeout None), (3, [Ok None, Ok None]))"
proof -
  have run: "wait_for_success_with (\<lambda>d (w, rs). (w + d, rs)) (noted (\<lambda>w. (Ok None, w))) 3 2 (0 :: nat, [])
     = (Inl (PeConfirmationTimeout None), (3, [Ok None, Ok None]))"
  proof -
    have "unat (2 :: u32) = Suc (Suc 0)" by simp
    then show ?thesis
      by (simp only: wait_for_success_with_def wait_for_transaction_with_def wait_loop.simps)
        (simp add: noted_def)
  qed
  from wait_for_success_explained [OF run] obtain r0 where
    "explains None [Ok None, Ok None] r0"
    "Inl (PeConfirmationTimeout None) = (case r0 of Inl e \<Rightarrow> Err e
       | Inr info \<Rightarrow> if transaction_info_is_success info then Ok info else Err (PeReverted info))"
    by blast
  then have "explains None [Ok None, Ok None] (Inl (PeConfirmationTimeout None))"
    by (auto split: sum.splits if_splits)
  with run show ?thesis by blast
qed

text \<open>
  What the comment on \<open>is_worth_reasking\<close> promises of a refusal does not hold for one that
  comes as a status: the node is asked again until the deadline.
\<close>

lemma refusal_is_reasked:
  "definitely_refused (TkRpc RpcPermissionDenied msg)
   \<and> is_worth_reasking (rpc_of_transport (TkRpc RpcPermissionDenied msg))"
  by (simp add: definitely_refused_def is_worth_reasking_def rpc_of_transport_def rpc_as_transport_def)

end
