(* ===== verification/Events.thy ===== *)
theory Events
  imports Pending
begin

text \<open>
  Event queries (\<open>crates/contract/src/event_filter.rs\<close>, \<open>event.rs\<close>): reading the events of a
  transaction, a block and a range of blocks, and following new ones with a cursor.  The event
  type \<open>E\<close> of \<open>alloy\<close> is a record of what the code asks of it.  A range is read block by block
  in order: the requests the code overlaps have no effect on the node, and their results are
  used in the order of the blocks.
\<close>

datatype contract_error =
    CeProvider provider_error
  | CeAbi string
  | CeAbiMetadata string
  | CeUnknownFunction string
  | CeUnknownSelector bytes
  | CeZeroData string string
  | CeRevert bytes
  | CeUnknownEvent bytes
  | CeContractNotDeployed
  | CeConfirmationTimeout "provider_error option"
  | CeExecutionFailed transaction_info

definition contract_error_of_pending :: "pending_error \<Rightarrow> contract_error" where
  "contract_error_of_pending e =
     (case e of
        PeTransport err \<Rightarrow> CeProvider err
      | PeConfirmationTimeout last_error \<Rightarrow> CeConfirmationTimeout last_error
      | PeReverted info \<Rightarrow> CeExecutionFailed info)"

definition as_revert_data :: "contract_error \<Rightarrow> bytes option" where
  "as_revert_data e = (case e of CeRevert data \<Rightarrow> Some data | _ \<Rightarrow> None)"

record 'e sol_event =
  ev_signature_hash :: bytes
  ev_anonymous :: bool
  ev_decode :: "bytes list \<Rightarrow> bytes \<Rightarrow> string + 'e"

section \<open>Decoding logs\<close>

definition decode_log :: "'e sol_event \<Rightarrow> event_log \<Rightarrow> contract_error + 'e" where
  "decode_log E l = map_err CeAbi (ev_decode E (log_topics l) (log_data l))"

definition log_matches :: "'e sol_event \<Rightarrow> event_log \<Rightarrow> bool" where
  "log_matches E l \<longleftrightarrow>
     ev_anonymous E \<or> (case log_topics l of [] \<Rightarrow> False | t # _ \<Rightarrow> t = ev_signature_hash E)"

definition decode_logs :: "'e sol_event \<Rightarrow> event_log list \<Rightarrow> (contract_error + 'e) list" where
  "decode_logs E logs = map (decode_log E) (filter (log_matches E) logs)"

section \<open>Queries\<close>

record event_filter =
  ef_address :: "address option"
  ef_concurrency :: nat

definition event_filter_new :: "address option \<Rightarrow> event_filter" where
  "event_filter_new a = \<lparr> ef_address = a, ef_concurrency = 8 \<rparr>"

definition filter_address :: "event_filter \<Rightarrow> address \<Rightarrow> event_filter" where
  "filter_address f a = f\<lparr> ef_address := Some a \<rparr>"

definition filter_concurrency :: "event_filter \<Rightarrow> nat \<Rightarrow> event_filter" where
  "filter_concurrency f blocks = f\<lparr> ef_concurrency := max blocks 1 \<rparr>"

definition filter_accepts :: "event_filter \<Rightarrow> 'e sol_event \<Rightarrow> event_log \<Rightarrow> bool" where
  "filter_accepts f E l \<longleftrightarrow>
     (case ef_address f of None \<Rightarrow> True | Some a \<Rightarrow> log_address l = a)
     \<and> (ev_anonymous E \<or> (case log_topics l of [] \<Rightarrow> False | t # _ \<Rightarrow> t = ev_signature_hash E))"

definition filter_decode_logs ::
  "event_filter \<Rightarrow> 'e sol_event \<Rightarrow> event_log list \<Rightarrow> contract_error + 'e list" where
  "filter_decode_logs f E logs = collect_results (decode_log E) (filter (filter_accepts f E) logs)"

definition query_tx ::
  "event_filter \<Rightarrow> 'e sol_event \<Rightarrow> (bytes \<Rightarrow> 'w asking) \<Rightarrow> bytes \<Rightarrow> 'w
     \<Rightarrow> (contract_error + 'e list) \<times> 'w" where
  "query_tx f E transaction_info tx_id w =
     (case transaction_info tx_id w of
        (Inl e, w1) \<Rightarrow> (Err (CeProvider e), w1)
      | (Inr None, w1) \<Rightarrow> (Err (CeProvider (RpcLocalUsage ''transaction not found'')), w1)
      | (Inr (Some info), w1) \<Rightarrow> (filter_decode_logs f E (transaction_info_logs info), w1))"

text \<open>The receipts of a block, one after the other; the first that does not decode is the error.\<close>

definition block_events ::
  "event_filter \<Rightarrow> 'e sol_event \<Rightarrow> transaction_info list \<Rightarrow> contract_error + 'e list" where
  "block_events f E infos =
     and_then (collect_results (\<lambda>info. filter_decode_logs f E (transaction_info_logs info)) infos)
       (\<lambda>batches. Ok (concat batches))"

type_synonym 'w block_reads = "i64 \<Rightarrow> 'w \<Rightarrow> (provider_error + transaction_info list) \<times> 'w"

definition query_block ::
  "event_filter \<Rightarrow> 'e sol_event \<Rightarrow> 'w block_reads \<Rightarrow> i64 \<Rightarrow> 'w \<Rightarrow> (contract_error + 'e list) \<times> 'w" where
  "query_block f E infos n w =
     (case infos n w of
        (Inl e, w1) \<Rightarrow> (Err (CeProvider e), w1)
      | (Inr is, w1) \<Rightarrow> (block_events f E is, w1))"

fun query_blocks ::
  "event_filter \<Rightarrow> 'e sol_event \<Rightarrow> 'w block_reads \<Rightarrow> i64 list \<Rightarrow> 'e list \<Rightarrow> 'w
     \<Rightarrow> (contract_error + 'e list) \<times> 'w" where
  "query_blocks f E infos [] acc w = (Ok acc, w)"
| "query_blocks f E infos (n # ns) acc w =
     (case query_block f E infos n w of
        (Inl e, w1) \<Rightarrow> (Err e, w1)
      | (Inr batch, w1) \<Rightarrow> query_blocks f E infos ns (acc @ batch) w1)"

text \<open>The inclusive range \<open>from..=to\<close>.\<close>

definition block_range :: "i64 \<Rightarrow> i64 \<Rightarrow> i64 list" where
  "block_range a b = map word_of_int [sint a..sint b]"

definition query_range ::
  "event_filter \<Rightarrow> 'e sol_event \<Rightarrow> 'w block_reads \<Rightarrow> i64 \<Rightarrow> i64 \<Rightarrow> 'w
     \<Rightarrow> (contract_error + 'e list) \<times> 'w" where
  "query_range f E infos a b w =
     (if b <s a then (Ok [], w) else query_blocks f E infos (block_range a b) [] w)"

section \<open>Watching\<close>

record event_watcher =
  ew_filter :: event_filter
  ew_next_block :: i64
  ew_confirmations :: i64
  ew_max_blocks :: i64
  ew_interval :: duration
  ew_caught_up :: bool

definition watch_from :: "event_filter \<Rightarrow> i64 \<Rightarrow> event_watcher" where
  "watch_from f block =
     \<lparr> ew_filter = f, ew_next_block = block, ew_confirmations = 19, ew_max_blocks = 1000,
       ew_interval = 3 * 10 ^ 9, ew_caught_up = False \<rparr>"

type_synonym 'w head_read = "'w \<Rightarrow> (provider_error + block_info) \<times> 'w"

definition read_head :: "'w head_read \<Rightarrow> 'w \<Rightarrow> (contract_error + i64) \<times> 'w" where
  "read_head now_block w =
     (case now_block w of (r, w1) \<Rightarrow> (map_err CeProvider (and_then r (\<lambda>b. Ok (block_info_number b))), w1))"

definition watch ::
  "event_filter \<Rightarrow> 'w head_read \<Rightarrow> 'w \<Rightarrow> (contract_error + event_watcher) \<times> 'w" where
  "watch f now_block w =
     (case read_head now_block w of
        (Inl e, w1) \<Rightarrow> (Err e, w1)
      | (Inr head, w1) \<Rightarrow> (Ok (watch_from f (head + 1)), w1))"

definition with_confirmations :: "event_watcher \<Rightarrow> i64 \<Rightarrow> event_watcher" where
  "with_confirmations W blocks = W\<lparr> ew_confirmations := (if blocks <s 0 then 0 else blocks) \<rparr>"

definition with_max_blocks_per_poll :: "event_watcher \<Rightarrow> i64 \<Rightarrow> event_watcher" where
  "with_max_blocks_per_poll W blocks = W\<lparr> ew_max_blocks := (if blocks <s 1 then 1 else blocks) \<rparr>"

definition with_watch_interval :: "event_watcher \<Rightarrow> duration \<Rightarrow> event_watcher" where
  "with_watch_interval W d = W\<lparr> ew_interval := d \<rparr>"

text \<open>\<open>i64::saturating_add\<close>\<close>

definition saturating_add_i64 :: "i64 \<Rightarrow> i64 \<Rightarrow> i64" where
  "saturating_add_i64 a b = word_of_int (max i64_min (min i64_max (sint a + sint b)))"

definition min_i64 :: "i64 \<Rightarrow> i64 \<Rightarrow> i64" where
  "min_i64 a b = (if a \<le>s b then a else b)"

definition poll_target :: "i64 \<Rightarrow> i64 \<Rightarrow> i64 \<Rightarrow> i64 option" where
  "poll_target next_block last_confirmed max_blocks =
     (if next_block \<le>s last_confirmed
      then Some (min_i64 last_confirmed (saturating_add_i64 next_block (max_blocks - 1)))
      else None)"

definition poll ::
  "'e sol_event \<Rightarrow> 'w head_read \<Rightarrow> 'w block_reads \<Rightarrow> event_watcher \<Rightarrow> 'w
     \<Rightarrow> (contract_error + 'e list) \<times> event_watcher \<times> 'w" where
  "poll E now_block infos W w =
     (case read_head now_block w of
        (Inl e, w1) \<Rightarrow> (Err e, W, w1)
      | (Inr head, w1) \<Rightarrow>
          (let last_confirmed = head - ew_confirmations W
           in case poll_target (ew_next_block W) last_confirmed (ew_max_blocks W) of
                None \<Rightarrow> (Ok [], W\<lparr> ew_caught_up := True \<rparr>, w1)
              | Some target \<Rightarrow>
                  (case query_range (ew_filter W) E infos (ew_next_block W) target w1 of
                     (Inl e, w2) \<Rightarrow> (Err e, W, w2)
                   | (Inr events, w2) \<Rightarrow>
                       (Ok events,
                        W\<lparr> ew_next_block := target + 1, ew_caught_up := (target = last_confirmed) \<rparr>, w2))))"

text \<open>
  One item of the stream of \<open>into_stream\<close>: the watcher, the events found and not yet yielded,
  and whether the last poll failed.  Waiting for a block may go on forever.
\<close>

record 'e event_stream =
  es_watcher :: event_watcher
  es_pending :: "'e list"
  es_failed :: bool

definition into_stream :: "event_watcher \<Rightarrow> 'e event_stream" where
  "into_stream W = \<lparr> es_watcher = W, es_pending = [], es_failed = False \<rparr>"

partial_function (option) stream_next ::
  "(nat \<Rightarrow> 'w \<Rightarrow> 'w) \<Rightarrow> 'e sol_event \<Rightarrow> 'w head_read \<Rightarrow> 'w block_reads
     \<Rightarrow> event_watcher \<Rightarrow> 'e list \<Rightarrow> bool \<Rightarrow> 'w
     \<Rightarrow> ((contract_error + 'e) \<times> 'e event_stream \<times> 'w) option" where
  "stream_next sleep E now_block infos W pending throttle w =
     (case pending of
        ev # rest \<Rightarrow>
          Some (Ok ev, \<lparr> es_watcher = W, es_pending = rest, es_failed = False \<rparr>, w)
      | [] \<Rightarrow>
          (let w0 = (if throttle then sleep (ew_interval W) w else w)
           in case poll E now_block infos W w0 of
                (Inr batch, W1, w1) \<Rightarrow>
                  if batch = [] \<and> ew_caught_up W1
                  then stream_next sleep E now_block infos W1 [] False (sleep (ew_interval W1) w1)
                  else stream_next sleep E now_block infos W1 batch False w1
              | (Inl e, W1, w1) \<Rightarrow>
                  Some (Err e, \<lparr> es_watcher = W1, es_pending = [], es_failed = True \<rparr>, w1)))"

section \<open>Ranges\<close>

text \<open>
  What a node knows of a chain: whatever it answers for a block is that block's receipts, and
  its head is a height the arithmetic of the cursor can hold.  The contents of a block are the same
  whenever they are read: reorganisations deeper than the confirmations waited for, and nodes that
  disagree, are outside of this.
\<close>

definition honest_reads :: "(int \<Rightarrow> transaction_info list) \<Rightarrow> 'w head_read \<Rightarrow> 'w block_reads \<Rightarrow> bool" where
  "honest_reads chain now_block infos \<longleftrightarrow>
     (\<forall>n w is w'. infos n w = (Inr is, w') \<longrightarrow> is = chain (sint n))
     \<and> (\<forall>w b w'. now_block w = (Inr b, w') \<longrightarrow>
          0 \<le> sint (block_info_number b) \<and> sint (block_info_number b) < i64_max)"

text \<open>The events of the blocks \<open>a\<close> up to, not including, \<open>b\<close>.\<close>

definition chain_events ::
  "event_filter \<Rightarrow> 'e sol_event \<Rightarrow> (int \<Rightarrow> transaction_info list) \<Rightarrow> int \<Rightarrow> int \<Rightarrow> 'e list \<Rightarrow> bool" where
  "chain_events f E chain a b evs \<longleftrightarrow>
     a \<le> b \<and> (\<exists>batches. list_all2 (\<lambda>n batch. block_events f E (chain n) = Inr batch) [a..b - 1] batches
        \<and> evs = concat batches)"

lemma chain_events_empty [simp]: "chain_events f E chain a a []"
  by (simp add: chain_events_def)

lemma chain_events_append:
  assumes "chain_events f E chain a b evs" and "chain_events f E chain b c evs'"
  shows "chain_events f E chain a c (evs @ evs')"
proof -
  from assms obtain xs ys where
    "list_all2 (\<lambda>n batch. block_events f E (chain n) = Inr batch) [a..b - 1] xs" "evs = concat xs"
    "list_all2 (\<lambda>n batch. block_events f E (chain n) = Inr batch) [b..c - 1] ys" "evs' = concat ys"
    and "a \<le> b" "b \<le> c"
    by (auto simp: chain_events_def)
  moreover have "[a..c - 1] = [a..b - 1] @ [b..c - 1]"
    using \<open>a \<le> b\<close> \<open>b \<le> c\<close> upto_split1 [of a b "c - 1"] upto_empty [of c "c - 1"]
    by (cases "b = c") auto
  ultimately show ?thesis
    unfolding chain_events_def by (intro conjI exI [of _ "xs @ ys"]) (auto intro: list_all2_appendI)
qed

lemma query_blocks_Ok:
  assumes "query_blocks f E infos ns acc w = (Inr evs, w')" and "honest_reads chain now_block infos"
  shows "\<exists>batches. list_all2 (\<lambda>n batch. block_events f E (chain (sint n)) = Inr batch) ns batches
    \<and> evs = acc @ concat batches"
  using assms(1)
proof (induction ns arbitrary: acc w)
  case (Cons n ns)
  then obtain batch w1 where q: "query_block f E infos n w = (Inr batch, w1)"
    and rest: "query_blocks f E infos ns (acc @ batch) w1 = (Inr evs, w')"
    by (auto split: prod.splits sum.splits)
  from q assms(2) have "block_events f E (chain (sint n)) = Inr batch"
    by (auto simp: query_block_def honest_reads_def split: prod.splits sum.splits)
  with Cons.IH [OF rest] show ?case by force
qed simp

lemma sint_block_range: "map sint (block_range a b) = [sint a..sint b]"
proof -
  have "map (\<lambda>n. sint (word_of_int n :: i64)) [sint a..sint b] = map (\<lambda>n. n) [sint a..sint b]"
  proof (rule map_cong [OF refl])
    fix n assume "n \<in> set [sint a..sint b]"
    then show "sint (word_of_int n :: i64) = n"
      using sint_i64_bounds [of a] sint_i64_bounds [of b] by (intro sint_word_of_int_i64) auto
  qed
  then show ?thesis by (simp add: block_range_def comp_def)
qed

lemma query_range_Ok:
  assumes "query_range f E infos a b w = (Inr evs, w')" and "honest_reads chain now_block infos"
    and "sint a \<le> sint b"
  shows "chain_events f E chain (sint a) (sint b + 1) evs"
proof -
  from assms(1,3) have "query_blocks f E infos (block_range a b) [] w = (Inr evs, w')"
    by (simp add: query_range_def word_sless_alt)
  from query_blocks_Ok [OF this assms(2)] obtain batches where
    "list_all2 (\<lambda>n batch. block_events f E (chain (sint n)) = Inr batch) (block_range a b) batches"
    and evs: "evs = concat batches" by auto
  then have "list_all2 (\<lambda>n batch. block_events f E (chain n) = Inr batch) (map sint (block_range a b)) batches"
    by (simp add: list_all2_map1)
  with evs assms(3) show ?thesis by (auto simp: chain_events_def sint_block_range)
qed

section \<open>One poll\<close>

definition wf_watcher :: "event_watcher \<Rightarrow> bool" where
  "wf_watcher W \<longleftrightarrow> 0 \<le> sint (ew_confirmations W) \<and> 1 \<le> sint (ew_max_blocks W)"

lemma wf_watch_from [simp]: "wf_watcher (watch_from f b)"
  by (simp add: wf_watcher_def watch_from_def)

lemma wf_watcher_setters:
  "wf_watcher W \<Longrightarrow> wf_watcher (with_confirmations W n)"
  "wf_watcher W \<Longrightarrow> wf_watcher (with_max_blocks_per_poll W n)"
  "wf_watcher W \<Longrightarrow> wf_watcher (with_watch_interval W d)"
  by (auto simp: wf_watcher_def with_confirmations_def with_max_blocks_per_poll_def
      with_watch_interval_def word_sless_alt)

lemma sint_saturating_add:
  "sint (saturating_add_i64 a b) = max i64_min (min i64_max (sint a + sint b))"
  unfolding saturating_add_i64_def
  by (intro sint_word_of_int_i64) (simp_all add: i64_min_def i64_max_def)

lemma poll_target_Some:
  assumes "poll_target n l m = Some t" and "1 \<le> sint m"
  shows "sint n \<le> sint t \<and> sint t \<le> sint l \<and> sint t < sint n + sint m
    \<and> (t = l \<or> sint t = sint n + sint m - 1)"
proof -
  have "sint (m - 1) = sint m - 1"
    using sint_sub_i64 [of m 1] assms(2) sint_i64_bounds [of m] by (simp add: i64_min_def i64_max_def)
  then have sat: "sint (saturating_add_i64 n (m - 1)) = min i64_max (sint n + sint m - 1)"
    using assms(2) sint_i64_bounds [of n] by (simp add: sint_saturating_add)
  from assms(1) have "n \<le>s l" and t: "t = min_i64 l (saturating_add_i64 n (m - 1))"
    by (auto simp: poll_target_def split: if_splits)
  then show ?thesis
    using sat assms(2) sint_i64_bounds(2) [of l]
    by (auto simp: min_i64_def word_sle_eq split: if_splits)
qed

lemma poll_target_None: "poll_target n l m = None \<longleftrightarrow> sint l < sint n"
  by (auto simp: poll_target_def word_sle_eq)

text \<open>What a successful poll did: nothing was confirmed, or a window of blocks was read.\<close>

lemma poll_Ok:
  assumes "poll E now_block infos W w = (Inr batch, W', w')" and "wf_watcher W"
    and "honest_reads chain now_block infos"
  shows "\<exists>b w1. now_block w = (Inr b, w1) \<and> ew_filter W' = ew_filter W
    \<and> ew_confirmations W' = ew_confirmations W \<and> ew_max_blocks W' = ew_max_blocks W
    \<and> ew_interval W' = ew_interval W
    \<and> chain_events (ew_filter W) E chain (sint (ew_next_block W)) (sint (ew_next_block W')) batch
    \<and> sint (ew_next_block W') \<le> sint (ew_next_block W) + sint (ew_max_blocks W)
    \<and> sint (ew_next_block W') \<le>
        max (sint (ew_next_block W)) (sint (block_info_number b) - sint (ew_confirmations W) + 1)
    \<and> (ew_caught_up W' \<longleftrightarrow>
        sint (block_info_number b) - sint (ew_confirmations W) < sint (ew_next_block W'))
    \<and> (sint (ew_next_block W) \<le> sint (block_info_number b) - sint (ew_confirmations W) \<longrightarrow>
        sint (ew_next_block W) < sint (ew_next_block W'))"
proof -
  from assms(1) obtain b w1 where head: "now_block w = (Inr b, w1)"
    by (auto simp: poll_def read_head_def result_simps split: prod.splits sum.splits)
  let ?last = "block_info_number b - ew_confirmations W"
  have hb: "0 \<le> sint (block_info_number b)" "sint (block_info_number b) < i64_max"
    using assms(3) head unfolding honest_reads_def by blast+
  have last: "sint ?last = sint (block_info_number b) - sint (ew_confirmations W)"
    using hb assms(2) sint_i64_bounds(2) [of "ew_confirmations W"]
    by (intro sint_sub_i64) (simp_all add: wf_watcher_def i64_min_def i64_max_def)
  show ?thesis
  proof (cases "poll_target (ew_next_block W) ?last (ew_max_blocks W)")
    case None
    then have "batch = [] \<and> W' = W\<lparr> ew_caught_up := True \<rparr>"
      using assms(1) head by (simp add: poll_def read_head_def Let_def)
    with None head assms(2) last show ?thesis
      by (auto simp: poll_target_None wf_watcher_def)
  next
    case (Some t)
    from assms(1) head Some obtain w2 where
      range: "query_range (ew_filter W) E infos (ew_next_block W) t w1 = (Inr batch, w2)"
      and W': "W' = W\<lparr> ew_next_block := t + 1, ew_caught_up := (t = ?last) \<rparr>"
      by (auto simp: poll_def read_head_def Let_def split: prod.splits sum.splits)
    note t = poll_target_Some [OF Some] 
    have m: "1 \<le> sint (ew_max_blocks W)" using assms(2) by (simp add: wf_watcher_def)
    have "sint t < i64_max" using t [OF m] last hb assms(2) by (simp add: wf_watcher_def)
    then have t1: "sint (t + 1) = sint t + 1"
      using sint_add_i64 [of t 1] sint_i64_bounds [of t] by (simp add: i64_min_def i64_max_def)
    have "t = ?last \<longleftrightarrow> sint t = sint ?last" by (simp add: sint_eq_iff)
    with query_range_Ok [OF range assms(3)] t [OF m] t1 W' head last show ?thesis
      by (intro exI [of _ b] exI [of _ w1]) (simp, linarith)
  qed
qed

lemma poll_Err: "poll E now_block infos W w = (Inl e, W', w') \<Longrightarrow> W' = W"
  by (auto simp: poll_def Let_def split: prod.splits sum.splits option.splits)

section \<open>Following the chain\<close>

text \<open>
  A watcher that was polled from \<open>W0\<close> on, in any worlds, some polls failing: the events it
  returned in order, and the watcher it is now.
\<close>

inductive watching ::
  "'e sol_event \<Rightarrow> 'w head_read \<Rightarrow> 'w block_reads \<Rightarrow> event_watcher \<Rightarrow> 'e list \<Rightarrow> event_watcher \<Rightarrow> bool"
  for E now_block infos W0 where
  watching_start: "watching E now_block infos W0 [] W0"
| watching_poll: "watching E now_block infos W0 evs W \<Longrightarrow> poll E now_block infos W w = (Inr batch, W', w')
    \<Longrightarrow> watching E now_block infos W0 (evs @ batch) W'"
| watching_fail: "watching E now_block infos W0 evs W \<Longrightarrow> poll E now_block infos W w = (Inl e, W', w')
    \<Longrightarrow> watching E now_block infos W0 evs W'"

lemma watching_events:
  assumes "watching E now_block infos W0 evs W" and "wf_watcher W0" and "honest_reads chain now_block infos"
  shows "wf_watcher W \<and> ew_filter W = ew_filter W0
    \<and> chain_events (ew_filter W0) E chain (sint (ew_next_block W0)) (sint (ew_next_block W)) evs"
  using assms(1)
proof induction
  case watching_start
  then show ?case by (simp add: assms(2))
next
  case (watching_poll evs W w batch W' w')
  then have inv: "wf_watcher W" "ew_filter W = ew_filter W0"
    "chain_events (ew_filter W0) E chain (sint (ew_next_block W0)) (sint (ew_next_block W)) evs" by auto
  from poll_Ok [OF watching_poll.hyps(2) inv(1) assms(3)] have
    "chain_events (ew_filter W0) E chain (sint (ew_next_block W)) (sint (ew_next_block W')) batch"
    "ew_filter W' = ew_filter W0" "ew_confirmations W' = ew_confirmations W" "ew_max_blocks W' = ew_max_blocks W"
    by (auto simp: inv(2))
  with inv chain_events_append show ?case by (auto simp: wf_watcher_def)
next
  case (watching_fail evs W w e W' w')
  with poll_Err show ?case by metis
qed

text \<open>
  C35: one poll reads a window of blocks that starts at the cursor, is no longer than the
  configured maximum and stays the configured number of confirmations behind the head it saw,
  returns exactly the events of those blocks in order, and moves the cursor past them; it moves
  whenever a block is confirmed, and says whether it reached the confirmed head.  A poll that
  fails leaves the watcher as it was.
\<close>

theorem poll_window:
  assumes "wf_watcher W" and "honest_reads chain now_block infos"
    and "poll E now_block infos W w = (r, W', w')"
  shows "case r of
      Inl e \<Rightarrow> W' = W
    | Inr batch \<Rightarrow> (\<exists>b w1. now_block w = (Inr b, w1)
        \<and> chain_events (ew_filter W) E chain (sint (ew_next_block W)) (sint (ew_next_block W')) batch
        \<and> sint (ew_next_block W') \<le> sint (ew_next_block W) + sint (ew_max_blocks W)
        \<and> sint (ew_next_block W') \<le>
            max (sint (ew_next_block W)) (sint (block_info_number b) - sint (ew_confirmations W) + 1)
        \<and> (ew_caught_up W' \<longleftrightarrow>
            sint (block_info_number b) - sint (ew_confirmations W) < sint (ew_next_block W'))
        \<and> (sint (ew_next_block W) \<le> sint (block_info_number b) - sint (ew_confirmations W) \<longrightarrow>
            sint (ew_next_block W) < sint (ew_next_block W')))"
proof (cases r)
  case (Inl e)
  with poll_Err assms(3) show ?thesis by fastforce
next
  case (Inr batch)
  with poll_Ok [OF _ assms(1,2), of E w batch W' w'] assms(3) show ?thesis by auto
qed

text \<open>A chain whose block 5 holds one receipt with one anonymous log; the head is block 30.\<close>

definition sample_event :: "bytes sol_event" where
  "sample_event = \<lparr> ev_signature_hash = [], ev_anonymous = True, ev_decode = (\<lambda>_ data. Ok data) \<rparr>"

definition sample_info :: transaction_info where
  "sample_info =
     \<lparr> transaction_info_tx_id = [], transaction_info_block_number = 5, transaction_info_block_timestamp = 0,
       transaction_info_status = TxSuccess, transaction_info_fee = trx_zero,
       transaction_info_energy_usage_total = 0, transaction_info_energy_fee = trx_zero,
       transaction_info_net_usage = 0, transaction_info_net_fee = trx_zero,
       transaction_info_receipt = \<lparr> resource_receipt_energy_usage = 0, resource_receipt_energy_fee = trx_zero,
          resource_receipt_origin_energy_usage = 0, resource_receipt_energy_usage_total = 0,
          resource_receipt_net_usage = 0, resource_receipt_net_fee = trx_zero,
          resource_receipt_energy_penalty_total = 0 \<rparr>,
       transaction_info_contract_result = ResultSuccess, transaction_info_contract_address = None,
       transaction_info_logs = [\<lparr> log_address = address_zero, log_topics = [], log_data = [42] \<rparr>],
       transaction_info_internal_transactions = [], transaction_info_revert_reason = None \<rparr>"

definition sample_infos :: "nat block_reads" where
  "sample_infos n w = (Ok (if n = 5 then [sample_info] else []), w)"

definition sample_head :: "nat head_read" where
  "sample_head w = (Ok (block_info_new 30 [] 0), w)"

definition sample_chain_infos :: "int \<Rightarrow> transaction_info list" where
  "sample_chain_infos n = (if n = 5 then [sample_info] else [])"

lemma sample_honest: "honest_reads sample_chain_infos sample_head sample_infos"
proof -
  have "sint n = 5 \<longleftrightarrow> n = 5" for n :: i64
    using sint_eq_iff [of n 5] by simp
  then show ?thesis
    by (auto simp: honest_reads_def sample_chain_infos_def sample_infos_def sample_head_def
        block_info_new_def i64_max_def)
qed

lemma sample_block_events:
  "block_events (event_filter_new None) sample_event [sample_info] = Ok [[42]]"
  "block_events (event_filter_new None) sample_event [] = Ok []"
  by (simp_all add: block_events_def filter_decode_logs_def filter_accepts_def decode_log_def
      event_filter_new_def sample_event_def sample_info_def)

lemma sample_range:
  "query_range (event_filter_new None) sample_event sample_infos 5 11 w = (Ok [[42]], w)"
proof -
  have "[5..11] = [5, 6, 7, 8, 9, 10, 11 :: int]" by (simp add: upto.simps)
  then have "block_range 5 11 = [5, 6, 7, 8, 9, 10, 11]" by (simp add: block_range_def)
  then show ?thesis
    by (simp add: query_range_def query_block_def sample_infos_def sample_block_events)
qed

lemma sample_poll:
  "poll sample_event sample_head sample_infos (watch_from (event_filter_new None) 5) 0
   = (Ok [[42]],
      (watch_from (event_filter_new None) 5)\<lparr> ew_next_block := 12, ew_caught_up := True \<rparr>, 0)"
proof -
  have "poll_target 5 11 1000 = Some 11"
    by (simp add: poll_target_def min_i64_def saturating_add_i64_def i64_min_def i64_max_def word_sle_eq)
  then show ?thesis
    by (simp add: poll_def read_head_def sample_head_def block_info_new_def watch_from_def sample_range)
qed

theorem poll_window_witness:
  "chain_events (event_filter_new None) sample_event sample_chain_infos 5 12 [[42]]"
  using poll_window [OF wf_watch_from sample_honest sample_poll]
  by (auto simp: watch_from_def)

section \<open>The stream\<close>

inductive streaming ::
  "(nat \<Rightarrow> 'w \<Rightarrow> 'w) \<Rightarrow> 'e sol_event \<Rightarrow> 'w head_read \<Rightarrow> 'w block_reads \<Rightarrow> event_watcher
     \<Rightarrow> 'e list \<Rightarrow> 'e event_stream \<Rightarrow> bool"
  for sleep E now_block infos W0 where
  streaming_start: "streaming sleep E now_block infos W0 [] (into_stream W0)"
| streaming_event: "streaming sleep E now_block infos W0 evs S
    \<Longrightarrow> stream_next sleep E now_block infos (es_watcher S) (es_pending S) (es_failed S) w = Some (Inr ev, S', w')
    \<Longrightarrow> streaming sleep E now_block infos W0 (evs @ [ev]) S'"
| streaming_error: "streaming sleep E now_block infos W0 evs S
    \<Longrightarrow> stream_next sleep E now_block infos (es_watcher S) (es_pending S) (es_failed S) w = Some (Inl e, S', w')
    \<Longrightarrow> streaming sleep E now_block infos W0 evs S'"

text \<open>What was yielded and what is pending are what the polls returned.\<close>

definition stream_inv ::
  "'e sol_event \<Rightarrow> 'w head_read \<Rightarrow> 'w block_reads \<Rightarrow> event_watcher \<Rightarrow> 'e list \<Rightarrow> 'e list \<Rightarrow> event_watcher \<Rightarrow> bool" where
  "stream_inv E now_block infos W0 evs pending W \<longleftrightarrow> watching E now_block infos W0 (evs @ pending) W"

lemma stream_next_inv:
  assumes "stream_next sleep E now_block infos W pending throttle w = Some (r, S, w')"
    and "stream_inv E now_block infos W0 evs pending W"
  shows "stream_inv E now_block infos W0 (case r of Inr ev \<Rightarrow> evs @ [ev] | Inl _ \<Rightarrow> evs)
      (es_pending S) (es_watcher S)"
proof -
  have "stream_inv E now_block infos W0 evs pending W \<longrightarrow>
      stream_inv E now_block infos W0 (case fst y of Inr ev \<Rightarrow> evs @ [ev] | Inl _ \<Rightarrow> evs)
        (es_pending (fst (snd y))) (es_watcher (fst (snd y)))"
    if "stream_next sleep E now_block infos W pending throttle w = Some y" for y
    using that
  proof (induction rule: stream_next.raw_induct [rotated, consumes 1])
    case (1 self sleep E now_block infos W pending throttle w y)
    show ?case
    proof (intro impI, cases pending)
      case (Cons ev rest)
      assume "stream_inv E now_block infos W0 evs pending W"
      with 1(2) Cons show "stream_inv E now_block infos W0 (case fst y of Inr ev \<Rightarrow> evs @ [ev] | Inl _ \<Rightarrow> evs)
        (es_pending (fst (snd y))) (es_watcher (fst (snd y)))"
        by (auto simp: stream_inv_def)
    next
      case Nil
      assume inv: "stream_inv E now_block infos W0 evs pending W"
      let ?w0 = "if throttle then sleep (ew_interval W) w else w"
      obtain r1 W1 w1 where p: "poll E now_block infos W ?w0 = (r1, W1, w1)"
        by (cases "poll E now_block infos W ?w0") auto
      have w: "watching E now_block infos W0 evs W" using inv Nil by (simp add: stream_inv_def)
      show "stream_inv E now_block infos W0 (case fst y of Inr ev \<Rightarrow> evs @ [ev] | Inl _ \<Rightarrow> evs)
        (es_pending (fst (snd y))) (es_watcher (fst (snd y)))"
      proof (cases r1)
        case (Inl e)
        with 1(2) Nil p have "y = (Err e, \<lparr> es_watcher = W1, es_pending = [], es_failed = True \<rparr>, w1)"
          by (simp add: Let_def)
        with watching_fail [OF w p [unfolded Inl]] show ?thesis by (simp add: stream_inv_def)
      next
        case (Inr batch)
        then have inv1: "stream_inv E now_block infos W0 evs batch W1"
          using watching_poll [OF w p [unfolded Inr]] by (simp add: stream_inv_def)
        show ?thesis
        proof (cases "batch = [] \<and> ew_caught_up W1")
          case True
          with 1(2) Nil p Inr have "self sleep E now_block infos W1 [] False (sleep (ew_interval W1) w1) = Some y"
            by (simp add: Let_def)
          from 1(1) [OF this] inv1 True show ?thesis by simp
        next
          case False
          with 1(2) Nil p Inr have "self sleep E now_block infos W1 batch False w1 = Some y"
            by (simp add: Let_def split: if_splits)
          from 1(1) [OF this] inv1 show ?thesis by simp
        qed
      qed
    qed
  qed
  from this [OF assms(1)] assms(2) show ?thesis by simp
qed

lemma streaming_inv:
  "streaming sleep E now_block infos W0 evs S
   \<Longrightarrow> stream_inv E now_block infos W0 evs (es_pending S) (es_watcher S)"
proof (induction rule: streaming.induct)
  case streaming_start
  then show ?case by (simp add: stream_inv_def into_stream_def watching_start)
qed (auto dest: stream_next_inv)

text \<open>
  C36: the stream yields every event of the chain from the block it was started at exactly once
  and in order, however often polls fail and whatever the node's head does: what it has yielded,
  with what it still holds, are the events of all the blocks before its cursor.
\<close>

theorem stream_yields_once:
  assumes "streaming sleep E now_block infos W0 evs S" and "wf_watcher W0"
    and "honest_reads chain now_block infos"
  shows "chain_events (ew_filter W0) E chain (sint (ew_next_block W0))
    (sint (ew_next_block (es_watcher S))) (evs @ es_pending S)"
  using streaming_inv [OF assms(1)] watching_events [OF _ assms(2,3)]
  by (auto simp: stream_inv_def)

theorem stream_yields_once_witness:
  "chain_events (event_filter_new None) sample_event sample_chain_infos 5 12 [[42]]
   \<and> stream_next (\<lambda>_ w. w) sample_event sample_head sample_infos (watch_from (event_filter_new None) 5) [] False 0
     = Some (Ok [42], \<lparr> es_watcher = (watch_from (event_filter_new None) 5)\<lparr> ew_next_block := 12, ew_caught_up := True \<rparr>,
                       es_pending = [], es_failed = False \<rparr>, 0)"
proof -
  let ?W = "watch_from (event_filter_new None) 5"
  let ?S = "\<lparr> es_watcher = ?W\<lparr> ew_next_block := 12, ew_caught_up := True \<rparr>,
              es_pending = [], es_failed = False \<rparr> :: bytes event_stream"
  have run: "stream_next (\<lambda>_ w. w) sample_event sample_head sample_infos ?W [] False 0 = Some (Ok [42], ?S, 0)"
    by (subst stream_next.simps) (simp add: sample_poll, subst stream_next.simps, simp)
  have "streaming (\<lambda>_ w. w) sample_event sample_head sample_infos ?W ([] @ [[42]]) ?S"
    by (rule streaming_event [OF streaming_start]) (use run in \<open>simp add: into_stream_def\<close>)
  from stream_yields_once [OF this wf_watch_from sample_honest] run show ?thesis
    by (simp add: watch_from_def)
qed

end
