(* ===== verification/Contract_Interface.thy ===== *)
theory Contract_Interface
  imports Abi_Json Events
begin

text \<open>
  The dynamic interface of a contract (\<open>crates/contract/src/interface.rs\<close>): a JSON ABI with its
  functions indexed by selector and its events by topic, and coding through the indexed item.  What
  \<open>alloy_dyn_abi\<close> computes of a function or an event is the record \<open>alloy_dyn\<close>.
\<close>

section \<open>Errors\<close>

definition abi_conversion_error_display :: "abi_conversion_error \<Rightarrow> string" where
  "abi_conversion_error_display e =
     (case e of
        AcInvalidType ty \<Rightarrow> ''invalid ABI type `'' @ ty @ ''`''
      | AcInvalidName name \<Rightarrow> ''invalid ABI identifier `'' @ name @ ''`''
      | AcUnknownEntryType v \<Rightarrow> ''unknown TRON ABI entry type '' @ show_int (sint v)
      | AcInvalidMutability v \<Rightarrow> ''invalid TRON ABI state mutability '' @ show_int (sint v)
      | AcConflictingMutability \<Rightarrow> ''TRON ABI entry cannot be both constant and payable''
      | AcIncompleteTuple name \<Rightarrow> ''tuple ABI parameter `'' @ name @ ''` does not include component types''
      | AcDuplicateEntry name \<Rightarrow> ''duplicate ABI '' @ name @ '' entry'')"

text \<open>\<open>name.split('(').next()\<close>\<close>

definition before_paren :: "string \<Rightarrow> string" where
  "before_paren name = takeWhile (\<lambda>c. c \<noteq> CHR ''('') name"

definition decode_err :: "string \<Rightarrow> bytes \<Rightarrow> string \<Rightarrow> contract_error" where
  "decode_err name data error = (if data = [] then CeZeroData (before_paren name) error else CeAbi error)"

section \<open>The interface\<close>

record ('p, 'd, 'e) alloy_dyn =
  ad_function_selector :: "'p json_function \<Rightarrow> bytes"
  ad_event_selector :: "'p json_event \<Rightarrow> bytes"
  ad_encode_input :: "'p json_function \<Rightarrow> 'd list \<Rightarrow> string + bytes"
  ad_decode_input :: "'p json_function \<Rightarrow> bytes \<Rightarrow> string + 'd list"
  ad_decode_output :: "'p json_function \<Rightarrow> bytes \<Rightarrow> string + 'd list"
  ad_decode_log_parts :: "'p json_event \<Rightarrow> bytes list \<Rightarrow> bytes \<Rightarrow> string + 'e"

record 'p contract_interface =
  if_abi :: "'p json_abi"
  if_functions :: "bytes \<rightharpoonup> string \<times> nat"
  if_events :: "bytes \<rightharpoonup> string \<times> nat"

text \<open>The items of a map of groups, each with the name and the index it is found under.\<close>

definition located :: "(string \<times> 'v list) list \<Rightarrow> ('v \<times> string \<times> nat) list" where
  "located m = concat (map (\<lambda>(name, items). map (\<lambda>(idx, v). (v, (name, idx))) (enumerate 0 items)) m)"

text \<open>Collecting into a \<open>HashMap\<close>: a later key replaces an earlier one.\<close>

definition build_selector_map :: "('p, 'd, 'e) alloy_dyn \<Rightarrow> 'p json_abi \<Rightarrow> bytes \<rightharpoonup> string \<times> nat" where
  "build_selector_map A abi =
     map_of (rev (map (\<lambda>(f, loc). (ad_function_selector A f, loc)) (located (ja_functions abi))))"

definition build_event_map :: "('p, 'd, 'e) alloy_dyn \<Rightarrow> 'p json_abi \<Rightarrow> bytes \<rightharpoonup> string \<times> nat" where
  "build_event_map A abi =
     map_of (rev (map (\<lambda>(e, loc). (ad_event_selector A e, loc))
       (filter (\<lambda>(e, _). \<not> je_anonymous e) (located (ja_events abi)))))"

definition interface_new :: "('p, 'd, 'e) alloy_dyn \<Rightarrow> 'p json_abi \<Rightarrow> 'p contract_interface" where
  "interface_new A abi =
     \<lparr> if_abi = abi, if_functions = build_selector_map A abi, if_events = build_event_map A abi \<rparr>"

definition interface_empty :: "'p contract_interface" where
  "interface_empty = \<lparr> if_abi = json_abi_new, if_functions = Map.empty, if_events = Map.empty \<rparr>"

section \<open>Lookups\<close>

text \<open>\<open>map.get(name)?.get(idx)\<close>\<close>

definition at_location :: "(string \<times> 'v list) list \<Rightarrow> string \<times> nat \<Rightarrow> 'v option" where
  "at_location m loc =
     (case map_of m (fst loc) of
        None \<Rightarrow> None
      | Some items \<Rightarrow> if snd loc < length items then Some (items ! snd loc) else None)"

definition get_by_name :: "'p contract_interface \<Rightarrow> string \<Rightarrow> contract_error + 'p json_function" where
  "get_by_name I name =
     ok_or (CeUnknownFunction name)
       (case map_of (ja_functions (if_abi I)) name of Some (f # _) \<Rightarrow> Some f | _ \<Rightarrow> None)"

definition get_by_selector :: "'p contract_interface \<Rightarrow> bytes \<Rightarrow> contract_error + 'p json_function" where
  "get_by_selector I selector =
     ok_or (CeUnknownSelector selector)
       (Option.bind (if_functions I selector) (at_location (ja_functions (if_abi I))))"

definition get_event_by_topic :: "'p contract_interface \<Rightarrow> bytes \<Rightarrow> contract_error + 'p json_event" where
  "get_event_by_topic I topic0 =
     ok_or (CeUnknownEvent topic0)
       (Option.bind (if_events I topic0) (at_location (ja_events (if_abi I))))"

section \<open>Coding\<close>

definition encode_input ::
  "('p, 'd, 'e) alloy_dyn \<Rightarrow> 'p contract_interface \<Rightarrow> string \<Rightarrow> 'd list \<Rightarrow> contract_error + bytes" where
  "encode_input A I fn_name args =
     and_then (get_by_name I fn_name) (\<lambda>f. map_err CeAbi (ad_encode_input A f args))"

definition encode_input_with_selector ::
  "('p, 'd, 'e) alloy_dyn \<Rightarrow> 'p contract_interface \<Rightarrow> bytes \<Rightarrow> 'd list \<Rightarrow> contract_error + bytes" where
  "encode_input_with_selector A I selector args =
     and_then (get_by_selector I selector) (\<lambda>f. map_err CeAbi (ad_encode_input A f args))"

definition decode_input ::
  "('p, 'd, 'e) alloy_dyn \<Rightarrow> 'p contract_interface \<Rightarrow> string \<Rightarrow> bytes \<Rightarrow> contract_error + 'd list" where
  "decode_input A I fn_name data =
     and_then (get_by_name I fn_name) (\<lambda>f. map_err CeAbi (ad_decode_input A f data))"

definition decode_input_with_selector ::
  "('p, 'd, 'e) alloy_dyn \<Rightarrow> 'p contract_interface \<Rightarrow> bytes \<Rightarrow> bytes \<Rightarrow> contract_error + 'd list" where
  "decode_input_with_selector A I selector data =
     and_then (get_by_selector I selector) (\<lambda>f. map_err CeAbi (ad_decode_input A f data))"

definition decode_output ::
  "('p, 'd, 'e) alloy_dyn \<Rightarrow> 'p contract_interface \<Rightarrow> string \<Rightarrow> bytes \<Rightarrow> contract_error + 'd list" where
  "decode_output A I fn_name data =
     and_then (get_by_name I fn_name) (\<lambda>f. map_err (decode_err fn_name data) (ad_decode_output A f data))"

definition decode_output_with_selector ::
  "('p, 'd, 'e) alloy_dyn \<Rightarrow> 'p contract_interface \<Rightarrow> bytes \<Rightarrow> bytes \<Rightarrow> contract_error + 'd list" where
  "decode_output_with_selector A I selector data =
     and_then (get_by_selector I selector)
       (\<lambda>f. map_err (decode_err (jf_name f) data) (ad_decode_output A f data))"

definition interface_decode_log ::
  "('p, 'd, 'e) alloy_dyn \<Rightarrow> 'p contract_interface \<Rightarrow> event_log \<Rightarrow> contract_error + string \<times> 'e" where
  "interface_decode_log A I l =
     (let topic0 = (case log_topics l of [] \<Rightarrow> replicate 32 0 | t # _ \<Rightarrow> t)
      in and_then (get_event_by_topic I topic0) (\<lambda>event.
         and_then (map_err CeAbi (ad_decode_log_parts A event (log_topics l) (log_data l))) (\<lambda>decoded.
           Ok (je_name event, decoded))))"

definition interface_decode_logs ::
  "('p, 'd, 'e) alloy_dyn \<Rightarrow> 'p contract_interface \<Rightarrow> event_log list \<Rightarrow> (contract_error + string \<times> 'e) list" where
  "interface_decode_logs A I logs =
     List.map_filter (\<lambda>l.
       (case log_topics l of
          [] \<Rightarrow> None
        | topic0 # _ \<Rightarrow>
            if if_events I topic0 = None then None else Some (interface_decode_log A I l))) logs"

section \<open>The index is the search\<close>

lemma located_grouped: "map fst (located m) = grouped m"
proof (induction m)
  case Nil
  then show ?case by (simp add: located_def grouped_def)
next
  case (Cons g m)
  have "map fst (map (\<lambda>(idx, v). (v, (fst g, idx))) (enumerate n items)) = items" for n and items :: "'a list"
    by (induction items arbitrary: n) simp_all
  with Cons show ?case by (cases g) (simp add: located_def grouped_def del: map_map)
qed

lemma located_at:
  assumes "distinct (map fst m)" and "(v, loc) \<in> set (located m)"
  shows "at_location m loc = Some v"
proof -
  obtain name items idx where "(name, items) \<in> set m" "loc = (name, idx)" "(idx, v) \<in> set (enumerate 0 items)"
    using assms(2) by (auto simp: located_def)
  then show ?thesis using assms(1)
    by (auto simp: at_location_def in_set_enumerate_eq)
qed

text \<open>Searching the last pair with a key, and reading what it points to.\<close>

lemma map_of_rev_find:
  "map_of (rev (map (\<lambda>(v, loc). (key v, loc)) vs)) k
     = map_option snd (List.find (\<lambda>(v, _). key v = k) (rev vs))"
proof -
  have "map_of (map (\<lambda>(v, loc). (key v, loc)) us) k = map_option snd (List.find (\<lambda>(v, _). key v = k) us)" for us
    by (induction us) auto
  from this [of "rev vs"] show ?thesis by (simp add: rev_map)
qed

lemma find_fst: "map_option fst (List.find (\<lambda>(v, _). P v) vs) = List.find P (map fst vs)"
  by (induction vs) auto

lemma find_in: "List.find P xs = Some x \<Longrightarrow> x \<in> set xs \<and> P x"
  by (induction xs) (auto split: if_splits)

lemma indexed_find:
  assumes "distinct (map fst m)" and "set vs \<subseteq> set (located m)"
  shows "Option.bind (map_of (rev (map (\<lambda>(v, loc). (key v, loc)) vs)) k) (at_location m)
    = List.find (\<lambda>v. key v = k) (rev (map fst vs))"
proof (cases "List.find (\<lambda>(v, _). key v = k) (rev vs)")
  case None
  moreover from this find_fst [of "\<lambda>v. key v = k" "rev vs"]
  have "List.find (\<lambda>v. key v = k) (rev (map fst vs)) = None" by (simp add: rev_map)
  ultimately show ?thesis by (simp add: map_of_rev_find)
next
  case (Some r)
  obtain v loc where r: "r = (v, loc)" by (cases r)
  have "at_location m loc = Some v"
    using find_in [OF Some] assms(2) r by (auto intro: located_at [OF assms(1)])
  moreover have "List.find (\<lambda>v. key v = k) (rev (map fst vs)) = Some v"
    using find_fst [of "\<lambda>v. key v = k" "rev vs"] Some r by (simp add: rev_map)
  ultimately show ?thesis using Some r by (simp add: map_of_rev_find)
qed

text \<open>
  C17: looking an item up in the index is searching the ABI for it: over an ABI whose groups have
  different names, a selector gives the last function with that selector, a topic the last event
  that is not anonymous with that topic, and an item is reported unknown only when the ABI has none.
\<close>

theorem index_is_search:
  assumes "distinct (map fst (ja_functions abi))" and "distinct (map fst (ja_events abi))"
  shows "get_by_selector (interface_new A abi) selector
      = ok_or (CeUnknownSelector selector)
          (List.find (\<lambda>f. ad_function_selector A f = selector) (rev (grouped (ja_functions abi))))
    \<and> get_event_by_topic (interface_new A abi) topic
      = ok_or (CeUnknownEvent topic)
          (List.find (\<lambda>e. ad_event_selector A e = topic)
             (rev (filter (\<lambda>e. \<not> je_anonymous e) (grouped (ja_events abi)))))"
proof
  show "get_by_selector (interface_new A abi) selector
      = ok_or (CeUnknownSelector selector)
          (List.find (\<lambda>f. ad_function_selector A f = selector) (rev (grouped (ja_functions abi))))"
    using indexed_find [OF assms(1), of "located (ja_functions abi)" "ad_function_selector A" selector]
    by (simp add: get_by_selector_def interface_new_def build_selector_map_def located_grouped)
  have "map fst (filter (\<lambda>(e, _). \<not> je_anonymous e) xs) = filter (\<lambda>e. \<not> je_anonymous e) (map fst xs)"
    for xs :: "('a json_event \<times> string \<times> nat) list"
    by (induction xs) auto
  with indexed_find [OF assms(2), of "filter (\<lambda>(e, _). \<not> je_anonymous e) (located (ja_events abi))"
      "ad_event_selector A" topic]
  show "get_event_by_topic (interface_new A abi) topic
      = ok_or (CeUnknownEvent topic)
          (List.find (\<lambda>e. ad_event_selector A e = topic)
             (rev (filter (\<lambda>e. \<not> je_anonymous e) (grouped (ja_events abi)))))"
    by (auto simp: get_event_by_topic_def interface_new_def build_event_map_def located_grouped)
qed

text \<open>Items whose selector is the length of their name, which collide, and no coding.\<close>

definition length_selectors :: "(string \<times> string, unit, unit) alloy_dyn" where
  "length_selectors =
     \<lparr> ad_function_selector = (\<lambda>f. [of_nat (length (jf_name f) + length (jf_inputs f))]),
       ad_event_selector = (\<lambda>e. [of_nat (length (je_name e))]),
       ad_encode_input = (\<lambda>_ _. Ok []), ad_decode_input = (\<lambda>_ _. Ok []), ad_decode_output = (\<lambda>_ _. Ok []),
       ad_decode_log_parts = (\<lambda>_ _ _. Ok ()) \<rparr>"

theorem index_is_search_witness:
  "get_by_selector (interface_new length_selectors token_json_abi) [5]
     = Ok \<lparr> jf_name = ''mint'', jf_inputs = [(''address'', ''to'')], jf_outputs = [], jf_state_mutability = JsPayable \<rparr>
   \<and> get_event_by_topic (interface_new length_selectors token_json_abi) [9] = Err (CeUnknownEvent [9])"
  using index_is_search [where abi = token_json_abi and A = length_selectors and selector = "[5]" and topic = "[9]"]
  by (simp add: token_json_abi_def json_abi_new_def grouped_def length_selectors_def)

end
