(* ===== verification/Contract_Call.thy ===== *)
theory Contract_Call
  imports Provider_Stack Contract_Interface
begin

text \<open>
  Contract calls and deployments (\<open>crates/contract/src/call.rs\<close>, \<open>deploy.rs\<close>, \<open>instance.rs\<close>,
  \<open>sol_call.rs\<close>) over any provider: the builders with their defaults and setters, the request each
  describes, simulating, estimating, sending and building, and the instances that make them.
\<close>

type_synonym ('a, 'w) contract_call = "'w \<Rightarrow> (contract_error + 'a) \<times> 'w"

definition as_contract :: "('a, 'w) provider_call \<Rightarrow> ('a, 'w) contract_call" where
  "as_contract call w = (case call w of (r, w1) \<Rightarrow> (map_err CeProvider r, w1))"

section \<open>A call\<close>

record 'p call_builder =
  cb_provider :: 'p
  cb_address :: address
  cb_caller :: "address option"
  cb_data :: bytes
  cb_call_value :: trx
  cb_call_token_value :: trx
  cb_token_id :: i64
  cb_fee_limit :: "trx option"
  cb_permission_id :: "i32 option"

definition call_new :: "'p \<Rightarrow> address \<Rightarrow> bytes \<Rightarrow> 'p call_builder" where
  "call_new provider a data =
     \<lparr> cb_provider = provider, cb_address = a, cb_caller = None, cb_data = data, cb_call_value = trx_zero,
       cb_call_token_value = trx_zero, cb_token_id = 0, cb_fee_limit = None, cb_permission_id = None \<rparr>"

definition call_trx :: "'p call_builder \<Rightarrow> trx \<Rightarrow> 'p call_builder" where
  "call_trx b v = b\<lparr> cb_call_value := v \<rparr>"

definition call_token :: "'p call_builder \<Rightarrow> i64 \<Rightarrow> trx \<Rightarrow> 'p call_builder" where
  "call_token b token_id v = b\<lparr> cb_token_id := token_id, cb_call_token_value := v \<rparr>"

definition call_caller :: "'p call_builder \<Rightarrow> address \<Rightarrow> 'p call_builder" where
  "call_caller b a = b\<lparr> cb_caller := Some a \<rparr>"

definition call_fee_limit :: "'p call_builder \<Rightarrow> trx \<Rightarrow> 'p call_builder" where
  "call_fee_limit b v = b\<lparr> cb_fee_limit := Some v \<rparr>"

definition call_permission_id :: "'p call_builder \<Rightarrow> i32 \<Rightarrow> 'p call_builder" where
  "call_permission_id b i = b\<lparr> cb_permission_id := Some i \<rparr>"

definition resolved_caller :: "('w, 'z) read_provider_scheme call_builder \<Rightarrow> address" where
  "resolved_caller b =
     (case cb_caller b of
        Some a \<Rightarrow> a
      | None \<Rightarrow> (case rp_default_caller (cb_provider b) of Some a \<Rightarrow> a | None \<Rightarrow> address_zero))"

definition call_params :: "'p call_builder \<Rightarrow> address \<Rightarrow> trigger_smart_contract" where
  "call_params b owner =
     \<lparr> trigger_smart_owner_address = owner, trigger_smart_contract_address = cb_address b,
       trigger_smart_call_value = cb_call_value b, trigger_smart_data = cb_data b,
       trigger_smart_call_token_value = cb_call_token_value b, trigger_smart_token_id = cb_token_id b \<rparr>"

definition call_estimate_energy :: "('w, 'z) read_provider_scheme call_builder \<Rightarrow> (i64, 'w) contract_call" where
  "call_estimate_energy b =
     as_contract (rp_estimate_contract_energy (cb_provider b) (call_params b (resolved_caller b)))"

definition call_call :: "('w, 'z) read_provider_scheme call_builder \<Rightarrow> (bytes, 'w) contract_call" where
  "call_call b w =
     (case as_contract (rp_call_contract (cb_provider b) (call_params b (resolved_caller b))) w of
        (Inl e, w1) \<Rightarrow> (Err e, w1)
      | (Inr result, w1) \<Rightarrow>
          (if constant_call_result_revert_reason result \<noteq> None
           then Err (CeRevert (constant_call_result_output result))
           else Ok (constant_call_result_output result), w1))"

text \<open>The account that signs: the one set, or the provider's signer.\<close>

definition contract_owner :: "address option \<Rightarrow> address option \<Rightarrow> contract_error + address" where
  "contract_owner own_address signer =
     map_err CeProvider
       (ok_or rpc_no_signer (case own_address of Some a \<Rightarrow> Some a | None \<Rightarrow> signer))"

definition limited :: "trx option \<Rightarrow> tx_request \<Rightarrow> tx_request" where
  "limited limit req = (case limit of Some v \<Rightarrow> with_fee_limit req v | None \<Rightarrow> req)"

definition call_to_request :: "'w tron_provider call_builder \<Rightarrow> contract_error + tx_request" where
  "call_to_request b =
     and_then (contract_owner (cb_caller b) (tp_signer_address (cb_provider b))) (\<lambda>owner.
       Ok (limited (cb_fee_limit b)
             (tx_request_default\<lparr> req_contract := Some (CtTriggerSmartContract (call_params b owner)),
                                  req_permission_id := cb_permission_id b \<rparr>)))"

definition call_send :: "'w tron_provider call_builder \<Rightarrow> (pending_transaction, 'w) contract_call" where
  "call_send b w =
     (case call_to_request b of
        Inl e \<Rightarrow> (Err e, w)
      | Inr req \<Rightarrow> as_contract (tp_send_transaction (cb_provider b) req) w)"

definition call_build :: "'w tron_provider call_builder \<Rightarrow> (raw_transaction, 'w) contract_call" where
  "call_build b w =
     (case call_to_request b of
        Inl e \<Rightarrow> (Err e, w)
      | Inr req \<Rightarrow> as_contract (tp_build_transaction (cb_provider b) req) w)"

section \<open>A typed call\<close>

text \<open>What the code asks of a \<open>SolCall\<close>: its signature, its calldata, decoding what it returns.\<close>

record ('c, 'r) sol_call =
  sc_signature :: string
  sc_abi_encode :: "'c \<Rightarrow> bytes"
  sc_decode_returns :: "bytes \<Rightarrow> string + 'r"

definition typed_call_call ::
  "('c, 'r) sol_call \<Rightarrow> ('w, 'z) read_provider_scheme call_builder \<Rightarrow> ('r, 'w) contract_call" where
  "typed_call_call S b w =
     (case call_call b w of
        (Inl e, w1) \<Rightarrow> (Err e, w1)
      | (Inr output, w1) \<Rightarrow>
          (map_err (decode_err (before_paren (sc_signature S)) output) (sc_decode_returns S output), w1))"

section \<open>A deployment\<close>

datatype 'v deployment_abi = DaJson "'v json_abi" | DaTron tron_abi

record ('p, 'v) deploy_builder =
  db_provider :: 'p
  db_bytecode :: bytes
  db_abi :: "'v deployment_abi"
  db_call_value :: trx
  db_fee_limit :: "trx option"
  db_consume_user_resource_percent :: i64
  db_origin_energy_limit :: i64
  db_name :: string
  db_owner :: "address option"
  db_permission_id :: "i32 option"

definition deploy_new :: "'p \<Rightarrow> bytes \<Rightarrow> ('p, 'v) deploy_builder" where
  "deploy_new provider bytecode =
     \<lparr> db_provider = provider, db_bytecode = bytecode, db_abi = DaTron abi_new, db_call_value = trx_zero,
       db_fee_limit = None, db_consume_user_resource_percent = 100, db_origin_energy_limit = 10000000,
       db_name = [], db_owner = None, db_permission_id = None \<rparr>"

definition deploy_from :: "('p, 'v) deploy_builder \<Rightarrow> address \<Rightarrow> ('p, 'v) deploy_builder" where
  "deploy_from b a = b\<lparr> db_owner := Some a \<rparr>"

definition deploy_permission_id :: "('p, 'v) deploy_builder \<Rightarrow> i32 \<Rightarrow> ('p, 'v) deploy_builder" where
  "deploy_permission_id b i = b\<lparr> db_permission_id := Some i \<rparr>"

definition deploy_abi :: "('p, 'v) deploy_builder \<Rightarrow> 'v json_abi \<Rightarrow> ('p, 'v) deploy_builder" where
  "deploy_abi b abi = b\<lparr> db_abi := DaJson abi \<rparr>"

definition deploy_tron_abi :: "('p, 'v) deploy_builder \<Rightarrow> tron_abi \<Rightarrow> ('p, 'v) deploy_builder" where
  "deploy_tron_abi b abi = b\<lparr> db_abi := DaTron abi \<rparr>"

definition deploy_value :: "('p, 'v) deploy_builder \<Rightarrow> trx \<Rightarrow> ('p, 'v) deploy_builder" where
  "deploy_value b v = b\<lparr> db_call_value := v \<rparr>"

definition deploy_fee_limit :: "('p, 'v) deploy_builder \<Rightarrow> trx \<Rightarrow> ('p, 'v) deploy_builder" where
  "deploy_fee_limit b v = b\<lparr> db_fee_limit := Some v \<rparr>"

definition deploy_name :: "('p, 'v) deploy_builder \<Rightarrow> string \<Rightarrow> ('p, 'v) deploy_builder" where
  "deploy_name b n = b\<lparr> db_name := n \<rparr>"

definition deploy_consume_user_resource_percent ::
  "('p, 'v) deploy_builder \<Rightarrow> i64 \<Rightarrow> ('p, 'v) deploy_builder" where
  "deploy_consume_user_resource_percent b pct = b\<lparr> db_consume_user_resource_percent := pct \<rparr>"

definition deploy_origin_energy_limit :: "('p, 'v) deploy_builder \<Rightarrow> i64 \<Rightarrow> ('p, 'v) deploy_builder" where
  "deploy_origin_energy_limit b limit = b\<lparr> db_origin_energy_limit := limit \<rparr>"

definition deploy_tron_metadata :: "'v alloy_params \<Rightarrow> 'v deployment_abi \<Rightarrow> contract_error + tron_abi" where
  "deploy_tron_metadata A abi =
     (case abi of
        DaJson json \<Rightarrow>
          map_err (\<lambda>e. CeAbiMetadata (abi_conversion_error_display e)) (try_from_json_abi A json)
      | DaTron metadata \<Rightarrow> Ok metadata)"

definition deploy_to_request ::
  "'v alloy_params \<Rightarrow> ('w tron_provider, 'v) deploy_builder \<Rightarrow> contract_error + tx_request" where
  "deploy_to_request A b =
     and_then (contract_owner (db_owner b) (tp_signer_address (db_provider b))) (\<lambda>owner.
     and_then (deploy_tron_metadata A (db_abi b)) (\<lambda>abi.
       Ok (limited (db_fee_limit b)
             (tx_request_default\<lparr>
                req_contract := Some (CtCreateSmartContract
                  \<lparr> create_smart_owner_address = owner, create_smart_bytecode = db_bytecode b,
                    create_smart_abi = abi, create_smart_call_value = db_call_value b,
                    create_smart_consume_user_resource_percent = db_consume_user_resource_percent b,
                    create_smart_origin_energy_limit = db_origin_energy_limit b,
                    create_smart_name = db_name b \<rparr>),
                req_permission_id := db_permission_id b \<rparr>))))"

definition deploy_send ::
  "'v alloy_params \<Rightarrow> ('w tron_provider, 'v) deploy_builder \<Rightarrow> (pending_transaction, 'w) contract_call" where
  "deploy_send A b w =
     (case deploy_to_request A b of
        Inl e \<Rightarrow> (Err e, w)
      | Inr req \<Rightarrow> as_contract (tp_send_transaction (db_provider b) req) w)"

definition deploy_build ::
  "'v alloy_params \<Rightarrow> ('w tron_provider, 'v) deploy_builder \<Rightarrow> (raw_transaction, 'w) contract_call" where
  "deploy_build A b w =
     (case deploy_to_request A b of
        Inl e \<Rightarrow> (Err e, w)
      | Inr req \<Rightarrow> as_contract (tp_build_transaction (db_provider b) req) w)"

text \<open>A handle asks the root provider, past every wrapper.\<close>

definition root_transaction_info :: "'w tron_provider \<Rightarrow> bytes \<Rightarrow> 'w asking" where
  "root_transaction_info p tx_id = as_provider (tr_transaction_info (ri_transport (tp_root p)) tx_id)"

definition deploy_deploy ::
  "('w \<Rightarrow> nat) \<Rightarrow> (nat \<Rightarrow> 'w \<Rightarrow> 'w) \<Rightarrow> 'v alloy_params \<Rightarrow> ('w tron_provider, 'v) deploy_builder \<Rightarrow> 'w
     \<Rightarrow> ((contract_error + address) \<times> 'w) option" where
  "deploy_deploy clock sleep A b w =
     (case deploy_send A b w of
        (Inl e, w1) \<Rightarrow> Some (Err e, w1)
      | (Inr pending, w1) \<Rightarrow>
          (case get_receipt clock sleep (root_transaction_info (db_provider b)) pending w1 of
             None \<Rightarrow> None
           | Some (r, w2) \<Rightarrow>
               Some (and_then (map_err contract_error_of_pending r) (\<lambda>info.
                       ok_or CeContractNotDeployed (transaction_info_contract_address info)), w2)))"

section \<open>An instance\<close>

record ('p, 'v) contract_instance =
  ci_address :: address
  ci_caller :: "address option"
  ci_provider :: 'p
  ci_interface :: "'v contract_interface"

definition instance_new :: "address \<Rightarrow> 'p \<Rightarrow> 'v contract_interface \<Rightarrow> ('p, 'v) contract_instance" where
  "instance_new a provider I =
     \<lparr> ci_address = a, ci_caller = None, ci_provider = provider, ci_interface = I \<rparr>"

definition instance_new_raw :: "'p \<Rightarrow> address \<Rightarrow> ('p, 'v) contract_instance" where
  "instance_new_raw provider a =
     \<lparr> ci_address = a, ci_caller = None, ci_provider = provider, ci_interface = interface_empty \<rparr>"

definition instance_at :: "('p, 'v) contract_instance \<Rightarrow> address \<Rightarrow> ('p, 'v) contract_instance" where
  "instance_at c a = c\<lparr> ci_address := a \<rparr>"

definition instance_caller :: "('p, 'v) contract_instance \<Rightarrow> address \<Rightarrow> ('p, 'v) contract_instance" where
  "instance_caller c a = c\<lparr> ci_caller := Some a \<rparr>"

definition instance_call_raw :: "('p, 'v) contract_instance \<Rightarrow> bytes \<Rightarrow> 'p call_builder" where
  "instance_call_raw c data =
     (let call = call_new (ci_provider c) (ci_address c) data
      in case ci_caller c of Some a \<Rightarrow> call_caller call a | None \<Rightarrow> call)"

definition instance_function ::
  "('v, 'd, 'e) alloy_dyn \<Rightarrow> ('p, 'v) contract_instance \<Rightarrow> string \<Rightarrow> 'd list \<Rightarrow> contract_error + 'p call_builder" where
  "instance_function A c fn_name args =
     and_then (encode_input A (ci_interface c) fn_name args) (\<lambda>data. Ok (instance_call_raw c data))"

definition instance_function_from_selector ::
  "('v, 'd, 'e) alloy_dyn \<Rightarrow> ('p, 'v) contract_instance \<Rightarrow> bytes \<Rightarrow> 'd list \<Rightarrow> contract_error + 'p call_builder" where
  "instance_function_from_selector A c selector args =
     and_then (encode_input_with_selector A (ci_interface c) selector args) (\<lambda>data.
       Ok (instance_call_raw c data))"

definition called ::
  "contract_error + 'b \<Rightarrow> ('b \<Rightarrow> ('r, 'w) contract_call) \<Rightarrow> ('r, 'w) contract_call" where
  "called call run w = (case call of Inl e \<Rightarrow> (Err e, w) | Inr b \<Rightarrow> run b w)"

definition instance_call ::
  "('v, 'd, 'e) alloy_dyn \<Rightarrow> (('w, 'z) read_provider_scheme, 'v) contract_instance \<Rightarrow> string \<Rightarrow> 'd list
     \<Rightarrow> ('d list, 'w) contract_call" where
  "instance_call A c fn_name args =
     called (instance_function A c fn_name args) (\<lambda>b w.
       (case call_call b w of
          (Inl e, w1) \<Rightarrow> (Err e, w1)
        | (Inr output, w1) \<Rightarrow> (decode_output A (ci_interface c) fn_name output, w1)))"

definition instance_call_with_selector ::
  "('v, 'd, 'e) alloy_dyn \<Rightarrow> (('w, 'z) read_provider_scheme, 'v) contract_instance \<Rightarrow> bytes \<Rightarrow> 'd list
     \<Rightarrow> ('d list, 'w) contract_call" where
  "instance_call_with_selector A c selector args =
     called (instance_function_from_selector A c selector args) (\<lambda>b w.
       (case call_call b w of
          (Inl e, w1) \<Rightarrow> (Err e, w1)
        | (Inr output, w1) \<Rightarrow> (decode_output_with_selector A (ci_interface c) selector output, w1)))"

definition instance_send ::
  "('v, 'd, 'e) alloy_dyn \<Rightarrow> ('w tron_provider, 'v) contract_instance \<Rightarrow> string \<Rightarrow> 'd list
     \<Rightarrow> (pending_transaction, 'w) contract_call" where
  "instance_send A c fn_name args = called (instance_function A c fn_name args) call_send"

definition instance_send_with_selector ::
  "('v, 'd, 'e) alloy_dyn \<Rightarrow> ('w tron_provider, 'v) contract_instance \<Rightarrow> bytes \<Rightarrow> 'd list
     \<Rightarrow> (pending_transaction, 'w) contract_call" where
  "instance_send_with_selector A c selector args =
     called (instance_function_from_selector A c selector args) call_send"

end
