(* ===== verification/Contract_Send.thy ===== *)
theory Contract_Send
  imports Sample_Node Contract_Call
begin

text \<open>
  Contract calls and deployments through a provider with a wallet over the gRPC transport: what is
  called, sent and deployed is what the caller described.
\<close>

section \<open>Simulating\<close>

text \<open>
  C15: a simulated call says what the node answered and sends nothing.  Through any stack of
  wrappers that leave contract calls alone it makes one constant call, of the contract with the
  calldata and values that were set, as the account set, else the provider's signer, else the zero
  address; it returns the node's output, reports a revert as a revert with the raw data, and an error of
  the transport as the provider's error.
\<close>

theorem call_simulates:
  assumes "cb_provider b = filled_provider C M F signer (root_of C rt)"
    and "tr_constant_call (ri_transport rt) (call_params b
           (case cb_caller b of Some a \<Rightarrow> a | None \<Rightarrow> (case signer of Some a \<Rightarrow> a | None \<Rightarrow> address_zero))) w
         = (answer, w')"
  shows "call_call b w =
    ((case answer of
        Inl e \<Rightarrow> Err (CeProvider (rpc_of_transport e))
      | Inr result \<Rightarrow>
          if constant_call_result_revert_reason result = None then Ok (constant_call_result_output result)
          else Err (CeRevert (constant_call_result_output result))), w')"
proof -
  have "rp_call_contract (root_of C rt) = (\<lambda>params. as_provider (tr_constant_call (ri_transport rt) params))"
    by (simp add: root_of_def provider_of_def Let_def root_overrides_def)
  moreover have "resolved_caller b
      = (case cb_caller b of Some a \<Rightarrow> a | None \<Rightarrow> (case signer of Some a \<Rightarrow> a | None \<Rightarrow> address_zero))"
    by (cases "cb_caller b") (simp_all add: resolved_caller_def assms(1) filled_methods)
  ultimately show ?thesis
    using assms(2) by (simp add: call_call_def as_contract_def as_provider_def assms(1) filled_methods split: sum.split)
qed

text \<open>A provider without fillers, over a node where every call reverts.\<close>

definition no_memory :: "(unit, 'w) memory" where
  "no_memory = \<lparr> mem_get = (\<lambda>_. ()), mem_put = (\<lambda>_ w. w) \<rparr>"

definition no_fillers :: "(unit, 'w) filler_ops" where
  "no_fillers = \<lparr> fo_sync = default_fill_sync, fo_fill = default_fill, fo_sign_with = (\<lambda>_ _ _ w. (None, w)) \<rparr>"

definition reverting_transport :: "nat tron_transport" where
  "reverting_transport = offline_transport\<lparr> tr_constant_call := \<lambda>_ w.
     (Ok \<lparr> constant_call_result_output = [8, 195], constant_call_result_energy_used = 0,
           constant_call_result_revert_reason = Some ''no'' \<rparr>, Suc w) \<rparr>"

theorem call_simulates_witness:
  "call_call (call_new (filled_provider sample_codec no_memory no_fillers None
       (root_of sample_codec (root_new reverting_transport))) (Address [3]) [1]) 5
   = (Err (CeRevert [8, 195]), Suc 5)"
proof -
  let ?p = "filled_provider sample_codec no_memory no_fillers None (root_of sample_codec (root_new reverting_transport))"
  have "cb_provider (call_new ?p (Address [3]) [1]) = ?p" by (simp add: call_new_def)
  from call_simulates [OF this, of 5 "Ok \<lparr> constant_call_result_output = [8, 195],
      constant_call_result_energy_used = 0, constant_call_result_revert_reason = Some ''no'' \<rparr>" "Suc 5"]
  show ?thesis by (simp add: root_new_def reverting_transport_def)
qed

section \<open>Sending\<close>

lemma contract_owner_Ok:
  "contract_owner own_address signer = Ok a \<longleftrightarrow> own_address = Some a \<or> own_address = None \<and> signer = Some a"
  by (auto simp: contract_owner_def result_simps split: option.splits)

lemma limited_contract [simp]: "req_contract (limited limit req) = req_contract req"
  by (simp add: limited_def with_fee_limit_def split: option.split)

lemma call_request_Ok:
  assumes "call_to_request b = Ok req"
  obtains owner where "cb_caller b = Some owner \<or> cb_caller b = None \<and> tp_signer_address (cb_provider b) = Some owner"
    and "req_contract req = Some (CtTriggerSmartContract (call_params b owner))"
  using assms by (auto simp: call_to_request_def result_simps contract_owner_Ok)

lemma held_call:
  "holds_request P (CtTriggerSmartContract (call_params b owner)) = (\<lambda>v. prost_trigger_smart P v = Some
     \<lparr> pb_trigger_smart_owner_address = address_bytes owner,
       pb_trigger_smart_contract_address = address_bytes (cb_address b),
       pb_trigger_smart_call_value = as_sun (cb_call_value b),
       pb_trigger_smart_data = cb_data b,
       pb_trigger_smart_call_token_value = as_sun (cb_call_token_value b),
       pb_trigger_smart_token_id = cb_token_id b \<rparr>)"
  by (simp add: fun_eq_iff call_params_def trigger_smart_contract_to_proto_def addr_bytes_def)

lemma call_owner [simp]:
  "trigger_smart_owner_address (call_params b owner) = owner"
  "requested_type (CtTriggerSmartContract (call_params b owner)) = PbTriggerSmartContract"
  by (simp_all add: call_params_def)

lemma call_sent:
  assumes "prost_tx C" and "typed_client C W" and "wf_wallet (wf_wallet_of (wallet_of M w))"
    and "honest_wallet recover (wf_wallet_of (wallet_of M w))"
    and "cb_provider b = wallet_provider C M b58_enc clock signer (grpc_root join G C P W R)"
    and "\<And>req. call_to_request b = Ok req \<Longrightarrow>
           vec_built (root_provider C (grpc_transport G C P W R))
             (wallet_chain b58_enc (filled_node clock (grpc_root join G C P W R))) (mem_get M w) req w"
    and "call_send b w = (Inr h, w')"
  shows "\<exists>owner f' w1. (cb_caller b = Some owner \<or> cb_caller b = None \<and> signer = Some owner)
    \<and> w' = mem_put M f' w1
    \<and> broadcast_for C R recover (wallet_of M w) owner PbTriggerSmartContract (\<lambda>v. prost_trigger_smart P v = Some
         \<lparr> pb_trigger_smart_owner_address = address_bytes owner,
           pb_trigger_smart_contract_address = address_bytes (cb_address b),
           pb_trigger_smart_call_value = as_sun (cb_call_value b),
           pb_trigger_smart_data = cb_data b,
           pb_trigger_smart_call_token_value = as_sun (cb_call_token_value b),
           pb_trigger_smart_token_id = cb_token_id b \<rparr>) h w1"
proof -
  from assms(7) obtain req where req: "call_to_request b = Ok req"
    and send: "tp_send_transaction (cb_provider b) req w = (Inr h, w')"
    by (auto simp: call_send_def as_contract_def result_simps split: sum.splits prod.splits)
  from call_request_Ok [OF req] obtain owner where
    "cb_caller b = Some owner \<or> cb_caller b = None \<and> tp_signer_address (cb_provider b) = Some owner"
    and c: "req_contract req = Some (CtTriggerSmartContract (call_params b owner))" .
  then have owner: "cb_caller b = Some owner \<or> cb_caller b = None \<and> signer = Some owner"
    by (simp add: assms(5) wallet_provider_def filled_methods)
  have "\<forall>s. req_contract req \<noteq> Some (CtSetAccountId s)" by (simp add: c)
  from wallet_provider_sent [OF assms(1-4) this assms(6) [OF req] send [unfolded assms(5)]] c
  obtain f' w1 where "w' = mem_put M f' w1"
    and "broadcast_for C R recover (wallet_of M w) owner PbTriggerSmartContract
        (holds_request P (CtTriggerSmartContract (call_params b owner))) h w1"
    by auto
  with owner show ?thesis unfolding held_call by blast
qed

text \<open>
  C5: a contract call that is sent is the call that was described.  Through a provider with a wallet
  over the gRPC transport, a send that succeeds has broadcast, for the account set or else the
  provider's signer, one message whose only contract triggers the contract at the address, with the
  calldata, the TRX and the token that were set, and nothing more.
\<close>

theorem call_broadcasts:
  assumes "prost_tx C" and "typed_client C W" and "wf_wallet (wf_wallet_of (wallet_of M w))"
    and "honest_wallet recover (wf_wallet_of (wallet_of M w))"
    and "cb_provider b = wallet_provider C M b58_enc clock signer (grpc_root join G C P W R)"
    and "\<And>req. call_to_request b = Ok req \<Longrightarrow>
           vec_built (root_provider C (grpc_transport G C P W R))
             (wallet_chain b58_enc (filled_node clock (grpc_root join G C P W R))) (mem_get M w) req w"
    and "call_send b w = (Inr h, w')"
  shows "\<exists>owner f' w1. (cb_caller b = Some owner \<or> cb_caller b = None \<and> signer = Some owner)
    \<and> w' = mem_put M f' w1
    \<and> broadcast_for C R recover (wallet_of M w) owner PbTriggerSmartContract (\<lambda>v. prost_trigger_smart P v = Some
         \<lparr> pb_trigger_smart_owner_address = address_bytes owner,
           pb_trigger_smart_contract_address = address_bytes (cb_address b),
           pb_trigger_smart_call_value = as_sun (cb_call_value b),
           pb_trigger_smart_data = cb_data b,
           pb_trigger_smart_call_token_value = as_sun (cb_call_token_value b),
           pb_trigger_smart_token_id = cb_token_id b \<rparr>) h w1"
  by (rule call_sent [OF assms])

text \<open>A call of two bytes with 5 sun, over a node that builds it, and a deployment of one byte.\<close>

definition sample_called :: pb_trigger_smart_contract where
  "sample_called =
     \<lparr> pb_trigger_smart_owner_address = [2], pb_trigger_smart_contract_address = [3],
       pb_trigger_smart_call_value = 5, pb_trigger_smart_data = [8, 9],
       pb_trigger_smart_call_token_value = 0, pb_trigger_smart_token_id = 0 \<rparr>"

definition sample_deployed :: create_smart_contract where
  "sample_deployed =
     \<lparr> create_smart_owner_address = Address [2], create_smart_bytecode = [96], create_smart_abi = abi_new,
       create_smart_call_value = trx_zero, create_smart_consume_user_resource_percent = 100,
       create_smart_origin_energy_limit = 10000000, create_smart_name = ''C'' \<rparr>"

definition sample_contract_decoders :: prost_contracts where
  "sample_contract_decoders =
     one_byte_decoders sample_called (create_smart_contract_to_proto sample_deployed)"

definition sample_call_builder :: "nat tron_provider call_builder" where
  "sample_call_builder =
     call_fee_limit (call_trx (call_new (one_byte_provider sample_contract_decoders PbTriggerSmartContract
       accepting_node) (Address [3]) [8, 9]) (Trx 5)) (Trx 100)"

lemma one_byte_signer: "tp_signer_address (one_byte_provider P k R) = Some (Address [2])"
  by (simp add: one_byte_provider_def wallet_provider_def filled_methods)

lemma sample_call_request:
  "call_to_request sample_call_builder
   = Ok (paid_request (CtTriggerSmartContract (call_params sample_call_builder (Address [2]))))"
  by (simp add: call_to_request_def contract_owner_def sample_call_builder_def call_fee_limit_def call_trx_def
      call_new_def one_byte_signer limited_def with_fee_limit_def paid_request_def tx_request_default_def
      call_params_def)

lemma sample_call_built:
  "build_contract (grpc_build_rpcs quiet_core sample_codec sample_contract_decoders (one_byte_node PbTriggerSmartContract))
     (CtTriggerSmartContract (call_params sample_call_builder (Address [2]))) w
   = (Ok (one_byte_raw_tx PbTriggerSmartContract), w)"
  unfolding sample_contract_decoders_def
  by (rule one_byte_call_built)
    (simp add: trigger_smart_contract_to_proto_def call_params_def sample_call_builder_def call_fee_limit_def
      call_trx_def call_new_def sample_called_def addr_bytes_def as_sun_def trx_zero_def)

lemma one_byte_wallet:
  "wf_wallet (wf_wallet_of (wallet_of sample_memory w))"
  "honest_wallet (\<lambda>g _. Ok (Address (sig_r g))) (wf_wallet_of (wallet_of sample_memory w))"
  using sample_wallet_ok sample_wallet_honest by (simp_all add: wallet_of_def sample_memory_def)

theorem call_broadcasts_witness:
  "broadcast_for sample_codec accepting_node (\<lambda>g _. Ok (Address (sig_r g))) (wallet_of sample_memory 0)
     (Address [2]) PbTriggerSmartContract (\<lambda>v. prost_trigger_smart sample_contract_decoders v = Some
       \<lparr> pb_trigger_smart_owner_address = [2], pb_trigger_smart_contract_address = [3],
         pb_trigger_smart_call_value = 5, pb_trigger_smart_data = [8, 9],
         pb_trigger_smart_call_token_value = 0, pb_trigger_smart_token_id = 0 \<rparr>)
     (pending_new (raw_tx_id (paid_raw_tx PbTriggerSmartContract))) 1"
proof -
  let ?b = sample_call_builder
  have provider: "cb_provider ?b = one_byte_provider sample_contract_decoders PbTriggerSmartContract accepting_node"
    by (simp add: sample_call_builder_def call_fee_limit_def call_trx_def call_new_def)
  have "tp_send_transaction (cb_provider ?b) (paid_request (CtTriggerSmartContract (call_params ?b (Address [2])))) 0
      = (Ok (pending_new (raw_tx_id (paid_raw_tx PbTriggerSmartContract))), 1)"
    unfolding provider by (rule one_byte_sent [OF _ sample_call_built]) simp_all
  then have send: "call_send ?b 0 = (Inr (pending_new (raw_tx_id (paid_raw_tx PbTriggerSmartContract))), 1)"
    by (simp add: call_send_def sample_call_request as_contract_def)
  have fits: "call_to_request ?b = Ok req \<Longrightarrow>
      vec_built (root_provider sample_codec (grpc_transport quiet_core sample_codec sample_contract_decoders
          (one_byte_node PbTriggerSmartContract) accepting_node))
        (wallet_chain (\<lambda>_. []) (filled_node (\<lambda>w. w)
          (grpc_root (\<lambda>_ w. (Ok [], w)) quiet_core sample_codec sample_contract_decoders
             (one_byte_node PbTriggerSmartContract) accepting_node))) (mem_get sample_memory 0) req 0" for req
    using one_byte_vec_built [OF _ sample_call_built] by (auto simp: sample_call_request sample_memory_def)
  have typed: "typed_client sample_codec (one_byte_node PbTriggerSmartContract)"
    by (rule one_byte_node_typed) (rule one_byte_tx_ok(1), simp)
  from call_broadcasts [OF sample_prost typed one_byte_wallet
      provider [unfolded one_byte_provider_def one_byte_root_def] fits send]
  show ?thesis
    by (auto simp: sample_call_builder_def call_fee_limit_def call_trx_def call_new_def sample_memory_def as_sun_def
        trx_zero_def)
qed

section \<open>Deploying\<close>

text \<open>The contract a deployment describes.\<close>

abbreviation described :: "('p, 'v) deploy_builder \<Rightarrow> address \<Rightarrow> tron_abi \<Rightarrow> create_smart_contract" where
  "described b owner abi \<equiv>
     \<lparr> create_smart_owner_address = owner, create_smart_bytecode = db_bytecode b,
       create_smart_abi = abi, create_smart_call_value = db_call_value b,
       create_smart_consume_user_resource_percent = db_consume_user_resource_percent b,
       create_smart_origin_energy_limit = db_origin_energy_limit b,
       create_smart_name = db_name b \<rparr>"

lemma held_deployment: "holds_request P (CtCreateSmartContract c) =
    (\<lambda>v. map_option clear_derived (prost_create_smart P v) = Some (create_smart_contract_to_proto c))"
  by (simp add: fun_eq_iff)

lemma deploy_request_Ok:
  assumes "deploy_to_request A b = Ok req"
  obtains owner abi where "db_owner b = Some owner \<or> db_owner b = None \<and> tp_signer_address (db_provider b) = Some owner"
    and "deploy_tron_metadata A (db_abi b) = Ok abi"
    and "req_contract req = Some (CtCreateSmartContract (described b owner abi))"
  using assms by (auto simp: deploy_to_request_def result_simps contract_owner_Ok)

text \<open>
  C6: a deployment gives the address of what it sent.  When \<open>deploy\<close> returns an address, through a
  provider with a wallet over the gRPC transport, one message was broadcast whose only contract
  creates the contract with the bytecode, the metadata (translated without loss of an error, if it was given as
  JSON), the price, the limits and the name that were set, signed for the account set or else the
  provider's signer; and the address is the one of the receipt the node then gave for that very
  message.
\<close>

theorem deploy_is_requested:
  assumes "prost_tx C" and "typed_client C W" and "wf_wallet (wf_wallet_of (wallet_of M w))"
    and "honest_wallet recover (wf_wallet_of (wallet_of M w))"
    and "db_provider b = wallet_provider C M b58_enc clock signer (grpc_root join G C P W R)"
    and "\<And>req. deploy_to_request A b = Ok req \<Longrightarrow>
           vec_built (root_provider C (grpc_transport G C P W R))
             (wallet_chain b58_enc (filled_node clock (grpc_root join G C P W R))) (mem_get M w) req w"
    and "deploy_deploy clock' sleep A b w = Some (Inr a, w')"
  shows "\<exists>owner abi h f' w1 info. (db_owner b = Some owner \<or> db_owner b = None \<and> signer = Some owner)
    \<and> deploy_tron_metadata A (db_abi b) = Ok abi
    \<and> broadcast_for C R recover (wallet_of M w) owner PbCreateSmartContract (\<lambda>v.
         map_option clear_derived (prost_create_smart P v) = Some (create_smart_contract_to_proto (described b owner abi))) h w1
    \<and> get_receipt clock' sleep (root_transaction_info (db_provider b)) h (mem_put M f' w1) = Some (Inr info, w')
    \<and> transaction_info_contract_address info = Some a"
proof -
  from assms(7) obtain h w2 info where h: "deploy_send A b w = (Inr h, w2)"
    and receipt: "get_receipt clock' sleep (root_transaction_info (db_provider b)) h w2 = Some (Inr info, w')"
    and a: "transaction_info_contract_address info = Some a"
    by (auto simp: deploy_deploy_def result_simps split: sum.splits prod.splits option.splits)
  from h obtain req where req: "deploy_to_request A b = Ok req"
    and send: "tp_send_transaction (db_provider b) req w = (Inr h, w2)"
    by (auto simp: deploy_send_def as_contract_def result_simps split: sum.splits prod.splits)
  from deploy_request_Ok [OF req] obtain owner abi where
    who: "db_owner b = Some owner \<or> db_owner b = None \<and> tp_signer_address (db_provider b) = Some owner"
    and abi: "deploy_tron_metadata A (db_abi b) = Ok abi"
    and c: "req_contract req = Some (CtCreateSmartContract (described b owner abi))" .
  from who have owner: "db_owner b = Some owner \<or> db_owner b = None \<and> signer = Some owner"
    by (simp add: assms(5) wallet_provider_def filled_methods)
  have "\<forall>s. req_contract req \<noteq> Some (CtSetAccountId s)" by (simp add: c)
  from wallet_provider_sent [OF assms(1-4) this assms(6) [OF req] send [unfolded assms(5)]] c
  obtain f' w1 where "w2 = mem_put M f' w1"
    and "broadcast_for C R recover (wallet_of M w) owner PbCreateSmartContract
        (holds_request P (CtCreateSmartContract (described b owner abi))) h w1"
    by auto
  with owner abi receipt a show ?thesis unfolding held_deployment by blast
qed

text \<open>The receipt of the deployment, and a node that has it.\<close>

definition deployed_receipt :: "i32 \<Rightarrow> pb_transaction_info" where
  "deployed_receipt result =
     \<lparr> pb_transaction_info_id = replicate 32 1, pb_transaction_info_fee = 0,
       pb_transaction_info_block_number = 1, pb_transaction_info_block_time_stamp = 0,
       pb_transaction_info_contract_result = [], pb_transaction_info_contract_address = address_bytes address_zero,
       pb_transaction_info_receipt = None, pb_transaction_info_log = [], pb_transaction_info_result = result,
       pb_transaction_info_res_message = [], pb_transaction_info_asset_issue_id = [],
       pb_transaction_info_withdraw_amount = 0, pb_transaction_info_unfreeze_amount = 0,
       pb_transaction_info_internal_transactions = [], pb_transaction_info_exchange_received_amount = 0,
       pb_transaction_info_exchange_inject_another_amount = 0,
       pb_transaction_info_exchange_withdraw_another_amount = 0, pb_transaction_info_exchange_id = 0,
       pb_transaction_info_shielded_transaction_fee = 0, pb_transaction_info_order_id = [],
       pb_transaction_info_order_details = [], pb_transaction_info_packing_fee = 0,
       pb_transaction_info_withdraw_expire_amount = 0, pb_transaction_info_cancel_unfreeze_v2_amount = Map.empty \<rparr>"

definition deploying_node :: "i32 \<Rightarrow> nat read_client" where
  "deploying_node result = accepting_node\<lparr> rd_get_transaction_info_by_id := \<lambda>_ w. (Ok (deployed_receipt result), w) \<rparr>"

lemma deployed_seen:
  obtains info where "root_transaction_info (one_byte_provider P k (deploying_node result)) h w = (Ok (Some info), w)"
    and "transaction_info_contract_address info = Some address_zero"
    and "transaction_info_status info = (if result \<noteq> 0 then TxFailed else TxSuccess)"
proof -
  have "address_from_slice (address_bytes address_zero) = Ok address_zero"
    by (simp add: address_from_slice_def address_from_bytes_def address_zero_def address_len_def
        evm_address_len_def address_prefix_def fixed_bytes_def)
  moreover have "address_bytes address_zero \<noteq> []" by (simp add: address_zero_def)
  ultimately obtain info where info: "transaction_info_from_proto (deployed_receipt result) = Ok (Some info)"
    and a: "transaction_info_contract_address info = Some address_zero"
      "transaction_info_status info = (if result \<noteq> 0 then TxFailed else TxSuccess)"
    by (simp add: transaction_info_from_proto_def deployed_receipt_def fixed_bytes_def Let_def opt_addr_def
        pb_resource_receipt_default_def contract_result_from_i32_def contract_result_is_failure_def)
  have "retry_unary quiet_core (rd_get_transaction_info_by_id (deploying_node result)) ''get_transaction_info_by_id''
      \<lparr> pb_bytes_message_value = h \<rparr> w = (Ok (deployed_receipt result), w)"
    by (rule quiet_call) (simp add: deploying_node_def)
  with info have "grpc_get_transaction_info quiet_core sample_codec (deploying_node result) h w = (Ok (Some info), w)"
    by (simp add: grpc_get_transaction_info_def awaited_def)
  then have "root_transaction_info (one_byte_provider P k (deploying_node result)) h w = (Ok (Some info), w)"
    by (simp add: root_transaction_info_def one_byte_provider_def wallet_provider_def filled_methods one_byte_root_def
        grpc_root_def root_of_def provider_of_def root_new_def grpc_tron_transport_def as_provider_def Let_def)
  with a show thesis by (intro that)
qed

definition sample_deploy_builder :: "i32 \<Rightarrow> (nat tron_provider, string \<times> string) deploy_builder" where
  "sample_deploy_builder result =
     deploy_fee_limit (deploy_name (deploy_new (one_byte_provider sample_contract_decoders PbCreateSmartContract
       (deploying_node result)) [96]) ''C'') (Trx 100)"

lemma sample_deploy_request:
  "deploy_to_request A (sample_deploy_builder result) = Ok (paid_request (CtCreateSmartContract sample_deployed))"
  by (simp add: deploy_to_request_def contract_owner_def sample_deploy_builder_def deploy_fee_limit_def
      deploy_name_def deploy_new_def one_byte_signer limited_def with_fee_limit_def paid_request_def
      tx_request_default_def deploy_tron_metadata_def sample_deployed_def)

lemma sample_deploy_built:
  "build_contract (grpc_build_rpcs quiet_core sample_codec sample_contract_decoders (one_byte_node PbCreateSmartContract))
     (CtCreateSmartContract sample_deployed) w = (Ok (one_byte_raw_tx PbCreateSmartContract), w)"
  unfolding sample_contract_decoders_def by (rule one_byte_deployment_built) simp

lemma sample_deploy_runs:
  "deploy_deploy (\<lambda>w. w) (\<lambda>_ w. w) A (sample_deploy_builder result) 0 = Some (Inr address_zero, 1)"
  "\<exists>h w1 info. deploy_send A (sample_deploy_builder result) 0 = (Ok h, w1)
     \<and> get_receipt (\<lambda>w. w) (\<lambda>_ w. w) (root_transaction_info (db_provider (sample_deploy_builder result))) h w1
         = Some (Ok info, w1)
     \<and> transaction_info_status info = (if result \<noteq> 0 then TxFailed else TxSuccess)"
proof -
  let ?b = "sample_deploy_builder result"
  let ?h = "pending_new (raw_tx_id (paid_raw_tx PbCreateSmartContract))"
  have provider: "db_provider ?b = one_byte_provider sample_contract_decoders PbCreateSmartContract (deploying_node result)"
    by (simp add: sample_deploy_builder_def deploy_fee_limit_def deploy_name_def deploy_new_def)
  have "tp_send_transaction (db_provider ?b) (paid_request (CtCreateSmartContract sample_deployed)) 0 = (Ok ?h, 1)"
    unfolding provider
    by (rule one_byte_sent [OF _ sample_deploy_built]) (simp_all add: sample_deployed_def deploying_node_def)
  then have send: "deploy_send A ?b 0 = (Inr ?h, 1)"
    by (simp add: deploy_send_def sample_deploy_request as_contract_def)
  obtain info where "root_transaction_info (db_provider ?b) (pd_tx_id ?h) 1 = (Ok (Some info), 1)"
    and a: "transaction_info_contract_address info = Some address_zero"
      "transaction_info_status info = (if result \<noteq> 0 then TxFailed else TxSuccess)"
    unfolding provider by (rule deployed_seen)
  then have "get_receipt (\<lambda>w. w) (\<lambda>_ w. w) (root_transaction_info (db_provider ?b)) ?h 1 = Some (Inr info, 1)"
    by (simp add: get_receipt_def poll_receipt.simps check_receipt_def pending_new_def)
  with send a show "deploy_deploy (\<lambda>w. w) (\<lambda>_ w. w) A ?b 0 = Some (Inr address_zero, 1)"
    "\<exists>h w1 info. deploy_send A ?b 0 = (Ok h, w1)
     \<and> get_receipt (\<lambda>w. w) (\<lambda>_ w. w) (root_transaction_info (db_provider ?b)) h w1 = Some (Ok info, w1)
     \<and> transaction_info_status info = (if result \<noteq> 0 then TxFailed else TxSuccess)"
    by (simp_all add: deploy_deploy_def)
qed

text \<open>
  The outcome of the transaction is not looked at: \<open>deploy\<close> gives the address of a receipt that
  says the deployment failed, when the receipt has one.
\<close>

lemma failed_deployment_has_address:
  "deploy_deploy (\<lambda>w. w) (\<lambda>_ w. w) A (sample_deploy_builder 1) 0 = Some (Ok address_zero, 1)
   \<and> (\<exists>h w1 info. deploy_send A (sample_deploy_builder 1) 0 = (Ok h, w1)
     \<and> get_receipt (\<lambda>w. w) (\<lambda>_ w. w) (root_transaction_info (db_provider (sample_deploy_builder 1))) h w1
         = Some (Ok info, w1)
     \<and> transaction_info_status info = TxFailed)"
  using sample_deploy_runs [of A 1] by simp

theorem deploy_is_requested_witness:
  "\<exists>h w1. broadcast_for sample_codec (deploying_node 0) (\<lambda>g _. Ok (Address (sig_r g))) (wallet_of sample_memory 0)
     (Address [2]) PbCreateSmartContract (\<lambda>v.
       map_option clear_derived (prost_create_smart sample_contract_decoders v)
         = Some (create_smart_contract_to_proto sample_deployed)) h w1"
proof -
  let ?b = "sample_deploy_builder 0"
  have provider: "db_provider ?b = one_byte_provider sample_contract_decoders PbCreateSmartContract (deploying_node 0)"
    and no_owner: "db_owner ?b = None"
    by (simp_all add: sample_deploy_builder_def deploy_fee_limit_def deploy_name_def deploy_new_def)
  have fits: "deploy_to_request pair_params ?b = Ok req \<Longrightarrow>
      vec_built (root_provider sample_codec (grpc_transport quiet_core sample_codec sample_contract_decoders
          (one_byte_node PbCreateSmartContract) (deploying_node 0)))
        (wallet_chain (\<lambda>_. []) (filled_node (\<lambda>w. w)
          (grpc_root (\<lambda>_ w. (Ok [], w)) quiet_core sample_codec sample_contract_decoders
             (one_byte_node PbCreateSmartContract) (deploying_node 0)))) (mem_get sample_memory 0) req 0" for req
    using one_byte_vec_built [OF _ sample_deploy_built] by (auto simp: sample_deploy_request sample_memory_def)
  have typed: "typed_client sample_codec (one_byte_node PbCreateSmartContract)"
    by (rule one_byte_node_typed) (rule one_byte_tx_ok(1), simp)
  have same: "deploy_tron_metadata pair_params (db_abi ?b) = Ok abi \<Longrightarrow> described ?b (Address [2]) abi = sample_deployed" for abi
    by (simp add: deploy_tron_metadata_def sample_deploy_builder_def deploy_fee_limit_def deploy_name_def
        deploy_new_def sample_deployed_def)
  from deploy_is_requested [where A = pair_params, OF sample_prost typed one_byte_wallet
      provider [unfolded one_byte_provider_def one_byte_root_def] fits sample_deploy_runs(1)]
  obtain owner abi h w1 where who: "db_owner ?b = Some owner \<or> db_owner ?b = None \<and> Some (Address [2]) = Some owner"
    and abi: "deploy_tron_metadata pair_params (db_abi ?b) = Ok abi"
    and sent: "broadcast_for sample_codec (deploying_node 0) (\<lambda>g _. Ok (Address (sig_r g))) (wallet_of sample_memory 0)
      owner PbCreateSmartContract (\<lambda>v. map_option clear_derived (prost_create_smart sample_contract_decoders v)
        = Some (create_smart_contract_to_proto (described ?b owner abi))) h w1"
    by blast
  from who no_owner have "owner = Address [2]" by simp
  with sent show ?thesis unfolding same [OF abi, symmetric] by blast
qed

end
