(* ===== verification/Tokens.thy ===== *)
theory Tokens
  imports Contract_Call
begin

text \<open>
  TRC20 and TRC721 tokens (\<open>crates/contract/src/trc20\<close> and \<open>trc721\<close>) over any provider.  What
  \<open>alloy\<close> generates for a call (its signature, its calldata, decoding what it returns) is a
  parameter; the arguments of a call are the tuple of its Solidity parameters, an address the
  20 bytes of \<open>alloy\<close>, a \<open>uint256\<close> a word of that width.
\<close>

type_synonym u256 = "256 word"

text \<open>A typed call is the raw call of its calldata (\<open>TronCallBuilder\<close>).\<close>

definition typed_call :: "('c, 'r) sol_call \<Rightarrow> ('p, 'v) contract_instance \<Rightarrow> 'c \<Rightarrow> 'p call_builder" where
  "typed_call S c args = instance_call_raw c (sc_abi_encode S args)"

definition as_address :: "(bytes, 'w) contract_call \<Rightarrow> (address, 'w) contract_call" where
  "as_address call w = (case call w of (r, w1) \<Rightarrow> (and_then r (\<lambda>evm. Ok (address_from_alloy evm)), w1))"

section \<open>TRC20\<close>

text \<open>The calls of the interface, as the \<open>sol!\<close> macro of \<open>alloy\<close> generates them.\<close>

record trc20_abi =
  t20_name :: "(unit, string) sol_call"
  t20_symbol :: "(unit, string) sol_call"
  t20_decimals :: "(unit, 8 word) sol_call"
  t20_total_supply :: "(unit, u256) sol_call"
  t20_balance_of :: "(bytes, u256) sol_call"
  t20_allowance :: "(bytes \<times> bytes, u256) sol_call"
  t20_transfer :: "(bytes \<times> u256, bool) sol_call"
  t20_approve :: "(bytes \<times> u256, bool) sol_call"
  t20_transfer_from :: "(bytes \<times> bytes \<times> u256, bool) sol_call"

definition trc20_encode_transfer :: "trc20_abi \<Rightarrow> address \<Rightarrow> u256 \<Rightarrow> bytes" where
  "trc20_encode_transfer A dst amount = sc_abi_encode (t20_transfer A) (address_to_alloy dst, amount)"

definition trc20_encode_approve :: "trc20_abi \<Rightarrow> address \<Rightarrow> u256 \<Rightarrow> bytes" where
  "trc20_encode_approve A spender amount = sc_abi_encode (t20_approve A) (address_to_alloy spender, amount)"

definition trc20_encode_transfer_from :: "trc20_abi \<Rightarrow> address \<Rightarrow> address \<Rightarrow> u256 \<Rightarrow> bytes" where
  "trc20_encode_transfer_from A src dst amount = sc_abi_encode (t20_transfer_from A) (address_to_alloy src, address_to_alloy dst, amount)"

definition trc20_encode_balance_of :: "trc20_abi \<Rightarrow> address \<Rightarrow> bytes" where
  "trc20_encode_balance_of A account = sc_abi_encode (t20_balance_of A) (address_to_alloy account)"

definition trc20_encode_allowance :: "trc20_abi \<Rightarrow> address \<Rightarrow> address \<Rightarrow> bytes" where
  "trc20_encode_allowance A owner spender = sc_abi_encode (t20_allowance A) (address_to_alloy owner, address_to_alloy spender)"

definition trc20_new :: "'p \<Rightarrow> address \<Rightarrow> ('p, 'v) contract_instance" where
  "trc20_new provider a = instance_new_raw provider a"

definition trc20_name_call ::
  "trc20_abi \<Rightarrow> ('p, 'v) contract_instance \<Rightarrow> 'p call_builder" where
  "trc20_name_call A c = typed_call (t20_name A) c ()"

definition trc20_symbol_call ::
  "trc20_abi \<Rightarrow> ('p, 'v) contract_instance \<Rightarrow> 'p call_builder" where
  "trc20_symbol_call A c = typed_call (t20_symbol A) c ()"

definition trc20_decimals_call ::
  "trc20_abi \<Rightarrow> ('p, 'v) contract_instance \<Rightarrow> 'p call_builder" where
  "trc20_decimals_call A c = typed_call (t20_decimals A) c ()"

definition trc20_total_supply_call ::
  "trc20_abi \<Rightarrow> ('p, 'v) contract_instance \<Rightarrow> 'p call_builder" where
  "trc20_total_supply_call A c = typed_call (t20_total_supply A) c ()"

definition trc20_balance_of_call ::
  "trc20_abi \<Rightarrow> ('p, 'v) contract_instance \<Rightarrow> address \<Rightarrow> 'p call_builder" where
  "trc20_balance_of_call A c account = typed_call (t20_balance_of A) c (address_to_alloy account)"

definition trc20_allowance_call ::
  "trc20_abi \<Rightarrow> ('p, 'v) contract_instance \<Rightarrow> address \<Rightarrow> address \<Rightarrow> 'p call_builder" where
  "trc20_allowance_call A c owner spender = typed_call (t20_allowance A) c (address_to_alloy owner, address_to_alloy spender)"

definition trc20_transfer_call ::
  "trc20_abi \<Rightarrow> ('p, 'v) contract_instance \<Rightarrow> address \<Rightarrow> u256 \<Rightarrow> 'p call_builder" where
  "trc20_transfer_call A c dst amount = typed_call (t20_transfer A) c (address_to_alloy dst, amount)"

definition trc20_approve_call ::
  "trc20_abi \<Rightarrow> ('p, 'v) contract_instance \<Rightarrow> address \<Rightarrow> u256 \<Rightarrow> 'p call_builder" where
  "trc20_approve_call A c spender amount = typed_call (t20_approve A) c (address_to_alloy spender, amount)"

definition trc20_transfer_from_call ::
  "trc20_abi \<Rightarrow> ('p, 'v) contract_instance \<Rightarrow> address \<Rightarrow> address \<Rightarrow> u256 \<Rightarrow> 'p call_builder" where
  "trc20_transfer_from_call A c src dst amount = typed_call (t20_transfer_from A) c (address_to_alloy src, address_to_alloy dst, amount)"

definition trc20_name ::
  "trc20_abi \<Rightarrow> (('w, 'z) read_provider_scheme, 'v) contract_instance
     \<Rightarrow> (string, 'w) contract_call" where
  "trc20_name A c = typed_call_call (t20_name A) (trc20_name_call A c)"

definition trc20_symbol ::
  "trc20_abi \<Rightarrow> (('w, 'z) read_provider_scheme, 'v) contract_instance
     \<Rightarrow> (string, 'w) contract_call" where
  "trc20_symbol A c = typed_call_call (t20_symbol A) (trc20_symbol_call A c)"

definition trc20_decimals ::
  "trc20_abi \<Rightarrow> (('w, 'z) read_provider_scheme, 'v) contract_instance
     \<Rightarrow> (8 word, 'w) contract_call" where
  "trc20_decimals A c = typed_call_call (t20_decimals A) (trc20_decimals_call A c)"

definition trc20_total_supply ::
  "trc20_abi \<Rightarrow> (('w, 'z) read_provider_scheme, 'v) contract_instance
     \<Rightarrow> (u256, 'w) contract_call" where
  "trc20_total_supply A c = typed_call_call (t20_total_supply A) (trc20_total_supply_call A c)"

definition trc20_balance_of ::
  "trc20_abi \<Rightarrow> (('w, 'z) read_provider_scheme, 'v) contract_instance
     \<Rightarrow> address \<Rightarrow> (u256, 'w) contract_call" where
  "trc20_balance_of A c account = typed_call_call (t20_balance_of A) (trc20_balance_of_call A c account)"

definition trc20_allowance ::
  "trc20_abi \<Rightarrow> (('w, 'z) read_provider_scheme, 'v) contract_instance
     \<Rightarrow> address \<Rightarrow> address \<Rightarrow> (u256, 'w) contract_call" where
  "trc20_allowance A c owner spender = typed_call_call (t20_allowance A) (trc20_allowance_call A c owner spender)"

definition trc20_transfer ::
  "trc20_abi \<Rightarrow> ('w tron_provider, 'v) contract_instance
     \<Rightarrow> address \<Rightarrow> u256 \<Rightarrow> (pending_transaction, 'w) contract_call" where
  "trc20_transfer A c dst amount = call_send (trc20_transfer_call A c dst amount)"

definition trc20_approve ::
  "trc20_abi \<Rightarrow> ('w tron_provider, 'v) contract_instance
     \<Rightarrow> address \<Rightarrow> u256 \<Rightarrow> (pending_transaction, 'w) contract_call" where
  "trc20_approve A c spender amount = call_send (trc20_approve_call A c spender amount)"

definition trc20_transfer_from ::
  "trc20_abi \<Rightarrow> ('w tron_provider, 'v) contract_instance
     \<Rightarrow> address \<Rightarrow> address \<Rightarrow> u256 \<Rightarrow> (pending_transaction, 'w) contract_call" where
  "trc20_transfer_from A c src dst amount = call_send (trc20_transfer_from_call A c src dst amount)"

text \<open>\<open>Trc20Ext::trc20\<close>.\<close>

definition trc20_of :: "'p \<Rightarrow> address \<Rightarrow> ('p, 'v) contract_instance" where
  "trc20_of provider a = trc20_new provider a"

section \<open>TRC721\<close>

text \<open>The calls of the interface, as the \<open>sol!\<close> macro of \<open>alloy\<close> generates them.\<close>

record trc721_abi =
  t721_name :: "(unit, string) sol_call"
  t721_symbol :: "(unit, string) sol_call"
  t721_token_uri :: "(u256, string) sol_call"
  t721_balance_of :: "(bytes, u256) sol_call"
  t721_owner_of :: "(u256, bytes) sol_call"
  t721_get_approved :: "(u256, bytes) sol_call"
  t721_is_approved_for_all :: "(bytes \<times> bytes, bool) sol_call"
  t721_transfer_from :: "(bytes \<times> bytes \<times> u256, unit) sol_call"
  t721_safe_transfer_from :: "(bytes \<times> bytes \<times> u256, unit) sol_call"
  t721_safe_transfer_from_with_data :: "(bytes \<times> bytes \<times> u256 \<times> bytes, unit) sol_call"
  t721_approve :: "(bytes \<times> u256, unit) sol_call"
  t721_set_approval_for_all :: "(bytes \<times> bool, unit) sol_call"

definition trc721_encode_transfer_from :: "trc721_abi \<Rightarrow> address \<Rightarrow> address \<Rightarrow> u256 \<Rightarrow> bytes" where
  "trc721_encode_transfer_from A src dst token_id = sc_abi_encode (t721_transfer_from A) (address_to_alloy src, address_to_alloy dst, token_id)"

definition trc721_encode_safe_transfer_from :: "trc721_abi \<Rightarrow> address \<Rightarrow> address \<Rightarrow> u256 \<Rightarrow> bytes" where
  "trc721_encode_safe_transfer_from A src dst token_id = sc_abi_encode (t721_safe_transfer_from A) (address_to_alloy src, address_to_alloy dst, token_id)"

definition trc721_encode_safe_transfer_from_with_data :: "trc721_abi \<Rightarrow> address \<Rightarrow> address \<Rightarrow> u256 \<Rightarrow> bytes \<Rightarrow> bytes" where
  "trc721_encode_safe_transfer_from_with_data A src dst token_id data = sc_abi_encode (t721_safe_transfer_from_with_data A) (address_to_alloy src, address_to_alloy dst, token_id, data)"

definition trc721_encode_approve :: "trc721_abi \<Rightarrow> address \<Rightarrow> u256 \<Rightarrow> bytes" where
  "trc721_encode_approve A dst token_id = sc_abi_encode (t721_approve A) (address_to_alloy dst, token_id)"

definition trc721_encode_balance_of :: "trc721_abi \<Rightarrow> address \<Rightarrow> bytes" where
  "trc721_encode_balance_of A owner = sc_abi_encode (t721_balance_of A) (address_to_alloy owner)"

definition trc721_encode_owner_of :: "trc721_abi \<Rightarrow> u256 \<Rightarrow> bytes" where
  "trc721_encode_owner_of A token_id = sc_abi_encode (t721_owner_of A) (token_id)"

definition trc721_new :: "'p \<Rightarrow> address \<Rightarrow> ('p, 'v) contract_instance" where
  "trc721_new provider a = instance_new_raw provider a"

definition trc721_name_call ::
  "trc721_abi \<Rightarrow> ('p, 'v) contract_instance \<Rightarrow> 'p call_builder" where
  "trc721_name_call A c = typed_call (t721_name A) c ()"

definition trc721_symbol_call ::
  "trc721_abi \<Rightarrow> ('p, 'v) contract_instance \<Rightarrow> 'p call_builder" where
  "trc721_symbol_call A c = typed_call (t721_symbol A) c ()"

definition trc721_token_uri_call ::
  "trc721_abi \<Rightarrow> ('p, 'v) contract_instance \<Rightarrow> u256 \<Rightarrow> 'p call_builder" where
  "trc721_token_uri_call A c token_id = typed_call (t721_token_uri A) c (token_id)"

definition trc721_balance_of_call ::
  "trc721_abi \<Rightarrow> ('p, 'v) contract_instance \<Rightarrow> address \<Rightarrow> 'p call_builder" where
  "trc721_balance_of_call A c owner = typed_call (t721_balance_of A) c (address_to_alloy owner)"

definition trc721_owner_of_call ::
  "trc721_abi \<Rightarrow> ('p, 'v) contract_instance \<Rightarrow> u256 \<Rightarrow> 'p call_builder" where
  "trc721_owner_of_call A c token_id = typed_call (t721_owner_of A) c (token_id)"

definition trc721_get_approved_call ::
  "trc721_abi \<Rightarrow> ('p, 'v) contract_instance \<Rightarrow> u256 \<Rightarrow> 'p call_builder" where
  "trc721_get_approved_call A c token_id = typed_call (t721_get_approved A) c (token_id)"

definition trc721_is_approved_for_all_call ::
  "trc721_abi \<Rightarrow> ('p, 'v) contract_instance \<Rightarrow> address \<Rightarrow> address \<Rightarrow> 'p call_builder" where
  "trc721_is_approved_for_all_call A c owner operator = typed_call (t721_is_approved_for_all A) c (address_to_alloy owner, address_to_alloy operator)"

definition trc721_transfer_from_call ::
  "trc721_abi \<Rightarrow> ('p, 'v) contract_instance \<Rightarrow> address \<Rightarrow> address \<Rightarrow> u256 \<Rightarrow> 'p call_builder" where
  "trc721_transfer_from_call A c src dst token_id = typed_call (t721_transfer_from A) c (address_to_alloy src, address_to_alloy dst, token_id)"

definition trc721_safe_transfer_from_call ::
  "trc721_abi \<Rightarrow> ('p, 'v) contract_instance \<Rightarrow> address \<Rightarrow> address \<Rightarrow> u256 \<Rightarrow> 'p call_builder" where
  "trc721_safe_transfer_from_call A c src dst token_id = typed_call (t721_safe_transfer_from A) c (address_to_alloy src, address_to_alloy dst, token_id)"

definition trc721_safe_transfer_from_with_data_call ::
  "trc721_abi \<Rightarrow> ('p, 'v) contract_instance \<Rightarrow> address \<Rightarrow> address \<Rightarrow> u256 \<Rightarrow> bytes \<Rightarrow> 'p call_builder" where
  "trc721_safe_transfer_from_with_data_call A c src dst token_id data = typed_call (t721_safe_transfer_from_with_data A) c (address_to_alloy src, address_to_alloy dst, token_id, data)"

definition trc721_approve_call ::
  "trc721_abi \<Rightarrow> ('p, 'v) contract_instance \<Rightarrow> address \<Rightarrow> u256 \<Rightarrow> 'p call_builder" where
  "trc721_approve_call A c dst token_id = typed_call (t721_approve A) c (address_to_alloy dst, token_id)"

definition trc721_set_approval_for_all_call ::
  "trc721_abi \<Rightarrow> ('p, 'v) contract_instance \<Rightarrow> address \<Rightarrow> bool \<Rightarrow> 'p call_builder" where
  "trc721_set_approval_for_all_call A c operator approved = typed_call (t721_set_approval_for_all A) c (address_to_alloy operator, approved)"

definition trc721_name ::
  "trc721_abi \<Rightarrow> (('w, 'z) read_provider_scheme, 'v) contract_instance
     \<Rightarrow> (string, 'w) contract_call" where
  "trc721_name A c = typed_call_call (t721_name A) (trc721_name_call A c)"

definition trc721_symbol ::
  "trc721_abi \<Rightarrow> (('w, 'z) read_provider_scheme, 'v) contract_instance
     \<Rightarrow> (string, 'w) contract_call" where
  "trc721_symbol A c = typed_call_call (t721_symbol A) (trc721_symbol_call A c)"

definition trc721_token_uri ::
  "trc721_abi \<Rightarrow> (('w, 'z) read_provider_scheme, 'v) contract_instance
     \<Rightarrow> u256 \<Rightarrow> (string, 'w) contract_call" where
  "trc721_token_uri A c token_id = typed_call_call (t721_token_uri A) (trc721_token_uri_call A c token_id)"

definition trc721_balance_of ::
  "trc721_abi \<Rightarrow> (('w, 'z) read_provider_scheme, 'v) contract_instance
     \<Rightarrow> address \<Rightarrow> (u256, 'w) contract_call" where
  "trc721_balance_of A c owner = typed_call_call (t721_balance_of A) (trc721_balance_of_call A c owner)"

definition trc721_owner_of ::
  "trc721_abi \<Rightarrow> (('w, 'z) read_provider_scheme, 'v) contract_instance
     \<Rightarrow> u256 \<Rightarrow> (address, 'w) contract_call" where
  "trc721_owner_of A c token_id = as_address (typed_call_call (t721_owner_of A) (trc721_owner_of_call A c token_id))"

definition trc721_get_approved ::
  "trc721_abi \<Rightarrow> (('w, 'z) read_provider_scheme, 'v) contract_instance
     \<Rightarrow> u256 \<Rightarrow> (address, 'w) contract_call" where
  "trc721_get_approved A c token_id = as_address (typed_call_call (t721_get_approved A) (trc721_get_approved_call A c token_id))"

definition trc721_is_approved_for_all ::
  "trc721_abi \<Rightarrow> (('w, 'z) read_provider_scheme, 'v) contract_instance
     \<Rightarrow> address \<Rightarrow> address \<Rightarrow> (bool, 'w) contract_call" where
  "trc721_is_approved_for_all A c owner operator = typed_call_call (t721_is_approved_for_all A) (trc721_is_approved_for_all_call A c owner operator)"

definition trc721_transfer_from ::
  "trc721_abi \<Rightarrow> ('w tron_provider, 'v) contract_instance
     \<Rightarrow> address \<Rightarrow> address \<Rightarrow> u256 \<Rightarrow> (pending_transaction, 'w) contract_call" where
  "trc721_transfer_from A c src dst token_id = call_send (trc721_transfer_from_call A c src dst token_id)"

definition trc721_safe_transfer_from ::
  "trc721_abi \<Rightarrow> ('w tron_provider, 'v) contract_instance
     \<Rightarrow> address \<Rightarrow> address \<Rightarrow> u256 \<Rightarrow> (pending_transaction, 'w) contract_call" where
  "trc721_safe_transfer_from A c src dst token_id = call_send (trc721_safe_transfer_from_call A c src dst token_id)"

definition trc721_safe_transfer_from_with_data ::
  "trc721_abi \<Rightarrow> ('w tron_provider, 'v) contract_instance
     \<Rightarrow> address \<Rightarrow> address \<Rightarrow> u256 \<Rightarrow> bytes \<Rightarrow> (pending_transaction, 'w) contract_call" where
  "trc721_safe_transfer_from_with_data A c src dst token_id data = call_send (trc721_safe_transfer_from_with_data_call A c src dst token_id data)"

definition trc721_approve ::
  "trc721_abi \<Rightarrow> ('w tron_provider, 'v) contract_instance
     \<Rightarrow> address \<Rightarrow> u256 \<Rightarrow> (pending_transaction, 'w) contract_call" where
  "trc721_approve A c dst token_id = call_send (trc721_approve_call A c dst token_id)"

definition trc721_set_approval_for_all ::
  "trc721_abi \<Rightarrow> ('w tron_provider, 'v) contract_instance
     \<Rightarrow> address \<Rightarrow> bool \<Rightarrow> (pending_transaction, 'w) contract_call" where
  "trc721_set_approval_for_all A c operator approved = call_send (trc721_set_approval_for_all_call A c operator approved)"

text \<open>\<open>Trc721Ext::trc721\<close>.\<close>

definition trc721_of :: "'p \<Rightarrow> address \<Rightarrow> ('p, 'v) contract_instance" where
  "trc721_of provider a = trc721_new provider a"

section \<open>The standard's calldata\<close>

text \<open>
  What \<open>alloy\<close> is relied on for: the calldata of the three calls that move tokens is the selector of the
  standard followed by one 32-byte word for each argument, an address padded on the left, a
  \<open>uint256\<close> big-endian (the Solidity ABI; the unit tests of \<open>trc20/mod.rs\<close> check both).
\<close>

definition abi_address :: "bytes \<Rightarrow> bytes" where
  "abi_address evm = replicate 12 0 @ evm"

fun be_digits :: "nat \<Rightarrow> nat \<Rightarrow> bytes" where
  "be_digits 0 n = []"
| "be_digits (Suc k) n = be_digits k (n div 256) @ [word_of_nat n]"

definition be_value :: "bytes \<Rightarrow> nat" where
  "be_value bs = foldl (\<lambda>acc b. 256 * acc + unat b) 0 bs"

definition abi_uint :: "u256 \<Rightarrow> bytes" where
  "abi_uint n = be_digits 32 (unat n)"

definition standard_trc20 :: "trc20_abi \<Rightarrow> bool" where
  "standard_trc20 A \<longleftrightarrow>
     (\<forall>dst n. length dst = evm_address_len \<longrightarrow>
        sc_abi_encode (t20_transfer A) (dst, n) = [0xA9, 0x05, 0x9C, 0xBB] @ abi_address dst @ abi_uint n)
   \<and> (\<forall>spender n. length spender = evm_address_len \<longrightarrow>
        sc_abi_encode (t20_approve A) (spender, n) = [0x09, 0x5E, 0xA7, 0xB3] @ abi_address spender @ abi_uint n)
   \<and> (\<forall>src dst n. length src = evm_address_len \<longrightarrow> length dst = evm_address_len \<longrightarrow>
        sc_abi_encode (t20_transfer_from A) (src, dst, n)
          = [0x23, 0xB8, 0x72, 0xDD] @ abi_address src @ abi_address dst @ abi_uint n)"

text \<open>What a contract that follows the standard reads out of calldata.\<close>

datatype token_order =
    OrderTransfer address u256
  | OrderApprove address u256
  | OrderTransferFrom address address u256

definition word_at :: "bytes \<Rightarrow> nat \<Rightarrow> bytes" where
  "word_at args i = take 32 (drop (32 * i) args)"

definition read_address :: "bytes \<Rightarrow> address" where
  "read_address word = Address (address_prefix # drop 12 word)"

definition read_order :: "bytes \<Rightarrow> token_order option" where
  "read_order calldata =
     (let selector = take 4 calldata; args = drop 4 calldata
      in if selector = [0xA9, 0x05, 0x9C, 0xBB] \<and> length args = 64
         then Some (OrderTransfer (read_address (word_at args 0)) (word_of_nat (be_value (word_at args 1))))
         else if selector = [0x09, 0x5E, 0xA7, 0xB3] \<and> length args = 64
         then Some (OrderApprove (read_address (word_at args 0)) (word_of_nat (be_value (word_at args 1))))
         else if selector = [0x23, 0xB8, 0x72, 0xDD] \<and> length args = 96
         then Some (OrderTransferFrom (read_address (word_at args 0)) (read_address (word_at args 1))
                      (word_of_nat (be_value (word_at args 2))))
         else None)"

lemma length_be_digits [simp]: "length (be_digits k n) = k"
  by (induction k arbitrary: n) simp_all

lemma be_value_snoc: "be_value (bs @ [b]) = 256 * be_value bs + unat b"
  by (simp add: be_value_def)

lemma be_value_digits: "be_value (be_digits k n) = n mod 256 ^ k"
proof (induction k arbitrary: n)
  case 0
  then show ?case by (simp add: be_value_def)
next
  case (Suc k)
  have "unat (word_of_nat n :: 8 word) = n mod 256" by (simp add: unat_of_nat)
  then show ?case using Suc by (simp add: be_value_snoc mod_mult2_eq)
qed

lemma length_abi_uint [simp]: "length (abi_uint n) = 32"
  by (simp add: abi_uint_def)

lemma value_abi_uint [simp]: "word_of_nat (be_value (abi_uint n)) = n"
proof -
  have "unat n < 256 ^ 32" using unsigned_less [of n] by simp
  then show ?thesis by (simp add: abi_uint_def be_value_digits)
qed

lemma alloy_length [simp]: "wf_address a \<Longrightarrow> length (address_to_alloy a) = evm_address_len"
  by (cases a) (simp add: address_to_alloy_def as_evm_bytes_def wf_address_def address_len_def evm_address_len_def)

lemma length_abi_address [simp]: "wf_address a \<Longrightarrow> length (abi_address (address_to_alloy a)) = 32"
  by (simp add: abi_address_def evm_address_len_def)

lemma read_abi_address [simp]: "wf_address a \<Longrightarrow> read_address (abi_address (address_to_alloy a)) = a"
  by (cases a; cases "address_bytes a")
    (auto simp: read_address_def abi_address_def address_to_alloy_def as_evm_bytes_def wf_address_def
      address_len_def)

text \<open>
  C18: a token call means what was asked for.  What a contract that follows the standard reads out
  of the calldata of a transfer, an approval or a transfer on behalf of another is exactly that
  operation with the given accounts and the given amount, so no two different orders share calldata, for
  all well-formed addresses and all 256-bit amounts.
\<close>

theorem token_calldata_read_back:
  assumes "standard_trc20 A" and "wf_address a" and "wf_address b"
  shows "read_order (trc20_encode_transfer A a n) = Some (OrderTransfer a n)
    \<and> read_order (trc20_encode_approve A a n) = Some (OrderApprove a n)
    \<and> read_order (trc20_encode_transfer_from A a b n) = Some (OrderTransferFrom a b n)"
  using assms
  by (simp add: standard_trc20_def trc20_encode_transfer_def trc20_encode_approve_def
      trc20_encode_transfer_from_def read_order_def word_at_def Let_def)

lemma transfer_calldata_read_back:
  assumes "standard_trc20 A" and "wf_address a"
  shows "read_order (sc_abi_encode (t20_transfer A) (address_to_alloy a, n)) = Some (OrderTransfer a n)"
  using assms by (simp add: standard_trc20_def read_order_def word_at_def Let_def)

text \<open>The calldata of the standard.\<close>

definition static_call :: "('c \<Rightarrow> bytes) \<Rightarrow> ('c, 'r) sol_call" where
  "static_call enc = \<lparr> sc_signature = [], sc_abi_encode = enc, sc_decode_returns = (\<lambda>_. Err []) \<rparr>"

definition sample_trc20 :: trc20_abi where
  "sample_trc20 =
     \<lparr> t20_name = static_call (\<lambda>_. [0x06, 0xFD, 0xDE, 0x03]),
       t20_symbol = static_call (\<lambda>_. [0x95, 0xD8, 0x9B, 0x41]),
       t20_decimals = static_call (\<lambda>_. [0x31, 0x3C, 0xE5, 0x67]),
       t20_total_supply = static_call (\<lambda>_. [0x18, 0x16, 0x0D, 0xDD]),
       t20_balance_of = static_call (\<lambda>a. [0x70, 0xA0, 0x82, 0x31] @ abi_address a),
       t20_allowance = static_call (\<lambda>(a, b). [0xDD, 0x62, 0xED, 0x3E] @ abi_address a @ abi_address b),
       t20_transfer = static_call (\<lambda>(a, n). [0xA9, 0x05, 0x9C, 0xBB] @ abi_address a @ abi_uint n),
       t20_approve = static_call (\<lambda>(a, n). [0x09, 0x5E, 0xA7, 0xB3] @ abi_address a @ abi_uint n),
       t20_transfer_from = static_call (\<lambda>(a, b, n).
         [0x23, 0xB8, 0x72, 0xDD] @ abi_address a @ abi_address b @ abi_uint n) \<rparr>"

lemma sample_trc20_standard: "standard_trc20 sample_trc20"
  by (simp add: standard_trc20_def sample_trc20_def static_call_def)

theorem token_calldata_read_back_witness:
  "read_order (trc20_encode_transfer sample_trc20 address_zero 7) = Some (OrderTransfer address_zero 7)"
proof -
  have "wf_address address_zero"
    by (simp add: wf_address_def address_zero_def address_len_def evm_address_len_def)
  from token_calldata_read_back [OF sample_trc20_standard this this] show ?thesis by simp
qed

end
