(* ===== verification/Token_Send.thy ===== *)
theory Token_Send
  imports Contract_Send Tokens
begin

text \<open>
  Token transfers through a provider with a wallet over the gRPC transport: from the method of the
  token to the bytes that are broadcast.
\<close>

text \<open>
  C3: \<open>provider.trc20(token).transfer(dst, amount)\<close> moves those tokens and nothing else.  When it
  succeeds over the gRPC transport, one message was broadcast whose only contract, signed for the
  account of the instance or else the provider's signer, triggers the token's contract without
  TRX and without TRC10 tokens, with calldata that a contract following the standard reads as the transfer
  of exactly that amount to exactly that account.
\<close>

theorem trc20_transfer_broadcasts:
  assumes "prost_tx C" and "typed_client C W" and "wf_wallet (wf_wallet_of (wallet_of M w))"
    and "honest_wallet recover (wf_wallet_of (wallet_of M w))"
    and "standard_trc20 A" and "wf_address dst"
    and "token = (case default_caller of None \<Rightarrow> trc20_new p token_address
                  | Some a \<Rightarrow> instance_caller (trc20_new p token_address) a)"
    and "p = wallet_provider C M b58_enc clock signer (grpc_root join G C P W R)"
    and "\<And>req. call_to_request (trc20_transfer_call A token dst amount) = Ok req \<Longrightarrow>
           vec_built (root_provider C (grpc_transport G C P W R))
             (wallet_chain b58_enc (filled_node clock (grpc_root join G C P W R))) (mem_get M w) req w"
    and "trc20_transfer A token dst amount w = (Inr h, w')"
  shows "\<exists>owner calldata f' w1. (default_caller = Some owner \<or> default_caller = None \<and> signer = Some owner)
    \<and> w' = mem_put M f' w1
    \<and> read_order calldata = Some (OrderTransfer dst amount)
    \<and> broadcast_for C R recover (wallet_of M w) owner PbTriggerSmartContract (\<lambda>v. prost_trigger_smart P v = Some
         \<lparr> pb_trigger_smart_owner_address = address_bytes owner,
           pb_trigger_smart_contract_address = address_bytes token_address,
           pb_trigger_smart_call_value = 0, pb_trigger_smart_data = calldata,
           pb_trigger_smart_call_token_value = 0, pb_trigger_smart_token_id = 0 \<rparr>) h w1"
proof -
  let ?b = "trc20_transfer_call A token dst amount"
  have call: "cb_provider ?b = p" "cb_address ?b = token_address" "cb_caller ?b = default_caller"
    "cb_data ?b = sc_abi_encode (t20_transfer A) (address_to_alloy dst, amount)"
    "as_sun (cb_call_value ?b) = 0" "as_sun (cb_call_token_value ?b) = 0" "cb_token_id ?b = 0"
    using assms(7)
    by (simp_all add: trc20_transfer_call_def typed_call_def instance_call_raw_def trc20_new_def instance_new_raw_def
        instance_caller_def call_new_def call_caller_def as_sun_def trx_zero_def Let_def split: option.splits)
  have provider: "cb_provider ?b = wallet_provider C M b58_enc clock signer (grpc_root join G C P W R)"
    using call(1) assms(8) by simp
  from call_sent [OF assms(1-4) provider assms(9) assms(10) [unfolded trc20_transfer_def]]
  show ?thesis
    using transfer_calldata_read_back [OF assms(5,6), of amount] unfolding call by blast
qed

text \<open>Seven tokens, over the node that builds what it is asked for.\<close>

definition sample_order :: pb_trigger_smart_contract where
  "sample_order =
     \<lparr> pb_trigger_smart_owner_address = [2], pb_trigger_smart_contract_address = [3],
       pb_trigger_smart_call_value = 0,
       pb_trigger_smart_data = trc20_encode_transfer sample_trc20 address_zero 7,
       pb_trigger_smart_call_token_value = 0, pb_trigger_smart_token_id = 0 \<rparr>"

definition sample_order_decoders :: prost_contracts where
  "sample_order_decoders = one_byte_decoders sample_order (create_smart_contract_to_proto sample_deployed)"

text \<open>It estimates every call at 100 energy; the filler knows the price, 1 sun, and adds no margin.\<close>

definition estimating_node :: "nat read_client" where
  "estimating_node = accepting_node\<lparr> rd_estimate_energy := \<lambda>_ w.
     (Ok \<lparr> pb_estimate_energy_message_result = None, pb_estimate_energy_message_energy_required = 100 \<rparr>, w) \<rparr>"

definition estimating_chain :: "nat wallet_fillers" where
  "estimating_chain = sample_chain\<lparr> join_left := \<lparr> join_left = Identity,
     join_right = energy_new\<lparr> en_margin_percent := 0, en_price := Some (1, 0) \<rparr> \<rparr> \<rparr>"

definition estimating_memory :: "(nat wallet_fillers, nat) memory" where
  "estimating_memory = \<lparr> mem_get = (\<lambda>_. estimating_chain), mem_put = (\<lambda>_ w. w) \<rparr>"

abbreviation sample_token_root :: "nat tron_provider" where
  "sample_token_root \<equiv> grpc_root (\<lambda>_ w. (Ok [], w)) quiet_core sample_codec sample_order_decoders
     (one_byte_node PbTriggerSmartContract) estimating_node"

definition sample_token :: "(nat tron_provider, nat) contract_instance" where
  "sample_token = trc20_new (wallet_provider sample_codec estimating_memory (\<lambda>_. []) (\<lambda>w. w) (Some (Address [2]))
     sample_token_root) (Address [3])"

abbreviation sample_transfer_call :: "nat tron_provider call_builder" where
  "sample_transfer_call \<equiv> trc20_transfer_call sample_trc20 sample_token address_zero 7"

lemma estimated:
  "rp_estimate_contract_energy sample_token_root call w = (Ok 100, w)"
proof -
  have "retry_unary quiet_core (rd_estimate_energy estimating_node) ''estimate_energy''
      (trigger_smart_contract_to_proto call) w
    = (Ok \<lparr> pb_estimate_energy_message_result = None, pb_estimate_energy_message_energy_required = 100 \<rparr>, w)"
    by (rule quiet_call) (simp add: estimating_node_def)
  then show ?thesis
    by (simp add: grpc_root_def root_of_def provider_of_def root_new_def grpc_tron_transport_def as_provider_def
        root_overrides_def Let_def grpc_estimate_energy_def check_return_def)
qed

lemma estimated_prepare:
  "prepare_request wallet_chain_fill_sync (wallet_chain_fill (filled_node (\<lambda>w. w) sample_token_root)) estimating_chain
     (tx_request_default\<lparr> req_contract := Some (CtTriggerSmartContract call) \<rparr>) 0
   = (Ok (paid_request (CtTriggerSmartContract call)), estimating_chain, 0)"
  by (simp add: prepare_request_def wallet_chain_fill_def wallet_chain_fill_sync_def join_fill_sync_def
      recommended_fill_sync_def recommended_fill_def join_fill_async_def default_fill_def default_fill_sync_def
      energy_fill_call energy_estimate_def energy_needed_def energy_price_def energy_limit_def filled_node_def
      estimated estimating_chain_def energy_new_def paid_request_def tx_request_default_def sample_chain_def
      checked_mul_i128_def clamp_i128_def from_sun_def from_sun_unchecked_def as_sun_def trx_zero_def)

lemma sample_transfer_request:
  "call_to_request sample_transfer_call
   = Ok (tx_request_default\<lparr> req_contract :=
       Some (CtTriggerSmartContract (call_params sample_transfer_call (Address [2]))) \<rparr>)"
  by (simp add: call_to_request_def contract_owner_def trc20_transfer_call_def typed_call_def instance_call_raw_def
      sample_token_def trc20_new_def instance_new_raw_def call_new_def wallet_provider_def filled_methods
      limited_def tx_request_default_def Let_def)

lemma sample_transfer_built:
  "build_contract (grpc_build_rpcs quiet_core sample_codec sample_order_decoders (one_byte_node PbTriggerSmartContract))
     (CtTriggerSmartContract (call_params sample_transfer_call (Address [2]))) w
   = (Ok (one_byte_raw_tx PbTriggerSmartContract), w)"
  unfolding sample_order_decoders_def
  by (rule one_byte_call_built)
    (simp add: trigger_smart_contract_to_proto_def call_params_def trc20_transfer_call_def typed_call_def
      instance_call_raw_def sample_token_def trc20_new_def instance_new_raw_def call_new_def sample_order_def
      addr_bytes_def as_sun_def trx_zero_def trc20_encode_transfer_def Let_def)

theorem trc20_transfer_broadcasts_witness:
  "\<exists>h calldata w1. read_order calldata = Some (OrderTransfer address_zero 7)
    \<and> broadcast_for sample_codec estimating_node (\<lambda>g _. Ok (Address (sig_r g))) (wallet_of estimating_memory 0)
       (Address [2]) PbTriggerSmartContract (\<lambda>v. prost_trigger_smart sample_order_decoders v = Some
         \<lparr> pb_trigger_smart_owner_address = [2], pb_trigger_smart_contract_address = [3],
           pb_trigger_smart_call_value = 0, pb_trigger_smart_data = calldata,
           pb_trigger_smart_call_token_value = 0, pb_trigger_smart_token_id = 0 \<rparr>) h w1"
proof -
  let ?h = "pending_new (raw_tx_id (paid_raw_tx PbTriggerSmartContract))"
  let ?c = "CtTriggerSmartContract (call_params sample_transfer_call (Address [2]))"
  let ?T = "grpc_transport quiet_core sample_codec sample_order_decoders (one_byte_node PbTriggerSmartContract)
    estimating_node"
  let ?p = "wallet_provider sample_codec estimating_memory (\<lambda>_. []) (\<lambda>w. w) (Some (Address [2])) sample_token_root"
  have chain: "join_right estimating_chain = wallet_filler_new sample_wallet"
    by (simp add: estimating_chain_def sample_chain_def)
  have same: "join_right estimating_chain = join_right sample_chain" by (simp add: estimating_chain_def sample_chain_def)
  have "filled_send_transaction (root_provider sample_codec ?T)
      (wallet_chain (\<lambda>_. []) (filled_node (\<lambda>w. w) sample_token_root)) estimating_chain
      (tx_request_default\<lparr> req_contract := Some ?c \<rparr>) 0 = (Ok ?h, estimating_chain, 1)"
    by (rule one_byte_sent_from [OF _ sample_transfer_built estimated_prepare])
      (simp_all add: chain call_params_def estimating_node_def)
  moreover have "cb_provider sample_transfer_call = ?p"
    by (simp add: trc20_transfer_call_def typed_call_def instance_call_raw_def sample_token_def trc20_new_def
        instance_new_raw_def call_new_def Let_def)
  ultimately have send: "trc20_transfer sample_trc20 sample_token address_zero 7 0 = (Inr ?h, 1)"
    by (simp add: trc20_transfer_def call_send_def sample_transfer_request as_contract_def wallet_provider_def
        filled_methods with_memory_def as_inner_grpc estimating_memory_def)
  have fits: "call_to_request sample_transfer_call = Ok req \<Longrightarrow>
      vec_built (root_provider sample_codec ?T) (wallet_chain (\<lambda>_. []) (filled_node (\<lambda>w. w) sample_token_root))
        (mem_get estimating_memory 0) req 0" for req
    using one_byte_vec_built_from [OF _ sample_transfer_built estimated_prepare]
    by (auto simp: sample_transfer_request estimating_memory_def)
  have typed: "typed_client sample_codec (one_byte_node PbTriggerSmartContract)"
    by (rule one_byte_node_typed) (rule one_byte_tx_ok(1), simp)
  have wallet: "wf_wallet (wf_wallet_of (wallet_of estimating_memory 0))"
    "honest_wallet (\<lambda>g _. Ok (Address (sig_r g))) (wf_wallet_of (wallet_of estimating_memory 0))"
    using sample_wallet_ok sample_wallet_honest by (simp_all add: wallet_of_def estimating_memory_def same)
  have zero: "wf_address address_zero"
    by (simp add: wf_address_def address_zero_def address_len_def evm_address_len_def)
  have token: "sample_token = (case None of None \<Rightarrow> trc20_new ?p (Address [3])
      | Some a \<Rightarrow> instance_caller (trc20_new ?p (Address [3])) a)"
    by (simp add: sample_token_def)
  from trc20_transfer_broadcasts [OF sample_prost typed wallet sample_trc20_standard zero token refl fits send]
  show ?thesis by auto
qed

end
