(* ===== verification/Provider_Extensions.thy ===== *)
theory Provider_Extensions
  imports Provider_Stack
begin

text \<open>
  The reads the extension traits add to every provider (\<open>crates/provider/src/ext\<close>).  They go to the
  transport of the root, past whatever wraps it; only the witnesses and a TRC10 balance are read through
  the provider itself.
\<close>

definition ext_transport :: "'w tron_provider \<Rightarrow> 'w tron_transport" where
  "ext_transport p = ri_transport (tp_root p)"

definition ext_get_asset_info :: "'w tron_provider \<Rightarrow> string \<Rightarrow> (asset_info option, 'w) provider_call" where
  "ext_get_asset_info p token_id = as_provider (tr_get_asset_issue_by_id (ext_transport p) token_id)"

definition ext_get_asset_issue_by_account :: "'w tron_provider \<Rightarrow> address \<Rightarrow> (asset_info list, 'w) provider_call" where
  "ext_get_asset_issue_by_account p a = as_provider (tr_get_asset_issue_by_account (ext_transport p) a)"

definition ext_get_asset_issue_list :: "'w tron_provider \<Rightarrow> i64 \<Rightarrow> i64 \<Rightarrow> (asset_info list, 'w) provider_call" where
  "ext_get_asset_issue_list p offset limit = as_provider (tr_get_paginated_asset_issue_list (ext_transport p) offset limit)"

definition ext_get_asset_issue_by_name :: "'w tron_provider \<Rightarrow> string \<Rightarrow> (asset_info option, 'w) provider_call" where
  "ext_get_asset_issue_by_name p name = as_provider (tr_get_asset_issue_by_name (ext_transport p) name)"

definition ext_get_asset_issue_list_by_name :: "'w tron_provider \<Rightarrow> string \<Rightarrow> (asset_info list, 'w) provider_call" where
  "ext_get_asset_issue_list_by_name p name = as_provider (tr_get_asset_issue_list_by_name (ext_transport p) name)"

definition ext_list_proposals :: "'w tron_provider \<Rightarrow> (proposal_info list, 'w) provider_call" where
  "ext_list_proposals p = as_provider (tr_list_proposals (ext_transport p))"

definition ext_get_paginated_proposal_list :: "'w tron_provider \<Rightarrow> i64 \<Rightarrow> i64 \<Rightarrow> (proposal_info list, 'w) provider_call" where
  "ext_get_paginated_proposal_list p offset limit = as_provider (tr_get_paginated_proposal_list (ext_transport p) offset limit)"

definition ext_get_proposal_by_id :: "'w tron_provider \<Rightarrow> i64 \<Rightarrow> (proposal_info, 'w) provider_call" where
  "ext_get_proposal_by_id p proposal_id = as_provider (tr_get_proposal_by_id (ext_transport p) proposal_id)"

definition ext_get_brokerage :: "'w tron_provider \<Rightarrow> address \<Rightarrow> (u64, 'w) provider_call" where
  "ext_get_brokerage p a = as_provider (tr_get_brokerage (ext_transport p) a)"

definition ext_get_reward_info :: "'w tron_provider \<Rightarrow> address \<Rightarrow> (u64, 'w) provider_call" where
  "ext_get_reward_info p a = as_provider (tr_get_reward_info (ext_transport p) a)"

definition ext_list_exchanges :: "'w tron_provider \<Rightarrow> (exchange_info list, 'w) provider_call" where
  "ext_list_exchanges p = as_provider (tr_list_exchanges (ext_transport p))"

definition ext_get_paginated_exchange_list :: "'w tron_provider \<Rightarrow> i64 \<Rightarrow> i64 \<Rightarrow> (exchange_info list, 'w) provider_call" where
  "ext_get_paginated_exchange_list p offset limit = as_provider (tr_get_paginated_exchange_list (ext_transport p) offset limit)"

definition ext_get_exchange_by_id :: "'w tron_provider \<Rightarrow> i64 \<Rightarrow> (exchange_info option, 'w) provider_call" where
  "ext_get_exchange_by_id p exchange_id = as_provider (tr_get_exchange_by_id (ext_transport p) exchange_id)"

definition ext_get_market_order_by_id :: "'w tron_provider \<Rightarrow> bytes \<Rightarrow> (market_order_info option, 'w) provider_call" where
  "ext_get_market_order_by_id p order_id = as_provider (tr_get_market_order_by_id (ext_transport p) order_id)"

definition ext_get_market_order_by_account :: "'w tron_provider \<Rightarrow> address \<Rightarrow> (market_order_info list, 'w) provider_call" where
  "ext_get_market_order_by_account p a = as_provider (tr_get_market_order_by_account (ext_transport p) a)"

definition ext_get_market_price_by_pair :: "'w tron_provider \<Rightarrow> string \<Rightarrow> string \<Rightarrow> (market_price list, 'w) provider_call" where
  "ext_get_market_price_by_pair p sell buy = as_provider (tr_get_market_price_by_pair (ext_transport p) sell buy)"

definition ext_get_market_order_list_by_pair :: "'w tron_provider \<Rightarrow> string \<Rightarrow> string \<Rightarrow> (market_order_info list, 'w) provider_call" where
  "ext_get_market_order_list_by_pair p sell buy = as_provider (tr_get_market_order_list_by_pair (ext_transport p) sell buy)"

definition ext_get_market_pair_list :: "'w tron_provider \<Rightarrow> (market_order_pair list, 'w) provider_call" where
  "ext_get_market_pair_list p = as_provider (tr_get_market_pair_list (ext_transport p))"

definition ext_list_witnesses :: "'w tron_provider \<Rightarrow> (witness_info list, 'w) provider_call" where
  "ext_list_witnesses p = tp_list_witnesses p"

definition ext_trc10_balance :: "'w tron_provider \<Rightarrow> address \<Rightarrow> string \<Rightarrow> (i64, 'w) provider_call" where
  "ext_trc10_balance p a token_id w =
     (case tp_get_account p a w of
        (Inl e, w1) \<Rightarrow> (Err e, w1)
      | (Inr account, w1) \<Rightarrow>
          (Ok (case account_info_trc10_balances account token_id of Some v \<Rightarrow> v | None \<Rightarrow> 0), w1))"

section \<open>Which reads a layer sees\<close>

lemma ext_transport_wrap: "ext_transport (wrap C ov p) = ext_transport p"
  by (simp add: ext_transport_def wrap_def provider_of_def Let_def)

text \<open>
  \<open>get_brokerage\<close> and \<open>get_reward_info\<close> exist twice: as methods of a provider, which a layer can
  answer, and as methods of the extension, which no layer sees.
\<close>

lemma ext_brokerage_past_layers:
  "tp_get_brokerage (wrap C (ov\<lparr> ov_get_brokerage := Some answer \<rparr>) p) = answer"
  "ext_get_brokerage (wrap C (ov\<lparr> ov_get_brokerage := Some answer \<rparr>) p) = ext_get_brokerage p"
  by (simp add: stack_defs) (simp add: ext_get_brokerage_def ext_transport_wrap fun_eq_iff)

lemma ext_reward_past_layers:
  "tp_get_reward_info (wrap C (ov\<lparr> ov_get_reward_info := Some answer \<rparr>) p) = answer"
  "ext_get_reward_info (wrap C (ov\<lparr> ov_get_reward_info := Some answer \<rparr>) p) = ext_get_reward_info p"
  by (simp add: stack_defs) (simp add: ext_get_reward_info_def ext_transport_wrap fun_eq_iff)

lemma ext_balance_through_layers:
  assumes "tp_get_account p a w = (Ok account, w1)"
  shows "fst (ext_trc10_balance p a token_id w)
    = Ok (case account_info_trc10_balances account token_id of Some v \<Rightarrow> v | None \<Rightarrow> 0)"
  using assms by (simp add: ext_trc10_balance_def)

end
