(* ===== verification/Solidity_Provider.thy ===== *)
theory Solidity_Provider
  imports Provider_Trait Pending
begin

text \<open>
  The read-only provider over a solidity node (\<open>crates/provider/src/provider/solidity.rs\<close>): each method
  of its transport with the provider's errors, and the capability to read contracts and events.  Its
  polling is in \<open>Pending\<close>.
\<close>

definition sol_get_now_block :: "'w solidity_transport \<Rightarrow> (block_info, 'w) provider_call" where
  "sol_get_now_block T = as_provider (st_get_now_block T)"

definition sol_get_block_by_number :: "'w solidity_transport \<Rightarrow> i64 \<Rightarrow> (block_info option, 'w) provider_call" where
  "sol_get_block_by_number T num = as_provider (st_get_block_by_number T num)"

definition sol_get_account :: "'w solidity_transport \<Rightarrow> address \<Rightarrow> (account_info, 'w) provider_call" where
  "sol_get_account T a = as_provider (st_get_account T a)"

definition sol_get_transaction :: "'w solidity_transport \<Rightarrow> bytes \<Rightarrow> (signed_transaction option, 'w) provider_call" where
  "sol_get_transaction T tx_id = as_provider (st_get_transaction_by_id T tx_id)"

definition sol_get_transaction_info :: "'w solidity_transport \<Rightarrow> bytes \<Rightarrow> (transaction_info option, 'w) provider_call" where
  "sol_get_transaction_info T tx_id = as_provider (st_get_transaction_info T tx_id)"

definition sol_get_transaction_info_by_block_num :: "'w solidity_transport \<Rightarrow> i64 \<Rightarrow> (transaction_info list, 'w) provider_call" where
  "sol_get_transaction_info_by_block_num T block_num = as_provider (st_get_transaction_info_by_block_num T block_num)"

definition sol_get_transaction_count_by_block_num :: "'w solidity_transport \<Rightarrow> i64 \<Rightarrow> (u64, 'w) provider_call" where
  "sol_get_transaction_count_by_block_num T block_num = as_provider (st_get_transaction_count_by_block_num T block_num)"

definition sol_trigger_constant_contract :: "'w solidity_transport \<Rightarrow> trigger_smart_contract \<Rightarrow> (constant_call_result, 'w) provider_call" where
  "sol_trigger_constant_contract T params = as_provider (st_trigger_constant_contract T params)"

definition sol_estimate_energy :: "'w solidity_transport \<Rightarrow> trigger_smart_contract \<Rightarrow> (i64, 'w) provider_call" where
  "sol_estimate_energy T params = as_provider (st_estimate_energy T params)"

definition sol_list_witnesses :: "'w solidity_transport \<Rightarrow> (witness_info list, 'w) provider_call" where
  "sol_list_witnesses T = as_provider (st_list_witnesses T)"

definition sol_get_paginated_now_witness_list :: "'w solidity_transport \<Rightarrow> i64 \<Rightarrow> i64 \<Rightarrow> (witness_info list, 'w) provider_call" where
  "sol_get_paginated_now_witness_list T offset limit = as_provider (st_get_paginated_now_witness_list T offset limit)"

definition sol_get_delegated_resource_v1 :: "'w solidity_transport \<Rightarrow> address \<Rightarrow> address \<Rightarrow> (delegated_resource list, 'w) provider_call" where
  "sol_get_delegated_resource_v1 T src dst = as_provider (st_get_delegated_resource_v1 T src dst)"

definition sol_get_delegated_resource_index_v1 :: "'w solidity_transport \<Rightarrow> address \<Rightarrow> (delegated_resource_index, 'w) provider_call" where
  "sol_get_delegated_resource_index_v1 T a = as_provider (st_get_delegated_resource_index_v1 T a)"

definition sol_get_delegated_resource :: "'w solidity_transport \<Rightarrow> address \<Rightarrow> address \<Rightarrow> (delegated_resource list, 'w) provider_call" where
  "sol_get_delegated_resource T src dst = as_provider (st_get_delegated_resource T src dst)"

definition sol_get_delegated_resource_index :: "'w solidity_transport \<Rightarrow> address \<Rightarrow> (delegated_resource_index, 'w) provider_call" where
  "sol_get_delegated_resource_index T a = as_provider (st_get_delegated_resource_index T a)"

definition sol_get_can_delegate_max :: "'w solidity_transport \<Rightarrow> address \<Rightarrow> resource_code \<Rightarrow> (trx, 'w) provider_call" where
  "sol_get_can_delegate_max T a resource = as_provider (st_get_can_delegate_max T a resource)"

definition sol_get_available_unfreeze_count :: "'w solidity_transport \<Rightarrow> address \<Rightarrow> (i64, 'w) provider_call" where
  "sol_get_available_unfreeze_count T a = as_provider (st_get_available_unfreeze_count T a)"

definition sol_get_can_withdraw_unfreeze_amount :: "'w solidity_transport \<Rightarrow> address \<Rightarrow> i64 \<Rightarrow> (trx, 'w) provider_call" where
  "sol_get_can_withdraw_unfreeze_amount T a timestamp_ms = as_provider (st_get_can_withdraw_unfreeze_amount T a timestamp_ms)"

section \<open>The capability to read\<close>

definition solidity_provider :: "'w solidity_transport \<Rightarrow> 'w read_provider" where
  "solidity_provider T =
     \<lparr> rp_default_caller = None,
       rp_call_contract = sol_trigger_constant_contract T,
       rp_estimate_contract_energy = sol_estimate_energy T,
       rp_transaction_info = sol_get_transaction_info T,
       rp_transaction_infos_by_block = sol_get_transaction_info_by_block_num T \<rparr>"

text \<open>Waiting, over the provider's own lookup.\<close>

definition sol_wait_for_transaction ::
  "(nat \<Rightarrow> 'w \<Rightarrow> 'w) \<Rightarrow> 'w solidity_transport \<Rightarrow> bytes \<Rightarrow> 'w \<Rightarrow> (pending_error + transaction_info) \<times> 'w" where
  "sol_wait_for_transaction sleep T tx_id = wait_for_transaction sleep (sol_get_transaction_info T tx_id)"

definition sol_wait_for_success ::
  "(nat \<Rightarrow> 'w \<Rightarrow> 'w) \<Rightarrow> 'w solidity_transport \<Rightarrow> bytes \<Rightarrow> 'w \<Rightarrow> (pending_error + transaction_info) \<times> 'w" where
  "sol_wait_for_success sleep T tx_id = wait_for_success sleep (sol_get_transaction_info T tx_id)"

end
