(* ===== verification/Mock_Transport.thy ===== *)
theory Mock_Transport
  imports Tron_Transport
begin

text \<open>
  The transport of the tests (\<open>crates/provider/src/transport/mock.rs\<close>): a queue of responses for every
  method.  A response is type-erased when it is queued (\<open>Box<dyn Any>\<close>), so an entry says which type
  its result has, and a method takes it back at its own type.  A clone shares the queues, which are
  the world of the transport.  A panic ends a run: it is kept in the state, and nothing happens after it.
\<close>

section \<open>Entries\<close>

text \<open>One constructor per type of an \<open>Ok\<close> value.\<close>

datatype mock_entry =
    MockBlockInfo "transport_error + block_info"
  | MockBlockInfoOption "transport_error + (block_info option)"
  | MockAccountInfo "transport_error + account_info"
  | MockAccountResource "transport_error + account_resource"
  | MockUnit "transport_error + unit"
  | MockSignedTransactionOption "transport_error + (signed_transaction option)"
  | MockTransactionInfoOption "transport_error + (transaction_info option)"
  | MockRawTransaction "transport_error + raw_transaction"
  | MockConstantCallResult "transport_error + constant_call_result"
  | MockI64 "transport_error + i64"
  | MockDelegatedResourceVec "transport_error + (delegated_resource list)"
  | MockDelegatedResourceIndex "transport_error + delegated_resource_index"
  | MockTrx "transport_error + trx"
  | MockChainParameters "transport_error + ((string \<rightharpoonup> i64))"
  | MockSmartContractInfo "transport_error + smart_contract_info"
  | MockWitnessInfoVec "transport_error + (witness_info list)"
  | MockProposalInfoVec "transport_error + (proposal_info list)"
  | MockProposalInfo "transport_error + proposal_info"
  | MockAssetInfoOption "transport_error + (asset_info option)"
  | MockAssetInfoVec "transport_error + (asset_info list)"
  | MockString "transport_error + string"
  | MockU64 "transport_error + u64"
  | MockNodeInfo "transport_error + node_info"
  | MockNodeAddressVec "transport_error + (node_address list)"
  | MockChainProperties "transport_error + chain_properties"
  | MockBlockInfoVec "transport_error + (block_info list)"
  | MockRawTransactionVec "transport_error + (raw_transaction list)"
  | MockTransactionInfoVec "transport_error + (transaction_info list)"
  | MockSignWeight "transport_error + sign_weight"
  | MockAddressVec "transport_error + (address list)"
  | MockAccountNet "transport_error + account_net"
  | MockExchangeInfoVec "transport_error + (exchange_info list)"
  | MockExchangeInfoOption "transport_error + (exchange_info option)"
  | MockMarketOrderInfoOption "transport_error + (market_order_info option)"
  | MockMarketOrderInfoVec "transport_error + (market_order_info list)"
  | MockMarketPriceVec "transport_error + (market_price list)"
  | MockMarketOrderPairVec "transport_error + (market_order_pair list)"

record 'a downcast =
  dc_erase :: "transport_error + 'a \<Rightarrow> mock_entry"
  dc_downcast :: "mock_entry \<Rightarrow> (transport_error + 'a) option"

definition as_block_info :: "block_info downcast" where
  "as_block_info = \<lparr> dc_erase = MockBlockInfo, dc_downcast = (\<lambda>e. case e of MockBlockInfo r \<Rightarrow> Some r | _ \<Rightarrow> None) \<rparr>"

definition as_block_info_option :: "(block_info option) downcast" where
  "as_block_info_option = \<lparr> dc_erase = MockBlockInfoOption, dc_downcast = (\<lambda>e. case e of MockBlockInfoOption r \<Rightarrow> Some r | _ \<Rightarrow> None) \<rparr>"

definition as_account_info :: "account_info downcast" where
  "as_account_info = \<lparr> dc_erase = MockAccountInfo, dc_downcast = (\<lambda>e. case e of MockAccountInfo r \<Rightarrow> Some r | _ \<Rightarrow> None) \<rparr>"

definition as_account_resource :: "account_resource downcast" where
  "as_account_resource = \<lparr> dc_erase = MockAccountResource, dc_downcast = (\<lambda>e. case e of MockAccountResource r \<Rightarrow> Some r | _ \<Rightarrow> None) \<rparr>"

definition as_unit :: "unit downcast" where
  "as_unit = \<lparr> dc_erase = MockUnit, dc_downcast = (\<lambda>e. case e of MockUnit r \<Rightarrow> Some r | _ \<Rightarrow> None) \<rparr>"

definition as_signed_transaction_option :: "(signed_transaction option) downcast" where
  "as_signed_transaction_option = \<lparr> dc_erase = MockSignedTransactionOption, dc_downcast = (\<lambda>e. case e of MockSignedTransactionOption r \<Rightarrow> Some r | _ \<Rightarrow> None) \<rparr>"

definition as_transaction_info_option :: "(transaction_info option) downcast" where
  "as_transaction_info_option = \<lparr> dc_erase = MockTransactionInfoOption, dc_downcast = (\<lambda>e. case e of MockTransactionInfoOption r \<Rightarrow> Some r | _ \<Rightarrow> None) \<rparr>"

definition as_raw_transaction :: "raw_transaction downcast" where
  "as_raw_transaction = \<lparr> dc_erase = MockRawTransaction, dc_downcast = (\<lambda>e. case e of MockRawTransaction r \<Rightarrow> Some r | _ \<Rightarrow> None) \<rparr>"

definition as_constant_call_result :: "constant_call_result downcast" where
  "as_constant_call_result = \<lparr> dc_erase = MockConstantCallResult, dc_downcast = (\<lambda>e. case e of MockConstantCallResult r \<Rightarrow> Some r | _ \<Rightarrow> None) \<rparr>"

definition as_i64 :: "i64 downcast" where
  "as_i64 = \<lparr> dc_erase = MockI64, dc_downcast = (\<lambda>e. case e of MockI64 r \<Rightarrow> Some r | _ \<Rightarrow> None) \<rparr>"

definition as_delegated_resource_vec :: "(delegated_resource list) downcast" where
  "as_delegated_resource_vec = \<lparr> dc_erase = MockDelegatedResourceVec, dc_downcast = (\<lambda>e. case e of MockDelegatedResourceVec r \<Rightarrow> Some r | _ \<Rightarrow> None) \<rparr>"

definition as_delegated_resource_index :: "delegated_resource_index downcast" where
  "as_delegated_resource_index = \<lparr> dc_erase = MockDelegatedResourceIndex, dc_downcast = (\<lambda>e. case e of MockDelegatedResourceIndex r \<Rightarrow> Some r | _ \<Rightarrow> None) \<rparr>"

definition as_trx :: "trx downcast" where
  "as_trx = \<lparr> dc_erase = MockTrx, dc_downcast = (\<lambda>e. case e of MockTrx r \<Rightarrow> Some r | _ \<Rightarrow> None) \<rparr>"

definition as_chain_parameters :: "((string \<rightharpoonup> i64)) downcast" where
  "as_chain_parameters = \<lparr> dc_erase = MockChainParameters, dc_downcast = (\<lambda>e. case e of MockChainParameters r \<Rightarrow> Some r | _ \<Rightarrow> None) \<rparr>"

definition as_smart_contract_info :: "smart_contract_info downcast" where
  "as_smart_contract_info = \<lparr> dc_erase = MockSmartContractInfo, dc_downcast = (\<lambda>e. case e of MockSmartContractInfo r \<Rightarrow> Some r | _ \<Rightarrow> None) \<rparr>"

definition as_witness_info_vec :: "(witness_info list) downcast" where
  "as_witness_info_vec = \<lparr> dc_erase = MockWitnessInfoVec, dc_downcast = (\<lambda>e. case e of MockWitnessInfoVec r \<Rightarrow> Some r | _ \<Rightarrow> None) \<rparr>"

definition as_proposal_info_vec :: "(proposal_info list) downcast" where
  "as_proposal_info_vec = \<lparr> dc_erase = MockProposalInfoVec, dc_downcast = (\<lambda>e. case e of MockProposalInfoVec r \<Rightarrow> Some r | _ \<Rightarrow> None) \<rparr>"

definition as_proposal_info :: "proposal_info downcast" where
  "as_proposal_info = \<lparr> dc_erase = MockProposalInfo, dc_downcast = (\<lambda>e. case e of MockProposalInfo r \<Rightarrow> Some r | _ \<Rightarrow> None) \<rparr>"

definition as_asset_info_option :: "(asset_info option) downcast" where
  "as_asset_info_option = \<lparr> dc_erase = MockAssetInfoOption, dc_downcast = (\<lambda>e. case e of MockAssetInfoOption r \<Rightarrow> Some r | _ \<Rightarrow> None) \<rparr>"

definition as_asset_info_vec :: "(asset_info list) downcast" where
  "as_asset_info_vec = \<lparr> dc_erase = MockAssetInfoVec, dc_downcast = (\<lambda>e. case e of MockAssetInfoVec r \<Rightarrow> Some r | _ \<Rightarrow> None) \<rparr>"

definition as_string :: "string downcast" where
  "as_string = \<lparr> dc_erase = MockString, dc_downcast = (\<lambda>e. case e of MockString r \<Rightarrow> Some r | _ \<Rightarrow> None) \<rparr>"

definition as_u64 :: "u64 downcast" where
  "as_u64 = \<lparr> dc_erase = MockU64, dc_downcast = (\<lambda>e. case e of MockU64 r \<Rightarrow> Some r | _ \<Rightarrow> None) \<rparr>"

definition as_node_info :: "node_info downcast" where
  "as_node_info = \<lparr> dc_erase = MockNodeInfo, dc_downcast = (\<lambda>e. case e of MockNodeInfo r \<Rightarrow> Some r | _ \<Rightarrow> None) \<rparr>"

definition as_node_address_vec :: "(node_address list) downcast" where
  "as_node_address_vec = \<lparr> dc_erase = MockNodeAddressVec, dc_downcast = (\<lambda>e. case e of MockNodeAddressVec r \<Rightarrow> Some r | _ \<Rightarrow> None) \<rparr>"

definition as_chain_properties :: "chain_properties downcast" where
  "as_chain_properties = \<lparr> dc_erase = MockChainProperties, dc_downcast = (\<lambda>e. case e of MockChainProperties r \<Rightarrow> Some r | _ \<Rightarrow> None) \<rparr>"

definition as_block_info_vec :: "(block_info list) downcast" where
  "as_block_info_vec = \<lparr> dc_erase = MockBlockInfoVec, dc_downcast = (\<lambda>e. case e of MockBlockInfoVec r \<Rightarrow> Some r | _ \<Rightarrow> None) \<rparr>"

definition as_raw_transaction_vec :: "(raw_transaction list) downcast" where
  "as_raw_transaction_vec = \<lparr> dc_erase = MockRawTransactionVec, dc_downcast = (\<lambda>e. case e of MockRawTransactionVec r \<Rightarrow> Some r | _ \<Rightarrow> None) \<rparr>"

definition as_transaction_info_vec :: "(transaction_info list) downcast" where
  "as_transaction_info_vec = \<lparr> dc_erase = MockTransactionInfoVec, dc_downcast = (\<lambda>e. case e of MockTransactionInfoVec r \<Rightarrow> Some r | _ \<Rightarrow> None) \<rparr>"

definition as_sign_weight :: "sign_weight downcast" where
  "as_sign_weight = \<lparr> dc_erase = MockSignWeight, dc_downcast = (\<lambda>e. case e of MockSignWeight r \<Rightarrow> Some r | _ \<Rightarrow> None) \<rparr>"

definition as_address_vec :: "(address list) downcast" where
  "as_address_vec = \<lparr> dc_erase = MockAddressVec, dc_downcast = (\<lambda>e. case e of MockAddressVec r \<Rightarrow> Some r | _ \<Rightarrow> None) \<rparr>"

definition as_account_net :: "account_net downcast" where
  "as_account_net = \<lparr> dc_erase = MockAccountNet, dc_downcast = (\<lambda>e. case e of MockAccountNet r \<Rightarrow> Some r | _ \<Rightarrow> None) \<rparr>"

definition as_exchange_info_vec :: "(exchange_info list) downcast" where
  "as_exchange_info_vec = \<lparr> dc_erase = MockExchangeInfoVec, dc_downcast = (\<lambda>e. case e of MockExchangeInfoVec r \<Rightarrow> Some r | _ \<Rightarrow> None) \<rparr>"

definition as_exchange_info_option :: "(exchange_info option) downcast" where
  "as_exchange_info_option = \<lparr> dc_erase = MockExchangeInfoOption, dc_downcast = (\<lambda>e. case e of MockExchangeInfoOption r \<Rightarrow> Some r | _ \<Rightarrow> None) \<rparr>"

definition as_market_order_info_option :: "(market_order_info option) downcast" where
  "as_market_order_info_option = \<lparr> dc_erase = MockMarketOrderInfoOption, dc_downcast = (\<lambda>e. case e of MockMarketOrderInfoOption r \<Rightarrow> Some r | _ \<Rightarrow> None) \<rparr>"

definition as_market_order_info_vec :: "(market_order_info list) downcast" where
  "as_market_order_info_vec = \<lparr> dc_erase = MockMarketOrderInfoVec, dc_downcast = (\<lambda>e. case e of MockMarketOrderInfoVec r \<Rightarrow> Some r | _ \<Rightarrow> None) \<rparr>"

definition as_market_price_vec :: "(market_price list) downcast" where
  "as_market_price_vec = \<lparr> dc_erase = MockMarketPriceVec, dc_downcast = (\<lambda>e. case e of MockMarketPriceVec r \<Rightarrow> Some r | _ \<Rightarrow> None) \<rparr>"

definition as_market_order_pair_vec :: "(market_order_pair list) downcast" where
  "as_market_order_pair_vec = \<lparr> dc_erase = MockMarketOrderPairVec, dc_downcast = (\<lambda>e. case e of MockMarketOrderPairVec r \<Rightarrow> Some r | _ \<Rightarrow> None) \<rparr>"

section \<open>The queues\<close>

text \<open>The two panics of \<open>pop\<close>, each with the method.\<close>

datatype mock_panic = NoResponseQueued string | ResponseOfOtherType string

record mock_state =
  mock_responses :: "string \<rightharpoonup> mock_entry list"
  mock_panicked :: "mock_panic option"

definition mock_new :: mock_state where
  "mock_new = \<lparr> mock_responses = Map.empty, mock_panicked = None \<rparr>"

definition mock_queue :: "mock_state \<Rightarrow> string \<Rightarrow> mock_entry list" where
  "mock_queue s m = (case mock_responses s m of None \<Rightarrow> [] | Some q \<Rightarrow> q)"

definition mock_push_result :: "'a downcast \<Rightarrow> string \<Rightarrow> transport_error + 'a \<Rightarrow> mock_state \<Rightarrow> mock_state" where
  "mock_push_result D m r s =
     s\<lparr> mock_responses := (mock_responses s)(m \<mapsto> mock_queue s m @ [dc_erase D r]) \<rparr>"

definition mock_push_ok :: "'a downcast \<Rightarrow> string \<Rightarrow> 'a \<Rightarrow> mock_state \<Rightarrow> mock_state" where
  "mock_push_ok D m v s = mock_push_result D m (Ok v) s"

definition mock_push_err :: "'a downcast \<Rightarrow> string \<Rightarrow> transport_error \<Rightarrow> mock_state \<Rightarrow> mock_state" where
  "mock_push_err D m e s = mock_push_result D m (Err e) s"

text \<open>What stands for the answer of a call that panicked.\<close>

definition panic_answer :: "transport_error + 'a" where
  "panic_answer = Err (TkCustom ''panicked'')"

definition mock_pop :: "'a downcast \<Rightarrow> string \<Rightarrow> ('a, mock_state) call" where
  "mock_pop D m s =
     (if mock_panicked s \<noteq> None then (panic_answer, s)
      else case mock_responses s m of
        Some (entry # rest) \<Rightarrow>
          (let s1 = s\<lparr> mock_responses := (mock_responses s)(m \<mapsto> rest) \<rparr>
           in case dc_downcast D entry of
                Some result \<Rightarrow> (result, s1)
              | None \<Rightarrow> (panic_answer, s1\<lparr> mock_panicked := Some (ResponseOfOtherType m) \<rparr>))
      | _ \<Rightarrow> (panic_answer, s\<lparr> mock_panicked := Some (NoResponseQueued m) \<rparr>))"

text \<open>Several calls of one method.\<close>

fun mock_pops :: "'a downcast \<Rightarrow> string \<Rightarrow> nat \<Rightarrow> mock_state \<Rightarrow> (transport_error + 'a) list \<times> mock_state" where
  "mock_pops D m 0 s = ([], s)"
| "mock_pops D m (Suc n) s =
     (let (r, s1) = mock_pop D m s; (rs, s2) = mock_pops D m n s1 in (r # rs, s2))"

text \<open>A value queued at a type is taken back at that type.\<close>

locale downcasting =
  fixes D :: "'a downcast"
  assumes taken_back [simp]: "dc_downcast D (dc_erase D r) = Some r"
begin

lemma pop_queued:
  assumes "mock_panicked s = None" and "mock_queue s m = dc_erase D r # q"
  shows "\<exists>s'. mock_pop D m s = (r, s') \<and> mock_panicked s' = None \<and> mock_queue s' m = q
    \<and> (\<forall>m'. m' \<noteq> m \<longrightarrow> mock_queue s' m' = mock_queue s m')"
  using assms by (auto simp: mock_pop_def mock_queue_def Let_def split: option.splits)

lemma pops_queued:
  assumes "mock_panicked s = None" and "mock_queue s m = map (dc_erase D) rs @ q"
  shows "\<exists>s'. mock_pops D m (length rs) s = (rs, s') \<and> mock_panicked s' = None \<and> mock_queue s' m = q
    \<and> (\<forall>m'. m' \<noteq> m \<longrightarrow> mock_queue s' m' = mock_queue s m')"
  using assms
proof (induction rs arbitrary: s)
  case (Cons r rs)
  obtain s1 where s1: "mock_pop D m s = (r, s1)" "mock_panicked s1 = None"
      "mock_queue s1 m = map (dc_erase D) rs @ q" "\<forall>m'. m' \<noteq> m \<longrightarrow> mock_queue s1 m' = mock_queue s m'"
    using pop_queued [OF Cons.prems(1), of m r "map (dc_erase D) rs @ q"] Cons.prems(2) by auto
  obtain s2 where s2: "mock_pops D m (length rs) s1 = (rs, s2)" "mock_panicked s2 = None" "mock_queue s2 m = q"
      "\<forall>m'. m' \<noteq> m \<longrightarrow> mock_queue s2 m' = mock_queue s1 m'"
    using Cons.IH [OF s1(2,3)] by blast
  have "mock_pops D m (length (r # rs)) s = (r # rs, s2)" by (simp add: s1(1) s2(1))
  with s1(4) s2(2-4) show ?case by simp
qed simp

lemma pushed:
  "mock_queue (fold (mock_push_result D m) rs s) m = mock_queue s m @ map (dc_erase D) rs"
  "m' \<noteq> m \<Longrightarrow> mock_queue (fold (mock_push_result D m) rs s) m' = mock_queue s m'"
  "mock_panicked (fold (mock_push_result D m) rs s) = mock_panicked s"
  by (induction rs arbitrary: s) (simp_all add: mock_push_result_def mock_queue_def)

text \<open>
  The responses queued for a method answer its calls in their order, the queues of the other methods stay
  as they are, and one call more panics.
\<close>

lemma in_order:
  assumes "mock_panicked s = None" and "mock_queue s m = []"
  shows "\<exists>s'. mock_pops D m (length rs) (fold (mock_push_result D m) rs s) = (rs, s')
    \<and> mock_panicked s' = None \<and> (\<forall>m'. m' \<noteq> m \<longrightarrow> mock_queue s' m' = mock_queue s m')
    \<and> mock_panicked (snd (mock_pop D m s')) = Some (NoResponseQueued m)"
proof -
  obtain s' where s': "mock_pops D m (length rs) (fold (mock_push_result D m) rs s) = (rs, s')"
      "mock_panicked s' = None" "mock_queue s' m = []"
      "\<forall>m'. m' \<noteq> m \<longrightarrow> mock_queue s' m' = mock_queue (fold (mock_push_result D m) rs s) m'"
    using pops_queued [of "fold (mock_push_result D m) rs s" m rs "[]"] assms by (auto simp: pushed)
  then have "mock_panicked (snd (mock_pop D m s')) = Some (NoResponseQueued m)"
    by (auto simp: mock_pop_def mock_queue_def split: option.splits)
  with s' pushed(2) show ?thesis by metis
qed

end

section \<open>The transport of a full node\<close>

definition mock_build_rpcs :: "mock_state build_rpcs" where
  "mock_build_rpcs =
     \<lparr> rpc_transfer_trx = (\<lambda>_. mock_pop as_raw_transaction ''transfer_trx''),
       rpc_trigger_smart_contract = (\<lambda>_. mock_pop as_raw_transaction ''trigger_smart_contract''),
       rpc_freeze_balance_v1 = (\<lambda>_. mock_pop as_raw_transaction ''freeze_balance_v1''),
       rpc_unfreeze_balance_v1 = (\<lambda>_. mock_pop as_raw_transaction ''unfreeze_balance_v1''),
       rpc_freeze_balance_v2 = (\<lambda>_. mock_pop as_raw_transaction ''freeze_balance_v2''),
       rpc_unfreeze_balance_v2 = (\<lambda>_. mock_pop as_raw_transaction ''unfreeze_balance_v2''),
       rpc_delegate_resource = (\<lambda>_. mock_pop as_raw_transaction ''delegate_resource''),
       rpc_undelegate_resource = (\<lambda>_. mock_pop as_raw_transaction ''undelegate_resource''),
       rpc_withdraw_expire_unfreeze = (\<lambda>_. mock_pop as_raw_transaction ''withdraw_expire_unfreeze''),
       rpc_cancel_all_unfreeze_v2 = (\<lambda>_. mock_pop as_raw_transaction ''cancel_all_unfreeze_v2''),
       rpc_withdraw_balance = (\<lambda>_. mock_pop as_raw_transaction ''withdraw_balance''),
       rpc_account_permission_update = (\<lambda>_. mock_pop as_raw_transaction ''account_permission_update''),
       rpc_create_smart_contract = (\<lambda>_. mock_pop as_raw_transaction ''create_smart_contract''),
       rpc_create_asset_issue = (\<lambda>_. mock_pop as_raw_transaction ''create_asset_issue''),
       rpc_transfer_asset = (\<lambda>_. mock_pop as_raw_transaction ''transfer_asset''),
       rpc_participate_asset_issue = (\<lambda>_. mock_pop as_raw_transaction ''participate_asset_issue''),
       rpc_unfreeze_asset = (\<lambda>_. mock_pop as_raw_transaction ''unfreeze_asset''),
       rpc_update_asset = (\<lambda>_. mock_pop as_raw_transaction ''update_asset''),
       rpc_create_account = (\<lambda>_. mock_pop as_raw_transaction ''create_account''),
       rpc_vote_witness_account = (\<lambda>_. mock_pop as_raw_transaction ''vote_witness_account''),
       rpc_update_account = (\<lambda>_. mock_pop as_raw_transaction ''update_account''),
       rpc_proposal_create = (\<lambda>_. mock_pop as_raw_transaction ''proposal_create''),
       rpc_proposal_approve = (\<lambda>_. mock_pop as_raw_transaction ''proposal_approve''),
       rpc_proposal_delete = (\<lambda>_. mock_pop as_raw_transaction ''proposal_delete''),
       rpc_create_witness = (\<lambda>_. mock_pop as_raw_transaction ''create_witness''),
       rpc_update_witness = (\<lambda>_. mock_pop as_raw_transaction ''update_witness''),
       rpc_update_brokerage = (\<lambda>_. mock_pop as_raw_transaction ''update_brokerage''),
       rpc_set_account_id = (\<lambda>_. mock_pop as_raw_transaction ''set_account_id''),
       rpc_clear_contract_abi = (\<lambda>_. mock_pop as_raw_transaction ''clear_contract_abi''),
       rpc_update_setting = (\<lambda>_. mock_pop as_raw_transaction ''update_setting''),
       rpc_update_energy_limit = (\<lambda>_. mock_pop as_raw_transaction ''update_energy_limit''),
       rpc_exchange_create = (\<lambda>_. mock_pop as_raw_transaction ''exchange_create''),
       rpc_exchange_inject = (\<lambda>_. mock_pop as_raw_transaction ''exchange_inject''),
       rpc_exchange_withdraw = (\<lambda>_. mock_pop as_raw_transaction ''exchange_withdraw''),
       rpc_exchange_transaction = (\<lambda>_. mock_pop as_raw_transaction ''exchange_transaction''),
       rpc_market_sell_asset = (\<lambda>_. mock_pop as_raw_transaction ''market_sell_asset''),
       rpc_market_cancel_order = (\<lambda>_. mock_pop as_raw_transaction ''market_cancel_order'') \<rparr>"

definition mock_transport :: "mock_state tron_transport" where
  "mock_transport =
     \<lparr> tr_build = mock_build_rpcs,
       tr_broadcast = (\<lambda>_. mock_pop as_unit ''broadcast_transaction''),
       tr_now_block = mock_pop as_block_info ''get_now_block'',
       tr_energy_prices = mock_pop as_string ''get_energy_prices'',
       tr_estimate_energy = (\<lambda>_. mock_pop as_i64 ''estimate_energy''),
       tr_constant_call = (\<lambda>_. mock_pop as_constant_call_result ''trigger_constant_contract''),
       tr_transaction_info = (\<lambda>_. mock_pop as_transaction_info_option ''get_transaction_info''),
       tr_get_block_by_number = (\<lambda>_. mock_pop as_block_info_option ''get_block_by_number''),
       tr_get_account = (\<lambda>_. mock_pop as_account_info ''get_account''),
       tr_get_account_resource = (\<lambda>_. mock_pop as_account_resource ''get_account_resource''),
       tr_get_transaction_by_id = (\<lambda>_. mock_pop as_signed_transaction_option ''get_transaction_by_id''),
       tr_get_delegated_resource_v1 = (\<lambda>_ _. mock_pop as_delegated_resource_vec ''get_delegated_resource_v1''),
       tr_get_delegated_resource_index_v1 = (\<lambda>_. mock_pop as_delegated_resource_index ''get_delegated_resource_index_v1''),
       tr_get_delegated_resource = (\<lambda>_ _. mock_pop as_delegated_resource_vec ''get_delegated_resource''),
       tr_get_delegated_resource_index = (\<lambda>_. mock_pop as_delegated_resource_index ''get_delegated_resource_index''),
       tr_get_can_delegate_max = (\<lambda>_ _. mock_pop as_trx ''get_can_delegate_max''),
       tr_get_reward = (\<lambda>_. mock_pop as_trx ''get_reward''),
       tr_get_chain_parameters = mock_pop as_chain_parameters ''get_chain_parameters'',
       tr_get_contract = (\<lambda>_. mock_pop as_smart_contract_info ''get_contract''),
       tr_get_contract_info = (\<lambda>_. mock_pop as_smart_contract_info ''get_contract_info''),
       tr_list_witnesses = mock_pop as_witness_info_vec ''list_witnesses'',
       tr_get_paginated_now_witness_list = (\<lambda>_ _. mock_pop as_witness_info_vec ''get_paginated_now_witness_list''),
       tr_list_proposals = mock_pop as_proposal_info_vec ''list_proposals'',
       tr_get_paginated_proposal_list = (\<lambda>_ _. mock_pop as_proposal_info_vec ''get_paginated_proposal_list''),
       tr_get_proposal_by_id = (\<lambda>_. mock_pop as_proposal_info ''get_proposal_by_id''),
       tr_get_asset_issue_by_id = (\<lambda>_. mock_pop as_asset_info_option ''get_asset_issue_by_id''),
       tr_get_asset_issue_by_account = (\<lambda>_. mock_pop as_asset_info_vec ''get_asset_issue_by_account''),
       tr_get_paginated_asset_issue_list = (\<lambda>_ _. mock_pop as_asset_info_vec ''get_paginated_asset_issue_list''),
       tr_get_asset_issue_by_name = (\<lambda>_. mock_pop as_asset_info_option ''get_asset_issue_by_name''),
       tr_get_asset_issue_list_by_name = (\<lambda>_. mock_pop as_asset_info_vec ''get_asset_issue_list_by_name''),
       tr_get_can_withdraw_unfreeze_amount = (\<lambda>_ _. mock_pop as_trx ''get_can_withdraw_unfreeze_amount''),
       tr_get_available_unfreeze_count = (\<lambda>_. mock_pop as_i64 ''get_available_unfreeze_count''),
       tr_get_bandwidth_prices = mock_pop as_string ''get_bandwidth_prices'',
       tr_get_memo_fee = mock_pop as_u64 ''get_memo_fee'',
       tr_get_next_maintenance_time = mock_pop as_i64 ''get_next_maintenance_time'',
       tr_get_burn_trx = mock_pop as_u64 ''get_burn_trx'',
       tr_get_total_transactions = mock_pop as_u64 ''get_total_transactions'',
       tr_get_node_info = mock_pop as_node_info ''get_node_info'',
       tr_list_nodes = mock_pop as_node_address_vec ''list_nodes'',
       tr_get_dynamic_properties = mock_pop as_chain_properties ''get_dynamic_properties'',
       tr_get_block_by_id = (\<lambda>_. mock_pop as_block_info_option ''get_block_by_id''),
       tr_get_blocks_by_latest_num = (\<lambda>_. mock_pop as_block_info_vec ''get_blocks_by_latest_num''),
       tr_get_blocks_by_limit = (\<lambda>_ _. mock_pop as_block_info_vec ''get_blocks_by_limit''),
       tr_get_transaction_count_by_block_num = (\<lambda>_. mock_pop as_u64 ''get_transaction_count_by_block_num''),
       tr_get_transactions_from = (\<lambda>_ _ _. mock_pop as_raw_transaction_vec ''get_transactions_from''),
       tr_get_transactions_to = (\<lambda>_ _ _. mock_pop as_raw_transaction_vec ''get_transactions_to''),
       tr_get_transaction_info_by_block_num = (\<lambda>_. mock_pop as_transaction_info_vec ''get_transaction_info_by_block_num''),
       tr_get_pending_size = mock_pop as_u64 ''get_pending_size'',
       tr_get_transaction_from_pending = (\<lambda>_. mock_pop as_raw_transaction ''get_transaction_from_pending''),
       tr_get_pending_transactions = mock_pop as_raw_transaction_vec ''get_pending_transactions'',
       tr_get_transaction_sign_weight = (\<lambda>_. mock_pop as_sign_weight ''get_transaction_sign_weight''),
       tr_get_transaction_approved_list = (\<lambda>_. mock_pop as_address_vec ''get_transaction_approved_list''),
       tr_get_account_net = (\<lambda>_. mock_pop as_account_net ''get_account_net''),
       tr_get_brokerage = (\<lambda>_. mock_pop as_u64 ''get_brokerage''),
       tr_get_reward_info = (\<lambda>_. mock_pop as_u64 ''get_reward_info''),
       tr_list_exchanges = mock_pop as_exchange_info_vec ''list_exchanges'',
       tr_get_paginated_exchange_list = (\<lambda>_ _. mock_pop as_exchange_info_vec ''get_paginated_exchange_list''),
       tr_get_exchange_by_id = (\<lambda>_. mock_pop as_exchange_info_option ''get_exchange_by_id''),
       tr_get_market_order_by_id = (\<lambda>_. mock_pop as_market_order_info_option ''get_market_order_by_id''),
       tr_get_market_order_by_account = (\<lambda>_. mock_pop as_market_order_info_vec ''get_market_order_by_account''),
       tr_get_market_price_by_pair = (\<lambda>_ _. mock_pop as_market_price_vec ''get_market_price_by_pair''),
       tr_get_market_order_list_by_pair = (\<lambda>_ _. mock_pop as_market_order_info_vec ''get_market_order_list_by_pair''),
       tr_get_market_pair_list = mock_pop as_market_order_pair_vec ''get_market_pair_list'' \<rparr>"

section \<open>The transport of a solidity node\<close>

text \<open>It wraps the mock of a full node, and so has its queues.\<close>

definition mock_solidity_transport :: "mock_state solidity_transport" where
  "mock_solidity_transport =
     \<lparr> st_get_now_block = mock_pop as_block_info ''get_now_block'',
       st_get_block_by_number = (\<lambda>_. mock_pop as_block_info_option ''get_block_by_number''),
       st_get_account = (\<lambda>_. mock_pop as_account_info ''get_account''),
       st_get_transaction_by_id = (\<lambda>_. mock_pop as_signed_transaction_option ''get_transaction_by_id''),
       st_get_transaction_info = (\<lambda>_. mock_pop as_transaction_info_option ''get_transaction_info''),
       st_get_transaction_info_by_block_num = (\<lambda>_. mock_pop as_transaction_info_vec ''get_transaction_info_by_block_num''),
       st_get_transaction_count_by_block_num = (\<lambda>_. mock_pop as_u64 ''get_transaction_count_by_block_num''),
       st_trigger_constant_contract = (\<lambda>_. mock_pop as_constant_call_result ''trigger_constant_contract''),
       st_estimate_energy = (\<lambda>_. mock_pop as_i64 ''estimate_energy''),
       st_list_witnesses = mock_pop as_witness_info_vec ''list_witnesses'',
       st_get_paginated_now_witness_list = (\<lambda>_ _. mock_pop as_witness_info_vec ''get_paginated_now_witness_list''),
       st_get_delegated_resource_v1 = (\<lambda>_ _. mock_pop as_delegated_resource_vec ''get_delegated_resource_v1''),
       st_get_delegated_resource_index_v1 = (\<lambda>_. mock_pop as_delegated_resource_index ''get_delegated_resource_index_v1''),
       st_get_delegated_resource = (\<lambda>_ _. mock_pop as_delegated_resource_vec ''get_delegated_resource''),
       st_get_delegated_resource_index = (\<lambda>_. mock_pop as_delegated_resource_index ''get_delegated_resource_index''),
       st_get_can_delegate_max = (\<lambda>_ _. mock_pop as_trx ''get_can_delegate_max''),
       st_get_available_unfreeze_count = (\<lambda>_. mock_pop as_i64 ''get_available_unfreeze_count''),
       st_get_can_withdraw_unfreeze_amount = (\<lambda>_ _. mock_pop as_trx ''get_can_withdraw_unfreeze_amount'') \<rparr>"

section \<open>Every type is taken back\<close>

interpretation block_info_entry: downcasting as_block_info
  by unfold_locales (simp add: as_block_info_def)

interpretation block_info_option_entry: downcasting as_block_info_option
  by unfold_locales (simp add: as_block_info_option_def)

interpretation account_info_entry: downcasting as_account_info
  by unfold_locales (simp add: as_account_info_def)

interpretation account_resource_entry: downcasting as_account_resource
  by unfold_locales (simp add: as_account_resource_def)

interpretation unit_entry: downcasting as_unit
  by unfold_locales (simp add: as_unit_def)

interpretation signed_transaction_option_entry: downcasting as_signed_transaction_option
  by unfold_locales (simp add: as_signed_transaction_option_def)

interpretation transaction_info_option_entry: downcasting as_transaction_info_option
  by unfold_locales (simp add: as_transaction_info_option_def)

interpretation raw_transaction_entry: downcasting as_raw_transaction
  by unfold_locales (simp add: as_raw_transaction_def)

interpretation constant_call_result_entry: downcasting as_constant_call_result
  by unfold_locales (simp add: as_constant_call_result_def)

interpretation i64_entry: downcasting as_i64
  by unfold_locales (simp add: as_i64_def)

interpretation delegated_resource_vec_entry: downcasting as_delegated_resource_vec
  by unfold_locales (simp add: as_delegated_resource_vec_def)

interpretation delegated_resource_index_entry: downcasting as_delegated_resource_index
  by unfold_locales (simp add: as_delegated_resource_index_def)

interpretation trx_entry: downcasting as_trx
  by unfold_locales (simp add: as_trx_def)

interpretation chain_parameters_entry: downcasting as_chain_parameters
  by unfold_locales (simp add: as_chain_parameters_def)

interpretation smart_contract_info_entry: downcasting as_smart_contract_info
  by unfold_locales (simp add: as_smart_contract_info_def)

interpretation witness_info_vec_entry: downcasting as_witness_info_vec
  by unfold_locales (simp add: as_witness_info_vec_def)

interpretation proposal_info_vec_entry: downcasting as_proposal_info_vec
  by unfold_locales (simp add: as_proposal_info_vec_def)

interpretation proposal_info_entry: downcasting as_proposal_info
  by unfold_locales (simp add: as_proposal_info_def)

interpretation asset_info_option_entry: downcasting as_asset_info_option
  by unfold_locales (simp add: as_asset_info_option_def)

interpretation asset_info_vec_entry: downcasting as_asset_info_vec
  by unfold_locales (simp add: as_asset_info_vec_def)

interpretation string_entry: downcasting as_string
  by unfold_locales (simp add: as_string_def)

interpretation u64_entry: downcasting as_u64
  by unfold_locales (simp add: as_u64_def)

interpretation node_info_entry: downcasting as_node_info
  by unfold_locales (simp add: as_node_info_def)

interpretation node_address_vec_entry: downcasting as_node_address_vec
  by unfold_locales (simp add: as_node_address_vec_def)

interpretation chain_properties_entry: downcasting as_chain_properties
  by unfold_locales (simp add: as_chain_properties_def)

interpretation block_info_vec_entry: downcasting as_block_info_vec
  by unfold_locales (simp add: as_block_info_vec_def)

interpretation raw_transaction_vec_entry: downcasting as_raw_transaction_vec
  by unfold_locales (simp add: as_raw_transaction_vec_def)

interpretation transaction_info_vec_entry: downcasting as_transaction_info_vec
  by unfold_locales (simp add: as_transaction_info_vec_def)

interpretation sign_weight_entry: downcasting as_sign_weight
  by unfold_locales (simp add: as_sign_weight_def)

interpretation address_vec_entry: downcasting as_address_vec
  by unfold_locales (simp add: as_address_vec_def)

interpretation account_net_entry: downcasting as_account_net
  by unfold_locales (simp add: as_account_net_def)

interpretation exchange_info_vec_entry: downcasting as_exchange_info_vec
  by unfold_locales (simp add: as_exchange_info_vec_def)

interpretation exchange_info_option_entry: downcasting as_exchange_info_option
  by unfold_locales (simp add: as_exchange_info_option_def)

interpretation market_order_info_option_entry: downcasting as_market_order_info_option
  by unfold_locales (simp add: as_market_order_info_option_def)

interpretation market_order_info_vec_entry: downcasting as_market_order_info_vec
  by unfold_locales (simp add: as_market_order_info_vec_def)

interpretation market_price_vec_entry: downcasting as_market_price_vec
  by unfold_locales (simp add: as_market_price_vec_def)

interpretation market_order_pair_vec_entry: downcasting as_market_order_pair_vec
  by unfold_locales (simp add: as_market_order_pair_vec_def)

text \<open>The queue of one type refuses a call at another.\<close>

lemma other_type_panics:
  "mock_panicked (snd (mock_pop as_u64 m (mock_push_ok as_i64 m v mock_new))) = Some (ResponseOfOtherType m)"
  by (simp add: mock_pop_def mock_push_ok_def mock_push_result_def mock_new_def mock_queue_def as_u64_def as_i64_def)

lemma memo_fees_in_order:
  "\<exists>s'. mock_pops as_u64 ''get_memo_fee'' 2
      (mock_push_err as_u64 ''get_memo_fee'' e (mock_push_ok as_u64 ''get_memo_fee'' v mock_new)) = ([Ok v, Err e], s')
    \<and> mock_panicked (snd (tr_get_memo_fee mock_transport s')) = Some (NoResponseQueued ''get_memo_fee'')"
  using u64_entry.in_order [of mock_new "''get_memo_fee''" "[Ok v, Err e]"]
  by (auto simp: mock_new_def mock_queue_def mock_push_ok_def mock_push_err_def mock_transport_def numeral_2_eq_2)

end
