(* ===== verification/Proto_Enums.thy ===== *)
theory Proto_Enums
  imports Answer_Codec Operation_Set Abi
begin

text \<open>
  The enumerations of \<open>crates/rpc-types/src/generated/protocol.rs\<close>: their numbers, the names of
  the schema (\<open>as_str_name\<close>, \<open>from_str_name\<close>) and reading a number (\<open>try_from\<close>, derived by
  \<open>prost\<close>).  Each is an instance of \<open>discriminant_codec\<close> twice, over its numbers and over its
  names.  The last section compares the enumerations the crates write by hand with these.
\<close>

lemma picked:
  "(if v = a then Some x else r) = Some y \<Longrightarrow> (v = a \<Longrightarrow> x = y \<Longrightarrow> P) \<Longrightarrow> (r = Some y \<Longrightarrow> P) \<Longrightarrow> P"
  by (simp split: if_splits)

section \<open>\<open>ResourceCode\<close>\<close>

datatype pb_resource_code =
    ResBandwidth
  | ResEnergy
  | ResTronPower

fun pb_resource_code_number :: "pb_resource_code \<Rightarrow> i32" where
  "pb_resource_code_number ResBandwidth = 0"
| "pb_resource_code_number ResEnergy = 1"
| "pb_resource_code_number ResTronPower = 2"

definition pb_resource_code_try_from :: "i32 \<Rightarrow> pb_resource_code option" where
  "pb_resource_code_try_from v =
     (if v = 0 then Some ResBandwidth
      else if v = 1 then Some ResEnergy
      else if v = 2 then Some ResTronPower
      else None)"

fun pb_resource_code_as_str_name :: "pb_resource_code \<Rightarrow> string" where
  "pb_resource_code_as_str_name ResBandwidth = ''BANDWIDTH''"
| "pb_resource_code_as_str_name ResEnergy = ''ENERGY''"
| "pb_resource_code_as_str_name ResTronPower = ''TRON_POWER''"

definition pb_resource_code_from_str_name :: "string \<Rightarrow> pb_resource_code option" where
  "pb_resource_code_from_str_name v =
     (if v = ''BANDWIDTH'' then Some ResBandwidth
      else if v = ''ENERGY'' then Some ResEnergy
      else if v = ''TRON_POWER'' then Some ResTronPower
      else None)"

interpretation pb_resource_code_numbers: discriminant_codec pb_resource_code_number pb_resource_code_try_from
proof unfold_locales
  show "pb_resource_code_try_from (pb_resource_code_number x) = Some x" for x by (cases x) (simp_all add: pb_resource_code_try_from_def)
  show "pb_resource_code_number x = n" if "pb_resource_code_try_from n = Some x" for n x
    using that unfolding pb_resource_code_try_from_def by (elim picked; simp)
qed

interpretation pb_resource_code_names: discriminant_codec pb_resource_code_as_str_name pb_resource_code_from_str_name
proof unfold_locales
  show "pb_resource_code_from_str_name (pb_resource_code_as_str_name x) = Some x" for x by (cases x) (simp_all add: pb_resource_code_from_str_name_def)
  show "pb_resource_code_as_str_name x = s" if "pb_resource_code_from_str_name s = Some x" for s x
    using that unfolding pb_resource_code_from_str_name_def by (elim picked; simp)
qed

section \<open>\<open>proposal::State\<close>\<close>

datatype pb_proposal_status =
    PropPending
  | PropDisapproved
  | PropApproved
  | PropCanceled

fun pb_proposal_status_number :: "pb_proposal_status \<Rightarrow> i32" where
  "pb_proposal_status_number PropPending = 0"
| "pb_proposal_status_number PropDisapproved = 1"
| "pb_proposal_status_number PropApproved = 2"
| "pb_proposal_status_number PropCanceled = 3"

definition pb_proposal_status_try_from :: "i32 \<Rightarrow> pb_proposal_status option" where
  "pb_proposal_status_try_from v =
     (if v = 0 then Some PropPending
      else if v = 1 then Some PropDisapproved
      else if v = 2 then Some PropApproved
      else if v = 3 then Some PropCanceled
      else None)"

fun pb_proposal_status_as_str_name :: "pb_proposal_status \<Rightarrow> string" where
  "pb_proposal_status_as_str_name PropPending = ''PENDING''"
| "pb_proposal_status_as_str_name PropDisapproved = ''DISAPPROVED''"
| "pb_proposal_status_as_str_name PropApproved = ''APPROVED''"
| "pb_proposal_status_as_str_name PropCanceled = ''CANCELED''"

definition pb_proposal_status_from_str_name :: "string \<Rightarrow> pb_proposal_status option" where
  "pb_proposal_status_from_str_name v =
     (if v = ''PENDING'' then Some PropPending
      else if v = ''DISAPPROVED'' then Some PropDisapproved
      else if v = ''APPROVED'' then Some PropApproved
      else if v = ''CANCELED'' then Some PropCanceled
      else None)"

interpretation pb_proposal_status_numbers: discriminant_codec pb_proposal_status_number pb_proposal_status_try_from
proof unfold_locales
  show "pb_proposal_status_try_from (pb_proposal_status_number x) = Some x" for x by (cases x) (simp_all add: pb_proposal_status_try_from_def)
  show "pb_proposal_status_number x = n" if "pb_proposal_status_try_from n = Some x" for n x
    using that unfolding pb_proposal_status_try_from_def by (elim picked; simp)
qed

interpretation pb_proposal_status_names: discriminant_codec pb_proposal_status_as_str_name pb_proposal_status_from_str_name
proof unfold_locales
  show "pb_proposal_status_from_str_name (pb_proposal_status_as_str_name x) = Some x" for x by (cases x) (simp_all add: pb_proposal_status_from_str_name_def)
  show "pb_proposal_status_as_str_name x = s" if "pb_proposal_status_from_str_name s = Some x" for s x
    using that unfolding pb_proposal_status_from_str_name_def by (elim picked; simp)
qed

section \<open>\<open>market_order::State\<close>\<close>

datatype pb_market_order_status =
    MktActive
  | MktInactive
  | MktCanceled

fun pb_market_order_status_number :: "pb_market_order_status \<Rightarrow> i32" where
  "pb_market_order_status_number MktActive = 0"
| "pb_market_order_status_number MktInactive = 1"
| "pb_market_order_status_number MktCanceled = 2"

definition pb_market_order_status_try_from :: "i32 \<Rightarrow> pb_market_order_status option" where
  "pb_market_order_status_try_from v =
     (if v = 0 then Some MktActive
      else if v = 1 then Some MktInactive
      else if v = 2 then Some MktCanceled
      else None)"

fun pb_market_order_status_as_str_name :: "pb_market_order_status \<Rightarrow> string" where
  "pb_market_order_status_as_str_name MktActive = ''ACTIVE''"
| "pb_market_order_status_as_str_name MktInactive = ''INACTIVE''"
| "pb_market_order_status_as_str_name MktCanceled = ''CANCELED''"

definition pb_market_order_status_from_str_name :: "string \<Rightarrow> pb_market_order_status option" where
  "pb_market_order_status_from_str_name v =
     (if v = ''ACTIVE'' then Some MktActive
      else if v = ''INACTIVE'' then Some MktInactive
      else if v = ''CANCELED'' then Some MktCanceled
      else None)"

interpretation pb_market_order_status_numbers: discriminant_codec pb_market_order_status_number pb_market_order_status_try_from
proof unfold_locales
  show "pb_market_order_status_try_from (pb_market_order_status_number x) = Some x" for x by (cases x) (simp_all add: pb_market_order_status_try_from_def)
  show "pb_market_order_status_number x = n" if "pb_market_order_status_try_from n = Some x" for n x
    using that unfolding pb_market_order_status_try_from_def by (elim picked; simp)
qed

interpretation pb_market_order_status_names: discriminant_codec pb_market_order_status_as_str_name pb_market_order_status_from_str_name
proof unfold_locales
  show "pb_market_order_status_from_str_name (pb_market_order_status_as_str_name x) = Some x" for x by (cases x) (simp_all add: pb_market_order_status_from_str_name_def)
  show "pb_market_order_status_as_str_name x = s" if "pb_market_order_status_from_str_name s = Some x" for s x
    using that unfolding pb_market_order_status_from_str_name_def by (elim picked; simp)
qed

section \<open>\<open>permission::PermissionType\<close>\<close>

definition pb_permission_type_try_from :: "i32 \<Rightarrow> permission_type option" where
  "pb_permission_type_try_from v =
     (if v = 0 then Some PermOwner
      else if v = 1 then Some PermWitness
      else if v = 2 then Some PermActive
      else None)"

fun pb_permission_type_as_str_name :: "permission_type \<Rightarrow> string" where
  "pb_permission_type_as_str_name PermOwner = ''Owner''"
| "pb_permission_type_as_str_name PermWitness = ''Witness''"
| "pb_permission_type_as_str_name PermActive = ''Active''"

definition pb_permission_type_from_str_name :: "string \<Rightarrow> permission_type option" where
  "pb_permission_type_from_str_name v =
     (if v = ''Owner'' then Some PermOwner
      else if v = ''Witness'' then Some PermWitness
      else if v = ''Active'' then Some PermActive
      else None)"

interpretation pb_permission_type_numbers: discriminant_codec permission_type_number pb_permission_type_try_from
proof unfold_locales
  show "pb_permission_type_try_from (permission_type_number x) = Some x" for x by (cases x) (simp_all add: pb_permission_type_try_from_def)
  show "permission_type_number x = n" if "pb_permission_type_try_from n = Some x" for n x
    using that unfolding pb_permission_type_try_from_def by (elim picked; simp)
qed

interpretation pb_permission_type_names: discriminant_codec pb_permission_type_as_str_name pb_permission_type_from_str_name
proof unfold_locales
  show "pb_permission_type_from_str_name (pb_permission_type_as_str_name x) = Some x" for x by (cases x) (simp_all add: pb_permission_type_from_str_name_def)
  show "pb_permission_type_as_str_name x = s" if "pb_permission_type_from_str_name s = Some x" for s x
    using that unfolding pb_permission_type_from_str_name_def by (elim picked; simp)
qed

section \<open>\<open>transaction::contract::ContractType\<close>\<close>

fun pb_contract_type_as_str_name :: "pb_contract_type \<Rightarrow> string" where
  "pb_contract_type_as_str_name PbAccountCreateContract = ''AccountCreateContract''"
| "pb_contract_type_as_str_name PbTransferContract = ''TransferContract''"
| "pb_contract_type_as_str_name PbTransferAssetContract = ''TransferAssetContract''"
| "pb_contract_type_as_str_name PbVoteAssetContract = ''VoteAssetContract''"
| "pb_contract_type_as_str_name PbVoteWitnessContract = ''VoteWitnessContract''"
| "pb_contract_type_as_str_name PbWitnessCreateContract = ''WitnessCreateContract''"
| "pb_contract_type_as_str_name PbAssetIssueContract = ''AssetIssueContract''"
| "pb_contract_type_as_str_name PbWitnessUpdateContract = ''WitnessUpdateContract''"
| "pb_contract_type_as_str_name PbParticipateAssetIssueContract = ''ParticipateAssetIssueContract''"
| "pb_contract_type_as_str_name PbAccountUpdateContract = ''AccountUpdateContract''"
| "pb_contract_type_as_str_name PbFreezeBalanceContract = ''FreezeBalanceContract''"
| "pb_contract_type_as_str_name PbUnfreezeBalanceContract = ''UnfreezeBalanceContract''"
| "pb_contract_type_as_str_name PbWithdrawBalanceContract = ''WithdrawBalanceContract''"
| "pb_contract_type_as_str_name PbUnfreezeAssetContract = ''UnfreezeAssetContract''"
| "pb_contract_type_as_str_name PbUpdateAssetContract = ''UpdateAssetContract''"
| "pb_contract_type_as_str_name PbProposalCreateContract = ''ProposalCreateContract''"
| "pb_contract_type_as_str_name PbProposalApproveContract = ''ProposalApproveContract''"
| "pb_contract_type_as_str_name PbProposalDeleteContract = ''ProposalDeleteContract''"
| "pb_contract_type_as_str_name PbSetAccountIdContract = ''SetAccountIdContract''"
| "pb_contract_type_as_str_name PbCustomContract = ''CustomContract''"
| "pb_contract_type_as_str_name PbCreateSmartContract = ''CreateSmartContract''"
| "pb_contract_type_as_str_name PbTriggerSmartContract = ''TriggerSmartContract''"
| "pb_contract_type_as_str_name PbGetContract = ''GetContract''"
| "pb_contract_type_as_str_name PbUpdateSettingContract = ''UpdateSettingContract''"
| "pb_contract_type_as_str_name PbExchangeCreateContract = ''ExchangeCreateContract''"
| "pb_contract_type_as_str_name PbExchangeInjectContract = ''ExchangeInjectContract''"
| "pb_contract_type_as_str_name PbExchangeWithdrawContract = ''ExchangeWithdrawContract''"
| "pb_contract_type_as_str_name PbExchangeTransactionContract = ''ExchangeTransactionContract''"
| "pb_contract_type_as_str_name PbUpdateEnergyLimitContract = ''UpdateEnergyLimitContract''"
| "pb_contract_type_as_str_name PbAccountPermissionUpdateContract = ''AccountPermissionUpdateContract''"
| "pb_contract_type_as_str_name PbClearAbiContract = ''ClearABIContract''"
| "pb_contract_type_as_str_name PbUpdateBrokerageContract = ''UpdateBrokerageContract''"
| "pb_contract_type_as_str_name PbShieldedTransferContract = ''ShieldedTransferContract''"
| "pb_contract_type_as_str_name PbMarketSellAssetContract = ''MarketSellAssetContract''"
| "pb_contract_type_as_str_name PbMarketCancelOrderContract = ''MarketCancelOrderContract''"
| "pb_contract_type_as_str_name PbFreezeBalanceV2Contract = ''FreezeBalanceV2Contract''"
| "pb_contract_type_as_str_name PbUnfreezeBalanceV2Contract = ''UnfreezeBalanceV2Contract''"
| "pb_contract_type_as_str_name PbWithdrawExpireUnfreezeContract = ''WithdrawExpireUnfreezeContract''"
| "pb_contract_type_as_str_name PbDelegateResourceContract = ''DelegateResourceContract''"
| "pb_contract_type_as_str_name PbUnDelegateResourceContract = ''UnDelegateResourceContract''"
| "pb_contract_type_as_str_name PbCancelAllUnfreezeV2Contract = ''CancelAllUnfreezeV2Contract''"

definition pb_contract_type_from_str_name :: "string \<Rightarrow> pb_contract_type option" where
  "pb_contract_type_from_str_name v =
     (if v = ''AccountCreateContract'' then Some PbAccountCreateContract
      else if v = ''TransferContract'' then Some PbTransferContract
      else if v = ''TransferAssetContract'' then Some PbTransferAssetContract
      else if v = ''VoteAssetContract'' then Some PbVoteAssetContract
      else if v = ''VoteWitnessContract'' then Some PbVoteWitnessContract
      else if v = ''WitnessCreateContract'' then Some PbWitnessCreateContract
      else if v = ''AssetIssueContract'' then Some PbAssetIssueContract
      else if v = ''WitnessUpdateContract'' then Some PbWitnessUpdateContract
      else if v = ''ParticipateAssetIssueContract'' then Some PbParticipateAssetIssueContract
      else if v = ''AccountUpdateContract'' then Some PbAccountUpdateContract
      else if v = ''FreezeBalanceContract'' then Some PbFreezeBalanceContract
      else if v = ''UnfreezeBalanceContract'' then Some PbUnfreezeBalanceContract
      else if v = ''WithdrawBalanceContract'' then Some PbWithdrawBalanceContract
      else if v = ''UnfreezeAssetContract'' then Some PbUnfreezeAssetContract
      else if v = ''UpdateAssetContract'' then Some PbUpdateAssetContract
      else if v = ''ProposalCreateContract'' then Some PbProposalCreateContract
      else if v = ''ProposalApproveContract'' then Some PbProposalApproveContract
      else if v = ''ProposalDeleteContract'' then Some PbProposalDeleteContract
      else if v = ''SetAccountIdContract'' then Some PbSetAccountIdContract
      else if v = ''CustomContract'' then Some PbCustomContract
      else if v = ''CreateSmartContract'' then Some PbCreateSmartContract
      else if v = ''TriggerSmartContract'' then Some PbTriggerSmartContract
      else if v = ''GetContract'' then Some PbGetContract
      else if v = ''UpdateSettingContract'' then Some PbUpdateSettingContract
      else if v = ''ExchangeCreateContract'' then Some PbExchangeCreateContract
      else if v = ''ExchangeInjectContract'' then Some PbExchangeInjectContract
      else if v = ''ExchangeWithdrawContract'' then Some PbExchangeWithdrawContract
      else if v = ''ExchangeTransactionContract'' then Some PbExchangeTransactionContract
      else if v = ''UpdateEnergyLimitContract'' then Some PbUpdateEnergyLimitContract
      else if v = ''AccountPermissionUpdateContract'' then Some PbAccountPermissionUpdateContract
      else if v = ''ClearABIContract'' then Some PbClearAbiContract
      else if v = ''UpdateBrokerageContract'' then Some PbUpdateBrokerageContract
      else if v = ''ShieldedTransferContract'' then Some PbShieldedTransferContract
      else if v = ''MarketSellAssetContract'' then Some PbMarketSellAssetContract
      else if v = ''MarketCancelOrderContract'' then Some PbMarketCancelOrderContract
      else if v = ''FreezeBalanceV2Contract'' then Some PbFreezeBalanceV2Contract
      else if v = ''UnfreezeBalanceV2Contract'' then Some PbUnfreezeBalanceV2Contract
      else if v = ''WithdrawExpireUnfreezeContract'' then Some PbWithdrawExpireUnfreezeContract
      else if v = ''DelegateResourceContract'' then Some PbDelegateResourceContract
      else if v = ''UnDelegateResourceContract'' then Some PbUnDelegateResourceContract
      else if v = ''CancelAllUnfreezeV2Contract'' then Some PbCancelAllUnfreezeV2Contract
      else None)"

interpretation pb_contract_type_numbers: discriminant_codec pb_contract_type_number pb_contract_type_try_from
proof unfold_locales
  show "pb_contract_type_try_from (pb_contract_type_number x) = Some x" for x
    by (cases x) (simp_all add: pb_contract_type_try_from_def pb_contract_types_def)
  show "pb_contract_type_number x = n" if "pb_contract_type_try_from n = Some x" for n x
    using that by (simp add: pb_contract_type_try_from_def find_Some_iff) blast
qed

interpretation pb_contract_type_names: discriminant_codec pb_contract_type_as_str_name pb_contract_type_from_str_name
proof unfold_locales
  show "pb_contract_type_from_str_name (pb_contract_type_as_str_name x) = Some x" for x by (cases x) (simp_all add: pb_contract_type_from_str_name_def)
  show "pb_contract_type_as_str_name x = s" if "pb_contract_type_from_str_name s = Some x" for s x
    using that unfolding pb_contract_type_from_str_name_def by (elim picked; simp)
qed

section \<open>\<open>transaction::result::Code\<close>\<close>

datatype pb_result_code =
    ResultCodeSucess
  | ResultCodeFailed

fun pb_result_code_number :: "pb_result_code \<Rightarrow> i32" where
  "pb_result_code_number ResultCodeSucess = 0"
| "pb_result_code_number ResultCodeFailed = 1"

definition pb_result_code_try_from :: "i32 \<Rightarrow> pb_result_code option" where
  "pb_result_code_try_from v =
     (if v = 0 then Some ResultCodeSucess
      else if v = 1 then Some ResultCodeFailed
      else None)"

fun pb_result_code_as_str_name :: "pb_result_code \<Rightarrow> string" where
  "pb_result_code_as_str_name ResultCodeSucess = ''SUCESS''"
| "pb_result_code_as_str_name ResultCodeFailed = ''FAILED''"

definition pb_result_code_from_str_name :: "string \<Rightarrow> pb_result_code option" where
  "pb_result_code_from_str_name v =
     (if v = ''SUCESS'' then Some ResultCodeSucess
      else if v = ''FAILED'' then Some ResultCodeFailed
      else None)"

interpretation pb_result_code_numbers: discriminant_codec pb_result_code_number pb_result_code_try_from
proof unfold_locales
  show "pb_result_code_try_from (pb_result_code_number x) = Some x" for x by (cases x) (simp_all add: pb_result_code_try_from_def)
  show "pb_result_code_number x = n" if "pb_result_code_try_from n = Some x" for n x
    using that unfolding pb_result_code_try_from_def by (elim picked; simp)
qed

interpretation pb_result_code_names: discriminant_codec pb_result_code_as_str_name pb_result_code_from_str_name
proof unfold_locales
  show "pb_result_code_from_str_name (pb_result_code_as_str_name x) = Some x" for x by (cases x) (simp_all add: pb_result_code_from_str_name_def)
  show "pb_result_code_as_str_name x = s" if "pb_result_code_from_str_name s = Some x" for s x
    using that unfolding pb_result_code_from_str_name_def by (elim picked; simp)
qed

section \<open>\<open>transaction::result::ContractResult\<close>\<close>

datatype pb_contract_result =
    VmDefault
  | VmSuccess
  | VmRevert
  | VmBadJumpDestination
  | VmOutOfMemory
  | VmPrecompiledContract
  | VmStackTooSmall
  | VmStackTooLarge
  | VmIllegalOperation
  | VmStackOverflow
  | VmOutOfEnergy
  | VmOutOfTime
  | VmJvmStackOverFlow
  | VmUnknown
  | VmTransferFailed
  | VmInvalidCode

fun pb_contract_result_number :: "pb_contract_result \<Rightarrow> i32" where
  "pb_contract_result_number VmDefault = 0"
| "pb_contract_result_number VmSuccess = 1"
| "pb_contract_result_number VmRevert = 2"
| "pb_contract_result_number VmBadJumpDestination = 3"
| "pb_contract_result_number VmOutOfMemory = 4"
| "pb_contract_result_number VmPrecompiledContract = 5"
| "pb_contract_result_number VmStackTooSmall = 6"
| "pb_contract_result_number VmStackTooLarge = 7"
| "pb_contract_result_number VmIllegalOperation = 8"
| "pb_contract_result_number VmStackOverflow = 9"
| "pb_contract_result_number VmOutOfEnergy = 10"
| "pb_contract_result_number VmOutOfTime = 11"
| "pb_contract_result_number VmJvmStackOverFlow = 12"
| "pb_contract_result_number VmUnknown = 13"
| "pb_contract_result_number VmTransferFailed = 14"
| "pb_contract_result_number VmInvalidCode = 15"

definition pb_contract_result_try_from :: "i32 \<Rightarrow> pb_contract_result option" where
  "pb_contract_result_try_from v =
     (if v = 0 then Some VmDefault
      else if v = 1 then Some VmSuccess
      else if v = 2 then Some VmRevert
      else if v = 3 then Some VmBadJumpDestination
      else if v = 4 then Some VmOutOfMemory
      else if v = 5 then Some VmPrecompiledContract
      else if v = 6 then Some VmStackTooSmall
      else if v = 7 then Some VmStackTooLarge
      else if v = 8 then Some VmIllegalOperation
      else if v = 9 then Some VmStackOverflow
      else if v = 10 then Some VmOutOfEnergy
      else if v = 11 then Some VmOutOfTime
      else if v = 12 then Some VmJvmStackOverFlow
      else if v = 13 then Some VmUnknown
      else if v = 14 then Some VmTransferFailed
      else if v = 15 then Some VmInvalidCode
      else None)"

fun pb_contract_result_as_str_name :: "pb_contract_result \<Rightarrow> string" where
  "pb_contract_result_as_str_name VmDefault = ''DEFAULT''"
| "pb_contract_result_as_str_name VmSuccess = ''SUCCESS''"
| "pb_contract_result_as_str_name VmRevert = ''REVERT''"
| "pb_contract_result_as_str_name VmBadJumpDestination = ''BAD_JUMP_DESTINATION''"
| "pb_contract_result_as_str_name VmOutOfMemory = ''OUT_OF_MEMORY''"
| "pb_contract_result_as_str_name VmPrecompiledContract = ''PRECOMPILED_CONTRACT''"
| "pb_contract_result_as_str_name VmStackTooSmall = ''STACK_TOO_SMALL''"
| "pb_contract_result_as_str_name VmStackTooLarge = ''STACK_TOO_LARGE''"
| "pb_contract_result_as_str_name VmIllegalOperation = ''ILLEGAL_OPERATION''"
| "pb_contract_result_as_str_name VmStackOverflow = ''STACK_OVERFLOW''"
| "pb_contract_result_as_str_name VmOutOfEnergy = ''OUT_OF_ENERGY''"
| "pb_contract_result_as_str_name VmOutOfTime = ''OUT_OF_TIME''"
| "pb_contract_result_as_str_name VmJvmStackOverFlow = ''JVM_STACK_OVER_FLOW''"
| "pb_contract_result_as_str_name VmUnknown = ''UNKNOWN''"
| "pb_contract_result_as_str_name VmTransferFailed = ''TRANSFER_FAILED''"
| "pb_contract_result_as_str_name VmInvalidCode = ''INVALID_CODE''"

definition pb_contract_result_from_str_name :: "string \<Rightarrow> pb_contract_result option" where
  "pb_contract_result_from_str_name v =
     (if v = ''DEFAULT'' then Some VmDefault
      else if v = ''SUCCESS'' then Some VmSuccess
      else if v = ''REVERT'' then Some VmRevert
      else if v = ''BAD_JUMP_DESTINATION'' then Some VmBadJumpDestination
      else if v = ''OUT_OF_MEMORY'' then Some VmOutOfMemory
      else if v = ''PRECOMPILED_CONTRACT'' then Some VmPrecompiledContract
      else if v = ''STACK_TOO_SMALL'' then Some VmStackTooSmall
      else if v = ''STACK_TOO_LARGE'' then Some VmStackTooLarge
      else if v = ''ILLEGAL_OPERATION'' then Some VmIllegalOperation
      else if v = ''STACK_OVERFLOW'' then Some VmStackOverflow
      else if v = ''OUT_OF_ENERGY'' then Some VmOutOfEnergy
      else if v = ''OUT_OF_TIME'' then Some VmOutOfTime
      else if v = ''JVM_STACK_OVER_FLOW'' then Some VmJvmStackOverFlow
      else if v = ''UNKNOWN'' then Some VmUnknown
      else if v = ''TRANSFER_FAILED'' then Some VmTransferFailed
      else if v = ''INVALID_CODE'' then Some VmInvalidCode
      else None)"

interpretation pb_contract_result_numbers: discriminant_codec pb_contract_result_number pb_contract_result_try_from
proof unfold_locales
  show "pb_contract_result_try_from (pb_contract_result_number x) = Some x" for x by (cases x) (simp_all add: pb_contract_result_try_from_def)
  show "pb_contract_result_number x = n" if "pb_contract_result_try_from n = Some x" for n x
    using that unfolding pb_contract_result_try_from_def by (elim picked; simp)
qed

interpretation pb_contract_result_names: discriminant_codec pb_contract_result_as_str_name pb_contract_result_from_str_name
proof unfold_locales
  show "pb_contract_result_from_str_name (pb_contract_result_as_str_name x) = Some x" for x by (cases x) (simp_all add: pb_contract_result_from_str_name_def)
  show "pb_contract_result_as_str_name x = s" if "pb_contract_result_from_str_name s = Some x" for s x
    using that unfolding pb_contract_result_from_str_name_def by (elim picked; simp)
qed

section \<open>\<open>transaction_info::Code\<close>\<close>

datatype pb_info_code =
    InfoCodeSucess
  | InfoCodeFailed

fun pb_info_code_number :: "pb_info_code \<Rightarrow> i32" where
  "pb_info_code_number InfoCodeSucess = 0"
| "pb_info_code_number InfoCodeFailed = 1"

definition pb_info_code_try_from :: "i32 \<Rightarrow> pb_info_code option" where
  "pb_info_code_try_from v =
     (if v = 0 then Some InfoCodeSucess
      else if v = 1 then Some InfoCodeFailed
      else None)"

fun pb_info_code_as_str_name :: "pb_info_code \<Rightarrow> string" where
  "pb_info_code_as_str_name InfoCodeSucess = ''SUCESS''"
| "pb_info_code_as_str_name InfoCodeFailed = ''FAILED''"

definition pb_info_code_from_str_name :: "string \<Rightarrow> pb_info_code option" where
  "pb_info_code_from_str_name v =
     (if v = ''SUCESS'' then Some InfoCodeSucess
      else if v = ''FAILED'' then Some InfoCodeFailed
      else None)"

interpretation pb_info_code_numbers: discriminant_codec pb_info_code_number pb_info_code_try_from
proof unfold_locales
  show "pb_info_code_try_from (pb_info_code_number x) = Some x" for x by (cases x) (simp_all add: pb_info_code_try_from_def)
  show "pb_info_code_number x = n" if "pb_info_code_try_from n = Some x" for n x
    using that unfolding pb_info_code_try_from_def by (elim picked; simp)
qed

interpretation pb_info_code_names: discriminant_codec pb_info_code_as_str_name pb_info_code_from_str_name
proof unfold_locales
  show "pb_info_code_from_str_name (pb_info_code_as_str_name x) = Some x" for x by (cases x) (simp_all add: pb_info_code_from_str_name_def)
  show "pb_info_code_as_str_name x = s" if "pb_info_code_from_str_name s = Some x" for s x
    using that unfolding pb_info_code_from_str_name_def by (elim picked; simp)
qed

section \<open>\<open>block_inventory::Type\<close>\<close>

datatype pb_block_inventory_type =
    BlockInvSync
  | BlockInvAdvtise
  | BlockInvFetch

fun pb_block_inventory_type_number :: "pb_block_inventory_type \<Rightarrow> i32" where
  "pb_block_inventory_type_number BlockInvSync = 0"
| "pb_block_inventory_type_number BlockInvAdvtise = 1"
| "pb_block_inventory_type_number BlockInvFetch = 2"

definition pb_block_inventory_type_try_from :: "i32 \<Rightarrow> pb_block_inventory_type option" where
  "pb_block_inventory_type_try_from v =
     (if v = 0 then Some BlockInvSync
      else if v = 1 then Some BlockInvAdvtise
      else if v = 2 then Some BlockInvFetch
      else None)"

fun pb_block_inventory_type_as_str_name :: "pb_block_inventory_type \<Rightarrow> string" where
  "pb_block_inventory_type_as_str_name BlockInvSync = ''SYNC''"
| "pb_block_inventory_type_as_str_name BlockInvAdvtise = ''ADVTISE''"
| "pb_block_inventory_type_as_str_name BlockInvFetch = ''FETCH''"

definition pb_block_inventory_type_from_str_name :: "string \<Rightarrow> pb_block_inventory_type option" where
  "pb_block_inventory_type_from_str_name v =
     (if v = ''SYNC'' then Some BlockInvSync
      else if v = ''ADVTISE'' then Some BlockInvAdvtise
      else if v = ''FETCH'' then Some BlockInvFetch
      else None)"

interpretation pb_block_inventory_type_numbers: discriminant_codec pb_block_inventory_type_number pb_block_inventory_type_try_from
proof unfold_locales
  show "pb_block_inventory_type_try_from (pb_block_inventory_type_number x) = Some x" for x by (cases x) (simp_all add: pb_block_inventory_type_try_from_def)
  show "pb_block_inventory_type_number x = n" if "pb_block_inventory_type_try_from n = Some x" for n x
    using that unfolding pb_block_inventory_type_try_from_def by (elim picked; simp)
qed

interpretation pb_block_inventory_type_names: discriminant_codec pb_block_inventory_type_as_str_name pb_block_inventory_type_from_str_name
proof unfold_locales
  show "pb_block_inventory_type_from_str_name (pb_block_inventory_type_as_str_name x) = Some x" for x by (cases x) (simp_all add: pb_block_inventory_type_from_str_name_def)
  show "pb_block_inventory_type_as_str_name x = s" if "pb_block_inventory_type_from_str_name s = Some x" for s x
    using that unfolding pb_block_inventory_type_from_str_name_def by (elim picked; simp)
qed

section \<open>\<open>inventory::InventoryType\<close>\<close>

datatype pb_inventory_type =
    InvTrx
  | InvBlock

fun pb_inventory_type_number :: "pb_inventory_type \<Rightarrow> i32" where
  "pb_inventory_type_number InvTrx = 0"
| "pb_inventory_type_number InvBlock = 1"

definition pb_inventory_type_try_from :: "i32 \<Rightarrow> pb_inventory_type option" where
  "pb_inventory_type_try_from v =
     (if v = 0 then Some InvTrx
      else if v = 1 then Some InvBlock
      else None)"

fun pb_inventory_type_as_str_name :: "pb_inventory_type \<Rightarrow> string" where
  "pb_inventory_type_as_str_name InvTrx = ''TRX''"
| "pb_inventory_type_as_str_name InvBlock = ''BLOCK''"

definition pb_inventory_type_from_str_name :: "string \<Rightarrow> pb_inventory_type option" where
  "pb_inventory_type_from_str_name v =
     (if v = ''TRX'' then Some InvTrx
      else if v = ''BLOCK'' then Some InvBlock
      else None)"

interpretation pb_inventory_type_numbers: discriminant_codec pb_inventory_type_number pb_inventory_type_try_from
proof unfold_locales
  show "pb_inventory_type_try_from (pb_inventory_type_number x) = Some x" for x by (cases x) (simp_all add: pb_inventory_type_try_from_def)
  show "pb_inventory_type_number x = n" if "pb_inventory_type_try_from n = Some x" for n x
    using that unfolding pb_inventory_type_try_from_def by (elim picked; simp)
qed

interpretation pb_inventory_type_names: discriminant_codec pb_inventory_type_as_str_name pb_inventory_type_from_str_name
proof unfold_locales
  show "pb_inventory_type_from_str_name (pb_inventory_type_as_str_name x) = Some x" for x by (cases x) (simp_all add: pb_inventory_type_from_str_name_def)
  show "pb_inventory_type_as_str_name x = s" if "pb_inventory_type_from_str_name s = Some x" for s x
    using that unfolding pb_inventory_type_from_str_name_def by (elim picked; simp)
qed

section \<open>\<open>items::ItemType\<close>\<close>

datatype pb_item_type =
    ItemErr
  | ItemTrx
  | ItemBlock
  | ItemBlockheader

fun pb_item_type_number :: "pb_item_type \<Rightarrow> i32" where
  "pb_item_type_number ItemErr = 0"
| "pb_item_type_number ItemTrx = 1"
| "pb_item_type_number ItemBlock = 2"
| "pb_item_type_number ItemBlockheader = 3"

definition pb_item_type_try_from :: "i32 \<Rightarrow> pb_item_type option" where
  "pb_item_type_try_from v =
     (if v = 0 then Some ItemErr
      else if v = 1 then Some ItemTrx
      else if v = 2 then Some ItemBlock
      else if v = 3 then Some ItemBlockheader
      else None)"

fun pb_item_type_as_str_name :: "pb_item_type \<Rightarrow> string" where
  "pb_item_type_as_str_name ItemErr = ''ERR''"
| "pb_item_type_as_str_name ItemTrx = ''TRX''"
| "pb_item_type_as_str_name ItemBlock = ''BLOCK''"
| "pb_item_type_as_str_name ItemBlockheader = ''BLOCKHEADER''"

definition pb_item_type_from_str_name :: "string \<Rightarrow> pb_item_type option" where
  "pb_item_type_from_str_name v =
     (if v = ''ERR'' then Some ItemErr
      else if v = ''TRX'' then Some ItemTrx
      else if v = ''BLOCK'' then Some ItemBlock
      else if v = ''BLOCKHEADER'' then Some ItemBlockheader
      else None)"

interpretation pb_item_type_numbers: discriminant_codec pb_item_type_number pb_item_type_try_from
proof unfold_locales
  show "pb_item_type_try_from (pb_item_type_number x) = Some x" for x by (cases x) (simp_all add: pb_item_type_try_from_def)
  show "pb_item_type_number x = n" if "pb_item_type_try_from n = Some x" for n x
    using that unfolding pb_item_type_try_from_def by (elim picked; simp)
qed

interpretation pb_item_type_names: discriminant_codec pb_item_type_as_str_name pb_item_type_from_str_name
proof unfold_locales
  show "pb_item_type_from_str_name (pb_item_type_as_str_name x) = Some x" for x by (cases x) (simp_all add: pb_item_type_from_str_name_def)
  show "pb_item_type_as_str_name x = s" if "pb_item_type_from_str_name s = Some x" for s x
    using that unfolding pb_item_type_from_str_name_def by (elim picked; simp)
qed

section \<open>\<open>pbft_message::MsgType\<close>\<close>

datatype pb_pbft_msg_type =
    PbftMsgViewChange
  | PbftMsgRequest
  | PbftMsgPreprepare
  | PbftMsgPrepare
  | PbftMsgCommit

fun pb_pbft_msg_type_number :: "pb_pbft_msg_type \<Rightarrow> i32" where
  "pb_pbft_msg_type_number PbftMsgViewChange = 0"
| "pb_pbft_msg_type_number PbftMsgRequest = 1"
| "pb_pbft_msg_type_number PbftMsgPreprepare = 2"
| "pb_pbft_msg_type_number PbftMsgPrepare = 3"
| "pb_pbft_msg_type_number PbftMsgCommit = 4"

definition pb_pbft_msg_type_try_from :: "i32 \<Rightarrow> pb_pbft_msg_type option" where
  "pb_pbft_msg_type_try_from v =
     (if v = 0 then Some PbftMsgViewChange
      else if v = 1 then Some PbftMsgRequest
      else if v = 2 then Some PbftMsgPreprepare
      else if v = 3 then Some PbftMsgPrepare
      else if v = 4 then Some PbftMsgCommit
      else None)"

fun pb_pbft_msg_type_as_str_name :: "pb_pbft_msg_type \<Rightarrow> string" where
  "pb_pbft_msg_type_as_str_name PbftMsgViewChange = ''VIEW_CHANGE''"
| "pb_pbft_msg_type_as_str_name PbftMsgRequest = ''REQUEST''"
| "pb_pbft_msg_type_as_str_name PbftMsgPreprepare = ''PREPREPARE''"
| "pb_pbft_msg_type_as_str_name PbftMsgPrepare = ''PREPARE''"
| "pb_pbft_msg_type_as_str_name PbftMsgCommit = ''COMMIT''"

definition pb_pbft_msg_type_from_str_name :: "string \<Rightarrow> pb_pbft_msg_type option" where
  "pb_pbft_msg_type_from_str_name v =
     (if v = ''VIEW_CHANGE'' then Some PbftMsgViewChange
      else if v = ''REQUEST'' then Some PbftMsgRequest
      else if v = ''PREPREPARE'' then Some PbftMsgPreprepare
      else if v = ''PREPARE'' then Some PbftMsgPrepare
      else if v = ''COMMIT'' then Some PbftMsgCommit
      else None)"

interpretation pb_pbft_msg_type_numbers: discriminant_codec pb_pbft_msg_type_number pb_pbft_msg_type_try_from
proof unfold_locales
  show "pb_pbft_msg_type_try_from (pb_pbft_msg_type_number x) = Some x" for x by (cases x) (simp_all add: pb_pbft_msg_type_try_from_def)
  show "pb_pbft_msg_type_number x = n" if "pb_pbft_msg_type_try_from n = Some x" for n x
    using that unfolding pb_pbft_msg_type_try_from_def by (elim picked; simp)
qed

interpretation pb_pbft_msg_type_names: discriminant_codec pb_pbft_msg_type_as_str_name pb_pbft_msg_type_from_str_name
proof unfold_locales
  show "pb_pbft_msg_type_from_str_name (pb_pbft_msg_type_as_str_name x) = Some x" for x by (cases x) (simp_all add: pb_pbft_msg_type_from_str_name_def)
  show "pb_pbft_msg_type_as_str_name x = s" if "pb_pbft_msg_type_from_str_name s = Some x" for s x
    using that unfolding pb_pbft_msg_type_from_str_name_def by (elim picked; simp)
qed

section \<open>\<open>pbft_message::DataType\<close>\<close>

datatype pb_pbft_data_type =
    PbftDataBlock
  | PbftDataSrl

fun pb_pbft_data_type_number :: "pb_pbft_data_type \<Rightarrow> i32" where
  "pb_pbft_data_type_number PbftDataBlock = 0"
| "pb_pbft_data_type_number PbftDataSrl = 1"

definition pb_pbft_data_type_try_from :: "i32 \<Rightarrow> pb_pbft_data_type option" where
  "pb_pbft_data_type_try_from v =
     (if v = 0 then Some PbftDataBlock
      else if v = 1 then Some PbftDataSrl
      else None)"

fun pb_pbft_data_type_as_str_name :: "pb_pbft_data_type \<Rightarrow> string" where
  "pb_pbft_data_type_as_str_name PbftDataBlock = ''BLOCK''"
| "pb_pbft_data_type_as_str_name PbftDataSrl = ''SRL''"

definition pb_pbft_data_type_from_str_name :: "string \<Rightarrow> pb_pbft_data_type option" where
  "pb_pbft_data_type_from_str_name v =
     (if v = ''BLOCK'' then Some PbftDataBlock
      else if v = ''SRL'' then Some PbftDataSrl
      else None)"

interpretation pb_pbft_data_type_numbers: discriminant_codec pb_pbft_data_type_number pb_pbft_data_type_try_from
proof unfold_locales
  show "pb_pbft_data_type_try_from (pb_pbft_data_type_number x) = Some x" for x by (cases x) (simp_all add: pb_pbft_data_type_try_from_def)
  show "pb_pbft_data_type_number x = n" if "pb_pbft_data_type_try_from n = Some x" for n x
    using that unfolding pb_pbft_data_type_try_from_def by (elim picked; simp)
qed

interpretation pb_pbft_data_type_names: discriminant_codec pb_pbft_data_type_as_str_name pb_pbft_data_type_from_str_name
proof unfold_locales
  show "pb_pbft_data_type_from_str_name (pb_pbft_data_type_as_str_name x) = Some x" for x by (cases x) (simp_all add: pb_pbft_data_type_from_str_name_def)
  show "pb_pbft_data_type_as_str_name x = s" if "pb_pbft_data_type_from_str_name s = Some x" for s x
    using that unfolding pb_pbft_data_type_from_str_name_def by (elim picked; simp)
qed

section \<open>\<open>AccountType\<close>\<close>

datatype pb_account_type_code =
    AccNormal
  | AccAssetIssue
  | AccContract

fun pb_account_type_code_number :: "pb_account_type_code \<Rightarrow> i32" where
  "pb_account_type_code_number AccNormal = 0"
| "pb_account_type_code_number AccAssetIssue = 1"
| "pb_account_type_code_number AccContract = 2"

definition pb_account_type_code_try_from :: "i32 \<Rightarrow> pb_account_type_code option" where
  "pb_account_type_code_try_from v =
     (if v = 0 then Some AccNormal
      else if v = 1 then Some AccAssetIssue
      else if v = 2 then Some AccContract
      else None)"

fun pb_account_type_code_as_str_name :: "pb_account_type_code \<Rightarrow> string" where
  "pb_account_type_code_as_str_name AccNormal = ''Normal''"
| "pb_account_type_code_as_str_name AccAssetIssue = ''AssetIssue''"
| "pb_account_type_code_as_str_name AccContract = ''Contract''"

definition pb_account_type_code_from_str_name :: "string \<Rightarrow> pb_account_type_code option" where
  "pb_account_type_code_from_str_name v =
     (if v = ''Normal'' then Some AccNormal
      else if v = ''AssetIssue'' then Some AccAssetIssue
      else if v = ''Contract'' then Some AccContract
      else None)"

interpretation pb_account_type_code_numbers: discriminant_codec pb_account_type_code_number pb_account_type_code_try_from
proof unfold_locales
  show "pb_account_type_code_try_from (pb_account_type_code_number x) = Some x" for x by (cases x) (simp_all add: pb_account_type_code_try_from_def)
  show "pb_account_type_code_number x = n" if "pb_account_type_code_try_from n = Some x" for n x
    using that unfolding pb_account_type_code_try_from_def by (elim picked; simp)
qed

interpretation pb_account_type_code_names: discriminant_codec pb_account_type_code_as_str_name pb_account_type_code_from_str_name
proof unfold_locales
  show "pb_account_type_code_from_str_name (pb_account_type_code_as_str_name x) = Some x" for x by (cases x) (simp_all add: pb_account_type_code_from_str_name_def)
  show "pb_account_type_code_as_str_name x = s" if "pb_account_type_code_from_str_name s = Some x" for s x
    using that unfolding pb_account_type_code_from_str_name_def by (elim picked; simp)
qed

section \<open>\<open>ReasonCode\<close>\<close>

datatype pb_reason_code =
    ReasonRequested
  | ReasonBadProtocol
  | ReasonTooManyPeers
  | ReasonDuplicatePeer
  | ReasonIncompatibleProtocol
  | ReasonRandomElimination
  | ReasonPeerQuiting
  | ReasonUnexpectedIdentity
  | ReasonLocalIdentity
  | ReasonPingTimeout
  | ReasonUserReason
  | ReasonReset
  | ReasonSyncFail
  | ReasonFetchFail
  | ReasonBadTx
  | ReasonBadBlock
  | ReasonForked
  | ReasonUnlinkable
  | ReasonIncompatibleVersion
  | ReasonIncompatibleChain
  | ReasonTimeOut
  | ReasonConnectFail
  | ReasonTooManyPeersWithSameIp
  | ReasonLightNodeSyncFail
  | ReasonBelowThanMe
  | ReasonNotWitness
  | ReasonNoSuchMessage
  | ReasonUnknown

fun pb_reason_code_number :: "pb_reason_code \<Rightarrow> i32" where
  "pb_reason_code_number ReasonRequested = 0"
| "pb_reason_code_number ReasonBadProtocol = 2"
| "pb_reason_code_number ReasonTooManyPeers = 4"
| "pb_reason_code_number ReasonDuplicatePeer = 5"
| "pb_reason_code_number ReasonIncompatibleProtocol = 6"
| "pb_reason_code_number ReasonRandomElimination = 7"
| "pb_reason_code_number ReasonPeerQuiting = 8"
| "pb_reason_code_number ReasonUnexpectedIdentity = 9"
| "pb_reason_code_number ReasonLocalIdentity = 10"
| "pb_reason_code_number ReasonPingTimeout = 11"
| "pb_reason_code_number ReasonUserReason = 16"
| "pb_reason_code_number ReasonReset = 17"
| "pb_reason_code_number ReasonSyncFail = 18"
| "pb_reason_code_number ReasonFetchFail = 19"
| "pb_reason_code_number ReasonBadTx = 20"
| "pb_reason_code_number ReasonBadBlock = 21"
| "pb_reason_code_number ReasonForked = 22"
| "pb_reason_code_number ReasonUnlinkable = 23"
| "pb_reason_code_number ReasonIncompatibleVersion = 24"
| "pb_reason_code_number ReasonIncompatibleChain = 25"
| "pb_reason_code_number ReasonTimeOut = 32"
| "pb_reason_code_number ReasonConnectFail = 33"
| "pb_reason_code_number ReasonTooManyPeersWithSameIp = 34"
| "pb_reason_code_number ReasonLightNodeSyncFail = 35"
| "pb_reason_code_number ReasonBelowThanMe = 36"
| "pb_reason_code_number ReasonNotWitness = 37"
| "pb_reason_code_number ReasonNoSuchMessage = 38"
| "pb_reason_code_number ReasonUnknown = 255"

definition pb_reason_code_try_from :: "i32 \<Rightarrow> pb_reason_code option" where
  "pb_reason_code_try_from v =
     (if v = 0 then Some ReasonRequested
      else if v = 2 then Some ReasonBadProtocol
      else if v = 4 then Some ReasonTooManyPeers
      else if v = 5 then Some ReasonDuplicatePeer
      else if v = 6 then Some ReasonIncompatibleProtocol
      else if v = 7 then Some ReasonRandomElimination
      else if v = 8 then Some ReasonPeerQuiting
      else if v = 9 then Some ReasonUnexpectedIdentity
      else if v = 10 then Some ReasonLocalIdentity
      else if v = 11 then Some ReasonPingTimeout
      else if v = 16 then Some ReasonUserReason
      else if v = 17 then Some ReasonReset
      else if v = 18 then Some ReasonSyncFail
      else if v = 19 then Some ReasonFetchFail
      else if v = 20 then Some ReasonBadTx
      else if v = 21 then Some ReasonBadBlock
      else if v = 22 then Some ReasonForked
      else if v = 23 then Some ReasonUnlinkable
      else if v = 24 then Some ReasonIncompatibleVersion
      else if v = 25 then Some ReasonIncompatibleChain
      else if v = 32 then Some ReasonTimeOut
      else if v = 33 then Some ReasonConnectFail
      else if v = 34 then Some ReasonTooManyPeersWithSameIp
      else if v = 35 then Some ReasonLightNodeSyncFail
      else if v = 36 then Some ReasonBelowThanMe
      else if v = 37 then Some ReasonNotWitness
      else if v = 38 then Some ReasonNoSuchMessage
      else if v = 255 then Some ReasonUnknown
      else None)"

fun pb_reason_code_as_str_name :: "pb_reason_code \<Rightarrow> string" where
  "pb_reason_code_as_str_name ReasonRequested = ''REQUESTED''"
| "pb_reason_code_as_str_name ReasonBadProtocol = ''BAD_PROTOCOL''"
| "pb_reason_code_as_str_name ReasonTooManyPeers = ''TOO_MANY_PEERS''"
| "pb_reason_code_as_str_name ReasonDuplicatePeer = ''DUPLICATE_PEER''"
| "pb_reason_code_as_str_name ReasonIncompatibleProtocol = ''INCOMPATIBLE_PROTOCOL''"
| "pb_reason_code_as_str_name ReasonRandomElimination = ''RANDOM_ELIMINATION''"
| "pb_reason_code_as_str_name ReasonPeerQuiting = ''PEER_QUITING''"
| "pb_reason_code_as_str_name ReasonUnexpectedIdentity = ''UNEXPECTED_IDENTITY''"
| "pb_reason_code_as_str_name ReasonLocalIdentity = ''LOCAL_IDENTITY''"
| "pb_reason_code_as_str_name ReasonPingTimeout = ''PING_TIMEOUT''"
| "pb_reason_code_as_str_name ReasonUserReason = ''USER_REASON''"
| "pb_reason_code_as_str_name ReasonReset = ''RESET''"
| "pb_reason_code_as_str_name ReasonSyncFail = ''SYNC_FAIL''"
| "pb_reason_code_as_str_name ReasonFetchFail = ''FETCH_FAIL''"
| "pb_reason_code_as_str_name ReasonBadTx = ''BAD_TX''"
| "pb_reason_code_as_str_name ReasonBadBlock = ''BAD_BLOCK''"
| "pb_reason_code_as_str_name ReasonForked = ''FORKED''"
| "pb_reason_code_as_str_name ReasonUnlinkable = ''UNLINKABLE''"
| "pb_reason_code_as_str_name ReasonIncompatibleVersion = ''INCOMPATIBLE_VERSION''"
| "pb_reason_code_as_str_name ReasonIncompatibleChain = ''INCOMPATIBLE_CHAIN''"
| "pb_reason_code_as_str_name ReasonTimeOut = ''TIME_OUT''"
| "pb_reason_code_as_str_name ReasonConnectFail = ''CONNECT_FAIL''"
| "pb_reason_code_as_str_name ReasonTooManyPeersWithSameIp = ''TOO_MANY_PEERS_WITH_SAME_IP''"
| "pb_reason_code_as_str_name ReasonLightNodeSyncFail = ''LIGHT_NODE_SYNC_FAIL''"
| "pb_reason_code_as_str_name ReasonBelowThanMe = ''BELOW_THAN_ME''"
| "pb_reason_code_as_str_name ReasonNotWitness = ''NOT_WITNESS''"
| "pb_reason_code_as_str_name ReasonNoSuchMessage = ''NO_SUCH_MESSAGE''"
| "pb_reason_code_as_str_name ReasonUnknown = ''UNKNOWN''"

definition pb_reason_code_from_str_name :: "string \<Rightarrow> pb_reason_code option" where
  "pb_reason_code_from_str_name v =
     (if v = ''REQUESTED'' then Some ReasonRequested
      else if v = ''BAD_PROTOCOL'' then Some ReasonBadProtocol
      else if v = ''TOO_MANY_PEERS'' then Some ReasonTooManyPeers
      else if v = ''DUPLICATE_PEER'' then Some ReasonDuplicatePeer
      else if v = ''INCOMPATIBLE_PROTOCOL'' then Some ReasonIncompatibleProtocol
      else if v = ''RANDOM_ELIMINATION'' then Some ReasonRandomElimination
      else if v = ''PEER_QUITING'' then Some ReasonPeerQuiting
      else if v = ''UNEXPECTED_IDENTITY'' then Some ReasonUnexpectedIdentity
      else if v = ''LOCAL_IDENTITY'' then Some ReasonLocalIdentity
      else if v = ''PING_TIMEOUT'' then Some ReasonPingTimeout
      else if v = ''USER_REASON'' then Some ReasonUserReason
      else if v = ''RESET'' then Some ReasonReset
      else if v = ''SYNC_FAIL'' then Some ReasonSyncFail
      else if v = ''FETCH_FAIL'' then Some ReasonFetchFail
      else if v = ''BAD_TX'' then Some ReasonBadTx
      else if v = ''BAD_BLOCK'' then Some ReasonBadBlock
      else if v = ''FORKED'' then Some ReasonForked
      else if v = ''UNLINKABLE'' then Some ReasonUnlinkable
      else if v = ''INCOMPATIBLE_VERSION'' then Some ReasonIncompatibleVersion
      else if v = ''INCOMPATIBLE_CHAIN'' then Some ReasonIncompatibleChain
      else if v = ''TIME_OUT'' then Some ReasonTimeOut
      else if v = ''CONNECT_FAIL'' then Some ReasonConnectFail
      else if v = ''TOO_MANY_PEERS_WITH_SAME_IP'' then Some ReasonTooManyPeersWithSameIp
      else if v = ''LIGHT_NODE_SYNC_FAIL'' then Some ReasonLightNodeSyncFail
      else if v = ''BELOW_THAN_ME'' then Some ReasonBelowThanMe
      else if v = ''NOT_WITNESS'' then Some ReasonNotWitness
      else if v = ''NO_SUCH_MESSAGE'' then Some ReasonNoSuchMessage
      else if v = ''UNKNOWN'' then Some ReasonUnknown
      else None)"

interpretation pb_reason_code_numbers: discriminant_codec pb_reason_code_number pb_reason_code_try_from
proof unfold_locales
  show "pb_reason_code_try_from (pb_reason_code_number x) = Some x" for x by (cases x) (simp_all add: pb_reason_code_try_from_def)
  show "pb_reason_code_number x = n" if "pb_reason_code_try_from n = Some x" for n x
    using that unfolding pb_reason_code_try_from_def by (elim picked; simp)
qed

interpretation pb_reason_code_names: discriminant_codec pb_reason_code_as_str_name pb_reason_code_from_str_name
proof unfold_locales
  show "pb_reason_code_from_str_name (pb_reason_code_as_str_name x) = Some x" for x by (cases x) (simp_all add: pb_reason_code_from_str_name_def)
  show "pb_reason_code_as_str_name x = s" if "pb_reason_code_from_str_name s = Some x" for s x
    using that unfolding pb_reason_code_from_str_name_def by (elim picked; simp)
qed

section \<open>\<open>smart_contract::abi::entry::EntryType\<close>\<close>

datatype pb_entry_type =
    EntUnknownEntryType
  | EntConstructor
  | EntFunction
  | EntEvent
  | EntFallback
  | EntReceive
  | EntError

fun pb_entry_type_number :: "pb_entry_type \<Rightarrow> i32" where
  "pb_entry_type_number EntUnknownEntryType = 0"
| "pb_entry_type_number EntConstructor = 1"
| "pb_entry_type_number EntFunction = 2"
| "pb_entry_type_number EntEvent = 3"
| "pb_entry_type_number EntFallback = 4"
| "pb_entry_type_number EntReceive = 5"
| "pb_entry_type_number EntError = 6"

definition pb_entry_type_try_from :: "i32 \<Rightarrow> pb_entry_type option" where
  "pb_entry_type_try_from v =
     (if v = 0 then Some EntUnknownEntryType
      else if v = 1 then Some EntConstructor
      else if v = 2 then Some EntFunction
      else if v = 3 then Some EntEvent
      else if v = 4 then Some EntFallback
      else if v = 5 then Some EntReceive
      else if v = 6 then Some EntError
      else None)"

fun pb_entry_type_as_str_name :: "pb_entry_type \<Rightarrow> string" where
  "pb_entry_type_as_str_name EntUnknownEntryType = ''UnknownEntryType''"
| "pb_entry_type_as_str_name EntConstructor = ''Constructor''"
| "pb_entry_type_as_str_name EntFunction = ''Function''"
| "pb_entry_type_as_str_name EntEvent = ''Event''"
| "pb_entry_type_as_str_name EntFallback = ''Fallback''"
| "pb_entry_type_as_str_name EntReceive = ''Receive''"
| "pb_entry_type_as_str_name EntError = ''Error''"

definition pb_entry_type_from_str_name :: "string \<Rightarrow> pb_entry_type option" where
  "pb_entry_type_from_str_name v =
     (if v = ''UnknownEntryType'' then Some EntUnknownEntryType
      else if v = ''Constructor'' then Some EntConstructor
      else if v = ''Function'' then Some EntFunction
      else if v = ''Event'' then Some EntEvent
      else if v = ''Fallback'' then Some EntFallback
      else if v = ''Receive'' then Some EntReceive
      else if v = ''Error'' then Some EntError
      else None)"

interpretation pb_entry_type_numbers: discriminant_codec pb_entry_type_number pb_entry_type_try_from
proof unfold_locales
  show "pb_entry_type_try_from (pb_entry_type_number x) = Some x" for x by (cases x) (simp_all add: pb_entry_type_try_from_def)
  show "pb_entry_type_number x = n" if "pb_entry_type_try_from n = Some x" for n x
    using that unfolding pb_entry_type_try_from_def by (elim picked; simp)
qed

interpretation pb_entry_type_names: discriminant_codec pb_entry_type_as_str_name pb_entry_type_from_str_name
proof unfold_locales
  show "pb_entry_type_from_str_name (pb_entry_type_as_str_name x) = Some x" for x by (cases x) (simp_all add: pb_entry_type_from_str_name_def)
  show "pb_entry_type_as_str_name x = s" if "pb_entry_type_from_str_name s = Some x" for s x
    using that unfolding pb_entry_type_from_str_name_def by (elim picked; simp)
qed

section \<open>\<open>smart_contract::abi::entry::StateMutabilityType\<close>\<close>

datatype pb_mutability_type =
    MutabUnknownMutabilityType
  | MutabPure
  | MutabView
  | MutabNonpayable
  | MutabPayable

fun pb_mutability_type_number :: "pb_mutability_type \<Rightarrow> i32" where
  "pb_mutability_type_number MutabUnknownMutabilityType = 0"
| "pb_mutability_type_number MutabPure = 1"
| "pb_mutability_type_number MutabView = 2"
| "pb_mutability_type_number MutabNonpayable = 3"
| "pb_mutability_type_number MutabPayable = 4"

definition pb_mutability_type_try_from :: "i32 \<Rightarrow> pb_mutability_type option" where
  "pb_mutability_type_try_from v =
     (if v = 0 then Some MutabUnknownMutabilityType
      else if v = 1 then Some MutabPure
      else if v = 2 then Some MutabView
      else if v = 3 then Some MutabNonpayable
      else if v = 4 then Some MutabPayable
      else None)"

fun pb_mutability_type_as_str_name :: "pb_mutability_type \<Rightarrow> string" where
  "pb_mutability_type_as_str_name MutabUnknownMutabilityType = ''UnknownMutabilityType''"
| "pb_mutability_type_as_str_name MutabPure = ''Pure''"
| "pb_mutability_type_as_str_name MutabView = ''View''"
| "pb_mutability_type_as_str_name MutabNonpayable = ''Nonpayable''"
| "pb_mutability_type_as_str_name MutabPayable = ''Payable''"

definition pb_mutability_type_from_str_name :: "string \<Rightarrow> pb_mutability_type option" where
  "pb_mutability_type_from_str_name v =
     (if v = ''UnknownMutabilityType'' then Some MutabUnknownMutabilityType
      else if v = ''Pure'' then Some MutabPure
      else if v = ''View'' then Some MutabView
      else if v = ''Nonpayable'' then Some MutabNonpayable
      else if v = ''Payable'' then Some MutabPayable
      else None)"

interpretation pb_mutability_type_numbers: discriminant_codec pb_mutability_type_number pb_mutability_type_try_from
proof unfold_locales
  show "pb_mutability_type_try_from (pb_mutability_type_number x) = Some x" for x by (cases x) (simp_all add: pb_mutability_type_try_from_def)
  show "pb_mutability_type_number x = n" if "pb_mutability_type_try_from n = Some x" for n x
    using that unfolding pb_mutability_type_try_from_def by (elim picked; simp)
qed

interpretation pb_mutability_type_names: discriminant_codec pb_mutability_type_as_str_name pb_mutability_type_from_str_name
proof unfold_locales
  show "pb_mutability_type_from_str_name (pb_mutability_type_as_str_name x) = Some x" for x by (cases x) (simp_all add: pb_mutability_type_from_str_name_def)
  show "pb_mutability_type_as_str_name x = s" if "pb_mutability_type_from_str_name s = Some x" for s x
    using that unfolding pb_mutability_type_from_str_name_def by (elim picked; simp)
qed

section \<open>\<open>return::ResponseCode\<close>\<close>

datatype pb_response_code =
    RespSuccess
  | RespSigerror
  | RespContractValidateError
  | RespContractExeError
  | RespBandwithError
  | RespDupTransactionError
  | RespTaposError
  | RespTooBigTransactionError
  | RespTransactionExpirationError
  | RespServerBusy
  | RespNoConnection
  | RespNotEnoughEffectiveConnection
  | RespBlockUnsolidified
  | RespOtherError

fun pb_response_code_number :: "pb_response_code \<Rightarrow> i32" where
  "pb_response_code_number RespSuccess = 0"
| "pb_response_code_number RespSigerror = 1"
| "pb_response_code_number RespContractValidateError = 2"
| "pb_response_code_number RespContractExeError = 3"
| "pb_response_code_number RespBandwithError = 4"
| "pb_response_code_number RespDupTransactionError = 5"
| "pb_response_code_number RespTaposError = 6"
| "pb_response_code_number RespTooBigTransactionError = 7"
| "pb_response_code_number RespTransactionExpirationError = 8"
| "pb_response_code_number RespServerBusy = 9"
| "pb_response_code_number RespNoConnection = 10"
| "pb_response_code_number RespNotEnoughEffectiveConnection = 11"
| "pb_response_code_number RespBlockUnsolidified = 12"
| "pb_response_code_number RespOtherError = 20"

definition pb_response_code_try_from :: "i32 \<Rightarrow> pb_response_code option" where
  "pb_response_code_try_from v =
     (if v = 0 then Some RespSuccess
      else if v = 1 then Some RespSigerror
      else if v = 2 then Some RespContractValidateError
      else if v = 3 then Some RespContractExeError
      else if v = 4 then Some RespBandwithError
      else if v = 5 then Some RespDupTransactionError
      else if v = 6 then Some RespTaposError
      else if v = 7 then Some RespTooBigTransactionError
      else if v = 8 then Some RespTransactionExpirationError
      else if v = 9 then Some RespServerBusy
      else if v = 10 then Some RespNoConnection
      else if v = 11 then Some RespNotEnoughEffectiveConnection
      else if v = 12 then Some RespBlockUnsolidified
      else if v = 20 then Some RespOtherError
      else None)"

fun pb_response_code_as_str_name :: "pb_response_code \<Rightarrow> string" where
  "pb_response_code_as_str_name RespSuccess = ''SUCCESS''"
| "pb_response_code_as_str_name RespSigerror = ''SIGERROR''"
| "pb_response_code_as_str_name RespContractValidateError = ''CONTRACT_VALIDATE_ERROR''"
| "pb_response_code_as_str_name RespContractExeError = ''CONTRACT_EXE_ERROR''"
| "pb_response_code_as_str_name RespBandwithError = ''BANDWITH_ERROR''"
| "pb_response_code_as_str_name RespDupTransactionError = ''DUP_TRANSACTION_ERROR''"
| "pb_response_code_as_str_name RespTaposError = ''TAPOS_ERROR''"
| "pb_response_code_as_str_name RespTooBigTransactionError = ''TOO_BIG_TRANSACTION_ERROR''"
| "pb_response_code_as_str_name RespTransactionExpirationError = ''TRANSACTION_EXPIRATION_ERROR''"
| "pb_response_code_as_str_name RespServerBusy = ''SERVER_BUSY''"
| "pb_response_code_as_str_name RespNoConnection = ''NO_CONNECTION''"
| "pb_response_code_as_str_name RespNotEnoughEffectiveConnection = ''NOT_ENOUGH_EFFECTIVE_CONNECTION''"
| "pb_response_code_as_str_name RespBlockUnsolidified = ''BLOCK_UNSOLIDIFIED''"
| "pb_response_code_as_str_name RespOtherError = ''OTHER_ERROR''"

definition pb_response_code_from_str_name :: "string \<Rightarrow> pb_response_code option" where
  "pb_response_code_from_str_name v =
     (if v = ''SUCCESS'' then Some RespSuccess
      else if v = ''SIGERROR'' then Some RespSigerror
      else if v = ''CONTRACT_VALIDATE_ERROR'' then Some RespContractValidateError
      else if v = ''CONTRACT_EXE_ERROR'' then Some RespContractExeError
      else if v = ''BANDWITH_ERROR'' then Some RespBandwithError
      else if v = ''DUP_TRANSACTION_ERROR'' then Some RespDupTransactionError
      else if v = ''TAPOS_ERROR'' then Some RespTaposError
      else if v = ''TOO_BIG_TRANSACTION_ERROR'' then Some RespTooBigTransactionError
      else if v = ''TRANSACTION_EXPIRATION_ERROR'' then Some RespTransactionExpirationError
      else if v = ''SERVER_BUSY'' then Some RespServerBusy
      else if v = ''NO_CONNECTION'' then Some RespNoConnection
      else if v = ''NOT_ENOUGH_EFFECTIVE_CONNECTION'' then Some RespNotEnoughEffectiveConnection
      else if v = ''BLOCK_UNSOLIDIFIED'' then Some RespBlockUnsolidified
      else if v = ''OTHER_ERROR'' then Some RespOtherError
      else None)"

interpretation pb_response_code_numbers: discriminant_codec pb_response_code_number pb_response_code_try_from
proof unfold_locales
  show "pb_response_code_try_from (pb_response_code_number x) = Some x" for x by (cases x) (simp_all add: pb_response_code_try_from_def)
  show "pb_response_code_number x = n" if "pb_response_code_try_from n = Some x" for n x
    using that unfolding pb_response_code_try_from_def by (elim picked; simp)
qed

interpretation pb_response_code_names: discriminant_codec pb_response_code_as_str_name pb_response_code_from_str_name
proof unfold_locales
  show "pb_response_code_from_str_name (pb_response_code_as_str_name x) = Some x" for x by (cases x) (simp_all add: pb_response_code_from_str_name_def)
  show "pb_response_code_as_str_name x = s" if "pb_response_code_from_str_name s = Some x" for s x
    using that unfolding pb_response_code_from_str_name_def by (elim picked; simp)
qed

section \<open>\<open>transaction_sign_weight::result::ResponseCode\<close>\<close>

datatype pb_weight_response_code =
    WeightEnoughPermission
  | WeightNotEnoughPermission
  | WeightSignatureFormatError
  | WeightComputeAddressError
  | WeightPermissionError
  | WeightOtherError

fun pb_weight_response_code_number :: "pb_weight_response_code \<Rightarrow> i32" where
  "pb_weight_response_code_number WeightEnoughPermission = 0"
| "pb_weight_response_code_number WeightNotEnoughPermission = 1"
| "pb_weight_response_code_number WeightSignatureFormatError = 2"
| "pb_weight_response_code_number WeightComputeAddressError = 3"
| "pb_weight_response_code_number WeightPermissionError = 4"
| "pb_weight_response_code_number WeightOtherError = 20"

definition pb_weight_response_code_try_from :: "i32 \<Rightarrow> pb_weight_response_code option" where
  "pb_weight_response_code_try_from v =
     (if v = 0 then Some WeightEnoughPermission
      else if v = 1 then Some WeightNotEnoughPermission
      else if v = 2 then Some WeightSignatureFormatError
      else if v = 3 then Some WeightComputeAddressError
      else if v = 4 then Some WeightPermissionError
      else if v = 20 then Some WeightOtherError
      else None)"

fun pb_weight_response_code_as_str_name :: "pb_weight_response_code \<Rightarrow> string" where
  "pb_weight_response_code_as_str_name WeightEnoughPermission = ''ENOUGH_PERMISSION''"
| "pb_weight_response_code_as_str_name WeightNotEnoughPermission = ''NOT_ENOUGH_PERMISSION''"
| "pb_weight_response_code_as_str_name WeightSignatureFormatError = ''SIGNATURE_FORMAT_ERROR''"
| "pb_weight_response_code_as_str_name WeightComputeAddressError = ''COMPUTE_ADDRESS_ERROR''"
| "pb_weight_response_code_as_str_name WeightPermissionError = ''PERMISSION_ERROR''"
| "pb_weight_response_code_as_str_name WeightOtherError = ''OTHER_ERROR''"

definition pb_weight_response_code_from_str_name :: "string \<Rightarrow> pb_weight_response_code option" where
  "pb_weight_response_code_from_str_name v =
     (if v = ''ENOUGH_PERMISSION'' then Some WeightEnoughPermission
      else if v = ''NOT_ENOUGH_PERMISSION'' then Some WeightNotEnoughPermission
      else if v = ''SIGNATURE_FORMAT_ERROR'' then Some WeightSignatureFormatError
      else if v = ''COMPUTE_ADDRESS_ERROR'' then Some WeightComputeAddressError
      else if v = ''PERMISSION_ERROR'' then Some WeightPermissionError
      else if v = ''OTHER_ERROR'' then Some WeightOtherError
      else None)"

interpretation pb_weight_response_code_numbers: discriminant_codec pb_weight_response_code_number pb_weight_response_code_try_from
proof unfold_locales
  show "pb_weight_response_code_try_from (pb_weight_response_code_number x) = Some x" for x by (cases x) (simp_all add: pb_weight_response_code_try_from_def)
  show "pb_weight_response_code_number x = n" if "pb_weight_response_code_try_from n = Some x" for n x
    using that unfolding pb_weight_response_code_try_from_def by (elim picked; simp)
qed

interpretation pb_weight_response_code_names: discriminant_codec pb_weight_response_code_as_str_name pb_weight_response_code_from_str_name
proof unfold_locales
  show "pb_weight_response_code_from_str_name (pb_weight_response_code_as_str_name x) = Some x" for x by (cases x) (simp_all add: pb_weight_response_code_from_str_name_def)
  show "pb_weight_response_code_as_str_name x = s" if "pb_weight_response_code_from_str_name s = Some x" for s x
    using that unfolding pb_weight_response_code_from_str_name_def by (elim picked; simp)
qed

section \<open>\<open>transaction_approved_list::result::ResponseCode\<close>\<close>

datatype pb_approved_response_code =
    ApprovedSuccess
  | ApprovedSignatureFormatError
  | ApprovedComputeAddressError
  | ApprovedOtherError

fun pb_approved_response_code_number :: "pb_approved_response_code \<Rightarrow> i32" where
  "pb_approved_response_code_number ApprovedSuccess = 0"
| "pb_approved_response_code_number ApprovedSignatureFormatError = 1"
| "pb_approved_response_code_number ApprovedComputeAddressError = 2"
| "pb_approved_response_code_number ApprovedOtherError = 20"

definition pb_approved_response_code_try_from :: "i32 \<Rightarrow> pb_approved_response_code option" where
  "pb_approved_response_code_try_from v =
     (if v = 0 then Some ApprovedSuccess
      else if v = 1 then Some ApprovedSignatureFormatError
      else if v = 2 then Some ApprovedComputeAddressError
      else if v = 20 then Some ApprovedOtherError
      else None)"

fun pb_approved_response_code_as_str_name :: "pb_approved_response_code \<Rightarrow> string" where
  "pb_approved_response_code_as_str_name ApprovedSuccess = ''SUCCESS''"
| "pb_approved_response_code_as_str_name ApprovedSignatureFormatError = ''SIGNATURE_FORMAT_ERROR''"
| "pb_approved_response_code_as_str_name ApprovedComputeAddressError = ''COMPUTE_ADDRESS_ERROR''"
| "pb_approved_response_code_as_str_name ApprovedOtherError = ''OTHER_ERROR''"

definition pb_approved_response_code_from_str_name :: "string \<Rightarrow> pb_approved_response_code option" where
  "pb_approved_response_code_from_str_name v =
     (if v = ''SUCCESS'' then Some ApprovedSuccess
      else if v = ''SIGNATURE_FORMAT_ERROR'' then Some ApprovedSignatureFormatError
      else if v = ''COMPUTE_ADDRESS_ERROR'' then Some ApprovedComputeAddressError
      else if v = ''OTHER_ERROR'' then Some ApprovedOtherError
      else None)"

interpretation pb_approved_response_code_numbers: discriminant_codec pb_approved_response_code_number pb_approved_response_code_try_from
proof unfold_locales
  show "pb_approved_response_code_try_from (pb_approved_response_code_number x) = Some x" for x by (cases x) (simp_all add: pb_approved_response_code_try_from_def)
  show "pb_approved_response_code_number x = n" if "pb_approved_response_code_try_from n = Some x" for n x
    using that unfolding pb_approved_response_code_try_from_def by (elim picked; simp)
qed

interpretation pb_approved_response_code_names: discriminant_codec pb_approved_response_code_as_str_name pb_approved_response_code_from_str_name
proof unfold_locales
  show "pb_approved_response_code_from_str_name (pb_approved_response_code_as_str_name x) = Some x" for x by (cases x) (simp_all add: pb_approved_response_code_from_str_name_def)
  show "pb_approved_response_code_as_str_name x = s" if "pb_approved_response_code_from_str_name s = Some x" for s x
    using that unfolding pb_approved_response_code_from_str_name_def by (elim picked; simp)
qed

section \<open>The enumerations written by hand\<close>

text \<open>Which variant of the crates' own types stands for which variant of the schema, by name.\<close>

fun resource_of_schema :: "pb_resource_code \<Rightarrow> resource_code" where
  "resource_of_schema ResBandwidth = Bandwidth"
| "resource_of_schema ResEnergy = Energy"
| "resource_of_schema ResTronPower = TronPower"

fun kind_of_schema :: "pb_contract_type \<Rightarrow> contract_kind" where
  "kind_of_schema PbAccountCreateContract = KCreateAccount"
| "kind_of_schema PbTransferContract = KTransfer"
| "kind_of_schema PbTransferAssetContract = KTransferAsset"
| "kind_of_schema PbVoteAssetContract = KVoteAsset"
| "kind_of_schema PbVoteWitnessContract = KVoteWitness"
| "kind_of_schema PbWitnessCreateContract = KCreateWitness"
| "kind_of_schema PbAssetIssueContract = KAssetIssue"
| "kind_of_schema PbWitnessUpdateContract = KUpdateWitness"
| "kind_of_schema PbParticipateAssetIssueContract = KParticipateAssetIssue"
| "kind_of_schema PbAccountUpdateContract = KUpdateAccount"
| "kind_of_schema PbFreezeBalanceContract = KFreezeBalanceV1"
| "kind_of_schema PbUnfreezeBalanceContract = KUnfreezeBalanceV1"
| "kind_of_schema PbWithdrawBalanceContract = KWithdrawBalance"
| "kind_of_schema PbUnfreezeAssetContract = KUnfreezeAsset"
| "kind_of_schema PbUpdateAssetContract = KUpdateAsset"
| "kind_of_schema PbProposalCreateContract = KProposalCreate"
| "kind_of_schema PbProposalApproveContract = KProposalApprove"
| "kind_of_schema PbProposalDeleteContract = KProposalDelete"
| "kind_of_schema PbSetAccountIdContract = KSetAccountId"
| "kind_of_schema PbCustomContract = KCustom"
| "kind_of_schema PbCreateSmartContract = KCreateSmartContract"
| "kind_of_schema PbTriggerSmartContract = KTriggerSmartContract"
| "kind_of_schema PbGetContract = KGetContract"
| "kind_of_schema PbUpdateSettingContract = KUpdateSetting"
| "kind_of_schema PbExchangeCreateContract = KExchangeCreate"
| "kind_of_schema PbExchangeInjectContract = KExchangeInject"
| "kind_of_schema PbExchangeWithdrawContract = KExchangeWithdraw"
| "kind_of_schema PbExchangeTransactionContract = KExchangeTransaction"
| "kind_of_schema PbUpdateEnergyLimitContract = KUpdateEnergyLimit"
| "kind_of_schema PbAccountPermissionUpdateContract = KAccountPermissionUpdate"
| "kind_of_schema PbClearAbiContract = KClearContractAbi"
| "kind_of_schema PbUpdateBrokerageContract = KUpdateBrokerage"
| "kind_of_schema PbShieldedTransferContract = KShieldedTransfer"
| "kind_of_schema PbMarketSellAssetContract = KMarketSellAsset"
| "kind_of_schema PbMarketCancelOrderContract = KMarketCancelOrder"
| "kind_of_schema PbFreezeBalanceV2Contract = KFreezeBalanceV2"
| "kind_of_schema PbUnfreezeBalanceV2Contract = KUnfreezeBalanceV2"
| "kind_of_schema PbWithdrawExpireUnfreezeContract = KWithdrawExpireUnfreeze"
| "kind_of_schema PbDelegateResourceContract = KDelegateResource"
| "kind_of_schema PbUnDelegateResourceContract = KUnDelegateResource"
| "kind_of_schema PbCancelAllUnfreezeV2Contract = KCancelAllUnfreezeV2"

fun entry_of_schema :: "pb_entry_type \<Rightarrow> tron_abi_entry_type" where
  "entry_of_schema EntUnknownEntryType = EntryUnknown 0"
| "entry_of_schema EntConstructor = EntryConstructor"
| "entry_of_schema EntFunction = EntryFunction"
| "entry_of_schema EntEvent = EntryEvent"
| "entry_of_schema EntFallback = EntryFallback"
| "entry_of_schema EntReceive = EntryReceive"
| "entry_of_schema EntError = EntryError"

fun mutability_of_schema :: "pb_mutability_type \<Rightarrow> tron_abi_state_mutability" where
  "mutability_of_schema MutabUnknownMutabilityType = MutUnknown 0"
| "mutability_of_schema MutabPure = MutPure"
| "mutability_of_schema MutabView = MutView"
| "mutability_of_schema MutabNonpayable = MutNonPayable"
| "mutability_of_schema MutabPayable = MutPayable"

fun result_of_schema :: "pb_contract_result \<Rightarrow> contract_result" where
  "result_of_schema VmDefault = ResultDefault"
| "result_of_schema VmSuccess = ResultSuccess"
| "result_of_schema VmRevert = ResultRevert"
| "result_of_schema VmBadJumpDestination = ResultBadJumpDestination"
| "result_of_schema VmOutOfMemory = ResultOutOfMemory"
| "result_of_schema VmPrecompiledContract = ResultPrecompiledContract"
| "result_of_schema VmStackTooSmall = ResultStackTooSmall"
| "result_of_schema VmStackTooLarge = ResultStackTooLarge"
| "result_of_schema VmIllegalOperation = ResultIllegalOperation"
| "result_of_schema VmStackOverflow = ResultStackOverflow"
| "result_of_schema VmOutOfEnergy = ResultOutOfEnergy"
| "result_of_schema VmOutOfTime = ResultOutOfTime"
| "result_of_schema VmJvmStackOverFlow = ResultJvmStackOverflow"
| "result_of_schema VmUnknown = ResultUnknownFailure"
| "result_of_schema VmTransferFailed = ResultTransferFailed"
| "result_of_schema VmInvalidCode = ResultInvalidCode"

fun proposal_of_schema :: "pb_proposal_status \<Rightarrow> proposal_state" where
  "proposal_of_schema PropPending = ProposalPending"
| "proposal_of_schema PropDisapproved = ProposalDisapproved"
| "proposal_of_schema PropApproved = ProposalApproved"
| "proposal_of_schema PropCanceled = ProposalCanceled"

fun order_of_schema :: "pb_market_order_status \<Rightarrow> market_order_state" where
  "order_of_schema MktActive = OrderActive"
| "order_of_schema MktInactive = OrderInactive"
| "order_of_schema MktCanceled = OrderCanceled"

lemma resource_agrees:
  "resource_from_i32 n = map_option resource_of_schema (pb_resource_code_try_from n)"
  by (simp add: resource_from_i32_def pb_resource_code_try_from_def)

lemma kind_agrees:
  "kind_from_i32 n = (case pb_contract_type_try_from n of Some t \<Rightarrow> kind_of_schema t | None \<Rightarrow> KUnknown n)"
proof (cases "pb_contract_type_try_from n")
  case None
  then have "\<forall>t\<in>set pb_contract_types. n \<noteq> pb_contract_type_number t"
    by (auto simp: pb_contract_type_try_from_def find_None_iff)
  then have "kind_from_i32 n = KUnknown n" by (simp add: pb_contract_types_def kind_from_i32_def)
  then show ?thesis by (simp add: None)
next
  case (Some t)
  then have "n = kind_id (kind_of_schema t)" "\<And>v. kind_of_schema t \<noteq> KUnknown v"
    by (simp_all add: pb_contract_type_numbers.of_disc_Some_iff) (cases t; simp)+
  then have "kind_from_i32 n = kind_of_schema t" by (simp add: kind_from_id)
  then show ?thesis by (simp add: Some)
qed

lemma entry_agrees:
  "entry_type_from_i32 n = (case pb_entry_type_try_from n of Some t \<Rightarrow> entry_of_schema t | None \<Rightarrow> EntryUnknown n)"
  by (simp add: entry_type_from_i32_def pb_entry_type_try_from_def)

lemma mutability_agrees:
  "mutability_from_i32 n
   = (case pb_mutability_type_try_from n of Some t \<Rightarrow> mutability_of_schema t | None \<Rightarrow> MutUnknown n)"
  by (simp add: mutability_from_i32_def pb_mutability_type_try_from_def)

lemma result_agrees:
  "contract_result_from_i32 n
   = (case pb_contract_result_try_from n of Some t \<Rightarrow> result_of_schema t | None \<Rightarrow> ResultOther n)"
  by (simp add: contract_result_from_i32_def pb_contract_result_try_from_def)

lemma proposal_agrees:
  "proposal_state_from_i32 n
   = (case pb_proposal_status_try_from n of Some t \<Rightarrow> proposal_of_schema t | None \<Rightarrow> ProposalUnknown n)"
  by (simp add: proposal_state_from_i32_def pb_proposal_status_try_from_def)

lemma order_agrees:
  "market_order_state_from_i32 n
   = (case pb_market_order_status_try_from n of Some t \<Rightarrow> order_of_schema t | None \<Rightarrow> OrderActive)"
  by (simp add: market_order_state_from_i32_def pb_market_order_status_try_from_def)

text \<open>
  C39: the enumerations the crates write by hand are those of the schema.  A number is read as the
  variant of the same name as the generated type gives it, and a number the schema does not have
  is refused (resource codes) or kept as it is (contract kinds, ABI entries and mutability,
  results, proposals); only the state of a market order is made up then: it is read as active.
\<close>

theorem schema_numbers_agree:
  "resource_from_i32 n = map_option resource_of_schema (pb_resource_code_try_from n)
   \<and> kind_from_i32 n = (case pb_contract_type_try_from n of Some t \<Rightarrow> kind_of_schema t | None \<Rightarrow> KUnknown n)
   \<and> entry_type_from_i32 n = (case pb_entry_type_try_from n of Some t \<Rightarrow> entry_of_schema t | None \<Rightarrow> EntryUnknown n)
   \<and> mutability_from_i32 n
       = (case pb_mutability_type_try_from n of Some t \<Rightarrow> mutability_of_schema t | None \<Rightarrow> MutUnknown n)
   \<and> contract_result_from_i32 n
       = (case pb_contract_result_try_from n of Some t \<Rightarrow> result_of_schema t | None \<Rightarrow> ResultOther n)
   \<and> proposal_state_from_i32 n
       = (case pb_proposal_status_try_from n of Some t \<Rightarrow> proposal_of_schema t | None \<Rightarrow> ProposalUnknown n)
   \<and> market_order_state_from_i32 n
       = (case pb_market_order_status_try_from n of Some t \<Rightarrow> order_of_schema t | None \<Rightarrow> OrderActive)"
  by (intro conjI resource_agrees kind_agrees entry_agrees mutability_agrees result_agrees proposal_agrees
      order_agrees)

end
