(* ===== verification/Keystore.thy ===== *)
theory Keystore
  imports Wallet
begin

text \<open>
  Keystore files (\<open>crates/signer/src/keystore.rs\<close>, and the two methods of \<open>local.rs\<close> that save and
  load a signer): a private key encrypted under a password, Web3 Secret Storage version 3.  The key
  derivation functions, the cipher, the hash, the hexadecimal codec, JSON and the files are parameters.
\<close>

section \<open>The file\<close>

datatype kdfparams =
    KdfPbkdf2 (pbkdf2_c: u32) (pbkdf2_dklen: u32) (pbkdf2_prf: string) (pbkdf2_salt: string)
  | KdfScrypt (scrypt_n: u64) (scrypt_r: u32) (scrypt_p: u32) (scrypt_dklen: u32) (scrypt_salt: string)

definition kdf_dklen :: "kdfparams \<Rightarrow> u32" where
  "kdf_dklen params = (case params of KdfPbkdf2 _ dklen _ _ \<Rightarrow> dklen | KdfScrypt _ _ _ dklen _ \<Rightarrow> dklen)"

definition kdf_salt :: "kdfparams \<Rightarrow> string" where
  "kdf_salt params = (case params of KdfPbkdf2 _ _ _ salt \<Rightarrow> salt | KdfScrypt _ _ _ _ salt \<Rightarrow> salt)"

record crypto_json =
  cj_cipher :: string
  cj_ciphertext :: string
  cj_iv :: string
  cj_kdf :: string
  cj_kdfparams :: kdfparams
  cj_mac :: string

record keystore_file =
  ks_address :: string
  ks_crypto :: crypto_json
  ks_id :: string
  ks_version :: u8

definition dk_len :: nat where "dk_len = 32"

definition log_n_standard :: u8 where "log_n_standard = 18"

section \<open>Decrypting\<close>

text \<open>
  The cryptography.  A cipher of a key and an initialisation vector is refused (\<open>None\<close>) or is the
  function that applies its keystream.
\<close>

record 'sp keystore_crypto =
  kc_scrypt_params :: "u8 \<Rightarrow> u32 \<Rightarrow> u32 \<Rightarrow> string + 'sp"
  kc_scrypt :: "bytes \<Rightarrow> bytes \<Rightarrow> 'sp \<Rightarrow> nat \<Rightarrow> string + bytes"
  kc_pbkdf2 :: "bytes \<Rightarrow> bytes \<Rightarrow> u32 \<Rightarrow> nat \<Rightarrow> bytes"
  kc_keccak :: "bytes \<Rightarrow> bytes"
  kc_cipher :: "bytes \<Rightarrow> bytes \<Rightarrow> (bytes \<Rightarrow> bytes) option"
  kc_hex_encode :: "bytes \<Rightarrow> string"
  kc_hex_decode :: "string \<Rightarrow> string + bytes"

definition trailing_zeros :: "u64 \<Rightarrow> nat" where
  "trailing_zeros n = length (takeWhile (\<lambda>i. \<not> bit n i) [0..<64])"

abbreviation invalid_field :: "string \<Rightarrow> signer_error" where
  "invalid_field what \<equiv> SgKeystore (KsInvalidField what)"

definition derive_key ::
  "'sp keystore_crypto \<Rightarrow> string \<Rightarrow> kdfparams \<Rightarrow> string \<Rightarrow> signer_error + bytes" where
  "derive_key K kdf params password =
     (if unat (kdf_dklen params) \<noteq> dk_len then Err (invalid_field ''dklen must be 32'')
      else and_then (map_err SgHex (kc_hex_decode K (kdf_salt params))) (\<lambda>salt.
        if kdf = ''scrypt'' then
          (case params of
             KdfScrypt n r p _ _ \<Rightarrow>
               if n = 0 \<or> and n (n - 1) \<noteq> 0 then Err (SgKeystore (KsInvalidScryptN n))
               else
                 map_err (\<lambda>e. SgKeystore (KsScrypt e))
                   (and_then (kc_scrypt_params K (word_of_nat (trailing_zeros n)) r p) (\<lambda>sp.
                      kc_scrypt K (str_bytes password) salt sp dk_len))
           | _ \<Rightarrow> Err (invalid_field ''kdfparams do not match kdf''))
        else if kdf = ''pbkdf2'' then
          (case params of
             KdfPbkdf2 c _ prf _ \<Rightarrow>
               if prf \<noteq> ''hmac-sha256'' then Err (SgKeystore (KsUnsupportedPrf prf))
               else if c = 0 then Err (invalid_field ''pbkdf2 c must be non-zero'')
               else Ok (kc_pbkdf2 K (str_bytes password) salt c dk_len)
           | _ \<Rightarrow> Err (invalid_field ''kdfparams do not match kdf''))
        else Err (SgKeystore (KsUnsupportedKdf kdf))))"

definition keystore_decrypt ::
  "'sp keystore_crypto \<Rightarrow> keystore_file \<Rightarrow> string \<Rightarrow> signer_error + bytes" where
  "keystore_decrypt K ks password =
     (let crypto = ks_crypto ks in
      if cj_cipher crypto \<noteq> ''aes-128-ctr'' then Err (SgKeystore (KsUnsupportedCipher (cj_cipher crypto)))
      else
        and_then (map_err SgHex (kc_hex_decode K (cj_iv crypto))) (\<lambda>iv_bytes.
        and_then (ok_or (invalid_field ''iv must be 16 bytes'') (fixed_bytes 16 iv_bytes)) (\<lambda>iv.
        and_then (map_err SgHex (kc_hex_decode K (cj_ciphertext crypto))) (\<lambda>ciphertext.
        and_then (map_err SgHex (kc_hex_decode K (cj_mac crypto))) (\<lambda>stored_mac.
        and_then (derive_key K (cj_kdf crypto) (cj_kdfparams crypto) password) (\<lambda>derived.
          if kc_keccak K (drop 16 derived @ ciphertext) \<noteq> stored_mac then Err (SgKeystore KsInvalidPassword)
          else
            and_then (ok_or (invalid_field ''AES key/IV length error'') (kc_cipher K (take 16 derived) iv))
              (\<lambda>keystream.
            ok_or (invalid_field ''ciphertext must be 32 bytes'') (fixed_bytes 32 (keystream ciphertext)))))))))"

section \<open>Encrypting\<close>

text \<open>Randomness and files, of the world: filling a buffer, a fresh name, writing and reading.\<close>

record 'w keystore_world =
  kw_fill :: "nat \<Rightarrow> 'w \<Rightarrow> bytes \<times> 'w"
  kw_uuid :: "'w \<Rightarrow> string \<times> 'w"
  kw_join :: "string \<Rightarrow> string \<Rightarrow> string"
  kw_to_json :: "keystore_file \<Rightarrow> string + bytes"
  kw_from_json :: "string \<Rightarrow> string + keystore_file"
  kw_write :: "string \<Rightarrow> bytes \<Rightarrow> 'w \<Rightarrow> (string + unit) \<times> 'w"
  kw_read :: "string \<Rightarrow> 'w \<Rightarrow> (string + string) \<times> 'w"

definition encrypt_inner ::
  "'sp keystore_crypto \<Rightarrow> 'w keystore_world \<Rightarrow> bytes \<Rightarrow> string \<Rightarrow> string \<Rightarrow> u8 \<Rightarrow> u32 \<Rightarrow> u32 \<Rightarrow> 'w
     \<Rightarrow> (signer_error + keystore_file) \<times> 'w" where
  "encrypt_inner K W key_bytes address password log_n r p w =
     (let (salt, w1) = kw_fill W 32 w;
          (iv, w2) = kw_fill W 16 w1
      in case
           and_then (map_err (\<lambda>e. SgKeystore (KsScrypt e)) (kc_scrypt_params K log_n r p)) (\<lambda>params.
           and_then (map_err (\<lambda>e. SgKeystore (KsScrypt e)) (kc_scrypt K (str_bytes password) salt params dk_len))
             (\<lambda>derived.
           and_then (ok_or (invalid_field ''AES key/IV length error'') (kc_cipher K (take 16 derived) iv))
             (\<lambda>keystream.
             Ok (derived, keystream key_bytes))))
         of
           Inl e \<Rightarrow> (Err e, w2)
         | Inr (derived, ciphertext) \<Rightarrow>
             (let mac = kc_keccak K (drop 16 derived @ ciphertext);
                  (uuid, w3) = kw_uuid W w2
              in (Ok \<lparr> ks_address = address,
                       ks_crypto =
                         \<lparr> cj_cipher = ''aes-128-ctr'', cj_ciphertext = kc_hex_encode K ciphertext,
                           cj_iv = kc_hex_encode K iv, cj_kdf = ''scrypt'',
                           cj_kdfparams = KdfScrypt (push_bit (unat log_n) 1) r p (word_of_nat dk_len)
                             (kc_hex_encode K salt),
                           cj_mac = kc_hex_encode K mac \<rparr>,
                       ks_id = uuid, ks_version = 3 \<rparr>, w3)))"

definition keystore_encrypt ::
  "'sp keystore_crypto \<Rightarrow> 'w keystore_world \<Rightarrow> bytes \<Rightarrow> string \<Rightarrow> string \<Rightarrow> 'w
     \<Rightarrow> (signer_error + keystore_file) \<times> 'w" where
  "keystore_encrypt K W key_bytes address password w =
     encrypt_inner K W key_bytes address password log_n_standard 8 1 w"

definition encrypt_to_file ::
  "'sp keystore_crypto \<Rightarrow> 'w keystore_world \<Rightarrow> bytes \<Rightarrow> string \<Rightarrow> string \<Rightarrow> string \<Rightarrow> 'w
     \<Rightarrow> (signer_error + string) \<times> 'w" where
  "encrypt_to_file K W key_bytes address password dir w =
     (case encrypt_inner K W key_bytes address password log_n_standard 8 1 w of
        (Inl e, w1) \<Rightarrow> (Err e, w1)
      | (Inr ks, w1) \<Rightarrow>
          (let path = kw_join W dir (ks_id ks @ ''.json'')
           in case kw_to_json W ks of
                Inl e \<Rightarrow> (Err (SgJson e), w1)
              | Inr json \<Rightarrow>
                  (case kw_write W path json w1 of
                     (Inl e, w2) \<Rightarrow> (Err (SgIo e), w2)
                   | (Inr _, w2) \<Rightarrow> (Ok path, w2))))"

definition decrypt_from_file ::
  "'sp keystore_crypto \<Rightarrow> 'w keystore_world \<Rightarrow> string \<Rightarrow> string \<Rightarrow> 'w \<Rightarrow> (signer_error + bytes) \<times> 'w" where
  "decrypt_from_file K W path password w =
     (case kw_read W path w of
        (Inl e, w1) \<Rightarrow> (Err (SgIo e), w1)
      | (Inr contents, w1) \<Rightarrow>
          (and_then (map_err SgJson (kw_from_json W contents)) (\<lambda>ks. keystore_decrypt K ks password), w1))"

text \<open>\<open>LocalSigner::encrypt_keystore\<close> and \<open>decrypt_keystore\<close>.\<close>

definition encrypt_keystore ::
  "(bytes \<Rightarrow> string) \<Rightarrow> ('sk, 'sig, 'rid) key_ops \<Rightarrow> 'sp keystore_crypto \<Rightarrow> 'w keystore_world
     \<Rightarrow> 'sk local_signer \<Rightarrow> string \<Rightarrow> string \<Rightarrow> 'w \<Rightarrow> (signer_error + string) \<times> 'w" where
  "encrypt_keystore b58_enc KO K W s dir password w =
     encrypt_to_file K W (sk_bytes KO (local_key s)) (address_to_base58 b58_enc (local_address s)) password dir w"

definition decrypt_keystore ::
  "('sk, 'sig, 'rid) key_ops \<Rightarrow> 'sp keystore_crypto \<Rightarrow> 'w keystore_world \<Rightarrow> string \<Rightarrow> string \<Rightarrow> 'w
     \<Rightarrow> (signer_error + 'sk local_signer) \<times> 'w" where
  "decrypt_keystore KO K W path password w =
     (case decrypt_from_file K W path password w of
        (Inl e, w1) \<Rightarrow> (Err e, w1)
      | (Inr key_bytes, w1) \<Rightarrow> (local_from_bytes KO key_bytes, w1))"

section \<open>What is relied on\<close>

text \<open>
  Encoding in hexadecimal is read back; scrypt fills the output it is given; the cipher takes 16-byte
  keys and vectors, keeps the length, and undoes itself.
\<close>

locale keystore_cipher =
  fixes K :: "'sp keystore_crypto"
  assumes hex_back: "kc_hex_decode K (kc_hex_encode K bs) = Inr bs"
    and scrypt_length: "kc_scrypt K password salt sp n = Inr dk \<Longrightarrow> length dk = n"
    and cipher_accepts: "length key = 16 \<Longrightarrow> length iv = 16 \<Longrightarrow> kc_cipher K key iv \<noteq> None"
    and cipher_undoes: "kc_cipher K key iv = Some keystream \<Longrightarrow> keystream (keystream bs) = bs"
    and cipher_length: "kc_cipher K key iv = Some keystream \<Longrightarrow> length (keystream bs) = length bs"

lemma bit_power_of_two: "k < 64 \<Longrightarrow> bit (push_bit k (1 :: u64)) i \<longleftrightarrow> i = k"
  by (auto simp: bit_simps simp del: push_bit_of_1)

lemma trailing_zeros_power: "k < 64 \<Longrightarrow> trailing_zeros (push_bit k 1) = k"
proof -
  assume k: "k < 64"
  then have split: "[0..<64] = [0..<k] @ k # [Suc k..<64]"
    using upt_add_eq_append [of 0 k "64 - k"] upt_conv_Cons [of k 64] by simp
  have "takeWhile (\<lambda>i. \<not> bit (push_bit k (1 :: u64)) i) [0..<64] = takeWhile (\<lambda>i. i \<noteq> k) [0..<64]"
    by (rule takeWhile_cong) (simp_all only: bit_power_of_two [OF k] not_False_eq_True)
  also have "\<dots> = [0..<k]" by (simp add: split takeWhile_append)
  finally show ?thesis by (simp only: trailing_zeros_def length_upt diff_zero)
qed

lemma power_of_two_bits:
  "k < 64 \<Longrightarrow> push_bit k (1 :: u64) \<noteq> 0 \<and> and (push_bit k (1 :: u64)) (push_bit k 1 - 1) = 0"
proof -
  assume k: "k < 64"
  have "push_bit k (1 :: u64) - 1 = mask k" by (simp add: mask_eq_exp_minus_1 push_bit_eq_mult)
  moreover have "and (push_bit k (1 :: u64)) (mask k) = 0"
    by (rule bit_eqI) (auto simp: bit_simps)
  moreover have "bit (push_bit k (1 :: u64)) k" using k by (simp add: bit_simps del: push_bit_of_1)
  ultimately show ?thesis by (metis bit_0_eq bot_apply bot_bool_def)
qed

context keystore_cipher
begin

lemma derive_scrypt:
  assumes "unat log_n < 64"
  shows "derive_key K ''scrypt'' (KdfScrypt (push_bit (unat log_n) 1) r p (word_of_nat dk_len) (kc_hex_encode K salt)) password
    = map_err (\<lambda>e. SgKeystore (KsScrypt e)) (and_then (kc_scrypt_params K log_n r p) (\<lambda>sp.
        kc_scrypt K (str_bytes password) salt sp dk_len))"
proof -
  let ?n = "push_bit (unat log_n) (1 :: u64)"
  have dklen: "unat (word_of_nat dk_len :: u32) = dk_len" by (simp add: dk_len_def)
  have n: "?n \<noteq> 0" "and ?n (?n - 1) = 0" "word_of_nat (trailing_zeros ?n) = log_n"
    using power_of_two_bits [OF assms] trailing_zeros_power [OF assms] by simp_all
  show ?thesis
    unfolding derive_key_def kdf_dklen_def kdf_salt_def kdfparams.case dklen
    by (simp only: hex_back map_err_simps and_then_simps n simp_thms if_False if_True not_True_eq_False)
qed

lemma encrypted:
  assumes "encrypt_inner K W key_bytes address password log_n r p w = (Inr ks, w')"
    and "unat log_n < 64" and "length key_bytes = 32"
    and rng: "\<And>n w. length (fst (kw_fill W n w)) = n"
  obtains derived ciphertext where
    "derive_key K (cj_kdf (ks_crypto ks)) (cj_kdfparams (ks_crypto ks)) password = Ok derived"
    and "length derived = 32" and "length ciphertext = 32"
    and "cj_cipher (ks_crypto ks) = ''aes-128-ctr''"
    and "\<exists>iv. length iv = 16 \<and> kc_hex_decode K (cj_iv (ks_crypto ks)) = Inr iv"
    and "kc_hex_decode K (cj_ciphertext (ks_crypto ks)) = Inr ciphertext"
    and "kc_hex_decode K (cj_mac (ks_crypto ks)) = Inr (kc_keccak K (drop 16 derived @ ciphertext))"
    and "keystore_decrypt K ks password = Ok key_bytes"
proof -
  obtain salt w1 iv w2 where fills: "kw_fill W 32 w = (salt, w1)" "kw_fill W 16 w1 = (iv, w2)" by fastforce
  have iv: "length iv = 16" using rng [of 16 w1] fills(2) by simp
  from assms(1) obtain params derived keystream where
    params: "kc_scrypt_params K log_n r p = Inr params"
    and derived: "kc_scrypt K (str_bytes password) salt params dk_len = Inr derived"
    and keystream: "kc_cipher K (take 16 derived) iv = Some keystream"
    and ks: "ks_crypto ks = \<lparr> cj_cipher = ''aes-128-ctr'', cj_ciphertext = kc_hex_encode K (keystream key_bytes),
        cj_iv = kc_hex_encode K iv, cj_kdf = ''scrypt'',
        cj_kdfparams = KdfScrypt (push_bit (unat log_n) 1) r p (word_of_nat dk_len) (kc_hex_encode K salt),
        cj_mac = kc_hex_encode K (kc_keccak K (drop 16 derived @ keystream key_bytes)) \<rparr>"
    by (auto simp: encrypt_inner_def Let_def fills result_simps split: sum.splits prod.splits)
  have key: "derive_key K ''scrypt'' (KdfScrypt (push_bit (unat log_n) 1) r p (word_of_nat dk_len) (kc_hex_encode K salt))
      password = Ok derived"
    by (simp add: derive_scrypt [OF assms(2)] params derived del: push_bit_of_1)
  have lengths: "length derived = 32" "length (keystream key_bytes) = 32"
    using scrypt_length [OF derived] cipher_length [OF keystream] assms(3) by (simp_all add: dk_len_def)
  have "keystream (keystream key_bytes) = key_bytes" using cipher_undoes [OF keystream] .
  moreover have "fixed_bytes 16 iv = Some iv" "fixed_bytes 32 key_bytes = Some key_bytes"
    using iv assms(3) by (simp_all add: fixed_bytes_def)
  ultimately have "keystore_decrypt K ks password = Ok key_bytes"
    by (simp add: keystore_decrypt_def ks hex_back key keystream result_simps del: push_bit_of_1)
  with key lengths iv show thesis
    by (intro that [of derived "keystream key_bytes"]) (simp_all add: ks hex_back del: push_bit_of_1)
qed

lemma wrong_mac:
  assumes "cj_cipher (ks_crypto ks) = ''aes-128-ctr''"
    and "length iv = 16" "kc_hex_decode K (cj_iv (ks_crypto ks)) = Inr iv"
    and "kc_hex_decode K (cj_ciphertext (ks_crypto ks)) = Inr ciphertext"
    and "kc_hex_decode K (cj_mac (ks_crypto ks)) = Inr mac"
    and "derive_key K (cj_kdf (ks_crypto ks)) (cj_kdfparams (ks_crypto ks)) guess = Ok derived"
    and "kc_keccak K (drop 16 derived @ ciphertext) \<noteq> mac"
  shows "keystore_decrypt K ks guess = Err (SgKeystore KsInvalidPassword)"
  using assms by (simp add: keystore_decrypt_def fixed_bytes_def)

lemma encrypt_opens:
  assumes "keystore_encrypt K W key_bytes address password w = (Inr ks, w')"
    and "length key_bytes = 32" and "\<And>n w. length (fst (kw_fill W n w)) = n"
  shows "keystore_decrypt K ks password = Ok key_bytes"
    and "\<exists>derived ciphertext. derive_key K (cj_kdf (ks_crypto ks)) (cj_kdfparams (ks_crypto ks)) password = Ok derived
      \<and> (\<forall>guess other. derive_key K (cj_kdf (ks_crypto ks)) (cj_kdfparams (ks_crypto ks)) guess = Ok other
           \<longrightarrow> kc_keccak K (drop 16 other @ ciphertext) \<noteq> kc_keccak K (drop 16 derived @ ciphertext)
           \<longrightarrow> keystore_decrypt K ks guess = Err (SgKeystore KsInvalidPassword))"
proof -
  have n: "unat log_n_standard < 64" by (simp add: log_n_standard_def)
  note e = encrypted [OF assms(1) [unfolded keystore_encrypt_def] n assms(2,3)]
  show "keystore_decrypt K ks password = Ok key_bytes" by (rule e) assumption
  show "\<exists>derived ciphertext. derive_key K (cj_kdf (ks_crypto ks)) (cj_kdfparams (ks_crypto ks)) password = Ok derived
      \<and> (\<forall>guess other. derive_key K (cj_kdf (ks_crypto ks)) (cj_kdfparams (ks_crypto ks)) guess = Ok other
           \<longrightarrow> kc_keccak K (drop 16 other @ ciphertext) \<noteq> kc_keccak K (drop 16 derived @ ciphertext)
           \<longrightarrow> keystore_decrypt K ks guess = Err (SgKeystore KsInvalidPassword))"
    by (rule e) (blast intro: wrong_mac)
qed

end

text \<open>
  A buffer is filled to its length; a file written is read back as it is, and JSON that was written
  is read to the value it was written from.  The files in question are the text the crate writes, JSON
  and phrases, which is UTF-8; of a file of other bytes, which the library refuses to read as a string,
  nothing is said.
\<close>

locale keystore_files = keystore_cipher K for K :: "'sp keystore_crypto" +
  fixes W :: "'w keystore_world"
  assumes fills: "length (fst (kw_fill W n w)) = n"
    and json_back: "kw_to_json W ks = Inr json \<Longrightarrow> kw_from_json W (bytes_str json) = Inr ks"
    and read_back: "kw_write W path bs w = (Inr u, w') \<Longrightarrow> fst (kw_read W path w') = Inr (bytes_str bs)"
begin

lemma saved_file:
  assumes "encrypt_to_file K W key_bytes address password dir w = (Inr path, w1)"
  obtains ks w' where "keystore_encrypt K W key_bytes address password w = (Inr ks, w')"
    and "path = kw_join W dir (ks_id ks @ ''.json'')"
    and "\<And>w2 guess. fst (kw_read W path w2) = fst (kw_read W path w1)
      \<Longrightarrow> fst (decrypt_from_file K W path guess w2) = keystore_decrypt K ks guess"
proof -
  from assms(1) obtain ks w' json where enc: "keystore_encrypt K W key_bytes address password w = (Inr ks, w')"
    and path: "path = kw_join W dir (ks_id ks @ ''.json'')"
    and json: "kw_to_json W ks = Inr json" and written: "kw_write W path json w' = (Inr (), w1)"
    by (auto simp: encrypt_to_file_def keystore_encrypt_def Let_def split: prod.splits sum.splits)
  have "fst (decrypt_from_file K W path guess w2) = keystore_decrypt K ks guess"
    if "fst (kw_read W path w2) = fst (kw_read W path w1)" for guess w2
    using that read_back [OF written] json_back [OF json]
    by (auto simp: decrypt_from_file_def split: prod.splits sum.splits)
  with enc path show thesis by (rule that)
qed

end

text \<open>Keys of \<open>k256\<close> are 32 bytes, and are read back.\<close>

definition keeps_keys :: "('sk, 'sig, 'rid) key_ops \<Rightarrow> bool" where
  "keeps_keys KO \<longleftrightarrow> (\<forall>k. length (sk_bytes KO k) = 32 \<and> sk_of_bytes KO (sk_bytes KO k) = Inr k)"

section \<open>A reference instance\<close>

text \<open>A keystream that repeats the key, files in a map, and text that frames each character.\<close>

definition repeat_xor :: "bytes \<Rightarrow> bytes \<Rightarrow> bytes" where
  "repeat_xor key bs = map (\<lambda>(i, b). b XOR (key ! (i mod 16))) (enumerate 0 bs)"

definition sample_crypto :: "unit keystore_crypto" where
  "sample_crypto =
     \<lparr> kc_scrypt_params = (\<lambda>_ _ _. Inr ()),
       kc_scrypt = (\<lambda>password salt _ n. Inr (take n (password @ salt @ replicate n 0))),
       kc_pbkdf2 = (\<lambda>password salt _ n. take n (password @ salt @ replicate n 0)),
       kc_keccak = (\<lambda>bs. take 32 bs),
       kc_cipher = (\<lambda>key iv. if length key = 16 \<and> length iv = 16 then Some (repeat_xor key) else None),
       kc_hex_encode = hex_encode,
       kc_hex_decode = (\<lambda>s. map_err (\<lambda>_. ''Odd number of digits'') (decode_hex s)) \<rparr>"

fun frame :: "string \<Rightarrow> string" where
  "frame [] = ''0''"
| "frame (c # s) = CHR ''1'' # c # frame s"

fun unframe :: "string \<Rightarrow> string \<times> string" where
  "unframe [] = ([], [])"
| "unframe [_] = ([], [])"
| "unframe (a # c # rest) =
     (if a = CHR ''1'' then let (s, others) = unframe rest in (c # s, others) else ([], c # rest))"

fun unframes :: "nat \<Rightarrow> string \<Rightarrow> string list" where
  "unframes 0 _ = []"
| "unframes (Suc k) text = (let (s, rest) = unframe text in s # unframes k rest)"

definition unary_digits :: "'a::len word \<Rightarrow> string" where
  "unary_digits n = replicate (unat n) CHR ''1''"

definition kdf_fields :: "kdfparams \<Rightarrow> string list" where
  "kdf_fields params =
     (case params of
        KdfPbkdf2 c dklen prf salt \<Rightarrow> [''pbkdf2'', unary_digits c, unary_digits dklen, prf, salt, []]
      | KdfScrypt n r p dklen salt \<Rightarrow> [''scrypt'', unary_digits n, unary_digits r, unary_digits p, unary_digits dklen, salt])"

definition keystore_text :: "keystore_file \<Rightarrow> string" where
  "keystore_text ks = (let c = ks_crypto ks in
     concat (map frame ([ks_address ks, cj_cipher c, cj_ciphertext c, cj_iv c, cj_kdf c, cj_mac c, ks_id ks,
       unary_digits (ks_version ks)] @ kdf_fields (cj_kdfparams c))))"

definition keystore_of_text :: "string \<Rightarrow> keystore_file" where
  "keystore_of_text text = (let f = (\<lambda>i. unframes 14 text ! i); n = (\<lambda>i. length (f i)) in
     \<lparr> ks_address = f 0,
       ks_crypto = \<lparr> cj_cipher = f 1, cj_ciphertext = f 2, cj_iv = f 3, cj_kdf = f 4,
         cj_kdfparams =
           (if f 8 = ''scrypt''
            then KdfScrypt (word_of_nat (n 9)) (word_of_nat (n 10)) (word_of_nat (n 11)) (word_of_nat (n 12)) (f 13)
            else KdfPbkdf2 (word_of_nat (n 9)) (word_of_nat (n 10)) (f 11) (f 12)),
         cj_mac = f 5 \<rparr>,
       ks_id = f 6, ks_version = word_of_nat (n 7) \<rparr>)"

definition sample_world :: "(string \<rightharpoonup> bytes) keystore_world" where
  "sample_world =
     \<lparr> kw_fill = (\<lambda>n w. (replicate n 7, w)),
       kw_uuid = (\<lambda>w. (''c1b3'', w)),
       kw_join = (\<lambda>dir file. dir @ ''/'' @ file),
       kw_to_json = (\<lambda>ks. Inr (str_bytes (keystore_text ks))),
       kw_from_json = (\<lambda>text. Inr (keystore_of_text text)),
       kw_write = (\<lambda>path bs w. (Inr (), w(path \<mapsto> bs))),
       kw_read = (\<lambda>path w. (case w path of None \<Rightarrow> Inl ''not found'' | Some bs \<Rightarrow> Inr (bytes_str bs), w)) \<rparr>"

lemma unframe_frame: "unframe (frame s @ rest) = (s, rest)"
  by (induction s) (cases rest; simp)+

lemma unframes_frames: "unframes (length ss) (concat (map frame ss)) = ss"
  by (induction ss) (simp_all add: unframe_frame)

lemma keystore_text_back: "keystore_of_text (keystore_text ks) = ks"
proof -
  let ?c = "ks_crypto ks"
  let ?ss = "[ks_address ks, cj_cipher ?c, cj_ciphertext ?c, cj_iv ?c, cj_kdf ?c, cj_mac ?c, ks_id ks,
       unary_digits (ks_version ks)] @ kdf_fields (cj_kdfparams ?c)"
  have "length ?ss = 14" by (simp add: kdf_fields_def split: kdfparams.splits)
  then have "unframes 14 (keystore_text ks) = ?ss"
    using unframes_frames [of ?ss] by (simp only: keystore_text_def Let_def)
  then show ?thesis
    by (simp add: keystore_of_text_def Let_def kdf_fields_def unary_digits_def numeral_eq_Suc split: kdfparams.splits)
qed

lemma repeat_xor_simps:
  "length (repeat_xor key bs) = length bs" "repeat_xor key (repeat_xor key bs) = bs"
  by (auto simp: repeat_xor_def enumerate_eq_zip xor.assoc intro!: nth_equalityI)

interpretation sample_cipher: keystore_cipher sample_crypto
  by unfold_locales
    (auto simp: sample_crypto_def decode_hex_roundtrip repeat_xor_simps split: if_splits)

interpretation sample_files: keystore_files sample_crypto sample_world
  by unfold_locales (auto simp: sample_world_def keystore_text_back)

section \<open>What the files promise\<close>

text \<open>
  C29: a key encrypted under a password is decrypted with that password.  Another password from which
  a key can be derived is refused as an invalid password, unless its derived key has the very same MAC
  over the ciphertext.
\<close>

theorem keystore_opens:
  assumes "keystore_files K W"
    and "keystore_encrypt K W key_bytes address password w = (Ok ks, w')"
    and "length key_bytes = 32"
  shows "keystore_decrypt K ks password = Ok key_bytes
    \<and> (\<exists>derived ciphertext.
         derive_key K (cj_kdf (ks_crypto ks)) (cj_kdfparams (ks_crypto ks)) password = Ok derived
       \<and> (\<forall>guess other.
            derive_key K (cj_kdf (ks_crypto ks)) (cj_kdfparams (ks_crypto ks)) guess = Ok other
            \<longrightarrow> kc_keccak K (drop 16 other @ ciphertext) \<noteq> kc_keccak K (drop 16 derived @ ciphertext)
            \<longrightarrow> keystore_decrypt K ks guess = Err (SgKeystore KsInvalidPassword)))"
proof -
  have cipher: "keystore_cipher K" using assms(1) by (rule keystore_files.axioms(1))
  show ?thesis
    using keystore_cipher.encrypt_opens [OF cipher assms(2,3) keystore_files.fills [OF assms(1)]] by blast
qed

text \<open>
  C28: a signer saved to a keystore file is loaded back, key and address, with the password it was
  saved under, as long as the file reads as it was written.
\<close>

theorem saved_signer_loads:
  assumes "keystore_files K W" and "keeps_keys KO"
    and "local_address s = sk_address KO (local_key s)"
    and "encrypt_keystore b58_enc KO K W s dir password w = (Ok path, w1)"
    and "fst (kw_read W path w2) = fst (kw_read W path w1)"
  shows "fst (decrypt_keystore KO K W path password w2) = Ok s"
proof -
  have cipher: "keystore_cipher K" using assms(1) by (rule keystore_files.axioms(1))
  have key: "length (sk_bytes KO (local_key s)) = 32" "sk_of_bytes KO (sk_bytes KO (local_key s)) = Inr (local_key s)"
    using assms(2) by (simp_all add: keeps_keys_def)
  obtain ks w' where
    enc: "keystore_encrypt K W (sk_bytes KO (local_key s)) (address_to_base58 b58_enc (local_address s)) password w
      = (Inr ks, w')"
    and loads: "fst (decrypt_from_file K W path password w2) = keystore_decrypt K ks password"
    using keystore_files.saved_file [OF assms(1) assms(4) [unfolded encrypt_keystore_def]] assms(5) by metis
  have "fst (decrypt_from_file K W path password w2) = Ok (sk_bytes KO (local_key s))"
    using loads keystore_cipher.encrypt_opens(1) [OF cipher enc key(1) keystore_files.fills [OF assms(1)]] by simp
  then show ?thesis
    using key(2) assms(3)
    by (cases s) (auto simp: decrypt_keystore_def local_from_bytes_def split: prod.splits sum.splits)
qed

text \<open>
  The witnesses save a key under the password \<open>tron\<close>.  The keys of the instance are single bytes,
  padded to thirty-two.
\<close>

definition sample_keys :: "(u8, bytes, u8) key_ops" where
  "sample_keys =
     \<lparr> sk_of_bytes = (\<lambda>bs. Inr (bs ! 31)), sk_bytes = (\<lambda>k. replicate 31 0 @ [k]),
       sk_address = (\<lambda>k. address_from_evm_bytes (replicate 19 0 @ [k])),
       sk_sign = (\<lambda>k hash. Inr (hash @ hash, k AND 1)), sk_sig_bytes = (\<lambda>sig. sig), sk_rid_byte = (\<lambda>r. r) \<rparr>"

lemma sample_keeps_keys: "keeps_keys sample_keys"
  by (simp add: keeps_keys_def sample_keys_def nth_append)

definition saved_sample :: "u8 local_signer" where
  "saved_sample = local_from_signing_key sample_keys 5"

lemma sample_encrypts:
  "\<exists>ks. keystore_encrypt sample_crypto sample_world bs address password w = (Ok ks, w) \<and> ks_id ks = ''c1b3''"
  by (simp add: keystore_encrypt_def encrypt_inner_def sample_crypto_def sample_world_def dk_len_def Let_def)

lemma sample_encrypts_to:
  "\<exists>w1. encrypt_keystore b58_enc KO sample_crypto sample_world s ''keys'' password w = (Ok ''keys/c1b3.json'', w1)"
  by (simp add: encrypt_keystore_def encrypt_to_file_def encrypt_inner_def sample_crypto_def sample_world_def
      dk_len_def Let_def)

theorem keystore_opens_witness:
  "\<exists>ks. keystore_encrypt sample_crypto sample_world (replicate 32 9) ''TXyz'' ''tron'' Map.empty = (Ok ks, Map.empty)
     \<and> keystore_decrypt sample_crypto ks ''tron'' = Ok (replicate 32 9)"
  using keystore_opens [OF sample_files.keystore_files_axioms, of "replicate 32 9" "''TXyz''" "''tron''" Map.empty]
    sample_encrypts [of "replicate 32 9" "''TXyz''" "''tron''" Map.empty]
  by auto

theorem saved_signer_loads_witness:
  "\<exists>w1. encrypt_keystore bytes_str sample_keys sample_crypto sample_world saved_sample ''keys'' ''tron'' Map.empty
       = (Ok ''keys/c1b3.json'', w1)
     \<and> fst (decrypt_keystore sample_keys sample_crypto sample_world ''keys/c1b3.json'' ''tron'' w1) = Ok saved_sample"
proof -
  obtain w1 where "encrypt_keystore bytes_str sample_keys sample_crypto sample_world saved_sample ''keys'' ''tron''
      Map.empty = (Ok ''keys/c1b3.json'', w1)"
    using sample_encrypts_to by blast
  moreover have "local_address saved_sample = sk_address sample_keys (local_key saved_sample)"
    by (simp add: saved_sample_def local_from_signing_key_def)
  ultimately show ?thesis
    using saved_signer_loads [OF sample_files.keystore_files_axioms sample_keeps_keys] by blast
qed

end
