(* ===== verification/Mnemonic.thy ===== *)
theory Mnemonic
  imports Keystore
begin

text \<open>
  Signers derived from a mnemonic phrase (\<open>crates/signer/src/mnemonic.rs\<close>).  The phrases of BIP-39 and
  the extended keys of BIP-32 are those of the \<open>coins_bip39\<close> and \<open>coins_bip32\<close> crates: a mnemonic is a
  value of type \<open>'m\<close>, an extended private key one of \<open>'xk\<close>, and a derivation path the list of its
  indices.
\<close>

record ('m, 'xk, 'sk, 'w) hd_ops =
  hd_parse_path :: "string \<Rightarrow> string + u32 list"
  hd_of_phrase :: "string \<Rightarrow> string + 'm"
  hd_to_phrase :: "'m \<Rightarrow> string"
  hd_from_rng :: "nat \<Rightarrow> 'w \<Rightarrow> (string + 'm) \<times> 'w"
  hd_derive_key :: "'m \<Rightarrow> u32 list \<Rightarrow> string option \<Rightarrow> string + 'xk"
  hd_master_key :: "'m \<Rightarrow> string option \<Rightarrow> string + 'xk"
  hd_derive_child :: "'xk \<Rightarrow> u32 \<Rightarrow> string + 'xk"
  hd_signing_key :: "'xk \<Rightarrow> 'sk"

definition tron_coin_type :: u32 where "tron_coin_type = 195"

definition default_derivation_path_prefix :: string where
  "default_derivation_path_prefix = ''m/44'' @ [CHR 0x27] @ ''/195'' @ [CHR 0x27] @ ''/0'' @ [CHR 0x27] @ ''/0/''"

definition default_derivation_path :: string where
  "default_derivation_path = ''m/44'' @ [CHR 0x27] @ ''/195'' @ [CHR 0x27] @ ''/0'' @ [CHR 0x27] @ ''/0/0''"

definition xpriv_to_local_signer ::
  "('m, 'xk, 'sk, 'w) hd_ops \<Rightarrow> ('sk, 'sig, 'rid) key_ops \<Rightarrow> 'xk \<Rightarrow> signer_error + 'sk local_signer" where
  "xpriv_to_local_signer H KO xpriv = local_from_bytes KO (sk_bytes KO (hd_signing_key H xpriv))"

section \<open>The builder\<close>

record mnemonic_builder =
  mb_phrase :: "string option"
  mb_word_count :: nat
  mb_derivation_path :: "u32 list"
  mb_password :: "string option"
  mb_write_to :: "string option"

text \<open>\<open>Default\<close>, which parses a constant path: \<open>None\<close> stands for the panic of its \<open>unwrap\<close>.\<close>

definition mnemonic_default :: "('m, 'xk, 'sk, 'w) hd_ops \<Rightarrow> mnemonic_builder option" where
  "mnemonic_default H =
     map_option (\<lambda>path. \<lparr> mb_phrase = None, mb_word_count = 12, mb_derivation_path = path, mb_password = None,
       mb_write_to = None \<rparr>) (result_ok (hd_parse_path H default_derivation_path))"

definition builder_phrase :: "string \<Rightarrow> mnemonic_builder \<Rightarrow> mnemonic_builder" where
  "builder_phrase phrase B = B\<lparr> mb_phrase := Some phrase \<rparr>"

definition builder_word_count :: "nat \<Rightarrow> mnemonic_builder \<Rightarrow> mnemonic_builder" where
  "builder_word_count count B = B\<lparr> mb_word_count := count \<rparr>"

definition builder_derivation_path ::
  "('m, 'xk, 'sk, 'w) hd_ops \<Rightarrow> string \<Rightarrow> mnemonic_builder \<Rightarrow> signer_error + mnemonic_builder" where
  "builder_derivation_path H path B =
     and_then (map_err SgBip32 (hd_parse_path H path)) (\<lambda>p. Ok (B\<lparr> mb_derivation_path := p \<rparr>))"

definition builder_index ::
  "('m, 'xk, 'sk, 'w) hd_ops \<Rightarrow> u32 \<Rightarrow> mnemonic_builder \<Rightarrow> signer_error + mnemonic_builder" where
  "builder_index H index B = builder_derivation_path H (default_derivation_path_prefix @ show_nat (unat index)) B"

definition builder_password :: "string \<Rightarrow> mnemonic_builder \<Rightarrow> mnemonic_builder" where
  "builder_password password B = B\<lparr> mb_password := Some password \<rparr>"

definition builder_write_to :: "string \<Rightarrow> mnemonic_builder \<Rightarrow> mnemonic_builder" where
  "builder_write_to path B = B\<lparr> mb_write_to := Some path \<rparr>"

definition mnemonic_build ::
  "('m, 'xk, 'sk, 'w) hd_ops \<Rightarrow> ('sk, 'sig, 'rid) key_ops \<Rightarrow> mnemonic_builder \<Rightarrow> signer_error + 'sk local_signer" where
  "mnemonic_build H KO B =
     and_then (ok_or (SgMnemonicBuilder MissingPhrase) (mb_phrase B)) (\<lambda>phrase.
     and_then (map_err SgBip39 (hd_of_phrase H phrase)) (\<lambda>mnemonic.
     and_then (map_err SgBip39 (hd_derive_key H mnemonic (mb_derivation_path B) (mb_password B)))
       (xpriv_to_local_signer H KO)))"

text \<open>The constructors for the English word list.\<close>

definition mnemonic_from_phrase :: "('m, 'xk, 'sk, 'w) hd_ops \<Rightarrow> string \<Rightarrow> mnemonic_builder option" where
  "mnemonic_from_phrase H phrase = map_option (builder_phrase phrase) (mnemonic_default H)"

definition try_from_phrase_nth ::
  "('m, 'xk, 'sk, 'w) hd_ops \<Rightarrow> ('sk, 'sig, 'rid) key_ops \<Rightarrow> string \<Rightarrow> u32
     \<Rightarrow> (signer_error + 'sk local_signer) option" where
  "try_from_phrase_nth H KO phrase index =
     map_option (\<lambda>B. and_then (builder_index H index B) (mnemonic_build H KO)) (mnemonic_from_phrase H phrase)"

definition try_from_phrase_first ::
  "('m, 'xk, 'sk, 'w) hd_ops \<Rightarrow> ('sk, 'sig, 'rid) key_ops \<Rightarrow> string \<Rightarrow> (signer_error + 'sk local_signer) option" where
  "try_from_phrase_first H KO phrase = try_from_phrase_nth H KO phrase 0"

text \<open>
  A random phrase, drawn in the world.  When a directory is set the phrase is written there, under the
  address of the signer.
\<close>

definition build_random_with ::
  "(bytes \<Rightarrow> string) \<Rightarrow> ('m, 'xk, 'sk, 'w) hd_ops \<Rightarrow> ('sk, 'sig, 'rid) key_ops \<Rightarrow> 'w keystore_world
     \<Rightarrow> mnemonic_builder \<Rightarrow> 'w \<Rightarrow> (signer_error + ('sk local_signer \<times> string)) \<times> 'w" where
  "build_random_with b58_enc H KO W B w =
     (if mb_phrase B \<noteq> None then (Err (SgMnemonicBuilder PhraseAlreadySet), w)
      else case hd_from_rng H (mb_word_count B) w of
        (Inl e, w1) \<Rightarrow> (Err (SgBip39 e), w1)
      | (Inr mnemonic, w1) \<Rightarrow>
          (case and_then (map_err SgBip39 (hd_derive_key H mnemonic (mb_derivation_path B) (mb_password B)))
                  (xpriv_to_local_signer H KO) of
             Inl e \<Rightarrow> (Err e, w1)
           | Inr s \<Rightarrow>
               (let phrase = hd_to_phrase H mnemonic
                in case mb_write_to B of
                     None \<Rightarrow> (Ok (s, phrase), w1)
                   | Some dir \<Rightarrow>
                       (case kw_write W (kw_join W dir (address_to_base58 b58_enc (local_address s)))
                               (str_bytes phrase) w1 of
                          (Inl e, w2) \<Rightarrow> (Err (SgIo e), w2)
                        | (Inr _, w2) \<Rightarrow> (Ok (s, phrase), w2)))))"

section \<open>Keys below a path\<close>

record 'xk mnemonic_key = mk_key :: 'xk

fun derive_children :: "('m, 'xk, 'sk, 'w) hd_ops \<Rightarrow> u32 list \<Rightarrow> 'xk \<Rightarrow> string + 'xk" where
  "derive_children H [] key = Ok key"
| "derive_children H (child_index # rest) key =
     and_then (hd_derive_child H key child_index) (derive_children H rest)"

definition build_parent_key ::
  "('m, 'xk, 'sk, 'w) hd_ops \<Rightarrow> mnemonic_builder \<Rightarrow> signer_error + 'xk mnemonic_key" where
  "build_parent_key H B =
     and_then (ok_or (SgMnemonicBuilder MissingPhrase) (mb_phrase B)) (\<lambda>phrase.
     and_then (map_err SgBip39 (hd_of_phrase H phrase)) (\<lambda>mnemonic.
     and_then (map_err SgBip39 (hd_master_key H mnemonic (mb_password B))) (\<lambda>master.
       let depth = length (mb_derivation_path B)
       in and_then
            (if depth > 1 then map_err SgBip32 (derive_children H (take (depth - 1) (mb_derivation_path B)) master)
             else Ok master)
            (\<lambda>key. Ok \<lparr> mk_key = key \<rparr>))))"

definition key_child ::
  "('m, 'xk, 'sk, 'w) hd_ops \<Rightarrow> 'xk mnemonic_key \<Rightarrow> u32 \<Rightarrow> signer_error + 'xk mnemonic_key" where
  "key_child H K index =
     and_then (map_err SgBip32 (hd_derive_child H (mk_key K) index)) (\<lambda>key. Ok \<lparr> mk_key = key \<rparr>)"

definition key_signer ::
  "('m, 'xk, 'sk, 'w) hd_ops \<Rightarrow> ('sk, 'sig, 'rid) key_ops \<Rightarrow> 'xk mnemonic_key \<Rightarrow> signer_error + 'sk local_signer" where
  "key_signer H KO K = xpriv_to_local_signer H KO (mk_key K)"

section \<open>The iterator\<close>

datatype 'xk iter_state =
    IterActive "'xk mnemonic_key" u32
  | IterError "signer_error option"

definition iter_missing_phrase :: "'xk iter_state" where
  "iter_missing_phrase = IterError (Some (SgMnemonicBuilder MissingPhrase))"

definition iter_error :: "signer_error \<Rightarrow> 'xk iter_state" where
  "iter_error e = IterError (Some e)"

definition children_from :: "'xk mnemonic_key \<Rightarrow> u32 \<Rightarrow> 'xk iter_state" where
  "children_from K start = IterActive K start"

definition key_children :: "'xk mnemonic_key \<Rightarrow> 'xk iter_state" where
  "key_children K = children_from K 0"

text \<open>\<open>checked_add\<close> fails before the state moves, so an iterator that has ended stays ended.\<close>

definition iter_next ::
  "('m, 'xk, 'sk, 'w) hd_ops \<Rightarrow> ('sk, 'sig, 'rid) key_ops \<Rightarrow> 'xk iter_state
     \<Rightarrow> (signer_error + 'sk local_signer) option \<times> 'xk iter_state" where
  "iter_next H KO state =
     (case state of
        IterActive K idx \<Rightarrow>
          (if unat idx + 1 < 2 ^ 32
           then (Some (and_then (key_child H K idx) (key_signer H KO)), IterActive K (idx + 1))
           else (None, state))
      | IterError e \<Rightarrow> (map_option Err e, IterError None))"

definition builder_into_iter :: "('m, 'xk, 'sk, 'w) hd_ops \<Rightarrow> mnemonic_builder \<Rightarrow> 'xk iter_state" where
  "builder_into_iter H B =
     (if mb_phrase B = None then iter_missing_phrase
      else let start = (if mb_derivation_path B = [] then 0 else List.last (mb_derivation_path B))
           in case build_parent_key H B of
                Inr key \<Rightarrow> children_from key start
              | Inl e \<Rightarrow> iter_error e)"

text \<open>\<open>Iterator::nth\<close>\<close>

fun iter_nth ::
  "('m, 'xk, 'sk, 'w) hd_ops \<Rightarrow> ('sk, 'sig, 'rid) key_ops \<Rightarrow> nat \<Rightarrow> 'xk iter_state
     \<Rightarrow> (signer_error + 'sk local_signer) option" where
  "iter_nth H KO 0 state = fst (iter_next H KO state)"
| "iter_nth H KO (Suc k) state =
     (case iter_next H KO state of
        (None, _) \<Rightarrow> None
      | (Some _, state') \<Rightarrow> iter_nth H KO k state')"

section \<open>What is relied on\<close>

text \<open>
  Deriving a key along a path is deriving the children from the master key in turn, a phrase that was
  printed is read, and the default path and the paths of an index parse to their indices; the first
  three of them are hardened.
\<close>

definition account_path :: "u32 \<Rightarrow> u32 list" where
  "account_path index = [0x8000002C, 0x80000000 + tron_coin_type, 0x80000000, 0, index]"

locale hd_wallet =
  fixes H :: "('m, 'xk, 'sk, 'w) hd_ops"
  assumes derives: "result_ok (hd_derive_key H m path password)
      = result_ok (and_then (hd_master_key H m password) (derive_children H path))"
    and phrase_back: "hd_of_phrase H (hd_to_phrase H m) = Inr m"
    and parses: "index < 0x80000000 \<Longrightarrow>
      hd_parse_path H (default_derivation_path_prefix @ show_nat (unat index)) = Inr (account_path index)"
begin

lemma derive_append:
  "derive_children H (path @ [i]) key = and_then (derive_children H path key) (\<lambda>k. hd_derive_child H k i)"
proof (induction path arbitrary: key)
  case Nil
  then show ?case by (cases "hd_derive_child H key i") simp_all
next
  case (Cons a path)
  then show ?case by (cases "hd_derive_child H key a") simp_all
qed

lemma parent:
  assumes "mb_phrase B = Some phrase" and "mb_derivation_path B = path @ [start]"
  shows "build_parent_key H B =
    and_then (map_err SgBip39 (hd_of_phrase H phrase)) (\<lambda>m.
    and_then (map_err SgBip39 (hd_master_key H m (mb_password B))) (\<lambda>master.
    and_then (map_err SgBip32 (derive_children H path master)) (\<lambda>key. Ok \<lparr> mk_key = key \<rparr>)))"
  using assms by (cases path) (simp_all add: build_parent_key_def Let_def)

lemma child_is_build:
  assumes "mb_phrase B = Some phrase" and "mb_derivation_path B = path @ [start]"
    and "build_parent_key H B = Ok K"
  shows "result_ok (and_then (key_child H K i) (key_signer H KO))
    = result_ok (mnemonic_build H KO (B\<lparr> mb_derivation_path := path @ [i] \<rparr>))"
proof -
  from assms(3) obtain m master where m: "hd_of_phrase H phrase = Inr m"
    and master: "hd_master_key H m (mb_password B) = Inr master"
    and key: "derive_children H path master = Inr (mk_key K)"
    by (auto simp: parent [OF assms(1,2)] result_simps)
  have "result_ok (hd_derive_key H m (path @ [i]) (mb_password B)) = result_ok (hd_derive_child H (mk_key K) i)"
    by (simp add: derives master derive_append key)
  then show ?thesis
    using assms(1) m
    by (cases "hd_derive_key H m (path @ [i]) (mb_password B)"; cases "hd_derive_child H (mk_key K) i")
      (simp_all add: mnemonic_build_def key_child_def key_signer_def)
qed

end

lemma iter_nth_active:
  "iter_nth H KO k (IterActive K start) =
     (if unat start + k < 2 ^ 32 - 1
      then Some (and_then (key_child H K (start + word_of_nat k)) (key_signer H KO)) else None)"
proof (induction k arbitrary: start)
  case 0
  show ?case by (simp add: iter_next_def)
next
  case (Suc k)
  have "unat (start + 1) = unat start + 1" if "unat start + 1 < 2 ^ 32"
    using that unat_add_lem [of start 1] by simp
  then show ?case by (auto simp: iter_next_def Suc algebra_simps)
qed

section \<open>What derivation promises\<close>

text \<open>
  C30: iterating over the accounts of a phrase gives, at every position, the signer of the child of that
  index of the account path's parent.  At every position below \<open>2^31\<close> that is the signer that deriving
  the account on its own gives, or an error where that is an error; from \<open>2^31\<close> on the children are the
  hardened ones, which are not accounts of their own.  The iteration ends: it has \<open>2^32 - 1\<close> positions,
  the last index of a \<open>u32\<close> is never reached.
\<close>

theorem accounts_in_order:
  assumes "hd_wallet H" and "mnemonic_from_phrase H phrase = Some B" and "build_parent_key H B = Ok K"
  shows "(k < 2 ^ 32 - 1 \<longrightarrow>
      iter_nth H KO k (builder_into_iter H B) = Some (and_then (key_child H K (word_of_nat k)) (key_signer H KO)))
    \<and> (k < 2 ^ 31 \<longrightarrow>
      (\<exists>item account. iter_nth H KO k (builder_into_iter H B) = Some item
         \<and> try_from_phrase_nth H KO phrase (word_of_nat k) = Some account \<and> result_ok item = result_ok account))
    \<and> (iter_nth H KO k (builder_into_iter H B) = None \<longleftrightarrow> 2 ^ 32 - 1 \<le> k)"
proof -
  have zero: "show_nat 0 = ''0''" by (simp add: show_nat.simps digit_char_def char_of_def bit_simps)
  have path0: "hd_parse_path H default_derivation_path = Inr (account_path 0)"
    using hd_wallet.parses [OF assms(1), of 0]
    by (simp add: zero default_derivation_path_def default_derivation_path_prefix_def)
  have B: "mb_phrase B = Some phrase" "mb_derivation_path B = butlast (account_path 0) @ [0]"
    using assms(2) by (auto simp: mnemonic_from_phrase_def mnemonic_default_def path0 builder_phrase_def account_path_def)
  have iter: "builder_into_iter H B = IterActive K 0"
    using B assms(3) by (simp add: builder_into_iter_def children_from_def)
  have "\<exists>account. try_from_phrase_nth H KO phrase (word_of_nat k) = Some account
      \<and> result_ok (and_then (key_child H K (word_of_nat k)) (key_signer H KO)) = result_ok account"
    if k: "k < 2 ^ 31"
  proof -
    have u: "unat (word_of_nat k :: u32) = k" using k by (simp add: unat_of_nat take_bit_nat_eq_self_iff take_bit_nat_eq_self)
    have "(word_of_nat k :: u32) < 0x80000000" using k by (simp add: word_less_nat_alt u)
    then have "builder_index H (word_of_nat k) B = Ok (B\<lparr> mb_derivation_path := account_path (word_of_nat k) \<rparr>)"
      using hd_wallet.parses [OF assms(1), of "word_of_nat k"] by (simp add: builder_index_def builder_derivation_path_def u)
    then show ?thesis
      using hd_wallet.child_is_build [OF assms(1) B assms(3), of "word_of_nat k" KO] assms(2)
      by (simp add: try_from_phrase_nth_def account_path_def)
  qed
  then show ?thesis by (auto simp: iter iter_nth_active)
qed

text \<open>
  The phrase a random build returns gives the same signer when it is built from, with the same path
  and passphrase; and when a directory was set, the phrase can be read there under the signer's address.
\<close>

theorem random_phrase_rebuilds:
  assumes "hd_wallet H" and "keystore_files K W"
    and "build_random_with b58_enc H KO W B w = (Ok (s, phrase), w')"
  shows "mnemonic_build H KO (builder_phrase phrase B) = Ok s
    \<and> (\<forall>dir. mb_write_to B = Some dir \<longrightarrow>
         fst (kw_read W (kw_join W dir (address_to_base58 b58_enc (local_address s))) w') = Inr phrase)"
proof -
  from assms(3) obtain m w1 where m: "hd_from_rng H (mb_word_count B) w = (Inr m, w1)"
    and s: "and_then (map_err SgBip39 (hd_derive_key H m (mb_derivation_path B) (mb_password B)))
          (xpriv_to_local_signer H KO) = Inr s"
    and phrase: "phrase = hd_to_phrase H m"
    and written: "\<And>dir. mb_write_to B = Some dir \<Longrightarrow>
          kw_write W (kw_join W dir (address_to_base58 b58_enc (local_address s))) (str_bytes phrase) w1 = (Inr (), w')"
    by (auto simp: build_random_with_def Let_def split: if_splits prod.splits sum.splits option.splits)
  show ?thesis
    using hd_wallet.phrase_back [OF assms(1)] s keystore_files.read_back [OF assms(2) written]
    by (simp add: mnemonic_build_def builder_phrase_def phrase)
qed

section \<open>A reference instance\<close>

text \<open>A phrase is its own mnemonic, and an extended key is a byte that each index is added to.\<close>

definition sample_hd :: "(string, u8, u8, (string \<rightharpoonup> bytes)) hd_ops" where
  "sample_hd =
     \<lparr> hd_parse_path = (\<lambda>text. let n = length default_derivation_path_prefix
         in if take n text = default_derivation_path_prefix
            then Inr (account_path (word_of_nat (digits_val (drop n text)))) else Inl ''bad path''),
       hd_of_phrase = Inr, hd_to_phrase = (\<lambda>m. m),
       hd_from_rng = (\<lambda>count w. (Inr (concat (replicate count ''abandon '')), w)),
       hd_derive_key = (\<lambda>m path _. Inr (foldl (\<lambda>key i. key + ucast i) (word_of_nat (length m)) path)),
       hd_master_key = (\<lambda>m _. Inr (word_of_nat (length m))),
       hd_derive_child = (\<lambda>key i. Inr (key + ucast i)), hd_signing_key = (\<lambda>key. key) \<rparr>"

lemma sample_children: "derive_children sample_hd path = (\<lambda>key. Inr (foldl (\<lambda>key i. key + ucast i) key path))"
proof
  show "derive_children sample_hd path key = Inr (foldl (\<lambda>key i. key + ucast i) key path)" for key
    by (induction path arbitrary: key) (simp_all add: sample_hd_def)
qed

interpretation sample_hd: hd_wallet sample_hd
  by unfold_locales (simp add: sample_children, simp_all add: sample_hd_def decimal_simps)

definition sample_builder :: mnemonic_builder where
  "sample_builder =
     \<lparr> mb_phrase = Some ''abandon about'', mb_word_count = 12, mb_derivation_path = account_path 0,
       mb_password = None, mb_write_to = None \<rparr>"

lemma sample_from_phrase: "mnemonic_from_phrase sample_hd ''abandon about'' = Some sample_builder"
  by (simp add: mnemonic_from_phrase_def mnemonic_default_def sample_hd_def builder_phrase_def sample_builder_def
      default_derivation_path_def default_derivation_path_prefix_def digits_val_def digit_val_def)

lemma sample_parent: "\<exists>K. build_parent_key sample_hd sample_builder = Ok K"
  by (simp add: build_parent_key_def sample_builder_def account_path_def sample_children)
    (simp add: sample_hd_def)

theorem accounts_in_order_witness:
  "\<exists>item account. iter_nth sample_hd sample_keys 3 (builder_into_iter sample_hd sample_builder) = Some item
     \<and> try_from_phrase_nth sample_hd sample_keys ''abandon about'' (word_of_nat 3) = Some account
     \<and> result_ok item = result_ok account"
proof -
  obtain K where "build_parent_key sample_hd sample_builder = Ok K" using sample_parent by blast
  from accounts_in_order [OF sample_hd.hd_wallet_axioms sample_from_phrase this, of 3 sample_keys]
  show ?thesis by auto
qed

definition random_builder :: mnemonic_builder where
  "random_builder = sample_builder\<lparr> mb_phrase := None, mb_write_to := Some ''phrases'' \<rparr>"

lemma sample_draws:
  "hd_from_rng sample_hd count w = (Inr (concat (replicate count ''abandon '')), w)"
  "\<exists>key. hd_derive_key sample_hd m path password = Inr key"
  by (simp_all add: sample_hd_def)

lemma sample_writes: "kw_write sample_world path bs w = (Inr (), w(path \<mapsto> bs))"
  by (simp add: sample_world_def)

lemma sample_signers:
  "xpriv_to_local_signer sample_hd sample_keys key
     = Ok \<lparr> local_key = key, local_address = sk_address sample_keys key \<rparr>"
  by (simp add: xpriv_to_local_signer_def local_from_bytes_def sample_keys_def sample_hd_def nth_append)

theorem random_phrase_rebuilds_witness:
  "\<exists>s phrase w. build_random_with bytes_str sample_hd sample_keys sample_world random_builder Map.empty
       = (Ok (s, phrase), w)
     \<and> mnemonic_build sample_hd sample_keys (builder_phrase phrase random_builder) = Ok s
     \<and> fst (kw_read sample_world (kw_join sample_world ''phrases'' (address_to_base58 bytes_str (local_address s))) w)
         = Inr phrase"
proof -
  obtain key where "hd_derive_key sample_hd (concat (replicate 12 ''abandon '')) (account_path 0) None = Inr key"
    using sample_draws(2) by blast
  then have "\<exists>s phrase w. build_random_with bytes_str sample_hd sample_keys sample_world random_builder Map.empty
       = (Ok (s, phrase), w)"
    by (simp add: build_random_with_def random_builder_def sample_builder_def sample_signers sample_draws(1)
        sample_writes Let_def)
  then obtain s phrase w where built: "build_random_with bytes_str sample_hd sample_keys sample_world random_builder
      Map.empty = (Ok (s, phrase), w)" by blast
  moreover have "mb_write_to random_builder = Some ''phrases''" by (simp add: random_builder_def)
  ultimately show ?thesis
    using random_phrase_rebuilds [OF sample_hd.hd_wallet_axioms sample_files.keystore_files_axioms built] by blast
qed

end
