(* ===== verification/Aws_Signer.thy ===== *)
theory Aws_Signer
  imports Mnemonic
begin

text \<open>
  The signer whose key is kept by AWS KMS (\<open>crates/signer-aws/src/signer.rs\<close>).  The service is a record
  of requests on the world, whose answers may lack the public key or the signature; the elliptic curve
  operations of \<open>k256\<close> and the decoding of \<open>spki\<close> are a record of functions.  The service is not
  trusted to sign: a signature is returned only after it has recovered the signer's own public key.
\<close>

datatype aws_signer_error =
    AwsSign string
  | AwsGetPublicKey string
  | AwsK256 string
  | AwsSpki string
  | PublicKeyNotFound
  | SignatureNotFound
  | SignatureRecoveryFailed

text \<open>The dash in the text of a failed recovery is written in ASCII.\<close>

definition aws_signer_error_display :: "aws_signer_error \<Rightarrow> string" where
  "aws_signer_error_display e =
     (case e of
        AwsSign s \<Rightarrow> s
      | AwsGetPublicKey s \<Rightarrow> s
      | AwsK256 s \<Rightarrow> s
      | AwsSpki s \<Rightarrow> s
      | PublicKeyNotFound \<Rightarrow> ''public key not found in KMS response''
      | SignatureNotFound \<Rightarrow> ''signature not found in KMS response''
      | SignatureRecoveryFailed \<Rightarrow>
          ''failed to recover parity from KMS signature - key may not be secp256k1'')"

definition signer_error_of_aws :: "aws_signer_error \<Rightarrow> signer_error" where
  "signer_error_of_aws e = SgOther (aws_signer_error_display e)"

section \<open>The service and the curve\<close>

datatype message_type = MessageDigest | MessageRaw

datatype signing_algorithm = EcdsaSha256 | OtherSigningAlgorithm

record sign_request =
  sign_key_id :: string
  sign_message :: bytes
  sign_message_type :: message_type
  sign_algorithm :: signing_algorithm

record 'w kms_client =
  kms_get_public_key :: "string \<Rightarrow> 'w \<Rightarrow> (string + bytes option) \<times> 'w"
  kms_sign :: "sign_request \<Rightarrow> 'w \<Rightarrow> (string + bytes option) \<times> 'w"

record ('key, 'sig, 'rid) curve_ops =
  cv_spki :: "bytes \<Rightarrow> string + bytes"
  cv_from_sec1 :: "bytes \<Rightarrow> string + 'key"
  cv_to_sec1 :: "'key \<Rightarrow> bytes"
  cv_keccak :: "bytes \<Rightarrow> bytes"
  cv_from_der :: "bytes \<Rightarrow> string + 'sig"
  cv_normalize_s :: "'sig \<Rightarrow> 'sig option"
  cv_sig_bytes :: "'sig \<Rightarrow> bytes"
  cv_sig_slice :: "bytes \<Rightarrow> 'sig option"
  cv_recovery_id :: "bool \<Rightarrow> bool \<Rightarrow> 'rid"
  cv_rid_byte :: "'rid \<Rightarrow> u8"
  cv_rid_of :: "u8 \<Rightarrow> 'rid option"
  cv_recover :: "bytes \<Rightarrow> 'sig \<Rightarrow> 'rid \<Rightarrow> 'key option"

definition curve_address :: "('key, 'sig, 'rid) curve_ops \<Rightarrow> 'key \<Rightarrow> address" where
  "curve_address C = address_from_public_key (cv_keccak C) (cv_to_sec1 C)"

section \<open>Requests and answers\<close>

definition request_get_pubkey ::
  "'w kms_client \<Rightarrow> string \<Rightarrow> 'w \<Rightarrow> (aws_signer_error + bytes option) \<times> 'w" where
  "request_get_pubkey kms key_id w =
     (case kms_get_public_key kms key_id w of (r, w1) \<Rightarrow> (map_err AwsGetPublicKey r, w1))"

definition request_sign_digest ::
  "'w kms_client \<Rightarrow> string \<Rightarrow> bytes \<Rightarrow> 'w \<Rightarrow> (aws_signer_error + bytes option) \<times> 'w" where
  "request_sign_digest kms key_id digest w =
     (case kms_sign kms \<lparr> sign_key_id = key_id, sign_message = digest, sign_message_type = MessageDigest,
                          sign_algorithm = EcdsaSha256 \<rparr> w of
        (r, w1) \<Rightarrow> (map_err AwsSign r, w1))"

definition decode_pubkey :: "('key, 'sig, 'rid) curve_ops \<Rightarrow> bytes option \<Rightarrow> aws_signer_error + 'key" where
  "decode_pubkey C resp =
     and_then (ok_or PublicKeyNotFound resp) (\<lambda>raw.
     and_then (map_err AwsSpki (cv_spki C raw)) (\<lambda>subject_public_key.
       map_err AwsK256 (cv_from_sec1 C subject_public_key)))"

definition decode_signature :: "('key, 'sig, 'rid) curve_ops \<Rightarrow> bytes option \<Rightarrow> aws_signer_error + 'sig" where
  "decode_signature C resp =
     and_then (ok_or SignatureNotFound resp) (\<lambda>raw.
     and_then (map_err AwsK256 (cv_from_der C raw)) (\<lambda>sig.
       Ok (case cv_normalize_s C sig of Some low \<Rightarrow> low | None \<Rightarrow> sig)))"

definition check_candidate ::
  "('key, 'sig, 'rid) curve_ops \<Rightarrow> recoverable_signature \<Rightarrow> bytes \<Rightarrow> 'key \<Rightarrow> bool" where
  "check_candidate C g hash expected =
     (case result_ok (signature_split (cv_sig_slice C) (cv_rid_of C) g) of
        None \<Rightarrow> False
      | Some (s, recid) \<Rightarrow>
          (case cv_recover C hash s recid of None \<Rightarrow> False | Some recovered \<Rightarrow> recovered = expected))"

definition sig_from_digest_bytes_trial_recovery ::
  "('key, 'sig, 'rid) curve_ops \<Rightarrow> 'sig \<Rightarrow> bytes \<Rightarrow> 'key \<Rightarrow> aws_signer_error + recoverable_signature" where
  "sig_from_digest_bytes_trial_recovery C sig hash pubkey =
     (let candidate = signature_from_signature (cv_sig_bytes C) (cv_rid_byte C) sig (cv_recovery_id C False False)
      in if check_candidate C candidate hash pubkey then Ok candidate
         else
           let candidate = signature_from_signature (cv_sig_bytes C) (cv_rid_byte C) sig (cv_recovery_id C True False)
           in if check_candidate C candidate hash pubkey then Ok candidate else Err SignatureRecoveryFailed)"

section \<open>The signer\<close>

record ('w, 'key) aws_signer =
  aws_kms :: "'w kms_client"
  aws_key_id :: string
  aws_pubkey :: 'key
  aws_address :: address

definition get_pubkey_for_key ::
  "('key, 'sig, 'rid) curve_ops \<Rightarrow> ('w, 'key) aws_signer \<Rightarrow> string \<Rightarrow> 'w \<Rightarrow> (aws_signer_error + 'key) \<times> 'w" where
  "get_pubkey_for_key C S key_id w =
     (case request_get_pubkey (aws_kms S) key_id w of (r, w1) \<Rightarrow> (and_then r (decode_pubkey C), w1))"

definition get_pubkey ::
  "('key, 'sig, 'rid) curve_ops \<Rightarrow> ('w, 'key) aws_signer \<Rightarrow> 'w \<Rightarrow> (aws_signer_error + 'key) \<times> 'w" where
  "get_pubkey C S w = get_pubkey_for_key C S (aws_key_id S) w"

definition aws_signer_new ::
  "('key, 'sig, 'rid) curve_ops \<Rightarrow> 'w kms_client \<Rightarrow> string \<Rightarrow> 'w
     \<Rightarrow> (aws_signer_error + ('w, 'key) aws_signer) \<times> 'w" where
  "aws_signer_new C kms key_id w =
     (case request_get_pubkey kms key_id w of
        (r, w1) \<Rightarrow>
          (and_then r (\<lambda>resp. and_then (decode_pubkey C resp) (\<lambda>pubkey.
             Ok \<lparr> aws_kms = kms, aws_key_id = key_id, aws_pubkey = pubkey, aws_address = curve_address C pubkey \<rparr>)),
           w1))"

definition sign_digest_with_key ::
  "('key, 'sig, 'rid) curve_ops \<Rightarrow> ('w, 'key) aws_signer \<Rightarrow> string \<Rightarrow> bytes \<Rightarrow> 'w
     \<Rightarrow> (aws_signer_error + 'sig) \<times> 'w" where
  "sign_digest_with_key C S key_id digest w =
     (case request_sign_digest (aws_kms S) key_id digest w of (r, w1) \<Rightarrow> (and_then r (decode_signature C), w1))"

definition sign_digest ::
  "('key, 'sig, 'rid) curve_ops \<Rightarrow> ('w, 'key) aws_signer \<Rightarrow> bytes \<Rightarrow> 'w \<Rightarrow> (aws_signer_error + 'sig) \<times> 'w" where
  "sign_digest C S digest w = sign_digest_with_key C S (aws_key_id S) digest w"

definition aws_sign_hash_inner ::
  "('key, 'sig, 'rid) curve_ops \<Rightarrow> ('w, 'key) aws_signer \<Rightarrow> bytes \<Rightarrow> 'w
     \<Rightarrow> (aws_signer_error + recoverable_signature) \<times> 'w" where
  "aws_sign_hash_inner C S hash w =
     (case sign_digest C S hash w of
        (r, w1) \<Rightarrow> (and_then r (\<lambda>sig. sig_from_digest_bytes_trial_recovery C sig hash (aws_pubkey S)), w1))"

definition aws_sign_hash ::
  "('key, 'sig, 'rid) curve_ops \<Rightarrow> ('w, 'key) aws_signer \<Rightarrow> 'w signing" where
  "aws_sign_hash C S hash w =
     (case aws_sign_hash_inner C S hash w of (r, w1) \<Rightarrow> (map_err signer_error_of_aws r, w1))"

definition aws_as_signer :: "('key, 'sig, 'rid) curve_ops \<Rightarrow> ('w, 'key) aws_signer \<Rightarrow> 'w signer" where
  "aws_as_signer C S =
     \<lparr> signer_address = aws_address S, signer_sign_hash = aws_sign_hash C S,
       signer_sign_message = default_sign_message (cv_keccak C) (aws_sign_hash C S) \<rparr>"

section \<open>What the signer promises\<close>

abbreviation curve_recover ::
  "('key, 'sig, 'rid) curve_ops \<Rightarrow> recoverable_signature \<Rightarrow> bytes \<Rightarrow> signature_error + address" where
  "curve_recover C \<equiv> recover_address_from_prehash (cv_sig_slice C) (cv_rid_of C) (cv_recover C) (curve_address C)"

lemma candidate_recovers: "check_candidate C g hash key \<Longrightarrow> curve_recover C g hash = Ok (curve_address C key)"
  by (auto simp: check_candidate_def recover_address_from_prehash_def result_simps split: option.splits prod.splits)

lemma trial_recovers:
  "sig_from_digest_bytes_trial_recovery C sig hash key = Ok g \<Longrightarrow> check_candidate C g hash key"
  by (auto simp: sig_from_digest_bytes_trial_recovery_def Let_def split: if_splits)

lemma new_address: "aws_signer_new C kms key_id w = (Ok S, w1) \<Longrightarrow> aws_address S = curve_address C (aws_pubkey S)"
  by (auto simp: aws_signer_new_def result_simps split: prod.splits)

lemma aws_signs:
  assumes "aws_address S = curve_address C (aws_pubkey S)" and "aws_sign_hash C S hash w = (Inr g, w')"
  shows "curve_recover C g hash = Ok (aws_address S)"
  using assms
  by (auto simp: aws_sign_hash_def aws_sign_hash_inner_def result_simps candidate_recovers
      dest!: trial_recovers split: prod.splits)

text \<open>
  C31: whatever the key service answers, a signature that a signer made by \<open>new\<close> returns recovers to the
  address of the signer, and a wallet started from it is one whose signatures are its signers'.  A
  service whose signature recovers the public key under either recovery id is not refused.
\<close>

theorem kms_signature_recovers:
  assumes "aws_signer_new C kms key_id w = (Ok S, w1)"
  shows "(\<forall>hash w2 g w3. signer_sign_hash (aws_as_signer C S) hash w2 = (Ok g, w3)
             \<longrightarrow> curve_recover C g hash = Ok (signer_address (aws_as_signer C S)))
    \<and> honest_wallet (curve_recover C) (wallet_new (aws_as_signer C S))
    \<and> (\<forall>hash w2 sig w3. sign_digest C S hash w2 = (Ok sig, w3)
         \<longrightarrow> (\<exists>odd_y. check_candidate C
               (signature_from_signature (cv_sig_bytes C) (cv_rid_byte C) sig (cv_recovery_id C odd_y False))
               hash (aws_pubkey S))
         \<longrightarrow> (\<exists>g. signer_sign_hash (aws_as_signer C S) hash w2 = (Ok g, w3)))"
proof -
  note own = new_address [OF assms]
  have recovers: "curve_recover C g hash = Ok (signer_address (aws_as_signer C S))"
    if "signer_sign_hash (aws_as_signer C S) hash w2 = (Ok g, w3)" for hash w2 g w3
    using that aws_signs [OF own] by (auto simp: aws_as_signer_def)
  moreover from this have "honest_wallet (curve_recover C) (wallet_new (aws_as_signer C S))"
    by (auto simp: honest_wallet_def wallet_ops split: if_splits)
  moreover have "\<exists>g. signer_sign_hash (aws_as_signer C S) hash w2 = (Ok g, w3)"
    if "sign_digest C S hash w2 = (Ok sig, w3)" and "check_candidate C
         (signature_from_signature (cv_sig_bytes C) (cv_rid_byte C) sig (cv_recovery_id C odd_y False))
         hash (aws_pubkey S)" for hash w2 sig w3 odd_y
    using that
    by (cases odd_y)
      (auto simp: aws_as_signer_def aws_sign_hash_def aws_sign_hash_inner_def
        sig_from_digest_bytes_trial_recovery_def Let_def)
  ultimately show ?thesis by blast
qed

section \<open>A reference instance\<close>

text \<open>
  A key is a byte, a signature its key and the parity it recovers with; the service holds key 7 and
  answers with the odd parity.
\<close>

definition sample_curve :: "(u8, u8 \<times> bool, bool) curve_ops" where
  "sample_curve =
     \<lparr> cv_spki = (\<lambda>bs. Inr bs), cv_from_sec1 = (\<lambda>bs. if bs = [] then Inl ''crypto error'' else Inr (hd bs)),
       cv_to_sec1 = (\<lambda>key. [4, key]), cv_keccak = (\<lambda>bs. replicate 31 0 @ bs),
       cv_from_der = (\<lambda>bs. if length bs = 2 then Inr (bs ! 0, bs ! 1 = 1) else Inl ''signature error''),
       cv_normalize_s = (\<lambda>_. None),
       cv_sig_bytes = (\<lambda>(key, y). replicate 32 key @ replicate 32 (if y then 1 else 0)),
       cv_sig_slice = (\<lambda>bs. Some (bs ! 0, bs ! 32 = 1)),
       cv_recovery_id = (\<lambda>y _. y), cv_rid_byte = (\<lambda>y. if y then 1 else 0), cv_rid_of = (\<lambda>b. Some (b = 1)),
       cv_recover = (\<lambda>_ (key, y) rid. if rid = y then Some key else Some (key + 1)) \<rparr>"

definition sample_kms :: "nat kms_client" where
  "sample_kms =
     \<lparr> kms_get_public_key = (\<lambda>key_id w. (if key_id = ''key'' then Inr (Some [7]) else Inl ''NotFoundException'', w)),
       kms_sign = (\<lambda>req w. (Inr (Some [7, 1]), w + 1)) \<rparr>"

definition sample_aws :: "(nat, u8) aws_signer" where
  "sample_aws =
     \<lparr> aws_kms = sample_kms, aws_key_id = ''key'', aws_pubkey = 7, aws_address = curve_address sample_curve 7 \<rparr>"

lemma sample_aws_new: "aws_signer_new sample_curve sample_kms ''key'' w = (Ok sample_aws, w)"
  by (simp add: aws_signer_new_def request_get_pubkey_def decode_pubkey_def sample_aws_def)
    (simp add: sample_curve_def sample_kms_def)

lemma sample_aws_digest: "sign_digest sample_curve sample_aws hash w = (Ok (7, True), w + 1)"
  by (simp add: sign_digest_def sign_digest_with_key_def request_sign_digest_def decode_signature_def
      sample_aws_def sample_kms_def sample_curve_def)

lemma sample_aws_candidate:
  "check_candidate sample_curve
     (signature_from_signature (cv_sig_bytes sample_curve) (cv_rid_byte sample_curve) (7, True)
        (cv_recovery_id sample_curve True False)) hash (aws_pubkey sample_aws)"
  by (simp add: check_candidate_def signature_split_def signature_from_signature_def sample_curve_def
      sample_aws_def nth_append)

theorem kms_signature_recovers_witness:
  "\<exists>g. signer_sign_hash (aws_as_signer sample_curve sample_aws) [9] 0 = (Ok g, 1)
     \<and> curve_recover sample_curve g [9] = Ok (curve_address sample_curve 7)"
proof -
  note promise = kms_signature_recovers [OF sample_aws_new [of 0]]
  obtain g where g: "signer_sign_hash (aws_as_signer sample_curve sample_aws) [9] 0 = (Ok g, 1)"
    using promise sample_aws_digest [of "[9]" 0] sample_aws_candidate [of "[9]"] by (metis add_0)
  moreover have "signer_address (aws_as_signer sample_curve sample_aws) = curve_address sample_curve 7"
    by (simp add: aws_as_signer_def sample_aws_def)
  ultimately show ?thesis using promise by metis
qed

end
