(* ===== verification/Sol_Tokens.thy ===== *)
theory Sol_Tokens
  imports Prelude
begin

text \<open>
  The token surgery of the \<open>tron_sol!\<close> macro (\<open>crates/sol-macro/src/lib.rs\<close>): the attributes
  meant for TRON are taken out of a token stream before the rest goes to \<open>sol!\<close>.  The token trees
  are those of \<open>proc_macro2\<close> without their source positions.
\<close>

section \<open>Token trees\<close>

datatype delimiter = Parenthesis | Brace | Bracket | NoDelimiter

datatype spacing = SpAlone | SpJoint

datatype token_tree =
    TtGroup delimiter "token_tree list"
  | TtIdent string
  | TtPunct char spacing
  | TtLiteral string

definition is_punct :: "char \<Rightarrow> token_tree \<Rightarrow> bool" where
  "is_punct c t = (case t of TtPunct d _ \<Rightarrow> d = c | _ \<Rightarrow> False)"

section \<open>The list inside \<open>sol(\<dots>)\<close>\<close>

text \<open>The items between the commas; a comma inside a group belongs to the group.\<close>

fun split_commas :: "token_tree list \<Rightarrow> token_tree list list" where
  "split_commas [] = [[]]"
| "split_commas (t # ts) =
     (if is_punct (CHR '','') t then [] # split_commas ts
      else case split_commas ts of [] \<Rightarrow> [[t]] | item # items \<Rightarrow> (t # item) # items)"

definition meta_key :: "token_tree list \<Rightarrow> string" where
  "meta_key item = (case item of TtIdent s # _ \<Rightarrow> s | _ \<Rightarrow> [])"

fun join_metas :: "token_tree list list \<Rightarrow> token_tree list" where
  "join_metas [] = []"
| "join_metas [item] = item"
| "join_metas (item # items) = item @ TtPunct (CHR '','') SpAlone # join_metas items"

definition filter_sol_meta :: "token_tree list \<Rightarrow> token_tree list" where
  "filter_sol_meta stream =
     join_metas (filter (\<lambda>item. item \<noteq> [] \<and> meta_key item \<noteq> ''rpc'') (split_commas stream))"

section \<open>One attribute\<close>

definition rewrite_attr :: "token_tree list \<Rightarrow> token_tree list option" where
  "rewrite_attr inner =
     (case inner of
        TtIdent lead # rest \<Rightarrow>
          if lead = ''tron_sol'' then None
          else if lead = ''sol'' then
            (case rest of
               TtGroup Parenthesis metas # _ \<Rightarrow>
                 (let kept = filter_sol_meta metas
                  in if kept = [] then None else Some [TtIdent lead, TtGroup Parenthesis kept])
             | _ \<Rightarrow> Some inner)
          else Some inner
      | _ \<Rightarrow> Some inner)"

section \<open>A stream\<close>

text \<open>
  What follows a \<open>#\<close> when an attribute does: the \<open>!\<close> if there is one, what is in the brackets, and
  the rest.
\<close>

definition attr_after :: "token_tree list \<Rightarrow> (token_tree list \<times> token_tree list \<times> token_tree list) option" where
  "attr_after ts =
     (case ts of
        TtGroup Bracket g # rest \<Rightarrow> Some ([], g, rest)
      | TtPunct c s # TtGroup Bracket g # rest \<Rightarrow> if c = CHR ''!'' then Some ([TtPunct c s], g, rest) else None
      | _ \<Rightarrow> None)"

lemma attr_after_smaller:
  "attr_after ts = Some (bang, g, rest) \<Longrightarrow> size_list size rest < size_list size ts"
  by (auto simp: attr_after_def split: list.splits token_tree.splits delimiter.splits if_splits)

definition attr_tokens :: "token_tree \<Rightarrow> token_tree list \<Rightarrow> token_tree list \<Rightarrow> token_tree list" where
  "attr_tokens hash bang inner = hash # bang @ [TtGroup Bracket inner]"

function strip_tron_attrs :: "token_tree list \<Rightarrow> token_tree list" where
  "strip_tron_attrs [] = []"
| "strip_tron_attrs (TtGroup d ts # rest) = TtGroup d (strip_tron_attrs ts) # strip_tron_attrs rest"
| "strip_tron_attrs (TtIdent s # rest) = TtIdent s # strip_tron_attrs rest"
| "strip_tron_attrs (TtLiteral s # rest) = TtLiteral s # strip_tron_attrs rest"
| "strip_tron_attrs (TtPunct c sp # rest) =
     (case if c = CHR ''#'' then attr_after rest else None of
        Some (bang, g, rest') \<Rightarrow>
          (case rewrite_attr g of None \<Rightarrow> [] | Some inner \<Rightarrow> attr_tokens (TtPunct c sp) bang inner)
            @ strip_tron_attrs rest'
      | None \<Rightarrow> TtPunct c sp # strip_tron_attrs rest)"
  by pat_completeness auto
termination
  by (relation "measure (size_list size)") (auto dest: attr_after_smaller split: if_splits)

section \<open>What a stream is\<close>

text \<open>
  Every \<open>#\<close> of a stream begins an attribute, as in Rust and Solidity sources; the code of a stream
  is what its attributes are attached to, and its attributes are listed in the order in which they
  stand.
\<close>

function hashes_begin_attrs :: "token_tree list \<Rightarrow> bool" where
  "hashes_begin_attrs [] = True"
| "hashes_begin_attrs (TtGroup d ts # rest) = (hashes_begin_attrs ts \<and> hashes_begin_attrs rest)"
| "hashes_begin_attrs (TtIdent s # rest) = hashes_begin_attrs rest"
| "hashes_begin_attrs (TtLiteral s # rest) = hashes_begin_attrs rest"
| "hashes_begin_attrs (TtPunct c sp # rest) =
     (if c = CHR ''#'' then (case attr_after rest of None \<Rightarrow> False | Some (_, _, rest') \<Rightarrow> hashes_begin_attrs rest')
      else hashes_begin_attrs rest)"
  by pat_completeness auto
termination
  by (relation "measure (size_list size)") (auto dest: attr_after_smaller)

function code_of :: "token_tree list \<Rightarrow> token_tree list" where
  "code_of [] = []"
| "code_of (TtGroup d ts # rest) = TtGroup d (code_of ts) # code_of rest"
| "code_of (TtIdent s # rest) = TtIdent s # code_of rest"
| "code_of (TtLiteral s # rest) = TtLiteral s # code_of rest"
| "code_of (TtPunct c sp # rest) =
     (case if c = CHR ''#'' then attr_after rest else None of
        Some (_, _, rest') \<Rightarrow> code_of rest'
      | None \<Rightarrow> TtPunct c sp # code_of rest)"
  by pat_completeness auto
termination
  by (relation "measure (size_list size)") (auto dest: attr_after_smaller split: if_splits)

function attributes :: "token_tree list \<Rightarrow> (token_tree list \<times> token_tree list) list" where
  "attributes [] = []"
| "attributes (TtGroup d ts # rest) = attributes ts @ attributes rest"
| "attributes (TtIdent s # rest) = attributes rest"
| "attributes (TtLiteral s # rest) = attributes rest"
| "attributes (TtPunct c sp # rest) =
     (case if c = CHR ''#'' then attr_after rest else None of
        Some (bang, g, rest') \<Rightarrow> (bang, g) # attributes rest'
      | None \<Rightarrow> attributes rest)"
  by pat_completeness auto
termination
  by (relation "measure (size_list size)") (auto dest: attr_after_smaller split: if_splits)

text \<open>An attribute that \<open>sol!\<close> does not know.\<close>

definition tron_attr :: "token_tree list \<Rightarrow> bool" where
  "tron_attr inner =
     (case inner of
        TtIdent lead # rest \<Rightarrow>
          lead = ''tron_sol''
          \<or> lead = ''sol'' \<and> (case rest of
               TtGroup Parenthesis metas # _ \<Rightarrow> \<exists>item\<in>set (split_commas metas). meta_key item = ''rpc''
             | _ \<Rightarrow> False)
      | _ \<Rightarrow> False)"

definition kept_attrs :: "(token_tree list \<times> token_tree list) list \<Rightarrow> (token_tree list \<times> token_tree list) list" where
  "kept_attrs = List.map_filter (\<lambda>(bang, g). map_option (Pair bang) (rewrite_attr g))"

lemma kept_attrs_simps:
  "kept_attrs [] = []"
  "kept_attrs ((bang, g) # as)
   = (case rewrite_attr g of None \<Rightarrow> kept_attrs as | Some inner \<Rightarrow> (bang, inner) # kept_attrs as)"
  "kept_attrs (as @ bs) = kept_attrs as @ kept_attrs bs"
  by (simp_all add: kept_attrs_def List.map_filter_def split: option.split)

section \<open>The list, filtered\<close>

lemma split_commas_nonempty: "split_commas ts \<noteq> []"
  by (induction ts) (auto split: list.split)

lemma split_commas_items: "\<forall>item\<in>set (split_commas ts). \<forall>t\<in>set item. \<not> is_punct (CHR '','') t"
  by (induction ts) (auto split: list.splits)

lemma split_commas_item: "\<forall>t\<in>set item. \<not> is_punct (CHR '','') t \<Longrightarrow> split_commas item = [item]"
  by (induction item) auto

lemma split_commas_append:
  "\<forall>t\<in>set item. \<not> is_punct (CHR '','') t \<Longrightarrow>
     split_commas (item @ TtPunct (CHR '','') sp # ts) = item # split_commas ts"
  by (induction item) (auto simp: is_punct_def)

lemma split_join_metas:
  assumes "\<forall>item\<in>set items. \<forall>t\<in>set item. \<not> is_punct (CHR '','') t" and "items \<noteq> []"
  shows "split_commas (join_metas items) = items"
  using assms
  by (induction items rule: join_metas.induct) (auto simp: split_commas_item split_commas_append)

lemma filter_sol_meta_items:
  assumes "filter_sol_meta metas \<noteq> []"
  shows "split_commas (filter_sol_meta metas)
    = filter (\<lambda>item. item \<noteq> [] \<and> meta_key item \<noteq> ''rpc'') (split_commas metas)"
proof -
  let ?kept = "filter (\<lambda>item. item \<noteq> [] \<and> meta_key item \<noteq> ''rpc'') (split_commas metas)"
  have "?kept \<noteq> []" using assms by (auto simp: filter_sol_meta_def)
  then show ?thesis
    unfolding filter_sol_meta_def using split_commas_items by (intro split_join_metas) auto
qed

lemma filter_sol_meta_twice:
  "filter_sol_meta metas \<noteq> [] \<Longrightarrow> filter_sol_meta (filter_sol_meta metas) = filter_sol_meta metas"
  using filter_sol_meta_items [of metas] by (simp add: filter_sol_meta_def [of "filter_sol_meta metas"])
    (simp add: filter_sol_meta_def)

section \<open>One attribute, rewritten\<close>

lemma rewrite_attr_fixed: "rewrite_attr g = Some g' \<Longrightarrow> rewrite_attr g' = Some g'"
  by (auto simp: rewrite_attr_def Let_def filter_sol_meta_twice
      split: list.splits token_tree.splits delimiter.splits if_splits)

lemma rewrite_attr_not_tron: "rewrite_attr g = Some g' \<Longrightarrow> \<not> tron_attr g'"
  by (auto simp: rewrite_attr_def tron_attr_def Let_def filter_sol_meta_items
      split: list.splits token_tree.splits delimiter.splits if_splits)

section \<open>The stream, stripped\<close>

lemma attr_after_bang: "attr_after ts = Some (bang, g, rest) \<Longrightarrow>
    ts = bang @ TtGroup Bracket g # rest \<and> (bang = [] \<or> (\<exists>sp. bang = [TtPunct (CHR ''!'') sp]))"
  by (auto simp: attr_after_def split: list.splits token_tree.splits delimiter.splits if_splits)

lemma attr_after_again:
  "bang = [] \<or> (\<exists>sp. bang = [TtPunct (CHR ''!'') sp]) \<Longrightarrow>
     attr_after (bang @ TtGroup Bracket g # rest) = Some (bang, g, rest)"
  by (auto simp: attr_after_def)

text \<open>An attribute that is kept is an attribute again.\<close>

lemma kept_attr:
  assumes "attr_after rest = Some (bang, g, rest')" and "rewrite_attr g = Some inner"
  shows "code_of (attr_tokens (TtPunct (CHR ''#'') sp) bang inner @ ts) = code_of ts"
    and "attributes (attr_tokens (TtPunct (CHR ''#'') sp) bang inner @ ts) = (bang, inner) # attributes ts"
    and "hashes_begin_attrs (attr_tokens (TtPunct (CHR ''#'') sp) bang inner @ ts) = hashes_begin_attrs ts"
    and "strip_tron_attrs (attr_tokens (TtPunct (CHR ''#'') sp) bang inner @ ts)
       = attr_tokens (TtPunct (CHR ''#'') sp) bang inner @ strip_tron_attrs ts"
  using attr_after_again [of bang inner ts] attr_after_bang [OF assms(1)] rewrite_attr_fixed [OF assms(2)]
  by (simp_all add: attr_tokens_def)

lemma strip_keeps:
  assumes "hashes_begin_attrs ts"
  shows "code_of (strip_tron_attrs ts) = code_of ts"
    and "attributes (strip_tron_attrs ts) = kept_attrs (attributes ts)"
    and "hashes_begin_attrs (strip_tron_attrs ts)"
    and "strip_tron_attrs (strip_tron_attrs ts) = strip_tron_attrs ts"
  using assms
  by (induction ts rule: strip_tron_attrs.induct)
    (auto simp: kept_attr kept_attrs_simps split: option.splits if_splits)

lemma kept_attrs_not_tron: "(bang, g) \<in> set (kept_attrs as) \<Longrightarrow> \<not> tron_attr g"
  by (induction as) (auto simp: kept_attrs_simps rewrite_attr_not_tron split: option.splits)

text \<open>
  C20: taking the TRON attributes out of a stream touches nothing else.  The code the attributes
  are attached to is what it was, at every depth; the attributes are those of the stream in their
  order, each rewritten on its own, and none of them is one that only TRON knows; and a stream
  that has been stripped is not changed by stripping it again.
\<close>

theorem stripped_stream:
  assumes "hashes_begin_attrs ts"
  shows "code_of (strip_tron_attrs ts) = code_of ts
    \<and> attributes (strip_tron_attrs ts) = kept_attrs (attributes ts)
    \<and> (\<forall>(bang, g)\<in>set (attributes (strip_tron_attrs ts)). \<not> tron_attr g)
    \<and> strip_tron_attrs (strip_tron_attrs ts) = strip_tron_attrs ts"
  using strip_keeps [OF assms] kept_attrs_not_tron by auto

text \<open>\<open>#[derive(Debug)] #[sol(rpc, all_derives)] #[tron_sol(x)] contract C { #[sol(rpc)] f }\<close>\<close>

definition sample_stream :: "token_tree list" where
  "sample_stream =
     [TtPunct (CHR ''#'') SpAlone, TtGroup Bracket [TtIdent ''derive'', TtGroup Parenthesis [TtIdent ''Debug'']],
      TtPunct (CHR ''#'') SpAlone,
      TtGroup Bracket [TtIdent ''sol'', TtGroup Parenthesis
        [TtIdent ''rpc'', TtPunct (CHR '','') SpAlone, TtIdent ''all_derives'']],
      TtPunct (CHR ''#'') SpAlone, TtGroup Bracket [TtIdent ''tron_sol'', TtGroup Parenthesis [TtIdent ''x'']],
      TtIdent ''contract'', TtIdent ''C'',
      TtGroup Brace
        [TtPunct (CHR ''#'') SpAlone, TtGroup Bracket [TtIdent ''sol'', TtGroup Parenthesis [TtIdent ''rpc'']],
         TtIdent ''f'']]"

theorem stripped_stream_witness:
  "attributes (strip_tron_attrs sample_stream)
     = [([], [TtIdent ''derive'', TtGroup Parenthesis [TtIdent ''Debug'']]),
        ([], [TtIdent ''sol'', TtGroup Parenthesis [TtIdent ''all_derives'']])]
   \<and> code_of (strip_tron_attrs sample_stream)
     = [TtIdent ''contract'', TtIdent ''C'', TtGroup Brace [TtIdent ''f'']]"
proof -
  have "hashes_begin_attrs sample_stream" by (simp add: sample_stream_def attr_after_def)
  from stripped_stream [OF this] show ?thesis
    by (simp add: sample_stream_def attr_after_def kept_attrs_simps rewrite_attr_def filter_sol_meta_def
        is_punct_def meta_key_def)
qed

end
