(* ===== verification/Sol_Macro.thy ===== *)
theory Sol_Macro
  imports Sol_Tokens Text_Codecs Provider
begin

text \<open>
  The \<open>tron_sol!\<close> macro (\<open>crates/sol-macro/src/lib.rs\<close>): what it reads of its input and what it
  generates.  Generated Rust is kept as what there is to choose: the type layer that goes to
  \<open>sol!\<close>, and for every contract with \<open>#[sol(rpc)]\<close> a module with its methods, event filters and
  deployment helpers; the fixed text around them is not repeated.  The parsers of \<open>syn\<close> and
  \<open>syn_solidity\<close>, the ABI of \<open>alloy\<close> and the file system are parameters.
\<close>

section \<open>Errors\<close>

text \<open>A message of the macro itself, a byte that is no hexadecimal digit, or an error of a parser.\<close>

datatype macro_error = MeText string | MeHexByte u8 | MeParser string

section \<open>Hexadecimal literals\<close>

definition hex_nibble :: "u8 \<Rightarrow> macro_error + u8" where
  "hex_nibble b =
     (if 48 \<le> b \<and> b \<le> 57 then Ok (b - 48)
      else if 97 \<le> b \<and> b \<le> 102 then Ok (b - 97 + 10)
      else if 65 \<le> b \<and> b \<le> 70 then Ok (b - 65 + 10)
      else Err (MeHexByte b))"

text \<open>\<open>chunks(2)\<close> of a text of even length.\<close>

fun byte_pairs :: "bytes \<Rightarrow> (u8 \<times> u8) list" where
  "byte_pairs (a # b # rest) = (a, b) # byte_pairs rest"
| "byte_pairs _ = []"

definition strip_hex_prefix :: "string \<Rightarrow> string" where
  "strip_hex_prefix s = (if take 2 s = ''0x'' then drop 2 s else if take 2 s = ''0X'' then drop 2 s else s)"

definition parse_hex :: "string \<Rightarrow> macro_error + bytes" where
  "parse_hex lit =
     (let s = strip_hex_prefix lit
      in if odd (length s) then Err (MeText ''bytecode hex string has odd length'')
         else collect_results (\<lambda>(a, b). and_then (hex_nibble a) (\<lambda>hi. and_then (hex_nibble b) (\<lambda>lo.
                Ok (push_bit 4 hi OR lo)))) (byte_pairs (str_bytes s)))"

section \<open>Attributes\<close>

text \<open>
  A parsed attribute: its path, and the entries of its list when it has one.  An entry has a path
  and, behind it, nothing, \<open>=\<close> with a value, or a parenthesis.
\<close>

datatype meta_value = MvNone | MvBool bool | MvStr string | MvPath string | MvExpr | MvParen

record sol_attr =
  at_path :: string
  at_args :: "(string \<times> meta_value) list option"

record contract_opts =
  opt_rpc :: bool
  opt_bytecode :: "bytes option"
  opt_deployed_bytecode :: "bytes option"
  opt_rename :: bool

definition contract_opts_default :: contract_opts where
  "contract_opts_default =
     \<lparr> opt_rpc = False, opt_bytecode = None, opt_deployed_bytecode = None, opt_rename = False \<rparr>"

definition str_value :: "meta_value \<Rightarrow> macro_error + string" where
  "str_value v = (case v of MvStr s \<Rightarrow> Ok s | _ \<Rightarrow> Err (MeParser ''expected string literal''))"

text \<open>One entry of a \<open>sol\<close> list.  An \<open>rpc(\<dots>)\<close> leaves its parenthesis behind, which the parser refuses.\<close>

definition sol_option :: "contract_opts \<Rightarrow> string \<times> meta_value \<Rightarrow> macro_error + contract_opts" where
  "sol_option opts kv =
     (case kv of (key, v) \<Rightarrow>
        if key = ''rpc'' then
          (case v of
             MvNone \<Rightarrow> Ok (opts\<lparr> opt_rpc := True \<rparr>)
           | MvBool b \<Rightarrow> Ok (opts\<lparr> opt_rpc := b \<rparr>)
           | MvParen \<Rightarrow> Err (MeParser ''expected `,`'')
           | _ \<Rightarrow> Err (MeParser ''expected boolean literal''))
        else if key = ''bytecode'' then
          and_then (str_value v) (\<lambda>s. and_then (parse_hex s) (\<lambda>bs. Ok (opts\<lparr> opt_bytecode := Some bs \<rparr>)))
        else if key = ''deployed_bytecode'' then
          and_then (str_value v) (\<lambda>s. and_then (parse_hex s) (\<lambda>bs. Ok (opts\<lparr> opt_deployed_bytecode := Some bs \<rparr>)))
        else if key = ''rename'' \<or> key = ''rename_all'' then Ok (opts\<lparr> opt_rename := True \<rparr>)
        else Ok opts)"

fun fold_results :: "('s \<Rightarrow> 'a \<Rightarrow> 'e + 's) \<Rightarrow> 's \<Rightarrow> 'a list \<Rightarrow> 'e + 's" where
  "fold_results f s [] = Ok s"
| "fold_results f s (x # xs) = and_then (f s x) (\<lambda>s1. fold_results f s1 xs)"

definition attr_entries :: "sol_attr \<Rightarrow> macro_error + (string \<times> meta_value) list" where
  "attr_entries a = ok_or (MeParser ''expected attribute arguments in parentheses'') (at_args a)"

definition contract_opts_of :: "sol_attr list \<Rightarrow> macro_error + contract_opts" where
  "contract_opts_of attrs =
     fold_results (\<lambda>opts a.
       if at_path a \<noteq> ''sol'' then Ok opts
       else and_then (attr_entries a) (fold_results sol_option opts)) contract_opts_default attrs"

section \<open>Solidity\<close>

text \<open>The size of an array is a literal or some other expression.\<close>

datatype array_size = SizeLit nat | SizeExpr

datatype sol_type =
    StBool
  | StAddress
  | StString
  | StBytes
  | StFixedBytes nat
  | StUint "nat option"
  | StInt "nat option"
  | StArray sol_type "array_size option"
  | StTuple "sol_type list"
  | StFunction
  | StMapping
  | StCustom "string list"

record sol_param =
  sp_name :: "string option"
  sp_type :: sol_type

datatype function_kind = FkFunction | FkConstructor | FkFallback | FkReceive | FkModifier

record sol_function =
  sf_kind :: function_kind
  sf_name :: "string option"
  sf_params :: "sol_param list"

datatype visibility = VisPublic | VisPrivate | VisInternal | VisExternal

text \<open>A state variable is whatever the parser makes of it; \<open>from_variable_definition\<close> is a parameter.\<close>

datatype 'v contract_item =
    CiFunction sol_function
  | CiVariable "visibility option" 'v
  | CiEvent string
  | CiStruct string
  | CiEnum string
  | CiUdt string
  | CiOther

record 'v sol_contract =
  sc_name :: string
  sc_attrs :: "sol_attr list"
  sc_body :: "'v contract_item list"

datatype 'v sol_item = SiContract "'v sol_contract" | SiOther "sol_attr list option"

fun item_attrs :: "'v sol_item \<Rightarrow> sol_attr list option" where
  "item_attrs (SiContract c) = Some (sc_attrs c)"
| "item_attrs (SiOther attrs) = attrs"

section \<open>Types\<close>

text \<open>
  The Rust type of a field of a call: a primitive integer, an alias of \<open>alloy_primitives\<close>, and so
  on; \<open>RtAssoc p\<close> is \<open><p as SolType>::RustType\<close>.
\<close>

datatype rust_type =
    RtBool
  | RtAddress
  | RtString
  | RtBytes
  | RtFixedBytes nat
  | RtPrimitive bool nat
  | RtAlias bool nat
  | RtVec rust_type
  | RtArray rust_type nat
  | RtTuple "rust_type list"
  | RtFunction
  | RtAssoc "string list"

definition int_ty :: "nat \<Rightarrow> bool \<Rightarrow> rust_type" where
  "int_ty bits is_signed =
     (if bits \<in> {8, 16, 32, 64, 128} then RtPrimitive is_signed bits else RtAlias is_signed bits)"

definition names_a_contract :: "string set \<Rightarrow> string list \<Rightarrow> bool" where
  "names_a_contract contracts path \<longleftrightarrow> (case path of [s] \<Rightarrow> s \<in> contracts | _ \<Rightarrow> False)"

definition array_size_message :: string where
  "array_size_message =
     ''tron_sol! supports only integer-literal array sizes; constant expressions are not evaluated here ''
     @ [CHR 0xE2, CHR 0x80, CHR 0x94] @ '' use a literal like `uint256[3]`''"

fun rust_ty :: "string set \<Rightarrow> sol_type \<Rightarrow> macro_error + rust_type"
and rust_tys :: "string set \<Rightarrow> sol_type list \<Rightarrow> macro_error + rust_type list" where
  "rust_ty cx StBool = Ok RtBool"
| "rust_ty cx StAddress = Ok RtAddress"
| "rust_ty cx StString = Ok RtString"
| "rust_ty cx StBytes = Ok RtBytes"
| "rust_ty cx (StFixedBytes n) = Ok (RtFixedBytes n)"
| "rust_ty cx (StUint sz) = Ok (int_ty (case sz of Some n \<Rightarrow> n | None \<Rightarrow> 256) False)"
| "rust_ty cx (StInt sz) = Ok (int_ty (case sz of Some n \<Rightarrow> n | None \<Rightarrow> 256) True)"
| "rust_ty cx (StArray ty sz) =
     and_then (rust_ty cx ty) (\<lambda>inner.
       case sz of
         None \<Rightarrow> Ok (RtVec inner)
       | Some (SizeLit n) \<Rightarrow>
           if n < 2 ^ 64 then Ok (RtArray inner n) else Err (MeParser ''number too large to fit in target type'')
       | Some SizeExpr \<Rightarrow> Err (MeText array_size_message))"
| "rust_ty cx (StTuple tys) = and_then (rust_tys cx tys) (\<lambda>inners. Ok (RtTuple inners))"
| "rust_ty cx (StCustom path) = (if names_a_contract cx path then Ok RtAddress else Ok (RtAssoc path))"
| "rust_ty cx StFunction = Ok RtFunction"
| "rust_ty cx StMapping = Err (MeText ''`mapping` types are not supported here'')"
| "rust_tys cx [] = Ok []"
| "rust_tys cx (t # ts) = and_then (rust_ty cx t) (\<lambda>r. and_then (rust_tys cx ts) (\<lambda>rs. Ok (r # rs)))"

section \<open>Methods\<close>

text \<open>
  A parameter of a generated method: its field, and its type; \<open>None\<close> is \<open>impl Into<Address>\<close>, whose
  value is converted.
\<close>

type_synonym rpc_param = "string \<times> rust_type option"

definition collect_param :: "string set \<Rightarrow> nat \<times> sol_param \<Rightarrow> macro_error + rpc_param" where
  "collect_param cx ip =
     (let field = (case sp_name (snd ip) of Some n \<Rightarrow> n | None \<Rightarrow> ''_'' @ show_nat (fst ip))
      in case sp_type (snd ip) of
           StAddress \<Rightarrow> Ok (field, None)
         | ty \<Rightarrow>
             if (case ty of StCustom path \<Rightarrow> names_a_contract cx path | _ \<Rightarrow> False) then Ok (field, None)
             else and_then (rust_ty cx ty) (\<lambda>t. Ok (field, Some t)))"

definition collect_params :: "string set \<Rightarrow> sol_param list \<Rightarrow> macro_error + rpc_param list" where
  "collect_params cx ps = collect_results (collect_param cx) (enumerate 0 ps)"

definition is_reserved_method :: "string \<Rightarrow> bool" where
  "is_reserved_method name \<longleftrightarrow>
     name \<in> {''new'', ''deploy'', ''deploy_builder'', ''address'', ''set_address'', ''at'', ''caller'',
             ''set_caller'', ''provider'', ''call_builder'', ''event_filter''}"

record rpc_method =
  rm_name :: string
  rm_call :: string
  rm_params :: "rpc_param list"
  rm_tuple_init :: bool

definition expand_method ::
  "string set \<Rightarrow> sol_function \<Rightarrow> string \<Rightarrow> string \<Rightarrow> macro_error + rpc_method" where
  "expand_method cx f call_base method_name =
     and_then (collect_params cx (sf_params f)) (\<lambda>params.
       Ok \<lparr> rm_name = method_name, rm_call = call_base @ ''Call'', rm_params = params,
            rm_tuple_init = (case sf_params f of [p] \<Rightarrow> sp_name p = None | _ \<Rightarrow> False) \<rparr>)"

text \<open>
  Overloads are numbered in the order in which they stand; \<open>seen\<close> counts those of each name that
  have been met.
\<close>

fun overload_names :: "(string \<Rightarrow> nat) \<Rightarrow> (string \<Rightarrow> nat) \<Rightarrow> string list \<Rightarrow> string list" where
  "overload_names counts seen [] = []"
| "overload_names counts seen (base # rest) =
     (if 1 < counts base
      then (base @ ''_'' @ show_nat (seen base)) # overload_names counts (seen(base := Suc (seen base))) rest
      else base # overload_names counts seen rest)"

definition effective_names :: "string list \<Rightarrow> string list" where
  "effective_names names = overload_names (count_list names) (\<lambda>_. 0) names"

definition method_name_of :: "string \<Rightarrow> string" where
  "method_name_of effective = (if is_reserved_method effective then effective @ ''_call'' else effective)"

section \<open>One contract\<close>

text \<open>The body of a contract: its functions with the getters of its public variables, its constructor (the last one) and its events.\<close>

record contract_parts =
  pt_functions :: "sol_function list"
  pt_constructor :: "sol_function option"
  pt_events :: "string list"

definition add_item :: "('v \<Rightarrow> sol_function) \<Rightarrow> contract_parts \<Rightarrow> 'v contract_item \<Rightarrow> contract_parts" where
  "add_item getter parts item =
     (case item of
        CiFunction f \<Rightarrow>
          if sf_kind f = FkFunction \<and> sf_name f \<noteq> None then parts\<lparr> pt_functions := pt_functions parts @ [f] \<rparr>
          else if sf_kind f = FkConstructor then parts\<lparr> pt_constructor := Some f \<rparr>
          else parts
      | CiVariable vis v \<Rightarrow>
          if vis = Some VisPublic then parts\<lparr> pt_functions := pt_functions parts @ [getter v] \<rparr> else parts
      | CiEvent name \<Rightarrow> parts\<lparr> pt_events := pt_events parts @ [name] \<rparr>
      | _ \<Rightarrow> parts)"

definition contract_parts_of :: "('v \<Rightarrow> sol_function) \<Rightarrow> 'v contract_item list \<Rightarrow> contract_parts" where
  "contract_parts_of getter body =
     foldl (add_item getter) \<lparr> pt_functions = [], pt_constructor = None, pt_events = [] \<rparr> body"

definition local_type :: "'v contract_item \<Rightarrow> string option" where
  "local_type item =
     (case item of CiStruct s \<Rightarrow> Some s | CiEnum s \<Rightarrow> Some s | CiUdt s \<Rightarrow> Some s | _ \<Rightarrow> None)"

record rpc_module =
  md_name :: string
  md_local_types :: "string list"
  md_deployed_bytecode :: "bytes option"
  md_deploy :: "(bytes \<times> rpc_param list) option"
  md_methods :: "rpc_method list"
  md_filters :: "(string \<times> string) list"

definition rename_message :: string where
  "rename_message =
     ''`#[sol(rename/rename_all)]` is not supported together with `#[sol(rpc)]`: renaming the generated `''
     @ [CHR 0xE2, CHR 0x80, CHR 0xA6] @ ''Call` types would desync the instance methods''"

text \<open>The name of a function is there: \<open>expect\<close> panics otherwise, which is an error of its own here.\<close>

definition function_names :: "sol_function list \<Rightarrow> macro_error + string list" where
  "function_names fs = collect_results (\<lambda>f. ok_or (MeText ''name checked above'') (sf_name f)) fs"

definition rpc_methods :: "string set \<Rightarrow> sol_function list \<Rightarrow> macro_error + rpc_method list" where
  "rpc_methods cx fs =
     and_then (function_names fs) (\<lambda>names.
       collect_results (\<lambda>(f, effective). expand_method cx f effective (method_name_of effective))
         (zip fs (effective_names names)))"

definition event_filters :: "string list \<Rightarrow> (string \<times> string) list" where
  "event_filters events = map (\<lambda>e. (e @ ''_filter'', e)) (effective_names events)"

definition deploy_helpers ::
  "string set \<Rightarrow> contract_opts \<Rightarrow> sol_function option \<Rightarrow> macro_error + (bytes \<times> rpc_param list) option" where
  "deploy_helpers cx opts constructor =
     (case opt_bytecode opts of
        None \<Rightarrow> Ok None
      | Some code \<Rightarrow>
          and_then (case constructor of None \<Rightarrow> Ok [] | Some c \<Rightarrow> collect_params cx (sf_params c)) (\<lambda>params.
            Ok (Some (code, params))))"

definition expand_contract ::
  "('v \<Rightarrow> sol_function) \<Rightarrow> string set \<Rightarrow> 'v sol_contract \<Rightarrow> macro_error + rpc_module" where
  "expand_contract getter cx c =
     and_then (contract_opts_of (sc_attrs c)) (\<lambda>opts.
       if opt_rename opts then Err (MeText rename_message)
       else
         (let parts = contract_parts_of getter (sc_body c)
          in and_then (rpc_methods cx (pt_functions parts)) (\<lambda>ms.
             and_then (deploy_helpers cx opts (pt_constructor parts)) (\<lambda>deploy.
               Ok \<lparr> md_name = sc_name c,
                    md_local_types = List.map_filter local_type (sc_body c),
                    md_deployed_bytecode = opt_deployed_bytecode opts,
                    md_deploy = deploy,
                    md_methods = ms,
                    md_filters = event_filters (pt_events parts) \<rparr>))))"

section \<open>The macro\<close>

text \<open>
  A parsed invocation: its items, the path of the runtime crate, for a JSON ABI the stream that goes
  to \<open>sol!\<close>, and the file it was read from.
\<close>

record 'v tron_sol =
  ts_items :: "'v sol_item list"
  ts_krate :: string
  ts_pre_forwarded :: "token_tree list option"
  ts_include_path :: "string option"

definition crate_option :: "string \<Rightarrow> string \<times> meta_value \<Rightarrow> macro_error + string" where
  "crate_option krate kv =
     (if fst kv = ''tronz_crate'' then
        (case snd kv of MvPath p \<Rightarrow> Ok p | _ \<Rightarrow> Err (MeParser ''expected a path''))
      else Err (MeText ''unknown `tron_sol` option; expected `tronz_crate`''))"

definition tronz_crate_path :: "'v sol_item list \<Rightarrow> macro_error + string" where
  "tronz_crate_path items =
     fold_results (\<lambda>krate item.
       case item_attrs item of
         None \<Rightarrow> Ok krate
       | Some attrs \<Rightarrow>
           fold_results (\<lambda>krate a.
             if at_path a = ''tron_sol'' then and_then (attr_entries a) (fold_results crate_option krate)
             else Ok krate) krate attrs) ''::tronz::contract'' items"

text \<open>
  The world of the compiler: the variable \<open>CARGO_MANIFEST_DIR\<close>, paths and files, the artifact of a
  JSON text (its ABI and its two bytecodes), the Solidity interface of an ABI, and the parsers.
\<close>

record 'abi contract_object =
  co_abi :: "'abi option"
  co_bytecode :: "string option"
  co_deployed_bytecode :: "string option"

record ('abi, 'v) compiler =
  cc_manifest_dir :: "string option"
  cc_is_relative :: "string \<Rightarrow> bool"
  cc_join :: "string \<Rightarrow> string \<Rightarrow> string"
  cc_canonicalize :: "string \<Rightarrow> string + string"
  cc_read :: "string \<Rightarrow> string + string"
  cc_to_str :: "string \<Rightarrow> string option"
  cc_artifact :: "string \<Rightarrow> string + 'abi contract_object"
  cc_to_sol :: "'abi \<Rightarrow> string \<Rightarrow> string + token_tree list"
  cc_is_ident :: "string \<Rightarrow> bool"
  cc_literal :: "string \<Rightarrow> string option"
  cc_quote :: "string \<Rightarrow> token_tree"
  cc_items :: "token_tree list \<Rightarrow> string + 'v sol_item list"
  cc_file :: "token_tree list \<Rightarrow> string + 'v sol_item list"
  cc_hash :: "token_tree list \<Rightarrow> string"

definition abi_source ::
  "('abi, 'v) compiler \<Rightarrow> string \<Rightarrow> macro_error + (string \<times> string option)" where
  "abi_source E path_str =
     (let trimmed = trim path_str
      in if take 1 trimmed = ''{'' \<or> take 1 trimmed = ''['' then Ok (path_str, None)
         else
           and_then (if cc_is_relative E path_str
                     then and_then (ok_or (MeText ''CARGO_MANIFEST_DIR is not set'') (cc_manifest_dir E))
                            (\<lambda>dir. Ok (cc_join E dir path_str))
                     else Ok path_str) (\<lambda>abs.
           and_then (map_err (\<lambda>e. MeText (''failed to canonicalize `'' @ path_str @ ''`: '' @ e))
                      (cc_canonicalize E abs)) (\<lambda>canonical.
           and_then (map_err (\<lambda>e. MeText (''failed to read `'' @ path_str @ ''`: '' @ e)) (cc_read E canonical)) (\<lambda>json.
           and_then (ok_or (MeText ''ABI file path is not valid UTF-8'') (cc_to_str E canonical)) (\<lambda>abs_str.
             Ok (json, Some abs_str))))))"

text \<open>\<open>#[sol(bytecode = "\<dots>", deployed_bytecode = "\<dots>")]\<close>, with what the artifact has of it.\<close>

definition bytecode_attr :: "('abi, 'v) compiler \<Rightarrow> 'abi contract_object \<Rightarrow> token_tree list" where
  "bytecode_attr E obj =
     (if co_bytecode obj = None \<and> co_deployed_bytecode obj = None then []
      else
        [TtPunct (CHR ''#'') SpAlone,
         TtGroup Bracket
           [TtIdent ''sol'',
            TtGroup Parenthesis
              ((case co_bytecode obj of
                  None \<Rightarrow> []
                | Some s \<Rightarrow> [TtIdent ''bytecode'', TtPunct (CHR ''='') SpAlone, cc_quote E s, TtPunct (CHR '','') SpAlone])
               @ (case co_deployed_bytecode obj of
                  None \<Rightarrow> []
                | Some s \<Rightarrow> [TtIdent ''deployed_bytecode'', TtPunct (CHR ''='') SpAlone, cc_quote E s]))]])"

text \<open>The attributes a stream begins with, inner ones first, and what follows them.\<close>

fun split_inner :: "token_tree list \<Rightarrow> token_tree list \<times> token_tree list" where
  "split_inner (TtPunct c sp # TtPunct b sq # TtGroup Bracket g # rest) =
     (if c = CHR ''#'' \<and> b = CHR ''!'' then
        (case split_inner rest of (as, ts) \<Rightarrow> (TtPunct c sp # TtPunct b sq # TtGroup Bracket g # as, ts))
      else ([], TtPunct c sp # TtPunct b sq # TtGroup Bracket g # rest))"
| "split_inner ts = ([], ts)"

fun split_outer :: "token_tree list \<Rightarrow> token_tree list \<times> token_tree list" where
  "split_outer (TtPunct c sp # TtGroup Bracket g # rest) =
     (if c = CHR ''#'' then
        (case split_outer rest of (as, ts) \<Rightarrow> (TtPunct c sp # TtGroup Bracket g # as, ts))
      else ([], TtPunct c sp # TtGroup Bracket g # rest))"
| "split_outer ts = ([], ts)"

definition path_literal :: "('abi, 'v) compiler \<Rightarrow> token_tree list \<Rightarrow> (string \<times> token_tree list) option" where
  "path_literal E ts =
     (case ts of TtLiteral lit # after \<Rightarrow> map_option (\<lambda>s. (s, after)) (cc_literal E lit) | _ \<Rightarrow> None)"

definition parse_json_abi ::
  "('abi, 'v) compiler \<Rightarrow> token_tree list \<Rightarrow> macro_error + 'v tron_sol" where
  "parse_json_abi E input =
     (case split_inner input of (inner_attrs, rest0) \<Rightarrow>
      case split_outer rest0 of (attrs, rest) \<Rightarrow>
        (case rest of
           TtIdent name # comma # tail \<Rightarrow>
             if \<not> cc_is_ident E name \<or> \<not> is_punct (CHR '','') comma then Err (MeParser ''expected identifier'')
             else
               and_then (ok_or (MeParser ''expected string literal'') (path_literal E tail)) (\<lambda>(path_str, after).
               and_then (abi_source E path_str) (\<lambda>(json, include_path).
               and_then (map_err (\<lambda>e. MeText (''invalid JSON ABI in `'' @ path_str @ ''`: '' @ e)) (cc_artifact E json)) (\<lambda>obj.
               and_then (ok_or (MeText (''`'' @ path_str @ ''` contains no `abi` field'')) (co_abi obj)) (\<lambda>abi.
               and_then (map_err (\<lambda>e. MeText (''ABI-generated Solidity failed to tokenize: '' @ e)) (cc_to_sol E abi name)) (\<lambda>sol_ts.
                 let full_ts = inner_attrs @ attrs @ bytecode_attr E obj @ sol_ts
                 in and_then (map_err (\<lambda>e. MeText (''failed to parse generated Solidity interface: '' @ e)) (cc_file E full_ts)) (\<lambda>items.
                    and_then (tronz_crate_path items) (\<lambda>krate.
                    if after = [] \<or> (\<exists>c. after = [c] \<and> is_punct (CHR '','') c) then
                      Ok \<lparr> ts_items = items, ts_krate = krate, ts_pre_forwarded = Some (strip_tron_attrs full_ts),
                           ts_include_path = include_path \<rparr>
                    else Err (MeParser ''unexpected token''))))))))
         | _ \<Rightarrow> Err (MeParser ''expected identifier'')))"

definition is_abigen :: "('abi, 'v) compiler \<Rightarrow> token_tree list \<Rightarrow> bool" where
  "is_abigen E input =
     (case snd (split_outer (snd (split_inner input))) of
        TtIdent name # comma # _ \<Rightarrow> cc_is_ident E name \<and> is_punct (CHR '','') comma
      | _ \<Rightarrow> False)"

definition parse_tron_sol :: "('abi, 'v) compiler \<Rightarrow> token_tree list \<Rightarrow> macro_error + 'v tron_sol" where
  "parse_tron_sol E input =
     (if is_abigen E input then parse_json_abi E input
      else
        and_then (map_err MeParser (cc_items E input)) (\<lambda>items.
        and_then (tronz_crate_path items) (\<lambda>krate.
          Ok \<lparr> ts_items = items, ts_krate = krate, ts_pre_forwarded = None, ts_include_path = None \<rparr>)))"

text \<open>
  What the macro expands to: the file to track, the stream inside \<open>sol!\<close>, and either nothing
  more or the name of the hidden module it is put into with one module for each contract.
\<close>

record expansion =
  ex_include :: "string option"
  ex_krate :: string
  ex_forwarded :: "token_tree list"
  ex_rpc :: "(string \<times> rpc_module list) option"

fun rpc_contracts :: "'v sol_item list \<Rightarrow> macro_error + 'v sol_contract list" where
  "rpc_contracts [] = Ok []"
| "rpc_contracts (SiContract c # items) =
     and_then (contract_opts_of (sc_attrs c)) (\<lambda>opts.
     and_then (rpc_contracts items) (\<lambda>cs. Ok (if opt_rpc opts then c # cs else cs)))"
| "rpc_contracts (SiOther attrs # items) = rpc_contracts items"

definition contract_names :: "'v sol_item list \<Rightarrow> string set" where
  "contract_names items =
     set (List.map_filter (\<lambda>i. case i of SiContract c \<Rightarrow> Some (sc_name c) | SiOther _ \<Rightarrow> None) items)"

definition expand ::
  "('abi, 'v) compiler \<Rightarrow> ('v \<Rightarrow> sol_function) \<Rightarrow> 'v tron_sol \<Rightarrow> token_tree list \<Rightarrow> macro_error + expansion" where
  "expand E getter self original =
     (let forwarded = (case ts_pre_forwarded self of Some ts \<Rightarrow> ts | None \<Rightarrow> strip_tron_attrs original)
      in and_then (rpc_contracts (ts_items self)) (\<lambda>cs.
         if cs = [] then
           Ok \<lparr> ex_include = ts_include_path self, ex_krate = ts_krate self, ex_forwarded = forwarded, ex_rpc = None \<rparr>
         else
           and_then (collect_results (expand_contract getter (contract_names (ts_items self))) cs) (\<lambda>instances.
             Ok \<lparr> ex_include = ts_include_path self, ex_krate = ts_krate self, ex_forwarded = forwarded,
                  ex_rpc = Some (''__tron_sol_types_'' @ cc_hash E original, instances) \<rparr>)))"

definition tron_sol_macro ::
  "('abi, 'v) compiler \<Rightarrow> ('v \<Rightarrow> sol_function) \<Rightarrow> token_tree list \<Rightarrow> macro_error + expansion" where
  "tron_sol_macro E getter input = and_then (parse_tron_sol E input) (\<lambda>parsed. expand E getter parsed input)"

section \<open>Bytecode literals\<close>

lemma hex_nibble_digit: "result_ok (hex_nibble b) = result_ok (hex_digit b)"
  by (simp add: hex_nibble_def hex_digit_def)

lemma hex_nibble_Ok: "hex_digit b = Inr d \<Longrightarrow> hex_nibble b = Inr d"
  using hex_nibble_digit [of b] by (cases "hex_nibble b") (simp_all)

lemma byte_pairs_encode:
  "byte_pairs (str_bytes (hex_encode bs))
   = map (\<lambda>b. (of_nat (of_char (nibble_char (drop_bit 4 b))), of_nat (of_char (nibble_char (b AND 15))))) bs"
  by (induction bs) (simp_all add: str_bytes_def)

lemma strip_hex_prefix_prefixed: "strip_hex_prefix (''0x'' @ s) = s" "strip_hex_prefix (''0X'' @ s) = s"
  by (simp_all add: strip_hex_prefix_def)

lemma strip_hex_prefix_plain: "strip_hex_prefix (hex_encode bs) = hex_encode bs"
proof -
  have "CHR ''x'' \<notin> set (hex_encode bs)" "CHR ''X'' \<notin> set (hex_encode bs)"
    using hex_encode_hexdigits [of bs] by (auto simp: is_hexdigit_def)
  moreover have "c \<in> set s" if "take 2 s = [d, c]" for s :: string and c d
    using that in_set_takeD [of c 2 s] by simp
  ultimately show ?thesis unfolding strip_hex_prefix_def by auto
qed

lemma collect_results_encode:
  assumes "\<And>d. d < 16 \<Longrightarrow> hex_nibble (of_nat (of_char (nibble_char d))) = Inr d"
  shows "collect_results (\<lambda>(a, b). and_then (hex_nibble a) (\<lambda>hi. and_then (hex_nibble b) (\<lambda>lo.
      Inr (push_bit 4 hi OR lo)))) (byte_pairs (str_bytes (hex_encode bs))) = Inr bs"
  using nibbles_small nibbles_join by (induction bs) (simp_all add: str_bytes_def assms)

text \<open>A bytecode literal is read back, with either prefix or without one.\<close>

lemma parse_hex_encode:
  assumes "lit = hex_encode bs \<or> lit = ''0x'' @ hex_encode bs \<or> lit = ''0X'' @ hex_encode bs"
  shows "parse_hex lit = Ok bs"
proof -
  have "strip_hex_prefix lit = hex_encode bs" using assms strip_hex_prefix_plain strip_hex_prefix_prefixed by auto
  moreover have "hex_nibble (of_nat (of_char (nibble_char d))) = Ok d" if "d < 16" for d
    using hex_digit_nibble [OF that] by (rule hex_nibble_Ok)
  ultimately show ?thesis
    unfolding parse_hex_def Let_def using collect_results_encode by (simp add: hex_encode_length)
qed

section \<open>Types\<close>

text \<open>The types the macro can name: no mapping, and arrays of a literal size that fits.\<close>

fun nameable :: "sol_type \<Rightarrow> bool" where
  "nameable StMapping = False"
| "nameable (StArray ty sz) =
     (nameable ty \<and> (case sz of Some (SizeLit n) \<Rightarrow> n < 2 ^ 64 | Some SizeExpr \<Rightarrow> False | None \<Rightarrow> True))"
| "nameable (StTuple tys) = list_all nameable tys"
| "nameable _ = True"

lemma rust_ty_iff:
  "(\<exists>t. rust_ty cx ty = Inr t) \<longleftrightarrow> nameable ty"
  "(\<exists>ts. rust_tys cx tys = Inr ts) \<longleftrightarrow> list_all nameable tys"
  by (induction cx ty and cx tys rule: rust_ty_rust_tys.induct)
    (auto simp: result_simps split: option.splits array_size.splits)

section \<open>Names\<close>

definition overload_label :: "string list \<Rightarrow> nat \<Rightarrow> string" where
  "overload_label names k =
     (if 1 < count_list names (names ! k) then names ! k @ ''_'' @ show_nat (count_list (take k names) (names ! k))
      else names ! k)"

lemma overload_names_nth:
  "k < length names \<Longrightarrow> overload_names counts seen names ! k =
     (if 1 < counts (names ! k)
      then names ! k @ ''_'' @ show_nat (seen (names ! k) + count_list (take k names) (names ! k))
      else names ! k)"
proof (induction names arbitrary: seen k)
  case (Cons n names)
  then show ?case by (cases k) auto
qed simp

lemma overload_names_length [simp]: "length (overload_names counts seen names) = length names"
  by (induction names arbitrary: seen) simp_all

lemma effective_names_label: "effective_names names = map (overload_label names) [0..<length names]"
  by (rule nth_equalityI) (simp_all add: effective_names_def overload_names_nth overload_label_def)

lemma show_nat_inj: "show_nat i = show_nat j \<longleftrightarrow> i = j"
  by (metis digits_val_show_nat)

lemma numbered_inj:
  assumes "x @ ''_'' @ show_nat i = y @ ''_'' @ show_nat j"
  shows "x = y \<and> i = j"
proof -
  have under: "\<not> is_digit (CHR ''_'')" by (simp add: is_digit_def)
  have "takeWhile is_digit (rev (show_nat k) @ CHR ''_'' # rev z) = rev (show_nat k)" for z k
    using show_nat_digits [of k] under by (subst takeWhile_append2) auto
  then have "takeWhile is_digit (rev (z @ ''_'' @ show_nat k)) = rev (show_nat k)" for z k by simp
  then have "rev (show_nat i) = rev (show_nat j)" using assms by metis
  then have "i = j" by (simp add: show_nat_inj)
  with assms show ?thesis by simp
qed

lemma count_take_less:
  "i < j \<Longrightarrow> j \<le> length xs \<Longrightarrow> count_list (take i xs) (xs ! i) < count_list (take j xs) (xs ! i)"
proof -
  assume ij: "i < j" "j \<le> length xs"
  then have "drop i (take j xs) = xs ! i # drop (Suc i) (take j xs)"
    by (subst Cons_nth_drop_Suc [symmetric]) simp_all
  moreover have "take j xs = take i xs @ drop i (take j xs)"
    using append_take_drop_id [of i "take j xs"] ij by (simp add: min_def)
  ultimately have eq: "take j xs = take i xs @ xs ! i # drop (Suc i) (take j xs)" by simp
  show ?thesis by (subst eq) simp
qed

text \<open>
  Names do not clash when no function carries the numbered name of an overload of another, and none
  the name a reserved one is moved to.
\<close>

definition names_apart :: "string list \<Rightarrow> bool" where
  "names_apart names \<longleftrightarrow>
     (\<forall>x\<in>set names. \<forall>y\<in>set names. \<forall>i<count_list names y.
        count_list names x = 1 \<longrightarrow> 1 < count_list names y \<longrightarrow> x \<noteq> y @ ''_'' @ show_nat i)
     \<and> (\<forall>e\<in>set (effective_names names). is_reserved_method e \<longrightarrow> e @ ''_call'' \<notin> set (effective_names names))"

lemma count_take_index: "k < length xs \<Longrightarrow> count_list (take k xs) (xs ! k) < count_list xs (xs ! k)"
  using count_take_less [of k "length xs" xs] by simp

lemma single_label_apart:
  assumes "names_apart names" and "i < length names" and "j < length names"
    and "count_list names (names ! i) = 1" and "names ! i \<noteq> names ! j"
  shows "overload_label names i \<noteq> overload_label names j"
proof (cases "1 < count_list names (names ! j)")
  case True
  have "names ! i \<noteq> names ! j @ ''_'' @ show_nat (count_list (take j names) (names ! j))"
    using assms True count_take_index [OF assms(3)] nth_mem unfolding names_apart_def by blast
  then show ?thesis using assms(4) True by (simp add: overload_label_def)
next
  case False
  then show ?thesis using assms(4,5) by (simp add: overload_label_def)
qed

lemma effective_names_distinct:
  assumes "names_apart names"
  shows "distinct (effective_names names)"
proof -
  have apart: "overload_label names i \<noteq> overload_label names j" if ij: "i < j" "j < length names" for i j
  proof
    assume same: "overload_label names i = overload_label names j"
    let ?x = "names ! i" and ?y = "names ! j"
    have in_names: "?x \<in> set names" "?y \<in> set names" using ij by simp_all
    then have pos: "0 < count_list names ?x" "0 < count_list names ?y" by (simp_all add: count_list_0_iff zero_less_iff_neq_zero)
    have bound: "count_list (take i names) ?x < count_list names ?x" "count_list (take j names) ?y < count_list names ?y"
      using ij by (simp_all add: count_take_index)
    consider "?x = ?y" | "?x \<noteq> ?y" "1 < count_list names ?x" "1 < count_list names ?y"
      | "?x \<noteq> ?y" "count_list names ?x = 1 \<or> count_list names ?y = 1"
      using pos by linarith
    then show False
    proof cases
      case 1
      have "count_list (take i names) ?x < count_list (take j names) ?x" using ij by (simp add: count_take_less)
      moreover have "1 < count_list names ?x" using calculation bound(2) 1 by simp
      ultimately show False using same 1 by (simp add: overload_label_def show_nat_inj)
    next
      case 2
      then have "?x @ ''_'' @ show_nat (count_list (take i names) ?x)
          = ?y @ ''_'' @ show_nat (count_list (take j names) ?y)"
        using same by (simp add: overload_label_def)
      from numbered_inj [OF this] 2(1) show False by simp
    next
      case 3
      then show False
        using same assms ij single_label_apart [of names i j] single_label_apart [of names j i] by auto
    qed
  qed
  have "overload_label names i \<noteq> overload_label names j"
    if "i < length names" "j < length names" "i \<noteq> j" for i j
    using that apart [of i j] apart [of j i] by (cases "i < j") auto
  then show ?thesis by (simp add: effective_names_label distinct_conv_nth)
qed

lemma method_name_free: "\<not> is_reserved_method (method_name_of e)"
  by (auto simp: method_name_of_def is_reserved_method_def)

lemma method_names_distinct:
  assumes "names_apart names"
  shows "distinct (map method_name_of (effective_names names))"
proof -
  have "inj_on method_name_of (set (effective_names names))"
    using assms unfolding inj_on_def names_apart_def method_name_of_def by auto
  then show ?thesis using effective_names_distinct [OF assms] by (simp add: distinct_map)
qed

section \<open>What is generated of a contract\<close>

lemma expand_method_Ok:
  assumes "expand_method cx f base name = Inr m"
  shows "rm_name m = name" "rm_call m = base @ ''Call''" "collect_params cx (sf_params f) = Inr (rm_params m)"
  using assms by (auto simp: expand_method_def result_simps)

lemma effective_names_length [simp]: "length (effective_names names) = length names"
  by (simp add: effective_names_def)

lemma function_names_Ok: "function_names fs = Inr names \<Longrightarrow> map sf_name fs = map Some names"
  by (induction fs arbitrary: names) (auto simp: function_names_def result_simps split: sum.splits)

lemma rpc_methods_Ok:
  assumes "rpc_methods cx fs = Inr ms"
  obtains names where "map sf_name fs = map Some names"
    and "map rm_name ms = map method_name_of (effective_names names)"
    and "map rm_call ms = map (\<lambda>e. e @ ''Call'') (effective_names names)"
    and "list_all2 (\<lambda>f m. collect_params cx (sf_params f) = Inr (rm_params m)) fs ms"
proof -
  from assms obtain names where names: "function_names fs = Inr names"
    and run: "collect_results (\<lambda>(f, e). expand_method cx f e (method_name_of e)) (zip fs (effective_names names)) = Inr ms"
    by (auto simp: rpc_methods_def result_simps)
  have same: "map sf_name fs = map Some names" by (rule function_names_Ok [OF names])
  then have len: "length fs = length (effective_names names)" by (metis effective_names_length length_map)
  from run have "list_all2 (\<lambda>(f, e) m. expand_method cx f e (method_name_of e) = Inr m) (zip fs (effective_names names)) ms"
    by (auto dest: collect_results_list_all2 simp: split_def)
  then have rel: "length ms = length fs"
    "\<And>k. k < length fs \<Longrightarrow> expand_method cx (fs ! k) (effective_names names ! k)
         (method_name_of (effective_names names ! k)) = Inr (ms ! k)"
    using len by (auto simp: list_all2_conv_all_nth)
  show thesis
  proof (rule that [OF same])
    note made = expand_method_Ok [OF rel(2)]
    show "map rm_name ms = map method_name_of (effective_names names)"
      by (rule nth_equalityI) (use rel(1) len made(1) in simp_all)
    show "map rm_call ms = map (\<lambda>e. e @ ''Call'') (effective_names names)"
      by (rule nth_equalityI) (use rel(1) len made(2) in simp_all)
    show "list_all2 (\<lambda>f m. collect_params cx (sf_params f) = Inr (rm_params m)) fs ms"
      using rel(1) made(3) by (simp add: list_all2_conv_all_nth)
  qed
qed

text \<open>
  C21: every callable function of a contract, public variables included, becomes one method, in
  order, with the parameters it has; none of them takes a name of the \<open>Instance\<close> itself, whatever
  the contract calls its functions; no two methods and no two call types have the same name, as long
  as no function is called like a numbered overload of another, and none like a reserved name with
  \<open>_call\<close> after it next to one of the reserved name itself; and there are deployment helpers
  exactly when the contract has bytecode.
\<close>

theorem generated_methods:
  assumes "expand_contract getter cx c = Ok md"
  shows "\<exists>names opts. map sf_name (pt_functions (contract_parts_of getter (sc_body c))) = map Some names
    \<and> contract_opts_of (sc_attrs c) = Ok opts \<and> \<not> opt_rename opts
    \<and> map rm_name (md_methods md) = map method_name_of (effective_names names)
    \<and> map rm_call (md_methods md) = map (\<lambda>e. e @ ''Call'') (effective_names names)
    \<and> list_all2 (\<lambda>f m. collect_params cx (sf_params f) = Ok (rm_params m))
        (pt_functions (contract_parts_of getter (sc_body c))) (md_methods md)
    \<and> (\<forall>m\<in>set (md_methods md). \<not> is_reserved_method (rm_name m))
    \<and> (names_apart names \<longrightarrow> distinct (map rm_name (md_methods md)) \<and> distinct (map rm_call (md_methods md)))
    \<and> map_option fst (md_deploy md) = opt_bytecode opts"
proof -
  from assms obtain opts ms deploy where
    opts: "contract_opts_of (sc_attrs c) = Inr opts" "\<not> opt_rename opts"
    and ms: "rpc_methods cx (pt_functions (contract_parts_of getter (sc_body c))) = Inr ms"
    and deploy: "deploy_helpers cx opts (pt_constructor (contract_parts_of getter (sc_body c))) = Inr deploy"
    and md: "md_methods md = ms" "md_deploy md = deploy"
    by (auto simp: expand_contract_def Let_def result_simps split: if_splits)
  from ms obtain names where names: "map sf_name (pt_functions (contract_parts_of getter (sc_body c))) = map Some names"
    and rm: "map rm_name ms = map method_name_of (effective_names names)"
      "map rm_call ms = map (\<lambda>e. e @ ''Call'') (effective_names names)"
    and params: "list_all2 (\<lambda>f m. collect_params cx (sf_params f) = Inr (rm_params m))
        (pt_functions (contract_parts_of getter (sc_body c))) ms" by (rule rpc_methods_Ok)
  have "rm_name m \<in> set (map method_name_of (effective_names names))" if "m \<in> set ms" for m
    unfolding rm(1) [symmetric] using that by simp
  then have free: "\<forall>m\<in>set ms. \<not> is_reserved_method (rm_name m)" using method_name_free by fastforce
  have apart: "distinct (map rm_name ms) \<and> distinct (map rm_call ms)" if "names_apart names"
    unfolding rm using method_names_distinct [OF that] effective_names_distinct [OF that]
    by (simp add: distinct_map inj_on_def)
  have "map_option fst deploy = opt_bytecode opts"
    using deploy by (auto simp: deploy_helpers_def result_simps split: option.splits)
  with names opts rm params free apart show ?thesis unfolding md by blast
qed

text \<open>A contract with an overloaded function, a public variable called as the \<open>Instance\<close>'s own method, and bytecode.\<close>

definition sample_contract_item :: "nat sol_contract" where
  "sample_contract_item =
     \<lparr> sc_name = ''C'',
       sc_attrs = [\<lparr> at_path = ''sol'', at_args = Some [(''rpc'', MvNone), (''bytecode'', MvStr ''0x6001'')] \<rparr>],
       sc_body =
         [CiFunction \<lparr> sf_kind = FkFunction, sf_name = Some ''f'', sf_params = [\<lparr> sp_name = None, sp_type = StAddress \<rparr>] \<rparr>,
          CiFunction \<lparr> sf_kind = FkFunction, sf_name = Some ''f'', sf_params = [] \<rparr>,
          CiVariable (Some VisPublic) 7,
          CiEvent ''E''] \<rparr>"

definition sample_getter :: "nat \<Rightarrow> sol_function" where
  "sample_getter v = \<lparr> sf_kind = FkFunction, sf_name = Some ''caller'', sf_params = [] \<rparr>"

lemma sample_names: "effective_names [''f'', ''f'', ''caller''] = [''f_0'', ''f_1'', ''caller'']"
  by (simp add: effective_names_def show_nat.simps digit_char_def char_of_eq_iff)

theorem generated_methods_witness:
  "\<exists>md. expand_contract sample_getter {} sample_contract_item = Ok md
    \<and> map rm_name (md_methods md) = [''f_0'', ''f_1'', ''caller_call''] \<and> distinct (map rm_call (md_methods md))"
proof -
  let ?parts = "contract_parts_of sample_getter (sc_body sample_contract_item)"
  have fs: "map sf_name (pt_functions ?parts) = map Some [''f'', ''f'', ''caller'']"
    by (simp add: contract_parts_of_def sample_contract_item_def add_item_def sample_getter_def)
  have "\<exists>md. expand_contract sample_getter {} sample_contract_item = Ok md"
    by (simp add: expand_contract_def contract_opts_of_def sample_contract_item_def contract_opts_default_def
        sol_option_def attr_entries_def str_value_def parse_hex_def strip_hex_prefix_def str_bytes_def hex_nibble_def
        contract_parts_of_def add_item_def sample_getter_def rpc_methods_def function_names_def sample_names
        expand_method_def collect_params_def collect_param_def deploy_helpers_def)
  then obtain md where md: "expand_contract sample_getter {} sample_contract_item = Ok md" ..
  have apart: "names_apart [''f'', ''f'', ''caller'']"
    by (auto simp: names_apart_def sample_names is_reserved_method_def)
  from generated_methods [OF md] fs show ?thesis
    using md apart by (auto simp: sample_names method_name_of_def is_reserved_method_def)
qed

text \<open>
  That no function is called like a numbered overload is needed: the macro does not look for it, and
  the methods of such a contract share a name.
\<close>

lemma overload_clash: "effective_names [''f'', ''f'', ''f_0''] = [''f_0'', ''f_1'', ''f_0'']"
  by (simp add: effective_names_def show_nat.simps digit_char_def char_of_eq_iff)

lemma reserved_clash: "map method_name_of (effective_names [''caller'', ''caller_call'']) = [''caller_call'', ''caller_call'']"
  by (simp add: effective_names_def method_name_of_def is_reserved_method_def)

text \<open>Bytecode stays in the attribute that is forwarded.\<close>

lemma bytecode_is_forwarded:
  "rewrite_attr [TtIdent ''sol'', TtGroup Parenthesis [TtIdent ''bytecode'', TtPunct (CHR ''='') SpAlone, TtLiteral c]]
   = Some [TtIdent ''sol'', TtGroup Parenthesis [TtIdent ''bytecode'', TtPunct (CHR ''='') SpAlone, TtLiteral c]]"
  by (simp add: rewrite_attr_def filter_sol_meta_def is_punct_def meta_key_def)

section \<open>What is forwarded\<close>

text \<open>Every expansion forwards a stripped stream: the input, or the interface made from the ABI.\<close>

lemma macro_forwards:
  assumes "tron_sol_macro E getter input = Inr ex"
  obtains ts where "ex_forwarded ex = strip_tron_attrs ts" "is_abigen E input \<or> ts = input"
    "\<not> is_abigen E input \<Longrightarrow> ex_include ex = None"
  using assms
  by (auto simp: tron_sol_macro_def parse_tron_sol_def parse_json_abi_def expand_def Let_def result_simps
      split: if_splits prod.splits list.splits token_tree.splits)

end
