(* ===== verification/Spec2Isabelle.thy ===== *)
theory Spec2Isabelle
  imports Grpc_Services Token_Send Provider_Extensions Solidity_Provider Mock_Transport Proto_Enums
    Aws_Signer Sol_Macro
begin

text \<open>
  A verification development for \<open>tronz\<close>, a Rust client library for the TRON network.

  \<^bold>\<open>The program.\<close>  A caller describes an operation; a provider asks a node to build the
  transaction, fills in what is missing (anchor block, fee limit), signs the id and broadcasts
  the bytes; handles wait for receipts and solidification, and event queries read the logs of
  blocks.  What makes it correct is that the bytes that are signed are the ones the caller asked
  for, whatever a node answers: the id is recomputed from the bytes, the one contract of an answer
  is compared with the request, and the key is the owner's.  The workspace has the crates
  \<open>primitives\<close> (amounts, addresses, signatures), \<open>abi\<close> (contract metadata), \<open>rpc-types\<close> (domain
  types, generated protobuf messages and the codec between them), \<open>signer\<close> (keys and wallets),
  \<open>provider\<close> (transports, fillers, providers, waiting), \<open>contract\<close> (calls and events) and \<open>sol-macro\<close>
  (the \<open>tron_sol!\<close> macro).

  \<^bold>\<open>Conventions.\<close>  A Rust struct is a record with prefixed fields, an enum a datatype with prefixed
  constructors, an integer a word of its width, a byte vector a list of 8-bit words, a duration a
  number of nanoseconds.  A \<open>Result\<close> is a sum, written with \<open>Ok\<close>, \<open>Err\<close> and \<open>and_then\<close>
  (\<open>Prelude\<close>).  Code that awaits is a function on a world of any type \<open>'w\<close>, threaded in the order
  of the awaits.  Code that is not in the repository (hash functions, curves, base58, the codec
  \<open>prost\<close> derives, the channel of \<open>tonic\<close>, the runtime, the \<open>alloy\<close> types) is an argument: a function or a
  record of functions.  What is relied on of it is a locale (\<open>prost_tx\<close>) or a predicate that a
  property names as a hypothesis (\<open>typed_client\<close>, \<open>honest_wallet\<close>), and each has an instance that
  the witnesses run: \<open>Wire\<close> writes a protobuf encoder and decoder in full and proves that it meets
  \<open>prost_tx\<close>.  The one message of a transaction with a hash map is encoded in the order the map
  yields its entries, which the program does not fix: a codec stands for one order, and a property
  that compares bytes of two runs takes a codec for each.

  \<^bold>\<open>Theories, and what they model.\<close>

  \<^item> \<open>Prelude\<close>: results, bytes, decimal text, and the generic lemmas.
  \<^item> \<open>Amount\<close>, \<open>Text_Codecs\<close>, \<open>Address\<close>, \<open>Resource\<close>, \<open>Signature\<close>: \<open>crates/primitives/src\<close> and the
    transport's hexadecimal decoder.  Texts are parsed exactly or refused, forms round-trip, an
    address is well formed from every constructor.
  \<^item> \<open>Abi\<close>, \<open>Abi_Json\<close>: \<open>crates/abi/src\<close> (entries, signatures, lookups), and the conversions to the
    JSON ABI of \<open>alloy\<close> and back, which lose nothing.
  \<^item> \<open>Contract\<close>, \<open>Operation_Set\<close>, \<open>Permission_Weight\<close>, \<open>Rpc_Types\<close>: \<open>crates/rpc-types/src/types\<close>; the
    operation bitmap refines a finite set, and the weight of signers counts each key once.
  \<^item> \<open>Utf8\<close>, \<open>Response_Error\<close>, \<open>Proto_Tx\<close>, \<open>Proto_Scan\<close>, \<open>Transaction\<close>, \<open>Wire\<close>,
    \<open>Transaction_Theorems\<close>: transactions (\<open>types/transaction.rs\<close>): the scanner that finds the raw
    data in the encoded bytes, and refuses exactly what is not a message; accepting a node's transaction, rewriting its fields, signing form.
  \<^item> \<open>Contract_Messages\<close>, \<open>Answer_Messages\<close>, \<open>Service_Messages\<close>, \<open>Shielded_Messages\<close>: the messages of
    \<open>generated/protocol.rs\<close>: those the client uses, and those only the generated services name.
    \<open>Proto_Enums\<close>: its enumerations, with their numbers and names, each an instance of
    \<open>discriminant_codec\<close>, and their agreement with the enumerations the crates write by hand, but
    for the order status the crate reads where the schema refuses.
  \<^item> \<open>Contract_Codec\<close>, \<open>Contract_Meaning\<close>, \<open>Answer_Codec\<close>, \<open>Light_Block\<close>: \<open>codec/mod.rs\<close>, \<open>codec/abi.rs\<close>
    and \<open>light_block.rs\<close>.  \<open>Contract_Meaning\<close> is not a translation: it is an independent reading of
    the messages, the specification against which what is sent is judged.
  \<^item> \<open>Errors\<close>, \<open>Grpc_Core\<close>, \<open>Retry\<close>: the provider's errors, status mapping, retries and middleware.
  \<^item> \<open>Node_Guard\<close>, \<open>Grpc_Build\<close>, \<open>Grpc_Send\<close>, \<open>Grpc_Read\<close>, \<open>Grpc_Transport\<close>, \<open>Solidity\<close>:
    \<open>transport/grpc/fullnode.rs\<close> and \<open>solidity.rs\<close>: the guard on what a node built, every method of
    both transports, and a send followed from the request to the broadcast message.
  \<^item> \<open>Grpc_Channel\<close>, \<open>Wallet_Service\<close>, \<open>Other_Services\<close>, \<open>Grpc_Services\<close>: \<open>generated/services.rs\<close>,
    one definition for each method, over a channel that carries encoded requests, and the clients
    the transports are given (\<open>grpc/core.rs\<close>): what a send puts on the wire, with no assumption on
    the channel or the node.
  \<^item> \<open>Wallet\<close>: local signers and the wallet.  \<open>Keystore\<close>: keystore files, over a locale of the cipher
    and one of the files; a saved signer is loaded back.  \<open>Mnemonic\<close>: signers of a phrase; the
    iterator yields the child of every position, and ends.  \<open>Aws_Signer\<close>: the signer
    of \<open>crates/signer-aws\<close>, whose signatures are its key's whatever the service answers.
  \<^item> \<open>Fillers\<close>: the fillers and their composition.
  \<^item> \<open>Route\<close>, \<open>Provider\<close>, \<open>Pending\<close>: building, signing and broadcasting, and waiting.
  \<^item> \<open>Operation_Builders\<close>, \<open>Operation_Send\<close>: \<open>provider/src/builders\<close> and the builders of \<open>ext\<close>: every
    builder with its setters and its request, a locale for what they share, and a send followed from
    the builder to the broadcast.
  \<^item> \<open>Tron_Transport\<close>, \<open>Provider_Trait\<close>, \<open>Provider_Stack\<close>, \<open>Provider_Extensions\<close>,
    \<open>Solidity_Provider\<close>, \<open>Grpc_Provider\<close>, \<open>Provider_Builder\<close>: the transport and provider traits as
    records of operations (\<open>transport/mod.rs\<close>, \<open>provider/mod.rs\<close>), an implementation being what it
    overrides over the default methods; the root, layers, erased and filled providers (\<open>root.rs\<close>,
    \<open>layers.rs\<close>, \<open>erased.rs\<close>, \<open>builder.rs\<close>), the reads of \<open>ext\<close>, the solidity provider, and what a
    \<open>ProviderBuilder\<close> connects to.  Erasure changes nothing exactly when no layer
    overrides a derived method; a layer overrides what is below it.
    \<open>Mock_Transport\<close>: the transport of the tests (\<open>transport/mock.rs\<close>), whose responses come in order.
  \<^item> \<open>Contract_Interface\<close>, \<open>Contract_Call\<close>, \<open>Tokens\<close>: \<open>crates/contract/src\<close>: the index of an interface
    is a search of its ABI; call and deployment builders, instances, TRC20 and TRC721.
  \<^item> \<open>Sample_Node\<close>, \<open>Contract_Send\<close>, \<open>Token_Send\<close>: calls, deployments and token transfers followed from
    the method the caller writes to the bytes that are broadcast, and a small node they run on.
  \<^item> \<open>Events\<close>: log decoding, block queries, the watcher and its stream.
  \<^item> \<open>Sol_Tokens\<close>, \<open>Sol_Macro\<close>: \<open>crates/sol-macro/src/lib.rs\<close>: taking the TRON attributes out of a
    token stream, which leaves the code alone; reading options and bytecode, the two forms of input,
    and the methods, filters and helpers generated of a contract, with their names.

  \<^bold>\<open>Loops.\<close>  The varint reader is bounded by the ten shifts of a 64-bit varint and the scanner by
  the bytes left; retries by the attempts allowed; the price schedule and the bitmap by structural
  recursion.  Waiting for a receipt is a \<open>partial_function\<close>, for it ends only when the clock passes
  the deadline: its property proves that it returns under a clock that advances.

  \<^bold>\<open>Not modelled.\<close>  What \<open>tonic\<close> does with an endpoint and a channel (dialing, TLS, balancing, HTTP/2,
  compression) and the codecs \<open>prost\<close> derives: parameters.  The parsers of \<open>syn\<close> and \<open>syn_solidity\<close>
  and the fixed text of the code \<open>tron_sol!\<close> generates; the messages nodes only exchange among
  themselves; the tools that generate code and capture test data.  Signing typed data (TIP-712),
  whose encoding is that of \<open>alloy\<close>.  Ciphers, key derivation and elliptic curves: parameters.
  Debug output.  The panic of \<open>Duration::mul_f64\<close> on a retry multiplier that is negative or not a
  number; the build without the feature \<open>grpc-tls\<close>; a chain that reorganises while it is polled.
  Concurrency inside one call: concurrent requests are an argument (\<open>try_join\<close>) or made
  in order, and the fillers' state that clones of a provider share is one memory, read before and
  written after each call.
\<close>

end
